(* ===== verification/Prelude.thy ===== *)
theory Prelude
  imports Complex_Main "HOL-Library.Char_ord" "HOL-Library.List_Lexorder"
begin

text \<open>
  Generic material shared by every component: collections of rewrite rules, Python string and
  slice operations, and facts on lists, maps and rational minima.

  Python strings are sequences of code points; the model covers the code points below 256, one
  \<open>char\<close> each, and the string operations below are exact on them (the upper case letters, the
  white space and the decimal digits of that range). String comparison in Python is lexicographic
  by code point, which is the order of \<open>List_Lexorder\<close> over \<open>Char_ord\<close>.
\<close>

named_theorems cache_simps \<open>rewrite rules for reads of the cache after writes\<close>
named_theorems table_simps \<open>rewrite rules for table lookups after upserts\<close>

section \<open>Results\<close>

text \<open>A Python call returns a value (\<open>Inr\<close>) or raises (\<open>Inl\<close>).\<close>

type_synonym ('e, 'a) result = "'e + 'a"

section \<open>Strings\<close>

text \<open>\<open>str.lower\<close> on code points below 256: the ASCII capitals, and 0xC0 to 0xDE but 0xD7.\<close>

definition char_lower :: "char \<Rightarrow> char" where
  "char_lower c =
     (let n = (of_char c :: nat)
      in if (65 \<le> n \<and> n \<le> 90) \<or> (192 \<le> n \<and> n \<le> 222 \<and> n \<noteq> 215) then char_of (n + 32) else c)"

definition str_lower :: "string \<Rightarrow> string" where
  "str_lower s = map char_lower s"

text \<open>The characters \<open>str.strip\<close> and \<open>str.split\<close> treat as white space (\<open>str.isspace\<close>).\<close>

definition is_space :: "char \<Rightarrow> bool" where
  "is_space c =
     (let n = (of_char c :: nat)
      in (9 \<le> n \<and> n \<le> 13) \<or> (28 \<le> n \<and> n \<le> 32) \<or> n = 133 \<or> n = 160)"

definition str_strip :: "string \<Rightarrow> string" where
  "str_strip s = rev (dropWhile is_space (rev (dropWhile is_space s)))"

definition is_digit :: "char \<Rightarrow> bool" where
  "is_digit c = (let n = (of_char c :: nat) in 48 \<le> n \<and> n \<le> 57)"

text \<open>\<open>sub in s\<close>, \<open>s.startswith(p)\<close> and \<open>s.endswith(p)\<close>.\<close>

fun starts_with :: "'a list \<Rightarrow> 'a list \<Rightarrow> bool" where
  "starts_with [] ys = True"
| "starts_with (x # xs) [] = False"
| "starts_with (x # xs) (y # ys) = (x = y \<and> starts_with xs ys)"

definition ends_with :: "'a list \<Rightarrow> 'a list \<Rightarrow> bool" where
  "ends_with xs ys = starts_with (rev xs) (rev ys)"

fun contains :: "'a list \<Rightarrow> 'a list \<Rightarrow> bool" where
  "contains p [] = (p = [])"
| "contains p (y # ys) = (starts_with p (y # ys) \<or> contains p ys)"

lemma starts_with_append [simp]: "starts_with p (p @ s)"
  by (induction p) auto

lemma starts_with_iff: "starts_with p s \<longleftrightarrow> (\<exists>r. s = p @ r)"
  by (induction p s rule: starts_with.induct) auto

lemma contains_iff: "contains p s \<longleftrightarrow> (\<exists>a b. s = a @ p @ b)"
proof (induction s)
  case Nil
  show ?case by auto
next
  case (Cons y ys)
  show ?case
  proof
    assume "contains p (y # ys)"
    with Cons show "\<exists>a b. y # ys = a @ p @ b"
      by (auto simp: starts_with_iff) (metis append_Cons append_Nil)+
  next
    assume "\<exists>a b. y # ys = a @ p @ b"
    then obtain a b where *: "y # ys = a @ p @ b" by blast
    show "contains p (y # ys)"
    proof (cases a)
      case Nil
      with * show ?thesis by (metis append_Nil contains.simps(2) starts_with_append)
    next
      case (Cons z zs)
      with * Cons.IH show ?thesis by auto
    qed
  qed
qed

text \<open>Decimal rendering of integers, \<open>str(n)\<close>.\<close>

definition digit_char :: "nat \<Rightarrow> char" where
  "digit_char d = char_of (48 + d)"

fun show_nat :: "nat \<Rightarrow> string" where
  "show_nat n = (if n < 10 then [digit_char n] else show_nat (n div 10) @ [digit_char (n mod 10)])"

declare show_nat.simps [simp del]

definition show_int :: "int \<Rightarrow> string" where
  "show_int i = (if i < 0 then CHR ''-'' # show_nat (nat (- i)) else show_nat (nat i))"

text \<open>\<open>sep.join(xs)\<close>\<close>

fun join :: "string \<Rightarrow> string list \<Rightarrow> string" where
  "join sep [] = []"
| "join sep [x] = x"
| "join sep (x # y # ys) = x @ sep @ join sep (y # ys)"

text \<open>\<open>str.replace\<close>\<close>

function replace_all :: "string \<Rightarrow> string \<Rightarrow> string \<Rightarrow> string" where
  "replace_all old new [] = (if old = [] then new else [])"
| "replace_all old new (c # s) =
     (if old = [] then new @ c # replace_all old new s
      else if starts_with old (c # s) then new @ replace_all old new (drop (length old) (c # s))
      else c # replace_all old new s)"
  by pat_completeness auto
termination
  by (relation "measure (\<lambda>(old, new, s). length s)") (auto simp: length_greater_0_conv)

section \<open>Slices\<close>

text \<open>\<open>xs[-n:]\<close> for a positive \<open>n\<close>; \<open>xs[:n]\<close> and \<open>xs[i:j]\<close> are \<open>take\<close> and \<open>drop\<close>.\<close>

definition take_last :: "nat \<Rightarrow> 'a list \<Rightarrow> 'a list" where
  "take_last n xs = drop (length xs - n) xs"

lemma length_take_last [simp]: "length (take_last n xs) = min n (length xs)"
  by (simp add: take_last_def)

lemma take_last_all [simp]: "length xs \<le> n \<Longrightarrow> take_last n xs = xs"
  by (simp add: take_last_def)

lemma set_take_last: "set (take_last n xs) \<subseteq> set xs"
  by (simp add: take_last_def set_drop_subset)

text \<open>Consecutive blocks of \<open>s\<close>.\<close>

lemma concat_blocks: "concat (map (\<lambda>k. take s (drop (s * k) xs)) [0..<m]) = take (s * m) xs"
  proof (induction m)
  case (Suc m)
  have "take (s * Suc m) xs = take (s * m + s) xs" by (simp add: add.commute)
  also have "\<dots> = take (s * m) xs @ take s (drop (s * m) xs)" by (rule take_add)
  finally show ?case using Suc by simp
qed simp

section \<open>Rounding\<close>

text \<open>To the nearest integer, the even one of two: \<open>Decimal.quantize\<close> and \<open>round\<close> on a scaled value.\<close>

definition round_half_even :: "rat \<Rightarrow> int" where
  "round_half_even q =
     (let f = \<lfloor>q\<rfloor>; r = q - of_int f
      in if r < 1 / 2 then f else if 1 / 2 < r then f + 1 else if even f then f else f + 1)"

lemma round_half_even_bounds: "\<bar>of_int (round_half_even q) - q\<bar> \<le> 1 / 2"
proof -
  define f where "f = \<lfloor>q\<rfloor>"
  have "of_int f \<le> q" "q \<le> of_int f + 1" unfolding f_def by linarith+
  then show ?thesis unfolding round_half_even_def f_def[symmetric] Let_def by (auto simp: abs_if)
qed

lemma round_half_even_mono: "q \<le> q' \<Longrightarrow> round_half_even q \<le> round_half_even q'"
proof (rule ccontr)
  assume le: "q \<le> q'" and "\<not> round_half_even q \<le> round_half_even q'"
  then have gt: "of_int (round_half_even q') + (1::rat) \<le> of_int (round_half_even q)"
    by (metis not_le of_int_1 of_int_add of_int_le_iff zless_imp_add1_zle)
  with round_half_even_bounds[of q] round_half_even_bounds[of q'] le have "q = q'"
    by (auto simp: abs_if split: if_splits)
  with gt show False by simp
qed

lemma round_half_even_int [simp]: "round_half_even (of_int i) = i"
  by (simp add: round_half_even_def)

section \<open>Minima of rationals\<close>

lemma min_add_le: "0 \<le> d \<Longrightarrow> min (a::rat) (b + d) \<le> min a b + d"
  by (simp add: min_def)

end
