(* ===== verification/TtlCache.thy ===== *)
theory TtlCache
  imports Prelude
begin

text \<open>
  The cache the code reaches through \<open>django.core.cache.cache\<close>. Django's cache is not part of the
  repository, so the components take its operations as arguments; the locale \<open>django_cache\<close> holds
  what they rely on, the documented expiry rule of \<open>cache.set(key, value, timeout)\<close>: the value is
  readable until the timeout has passed, no other key is touched, and a value
  that is readable was readable before, had nobody written. (Eviction under memory
  pressure is outside the contract.) \<open>ttl_get\<close>, \<open>ttl_set\<close> and \<open>ttl_del\<close> are a cache that meets it.
\<close>

locale django_cache =
  fixes cget :: "'k \<Rightarrow> rat \<Rightarrow> 'c \<Rightarrow> 'v option"
    and cset :: "'k \<Rightarrow> 'v \<Rightarrow> rat \<Rightarrow> rat \<Rightarrow> 'c \<Rightarrow> 'c"
    and cdel :: "'k \<Rightarrow> 'c \<Rightarrow> 'c"
  assumes get_set: "cget k t' (cset k v ttl t c) = (if t' < t + ttl then Some v else None)"
    and get_set_other: "k' \<noteq> k \<Longrightarrow> cget k' t' (cset k v ttl t c) = cget k' t' c"
    and get_earlier: "cget k t' c = Some v \<Longrightarrow> t \<le> t' \<Longrightarrow> cget k t c = Some v"
    and get_del: "cget k t' (cdel k c) = None"
    and get_del_other: "k' \<noteq> k \<Longrightarrow> cget k' t' (cdel k c) = cget k' t' c"
begin

lemma get_fresh: "0 < ttl \<Longrightarrow> cget k t (cset k v ttl t c) = Some v"
  by (simp add: get_set)

lemma get_set_if:
  "cget k' t' (cset k v ttl t c) =
     (if k' = k then (if t' < t + ttl then Some v else None) else cget k' t' c)"
  by (simp add: get_set get_set_other)

end

section \<open>A cache with expiry times\<close>

type_synonym ('k, 'v) ttl_cache = "'k \<rightharpoonup> 'v \<times> rat"

definition ttl_get :: "'k \<Rightarrow> rat \<Rightarrow> ('k, 'v) ttl_cache \<Rightarrow> 'v option" where
  "ttl_get k t c =
     (case c k of None \<Rightarrow> None | Some (v, expires) \<Rightarrow> if t < expires then Some v else None)"

definition ttl_set :: "'k \<Rightarrow> 'v \<Rightarrow> rat \<Rightarrow> rat \<Rightarrow> ('k, 'v) ttl_cache \<Rightarrow> ('k, 'v) ttl_cache" where
  "ttl_set k v ttl t c = c(k \<mapsto> (v, t + ttl))"

definition ttl_del :: "'k \<Rightarrow> ('k, 'v) ttl_cache \<Rightarrow> ('k, 'v) ttl_cache" where
  "ttl_del k c = c(k := None)"

interpretation ttl: django_cache ttl_get ttl_set ttl_del
  by unfold_locales (auto simp: ttl_get_def ttl_set_def ttl_del_def split: option.splits if_splits)

lemmas ttl_defs = ttl_get_def ttl_set_def ttl_del_def

end
