(* ===== verification/RateLimit.thy ===== *)
theory RateLimit
  imports TtlCache
begin

text \<open>
  The token bucket of \<open>apps/connectors/_framework/rate_limit.py\<close>. A bucket keeps
  \<open>(tokens, last)\<close> in the cache under its key for 3600 seconds; \<open>acquire\<close> loops, refilling by the
  time passed since \<open>last\<close>, until it can take its tokens or the deadline has passed. Floats are
  rationals. The clock is any monotone clock: reading \<open>i\<close> of \<open>time.monotonic()\<close> comes \<open>d i\<close>
  seconds after the step before it, and \<open>time.sleep(w)\<close> moves it by \<open>w\<close>. The loop may wait, so it
  takes fuel; \<open>acquire_terminates\<close> says how much is enough.
\<close>

datatype rate_error = RateLimitTimeout

record bucket =
  bk_key :: string
  capacity :: int
  refill_per_sec :: rat

text \<open>The clock: the number of readings made and the current time.\<close>

record clk =
  reads :: nat
  time :: rat

definition now :: "(nat \<Rightarrow> rat) \<Rightarrow> clk \<Rightarrow> clk" where
  "now d k = k\<lparr>reads := Suc (reads k), time := time k + d (reads k)\<rparr>"

definition sleep :: "rat \<Rightarrow> clk \<Rightarrow> clk" where
  "sleep w k = k\<lparr>time := time k + w\<rparr>"

definition bucket_state ::
  "(string \<Rightarrow> rat \<Rightarrow> 'c \<Rightarrow> (rat \<times> rat) option) \<Rightarrow> bucket \<Rightarrow> (nat \<Rightarrow> rat) \<Rightarrow> clk \<Rightarrow> 'c
     \<Rightarrow> rat \<times> rat \<times> clk" where
  "bucket_state cget b d k c =
     (case cget (bk_key b) (time k) c of
        None \<Rightarrow> (let k' = now d k in (of_int (capacity b), time k', k'))
      | Some (tokens, ts) \<Rightarrow> (tokens, ts, k))"

definition bucket_save ::
  "(string \<Rightarrow> rat \<times> rat \<Rightarrow> rat \<Rightarrow> rat \<Rightarrow> 'c \<Rightarrow> 'c) \<Rightarrow> bucket \<Rightarrow> rat \<Rightarrow> rat \<Rightarrow> 'c \<Rightarrow> 'c" where
  "bucket_save cset b tokens ts c = cset (bk_key b) (tokens, ts) 3600 ts c"

fun acquire_loop ::
  "(string \<Rightarrow> rat \<Rightarrow> 'c \<Rightarrow> (rat \<times> rat) option) \<Rightarrow> (string \<Rightarrow> rat \<times> rat \<Rightarrow> rat \<Rightarrow> rat \<Rightarrow> 'c \<Rightarrow> 'c)
     \<Rightarrow> nat \<Rightarrow> bucket \<Rightarrow> (nat \<Rightarrow> rat) \<Rightarrow> int \<Rightarrow> rat \<Rightarrow> clk \<Rightarrow> 'c
     \<Rightarrow> ((rate_error, unit) result \<times> clk \<times> 'c) option" where
  "acquire_loop cget cset 0 b d tokens deadline k c = None"
| "acquire_loop cget cset (Suc fuel) b d tokens deadline k c =
     (let (st, ts, k1) = bucket_state cget b d k c;
          k2 = now d k1;
          cur_tokens = min (of_int (capacity b)) (st + (time k2 - ts) * refill_per_sec b)
      in if cur_tokens \<ge> of_int tokens
         then Some (Inr (), k2, bucket_save cset b (cur_tokens - of_int tokens) (time k2) c)
         else if time k2 \<ge> deadline then Some (Inl RateLimitTimeout, k2, c)
         else let wait = (of_int tokens - cur_tokens) / max (refill_per_sec b) (1 / 100)
              in acquire_loop cget cset fuel b d tokens deadline (sleep (min wait (1 / 2)) k2) c)"

definition acquire ::
  "(string \<Rightarrow> rat \<Rightarrow> 'c \<Rightarrow> (rat \<times> rat) option) \<Rightarrow> (string \<Rightarrow> rat \<times> rat \<Rightarrow> rat \<Rightarrow> rat \<Rightarrow> 'c \<Rightarrow> 'c)
     \<Rightarrow> nat \<Rightarrow> bucket \<Rightarrow> (nat \<Rightarrow> rat) \<Rightarrow> int \<Rightarrow> rat \<Rightarrow> clk \<Rightarrow> 'c
     \<Rightarrow> ((rate_error, unit) result \<times> clk \<times> 'c) option" where
  "acquire cget cset fuel b d tokens timeout_sec k c =
     (let k' = now d k
      in acquire_loop cget cset fuel b d tokens (time k' + timeout_sec) k' c)"

section \<open>What the bucket holds\<close>

text \<open>The tokens a caller at time \<open>t\<close> would find: the saved ones plus the refill, capped.\<close>

definition available ::
  "(string \<Rightarrow> rat \<Rightarrow> 'c \<Rightarrow> (rat \<times> rat) option) \<Rightarrow> bucket \<Rightarrow> rat \<Rightarrow> 'c \<Rightarrow> rat" where
  "available cget b t c =
     (case cget (bk_key b) t c of
        None \<Rightarrow> of_int (capacity b)
      | Some (tokens, ts) \<Rightarrow> min (of_int (capacity b)) (tokens + (t - ts) * refill_per_sec b))"

definition granted :: "(rate_error, unit) result \<Rightarrow> int \<Rightarrow> int" where
  "granted r tokens = (case r of Inl _ \<Rightarrow> 0 | Inr _ \<Rightarrow> tokens)"

text \<open>
  A run of the limiter: after each idle gap a caller asks for tokens; a timeout raises in the
  caller and the run goes on. The result is the total granted, with the final clock and cache.
\<close>

fun run_acquires ::
  "(string \<Rightarrow> rat \<Rightarrow> 'c \<Rightarrow> (rat \<times> rat) option) \<Rightarrow> (string \<Rightarrow> rat \<times> rat \<Rightarrow> rat \<Rightarrow> rat \<Rightarrow> 'c \<Rightarrow> 'c)
     \<Rightarrow> nat \<Rightarrow> bucket \<Rightarrow> (nat \<Rightarrow> rat) \<Rightarrow> (rat \<times> int \<times> rat) list \<Rightarrow> clk \<Rightarrow> 'c
     \<Rightarrow> (int \<times> clk \<times> 'c) option" where
  "run_acquires cget cset fuel b d [] k c = Some (0, k, c)"
| "run_acquires cget cset fuel b d ((gap, tokens, timeout_sec) # rs) k c =
     (case acquire cget cset fuel b d tokens timeout_sec (sleep gap k) c of
        None \<Rightarrow> None
      | Some (r, k', c') \<Rightarrow>
          (case run_acquires cget cset fuel b d rs k' c' of
             None \<Rightarrow> None
           | Some (n, k'', c'') \<Rightarrow> Some (granted r tokens + n, k'', c'')))"

text \<open>
  The refill law: from time \<open>t\<close> on, what is available is never negative and grows by at most
  the refill rate. It is the
  invariant of the limiter; expiry keeps it because 3600 seconds refill a whole bucket.
\<close>

definition refill_law ::
  "(string \<Rightarrow> rat \<Rightarrow> 'c \<Rightarrow> (rat \<times> rat) option) \<Rightarrow> bucket \<Rightarrow> rat \<Rightarrow> 'c \<Rightarrow> bool" where
  "refill_law cget b t c \<longleftrightarrow>
     (\<forall>t1 t2. t \<le> t1 \<and> t1 \<le> t2 \<longrightarrow> 0 \<le> available cget b t1 c \<and>
        available cget b t2 c \<le> available cget b t1 c + (t2 - t1) * refill_per_sec b)"

definition bucket_conf :: "bucket \<Rightarrow> bool" where
  "bucket_conf b \<longleftrightarrow> 0 \<le> capacity b \<and> 0 \<le> refill_per_sec b
     \<and> of_int (capacity b) \<le> 3600 * refill_per_sec b"

lemma refill_lawD:
  "refill_law cget b t c \<Longrightarrow> t \<le> t1 \<Longrightarrow> t1 \<le> t2 \<Longrightarrow>
     available cget b t2 c \<le> available cget b t1 c + (t2 - t1) * refill_per_sec b"
  by (simp add: refill_law_def)

lemma refill_law_later: "refill_law cget b t c \<Longrightarrow> t \<le> t' \<Longrightarrow> refill_law cget b t' c"
  by (auto simp: refill_law_def)

lemma refill_law_empty:
  "bucket_conf b \<Longrightarrow> (\<And>t. cget (bk_key b) t c = None) \<Longrightarrow> refill_law cget b t0 c"
  by (simp add: refill_law_def available_def bucket_conf_def)

lemma refill_law_nonneg: "refill_law cget b t c \<Longrightarrow> 0 \<le> available cget b t c"
  by (auto simp: refill_law_def)

lemma available_le: "available cget b t c \<le> of_int (capacity b)"
  by (auto simp: available_def split: option.splits)

lemma now_simps [simp]: "time (now d k) = time k + d (reads k)"
  by (simp add: now_def)

lemma sleep_simps [simp]: "time (sleep w k) = time k + w" "reads (sleep w k) = reads k"
  by (simp_all add: sleep_def)

text \<open>One refill computation never finds more than what was available plus the refill.\<close>

lemma refill_bound:
  assumes d: "\<And>i. 0 \<le> d i" and r: "0 \<le> refill_per_sec b"
    and st: "bucket_state cget b d k c = (st, ts, k1)"
  shows "time k \<le> time k1"
    and "min (of_int (capacity b)) (st + (time (now d k1) - ts) * refill_per_sec b)
           \<le> available cget b (time k) c + (time (now d k1) - time k) * refill_per_sec b"
proof -
  let ?r = "refill_per_sec b" and ?t2 = "time (now d k1)"
  show le: "time k \<le> time k1"
    using st d by (auto simp: bucket_state_def Let_def split: option.splits)
  then have nn: "0 \<le> (?t2 - time k) * ?r"
    using d r by (simp add: add_increasing2)
  show "min (of_int (capacity b)) (st + (?t2 - ts) * ?r)
          \<le> available cget b (time k) c + (?t2 - time k) * ?r"
  proof (cases "cget (bk_key b) (time k) c")
    case None
    with nn show ?thesis by (simp add: available_def min_le_iff_disj)
  next
    case (Some p)
    then obtain tok ls where p: "cget (bk_key b) (time k) c = Some (tok, ls)" by (cases p) auto
    with st have st': "st = tok" "ts = ls" by (auto simp: bucket_state_def)
    have "min (of_int (capacity b)) (tok + (time k - ls) * ?r + (?t2 - time k) * ?r)
            \<le> min (of_int (capacity b)) (tok + (time k - ls) * ?r) + (?t2 - time k) * ?r"
      using nn by (rule min_add_le)
    then show ?thesis using p st' by (simp add: available_def algebra_simps)
  qed
qed

locale bucket_cache = django_cache cget cset cdel
  for cget :: "string \<Rightarrow> rat \<Rightarrow> 'c \<Rightarrow> (rat \<times> rat) option"
    and cset :: "string \<Rightarrow> rat \<times> rat \<Rightarrow> rat \<Rightarrow> rat \<Rightarrow> 'c \<Rightarrow> 'c"
    and cdel :: "string \<Rightarrow> 'c \<Rightarrow> 'c"
begin

lemma available_save:
  "available cget b t (bucket_save cset b tok ts c) =
     (if t < ts + 3600 then min (of_int (capacity b)) (tok + (t - ts) * refill_per_sec b)
      else of_int (capacity b))"
  by (simp add: available_def bucket_save_def get_set)

lemma refill_law_save:
  assumes conf: "bucket_conf b" and tok: "0 \<le> tok"
  shows "refill_law cget b ts (bucket_save cset b tok ts c)"
  unfolding refill_law_def
proof (intro allI impI)
  fix t1 t2 assume t: "ts \<le> t1 \<and> t1 \<le> t2"
  let ?r = "refill_per_sec b" and ?cap = "of_int (capacity b) :: rat"
  have r: "0 \<le> ?r" "?cap \<le> 3600 * ?r" using conf by (auto simp: bucket_conf_def)
  define x u where "x = (t1 - ts) * ?r" and "u = (t2 - t1) * ?r"
  have up: "0 \<le> u" "0 \<le> x" using t r by (simp_all add: u_def x_def)
  have shift: "(t2 - ts) * ?r = x + u" by (simp add: x_def u_def algebra_simps)
  have full: "3600 * ?r \<le> x + u" if "ts + 3600 \<le> t2"
    unfolding shift [symmetric] using that r by (intro mult_right_mono) auto
  have "min ?cap (tok + (x + u)) \<le> min ?cap (tok + x) + u"
    using up min_add_le[of u ?cap "tok + x"] by (simp add: add.assoc)
  moreover have "?cap \<le> min ?cap (tok + x) + u" if "ts + 3600 \<le> t2"
    using full[OF that] r tok up by (simp add: min_def)
  moreover have "0 \<le> ?cap" using conf by (simp add: bucket_conf_def)
  ultimately show "0 \<le> available cget b t1 (bucket_save cset b tok ts c) \<and>
      available cget b t2 (bucket_save cset b tok ts c)
          \<le> available cget b t1 (bucket_save cset b tok ts c) + (t2 - t1) * ?r"
    unfolding available_save shift x_def [symmetric] u_def [symmetric]
    using t up tok by (auto simp: not_less)
qed

lemma acquire_loop_grants:
  assumes d: "\<And>i. 0 \<le> d i" and conf: "bucket_conf b" and tok: "0 \<le> tokens"
  shows "acquire_loop cget cset fuel b d tokens deadline k c = Some (res, k', c') \<Longrightarrow>
     refill_law cget b (time k) c \<Longrightarrow>
     time k \<le> time k' \<and> refill_law cget b (time k') c'
     \<and> of_int (granted res tokens) + available cget b (time k') c'
         \<le> available cget b (time k) c + (time k' - time k) * refill_per_sec b"
proof (induction fuel arbitrary: k)
  case 0
  then show ?case by simp
next
  case (Suc fuel)
  let ?r = "refill_per_sec b" and ?cap = "of_int (capacity b) :: rat"
  have r: "0 \<le> ?r" using conf by (simp add: bucket_conf_def)
  obtain st ts k1 where st: "bucket_state cget b d k c = (st, ts, k1)" by (metis prod_cases3)
  define k2 where "k2 = now d k1"
  define cur where "cur = min ?cap (st + (time k2 - ts) * ?r)"
  have mono: "time k \<le> time k2" and cur: "cur \<le> available cget b (time k) c + (time k2 - time k) * ?r"
    using refill_bound[OF d r st] d[of "reads k1"] by (auto simp: k2_def cur_def)
  have loop_eq: "acquire_loop cget cset (Suc fuel) b d tokens deadline k c =
      (if cur \<ge> of_int tokens
       then Some (Inr (), k2, bucket_save cset b (cur - of_int tokens) (time k2) c)
       else if time k2 \<ge> deadline then Some (Inl RateLimitTimeout, k2, c)
       else acquire_loop cget cset fuel b d tokens deadline
              (sleep (min ((of_int tokens - cur) / max ?r (1 / 100)) (1 / 2)) k2) c)"
    by (simp only: acquire_loop.simps st k2_def cur_def Let_def prod.case)
  note result = Suc.prems(1) [unfolded loop_eq]
  show ?case
  proof (cases "cur \<ge> of_int tokens")
    case True
    then have eq: "res = Inr ()" "k' = k2" "c' = bucket_save cset b (cur - of_int tokens) (time k2) c"
      using result by auto
    have "available cget b (time k2) c' = min ?cap (cur - of_int tokens)"
      by (simp add: eq available_save)
    moreover have "min ?cap (cur - of_int tokens) \<le> cur - of_int tokens" by simp
    ultimately show ?thesis
      using eq True mono cur refill_law_save[OF conf, of "cur - of_int tokens" "time k2" c]
      by (auto simp: granted_def)
  next
    case False
    show ?thesis
    proof (cases "time k2 \<ge> deadline")
      case True
      with False result have eq: "res = Inl RateLimitTimeout" "k' = k2" "c' = c"
        by auto
      then show ?thesis
        using mono Suc.prems(2) by (auto simp: granted_def refill_law_later intro: refill_lawD)
    next
      case F2: False
      define k3 where "k3 = sleep (min ((of_int tokens - cur) / max ?r (1 / 100)) (1 / 2)) k2"
      have loop: "acquire_loop cget cset fuel b d tokens deadline k3 c = Some (res, k', c')"
        using result False F2 by (simp add: k3_def)
      have "0 \<le> (of_int tokens - cur) / max ?r (1 / 100)" using False by simp
      then have le3: "time k \<le> time k3" using mono by (simp add: k3_def min_def)
      from Suc.IH[OF loop] refill_law_later[OF Suc.prems(2) le3]
      have IH: "time k3 \<le> time k'" "refill_law cget b (time k') c'"
        "of_int (granted res tokens) + available cget b (time k') c'
           \<le> available cget b (time k3) c + (time k' - time k3) * ?r" by auto
      have "available cget b (time k3) c \<le> available cget b (time k) c + (time k3 - time k) * ?r"
        using refill_lawD[OF Suc.prems(2) order_refl le3] .
      with IH le3 show ?thesis by (auto simp: algebra_simps)
    qed
  qed
qed

lemma run_acquires_grants:
  assumes d: "\<And>i. 0 \<le> d i" and conf: "bucket_conf b"
  shows "run_acquires cget cset fuel b d rs k c = Some (n, k', c') \<Longrightarrow>
     refill_law cget b (time k) c \<Longrightarrow> (\<forall>(gap, tokens, _) \<in> set rs. 0 \<le> gap \<and> 0 \<le> tokens) \<Longrightarrow>
     refill_law cget b (time k') c' \<and>
     of_int n + available cget b (time k') c'
       \<le> available cget b (time k) c + (time k' - time k) * refill_per_sec b"
proof (induction rs arbitrary: k c n)
  case Nil
  then show ?case by simp
next
  case (Cons x rs)
  obtain gap tokens tmo where x: "x = (gap, tokens, tmo)" by (metis prod_cases3)
  let ?r = "refill_per_sec b"
  define k0 where "k0 = now d (sleep gap k)"
  from Cons.prems(1) x obtain res k1 c1 m where
    acq: "acquire cget cset fuel b d tokens tmo (sleep gap k) c = Some (res, k1, c1)" and
    rest: "run_acquires cget cset fuel b d rs k1 c1 = Some (m, k', c')" and
    n: "n = granted res tokens + m"
    by (auto split: option.splits)
  have gap: "0 \<le> gap" "0 \<le> tokens" using Cons.prems(3) x by auto
  have le0: "time k \<le> time k0" using gap d[of "reads k"] by (simp add: k0_def)
  have loop: "acquire_loop cget cset fuel b d tokens (time k0 + tmo) k0 c = Some (res, k1, c1)"
    using acq by (simp add: acquire_def Let_def k0_def)
  note step = acquire_loop_grants[OF d conf gap(2) loop refill_law_later[OF Cons.prems(2) le0]]
  have "refill_law cget b (time k') c' \<and> of_int m + available cget b (time k') c'
          \<le> available cget b (time k1) c1 + (time k' - time k1) * ?r"
    using Cons.IH[OF rest] step Cons.prems(3) by auto
  moreover have "available cget b (time k0) c \<le> available cget b (time k) c + (time k0 - time k) * ?r"
    using refill_lawD[OF Cons.prems(2) order_refl le0] .
  ultimately show ?case using step n by (auto simp: algebra_simps)
qed

text \<open>Termination: a waiting round either sleeps half a second or is followed by a grant.\<close>

lemma bucket_state_time: "bucket_state cget b d k c = (st, ts, k1) \<Longrightarrow> (\<And>i. 0 \<le> d i) \<Longrightarrow> time k \<le> time k1"
  by (auto simp: bucket_state_def Let_def split: option.splits)

lemma grant_after_wait:
  assumes d: "\<And>i. 0 \<le> d i" and r: "1 / 100 \<le> refill_per_sec b" and cap: "tokens \<le> capacity b"
    and st: "bucket_state cget b d k c = (st, ts, k1)"
    and cur: "cur = min (of_int (capacity b)) (st + (time (now d k1) - ts) * refill_per_sec b)"
    and short: "cur < of_int tokens"
    and k3: "k3 = sleep ((of_int tokens - cur) / max (refill_per_sec b) (1 / 100)) (now d k1)"
  shows "\<exists>k' c'. acquire_loop cget cset (Suc fuel) b d tokens deadline k3 c = Some (Inr (), k', c')"
proof -
  let ?r = "refill_per_sec b" and ?cap = "of_int (capacity b) :: rat"
  have cap': "of_int tokens \<le> ?cap" using cap by simp
  define w where "w = (of_int tokens - cur) / max ?r (1 / 100)"
  have wait: "w * ?r = of_int tokens - cur" "0 \<le> w"
    using r short by (simp_all add: w_def max_def)
  have t3: "time k3 = time (now d k1) + w" by (simp add: k3 w_def)
  have le3: "time k \<le> time k3"
    using bucket_state_time[OF st d] d[of "reads k1"] wait(2) by (simp add: t3)
  obtain st' ts' k1' where st': "bucket_state cget b d k3 c = (st', ts', k1')" by (metis prod_cases3)
  have "of_int tokens \<le> min ?cap (st' + (time (now d k1') - ts') * ?r)"
  proof (cases "cget (bk_key b) (time k3) c")
    case None
    with st' have "st' = ?cap" "ts' = time k1'" by (auto simp: bucket_state_def Let_def)
    moreover have "0 \<le> d (reads k1') * ?r" using d r by simp
    ultimately show ?thesis using cap' by simp
  next
    case (Some p)
    obtain tok ls where p: "p = (tok, ls)" by (cases p)
    from get_earlier[OF Some le3] have "cget (bk_key b) (time k) c = Some (tok, ls)" by (simp add: p)
    with st have eq: "st = tok" "ts = ls" by (auto simp: bucket_state_def)
    from st' Some p have eq': "st' = tok" "ts' = ls" "k1' = k3" by (auto simp: bucket_state_def)
    have "cur = tok + (time (now d k1) - ls) * ?r" using cur short cap' eq by (simp add: min_def split: if_splits)
    moreover have "(time k3 - ls) * ?r = (time (now d k1) - ls) * ?r + (of_int tokens - cur)"
      using wait(1) by (simp add: t3 algebra_simps del: now_simps)
    moreover have "(time k3 - ls) * ?r \<le> (time (now d k3) - ls) * ?r"
      using d[of "reads k3"] r by (intro mult_right_mono) auto
    ultimately show ?thesis using cap' by (simp add: eq' del: now_simps)
  qed
  then show ?thesis by (simp add: st' Let_def del: now_simps)
qed

lemma acquire_loop_terminates:
  assumes d: "\<And>i. 0 \<le> d i" and r: "1 / 100 \<le> refill_per_sec b" and cap: "tokens \<le> capacity b"
  shows "1 \<le> fuel \<Longrightarrow> 2 * (deadline - time k) + 2 \<le> of_nat fuel \<Longrightarrow>
     \<exists>res k' c'. acquire_loop cget cset fuel b d tokens deadline k c = Some (res, k', c')"
proof (induction fuel arbitrary: k)
  case 0
  then show ?case by simp
next
  case (Suc fuel)
  let ?r = "refill_per_sec b"
  obtain st ts k1 where st: "bucket_state cget b d k c = (st, ts, k1)" by (metis prod_cases3)
  define cur where "cur = min (of_int (capacity b)) (st + (time (now d k1) - ts) * ?r)"
  define w where "w = (of_int tokens - cur) / max ?r (1 / 100)"
  have loop_eq: "acquire_loop cget cset (Suc fuel) b d tokens deadline k c =
      (if cur \<ge> of_int tokens
       then Some (Inr (), now d k1, bucket_save cset b (cur - of_int tokens) (time (now d k1)) c)
       else if time (now d k1) \<ge> deadline then Some (Inl RateLimitTimeout, now d k1, c)
       else acquire_loop cget cset fuel b d tokens deadline (sleep (min w (1 / 2)) (now d k1)) c)"
    by (simp only: acquire_loop.simps st cur_def w_def Let_def prod.case)
  show ?case
  proof (cases "cur < of_int tokens \<and> time (now d k1) < deadline")
    case False
    then show ?thesis using loop_eq by (auto simp: not_less simp del: now_simps)
  next
    case True
    have mono: "time k \<le> time (now d k1)" using bucket_state_time[OF st d] d[of "reads k1"] by simp
    then have fuel: "1 \<le> fuel" using True Suc.prems(2) by (cases fuel) (auto simp del: now_simps)
    show ?thesis
    proof (cases "w \<le> 1 / 2")
      case True2: True
      obtain f where "fuel = Suc f" using fuel by (cases fuel) auto
      with grant_after_wait[OF d r cap st cur_def _ refl, of f deadline] True True2 loop_eq show ?thesis
        by (auto simp: w_def min_def simp del: now_simps)
    next
      case False
      have "2 * (deadline - time (sleep (1 / 2) (now d k1))) + 2 \<le> of_nat fuel"
        using Suc.prems(2) mono by (simp del: now_simps)
      from Suc.IH[OF fuel this] False True loop_eq show ?thesis by (simp add: min_def del: now_simps)
    qed
  qed
qed

lemma acquire_loop_result:
  assumes "acquire_loop cget cset fuel b d tokens deadline k c = Some (res, k', c')"
  shows "case res of
      Inl RateLimitTimeout \<Rightarrow> deadline \<le> time k' \<and> c' = c
    | Inr _ \<Rightarrow> \<exists>left. 0 \<le> left \<and> left \<le> of_int (capacity b - tokens)
        \<and> cget (bk_key b) (time k') c' = Some (left, time k')"
  using assms
proof (induction fuel arbitrary: k)
  case 0
  then show ?case by simp
next
  case (Suc fuel)
  obtain st ts k1 where st: "bucket_state cget b d k c = (st, ts, k1)" by (metis prod_cases3)
  define cur where "cur = min (of_int (capacity b)) (st + (time (now d k1) - ts) * refill_per_sec b)"
  have saved: "cget (bk_key b) t (bucket_save cset b x t c) = Some (x, t)" for x t
    by (simp add: bucket_save_def get_set)
  have "cur \<le> of_int (capacity b)" by (simp add: cur_def)
  then show ?case
    using Suc saved unfolding acquire_loop.simps st Let_def prod.case cur_def [symmetric]
    by (auto split: if_splits sum.splits rate_error.splits simp del: now_simps)
qed

end

interpretation bk: bucket_cache ttl_get ttl_set ttl_del
  by unfold_locales

section \<open>Properties\<close>

text \<open>The buckets the ingests declare.\<close>

definition pipedrive_bucket :: bucket where
  "pipedrive_bucket = \<lparr>bk_key = ''ratelimit:pipedrive'', capacity = 80, refill_per_sec = 40\<rparr>"

definition slack_bucket :: bucket where
  "slack_bucket = \<lparr>bk_key = ''ratelimit:slack'', capacity = 50, refill_per_sec = 8 / 10\<rparr>"

definition fapi_bucket :: bucket where
  "fapi_bucket = \<lparr>bk_key = ''ratelimit:fapi'', capacity = 30, refill_per_sec = 1\<rparr>"

lemma configured_buckets: "b \<in> {pipedrive_bucket, slack_bucket, fapi_bucket} \<Longrightarrow>
    bucket_conf b \<and> 1 / 100 \<le> refill_per_sec b"
  by (auto simp: bucket_conf_def pipedrive_bucket_def slack_bucket_def fapi_bucket_def)

text \<open>
  C15. Rate bound. Whatever the callers do (any idle gaps, any token counts, any timeouts, some of
  them raised), the tokens a bucket grants over a run are at most its capacity plus the refill
  rate times the time the run took. A bucket must refill whole within the 3600 seconds its state
  is cached, which every configured bucket does.
\<close>

theorem rate_bound:
  assumes "\<And>i. 0 \<le> d i" and "bucket_conf b" and "c (bk_key b) = None"
    and "\<forall>(gap, tokens, _) \<in> set rs. 0 \<le> gap \<and> 0 \<le> tokens"
    and "run_acquires ttl_get ttl_set fuel b d rs k c = Some (n, k', c')"
  shows "of_int n \<le> of_int (capacity b) + refill_per_sec b * (time k' - time k)"
proof -
  have law: "refill_law ttl_get b (time k) c"
    using assms(3) by (intro refill_law_empty[OF assms(2)]) (simp add: ttl_get_def)
  note run = bk.run_acquires_grants[OF assms(1,2,5) law assms(4)]
  then have "0 \<le> available ttl_get b (time k') c'" by (auto intro: refill_law_nonneg)
  with run show ?thesis
    using available_le[of ttl_get b "time k" c] by (simp add: mult.commute)
qed

theorem rate_bound_witness:
  "\<exists>k' c'. run_acquires ttl_get ttl_set 5 slack_bucket (\<lambda>_. 0) [(0, 50, 30), (0, 1, 30)] \<lparr>reads = 0, time = 0\<rparr> Map.empty
     = Some (51, k', c') \<and> of_int 51 \<le> of_int (capacity slack_bucket) + refill_per_sec slack_bucket * (time k' - 0)"
proof -
  obtain k' c' where run: "run_acquires ttl_get ttl_set 5 slack_bucket (\<lambda>_. 0) [(0, 50, 30), (0, 1, 30)]
      \<lparr>reads = 0, time = 0\<rparr> Map.empty = Some (51, k', c')"
    by (simp add: acquire_def bucket_state_def bucket_save_def slack_bucket_def ttl_get_def ttl_set_def
        now_def sleep_def granted_def Let_def eval_nat_numeral)
  have "of_int 51 \<le> of_int (capacity slack_bucket) + refill_per_sec slack_bucket * (time k' - time \<lparr>reads = 0, time = 0\<rparr>)"
    by (rule rate_bound[OF _ _ _ _ run]) (auto simp: configured_buckets)
  with run show ?thesis by auto
qed

text \<open>
  C27. \<open>acquire\<close> always returns, and says what it did. For a bucket that can ever grant the tokens
  (\<open>tokens \<le> capacity\<close>) and refills at 0.01 per second or more, fuel for two rounds per second of
  timeout is enough on every monotone clock. On success the cache holds what is left, between 0
  and the capacity less the tokens; on \<open>RateLimitTimeout\<close> the deadline has passed and nothing was
  taken from the cache.
\<close>

theorem acquire_returns:
  assumes "\<And>i. 0 \<le> d i" and "1 / 100 \<le> refill_per_sec b" and "tokens \<le> capacity b"
    and "1 \<le> fuel" and "2 * timeout_sec + 2 \<le> of_nat fuel"
  shows "\<exists>res k' c'. acquire ttl_get ttl_set fuel b d tokens timeout_sec k c = Some (res, k', c') \<and>
     (case res of
        Inl RateLimitTimeout \<Rightarrow> time k + timeout_sec \<le> time k' \<and> c' = c
      | Inr _ \<Rightarrow> \<exists>left. 0 \<le> left \<and> left \<le> of_int (capacity b - tokens)
          \<and> ttl_get (bk_key b) (time k') c' = Some (left, time k'))"
proof -
  have fuel: "2 * (time (now d k) + timeout_sec - time (now d k)) + 2 \<le> of_nat fuel"
    using assms(5) by simp
  from bk.acquire_loop_terminates[where d = d and c = c, OF assms(1,2,3,4) this] obtain res k' c' where
    loop: "acquire_loop ttl_get ttl_set fuel b d tokens (time (now d k) + timeout_sec) (now d k) c
             = Some (res, k', c')" by blast
  from bk.acquire_loop_result[OF loop] loop show ?thesis
    using assms(1)[of "reads k"] unfolding acquire_def Let_def
    by (auto split: sum.splits rate_error.splits)
qed

theorem acquire_returns_witness:
  "\<exists>res k' c'. acquire ttl_get ttl_set 62 fapi_bucket (\<lambda>_. 1 / 1000) 1 30 \<lparr>reads = 0, time = 5\<rparr> Map.empty
     = Some (res, k', c')"
  using acquire_returns[of "\<lambda>_. 1 / 1000" fapi_bucket 1 62 30 "\<lparr>reads = 0, time = 5\<rparr>" Map.empty]
  by (auto simp: fapi_bucket_def)

end
