(* ===== verification/Retry.thy ===== *)
theory Retry
  imports Prelude
begin

text \<open>
  The retry decorator of \<open>apps/connectors/_framework/retry.py\<close>. The wrapped function is \<open>call\<close>, on
  the state it reads and changes; \<open>caught\<close> says which exceptions the \<open>except\<close> clause names, \<open>hint\<close> is
  the exception's \<open>retry_after\<close> attribute when it is a number, and \<open>rand\<close> gives the draw of
  \<open>random.uniform(-jitter, jitter)\<close> for an attempt. The delays slept are returned in order.
\<close>

record retry_cfg =
  retries :: int
  base_delay :: rat
  max_delay :: rat
  jitter :: rat

definition default_cfg :: retry_cfg where
  "default_cfg = \<lparr>retries = 5, base_delay = 1, max_delay = 60, jitter = 1 / 4\<rparr>"

definition retry_delay :: "retry_cfg \<Rightarrow> (nat \<Rightarrow> rat) \<Rightarrow> nat \<Rightarrow> rat option \<Rightarrow> rat" where
  "retry_delay cfg rand attempt hint =
     (case hint of
        Some h \<Rightarrow>
          if h > 0 then min h (max_delay cfg)
          else min (base_delay cfg * 2 ^ (attempt - 1)) (max_delay cfg) * (1 + rand attempt)
      | None \<Rightarrow> min (base_delay cfg * 2 ^ (attempt - 1)) (max_delay cfg) * (1 + rand attempt))"

function retry_loop ::
  "retry_cfg \<Rightarrow> ('e \<Rightarrow> bool) \<Rightarrow> ('e \<Rightarrow> rat option) \<Rightarrow> (nat \<Rightarrow> rat) \<Rightarrow> ('w \<Rightarrow> ('e, 'a) result \<times> 'w)
     \<Rightarrow> nat \<Rightarrow> 'w \<Rightarrow> rat list \<Rightarrow> ('e, 'a) result \<times> 'w \<times> rat list" where
  "retry_loop cfg caught hint rand call attempt w slept =
     (case call w of
        (Inr v, w') \<Rightarrow> (Inr v, w', slept)
      | (Inl exc, w') \<Rightarrow>
          if \<not> caught exc then (Inl exc, w', slept)
          else if int (Suc attempt) > retries cfg then (Inl exc, w', slept)
          else retry_loop cfg caught hint rand call (Suc attempt) w'
                 (slept @ [retry_delay cfg rand (Suc attempt) (hint exc)]))"
  by pat_completeness auto
termination
  by (relation "measure (\<lambda>(cfg, _, _, _, _, attempt, _, _). nat (retries cfg + 1 - int attempt))") auto

declare retry_loop.simps [simp del]

definition retry_with_backoff ::
  "retry_cfg \<Rightarrow> ('e \<Rightarrow> bool) \<Rightarrow> ('e \<Rightarrow> rat option) \<Rightarrow> (nat \<Rightarrow> rat) \<Rightarrow> ('w \<Rightarrow> ('e, 'a) result \<times> 'w)
     \<Rightarrow> 'w \<Rightarrow> ('e, 'a) result \<times> 'w \<times> rat list" where
  "retry_with_backoff cfg caught hint rand call w = retry_loop cfg caught hint rand call 0 w []"

section \<open>The run of the loop\<close>

text \<open>\<open>nth_call outcomes\<close> is a function whose \<open>i\<close>-th call has outcome \<open>outcomes i\<close>.\<close>

definition nth_call :: "(nat \<Rightarrow> ('e, 'a) result) \<Rightarrow> nat \<Rightarrow> ('e, 'a) result \<times> nat" where
  "nth_call outcomes i = (outcomes i, Suc i)"

definition retryable :: "('e \<Rightarrow> bool) \<Rightarrow> ('e, 'a) result \<Rightarrow> bool" where
  "retryable caught r = (case r of Inl e \<Rightarrow> caught e | Inr _ \<Rightarrow> False)"

lemma retry_loop_run:
  assumes "retry_loop cfg caught hint rand (nth_call outcomes) a a slept = (res, n, slept')"
  shows "\<exists>m. n = Suc m \<and> a \<le> m \<and> res = outcomes m
     \<and> (\<forall>i. a \<le> i \<and> i < m \<longrightarrow> retryable caught (outcomes i))
     \<and> (retryable caught (outcomes m) \<longrightarrow> retries cfg < int n)
     \<and> (a < m \<longrightarrow> int m \<le> retries cfg)
     \<and> length slept' = length slept + (m - a)"
  using assms
proof (induction "nat (retries cfg + 1 - int a)" arbitrary: a slept rule: less_induct)
  case less
  show ?case
  proof (cases "retryable caught (outcomes a) \<and> int (Suc a) \<le> retries cfg")
    case False
    with less.prems show ?thesis
      by (subst (asm) retry_loop.simps) (auto simp: nth_call_def retryable_def split: sum.splits if_splits)
  next
    case True
    then obtain e where e: "outcomes a = Inl e" "caught e" by (auto simp: retryable_def split: sum.splits)
    from less.prems have "retry_loop cfg caught hint rand (nth_call outcomes) (Suc a) (Suc a)
        (slept @ [retry_delay cfg rand (Suc a) (hint e)]) = (res, n, slept')"
      by (subst (asm) retry_loop.simps) (use e True in \<open>simp add: nth_call_def\<close>)
    from less.hyps[OF _ this] True obtain m where m: "n = Suc m" "Suc a \<le> m" "res = outcomes m"
      "\<And>i. Suc a \<le> i \<Longrightarrow> i < m \<Longrightarrow> retryable caught (outcomes i)"
      "retryable caught (outcomes m) \<longrightarrow> retries cfg < int n"
      "Suc a < m \<longrightarrow> int m \<le> retries cfg" "length slept' = Suc (length slept) + (m - Suc a)"
      by auto
    have "retryable caught (outcomes i)" if "a \<le> i" "i < m" for i
      using that m(4)[of i] True by (cases "i = a") auto
    moreover have "int m \<le> retries cfg" using m True by (cases "Suc a < m") auto
    ultimately show ?thesis using m by (intro exI[of _ m]) auto
  qed
qed

text \<open>The delays: never negative, at most the cap times one plus the jitter.\<close>

definition cfg_ok :: "retry_cfg \<Rightarrow> bool" where
  "cfg_ok cfg \<longleftrightarrow> 0 \<le> base_delay cfg \<and> 0 \<le> max_delay cfg \<and> 0 \<le> jitter cfg \<and> jitter cfg \<le> 1"

definition draws_ok :: "retry_cfg \<Rightarrow> (nat \<Rightarrow> rat) \<Rightarrow> bool" where
  "draws_ok cfg rand \<longleftrightarrow> (\<forall>i. - jitter cfg \<le> rand i \<and> rand i \<le> jitter cfg)"

lemma retry_delay_bounds:
  assumes "cfg_ok cfg" and "draws_ok cfg rand"
  shows "0 \<le> retry_delay cfg rand a h \<and> retry_delay cfg rand a h \<le> max_delay cfg * (1 + jitter cfg)"
proof -
  let ?b = "min (base_delay cfg * 2 ^ (a - 1)) (max_delay cfg)"
  have u: "0 \<le> 1 + rand a" "1 + rand a \<le> 1 + jitter cfg"
    using assms(1) assms(2)[unfolded draws_ok_def, rule_format, of a] by (auto simp: cfg_ok_def)
  have b: "0 \<le> ?b" "?b \<le> max_delay cfg" using assms(1) by (auto simp: cfg_ok_def)
  have "0 \<le> ?b * (1 + rand a)" "?b * (1 + rand a) \<le> max_delay cfg * (1 + jitter cfg)"
    using u b by (auto intro: mult_mono)
  moreover have "max_delay cfg \<le> max_delay cfg * (1 + jitter cfg)" "0 \<le> max_delay cfg"
    using assms(1) by (auto simp: cfg_ok_def algebra_simps)
  ultimately show ?thesis by (auto simp: retry_delay_def split: option.splits)
qed

lemma retry_loop_delays:
  assumes "cfg_ok cfg" and "draws_ok cfg rand"
  shows "retry_loop cfg caught hint rand call a w slept = (res, w', slept') \<Longrightarrow>
     (\<forall>s \<in> set slept. 0 \<le> s \<and> s \<le> max_delay cfg * (1 + jitter cfg)) \<Longrightarrow>
     \<forall>s \<in> set slept'. 0 \<le> s \<and> s \<le> max_delay cfg * (1 + jitter cfg)"
proof (induction "nat (retries cfg + 1 - int a)" arbitrary: a w slept rule: less_induct)
  case less
  let ?ok = "\<lambda>s. 0 \<le> s \<and> s \<le> max_delay cfg * (1 + jitter cfg)"
  show ?case
  proof (cases "\<exists>e w1. call w = (Inl e, w1) \<and> caught e \<and> int (Suc a) \<le> retries cfg")
    case False
    with less.prems(1) have "slept' = slept"
      by (subst (asm) retry_loop.simps) (auto split: prod.splits sum.splits if_splits)
    with less.prems(2) show ?thesis by simp
  next
    case True
    then obtain e w1 where e: "call w = (Inl e, w1)" "caught e" "int (Suc a) \<le> retries cfg" by blast
    let ?s = "retry_delay cfg rand (Suc a) (hint e)"
    have "retry_loop cfg caught hint rand call a w slept
        = retry_loop cfg caught hint rand call (Suc a) w1 (slept @ [?s])"
      using e by (subst retry_loop.simps) simp
    with less.prems(1) have loop:
      "retry_loop cfg caught hint rand call (Suc a) w1 (slept @ [?s]) = (res, w', slept')" by simp
    have "\<forall>s \<in> set (slept @ [?s]). ?ok s"
      using less.prems(2) retry_delay_bounds[OF assms, of "Suc a" "hint e"] by auto
    moreover have "nat (retries cfg + 1 - int (Suc a)) < nat (retries cfg + 1 - int a)"
      using e(3) by simp
    ultimately show ?thesis using less.hyps[OF _ loop] by blast
  qed
qed

section \<open>Properties\<close>

text \<open>
  C28. What a retried call does. It makes between one and \<open>retries + 1\<close> calls (one call when
  \<open>retries\<close> is not positive); every call but the last failed with an exception the decorator
  names; the result, value or exception, is the last call's; the last call failed with such an
  exception only when the retries are used up; and it slept once between two calls, each time for
  between 0 and \<open>max_delay * (1 + jitter)\<close> seconds.
\<close>

theorem retry_run:
  assumes "cfg_ok cfg" and "draws_ok cfg rand"
    and "retry_with_backoff cfg caught hint rand (nth_call outcomes) 0 = (res, n, slept)"
  shows "1 \<le> n \<and> int n \<le> max 1 (retries cfg + 1) \<and> res = outcomes (n - 1)
    \<and> (\<forall>i < n - 1. retryable caught (outcomes i))
    \<and> (retryable caught (outcomes (n - 1)) \<longrightarrow> retries cfg < int n)
    \<and> length slept = n - 1
    \<and> (\<forall>s \<in> set slept. 0 \<le> s \<and> s \<le> max_delay cfg * (1 + jitter cfg))"
proof -
  note run = assms(3) [unfolded retry_with_backoff_def]
  from retry_loop_run[OF run] obtain m where
    m: "n = Suc m" "res = outcomes m" "\<forall>i. i < m \<longrightarrow> retryable caught (outcomes i)"
      "retryable caught (outcomes m) \<longrightarrow> retries cfg < int n" "0 < m \<longrightarrow> int m \<le> retries cfg"
      "length slept = m" by auto
  have "int n \<le> max 1 (retries cfg + 1)" using m by (cases m) auto
  then show ?thesis using m retry_loop_delays[OF assms(1,2) run] by auto
qed

theorem retry_run_witness:
  "retry_with_backoff default_cfg (\<lambda>e. e = ''HTTP 503'') (\<lambda>_. Some 90) (\<lambda>_. 0)
     (nth_call (\<lambda>i. if i < 2 then Inl ''HTTP 503'' else Inr (7::int))) 0 = (Inr 7, 3, [60, 60])
   \<and> length [60, 60 :: rat] = 3 - 1"
proof -
  have run: "retry_with_backoff default_cfg (\<lambda>e. e = ''HTTP 503'') (\<lambda>_. Some 90) (\<lambda>_. 0)
     (nth_call (\<lambda>i. if i < 2 then Inl ''HTTP 503'' else Inr (7::int))) 0 = (Inr 7, 3, [60, 60])"
    by (simp add: retry_with_backoff_def retry_loop.simps nth_call_def default_cfg_def retry_delay_def)
  show ?thesis using run retry_run[OF _ _ run] by (simp add: cfg_ok_def draws_ok_def default_cfg_def)
qed

end
