(* ===== verification/PyValues.thy ===== *)
theory PyValues
  imports Prelude
begin

text \<open>
  Values of decoded JSON, which connector payloads are made of, and the Python operations the
  ingests apply to them: truth, \<open>x or y\<close>, \<open>d.get(k)\<close>, \<open>d[k]\<close>, \<open>int(x)\<close>, \<open>str(x)\<close>, iteration. An
  operation that can raise returns a \<open>result\<close> over \<open>py_error\<close>. A decoded float carries its value
  and its \<open>repr\<close>; a dict is an association list in insertion order.
\<close>

datatype json =
  JNull
| JBool bool
| JInt int
| JFloat rat string
| JStr string
| JList "json list"
| JObj "(string \<times> json) list"

datatype py_error =
  KeyError string
| TypeError
| ValueError
| AttributeError
| RateLimitError
| HTTPStatusError nat
| RuntimeError string
| OtherError string
| DatabaseError string

section \<open>Errors as values\<close>

definition andthen :: "('e, 'a) result \<Rightarrow> ('a \<Rightarrow> ('e, 'b) result) \<Rightarrow> ('e, 'b) result" where
  "andthen m f = (case m of Inl e \<Rightarrow> Inl e | Inr x \<Rightarrow> f x)"

lemma andthen_simps [simp]: "andthen (Inl e) f = Inl e" "andthen (Inr x) f = f x"
  by (simp_all add: andthen_def)

lemma andthen_Inr_iff: "andthen m f = Inr y \<longleftrightarrow> (\<exists>x. m = Inr x \<and> f x = Inr y)"
  by (cases m) auto

lemma andthen_cong [fundef_cong]:
  "m = m' \<Longrightarrow> (\<And>x. m' = Inr x \<Longrightarrow> f x = f' x) \<Longrightarrow> andthen m f = andthen m' f'"
  by (cases m') auto

fun map_result :: "('a \<Rightarrow> ('e, 'b) result) \<Rightarrow> 'a list \<Rightarrow> ('e, 'b list) result" where
  "map_result f [] = Inr []"
| "map_result f (x # xs) = andthen (f x) (\<lambda>y. andthen (map_result f xs) (\<lambda>ys. Inr (y # ys)))"

text \<open>\<open>[x for x in xs if p(x)]\<close>\<close>

fun filter_result :: "('a \<Rightarrow> ('e, bool) result) \<Rightarrow> 'a list \<Rightarrow> ('e, 'a list) result" where
  "filter_result p [] = Inr []"
| "filter_result p (x # xs) =
     andthen (p x) (\<lambda>b. andthen (filter_result p xs) (\<lambda>ys. Inr (if b then x # ys else ys)))"

text \<open>A \<open>for\<close> loop that updates its local variables \<open>s\<close> and may raise.\<close>

fun fold_result :: "('a \<Rightarrow> 's \<Rightarrow> ('e, 's) result) \<Rightarrow> 'a list \<Rightarrow> 's \<Rightarrow> ('e, 's) result" where
  "fold_result f [] s = Inr s"
| "fold_result f (x # xs) s = andthen (f x s) (fold_result f xs)"

lemma fold_result_append:
  "fold_result f (xs @ ys) s = andthen (fold_result f xs s) (fold_result f ys)"
  by (induction xs arbitrary: s) (auto simp: andthen_def split: sum.splits)

text \<open>An invariant of the loop indexed by the items seen.\<close>

lemma fold_result_invariant:
  assumes "fold_result f xs s = Inr s'" "P seen s"
    and step: "\<And>seen x s s'. f x s = Inr s' \<Longrightarrow> P seen s \<Longrightarrow> P (seen @ [x]) s'"
  shows "P (seen @ xs) s'"
  using assms(1,2)
proof (induction xs arbitrary: s seen)
  case Nil
  then show ?case by simp
next
  case (Cons x xs)
  from Cons.prems(1) obtain s1 where "f x s = Inr s1" "fold_result f xs s1 = Inr s'"
    by (auto simp: andthen_Inr_iff)
  with Cons.IH[of s1 "seen @ [x]"] step[OF _ Cons.prems(2)] show ?case by simp
qed

section \<open>Truth and lookup\<close>

fun truth :: "json \<Rightarrow> bool" where
  "truth JNull = False"
| "truth (JBool b) = b"
| "truth (JInt i) = (i \<noteq> 0)"
| "truth (JFloat q _) = (q \<noteq> 0)"
| "truth (JStr s) = (s \<noteq> [])"
| "truth (JList xs) = (xs \<noteq> [])"
| "truth (JObj kvs) = (kvs \<noteq> [])"

definition or_else :: "json \<Rightarrow> json \<Rightarrow> json" where
  "or_else x y = (if truth x then x else y)"

fun is_dict :: "json \<Rightarrow> bool" where
  "is_dict (JObj _) = True"
| "is_dict _ = False"

definition dict_get :: "(string \<times> json) list \<Rightarrow> string \<Rightarrow> json" where
  "dict_get kvs k = (case map_of kvs k of Some v \<Rightarrow> v | None \<Rightarrow> JNull)"

text \<open>\<open>v.get(k)\<close>, on a value that need not be a dict.\<close>

fun jget :: "json \<Rightarrow> string \<Rightarrow> (py_error, json) result" where
  "jget (JObj kvs) k = Inr (dict_get kvs k)"
| "jget _ k = Inl AttributeError"

text \<open>\<open>v[k]\<close> for a string \<open>k\<close>.\<close>

fun jindex :: "json \<Rightarrow> string \<Rightarrow> (py_error, json) result" where
  "jindex (JObj kvs) k = (case map_of kvs k of Some v \<Rightarrow> Inr v | None \<Rightarrow> Inl (KeyError k))"
| "jindex _ k = Inl TypeError"

text \<open>Iteration over a list; a dict yields its keys, a string its characters.\<close>

fun jiter :: "json \<Rightarrow> (py_error, json list) result" where
  "jiter (JList xs) = Inr xs"
| "jiter (JObj kvs) = Inr (map (JStr \<circ> fst) kvs)"
| "jiter (JStr s) = Inr (map (\<lambda>c. JStr [c]) s)"
| "jiter _ = Inl TypeError"

section \<open>\<open>int\<close>\<close>

text \<open>Decimal digits, single underscores allowed between two of them.\<close>

fun parse_digits :: "bool \<Rightarrow> nat \<Rightarrow> string \<Rightarrow> nat option" where
  "parse_digits after_digit acc [] = (if after_digit then Some acc else None)"
| "parse_digits after_digit acc (c # cs) =
     (if is_digit c then parse_digits True (10 * acc + (of_char c - 48)) cs
      else if c = CHR 0x5F \<and> after_digit then parse_digits False acc cs
      else None)"

definition parse_int :: "string \<Rightarrow> int option" where
  "parse_int s =
     (case str_strip s of
        [] \<Rightarrow> None
      | c # cs \<Rightarrow>
          if c = CHR 0x2D then map_option (\<lambda>n. - int n) (parse_digits False 0 cs)
          else if c = CHR 0x2B then map_option int (parse_digits False 0 cs)
          else map_option int (parse_digits False 0 (c # cs)))"

text \<open>\<open>int(v)\<close>: floats are truncated towards zero.\<close>

fun py_int :: "json \<Rightarrow> (py_error, int) result" where
  "py_int (JInt i) = Inr i"
| "py_int (JBool b) = Inr (if b then 1 else 0)"
| "py_int (JFloat q _) = Inr (if q < 0 then - \<lfloor>- q\<rfloor> else \<lfloor>q\<rfloor>)"
| "py_int (JStr s) = (case parse_int s of Some i \<Rightarrow> Inr i | None \<Rightarrow> Inl ValueError)"
| "py_int _ = Inl TypeError"

section \<open>\<open>float\<close> of a string\<close>

text \<open>
  A decimal with an optional fraction and exponent, as an exact rational; \<open>inf\<close>, \<open>nan\<close> and
  underscores are not covered, and count as not parsed.
\<close>

definition digits_value :: "string \<Rightarrow> nat" where
  "digits_value s = foldl (\<lambda>n c. 10 * n + (of_char c - 48)) 0 s"

definition parse_exponent :: "string \<Rightarrow> int option" where
  "parse_exponent s =
     (case s of
        [] \<Rightarrow> Some 0
      | c # cs \<Rightarrow>
          if c = CHR 0x65 \<or> c = CHR 0x45
          then (let (neg, ds) = (case cs of
                    d # ds \<Rightarrow> if d = CHR 0x2D then (True, ds) else if d = CHR 0x2B then (False, ds) else (False, cs)
                  | [] \<Rightarrow> (False, []))
                in if ds \<noteq> [] \<and> list_all is_digit ds
                   then Some (if neg then - int (digits_value ds) else int (digits_value ds)) else None)
          else None)"

definition parse_decimal :: "string \<Rightarrow> rat option" where
  "parse_decimal s =
     (let whole = takeWhile is_digit s;
          rest = dropWhile is_digit s;
          (frac, rest) = (case rest of
             c # cs \<Rightarrow> if c = CHR 0x2E then (takeWhile is_digit cs, dropWhile is_digit cs) else ([], rest)
           | [] \<Rightarrow> ([], []))
      in if whole = [] \<and> frac = [] then None
         else map_option (\<lambda>e. (rat_of_nat (digits_value (whole @ frac)) / 10 ^ length frac)
             * (if 0 \<le> e then 10 ^ nat e else 1 / 10 ^ nat (- e))) (parse_exponent rest))"

definition parse_float :: "string \<Rightarrow> rat option" where
  "parse_float s =
     (case str_strip s of
        [] \<Rightarrow> None
      | c # cs \<Rightarrow>
          if c = CHR 0x2D then map_option uminus (parse_decimal cs)
          else if c = CHR 0x2B then parse_decimal cs
          else parse_decimal (c # cs))"

text \<open>\<open>float(v)\<close>\<close>

fun py_float :: "json \<Rightarrow> (py_error, rat) result" where
  "py_float (JInt i) = Inr (of_int i)"
| "py_float (JBool b) = Inr (if b then 1 else 0)"
| "py_float (JFloat q _) = Inr q"
| "py_float (JStr s) = (case parse_float s of Some q \<Rightarrow> Inr q | None \<Rightarrow> Inl ValueError)"
| "py_float _ = Inl TypeError"

text \<open>Decimal numerals: digits only, and one for each number.\<close>

lemma show_nat_digit: "c \<in> set (show_nat n) \<Longrightarrow> is_digit c"
proof (induction n rule: show_nat.induct)
  case (1 n)
  have "is_digit (digit_char (n mod 10))" by (simp add: is_digit_def digit_char_def)
  with 1 show ?case by (auto simp: show_nat.simps[of n] split: if_splits)
qed

lemma length_show_nat: "n < 10 ^ k \<Longrightarrow> 0 < k \<Longrightarrow> length (show_nat n) \<le> k"
proof (induction k arbitrary: n)
  case (Suc k)
  show ?case
  proof (cases "n < 10")
    case False
    then have "0 < k" using Suc.prems(1) by (cases k) simp_all
    moreover have "n div 10 < 10 ^ k" using Suc.prems(1) by (simp add: less_mult_imp_div_less mult.commute)
    ultimately show ?thesis using Suc.IH[of "n div 10"] False by (simp add: show_nat.simps[of n])
  qed (simp add: show_nat.simps[of n])
qed simp

lemma digits_value_show_nat: "digits_value (show_nat n) = n"
proof (induction n rule: show_nat.induct)
  case (1 n)
  have digit: "(of_char (digit_char d) :: nat) - 48 = d" if "d < 10" for d using that by (simp add: digit_char_def)
  show ?case
  proof (cases "n < 10")
    case True
    then show ?thesis using digit[of n] by (simp add: show_nat.simps[of n] digits_value_def)
  next
    case False
    with 1 digit[of "n mod 10"] show ?thesis
      by (simp add: show_nat.simps[of n] digits_value_def)
  qed
qed

lemma show_nat_inj: "show_nat m = show_nat n \<longleftrightarrow> m = n"
  by (metis digits_value_show_nat)

lemma show_nat_no_sign: "show_nat n \<noteq> CHR ''-'' # s"
  using show_nat_digit[of "CHR ''-''" n] by (auto simp: is_digit_def)

lemma show_int_inj: "show_int i = show_int j \<longleftrightarrow> i = j"
  using show_nat_no_sign show_nat_no_sign[symmetric]
  by (auto simp: show_int_def show_nat_inj split: if_splits)

section \<open>\<open>str\<close>\<close>

definition hex_char :: "nat \<Rightarrow> char" where
  "hex_char d = char_of (if d < 10 then 48 + d else 87 + d)"

text \<open>One character of a string's \<open>repr\<close>, between quotes \<open>q\<close>.\<close>

definition repr_char :: "char \<Rightarrow> char \<Rightarrow> string" where
  "repr_char q c =
     (let n = (of_char c :: nat)
      in if c = q \<or> c = CHR 0x5C then [CHR 0x5C, c]
         else if n = 9 then [CHR 0x5C, CHR 0x74]
         else if n = 10 then [CHR 0x5C, CHR 0x6E]
         else if n = 13 then [CHR 0x5C, CHR 0x72]
         else if n < 32 \<or> 127 \<le> n \<and> n \<le> 160 \<or> n = 173
         then [CHR 0x5C, CHR 0x78, hex_char (n div 16), hex_char (n mod 16)]
         else [c])"

definition repr_str :: "string \<Rightarrow> string" where
  "repr_str s =
     (let q = (if CHR 0x27 \<in> set s \<and> CHR 0x22 \<notin> set s then CHR 0x22 else CHR 0x27)
      in q # concat (map (repr_char q) s) @ [q])"

fun py_repr :: "json \<Rightarrow> string" and repr_items :: "json list \<Rightarrow> string"
  and repr_pairs :: "(string \<times> json) list \<Rightarrow> string" where
  "py_repr JNull = ''None''"
| "py_repr (JBool b) = (if b then ''True'' else ''False'')"
| "py_repr (JInt i) = show_int i"
| "py_repr (JFloat _ r) = r"
| "py_repr (JStr s) = repr_str s"
| "py_repr (JList xs) = ''['' @ repr_items xs @ '']''"
| "py_repr (JObj kvs) = ''{'' @ repr_pairs kvs @ ''}''"
| "repr_items [] = []"
| "repr_items [x] = py_repr x"
| "repr_items (x # y # ys) = py_repr x @ '', '' @ repr_items (y # ys)"
| "repr_pairs [] = []"
| "repr_pairs [(k, v)] = repr_str k @ '': '' @ py_repr v"
| "repr_pairs ((k, v) # p # ps) = repr_str k @ '': '' @ py_repr v @ '', '' @ repr_pairs (p # ps)"

fun py_str :: "json \<Rightarrow> string" where
  "py_str (JStr s) = s"
| "py_str v = py_repr v"

text \<open>
  A text field, \<open>v or ""\<close>, where the source's schema has a string or null. A value of another type
  that is true is outside that schema; here it raises \<open>TypeError\<close>.
\<close>

fun text_field :: "json \<Rightarrow> (py_error, string) result" where
  "text_field (JStr s) = Inr s"
| "text_field v = (if truth v then Inl TypeError else Inr [])"

end
