(* ===== verification/Tables.thy ===== *)
theory Tables
  imports Prelude
begin

text \<open>
  Database tables. A table is the list of its rows in the order the database returns them, and a
  unique constraint is a key of the row. \<open>Model.objects.filter(p).first()\<close> is \<open>find p\<close>,
  \<open>update_or_create(<key>, defaults)\<close> is \<open>upsert\<close>: it rewrites the row with that key, or appends a
  new one, and says whether it created it. The locale \<open>keyed_table\<close> is the contract between a
  model's key, the constructor of a new row and the update of an existing one; its lemmas give
  the table's view as a map, which the components use.
\<close>

definition lookup :: "('r \<Rightarrow> 'k) \<Rightarrow> 'r list \<Rightarrow> 'k \<Rightarrow> 'r option" where
  "lookup key rows k = find (\<lambda>r. key r = k) rows"

definition upsert ::
  "('r \<Rightarrow> 'k) \<Rightarrow> ('d \<Rightarrow> 'k \<Rightarrow> 'r) \<Rightarrow> ('d \<Rightarrow> 'r \<Rightarrow> 'r) \<Rightarrow> 'd \<Rightarrow> 'k \<Rightarrow> 'r list \<Rightarrow> 'r list \<times> bool" where
  "upsert key mk upd d k rows =
     (case lookup key rows k of
        Some _ \<Rightarrow> (map (\<lambda>r. if key r = k then upd d r else r) rows, False)
      | None \<Rightarrow> (rows @ [mk d k], True))"

definition get_or_create ::
  "('r \<Rightarrow> 'k) \<Rightarrow> ('d \<Rightarrow> 'k \<Rightarrow> 'r) \<Rightarrow> 'd \<Rightarrow> 'k \<Rightarrow> 'r list \<Rightarrow> 'r list \<times> bool" where
  "get_or_create key mk d k rows =
     (case lookup key rows k of Some _ \<Rightarrow> (rows, False) | None \<Rightarrow> (rows @ [mk d k], True))"

definition unique_keys :: "('r \<Rightarrow> 'k) \<Rightarrow> 'r list \<Rightarrow> bool" where
  "unique_keys key rows \<longleftrightarrow> distinct (map key rows)"

lemma lookup_Nil [simp]: "lookup key [] k = None"
  by (simp add: lookup_def)

lemma lookup_Cons: "lookup key (r # rows) k = (if key r = k then Some r else lookup key rows k)"
  by (simp add: lookup_def)

lemma lookup_append:
  "lookup key (rows @ rows') k = (case lookup key rows k of None \<Rightarrow> lookup key rows' k | Some r \<Rightarrow> Some r)"
  by (induction rows) (auto simp: lookup_Cons)

lemma lookup_None_iff: "lookup key rows k = None \<longleftrightarrow> k \<notin> key ` set rows"
  by (induction rows) (auto simp: lookup_Cons)

lemma lookup_SomeD: "lookup key rows k = Some r \<Longrightarrow> r \<in> set rows \<and> key r = k"
  by (induction rows) (auto simp: lookup_Cons split: if_splits)

lemma lookup_Some_key: "lookup key rows k = Some r \<Longrightarrow> k \<in> key ` set rows"
  by (metis lookup_None_iff option.distinct(1))

lemma lookup_map_upd:
  assumes "\<And>r. key (f r) = key r"
  shows "lookup key (map f rows) k = map_option f (lookup key rows k)"
  using assms by (induction rows) (auto simp: lookup_Cons)

locale keyed_table =
  fixes key :: "'r \<Rightarrow> 'k"
    and mk :: "'d \<Rightarrow> 'k \<Rightarrow> 'r"
    and upd :: "'d \<Rightarrow> 'r \<Rightarrow> 'r"
  assumes key_mk: "key (mk d k) = k"
    and key_upd: "key (upd d r) = key r"
begin

lemma lookup_upsert_if:
  "lookup key (fst (upsert key mk upd d k rows)) k' =
     (if k' = k then Some (case lookup key rows k of None \<Rightarrow> mk d k | Some r \<Rightarrow> upd d r)
      else lookup key rows k')"
proof (cases "lookup key rows k")
  case None
  then show ?thesis
    by (auto simp: upsert_def lookup_append lookup_Cons key_mk split: option.splits)
next
  case (Some r)
  have "lookup key (map (\<lambda>r. if key r = k then upd d r else r) rows) k' =
      map_option (\<lambda>r. if key r = k then upd d r else r) (lookup key rows k')"
    by (rule lookup_map_upd) (simp add: key_upd)
  moreover have "key r' = k'" if "lookup key rows k' = Some r'" for r'
    using lookup_SomeD[OF that] by simp
  ultimately show ?thesis
    using Some by (cases "lookup key rows k'") (auto simp: upsert_def)
qed

lemma lookup_upsert_same:
  "lookup key (fst (upsert key mk upd d k rows)) k =
     Some (case lookup key rows k of None \<Rightarrow> mk d k | Some r \<Rightarrow> upd d r)"
  by (simp add: lookup_upsert_if)

lemma lookup_upsert_other:
  "k' \<noteq> k \<Longrightarrow> lookup key (fst (upsert key mk upd d k rows)) k' = lookup key rows k'"
  by (simp add: lookup_upsert_if)

lemma upsert_created: "snd (upsert key mk upd d k rows) \<longleftrightarrow> lookup key rows k = None"
  by (simp add: upsert_def split: option.splits)

lemma keys_upsert: "key ` set (fst (upsert key mk upd d k rows)) = insert k (key ` set rows)"
proof -
  have "key ` set (map (\<lambda>r. if key r = k then upd d r else r) rows) = key ` set rows"
    unfolding set_map image_image by (rule image_cong) (simp_all add: key_upd)
  moreover have "k \<in> key ` set rows" if "lookup key rows k \<noteq> None"
    using that by (simp add: lookup_None_iff)
  ultimately show ?thesis
    by (cases "lookup key rows k") (auto simp: upsert_def key_mk)
qed

lemma unique_upsert: "unique_keys key rows \<Longrightarrow> unique_keys key (fst (upsert key mk upd d k rows))"
proof -
  have "map key (map (\<lambda>r. if key r = k then upd d r else r) rows) = map key rows"
    by (simp add: key_upd)
  then show "unique_keys key rows \<Longrightarrow> unique_keys key (fst (upsert key mk upd d k rows))"
    by (auto simp: upsert_def unique_keys_def key_mk lookup_None_iff simp del: map_map split: option.splits)
qed

lemma length_upsert:
  "length (fst (upsert key mk upd d k rows)) = length rows + (if lookup key rows k = None then 1 else 0)"
  by (simp add: upsert_def split: option.splits)

end

text \<open>The references of a table: \<open>f\<close> of a row, when set, names an element of \<open>S\<close>.\<close>

definition refs_ok :: "('r \<Rightarrow> 'x option) \<Rightarrow> 'x set \<Rightarrow> 'r list \<Rightarrow> bool" where
  "refs_ok f S rows \<longleftrightarrow> (\<forall>r \<in> set rows. \<forall>x. f r = Some x \<longrightarrow> x \<in> S)"

lemma refs_ok_Nil [simp]: "refs_ok f S []"
  by (simp add: refs_ok_def)

lemma refs_ok_mono: "refs_ok f S rows \<Longrightarrow> S \<subseteq> S' \<Longrightarrow> refs_ok f S' rows"
  by (auto simp: refs_ok_def)

lemma refs_ok_upsert:
  assumes "refs_ok f S rows" "\<And>x. f d = Some x \<Longrightarrow> x \<in> S"
    and "\<And>k. f (mk d k) = f d" "\<And>r. f (upd d r) = f d"
  shows "refs_ok f S (fst (upsert key mk upd d k rows))"
  using assms by (auto simp: refs_ok_def upsert_def split: option.splits if_splits)

section \<open>Fresh primary keys\<close>

text \<open>A new row's \<open>uuid4\<close> or sequence value: an identifier no row of the table has.\<close>

definition fresh_id :: "('r \<Rightarrow> nat) \<Rightarrow> 'r list \<Rightarrow> nat" where
  "fresh_id pk rows = foldr (\<lambda>r m. max (Suc (pk r)) m) rows 0"

lemma fresh_id_gt: "r \<in> set rows \<Longrightarrow> pk r < fresh_id pk rows"
  by (induction rows) (auto simp: fresh_id_def)

lemma fresh_id_notin: "fresh_id pk rows \<notin> pk ` set rows"
  using fresh_id_gt by (metis imageE less_irrefl)

text \<open>\<open>obj.save()\<close>: the row with the object's primary key becomes the object.\<close>

definition save_row :: "('r \<Rightarrow> nat) \<Rightarrow> 'r \<Rightarrow> 'r list \<Rightarrow> 'r list" where
  "save_row pk obj rows = map (\<lambda>r. if pk r = pk obj then obj else r) rows"

lemma save_row_pks [simp]: "map pk (save_row pk obj rows) = map pk rows"
  by (simp add: save_row_def)

lemma save_row_append: "save_row pk obj (rows @ [r]) = save_row pk obj rows @ [if pk r = pk obj then obj else r]"
  by (simp add: save_row_def)

lemma save_row_fresh: "pk obj \<notin> pk ` set rows \<Longrightarrow> save_row pk obj rows = rows"
  unfolding save_row_def by (rule map_idI) (metis imageI)

lemma lookup_save_row:
  "lookup pk (save_row pk obj rows) k =
     (if k = pk obj \<and> lookup pk rows k \<noteq> None then Some obj else lookup pk rows k)"
proof -
  have "lookup pk (save_row pk obj rows) k =
      map_option (\<lambda>r. if pk r = pk obj then obj else r) (lookup pk rows k)"
    unfolding save_row_def by (rule lookup_map_upd) simp
  then show ?thesis by (cases "lookup pk rows k") (auto dest: lookup_SomeD)
qed

end
