(* ===== verification/BaseSync.thy ===== *)
theory BaseSync
  imports Tables "HOL-Library.Sublist"
begin

text \<open>
  The ingest framework: \<open>SyncRun\<close> of \<open>_framework/models.py\<close>, \<open>IngestionCursor\<close> of
  \<open>data_access/models.py\<close> and \<open>BaseSync\<close> of \<open>_framework/base_sync.py\<close>. A subclass gives \<open>fetch\<close> and
  \<open>persist\<close>: \<open>fetch\<close> is the list of raw items its generator yields, with the exception that ends it,
  if one does, and the tables it leaves (a client may save refreshed tokens); \<open>persist\<close> takes one item, the context and the tables, and returns the context (a
  mutable object: its changes survive an exception) with the exception raised, or with the outcome
  and the new tables. \<open>transaction.atomic()\<close> keeps the old tables when it raises. \<open>limiter\<close> is the
  bucket's \<open>acquire(1)\<close> on the environment \<open>'c\<close>, \<open>tnow\<close> is \<open>timezone.now()\<close>, and \<open>exc_text\<close> renders
  an exception as \<open>"{type}: {err}"\<close>.
\<close>

lemma subseq_set: "subseq xs ys \<Longrightarrow> set xs \<subseteq> set ys"
  by (metis notin_set_nthsI set_nths_subset subseq_conv_nths)

section \<open>Rows\<close>

datatype sync_status = Pending | Running | Completed | Partial_run | Failed | Cancelled

datatype sync_mode = Init | Incremental | Reconcile | Webhook | Manual_mode

record sync_run =
  run_id :: nat
  run_integration :: nat
  run_provider :: string
  run_mode :: sync_mode
  run_status :: sync_status
  run_resource :: string
  started_at :: "rat option"
  finished_at :: "rat option"
  run_cursor_before :: string
  run_cursor_after :: string
  records_fetched :: nat
  records_created :: nat
  records_updated :: nat
  records_skipped :: nat
  errors_count :: nat
  error_message :: string

record ingestion_cursor =
  cur_source :: string
  cur_value :: string
  last_full_sync_at :: "rat option"
  last_incremental_sync_at :: "rat option"
  files_total :: nat
  files_indexed :: nat
  files_failed :: nat

record sync_context =
  ctx_run :: nat
  ctx_integration :: nat
  ctx_provider :: string
  ctx_resource :: string
  ctx_mode :: sync_mode
  cursor_before :: string
  cursor_after :: string
  fetched :: nat
  created :: nat
  updated :: nat
  skipped :: nat
  errors :: nat
  error_samples :: "string list"

record sync_outcome =
  out_status :: sync_status
  out_fetched :: nat
  out_created :: nat
  out_updated :: nat
  out_skipped :: nat
  out_errors :: nat
  out_cursor_after :: string

section \<open>Subclasses and the world\<close>

record ('raw, 'db, 'c, 'e) sync_class =
  provider :: string
  resource :: string
  rate_limit :: "('c \<Rightarrow> ('e, unit) result \<times> 'c) option"
  cursor_source :: string
  fetch :: "sync_context \<Rightarrow> 'db \<Rightarrow> ('raw list \<times> 'e option) \<times> 'db"
  persist :: "'raw \<Rightarrow> sync_context \<Rightarrow> 'db \<Rightarrow> sync_context \<times> ('e, string \<times> 'db) result"

record ('db, 'c) sync_world =
  tables :: 'db
  sync_runs :: "sync_run list"
  cursors :: "ingestion_cursor list"
  env :: 'c

datatype init_error = Not_configured

definition base_sync_init :: "('raw, 'db, 'c, 'e) sync_class \<Rightarrow> (init_error, unit) result" where
  "base_sync_init cls =
     (if provider cls = [] \<or> resource cls = [] then Inl Not_configured else Inr ())"

definition record_error :: "('e \<Rightarrow> string) \<Rightarrow> 'e \<Rightarrow> sync_context \<Rightarrow> sync_context" where
  "record_error exc_text err ctx =
     (let ctx = ctx\<lparr>errors := errors ctx + 1\<rparr>
      in if length (error_samples ctx) < 5
         then ctx\<lparr>error_samples := error_samples ctx @ [take 300 (exc_text err)]\<rparr> else ctx)"

definition count_outcome :: "string \<Rightarrow> sync_context \<Rightarrow> sync_context" where
  "count_outcome outcome ctx =
     (if outcome = ''created'' then ctx\<lparr>created := created ctx + 1\<rparr>
      else if outcome = ''updated'' then ctx\<lparr>updated := updated ctx + 1\<rparr>
      else if outcome = ''skipped'' then ctx\<lparr>skipped := skipped ctx + 1\<rparr>
      else ctx)"

definition persist_one ::
  "('e \<Rightarrow> string) \<Rightarrow> ('raw, 'db, 'c, 'e) sync_class \<Rightarrow> 'raw \<Rightarrow> sync_context \<Rightarrow> 'db \<Rightarrow> sync_context \<times> 'db" where
  "persist_one exc_text cls raw ctx db =
     (case persist cls raw (ctx\<lparr>fetched := fetched ctx + 1\<rparr>) db of
        (ctx', Inr (outcome, db')) \<Rightarrow> (count_outcome outcome ctx', db')
      | (ctx', Inl exc) \<Rightarrow> (record_error exc_text exc ctx', db))"

text \<open>The body of the \<open>try\<close>: the exception it leaves with, if any, and the state it leaves.\<close>

fun sync_loop ::
  "('e \<Rightarrow> string) \<Rightarrow> ('raw, 'db, 'c, 'e) sync_class \<Rightarrow> 'raw list \<Rightarrow> 'e option \<Rightarrow> sync_context \<Rightarrow> 'db \<Rightarrow> 'c
     \<Rightarrow> 'e option \<times> sync_context \<times> 'db \<times> 'c" where
  "sync_loop exc_text cls [] fetch_err ctx db c = (fetch_err, ctx, db, c)"
| "sync_loop exc_text cls (raw # raws) fetch_err ctx db c =
     (case (case rate_limit cls of None \<Rightarrow> (Inr (), c) | Some acquire \<Rightarrow> acquire c) of
        (Inl exc, c') \<Rightarrow> (Some exc, ctx, db, c')
      | (Inr _, c') \<Rightarrow>
          (case persist_one exc_text cls raw ctx db of
             (ctx', db') \<Rightarrow> sync_loop exc_text cls raws fetch_err ctx' db' c'))"

section \<open>The run\<close>

definition read_cursor :: "string \<Rightarrow> ingestion_cursor list \<Rightarrow> string" where
  "read_cursor source rows = (case lookup cur_source rows source of None \<Rightarrow> [] | Some row \<Rightarrow> cur_value row)"

definition mk_cursor :: "string \<times> rat \<Rightarrow> string \<Rightarrow> ingestion_cursor" where
  "mk_cursor d source =
     \<lparr>cur_source = source, cur_value = fst d, last_full_sync_at = None,
      last_incremental_sync_at = Some (snd d), files_total = 0, files_indexed = 0, files_failed = 0\<rparr>"

definition upd_cursor :: "string \<times> rat \<Rightarrow> ingestion_cursor \<Rightarrow> ingestion_cursor" where
  "upd_cursor d row = row\<lparr>cur_value := fst d, last_incremental_sync_at := Some (snd d)\<rparr>"

interpretation cursor_table: keyed_table cur_source mk_cursor upd_cursor
  by unfold_locales (simp_all add: mk_cursor_def upd_cursor_def)

definition write_cursor :: "string \<Rightarrow> string \<Rightarrow> rat \<Rightarrow> ingestion_cursor list \<Rightarrow> ingestion_cursor list" where
  "write_cursor source value t rows = fst (upsert cur_source mk_cursor upd_cursor (value, t) source rows)"

definition finalize_run :: "sync_run \<Rightarrow> sync_context \<Rightarrow> rat \<Rightarrow> sync_run list \<Rightarrow> sync_run list" where
  "finalize_run run ctx t rows =
     save_row run_id
       (run\<lparr>finished_at := Some t, records_fetched := fetched ctx, records_created := created ctx,
            records_updated := updated ctx, records_skipped := skipped ctx,
            errors_count := errors ctx, run_cursor_after := cursor_after ctx\<rparr>) rows"

definition cursor_key :: "('raw, 'db, 'c, 'e) sync_class \<Rightarrow> string" where
  "cursor_key cls = (if cursor_source cls \<noteq> [] then cursor_source cls else provider cls @ ''.'' @ resource cls)"

definition new_run :: "('raw, 'db, 'c, 'e) sync_class \<Rightarrow> nat \<Rightarrow> sync_mode \<Rightarrow> string \<Rightarrow> sync_run list \<Rightarrow> sync_run" where
  "new_run cls integration mode before rows =
     \<lparr>run_id = fresh_id run_id rows, run_integration = integration, run_provider = provider cls,
      run_mode = mode, run_status = Pending, run_resource = resource cls, started_at = None,
      finished_at = None, run_cursor_before = before, run_cursor_after = [], records_fetched = 0,
      records_created = 0, records_updated = 0, records_skipped = 0, errors_count = 0, error_message = []\<rparr>"

definition new_context :: "('raw, 'db, 'c, 'e) sync_class \<Rightarrow> nat \<Rightarrow> sync_mode \<Rightarrow> string \<Rightarrow> nat \<Rightarrow> sync_context" where
  "new_context cls integration mode before rid =
     \<lparr>ctx_run = rid, ctx_integration = integration, ctx_provider = provider cls,
      ctx_resource = resource cls, ctx_mode = mode, cursor_before = before, cursor_after = [],
      fetched = 0, created = 0, updated = 0, skipped = 0, errors = 0, error_samples = []\<rparr>"

definition base_sync_run ::
  "('e \<Rightarrow> string) \<Rightarrow> ('c \<Rightarrow> rat) \<Rightarrow> ('raw, 'db, 'c, 'e) sync_class \<Rightarrow> nat \<Rightarrow> sync_mode
     \<Rightarrow> ('db, 'c) sync_world \<Rightarrow> sync_outcome \<times> ('db, 'c) sync_world" where
  "base_sync_run exc_text tnow cls integration mode w =
     (let key = cursor_key cls;
          before = read_cursor key (cursors w);
          run0 = new_run cls integration mode before (sync_runs w);
          runs0 = sync_runs w @ [run0];
          ctx0 = new_context cls integration mode before (run_id run0);
          run1 = run0\<lparr>run_status := Running, started_at := Some (tnow (env w))\<rparr>;
          runs1 = save_row run_id run1 runs0
      in case fetch cls ctx0 (tables w) of ((raws, fetch_err), db0) \<Rightarrow>
         case sync_loop exc_text cls raws fetch_err ctx0 db0 (env w) of
           (Some exc, ctx, db, c) \<Rightarrow>
             (let run2 = run1\<lparr>run_status := Failed, error_message := take 1000 (exc_text exc),
                              errors_count := errors ctx + 1\<rparr>
              in (\<lparr>out_status = Failed, out_fetched = fetched ctx, out_created = created ctx,
                   out_updated = updated ctx, out_skipped = skipped ctx,
                   out_errors = errors ctx + 1, out_cursor_after = cursor_after ctx\<rparr>,
                  w\<lparr>tables := db, env := c, sync_runs := finalize_run run2 ctx (tnow c) runs1\<rparr>))
         | (None, ctx, db, c) \<Rightarrow>
             (let run2 = (if errors ctx = 0 then run1\<lparr>run_status := Completed\<rparr>
                          else run1\<lparr>run_status := Partial_run,
                                    error_message := take 1000 (join '' | '' (error_samples ctx))\<rparr>)
              in (\<lparr>out_status = run_status run2, out_fetched = fetched ctx, out_created = created ctx,
                   out_updated = updated ctx, out_skipped = skipped ctx,
                   out_errors = errors ctx, out_cursor_after = cursor_after ctx\<rparr>,
                  w\<lparr>tables := db, env := c, sync_runs := finalize_run run2 ctx (tnow c) runs1,
                    cursors := (if cursor_after ctx \<noteq> []
                                then write_cursor key (cursor_after ctx) (tnow c) (cursors w)
                                else cursors w)\<rparr>)))"

section \<open>What a subclass promises, and what the framework makes of it\<close>

text \<open>The books of a context: every fetched item is accounted for exactly once.\<close>

definition balanced :: "sync_context \<Rightarrow> bool" where
  "balanced ctx \<longleftrightarrow> fetched ctx = created ctx + updated ctx + skipped ctx + errors ctx"

definition samples_ok :: "sync_context \<Rightarrow> bool" where
  "samples_ok ctx \<longleftrightarrow> length (error_samples ctx) = min 5 (errors ctx)
     \<and> (\<forall>s \<in> set (error_samples ctx). length s \<le> 300)"

text \<open>
  The contract of a subclass's \<open>persist\<close>, as its docstring states it: it returns one of the three
  outcomes, and of the context it changes at most \<open>cursor_after\<close>.
\<close>

lemma record_error_simps [simp]:
  "fetched (record_error f e ctx) = fetched ctx" "created (record_error f e ctx) = created ctx"
  "updated (record_error f e ctx) = updated ctx" "skipped (record_error f e ctx) = skipped ctx"
  "cursor_after (record_error f e ctx) = cursor_after ctx"
  "errors (record_error f e ctx) = Suc (errors ctx)"
  "error_samples (record_error f e ctx) =
     error_samples ctx @ (if length (error_samples ctx) < 5 then [take 300 (f e)] else [])"
  by (simp_all add: record_error_def Let_def)

lemma record_error_samples: "samples_ok ctx \<Longrightarrow> samples_ok (record_error f e ctx)"
  by (auto simp: samples_ok_def)

lemma count_outcome_frame [simp]:
  "fetched (count_outcome oc ctx) = fetched ctx" "errors (count_outcome oc ctx) = errors ctx"
  "error_samples (count_outcome oc ctx) = error_samples ctx"
  "cursor_after (count_outcome oc ctx) = cursor_after ctx"
  by (simp_all add: count_outcome_def)

lemma count_outcome_sum:
  "oc \<in> {''created'', ''updated'', ''skipped''} \<Longrightarrow>
     created (count_outcome oc ctx) + updated (count_outcome oc ctx) + skipped (count_outcome oc ctx)
       = Suc (created ctx + updated ctx + skipped ctx)"
  by (elim insertE emptyE) (simp_all add: count_outcome_def)

locale ingest_contract =
  fixes persist_row :: "'raw \<Rightarrow> sync_context \<Rightarrow> 'db \<Rightarrow> sync_context \<times> ('e, string \<times> 'db) result"
  assumes persist_frame: "\<exists>cur. fst (persist_row raw ctx db) = ctx\<lparr>cursor_after := cur\<rparr>"
    and persist_outcome: "snd (persist_row raw ctx db) = Inr (outcome, db') \<Longrightarrow>
      outcome \<in> {''created'', ''updated'', ''skipped''}"
begin

lemma persist_one_balanced:
  assumes "persist cls = persist_row" and "persist_one exc_text cls raw ctx db = (ctx', db')"
  shows "fetched ctx' = fetched ctx + 1 \<and> (balanced ctx \<longrightarrow> balanced ctx') \<and> (samples_ok ctx \<longrightarrow> samples_ok ctx')"
proof -
  obtain cur r where p: "persist_row raw (ctx\<lparr>fetched := fetched ctx + 1\<rparr>) db
      = (ctx\<lparr>fetched := fetched ctx + 1, cursor_after := cur\<rparr>, r)"
    using persist_frame[of raw "ctx\<lparr>fetched := fetched ctx + 1\<rparr>" db] by (metis prod.collapse)
  show ?thesis
  proof (cases r)
    case (Inl e)
    let ?ctx = "ctx\<lparr>fetched := fetched ctx + 1, cursor_after := cur\<rparr>"
    from Inl p assms have ctx': "ctx' = record_error exc_text e ?ctx"
      by (simp add: persist_one_def)
    have "samples_ok ?ctx = samples_ok ctx" by (simp add: samples_ok_def)
    with record_error_samples[of ?ctx exc_text e] show ?thesis
      unfolding ctx' by (simp add: balanced_def)
  next
    case (Inr x)
    obtain outcome db1 where x: "x = (outcome, db1)" by (cases x)
    let ?ctx = "ctx\<lparr>fetched := fetched ctx + 1, cursor_after := cur\<rparr>"
    have oc: "outcome \<in> {''created'', ''updated'', ''skipped''}"
      by (rule persist_outcome[of raw "ctx\<lparr>fetched := fetched ctx + 1\<rparr>" db _ db1]) (use p Inr x in simp)
    have ctx': "ctx' = count_outcome outcome ?ctx"
      using p Inr x assms by (simp add: persist_one_def)
    have "created ctx' + updated ctx' + skipped ctx' = Suc (created ctx + updated ctx + skipped ctx)"
      using count_outcome_sum[OF oc, of ?ctx] by (simp add: ctx')
    moreover have "fetched ctx' = Suc (fetched ctx)" "errors ctx' = errors ctx"
      "error_samples ctx' = error_samples ctx" by (simp_all add: ctx')
    ultimately show ?thesis by (auto simp: balanced_def samples_ok_def)
  qed
qed

lemma sync_loop_balanced:
  assumes cls: "persist cls = persist_row"
  shows "sync_loop exc_text cls raws fe ctx db c = (r, ctx', db', c') \<Longrightarrow> balanced ctx \<Longrightarrow> samples_ok ctx \<Longrightarrow>
    balanced ctx' \<and> samples_ok ctx' \<and> fetched ctx' \<le> fetched ctx + length raws
    \<and> (r = None \<longrightarrow> fetched ctx' = fetched ctx + length raws)"
proof (induction raws arbitrary: ctx db c)
  case Nil
  then show ?case by simp
next
  case (Cons raw raws)
  obtain ctx1 db1 where one: "persist_one exc_text cls raw ctx db = (ctx1, db1)" by (metis surj_pair)
  note step = persist_one_balanced[OF cls one]
  obtain a c1 where lim: "(case rate_limit cls of None \<Rightarrow> (Inr (), c) | Some acquire \<Rightarrow> acquire c) = (a, c1)"
    by (metis surj_pair)
  show ?case
  proof (cases a)
    case (Inl e)
    then show ?thesis using Cons.prems lim by auto
  next
    case (Inr u)
    with Cons.prems(1) lim one have "sync_loop exc_text cls raws fe ctx1 db1 c1 = (r, ctx', db', c')" by simp
    from Cons.IH[OF this] step Cons.prems(2,3) show ?thesis by auto
  qed
qed

end

text \<open>
  Atomicity: what a successful \<open>persist\<close> keeps of the tables, the whole run keeps, whatever items
  failed and however the loop ended.
\<close>

lemma sync_loop_tables:
  assumes "\<And>raw ctx db outcome db'. P db \<Longrightarrow> snd (persist cls raw ctx db) = Inr (outcome, db') \<Longrightarrow> P db'"
  shows "sync_loop exc_text cls raws fe ctx db c = (r, ctx', db', c') \<Longrightarrow> P db \<Longrightarrow> P db'"
proof (induction raws arbitrary: ctx db c)
  case Nil
  then show ?case by simp
next
  case (Cons raw raws)
  obtain ctx1 db1 where one: "persist_one exc_text cls raw ctx db = (ctx1, db1)" by (metis surj_pair)
  have "P db1"
    using one Cons.prems(2) assms[of db raw "ctx\<lparr>fetched := fetched ctx + 1\<rparr>"]
    by (auto simp: persist_one_def split: prod.splits sum.splits)
  with Cons one show ?case by (auto split: prod.splits sum.splits option.splits)
qed

lemma run_unfold:
  assumes "base_sync_run exc_text tnow cls integration mode w = (out, w')"
  obtains raws fe db0 r ctx db c where
    "sync_loop exc_text cls raws fe
       (new_context cls integration mode (read_cursor (cursor_key cls) (cursors w)) (fresh_id run_id (sync_runs w)))
       db0 (env w) = (r, ctx, db, c)"
    and "fetch cls (new_context cls integration mode (read_cursor (cursor_key cls) (cursors w))
       (fresh_id run_id (sync_runs w))) (tables w) = ((raws, fe), db0)"
    and "tables w' = db" and "env w' = c"
    and "out_status out = (case r of Some _ \<Rightarrow> Failed | None \<Rightarrow> if errors ctx = 0 then Completed else Partial_run)"
    and "out_errors out = (case r of Some _ \<Rightarrow> errors ctx + 1 | None \<Rightarrow> errors ctx)"
    and "out_fetched out = fetched ctx" and "out_created out = created ctx"
    and "out_updated out = updated ctx" and "out_skipped out = skipped ctx"
    and "out_cursor_after out = cursor_after ctx"
    and "cursors w' = (if r = None \<and> cursor_after ctx \<noteq> []
           then write_cursor (cursor_key cls) (cursor_after ctx) (tnow c) (cursors w) else cursors w)"
    and "\<exists>row. sync_runs w' = sync_runs w @ [row] \<and> run_id row = fresh_id run_id (sync_runs w)
       \<and> run_status row = out_status out \<and> finished_at row = Some (tnow c)
       \<and> started_at row = Some (tnow (env w)) \<and> length (error_message row) \<le> 1000
       \<and> records_fetched row = fetched ctx \<and> records_created row = created ctx
       \<and> records_updated row = updated ctx \<and> records_skipped row = skipped ctx
       \<and> errors_count row = errors ctx \<and> run_cursor_after row = cursor_after ctx"
proof -
  let ?ctx0 = "new_context cls integration mode (read_cursor (cursor_key cls) (cursors w))
    (fresh_id run_id (sync_runs w))"
  have fresh: "fresh_id run_id (sync_runs w) \<notin> run_id ` set (sync_runs w)" by (rule fresh_id_notin)
  have rid: "run_id (new_run cls integration mode before rows) = fresh_id run_id rows"
    "error_message (new_run cls integration mode before rows) = []" for before rows
    by (simp_all add: new_run_def)
  obtain raws fe db0 where f: "fetch cls ?ctx0 (tables w) = ((raws, fe), db0)" by (metis surj_pair)
  obtain r ctx db c where l: "sync_loop exc_text cls raws fe ?ctx0 db0 (env w) = (r, ctx, db, c)"
    by (metis prod_cases4)
  note defs = base_sync_run_def Let_def rid f l finalize_run_def save_row_append save_row_fresh fresh
  show ?thesis
  proof (cases r)
    case None
    show ?thesis
      using assms None by (intro that[OF l f]) (auto simp: defs)
  next
    case (Some e)
    show ?thesis
      using assms Some by (intro that[OF l f]) (auto simp: defs)
  qed
qed

text \<open>What every \<open>persist\<close> keeps of \<open>cursor_after\<close> on the items fetched, the loop keeps.\<close>

lemma sync_loop_cursor:
  assumes "\<And>raw ctx db. raw \<in> set raws \<Longrightarrow> P (cursor_after ctx) \<Longrightarrow> P (cursor_after (fst (persist cls raw ctx db)))"
  shows "sync_loop exc_text cls raws fe ctx db c = (r, ctx', db', c') \<Longrightarrow> P (cursor_after ctx) \<Longrightarrow> P (cursor_after ctx')"
  using assms
proof (induction raws arbitrary: ctx db c)
  case (Cons raw raws)
  obtain ctx1 db1 where one: "persist_one exc_text cls raw ctx db = (ctx1, db1)" by (metis surj_pair)
  have "P (cursor_after (fst (persist cls raw (ctx\<lparr>fetched := fetched ctx + 1\<rparr>) db)))"
    using Cons.prems(2,3) by simp
  then have "P (cursor_after ctx1)"
    using one by (auto simp: persist_one_def split: prod.splits sum.splits)
  moreover obtain a c1 where lim: "(case rate_limit cls of None \<Rightarrow> (Inr (), c) | Some acquire \<Rightarrow> acquire c) = (a, c1)"
    by (metis surj_pair)
  ultimately show ?case
    using Cons.IH[of ctx1 db1 c1] Cons.prems one by (cases a) auto
qed simp

lemma new_context_ok [simp]:
  "balanced (new_context cls integration mode before rid)"
  "samples_ok (new_context cls integration mode before rid)"
  "fetched (new_context cls integration mode before rid) = 0"
  "cursor_after (new_context cls integration mode before rid) = []"
  "cursor_before (new_context cls integration mode before rid) = before"
  by (simp_all add: new_context_def balanced_def samples_ok_def)

lemma run_tables:
  assumes persists: "\<And>raw ctx db outcome db'. P db \<Longrightarrow> snd (persist cls raw ctx db) = Inr (outcome, db') \<Longrightarrow> P db'"
    and fetches: "\<And>ctx db. P db \<Longrightarrow> P (snd (fetch cls ctx db))"
    and run: "base_sync_run exc_text tnow cls integration mode w = (out, w')" and "P (tables w)"
  shows "P (tables w')"
  using run
proof (rule run_unfold)
  fix raws fe db0 r ctx db c
  assume loop: "sync_loop exc_text cls raws fe (new_context cls integration mode
        (read_cursor (cursor_key cls) (cursors w)) (fresh_id run_id (sync_runs w))) db0 (env w) = (r, ctx, db, c)"
    and "fetch cls (new_context cls integration mode (read_cursor (cursor_key cls) (cursors w))
        (fresh_id run_id (sync_runs w))) (tables w) = ((raws, fe), db0)"
    and "tables w' = db"
  then have "P db0" "tables w' = db" using fetches[OF \<open>P (tables w)\<close>] by (metis snd_conv, simp)
  from sync_loop_tables[where P = P and cls = cls, OF persists loop \<open>P db0\<close>] this(2)
  show "P (tables w')" by simp
qed

text \<open>
  The contract of a sync that keeps a replica of the source: \<open>view\<close> reads the tables as a map from
  the source's keys to the payloads stored; a row that is persisted becomes the payload under its
  key, unless it is skipped, and counts as created exactly when the key is new.
\<close>

locale replica_contract = ingest_contract persist_row
  for persist_row :: "'raw \<Rightarrow> sync_context \<Rightarrow> 'db \<Rightarrow> sync_context \<times> ('e, string \<times> 'db) result" +
  fixes view :: "'db \<Rightarrow> 'k \<Rightarrow> 'raw option"
    and key_of :: "'raw \<Rightarrow> 'k"
  assumes persist_view: "snd (persist_row raw ctx db) = Inr (oc, db') \<Longrightarrow>
      view db' = (if oc = ''skipped'' then view db else (view db)(key_of raw \<mapsto> raw))"
    and persist_created: "snd (persist_row raw ctx db) = Inr (oc, db') \<Longrightarrow> oc \<noteq> ''skipped'' \<Longrightarrow>
      oc = (if view db (key_of raw) = None then ''created'' else ''updated'')"
    and finite_view: "finite (dom (view db))"
begin

text \<open>One item: it fails or is skipped and leaves the replica, or it is entered and counted.\<close>

lemma persist_one_replica:
  assumes "persist cls = persist_row" and "persist_one exc_text cls raw ctx db = (ctx', db')"
  obtains (kept) "view db' = view db" "created ctx' = created ctx" "updated ctx' = updated ctx"
      "skipped ctx' + errors ctx' = Suc (skipped ctx + errors ctx)"
  | (entered) "view db' = (view db)(key_of raw \<mapsto> raw)"
      "created ctx' = created ctx + (if view db (key_of raw) = None then 1 else 0)"
      "created ctx' + updated ctx' = Suc (created ctx + updated ctx)"
      "skipped ctx' + errors ctx' = skipped ctx + errors ctx"
proof -
  let ?ctx = "ctx\<lparr>fetched := fetched ctx + 1\<rparr>"
  obtain cur where frame: "fst (persist_row raw ?ctx db) = ?ctx\<lparr>cursor_after := cur\<rparr>"
    using persist_frame[of raw ?ctx db] by blast
  show thesis
  proof (cases "snd (persist_row raw ?ctx db)")
    case (Inl e)
    then have "ctx' = record_error exc_text e (?ctx\<lparr>cursor_after := cur\<rparr>)" "db' = db"
      using assms frame by (auto simp: persist_one_def split: prod.splits)
    then show thesis by (intro kept) simp_all
  next
    case (Inr x)
    then obtain oc db1 where r: "snd (persist_row raw ?ctx db) = Inr (oc, db1)" by (metis surj_pair)
    then have ctx': "ctx' = count_outcome oc (?ctx\<lparr>cursor_after := cur\<rparr>)" and "db' = db1"
      using assms frame by (auto simp: persist_one_def split: prod.splits)
    note view = persist_view[OF r] persist_created[OF r] persist_outcome[OF r]
    show thesis
    proof (cases "oc = ''skipped''")
      case True
      then show thesis using view(1) \<open>db' = db1\<close> by (intro kept) (simp_all add: ctx' count_outcome_def)
    next
      case False
      then show thesis using view(1) view(2)[OF False] \<open>db' = db1\<close>
        by (intro entered) (simp_all add: ctx' count_outcome_def split: if_splits)
    qed
  qed
qed

lemma sync_loop_replica:
  assumes cls: "persist cls = persist_row"
  shows "sync_loop exc_text cls raws fe ctx db c = (r, ctx', db', c') \<Longrightarrow>
    \<exists>ok. subseq ok raws \<and> view db' = view db ++ map_of (rev (map (\<lambda>x. (key_of x, x)) ok))
      \<and> created ctx' + updated ctx' = created ctx + updated ctx + length ok
      \<and> card (dom (view db')) + created ctx = card (dom (view db)) + created ctx'
      \<and> (r = None \<longrightarrow> length raws + skipped ctx + errors ctx = length ok + skipped ctx' + errors ctx')"
proof (induction raws arbitrary: ctx db c)
  case Nil
  then show ?case by (intro exI[of _ "[]"]) simp
next
  case (Cons raw raws)
  obtain ctx1 db1 where one: "persist_one exc_text cls raw ctx db = (ctx1, db1)" by (metis surj_pair)
  obtain a c1 where lim: "(case rate_limit cls of None \<Rightarrow> (Inr (), c) | Some acquire \<Rightarrow> acquire c) = (a, c1)"
    by (metis surj_pair)
  show ?case
  proof (cases a)
    case (Inl e)
    then show ?thesis using Cons.prems lim by (intro exI[of _ "[]"]) auto
  next
    case (Inr u)
    with Cons.prems lim one have "sync_loop exc_text cls raws fe ctx1 db1 c1 = (r, ctx', db', c')" by simp
    from Cons.IH[OF this] obtain ok where ok: "subseq ok raws"
      "view db' = view db1 ++ map_of (rev (map (\<lambda>x. (key_of x, x)) ok))"
      "created ctx' + updated ctx' = created ctx1 + updated ctx1 + length ok"
      "card (dom (view db')) + created ctx1 = card (dom (view db1)) + created ctx'"
      "r = None \<longrightarrow> length raws + skipped ctx1 + errors ctx1 = length ok + skipped ctx' + errors ctx'"
      by blast
    from cls one show ?thesis
    proof (cases rule: persist_one_replica)
      case kept
      with ok show ?thesis by (intro exI[of _ ok]) auto
    next
      case entered
      have "card (dom (view db1)) = card (dom (view db)) + (if view db (key_of raw) = None then 1 else 0)"
        using finite_view[of db] by (auto simp: entered(1) card_insert_if domIff)
      with ok entered show ?thesis by (intro exI[of _ "raw # ok"]) auto
    qed
  qed
qed

text \<open>The whole run: the items that went in are a subsequence of those fetched, all but the failed and skipped.\<close>

lemma run_replica:
  assumes cls: "persist cls = persist_row"
    and run: "base_sync_run exc_text tnow cls integration mode w = (out, w')"
    and fetched: "fetch cls (new_context cls integration mode (read_cursor (cursor_key cls) (cursors w))
       (fresh_id run_id (sync_runs w))) (tables w) = ((raws, fe), db0)"
    and same: "view db0 = view (tables w)"
  shows "\<exists>ok. subseq ok raws
      \<and> view (tables w') = view (tables w) ++ map_of (rev (map (\<lambda>x. (key_of x, x)) ok))
      \<and> out_created out + out_updated out = length ok
      \<and> card (dom (view (tables w'))) = card (dom (view (tables w))) + out_created out
      \<and> (out_status out \<noteq> Failed \<longrightarrow> length raws = length ok + out_skipped out + out_errors out)"
  using run
proof (rule run_unfold)
  let ?ctx = "new_context cls integration mode (read_cursor (cursor_key cls) (cursors w)) (fresh_id run_id (sync_runs w))"
  fix raws1 fe1 db1 r ctx db c
  assume "sync_loop exc_text cls raws1 fe1 ?ctx db1 (env w) = (r, ctx, db, c)"
    and "fetch cls ?ctx (tables w) = ((raws1, fe1), db1)"
    and outs: "tables w' = db" "out_created out = created ctx" "out_updated out = updated ctx" "out_skipped out = skipped ctx"
      "out_errors out = (case r of Some _ \<Rightarrow> errors ctx + 1 | None \<Rightarrow> errors ctx)"
      "out_status out = (case r of Some _ \<Rightarrow> Failed | None \<Rightarrow> if errors ctx = 0 then Completed else Partial_run)"
  then have "sync_loop exc_text cls raws fe ?ctx db0 (env w) = (r, ctx, db, c)"
    using fetched by simp
  from sync_loop_replica[OF cls this] same show ?thesis
    by (elim exE, intro exI) (auto simp: outs new_context_def split: option.splits)
qed

lemma sync_loop_never_skips:
  assumes "persist cls = persist_row" "\<And>raw ctx db db'. snd (persist_row raw ctx db) \<noteq> Inr (''skipped'', db')"
  shows "sync_loop exc_text cls raws fe ctx db c = (r, ctx', db', c') \<Longrightarrow> skipped ctx' = skipped ctx"
proof (induction raws arbitrary: ctx db c)
  case (Cons raw raws)
  obtain ctx1 db1 where one: "persist_one exc_text cls raw ctx db = (ctx1, db1)" by (metis surj_pair)
  obtain cur where frame: "fst (persist_row raw (ctx\<lparr>fetched := fetched ctx + 1\<rparr>) db)
      = ctx\<lparr>fetched := fetched ctx + 1, cursor_after := cur\<rparr>"
    using persist_frame[of raw "ctx\<lparr>fetched := fetched ctx + 1\<rparr>" db] by blast
  have "\<forall>db'. snd (persist_row raw (ctx\<lparr>fetched := fetched ctx + 1\<rparr>) db) \<noteq> Inr (''skipped'', db')"
    using assms(2) by blast
  then have "skipped ctx1 = skipped ctx"
    using one frame assms(1)
    by (auto simp: persist_one_def count_outcome_def split: prod.splits sum.splits)
  moreover obtain a c1 where lim: "(case rate_limit cls of None \<Rightarrow> (Inr (), c) | Some acquire \<Rightarrow> acquire c) = (a, c1)"
    by (metis surj_pair)
  ultimately show ?case using Cons one by (cases a) auto
qed simp

lemma run_never_skips:
  assumes "persist cls = persist_row" "\<And>raw ctx db db'. snd (persist_row raw ctx db) \<noteq> Inr (''skipped'', db')"
    and "base_sync_run exc_text tnow cls integration mode w = (out, w')"
  shows "out_skipped out = 0"
  using assms(3) by (rule run_unfold) (simp add: sync_loop_never_skips[OF assms(1,2)] new_context_def)

end

section \<open>A subclass for the witnesses\<close>

text \<open>It stores integers, and raises on negative ones; its generator yields the items given.\<close>

definition sample_class :: "int list \<Rightarrow> string option \<Rightarrow> (int, int list, unit, string) sync_class" where
  "sample_class items fe =
     \<lparr>provider = ''p'', resource = ''r'', rate_limit = None, cursor_source = [],
      fetch = (\<lambda>ctx db. ((items, fe), db)),
      persist = (\<lambda>raw ctx db. (ctx\<lparr>cursor_after := ''c''\<rparr>,
        if raw < 0 then Inl ''ValueError: negative'' else Inr (''created'', raw # db)))\<rparr>"

definition sample_world :: "(int list, unit) sync_world" where
  "sample_world = \<lparr>tables = [], sync_runs = [], cursors = [], env = ()\<rparr>"

interpretation sample: ingest_contract "persist (sample_class items fe)"
  by unfold_locales (auto simp: sample_class_def split: if_splits)

section \<open>Properties\<close>

text \<open>
  C2. The books of a run. Every run adds exactly one \<open>SyncRun\<close> row, under a new key, and touches no
  other; the row is finished, has the outcome's status and its counters of fetched, created, updated and
  skipped items, and its message fits the 1000 characters. Its fetched items are the created, updated, skipped and
  failed ones: all that \<open>fetch\<close> yielded, or, in a run that ended \<open>FAILED\<close>, no more than those. The outcome
  counts the errors of the row, and one more when the run \<open>FAILED\<close>. It is
  \<open>COMPLETED\<close> only without row errors, \<open>PARTIAL\<close> only with some.
\<close>

theorem run_accounting:
  assumes "ingest_contract (persist cls)"
    and "fetch cls (new_context cls integration mode (read_cursor (cursor_key cls) (cursors w)) (fresh_id run_id (sync_runs w)))
      (tables w) = ((raws, fe), db0)"
    and "base_sync_run exc_text tnow cls integration mode w = (out, w')"
  shows "\<exists>row. sync_runs w' = sync_runs w @ [row] \<and> run_id row \<notin> run_id ` set (sync_runs w)
    \<and> finished_at row \<noteq> None \<and> run_status row = out_status out
    \<and> records_fetched row = out_fetched out \<and> records_created row = out_created out
    \<and> records_updated row = out_updated out \<and> records_skipped row = out_skipped out
    \<and> records_fetched row = records_created row + records_updated row + records_skipped row + errors_count row
    \<and> records_fetched row \<le> length raws \<and> (out_status out \<noteq> Failed \<longrightarrow> records_fetched row = length raws)
    \<and> out_errors out = errors_count row + (if out_status out = Failed then 1 else 0)
    \<and> length (error_message row) \<le> 1000
    \<and> (out_status out = Completed \<and> errors_count row = 0
       \<or> out_status out = Partial_run \<and> errors_count row > 0 \<or> out_status out = Failed)"
proof -
  from assms(3) show ?thesis
  proof (rule run_unfold)
    fix raws' fe' db0' r ctx db c
    assume *: "sync_loop exc_text cls raws' fe' (new_context cls integration mode
          (read_cursor (cursor_key cls) (cursors w)) (fresh_id run_id (sync_runs w)))
          db0' (env w) = (r, ctx, db, c)"
      and f: "fetch cls (new_context cls integration mode (read_cursor (cursor_key cls) (cursors w))
          (fresh_id run_id (sync_runs w))) (tables w) = ((raws', fe'), db0')"
      and out: "out_status out = (case r of Some _ \<Rightarrow> Failed | None \<Rightarrow> if errors ctx = 0 then Completed else Partial_run)"
        "out_errors out = (case r of Some _ \<Rightarrow> errors ctx + 1 | None \<Rightarrow> errors ctx)"
        "out_fetched out = fetched ctx" "out_created out = created ctx" "out_updated out = updated ctx"
        "out_skipped out = skipped ctx"
      and row: "\<exists>row. sync_runs w' = sync_runs w @ [row] \<and> run_id row = fresh_id run_id (sync_runs w)
       \<and> run_status row = out_status out \<and> finished_at row = Some (tnow c)
       \<and> started_at row = Some (tnow (env w)) \<and> length (error_message row) \<le> 1000
       \<and> records_fetched row = fetched ctx \<and> records_created row = created ctx
       \<and> records_updated row = updated ctx \<and> records_skipped row = skipped ctx
       \<and> errors_count row = errors ctx \<and> run_cursor_after row = cursor_after ctx"
    have raws: "raws' = raws" using f assms(2) by simp
    have "balanced ctx" and count: "fetched ctx \<le> length raws" "r = None \<longrightarrow> fetched ctx = length raws"
      using ingest_contract.sync_loop_balanced[OF assms(1) refl *] by (simp_all add: raws)
    then have sum: "fetched ctx = created ctx + updated ctx + skipped ctx + errors ctx"
      by (simp only: balanced_def)
    from row obtain row' where row': "sync_runs w' = sync_runs w @ [row']"
      "run_id row' = fresh_id run_id (sync_runs w)" "run_status row' = out_status out"
      "finished_at row' = Some (tnow c)" "length (error_message row') \<le> 1000"
      "records_fetched row' = fetched ctx" "records_created row' = created ctx"
      "records_updated row' = updated ctx" "records_skipped row' = skipped ctx"
      "errors_count row' = errors ctx" by blast
    show ?thesis
      by (intro exI[of _ row'], cases r) (use count in \<open>simp_all add: row' out fresh_id_notin sum\<close>)
  qed
qed

theorem run_accounting_witness:
  "\<exists>out w' row. base_sync_run id (\<lambda>_. 9) (sample_class [3, -1, 4] None) 1 Incremental sample_world = (out, w')
    \<and> sync_runs w' = [row] \<and> records_fetched row = 3 \<and> errors_count row = 1 \<and> out_status out = Partial_run"
proof -
  obtain out w' where run: "base_sync_run id (\<lambda>_. 9) (sample_class [3, -1, 4] None) 1 Incremental sample_world = (out, w')"
    by (metis surj_pair)
  have f: "fetch (sample_class [3, -1, 4] None) ctx (tables sample_world) = (([3, -1, 4], None), [])" for ctx
    by (simp add: sample_class_def sample_world_def)
  from run_accounting[OF sample.ingest_contract_axioms f run] run show ?thesis
    by (auto simp: sample_class_def sample_world_def base_sync_run_def Let_def new_run_def new_context_def
        persist_one_def count_outcome_def record_error_def finalize_run_def save_row_def)
qed

lemma read_write_cursor:
  "read_cursor source (write_cursor key v t rows) = (if source = key then v else read_cursor source rows)"
  by (simp add: read_cursor_def write_cursor_def cursor_table.lookup_upsert_if mk_cursor_def upd_cursor_def
      split: option.splits)

text \<open>
  C29. Cursors. A failed run leaves every cursor as it was, so the next run starts where this one
  did. A run that is not failed writes exactly its own key, and only when some item set
  \<open>cursor_after\<close>; the cursor then is that value, also when the run is \<open>PARTIAL\<close>.
\<close>

theorem run_cursors:
  assumes "base_sync_run exc_text tnow cls integration mode w = (out, w')"
  shows "read_cursor source (cursors w') =
    (if source = cursor_key cls \<and> out_status out \<noteq> Failed \<and> out_cursor_after out \<noteq> []
     then out_cursor_after out else read_cursor source (cursors w))"
  using assms by (elim run_unfold) (auto simp: read_write_cursor split: option.splits if_splits)

theorem run_cursors_witness:
  "\<exists>out w'. base_sync_run id (\<lambda>_. 9) (sample_class [3, -1, 4] None) 1 Incremental sample_world = (out, w')
    \<and> read_cursor ''p.r'' (cursors w') = ''c''"
proof -
  obtain out w' where run: "base_sync_run id (\<lambda>_. 9) (sample_class [3, -1, 4] None) 1 Incremental sample_world = (out, w')"
    by (metis surj_pair)
  have "out_status out \<noteq> Failed" "out_cursor_after out = ''c''"
    using run by (auto simp: sample_class_def sample_world_def base_sync_run_def Let_def new_run_def new_context_def
        persist_one_def count_outcome_def record_error_def)
  then show ?thesis using run run_cursors[OF run, of "''p.r''"] by (simp add: cursor_key_def sample_class_def)
qed

text \<open>
  The error count of a failed run. The outcome returned counts the exception that ended the
  run; the \<open>SyncRun\<close> row does not: \<open>run()\<close> sets \<open>errors_count\<close> to \<open>ctx.errors + 1\<close>, and
  \<open>_finalize_run\<close> then overwrites it with \<open>ctx.errors\<close>. So a run whose only error is fatal is stored
  as FAILED with zero errors.
\<close>

theorem failed_run_undercounts:
  assumes "base_sync_run exc_text tnow cls integration mode w = (out, w')" and "out_status out = Failed"
  shows "\<exists>row. sync_runs w' = sync_runs w @ [row] \<and> run_status row = Failed
    \<and> out_errors out = errors_count row + 1"
  using assms by (elim run_unfold) (auto split: option.splits if_splits)

theorem failed_run_undercounts_witness:
  "\<exists>out w' row. base_sync_run id (\<lambda>_. 9) (sample_class [3] (Some ''ReadTimeout: x'')) 1 Incremental sample_world = (out, w')
    \<and> sync_runs w' = [row] \<and> run_status row = Failed \<and> errors_count row = 0 \<and> out_errors out = 1"
proof -
  obtain out w' where run: "base_sync_run id (\<lambda>_. 9) (sample_class [3] (Some ''ReadTimeout: x'')) 1 Incremental sample_world = (out, w')"
    by (metis surj_pair)
  have f: "out_status out = Failed" "out_errors out = 1"
    using run by (auto simp: sample_class_def sample_world_def base_sync_run_def Let_def new_run_def new_context_def
        persist_one_def count_outcome_def)
  from failed_run_undercounts[OF run f(1)] run f show ?thesis by (auto simp: sample_world_def)
qed

end
