(* ===== verification/Difflib.thy ===== *)
theory Difflib
  imports Prelude
begin

text \<open>
  \<open>difflib.SequenceMatcher(None, a, b).ratio()\<close> of the Python standard library, which the identity
  resolver scores names with: the longest matching block (the earliest in \<open>a\<close>, then in \<open>b\<close>), the
  same on the two sides of it, and twice the matched size over the two lengths. \<open>popular\<close> is the
  automatic junk rule for \<open>b\<close> of 200 or more characters. Sizes are exact, and the ratio is a
  rational: for two names it orders and compares with 0.85 as the rounded float does.
\<close>

definition popular :: "'a list \<Rightarrow> 'a \<Rightarrow> bool" where
  "popular b c \<longleftrightarrow> 200 \<le> length b \<and> length b div 100 + 1 < count_list b c"

text \<open>One character of \<open>a\<close> against its places in \<open>b\<close>: \<open>j2len j\<close> is the run ending at \<open>j\<close>.\<close>

fun longest_row ::
  "nat \<Rightarrow> (nat \<Rightarrow> nat) \<Rightarrow> nat list \<Rightarrow> (nat \<Rightarrow> nat) \<Rightarrow> nat \<times> nat \<times> nat \<Rightarrow> (nat \<Rightarrow> nat) \<times> nat \<times> nat \<times> nat" where
  "longest_row i j2len [] newj2len best = (newj2len, best)"
| "longest_row i j2len (j # js) newj2len (besti, bestj, bestsize) =
     (let k = (if j = 0 then 0 else j2len (j - 1)) + 1
      in longest_row i j2len js (newj2len(j := k))
           (if k > bestsize then (Suc i - k, Suc j - k, k) else (besti, bestj, bestsize)))"

fun longest_rows ::
  "('a \<Rightarrow> bool) \<Rightarrow> 'a list \<Rightarrow> nat \<Rightarrow> 'a list \<Rightarrow> (nat \<Rightarrow> nat) \<Rightarrow> nat \<times> nat \<times> nat \<Rightarrow> nat \<times> nat \<times> nat" where
  "longest_rows pop ys i [] j2len best = best"
| "longest_rows pop ys i (x # xs) j2len best =
     (let js = (if pop x then [] else filter (\<lambda>j. ys ! j = x) [0..<length ys]);
          (newj2len, best') = longest_row i j2len js (\<lambda>_. 0) best
      in longest_rows pop ys (Suc i) xs newj2len best')"

text \<open>The block is extended over equal characters on both sides, popular ones included.\<close>

fun extend_left :: "'a list \<Rightarrow> 'a list \<Rightarrow> nat \<Rightarrow> nat \<Rightarrow> nat \<Rightarrow> nat \<times> nat \<times> nat" where
  "extend_left xs ys (Suc i) (Suc j) k =
     (if xs ! i = ys ! j then extend_left xs ys i j (Suc k) else (Suc i, Suc j, k))"
| "extend_left xs ys i j k = (i, j, k)"

function extend_right :: "'a list \<Rightarrow> 'a list \<Rightarrow> nat \<Rightarrow> nat \<Rightarrow> nat \<Rightarrow> nat" where
  "extend_right xs ys i j k =
     (if i + k < length xs \<and> j + k < length ys \<and> xs ! (i + k) = ys ! (j + k)
      then extend_right xs ys i j (Suc k) else k)"
  by pat_completeness auto
termination
  by (relation "measure (\<lambda>(xs, ys, i, j, k). length xs - (i + k))") auto

declare extend_right.simps [simp del]

definition find_longest_match :: "('a \<Rightarrow> bool) \<Rightarrow> 'a list \<Rightarrow> 'a list \<Rightarrow> nat \<times> nat \<times> nat" where
  "find_longest_match pop xs ys =
     (let (i, j, k) = longest_rows pop ys 0 xs (\<lambda>_. 0) (0, 0, 0);
          (i, j, k) = extend_left xs ys i j k
      in (i, j, extend_right xs ys i j k))"

section \<open>The block lies in both strings\<close>

definition in_box :: "nat \<Rightarrow> nat \<Rightarrow> nat \<times> nat \<times> nat \<Rightarrow> bool" where
  "in_box m n best \<longleftrightarrow> (case best of (i, j, k) \<Rightarrow> i + k \<le> m \<and> j + k \<le> n)"

lemma longest_row_box:
  "longest_row i j2len js new best = (new', best') \<Longrightarrow> in_box m n best \<Longrightarrow> i < m \<Longrightarrow>
     (\<forall>j \<in> set js. j < n) \<Longrightarrow> (\<forall>j. j2len j \<le> Suc j \<and> j2len j \<le> i) \<Longrightarrow> (\<forall>j. new j \<le> Suc j \<and> new j \<le> Suc i) \<Longrightarrow>
     in_box m n best' \<and> (\<forall>j. new' j \<le> Suc j \<and> new' j \<le> Suc i)"
proof (induction i j2len js new best rule: longest_row.induct)
  case (1 i j2len new best)
  then show ?case by simp
next
  case (2 i j2len j js new bi bj bs)
  define k where "k = (if j = 0 then 0 else j2len (j - 1)) + 1"
  have k: "k \<le> Suc j" "k \<le> Suc i" using "2.prems"(5) by (cases j; auto simp: k_def)+
  have box: "in_box m n (if k > bs then (Suc i - k, Suc j - k, k) else (bi, bj, bs))"
    using "2.prems"(2,3,4) k by (auto simp: in_box_def)
  have new: "\<forall>j'. (new(j := k)) j' \<le> Suc j' \<and> (new(j := k)) j' \<le> Suc i"
    using "2.prems"(6) k unfolding fun_upd_apply by auto
  have loop: "longest_row i j2len js (new(j := k)) (if k > bs then (Suc i - k, Suc j - k, k) else (bi, bj, bs))
      = (new', best')"
    using "2.prems"(1) unfolding longest_row.simps Let_def k_def .
  have js: "\<forall>j \<in> set js. j < n" using "2.prems"(4) by simp
  show ?case by (rule "2.IH"[OF k_def loop box "2.prems"(3) js "2.prems"(5) new])
qed

lemma longest_rows_box:
  "in_box m (length ys) best \<Longrightarrow> i + length xs \<le> m \<Longrightarrow> (\<forall>j. j2len j \<le> Suc j \<and> j2len j \<le> i) \<Longrightarrow>
     in_box m (length ys) (longest_rows pop ys i xs j2len best)"
proof (induction xs arbitrary: i j2len best)
  case Nil
  then show ?case by simp
next
  case (Cons x xs)
  let ?js = "if pop x then [] else filter (\<lambda>j. ys ! j = x) [0..<length ys]"
  obtain new best' where row: "longest_row i j2len ?js (\<lambda>_. 0) best = (new, best')" by (metis surj_pair)
  have "in_box m (length ys) best' \<and> (\<forall>j. new j \<le> Suc j \<and> new j \<le> Suc i)"
    using longest_row_box[OF row] Cons.prems by auto
  with Cons.IH[of best' "Suc i" new] Cons.prems row show ?case by simp
qed

lemma extend_left_box:
  "extend_left xs ys i j k = (i', j', k') \<Longrightarrow> i' + k' = i + k \<and> j' + k' = j + k \<and> k \<le> k'"
  by (induction xs ys i j k rule: extend_left.induct) (auto split: if_splits)

lemma extend_right_box:
  "i + k \<le> length xs \<Longrightarrow> j + k \<le> length ys \<Longrightarrow>
     i + extend_right xs ys i j k \<le> length xs \<and> j + extend_right xs ys i j k \<le> length ys
     \<and> k \<le> extend_right xs ys i j k"
proof (induction xs ys i j k rule: extend_right.induct)
  case (1 xs ys i j k)
  show ?case
  proof (cases "i + k < length xs \<and> j + k < length ys \<and> xs ! (i + k) = ys ! (j + k)")
    case True
    then have "extend_right xs ys i j k = extend_right xs ys i j (Suc k)"
      by (subst extend_right.simps) simp
    with "1.IH"[OF True] True show ?thesis by auto
  next
    case False
    then have "extend_right xs ys i j k = k" by (subst extend_right.simps) auto
    with "1.prems" show ?thesis by simp
  qed
qed

lemma find_longest_match_box:
  assumes "find_longest_match pop xs ys = (i, j, k)"
  shows "i + k \<le> length xs \<and> j + k \<le> length ys"
proof -
  obtain i0 j0 k0 where r: "longest_rows pop ys 0 xs (\<lambda>_. 0) (0, 0, 0) = (i0, j0, k0)" by (metis prod_cases3)
  have "in_box (length xs) (length ys) (i0, j0, k0)"
    unfolding r [symmetric] by (rule longest_rows_box) (auto simp: in_box_def)
  then have b0: "i0 + k0 \<le> length xs" "j0 + k0 \<le> length ys" by (auto simp: in_box_def)
  obtain i1 j1 k1 where l: "extend_left xs ys i0 j0 k0 = (i1, j1, k1)" by (metis prod_cases3)
  with b0 extend_left_box[OF l] have "i1 + k1 \<le> length xs" "j1 + k1 \<le> length ys" by auto
  with assms r l extend_right_box[of i1 k1 xs j1 ys] show ?thesis
    by (auto simp: find_longest_match_def)
qed

section \<open>Matching blocks and ratio\<close>

function matched :: "('a \<Rightarrow> bool) \<Rightarrow> 'a list \<Rightarrow> 'a list \<Rightarrow> nat" where
  "matched pop xs ys =
     (case find_longest_match pop xs ys of
        (i, j, 0) \<Rightarrow> 0
      | (i, j, Suc k) \<Rightarrow>
          Suc k + matched pop (take i xs) (take j ys)
            + matched pop (drop (i + Suc k) xs) (drop (j + Suc k) ys))"
  by pat_completeness auto
termination
proof (relation "measure (\<lambda>(pop, xs, ys). length xs)", goal_cases)
  case 1
  show ?case by simp
next
  case (2 pop xs ys i p j n k)
  then show ?case using find_longest_match_box[of pop xs ys i j "Suc k"] by auto
next
  case (3 pop xs ys i p j n k)
  then show ?case using find_longest_match_box[of pop xs ys i j "Suc k"] by auto
qed

declare matched.simps [simp del]

text \<open>Its evaluation takes the block found apart before it recurs.\<close>

fun matched_at :: "('a list \<Rightarrow> 'a list \<Rightarrow> nat) \<Rightarrow> 'a list \<Rightarrow> 'a list \<Rightarrow> nat \<times> nat \<times> nat \<Rightarrow> nat" where
  "matched_at f xs ys (i, j, 0) = 0"
| "matched_at f xs ys (i, j, Suc k) =
     Suc k + f (take i xs) (take j ys) + f (drop (i + Suc k) xs) (drop (j + Suc k) ys)"

lemma matched_code [code]:
  "matched pop xs ys = matched_at (matched pop) xs ys (find_longest_match pop xs ys)"
  by (subst matched.simps) (auto split: prod.split nat.split)

fun extend_right_at :: "'a list \<Rightarrow> 'a list \<Rightarrow> nat \<times> nat \<times> nat \<Rightarrow> nat \<times> nat \<times> nat" where
  "extend_right_at xs ys (i, j, k) = (i, j, extend_right xs ys i j k)"

fun extend_left_at :: "'a list \<Rightarrow> 'a list \<Rightarrow> nat \<times> nat \<times> nat \<Rightarrow> nat \<times> nat \<times> nat" where
  "extend_left_at xs ys (i, j, k) = extend_left xs ys i j k"

lemma find_longest_match_code [code]:
  "find_longest_match pop xs ys =
     extend_right_at xs ys (extend_left_at xs ys (longest_rows pop ys 0 xs (\<lambda>_. 0) (0, 0, 0)))"
  by (simp add: find_longest_match_def split: prod.split)

definition ratio :: "'a list \<Rightarrow> 'a list \<Rightarrow> rat" where
  "ratio a b =
     (if a = [] \<and> b = [] then 1
      else 2 * of_nat (matched (popular b) a b) / of_nat (length a + length b))"

lemma matched_le: "matched pop xs ys \<le> min (length xs) (length ys)"
proof (induction pop xs ys rule: matched.induct)
  case (1 pop xs ys)
  obtain i j k where m: "find_longest_match pop xs ys = (i, j, k)" by (metis prod_cases3)
  show ?case
  proof (cases k)
    case 0
    with m show ?thesis by (subst matched.simps) simp
  next
    case (Suc k')
    have "matched pop (take i xs) (take j ys) \<le> min i j"
      using "1.IH"(1)[OF m[symmetric] refl] Suc by (metis length_take min.assoc min.boundedE min.cobounded1 min.bounded_iff order.trans refl)
    moreover have "matched pop (drop (i + Suc k') xs) (drop (j + Suc k') ys)
        \<le> min (length xs - (i + Suc k')) (length ys - (j + Suc k'))"
      using "1.IH"(2)[OF m[symmetric] refl] Suc by auto
    moreover have "i + Suc k' \<le> length xs" "j + Suc k' \<le> length ys"
      using find_longest_match_box[OF m] Suc by auto
    ultimately show ?thesis using m Suc by (subst matched.simps) auto
  qed
qed

lemma ratio_bounds: "0 \<le> ratio a b \<and> ratio a b \<le> 1"
proof (cases "a = [] \<and> b = []")
  case False
  have "2 * matched (popular b) a b \<le> length a + length b"
    using matched_le[of "popular b" a b] by simp
  then have "2 * of_nat (matched (popular b) a b) \<le> (of_nat (length a + length b) :: rat)"
    by (metis of_nat_le_iff of_nat_mult of_nat_numeral)
  with False show ?thesis by (auto simp: ratio_def divide_le_eq)
qed (simp add: ratio_def)

end
