(* ===== verification/Identity.thy ===== *)
theory Identity
  imports Difflib Tables
begin

text \<open>
  The identity registry of \<open>apps/identity/models.py\<close> and the resolver of \<open>apps/identity/services.py\<close>,
  with the connector hook \<open>_framework/identity_hook.py\<close>. Rows keep the fields the code reads or
  writes (the automatic timestamps of the master rows and the validity dates of a role are left
  out); \<open>PersonIdentity\<close> and \<open>OrganizationIdentity\<close> have the same columns but for the name of the
  foreign key, and share one record. A foreign key is the primary key of the row it names. The
  \<open>TextChoices\<close> are the strings stored. \<open>wall\<close> is what \<open>timezone.now()\<close> returns.
\<close>

section \<open>Models\<close>

abbreviation (input) EMAIL :: string where "EMAIL \<equiv> ''email''"
abbreviation (input) PHONE :: string where "PHONE \<equiv> ''phone''"
abbreviation (input) SLACK_ID :: string where "SLACK_ID \<equiv> ''slack_id''"
abbreviation (input) ICO :: string where "ICO \<equiv> ''ico''"
abbreviation (input) DIC :: string where "DIC \<equiv> ''dic''"
abbreviation (input) DOMAIN :: string where "DOMAIN \<equiv> ''domain''"

datatype match_method =
  EMAIL_EXACT | IDENTITY_EXACT | NAME_DOMAIN_FUZZY | NAME_COMPANY_FUZZY | AI_MATCH | SLACK_LOOKUP | MANUAL

record organization =
  org_id :: nat
  org_name :: string
  legal_name :: string
  org_type :: string
  ico :: string
  dic :: string
  primary_domain :: string
  country :: string
  org_confidence :: rat
  org_merged_into :: "nat option"

record person =
  person_id :: nat
  display_name :: string
  first_name :: string
  last_name :: string
  primary_email :: string
  person_type :: string
  person_confidence :: rat
  person_merged_into :: "nat option"

record identity_row =
  owner :: nat
  identity_type :: string
  identity_value :: string
  source_system :: string
  verified :: bool
  identity_confidence :: rat
  first_seen :: rat
  last_seen :: rat

record role_row =
  role_person :: nat
  role_organization :: nat
  role :: string
  is_primary :: bool
  role_source :: string

record registry =
  persons :: "person list"
  organizations :: "organization list"
  person_identities :: "identity_row list"
  organization_identities :: "identity_row list"
  roles :: "role_row list"
  wall :: rat

section \<open>Inbound records\<close>

record person_record =
  pr_source :: string
  pr_email :: "string option"
  pr_full_name :: "string option"
  pr_first_name :: "string option"
  pr_last_name :: "string option"
  pr_organization_name :: "string option"
  pr_person_id_in_source :: "string option"
  pr_phone :: "string option"
  pr_slack_id :: "string option"
  pr_extra_identities :: "(string \<times> string) list option"

record organization_record =
  or_source :: string
  or_name :: string
  or_ico :: "string option"
  or_dic :: "string option"
  or_primary_domain :: "string option"
  or_id_in_source :: "string option"
  or_extra_identities :: "(string \<times> string) list option"

record resolve_result =
  res_person :: "nat option"
  res_organization :: "nat option"
  matched_by :: match_method
  confidence :: rat
  created_person :: bool
  created_organization :: bool

text \<open>\<open>bool(s)\<close> and \<open>s or ""\<close> for \<open>s: str | None\<close>.\<close>

definition truthy :: "string option \<Rightarrow> bool" where
  "truthy s \<longleftrightarrow> (case s of None \<Rightarrow> False | Some t \<Rightarrow> t \<noteq> [])"

definition or_empty :: "string option \<Rightarrow> string" where
  "or_empty s = (case s of None \<Rightarrow> [] | Some t \<Rightarrow> t)"

definition norm_name :: "string \<Rightarrow> string" where
  "norm_name s = str_lower (str_strip s)"

definition similarity :: "string \<Rightarrow> string \<Rightarrow> rat" where
  "similarity a b = ratio (norm_name a) (norm_name b)"

definition identity_type_for_source_person :: "string \<Rightarrow> string" where
  "identity_type_for_source_person source =
     (if source = ''pipedrive'' then ''pipedrive_person_id''
      else if source = ''fapi'' then ''fapi_customer_id''
      else if source = ''br'' then ''br_user_id''
      else if source = ''slack'' then SLACK_ID
      else if source = ''google'' then ''google_id''
      else EMAIL)"

definition identity_type_for_source_org :: "string \<Rightarrow> string" where
  "identity_type_for_source_org source =
     (if source = ''pipedrive'' then ''pipedrive_org_id''
      else if source = ''fapi'' then ''fapi_customer_id''
      else DOMAIN)"

definition collect_person_identities :: "person_record \<Rightarrow> (string \<times> string) list" where
  "collect_person_identities r =
     (if truthy (pr_email r) then [(EMAIL, str_lower (or_empty (pr_email r)))] else [])
     @ (if truthy (pr_slack_id r) then [(SLACK_ID, or_empty (pr_slack_id r))] else [])
     @ (if truthy (pr_phone r) then [(PHONE, or_empty (pr_phone r))] else [])
     @ (if truthy (pr_person_id_in_source r)
        then [(identity_type_for_source_person (pr_source r), or_empty (pr_person_id_in_source r))] else [])
     @ (case pr_extra_identities r of None \<Rightarrow> [] | Some xs \<Rightarrow> xs)"

definition collect_org_identities :: "organization_record \<Rightarrow> (string \<times> string) list" where
  "collect_org_identities r =
     (if truthy (or_ico r) then [(ICO, or_empty (or_ico r))] else [])
     @ (if truthy (or_dic r) then [(DIC, or_empty (or_dic r))] else [])
     @ (if truthy (or_primary_domain r) then [(DOMAIN, str_lower (or_empty (or_primary_domain r)))] else [])
     @ (if truthy (or_id_in_source r)
        then [(identity_type_for_source_org (or_source r), or_empty (or_id_in_source r))] else [])
     @ (case or_extra_identities r of None \<Rightarrow> [] | Some xs \<Rightarrow> xs)"

section \<open>Identity rows\<close>

definition identity_key :: "identity_row \<Rightarrow> string \<times> string" where
  "identity_key r = (identity_type r, identity_value r)"

text \<open>\<open>defaults\<close> of \<open>_upsert_identities\<close>: the owner, the source and the time.\<close>

definition mk_identity :: "nat \<times> string \<times> rat \<Rightarrow> string \<times> string \<Rightarrow> identity_row" where
  "mk_identity d k = (case d of (who, source, t) \<Rightarrow>
     \<lparr>owner = who, identity_type = fst k, identity_value = snd k, source_system = source,
      verified = False, identity_confidence = 1, first_seen = t, last_seen = t\<rparr>)"

definition upd_identity :: "nat \<times> string \<times> rat \<Rightarrow> identity_row \<Rightarrow> identity_row" where
  "upd_identity d r = (case d of (who, source, t) \<Rightarrow>
     r\<lparr>owner := who, source_system := source, last_seen := t\<rparr>)"

interpretation identity_table: keyed_table identity_key mk_identity upd_identity
  by unfold_locales (auto simp: identity_key_def mk_identity_def upd_identity_def)

definition upsert_identities ::
  "nat \<Rightarrow> (string \<times> string) list \<Rightarrow> string \<Rightarrow> rat \<Rightarrow> identity_row list \<Rightarrow> identity_row list" where
  "upsert_identities who identities source t rows =
     fold (\<lambda>k rows. fst (upsert identity_key mk_identity upd_identity (who, source, t) k rows)) identities rows"

definition touch_identity :: "string \<times> string \<Rightarrow> string \<Rightarrow> rat \<Rightarrow> identity_row list \<Rightarrow> identity_row list" where
  "touch_identity k source t rows =
     map (\<lambda>r. if identity_key r = k
              then r\<lparr>last_seen := t, verified := (verified r \<or> source \<noteq> ''ai_match'')\<rparr> else r) rows"

text \<open>The loop over the identities up to the first row that exists.\<close>

fun first_match :: "(string \<times> string) list \<Rightarrow> identity_row list \<Rightarrow> identity_row option" where
  "first_match [] rows = None"
| "first_match (k # ks) rows =
     (case lookup identity_key rows k of Some r \<Rightarrow> Some r | None \<Rightarrow> first_match ks rows)"

section \<open>The resolver\<close>

definition fuzzy_name_threshold :: rat where
  "fuzzy_name_threshold = 85 / 100"

text \<open>The best scoring candidate at or above the threshold, the earliest of equals.\<close>

fun best_candidate :: "('a \<Rightarrow> rat) \<Rightarrow> 'a list \<Rightarrow> ('a \<times> rat) option \<Rightarrow> ('a \<times> rat) option" where
  "best_candidate score [] best = best"
| "best_candidate score (c # cs) best =
     best_candidate score cs
       (if score c \<ge> fuzzy_name_threshold \<and> (best = None \<or> score c > snd (the best))
        then Some (c, score c) else best)"

definition merge_fields :: "person_record \<Rightarrow> person \<Rightarrow> person" where
  "merge_fields r p =
     (let p = (if primary_email p = [] \<and> truthy (pr_email r) then p\<lparr>primary_email := or_empty (pr_email r)\<rparr> else p);
          p = (if first_name p = [] \<and> truthy (pr_first_name r) then p\<lparr>first_name := or_empty (pr_first_name r)\<rparr> else p);
          p = (if last_name p = [] \<and> truthy (pr_last_name r) then p\<lparr>last_name := or_empty (pr_last_name r)\<rparr> else p)
      in (if display_name p = [] \<and> truthy (pr_full_name r) then p\<lparr>display_name := or_empty (pr_full_name r)\<rparr> else p))"

definition merge_person_fields :: "person_record \<Rightarrow> nat \<Rightarrow> person list \<Rightarrow> person list" where
  "merge_person_fields r pid rows = map (\<lambda>p. if person_id p = pid then merge_fields r p else p) rows"

text \<open>\<open>email.split("@", 1)[-1].lower() if "@" in email else ""\<close>\<close>

definition email_domain :: "string \<Rightarrow> string" where
  "email_domain email =
     (if CHR 0x40 \<in> set email then str_lower (tl (dropWhile (\<lambda>c. c \<noteq> CHR 0x40) email)) else [])"

definition person_candidates :: "string \<Rightarrow> nat option \<Rightarrow> registry \<Rightarrow> person list" where
  "person_candidates email org db =
     filter (\<lambda>p. ends_with (CHR 0x40 # email_domain email) (str_lower (primary_email p))
        \<and> (case org of None \<Rightarrow> True
            | Some o' \<Rightarrow> \<exists>ro \<in> set (roles db). role_person ro = person_id p \<and> role_organization ro = o'))
       (persons db)"

definition target_name :: "person_record \<Rightarrow> string" where
  "target_name r =
     (if truthy (pr_full_name r) then or_empty (pr_full_name r)
      else str_strip (or_empty (pr_first_name r) @ '' '' @ or_empty (pr_last_name r)))"

definition new_person :: "person_record \<Rightarrow> nat \<Rightarrow> person" where
  "new_person r pid =
     (let name = target_name r
      in \<lparr>person_id = pid, display_name = (if name \<noteq> [] then name else or_empty (pr_email r)),
          first_name = or_empty (pr_first_name r), last_name = or_empty (pr_last_name r),
          primary_email = or_empty (pr_email r), person_type = ''contact'',
          person_confidence = 8 / 10, person_merged_into = None\<rparr>)"

definition add_role :: "nat \<Rightarrow> nat \<Rightarrow> string \<Rightarrow> string \<Rightarrow> role_row list \<Rightarrow> role_row list" where
  "add_role pid oid what source rows =
     (if \<exists>ro \<in> set rows. role_person ro = pid \<and> role_organization ro = oid \<and> role ro = what then rows
      else rows @ [\<lparr>role_person = pid, role_organization = oid, role = what, is_primary = False,
                    role_source = source\<rparr>])"

definition fuzzy_person :: "person_record \<Rightarrow> nat option \<Rightarrow> registry \<Rightarrow> (person \<times> rat) option" where
  "fuzzy_person r org db =
     (if truthy (pr_email r) \<and> (truthy (pr_full_name r) \<or> truthy (pr_first_name r) \<and> truthy (pr_last_name r))
      then best_candidate (\<lambda>c. similarity (display_name c) (target_name r))
             (take 50 (person_candidates (or_empty (pr_email r)) org db)) None
      else None)"

definition resolve_person :: "person_record \<Rightarrow> nat option \<Rightarrow> registry \<Rightarrow> resolve_result \<times> registry" where
  "resolve_person r org db =
     (let identities = collect_person_identities r
      in case first_match identities (person_identities db) of
        Some existing \<Rightarrow>
          (\<lparr>res_person = Some (owner existing), res_organization = org, matched_by = IDENTITY_EXACT,
            confidence = 1, created_person = False, created_organization = False\<rparr>,
           db\<lparr>person_identities := touch_identity (identity_key existing) (pr_source r) (wall db) (person_identities db),
              persons := merge_person_fields r (owner existing) (persons db)\<rparr>)
      | None \<Rightarrow>
        (case fuzzy_person r org db of
           Some (p, score) \<Rightarrow>
             (\<lparr>res_person = Some (person_id p), res_organization = org, matched_by = NAME_DOMAIN_FUZZY,
               confidence = score, created_person = False, created_organization = False\<rparr>,
              db\<lparr>persons := merge_person_fields r (person_id p) (persons db),
                 person_identities :=
                   upsert_identities (person_id p) identities (pr_source r) (wall db) (person_identities db)\<rparr>)
         | None \<Rightarrow>
             (let pid = fresh_id person_id (persons db)
              in (\<lparr>res_person = Some pid, res_organization = org, matched_by = MANUAL,
                   confidence = 8 / 10, created_person = True, created_organization = False\<rparr>,
                  db\<lparr>persons := persons db @ [new_person r pid],
                     person_identities :=
                       upsert_identities pid identities (pr_source r) (wall db) (person_identities db),
                     roles := (case org of None \<Rightarrow> roles db
                       | Some oid \<Rightarrow> add_role pid oid ''contact'' (pr_source r) (roles db))\<rparr>))))"

definition new_organization :: "organization_record \<Rightarrow> nat \<Rightarrow> organization" where
  "new_organization r oid =
     \<lparr>org_id = oid, org_name = or_name r, legal_name = [], org_type = ''client'', ico = or_empty (or_ico r),
      dic = or_empty (or_dic r), primary_domain = or_empty (or_primary_domain r), country = [],
      org_confidence = 8 / 10, org_merged_into = None\<rparr>"

definition fuzzy_organization :: "organization_record \<Rightarrow> registry \<Rightarrow> (organization \<times> rat) option" where
  "fuzzy_organization r db =
     best_candidate (\<lambda>c. similarity (org_name c) (norm_name (or_name r)))
       (take 200 (filter (\<lambda>c. org_merged_into c = None) (organizations db))) None"

definition resolve_organization :: "organization_record \<Rightarrow> registry \<Rightarrow> resolve_result \<times> registry" where
  "resolve_organization r db =
     (let identities = collect_org_identities r
      in case first_match identities (organization_identities db) of
        Some existing \<Rightarrow>
          (\<lparr>res_person = None, res_organization = Some (owner existing), matched_by = IDENTITY_EXACT,
            confidence = 1, created_person = False, created_organization = False\<rparr>,
           db\<lparr>organization_identities :=
                touch_identity (identity_key existing) (or_source r) (wall db) (organization_identities db)\<rparr>)
      | None \<Rightarrow>
        (case fuzzy_organization r db of
           Some (c, score) \<Rightarrow>
             (\<lparr>res_person = None, res_organization = Some (org_id c), matched_by = NAME_COMPANY_FUZZY,
               confidence = score, created_person = False, created_organization = False\<rparr>,
              db\<lparr>organization_identities :=
                   upsert_identities (org_id c) identities (or_source r) (wall db) (organization_identities db)\<rparr>)
         | None \<Rightarrow>
             (let oid = fresh_id org_id (organizations db)
              in (\<lparr>res_person = None, res_organization = Some oid, matched_by = MANUAL,
                   confidence = 8 / 10, created_person = False, created_organization = True\<rparr>,
                  db\<lparr>organizations := organizations db @ [new_organization r oid],
                     organization_identities :=
                       upsert_identities oid identities (or_source r) (wall db) (organization_identities db)\<rparr>))))"

section \<open>The connector hook\<close>

definition hook_resolve_person :: "person_record \<Rightarrow> nat option \<Rightarrow> registry \<Rightarrow> nat option \<times> registry" where
  "hook_resolve_person r org db =
     (if \<not> (truthy (pr_email r) \<or> truthy (pr_full_name r) \<or> truthy (pr_first_name r) \<or> truthy (pr_last_name r)
            \<or> truthy (pr_slack_id r) \<or> truthy (pr_person_id_in_source r))
      then (None, db)
      else (let (res, db') = resolve_person r org db in (res_person res, db')))"

definition hook_resolve_organization :: "organization_record \<Rightarrow> registry \<Rightarrow> nat option \<times> registry" where
  "hook_resolve_organization r db =
     (if or_name r = [] then (None, db)
      else (let (res, db') = resolve_organization r db in (res_organization res, db')))"

end
