(* ===== verification/Connector.thy ===== *)
theory Connector
  imports PyValues BaseSync Identity
begin

text \<open>
  What the connectors' clients and ingests share: an HTTP answer, the provenance columns of
  \<open>_framework/provenance.py\<close>, the write of a row the database may refuse, and the reading of a
  mirror table as a map from source keys to payloads.
\<close>

section \<open>HTTP answers and payload fields\<close>

record http_response =
  status_code :: nat
  body :: json

definition raise_for_status :: "http_response \<Rightarrow> (py_error, json) result" where
  "raise_for_status r = (if 200 \<le> status_code r \<and> status_code r < 300 then Inr (body r) else Inl (HTTPStatusError (status_code r)))"

text \<open>A text field, \<open>raw.get(k) or ""\<close>.\<close>

definition text_of :: "json \<Rightarrow> string \<Rightarrow> (py_error, string) result" where
  "text_of raw k = andthen (jget raw k) text_field"

text \<open>\<open>{**a, **b}\<close>, and \<open>d.get(k, default)\<close>.\<close>

definition dict_merge :: "(string \<times> json) list \<Rightarrow> (string \<times> json) list \<Rightarrow> (string \<times> json) list" where
  "dict_merge a b =
     map (\<lambda>(k, v). (k, case map_of b k of Some v' \<Rightarrow> v' | None \<Rightarrow> v)) a
     @ filter (\<lambda>(k, v). map_of a k = None) b"

definition get_default :: "(string \<times> json) list \<Rightarrow> string \<Rightarrow> json \<Rightarrow> json" where
  "get_default kvs k d = (case map_of kvs k of Some v \<Rightarrow> v | None \<Rightarrow> d)"

lemma map_of_dict_merge: "map_of (dict_merge a b) k = (case map_of b k of Some v \<Rightarrow> Some v | None \<Rightarrow> map_of a k)"
proof -
  have a: "map_of (map (\<lambda>(k, v). (k, f k v)) xs) k = map_option (f k) (map_of xs k)"
    for f :: "string \<Rightarrow> json \<Rightarrow> json" and xs
    by (induction xs) auto
  have b: "map_of (filter (\<lambda>(k, v). P k) xs) k = (if P k then map_of xs k else None)"
    for P :: "string \<Rightarrow> bool" and xs :: "(string \<times> json) list"
    by (induction xs) auto
  show ?thesis
    unfolding dict_merge_def map_add_def map_of_append a b
    by (auto split: option.split)
qed

section \<open>Integrations\<close>

text \<open>
  A row of \<open>data_access.Integration\<close>; \<open>connected_at\<close> is left out. The provider is unique.
\<close>

record integration =
  integration_id :: nat
  integration_provider :: string
  is_active :: bool
  last_sync_at :: "rat option"
  meta :: json

section \<open>Rows with provenance\<close>

record provenance =
  source_system_of :: string
  source_id :: string
  source_synced_at :: rat
  source_updated_at :: "rat option"
  raw_payload :: json
  sync_run_of :: nat

text \<open>\<open>update_or_create\<close> of a row the database may refuse.\<close>

definition store ::
  "('r \<Rightarrow> py_error option) \<Rightarrow> ('r \<Rightarrow> 'k) \<Rightarrow> ('r \<Rightarrow> 'k \<Rightarrow> 'r) \<Rightarrow> ('r \<Rightarrow> 'r \<Rightarrow> 'r) \<Rightarrow> 'r \<Rightarrow> 'r list
     \<Rightarrow> (py_error, string \<times> 'r list) result" where
  "store refuse key mk upd d rows =
     (case refuse d of Some e \<Rightarrow> Inl e
      | None \<Rightarrow> (case upsert key mk upd d (key d) rows of
          (rows', was_created) \<Rightarrow> Inr (if was_created then ''created'' else ''updated'', rows')))"

lemma store_Inr:
  "store refuse key mk upd d rows = Inr (oc, rows') \<Longrightarrow>
     rows' = fst (upsert key mk upd d (key d) rows)
     \<and> oc = (if lookup key rows (key d) = None then ''created'' else ''updated'') \<and> refuse d = None"
  by (auto simp: store_def upsert_def split: option.splits prod.splits if_splits)

text \<open>The payload view of a table, before and after a \<open>store\<close> that keeps the payload.\<close>

definition payloads :: "('r \<Rightarrow> 'k) \<Rightarrow> ('r \<Rightarrow> provenance) \<Rightarrow> 'r list \<Rightarrow> 'k \<Rightarrow> json option" where
  "payloads key prov rows k = map_option (\<lambda>r. raw_payload (prov r)) (lookup key rows k)"

lemma payloads_None: "payloads key prov rows k = None \<longleftrightarrow> lookup key rows k = None"
  by (simp add: payloads_def)

lemma finite_payloads: "finite (dom (payloads key prov rows))"
proof -
  have "dom (payloads key prov rows) \<subseteq> key ` set rows"
    using lookup_SomeD by (fastforce simp: payloads_def)
  then show ?thesis by (rule finite_subset) simp
qed

lemma payloads_store:
  assumes "store refuse key mk upd d rows = Inr (oc, rows')" "keyed_table key mk upd"
    and "\<And>k. prov (mk d k) = prov d" "\<And>r. prov (upd d r) = prov d"
  shows "payloads key prov rows' = (payloads key prov rows)(key d \<mapsto> raw_payload (prov d))"
    and "oc = (if payloads key prov rows (key d) = None then ''created'' else ''updated'')"
    and "oc \<noteq> ''skipped''" "oc \<in> {''created'', ''updated''}"
  using store_Inr[OF assms(1)]
  by (auto simp: payloads_def fun_eq_iff keyed_table.lookup_upsert_if[OF assms(2)] assms(3,4) split: option.split)

lemma refs_ok_store:
  assumes "store refuse key mk upd d rows = Inr (oc, rows')" "refs_ok f S rows" "\<And>x. f d = Some x \<Longrightarrow> x \<in> S"
    and "\<And>k. f (mk d k) = f d" "\<And>r. f (upd d r) = f d"
  shows "refs_ok f S rows'"
  using store_Inr[OF assms(1)] refs_ok_upsert[where f = f and mk = mk and upd = upd and d = d, OF assms(2-5)] by simp

lemma unique_store:
  assumes "store refuse key mk upd d rows = Inr (oc, rows')" "keyed_table key mk upd" "unique_keys key rows"
  shows "unique_keys key rows'" "key ` set rows \<subseteq> key ` set rows'"
  using store_Inr[OF assms(1)] keyed_table.unique_upsert[OF assms(2,3)] keyed_table.keys_upsert[OF assms(2)]
  by auto

text \<open>A sync that leaves the context alone keeps the frame of the contract.\<close>

lemma same_context: "\<exists>cur. ctx = ctx\<lparr>cursor_after := cur\<rparr>" for ctx :: sync_context
  by (intro exI[of _ "cursor_after ctx"]) simp

end
