(* ===== verification/PipedriveClient.thy ===== *)
theory PipedriveClient
  imports Connector
begin

text \<open>
  The Pipedrive REST client of \<open>connectors/pipedrive/client.py\<close> with the token refresh of
  \<open>integration.py\<close>. The service is a parameter: \<open>send path params token\<close> is an authorized GET and
  \<open>token_post refresh_token\<close> the POST to the OAuth token endpoint, both on the state \<open>'s\<close> of the
  world outside. The client keeps the decrypted tokens; \<open>stored_tokens\<close> is what the credential row
  holds. The paging loops run on fuel, and \<open>None\<close> is a loop that has not ended.
\<close>

record 's pd_client =
  world :: 's
  tokens :: "(string \<times> json) list"
  stored_tokens :: "(string \<times> json) list"

record 's pd_api =
  send :: "string \<Rightarrow> (string \<times> json) list \<Rightarrow> string \<Rightarrow> 's \<Rightarrow> http_response \<times> 's"
  token_post :: "string \<Rightarrow> 's \<Rightarrow> http_response \<times> 's"
  client_id :: string
  client_secret :: string

text \<open>
  \<open>_credential\<close> and the constructor: \<open>cred\<close> is the credential row's decrypted tokens, if there is one.
\<close>

definition open_client :: "(string \<times> json) list option \<Rightarrow> 's \<Rightarrow> (py_error, 's pd_client) result" where
  "open_client cred s =
     (case cred of None \<Rightarrow> Inl ValueError
      | Some ts \<Rightarrow> Inr \<lparr>world = s, tokens = ts, stored_tokens = ts\<rparr>)"

section \<open>Tokens\<close>

text \<open>The new tokens a payload of the token endpoint gives.\<close>

fun tokens_of_payload :: "json \<Rightarrow> json \<Rightarrow> (string \<times> json) list \<Rightarrow> (py_error, (string \<times> json) list) result" where
  "tokens_of_payload (JObj payload) refresh old =
     andthen (jindex (JObj payload) ''access_token'') (\<lambda>access.
       Inr [(''access_token'', access),
            (''refresh_token'', get_default payload ''refresh_token'' refresh),
            (''expires_in'', dict_get payload ''expires_in''),
            (''api_domain'', get_default payload ''api_domain'' (dict_get old ''api_domain'')),
            (''scope'', get_default payload ''scope'' (dict_get old ''scope''))])"
| "tokens_of_payload _ refresh old = Inl TypeError"

definition refresh_tokens ::
  "'s pd_api \<Rightarrow> (string \<times> json) list \<Rightarrow> 's \<Rightarrow> (py_error, (string \<times> json) list) result \<times> 's" where
  "refresh_tokens api old s =
     (let refresh = dict_get old ''refresh_token''
      in if \<not> truth refresh then (Inl (RuntimeError ''Pipedrive credential missing refresh_token''), s)
         else if client_id api = [] \<or> client_secret api = []
         then (Inl (RuntimeError ''PIPEDRIVE_CLIENT_ID / PIPEDRIVE_CLIENT_SECRET not set''), s)
         else (case token_post api (py_str refresh) s of
           (resp, s') \<Rightarrow> (andthen (raise_for_status resp) (\<lambda>payload. tokens_of_payload payload refresh old), s')))"

definition refresh_client :: "'s pd_api \<Rightarrow> 's pd_client \<Rightarrow> (py_error, unit) result \<times> 's pd_client" where
  "refresh_client api c =
     (case refresh_tokens api (tokens c) (world c) of
        (Inl e, s) \<Rightarrow> (Inl e, c\<lparr>world := s\<rparr>)
      | (Inr new_tokens, s) \<Rightarrow>
          (let merged = dict_merge (tokens c) new_tokens
           in (Inr (), c\<lparr>world := s, tokens := merged, stored_tokens := merged\<rparr>)))"

text \<open>The bearer token: \<open>tokens.get('access_token', '')\<close> in an f-string.\<close>

definition bearer :: "'s pd_client \<Rightarrow> string" where
  "bearer c = py_str (get_default (tokens c) ''access_token'' (JStr []))"

definition pd_send ::
  "'s pd_api \<Rightarrow> string \<Rightarrow> (string \<times> json) list \<Rightarrow> 's pd_client \<Rightarrow> http_response \<times> 's pd_client" where
  "pd_send api path params c =
     (case send api path params (bearer c) (world c) of (resp, s) \<Rightarrow> (resp, c\<lparr>world := s\<rparr>))"

definition pd_get ::
  "'s pd_api \<Rightarrow> string \<Rightarrow> (string \<times> json) list \<Rightarrow> 's pd_client \<Rightarrow> (py_error, json) result \<times> 's pd_client" where
  "pd_get api path params c =
     (case pd_send api path params c of
        (resp, c1) \<Rightarrow>
          if status_code resp = 401
          then (case refresh_client api c1 of
                  (Inl e, c2) \<Rightarrow> (Inl e, c2)
                | (Inr _, c2) \<Rightarrow>
                    (case pd_send api path params c2 of (resp', c3) \<Rightarrow> (raise_for_status resp', c3)))
          else (raise_for_status resp, c1))"

section \<open>Endpoints\<close>

text \<open>\<open>list((data or {}).get("data") or [])\<close>\<close>

definition list_data :: "json \<Rightarrow> (py_error, json list) result" where
  "list_data data =
     andthen (jget (or_else data (JObj [])) ''data'') (\<lambda>d. jiter (or_else d (JList [])))"

definition list_endpoint :: "'s pd_api \<Rightarrow> string \<Rightarrow> 's pd_client \<Rightarrow> (py_error, json list) result \<times> 's pd_client" where
  "list_endpoint api path c = (case pd_get api path [] c of (r, c') \<Rightarrow> (andthen r list_data, c'))"

definition list_pipelines :: "'s pd_api \<Rightarrow> 's pd_client \<Rightarrow> (py_error, json list) result \<times> 's pd_client" where
  "list_pipelines api = list_endpoint api ''/pipelines''"

definition list_stages :: "'s pd_api \<Rightarrow> 's pd_client \<Rightarrow> (py_error, json list) result \<times> 's pd_client" where
  "list_stages api = list_endpoint api ''/stages''"

definition list_users :: "'s pd_api \<Rightarrow> 's pd_client \<Rightarrow> (py_error, json list) result \<times> 's pd_client" where
  "list_users api = list_endpoint api ''/users''"

text \<open>The filter \<open>(d.get("update_time") or "") >= since\<close>.\<close>

definition updated_since :: "string \<Rightarrow> json \<Rightarrow> (py_error, bool) result" where
  "updated_since since d =
     andthen (jget d ''update_time'') (\<lambda>u. andthen (text_field u) (\<lambda>u. Inr (since \<le> u)))"

text \<open>
  One page: the items kept, and where the next page starts, if there is one. \<open>keep\<close> is the
  filter on the chunk.
\<close>

definition page_of ::
  "(json list \<Rightarrow> (py_error, json list) result) \<Rightarrow> int \<Rightarrow> int \<Rightarrow> json \<Rightarrow> (py_error, json list \<times> int option) result" where
  "page_of keep start page_size data =
     andthen (jget data ''data'') (\<lambda>d.
     andthen (jiter (or_else d (JList []))) (\<lambda>chunk.
     andthen (keep chunk) (\<lambda>chunk.
     andthen (jget data ''additional_data'') (\<lambda>a.
     andthen (jget (or_else a (JObj [])) ''pagination'') (\<lambda>p.
     (let pagination = or_else p (JObj [])
      in andthen (jget pagination ''more_items_in_collection'') (\<lambda>more.
         if \<not> truth more then Inr (chunk, None)
         else andthen (jget pagination ''next_start'') (\<lambda>n.
              andthen (py_int (or_else n (JInt (start + page_size)))) (\<lambda>next. Inr (chunk, Some next))))))))))"

fun page_loop ::
  "'s pd_api \<Rightarrow> string \<Rightarrow> (string \<times> json) list \<Rightarrow> (json list \<Rightarrow> (py_error, json list) result) \<Rightarrow> int
     \<Rightarrow> nat \<Rightarrow> int \<Rightarrow> json list \<Rightarrow> 's pd_client \<Rightarrow> ((py_error, json list) result \<times> 's pd_client) option" where
  "page_loop api path extra keep page_size 0 start out c = None"
| "page_loop api path extra keep page_size (Suc fuel) start out c =
     (case pd_get api path ([(''start'', JInt start), (''limit'', JInt page_size)] @ extra) c of
        (Inl e, c') \<Rightarrow> Some (Inl e, c')
      | (Inr data, c') \<Rightarrow>
          (case page_of keep start page_size data of
             Inl e \<Rightarrow> Some (Inl e, c')
           | Inr (chunk, None) \<Rightarrow> Some (Inr (out @ chunk), c')
           | Inr (chunk, Some next) \<Rightarrow> page_loop api path extra keep page_size fuel next (out @ chunk) c'))"

definition since_filter :: "string option \<Rightarrow> json list \<Rightarrow> (py_error, json list) result" where
  "since_filter since chunk =
     (case since of Some t \<Rightarrow> if t \<noteq> [] then filter_result (updated_since t) chunk else Inr chunk
      | None \<Rightarrow> Inr chunk)"

definition iter_deals ::
  "'s pd_api \<Rightarrow> nat \<Rightarrow> string option \<Rightarrow> int \<Rightarrow> 's pd_client \<Rightarrow> ((py_error, json list) result \<times> 's pd_client) option" where
  "iter_deals api fuel since page_size c =
     page_loop api ''/deals''
       ((''status'', JStr ''all_not_deleted'')
        # (case since of Some t \<Rightarrow> if t \<noteq> [] then [(''filter_id'', JStr [])] else [] | None \<Rightarrow> []))
       (since_filter since) page_size fuel 0 [] c"

definition iter_organizations ::
  "'s pd_api \<Rightarrow> nat \<Rightarrow> int \<Rightarrow> 's pd_client \<Rightarrow> ((py_error, json list) result \<times> 's pd_client) option" where
  "iter_organizations api fuel page_size c = page_loop api ''/organizations'' [] Inr page_size fuel 0 [] c"

definition iter_persons ::
  "'s pd_api \<Rightarrow> nat \<Rightarrow> int \<Rightarrow> 's pd_client \<Rightarrow> ((py_error, json list) result \<times> 's pd_client) option" where
  "iter_persons api fuel page_size c = page_loop api ''/persons'' [] Inr page_size fuel 0 [] c"

text \<open>\<open>start_date\<close> is the ISO form of the day \<open>days\<close> before today.\<close>

definition iter_activities ::
  "'s pd_api \<Rightarrow> nat \<Rightarrow> string \<Rightarrow> int \<Rightarrow> 's pd_client \<Rightarrow> ((py_error, json list) result \<times> 's pd_client) option" where
  "iter_activities api fuel start_date page_size c =
     page_loop api ''/activities'' [(''start_date'', JStr start_date)] Inr page_size fuel 0 [] c"

section \<open>Facts\<close>

lemma refresh_client_Inr:
  "refresh_client api c = (Inr u, c') \<Longrightarrow> stored_tokens c' = tokens c'"
  by (auto simp: refresh_client_def Let_def split: prod.splits sum.splits)

text \<open>Paging against a service that pages a fixed list by offset, as the API documents.\<close>

definition page_body :: "json list \<Rightarrow> nat \<Rightarrow> nat \<Rightarrow> json" where
  "page_body items start limit =
     JObj ([(''success'', JBool True),
            (''data'', if start < length items then JList (take limit (drop start items)) else JNull),
            (''additional_data'', JObj [(''pagination'', JObj (
              [(''start'', JInt (int start)), (''limit'', JInt (int limit)),
               (''more_items_in_collection'', JBool (start + limit < length items))]
              @ (if start + limit < length items then [(''next_start'', JInt (int (start + limit)))] else [])))])])"

definition serves :: "'s pd_api \<Rightarrow> string \<Rightarrow> json list \<Rightarrow> bool" where
  "serves api path items \<longleftrightarrow>
     (\<forall>start limit extra token s.
        send api path ([(''start'', JInt (int start)), (''limit'', JInt (int limit))] @ extra) token s =
          (\<lparr>status_code = 200, body = page_body items start limit\<rparr>, s))"

lemma pd_get_serves:
  "serves api path items \<Longrightarrow>
     pd_get api path ([(''start'', JInt (int start)), (''limit'', JInt (int limit))] @ extra) c =
       (Inr (page_body items start limit), c)"
  by (simp add: pd_get_def pd_send_def serves_def raise_for_status_def)

text \<open>A page body read back: its items, and the next offset.\<close>

lemma page_of_body:
  assumes "0 < limit"
  shows "page_of keep (int start) (int limit) (page_body items start limit) =
    andthen (keep (take limit (drop start items)))
      (\<lambda>chunk. Inr (chunk, if start + limit < length items then Some (int (start + limit)) else None))"
proof -
  have data: "jiter (or_else (if start < length items then JList (take limit (drop start items)) else JNull) (JList []))
      = Inr (take limit (drop start items))"
    using assms by (simp add: or_else_def)
  show ?thesis
    using data by (simp add: page_of_def page_body_def dict_get_def or_else_def Let_def)
qed

lemma page_loop_serves:
  assumes "serves api path items" "0 < limit"
    and "\<And>xs ys. keep (xs @ ys) = andthen (keep xs) (\<lambda>a. andthen (keep ys) (\<lambda>b. Inr (a @ b)))"
    and "keep (drop start items) = Inr kept" "keep [] = Inr []"
  shows "length items - start < fuel * limit \<or> length items \<le> start \<and> 0 < fuel \<Longrightarrow>
    page_loop api path extra keep (int limit) fuel (int start) out c = Some (Inr (out @ kept), c)"
  using assms(4)
proof (induction fuel arbitrary: start out kept)
  case (Suc fuel)
  have split: "drop start items = take limit (drop start items) @ drop (start + limit) items"
    by (metis add.commute append_take_drop_id drop_drop)
  obtain a b where ab: "keep (take limit (drop start items)) = Inr a" "keep (drop (start + limit) items) = Inr b"
      "kept = a @ b"
  proof -
    have "keep (take limit (drop start items) @ drop (start + limit) items) = Inr kept"
      using Suc.prems(2) unfolding split[symmetric] .
    then show thesis unfolding assms(3) andthen_Inr_iff by (auto intro: that)
  qed
  note step = page_loop.simps(2) pd_get_serves[OF assms(1)] page_of_body[OF assms(2)]
  show ?case
  proof (cases "start + limit < length items")
    case True
    then have "length items - (start + limit) < fuel * limit"
      using Suc.prems(1) by simp
    from Suc.IH[OF disjI1[OF this] ab(2), of "out @ a"] True ab show ?thesis
      by (simp only: step prod.case sum.case) simp
  next
    case False
    then have "drop (start + limit) items = []" by simp
    with ab(2) assms(5) have "b = []" by simp
    with False ab show ?thesis
      by (simp only: step prod.case sum.case) simp
  qed
qed simp

lemma filter_result_append:
  "filter_result p (xs @ ys) = andthen (filter_result p xs) (\<lambda>a. andthen (filter_result p ys) (\<lambda>b. Inr (a @ b)))"
  by (induction xs) (auto simp: andthen_def split: sum.splits)

lemma since_filter_append:
  "since_filter since (xs @ ys) = andthen (since_filter since xs) (\<lambda>a. andthen (since_filter since ys) (\<lambda>b. Inr (a @ b)))"
  by (auto simp: since_filter_def filter_result_append split: option.split)

lemma filter_result_total:
  "(\<And>x. x \<in> set xs \<Longrightarrow> \<exists>b. p x = Inr b) \<Longrightarrow> filter_result p xs = Inr (filter (\<lambda>x. p x = Inr True) xs)"
  by (induction xs) fastforce+

lemma page_loop_whole:
  assumes "serves api path items" "0 < limit" "length items < fuel * limit"
    and "\<And>xs ys. keep (xs @ ys) = andthen (keep xs) (\<lambda>a. andthen (keep ys) (\<lambda>b. Inr (a @ b)))"
    and "keep items = Inr kept" "keep [] = Inr []"
  shows "page_loop api path extra keep (int limit) fuel 0 [] c = Some (Inr kept, c)"
  using page_loop_serves[of api path items limit keep 0 kept fuel extra "[]" c] assms by simp

text \<open>
  C32. Paging is complete. Against an account that pages its items by offset, with a positive page size
  and enough rounds (one more than the number of items, divided by the page size), every listing ends
  and returns all items once, in order; \<open>iter_deals(since)\<close> returns exactly the deals whose
  \<open>update_time\<close> is at least \<open>since\<close>, and all of them when \<open>since\<close> is absent or empty.
\<close>
theorem paging_complete:
  assumes "0 < limit"
    and "serves api ''/deals'' deals" "length deals < fuel * limit"
    and "serves api ''/organizations'' orgs" "length orgs < fuel * limit"
    and "serves api ''/persons'' people" "length people < fuel * limit"
    and "serves api ''/activities'' acts" "length acts < fuel * limit"
    and "\<And>d. d \<in> set deals \<Longrightarrow> \<exists>b. updated_since since d = Inr b"
  shows "iter_organizations api fuel (int limit) c = Some (Inr orgs, c)
    \<and> iter_persons api fuel (int limit) c = Some (Inr people, c)
    \<and> iter_activities api fuel start_date (int limit) c = Some (Inr acts, c)
    \<and> iter_deals api fuel None (int limit) c = Some (Inr deals, c)
    \<and> iter_deals api fuel (Some since) (int limit) c =
        Some (Inr (if since = [] then deals else filter (\<lambda>d. updated_since since d = Inr True) deals), c)"
proof -
  have keep: "since_filter (Some since) deals =
      Inr (if since = [] then deals else filter (\<lambda>d. updated_since since d = Inr True) deals)"
    using filter_result_total[of deals "updated_since since"] assms(10) by (simp add: since_filter_def)
  have every: "since_filter None deals = Inr deals" and empty: "since_filter t [] = Inr []" for t
    by (simp_all add: since_filter_def split: option.split)
  note loop = page_loop_whole[where fuel = fuel and limit = limit and c = c, OF _ assms(1)]
  show ?thesis
    unfolding iter_organizations_def iter_persons_def iter_activities_def iter_deals_def
    using loop[OF assms(4,5), of Inr orgs] loop[OF assms(6,7), of Inr people] loop[OF assms(8,9), of Inr acts]
      loop[OF assms(2,3) since_filter_append keep empty] loop[OF assms(2,3) since_filter_append every empty]
    by simp
qed

text \<open>An account with three deals of which two are recent, paged by two.\<close>

definition sample_deal :: "int \<Rightarrow> string \<Rightarrow> json" where
  "sample_deal i t = JObj [(''id'', JInt i), (''update_time'', JStr t)]"

definition sample_page :: "json list \<Rightarrow> (string \<times> json) list \<Rightarrow> http_response" where
  "sample_page items params =
     (case params of
        (_, JInt start) # (_, JInt limit) # _ \<Rightarrow> \<lparr>status_code = 200, body = page_body items (nat start) (nat limit)\<rparr>
      | _ \<Rightarrow> \<lparr>status_code = 400, body = JNull\<rparr>)"

definition sample_deals :: "json list" where
  "sample_deals = [sample_deal 1 ''2026-01-01'', sample_deal 2 ''2026-03-01'', sample_deal 3 ''2026-02-01'']"

definition sample_api :: "unit pd_api" where
  "sample_api =
     \<lparr>send = (\<lambda>path params token s.
        (if token = ''old'' then \<lparr>status_code = 401, body = JNull\<rparr>
         else if path = ''/deals'' then sample_page sample_deals params else sample_page [] params, s)),
      token_post = (\<lambda>r s. (\<lparr>status_code = 200, body = JObj [(''access_token'', JStr ''new'')]\<rparr>, s)),
      client_id = ''id'', client_secret = ''secret''\<rparr>"

definition fresh_api :: "unit pd_api" where
  "fresh_api = sample_api\<lparr>send := (\<lambda>path params token s.
     (if path = ''/deals'' then sample_page sample_deals params else sample_page [] params, s))\<rparr>"

definition sample_client :: "unit pd_client" where
  "sample_client = \<lparr>world = (), tokens = [(''access_token'', JStr ''old''), (''refresh_token'', JStr ''r'')],
     stored_tokens = []\<rparr>"

lemma fresh_api_serves:
  "serves fresh_api ''/deals'' sample_deals"
  "path \<noteq> ''/deals'' \<Longrightarrow> serves fresh_api path []"
  by (simp_all add: serves_def fresh_api_def sample_page_def)

theorem paging_complete_witness:
  "iter_deals fresh_api 2 (Some ''2026-02-01'') 2 sample_client =
     Some (Inr [sample_deal 2 ''2026-03-01'', sample_deal 3 ''2026-02-01''], sample_client)"
proof -
  have len: "length sample_deals < 2 * 2" "length ([] :: json list) < 2 * 2"
    by (simp_all add: sample_deals_def)
  have upd: "\<exists>b. updated_since ''2026-02-01'' d = Inr b" if "d \<in> set sample_deals" for d
    using that by (auto simp: sample_deals_def sample_deal_def updated_since_def dict_get_def)
  have kept: "filter (\<lambda>d. updated_since ''2026-02-01'' d = Inr True) sample_deals =
      [sample_deal 2 ''2026-03-01'', sample_deal 3 ''2026-02-01'']"
    by code_simp
  have paths: "serves fresh_api ''/organizations'' []" "serves fresh_api ''/persons'' []"
    "serves fresh_api ''/activities'' []"
    by (simp_all add: fresh_api_serves)
  from paging_complete[OF _ fresh_api_serves(1) len(1) paths(1) len(2) paths(2) len(2) paths(3) len(2) upd,
      where c = sample_client] kept
  show ?thesis by simp
qed

text \<open>
  One refresh. A GET that is not answered with 401 is sent once and leaves the tokens alone. One
  that is answered with 401, with a refresh token at hand and a token endpoint that grants a new
  access token, is sent a second time under the new token, and its second answer is final, 401
  included; the merged tokens are saved to the credential, the new refresh token replaces the old one
  when the endpoint gives one, and every other entry stays.
\<close>
theorem get_refreshes_once:
  assumes first: "send api path params (bearer c) (world c) = (resp1, s1)"
    and post: "token_post api (py_str (dict_get (tokens c) ''refresh_token'')) s1
      = (\<lparr>status_code = 200, body = JObj payload\<rparr>, s2)"
    and cred: "truth (dict_get (tokens c) ''refresh_token'')" "client_id api \<noteq> []" "client_secret api \<noteq> []"
    and granted: "map_of payload ''access_token'' = Some (JStr access)"
    and second: "send api path params access s2 = (resp2, s3)"
  shows "case pd_get api path params c of (r, c') \<Rightarrow>
    if status_code resp1 \<noteq> 401 then r = raise_for_status resp1 \<and> c' = c\<lparr>world := s1\<rparr>
    else r = raise_for_status resp2 \<and> world c' = s3 \<and> bearer c' = access \<and> stored_tokens c' = tokens c'
      \<and> dict_get (tokens c') ''refresh_token'' =
          get_default payload ''refresh_token'' (dict_get (tokens c) ''refresh_token'')
      \<and> (\<forall>k. k \<notin> {''access_token'', ''refresh_token'', ''expires_in'', ''api_domain'', ''scope''} \<longrightarrow>
            map_of (tokens c') k = map_of (tokens c) k)"
proof -
  define new_tokens where "new_tokens =
    [(''access_token'', JStr access),
     (''refresh_token'', get_default payload ''refresh_token'' (dict_get (tokens c) ''refresh_token'')),
     (''expires_in'', dict_get payload ''expires_in''),
     (''api_domain'', get_default payload ''api_domain'' (dict_get (tokens c) ''api_domain'')),
     (''scope'', get_default payload ''scope'' (dict_get (tokens c) ''scope''))]"
  have refreshed: "refresh_client api (c\<lparr>world := s1\<rparr>) =
      (Inr (), c\<lparr>world := s2, tokens := dict_merge (tokens c) new_tokens,
                stored_tokens := dict_merge (tokens c) new_tokens\<rparr>)"
    using cred granted post
    by (simp add: refresh_client_def refresh_tokens_def raise_for_status_def Let_def new_tokens_def)
  have new: "map_of new_tokens ''access_token'' = Some (JStr access)"
    "map_of new_tokens ''refresh_token'' =
       Some (get_default payload ''refresh_token'' (dict_get (tokens c) ''refresh_token''))"
    "\<And>k. k \<notin> {''access_token'', ''refresh_token'', ''expires_in'', ''api_domain'', ''scope''} \<Longrightarrow>
       map_of new_tokens k = None"
    by (simp_all add: new_tokens_def)
  show ?thesis
    using first second new refreshed
    by (auto simp: pd_get_def pd_send_def bearer_def get_default_def dict_get_def map_of_dict_merge)
qed

theorem get_refreshes_once_witness:
  "fst (pd_get sample_api ''/deals'' [(''start'', JInt 0), (''limit'', JInt 2)] sample_client) =
     Inr (page_body sample_deals 0 2)"
proof -
  have first: "send sample_api ''/deals'' [(''start'', JInt 0), (''limit'', JInt 2)] (bearer sample_client) (world sample_client)
      = (\<lparr>status_code = 401, body = JNull\<rparr>, ())"
    by (simp add: sample_api_def sample_client_def bearer_def get_default_def)
  have post: "token_post sample_api (py_str (dict_get (tokens sample_client) ''refresh_token'')) ()
      = (\<lparr>status_code = 200, body = JObj [(''access_token'', JStr ''new'')]\<rparr>, ())"
    by (simp add: sample_api_def)
  have second: "send sample_api ''/deals'' [(''start'', JInt 0), (''limit'', JInt 2)] ''new'' ()
      = (\<lparr>status_code = 200, body = page_body sample_deals 0 2\<rparr>, ())"
    by (simp add: sample_api_def sample_page_def)
  show ?thesis
    using get_refreshes_once[OF first post _ _ _ _ second]
    by (auto simp: raise_for_status_def sample_client_def sample_api_def dict_get_def split: prod.splits)
qed

end
