(* ===== verification/PipedriveIngest.thy ===== *)
theory PipedriveIngest
  imports PipedriveClient
begin

text \<open>
  The Pipedrive ingest, \<open>connectors/pipedrive/ingest.py\<close>, on the mirror tables of \<open>models.py\<close> and the
  provenance columns of \<open>_framework/provenance.py\<close>. A mirror row's unique \<open>pipedrive_id\<close> is also what
  other rows refer to it by. \<open>owner_person\<close>, which the ingest never writes, keeps its value. Columns
  the code fills without conversion hold the JSON value. Parameters: Django's \<open>parse_datetime\<close>, and
  for each table \<open>refuse\<close>, the exception with which the database refuses a row (a text longer than
  its column, a number out of range), if it does.
\<close>

section \<open>Tables\<close>

record pd_organization =
  po_id :: int
  po_prov :: provenance
  po_organization :: "nat option"
  po_name :: string
  po_address :: string
  po_owner :: json
  po_owner_person :: "nat option"
  po_visible_to :: "int option"
  po_created_at :: "rat option"
  po_updated_at :: "rat option"

record pd_person =
  pp_id :: int
  pp_prov :: provenance
  pp_person :: "nat option"
  pp_organization :: "nat option"
  pp_org_id :: "int option"
  pp_name :: string
  pp_email :: string
  pp_phone :: string
  pp_owner :: json
  pp_created_at :: "rat option"
  pp_updated_at :: "rat option"

record pd_deal =
  pd_id :: int
  pd_prov :: provenance
  pd_organization :: "nat option"
  pd_person :: "nat option"
  pd_org_id :: "int option"
  pd_person_id :: "int option"
  pd_owner :: json
  pd_title :: string
  pd_value :: json
  pd_currency :: string
  pd_status :: string
  pd_stage :: json
  pd_pipeline :: json
  pd_expected_close :: json
  pd_won_at :: "rat option"
  pd_lost_at :: "rat option"
  pd_lost_reason :: string
  pd_created_at :: "rat option"
  pd_updated_at :: "rat option"

record pd_activity =
  pa_id :: int
  pa_prov :: provenance
  pa_deal :: "int option"
  pa_organization :: "nat option"
  pa_person :: "nat option"
  pa_deal_id :: json
  pa_org_id :: json
  pa_person_id :: json
  pa_type :: string
  pa_subject :: string
  pa_note :: string
  pa_due_date :: json
  pa_done :: bool
  pa_done_at :: "rat option"
  pa_owner :: json
  pa_created_at :: "rat option"
  pa_updated_at :: "rat option"

record 's pd_db =
  ids :: registry
  credential :: "(string \<times> json) list option"
  outside :: 's
  pd_orgs :: "pd_organization list"
  pd_people :: "pd_person list"
  pd_deals :: "pd_deal list"
  pd_activities :: "pd_activity list"

record pd_env =
  parse_datetime :: "string \<Rightarrow> (py_error, rat option) result"
  refuse_org :: "pd_organization \<Rightarrow> py_error option"
  refuse_person :: "pd_person \<Rightarrow> py_error option"
  refuse_deal :: "pd_deal \<Rightarrow> py_error option"
  refuse_activity :: "pd_activity \<Rightarrow> py_error option"

section \<open>Payload helpers\<close>

definition parse_dt :: "pd_env \<Rightarrow> json \<Rightarrow> (py_error, rat option) result" where
  "parse_dt pe v = (if truth v then parse_datetime pe (py_str v) else Inr None)"

text \<open>\<open>(raw.get(k) or {}).get("id") if isinstance(raw.get(k), dict) else raw.get(k)\<close>\<close>

fun owner_ref :: "json \<Rightarrow> json" where
  "owner_ref (JObj kvs) = dict_get kvs ''id''"
| "owner_ref v = v"

text \<open>\<open>_org_id\<close> and \<open>_person_id\<close>; a \<open>bool\<close> is an \<open>int\<close>.\<close>

fun linked_id :: "json \<Rightarrow> (py_error, int option) result" where
  "linked_id (JObj kvs) =
     (if truth (dict_get kvs ''value'') then andthen (py_int (dict_get kvs ''value'')) (\<lambda>i. Inr (Some i))
      else Inr None)"
| "linked_id (JInt i) = Inr (Some i)"
| "linked_id (JBool b) = Inr (Some (if b then 1 else 0))"
| "linked_id _ = Inr None"

text \<open>\<open>_primary_email\<close> and \<open>_primary_phone\<close>: the first primary entry with a value, else the first with a value.\<close>

fun entry_value :: "bool \<Rightarrow> json \<Rightarrow> string option" where
  "entry_value primary (JObj kvs) =
     (if (primary \<longrightarrow> truth (dict_get kvs ''primary'')) \<and> truth (dict_get kvs ''value'')
      then Some (py_str (dict_get kvs ''value'')) else None)"
| "entry_value primary _ = None"

fun first_entry :: "bool \<Rightarrow> json list \<Rightarrow> string option" where
  "first_entry primary [] = None"
| "first_entry primary (e # es) =
     (case entry_value primary e of Some v \<Rightarrow> Some v | None \<Rightarrow> first_entry primary es)"

fun primary_entry :: "json \<Rightarrow> string option" where
  "primary_entry (JList es) =
     (case first_entry True es of Some v \<Rightarrow> Some v | None \<Rightarrow> first_entry False es)"
| "primary_entry _ = None"

text \<open>The fields of a payload: \<open>raw.get(k)\<close>, and as text, as time.\<close>

definition time_of :: "pd_env \<Rightarrow> json \<Rightarrow> string \<Rightarrow> (py_error, rat option) result" where
  "time_of pe raw k = andthen (jget raw k) (parse_dt pe)"

definition provenance_of :: "pd_env \<Rightarrow> json \<Rightarrow> int \<Rightarrow> rat \<Rightarrow> sync_context \<Rightarrow> (py_error, provenance) result" where
  "provenance_of pe raw i t ctx =
     andthen (time_of pe raw ''update_time'') (\<lambda>u. Inr
       \<lparr>source_system_of = ''pipedrive'', source_id = show_int i, source_synced_at = t,
        source_updated_at = u, raw_payload = raw, sync_run_of = ctx_run ctx\<rparr>)"

section \<open>Organizations\<close>

definition org_mk :: "pd_organization \<Rightarrow> int \<Rightarrow> pd_organization" where
  "org_mk d k = d\<lparr>po_id := k, po_owner_person := None\<rparr>"

definition org_upd :: "pd_organization \<Rightarrow> pd_organization \<Rightarrow> pd_organization" where
  "org_upd d r = d\<lparr>po_id := po_id r, po_owner_person := po_owner_person r\<rparr>"

interpretation org_table: keyed_table po_id org_mk org_upd
  by unfold_locales (simp_all add: org_mk_def org_upd_def)

definition org_record :: "string \<Rightarrow> int \<Rightarrow> organization_record" where
  "org_record name i =
     \<lparr>or_source = ''pipedrive'', or_name = name, or_ico = None, or_dic = None, or_primary_domain = None,
      or_id_in_source = Some (show_int i), or_extra_identities = None\<rparr>"

definition organization_row ::
  "pd_env \<Rightarrow> json \<Rightarrow> sync_context \<Rightarrow> int \<Rightarrow> string \<Rightarrow> nat option \<Rightarrow> rat \<Rightarrow> (py_error, pd_organization) result" where
  "organization_row pe raw ctx i name master t =
     andthen (provenance_of pe raw i t ctx) (\<lambda>prov.
     andthen (text_of raw ''address'') (\<lambda>address.
     andthen (jget raw ''owner_id'') (\<lambda>owner.
     andthen (jget raw ''visible_to'') (\<lambda>vis.
     andthen (if truth vis then andthen (py_int vis) (\<lambda>n. Inr (Some n)) else Inr None) (\<lambda>visible.
     andthen (time_of pe raw ''add_time'') (\<lambda>added.
     andthen (time_of pe raw ''update_time'') (\<lambda>upd. Inr
       \<lparr>po_id = i, po_prov = prov, po_organization = master, po_name = name,
        po_address = take 512 address, po_owner = owner_ref owner, po_owner_person = None,
        po_visible_to = visible, po_created_at = added, po_updated_at = upd\<rparr>)))))))"

definition persist_organization ::
  "pd_env \<Rightarrow> json \<Rightarrow> sync_context \<Rightarrow> 's pd_db \<Rightarrow> (py_error, string \<times> 's pd_db) result" where
  "persist_organization pe raw ctx db =
     andthen (jindex raw ''id'') (\<lambda>v. andthen (py_int v) (\<lambda>i.
     andthen (text_of raw ''name'') (\<lambda>name.
     (case hook_resolve_organization (org_record name i) (ids db) of (master, reg) \<Rightarrow>
       andthen (organization_row pe raw ctx i name master (wall reg)) (\<lambda>row.
       andthen (store (refuse_org pe) po_id org_mk org_upd row (pd_orgs db)) (\<lambda>(oc, rows).
       Inr (oc, db\<lparr>ids := reg, pd_orgs := rows\<rparr>)))))))"

section \<open>Persons\<close>

definition person_mk :: "pd_person \<Rightarrow> int \<Rightarrow> pd_person" where
  "person_mk d k = d\<lparr>pp_id := k\<rparr>"

definition person_upd :: "pd_person \<Rightarrow> pd_person \<Rightarrow> pd_person" where
  "person_upd d r = d\<lparr>pp_id := pp_id r\<rparr>"

interpretation person_table: keyed_table pp_id person_mk person_upd
  by unfold_locales (simp_all add: person_mk_def person_upd_def)

text \<open>The master organization behind a mirror, \<open>None\<close> for no id, no mirror, or no link.\<close>

definition mirror_org :: "int option \<Rightarrow> pd_organization list \<Rightarrow> nat option" where
  "mirror_org i rows =
     (case i of None \<Rightarrow> None
      | Some k \<Rightarrow> if k = 0 then None
          else (case lookup po_id rows k of Some m \<Rightarrow> po_organization m | None \<Rightarrow> None))"

definition mirror_person :: "int option \<Rightarrow> pd_person list \<Rightarrow> nat option" where
  "mirror_person i rows =
     (case i of None \<Rightarrow> None
      | Some k \<Rightarrow> if k = 0 then None
          else (case lookup pp_id rows k of Some m \<Rightarrow> pp_person m | None \<Rightarrow> None))"

definition pd_person_record :: "string option \<Rightarrow> string \<Rightarrow> string option \<Rightarrow> int \<Rightarrow> person_record" where
  "pd_person_record email name phone i =
     \<lparr>pr_source = ''pipedrive'', pr_email = email, pr_full_name = Some name, pr_first_name = None,
      pr_last_name = None, pr_organization_name = None, pr_person_id_in_source = Some (show_int i),
      pr_phone = phone, pr_slack_id = None, pr_extra_identities = None\<rparr>"

definition person_row ::
  "pd_env \<Rightarrow> json \<Rightarrow> sync_context \<Rightarrow> int \<Rightarrow> string \<Rightarrow> string option \<Rightarrow> string option \<Rightarrow> int option
     \<Rightarrow> nat option \<Rightarrow> nat option \<Rightarrow> rat \<Rightarrow> (py_error, pd_person) result" where
  "person_row pe raw ctx i name email phone oid master_org master t =
     andthen (provenance_of pe raw i t ctx) (\<lambda>prov.
     andthen (jget raw ''owner_id'') (\<lambda>owner.
     andthen (time_of pe raw ''add_time'') (\<lambda>added.
     andthen (time_of pe raw ''update_time'') (\<lambda>upd. Inr
       \<lparr>pp_id = i, pp_prov = prov, pp_person = master, pp_organization = master_org, pp_org_id = oid,
        pp_name = name, pp_email = or_empty email, pp_phone = or_empty phone, pp_owner = owner_ref owner,
        pp_created_at = added, pp_updated_at = upd\<rparr>))))"

definition persist_person ::
  "pd_env \<Rightarrow> json \<Rightarrow> sync_context \<Rightarrow> 's pd_db \<Rightarrow> (py_error, string \<times> 's pd_db) result" where
  "persist_person pe raw ctx db =
     andthen (jindex raw ''id'') (\<lambda>v. andthen (py_int v) (\<lambda>i.
     andthen (jget raw ''email'') (\<lambda>emails.
     andthen (jget raw ''phone'') (\<lambda>phones.
     andthen (jget raw ''org_id'') (\<lambda>org.
     andthen (linked_id org) (\<lambda>oid.
     andthen (text_of raw ''name'') (\<lambda>name.
     (let email = primary_entry (or_else emails (JList []));
          phone = primary_entry (or_else phones (JList []));
          master_org = mirror_org oid (pd_orgs db)
      in case hook_resolve_person (pd_person_record email name phone i) master_org (ids db) of (master, reg) \<Rightarrow>
       andthen (person_row pe raw ctx i name email phone oid master_org master (wall reg)) (\<lambda>row.
       andthen (store (refuse_person pe) pp_id person_mk person_upd row (pd_people db)) (\<lambda>(oc, rows).
       Inr (oc, db\<lparr>ids := reg, pd_people := rows\<rparr>)))))))))))"

section \<open>Deals\<close>

definition deal_mk :: "pd_deal \<Rightarrow> int \<Rightarrow> pd_deal" where
  "deal_mk d k = d\<lparr>pd_id := k\<rparr>"

definition deal_upd :: "pd_deal \<Rightarrow> pd_deal \<Rightarrow> pd_deal" where
  "deal_upd d r = d\<lparr>pd_id := pd_id r\<rparr>"

interpretation deal_table: keyed_table pd_id deal_mk deal_upd
  by unfold_locales (simp_all add: deal_mk_def deal_upd_def)

definition map_status :: "json \<Rightarrow> string" where
  "map_status v =
     (let s = str_lower (py_str (or_else v (JStr ''open'')))
      in if s \<in> {''won'', ''lost'', ''deleted''} then s else ''open'')"

definition deal_row :: "pd_env \<Rightarrow> json \<Rightarrow> sync_context \<Rightarrow> 's pd_db \<Rightarrow> (py_error, pd_deal) result" where
  "deal_row pe raw ctx db =
     andthen (jindex raw ''id'') (\<lambda>v. andthen (py_int v) (\<lambda>i.
     andthen (jget raw ''org_id'') (\<lambda>org. andthen (linked_id org) (\<lambda>oid.
     andthen (jget raw ''person_id'') (\<lambda>person. andthen (linked_id person) (\<lambda>pid.
     andthen (jget raw ''status'') (\<lambda>status.
     andthen (provenance_of pe raw i (wall (ids db)) ctx) (\<lambda>prov.
     andthen (jget raw ''user_id'') (\<lambda>owner.
     andthen (text_of raw ''title'') (\<lambda>title.
     andthen (jget raw ''value'') (\<lambda>val.
     andthen (text_of raw ''currency'') (\<lambda>currency.
     andthen (jget raw ''stage_id'') (\<lambda>stage.
     andthen (jget raw ''pipeline_id'') (\<lambda>pipeline.
     andthen (jget raw ''expected_close_date'') (\<lambda>close.
     andthen (time_of pe raw ''won_time'') (\<lambda>won.
     andthen (time_of pe raw ''lost_time'') (\<lambda>lost.
     andthen (text_of raw ''lost_reason'') (\<lambda>reason.
     andthen (time_of pe raw ''add_time'') (\<lambda>added.
     andthen (time_of pe raw ''update_time'') (\<lambda>upd. Inr
       \<lparr>pd_id = i, pd_prov = prov, pd_organization = mirror_org oid (pd_orgs db),
        pd_person = mirror_person pid (pd_people db), pd_org_id = oid, pd_person_id = pid,
        pd_owner = owner_ref owner, pd_title = take 512 title, pd_value = or_else val (JInt 0),
        pd_currency = currency, pd_status = map_status status, pd_stage = stage, pd_pipeline = pipeline,
        pd_expected_close = or_else close JNull, pd_won_at = won, pd_lost_at = lost,
        pd_lost_reason = take 255 reason, pd_created_at = added, pd_updated_at = upd\<rparr>))))))))))))))))))))"

text \<open>The cursor is raised last, so a failed row leaves it as it was.\<close>

definition persist_deal ::
  "pd_env \<Rightarrow> json \<Rightarrow> sync_context \<Rightarrow> 's pd_db \<Rightarrow> sync_context \<times> (py_error, string \<times> 's pd_db) result" where
  "persist_deal pe raw ctx db =
     (case andthen (deal_row pe raw ctx db) (\<lambda>row.
             andthen (store (refuse_deal pe) pd_id deal_mk deal_upd row (pd_deals db)) (\<lambda>(oc, rows).
             andthen (text_of raw ''update_time'') (\<lambda>u. Inr (oc, rows, u)))) of
        Inl e \<Rightarrow> (ctx, Inl e)
      | Inr (oc, rows, u) \<Rightarrow>
          (ctx\<lparr>cursor_after := max (cursor_after ctx) u\<rparr>, Inr (oc, db\<lparr>pd_deals := rows\<rparr>)))"

section \<open>Activities\<close>

definition activity_mk :: "pd_activity \<Rightarrow> int \<Rightarrow> pd_activity" where
  "activity_mk d k = d\<lparr>pa_id := k\<rparr>"

definition activity_upd :: "pd_activity \<Rightarrow> pd_activity \<Rightarrow> pd_activity" where
  "activity_upd d r = d\<lparr>pa_id := pa_id r\<rparr>"

interpretation activity_table: keyed_table pa_id activity_mk activity_upd
  by unfold_locales (simp_all add: activity_mk_def activity_upd_def)

definition map_type :: "json \<Rightarrow> string" where
  "map_type v =
     (let s = str_lower (py_str (or_else v (JStr [])))
      in if s \<in> {''call'', ''meeting'', ''email'', ''task'', ''lunch'', ''deadline'', ''other''} then s else ''other'')"

text \<open>\<open>int(x)\<close> where \<open>x\<close> is true.\<close>

definition plain_id :: "json \<Rightarrow> (py_error, int option) result" where
  "plain_id v = (if truth v then andthen (py_int v) (\<lambda>i. Inr (Some i)) else Inr None)"

definition mirror_deal :: "int option \<Rightarrow> pd_deal list \<Rightarrow> int option" where
  "mirror_deal i rows =
     (case i of None \<Rightarrow> None | Some k \<Rightarrow> map_option pd_id (lookup pd_id rows k))"

definition linked_org :: "int option \<Rightarrow> pd_organization list \<Rightarrow> nat option" where
  "linked_org i rows =
     (case i of None \<Rightarrow> None
      | Some k \<Rightarrow> (case lookup po_id rows k of Some m \<Rightarrow> po_organization m | None \<Rightarrow> None))"

definition linked_person :: "int option \<Rightarrow> pd_person list \<Rightarrow> nat option" where
  "linked_person i rows =
     (case i of None \<Rightarrow> None
      | Some k \<Rightarrow> (case lookup pp_id rows k of Some m \<Rightarrow> pp_person m | None \<Rightarrow> None))"

definition activity_row :: "pd_env \<Rightarrow> json \<Rightarrow> sync_context \<Rightarrow> 's pd_db \<Rightarrow> (py_error, pd_activity) result" where
  "activity_row pe raw ctx db =
     andthen (jindex raw ''id'') (\<lambda>v. andthen (py_int v) (\<lambda>i.
     andthen (jget raw ''deal_id'') (\<lambda>deal. andthen (jget raw ''org_id'') (\<lambda>org.
     andthen (jget raw ''person_id'') (\<lambda>person.
     andthen (plain_id deal) (\<lambda>did. andthen (plain_id org) (\<lambda>oid. andthen (plain_id person) (\<lambda>pid.
     andthen (jget raw ''type'') (\<lambda>type.
     andthen (provenance_of pe raw i (wall (ids db)) ctx) (\<lambda>prov.
     andthen (text_of raw ''subject'') (\<lambda>subject.
     andthen (text_of raw ''note'') (\<lambda>note.
     andthen (jget raw ''due_date'') (\<lambda>due.
     andthen (jget raw ''done'') (\<lambda>is_done.
     andthen (time_of pe raw ''marked_as_done_time'') (\<lambda>done_at.
     andthen (jget raw ''user_id'') (\<lambda>owner.
     andthen (time_of pe raw ''add_time'') (\<lambda>added.
     andthen (time_of pe raw ''update_time'') (\<lambda>upd. Inr
         \<lparr>pa_id = i, pa_prov = prov, pa_deal = mirror_deal did (pd_deals db),
          pa_organization = linked_org oid (pd_orgs db), pa_person = linked_person pid (pd_people db),
          pa_deal_id = deal, pa_org_id = org, pa_person_id = person, pa_type = map_type type,
          pa_subject = take 512 subject, pa_note = note, pa_due_date = or_else due JNull,
          pa_done = truth is_done, pa_done_at = done_at, pa_owner = owner,
          pa_created_at = added, pa_updated_at = upd\<rparr>))))))))))))))))))"

definition persist_activity ::
  "pd_env \<Rightarrow> json \<Rightarrow> sync_context \<Rightarrow> 's pd_db \<Rightarrow> (py_error, string \<times> 's pd_db) result" where
  "persist_activity pe raw ctx db =
     andthen (activity_row pe raw ctx db) (\<lambda>row.
     andthen (store (refuse_activity pe) pa_id activity_mk activity_upd row (pd_activities db)) (\<lambda>(oc, rows).
     Inr (oc, db\<lparr>pd_activities := rows\<rparr>)))"

section \<open>The four syncs\<close>

text \<open>
  A fetch opens the client on the stored credential, and saves the tokens the client refreshed. A
  listing that has not ended within the fuel is reported as an exception of its own.
\<close>

definition client_fetch ::
  "('s pd_client \<Rightarrow> ((py_error, json list) result \<times> 's pd_client) option) \<Rightarrow> 's pd_db
     \<Rightarrow> (json list \<times> py_error option) \<times> 's pd_db" where
  "client_fetch listing db =
     (case open_client (credential db) (outside db) of
        Inl e \<Rightarrow> (([], Some e), db)
      | Inr c \<Rightarrow>
          (case listing c of
             None \<Rightarrow> (([], Some (OtherError ''out of fuel'')), db)
           | Some (r, c') \<Rightarrow>
               ((case r of Inl e \<Rightarrow> ([], Some e) | Inr raws \<Rightarrow> (raws, None)),
                db\<lparr>credential := Some (stored_tokens c'), outside := world c'\<rparr>)))"

definition organization_sync ::
  "'s pd_api \<Rightarrow> nat \<Rightarrow> pd_env \<Rightarrow> ('c \<Rightarrow> (py_error, unit) result \<times> 'c) \<Rightarrow> (json, 's pd_db, 'c, py_error) sync_class" where
  "organization_sync api fuel pe limiter =
     \<lparr>provider = ''pipedrive'', resource = ''organizations'', rate_limit = Some limiter, cursor_source = [],
      fetch = (\<lambda>ctx. client_fetch (iter_organizations api fuel 100)),
      persist = (\<lambda>raw ctx db. (ctx, persist_organization pe raw ctx db))\<rparr>"

definition person_sync ::
  "'s pd_api \<Rightarrow> nat \<Rightarrow> pd_env \<Rightarrow> ('c \<Rightarrow> (py_error, unit) result \<times> 'c) \<Rightarrow> (json, 's pd_db, 'c, py_error) sync_class" where
  "person_sync api fuel pe limiter =
     \<lparr>provider = ''pipedrive'', resource = ''persons'', rate_limit = Some limiter, cursor_source = [],
      fetch = (\<lambda>ctx. client_fetch (iter_persons api fuel 100)),
      persist = (\<lambda>raw ctx db. (ctx, persist_person pe raw ctx db))\<rparr>"

text \<open>\<open>since=ctx.cursor_before or None\<close>\<close>

definition deal_sync ::
  "'s pd_api \<Rightarrow> nat \<Rightarrow> pd_env \<Rightarrow> ('c \<Rightarrow> (py_error, unit) result \<times> 'c) \<Rightarrow> (json, 's pd_db, 'c, py_error) sync_class" where
  "deal_sync api fuel pe limiter =
     \<lparr>provider = ''pipedrive'', resource = ''deals'', rate_limit = Some limiter, cursor_source = [],
      fetch = (\<lambda>ctx. client_fetch (iter_deals api fuel
         (if cursor_before ctx \<noteq> [] then Some (cursor_before ctx) else None) 100)),
      persist = persist_deal pe\<rparr>"

definition activity_sync ::
  "'s pd_api \<Rightarrow> nat \<Rightarrow> string \<Rightarrow> pd_env \<Rightarrow> ('c \<Rightarrow> (py_error, unit) result \<times> 'c) \<Rightarrow> (json, 's pd_db, 'c, py_error) sync_class" where
  "activity_sync api fuel start_date pe limiter =
     \<lparr>provider = ''pipedrive'', resource = ''activities'', rate_limit = Some limiter, cursor_source = [],
      fetch = (\<lambda>ctx. client_fetch (iter_activities api fuel start_date 100)),
      persist = (\<lambda>raw ctx db. (ctx, persist_activity pe raw ctx db))\<rparr>"

section \<open>The Celery tasks\<close>

text \<open>
  \<open>ingest_tasks.py\<close>. A task resolves its integration, and without one does nothing; its result is
  \<open>None\<close> for the "skipped, no_integration" dict, and otherwise the outcome the dict is built from.
\<close>

definition resolve_integration :: "integration list \<Rightarrow> nat option \<Rightarrow> nat option" where
  "resolve_integration rows i =
     (case i of
        Some k \<Rightarrow> map_option integration_id (find (\<lambda>r. integration_id r = k) rows)
      | None \<Rightarrow> map_option integration_id (find (\<lambda>r. integration_provider r = ''pipedrive'' \<and> is_active r) rows))"

definition run_task ::
  "(py_error \<Rightarrow> string) \<Rightarrow> ('c \<Rightarrow> rat) \<Rightarrow> integration list \<Rightarrow> (json, 'db, 'c, py_error) sync_class
     \<Rightarrow> nat option \<Rightarrow> sync_mode \<Rightarrow> ('db, 'c) sync_world \<Rightarrow> sync_outcome option \<times> ('db, 'c) sync_world" where
  "run_task exc_text tnow rows cls i mode w =
     (case resolve_integration rows i of
        None \<Rightarrow> (None, w)
      | Some k \<Rightarrow> (case base_sync_run exc_text tnow cls k mode w of (out, w') \<Rightarrow> (Some out, w')))"

definition ingest_full ::
  "(py_error \<Rightarrow> string) \<Rightarrow> ('c \<Rightarrow> rat) \<Rightarrow> integration list \<Rightarrow> 's pd_api \<Rightarrow> nat \<Rightarrow> string \<Rightarrow> pd_env
     \<Rightarrow> ('c \<Rightarrow> (py_error, unit) result \<times> 'c) \<Rightarrow> nat option \<Rightarrow> sync_mode \<Rightarrow> ('s pd_db, 'c) sync_world
     \<Rightarrow> sync_outcome option list \<times> ('s pd_db, 'c) sync_world" where
  "ingest_full exc_text tnow rows api fuel start_date pe limiter i mode w =
     (case run_task exc_text tnow rows (organization_sync api fuel pe limiter) i mode w of (o1, w1) \<Rightarrow>
      case run_task exc_text tnow rows (person_sync api fuel pe limiter) i mode w1 of (o2, w2) \<Rightarrow>
      case run_task exc_text tnow rows (deal_sync api fuel pe limiter) i mode w2 of (o3, w3) \<Rightarrow>
      case run_task exc_text tnow rows (activity_sync api fuel start_date pe limiter) i mode w3 of (o4, w4) \<Rightarrow>
      ([o1, o2, o3, o4], w4))"

end
