(* ===== verification/IdentityResolver.thy ===== *)
theory IdentityResolver
  imports Identity
begin

text \<open>
  What the resolver of \<open>Identity\<close> guarantees. An identity table is read as a directory, a map from
  (type, value) to the owner. The abstract resolver on a directory finds the owner of the first
  known identity, or enters all of them for a fallback owner; the code's resolvers refine it,
  keep the registry well formed, never lose a row nor a field that is set, and choose the fallback
  by the fuzzy score. The facts on identity tables serve persons and organizations alike.
\<close>

section \<open>Identity tables as directories\<close>

definition owners :: "identity_row list \<Rightarrow> string \<times> string \<Rightarrow> nat option" where
  "owners rows k = map_option owner (lookup identity_key rows k)"

fun directory_find :: "'k list \<Rightarrow> ('k \<Rightarrow> nat option) \<Rightarrow> nat option" where
  "directory_find [] d = None"
| "directory_find (k # ks) d = (case d k of Some p \<Rightarrow> Some p | None \<Rightarrow> directory_find ks d)"

definition directory_resolve ::
  "'k list \<Rightarrow> nat \<Rightarrow> ('k \<Rightarrow> nat option) \<Rightarrow> nat \<times> ('k \<Rightarrow> nat option)" where
  "directory_resolve ks fallback d =
     (case directory_find ks d of
        Some p \<Rightarrow> (p, d)
      | None \<Rightarrow> (fallback, \<lambda>k. if k \<in> set ks then Some fallback else d k))"

lemma upsert_identities_Nil [simp]: "upsert_identities who [] source t rows = rows"
  by (simp add: upsert_identities_def)

lemma upsert_identities_Cons:
  "upsert_identities who (k # ks) source t rows =
     upsert_identities who ks source t (fst (upsert identity_key mk_identity upd_identity (who, source, t) k rows))"
  by (simp add: upsert_identities_def)

lemma owners_upsert:
  "owners (fst (upsert identity_key mk_identity upd_identity (who, source, t) k' rows)) k =
     (if k = k' then Some who else owners rows k)"
  by (simp add: owners_def identity_table.lookup_upsert_if mk_identity_def upd_identity_def split: option.split)

lemma owners_upsert_identities:
  "owners (upsert_identities who ks source t rows) k = (if k \<in> set ks then Some who else owners rows k)"
  by (induction ks arbitrary: rows) (auto simp: upsert_identities_Cons owners_upsert)

lemma unique_upsert_identities:
  "unique_keys identity_key rows \<Longrightarrow> unique_keys identity_key (upsert_identities who ks source t rows)"
  by (induction ks arbitrary: rows) (auto simp: upsert_identities_Cons intro: identity_table.unique_upsert)

lemma identity_key_touched [simp]: "identity_key (r\<lparr>last_seen := t, verified := v\<rparr>) = identity_key r"
  by (simp add: identity_key_def)

lemma lookup_touch_identity:
  "lookup identity_key (touch_identity k source t rows) k' =
     map_option (\<lambda>r. if identity_key r = k
        then r\<lparr>last_seen := t, verified := (verified r \<or> source \<noteq> ''ai_match'')\<rparr> else r)
       (lookup identity_key rows k')"
  unfolding touch_identity_def by (rule lookup_map_upd) simp

lemma owners_touch_identity [simp]: "owners (touch_identity k source t rows) = owners rows"
  by (rule ext) (auto simp: owners_def lookup_touch_identity option.map_comp comp_def intro!: map_option_cong)

lemma unique_touch_identity [simp]:
  "unique_keys identity_key (touch_identity k source t rows) = unique_keys identity_key rows"
  by (simp add: unique_keys_def touch_identity_def comp_def if_distrib cong: if_cong)

lemma owner_set_touch_identity [simp]: "owner ` set (touch_identity k source t rows) = owner ` set rows"
  unfolding touch_identity_def set_map image_image by (rule image_cong) simp_all

lemma owner_set_upsert:
  "owner ` set (fst (upsert identity_key mk_identity upd_identity (who, source, t) k rows)) \<subseteq> insert who (owner ` set rows)"
  by (auto simp: upsert_def mk_identity_def upd_identity_def split: option.split)

lemma owner_set_upsert_identities:
  "owner ` set (upsert_identities who ks source t rows) \<subseteq> insert who (owner ` set rows)"
proof (induction ks arbitrary: rows)
  case (Cons k ks)
  with owner_set_upsert[of who source t k rows] show ?case
    unfolding upsert_identities_Cons by blast
qed auto

lemma first_match_owner: "map_option owner (first_match ks rows) = directory_find ks (owners rows)"
  by (induction ks) (auto simp: owners_def split: option.split)

lemma first_match_SomeD:
  "first_match ks rows = Some r \<Longrightarrow> r \<in> set rows \<and> identity_key r \<in> set ks"
  by (induction ks) (auto split: option.splits dest: lookup_SomeD)

lemma directory_find_None: "directory_find ks d = None \<longleftrightarrow> (\<forall>k \<in> set ks. d k = None)"
  by (induction ks) (auto split: option.split)

lemma directory_resolve_unknown:
  "directory_find ks d = None \<Longrightarrow> directory_resolve ks fallback d = (p, d') \<Longrightarrow>
     d' k = (if k \<in> set ks then Some p else d k)"
  by (auto simp: directory_resolve_def)

text \<open>Resolving again finds the owner the first resolution chose, and changes nothing.\<close>

lemma directory_resolve_again:
  assumes "directory_resolve ks fallback d = (p, d')" "ks \<noteq> []"
  shows "directory_resolve ks fallback' d' = (p, d')" "directory_find ks d' = Some p"
proof -
  show found: "directory_find ks d' = Some p"
  proof (cases "directory_find ks d")
    case None
    with assms show ?thesis by (cases ks) (auto simp: directory_resolve_def)
  qed (use assms in \<open>auto simp: directory_resolve_def\<close>)
  then show "directory_resolve ks fallback' d' = (p, d')"
    by (simp add: directory_resolve_def)
qed

text \<open>A directory only grows: an identity that has an owner keeps it.\<close>

lemma directory_resolve_grows:
  assumes "directory_resolve ks fallback d = (p, d')" "d k = Some q"
  shows "d' k = Some q"
proof (cases "directory_find ks d")
  case None
  then have "k \<notin> set ks" using assms(2) by (auto simp: directory_find_None)
  with None assms show ?thesis by (auto simp: directory_resolve_def)
qed (use assms in \<open>auto simp: directory_resolve_def\<close>)

section \<open>The best candidate\<close>

definition best_ok :: "('a \<Rightarrow> rat) \<Rightarrow> 'a set \<Rightarrow> ('a \<times> rat) option \<Rightarrow> bool" where
  "best_ok score C best \<longleftrightarrow>
     (case best of
        None \<Rightarrow> \<forall>c \<in> C. score c < fuzzy_name_threshold
      | Some (c, s) \<Rightarrow> c \<in> C \<and> s = score c \<and> fuzzy_name_threshold \<le> s \<and> (\<forall>c' \<in> C. score c' \<le> s))"

lemma best_candidate_ok: "best_ok score C best \<Longrightarrow> best_ok score (C \<union> set cs) (best_candidate score cs best)"
proof (induction cs arbitrary: C best)
  case (Cons c cs)
  have "best_ok score (insert c C)
      (if score c \<ge> fuzzy_name_threshold \<and> (best = None \<or> score c > snd (the best)) then Some (c, score c) else best)"
    using Cons.prems by (cases best) (auto simp: best_ok_def intro: order.trans)
  from Cons.IH[OF this] show ?case by simp
qed simp

lemma best_candidate_None: "best_ok score (set cs) (best_candidate score cs None)"
  using best_candidate_ok[of score "{}" None cs] by (simp add: best_ok_def)

lemma similarity_bounds: "0 \<le> similarity a b" "similarity a b \<le> 1"
  using ratio_bounds by (auto simp: similarity_def)

section \<open>Merging fields\<close>

definition keeps_fields :: "person \<Rightarrow> person \<Rightarrow> bool" where
  "keeps_fields p p' \<longleftrightarrow> person_id p' = person_id p
     \<and> primary_email p \<in> {[], primary_email p'} \<and> first_name p \<in> {[], first_name p'}
     \<and> last_name p \<in> {[], last_name p'} \<and> display_name p \<in> {[], display_name p'}
     \<and> person_type p' = person_type p \<and> person_confidence p' = person_confidence p
     \<and> person_merged_into p' = person_merged_into p"

lemma keeps_fields_refl [simp]: "keeps_fields p p"
  by (simp add: keeps_fields_def)

lemma merge_fields_keeps: "keeps_fields p (merge_fields r p)"
  by (simp add: merge_fields_def keeps_fields_def Let_def)

lemma merge_fields_id [simp]: "person_id (merge_fields r p) = person_id p"
  using merge_fields_keeps by (simp add: keeps_fields_def)

lemma merge_person_fields_ids [simp]:
  "map person_id (merge_person_fields r pid rows) = map person_id rows"
  by (simp add: merge_person_fields_def)

lemma merge_person_fields_id_set [simp]:
  "person_id ` set (merge_person_fields r pid rows) = person_id ` set rows"
  by (metis list.set_map merge_person_fields_ids)

lemma merge_person_fields_keeps:
  "list_all2 (\<lambda>p p'. keeps_fields p p' \<and> (person_id p \<noteq> pid \<longrightarrow> p' = p)) rows (merge_person_fields r pid rows)"
  by (auto simp: merge_person_fields_def list_all2_conv_all_nth merge_fields_keeps)

section \<open>The resolvers\<close>

text \<open>The owner an unknown record falls back to: the fuzzy match, or a new row.\<close>

definition fallback_person :: "person_record \<Rightarrow> nat option \<Rightarrow> registry \<Rightarrow> nat" where
  "fallback_person r org db =
     (case fuzzy_person r org db of Some (p, _) \<Rightarrow> person_id p | None \<Rightarrow> fresh_id person_id (persons db))"

definition fallback_organization :: "organization_record \<Rightarrow> registry \<Rightarrow> nat" where
  "fallback_organization r db =
     (case fuzzy_organization r db of Some (c, _) \<Rightarrow> org_id c | None \<Rightarrow> fresh_id org_id (organizations db))"

text \<open>The three outcomes of a resolution, as an elimination rule.\<close>

lemma resolve_person_cases:
  obtains (exact) existing where
      "first_match (collect_person_identities r) (person_identities db) = Some existing"
      "resolve_person r org db =
         (\<lparr>res_person = Some (owner existing), res_organization = org, matched_by = IDENTITY_EXACT,
           confidence = 1, created_person = False, created_organization = False\<rparr>,
          db\<lparr>person_identities := touch_identity (identity_key existing) (pr_source r) (wall db) (person_identities db),
             persons := merge_person_fields r (owner existing) (persons db)\<rparr>)"
  | (fuzzy) p score where
      "first_match (collect_person_identities r) (person_identities db) = None"
      "fuzzy_person r org db = Some (p, score)"
      "resolve_person r org db =
         (\<lparr>res_person = Some (person_id p), res_organization = org, matched_by = NAME_DOMAIN_FUZZY,
           confidence = score, created_person = False, created_organization = False\<rparr>,
          db\<lparr>persons := merge_person_fields r (person_id p) (persons db),
             person_identities := upsert_identities (person_id p) (collect_person_identities r)
               (pr_source r) (wall db) (person_identities db)\<rparr>)"
  | (new) pid where
      "first_match (collect_person_identities r) (person_identities db) = None"
      "fuzzy_person r org db = None" "pid = fresh_id person_id (persons db)"
      "resolve_person r org db =
         (\<lparr>res_person = Some pid, res_organization = org, matched_by = MANUAL,
           confidence = 8 / 10, created_person = True, created_organization = False\<rparr>,
          db\<lparr>persons := persons db @ [new_person r pid],
             person_identities := upsert_identities pid (collect_person_identities r)
               (pr_source r) (wall db) (person_identities db),
             roles := (case org of None \<Rightarrow> roles db
               | Some oid \<Rightarrow> add_role pid oid ''contact'' (pr_source r) (roles db))\<rparr>)"
proof (cases "first_match (collect_person_identities r) (person_identities db)")
  case None
  show thesis
  proof (cases "fuzzy_person r org db")
    case None
    with \<open>first_match _ _ = None\<close> show thesis
      by (intro new[OF _ None refl]) (simp_all add: resolve_person_def Let_def)
  next
    case (Some q)
    obtain p score where "q = (p, score)" by (metis surj_pair)
    with Some \<open>first_match _ _ = None\<close> show thesis
      by (intro fuzzy) (simp_all add: resolve_person_def Let_def)
  qed
next
  case (Some existing)
  then show thesis by (intro exact) (simp_all add: resolve_person_def Let_def)
qed

lemma resolve_organization_cases:
  obtains (exact) existing where
      "first_match (collect_org_identities r) (organization_identities db) = Some existing"
      "resolve_organization r db =
         (\<lparr>res_person = None, res_organization = Some (owner existing), matched_by = IDENTITY_EXACT,
           confidence = 1, created_person = False, created_organization = False\<rparr>,
          db\<lparr>organization_identities :=
               touch_identity (identity_key existing) (or_source r) (wall db) (organization_identities db)\<rparr>)"
  | (fuzzy) c score where
      "first_match (collect_org_identities r) (organization_identities db) = None"
      "fuzzy_organization r db = Some (c, score)"
      "resolve_organization r db =
         (\<lparr>res_person = None, res_organization = Some (org_id c), matched_by = NAME_COMPANY_FUZZY,
           confidence = score, created_person = False, created_organization = False\<rparr>,
          db\<lparr>organization_identities := upsert_identities (org_id c) (collect_org_identities r)
               (or_source r) (wall db) (organization_identities db)\<rparr>)"
  | (new) oid where
      "first_match (collect_org_identities r) (organization_identities db) = None"
      "fuzzy_organization r db = None" "oid = fresh_id org_id (organizations db)"
      "resolve_organization r db =
         (\<lparr>res_person = None, res_organization = Some oid, matched_by = MANUAL,
           confidence = 8 / 10, created_person = False, created_organization = True\<rparr>,
          db\<lparr>organizations := organizations db @ [new_organization r oid],
             organization_identities := upsert_identities oid (collect_org_identities r)
               (or_source r) (wall db) (organization_identities db)\<rparr>)"
proof (cases "first_match (collect_org_identities r) (organization_identities db)")
  case None
  show thesis
  proof (cases "fuzzy_organization r db")
    case None
    with \<open>first_match _ _ = None\<close> show thesis
      by (intro new[OF _ None refl]) (simp_all add: resolve_organization_def Let_def)
  next
    case (Some q)
    obtain p score where "q = (p, score)" by (metis surj_pair)
    with Some \<open>first_match _ _ = None\<close> show thesis
      by (intro fuzzy) (simp_all add: resolve_organization_def Let_def)
  qed
next
  case (Some existing)
  then show thesis by (intro exact) (simp_all add: resolve_organization_def Let_def)
qed

lemma person_directory_fst:
  "directory_resolve (collect_person_identities r) (fallback_person r org db) (owners (person_identities db)) =
     (the (res_person (fst (resolve_person r org db))), owners (person_identities (snd (resolve_person r org db))))
   \<and> res_person (fst (resolve_person r org db)) \<noteq> None
   \<and> (matched_by (fst (resolve_person r org db)) = IDENTITY_EXACT \<longleftrightarrow>
        directory_find (collect_person_identities r) (owners (person_identities db)) \<noteq> None)"
  using first_match_owner[of "collect_person_identities r" "person_identities db", symmetric]
  by (cases rule: resolve_person_cases[of r db org])
    (simp_all add: directory_resolve_def fallback_person_def owners_upsert_identities fun_eq_iff)

lemma person_directory:
  assumes "resolve_person r org db = (res, db')"
  shows "directory_resolve (collect_person_identities r) (fallback_person r org db) (owners (person_identities db)) =
      (the (res_person res), owners (person_identities db'))"
    and "res_person res \<noteq> None"
    and "matched_by res = IDENTITY_EXACT \<longleftrightarrow> directory_find (collect_person_identities r) (owners (person_identities db)) \<noteq> None"
  using person_directory_fst[of r org db] by (simp_all add: assms)

lemma organization_directory_fst:
  "directory_resolve (collect_org_identities r) (fallback_organization r db) (owners (organization_identities db)) =
     (the (res_organization (fst (resolve_organization r db))), owners (organization_identities (snd (resolve_organization r db))))
   \<and> res_organization (fst (resolve_organization r db)) \<noteq> None
   \<and> (matched_by (fst (resolve_organization r db)) = IDENTITY_EXACT \<longleftrightarrow>
        directory_find (collect_org_identities r) (owners (organization_identities db)) \<noteq> None)"
  using first_match_owner[of "collect_org_identities r" "organization_identities db", symmetric]
  by (cases rule: resolve_organization_cases[of r db])
    (simp_all add: directory_resolve_def fallback_organization_def owners_upsert_identities fun_eq_iff)

lemma organization_directory:
  assumes "resolve_organization r db = (res, db')"
  shows "directory_resolve (collect_org_identities r) (fallback_organization r db) (owners (organization_identities db)) =
      (the (res_organization res), owners (organization_identities db'))"
    and "res_organization res \<noteq> None"
    and "matched_by res = IDENTITY_EXACT \<longleftrightarrow> directory_find (collect_org_identities r) (owners (organization_identities db)) \<noteq> None"
  using organization_directory_fst[of r db] by (simp_all add: assms)

text \<open>Who resolves whom: \<open>resolve_person\<close> does not touch the organizations, nor the converse.\<close>

lemma resolve_person_frame:
  assumes "resolve_person r org db = (res, db')"
  shows "organizations db' = organizations db" "organization_identities db' = organization_identities db"
    "wall db' = wall db" "res_organization res = org"
proof -
  have "organizations (snd (resolve_person r org db)) = organizations db
      \<and> organization_identities (snd (resolve_person r org db)) = organization_identities db
      \<and> wall (snd (resolve_person r org db)) = wall db \<and> res_organization (fst (resolve_person r org db)) = org"
    by (cases rule: resolve_person_cases[of r db org]) simp_all
  then show "organizations db' = organizations db" "organization_identities db' = organization_identities db"
      "wall db' = wall db" "res_organization res = org" by (simp_all add: assms)
qed

lemma resolve_organization_frame:
  assumes "resolve_organization r db = (res, db')"
  shows "persons db' = persons db" "person_identities db' = person_identities db" "roles db' = roles db"
    "wall db' = wall db" "res_person res = None"
proof -
  have "persons (snd (resolve_organization r db)) = persons db
      \<and> person_identities (snd (resolve_organization r db)) = person_identities db
      \<and> roles (snd (resolve_organization r db)) = roles db
      \<and> wall (snd (resolve_organization r db)) = wall db \<and> res_person (fst (resolve_organization r db)) = None"
    by (cases rule: resolve_organization_cases[of r db]) simp_all
  then show "persons db' = persons db" "person_identities db' = person_identities db" "roles db' = roles db"
      "wall db' = wall db" "res_person res = None" by (simp_all add: assms)
qed

text \<open>An exact match only touches the row found and fills empty fields of its owner.\<close>

lemma resolve_person_exact:
  assumes "resolve_person r org db = (res, db')" "matched_by res = IDENTITY_EXACT"
  shows "\<not> created_person res" "length (persons db') = length (persons db)"
    "length (person_identities db') = length (person_identities db)" "roles db' = roles db"
proof -
  have "matched_by (fst (resolve_person r org db)) = IDENTITY_EXACT \<longrightarrow>
      \<not> created_person (fst (resolve_person r org db))
      \<and> length (persons (snd (resolve_person r org db))) = length (persons db)
      \<and> length (person_identities (snd (resolve_person r org db))) = length (person_identities db)
      \<and> roles (snd (resolve_person r org db)) = roles db"
    by (cases rule: resolve_person_cases[of r db org]) (simp_all add: touch_identity_def merge_person_fields_def)
  then show "\<not> created_person res" "length (persons db') = length (persons db)"
      "length (person_identities db') = length (person_identities db)" "roles db' = roles db"
    by (simp_all add: assms)
qed

lemma resolve_organization_exact:
  assumes "resolve_organization r db = (res, db')" "matched_by res = IDENTITY_EXACT"
  shows "\<not> created_organization res" "organizations db' = organizations db"
    "length (organization_identities db') = length (organization_identities db)"
proof -
  have "matched_by (fst (resolve_organization r db)) = IDENTITY_EXACT \<longrightarrow>
      \<not> created_organization (fst (resolve_organization r db))
      \<and> organizations (snd (resolve_organization r db)) = organizations db
      \<and> length (organization_identities (snd (resolve_organization r db))) = length (organization_identities db)"
    by (cases rule: resolve_organization_cases[of r db]) (simp_all add: touch_identity_def)
  then show "\<not> created_organization res" "organizations db' = organizations db"
      "length (organization_identities db') = length (organization_identities db)"
    by (simp_all add: assms)
qed

text \<open>
  C1. The resolvers refine the abstract directory. The identity table after \<open>resolve_person\<close> (and
  \<open>resolve_organization\<close>) is, as a directory, what the abstract resolver computes from the table
  before, and the row returned is the owner it chooses; so an identity that has an owner keeps it,
  every identity of an unknown record is entered, and the other table is left alone.
\<close>
theorem resolvers_refine_directory:
  "(case resolve_person r org db of (res, db') \<Rightarrow>
      (res_person res, owners (person_identities db')) =
        map_prod Some id (directory_resolve (collect_person_identities r) (fallback_person r org db)
          (owners (person_identities db)))
      \<and> res_organization res = org \<and> organization_identities db' = organization_identities db)
   \<and> (case resolve_organization ro db of (res, db') \<Rightarrow>
      (res_organization res, owners (organization_identities db')) =
        map_prod Some id (directory_resolve (collect_org_identities ro) (fallback_organization ro db)
          (owners (organization_identities db)))
      \<and> res_person res = None \<and> person_identities db' = person_identities db)"
proof -
  obtain res db' ores db2 where eqs: "resolve_person r org db = (res, db')" "resolve_organization ro db = (ores, db2)"
    by (metis surj_pair)
  show ?thesis
    using person_directory(1,2)[OF eqs(1)] resolve_person_frame(2,4)[OF eqs(1)]
      organization_directory(1,2)[OF eqs(2)] resolve_organization_frame(2,5)[OF eqs(2)]
    by (simp add: eqs)
qed

text \<open>
  C31. Resolving is stable. A record that carries at least one identity, resolved a second time, at any
  time but on the tables the first left, is matched exactly, gives the same person (organization), creates nothing, and leaves the
  directory as it is; the number of rows of every table stays the same.
\<close>
theorem resolve_again:
  assumes "collect_person_identities r \<noteq> []" "collect_org_identities ro \<noteq> []"
    and "resolve_person r org db = (res, db1)" "resolve_person r org' (db1\<lparr>wall := t\<rparr>) = (res2, db2)"
    and "resolve_organization ro db = (ores, db3)" "resolve_organization ro (db3\<lparr>wall := t\<rparr>) = (ores2, db4)"
  shows "(matched_by res2 = IDENTITY_EXACT \<and> res_person res2 = res_person res \<and> \<not> created_person res2
      \<and> owners (person_identities db2) = owners (person_identities db1)
      \<and> length (persons db2) = length (persons db1)
      \<and> length (person_identities db2) = length (person_identities db1) \<and> roles db2 = roles db1)
    \<and> (matched_by ores2 = IDENTITY_EXACT \<and> res_organization ores2 = res_organization ores
      \<and> \<not> created_organization ores2
      \<and> owners (organization_identities db4) = owners (organization_identities db3)
      \<and> organizations db4 = organizations db3
      \<and> length (organization_identities db4) = length (organization_identities db3))"
proof (rule conjI)
  note again = directory_resolve_again[OF person_directory(1)[OF assms(3)] assms(1)]
  have found: "matched_by res2 = IDENTITY_EXACT" and "the (res_person res2) = the (res_person res)"
    and own: "owners (person_identities db2) = owners (person_identities db1)"
    using again person_directory[OF assms(4)] by auto
  then have "res_person res2 = res_person res"
    using person_directory(2)[OF assms(3)] person_directory(2)[OF assms(4)] by auto
  with found own assms(4) show "matched_by res2 = IDENTITY_EXACT \<and> res_person res2 = res_person res
      \<and> \<not> created_person res2 \<and> owners (person_identities db2) = owners (person_identities db1)
      \<and> length (persons db2) = length (persons db1)
      \<and> length (person_identities db2) = length (person_identities db1) \<and> roles db2 = roles db1"
    using resolve_person_exact[OF assms(4) found] by simp
next
  note again = directory_resolve_again[OF organization_directory(1)[OF assms(5)] assms(2)]
  have found: "matched_by ores2 = IDENTITY_EXACT" and "the (res_organization ores2) = the (res_organization ores)"
    and own: "owners (organization_identities db4) = owners (organization_identities db3)"
    using again organization_directory[OF assms(6)] by auto
  then have "res_organization ores2 = res_organization ores"
    using organization_directory(2)[OF assms(5)] organization_directory(2)[OF assms(6)] by auto
  with found own assms(6) show "matched_by ores2 = IDENTITY_EXACT \<and> res_organization ores2 = res_organization ores
      \<and> \<not> created_organization ores2
      \<and> owners (organization_identities db4) = owners (organization_identities db3)
      \<and> organizations db4 = organizations db3
      \<and> length (organization_identities db4) = length (organization_identities db3)"
    using resolve_organization_exact[OF assms(6) found] by simp
qed

definition sample_person :: person_record where
  "sample_person = \<lparr>pr_source = ''pipedrive'', pr_email = Some ''Eva@acme.cz'', pr_full_name = Some ''Eva Nova'',
     pr_first_name = None, pr_last_name = None, pr_organization_name = None,
     pr_person_id_in_source = Some ''42'', pr_phone = None, pr_slack_id = None, pr_extra_identities = None\<rparr>"

definition sample_organization :: organization_record where
  "sample_organization = \<lparr>or_source = ''merk'', or_name = ''Acme'', or_ico = Some ''123'', or_dic = None,
     or_primary_domain = None, or_id_in_source = Some ''123'', or_extra_identities = None\<rparr>"

definition empty_registry :: registry where
  "empty_registry = \<lparr>persons = [], organizations = [], person_identities = [], organization_identities = [],
     roles = [], wall = 0\<rparr>"

theorem resolve_again_witness:
  "res_person (fst (resolve_person sample_person None (snd (resolve_person sample_person None empty_registry)\<lparr>wall := 1\<rparr>)))
     = Some 0
   \<and> res_organization (fst (resolve_organization sample_organization
        (snd (resolve_organization sample_organization empty_registry)\<lparr>wall := 1\<rparr>))) = Some 0"
proof -
  have ids: "collect_person_identities sample_person \<noteq> []" "collect_org_identities sample_organization \<noteq> []"
    by code_simp+
  have fst0: "res_person (fst (resolve_person sample_person None empty_registry)) = Some 0"
    "res_organization (fst (resolve_organization sample_organization empty_registry)) = Some 0"
    by code_simp+
  show ?thesis
    using resolve_again[OF ids prod.collapse[symmetric] prod.collapse[symmetric]
        prod.collapse[symmetric] prod.collapse[symmetric],
        where db = empty_registry and org = None and org' = None and t = 1] fst0
    by simp
qed

section \<open>The registry stays well formed\<close>

definition registry_ok :: "registry \<Rightarrow> bool" where
  "registry_ok db \<longleftrightarrow>
     unique_keys person_id (persons db) \<and> unique_keys org_id (organizations db)
     \<and> unique_keys identity_key (person_identities db) \<and> unique_keys identity_key (organization_identities db)
     \<and> owner ` set (person_identities db) \<subseteq> person_id ` set (persons db)
     \<and> owner ` set (organization_identities db) \<subseteq> org_id ` set (organizations db)
     \<and> role_person ` set (roles db) \<subseteq> person_id ` set (persons db)
     \<and> role_organization ` set (roles db) \<subseteq> org_id ` set (organizations db)
     \<and> unique_keys (\<lambda>ro. (role_person ro, role_organization ro, role ro)) (roles db)"

lemma unique_append: "unique_keys key (rows @ [r]) \<longleftrightarrow> unique_keys key rows \<and> key r \<notin> key ` set rows"
  by (auto simp: unique_keys_def)

lemma add_role_unique:
  "unique_keys (\<lambda>ro. (role_person ro, role_organization ro, role ro)) rows \<Longrightarrow>
     unique_keys (\<lambda>ro. (role_person ro, role_organization ro, role ro)) (add_role pid oid what source rows)"
  by (auto simp: add_role_def unique_append)

lemma add_role_sets:
  "role_person ` set (add_role pid oid what source rows) \<subseteq> insert pid (role_person ` set rows)"
  "role_organization ` set (add_role pid oid what source rows) \<subseteq> insert oid (role_organization ` set rows)"
  by (auto simp: add_role_def)

lemma best_candidate_in: "best_candidate score cs None = Some (c, s) \<Longrightarrow> c \<in> set cs"
  using best_candidate_None[of score cs] by (simp add: best_ok_def)

lemma fuzzy_person_in: "fuzzy_person r org db = Some (p, s) \<Longrightarrow> p \<in> set (persons db)"
  by (auto simp: fuzzy_person_def person_candidates_def split: if_splits
      dest!: best_candidate_in in_set_takeD)

lemma fuzzy_organization_in: "fuzzy_organization r db = Some (c, s) \<Longrightarrow> c \<in> set (organizations db)"
  by (auto simp: fuzzy_organization_def dest!: best_candidate_in in_set_takeD)

lemma merged_unique [simp]:
  "unique_keys person_id (merge_person_fields r pid rows) = unique_keys person_id rows"
  by (simp add: unique_keys_def)

lemma person_id_new [simp]: "person_id (new_person r pid) = pid"
  by (simp add: new_person_def Let_def)

lemma org_id_new [simp]: "org_id (new_organization r oid) = oid"
  by (simp add: new_organization_def)

text \<open>Entering identities for an owner that has a row keeps both facts of an identity table.\<close>

lemma upsert_identities_ok:
  assumes "unique_keys identity_key rows" "owner ` set rows \<subseteq> ids" "who \<in> ids'" "ids \<subseteq> ids'"
  shows "unique_keys identity_key (upsert_identities who ks source t rows)"
    and "owner ` set (upsert_identities who ks source t rows) \<subseteq> ids'"
  using assms subset_trans[OF owner_set_upsert_identities[of who ks source t rows], of ids']
  by (simp_all add: unique_upsert_identities)

lemma resolve_person_ok:
  assumes ok: "registry_ok db" and org: "\<And>oid. org = Some oid \<Longrightarrow> oid \<in> org_id ` set (organizations db)"
  shows "registry_ok (snd (resolve_person r org db))"
proof (cases rule: resolve_person_cases[of r db org])
  case (exact existing)
  show ?thesis using ok unfolding exact registry_ok_def by simp
next
  case (fuzzy p score)
  then have "person_id p \<in> person_id ` set (persons db)" by (auto dest: fuzzy_person_in)
  note upsert_identities_ok[OF _ _ this order.refl, of "person_identities db"]
  with ok show ?thesis unfolding fuzzy registry_ok_def by simp
next
  case (new pid)
  let ?roles = "case org of None \<Rightarrow> roles db | Some oid \<Rightarrow> add_role pid oid ''contact'' (pr_source r) (roles db)"
  have "role_person ` set ?roles \<subseteq> insert pid (role_person ` set (roles db))"
    using add_role_sets(1) by (auto split: option.split)
  moreover have "role_organization ` set ?roles \<subseteq> org_id ` set (organizations db)"
  proof (cases org)
    case (Some oid)
    then have "insert oid (role_organization ` set (roles db)) \<subseteq> org_id ` set (organizations db)"
      using ok org by (simp add: registry_ok_def)
    with Some show ?thesis using add_role_sets(2) by (simp add: subset_trans[OF add_role_sets(2)])
  qed (use ok in \<open>simp add: registry_ok_def\<close>)
  moreover have "unique_keys (\<lambda>ro. (role_person ro, role_organization ro, role ro)) ?roles"
    using ok add_role_unique by (auto simp: registry_ok_def split: option.split)
  moreover have "pid \<notin> person_id ` set (persons db)"
    using new fresh_id_notin by simp
  moreover note upsert_identities_ok[of "person_identities db" "person_id ` set (persons db)" pid
      "insert pid (person_id ` set (persons db))"]
  moreover have "role_person ` set (roles db) \<subseteq> person_id ` set (persons db)"
    using ok by (simp add: registry_ok_def)
  ultimately show ?thesis using ok unfolding new(4) registry_ok_def
    by (simp add: unique_append subset_insertI subset_insertI2 image_Un subset_trans[OF _ insert_mono])
qed

lemma resolve_organization_ok:
  assumes ok: "registry_ok db"
  shows "registry_ok (snd (resolve_organization r db))"
proof (cases rule: resolve_organization_cases[of r db])
  case (exact existing)
  show ?thesis using ok unfolding exact registry_ok_def by simp
next
  case (fuzzy c score)
  then have "org_id c \<in> org_id ` set (organizations db)" by (auto dest: fuzzy_organization_in)
  note upsert_identities_ok[OF _ _ this order.refl, of "organization_identities db"]
  with ok show ?thesis unfolding fuzzy registry_ok_def by simp
next
  case (new oid)
  have "oid \<notin> org_id ` set (organizations db)" using new fresh_id_notin by simp
  moreover note upsert_identities_ok[of "organization_identities db" "org_id ` set (organizations db)" oid
      "insert oid (org_id ` set (organizations db))"]
  ultimately show ?thesis using ok unfolding new(4) registry_ok_def
    by (simp add: unique_append subset_insertI subset_insertI2 image_Un)
qed

abbreviation person_ids :: "registry \<Rightarrow> nat set" where
  "person_ids db \<equiv> person_id ` set (persons db)"

abbreviation organization_ids :: "registry \<Rightarrow> nat set" where
  "organization_ids db \<equiv> org_id ` set (organizations db)"

text \<open>What a connector relies on when it calls the hook.\<close>

lemma resolve_person_result:
  assumes "registry_ok db"
  shows "\<exists>p \<in> person_ids (snd (resolve_person r org db)). res_person (fst (resolve_person r org db)) = Some p"
    and "person_ids db \<subseteq> person_ids (snd (resolve_person r org db))"
    and "organization_ids (snd (resolve_person r org db)) = organization_ids db"
proof -
  have own: "owner x \<in> person_ids db" if "x \<in> set (person_identities db)" for x
    using assms that by (auto simp: registry_ok_def)
  show "\<exists>p \<in> person_ids (snd (resolve_person r org db)). res_person (fst (resolve_person r org db)) = Some p"
  proof (cases rule: resolve_person_cases[of r db org])
    case (exact existing)
    then have "owner existing \<in> person_ids db" using own first_match_SomeD by blast
    with exact(2) show ?thesis by simp
  next
    case (fuzzy p score)
    then have "person_id p \<in> person_ids db" using fuzzy_person_in by blast
    with fuzzy(3) show ?thesis by simp
  next
    case (new pid)
    then show ?thesis by simp
  qed
  show "person_ids db \<subseteq> person_ids (snd (resolve_person r org db))"
    by (cases rule: resolve_person_cases[of r db org]) auto
  show "organization_ids (snd (resolve_person r org db)) = organization_ids db"
    by (cases rule: resolve_person_cases[of r db org]) auto
qed

lemma resolve_organization_result:
  assumes "registry_ok db"
  shows "\<exists>c \<in> organization_ids (snd (resolve_organization r db)).
      res_organization (fst (resolve_organization r db)) = Some c"
    and "organization_ids db \<subseteq> organization_ids (snd (resolve_organization r db))"
    and "person_ids (snd (resolve_organization r db)) = person_ids db"
proof -
  have own: "owner x \<in> organization_ids db" if "x \<in> set (organization_identities db)" for x
    using assms that by (auto simp: registry_ok_def)
  show "\<exists>c \<in> organization_ids (snd (resolve_organization r db)).
      res_organization (fst (resolve_organization r db)) = Some c"
  proof (cases rule: resolve_organization_cases[of r db])
    case (exact existing)
    then have "owner existing \<in> organization_ids db" using own first_match_SomeD by blast
    with exact(2) show ?thesis by simp
  next
    case (fuzzy c score)
    then have "org_id c \<in> organization_ids db" using fuzzy_organization_in by blast
    with fuzzy(3) show ?thesis by simp
  next
    case (new oid)
    then show ?thesis by simp
  qed
  show "organization_ids db \<subseteq> organization_ids (snd (resolve_organization r db))"
    by (cases rule: resolve_organization_cases[of r db]) auto
  show "person_ids (snd (resolve_organization r db)) = person_ids db"
    by (cases rule: resolve_organization_cases[of r db]) auto
qed

lemma hook_person_ok:
  assumes "registry_ok db" "\<And>oid. org = Some oid \<Longrightarrow> oid \<in> organization_ids db"
    and "hook_resolve_person r org db = (p, db')"
  shows "registry_ok db'" "person_ids db \<subseteq> person_ids db'" "organization_ids db' = organization_ids db"
    and "\<And>x. p = Some x \<Longrightarrow> x \<in> person_ids db'"
proof -
  have "(p, db') = (None, db)
      \<or> (p, db') = (res_person (fst (resolve_person r org db)), snd (resolve_person r org db))"
    using assms(3) by (auto simp: hook_resolve_person_def case_prod_unfold Let_def split: if_splits)
  then show "registry_ok db'" "person_ids db \<subseteq> person_ids db'" "organization_ids db' = organization_ids db"
    "\<And>x. p = Some x \<Longrightarrow> x \<in> person_ids db'"
    using resolve_person_ok[where r = r, OF assms(1,2)] resolve_person_result[OF assms(1), of r org] assms(1)
    by (elim disjE; force)+
qed

lemma hook_organization_ok:
  assumes "registry_ok db" and "hook_resolve_organization r db = (c, db')"
  shows "registry_ok db'" "organization_ids db \<subseteq> organization_ids db'" "person_ids db' = person_ids db"
    and "\<And>x. c = Some x \<Longrightarrow> x \<in> organization_ids db'"
proof -
  have "(c, db') = (None, db)
      \<or> (c, db') = (res_organization (fst (resolve_organization r db)), snd (resolve_organization r db))"
    using assms(2) by (auto simp: hook_resolve_organization_def case_prod_unfold Let_def split: if_splits)
  then show "registry_ok db'" "organization_ids db \<subseteq> organization_ids db'" "person_ids db' = person_ids db"
    "\<And>x. c = Some x \<Longrightarrow> x \<in> organization_ids db'"
    using resolve_organization_ok[OF assms(1), of r] resolve_organization_result[OF assms(1), of r] assms(1)
    by (elim disjE; force)+
qed

text \<open>A feed of records, each resolved in turn; a person's organization is the one given.\<close>

datatype feed_item = Feed_person person_record "nat option" | Feed_organization organization_record

fun resolve_feed :: "feed_item list \<Rightarrow> registry \<Rightarrow> registry" where
  "resolve_feed [] db = db"
| "resolve_feed (Feed_person r org # fs) db = resolve_feed fs (snd (resolve_person r org db))"
| "resolve_feed (Feed_organization r # fs) db = resolve_feed fs (snd (resolve_organization r db))"

definition feed_ok :: "registry \<Rightarrow> feed_item list \<Rightarrow> bool" where
  "feed_ok db fs \<longleftrightarrow> (\<forall>r oid. Feed_person r (Some oid) \<in> set fs \<longrightarrow> oid \<in> org_id ` set (organizations db))"

lemma organizations_grow:
  "organizations (snd (resolve_person r org db)) = organizations db"
  "org_id ` set (organizations db) \<subseteq> org_id ` set (organizations (snd (resolve_organization ro db)))"
  by (cases rule: resolve_person_cases[of r db org]; simp)
    (cases rule: resolve_organization_cases[of ro db]; auto)

text \<open>
  C30. The registry stays well formed. Whatever records are resolved, in whatever order, primary keys
  and (type, value) identities stay unique, every identity row and role refers to a person and an
  organization that exist, and a person has a role in an organization at most once.
\<close>
theorem registry_stays_ok:
  assumes "registry_ok db" "feed_ok db fs"
  shows "registry_ok (resolve_feed fs db)"
  using assms
proof (induction fs arbitrary: db)
  case (Cons f fs)
  show ?case
  proof (cases f)
    case (Feed_person r org)
    have "registry_ok (snd (resolve_person r org db))"
      using Cons.prems by (intro resolve_person_ok) (auto simp: Feed_person feed_ok_def)
    moreover have "feed_ok (snd (resolve_person r org db)) fs"
      using Cons.prems by (auto simp: feed_ok_def organizations_grow)
    ultimately show ?thesis using Cons.IH by (simp add: Feed_person)
  next
    case (Feed_organization r)
    have "feed_ok (snd (resolve_organization r db)) fs"
      unfolding feed_ok_def
    proof (intro allI impI)
      fix rp oid assume "Feed_person rp (Some oid) \<in> set fs"
      with Cons.prems(2) have "oid \<in> org_id ` set (organizations db)" by (auto simp: feed_ok_def)
      then show "oid \<in> org_id ` set (organizations (snd (resolve_organization r db)))"
        using organizations_grow(2) by blast
    qed
    then show ?thesis using Cons.IH Cons.prems(1) by (simp add: Feed_organization resolve_organization_ok)
  qed
qed simp

theorem registry_stays_ok_witness:
  "registry_ok (resolve_feed [Feed_person sample_person None, Feed_organization sample_organization,
     Feed_person sample_person None] empty_registry)
   \<and> length (persons (resolve_feed [Feed_person sample_person None, Feed_organization sample_organization,
     Feed_person sample_person None] empty_registry)) = 1"
proof -
  have "length (persons (resolve_feed [Feed_person sample_person None, Feed_organization sample_organization,
     Feed_person sample_person None] empty_registry)) = 1"
    by code_simp
  moreover have "registry_ok empty_registry" "feed_ok empty_registry [Feed_person sample_person None,
      Feed_organization sample_organization, Feed_person sample_person None]"
    by (auto simp: registry_ok_def empty_registry_def unique_keys_def feed_ok_def)
  ultimately show ?thesis using registry_stays_ok by blast
qed

text \<open>
  No master data is lost. \<open>resolve_person\<close> keeps every person row in its place, changes no row but
  that of the person it returns, and there only fills fields that are empty: an email, a name or a
  display name that is set is never overwritten. A row is added exactly when the result says a person
  was created, and that row is the one returned.
\<close>
theorem resolve_person_keeps:
  "case resolve_person r org db of (res, db') \<Rightarrow>
     (\<exists>old new. persons db' = old @ new
        \<and> list_all2 (\<lambda>p p'. keeps_fields p p' \<and> (p' = p \<or> res_person res = Some (person_id p))) (persons db) old
        \<and> (if created_person res then old = persons db \<and> map (Some \<circ> person_id) new = [res_person res]
            else new = []))"
proof (cases rule: resolve_person_cases[of r db org])
  case (exact existing)
  have "list_all2 (\<lambda>p p'. keeps_fields p p' \<and> (p' = p \<or> owner existing = person_id p)) (persons db)
      (merge_person_fields r (owner existing) (persons db))"
    using merge_person_fields_keeps by (rule list_all2_mono) auto
  then show ?thesis unfolding exact(2) by simp
next
  case (fuzzy q score)
  have "list_all2 (\<lambda>p p'. keeps_fields p p' \<and> (p' = p \<or> person_id q = person_id p)) (persons db)
      (merge_person_fields r (person_id q) (persons db))"
    using merge_person_fields_keeps by (rule list_all2_mono) auto
  then show ?thesis unfolding fuzzy(3) by simp
next
  case (new pid)
  show ?thesis unfolding new(4)
    by (simp add: list_all2_same)
qed

text \<open>
  The fallback of an unknown record. When no identity is known, a fuzzy match is reported exactly
  when one of the first fifty persons whose email lies in the record's domain (holding a role in the
  organization, when one is given) scores at least 0.85 against the record's name; the one returned
  has the highest score, and the confidence is that score, between 0.85 and 1. Otherwise all of them
  score below 0.85 or the record has no email or no name, and a person is created with confidence 0.8.
\<close>
theorem fuzzy_choice:
  assumes "first_match (collect_person_identities r) (person_identities db) = None"
  shows "case resolve_person r org db of (res, db') \<Rightarrow>
    (case matched_by res of
       NAME_DOMAIN_FUZZY \<Rightarrow>
         truthy (pr_email r) \<and> \<not> created_person res \<and> 85 / 100 \<le> confidence res \<and> confidence res \<le> 1
         \<and> (\<exists>p \<in> set (take 50 (person_candidates (or_empty (pr_email r)) org db)).
              res_person res = Some (person_id p) \<and> confidence res = similarity (display_name p) (target_name r))
         \<and> (\<forall>p \<in> set (take 50 (person_candidates (or_empty (pr_email r)) org db)).
              similarity (display_name p) (target_name r) \<le> confidence res)
     | MANUAL \<Rightarrow>
         created_person res \<and> confidence res = 8 / 10
         \<and> (truthy (pr_email r) \<and> (truthy (pr_full_name r) \<or> truthy (pr_first_name r) \<and> truthy (pr_last_name r)) \<longrightarrow>
             (\<forall>p \<in> set (take 50 (person_candidates (or_empty (pr_email r)) org db)).
               similarity (display_name p) (target_name r) < 85 / 100))
     | _ \<Rightarrow> False)"
proof (cases rule: resolve_person_cases[of r db org])
  case (fuzzy p score)
  let ?C = "take 50 (person_candidates (or_empty (pr_email r)) org db)"
  have "truthy (pr_email r)" "best_candidate (\<lambda>c. similarity (display_name c) (target_name r)) ?C None = Some (p, score)"
    using fuzzy(2) by (auto simp: fuzzy_person_def split: if_splits)
  with best_candidate_None[of "\<lambda>c. similarity (display_name c) (target_name r)" ?C]
  show ?thesis unfolding fuzzy(3)
    using similarity_bounds by (auto simp: best_ok_def fuzzy_name_threshold_def)
next
  case (new pid)
  let ?C = "take 50 (person_candidates (or_empty (pr_email r)) org db)"
  show ?thesis unfolding new(4)
    using new(2) best_candidate_None[of "\<lambda>c. similarity (display_name c) (target_name r)" ?C]
    by (auto simp: best_ok_def fuzzy_name_threshold_def fuzzy_person_def split: if_splits)
qed (use assms in simp)

text \<open>A second address of the domain, and a name that differs in one letter.\<close>

definition sample_colleague :: person_record where
  "sample_colleague = sample_person\<lparr>pr_email := Some ''e.nova@acme.cz'', pr_full_name := Some ''Eva Novak'',
     pr_person_id_in_source := None\<rparr>"

theorem fuzzy_choice_witness:
  "case resolve_person sample_colleague None (snd (resolve_person sample_person None empty_registry)) of (res, db') \<Rightarrow>
     matched_by res = NAME_DOMAIN_FUZZY \<and> 85 / 100 \<le> confidence res"
proof -
  have none: "first_match (collect_person_identities sample_colleague)
      (person_identities (snd (resolve_person sample_person None empty_registry))) = None"
    by code_simp
  have "matched_by (fst (resolve_person sample_colleague None (snd (resolve_person sample_person None empty_registry))))
      = NAME_DOMAIN_FUZZY"
    by code_simp
  moreover obtain res db' where "resolve_person sample_colleague None
      (snd (resolve_person sample_person None empty_registry)) = (res, db')"
    by (metis surj_pair)
  ultimately show ?thesis using fuzzy_choice[OF none, of None] by simp
qed

end
