(* ===== verification/PipedriveMirror.thy ===== *)
theory PipedriveMirror
  imports PipedriveIngest IdentityResolver
begin

text \<open>
  What the Pipedrive ingest guarantees: each sync replicates its source into a mirror table (an
  \<open>interpretation\<close> of \<open>replica_contract\<close> for each of the four), the mirror tables and the identity
  registry stay consistent, and the deal cursor never moves back.
\<close>

section \<open>What a stored row is\<close>

definition row_key :: "json \<Rightarrow> int" where
  "row_key raw = (case andthen (jindex raw ''id'') py_int of Inr i \<Rightarrow> i | Inl _ \<Rightarrow> 0)"

lemma row_key_eq: "jindex raw ''id'' = Inr v \<Longrightarrow> py_int v = Inr i \<Longrightarrow> row_key raw = i"
  by (simp add: row_key_def)

lemma provenance_of_Inr: "provenance_of pe raw i t ctx = Inr prov \<Longrightarrow> raw_payload prov = raw"
  by (auto simp: provenance_of_def andthen_Inr_iff)

lemma organization_row_Inr:
  "organization_row pe raw ctx i name master t = Inr d \<Longrightarrow>
     po_id d = i \<and> raw_payload (po_prov d) = raw \<and> po_organization d = master"
  by (auto simp: organization_row_def andthen_Inr_iff dest: provenance_of_Inr)

lemma person_row_Inr:
  "person_row pe raw ctx i name email phone oid master_org master t = Inr d \<Longrightarrow>
     pp_id d = i \<and> raw_payload (pp_prov d) = raw \<and> pp_organization d = master_org \<and> pp_person d = master"
  by (auto simp: person_row_def andthen_Inr_iff dest: provenance_of_Inr)

lemma deal_row_Inr:
  "deal_row pe raw ctx db = Inr d \<Longrightarrow>
     pd_id d = row_key raw \<and> raw_payload (pd_prov d) = raw
     \<and> (\<exists>i. pd_organization d = mirror_org i (pd_orgs db)) \<and> (\<exists>i. pd_person d = mirror_person i (pd_people db))"
  by (auto simp: deal_row_def andthen_Inr_iff row_key_eq dest: provenance_of_Inr)

lemma activity_row_Inr:
  "activity_row pe raw ctx db = Inr d \<Longrightarrow>
     pa_id d = row_key raw \<and> raw_payload (pa_prov d) = raw \<and> (\<exists>i. pa_deal d = mirror_deal i (pd_deals db))
     \<and> (\<exists>i. pa_organization d = linked_org i (pd_orgs db)) \<and> (\<exists>i. pa_person d = linked_person i (pd_people db))"
  by (auto simp: activity_row_def andthen_Inr_iff row_key_eq dest: provenance_of_Inr)

lemma persist_organization_Inr:
  assumes "persist_organization pe raw ctx db = Inr (oc, db')"
  obtains d name reg rows where "po_id d = row_key raw" "raw_payload (po_prov d) = raw"
    "hook_resolve_organization (org_record name (row_key raw)) (ids db) = (po_organization d, reg)"
    "store (refuse_org pe) po_id org_mk org_upd d (pd_orgs db) = Inr (oc, rows)"
    "db' = db\<lparr>ids := reg, pd_orgs := rows\<rparr>"
proof -
  define H where "H name = hook_resolve_organization (org_record name (row_key raw)) (ids db)" for name
  obtain name d rows where
    d: "organization_row pe raw ctx (row_key raw) name (fst (H name)) (wall (snd (H name))) = Inr d"
    and s: "store (refuse_org pe) po_id org_mk org_upd d (pd_orgs db) = Inr (oc, rows)"
    and db': "db' = db\<lparr>ids := snd (H name), pd_orgs := rows\<rparr>"
    using assms by (auto simp: persist_organization_def andthen_Inr_iff row_key_eq case_prod_unfold H_def)
  show thesis
    by (rule that[of d name "snd (H name)" rows]) (use organization_row_Inr[OF d] s db' in \<open>simp_all add: H_def\<close>)
qed

lemma persist_person_Inr:
  assumes "persist_person pe raw ctx db = Inr (oc, db')"
  obtains d email name phone reg rows where "pp_id d = row_key raw" "raw_payload (pp_prov d) = raw"
    "hook_resolve_person (pd_person_record email name phone (row_key raw)) (pp_organization d) (ids db) = (pp_person d, reg)"
    "\<exists>i. pp_organization d = mirror_org i (pd_orgs db)"
    "store (refuse_person pe) pp_id person_mk person_upd d (pd_people db) = Inr (oc, rows)"
    "db' = db\<lparr>ids := reg, pd_people := rows\<rparr>"
proof -
  define H where "H email name phone oid =
    hook_resolve_person (pd_person_record email name phone (row_key raw)) (mirror_org oid (pd_orgs db)) (ids db)"
    for email name phone oid
  obtain name email phone oid d rows where
    d: "person_row pe raw ctx (row_key raw) name email phone oid (mirror_org oid (pd_orgs db))
      (fst (H email name phone oid)) (wall (snd (H email name phone oid))) = Inr d"
    and s: "store (refuse_person pe) pp_id person_mk person_upd d (pd_people db) = Inr (oc, rows)"
    and db': "db' = db\<lparr>ids := snd (H email name phone oid), pd_people := rows\<rparr>"
    using assms by (auto simp: persist_person_def andthen_Inr_iff row_key_eq case_prod_unfold Let_def H_def)
  show thesis
    by (rule that[of d email name phone "snd (H email name phone oid)" rows])
      (use person_row_Inr[OF d] s db' in \<open>auto simp: H_def\<close>)
qed

lemma persist_deal_Inr:
  assumes "snd (persist_deal pe raw ctx db) = Inr (oc, db')"
  obtains d rows u where "deal_row pe raw ctx db = Inr d"
    "store (refuse_deal pe) pd_id deal_mk deal_upd d (pd_deals db) = Inr (oc, rows)"
    "text_of raw ''update_time'' = Inr u"
    "fst (persist_deal pe raw ctx db) = ctx\<lparr>cursor_after := max (cursor_after ctx) u\<rparr>"
    "db' = db\<lparr>pd_deals := rows\<rparr>"
  using assms by (auto simp: persist_deal_def andthen_Inr_iff split: sum.splits prod.splits)

lemma persist_activity_Inr:
  assumes "persist_activity pe raw ctx db = Inr (oc, db')"
  obtains d rows where "activity_row pe raw ctx db = Inr d"
    "store (refuse_activity pe) pa_id activity_mk activity_upd d (pd_activities db) = Inr (oc, rows)"
    "db' = db\<lparr>pd_activities := rows\<rparr>"
  using assms by (auto simp: persist_activity_def andthen_Inr_iff split: prod.splits)

section \<open>The syncs keep replicas\<close>

lemma persist_deal_frame: "\<exists>cur. fst (persist_deal pe raw ctx db) = ctx\<lparr>cursor_after := cur\<rparr>"
proof (cases "snd (persist_deal pe raw ctx db)")
  case (Inl e)
  then have "fst (persist_deal pe raw ctx db) = ctx" by (auto simp: persist_deal_def split: sum.splits prod.splits)
  then show ?thesis by (intro exI[of _ "cursor_after ctx"]) simp
next
  case (Inr x)
  then obtain oc db' where "snd (persist_deal pe raw ctx db) = Inr (oc, db')" by (metis surj_pair)
  from persist_deal_Inr[OF this] show ?thesis by metis
qed

lemma persist_organization_payload:
  assumes "persist_organization pe raw ctx db = Inr (oc, db')"
  shows "payloads po_id po_prov (pd_orgs db') = (payloads po_id po_prov (pd_orgs db))(row_key raw \<mapsto> raw)"
    and "oc = (if payloads po_id po_prov (pd_orgs db) (row_key raw) = None then ''created'' else ''updated'')"
    and "oc \<noteq> ''skipped''" "oc \<in> {''created'', ''updated''}"
proof -
  from assms obtain d rows where d: "po_id d = row_key raw" "raw_payload (po_prov d) = raw"
    "store (refuse_org pe) po_id org_mk org_upd d (pd_orgs db) = Inr (oc, rows)" "pd_orgs db' = rows"
    by (elim persist_organization_Inr) simp
  note payloads_store[OF d(3) org_table.keyed_table_axioms, of po_prov]
  then show "payloads po_id po_prov (pd_orgs db') = (payloads po_id po_prov (pd_orgs db))(row_key raw \<mapsto> raw)"
    "oc = (if payloads po_id po_prov (pd_orgs db) (row_key raw) = None then ''created'' else ''updated'')"
    "oc \<noteq> ''skipped''" "oc \<in> {''created'', ''updated''}"
    using d by (simp_all add: org_mk_def org_upd_def)
qed

lemma persist_person_payload:
  assumes "persist_person pe raw ctx db = Inr (oc, db')"
  shows "payloads pp_id pp_prov (pd_people db') = (payloads pp_id pp_prov (pd_people db))(row_key raw \<mapsto> raw)"
    and "oc = (if payloads pp_id pp_prov (pd_people db) (row_key raw) = None then ''created'' else ''updated'')"
    and "oc \<noteq> ''skipped''" "oc \<in> {''created'', ''updated''}"
proof -
  from assms obtain d rows where d: "pp_id d = row_key raw" "raw_payload (pp_prov d) = raw"
    "store (refuse_person pe) pp_id person_mk person_upd d (pd_people db) = Inr (oc, rows)" "pd_people db' = rows"
    by (elim persist_person_Inr) simp
  note payloads_store[OF d(3) person_table.keyed_table_axioms, of pp_prov]
  then show "payloads pp_id pp_prov (pd_people db') = (payloads pp_id pp_prov (pd_people db))(row_key raw \<mapsto> raw)"
    "oc = (if payloads pp_id pp_prov (pd_people db) (row_key raw) = None then ''created'' else ''updated'')"
    "oc \<noteq> ''skipped''" "oc \<in> {''created'', ''updated''}"
    using d by (simp_all add: person_mk_def person_upd_def)
qed

lemma persist_deal_payload:
  assumes "snd (persist_deal pe raw ctx db) = Inr (oc, db')"
  shows "payloads pd_id pd_prov (pd_deals db') = (payloads pd_id pd_prov (pd_deals db))(row_key raw \<mapsto> raw)"
    and "oc = (if payloads pd_id pd_prov (pd_deals db) (row_key raw) = None then ''created'' else ''updated'')"
    and "oc \<noteq> ''skipped''" "oc \<in> {''created'', ''updated''}"
proof -
  from assms obtain d rows where d: "deal_row pe raw ctx db = Inr d"
    "store (refuse_deal pe) pd_id deal_mk deal_upd d (pd_deals db) = Inr (oc, rows)" "pd_deals db' = rows"
    by (elim persist_deal_Inr) simp
  note payloads_store[OF d(2) deal_table.keyed_table_axioms, of pd_prov]
  then show "payloads pd_id pd_prov (pd_deals db') = (payloads pd_id pd_prov (pd_deals db))(row_key raw \<mapsto> raw)"
    "oc = (if payloads pd_id pd_prov (pd_deals db) (row_key raw) = None then ''created'' else ''updated'')"
    "oc \<noteq> ''skipped''" "oc \<in> {''created'', ''updated''}"
    using d deal_row_Inr[OF d(1)] by (simp_all add: deal_mk_def deal_upd_def)
qed

lemma persist_activity_payload:
  assumes "persist_activity pe raw ctx db = Inr (oc, db')"
  shows "payloads pa_id pa_prov (pd_activities db') = (payloads pa_id pa_prov (pd_activities db))(row_key raw \<mapsto> raw)"
    and "oc = (if payloads pa_id pa_prov (pd_activities db) (row_key raw) = None then ''created'' else ''updated'')"
    and "oc \<noteq> ''skipped''" "oc \<in> {''created'', ''updated''}"
proof -
  from assms obtain d rows where d: "activity_row pe raw ctx db = Inr d"
    "store (refuse_activity pe) pa_id activity_mk activity_upd d (pd_activities db) = Inr (oc, rows)"
    "pd_activities db' = rows"
    by (elim persist_activity_Inr) simp
  note payloads_store[OF d(2) activity_table.keyed_table_axioms, of pa_prov]
  then show "payloads pa_id pa_prov (pd_activities db') = (payloads pa_id pa_prov (pd_activities db))(row_key raw \<mapsto> raw)"
    "oc = (if payloads pa_id pa_prov (pd_activities db) (row_key raw) = None then ''created'' else ''updated'')"
    "oc \<noteq> ''skipped''" "oc \<in> {''created'', ''updated''}"
    using d activity_row_Inr[OF d(1)] by (simp_all add: activity_mk_def activity_upd_def)
qed

interpretation org_sync: replica_contract "persist (organization_sync api fuel pe limiter)"
    "\<lambda>db. payloads po_id po_prov (pd_orgs db)" row_key
  by unfold_locales
    (auto simp: organization_sync_def finite_payloads same_context simp del: fun_upd_apply
      dest: persist_organization_payload)

interpretation person_sync: replica_contract "persist (person_sync api fuel pe limiter)"
    "\<lambda>db. payloads pp_id pp_prov (pd_people db)" row_key
  by unfold_locales
    (auto simp: person_sync_def finite_payloads same_context simp del: fun_upd_apply dest: persist_person_payload)

interpretation deal_sync: replica_contract "persist (deal_sync api fuel pe limiter)"
    "\<lambda>db. payloads pd_id pd_prov (pd_deals db)" row_key
  by unfold_locales
    (auto simp: deal_sync_def finite_payloads persist_deal_frame simp del: fun_upd_apply dest: persist_deal_payload)

interpretation activity_sync: replica_contract "persist (activity_sync api fuel start_date pe limiter)"
    "\<lambda>db. payloads pa_id pa_prov (pd_activities db)" row_key
  by unfold_locales
    (auto simp: activity_sync_def finite_payloads same_context simp del: fun_upd_apply dest: persist_activity_payload)

section \<open>The deal sync\<close>

abbreviation deal_view :: "'s pd_db \<Rightarrow> int \<Rightarrow> json option" where
  "deal_view db \<equiv> payloads pd_id pd_prov (pd_deals db)"

text \<open>\<open>raw.get("update_time") or ""\<close>, where it is text.\<close>

definition update_time :: "json \<Rightarrow> string" where
  "update_time raw = (case text_of raw ''update_time'' of Inr u \<Rightarrow> u | Inl _ \<Rightarrow> [])"

lemma updated_since_text: "text_of raw ''update_time'' = Inr u \<Longrightarrow> updated_since t raw = Inr (t \<le> u)"
  by (auto simp: text_of_def updated_since_def andthen_Inr_iff)

text \<open>Every deal a listing with \<open>since\<close> returns is at least that recent.\<close>

lemma filter_result_all: "filter_result p xs = Inr ys \<Longrightarrow> y \<in> set ys \<Longrightarrow> p y = Inr True"
  by (induction xs arbitrary: ys) (auto simp: andthen_Inr_iff split: if_splits)

lemma page_loop_all:
  assumes "\<And>chunk ys y. keep chunk = Inr ys \<Longrightarrow> y \<in> set ys \<Longrightarrow> P y"
  shows "page_loop api path extra keep page_size fuel start acc c = Some (Inr ys, c') \<Longrightarrow>
    (\<And>y. y \<in> set acc \<Longrightarrow> P y) \<Longrightarrow> y \<in> set ys \<Longrightarrow> P y"
proof (induction fuel arbitrary: start acc c)
  case (Suc fuel)
  obtain r c1 where get: "pd_get api path ([(''start'', JInt start), (''limit'', JInt page_size)] @ extra) c = (r, c1)"
    by (metis surj_pair)
  with Suc.prems(1) obtain data where data: "r = Inr data" by (cases r) auto
  from Suc.prems(1) get data obtain chunk nxt where page: "page_of keep start page_size data = Inr (chunk, nxt)"
    by (auto split: sum.splits)
  have "P y" if "y \<in> set chunk" for y
    using page that assms by (auto simp: page_of_def andthen_Inr_iff Let_def split: if_splits)
  then have acc: "\<And>y. y \<in> set (acc @ chunk) \<Longrightarrow> P y" using Suc.prems(2) by auto
  show ?case
  proof (cases nxt)
    case None
    with Suc.prems(1) get data page have "ys = acc @ chunk" by simp
    with acc Suc.prems(3) show ?thesis by blast
  next
    case (Some n)
    with Suc.prems(1) get data page
    have "page_loop api path extra keep page_size fuel n (acc @ chunk) c1 = Some (Inr ys, c')" by simp
    from Suc.IH[OF this acc Suc.prems(3)] show ?thesis .
  qed
qed simp

lemma iter_deals_recent:
  assumes "iter_deals api fuel (Some t) page_size c = Some (Inr ys, c')" "t \<noteq> []" "d \<in> set ys"
  shows "updated_since t d = Inr True"
  using assms(1)[unfolded iter_deals_def] assms(2,3)
  by (elim page_loop_all[rotated]) (auto simp: since_filter_def dest: filter_result_all)

lemma deal_fetch_recent:
  assumes "fetch (deal_sync api fuel pe limiter) ctx db = ((raws, fe), db0)" "cursor_before ctx \<noteq> []" "d \<in> set raws"
  shows "updated_since (cursor_before ctx) d = Inr True"
  using assms iter_deals_recent[of api fuel "cursor_before ctx" 100]
  by (auto simp: deal_sync_def client_fetch_def split: sum.splits option.splits)

lemma deal_cursor_key: "cursor_key (deal_sync api fuel pe limiter) = ''pipedrive.deals''"
  by (simp add: cursor_key_def deal_sync_def)

lemma persist_deal_cursor:
  assumes "t \<le> cursor_after ctx \<or> cursor_after ctx = []" "updated_since t raw = Inr True"
  shows "t \<le> cursor_after (fst (persist_deal pe raw ctx db)) \<or> cursor_after (fst (persist_deal pe raw ctx db)) = []"
proof (cases "snd (persist_deal pe raw ctx db)")
  case (Inl e)
  then have "fst (persist_deal pe raw ctx db) = ctx" by (auto simp: persist_deal_def split: sum.splits prod.splits)
  with assms show ?thesis by simp
next
  case (Inr x)
  then obtain oc db' where "snd (persist_deal pe raw ctx db) = Inr (oc, db')" by (metis surj_pair)
  then obtain u where u: "text_of raw ''update_time'' = Inr u"
    "fst (persist_deal pe raw ctx db) = ctx\<lparr>cursor_after := max (cursor_after ctx) u\<rparr>"
    by (elim persist_deal_Inr)
  then have "t \<le> u" using assms(2) updated_since_text by fastforce
  with u(2) show ?thesis by (simp add: le_max_iff_disj)
qed

text \<open>
  The deal cursor never moves back. Whatever the service answers, whatever rows fail and however
  the run ends, the cursor stored for the deals after a run is at least the one stored before, in the
  order of the ISO time stamps; so no later run asks for deals older than an earlier one did.
\<close>
theorem deal_cursor_monotone:
  assumes "base_sync_run exc_text tnow (deal_sync api fuel pe limiter) integration mode w = (out, w')"
  shows "read_cursor ''pipedrive.deals'' (cursors w) \<le> read_cursor ''pipedrive.deals'' (cursors w')"
  using assms
proof (rule run_unfold)
  let ?cls = "deal_sync api fuel pe limiter"
  let ?before = "read_cursor ''pipedrive.deals'' (cursors w)"
  let ?ctx = "new_context ?cls integration mode ?before (fresh_id run_id (sync_runs w))"
  fix raws fe db0 r ctx db c
  assume "sync_loop exc_text ?cls raws fe (new_context ?cls integration mode (read_cursor (cursor_key ?cls) (cursors w))
        (fresh_id run_id (sync_runs w))) db0 (env w) = (r, ctx, db, c)"
    and "fetch ?cls (new_context ?cls integration mode (read_cursor (cursor_key ?cls) (cursors w))
        (fresh_id run_id (sync_runs w))) (tables w) = ((raws, fe), db0)"
    and cur: "cursors w' = (if r = None \<and> cursor_after ctx \<noteq> []
        then write_cursor (cursor_key ?cls) (cursor_after ctx) (tnow c) (cursors w) else cursors w)"
  then have loop: "sync_loop exc_text ?cls raws fe ?ctx db0 (env w) = (r, ctx, db, c)"
    and fetch: "fetch ?cls ?ctx (tables w) = ((raws, fe), db0)"
    unfolding deal_cursor_key by auto
  have recent: "updated_since ?before d = Inr True" if "?before \<noteq> []" "d \<in> set raws" for d
    using deal_fetch_recent[OF fetch _ that(2)] that(1) by simp
  have "?before \<le> cursor_after ctx \<or> cursor_after ctx = []" if "?before \<noteq> []"
    by (rule sync_loop_cursor[where P = "\<lambda>u. ?before \<le> u \<or> u = []", OF _ loop])
      (simp_all add: deal_sync_def persist_deal_cursor recent[OF that])
  then show "read_cursor ''pipedrive.deals'' (cursors w) \<le> read_cursor ''pipedrive.deals'' (cursors w')"
    by (cases "?before = []") (auto simp: cur read_write_cursor deal_cursor_key)
qed

text \<open>A deal fails on a title that is not text; the next one is newer and stored.\<close>

definition sample_env :: pd_env where
  "sample_env = \<lparr>parse_datetime = (\<lambda>_. Inr None), refuse_org = (\<lambda>_. None), refuse_person = (\<lambda>_. None),
     refuse_deal = (\<lambda>_. None), refuse_activity = (\<lambda>_. None)\<rparr>"

definition bad_deal :: json where
  "bad_deal = JObj [(''id'', JInt 1), (''title'', JInt 5), (''update_time'', JStr ''2026-01-01'')]"

definition two_deals :: "json list" where
  "two_deals = [bad_deal, sample_deal 2 ''2026-03-01'']"

definition two_deals_api :: "unit pd_api" where
  "two_deals_api = fresh_api\<lparr>send := (\<lambda>path params token s. (sample_page two_deals params, s))\<rparr>"

definition pd_world :: "string \<Rightarrow> (unit pd_db, unit) sync_world" where
  "pd_world cursor =
     \<lparr>tables = \<lparr>ids = empty_registry, credential = Some [], outside = (), pd_orgs = [], pd_people = [],
                pd_deals = [], pd_activities = []\<rparr>,
      sync_runs = [],
      cursors = (if cursor = [] then [] else [mk_cursor (cursor, 0) ''pipedrive.deals'']), env = ()\<rparr>"

abbreviation sample_deal_sync :: "unit pd_api \<Rightarrow> (json, unit pd_db, unit, py_error) sync_class" where
  "sample_deal_sync api \<equiv> deal_sync api 2 sample_env (\<lambda>c. (Inr (), c))"

abbreviation sample_run ::
  "unit pd_api \<Rightarrow> (unit pd_db, unit) sync_world \<Rightarrow> sync_outcome \<times> (unit pd_db, unit) sync_world" where
  "sample_run api w \<equiv> base_sync_run (\<lambda>_. ''error'') (\<lambda>_. 9) (sample_deal_sync api) 1 Incremental w"

theorem deal_cursor_monotone_witness:
  "read_cursor ''pipedrive.deals'' (cursors (pd_world ''2026-02-01''))
     \<le> read_cursor ''pipedrive.deals'' (cursors (snd (sample_run fresh_api (pd_world ''2026-02-01''))))
   \<and> read_cursor ''pipedrive.deals'' (cursors (snd (sample_run fresh_api (pd_world ''2026-02-01'')))) = ''2026-03-01''"
proof -
  have "read_cursor ''pipedrive.deals'' (cursors (snd (sample_run fresh_api (pd_world ''2026-02-01'')))) = ''2026-03-01''"
    by code_simp
  with deal_cursor_monotone[OF prod.collapse[symmetric]] show ?thesis by blast
qed

section \<open>Deals are replicated\<close>

lemma deal_fetch_served:
  assumes "serves api ''/deals'' deals" "length deals < fuel * 100" "credential db = Some ts"
    and "\<And>d. d \<in> set deals \<Longrightarrow> \<exists>u. text_of d ''update_time'' = Inr u"
  shows "fetch (deal_sync api fuel pe limiter) ctx db =
    ((filter (\<lambda>d. cursor_before ctx \<le> update_time d) deals, None), db)"
proof -
  have upd: "updated_since t d = Inr (t \<le> update_time d)" if "d \<in> set deals" for t d
    using assms(4)[OF that] updated_since_text by (auto simp: update_time_def)
  have keep: "since_filter (if cursor_before ctx \<noteq> [] then Some (cursor_before ctx) else None) deals
      = Inr (filter (\<lambda>d. cursor_before ctx \<le> update_time d) deals)"
    using filter_result_total[of deals "updated_since (cursor_before ctx)"] upd
    by (auto simp: since_filter_def intro!: filter_cong)
  have empty: "since_filter s [] = Inr []" for s
    by (simp add: since_filter_def split: option.split)
  show ?thesis
    using page_loop_whole[OF assms(1) _ assms(2) since_filter_append keep empty] assms(3)
    by (simp add: deal_sync_def client_fetch_def open_client_def iter_deals_def)
qed

lemma persist_deal_never_skips: "snd (persist_deal pe raw ctx db) \<noteq> Inr (''skipped'', db')"
  using persist_deal_payload(3)[of pe raw ctx db "''skipped''" db'] by blast

lemma persist_deal_sync: "persist (deal_sync api fuel pe limiter) = persist_deal pe"
  by (simp add: deal_sync_def)

text \<open>
  C3. Deals are replicated. Against an account that serves its deals and a stored credential, a run
  overwrites the mirror, read as a map from deal ids to payloads, with a subsequence of the deals at
  least as recent as the cursor, later ones winning; it is all of them when the run is COMPLETED, and
  when it is PARTIAL the outcome's errors count the missing ones. A run that a limiter time-out ended is FAILED, and
  nothing counts what it missed. Each
  stored deal is reported once, as created exactly when its id is new.
\<close>
theorem deals_replicated:
  assumes served: "serves api ''/deals'' deals" "length deals < fuel * 100" "credential (tables w) \<noteq> None"
    and texts: "\<And>d. d \<in> set deals \<Longrightarrow> \<exists>u. text_of d ''update_time'' = Inr u"
    and run: "base_sync_run exc_text tnow (deal_sync api fuel pe limiter) integration mode w = (out, w')"
  shows "\<exists>ok. subseq ok (filter (\<lambda>d. read_cursor ''pipedrive.deals'' (cursors w) \<le> update_time d) deals)
      \<and> payloads pd_id pd_prov (pd_deals (tables w')) =
          payloads pd_id pd_prov (pd_deals (tables w)) ++ map_of (rev (map (\<lambda>d. (row_key d, d)) ok))
      \<and> out_created out + out_updated out = length ok
      \<and> card (dom (payloads pd_id pd_prov (pd_deals (tables w')))) =
          card (dom (payloads pd_id pd_prov (pd_deals (tables w)))) + out_created out
      \<and> (out_status out \<noteq> Failed \<longrightarrow>
          length (filter (\<lambda>d. read_cursor ''pipedrive.deals'' (cursors w) \<le> update_time d) deals)
            = length ok + out_errors out)
      \<and> (out_status out = Completed \<longrightarrow>
          ok = filter (\<lambda>d. read_cursor ''pipedrive.deals'' (cursors w) \<le> update_time d) deals)"
proof -
  let ?kept = "filter (\<lambda>d. read_cursor ''pipedrive.deals'' (cursors w) \<le> update_time d) deals"
  from served(3) obtain ts where ts: "credential (tables w) = Some ts" by blast
  note fetched = deal_fetch_served[OF served(1,2) ts texts]
  have f: "fetch (deal_sync api fuel pe limiter) (new_context (deal_sync api fuel pe limiter) integration mode
      (read_cursor (cursor_key (deal_sync api fuel pe limiter)) (cursors w)) (fresh_id run_id (sync_runs w)))
      (tables w) = ((?kept, None), tables w)"
    by (simp add: fetched deal_cursor_key)
  have no_skip: "out_skipped out = 0"
    by (rule deal_sync.run_never_skips[OF refl _ run]) (simp add: persist_deal_sync persist_deal_never_skips)
  have clean: "out_errors out = 0" if "out_status out = Completed"
    using run that by (elim run_unfold) (auto split: option.splits if_splits)
  from deal_sync.run_replica[OF refl run f refl] obtain ok where "subseq ok ?kept"
    "deal_view (tables w') = deal_view (tables w) ++ map_of (rev (map (\<lambda>d. (row_key d, d)) ok))"
    "out_created out + out_updated out = length ok"
    "card (dom (deal_view (tables w'))) = card (dom (deal_view (tables w))) + out_created out"
    "out_status out \<noteq> Failed \<longrightarrow> length ?kept = length ok + out_errors out"
    unfolding no_skip add_0_right by blast
  moreover from this clean have "ok = ?kept" if "out_status out = Completed"
    using that subseq_same_length by fastforce
  ultimately show ?thesis by blast
qed

theorem deals_replicated_witness:
  "payloads pd_id pd_prov (pd_deals (tables (snd (sample_run two_deals_api (pd_world []))))) 2
     = Some (sample_deal 2 ''2026-03-01'')
   \<and> out_status (fst (sample_run two_deals_api (pd_world []))) = Partial_run
   \<and> out_errors (fst (sample_run two_deals_api (pd_world []))) = 1"
proof -
  let ?r = "sample_run two_deals_api (pd_world [])"
  have run: "?r = (fst ?r, snd ?r)" by simp
  have status: "out_status (fst ?r) = Partial_run" "out_created (fst ?r) = 1" "out_updated (fst ?r) = 0"
    "out_errors (fst ?r) = 1"
    by code_simp+
  have kept: "filter (\<lambda>d. read_cursor ''pipedrive.deals'' (cursors (pd_world [])) \<le> update_time d) two_deals = two_deals"
    by code_simp
  have served: "serves two_deals_api ''/deals'' two_deals" "length two_deals < 2 * 100"
    "credential (tables (pd_world [])) \<noteq> None"
    by (simp_all add: serves_def two_deals_api_def fresh_api_def sample_page_def two_deals_def pd_world_def)
  have texts: "\<exists>u. text_of d ''update_time'' = Inr u" if "d \<in> set two_deals" for d
    using that by (auto simp: two_deals_def bad_deal_def sample_deal_def text_of_def dict_get_def)
  have bad: "deal_view (tables (snd ?r)) 1 = None" by code_simp
  from deals_replicated[OF served texts run] obtain ok where ok: "subseq ok two_deals" "length ok = 1"
    "deal_view (tables (snd ?r)) = deal_view (tables (pd_world [])) ++ map_of (rev (map (\<lambda>d. (row_key d, d)) ok))"
    unfolding kept status by auto
  have keys: "row_key bad_deal = 1" "row_key (sample_deal 2 ''2026-03-01'') = 2" by code_simp+
  from ok(1,2) have "ok = [bad_deal] \<or> ok = [sample_deal 2 ''2026-03-01'']"
    by (cases ok) (auto simp: two_deals_def split: if_splits)
  then have "ok = [sample_deal 2 ''2026-03-01'']"
    using ok(3) bad keys by auto
  then show ?thesis using ok(3) keys status by simp
qed

text \<open>
  A partial run strands the rows that failed. When a run that is not failed moves the deal cursor,
  the next run does not ask for anything older, so it leaves alone every deal whose time stamp is
  below the new cursor, those that failed in the first run included: a failed deal is only stored
  once the service changes it again. Nothing else retries it.
\<close>
theorem partial_run_strands_rows:
  assumes served: "serves api ''/deals'' deals" "length deals < fuel * 100" "credential (tables w1) \<noteq> None"
    and texts: "\<And>d. d \<in> set deals \<Longrightarrow> \<exists>u. text_of d ''update_time'' = Inr u"
    and run1: "base_sync_run exc_text tnow (deal_sync api fuel pe limiter) integration mode w = (out, w1)"
    and run2: "base_sync_run exc_text tnow (deal_sync api fuel pe limiter) integration mode2 w1 = (out2, w2)"
    and moved: "out_status out \<noteq> Failed" "out_cursor_after out \<noteq> []"
    and older: "\<And>d. d \<in> set deals \<Longrightarrow> row_key d = k \<Longrightarrow> update_time d < out_cursor_after out"
  shows "payloads pd_id pd_prov (pd_deals (tables w2)) k = payloads pd_id pd_prov (pd_deals (tables w1)) k"
proof -
  from served(3) obtain ts where ts: "credential (tables w1) = Some ts" by blast
  have cur: "read_cursor ''pipedrive.deals'' (cursors w1) = out_cursor_after out"
    using run1 moved by (elim run_unfold) (auto simp: read_write_cursor deal_cursor_key split: option.splits)
  let ?kept = "filter (\<lambda>d. out_cursor_after out \<le> update_time d) deals"
  have f: "fetch (deal_sync api fuel pe limiter) (new_context (deal_sync api fuel pe limiter) integration mode2
      (read_cursor (cursor_key (deal_sync api fuel pe limiter)) (cursors w1)) (fresh_id run_id (sync_runs w1)))
      (tables w1) = ((?kept, None), tables w1)"
    by (simp add: deal_fetch_served[OF served(1,2) ts texts] deal_cursor_key cur)
  from deal_sync.run_replica[OF refl run2 f refl] obtain ok where ok: "subseq ok ?kept"
    "deal_view (tables w2) = deal_view (tables w1) ++ map_of (rev (map (\<lambda>d. (row_key d, d)) ok))"
    by blast
  have "k \<notin> row_key ` set ok"
  proof
    assume "k \<in> row_key ` set ok"
    then obtain d where "d \<in> set ok" "row_key d = k" by auto
    with subseq_set[OF ok(1)] have "d \<in> set deals" "out_cursor_after out \<le> update_time d" by auto
    with older[of d] \<open>row_key d = k\<close> show False by simp
  qed
  then have "map_of (rev (map (\<lambda>d. (row_key d, d)) ok)) k = None"
    by (force simp: map_of_eq_None_iff)
  with ok(2) show ?thesis by (simp add: map_add_def)
qed

theorem partial_run_strands_rows_witness:
  "payloads pd_id pd_prov (pd_deals (tables (snd (sample_run two_deals_api (snd (sample_run two_deals_api (pd_world []))))))) 1
     = None
   \<and> out_status (fst (sample_run two_deals_api (snd (sample_run two_deals_api (pd_world []))))) = Completed"
proof -
  let ?r = "sample_run two_deals_api (pd_world [])"
  have run: "?r = (fst ?r, snd ?r)" and run2: "sample_run two_deals_api (snd ?r)
      = (fst (sample_run two_deals_api (snd ?r)), snd (sample_run two_deals_api (snd ?r)))" by simp_all
  have first: "out_status (fst ?r) = Partial_run" "out_cursor_after (fst ?r) = ''2026-03-01''"
    "deal_view (tables (snd ?r)) 1 = None" "credential (tables (snd ?r)) = Some []"
    by code_simp+
  have second: "out_status (fst (sample_run two_deals_api (snd ?r))) = Completed" by code_simp
  have served: "serves two_deals_api ''/deals'' two_deals" "length two_deals < 2 * 100"
    by (simp_all add: serves_def two_deals_api_def fresh_api_def sample_page_def two_deals_def)
  have texts: "\<exists>u. text_of d ''update_time'' = Inr u" if "d \<in> set two_deals" for d
    using that by (auto simp: two_deals_def bad_deal_def sample_deal_def text_of_def dict_get_def)
  have facts: "update_time bad_deal < ''2026-03-01''" "row_key (sample_deal 2 ''2026-03-01'') = 2" by code_simp+
  have older: "update_time d < out_cursor_after (fst ?r)" if "d \<in> set two_deals" "row_key d = 1" for d
    using that facts first(2) by (auto simp: two_deals_def)
  show ?thesis
    using partial_run_strands_rows[OF served _ texts run run2 _ _ older] first second by simp
qed

section \<open>The tables stay consistent\<close>

definition pd_ok :: "'s pd_db \<Rightarrow> bool" where
  "pd_ok db \<longleftrightarrow> registry_ok (ids db)
     \<and> unique_keys po_id (pd_orgs db) \<and> unique_keys pp_id (pd_people db)
     \<and> unique_keys pd_id (pd_deals db) \<and> unique_keys pa_id (pd_activities db)
     \<and> refs_ok po_organization (organization_ids (ids db)) (pd_orgs db)
     \<and> refs_ok pp_person (person_ids (ids db)) (pd_people db)
     \<and> refs_ok pp_organization (organization_ids (ids db)) (pd_people db)
     \<and> refs_ok pd_organization (organization_ids (ids db)) (pd_deals db)
     \<and> refs_ok pd_person (person_ids (ids db)) (pd_deals db)
     \<and> refs_ok pa_organization (organization_ids (ids db)) (pd_activities db)
     \<and> refs_ok pa_person (person_ids (ids db)) (pd_activities db)
     \<and> refs_ok pa_deal (pd_id ` set (pd_deals db)) (pd_activities db)"

lemma mirror_org_ref: "refs_ok po_organization S rows \<Longrightarrow> mirror_org i rows = Some x \<Longrightarrow> x \<in> S"
  by (auto simp: mirror_org_def refs_ok_def split: option.splits if_splits dest: lookup_SomeD)

lemma mirror_person_ref: "refs_ok pp_person S rows \<Longrightarrow> mirror_person i rows = Some x \<Longrightarrow> x \<in> S"
  by (auto simp: mirror_person_def refs_ok_def split: option.splits if_splits dest: lookup_SomeD)

lemma linked_org_ref: "refs_ok po_organization S rows \<Longrightarrow> linked_org i rows = Some x \<Longrightarrow> x \<in> S"
  by (auto simp: linked_org_def refs_ok_def split: option.splits dest: lookup_SomeD)

lemma linked_person_ref: "refs_ok pp_person S rows \<Longrightarrow> linked_person i rows = Some x \<Longrightarrow> x \<in> S"
  by (auto simp: linked_person_def refs_ok_def split: option.splits dest: lookup_SomeD)

lemma mirror_deal_ref: "mirror_deal i rows = Some x \<Longrightarrow> x \<in> pd_id ` set rows"
  by (auto simp: mirror_deal_def split: option.splits dest: lookup_SomeD)

lemma persist_organization_ok:
  assumes ok: "pd_ok db" and r: "persist_organization pe raw ctx db = Inr (oc, db')"
  shows "pd_ok db'"
  using r
proof (rule persist_organization_Inr)
  fix d name reg rows
  assume h: "hook_resolve_organization (org_record name (row_key raw)) (ids db) = (po_organization d, reg)"
    and s: "store (refuse_org pe) po_id org_mk org_upd d (pd_orgs db) = Inr (oc, rows)"
    and db': "db' = db\<lparr>ids := reg, pd_orgs := rows\<rparr>"
  have reg: "registry_ok (ids db)" using ok by (simp add: pd_ok_def)
  note hook = hook_organization_ok[OF reg h]
  have "refs_ok po_organization (organization_ids reg) rows"
    by (rule refs_ok_store[OF s refs_ok_mono[OF _ hook(2)]])
      (use ok hook(4) in \<open>auto simp: pd_ok_def org_mk_def org_upd_def\<close>)
  moreover have "unique_keys po_id rows"
    using unique_store(1)[OF s org_table.keyed_table_axioms] ok by (simp add: pd_ok_def)
  ultimately show "pd_ok db'"
    using ok hook(1,3) refs_ok_mono[OF _ hook(2), of pp_organization "pd_people db"]
      refs_ok_mono[OF _ hook(2), of pd_organization "pd_deals db"]
      refs_ok_mono[OF _ hook(2), of pa_organization "pd_activities db"]
    unfolding pd_ok_def by (simp add: db')
qed

lemma persist_person_ok:
  assumes ok: "pd_ok db" and r: "persist_person pe raw ctx db = Inr (oc, db')"
  shows "pd_ok db'"
  using r
proof (rule persist_person_Inr)
  fix d email name phone reg rows
  assume h: "hook_resolve_person (pd_person_record email name phone (row_key raw)) (pp_organization d) (ids db)
        = (pp_person d, reg)"
    and m: "\<exists>i. pp_organization d = mirror_org i (pd_orgs db)"
    and s: "store (refuse_person pe) pp_id person_mk person_upd d (pd_people db) = Inr (oc, rows)"
    and db': "db' = db\<lparr>ids := reg, pd_people := rows\<rparr>"
  have reg: "registry_ok (ids db)" using ok by (simp add: pd_ok_def)
  have org: "x \<in> organization_ids (ids db)" if "pp_organization d = Some x" for x
    using m that ok mirror_org_ref by (metis pd_ok_def)
  note hook = hook_person_ok[OF reg org h]
  have "refs_ok pp_person (person_ids reg) rows"
    by (rule refs_ok_store[OF s refs_ok_mono[OF _ hook(2)]])
      (use ok hook(4) in \<open>auto simp: pd_ok_def person_mk_def person_upd_def\<close>)
  moreover have "refs_ok pp_organization (organization_ids reg) rows"
    by (rule refs_ok_store[OF s])
      (use ok org hook(3) in \<open>auto simp: pd_ok_def person_mk_def person_upd_def\<close>)
  moreover have "unique_keys pp_id rows"
    using unique_store(1)[OF s person_table.keyed_table_axioms] ok by (simp add: pd_ok_def)
  ultimately show "pd_ok db'"
    using ok hook(1,3) refs_ok_mono[OF _ hook(2), of pd_person "pd_deals db"]
      refs_ok_mono[OF _ hook(2), of pa_person "pd_activities db"]
    unfolding pd_ok_def by (simp add: db')
qed

lemma persist_deal_ok:
  assumes ok: "pd_ok db" and r: "snd (persist_deal pe raw ctx db) = Inr (oc, db')"
  shows "pd_ok db'"
  using r
proof (rule persist_deal_Inr)
  fix d rows
  assume d: "deal_row pe raw ctx db = Inr d"
    and s: "store (refuse_deal pe) pd_id deal_mk deal_upd d (pd_deals db) = Inr (oc, rows)"
    and db': "db' = db\<lparr>pd_deals := rows\<rparr>"
  have "x \<in> organization_ids (ids db)" if "pd_organization d = Some x" for x
    using deal_row_Inr[OF d] that ok mirror_org_ref by (metis pd_ok_def)
  then have "refs_ok pd_organization (organization_ids (ids db)) rows"
    by (intro refs_ok_store[OF s]) (use ok in \<open>auto simp: pd_ok_def deal_mk_def deal_upd_def\<close>)
  moreover have "x \<in> person_ids (ids db)" if "pd_person d = Some x" for x
    using deal_row_Inr[OF d] that ok mirror_person_ref by (metis pd_ok_def)
  then have "refs_ok pd_person (person_ids (ids db)) rows"
    by (intro refs_ok_store[OF s]) (use ok in \<open>auto simp: pd_ok_def deal_mk_def deal_upd_def\<close>)
  moreover have "unique_keys pd_id rows" "pd_id ` set (pd_deals db) \<subseteq> pd_id ` set rows"
    using unique_store[OF s deal_table.keyed_table_axioms] ok by (simp_all add: pd_ok_def)
  ultimately show "pd_ok db'"
    using ok refs_ok_mono[of pa_deal "pd_id ` set (pd_deals db)" "pd_activities db" "pd_id ` set rows"]
    unfolding pd_ok_def by (simp add: db')
qed

lemma persist_activity_ok:
  assumes ok: "pd_ok db" and r: "persist_activity pe raw ctx db = Inr (oc, db')"
  shows "pd_ok db'"
  using r
proof (rule persist_activity_Inr)
  fix d rows
  assume d: "activity_row pe raw ctx db = Inr d"
    and s: "store (refuse_activity pe) pa_id activity_mk activity_upd d (pd_activities db) = Inr (oc, rows)"
    and db': "db' = db\<lparr>pd_activities := rows\<rparr>"
  have "x \<in> organization_ids (ids db)" if "pa_organization d = Some x" for x
    using activity_row_Inr[OF d] that ok linked_org_ref by (metis pd_ok_def)
  then have "refs_ok pa_organization (organization_ids (ids db)) rows"
    by (intro refs_ok_store[OF s]) (use ok in \<open>auto simp: pd_ok_def activity_mk_def activity_upd_def\<close>)
  moreover have "x \<in> person_ids (ids db)" if "pa_person d = Some x" for x
    using activity_row_Inr[OF d] that ok linked_person_ref by (metis pd_ok_def)
  then have "refs_ok pa_person (person_ids (ids db)) rows"
    by (intro refs_ok_store[OF s]) (use ok in \<open>auto simp: pd_ok_def activity_mk_def activity_upd_def\<close>)
  moreover have "x \<in> pd_id ` set (pd_deals db)" if "pa_deal d = Some x" for x
    using activity_row_Inr[OF d] that mirror_deal_ref by metis
  then have "refs_ok pa_deal (pd_id ` set (pd_deals db)) rows"
    by (intro refs_ok_store[OF s]) (use ok in \<open>auto simp: pd_ok_def activity_mk_def activity_upd_def\<close>)
  moreover have "unique_keys pa_id rows"
    using unique_store(1)[OF s activity_table.keyed_table_axioms] ok by (simp add: pd_ok_def)
  ultimately show "pd_ok db'"
    using ok unfolding pd_ok_def by (simp add: db')
qed

lemma client_fetch_ok: "pd_ok db \<Longrightarrow> pd_ok (snd (client_fetch listing db))"
  by (auto simp: client_fetch_def pd_ok_def split: sum.splits option.splits)

text \<open>One task, whichever of the four syncs it runs.\<close>

lemma run_task_ok:
  assumes "\<And>raw ctx db oc db'. pd_ok db \<Longrightarrow> snd (persist cls raw ctx db) = Inr (oc, db') \<Longrightarrow> pd_ok db'"
    and "\<And>ctx. \<exists>listing. fetch cls ctx = client_fetch listing" and "pd_ok (tables w)"
  shows "pd_ok (tables (snd (run_task exc_text tnow rows cls i mode w)))"
proof (cases "resolve_integration rows i")
  case (Some k)
  obtain out w' where run: "base_sync_run exc_text tnow cls k mode w = (out, w')" by (metis surj_pair)
  have "pd_ok (snd (fetch cls ctx db))" if "pd_ok db" for ctx db
    using assms(2)[of ctx] that client_fetch_ok by auto
  from run_tables[where P = pd_ok, OF assms(1) this run assms(3)] show ?thesis
    by (simp add: run_task_def Some run)
qed (use assms(3) in \<open>simp add: run_task_def\<close>)

text \<open>
  The full ingest keeps the mirrors consistent. Running the four tasks in order, with whatever
  the service answers, whatever rows fail and whichever of the runs fail, keeps the identity registry
  well formed, \<open>pipedrive_id\<close> unique in each mirror table, and every reference of a mirror row to a
  master person, a master organization or a deal pointing at a row that exists.
\<close>
theorem full_ingest_consistent:
  assumes "pd_ok (tables w)"
  shows "pd_ok (tables (snd (ingest_full exc_text tnow rows api fuel start_date pe limiter i mode w)))"
proof -
  note task = run_task_ok[where exc_text = exc_text and tnow = tnow and rows = rows and i = i and mode = mode]
  have o: "pd_ok (tables (snd (run_task exc_text tnow rows (organization_sync api fuel pe limiter) i mode w)))"
    if "pd_ok (tables w)" for w :: "('a pd_db, 'b) sync_world"
    by (rule task) (use that persist_organization_ok in \<open>auto simp: organization_sync_def\<close>)
  have p: "pd_ok (tables (snd (run_task exc_text tnow rows (person_sync api fuel pe limiter) i mode w)))"
    if "pd_ok (tables w)" for w :: "('a pd_db, 'b) sync_world"
    by (rule task) (use that persist_person_ok in \<open>auto simp: person_sync_def\<close>)
  have d: "pd_ok (tables (snd (run_task exc_text tnow rows (deal_sync api fuel pe limiter) i mode w)))"
    if "pd_ok (tables w)" for w :: "('a pd_db, 'b) sync_world"
    by (rule task) (use that persist_deal_ok in \<open>auto simp: deal_sync_def\<close>)
  have a: "pd_ok (tables (snd (run_task exc_text tnow rows (activity_sync api fuel start_date pe limiter) i mode w)))"
    if "pd_ok (tables w)" for w :: "('a pd_db, 'b) sync_world"
    by (rule task) (use that persist_activity_ok in \<open>auto simp: activity_sync_def\<close>)
  show ?thesis
    using a[OF d[OF p[OF o[OF assms]]]] by (simp add: ingest_full_def case_prod_unfold)
qed

theorem full_ingest_consistent_witness:
  "pd_ok (tables (snd (ingest_full (\<lambda>_. ''error'') (\<lambda>_. 9)
     [\<lparr>integration_id = 1, integration_provider = ''pipedrive'', is_active = True,
       last_sync_at = None, meta = JNull\<rparr>]
     two_deals_api 2 ''2026-01-01'' sample_env (\<lambda>c. (Inr (), c)) None Incremental (pd_world []))))"
  by (rule full_ingest_consistent)
    (simp add: pd_world_def pd_ok_def registry_ok_def empty_registry_def unique_keys_def refs_ok_def)

end
