(* ===== verification/SlackIngest.thy ===== *)
theory SlackIngest
  imports PyValues BaseSync Identity
begin

text \<open>
  The Slack ingest, \<open>connectors/slack/ingest.py\<close>, with the client of \<open>client.py\<close> and the tables of
  \<open>models.py\<close>. The Web API is a parameter: one function per method the client calls, from the state
  \<open>'s\<close> of the service to the response. A workspace is identified by its integration, a channel by its
  Slack id; \<open>is_tracked\<close>, the channel's cursor and \<open>source_updated_at\<close> keep their values on an update.
  The cursor is compared as text and sent to the API as a number, which is modelled exactly.
\<close>

section \<open>Tables\<close>

record slack_provenance =
  sp_source_id :: string
  sp_synced_at :: rat
  sp_payload :: json
  sp_run :: nat

record slack_workspace =
  ws_integration :: nat
  ws_team_id :: string
  ws_name :: string
  ws_domain :: string
  ws_payload :: json
  ws_synced_at :: rat

record slack_channel =
  ch_id :: string
  ch_prov :: slack_provenance
  ch_workspace :: nat
  ch_name :: string
  ch_purpose :: string
  ch_topic :: string
  ch_private :: bool
  ch_archived :: bool
  ch_tracked :: bool
  ch_members :: int
  ch_last_ts :: string

record slack_message =
  ms_channel :: string
  ms_ts :: string
  ms_prov :: slack_provenance
  ms_thread_ts :: string
  ms_user :: string
  ms_person :: "nat option"
  ms_text :: string
  ms_attachments :: bool
  ms_reactions :: json
  ms_posted_at :: "rat option"

record 's slack_db =
  sids :: registry
  stokens :: "(string \<times> json) list option"
  slack_world :: 's
  workspaces :: "slack_workspace list"
  channels :: "slack_channel list"
  messages :: "slack_message list"

record 's slack_api =
  conversations_list :: "nat \<Rightarrow> 's \<Rightarrow> (py_error, json) result \<times> 's"
  conversations_history :: "string \<Rightarrow> rat \<Rightarrow> nat \<Rightarrow> 's \<Rightarrow> (py_error, json) result \<times> 's"
  users_list :: "nat \<Rightarrow> 's \<Rightarrow> (py_error, json) result \<times> 's"
  team_info_get :: "'s \<Rightarrow> (py_error, json) result \<times> 's"

record slack_env =
  refuse_workspace :: "slack_workspace \<Rightarrow> py_error option"
  refuse_channel :: "slack_channel \<Rightarrow> py_error option"
  refuse_message :: "slack_message \<Rightarrow> py_error option"
  refuse_identity :: "string \<Rightarrow> py_error option"

section \<open>The client\<close>

definition bot_token :: "(string \<times> json) list option \<Rightarrow> (py_error, string) result" where
  "bot_token cred =
     (case cred of None \<Rightarrow> Inl ValueError
      | Some ts \<Rightarrow>
          (let token = or_else (dict_get ts ''bot_token'') (dict_get ts ''access_token'')
           in if truth token then Inr (py_str token) else Inl ValueError))"

text \<open>\<open>list(result.get(k) or [])\<close>\<close>

definition list_of :: "json \<Rightarrow> string \<Rightarrow> (py_error, json list) result" where
  "list_of result k = andthen (jget result k) (\<lambda>v. jiter (or_else v (JList [])))"

fun filter_members :: "json list \<Rightarrow> (py_error, json list) result" where
  "filter_members [] = Inr []"
| "filter_members (c # cs) =
     andthen (jget c ''is_member'') (\<lambda>m. andthen (filter_members cs) (\<lambda>ys. Inr (if truth m then c # ys else ys)))"

definition list_joined_channels :: "'s slack_api \<Rightarrow> 's \<Rightarrow> (py_error, json list) result \<times> 's" where
  "list_joined_channels api s =
     (case conversations_list api 200 s of (r, s') \<Rightarrow>
        (andthen r (\<lambda>result. andthen (list_of result ''channels'') filter_members), s'))"

definition fetch_messages :: "'s slack_api \<Rightarrow> string \<Rightarrow> rat \<Rightarrow> 's \<Rightarrow> (py_error, json list) result \<times> 's" where
  "fetch_messages api channel oldest s =
     (case conversations_history api channel oldest 200 s of (r, s') \<Rightarrow>
        (andthen r (\<lambda>result. list_of result ''messages''), s'))"

definition slack_list_users :: "'s slack_api \<Rightarrow> 's \<Rightarrow> (py_error, json list) result \<times> 's" where
  "slack_list_users api s =
     (case users_list api 200 s of (r, s') \<Rightarrow> (andthen r (\<lambda>result. list_of result ''members''), s'))"

fun as_dict :: "json \<Rightarrow> (py_error, (string \<times> json) list) result" where
  "as_dict (JObj kvs) = Inr kvs"
| "as_dict _ = Inl TypeError"

definition team_info :: "'s slack_api \<Rightarrow> 's \<Rightarrow> (py_error, (string \<times> json) list) result \<times> 's" where
  "team_info api s =
     (case team_info_get api s of (r, s') \<Rightarrow>
        (andthen r (\<lambda>result. andthen (jget result ''team'') (\<lambda>v. as_dict (or_else v (JObj [])))), s'))"

section \<open>Helpers\<close>

definition ts_to_dt :: "string \<Rightarrow> rat option" where
  "ts_to_dt ts = parse_float ts"

definition text_at :: "json \<Rightarrow> string \<Rightarrow> (py_error, string) result" where
  "text_at raw k = andthen (jget raw k) text_field"

text \<open>A Slack id used as a key: text, or null, which no key column takes.\<close>

fun id_field :: "json \<Rightarrow> (py_error, string option) result" where
  "id_field (JStr s) = Inr (Some s)"
| "id_field JNull = Inr None"
| "id_field _ = Inl TypeError"

definition ws_mk :: "slack_workspace \<Rightarrow> nat \<Rightarrow> slack_workspace" where
  "ws_mk d k = d\<lparr>ws_integration := k\<rparr>"

definition ws_upd :: "slack_workspace \<Rightarrow> slack_workspace \<Rightarrow> slack_workspace" where
  "ws_upd d r = d\<lparr>ws_integration := ws_integration r\<rparr>"

interpretation workspace_table: keyed_table ws_integration ws_mk ws_upd
  by unfold_locales (simp_all add: ws_mk_def ws_upd_def)

definition workspace_row :: "nat \<Rightarrow> rat \<Rightarrow> (string \<times> json) list \<Rightarrow> (py_error, slack_workspace) result" where
  "workspace_row integration t team =
     andthen (text_field (dict_get team ''id'')) (\<lambda>tid.
     andthen (text_field (dict_get team ''name'')) (\<lambda>name.
     andthen (text_field (dict_get team ''domain'')) (\<lambda>domain. Inr
       \<lparr>ws_integration = integration, ws_team_id = (if tid = [] then ''unknown'' else tid),
        ws_name = name, ws_domain = domain, ws_payload = JObj team, ws_synced_at = t\<rparr>)))"

text \<open>\<open>team_id\<close> is unique as well: another integration's workspace with it makes the write fail.\<close>

definition store_workspace ::
  "slack_env \<Rightarrow> slack_workspace \<Rightarrow> slack_workspace list \<Rightarrow> (py_error, slack_workspace list) result" where
  "store_workspace se row rows =
     (if \<exists>w \<in> set rows. ws_team_id w = ws_team_id row \<and> ws_integration w \<noteq> ws_integration row
      then Inl (DatabaseError ''IntegrityError'')
      else (case refuse_workspace se row of Some e \<Rightarrow> Inl e
            | None \<Rightarrow> Inr (fst (upsert ws_integration ws_mk ws_upd row (ws_integration row) rows))))"

definition ensure_workspace ::
  "'s slack_api \<Rightarrow> slack_env \<Rightarrow> nat \<Rightarrow> 's slack_db \<Rightarrow> (py_error, nat \<times> 's slack_db) result" where
  "ensure_workspace api se integration db =
     andthen (bot_token (stokens db)) (\<lambda>_.
     (case team_info api (slack_world db) of (r, s) \<Rightarrow>
        andthen r (\<lambda>team.
        andthen (workspace_row integration (wall (sids db)) team) (\<lambda>row.
        andthen (store_workspace se row (workspaces db)) (\<lambda>rows.
        Inr (integration, db\<lparr>slack_world := s, workspaces := rows\<rparr>))))))"

section \<open>Users\<close>

text \<open>The second write of the user sync: \<open>defaults\<close> are the person, the source, the time and \<open>verified\<close>.\<close>

definition slack_identity_mk :: "nat \<times> bool \<times> rat \<Rightarrow> string \<times> string \<Rightarrow> identity_row" where
  "slack_identity_mk d k = (case d of (who, ver, t) \<Rightarrow>
     \<lparr>owner = who, identity_type = fst k, identity_value = snd k, source_system = ''slack'',
      verified = ver, identity_confidence = 1, first_seen = t, last_seen = t\<rparr>)"

definition slack_identity_upd :: "nat \<times> bool \<times> rat \<Rightarrow> identity_row \<Rightarrow> identity_row" where
  "slack_identity_upd d r = (case d of (who, ver, t) \<Rightarrow>
     r\<lparr>owner := who, source_system := ''slack'', verified := ver, last_seen := t\<rparr>)"

interpretation slack_identity_table: keyed_table identity_key slack_identity_mk slack_identity_upd
  by unfold_locales (auto simp: identity_key_def slack_identity_mk_def slack_identity_upd_def)

definition slack_person_record :: "string \<Rightarrow> string \<Rightarrow> string option \<Rightarrow> person_record" where
  "slack_person_record email name sid =
     \<lparr>pr_source = ''slack'', pr_email = (if email = [] then None else Some email),
      pr_full_name = (if name = [] then None else Some name), pr_first_name = None, pr_last_name = None,
      pr_organization_name = None, pr_person_id_in_source = None, pr_phone = None, pr_slack_id = sid,
      pr_extra_identities = None\<rparr>"

text \<open>The first of the three names that is set.\<close>

definition user_name :: "json \<Rightarrow> json \<Rightarrow> (py_error, string) result" where
  "user_name profile raw =
     andthen (jget profile ''real_name'') (\<lambda>a. andthen (jget raw ''real_name'') (\<lambda>b.
     andthen (jget raw ''name'') (\<lambda>c. text_field (or_else a (or_else b c)))))"

definition persist_user ::
  "slack_env \<Rightarrow> json \<Rightarrow> sync_context \<Rightarrow> 's slack_db \<Rightarrow> (py_error, string \<times> 's slack_db) result" where
  "persist_user se raw ctx db =
     andthen (jget raw ''is_bot'') (\<lambda>bot. andthen (jget raw ''deleted'') (\<lambda>deleted.
     if truth bot \<or> truth deleted then Inr (''skipped'', db)
     else
       andthen (jget raw ''id'') (\<lambda>i. andthen (id_field i) (\<lambda>sid.
       andthen (jget raw ''profile'') (\<lambda>p.
       andthen (text_at (or_else p (JObj [])) ''email'') (\<lambda>email.
       andthen (user_name (or_else p (JObj [])) raw) (\<lambda>name.
       (case hook_resolve_person (slack_person_record email name sid) None (sids db) of
          (None, reg) \<Rightarrow> Inr (''skipped'', db\<lparr>sids := reg\<rparr>)
        | (Some who, reg) \<Rightarrow>
            (case sid of None \<Rightarrow> Inl (DatabaseError ''IntegrityError'')
             | Some uid \<Rightarrow>
                 (case refuse_identity se uid of Some e \<Rightarrow> Inl e
                  | None \<Rightarrow>
                      (case upsert identity_key slack_identity_mk slack_identity_upd
                              (who, email \<noteq> [], wall reg) (SLACK_ID, uid) (person_identities reg) of
                         (rows, was_created) \<Rightarrow>
                           Inr (if was_created then ''created'' else ''updated'',
                                db\<lparr>sids := reg\<lparr>person_identities := rows\<rparr>\<rparr>))))))))))))"

section \<open>Channels\<close>

definition ch_mk :: "slack_channel \<Rightarrow> string \<Rightarrow> slack_channel" where
  "ch_mk d k = d\<lparr>ch_id := k, ch_tracked := False, ch_last_ts := []\<rparr>"

definition ch_upd :: "slack_channel \<Rightarrow> slack_channel \<Rightarrow> slack_channel" where
  "ch_upd d r = d\<lparr>ch_id := ch_id r, ch_tracked := ch_tracked r, ch_last_ts := ch_last_ts r\<rparr>"

interpretation channel_table: keyed_table ch_id ch_mk ch_upd
  by unfold_locales (simp_all add: ch_mk_def ch_upd_def)

text \<open>\<open>(raw.get(k) or {}).get("value") or ""\<close>\<close>

definition value_text :: "json \<Rightarrow> string \<Rightarrow> (py_error, string) result" where
  "value_text raw k = andthen (jget raw k) (\<lambda>v. text_at (or_else v (JObj [])) ''value'')"

definition channel_row :: "json \<Rightarrow> sync_context \<Rightarrow> nat \<Rightarrow> rat \<Rightarrow> (py_error, slack_channel) result" where
  "channel_row raw ctx workspace t =
     andthen (jget raw ''id'') (\<lambda>i. andthen (id_field i) (\<lambda>cid.
     andthen (text_at raw ''name'') (\<lambda>name.
     andthen (value_text raw ''purpose'') (\<lambda>purpose.
     andthen (value_text raw ''topic'') (\<lambda>topic.
     andthen (jget raw ''is_private'') (\<lambda>private.
     andthen (jget raw ''is_archived'') (\<lambda>archived.
     andthen (jget raw ''num_members'') (\<lambda>num. andthen (py_int (or_else num (JInt 0))) (\<lambda>members.
     andthen (case cid of None \<Rightarrow> Inl (DatabaseError ''IntegrityError'') | Some k \<Rightarrow> Inr k) (\<lambda>k. Inr
          \<lparr>ch_id = k,
           ch_prov = \<lparr>sp_source_id = k, sp_synced_at = t, sp_payload = raw, sp_run = ctx_run ctx\<rparr>,
           ch_workspace = workspace, ch_name = name, ch_purpose = purpose, ch_topic = topic,
           ch_private = truth private, ch_archived = truth archived, ch_tracked = False,
           ch_members = members, ch_last_ts = []\<rparr>))))))))))"

definition persist_channel ::
  "'s slack_api \<Rightarrow> slack_env \<Rightarrow> json \<Rightarrow> sync_context \<Rightarrow> 's slack_db \<Rightarrow> (py_error, string \<times> 's slack_db) result" where
  "persist_channel api se raw ctx db =
     andthen (ensure_workspace api se (ctx_integration ctx) db) (\<lambda>(workspace, db).
     andthen (channel_row raw ctx workspace (wall (sids db))) (\<lambda>row.
     (case refuse_channel se row of Some e \<Rightarrow> Inl e
      | None \<Rightarrow> (case upsert ch_id ch_mk ch_upd row (ch_id row) (channels db) of
          (rows, was_created) \<Rightarrow>
            Inr (if was_created then ''created'' else ''updated'', db\<lparr>channels := rows\<rparr>)))))"

section \<open>Messages\<close>

definition ms_key :: "slack_message \<Rightarrow> string \<times> string" where
  "ms_key m = (ms_channel m, ms_ts m)"

definition ms_mk :: "slack_message \<Rightarrow> string \<times> string \<Rightarrow> slack_message" where
  "ms_mk d k = d\<lparr>ms_channel := fst k, ms_ts := snd k\<rparr>"

definition ms_upd :: "slack_message \<Rightarrow> slack_message \<Rightarrow> slack_message" where
  "ms_upd d r = d\<lparr>ms_channel := ms_channel r, ms_ts := ms_ts r\<rparr>"

interpretation message_table: keyed_table ms_key ms_mk ms_upd
  by unfold_locales (simp_all add: ms_key_def ms_mk_def ms_upd_def)

definition message_row ::
  "string \<Rightarrow> string \<Rightarrow> json \<Rightarrow> sync_context \<Rightarrow> 's slack_db \<Rightarrow> (py_error, slack_message) result" where
  "message_row channel ts msg ctx db =
     andthen (text_at msg ''user'') (\<lambda>user.
     andthen (text_at msg ''thread_ts'') (\<lambda>thread.
     andthen (text_at msg ''text'') (\<lambda>txt.
     andthen (jget msg ''files'') (\<lambda>files. andthen (jget msg ''attachments'') (\<lambda>attachments.
     andthen (jget msg ''reactions'') (\<lambda>reactions. Inr
       \<lparr>ms_channel = channel, ms_ts = ts,
        ms_prov = \<lparr>sp_source_id = channel @ '':'' @ ts, sp_synced_at = wall (sids db), sp_payload = msg,
                   sp_run = ctx_run ctx\<rparr>,
        ms_thread_ts = thread, ms_user = user,
        ms_person = (if user = [] then None
                     else map_option owner (lookup identity_key (person_identities (sids db)) (SLACK_ID, user))),
        ms_text = txt, ms_attachments = truth files \<or> truth attachments,
        ms_reactions = or_else reactions (JList []), ms_posted_at = ts_to_dt ts\<rparr>))))))"

definition raise_channel_ts :: "string \<Rightarrow> string \<Rightarrow> slack_channel list \<Rightarrow> slack_channel list" where
  "raise_channel_ts channel ts rows =
     map (\<lambda>c. if ch_id c = channel \<and> ch_last_ts c < ts then c\<lparr>ch_last_ts := ts\<rparr> else c) rows"

definition persist_message ::
  "slack_env \<Rightarrow> string \<times> json \<Rightarrow> sync_context \<Rightarrow> 's slack_db \<Rightarrow> (py_error, string \<times> 's slack_db) result" where
  "persist_message se raw ctx db =
     (case raw of (channel, msg) \<Rightarrow>
        (case lookup ch_id (channels db) channel of
           None \<Rightarrow> Inl (DatabaseError ''DoesNotExist'')
         | Some _ \<Rightarrow>
             andthen (text_at msg ''ts'') (\<lambda>ts.
             if ts = [] then Inr (''skipped'', db)
             else andthen (message_row channel ts msg ctx db) (\<lambda>row.
                  (case refuse_message se row of Some e \<Rightarrow> Inl e
                   | None \<Rightarrow> (case upsert ms_key ms_mk ms_upd row (channel, ts) (messages db) of
                       (rows, was_created) \<Rightarrow>
                         Inr (if was_created then ''created'' else ''updated'',
                              db\<lparr>messages := rows, channels := raise_channel_ts channel ts (channels db)\<rparr>)))))))"

text \<open>The generator: one page of each tracked channel, from the cursor it had when the run began.\<close>

fun fetch_tracked ::
  "'s slack_api \<Rightarrow> slack_channel list \<Rightarrow> 's \<Rightarrow> ((string \<times> json) list \<times> py_error option) \<times> 's" where
  "fetch_tracked api [] s = (([], None), s)"
| "fetch_tracked api (c # cs) s =
     (case (if ch_last_ts c = [] then Some 0 else parse_float (ch_last_ts c)) of
        None \<Rightarrow> (([], Some ValueError), s)
      | Some oldest \<Rightarrow>
          (case fetch_messages api (ch_id c) oldest s of
             (Inl e, s') \<Rightarrow> (([], Some e), s')
           | (Inr msgs, s') \<Rightarrow>
               (case fetch_tracked api cs s' of
                  ((rest, err), s'') \<Rightarrow> ((map (Pair (ch_id c)) msgs @ rest, err), s''))))"

definition tracked_channels :: "slack_channel list \<Rightarrow> slack_channel list" where
  "tracked_channels rows = filter (\<lambda>c. ch_tracked c \<and> \<not> ch_archived c) rows"

section \<open>The three syncs\<close>

definition slack_fetch ::
  "('s \<Rightarrow> (py_error, json list) result \<times> 's) \<Rightarrow> 's slack_db \<Rightarrow> (json list \<times> py_error option) \<times> 's slack_db" where
  "slack_fetch listing db =
     (case bot_token (stokens db) of
        Inl e \<Rightarrow> (([], Some e), db)
      | Inr _ \<Rightarrow>
          (case listing (slack_world db) of (r, s) \<Rightarrow>
             ((case r of Inl e \<Rightarrow> ([], Some e) | Inr raws \<Rightarrow> (raws, None)), db\<lparr>slack_world := s\<rparr>)))"

definition user_sync ::
  "'s slack_api \<Rightarrow> slack_env \<Rightarrow> ('c \<Rightarrow> (py_error, unit) result \<times> 'c) \<Rightarrow> (json, 's slack_db, 'c, py_error) sync_class" where
  "user_sync api se limiter =
     \<lparr>provider = ''slack'', resource = ''users'', rate_limit = Some limiter, cursor_source = [],
      fetch = (\<lambda>ctx. slack_fetch (slack_list_users api)),
      persist = (\<lambda>raw ctx db. (ctx, persist_user se raw ctx db))\<rparr>"

definition channel_sync ::
  "'s slack_api \<Rightarrow> slack_env \<Rightarrow> ('c \<Rightarrow> (py_error, unit) result \<times> 'c) \<Rightarrow> (json, 's slack_db, 'c, py_error) sync_class" where
  "channel_sync api se limiter =
     \<lparr>provider = ''slack'', resource = ''channels'', rate_limit = Some limiter, cursor_source = [],
      fetch = (\<lambda>ctx. slack_fetch (list_joined_channels api)),
      persist = (\<lambda>raw ctx db. (ctx, persist_channel api se raw ctx db))\<rparr>"

definition message_sync ::
  "'s slack_api \<Rightarrow> slack_env \<Rightarrow> ('c \<Rightarrow> (py_error, unit) result \<times> 'c)
     \<Rightarrow> (string \<times> json, 's slack_db, 'c, py_error) sync_class" where
  "message_sync api se limiter =
     \<lparr>provider = ''slack'', resource = ''messages'', rate_limit = Some limiter, cursor_source = [],
      fetch = (\<lambda>ctx db.
        (case bot_token (stokens db) of
           Inl e \<Rightarrow> (([], Some e), db)
         | Inr _ \<Rightarrow>
             (case fetch_tracked api (tracked_channels (channels db)) (slack_world db) of
                (r, s) \<Rightarrow> (r, db\<lparr>slack_world := s\<rparr>)))),
      persist = (\<lambda>raw ctx db. (ctx, persist_message se raw ctx db))\<rparr>"

end
