(* ===== verification/SlackMirror.thy ===== *)
theory SlackMirror
  imports SlackIngest IdentityResolver
begin

text \<open>
  What the Slack ingest guarantees: the outcome of the user sync against the identity registry, the
  consistency of the tables with the channel cursors above every stored message, and the messages as
  a replica (an \<open>interpretation\<close> of \<open>replica_contract\<close>) that is never filled in below a cursor.
\<close>

section \<open>Users\<close>

lemma collect_slack:
  "collect_person_identities (slack_person_record email name sid) =
     (if email = [] then [] else [(EMAIL, str_lower email)])
     @ (case sid of Some uid \<Rightarrow> if uid = [] then [] else [(SLACK_ID, uid)] | None \<Rightarrow> [])"
  by (auto simp: collect_person_identities_def slack_person_record_def truthy_def or_empty_def split: option.split)

lemma hook_person_directory:
  assumes "hook_resolve_person r org db = (Some p, reg)"
  shows "directory_resolve (collect_person_identities r) (fallback_person r org db) (owners (person_identities db))
    = (p, owners (person_identities reg))"
proof -
  obtain res db' where res: "resolve_person r org db = (res, db')" by (metis surj_pair)
  then have "res_person res = Some p" "reg = db'"
    using assms by (auto simp: hook_resolve_person_def split: if_splits)
  with person_directory(1)[OF res] show ?thesis by simp
qed

lemma owners_slack_upsert:
  "owners (fst (upsert identity_key slack_identity_mk slack_identity_upd (who, v, t) k rows)) =
     (owners rows)(k \<mapsto> who)"
  by (rule ext) (simp add: owners_def slack_identity_table.lookup_upsert_if slack_identity_mk_def
      slack_identity_upd_def split: option.split)

lemma persist_user_Inr:
  assumes "persist_user se raw ctx db = Inr (oc, db')"
  obtains (skipped) reg where "oc = ''skipped''" "db' = db\<lparr>sids := reg\<rparr>"
      "reg = sids db \<or> (\<exists>r. hook_resolve_person r None (sids db) = (None, reg))"
  | (stored) p email name uid who reg where
      "jget raw ''id'' = Inr (JStr uid)" "jget raw ''profile'' = Inr p"
      "text_at (or_else p (JObj [])) ''email'' = Inr email"
      "hook_resolve_person (slack_person_record email name (Some uid)) None (sids db) = (Some who, reg)"
      "oc = (if owners (person_identities reg) (SLACK_ID, uid) = None then ''created'' else ''updated'')"
      "db' = db\<lparr>sids := reg\<lparr>person_identities := fst (upsert identity_key slack_identity_mk slack_identity_upd
         (who, email \<noteq> [], wall reg) (SLACK_ID, uid) (person_identities reg))\<rparr>\<rparr>"
proof -
  from assms obtain bot del where flags: "jget raw ''is_bot'' = Inr bot" "jget raw ''deleted'' = Inr del"
    by (auto simp: persist_user_def andthen_Inr_iff)
  show thesis
  proof (cases "truth bot \<or> truth del")
    case True
    with assms flags have "oc = ''skipped''" "db' = db" by (simp_all add: persist_user_def)
    then show thesis by (intro skipped[of "sids db"]) simp_all
  next
    case False
    with assms flags obtain i sid p email name where
      i: "jget raw ''id'' = Inr i" "id_field i = Inr sid" and p: "jget raw ''profile'' = Inr p"
      "text_at (or_else p (JObj [])) ''email'' = Inr email" "user_name (or_else p (JObj [])) raw = Inr name"
      by (auto simp: persist_user_def andthen_Inr_iff)
    obtain m reg where h: "hook_resolve_person (slack_person_record email name sid) None (sids db) = (m, reg)"
      by (metis surj_pair)
    note body = assms[unfolded persist_user_def, simplified flags i p andthen_simps h prod.case False if_False]
    show thesis
    proof (cases m)
      case None
      with body have "oc = ''skipped''" "db' = db\<lparr>sids := reg\<rparr>" by simp_all
      then show thesis using h None by (intro skipped) auto
    next
      case (Some who)
      with body obtain uid where uid: "sid = Some uid" by (cases sid) simp_all
      then have "i = JStr uid" using i(2) by (cases i) simp_all
      with Some body uid i(1) p h show thesis
        by (intro stored[of uid p email name who reg])
          (auto simp: owners_def upsert_def split: option.splits)
    qed
  qed
qed

text \<open>
  The outcome of a Slack user. For a user with an id who is stored, the person is the owner of the
  email when that is known, else the owner of the Slack id when that is known, else a fuzzy match or a
  new person; afterwards the Slack id belongs to that person, and every other identity keeps its
  owner; an unknown email is entered unless the Slack id was known. So a Slack id known under another person than the email is taken from that person. The row
  is reported as created only when the email was known and the Slack id was not: a user that was
  unknown before is reported as updated, because resolving it has entered the Slack id already.
\<close>
theorem slack_user_outcome:
  assumes run: "persist_user se raw ctx db = Inr (oc, db')" "oc \<noteq> ''skipped''"
    and user: "jget raw ''id'' = Inr (JStr uid)" "uid \<noteq> []"
    and mail: "jget raw ''profile'' = Inr p" "text_at (or_else p (JObj [])) ''email'' = Inr email"
  shows "(oc = ''created'' \<longleftrightarrow> email \<noteq> [] \<and> owners (person_identities (sids db)) (EMAIL, str_lower email) \<noteq> None
            \<and> owners (person_identities (sids db)) (SLACK_ID, uid) = None)
    \<and> (\<exists>who. owners (person_identities (sids db')) (SLACK_ID, uid) = Some who
        \<and> (email \<noteq> [] \<and> owners (person_identities (sids db)) (SLACK_ID, uid) = None \<longrightarrow>
             owners (person_identities (sids db')) (EMAIL, str_lower email) = Some who)
        \<and> (email \<noteq> [] \<and> owners (person_identities (sids db)) (EMAIL, str_lower email) \<noteq> None \<longrightarrow>
             owners (person_identities (sids db)) (EMAIL, str_lower email) = Some who)
        \<and> ((email = [] \<or> owners (person_identities (sids db)) (EMAIL, str_lower email) = None)
             \<and> owners (person_identities (sids db)) (SLACK_ID, uid) \<noteq> None \<longrightarrow>
             owners (person_identities (sids db)) (SLACK_ID, uid) = Some who))
    \<and> (\<forall>k x. k \<noteq> (SLACK_ID, uid) \<and> owners (person_identities (sids db)) k = Some x \<longrightarrow>
        owners (person_identities (sids db')) k = Some x)"
  using run(1)
proof (cases rule: persist_user_Inr)
  case (skipped reg)
  with run(2) show ?thesis by simp
next
  case (stored p' email' name uid' who reg)
  have same: "uid' = uid" "p' = p" "email' = email" using stored(1-3) user mail by simp_all
  let ?d = "owners (person_identities (sids db))"
  define ids where "ids = (if email = [] then [] else [(EMAIL, str_lower email)]) @ [(SLACK_ID, uid)]"
  have dir: "directory_resolve ids (fallback_person (slack_person_record email name (Some uid)) None (sids db)) ?d
      = (who, owners (person_identities reg))"
    using hook_person_directory[OF stored(4)] user(2) by (simp add: collect_slack same ids_def)
  have after: "owners (person_identities (sids db')) = (owners (person_identities reg))((SLACK_ID, uid) \<mapsto> who)"
    by (simp add: stored(6) owners_slack_upsert same)
  have grows: "owners (person_identities reg) k = Some x" if "?d k = Some x" for k x
    using directory_resolve_grows[OF dir that] .
  have facts: "oc = (if owners (person_identities reg) (SLACK_ID, uid) = None then ''created'' else ''updated'')"
    using stored(5) by (simp add: same)
  have keys: "(SLACK_ID, uid) \<noteq> (EMAIL, str_lower email)" by simp
  show ?thesis
  proof (cases "directory_find ids ?d")
    case None
    then have n: "email \<noteq> [] \<longrightarrow> ?d (EMAIL, str_lower email) = None" "?d (SLACK_ID, uid) = None"
      by (auto simp: directory_find_None ids_def)
    note reg = directory_resolve_unknown[OF None dir]
    have "owners (person_identities reg) (SLACK_ID, uid) = Some who"
      "email \<noteq> [] \<longrightarrow> owners (person_identities reg) (EMAIL, str_lower email) = Some who"
      unfolding reg by (simp_all add: ids_def)
    with n facts after keys grows show ?thesis by (cases "email = []") simp_all
  next
    case (Some q)
    with dir have "q = who" "owners (person_identities reg) = ?d" by (simp_all add: directory_resolve_def)
    with Some facts after keys show ?thesis
      by (auto simp: ids_def split: if_splits option.splits)
  qed
qed

text \<open>A user known by email alone, then one unknown to everybody.\<close>

definition slack_user :: "string \<Rightarrow> string \<Rightarrow> json" where
  "slack_user uid email =
     JObj [(''id'', JStr uid), (''profile'', JObj [(''email'', JStr email), (''real_name'', JStr ''Eva'')])]"

definition permissive :: slack_env where
  "permissive = \<lparr>refuse_workspace = (\<lambda>_. None), refuse_channel = (\<lambda>_. None), refuse_message = (\<lambda>_. None),
     refuse_identity = (\<lambda>_. None)\<rparr>"

definition slack_start :: "registry \<Rightarrow> unit slack_db" where
  "slack_start reg = \<lparr>sids = reg, stokens = Some [(''bot_token'', JStr ''t'')], slack_world = (),
     workspaces = [], channels = [], messages = []\<rparr>"

definition known_by_email :: registry where
  "known_by_email = snd (resolve_person sample_person None empty_registry)"

definition slack_context :: sync_context where
  "slack_context = \<lparr>ctx_run = 0, ctx_integration = 1, ctx_provider = ''slack'', ctx_resource = ''users'',
     ctx_mode = Incremental, cursor_before = [], cursor_after = [], fetched = 0, created = 0, updated = 0,
     skipped = 0, errors = 0, error_samples = []\<rparr>"

theorem slack_user_outcome_witness:
  "(\<exists>db'. persist_user permissive (slack_user ''U1'' ''Eva@acme.cz'') slack_context (slack_start known_by_email)
      = Inr (''created'', db'))
   \<and> (\<exists>db'. persist_user permissive (slack_user ''U1'' ''Eva@acme.cz'') slack_context (slack_start empty_registry)
      = Inr (''updated'', db'))"
proof (intro conjI)
  let ?raw = "slack_user ''U1'' ''Eva@acme.cz''"
  have user: "jget ?raw ''id'' = Inr (JStr ''U1'')" "''U1'' \<noteq> []"
    and mail: "jget ?raw ''profile'' = Inr (JObj [(''email'', JStr ''Eva@acme.cz''), (''real_name'', JStr ''Eva'')])"
      "text_at (or_else (JObj [(''email'', JStr ''Eva@acme.cz''), (''real_name'', JStr ''Eva'')]) (JObj [])) ''email''
        = Inr ''Eva@acme.cz''"
    by (simp_all add: slack_user_def dict_get_def text_at_def or_else_def)
  have returns: "case persist_user permissive ?raw slack_context (slack_start reg) of
      Inr (oc, _) \<Rightarrow> oc \<noteq> ''skipped'' \<and> oc \<in> {''created'', ''updated''} | Inl _ \<Rightarrow> False"
    if "reg \<in> {known_by_email, empty_registry}" for reg
    using that by (elim insertE emptyE) (simp, code_simp)+
  have known: "owners (person_identities (sids (slack_start known_by_email))) (EMAIL, str_lower ''Eva@acme.cz'') \<noteq> None"
    "owners (person_identities (sids (slack_start known_by_email))) (SLACK_ID, ''U1'') = None"
    by code_simp+
  obtain oc db' where r: "persist_user permissive ?raw slack_context (slack_start known_by_email) = Inr (oc, db')"
    "oc \<noteq> ''skipped''"
    using returns[of known_by_email] by (auto split: sum.splits prod.splits)
  from slack_user_outcome[OF r user mail] known
  show "\<exists>db'. persist_user permissive ?raw slack_context (slack_start known_by_email) = Inr (''created'', db')"
    using r by auto
  have unknown: "owners (person_identities (sids (slack_start empty_registry))) k = None" for k
    by (simp add: slack_start_def empty_registry_def owners_def)
  obtain oc2 db2 where r2: "persist_user permissive ?raw slack_context (slack_start empty_registry) = Inr (oc2, db2)"
    "oc2 \<noteq> ''skipped''" "oc2 \<in> {''created'', ''updated''}"
    using returns[of empty_registry] by (auto split: sum.splits prod.splits)
  from slack_user_outcome[OF r2(1,2) user mail] unknown have "oc2 \<noteq> ''created''" by simp
  with r2 show "\<exists>db'. persist_user permissive ?raw slack_context (slack_start empty_registry) = Inr (''updated'', db')"
    by auto
qed

section \<open>Messages are a replica\<close>

text \<open>The stored messages by channel and time stamp, each with its channel as the sync sees it.\<close>

definition message_view :: "'s slack_db \<Rightarrow> string \<times> string \<Rightarrow> (string \<times> json) option" where
  "message_view db k = map_option (\<lambda>m. (ms_channel m, sp_payload (ms_prov m))) (lookup ms_key (messages db) k)"

definition message_key :: "string \<times> json \<Rightarrow> string \<times> string" where
  "message_key raw = (fst raw, case text_at (snd raw) ''ts'' of Inr ts \<Rightarrow> ts | Inl _ \<Rightarrow> [])"

lemma message_row_Inr:
  "message_row channel ts msg ctx db = Inr row \<Longrightarrow>
     ms_channel row = channel \<and> ms_ts row = ts \<and> sp_payload (ms_prov row) = msg
     \<and> (\<forall>p. ms_person row = Some p \<longrightarrow> p \<in> owner ` set (person_identities (sids db)))"
  by (auto simp: message_row_def andthen_Inr_iff dest!: lookup_SomeD split: if_splits)

lemma persist_message_Inr:
  assumes "persist_message se (channel, msg) ctx db = Inr (oc, db')"
  obtains (skipped) "oc = ''skipped''" "db' = db"
  | (stored) ts row where "text_at msg ''ts'' = Inr ts" "ts \<noteq> []" "message_row channel ts msg ctx db = Inr row"
      "channel \<in> ch_id ` set (channels db)"
      "oc = (if lookup ms_key (messages db) (channel, ts) = None then ''created'' else ''updated'')"
      "db' = db\<lparr>messages := fst (upsert ms_key ms_mk ms_upd row (channel, ts) (messages db)),
               channels := raise_channel_ts channel ts (channels db)\<rparr>"
proof -
  from assms obtain c where c: "lookup ch_id (channels db) channel = Some c"
    by (cases "lookup ch_id (channels db) channel") (simp_all add: persist_message_def)
  from assms c obtain ts where ts: "text_at msg ''ts'' = Inr ts"
    by (auto simp: persist_message_def andthen_Inr_iff)
  show thesis
  proof (cases "ts = []")
    case True
    with assms c ts show thesis by (intro skipped) (simp_all add: persist_message_def)
  next
    case False
    with assms c ts obtain row where row: "message_row channel ts msg ctx db = Inr row"
      by (auto simp: persist_message_def andthen_Inr_iff)
    from c have "channel \<in> ch_id ` set (channels db)" by (auto dest: lookup_SomeD)
    with False assms c ts row show thesis
      by (intro stored[of ts row]) (auto simp: persist_message_def upsert_def split: option.splits)
  qed
qed

lemma finite_message_view: "finite (dom (message_view db))"
proof -
  have "dom (message_view db) \<subseteq> ms_key ` set (messages db)"
    by (auto simp: message_view_def dest: lookup_Some_key)
  then show ?thesis by (rule finite_subset) simp
qed

lemma persist_message_view:
  assumes "persist_message se raw ctx db = Inr (oc, db')"
  shows "message_view db' = (if oc = ''skipped'' then message_view db else (message_view db)(message_key raw \<mapsto> raw))"
    and "oc \<noteq> ''skipped'' \<Longrightarrow> oc = (if message_view db (message_key raw) = None then ''created'' else ''updated'')"
    and "oc \<in> {''created'', ''updated'', ''skipped''}"
proof -
  obtain channel msg where raw: "raw = (channel, msg)" by (cases raw)
  have "message_view db' = (if oc = ''skipped'' then message_view db else (message_view db)(message_key raw \<mapsto> raw))
      \<and> (oc \<noteq> ''skipped'' \<longrightarrow> oc = (if message_view db (message_key raw) = None then ''created'' else ''updated''))
      \<and> oc \<in> {''created'', ''updated'', ''skipped''}"
    using assms[unfolded raw]
  proof (cases rule: persist_message_Inr)
    case skipped
    then show ?thesis by simp
  next
    case (stored ts row)
    have key: "message_key raw = (channel, ts)" using stored(1) by (simp add: message_key_def raw)
    have "message_view db' k = ((message_view db)((channel, ts) \<mapsto> (channel, msg))) k" for k
      using message_row_Inr[OF stored(3)]
      by (auto simp: message_view_def stored(6) message_table.lookup_upsert_if ms_mk_def ms_upd_def ms_key_def
          split: option.split dest: lookup_SomeD)
    then have "message_view db' = (message_view db)((channel, ts) \<mapsto> (channel, msg))" by blast
    with stored(5) key raw show ?thesis by (auto simp: message_view_def)
  qed
  then show "message_view db' = (if oc = ''skipped'' then message_view db else (message_view db)(message_key raw \<mapsto> raw))"
    "oc \<noteq> ''skipped'' \<Longrightarrow> oc = (if message_view db (message_key raw) = None then ''created'' else ''updated'')"
    "oc \<in> {''created'', ''updated'', ''skipped''}" by blast+
qed

lemma context_unchanged: "\<exists>cur. ctx = ctx\<lparr>cursor_after := cur\<rparr>" for ctx :: sync_context
  by (intro exI[of _ "cursor_after ctx"]) simp

interpretation message_sync: replica_contract "persist (message_sync api se limiter)" message_view message_key
proof unfold_locales
  fix raw ctx and db :: "'a slack_db" and oc db'
  show "\<exists>cur. fst (persist (message_sync api se limiter) raw ctx db) = ctx\<lparr>cursor_after := cur\<rparr>"
    by (simp add: message_sync_def context_unchanged)
  show "finite (dom (message_view db))" by (rule finite_message_view)
  assume "snd (persist (message_sync api se limiter) raw ctx db) = Inr (oc, db')"
  then have r: "persist_message se raw ctx db = Inr (oc, db')" by (simp add: message_sync_def)
  from persist_message_view[OF r] show "oc \<in> {''created'', ''updated'', ''skipped''}"
    "message_view db' = (if oc = ''skipped'' then message_view db else (message_view db)(message_key raw \<mapsto> raw))"
    "oc \<noteq> ''skipped'' \<Longrightarrow> oc = (if message_view db (message_key raw) = None then ''created'' else ''updated'')"
    by blast+
qed

section \<open>Consistency, and the channel cursors\<close>

definition slack_ok :: "'s slack_db \<Rightarrow> bool" where
  "slack_ok db \<longleftrightarrow> registry_ok (sids db)
     \<and> unique_keys ws_integration (workspaces db) \<and> unique_keys ws_team_id (workspaces db)
     \<and> unique_keys ch_id (channels db) \<and> unique_keys ms_key (messages db)
     \<and> ch_workspace ` set (channels db) \<subseteq> ws_integration ` set (workspaces db)
     \<and> ms_channel ` set (messages db) \<subseteq> ch_id ` set (channels db)
     \<and> refs_ok ms_person (person_ids (sids db)) (messages db)
     \<and> (\<forall>m \<in> set (messages db). \<forall>c \<in> set (channels db). ch_id c = ms_channel m \<longrightarrow> ms_ts m \<le> ch_last_ts c)"

text \<open>Channels are never lost, and their cursors never move back.\<close>

definition channels_le :: "slack_channel list \<Rightarrow> slack_channel list \<Rightarrow> bool" where
  "channels_le rows rows' \<longleftrightarrow>
     (\<forall>c \<in> set rows. \<exists>c' \<in> set rows'. ch_id c' = ch_id c \<and> ch_last_ts c \<le> ch_last_ts c')"

lemma channels_le_refl [simp]: "channels_le rows rows"
  by (auto simp: channels_le_def)

lemma channels_le_trans: "channels_le a b \<Longrightarrow> channels_le b c \<Longrightarrow> channels_le a c"
  unfolding channels_le_def by (metis order.trans)

lemma channels_le_map:
  "(\<And>c. ch_id (f c) = ch_id c \<and> ch_last_ts c \<le> ch_last_ts (f c)) \<Longrightarrow> channels_le rows (map f rows)"
  by (auto simp: channels_le_def)

lemma raise_channel_ts_le: "channels_le rows (raise_channel_ts channel ts rows)"
  unfolding raise_channel_ts_def by (rule channels_le_map) (simp add: less_imp_le)

lemma raise_channel_ts_ids [simp]: "map ch_id (raise_channel_ts channel ts rows) = map ch_id rows"
  by (simp add: raise_channel_ts_def)

lemma raise_channel_ts_id_set [simp]: "ch_id ` set (raise_channel_ts channel ts rows) = ch_id ` set rows"
  by (metis list.set_map raise_channel_ts_ids)

lemma upsert_channel_le: "channels_le rows (fst (upsert ch_id ch_mk ch_upd row k rows))"
proof (cases "lookup ch_id rows k")
  case None
  then show ?thesis by (auto simp: upsert_def channels_le_def)
next
  case (Some c)
  have "channels_le rows (map (\<lambda>r. if ch_id r = k then ch_upd row r else r) rows)"
    by (rule channels_le_map) (simp add: ch_upd_def)
  with Some show ?thesis by (simp add: upsert_def)
qed

lemma persist_message_ok:
  assumes ok: "slack_ok db" and r: "persist_message se raw ctx db = Inr (oc, db')"
  shows "slack_ok db' \<and> channels_le (channels db) (channels db')"
proof -
  obtain channel msg where raw: "raw = (channel, msg)" by (cases raw)
  from r[unfolded raw] show ?thesis
  proof (cases rule: persist_message_Inr)
    case skipped
    with ok show ?thesis by simp
  next
    case (stored ts row)
    let ?rows = "fst (upsert ms_key ms_mk ms_upd row (channel, ts) (messages db))"
    let ?chs = "raise_channel_ts channel ts (channels db)"
    note row = message_row_Inr[OF stored(3)]
    have "unique_keys ms_key ?rows"
      using ok by (intro message_table.unique_upsert) (simp add: slack_ok_def)
    moreover have persons: "refs_ok ms_person (person_ids (sids db)) ?rows"
      by (rule refs_ok_upsert) (use ok row in \<open>auto simp: slack_ok_def registry_ok_def ms_mk_def ms_upd_def\<close>)
    have keys: "ms_key ` set ?rows = insert (channel, ts) (ms_key ` set (messages db))"
      by (rule message_table.keys_upsert)
    have rows: "(ms_channel m = channel \<and> ms_ts m = ts) \<or> (\<exists>m' \<in> set (messages db). ms_channel m' = ms_channel m \<and> ms_ts m' = ms_ts m)"
      if "m \<in> set ?rows" for m
    proof -
      have "ms_key m \<in> insert (channel, ts) (ms_key ` set (messages db))" using keys that by blast
      then show ?thesis by (auto simp: ms_key_def)
    qed
    have "fst ` (ms_key ` set ?rows) = insert channel (fst ` (ms_key ` set (messages db)))"
      unfolding keys by simp
    then have "ms_channel ` set ?rows = insert channel (ms_channel ` set (messages db))"
      by (simp add: image_image ms_key_def)
    then have "ms_channel ` set ?rows \<subseteq> ch_id ` set ?chs"
      using stored(4) ok by (simp add: slack_ok_def)
    moreover have "ms_ts m \<le> ch_last_ts c" if "m \<in> set ?rows" "c \<in> set ?chs" "ch_id c = ms_channel m" for m c
    proof -
      from that(2) obtain c0 where c0: "c0 \<in> set (channels db)" "ch_id c = ch_id c0" "ch_last_ts c0 \<le> ch_last_ts c"
        "ch_id c0 = channel \<longrightarrow> ts \<le> ch_last_ts c"
        by (auto simp: raise_channel_ts_def not_less)
      from rows[OF that(1)] show ?thesis
      proof
        assume "ms_channel m = channel \<and> ms_ts m = ts"
        with c0 that(3) show ?thesis by simp
      next
        assume "\<exists>m' \<in> set (messages db). ms_channel m' = ms_channel m \<and> ms_ts m' = ms_ts m"
        then obtain m' where "m' \<in> set (messages db)" "ms_channel m' = ms_channel m" "ms_ts m' = ms_ts m" by blast
        with ok c0 that(3) have "ms_ts m \<le> ch_last_ts c0" by (auto simp: slack_ok_def)
        with c0(3) show ?thesis by simp
      qed
    qed
    moreover have "unique_keys ch_id ?chs" using ok by (simp add: slack_ok_def unique_keys_def)
    moreover have "ch_workspace ` set ?chs = ch_workspace ` set (channels db)"
      unfolding raise_channel_ts_def set_map image_image by (rule image_cong) simp_all
    ultimately show ?thesis
      using ok raise_channel_ts_le persons unfolding slack_ok_def by (simp add: stored(6))
  qed
qed

lemma registry_ok_identities:
  "registry_ok reg \<Longrightarrow> unique_keys identity_key rows \<Longrightarrow> owner ` set rows \<subseteq> person_ids reg \<Longrightarrow>
     registry_ok (reg\<lparr>person_identities := rows\<rparr>)"
  by (simp add: registry_ok_def)

lemma persist_user_ok:
  assumes ok: "slack_ok db" and r: "persist_user se raw ctx db = Inr (oc, db')"
  shows "slack_ok db' \<and> channels_le (channels db) (channels db')"
  using r
proof (cases rule: persist_user_Inr)
  have reg_ok: "registry_ok (sids db)" using ok by (simp add: slack_ok_def)
  {
    case (skipped reg)
    have "registry_ok reg \<and> person_ids (sids db) \<subseteq> person_ids reg"
    proof (cases "reg = sids db")
      case False
      then obtain rec where h: "hook_resolve_person rec None (sids db) = (None, reg)" using skipped(3) by blast
      then show ?thesis using hook_person_ok(1,2)[OF reg_ok _ h] by simp
    qed (use reg_ok in simp)
    then have "registry_ok reg" "refs_ok ms_person (person_ids reg) (messages db)"
      using ok refs_ok_mono[of ms_person "person_ids (sids db)" "messages db" "person_ids reg"]
      by (simp_all add: slack_ok_def)
    with ok show ?thesis unfolding slack_ok_def by (simp add: skipped(2))
  next
    case (stored p email name uid who reg)
    let ?rows = "fst (upsert identity_key slack_identity_mk slack_identity_upd
         (who, email \<noteq> [], wall reg) (SLACK_ID, uid) (person_identities reg))"
    note hook = hook_person_ok[OF reg_ok _ stored(4)]
    have reg: "registry_ok reg" "person_ids (sids db) \<subseteq> person_ids reg" "who \<in> person_ids reg"
      using hook(1,2,4) by simp_all
    have "unique_keys identity_key ?rows"
      using reg(1) by (intro slack_identity_table.unique_upsert) (simp add: registry_ok_def)
    moreover have "owner ` set ?rows \<subseteq> insert who (owner ` set (person_identities reg))"
      by (auto simp: upsert_def slack_identity_mk_def slack_identity_upd_def split: option.split)
    then have "owner ` set ?rows \<subseteq> person_ids reg"
      using reg(1,3) by (auto simp: registry_ok_def)
    ultimately have "registry_ok (reg\<lparr>person_identities := ?rows\<rparr>)"
      by (rule registry_ok_identities[OF reg(1)])
    moreover have "refs_ok ms_person (person_ids reg) (messages db)"
      using ok refs_ok_mono[OF _ reg(2), of ms_person "messages db"] by (simp add: slack_ok_def)
    ultimately show ?thesis using ok unfolding slack_ok_def by (simp add: stored(6))
  }
qed

lemma workspace_row_Inr: "workspace_row i t team = Inr row \<Longrightarrow> ws_integration row = i"
  by (auto simp: workspace_row_def andthen_Inr_iff)

lemma store_workspace_Inr:
  "store_workspace se row rows = Inr rows' \<Longrightarrow>
     rows' = fst (upsert ws_integration ws_mk ws_upd row (ws_integration row) rows)
     \<and> (\<forall>w \<in> set rows. ws_team_id w = ws_team_id row \<longrightarrow> ws_integration w = ws_integration row)"
  by (auto simp: store_workspace_def split: if_splits option.splits)

lemma ensure_workspace_Inr:
  assumes "ensure_workspace api se i db = Inr (wid, db')"
  obtains row rows s where "wid = i" "ws_integration row = i"
    "store_workspace se row (workspaces db) = Inr rows" "db' = db\<lparr>slack_world := s, workspaces := rows\<rparr>"
  using assms
  by (auto simp: ensure_workspace_def andthen_Inr_iff case_prod_unfold dest: workspace_row_Inr)

text \<open>A workspace written under a team id nobody else has keeps the team ids unique.\<close>

lemma unique_team_ids:
  assumes "unique_keys ws_team_id rows" "unique_keys ws_integration rows" "ws_integration row = i"
    and "\<And>w. w \<in> set rows \<Longrightarrow> ws_team_id w = ws_team_id row \<Longrightarrow> ws_integration w = i"
  shows "unique_keys ws_team_id (fst (upsert ws_integration ws_mk ws_upd row i rows))"
proof (cases "lookup ws_integration rows i")
  case None
  have "ws_team_id row \<notin> ws_team_id ` set rows"
  proof
    assume "ws_team_id row \<in> ws_team_id ` set rows"
    then obtain w where "w \<in> set rows" "ws_team_id w = ws_team_id row" by force
    with assms(4)[of w] have "i \<in> ws_integration ` set rows" by force
    with None show False by (simp add: lookup_None_iff)
  qed
  with None assms(1) show ?thesis by (simp add: upsert_def unique_append ws_mk_def)
next
  case (Some w)
  let ?f = "\<lambda>r. if ws_integration r = i then ws_upd row r else r"
  have "inj_on (ws_team_id \<circ> ?f) (set rows)"
  proof (rule inj_onI)
    fix a b assume ab: "a \<in> set rows" "b \<in> set rows" "(ws_team_id \<circ> ?f) a = (ws_team_id \<circ> ?f) b"
    have inj: "inj_on ws_integration (set rows)" "inj_on ws_team_id (set rows)"
      using assms(1,2) by (simp_all add: unique_keys_def distinct_map)
    show "a = b"
    proof (cases "ws_integration a = i"; cases "ws_integration b = i")
      assume "ws_integration a = i" "ws_integration b = i"
      with inj(1) ab(1,2) show ?thesis by (simp add: inj_on_def)
    next
      assume "ws_integration a = i" "ws_integration b \<noteq> i"
      with ab(2,3) assms(4)[of b] show ?thesis by (simp add: ws_upd_def)
    next
      assume "ws_integration a \<noteq> i" "ws_integration b = i"
      with ab(1,3) assms(4)[of a] show ?thesis by (simp add: ws_upd_def)
    next
      assume "ws_integration a \<noteq> i" "ws_integration b \<noteq> i"
      with inj(2) ab show ?thesis by (simp add: inj_on_def)
    qed
  qed
  moreover have "distinct rows" using assms(1) by (simp add: unique_keys_def distinct_map)
  ultimately have "distinct (map (ws_team_id \<circ> ?f) rows)" by (simp add: distinct_map)
  moreover have "map ws_team_id (fst (upsert ws_integration ws_mk ws_upd row i rows)) = map (ws_team_id \<circ> ?f) rows"
    unfolding upsert_def Some by simp
  ultimately show ?thesis by (simp only: unique_keys_def)
qed

lemma channel_row_Inr: "channel_row raw ctx workspace t = Inr row \<Longrightarrow> ch_workspace row = workspace"
  by (auto simp: channel_row_def andthen_Inr_iff)

lemma persist_channel_ok:
  assumes ok: "slack_ok db" and r: "persist_channel api se raw ctx db = Inr (oc, db')"
  shows "slack_ok db' \<and> channels_le (channels db) (channels db')"
proof -
  from r obtain wid db1 row where e: "ensure_workspace api se (ctx_integration ctx) db = Inr (wid, db1)"
    and row: "channel_row raw ctx wid (wall (sids db1)) = Inr row"
    and db': "db' = db1\<lparr>channels := fst (upsert ch_id ch_mk ch_upd row (ch_id row) (channels db1))\<rparr>"
    by (auto simp: persist_channel_def andthen_Inr_iff case_prod_unfold split: option.splits)
  from e obtain ws rows s where ws: "wid = ctx_integration ctx" "ws_integration ws = ctx_integration ctx"
    "store_workspace se ws (workspaces db) = Inr rows" "db1 = db\<lparr>slack_world := s, workspaces := rows\<rparr>"
    by (rule ensure_workspace_Inr)
  note st = store_workspace_Inr[OF ws(3), unfolded ws(2)]
  have "unique_keys ws_integration rows"
    using st ok workspace_table.unique_upsert by (simp add: slack_ok_def)
  moreover have "unique_keys ws_team_id rows"
    using st ok ws(2) unique_team_ids[of "workspaces db" ws "ctx_integration ctx"] by (simp add: slack_ok_def)
  moreover have wids: "ws_integration ` set rows = insert wid (ws_integration ` set (workspaces db))"
    using st ws(1) workspace_table.keys_upsert by simp
  moreover have "unique_keys ch_id (fst (upsert ch_id ch_mk ch_upd row (ch_id row) (channels db)))"
    using ok by (intro channel_table.unique_upsert) (simp add: slack_ok_def)
  moreover have "ch_id ` set (fst (upsert ch_id ch_mk ch_upd row (ch_id row) (channels db)))
      = insert (ch_id row) (ch_id ` set (channels db))"
    by (rule channel_table.keys_upsert)
  moreover define chs where "chs = fst (upsert ch_id ch_mk ch_upd row (ch_id row) (channels db))"
  moreover have each: "ch_workspace c \<in> insert wid (ch_workspace ` set (channels db))
      \<and> (ch_id c \<notin> ch_id ` set (channels db)
         \<or> (\<exists>c0 \<in> set (channels db). ch_id c0 = ch_id c \<and> ch_last_ts c0 = ch_last_ts c))"
    if "c \<in> set chs" for c
    using that channel_row_Inr[OF row]
    by (auto simp: chs_def upsert_def ch_mk_def ch_upd_def lookup_None_iff split: option.splits if_splits)
  have old: "ch_workspace ` set (channels db) \<subseteq> ws_integration ` set (workspaces db)"
    "ms_channel ` set (messages db) \<subseteq> ch_id ` set (channels db)"
    "\<And>m c. m \<in> set (messages db) \<Longrightarrow> c \<in> set (channels db) \<Longrightarrow> ch_id c = ms_channel m \<Longrightarrow> ms_ts m \<le> ch_last_ts c"
    using ok by (auto simp: slack_ok_def)
  have "ch_workspace ` set chs \<subseteq> ws_integration ` set rows"
    using each wids old(1) by blast
  moreover have "ms_ts m \<le> ch_last_ts c" if "m \<in> set (messages db)" "c \<in> set chs" "ch_id c = ms_channel m" for m c
  proof -
    have "ch_id c \<in> ch_id ` set (channels db)" using old(2) that(1,3) by auto
    with each[OF that(2)] obtain c0 where "c0 \<in> set (channels db)" "ch_id c0 = ch_id c" "ch_last_ts c0 = ch_last_ts c"
      by blast
    with old(3)[of m c0] that(1,3) show ?thesis by simp
  qed
  moreover have "registry_ok (sids db)" "unique_keys ms_key (messages db)"
    "refs_ok ms_person (person_ids (sids db)) (messages db)"
    using ok by (simp_all add: slack_ok_def)
  ultimately show ?thesis
    using old(2) upsert_channel_le[of "channels db" row "ch_id row"]
    by (auto simp: slack_ok_def db' ws(4))
qed

text \<open>What a run of any of the syncs keeps, relative to the tables it started from.\<close>

lemma slack_run_ok:
  assumes "\<And>raw ctx db oc db'. slack_ok db \<Longrightarrow> snd (persist cls raw ctx db) = Inr (oc, db') \<Longrightarrow>
      slack_ok db' \<and> channels_le (channels db) (channels db')"
    and "\<And>ctx db. \<exists>s. snd (fetch cls ctx db) = db\<lparr>slack_world := s\<rparr>"
    and "slack_ok (tables w)"
  shows "slack_ok (tables (snd (base_sync_run exc_text tnow cls i mode w)))
    \<and> channels_le (channels (tables w)) (channels (tables (snd (base_sync_run exc_text tnow cls i mode w))))"
proof -
  let ?P = "\<lambda>db. slack_ok db \<and> channels_le (channels (tables w)) (channels db)"
  obtain out w' where run: "base_sync_run exc_text tnow cls i mode w = (out, w')" by (metis surj_pair)
  have p: "?P db'" if "?P db" "snd (persist cls raw ctx db) = Inr (oc, db')" for raw ctx db oc db'
    using assms(1)[OF _ that(2)] that(1) channels_le_trans by blast
  have f: "?P (snd (fetch cls ctx db))" if "?P db" for ctx db
  proof -
    obtain s where "snd (fetch cls ctx db) = db\<lparr>slack_world := s\<rparr>" using assms(2) by blast
    with that show ?thesis by (simp add: slack_ok_def)
  qed
  from run_tables[where P = ?P, OF p f run] assms(3) show ?thesis by (simp add: run)
qed

lemma slack_fetch_frame: "\<exists>s. snd (slack_fetch listing db) = db\<lparr>slack_world := s\<rparr>"
proof (cases "bot_token (stokens db)")
  case (Inl e)
  then show ?thesis by (intro exI[of _ "slack_world db"]) (simp add: slack_fetch_def)
next
  case (Inr tok)
  then show ?thesis
    by (intro exI[of _ "snd (listing (slack_world db))"]) (simp add: slack_fetch_def case_prod_unfold)
qed

lemma message_fetch_frame: "\<exists>s. snd (fetch (message_sync api se limiter) ctx db) = db\<lparr>slack_world := s\<rparr>"
proof (cases "bot_token (stokens db)")
  case (Inl e)
  then show ?thesis by (intro exI[of _ "slack_world db"]) (simp add: message_sync_def)
next
  case (Inr tok)
  then show ?thesis
    by (intro exI[of _ "snd (fetch_tracked api (tracked_channels (channels db)) (slack_world db))"])
      (simp add: message_sync_def case_prod_unfold)
qed

text \<open>
  The Slack tables stay consistent. A run of any of the three syncs, however it ends, keeps the
  identity registry well formed, workspaces, channels and messages unique, every reference valid, and
  the cursor of a channel at or above the time stamp of each of its stored messages; no channel is
  lost and no channel cursor moves back.
\<close>
theorem slack_consistent:
  assumes "slack_ok (tables w)"
  shows "(slack_ok (tables (snd (base_sync_run exc_text tnow (user_sync api se limiter) i mode w)))
      \<and> channels_le (channels (tables w))
          (channels (tables (snd (base_sync_run exc_text tnow (user_sync api se limiter) i mode w)))))
    \<and> (slack_ok (tables (snd (base_sync_run exc_text tnow (channel_sync api se limiter) i mode w)))
      \<and> channels_le (channels (tables w))
          (channels (tables (snd (base_sync_run exc_text tnow (channel_sync api se limiter) i mode w)))))
    \<and> (slack_ok (tables (snd (base_sync_run exc_text tnow (message_sync api se limiter) i mode w)))
      \<and> channels_le (channels (tables w))
          (channels (tables (snd (base_sync_run exc_text tnow (message_sync api se limiter) i mode w)))))"
proof (intro conjI[OF _ conjI])
  show "slack_ok (tables (snd (base_sync_run exc_text tnow (user_sync api se limiter) i mode w)))
      \<and> channels_le (channels (tables w))
          (channels (tables (snd (base_sync_run exc_text tnow (user_sync api se limiter) i mode w))))"
    by (rule slack_run_ok[OF _ _ assms]; simp add: user_sync_def slack_fetch_frame) (erule (1) persist_user_ok)
  show "slack_ok (tables (snd (base_sync_run exc_text tnow (channel_sync api se limiter) i mode w)))
      \<and> channels_le (channels (tables w))
          (channels (tables (snd (base_sync_run exc_text tnow (channel_sync api se limiter) i mode w))))"
    by (rule slack_run_ok[OF _ _ assms]; simp add: channel_sync_def slack_fetch_frame) (erule (1) persist_channel_ok)
  show "slack_ok (tables (snd (base_sync_run exc_text tnow (message_sync api se limiter) i mode w)))
      \<and> channels_le (channels (tables w))
          (channels (tables (snd (base_sync_run exc_text tnow (message_sync api se limiter) i mode w))))"
    by (rule slack_run_ok[OF _ message_fetch_frame assms]) (simp add: message_sync_def, erule (1) persist_message_ok)
qed

text \<open>An account with one tracked channel and two messages, the older of which has no text type.\<close>

definition slack_msg :: "string \<Rightarrow> json \<Rightarrow> json" where
  "slack_msg ts txt = JObj [(''ts'', JStr ts), (''text'', txt)]"

definition slack_history :: "json list" where
  "slack_history = [slack_msg ''2.5'' (JStr ''new''), slack_msg ''1.5'' (JInt 7)]"

definition message_time :: "json \<Rightarrow> rat" where
  "message_time m = (case text_at m ''ts'' of Inr ts \<Rightarrow> (case parse_float ts of Some q \<Rightarrow> q | None \<Rightarrow> 0) | Inl _ \<Rightarrow> 0)"

definition slack_sample_api :: "unit slack_api" where
  "slack_sample_api =
     \<lparr>conversations_list = (\<lambda>limit s. (Inr (JObj []), s)),
      conversations_history = (\<lambda>channel oldest limit s.
        (Inr (JObj [(''messages'', JList (take limit (filter (\<lambda>m. oldest < message_time m) slack_history)))]), s)),
      users_list = (\<lambda>limit s. (Inr (JObj []), s)),
      team_info_get = (\<lambda>s. (Inr (JObj []), s))\<rparr>"

definition slack_tracked :: slack_channel where
  "slack_tracked = \<lparr>ch_id = ''C1'',
     ch_prov = \<lparr>sp_source_id = ''C1'', sp_synced_at = 0, sp_payload = JObj [], sp_run = 0\<rparr>, ch_workspace = 1,
     ch_name = ''general'', ch_purpose = [], ch_topic = [], ch_private = False, ch_archived = False,
     ch_tracked = True, ch_members = 3, ch_last_ts = []\<rparr>"

definition slack_sample_world :: "(unit slack_db, unit) sync_world" where
  "slack_sample_world =
     \<lparr>tables = (slack_start empty_registry)
        \<lparr>workspaces := [\<lparr>ws_integration = 1, ws_team_id = ''T'', ws_name = [], ws_domain = [],
                         ws_payload = JObj [], ws_synced_at = 0\<rparr>],
         channels := [slack_tracked]\<rparr>,
      sync_runs = [], cursors = [], env = ()\<rparr>"

abbreviation slack_sample_run :: "(unit slack_db, unit) sync_world \<Rightarrow> sync_outcome \<times> (unit slack_db, unit) sync_world" where
  "slack_sample_run w \<equiv> base_sync_run (\<lambda>_. ''error'') (\<lambda>_. 9)
     (message_sync slack_sample_api permissive (\<lambda>c. (Inr (), c))) 1 Incremental w"

lemma slack_sample_ok: "slack_ok (tables slack_sample_world)"
  by (simp add: slack_ok_def slack_sample_world_def slack_start_def registry_ok_def empty_registry_def
      unique_keys_def slack_tracked_def)

theorem slack_consistent_witness:
  "slack_ok (tables (snd (slack_sample_run slack_sample_world)))
   \<and> map ch_last_ts (channels (tables (snd (slack_sample_run slack_sample_world)))) = [''2.5'']"
proof -
  have "map ch_last_ts (channels (tables (snd (slack_sample_run slack_sample_world)))) = [''2.5'']"
    by code_simp
  with slack_consistent[OF slack_sample_ok] show ?thesis by blast
qed

section \<open>Below a channel cursor nothing is filled in\<close>

text \<open>The documented meaning of \<open>oldest\<close>: only messages after it are returned.\<close>

definition newer_only :: "'s slack_api \<Rightarrow> bool" where
  "newer_only api \<longleftrightarrow>
     (\<forall>channel oldest s msgs s'. fetch_messages api channel oldest s = (Inr msgs, s') \<longrightarrow>
        (\<forall>m \<in> set msgs. \<exists>ts q. text_at m ''ts'' = Inr ts \<and> parse_float ts = Some q \<and> oldest < q))"

lemma fetch_tracked_newer:
  assumes "newer_only api"
  shows "fetch_tracked api cs s = ((raws, err), s') \<Longrightarrow> raw \<in> set raws \<Longrightarrow>
    \<exists>c \<in> set cs. ch_id c = fst raw
      \<and> (\<exists>q. parse_float (snd (message_key raw)) = Some q
           \<and> (ch_last_ts c \<noteq> [] \<longrightarrow> (\<exists>q0. parse_float (ch_last_ts c) = Some q0 \<and> q0 < q)))"
proof (induction cs arbitrary: s s' raws err)
  case (Cons c cs)
  then obtain oldest where o: "(if ch_last_ts c = [] then Some 0 else parse_float (ch_last_ts c)) = Some oldest"
    by (cases "if ch_last_ts c = [] then Some 0 else parse_float (ch_last_ts c)") auto
  obtain r s1 where f: "fetch_messages api (ch_id c) oldest s = (r, s1)" by (metis surj_pair)
  with Cons.prems o obtain msgs where msgs: "r = Inr msgs" by (cases r) auto
  obtain rest err' s2 where rest: "fetch_tracked api cs s1 = ((rest, err'), s2)" by (metis surj_pair)
  from Cons.prems(1) o f msgs rest have raws: "raws = map (Pair (ch_id c)) msgs @ rest" by simp
  show ?case
  proof (cases "raw \<in> set rest")
    case True
    from Cons.IH[OF rest this] show ?thesis by auto
  next
    case False
    with Cons.prems(2) raws obtain m where m: "m \<in> set msgs" "raw = (ch_id c, m)" by auto
    with assms f msgs obtain ts q where "text_at m ''ts'' = Inr ts" "parse_float ts = Some q" "oldest < q"
      unfolding newer_only_def by blast
    with o m(2) show ?thesis
      by (intro bexI[of _ c]) (auto simp: message_key_def split: if_splits)
  qed
qed simp

text \<open>
  Messages at or below a channel's cursor are never fetched again. With a service that returns
  messages after \<open>oldest\<close> only, a run of the message sync leaves the messages of a channel whose time
  is not after the channel's cursor as they are. As the cursor of a channel is raised by every message
  stored, to the newest one, an older message that failed, or that did not fit in the one page of 200
  that is read, is never stored.
\<close>
theorem messages_below_cursor:
  assumes api: "newer_only api" and ok: "unique_keys ch_id (channels (tables w))"
    and c: "c \<in> set (channels (tables w))" "ch_last_ts c \<noteq> []" "parse_float (ch_last_ts c) = Some q0"
    and ts: "parse_float ts = Some q" "q \<le> q0"
    and run: "base_sync_run exc_text tnow (message_sync api se limiter) i mode w = (out, w')"
  shows "message_view (tables w') (ch_id c, ts) = message_view (tables w) (ch_id c, ts)"
proof -
  let ?cls = "message_sync api se limiter"
  let ?ctx = "new_context ?cls i mode (read_cursor (cursor_key ?cls) (cursors w)) (fresh_id run_id (sync_runs w))"
  obtain raws fe db0 where f: "fetch ?cls ?ctx (tables w) = ((raws, fe), db0)" by (metis surj_pair)
  have none: "message_key raw \<noteq> (ch_id c, ts)" if "raw \<in> set raws" for raw
  proof
    assume key: "message_key raw = (ch_id c, ts)"
    from f that obtain s where "fetch_tracked api (tracked_channels (channels (tables w))) (slack_world (tables w))
        = ((raws, fe), s)"
      by (auto simp: message_sync_def split: sum.splits prod.splits)
    from fetch_tracked_newer[OF api this that] obtain c' q1 where c': "c' \<in> set (tracked_channels (channels (tables w)))"
      "ch_id c' = fst raw" "parse_float (snd (message_key raw)) = Some q1"
      "ch_last_ts c' \<noteq> [] \<longrightarrow> (\<exists>q0. parse_float (ch_last_ts c') = Some q0 \<and> q0 < q1)"
      by blast
    have "fst raw = ch_id c" using key by (simp add: message_key_def)
    with c' c(1) ok have "c' = c"
      by (auto simp: tracked_channels_def unique_keys_def distinct_map inj_on_def)
    with c' c(2,3) key ts show False by auto
  qed
  have same: "message_view db0 = message_view (tables w)"
  proof -
    obtain s where "snd (fetch ?cls ?ctx (tables w)) = (tables w)\<lparr>slack_world := s\<rparr>" by (metis message_fetch_frame)
    with f show ?thesis by (simp add: message_view_def fun_eq_iff)
  qed
  from message_sync.run_replica[OF refl run f same] obtain ok' where ok': "subseq ok' raws"
    "message_view (tables w') = message_view (tables w) ++ map_of (rev (map (\<lambda>x. (message_key x, x)) ok'))"
    by blast
  have "(ch_id c, ts) \<notin> message_key ` set ok'"
    using none subseq_set[OF ok'(1)] by (metis imageE subsetD)
  then have "map_of (rev (map (\<lambda>x. (message_key x, x)) ok')) (ch_id c, ts) = None"
    by (force simp: map_of_eq_None_iff)
  with ok'(2) show ?thesis by (simp add: map_add_def)
qed

theorem messages_below_cursor_witness:
  "message_view (tables (snd (slack_sample_run (snd (slack_sample_run slack_sample_world))))) (''C1'', ''1.5'') = None
   \<and> out_errors (fst (slack_sample_run slack_sample_world)) = 1"
proof -
  let ?w = "snd (slack_sample_run slack_sample_world)"
  have times: "text_at (slack_msg ts body) ''ts'' = Inr (if ts = [] then [] else ts)" for ts body
    by (simp add: text_at_def slack_msg_def dict_get_def)
  have floats: "parse_float ''2.5'' = Some (25 / 10)" "parse_float ''1.5'' = Some (15 / 10)"
    by code_simp+
  have mem: "m \<in> {slack_msg ''2.5'' (JStr ''new''), slack_msg ''1.5'' (JInt 7)} \<and> oldest < message_time m"
    if "m \<in> set (take 200 (filter (\<lambda>m. oldest < message_time m) slack_history))" for m oldest
    using in_set_takeD[OF that] by (auto simp: slack_history_def split: if_splits)
  have api: "newer_only slack_sample_api"
    unfolding newer_only_def
  proof (intro allI impI ballI)
    fix channel oldest s msgs s' m
    assume "fetch_messages slack_sample_api channel oldest s = (Inr msgs, s')" "m \<in> set msgs"
    then have "m \<in> set (take 200 (filter (\<lambda>m. oldest < message_time m) slack_history))"
      by (auto simp: fetch_messages_def slack_sample_api_def list_of_def dict_get_def or_else_def split: if_splits)
    from mem[OF this] have "\<exists>ts. text_at m ''ts'' = Inr ts \<and> parse_float ts = Some (message_time m) \<and> oldest < message_time m"
      by (auto simp: times message_time_def floats)
    then show "\<exists>ts q. text_at m ''ts'' = Inr ts \<and> parse_float ts = Some q \<and> oldest < q" by blast
  qed
  have w: "unique_keys ch_id (channels (tables ?w))" "map ch_id (channels (tables ?w)) = [''C1'']"
    "map ch_last_ts (channels (tables ?w)) = [''2.5'']"
    "message_view (tables ?w) (''C1'', ''1.5'') = None" "out_errors (fst (slack_sample_run slack_sample_world)) = 1"
    by code_simp+
  then obtain c where c: "c \<in> set (channels (tables ?w))" "ch_id c = ''C1''" "ch_last_ts c = ''2.5''"
    by (cases "channels (tables ?w)") auto
  from messages_below_cursor[OF api w(1) c(1) _ _ floats(2) _ prod.collapse[symmetric],
      where ?q0.0 = "25 / 10"] c(2,3) floats w(4,5)
  show ?thesis by simp
qed

end
