(* ===== verification/FapiIngest.thy ===== *)
theory FapiIngest
  imports Connector
begin

text \<open>
  The FAPI ingest, \<open>connectors/fapi/ingest.py\<close>, with the client of \<open>client.py\<close> and the tables of
  \<open>models.py\<close>. The HTTP service is a parameter, \<open>fapi_send path limit offset\<close> under the integration's
  basic authentication. A customer and an invoice are identified by their \<open>fapi_id\<close>. Decimals are
  exact rationals. The pagination loop runs on fuel.
\<close>

section \<open>Tables\<close>

record fapi_customer =
  fc_id :: string
  fc_prov :: provenance
  fc_organization :: "nat option"
  fc_name :: string
  fc_ico :: string
  fc_dic :: string
  fc_email :: string
  fc_phone :: string
  fc_address :: json
  fc_created_at :: "rat option"
  fc_updated_at :: "rat option"

record fapi_invoice =
  fi_id :: string
  fi_prov :: provenance
  fi_number :: string
  fi_customer :: "string option"
  fi_organization :: "nat option"
  fi_amount :: rat
  fi_vat :: rat
  fi_currency :: string
  fi_status :: string
  fi_issued_at :: "int option"
  fi_due_at :: "int option"
  fi_paid_at :: "int option"
  fi_items :: json
  fi_created_at :: "rat option"
  fi_updated_at :: "rat option"

record 's fapi_db =
  fids :: registry
  ftokens :: "(string \<times> json) list option"
  fapi_world :: 's
  customers :: "fapi_customer list"
  invoices :: "fapi_invoice list"

record 's fapi_api =
  fapi_send :: "string \<Rightarrow> nat \<Rightarrow> nat \<Rightarrow> 's \<Rightarrow> http_response \<times> 's"

text \<open>Django's \<open>parse_datetime\<close> and \<open>parse_date\<close> (a date is a day number), and the refused rows.\<close>

record fapi_env =
  fe_datetime :: "string \<Rightarrow> (py_error, rat option) result"
  fe_date :: "string \<Rightarrow> (py_error, int option) result"
  refuse_customer :: "fapi_customer \<Rightarrow> py_error option"
  refuse_invoice :: "fapi_invoice \<Rightarrow> py_error option"

section \<open>The client\<close>

definition fapi_credentials :: "(string \<times> json) list option \<Rightarrow> (py_error, string \<times> string) result" where
  "fapi_credentials cred =
     (case cred of None \<Rightarrow> Inl ValueError
      | Some ts \<Rightarrow>
          if truth (dict_get ts ''user'') \<and> truth (dict_get ts ''api_key'')
          then Inr (py_str (dict_get ts ''user''), py_str (dict_get ts ''api_key'')) else Inl ValueError)"

definition fapi_get :: "'s fapi_api \<Rightarrow> string \<Rightarrow> nat \<Rightarrow> nat \<Rightarrow> 's \<Rightarrow> (py_error, json) result \<times> 's" where
  "fapi_get api path limit offset s =
     (case fapi_send api path limit offset s of (resp, s') \<Rightarrow> (raise_for_status resp, s'))"

definition list_invoices :: "'s fapi_api \<Rightarrow> nat \<Rightarrow> nat \<Rightarrow> 's \<Rightarrow> (py_error, json) result \<times> 's" where
  "list_invoices api = fapi_get api ''/invoices''"

definition list_clients :: "'s fapi_api \<Rightarrow> nat \<Rightarrow> nat \<Rightarrow> 's \<Rightarrow> (py_error, json) result \<times> 's" where
  "list_clients api = fapi_get api ''/clients''"

section \<open>Pagination\<close>

text \<open>The rows of a response, \<open>None\<close> when it is neither a list nor a dict.\<close>

fun response_rows :: "json \<Rightarrow> (py_error, json list) result option" where
  "response_rows (JList rows) = Some (Inr rows)"
| "response_rows (JObj kvs) =
     Some (jiter (or_else (dict_get kvs ''data'') (or_else (dict_get kvs ''invoices'')
       (or_else (dict_get kvs ''clients'') (JList [])))))"
| "response_rows _ = None"

text \<open>The generator: the rows it yields, and the exception that ends it, if any.\<close>

fun iter_paginated ::
  "(nat \<Rightarrow> nat \<Rightarrow> 's \<Rightarrow> (py_error, json) result \<times> 's) \<Rightarrow> nat \<Rightarrow> nat \<Rightarrow> nat \<Rightarrow> 's
     \<Rightarrow> ((json list \<times> py_error option) \<times> 's) option" where
  "iter_paginated call page_size 0 offset s = None"
| "iter_paginated call page_size (Suc fuel) offset s =
     (case call page_size offset s of
        (Inl e, s') \<Rightarrow> Some (([], Some e), s')
      | (Inr resp, s') \<Rightarrow>
          (case response_rows resp of
             None \<Rightarrow> Some (([], None), s')
           | Some (Inl e) \<Rightarrow> Some (([], Some e), s')
           | Some (Inr rows) \<Rightarrow>
               if length rows < page_size then Some ((rows, None), s')
               else (case iter_paginated call page_size fuel (offset + page_size) s' of
                       None \<Rightarrow> None
                     | Some ((later, err), s'') \<Rightarrow> Some ((rows @ later, err), s''))))"

definition fapi_fetch ::
  "(nat \<Rightarrow> nat \<Rightarrow> 's \<Rightarrow> (py_error, json) result \<times> 's) \<Rightarrow> nat \<Rightarrow> 's fapi_db
     \<Rightarrow> (json list \<times> py_error option) \<times> 's fapi_db" where
  "fapi_fetch call fuel db =
     (case fapi_credentials (ftokens db) of
        Inl e \<Rightarrow> (([], Some e), db)
      | Inr _ \<Rightarrow>
          (case iter_paginated call 100 fuel 0 (fapi_world db) of
             None \<Rightarrow> (([], Some (OtherError ''out of fuel'')), db)
           | Some (r, s) \<Rightarrow> (r, db\<lparr>fapi_world := s\<rparr>)))"

section \<open>Payload helpers\<close>

definition fapi_parse_dt :: "fapi_env \<Rightarrow> json \<Rightarrow> (py_error, rat option) result" where
  "fapi_parse_dt fe v = (if truth v then fe_datetime fe (py_str v) else Inr None)"

definition fapi_parse_date :: "fapi_env \<Rightarrow> json \<Rightarrow> (py_error, int option) result" where
  "fapi_parse_date fe v = (if truth v then fe_date fe (py_str v) else Inr None)"

text \<open>\<open>raw.get(a) or raw.get(b)\<close>\<close>

definition get_either :: "json \<Rightarrow> string \<Rightarrow> string \<Rightarrow> (py_error, json) result" where
  "get_either raw a b = andthen (jget raw a) (\<lambda>x. andthen (jget raw b) (\<lambda>y. Inr (or_else x y)))"

text \<open>\<open>(v or "").strip()\<close>: a value that is true and not a string has no \<open>strip\<close>.\<close>

fun strip_text :: "json \<Rightarrow> (py_error, string) result" where
  "strip_text (JStr s) = Inr (str_strip s)"
| "strip_text v = (if truth v then Inl AttributeError else Inr [])"

text \<open>\<open>Decimal(str(v))\<close>\<close>

definition to_decimal :: "json \<Rightarrow> (py_error, rat) result" where
  "to_decimal v =
     (case parse_float (py_str v) of Some q \<Rightarrow> Inr q | None \<Rightarrow> Inl (OtherError ''InvalidOperation''))"

definition map_invoice_status :: "json \<Rightarrow> string" where
  "map_invoice_status v =
     (let s = str_lower (py_str (or_else v (JStr [])))
      in if s \<in> {''draft'', ''sent'', ''partial'', ''paid'', ''overdue'', ''cancelled'', ''unknown''} then s
         else if s = ''issued'' \<or> s = ''open'' then ''sent''
         else if s = ''partially_paid'' then ''partial''
         else if s = ''fully_paid'' then ''paid''
         else if s = ''canceled'' then ''cancelled''
         else ''unknown'')"

definition fapi_provenance :: "fapi_env \<Rightarrow> json \<Rightarrow> string \<Rightarrow> rat \<Rightarrow> sync_context \<Rightarrow> (py_error, provenance) result" where
  "fapi_provenance fe raw i t ctx =
     andthen (get_either raw ''updated_at'' ''update_time'') (\<lambda>v.
     andthen (fapi_parse_dt fe v) (\<lambda>u. Inr
       \<lparr>source_system_of = ''fapi'', source_id = i, source_synced_at = t,
        source_updated_at = u, raw_payload = raw, sync_run_of = ctx_run ctx\<rparr>))"

definition fapi_key :: "json \<Rightarrow> (py_error, string) result" where
  "fapi_key raw = andthen (jget raw ''id'') (\<lambda>v. Inr (py_str v))"

section \<open>Customers\<close>

definition customer_mk :: "fapi_customer \<Rightarrow> string \<Rightarrow> fapi_customer" where
  "customer_mk d k = d\<lparr>fc_id := k\<rparr>"

definition customer_upd :: "fapi_customer \<Rightarrow> fapi_customer \<Rightarrow> fapi_customer" where
  "customer_upd d r = d\<lparr>fc_id := fc_id r\<rparr>"

interpretation customer_table: keyed_table fc_id customer_mk customer_upd
  by unfold_locales (simp_all add: customer_mk_def customer_upd_def)

definition customer_record :: "string \<Rightarrow> string \<Rightarrow> string \<Rightarrow> string \<Rightarrow> organization_record" where
  "customer_record name ic di i =
     \<lparr>or_source = ''fapi'', or_name = name, or_ico = (if ic = [] then None else Some ic),
      or_dic = (if di = [] then None else Some di), or_primary_domain = None, or_id_in_source = Some i,
      or_extra_identities = None\<rparr>"

definition customer_row ::
  "fapi_env \<Rightarrow> json \<Rightarrow> sync_context \<Rightarrow> string \<Rightarrow> string \<Rightarrow> string \<Rightarrow> string \<Rightarrow> string \<Rightarrow> nat option \<Rightarrow> rat
     \<Rightarrow> (py_error, fapi_customer) result" where
  "customer_row fe raw ctx i name ic di email master t =
     andthen (fapi_provenance fe raw i t ctx) (\<lambda>prov.
     andthen (text_of raw ''phone'') (\<lambda>phone.
     andthen (jget raw ''address'') (\<lambda>address.
     andthen (get_either raw ''created_at'' ''add_time'') (\<lambda>c. andthen (fapi_parse_dt fe c) (\<lambda>created_at. Inr
       \<lparr>fc_id = i, fc_prov = prov, fc_organization = master, fc_name = take 255 name, fc_ico = ic,
        fc_dic = di, fc_email = email, fc_phone = take 64 phone, fc_address = or_else address (JObj []),
        fc_created_at = created_at, fc_updated_at = source_updated_at prov\<rparr>)))))"

definition persist_customer ::
  "fapi_env \<Rightarrow> json \<Rightarrow> sync_context \<Rightarrow> 's fapi_db \<Rightarrow> (py_error, string \<times> 's fapi_db) result" where
  "persist_customer fe raw ctx db =
     andthen (fapi_key raw) (\<lambda>i.
     andthen (get_either raw ''ico'' ''company_id'') (\<lambda>a. andthen (strip_text a) (\<lambda>ic.
     andthen (get_either raw ''dic'' ''vat_id'') (\<lambda>b. andthen (strip_text b) (\<lambda>di.
     andthen (jget raw ''email'') (\<lambda>c. andthen (strip_text c) (\<lambda>email.
     andthen (get_either raw ''name'' ''company_name'') (\<lambda>d. andthen (strip_text d) (\<lambda>name.
     (case hook_resolve_organization (customer_record name ic di i) (fids db) of (master, reg) \<Rightarrow>
       andthen (customer_row fe raw ctx i name ic di email master (wall reg)) (\<lambda>row.
       andthen (store (refuse_customer fe) fc_id customer_mk customer_upd row (customers db)) (\<lambda>(oc, rows).
       Inr (oc, db\<lparr>fids := reg, customers := rows\<rparr>)))))))))))))"

section \<open>Invoices\<close>

definition invoice_mk :: "fapi_invoice \<Rightarrow> string \<Rightarrow> fapi_invoice" where
  "invoice_mk d k = d\<lparr>fi_id := k\<rparr>"

definition invoice_upd :: "fapi_invoice \<Rightarrow> fapi_invoice \<Rightarrow> fapi_invoice" where
  "invoice_upd d r = d\<lparr>fi_id := fi_id r\<rparr>"

interpretation invoice_table: keyed_table fi_id invoice_mk invoice_upd
  by unfold_locales (simp_all add: invoice_mk_def invoice_upd_def)

definition invoice_customer :: "json \<Rightarrow> fapi_customer list \<Rightarrow> fapi_customer option" where
  "invoice_customer client_id rows =
     (if client_id = JNull then None else lookup fc_id rows (py_str client_id))"

definition invoice_row ::
  "fapi_env \<Rightarrow> json \<Rightarrow> sync_context \<Rightarrow> 's fapi_db \<Rightarrow> (py_error, fapi_invoice) result" where
  "invoice_row fe raw ctx db =
     andthen (fapi_key raw) (\<lambda>i.
     andthen (get_either raw ''client_id'' ''customer_id'') (\<lambda>client_id.
     andthen (get_either raw ''price_with_vat'' ''amount'') (\<lambda>a. andthen (to_decimal (or_else a (JInt 0))) (\<lambda>amount.
     andthen (get_either raw ''vat'' ''vat_amount'') (\<lambda>b. andthen (to_decimal (or_else b (JInt 0))) (\<lambda>vat.
     andthen (fapi_provenance fe raw i (wall (fids db)) ctx) (\<lambda>prov.
     andthen (get_either raw ''number'' ''invoice_number'') (\<lambda>n. andthen (text_field n) (\<lambda>number.
     andthen (text_of raw ''currency'') (\<lambda>currency.
     andthen (jget raw ''status'') (\<lambda>status.
     andthen (get_either raw ''issued_at'' ''issue_date'') (\<lambda>d1. andthen (fapi_parse_date fe d1) (\<lambda>issued.
     andthen (get_either raw ''due_at'' ''due_date'') (\<lambda>d2. andthen (fapi_parse_date fe d2) (\<lambda>due.
     andthen (get_either raw ''paid_at'' ''paid_date'') (\<lambda>d3. andthen (fapi_parse_date fe d3) (\<lambda>paid.
     andthen (jget raw ''items'') (\<lambda>items.
     andthen (get_either raw ''created_at'' ''add_time'') (\<lambda>c. andthen (fapi_parse_dt fe c) (\<lambda>created_at. Inr
       \<lparr>fi_id = i, fi_prov = prov, fi_number = take 64 number,
        fi_customer = map_option fc_id (invoice_customer client_id (customers db)),
        fi_organization = (case invoice_customer client_id (customers db) of
           None \<Rightarrow> None | Some cu \<Rightarrow> fc_organization cu),
        fi_amount = amount, fi_vat = vat, fi_currency = take 8 (if currency = [] then ''CZK'' else currency),
        fi_status = map_invoice_status status, fi_issued_at = issued, fi_due_at = due, fi_paid_at = paid,
        fi_items = or_else items (JList []), fi_created_at = created_at,
        fi_updated_at = source_updated_at prov\<rparr>))))))))))))))))))))"

definition persist_invoice ::
  "fapi_env \<Rightarrow> json \<Rightarrow> sync_context \<Rightarrow> 's fapi_db \<Rightarrow> (py_error, string \<times> 's fapi_db) result" where
  "persist_invoice fe raw ctx db =
     andthen (invoice_row fe raw ctx db) (\<lambda>row.
     andthen (store (refuse_invoice fe) fi_id invoice_mk invoice_upd row (invoices db)) (\<lambda>(oc, rows).
     Inr (oc, db\<lparr>invoices := rows\<rparr>)))"

section \<open>The two syncs\<close>

definition customer_sync ::
  "'s fapi_api \<Rightarrow> nat \<Rightarrow> fapi_env \<Rightarrow> ('c \<Rightarrow> (py_error, unit) result \<times> 'c) \<Rightarrow> (json, 's fapi_db, 'c, py_error) sync_class" where
  "customer_sync api fuel fe limiter =
     \<lparr>provider = ''fapi'', resource = ''customers'', rate_limit = Some limiter, cursor_source = [],
      fetch = (\<lambda>ctx. fapi_fetch (list_clients api) fuel),
      persist = (\<lambda>raw ctx db. (ctx, persist_customer fe raw ctx db))\<rparr>"

definition invoice_sync ::
  "'s fapi_api \<Rightarrow> nat \<Rightarrow> fapi_env \<Rightarrow> ('c \<Rightarrow> (py_error, unit) result \<times> 'c) \<Rightarrow> (json, 's fapi_db, 'c, py_error) sync_class" where
  "invoice_sync api fuel fe limiter =
     \<lparr>provider = ''fapi'', resource = ''invoices'', rate_limit = Some limiter, cursor_source = [],
      fetch = (\<lambda>ctx. fapi_fetch (list_invoices api) fuel),
      persist = (\<lambda>raw ctx db. (ctx, persist_invoice fe raw ctx db))\<rparr>"

end
