(* ===== verification/FapiMirror.thy ===== *)
theory FapiMirror
  imports FapiIngest IdentityResolver
begin

text \<open>
  What the FAPI ingest guarantees: the pages of an account are read to the end, both syncs replicate
  it into their tables (interpretations of \<open>replica_contract\<close>), the tables and the identity registry
  stay consistent, and an invoice carries its customer's organization. A payload without an id is
  stored under the text \<open>None\<close>.
\<close>

section \<open>Paging\<close>

text \<open>An account serving \<open>rows\<close> by limit and offset, as a list or under \<open>data\<close>.\<close>

definition serves_rows :: "(nat \<Rightarrow> nat \<Rightarrow> 's \<Rightarrow> (py_error, json) result \<times> 's) \<Rightarrow> json list \<Rightarrow> bool" where
  "serves_rows call rows \<longleftrightarrow> (\<forall>limit offset s. \<exists>answer. call limit offset s = (Inr answer, s)
     \<and> answer \<in> {JList (take limit (drop offset rows)), JObj [(''data'', JList (take limit (drop offset rows)))]})"

lemma served_page:
  assumes "serves_rows call rows"
  obtains answer where "call limit offset s = (Inr answer, s)"
    "response_rows answer = Some (Inr (take limit (drop offset rows)))"
proof -
  from assms obtain answer where *: "call limit offset s = (Inr answer, s)"
    "answer \<in> {JList (take limit (drop offset rows)), JObj [(''data'', JList (take limit (drop offset rows)))]}"
    unfolding serves_rows_def by blast
  then have "response_rows answer = Some (Inr (take limit (drop offset rows)))"
    by (auto simp: or_else_def dict_get_def)
  with * show thesis using that by blast
qed

lemma iter_paginated_served:
  assumes "serves_rows call rows" "0 < n"
  shows "offset \<le> length rows \<Longrightarrow> length rows < offset + fuel * n \<Longrightarrow>
    iter_paginated call n fuel offset s = Some ((drop offset rows, None), s)"
proof (induction fuel arbitrary: offset)
  case (Suc fuel)
  obtain answer where page: "call n offset s = (Inr answer, s)"
    "response_rows answer = Some (Inr (take n (drop offset rows)))"
    by (rule served_page[OF assms(1)])
  show ?case
  proof (cases "length rows < offset + n")
    case True
    then have "length rows - offset < n" using Suc.prems(1) by linarith
    with page True show ?thesis by simp
  next
    case False
    then have "iter_paginated call n fuel (offset + n) s = Some ((drop (offset + n) rows, None), s)"
      using Suc.IH[of "offset + n"] Suc.prems by (simp add: algebra_simps)
    moreover have "take n (drop offset rows) @ drop (offset + n) rows = drop offset rows"
      by (metis add.commute append_take_drop_id drop_drop)
    ultimately show ?thesis using page False by simp
  qed
qed simp

text \<open>An endpoint that ignores \<open>offset\<close> and has a full page never ends the generator.\<close>

lemma iter_paginated_stuck:
  assumes "\<And>offset s. call n offset s = (Inr (JList rows), s)" "n \<le> length rows"
  shows "iter_paginated call n fuel offset s = None"
  using assms by (induction fuel arbitrary: offset) simp_all

lemma fapi_fetch_served:
  assumes "serves_rows call rows" "length rows < fuel * 100" "fapi_credentials (ftokens db) = Inr a"
  shows "fapi_fetch call fuel db = ((rows, None), db)"
  using iter_paginated_served[OF assms(1), of 100 0 fuel "fapi_world db"] assms(2,3) by (simp add: fapi_fetch_def)

lemma fapi_fetch_tables: "\<exists>s. snd (fapi_fetch call fuel db) = db\<lparr>fapi_world := s\<rparr>"
proof -
  have "\<exists>s. db = db\<lparr>fapi_world := s\<rparr>" by (intro exI[of _ "fapi_world db"]) simp
  then show ?thesis by (auto simp: fapi_fetch_def split: sum.splits option.splits)
qed

section \<open>What a stored row is\<close>

definition fapi_key_of :: "json \<Rightarrow> string" where
  "fapi_key_of raw = (case fapi_key raw of Inr k \<Rightarrow> k | Inl _ \<Rightarrow> [])"

lemma fapi_provenance_Inr: "fapi_provenance fe raw i t ctx = Inr prov \<Longrightarrow> raw_payload prov = raw"
  by (auto simp: fapi_provenance_def andthen_Inr_iff)

lemma customer_row_Inr:
  "customer_row fe raw ctx i name ic di email master t = Inr d \<Longrightarrow>
     fc_id d = i \<and> raw_payload (fc_prov d) = raw \<and> fc_organization d = master"
  by (auto simp: customer_row_def andthen_Inr_iff dest: fapi_provenance_Inr)

lemma invoice_row_Inr:
  assumes "invoice_row fe raw ctx db = Inr d"
  shows "fi_id d = fapi_key_of raw" "raw_payload (fi_prov d) = raw"
    and "\<exists>c. get_either raw ''client_id'' ''customer_id'' = Inr c
      \<and> fi_customer d = map_option fc_id (invoice_customer c (customers db))
      \<and> fi_organization d = (case invoice_customer c (customers db) of None \<Rightarrow> None | Some cu \<Rightarrow> fc_organization cu)"
  using assms by (auto simp: invoice_row_def andthen_Inr_iff fapi_key_of_def dest: fapi_provenance_Inr)

lemma persist_customer_Inr:
  assumes "persist_customer fe raw ctx db = Inr (oc, db')"
  obtains d name ic di reg rows where "fc_id d = fapi_key_of raw" "raw_payload (fc_prov d) = raw"
    "hook_resolve_organization (customer_record name ic di (fapi_key_of raw)) (fids db) = (fc_organization d, reg)"
    "store (refuse_customer fe) fc_id customer_mk customer_upd d (customers db) = Inr (oc, rows)"
    "db' = db\<lparr>fids := reg, customers := rows\<rparr>"
proof -
  define H where "H name ic di = hook_resolve_organization (customer_record name ic di (fapi_key_of raw)) (fids db)"
    for name ic di
  obtain name ic di email d rows where
    d: "customer_row fe raw ctx (fapi_key_of raw) name ic di email (fst (H name ic di)) (wall (snd (H name ic di))) = Inr d"
    and s: "store (refuse_customer fe) fc_id customer_mk customer_upd d (customers db) = Inr (oc, rows)"
    and db': "db' = db\<lparr>fids := snd (H name ic di), customers := rows\<rparr>"
    using assms by (auto simp: persist_customer_def andthen_Inr_iff fapi_key_of_def case_prod_unfold H_def)
  show thesis
    by (rule that[of d name ic di "snd (H name ic di)" rows]) (use customer_row_Inr[OF d] s db' in \<open>simp_all add: H_def\<close>)
qed

lemma persist_invoice_Inr:
  assumes "persist_invoice fe raw ctx db = Inr (oc, db')"
  obtains d rows where "invoice_row fe raw ctx db = Inr d"
    "store (refuse_invoice fe) fi_id invoice_mk invoice_upd d (invoices db) = Inr (oc, rows)"
    "db' = db\<lparr>invoices := rows\<rparr>"
  using assms by (auto simp: persist_invoice_def andthen_Inr_iff)

lemma persist_customer_payload:
  assumes "persist_customer fe raw ctx db = Inr (oc, db')"
  shows "payloads fc_id fc_prov (customers db') = (payloads fc_id fc_prov (customers db))(fapi_key_of raw \<mapsto> raw)"
    and "oc = (if payloads fc_id fc_prov (customers db) (fapi_key_of raw) = None then ''created'' else ''updated'')"
    and "oc \<noteq> ''skipped''" "oc \<in> {''created'', ''updated''}"
proof -
  from assms obtain d rows where d: "fc_id d = fapi_key_of raw" "raw_payload (fc_prov d) = raw"
    "store (refuse_customer fe) fc_id customer_mk customer_upd d (customers db) = Inr (oc, rows)" "customers db' = rows"
    by (elim persist_customer_Inr) simp
  note payloads_store[OF d(3) customer_table.keyed_table_axioms, of fc_prov]
  then show "payloads fc_id fc_prov (customers db') = (payloads fc_id fc_prov (customers db))(fapi_key_of raw \<mapsto> raw)"
    "oc = (if payloads fc_id fc_prov (customers db) (fapi_key_of raw) = None then ''created'' else ''updated'')"
    "oc \<noteq> ''skipped''" "oc \<in> {''created'', ''updated''}"
    using d by (simp_all add: customer_mk_def customer_upd_def)
qed

lemma persist_invoice_payload:
  assumes "persist_invoice fe raw ctx db = Inr (oc, db')"
  shows "payloads fi_id fi_prov (invoices db') = (payloads fi_id fi_prov (invoices db))(fapi_key_of raw \<mapsto> raw)"
    and "oc = (if payloads fi_id fi_prov (invoices db) (fapi_key_of raw) = None then ''created'' else ''updated'')"
    and "oc \<noteq> ''skipped''" "oc \<in> {''created'', ''updated''}"
proof -
  from assms obtain d rows where d: "invoice_row fe raw ctx db = Inr d"
    "store (refuse_invoice fe) fi_id invoice_mk invoice_upd d (invoices db) = Inr (oc, rows)" "invoices db' = rows"
    by (elim persist_invoice_Inr) simp
  note payloads_store[OF d(2) invoice_table.keyed_table_axioms, of fi_prov]
  then show "payloads fi_id fi_prov (invoices db') = (payloads fi_id fi_prov (invoices db))(fapi_key_of raw \<mapsto> raw)"
    "oc = (if payloads fi_id fi_prov (invoices db) (fapi_key_of raw) = None then ''created'' else ''updated'')"
    "oc \<noteq> ''skipped''" "oc \<in> {''created'', ''updated''}"
    using d invoice_row_Inr[OF d(1)] by (simp_all add: invoice_mk_def invoice_upd_def)
qed

interpretation customer_sync: replica_contract "persist (customer_sync api fuel fe limiter)"
    "\<lambda>db. payloads fc_id fc_prov (customers db)" fapi_key_of
  by unfold_locales
    (auto simp: customer_sync_def finite_payloads same_context simp del: fun_upd_apply dest: persist_customer_payload)

interpretation invoice_sync: replica_contract "persist (invoice_sync api fuel fe limiter)"
    "\<lambda>db. payloads fi_id fi_prov (invoices db)" fapi_key_of
  by unfold_locales
    (auto simp: invoice_sync_def finite_payloads same_context simp del: fun_upd_apply dest: persist_invoice_payload)

section \<open>Invoices are replicated\<close>

text \<open>
  C33. Customers and invoices are replicated. The syncs have no cursor, so every run reads the whole
  account. With working credentials, a run of the invoice sync overwrites the table, read as a map
  from ids to payloads, with a subsequence of the account's invoices, in their order; it is all of
  them when the run is COMPLETED, and when it is PARTIAL the outcome's errors count the missing ones; a run that a limiter
  time-out ended is FAILED, and nothing counts what it missed. A stored invoice whose id the account no longer has stays as it was.
\<close>
theorem invoices_replicated:
  assumes served: "serves_rows (list_invoices api) rows" "length rows < fuel * 100"
    and cred: "fapi_credentials (ftokens (tables w)) = Inr auth"
    and run: "base_sync_run exc_text tnow (invoice_sync api fuel fe limiter) integration mode w = (out, w')"
  shows "\<exists>ok. subseq ok rows
      \<and> payloads fi_id fi_prov (invoices (tables w')) =
          payloads fi_id fi_prov (invoices (tables w)) ++ map_of (rev (map (\<lambda>r. (fapi_key_of r, r)) ok))
      \<and> out_created out + out_updated out = length ok
      \<and> card (dom (payloads fi_id fi_prov (invoices (tables w')))) =
          card (dom (payloads fi_id fi_prov (invoices (tables w)))) + out_created out
      \<and> (out_status out \<noteq> Failed \<longrightarrow> length rows = length ok + out_errors out)
      \<and> (out_status out = Completed \<longrightarrow> ok = rows)
      \<and> (\<forall>k. k \<notin> fapi_key_of ` set rows \<longrightarrow>
          payloads fi_id fi_prov (invoices (tables w')) k = payloads fi_id fi_prov (invoices (tables w)) k)"
proof -
  let ?view = "\<lambda>db. payloads fi_id fi_prov (invoices db)"
  have f: "fetch (invoice_sync api fuel fe limiter) (new_context (invoice_sync api fuel fe limiter) integration mode
      (read_cursor (cursor_key (invoice_sync api fuel fe limiter)) (cursors w)) (fresh_id run_id (sync_runs w)))
      (tables w) = ((rows, None), tables w)"
    by (simp add: invoice_sync_def fapi_fetch_served[OF served cred])
  have never: "snd (persist (invoice_sync api fuel fe limiter) raw ctx db) \<noteq> Inr (''skipped'', db')" for raw ctx db db'
    using persist_invoice_payload(3)[of fe raw ctx db "''skipped''" db'] by (auto simp: invoice_sync_def)
  have no_skip: "out_skipped out = 0" by (rule invoice_sync.run_never_skips[OF refl never run])
  have clean: "out_errors out = 0" if "out_status out = Completed"
    using run that by (elim run_unfold) (auto split: option.splits if_splits)
  from invoice_sync.run_replica[OF refl run f refl] obtain ok where ok: "subseq ok rows"
    "?view (tables w') = ?view (tables w) ++ map_of (rev (map (\<lambda>r. (fapi_key_of r, r)) ok))"
    "out_created out + out_updated out = length ok"
    "card (dom (?view (tables w'))) = card (dom (?view (tables w))) + out_created out"
    "out_status out \<noteq> Failed \<longrightarrow> length rows = length ok + out_errors out"
    unfolding no_skip add_0_right by blast
  moreover from this clean have "ok = rows" if "out_status out = Completed"
    using that subseq_same_length by fastforce
  moreover have "?view (tables w') k = ?view (tables w) k" if "k \<notin> fapi_key_of ` set rows" for k
  proof -
    have "map_of (rev (map (\<lambda>r. (fapi_key_of r, r)) ok)) k = None"
      using subseq_set[OF ok(1)] that by (force simp: map_of_eq_None_iff)
    with ok(2) show ?thesis by (simp add: map_add_def)
  qed
  ultimately show ?thesis by blast
qed

text \<open>An account with one customer and one invoice of hers, served as the two conventions.\<close>

definition sample_customer :: json where
  "sample_customer = JObj [(''id'', JInt 7), (''name'', JStr ''Acme''), (''ico'', JStr ''123'')]"

definition sample_invoice :: json where
  "sample_invoice = JObj [(''id'', JInt 5), (''client_id'', JInt 7), (''amount'', JInt 9), (''status'', JStr ''Open'')]"

definition sample_fapi :: "unit fapi_api" where
  "sample_fapi = \<lparr>fapi_send = (\<lambda>path limit offset s.
     (if path = ''/clients'' then \<lparr>status_code = 200, body = JList (take limit (drop offset [sample_customer]))\<rparr>
      else \<lparr>status_code = 200, body = JObj [(''data'', JList (take limit (drop offset [sample_invoice])))]\<rparr>, s))\<rparr>"

definition lenient :: fapi_env where
  "lenient = \<lparr>fe_datetime = (\<lambda>_. Inr None), fe_date = (\<lambda>_. Inr None),
     refuse_customer = (\<lambda>_. None), refuse_invoice = (\<lambda>_. None)\<rparr>"

definition fapi_start :: "unit fapi_db" where
  "fapi_start = \<lparr>fids = empty_registry, ftokens = Some [(''user'', JStr ''u''), (''api_key'', JStr ''k'')],
     fapi_world = (), customers = [], invoices = []\<rparr>"

definition fapi_sample_world :: "(unit fapi_db, unit) sync_world" where
  "fapi_sample_world = \<lparr>tables = fapi_start, sync_runs = [], cursors = [], env = ()\<rparr>"

lemma sample_fapi_serves:
  "serves_rows (list_clients sample_fapi) [sample_customer]"
  "serves_rows (list_invoices sample_fapi) [sample_invoice]"
  by (simp_all add: serves_rows_def list_clients_def list_invoices_def fapi_get_def sample_fapi_def raise_for_status_def)

theorem invoices_replicated_witness:
  "\<exists>out w'. base_sync_run (\<lambda>_. ''error'') (\<lambda>_. 9) (invoice_sync sample_fapi 1 lenient (\<lambda>c. (Inr (), c))) 1 Incremental
       fapi_sample_world = (out, w')
     \<and> payloads fi_id fi_prov (invoices (tables w')) ''5'' = Some sample_invoice"
proof -
  let ?run = "base_sync_run (\<lambda>_. ''error'') (\<lambda>_. 9) (invoice_sync sample_fapi 1 lenient (\<lambda>c. (Inr (), c))) 1 Incremental
       fapi_sample_world"
  have run: "?run = (fst ?run, snd ?run)" by simp
  have cred: "fapi_credentials (ftokens (tables fapi_sample_world)) = Inr (''u'', ''k'')" by code_simp
  have finished: "out_status (fst ?run) = Completed" by code_simp
  have key: "fapi_key_of sample_invoice = ''5''" by code_simp
  from invoices_replicated[OF sample_fapi_serves(2) _ cred run] finished
  have "payloads fi_id fi_prov (invoices (tables (snd ?run))) =
      payloads fi_id fi_prov (invoices (tables fapi_sample_world)) ++ [fapi_key_of sample_invoice \<mapsto> sample_invoice]"
    by auto
  then have "payloads fi_id fi_prov (invoices (tables (snd ?run))) ''5'' = Some sample_invoice" by (simp add: key)
  with run show ?thesis by blast
qed

section \<open>The tables stay consistent\<close>

definition fapi_ok :: "'s fapi_db \<Rightarrow> bool" where
  "fapi_ok db \<longleftrightarrow> registry_ok (fids db)
     \<and> unique_keys fc_id (customers db) \<and> unique_keys fi_id (invoices db)
     \<and> refs_ok fc_organization (organization_ids (fids db)) (customers db)
     \<and> refs_ok fi_organization (organization_ids (fids db)) (invoices db)
     \<and> refs_ok fi_customer (fc_id ` set (customers db)) (invoices db)"

lemma fapi_ok_world: "fapi_ok db \<Longrightarrow> fapi_ok (db\<lparr>fapi_world := s\<rparr>)"
  by (simp add: fapi_ok_def)

lemma persist_customer_ok:
  assumes ok: "fapi_ok db" and r: "persist_customer fe raw ctx db = Inr (oc, db')"
  shows "fapi_ok db'"
  using r
proof (rule persist_customer_Inr)
  fix d name ic di reg rows
  assume h: "hook_resolve_organization (customer_record name ic di (fapi_key_of raw)) (fids db) = (fc_organization d, reg)"
    and s: "store (refuse_customer fe) fc_id customer_mk customer_upd d (customers db) = Inr (oc, rows)"
    and db': "db' = db\<lparr>fids := reg, customers := rows\<rparr>"
  have reg: "registry_ok (fids db)" using ok by (simp add: fapi_ok_def)
  note hook = hook_organization_ok[OF reg h]
  have "refs_ok fc_organization (organization_ids reg) rows"
    by (rule refs_ok_store[OF s refs_ok_mono[OF _ hook(2)]])
      (use ok hook(4) in \<open>auto simp: fapi_ok_def customer_mk_def customer_upd_def\<close>)
  moreover have keys: "unique_keys fc_id rows" "fc_id ` set (customers db) \<subseteq> fc_id ` set rows"
    using unique_store[OF s customer_table.keyed_table_axioms] ok by (simp_all add: fapi_ok_def)
  ultimately show "fapi_ok db'"
    using ok hook(1) refs_ok_mono[OF _ hook(2), of fi_organization "invoices db"]
      refs_ok_mono[OF _ keys(2), of fi_customer "invoices db"]
    unfolding fapi_ok_def by (simp add: db')
qed

lemma invoice_customer_Some: "invoice_customer c rows = Some cu \<Longrightarrow> cu \<in> set rows \<and> fc_id cu = py_str c \<and> c \<noteq> JNull"
  by (auto simp: invoice_customer_def dest: lookup_SomeD split: if_splits)

lemma persist_invoice_ok:
  assumes ok: "fapi_ok db" and r: "persist_invoice fe raw ctx db = Inr (oc, db')"
  shows "fapi_ok db'"
  using r
proof (rule persist_invoice_Inr)
  fix d rows
  assume d: "invoice_row fe raw ctx db = Inr d"
    and s: "store (refuse_invoice fe) fi_id invoice_mk invoice_upd d (invoices db) = Inr (oc, rows)"
    and db': "db' = db\<lparr>invoices := rows\<rparr>"
  obtain c where c: "fi_customer d = map_option fc_id (invoice_customer c (customers db))"
    "fi_organization d = (case invoice_customer c (customers db) of None \<Rightarrow> None | Some cu \<Rightarrow> fc_organization cu)"
    using invoice_row_Inr(3)[OF d] by blast
  have "x \<in> fc_id ` set (customers db)" if "fi_customer d = Some x" for x
    using that c(1) invoice_customer_Some by fastforce
  then have "refs_ok fi_customer (fc_id ` set (customers db)) rows"
    by (intro refs_ok_store[OF s]) (use ok in \<open>auto simp: fapi_ok_def invoice_mk_def invoice_upd_def\<close>)
  moreover have "x \<in> organization_ids (fids db)" if "fi_organization d = Some x" for x
    using that c(2) invoice_customer_Some ok unfolding fapi_ok_def refs_ok_def by (fastforce split: option.splits)
  then have "refs_ok fi_organization (organization_ids (fids db)) rows"
    by (intro refs_ok_store[OF s]) (use ok in \<open>auto simp: fapi_ok_def invoice_mk_def invoice_upd_def\<close>)
  moreover have "unique_keys fi_id rows"
    using unique_store(1)[OF s invoice_table.keyed_table_axioms] ok by (simp add: fapi_ok_def)
  ultimately show "fapi_ok db'" using ok unfolding fapi_ok_def by (simp add: db')
qed

text \<open>
  The FAPI tables stay consistent. A run of either sync, with whatever the service answers,
  whatever rows fail and however the run ends, keeps the identity registry well formed, \<open>fapi_id\<close>
  unique in both tables, and every customer an invoice names and every organization a row names
  pointing at a row that exists.
\<close>
theorem fapi_consistent:
  assumes ok: "fapi_ok (tables w)"
    and run: "base_sync_run exc_text tnow cls integration mode w = (out, w')"
    and cls: "cls \<in> {customer_sync api fuel fe limiter, invoice_sync api fuel fe limiter}"
  shows "fapi_ok (tables w')"
proof (rule run_tables[where P = fapi_ok, OF _ _ run ok])
  show "fapi_ok db'" if "fapi_ok db" "snd (persist cls raw ctx db) = Inr (oc, db')" for raw ctx db oc db'
    using cls that persist_customer_ok persist_invoice_ok by (auto simp: customer_sync_def invoice_sync_def)
  show "fapi_ok (snd (fetch cls ctx db))" if "fapi_ok db" for ctx db
    using cls fapi_ok_world[OF that] fapi_fetch_tables[of "list_clients api" fuel db] fapi_fetch_tables[of "list_invoices api" fuel db]
    by (auto simp: customer_sync_def invoice_sync_def)
qed

theorem fapi_consistent_witness:
  "fapi_ok (tables (snd (base_sync_run (\<lambda>_. ''error'') (\<lambda>_. 9) (customer_sync sample_fapi 1 lenient (\<lambda>c. (Inr (), c)))
     1 Incremental fapi_sample_world)))"
  by (rule fapi_consistent[OF _ prod.collapse[symmetric], where api = sample_fapi and fuel = 1 and fe = lenient
        and limiter = "\<lambda>c. (Inr (), c)"])
    (simp_all add: fapi_sample_world_def fapi_start_def fapi_ok_def registry_ok_def empty_registry_def unique_keys_def
      refs_ok_def)

section \<open>Invoices and their customers\<close>

text \<open>
  Whose invoice it is. A stored invoice carries the customer with its \<open>client_id\<close> (or, where that
  is empty or zero, its \<open>customer_id\<close>) and that customer's organization as they are at that moment, and
  neither when the payload has no such id or the customer is not stored yet; the customers, the
  registry and every other invoice stay as they are.
\<close>
theorem invoice_linkage:
  assumes "persist_invoice fe (JObj kvs) ctx db = Inr (oc, db')"
  defines "client \<equiv> or_else (dict_get kvs ''client_id'') (dict_get kvs ''customer_id'')"
  shows "\<exists>i. lookup fi_id (invoices db') (py_str (dict_get kvs ''id'')) = Some i
      \<and> (if client = JNull \<or> lookup fc_id (customers db) (py_str client) = None
         then fi_customer i = None \<and> fi_organization i = None
         else \<exists>cu \<in> set (customers db). fc_id cu = py_str client \<and> fi_customer i = Some (py_str client)
           \<and> fi_organization i = fc_organization cu)
      \<and> customers db' = customers db \<and> fids db' = fids db
      \<and> (\<forall>k. k \<noteq> py_str (dict_get kvs ''id'') \<longrightarrow> lookup fi_id (invoices db') k = lookup fi_id (invoices db) k)"
  using assms(1)
proof (rule persist_invoice_Inr)
  fix d rows
  assume d: "invoice_row fe (JObj kvs) ctx db = Inr d"
    and s: "store (refuse_invoice fe) fi_id invoice_mk invoice_upd d (invoices db) = Inr (oc, rows)"
    and db': "db' = db\<lparr>invoices := rows\<rparr>"
  have key: "fi_id d = py_str (dict_get kvs ''id'')"
    using invoice_row_Inr(1)[OF d] by (simp add: fapi_key_of_def fapi_key_def)
  have rows: "lookup fi_id rows k =
      (if k = py_str (dict_get kvs ''id'')
       then Some (case lookup fi_id (invoices db) k of None \<Rightarrow> invoice_mk d k | Some r \<Rightarrow> invoice_upd d r)
       else lookup fi_id (invoices db) k)" for k
    using store_Inr[OF s] by (auto simp: invoice_table.lookup_upsert_if key)
  have links: "fi_customer d = map_option fc_id (invoice_customer client (customers db))"
    "fi_organization d = (case invoice_customer client (customers db) of None \<Rightarrow> None | Some cu \<Rightarrow> fc_organization cu)"
    using invoice_row_Inr(3)[OF d] by (simp_all add: get_either_def client_def)
  show ?thesis
    using links unfolding db'
    by (auto simp: rows invoice_mk_def invoice_upd_def invoice_customer_def split: option.splits dest!: lookup_SomeD)
qed

text \<open>The sample invoice after the sample customer.\<close>

definition fapi_context :: sync_context where
  "fapi_context = \<lparr>ctx_run = 0, ctx_integration = 1, ctx_provider = ''fapi'', ctx_resource = ''invoices'',
     ctx_mode = Incremental, cursor_before = [], cursor_after = [], fetched = 0, created = 0, updated = 0,
     skipped = 0, errors = 0, error_samples = []\<rparr>"

definition after_customer :: "unit fapi_db" where
  "after_customer =
     (case persist_customer lenient sample_customer fapi_context fapi_start of Inr (_, db) \<Rightarrow> db | Inl _ \<Rightarrow> fapi_start)"

theorem invoice_linkage_witness:
  "\<exists>db' i. persist_invoice lenient sample_invoice fapi_context after_customer = Inr (''created'', db')
     \<and> lookup fi_id (invoices db') ''5'' = Some i \<and> fi_customer i = Some ''7'' \<and> fi_organization i \<noteq> None"
proof -
  have ok: "case persist_invoice lenient sample_invoice fapi_context after_customer of
      Inr (oc, _) \<Rightarrow> oc = ''created'' | Inl _ \<Rightarrow> False"
    by code_simp
  have customer: "map (\<lambda>c. (fc_id c, fc_organization c = None)) (customers after_customer) = [(''7'', False)]"
    by code_simp
  obtain db' where r: "persist_invoice lenient sample_invoice fapi_context after_customer = Inr (''created'', db')"
    using ok by (auto split: sum.splits prod.splits)
  have numbers: "show_int 5 = ''5''" "show_int 7 = ''7''" by code_simp+
  obtain cu where "customers after_customer = [cu]" "fc_id cu = ''7''" "fc_organization cu \<noteq> None"
    using customer by (cases "customers after_customer") auto
  then show ?thesis
    using invoice_linkage[OF r[unfolded sample_invoice_def]] r
    by (auto simp: dict_get_def or_else_def numbers lookup_Cons)
qed

text \<open>
  Payloads without an id: \<open>str(raw.get("id"))\<close> of a payload whose id is missing or null gives
  \<open>None\<close> as characters, so it is not refused: every such customer is stored in the one row \<open>fapi_id = "None"\<close>,
  over the previous one, and is reported as created the first time only.
\<close>
theorem missing_ids_share_a_row:
  assumes "persist_customer fe (JObj kvs) ctx db = Inr (oc, db1)"
    and "persist_customer fe (JObj kvs2) ctx2 db1 = Inr (oc2, db2)"
    and "dict_get kvs ''id'' = JNull" "dict_get kvs2 ''id'' = JNull"
  shows "payloads fc_id fc_prov (customers db2) =
      (payloads fc_id fc_prov (customers db))(''None'' \<mapsto> JObj kvs2) \<and> oc2 = ''updated''"
proof -
  have keys: "fapi_key_of (JObj kvs) = ''None''" "fapi_key_of (JObj kvs2) = ''None''"
    by (simp_all add: fapi_key_of_def fapi_key_def assms)
  note first = persist_customer_payload[OF assms(1), unfolded keys]
    and second = persist_customer_payload[OF assms(2), unfolded keys]
  show ?thesis using second(2) by (simp add: second(1) first(1))
qed

definition nameless :: "string \<Rightarrow> (string \<times> json) list" where
  "nameless n = [(''name'', JStr n)]"

theorem missing_ids_share_a_row_witness:
  "\<exists>db1 db2 oc. persist_customer lenient (JObj (nameless ''Acme'')) fapi_context fapi_start = Inr (oc, db1)
     \<and> persist_customer lenient (JObj (nameless ''Beta'')) fapi_context db1 = Inr (''updated'', db2)"
proof -
  have ok: "case persist_customer lenient (JObj (nameless ''Acme'')) fapi_context fapi_start of Inl _ \<Rightarrow> False
      | Inr (_, db1) \<Rightarrow> (case persist_customer lenient (JObj (nameless ''Beta'')) fapi_context db1 of Inl _ \<Rightarrow> False
          | Inr _ \<Rightarrow> True)"
    by code_simp
  then obtain oc db1 where first: "persist_customer lenient (JObj (nameless ''Acme'')) fapi_context fapi_start = Inr (oc, db1)"
    by (auto split: sum.splits prod.splits)
  with ok obtain oc2 db2 where
    second: "persist_customer lenient (JObj (nameless ''Beta'')) fapi_context db1 = Inr (oc2, db2)"
    by (auto split: sum.splits)
  note r = first second
  have "oc2 = ''updated''"
    by (rule missing_ids_share_a_row[OF r, THEN conjunct2]) (simp_all add: nameless_def dict_get_def)
  with r show ?thesis by blast
qed

end
