(* ===== verification/Calls.thy ===== *)
theory Calls
  imports PyValues
begin

text \<open>
  Effects: a call reads and changes a state \<open>'c\<close> and returns a value or raises. The state stands for a
  client and the service behind it, or for the application's own tables; it keeps what a call did
  before it raised.
\<close>

type_synonym ('e, 'c, 'a) eff = "'c \<Rightarrow> ('e, 'a) result \<times> 'c"

type_synonym ('c, 'a) call = "(py_error, 'c, 'a) eff"

definition ret :: "'a \<Rightarrow> ('e, 'c, 'a) eff" where
  "ret x = (\<lambda>c. (Inr x, c))"

definition lift_result :: "('e, 'a) result \<Rightarrow> ('e, 'c, 'a) eff" where
  "lift_result r = (\<lambda>c. (r, c))"

definition chain :: "('e, 'c, 'a) eff \<Rightarrow> ('a \<Rightarrow> ('e, 'c, 'b) eff) \<Rightarrow> ('e, 'c, 'b) eff" where
  "chain m f = (\<lambda>c. case m c of (Inl e, c') \<Rightarrow> (Inl e, c') | (Inr x, c') \<Rightarrow> f x c')"

text \<open>\<open>try: m except Exception: x\<close>; the world keeps what \<open>m\<close> did.\<close>

definition catching :: "'a \<Rightarrow> ('e, 'c, 'a) eff \<Rightarrow> ('e, 'c, 'a) eff" where
  "catching x m = (\<lambda>c. case m c of (Inl e, c') \<Rightarrow> (Inr x, c') | (Inr y, c') \<Rightarrow> (Inr y, c'))"

text \<open>\<open>try: x = m except Exception: return None\<close>.\<close>

definition attempt :: "('e, 'c, 'a) eff \<Rightarrow> ('e, 'c, 'a option) eff" where
  "attempt m = catching None (chain m (\<lambda>x. ret (Some x)))"

lemma chain_Inr_iff:
  "chain m f c = (Inr y, c2) \<longleftrightarrow> (\<exists>x c1. m c = (Inr x, c1) \<and> f x c1 = (Inr y, c2))"
  by (auto simp: chain_def split: prod.splits sum.splits)

lemma ret_iff [simp]: "ret x c = (r, c') \<longleftrightarrow> r = Inr x \<and> c' = c"
  by (auto simp: ret_def)

lemma lift_result_iff [simp]: "lift_result r c = (r', c') \<longleftrightarrow> r' = r \<and> c' = c"
  by (auto simp: lift_result_def)

lemma attempt_never_raises: "\<exists>x. fst (attempt m c) = Inr x"
  by (auto simp: attempt_def catching_def split: prod.split sum.split)

lemma attempt_Some: "attempt m c = (Inr (Some x), c') \<longleftrightarrow> m c = (Inr x, c')"
  by (auto simp: attempt_def catching_def chain_def ret_def split: prod.splits sum.splits)

lemma attempt_None: "attempt m c = (Inr None, c') \<longleftrightarrow> (\<exists>e. m c = (Inl e, c'))"
  by (auto simp: attempt_def catching_def chain_def ret_def split: prod.splits sum.splits)

text \<open>A property of the world that each of two effects keeps is kept by their sequence.\<close>

lemma chain_keeps:
  assumes "chain m f c = (r, c')" "P c"
    and "\<And>c r c'. m c = (r, c') \<Longrightarrow> P c \<Longrightarrow> P c'" "\<And>x c r c'. f x c = (r, c') \<Longrightarrow> P c \<Longrightarrow> P c'"
  shows "P c'"
  using assms by (auto simp: chain_def split: prod.splits sum.splits)

end
