(* ===== verification/MerkEnrich.thy ===== *)
theory MerkEnrich
  imports FapiIngest IdentityResolver Retry Calls
begin

text \<open>
  The Merk enrichment, \<open>connectors/merk\<close>: the client with its retries, the table of companies, one
  row per company number (\<open>ico\<close>), and the two entry points \<open>enrich\<close> and \<open>enrich_batch\<close>. The HTTP service is a
  parameter on the state \<open>'s\<close>, whose clock \<open>tnow\<close> is \<open>timezone.now()\<close>; the time slept between
  retries is the service's. Nothing runs in a transaction, so that an exception keeps what was done before.
\<close>

section \<open>The client\<close>

datatype merk_error = Merk_client_error string "rat option" | Merk_py py_error

type_synonym ('s, 'a) merk_call = "(merk_error, 's, 'a) eff"

record 's merk_api =
  mk_tokens :: "(string \<times> json) list option"
  mk_send :: "string \<Rightarrow> json \<Rightarrow> 's \<Rightarrow> (py_error, http_response \<times> string option) result \<times> 's"
  mk_rand :: "nat \<Rightarrow> rat"

definition py :: "(py_error, 'a) result \<Rightarrow> (merk_error, 'a) result" where
  "py r = (case r of Inl e \<Rightarrow> Inl (Merk_py e) | Inr x \<Rightarrow> Inr x)"

definition merk_api_key :: "'s merk_api \<Rightarrow> (merk_error, json) result" where
  "merk_api_key api =
     (case mk_tokens api of
        None \<Rightarrow> Inl (Merk_client_error ''Merk integration has no credential'' None)
      | Some ts \<Rightarrow>
          (let key = or_else (dict_get ts ''api_key'') (JStr [])
           in if truth key then Inr key else Inl (Merk_client_error ''Merk credential missing api_key'' None)))"

text \<open>\<open>float(header or 0) or None\<close>\<close>

definition retry_after_of :: "string option \<Rightarrow> (merk_error, rat option) result" where
  "retry_after_of header =
     (case header of
        None \<Rightarrow> Inr None
      | Some s \<Rightarrow>
          if s = [] then Inr None
          else (case parse_float s of
                  None \<Rightarrow> Inl (Merk_py ValueError)
                | Some q \<Rightarrow> Inr (if q = 0 then None else Some q)))"

definition merk_once :: "'s merk_api \<Rightarrow> string \<Rightarrow> json \<Rightarrow> ('s, json) merk_call" where
  "merk_once api path arg = (\<lambda>s.
     case mk_send api path arg s of
       (Inl e, s') \<Rightarrow> (Inl (Merk_py e), s')
     | (Inr (resp, header), s') \<Rightarrow>
         (if status_code resp = 429
          then andthen (retry_after_of header) (\<lambda>h. Inl (Merk_client_error ''rate limited'' h))
          else py (raise_for_status resp), s'))"

definition merk_retry :: retry_cfg where
  "merk_retry = default_cfg\<lparr>retries := 3, base_delay := 1\<rparr>"

fun retry_hint :: "merk_error \<Rightarrow> rat option" where
  "retry_hint (Merk_client_error _ h) = h"
| "retry_hint (Merk_py _) = None"

definition merk_send :: "'s merk_api \<Rightarrow> string \<Rightarrow> json \<Rightarrow> ('s, json) merk_call" where
  "merk_send api path arg = (\<lambda>s.
     case retry_with_backoff merk_retry (\<lambda>_. True) retry_hint (mk_rand api) (merk_once api path arg) s of
       (r, s', _) \<Rightarrow> (r, s'))"

definition lookup_by_ico :: "'s merk_api \<Rightarrow> string \<Rightarrow> ('s, json) merk_call" where
  "lookup_by_ico api i = merk_send api (''/subjects/'' @ i) (JObj [])"

text \<open>\<open>list(resp.get(a) or resp.get(b) or [])\<close> of a dict, \<open>list(resp)\<close> of anything else.\<close>

fun listing :: "string \<Rightarrow> json \<Rightarrow> (merk_error, json list) result" where
  "listing k (JObj kvs) = py (jiter (or_else (or_else (dict_get kvs k) (dict_get kvs ''data'')) (JList [])))"
| "listing k v = py (jiter v)"

definition batch_lookup :: "'s merk_api \<Rightarrow> string list \<Rightarrow> ('s, json list) merk_call" where
  "batch_lookup api icos =
     (if length icos > 500 then lift_result (Inl (Merk_py ValueError))
      else chain (merk_send api ''/subjects/batch'' (JObj [(''icos'', JList (map JStr icos))]))
             (\<lambda>resp. lift_result (listing ''subjects'' resp)))"

definition suggest :: "'s merk_api \<Rightarrow> string \<Rightarrow> int \<Rightarrow> ('s, json list) merk_call" where
  "suggest api query limit =
     chain (merk_send api ''/subjects/suggest'' (JObj [(''query'', JStr query), (''limit'', JInt limit)]))
       (\<lambda>resp. lift_result (listing ''suggestions'' resp))"

definition financials :: "'s merk_api \<Rightarrow> string \<Rightarrow> ('s, json) merk_call" where
  "financials api i = merk_send api (''/subjects/'' @ i @ ''/financials'') (JObj [])"

section \<open>The table\<close>

record merk_company =
  mk_ico :: string
  mk_source_id :: string
  mk_synced_at :: "rat option"
  mk_payload :: json
  mk_organization :: "nat option"
  mk_dic :: string
  mk_name :: string
  mk_legal_form :: string
  mk_status :: string
  mk_nace :: json
  mk_employees :: string
  mk_turnover_range :: string
  mk_turnover :: json
  mk_turnover_year :: json
  mk_profit :: json
  mk_profit_year :: json
  mk_rating :: string
  mk_rating_breakdown :: json
  mk_address :: json
  mk_website :: string
  mk_contacts :: json

definition company_mk :: "merk_company \<Rightarrow> string \<Rightarrow> merk_company" where
  "company_mk d k = d\<lparr>mk_ico := k\<rparr>"

definition company_upd :: "merk_company \<Rightarrow> merk_company \<Rightarrow> merk_company" where
  "company_upd d r = d\<lparr>mk_ico := mk_ico r\<rparr>"

interpretation company_table: keyed_table mk_ico company_mk company_upd
  by unfold_locales (simp_all add: company_mk_def company_upd_def)

record 's merk_db =
  mk_ids :: registry
  mk_rows :: "merk_company list"
  mk_service :: 's

text \<open>What the deployment gives: the active integration, if any, the clock, and the rows the database refuses.\<close>

record 's merk_env =
  mk_configured :: bool
  mk_api :: "'s merk_api"
  mk_now :: "'s \<Rightarrow> rat"
  mk_refuse :: "merk_company \<Rightarrow> py_error option"

definition cache_fresh :: "rat \<Rightarrow> merk_company \<Rightarrow> bool" where
  "cache_fresh now row = (case mk_synced_at row of None \<Rightarrow> False | Some t \<Rightarrow> now - t < 30 * 86400)"

section \<open>Upserts\<close>

definition merk_record :: "string \<Rightarrow> string \<Rightarrow> string \<Rightarrow> organization_record" where
  "merk_record i name di =
     \<lparr>or_source = ''merk'', or_name = (if name = [] then i else name), or_ico = Some i,
      or_dic = (if di = [] then None else Some di), or_primary_domain = None, or_id_in_source = Some i,
      or_extra_identities = None\<rparr>"

definition text_upto :: "nat \<Rightarrow> json \<Rightarrow> string \<Rightarrow> (py_error, string) result" where
  "text_upto n v k = andthen (text_of v k) (\<lambda>s. Inr (take n s))"

definition company_row ::
  "string \<Rightarrow> json \<Rightarrow> string \<Rightarrow> string \<Rightarrow> nat option \<Rightarrow> rat \<Rightarrow> (py_error, merk_company) result" where
  "company_row i payload name di org t =
     andthen (text_upto 64 payload ''legal_form'') (\<lambda>legal_form.
     andthen (text_upto 32 payload ''status'') (\<lambda>status.
     andthen (get_either payload ''nace'' ''nace_codes'') (\<lambda>nace.
     andthen (text_upto 32 payload ''employee_count_range'') (\<lambda>employees.
     andthen (text_upto 32 payload ''turnover_range'') (\<lambda>turnover_range.
     andthen (jget payload ''turnover_last'') (\<lambda>turnover.
     andthen (jget payload ''turnover_year'') (\<lambda>turnover_year.
     andthen (jget payload ''profit_last'') (\<lambda>profit.
     andthen (jget payload ''profit_year'') (\<lambda>profit_year.
     andthen (text_upto 16 payload ''rating'') (\<lambda>rating.
     andthen (jget payload ''rating_breakdown'') (\<lambda>breakdown.
     andthen (jget payload ''address'') (\<lambda>address.
     andthen (text_upto 255 payload ''website'') (\<lambda>website.
     andthen (jget payload ''contacts'') (\<lambda>contacts. Inr
       \<lparr>mk_ico = i, mk_source_id = i, mk_synced_at = Some t, mk_payload = payload, mk_organization = org,
        mk_dic = di, mk_name = take 255 name, mk_legal_form = legal_form, mk_status = status,
        mk_nace = or_else nace (JList []), mk_employees = employees, mk_turnover_range = turnover_range,
        mk_turnover = turnover, mk_turnover_year = turnover_year, mk_profit = profit,
        mk_profit_year = profit_year, mk_rating = rating, mk_rating_breakdown = or_else breakdown (JObj []),
        mk_address = or_else address (JObj []), mk_website = website,
        mk_contacts = or_else contacts (JObj [])\<rparr>))))))))))))))"

definition resolve_company :: "organization_record \<Rightarrow> (merk_error, 's merk_db, nat option) eff" where
  "resolve_company r = (\<lambda>db. case hook_resolve_organization r (mk_ids db) of (org, reg) \<Rightarrow> (Inr org, db\<lparr>mk_ids := reg\<rparr>))"

definition save_company :: "'s merk_env \<Rightarrow> merk_company \<Rightarrow> (merk_error, 's merk_db, merk_company) eff" where
  "save_company me row = (\<lambda>db.
     case store (mk_refuse me) mk_ico company_mk company_upd row (mk_rows db) of
       Inl e \<Rightarrow> (Inl (Merk_py e), db)
     | Inr (_, rows) \<Rightarrow> (Inr row, db\<lparr>mk_rows := rows\<rparr>))"

definition merk_clock :: "'s merk_env \<Rightarrow> (merk_error, 's merk_db, rat) eff" where
  "merk_clock me = (\<lambda>db. (Inr (mk_now me (mk_service db)), db))"

definition merk_upsert :: "'s merk_env \<Rightarrow> string \<Rightarrow> json \<Rightarrow> (merk_error, 's merk_db, merk_company) eff" where
  "merk_upsert me i payload =
     chain (lift_result (py (andthen (get_either payload ''name'' ''subject_name'') strip_text))) (\<lambda>name.
     chain (lift_result (py (andthen (get_either payload ''dic'' ''vat_id'') strip_text))) (\<lambda>di.
     chain (resolve_company (merk_record i name di)) (\<lambda>org.
     chain (merk_clock me) (\<lambda>t.
     chain (lift_result (py (company_row i payload name di org t))) (\<lambda>row. save_company me row)))))"

section \<open>The entry points\<close>

definition on_service :: "('s, 'a) merk_call \<Rightarrow> (merk_error, 's merk_db, 'a) eff" where
  "on_service m = (\<lambda>db. case m (mk_service db) of (r, s) \<Rightarrow> (r, db\<lparr>mk_service := s\<rparr>))"

definition enrich :: "'s merk_env \<Rightarrow> string \<Rightarrow> bool \<Rightarrow> (merk_error, 's merk_db, merk_company option) eff" where
  "enrich me i force = (\<lambda>db.
     if i = [] then (Inr None, db)
     else let existing = lookup mk_ico (mk_rows db) i
          in if (case existing of Some row \<Rightarrow> \<not> force \<and> cache_fresh (mk_now me (mk_service db)) row | None \<Rightarrow> False)
             then (Inr existing, db)
             else if \<not> mk_configured me then (Inr existing, db)
             else chain (lift_result (merk_api_key (mk_api me))) (\<lambda>_.
                  chain (on_service (lookup_by_ico (mk_api me) i)) (\<lambda>payload.
                  chain (merk_upsert me i payload) (\<lambda>row. ret (Some row)))) db)"

text \<open>\<open>to_fetch[i : i + 500]\<close> for \<open>i = 0, 500, ...\<close>\<close>

function chunks :: "nat \<Rightarrow> 'a list \<Rightarrow> 'a list list" where
  "chunks n xs = (if n = 0 \<or> xs = [] then [] else take n xs # chunks n (drop n xs))"
  by pat_completeness auto
termination by (relation "measure (\<lambda>(n, xs). length xs)") auto

declare chunks.simps [simp del]

fun upsert_payloads :: "'s merk_env \<Rightarrow> json list \<Rightarrow> (merk_error, 's merk_db, merk_company list) eff" where
  "upsert_payloads me [] = ret []"
| "upsert_payloads me (p # ps) =
     chain (lift_result (py (get_either p ''ico'' ''subject_id''))) (\<lambda>v.
     let i = py_str (or_else v (JStr []))
     in if i = [] then upsert_payloads me ps
        else chain (merk_upsert me i p) (\<lambda>row. chain (upsert_payloads me ps) (\<lambda>rows. ret (row # rows))))"

fun fetch_chunks :: "'s merk_env \<Rightarrow> string list list \<Rightarrow> (merk_error, 's merk_db, merk_company list) eff" where
  "fetch_chunks me [] = ret []"
| "fetch_chunks me (c # cs) =
     chain (on_service (batch_lookup (mk_api me) c)) (\<lambda>payloads.
     chain (upsert_payloads me payloads) (\<lambda>rows.
     chain (fetch_chunks me cs) (\<lambda>later. ret (rows @ later))))"

text \<open>The last loop: cached rows of numbers no result has, each once.\<close>

fun add_cached :: "(string \<Rightarrow> merk_company option) \<Rightarrow> string list \<Rightarrow> merk_company list \<Rightarrow> merk_company list" where
  "add_cached cached [] results = results"
| "add_cached cached (i # is) results =
     add_cached cached is
       (case cached i of
          Some row \<Rightarrow> if i \<notin> mk_ico ` set results then results @ [row] else results
        | None \<Rightarrow> results)"

definition enrich_batch ::
  "'s merk_env \<Rightarrow> string list \<Rightarrow> bool \<Rightarrow> (merk_error, 's merk_db, merk_company list) eff" where
  "enrich_batch me icos force = (\<lambda>db.
     let icos = filter (\<lambda>i. i \<noteq> []) (map str_strip icos)
     in if icos = [] then (Inr [], db)
        else if \<not> mk_configured me then (Inr (filter (\<lambda>r. mk_ico r \<in> set icos) (mk_rows db)), db)
        else let cached = lookup mk_ico (mk_rows db);
                 now = mk_now me (mk_service db);
                 to_fetch = filter (\<lambda>i. case cached i of None \<Rightarrow> True | Some row \<Rightarrow> force \<or> \<not> cache_fresh now row) icos
             in chain (lift_result (merk_api_key (mk_api me))) (\<lambda>_.
                chain (fetch_chunks me (chunks 500 to_fetch)) (\<lambda>results.
                ret (add_cached cached icos results))) db)"

section \<open>What an upsert leaves\<close>

lemma py_iff [simp]: "py r = Inr x \<longleftrightarrow> r = Inr x" "Inr x = py r \<longleftrightarrow> r = Inr x"
  by (auto simp: py_def split: sum.splits)

lemma company_row_fields:
  "company_row i payload name di org t = Inr row \<Longrightarrow>
     mk_ico row = i \<and> mk_synced_at row = Some t \<and> mk_payload row = payload \<and> mk_organization row = org"
  by (auto simp: company_row_def andthen_Inr_iff)

lemma save_company_lookup:
  assumes "save_company me row db = (Inr row', db')"
  shows "row' = row" "mk_service db' = mk_service db"
    and "lookup mk_ico (mk_rows db') = (lookup mk_ico (mk_rows db))(mk_ico row \<mapsto> row)"
proof -
  obtain oc rows where st: "store (mk_refuse me) mk_ico company_mk company_upd row (mk_rows db) = Inr (oc, rows)"
      and db': "row' = row" "db' = db\<lparr>mk_rows := rows\<rparr>"
    using assms by (auto simp: save_company_def split: sum.splits)
  show "row' = row" "mk_service db' = mk_service db" using db' by simp_all
  have "lookup mk_ico rows k = ((lookup mk_ico (mk_rows db))(mk_ico row \<mapsto> row)) k" for k
    using store_Inr[OF st]
    by (auto simp: company_table.lookup_upsert_if company_mk_def company_upd_def dest: lookup_SomeD split: option.split)
  then show "lookup mk_ico (mk_rows db') = (lookup mk_ico (mk_rows db))(mk_ico row \<mapsto> row)"
    using db'(2) by auto
qed

lemma merk_upsert_lookup:
  assumes "merk_upsert me i payload db = (Inr row, db')"
  shows "mk_ico row = i" "mk_synced_at row = Some (mk_now me (mk_service db'))" "mk_payload row = payload"
    and "lookup mk_ico (mk_rows db') = (lookup mk_ico (mk_rows db))(i \<mapsto> row)"
proof -
  obtain name di org db1 where
      row: "company_row i payload name di org (mk_now me (mk_service db1)) = Inr row"
    and save: "save_company me row db1 = (Inr row, db')"
    and db1: "mk_rows db1 = mk_rows db"
  proof -
    from assms obtain name di org db1 row0 where
      "resolve_company (merk_record i name di) db = (Inr org, db1)"
      "company_row i payload name di org (mk_now me (mk_service db1)) = Inr row0"
      "save_company me row0 db1 = (Inr row, db')"
      by (auto simp: merk_upsert_def chain_Inr_iff merk_clock_def)
    moreover from this(3) have "row0 = row" using save_company_lookup(1) by blast
    ultimately show thesis
      by (intro that[of name di org db1]) (auto simp: resolve_company_def split: prod.splits)
  qed
  note f = company_row_fields[OF row] and s = save_company_lookup[OF save]
  show "mk_ico row = i" "mk_synced_at row = Some (mk_now me (mk_service db'))" "mk_payload row = payload"
    "lookup mk_ico (mk_rows db') = (lookup mk_ico (mk_rows db))(i \<mapsto> row)"
    using f s db1 by auto
qed

text \<open>The batches: all numbers, in order, at most 500 at a time, none empty.\<close>

lemma chunks_concat: "0 < n \<Longrightarrow> concat (chunks n xs) = xs"
  by (induction n xs rule: chunks.induct) (subst chunks.simps, auto)

lemma chunks_length: "c \<in> set (chunks n xs) \<Longrightarrow> 0 < length c \<and> length c \<le> n"
proof (induction n xs rule: chunks.induct)
  case (1 n xs)
  then show ?case by (subst (asm) (2) chunks.simps) (auto split: if_splits)
qed

lemma add_cached_keeps: "set results \<subseteq> set (add_cached cached is results)"
proof (induction "is" arbitrary: results)
  case (Cons i "is")
  have "set results \<subseteq> set (case cached i of
      Some row \<Rightarrow> if i \<notin> mk_ico ` set results then results @ [row] else results | None \<Rightarrow> results)"
    by (auto split: option.split)
  with Cons show ?case unfolding add_cached.simps by blast
qed simp

text \<open>No number with a row is missing from the result of a batch.\<close>

lemma add_cached_all:
  assumes "i \<in> set is" "cached i = Some row" "\<And>k r. cached k = Some r \<Longrightarrow> mk_ico r = k"
  shows "i \<in> mk_ico ` set (add_cached cached is results)"
  using assms(1)
proof (induction "is" arbitrary: results)
  case (Cons k ks)
  show ?case
  proof (cases "k = i")
    case True
    let ?rs = "if i \<notin> mk_ico ` set results then results @ [row] else results"
    have "i \<in> mk_ico ` set ?rs" using assms(3)[OF assms(2)] by auto
    moreover have "mk_ico ` set ?rs \<subseteq> mk_ico ` set (add_cached cached ks ?rs)"
      by (rule image_mono[OF add_cached_keeps])
    moreover have "add_cached cached (k # ks) results = add_cached cached ks ?rs"
      unfolding add_cached.simps True assms(2) option.case by (rule refl)
    ultimately show ?thesis by (simp only:) blast
  next
    case False
    with Cons show ?thesis by simp
  qed
qed simp

section \<open>The cache\<close>

text \<open>
  C35. A company that \<open>enrich\<close> returns is the row of the asked number, stored in the table, all other rows
  as they were. If the integration is configured the row is less than 30 days old. A fresh row is returned
  without a call, without force, leaving everything as it is; otherwise the row holds the payload just fetched and the
  instant of the fetch, or, with no integration, is whatever row there was.
\<close>

theorem enrich_cache:
  assumes "enrich me i force db = (Inr (Some row), db')"
  shows "mk_ico row = i \<and> lookup mk_ico (mk_rows db') = (lookup mk_ico (mk_rows db))(i \<mapsto> row)
    \<and> (mk_configured me \<longrightarrow> cache_fresh (mk_now me (mk_service db')) row)
    \<and> (if (\<exists>r. lookup mk_ico (mk_rows db) i = Some r \<and> \<not> force \<and> cache_fresh (mk_now me (mk_service db)) r)
           \<or> \<not> mk_configured me
       then db' = db
       else (\<exists>s. fst (lookup_by_ico (mk_api me) i s) = Inr (mk_payload row))
            \<and> mk_synced_at row = Some (mk_now me (mk_service db')))"
proof -
  let ?hit = "\<exists>r. lookup mk_ico (mk_rows db) i = Some r \<and> \<not> force \<and> cache_fresh (mk_now me (mk_service db)) r"
  have ne: "i \<noteq> []" using assms by (auto simp: enrich_def)
  show ?thesis
  proof (cases "?hit \<or> \<not> mk_configured me")
    case True
    then have "lookup mk_ico (mk_rows db) i = Some row" "db' = db"
      using assms ne by (auto simp: enrich_def Let_def split: option.splits if_splits)
    moreover from this have "mk_ico row = i" using lookup_SomeD by metis
    moreover from True calculation(1) have "mk_configured me \<longrightarrow> cache_fresh (mk_now me (mk_service db)) row" by auto
    ultimately show ?thesis using True by auto
  next
    case False
    then have "chain (lift_result (merk_api_key (mk_api me))) (\<lambda>_.
        chain (on_service (lookup_by_ico (mk_api me) i)) (\<lambda>payload.
        chain (merk_upsert me i payload) (\<lambda>row. ret (Some row)))) db = (Inr (Some row), db')"
      using assms ne by (auto simp: enrich_def Let_def split: option.splits if_splits)
    then obtain payload db1 where get: "on_service (lookup_by_ico (mk_api me) i) db = (Inr payload, db1)"
      and up: "merk_upsert me i payload db1 = (Inr row, db')"
      by (auto simp: chain_Inr_iff)
    have rows: "mk_rows db1 = mk_rows db" "fst (lookup_by_ico (mk_api me) i (mk_service db)) = Inr payload"
      using get by (auto simp: on_service_def split: prod.splits)
    note u = merk_upsert_lookup[OF up]
    have "cache_fresh (mk_now me (mk_service db')) row" using u(2) by (simp add: cache_fresh_def)
    then show ?thesis using False rows u by auto
  qed
qed

definition sample_merk :: "nat merk_env" where
  "sample_merk =
     \<lparr>mk_configured = True,
      mk_api = \<lparr>mk_tokens = Some [(''api_key'', JStr ''k'')],
        mk_send = (\<lambda>path arg n. (Inr (\<lparr>status_code = 200, body = JObj [(''name'', JStr '' Firma '')]\<rparr>, None), Suc n)),
        mk_rand = (\<lambda>_. 0)\<rparr>,
      mk_now = rat_of_nat, mk_refuse = (\<lambda>_. None)\<rparr>"

definition sample_merk_db :: "nat merk_db" where
  "sample_merk_db = \<lparr>mk_ids = empty_registry, mk_rows = [], mk_service = 0\<rparr>"

lemma sample_enrich:
  "case fst (enrich sample_merk ''123'' False sample_merk_db) of Inr (Some row) \<Rightarrow> True | _ \<Rightarrow> False"
  by code_simp

theorem enrich_cache_witness:
  "\<exists>row. fst (enrich sample_merk ''123'' False sample_merk_db) = Inr (Some row) \<and> mk_ico row = ''123''
     \<and> cache_fresh (mk_now sample_merk (mk_service (snd (enrich sample_merk ''123'' False sample_merk_db)))) row"
proof -
  obtain row where "fst (enrich sample_merk ''123'' False sample_merk_db) = Inr (Some row)"
    using sample_enrich by (auto split: sum.splits option.splits)
  then have run: "enrich sample_merk ''123'' False sample_merk_db =
      (Inr (Some row), snd (enrich sample_merk ''123'' False sample_merk_db))"
    by (metis prod.collapse)
  have "mk_configured sample_merk" by (simp add: sample_merk_def)
  with enrich_cache[OF run] run show ?thesis by (metis fst_conv)
qed

end
