(* ===== verification/Snapshot.thy ===== *)
theory Snapshot
  imports Connector Calls "HOL-Library.AList"
begin

text \<open>
  The snapshot syncs. Every connector has a \<open>sync.py\<close> whose \<open>run_sync(days)\<close> reads an upstream
  system, reduces what it read to a metrics dict and adds one \<open>DataSnapshot\<close> row. This theory holds
  what the modules have in common: the Python idioms of the summaries (counters, \<open>defaultdict\<close>, \<open>round\<close>, dict literals);
  the two tables; and the skeleton of \<open>run_sync\<close>. The modules' own summaries and calls
  are in the theories \<open>CrmSync\<close>, \<open>WorkSync\<close>, \<open>MarketingSync\<close> and \<open>OfficeSync\<close>.

  Floats are exact rationals: sums and quotients are not rounded, and \<open>round(x, n)\<close> rounds the exact
  value, half to even. A float computed here carries an empty \<open>repr\<close>, which nothing reads.
\<close>

section \<open>Idioms of the summaries\<close>

text \<open>\<open>counter[k] += 1\<close>; the dict keeps the order of first occurrence.\<close>

definition bump :: "'k \<Rightarrow> ('k \<times> nat) list \<Rightarrow> ('k \<times> nat) list" where
  "bump k = AList.map_default k 1 Suc"

definition count_of :: "('k \<times> nat) list \<Rightarrow> 'k \<Rightarrow> nat" where
  "count_of c k = (case map_of c k of None \<Rightarrow> 0 | Some n \<Rightarrow> n)"

definition jnat :: "nat \<Rightarrow> json" where
  "jnat n = JInt (int n)"

definition jfloat :: "rat \<Rightarrow> json" where
  "jfloat q = JFloat q []"

definition jcounter :: "(string \<times> nat) list \<Rightarrow> json" where
  "jcounter c = JObj (map (\<lambda>(k, n). (k, jnat n)) c)"

text \<open>\<open>v.get(k) or d\<close>\<close>

definition get_or :: "json \<Rightarrow> string \<Rightarrow> json \<Rightarrow> (py_error, json) result" where
  "get_or v k d = andthen (jget v k) (\<lambda>x. Inr (or_else x d))"

text \<open>\<open>{"a": v.get("b"), ...}\<close> for the pairs \<open>(a, b)\<close>.\<close>

definition pick :: "(string \<times> string) list \<Rightarrow> json \<Rightarrow> (py_error, json) result" where
  "pick names v =
     andthen (map_result (\<lambda>(a, b). andthen (jget v b) (\<lambda>x. Inr (a, x))) names) (\<lambda>kvs. Inr (JObj kvs))"

text \<open>\<open>{"data": d, "ok": True}\<close>\<close>

definition ok_data :: "json \<Rightarrow> json" where
  "ok_data d = JObj [(''data'', d), (''ok'', JBool True)]"

text \<open>\<open>round(x, n)\<close>: to the nearest multiple of \<open>10 ^ -n\<close>, the even one of two.\<close>

definition py_round :: "nat \<Rightarrow> rat \<Rightarrow> rat" where
  "py_round n q = of_int (round_half_even (q * 10 ^ n)) / 10 ^ n"

lemma count_of_Nil [simp]: "count_of [] k = 0"
  by (simp add: count_of_def)

lemma count_of_bump: "count_of (bump k c) k' = count_of c k' + (if k' = k then 1 else 0)"
  by (auto simp: count_of_def bump_def map_of_map_default split: option.split)

lemma distinct_bump: "distinct (map fst c) \<Longrightarrow> distinct (map fst (bump k c))"
  by (simp add: bump_def distinct_map_default)

lemma sum_bump: "sum_list (map snd (bump k c)) = Suc (sum_list (map snd c))"
  unfolding bump_def by (induction c) auto

lemma count_of_jcounter: "or_else (dict_get (map (\<lambda>(k, n). (k, jnat n)) c) k) (JInt 0) = jnat (count_of c k)"
  by (induction c) (auto simp: dict_get_def count_of_def or_else_def jnat_def)

lemma py_round_mono: "q \<le> q' \<Longrightarrow> py_round n q \<le> py_round n q'"
  by (simp add: py_round_def divide_right_mono round_half_even_mono mult_right_mono)

lemma py_round_0 [simp]: "py_round n 0 = 0"
  using round_half_even_int[of 0] by (simp add: py_round_def)

lemma py_round_1 [simp]: "py_round n 1 = 1"
  using round_half_even_int[of "10 ^ n"] by (simp add: py_round_def)

lemma py_round_error: "\<bar>py_round n q - q\<bar> \<le> 1 / (2 * 10 ^ n)"
proof -
  have "py_round n q - q = (of_int (round_half_even (q * 10 ^ n)) - q * 10 ^ n) / 10 ^ n"
    by (simp add: py_round_def diff_divide_distrib)
  moreover have "\<bar>of_int (round_half_even (q * 10 ^ n)) - q * 10 ^ n\<bar> / 10 ^ n \<le> (1 / 2) / (10 ^ n :: rat)"
    by (rule divide_right_mono[OF round_half_even_bounds]) simp
  ultimately show ?thesis by (simp add: abs_divide)
qed

section \<open>Rows and the skeleton of \<open>run_sync\<close>\<close>

text \<open>A date is a day number, 0 for 1970-01-01; an instant is seconds since then, in UTC.\<close>

record data_snapshot =
  snap_id :: nat
  snap_source :: string
  snap_period_start :: int
  snap_period_end :: int
  snap_metrics :: json
  snap_created_at :: rat

text \<open>
  The tables and the world outside them. The database takes its time: the row with key \<open>k\<close> is inserted
  \<open>until_insert k\<close> seconds after the last call has ended, and the clock is read again \<open>insert_time k\<close> seconds later.
\<close>

record 'c snap_world =
  integrations :: "integration list"
  snapshots :: "data_snapshot list"
  service :: 'c
  until_insert :: "nat \<Rightarrow> rat"
  insert_time :: "nat \<Rightarrow> rat"

definition day_of :: "rat \<Rightarrow> int" where
  "day_of t = \<lfloor>t / 86400\<rfloor>"

text \<open>\<open>date - timedelta(days=days)\<close>: the dates run from 0001-01-01 to 9999-12-31.\<close>

definition minus_days :: "int \<Rightarrow> int \<Rightarrow> (py_error, int) result" where
  "minus_days d days =
     (if 999999999 < \<bar>days\<bar> \<or> d - days < - 719162 \<or> 2932896 < d - days
      then Inl (OtherError ''OverflowError'') else Inr (d - days))"

text \<open>\<open>Integration.objects.filter(provider=source, is_active=True).first()\<close>\<close>

definition active_integration :: "string \<Rightarrow> integration list \<Rightarrow> integration option" where
  "active_integration source rows = find (\<lambda>i. integration_provider i = source \<and> is_active i) rows"

text \<open>\<open>integration.save(update_fields=["last_sync_at"])\<close>\<close>

definition stamp_sync :: "nat \<Rightarrow> rat \<Rightarrow> integration list \<Rightarrow> integration list" where
  "stamp_sync k t rows = map (\<lambda>i. if integration_id i = k then i\<lparr>last_sync_at := Some t\<rparr> else i) rows"

text \<open>
  The skeleton. \<open>gather\<close> opens the client, makes the calls and computes the metrics dict; it returns
  \<open>None\<close> where the source's \<open>except\<close> returns \<open>None\<close>. \<open>tnow\<close> is \<open>timezone.now()\<close>, a reading of the world.
\<close>

definition run_snapshot ::
  "string \<Rightarrow> ('c \<Rightarrow> rat) \<Rightarrow> int \<Rightarrow> (integration \<Rightarrow> ('c, json option) call) \<Rightarrow> 'c snap_world
     \<Rightarrow> (py_error, data_snapshot option) result \<times> 'c snap_world" where
  "run_snapshot source tnow days gather w =
     (case active_integration source (integrations w) of
        None \<Rightarrow> (Inr None, w)
      | Some i \<Rightarrow>
          (let period_end = day_of (tnow (service w))
           in case minus_days period_end days of
                Inl e \<Rightarrow> (Inl e, w)
              | Inr period_start \<Rightarrow>
                  (case gather i (service w) of
                     (Inl e, c) \<Rightarrow> (Inl e, w\<lparr>service := c\<rparr>)
                   | (Inr None, c) \<Rightarrow> (Inr None, w\<lparr>service := c\<rparr>)
                   | (Inr (Some metrics), c) \<Rightarrow>
                       (let k = fresh_id snap_id (snapshots w);
                            snap = \<lparr>snap_id = k, snap_source = source,
                              snap_period_start = period_start, snap_period_end = period_end,
                              snap_metrics = metrics, snap_created_at = tnow c + until_insert w k\<rparr>
                        in (Inr (Some snap), w\<lparr>service := c, snapshots := snapshots w @ [snap],
                              integrations := stamp_sync (integration_id i) (snap_created_at snap + insert_time w k)
                                (integrations w)\<rparr>)))))"

text \<open>The metrics of what the calls returned, if they returned.\<close>

definition then_metrics :: "('c, 'd option) call \<Rightarrow> ('d \<Rightarrow> (py_error, json) result) \<Rightarrow> ('c, json option) call" where
  "then_metrics m f =
     chain m (\<lambda>r. case r of None \<Rightarrow> ret None | Some d \<Rightarrow> chain (lift_result (f d)) (\<lambda>x. ret (Some x)))"

lemma then_metrics_Some:
  "then_metrics m f c = (Inr (Some x), c') \<longleftrightarrow> (\<exists>d. m c = (Inr (Some d), c') \<and> f d = Inr x)"
  by (auto simp: then_metrics_def chain_Inr_iff split: option.splits)

section \<open>The contract\<close>

text \<open>
  What a \<open>run_sync\<close> promises: either it adds one row, for its own source and the asked period, and
  stamps the integration with the instant read after that row was inserted, or it leaves both tables alone.
\<close>

definition snapshot_contract ::
  "string \<Rightarrow> ('c \<Rightarrow> rat) \<Rightarrow> int \<Rightarrow> (py_error, data_snapshot option) result \<Rightarrow> 'c snap_world \<Rightarrow> 'c snap_world \<Rightarrow> bool" where
  "snapshot_contract source tnow days r w w' \<longleftrightarrow>
     (case r of
        Inr (Some snap) \<Rightarrow>
          (\<exists>i. active_integration source (integrations w) = Some i
             \<and> snapshots w' = snapshots w @ [snap] \<and> snap_source snap = source
             \<and> snap_id snap \<notin> snap_id ` set (snapshots w)
             \<and> snap_period_end snap = day_of (tnow (service w))
             \<and> snap_period_start snap = snap_period_end snap - days
             \<and> snap_created_at snap = tnow (service w') + until_insert w (snap_id snap)
             \<and> integrations w' = stamp_sync (integration_id i) (snap_created_at snap + insert_time w (snap_id snap)) (integrations w))
      | _ \<Rightarrow> snapshots w' = snapshots w \<and> integrations w' = integrations w)
     \<and> insert_time w' = insert_time w"

lemma run_snapshot_contract:
  "run_snapshot source tnow days gather w = (r, w') \<Longrightarrow> snapshot_contract source tnow days r w w'"
  by (auto simp: run_snapshot_def snapshot_contract_def minus_days_def Let_def
      dest: fresh_id_gt[where pk = snap_id] split: option.splits prod.splits sum.splits if_splits)

lemma run_snapshot_Some:
  assumes "run_snapshot source tnow days gather w = (Inr (Some snap), w')"
  obtains i where "active_integration source (integrations w) = Some i"
    "gather i (service w) = (Inr (Some (snap_metrics snap)), service w')"
    "snapshots w' = snapshots w @ [snap]" "snap_source snap = source"
    "snap_period_end snap = day_of (tnow (service w))"
  using assms
  by (auto simp: run_snapshot_def Let_def split: option.splits prod.splits sum.splits)

end
