(* ===== verification/CrmSync.thy ===== *)
theory CrmSync
  imports Snapshot
begin

text \<open>
  The snapshot syncs of the four CRM connectors: \<open>sync.py\<close> of \<open>pipedrive\<close>, \<open>hubspot\<close>, \<open>salesforce\<close>
  and \<open>raynet\<close>. Each reduces the deals it fetched to counts and sums. The client's calls are a
  parameter, one record per connector; the calls have the arguments the sync gives them.
\<close>

section \<open>The local variables of the four loops\<close>

text \<open>\<open>by_stage\<close> is keyed by \<open>'k\<close>, the stage number of Pipedrive or the stage name.\<close>

record 'k deal_sums =
  ds_status :: "(string \<times> nat) list"
  ds_stage :: "('k \<times> nat \<times> rat) list"
  ds_total :: rat
  ds_won :: rat
  ds_open :: nat

definition no_deals :: "'k deal_sums" where
  "no_deals = \<lparr>ds_status = [], ds_stage = [], ds_total = 0, ds_won = 0, ds_open = 0\<rparr>"

text \<open>\<open>bucket["count"] += 1; bucket["value"] += value\<close> of a \<open>defaultdict\<close>.\<close>

definition add_to_bucket :: "'k \<Rightarrow> rat \<Rightarrow> ('k \<times> nat \<times> rat) list \<Rightarrow> ('k \<times> nat \<times> rat) list" where
  "add_to_bucket k value = AList.map_default k (1, value) (\<lambda>(n, v). (n + 1, v + value))"

definition count_deal ::
  "string \<Rightarrow> string \<Rightarrow> string \<Rightarrow> 'k option \<Rightarrow> rat \<Rightarrow> 'k deal_sums \<Rightarrow> 'k deal_sums" where
  "count_deal won_word open_word status stage value s =
     \<lparr>ds_status = bump status (ds_status s),
      ds_stage = (case stage of None \<Rightarrow> ds_stage s | Some k \<Rightarrow> add_to_bucket k value (ds_stage s)),
      ds_total = ds_total s + value,
      ds_won = (if status = won_word then ds_won s + value else ds_won s),
      ds_open = (if status = open_word then ds_open s + 1 else ds_open s)\<rparr>"

text \<open>
  One turn of a loop: what a deal is read as, its status, its stage and its value, and the update of
  the sums.
\<close>

definition loop_body ::
  "string \<Rightarrow> string \<Rightarrow> ('d \<Rightarrow> (py_error, string \<times> 'k option \<times> rat) result) \<Rightarrow> 'd \<Rightarrow> 'k deal_sums
     \<Rightarrow> (py_error, 'k deal_sums) result" where
  "loop_body won_word open_word view d s =
     andthen (view d) (\<lambda>(status, stage, value). Inr (count_deal won_word open_word status stage value s))"

definition jbucket :: "string \<Rightarrow> (rat \<Rightarrow> rat) \<Rightarrow> nat \<times> rat \<Rightarrow> json" where
  "jbucket name f b = JObj [(''count'', jnat (fst b)), (name, jfloat (f (snd b)))]"

section \<open>Pipedrive\<close>

definition pipedrive_deal :: "json \<Rightarrow> (py_error, string \<times> int option \<times> rat) result" where
  "pipedrive_deal d =
     andthen (get_or d ''status'' (JStr ''open'')) (\<lambda>status.
     andthen (jget d ''stage_id'') (\<lambda>stage_id.
     andthen (get_or d ''value'' (JInt 0)) (\<lambda>v.
     andthen (py_float v) (\<lambda>value.
     andthen (if stage_id = JNull then Inr None else andthen (py_int stage_id) (\<lambda>k. Inr (Some k))) (\<lambda>stage.
     Inr (py_str status, stage, value))))))"

definition summarise_deals_pipedrive :: "json list \<Rightarrow> (py_error, json) result" where
  "summarise_deals_pipedrive deals =
     andthen (fold_result (loop_body ''won'' ''open'' pipedrive_deal) deals no_deals) (\<lambda>s. Inr (JObj
       [(''total'', jnat (length deals)),
        (''open'', jnat (ds_open s)),
        (''by_status'', jcounter (ds_status s)),
        (''by_stage'', JObj (map (\<lambda>(k, b). (show_int k, jbucket ''value'' id b)) (ds_stage s))),
        (''total_value'', jfloat (py_round 2 (ds_total s))),
        (''won_value'', jfloat (py_round 2 (ds_won s)))]))"

definition pipedrive_activity :: "json \<Rightarrow> (string \<times> nat) list \<times> nat \<Rightarrow> (py_error, (string \<times> nat) list \<times> nat) result" where
  "pipedrive_activity a = (\<lambda>(types, finished).
     andthen (get_or a ''type'' (JStr ''unknown'')) (\<lambda>t.
     andthen (jget a ''done'') (\<lambda>d.
     Inr (bump (py_str t) types, if truth d then finished + 1 else finished))))"

definition summarise_activities :: "json list \<Rightarrow> (py_error, json) result" where
  "summarise_activities activities =
     andthen (fold_result pipedrive_activity activities ([], 0)) (\<lambda>(types, finished). Inr (JObj
       [(''total'', jnat (length activities)),
        (''done'', jnat finished),
        (''open'', jnat (length activities - finished)),
        (''by_type'', jcounter types)]))"

record 'c pipedrive_calls =
  pc_open :: "integration \<Rightarrow> ('c, unit) call"
  pc_pipelines :: "('c, json list) call"
  pc_stages :: "('c, json list) call"
  pc_deals :: "('c, json list) call"
  pc_persons :: "('c, json list) call"
  pc_activities :: "int \<Rightarrow> ('c, json list) call"

definition pipedrive_metrics ::
  "json list \<times> json list \<times> json list \<times> json list \<times> json list \<Rightarrow> (py_error, json) result" where
  "pipedrive_metrics = (\<lambda>(pipelines, stages, deals, persons, activities).
     andthen (map_result (pick [(''id'', ''id''), (''name'', ''name'')]) pipelines) (\<lambda>ps.
     andthen (map_result (pick [(''id'', ''id''), (''name'', ''name''), (''pipeline_id'', ''pipeline_id'')]) stages) (\<lambda>ss.
     andthen (summarise_deals_pipedrive deals) (\<lambda>ds.
     andthen (summarise_activities activities) (\<lambda>as. Inr (JObj
       [(''pipelines'', ok_data (JList ps)),
        (''stages'', ok_data (JList ss)),
        (''deals'', ok_data ds),
        (''persons'', ok_data (JObj [(''total'', jnat (length persons))])),
        (''activities'', ok_data as)]))))))"

definition run_sync_pipedrive ::
  "'c pipedrive_calls \<Rightarrow> ('c \<Rightarrow> rat) \<Rightarrow> int \<Rightarrow> 'c snap_world \<Rightarrow> (py_error, data_snapshot option) result \<times> 'c snap_world" where
  "run_sync_pipedrive api tnow days =
     run_snapshot ''pipedrive'' tnow days (\<lambda>i.
       chain (pc_open api i) (\<lambda>_.
       then_metrics
         (attempt
           (chain (pc_pipelines api) (\<lambda>pipelines.
            chain (pc_stages api) (\<lambda>stages.
            chain (pc_deals api) (\<lambda>deals.
            chain (pc_persons api) (\<lambda>persons.
            chain (pc_activities api (max days 30)) (\<lambda>activities.
            ret (pipelines, stages, deals, persons, activities))))))))
         pipedrive_metrics))"

section \<open>HubSpot\<close>

text \<open>\<open>str(props.get(k, "false")).lower() == "true"\<close>: \<open>None\<close> only stands for a key that is absent.\<close>

fun jget_default :: "json \<Rightarrow> string \<Rightarrow> json \<Rightarrow> (py_error, json) result" where
  "jget_default (JObj kvs) k d = Inr (case map_of kvs k of Some v \<Rightarrow> v | None \<Rightarrow> d)"
| "jget_default _ k d = Inl AttributeError"

definition hubspot_flag :: "json \<Rightarrow> string \<Rightarrow> (py_error, bool) result" where
  "hubspot_flag props k =
     andthen (jget_default props k (JStr ''false'')) (\<lambda>v. Inr (str_lower (py_str v) = ''true''))"

definition hubspot_deal :: "json \<Rightarrow> (py_error, string \<times> string option \<times> rat) result" where
  "hubspot_deal d =
     andthen (get_or d ''properties'' (JObj [])) (\<lambda>props.
     andthen (get_or props ''dealstage'' (JStr ''unknown'')) (\<lambda>stage.
     andthen (get_or props ''amount'' (JInt 0)) (\<lambda>v.
     andthen (py_float v) (\<lambda>amount.
     andthen (hubspot_flag props ''hs_is_closed'') (\<lambda>is_closed.
     andthen (hubspot_flag props ''hs_is_closed_won'') (\<lambda>is_won.
     Inr (if is_won then ''won'' else if is_closed then ''lost'' else ''open'', Some (py_str stage), amount)))))))"

text \<open>What HubSpot and Salesforce return.\<close>

definition amount_summary :: "nat \<Rightarrow> string deal_sums \<Rightarrow> json" where
  "amount_summary n s = JObj
     [(''total'', jnat n),
      (''open'', jnat (ds_open s)),
      (''by_status'', jcounter (ds_status s)),
      (''by_stage'', JObj (map (\<lambda>(k, b). (k, jbucket ''amount'' (py_round 2) b)) (ds_stage s))),
      (''total_amount'', jfloat (py_round 2 (ds_total s))),
      (''won_amount'', jfloat (py_round 2 (ds_won s)))]"

definition summarise_deals_hubspot :: "json list \<Rightarrow> (py_error, json) result" where
  "summarise_deals_hubspot deals =
     andthen (fold_result (loop_body ''won'' ''open'' hubspot_deal) deals no_deals) (\<lambda>s. Inr (amount_summary (length deals) s))"

record 'c hubspot_calls =
  hc_open :: "integration \<Rightarrow> ('c, unit) call"
  hc_pipelines :: "('c, json list) call"
  hc_deals :: "('c, json list) call"
  hc_contacts :: "nat \<Rightarrow> ('c, json list) call"
  hc_companies :: "nat \<Rightarrow> ('c, json list) call"

definition hubspot_pipeline :: "json \<Rightarrow> (py_error, json) result" where
  "hubspot_pipeline p =
     andthen (jget p ''id'') (\<lambda>i.
     andthen (jget p ''label'') (\<lambda>label.
     andthen (get_or p ''stages'' (JList [])) (\<lambda>v.
     andthen (jiter v) (\<lambda>stages.
     andthen (map_result (pick [(''id'', ''id''), (''label'', ''label'')]) stages) (\<lambda>ss.
     Inr (JObj [(''id'', i), (''label'', label), (''stages'', JList ss)]))))))"

definition hubspot_metrics :: "json list \<times> json list \<times> nat \<times> nat \<Rightarrow> (py_error, json) result" where
  "hubspot_metrics = (\<lambda>(pipelines, deals, contacts_n, companies_n).
     andthen (map_result hubspot_pipeline pipelines) (\<lambda>ps.
     andthen (summarise_deals_hubspot deals) (\<lambda>ds. Inr (JObj
       [(''pipelines'', ok_data (JList ps)),
        (''deals'', ok_data ds),
        (''contacts'', ok_data (JObj [(''sample_count'', jnat contacts_n)])),
        (''companies'', ok_data (JObj [(''sample_count'', jnat companies_n)]))]))))"

definition run_sync_hubspot ::
  "'c hubspot_calls \<Rightarrow> ('c \<Rightarrow> rat) \<Rightarrow> int \<Rightarrow> 'c snap_world \<Rightarrow> (py_error, data_snapshot option) result \<times> 'c snap_world" where
  "run_sync_hubspot api tnow days =
     run_snapshot ''hubspot'' tnow days (\<lambda>i.
       chain (hc_open api i) (\<lambda>_.
       then_metrics
         (attempt
           (chain (hc_pipelines api) (\<lambda>pipelines.
            chain (hc_deals api) (\<lambda>deals.
            chain (hc_contacts api 100) (\<lambda>contacts.
            chain (hc_companies api 100) (\<lambda>companies.
            ret (pipelines, deals, length contacts, length companies)))))))
         hubspot_metrics))"

section \<open>Salesforce\<close>

definition salesforce_opp :: "json \<Rightarrow> (py_error, string \<times> string option \<times> rat) result" where
  "salesforce_opp opp =
     andthen (get_or opp ''StageName'' (JStr ''Unknown'')) (\<lambda>stage.
     andthen (get_or opp ''Amount'' (JInt 0)) (\<lambda>v.
     andthen (py_float v) (\<lambda>amount.
     andthen (jget opp ''IsWon'') (\<lambda>is_won.
     andthen (jget opp ''IsClosed'') (\<lambda>is_closed.
     Inr (if truth is_won then ''won'' else if truth is_closed then ''lost'' else ''open'',
          Some (py_str stage), amount))))))"

definition summarise_opps :: "json list \<Rightarrow> (py_error, json) result" where
  "summarise_opps opps =
     andthen (fold_result (loop_body ''won'' ''open'' salesforce_opp) opps no_deals) (\<lambda>s. Inr (amount_summary (length opps) s))"

record 'c salesforce_calls =
  sc_open :: "integration \<Rightarrow> ('c, unit) call"
  sc_accounts :: "nat \<Rightarrow> ('c, json) call"
  sc_opportunities :: "nat \<Rightarrow> ('c, json) call"
  sc_leads :: "nat \<Rightarrow> ('c, json) call"
  sc_users :: "nat \<Rightarrow> ('c, json) call"

text \<open>\<open>{"data": {"total": int(v.get(k) or 0)}, "ok": True}\<close>\<close>

definition total_of :: "json \<Rightarrow> string \<Rightarrow> (py_error, json) result" where
  "total_of v k =
     andthen (get_or v k (JInt 0)) (\<lambda>x. andthen (py_int x) (\<lambda>n. Inr (ok_data (JObj [(''total'', JInt n)]))))"

definition salesforce_metrics :: "json \<times> json \<times> json \<times> json \<Rightarrow> (py_error, json) result" where
  "salesforce_metrics = (\<lambda>(accounts, opps, leads, users).
     andthen (get_or opps ''records'' (JList [])) (\<lambda>v.
     andthen (jiter v) (\<lambda>opp_records.
     andthen (total_of accounts ''totalSize'') (\<lambda>a.
     andthen (summarise_opps opp_records) (\<lambda>os.
     andthen (total_of leads ''totalSize'') (\<lambda>l.
     andthen (total_of users ''totalSize'') (\<lambda>u. Inr (JObj
       [(''accounts'', a), (''opportunities'', ok_data os), (''leads'', l), (''users'', u)]))))))))"

definition run_sync_salesforce ::
  "'c salesforce_calls \<Rightarrow> ('c \<Rightarrow> rat) \<Rightarrow> int \<Rightarrow> 'c snap_world \<Rightarrow> (py_error, data_snapshot option) result \<times> 'c snap_world" where
  "run_sync_salesforce api tnow days =
     run_snapshot ''salesforce'' tnow days (\<lambda>i.
       chain (sc_open api i) (\<lambda>_.
       then_metrics
         (attempt
           (chain (sc_accounts api 1) (\<lambda>accounts.
            chain (sc_opportunities api 2000) (\<lambda>opps.
            chain (sc_leads api 1) (\<lambda>leads.
            chain (sc_users api 1) (\<lambda>users.
            ret (accounts, opps, leads, users)))))))
         salesforce_metrics))"

section \<open>Raynet\<close>

definition raynet_case :: "json \<Rightarrow> (py_error, string \<times> string option \<times> rat) result" where
  "raynet_case it =
     andthen (get_or it ''state'' (JStr ''OPEN'')) (\<lambda>state.
     andthen (get_or it ''priceMain'' (JInt 0)) (\<lambda>v.
     andthen (py_float v) (\<lambda>value.
     Inr (py_str state, None, value))))"

definition summarise_business_cases :: "json list \<Rightarrow> (py_error, json) result" where
  "summarise_business_cases items =
     andthen (fold_result (loop_body ''WON'' ''OPEN'' raynet_case) items no_deals) (\<lambda>s. Inr (JObj
       [(''total'', jnat (length items)),
        (''open'', jnat (ds_open s)),
        (''by_state'', jcounter (ds_status s)),
        (''total_value'', jfloat (py_round 2 (ds_total s))),
        (''won_value'', jfloat (py_round 2 (ds_won s)))]))"

record 'c raynet_calls =
  rc_open :: "integration \<Rightarrow> ('c, unit) call"
  rc_companies :: "nat \<Rightarrow> ('c, json) call"
  rc_leads :: "nat \<Rightarrow> ('c, json) call"
  rc_business_cases :: "nat \<Rightarrow> ('c, json) call"
  rc_invoices :: "nat \<Rightarrow> ('c, json) call"

text \<open>\<open>len(v)\<close>\<close>

fun jlen :: "json \<Rightarrow> (py_error, nat) result" where
  "jlen (JList xs) = Inr (length xs)"
| "jlen (JObj kvs) = Inr (length kvs)"
| "jlen (JStr s) = Inr (length s)"
| "jlen _ = Inl TypeError"

text \<open>The integer a value is, if \<open>isinstance(v, int)\<close>: a boolean is one.\<close>

fun as_number :: "json \<Rightarrow> int option" where
  "as_number (JInt i) = Some i"
| "as_number (JBool b) = Some (if b then 1 else 0)"
| "as_number _ = None"

definition raynet_metrics :: "json \<times> json \<times> json \<times> json \<Rightarrow> (py_error, json) result" where
  "raynet_metrics = (\<lambda>(companies, leads, cases_resp, invoices_resp).
     andthen (get_or cases_resp ''data'' (JList [])) (\<lambda>cases_data.
     andthen (get_or invoices_resp ''data'' (JList [])) (\<lambda>invoices_data.
     andthen (total_of companies ''totalCount'') (\<lambda>c.
     andthen (total_of leads ''totalCount'') (\<lambda>l.
     andthen (jiter cases_data) (\<lambda>cases.
     andthen (summarise_business_cases cases) (\<lambda>bs.
     andthen (jlen invoices_data) (\<lambda>n. Inr (JObj
       [(''companies'', c), (''leads'', l), (''business_cases'', ok_data bs),
        (''invoices'', ok_data (JObj [(''total'', jnat n)]))])))))))))"

definition run_sync_raynet ::
  "'c raynet_calls \<Rightarrow> ('c \<Rightarrow> rat) \<Rightarrow> int \<Rightarrow> 'c snap_world \<Rightarrow> (py_error, data_snapshot option) result \<times> 'c snap_world" where
  "run_sync_raynet api tnow days =
     run_snapshot ''raynet'' tnow days (\<lambda>i.
       chain (rc_open api i) (\<lambda>_.
       then_metrics
         (attempt
           (chain (rc_companies api 1) (\<lambda>companies.
            chain (rc_leads api 1) (\<lambda>leads.
            chain (rc_business_cases api 500) (\<lambda>cases_resp.
            chain (rc_invoices api 500) (\<lambda>invoices_resp.
            ret (companies, leads, cases_resp, invoices_resp)))))))
         raynet_metrics))"

section \<open>What the loops compute\<close>

text \<open>
  The loop as a function of the deals' readings, and the reference for it: counts and sums over the
  readings, filtered by status or stage.
\<close>

definition tally :: "string \<Rightarrow> string \<Rightarrow> (string \<times> 'k option \<times> rat) list \<Rightarrow> 'k deal_sums" where
  "tally ww ow vs = fold (\<lambda>(status, stage, value). count_deal ww ow status stage value) vs no_deals"

definition with_status :: "string \<Rightarrow> (string \<times> 'k option \<times> rat) list \<Rightarrow> (string \<times> 'k option \<times> rat) list" where
  "with_status w vs = filter (\<lambda>(status, stage, value). status = w) vs"

definition with_stage :: "'k \<Rightarrow> (string \<times> 'k option \<times> rat) list \<Rightarrow> (string \<times> 'k option \<times> rat) list" where
  "with_stage k vs = filter (\<lambda>(status, stage, value). stage = Some k) vs"

definition worth :: "(string \<times> 'k option \<times> rat) list \<Rightarrow> rat" where
  "worth vs = sum_list (map (\<lambda>(status, stage, value). value) vs)"

lemma fold_loop_body:
  "fold_result (loop_body ww ow view) deals s =
     andthen (map_result view deals) (\<lambda>vs. Inr (fold (\<lambda>(status, stage, value). count_deal ww ow status stage value) vs s))"
  by (induction deals arbitrary: s) (auto simp: loop_body_def andthen_def split: sum.split prod.split)

lemma loop_is_tally:
  "fold_result (loop_body ww ow view) deals no_deals = andthen (map_result view deals) (\<lambda>vs. Inr (tally ww ow vs))"
  by (simp add: fold_loop_body tally_def)

lemma length_map_result: "map_result f xs = Inr ys \<Longrightarrow> length ys = length xs"
  by (induction xs arbitrary: ys) (auto simp: andthen_Inr_iff)

lemma tally_snoc:
  "tally ww ow [] = no_deals"
  "tally ww ow (vs @ [(status, stage, value)]) = count_deal ww ow status stage value (tally ww ow vs)"
  by (simp_all add: tally_def)

lemma map_of_bucket:
  "map_of (add_to_bucket k x b) k' =
     (if k' = k then Some (case map_of b k of None \<Rightarrow> (1, x) | Some (n, v) \<Rightarrow> (n + 1, v + x)) else map_of b k')"
  by (auto simp: add_to_bucket_def map_of_map_default split: option.splits)

lemma tally_status: "count_of (ds_status (tally ww ow vs)) w = length (with_status w vs)"
  by (induction vs rule: rev_induct)
    (auto simp: tally_snoc count_deal_def count_of_bump with_status_def no_deals_def)

lemma tally_sums:
  "ds_open (tally ww ow vs) = length (with_status ow vs)"
  "ds_total (tally ww ow vs) = worth vs"
  "ds_won (tally ww ow vs) = worth (with_status ww vs)"
  by (induction vs rule: rev_induct) (auto simp: tally_snoc count_deal_def with_status_def worth_def no_deals_def)

lemma tally_stage:
  "map_of (ds_stage (tally ww ow vs)) k =
     (if with_stage k vs = [] then None else Some (length (with_stage k vs), worth (with_stage k vs)))"
proof (induction vs rule: rev_induct)
  case Nil
  show ?case by (simp add: tally_snoc no_deals_def with_stage_def)
next
  case (snoc x vs)
  obtain status stage v where x: "x = (status, stage, v)" by (metis prod.collapse)
  show ?case
    using snoc unfolding x tally_snoc
    by (cases stage) (auto simp: count_deal_def map_of_bucket with_stage_def worth_def)
qed

lemma tally_counts: "sum_list (map snd (ds_status (tally ww ow vs))) = length vs"
  by (induction vs rule: rev_induct) (auto simp: tally_snoc count_deal_def sum_bump no_deals_def)

lemma tally_distinct:
  "distinct (map fst (ds_status (tally ww ow vs)))" "distinct (map fst (ds_stage (tally ww ow vs)))"
  by (induction vs rule: rev_induct)
    (auto simp: tally_snoc count_deal_def no_deals_def distinct_bump add_to_bucket_def distinct_map_default
      split: option.split)

lemma worth_split:
  assumes "\<forall>(status, stage, value) \<in> set vs. status \<in> {a, b, c}" "distinct [a, b, c]"
  shows "worth vs = worth (with_status a vs) + worth (with_status b vs) + worth (with_status c vs)"
    and "length vs = length (with_status a vs) + length (with_status b vs) + length (with_status c vs)"
  using assms by (induction vs) (auto simp: worth_def with_status_def)

end
