(* ===== verification/PipelineVelocity.thy ===== *)
theory PipelineVelocity
  imports CrmSync
begin

text \<open>
  \<open>data_access/insight_functions/sales.py\<close>: the newest CRM snapshot, of whatever source, normalised
  into one \<open>PipelineVelocity\<close>. The theorems compose it with the syncs that write the snapshots.
  A query's \<open>order_by\<close> is a stable sort of the rows in the table's order; rows that tie come in
  that order, which is the database's to choose.
\<close>

datatype insight_error = InsufficientData string | Other_exception py_error

definition crm_sources :: "string list" where
  "crm_sources = [''pipedrive'', ''hubspot'', ''salesforce'', ''raynet'']"

record pipeline_velocity =
  pv_source :: string
  total_deals :: int
  open_deals :: int
  won_count :: int
  lost_count :: int
  win_rate :: rat
  avg_deal_value_open :: rat
  total_open_value :: rat
  total_won_value :: rat
  activity_completion_rate :: rat
  pv_by_stage :: json
  data_quality :: string

text \<open>The dict \<open>_extract\<close> returns; \<open>None\<close> is the empty dict.\<close>

record crm_fields =
  f_total :: int
  f_open :: int
  f_won :: int
  f_lost :: int
  f_by_stage :: json
  f_total_value :: rat
  f_won_value :: rat
  f_activities_total :: int
  f_activities_done :: int

definition int_at :: "json \<Rightarrow> string \<Rightarrow> (py_error, int) result" where
  "int_at v k = andthen (get_or v k (JInt 0)) py_int"

definition float_at :: "json \<Rightarrow> string \<Rightarrow> (py_error, rat) result" where
  "float_at v k = andthen (get_or v k (JInt 0)) py_float"

text \<open>\<open>(metrics.get(k) or {}).get("data") or {}\<close>\<close>

definition section_data :: "json \<Rightarrow> string \<Rightarrow> (py_error, json) result" where
  "section_data metrics k = andthen (get_or metrics k (JObj [])) (\<lambda>v. get_or v ''data'' (JObj []))"

text \<open>
  The four branches differ in their keys: the section of the metrics, the status counter with its
  words for won and lost, the value keys, and whether there are stages and activities.
\<close>

definition extract_deals ::
  "json \<Rightarrow> string \<Rightarrow> string \<times> string \<times> string \<Rightarrow> string \<times> string \<Rightarrow> bool \<Rightarrow> json \<Rightarrow> (py_error, crm_fields option) result" where
  "extract_deals deals status_key = (\<lambda>(won_word, lost_word, stage_key) (total_key, won_key) staged activities.
     andthen (get_or deals status_key (JObj [])) (\<lambda>by_status.
     andthen (int_at deals ''total'') (\<lambda>total.
     andthen (int_at deals ''open'') (\<lambda>opened.
     andthen (int_at by_status won_word) (\<lambda>won.
     andthen (int_at by_status lost_word) (\<lambda>lost.
     andthen (if staged then get_or deals stage_key (JObj []) else Inr (JObj [])) (\<lambda>by_stage.
     andthen (float_at deals total_key) (\<lambda>total_value.
     andthen (float_at deals won_key) (\<lambda>won_value.
     andthen (int_at activities ''total'') (\<lambda>activities_total.
     andthen (int_at activities ''done'') (\<lambda>activities_done.
     Inr (Some \<lparr>f_total = total, f_open = opened, f_won = won, f_lost = lost, f_by_stage = by_stage,
       f_total_value = total_value, f_won_value = won_value, f_activities_total = activities_total,
       f_activities_done = activities_done\<rparr>))))))))))))"

definition extract_fields :: "string \<Rightarrow> json \<Rightarrow> (py_error, crm_fields option) result" where
  "extract_fields source metrics =
     (if source = ''pipedrive'' then
        andthen (section_data metrics ''deals'') (\<lambda>deals.
        andthen (section_data metrics ''activities'') (\<lambda>activities.
        extract_deals deals ''by_status'' (''won'', ''lost'', ''by_stage'') (''total_value'', ''won_value'') True activities))
      else if source = ''hubspot'' then
        andthen (section_data metrics ''deals'') (\<lambda>deals.
        extract_deals deals ''by_status'' (''won'', ''lost'', ''by_stage'') (''total_amount'', ''won_amount'') True (JObj []))
      else if source = ''salesforce'' then
        andthen (section_data metrics ''opportunities'') (\<lambda>opps.
        extract_deals opps ''by_status'' (''won'', ''lost'', ''by_stage'') (''total_amount'', ''won_amount'') True (JObj []))
      else if source = ''raynet'' then
        andthen (section_data metrics ''business_cases'') (\<lambda>cases.
        extract_deals cases ''by_state'' (''WON'', ''LOST'', []) (''total_value'', ''won_value'') False (JObj []))
      else Inr None)"

text \<open>\<open>filter(source__in=sources).order_by("-period_end").first()\<close>\<close>

definition latest_snapshot :: "string list \<Rightarrow> data_snapshot list \<Rightarrow> data_snapshot option" where
  "latest_snapshot sources rows =
     (case sort_key (\<lambda>r. - snap_period_end r) (filter (\<lambda>r. snap_source r \<in> set sources) rows) of
        [] \<Rightarrow> None | r # _ \<Rightarrow> Some r)"

definition velocity_of :: "string \<Rightarrow> crm_fields \<Rightarrow> pipeline_velocity" where
  "velocity_of source f =
     (let won = f_won f; lost = f_lost f; decided = won + lost;
          open_value = max 0 (f_total_value f - f_won_value f)
      in \<lparr>pv_source = source, total_deals = f_total f, open_deals = f_open f,
          won_count = won, lost_count = lost,
          win_rate = py_round 4 (if decided \<noteq> 0 then of_int won / of_int decided else 0),
          avg_deal_value_open = py_round 2 (if f_open f \<noteq> 0 then open_value / of_int (f_open f) else 0),
          total_open_value = py_round 2 open_value,
          total_won_value = py_round 2 (f_won_value f),
          activity_completion_rate =
            py_round 4 (if f_activities_total f \<noteq> 0
                        then of_int (f_activities_done f) / of_int (f_activities_total f) else 0),
          pv_by_stage = f_by_stage f,
          data_quality = (if f_total f = 0 then ''low'' else if decided = 0 then ''partial'' else ''high'')\<rparr>)"

definition get_pipeline_velocity :: "data_snapshot list \<Rightarrow> (insight_error, pipeline_velocity) result" where
  "get_pipeline_velocity rows =
     (case latest_snapshot crm_sources rows of
        None \<Rightarrow> Inl (InsufficientData (''No CRM snapshot available yet. Connect Pipedrive, HubSpot, ''
                   @ ''Salesforce or Raynet to populate this card.''))
      | Some snapshot \<Rightarrow>
          (case extract_fields (snap_source snapshot) (or_else (snap_metrics snapshot) (JObj [])) of
             Inl e \<Rightarrow> Inl (Other_exception e)
           | Inr None \<Rightarrow> Inl (InsufficientData (''Unsupported CRM source: '' @ snap_source snapshot))
           | Inr (Some f) \<Rightarrow> Inr (velocity_of (snap_source snapshot) f)))"

section \<open>The newest row\<close>

lemma sort_key_empty [simp]: "sort_key f xs = [] \<longleftrightarrow> xs = []"
  by (metis length_0_conv length_sort)

lemma latest_snapshot_None:
  "latest_snapshot sources rows = None \<longleftrightarrow> (\<forall>r \<in> set rows. snap_source r \<notin> set sources)"
proof -
  have "latest_snapshot sources rows = None \<longleftrightarrow>
      sort_key (\<lambda>r. - snap_period_end r) (filter (\<lambda>r. snap_source r \<in> set sources) rows) = []"
    by (auto simp: latest_snapshot_def simp del: sort_key_empty split: list.split)
  then show ?thesis by (simp add: filter_empty_conv)
qed

lemma latest_snapshot_newest:
  assumes "latest_snapshot sources rows = Some r"
  shows "r \<in> set rows" "snap_source r \<in> set sources"
    and "\<And>r'. r' \<in> set rows \<Longrightarrow> snap_source r' \<in> set sources \<Longrightarrow> snap_period_end r' \<le> snap_period_end r"
proof -
  let ?xs = "sort_key (\<lambda>r. - snap_period_end r) (filter (\<lambda>r. snap_source r \<in> set sources) rows)"
  obtain rest where xs: "?xs = r # rest"
    using assms by (auto simp: latest_snapshot_def split: list.splits)
  have set: "set ?xs = {r \<in> set rows. snap_source r \<in> set sources}" by simp
  then show "r \<in> set rows" "snap_source r \<in> set sources" unfolding xs by auto
  have "sorted (map (\<lambda>r. - snap_period_end r) (r # rest))" using sorted_sort_key xs by metis
  moreover fix r' assume "r' \<in> set rows" "snap_source r' \<in> set sources"
  with set xs have "r' \<in> set (r # rest)" by auto
  ultimately show "snap_period_end r' \<le> snap_period_end r" by auto
qed

section \<open>What the fields of a synced snapshot are\<close>

definition deal_fields ::
  "string \<times> string \<times> string \<Rightarrow> (string \<times> 'k option \<times> rat) list \<Rightarrow> json \<Rightarrow> nat \<Rightarrow> nat \<Rightarrow> crm_fields" where
  "deal_fields = (\<lambda>(won_word, lost_word, open_word) vs by_stage activities finished.
     \<lparr>f_total = int (length vs), f_open = int (length (with_status open_word vs)),
      f_won = int (length (with_status won_word vs)), f_lost = int (length (with_status lost_word vs)),
      f_by_stage = by_stage, f_total_value = py_round 2 (worth vs),
      f_won_value = py_round 2 (worth (with_status won_word vs)),
      f_activities_total = int activities, f_activities_done = int finished\<rparr>)"

lemma get_or_hit:
  "get_or (JObj ((k, v) # kvs)) k d = Inr (or_else v d)"
  "k \<noteq> k' \<Longrightarrow> get_or (JObj ((k', v) # kvs)) k d = get_or (JObj kvs) k d"
  "get_or (JObj []) k d = Inr d"
  by (simp_all add: get_or_def dict_get_def or_else_def)

lemma or_else_simps [simp]:
  "or_else (JObj kvs) (JObj []) = JObj kvs" "or_else (jnat n) (JInt 0) = jnat n"
  by (auto simp: or_else_def jnat_def)

lemma numbers [simp]:
  "py_int (jnat n) = Inr (int n)" "py_float (or_else (jfloat q) (JInt 0)) = Inr q"
  by (auto simp: jnat_def jfloat_def or_else_def)

lemma int_at_counter:
  "int_at (JObj (map (\<lambda>(k, n). (k, jnat n)) c)) w = Inr (int (count_of c w))"
  using count_of_jcounter[of c w] by (simp add: int_at_def get_or_def)

lemmas extract_simps =
  extract_fields_def extract_deals_def section_data_def int_at_def float_at_def ok_data_def get_or_hit

lemmas synced_simps =
  jcounter_def int_at_counter[unfolded int_at_def] deal_fields_def tally_sums tally_status

definition stage_amounts :: "(string \<times> string option \<times> rat) list \<Rightarrow> json" where
  "stage_amounts vs =
     JObj (map (\<lambda>(k, b). (k, jbucket ''amount'' (py_round 2) b)) (ds_stage (tally ''won'' ''open'' vs)))"

lemma extract_hubspot:
  assumes "hubspot_metrics (ps, deals, cn, pn) = Inr m"
  obtains vs where "map_result hubspot_deal deals = Inr vs"
    "extract_fields ''hubspot'' m = Inr (Some (deal_fields (''won'', ''lost'', ''open'') vs (stage_amounts vs) 0 0))"
proof -
  obtain qs vs where "map_result hubspot_deal deals = Inr vs"
    and m: "m = JObj [(''pipelines'', ok_data (JList qs)),
      (''deals'', ok_data (amount_summary (length deals) (tally ''won'' ''open'' vs))),
      (''contacts'', ok_data (JObj [(''sample_count'', jnat cn)])),
      (''companies'', ok_data (JObj [(''sample_count'', jnat pn)]))]"
    using assms by (auto simp: hubspot_metrics_def summarise_deals_hubspot_def loop_is_tally andthen_Inr_iff)
  moreover have "length deals = length vs" using calculation(1) by (simp add: length_map_result)
  ultimately show thesis
    by (intro that) (simp_all add: m extract_simps amount_summary_def stage_amounts_def synced_simps)
qed

lemma extract_salesforce:
  assumes "salesforce_metrics (a, opps, l, u) = Inr m"
  obtains records vs where "map_result salesforce_opp records = Inr vs"
    "extract_fields ''salesforce'' m = Inr (Some (deal_fields (''won'', ''lost'', ''open'') vs (stage_amounts vs) 0 0))"
proof -
  obtain ja jl ju records vs where "map_result salesforce_opp records = Inr vs"
    and m: "m = JObj [(''accounts'', ja),
      (''opportunities'', ok_data (amount_summary (length records) (tally ''won'' ''open'' vs))),
      (''leads'', jl), (''users'', ju)]"
    using assms by (auto simp: salesforce_metrics_def summarise_opps_def loop_is_tally andthen_Inr_iff)
  moreover have "length records = length vs" using calculation(1) by (simp add: length_map_result)
  ultimately show thesis
    by (intro that) (simp_all add: m extract_simps amount_summary_def stage_amounts_def synced_simps)
qed

lemma extract_raynet:
  assumes "raynet_metrics (c, l, cs, i) = Inr m"
  obtains cases vs where "map_result raynet_case cases = Inr vs"
    "extract_fields ''raynet'' m = Inr (Some (deal_fields (''WON'', ''LOST'', ''OPEN'') vs (JObj []) 0 0))"
proof -
  obtain jc jl n cases vs where "map_result raynet_case cases = Inr vs"
    and m: "m = JObj [(''companies'', jc), (''leads'', jl),
      (''business_cases'', ok_data (JObj
        [(''total'', jnat (length cases)),
         (''open'', jnat (ds_open (tally ''WON'' ''OPEN'' vs))),
         (''by_state'', jcounter (ds_status (tally ''WON'' ''OPEN'' vs))),
         (''total_value'', jfloat (py_round 2 (ds_total (tally ''WON'' ''OPEN'' vs)))),
         (''won_value'', jfloat (py_round 2 (ds_won (tally ''WON'' ''OPEN'' vs))))])),
      (''invoices'', ok_data (JObj [(''total'', jnat n)]))]"
    using assms by (auto simp: raynet_metrics_def summarise_business_cases_def loop_is_tally andthen_Inr_iff)
  moreover have "length cases = length vs" using calculation(1) by (simp add: length_map_result)
  ultimately show thesis
    by (intro that) (simp_all add: m extract_simps synced_simps)
qed

lemma extract_pipedrive:
  assumes "pipedrive_metrics (ps, ss, deals, people, acts) = Inr m"
  obtains vs types finished where "map_result pipedrive_deal deals = Inr vs"
    "fold_result pipedrive_activity acts ([], 0) = Inr (types, finished)"
    "extract_fields ''pipedrive'' m = Inr (Some (deal_fields (''won'', ''lost'', ''open'') vs
       (JObj (map (\<lambda>(k, b). (show_int k, jbucket ''value'' id b)) (ds_stage (tally ''won'' ''open'' vs))))
       (length acts) finished))"
proof -
  obtain qs rs vs types finished where *: "map_result pipedrive_deal deals = Inr vs"
      "fold_result pipedrive_activity acts ([], 0) = Inr (types, finished)"
    and m: "m = JObj [(''pipelines'', ok_data (JList qs)), (''stages'', ok_data (JList rs)),
      (''deals'', ok_data (JObj
        [(''total'', jnat (length deals)),
         (''open'', jnat (ds_open (tally ''won'' ''open'' vs))),
         (''by_status'', jcounter (ds_status (tally ''won'' ''open'' vs))),
         (''by_stage'', JObj (map (\<lambda>(k, b). (show_int k, jbucket ''value'' id b)) (ds_stage (tally ''won'' ''open'' vs)))),
         (''total_value'', jfloat (py_round 2 (ds_total (tally ''won'' ''open'' vs)))),
         (''won_value'', jfloat (py_round 2 (ds_won (tally ''won'' ''open'' vs))))])),
      (''persons'', ok_data (JObj [(''total'', jnat (length people))])),
      (''activities'', ok_data (JObj
        [(''total'', jnat (length acts)), (''done'', jnat finished),
         (''open'', jnat (length acts - finished)), (''by_type'', jcounter types)]))]"
    using assms
    by (auto simp: pipedrive_metrics_def summarise_deals_pipedrive_def summarise_activities_def loop_is_tally andthen_Inr_iff)
  moreover have "length deals = length vs" using *(1) by (simp add: length_map_result)
  ultimately show thesis
    by (intro that) (simp_all add: m extract_simps synced_simps)
qed

lemma finished_le:
  fixes acts :: "json list"
  assumes "fold_result pipedrive_activity acts ([], 0) = Inr (types, finished)"
  shows "finished \<le> length acts"
proof -
  have "snd (types, finished) \<le> length ([] @ acts)"
    using assms
  proof (rule fold_result_invariant[where P = "\<lambda>seen s. snd s \<le> length seen"])
    fix seen :: "json list" and x s s'
    assume "pipedrive_activity x s = Inr s'" "snd s \<le> length seen"
    then show "snd s' \<le> length (seen @ [x])"
      by (cases s) (auto simp: pipedrive_activity_def andthen_Inr_iff)
  qed simp
  then show ?thesis by simp
qed

section \<open>Velocities of synced snapshots\<close>

text \<open>The metrics a CRM sync writes.\<close>

inductive synced :: "string \<Rightarrow> json \<Rightarrow> bool" where
  synced_pipedrive: "pipedrive_metrics d1 = Inr m \<Longrightarrow> synced ''pipedrive'' m"
| synced_hubspot: "hubspot_metrics d2 = Inr m \<Longrightarrow> synced ''hubspot'' m"
| synced_salesforce: "salesforce_metrics d3 = Inr m \<Longrightarrow> synced ''salesforce'' m"
| synced_raynet: "raynet_metrics d4 = Inr m \<Longrightarrow> synced ''raynet'' m"

definition fields_ok :: "crm_fields \<Rightarrow> bool" where
  "fields_ok f \<longleftrightarrow>
     0 \<le> f_open f \<and> 0 \<le> f_won f \<and> 0 \<le> f_lost f \<and> f_open f + f_won f + f_lost f \<le> f_total f
     \<and> 0 \<le> f_activities_done f \<and> f_activities_done f \<le> f_activities_total f"

definition velocity_ok :: "pipeline_velocity \<Rightarrow> bool" where
  "velocity_ok v \<longleftrightarrow>
     0 \<le> win_rate v \<and> win_rate v \<le> 1
     \<and> 0 \<le> activity_completion_rate v \<and> activity_completion_rate v \<le> 1
     \<and> 0 \<le> total_open_value v \<and> 0 \<le> avg_deal_value_open v
     \<and> 0 \<le> open_deals v \<and> 0 \<le> won_count v \<and> 0 \<le> lost_count v
     \<and> open_deals v + won_count v + lost_count v \<le> total_deals v
     \<and> (total_deals v = 0 \<longleftrightarrow> data_quality v = ''low'')"

lemma three_statuses:
  assumes "distinct [a, b, c]"
  shows "length (with_status a vs) + length (with_status b vs) + length (with_status c vs) \<le> length vs"
  using assms by (induction vs) (auto simp: with_status_def)

lemma fields_ok_deals:
  assumes "distinct [o', w, l]" "finished \<le> acts"
  shows "fields_ok (deal_fields (w, l, o') vs bs acts finished)"
  using three_statuses[OF assms(1), of vs] assms(2) by (simp add: fields_ok_def deal_fields_def)

lemma synced_extract: "synced source m \<Longrightarrow> \<exists>f. extract_fields source m = Inr (Some f) \<and> fields_ok f"
proof (induction rule: synced.induct)
  case (synced_pipedrive d m)
  obtain ps ss deals ws acts where d: "d = (ps, ss, deals, ws, acts)" by (metis prod.collapse)
  show ?case
    by (rule extract_pipedrive[OF synced_pipedrive[unfolded d]])
       (auto intro: fields_ok_deals finished_le)
next
  case (synced_hubspot d m)
  obtain ps deals cn pn where d: "d = (ps, deals, cn, pn)" by (metis prod.collapse)
  show ?case by (rule extract_hubspot[OF synced_hubspot[unfolded d]]) (auto intro: fields_ok_deals)
next
  case (synced_salesforce d m)
  obtain a opps l u where d: "d = (a, opps, l, u)" by (metis prod.collapse)
  show ?case by (rule extract_salesforce[OF synced_salesforce[unfolded d]]) (auto intro: fields_ok_deals)
next
  case (synced_raynet d m)
  obtain c l cs i where d: "d = (c, l, cs, i)" by (metis prod.collapse)
  show ?case by (rule extract_raynet[OF synced_raynet[unfolded d]]) (auto intro: fields_ok_deals)
qed

lemma synced_true: "synced source m \<Longrightarrow> or_else m (JObj []) = m"
  by (induction rule: synced.induct)
     (auto simp: pipedrive_metrics_def hubspot_metrics_def salesforce_metrics_def raynet_metrics_def
        or_else_def andthen_Inr_iff split: prod.splits)

lemma py_round_unit: "0 \<le> q \<Longrightarrow> q \<le> 1 \<Longrightarrow> 0 \<le> py_round n q \<and> py_round n q \<le> 1"
  using py_round_mono[of 0 q n] py_round_mono[of q 1 n] by simp

lemma py_round_nonneg: "0 \<le> q \<Longrightarrow> 0 \<le> py_round n q"
  using py_round_mono[of 0 q n] by simp

lemma rate_unit: "0 \<le> a \<Longrightarrow> a \<le> b \<Longrightarrow>
    0 \<le> py_round n (if b \<noteq> 0 then of_int a / of_int b else 0)
    \<and> py_round n (if b \<noteq> 0 then of_int a / of_int b else 0) \<le> 1" for a b :: int
  by (rule py_round_unit) (auto simp: divide_le_eq_1)

lemma velocity_of_ok: "fields_ok f \<Longrightarrow> velocity_ok (velocity_of source f)"
  using rate_unit[of "f_won f" "f_won f + f_lost f" 4] rate_unit[of "f_activities_done f" "f_activities_total f" 4]
  by (auto simp: fields_ok_def velocity_ok_def velocity_of_def Let_def intro!: py_round_nonneg)

text \<open>The rows of the CRM sources that a table of snapshots holds came from the syncs.\<close>

definition crm_rows_synced :: "data_snapshot list \<Rightarrow> bool" where
  "crm_rows_synced rows \<longleftrightarrow>
     (\<forall>r \<in> set rows. snap_source r \<in> set crm_sources \<longrightarrow> synced (snap_source r) (snap_metrics r))"

lemma velocity_cases:
  assumes "crm_rows_synced rows"
  shows "case get_pipeline_velocity rows of
           Inl e \<Rightarrow> (\<exists>why. e = InsufficientData why) \<and> (\<forall>r \<in> set rows. snap_source r \<notin> set crm_sources)
         | Inr v \<Rightarrow> velocity_ok v \<and> (\<exists>r \<in> set rows. snap_source r = pv_source v)"
proof (cases "latest_snapshot crm_sources rows")
  case None
  then show ?thesis using None[unfolded latest_snapshot_None] by (simp add: get_pipeline_velocity_def)
next
  case (Some r)
  have r: "r \<in> set rows" "synced (snap_source r) (snap_metrics r)"
    using latest_snapshot_newest(1,2)[OF Some] assms by (auto simp: crm_rows_synced_def)
  obtain f where f: "extract_fields (snap_source r) (snap_metrics r) = Inr (Some f)" "fields_ok f"
    using synced_extract[OF r(2)] by blast
  have "get_pipeline_velocity rows = Inr (velocity_of (snap_source r) f)"
    by (simp add: get_pipeline_velocity_def Some synced_true[OF r(2)] f(1))
  moreover have "pv_source (velocity_of (snap_source r) f) = snap_source r" by (simp add: velocity_of_def Let_def)
  ultimately show ?thesis using velocity_of_ok[OF f(2)] r(1) by auto
qed

lemma velocity_newest:
  assumes "synced (snap_source snap) (snap_metrics snap)" "snap_source snap \<in> set crm_sources"
    and "\<forall>r \<in> set rows. snap_source r \<in> set crm_sources \<longrightarrow> snap_period_end r < snap_period_end snap"
    and "extract_fields (snap_source snap) (snap_metrics snap) = Inr (Some f)"
  shows "get_pipeline_velocity (rows @ [snap]) = Inr (velocity_of (snap_source snap) f)"
proof -
  obtain r where r: "latest_snapshot crm_sources (rows @ [snap]) = Some r"
    using assms(2) latest_snapshot_None[of crm_sources "rows @ [snap]"] by (cases "latest_snapshot crm_sources (rows @ [snap])") auto
  have "r = snap"
    using latest_snapshot_newest[OF r] assms(2,3) by (fastforce dest: spec[where x = snap])
  moreover have "or_else (snap_metrics snap) (JObj []) = snap_metrics snap"
    using assms(1) by (rule synced_true)
  ultimately show ?thesis using r assms(4) by (simp add: get_pipeline_velocity_def)
qed

section \<open>A HubSpot sync and the velocity read after it\<close>

lemma hubspot_run:
  assumes "run_sync_hubspot api tnow days w = (Inr (Some snap), w')"
  obtains c c' pipelines deals cn pn where "hc_deals api c = (Inr deals, c')"
    "hubspot_metrics (pipelines, deals, cn, pn) = Inr (snap_metrics snap)"
    "snapshots w' = snapshots w @ [snap]" "snap_source snap = ''hubspot''"
proof -
  note run = assms[unfolded run_sync_hubspot_def]
  show thesis
    by (rule run_snapshot_Some[OF run])
       (auto simp: chain_Inr_iff then_metrics_Some attempt_Some intro!: that)
qed

lemma hubspot_status: "hubspot_deal d = Inr (status, stage, v) \<Longrightarrow> status \<in> {''won'', ''lost'', ''open''}"
  by (auto simp: hubspot_deal_def andthen_Inr_iff split: if_splits)

lemma hubspot_statuses:
  "map_result hubspot_deal deals = Inr vs \<Longrightarrow>
     \<forall>(status, stage, v) \<in> set vs. status \<in> {''won'', ''lost'', ''open''}"
proof (induction deals arbitrary: vs)
  case (Cons d deals)
  then obtain x ys where "hubspot_deal d = Inr x" "vs = x # ys" "map_result hubspot_deal deals = Inr ys"
    by (auto simp: andthen_Inr_iff)
  with Cons.IH[of ys] hubspot_status[of d] show ?case by (cases x) simp
qed simp

lemma velocity_of_deals:
  "v = velocity_of source (deal_fields (ww, lw, ow) vs bs acts finished) \<Longrightarrow>
     pv_source v = source \<and> total_deals v = int (length vs)
     \<and> open_deals v = int (length (with_status ow vs)) \<and> won_count v = int (length (with_status ww vs))
     \<and> lost_count v = int (length (with_status lw vs))
     \<and> win_rate v = py_round 4 (if won_count v + lost_count v = 0 then 0
                                else of_int (won_count v) / of_int (won_count v + lost_count v))
     \<and> total_won_value v = py_round 2 (py_round 2 (worth (with_status ww vs)))"
  by (simp add: velocity_of_def deal_fields_def Let_def)

text \<open>
  C36. After a HubSpot sync whose period ends after that of every other CRM snapshot, the velocity
  is that of the deals the sync fetched: their number, how many are open, won and lost, which add
  up to all of them, the share of the won among the decided ones and the value won, both rounded.
\<close>

theorem hubspot_velocity:
  assumes "run_sync_hubspot api tnow days w = (Inr (Some snap), w')"
    and "\<forall>r \<in> set (snapshots w). snap_source r \<in> set crm_sources \<longrightarrow> snap_period_end r < snap_period_end snap"
  shows "\<exists>c c' deals vs v. hc_deals api c = (Inr deals, c') \<and> map_result hubspot_deal deals = Inr vs
    \<and> get_pipeline_velocity (snapshots w') = Inr v \<and> pv_source v = ''hubspot''
    \<and> total_deals v = int (length deals)
    \<and> open_deals v = int (length (with_status ''open'' vs))
    \<and> won_count v = int (length (with_status ''won'' vs))
    \<and> lost_count v = int (length (with_status ''lost'' vs))
    \<and> total_deals v = open_deals v + won_count v + lost_count v
    \<and> win_rate v = py_round 4 (if won_count v + lost_count v = 0 then 0
                               else of_int (won_count v) / of_int (won_count v + lost_count v))
    \<and> total_won_value v = py_round 2 (py_round 2 (worth (with_status ''won'' vs)))"
proof -
  obtain c c' ps deals cn pn where run: "hc_deals api c = (Inr deals, c')"
      "hubspot_metrics (ps, deals, cn, pn) = Inr (snap_metrics snap)"
      "snapshots w' = snapshots w @ [snap]" "snap_source snap = ''hubspot''"
    by (rule hubspot_run[OF assms(1)])
  obtain vs where vs: "map_result hubspot_deal deals = Inr vs"
      "extract_fields ''hubspot'' (snap_metrics snap) =
         Inr (Some (deal_fields (''won'', ''lost'', ''open'') vs (stage_amounts vs) 0 0))"
    by (rule extract_hubspot[OF run(2)])
  define v where "v = velocity_of ''hubspot'' (deal_fields (''won'', ''lost'', ''open'') vs (stage_amounts vs) 0 0)"
  have get: "get_pipeline_velocity (snapshots w') = Inr v"
    using velocity_newest[of snap "snapshots w"] synced_hubspot[OF run(2)] run(3,4) vs(2) assms(2)
    by (simp add: crm_sources_def v_def)
  note f = velocity_of_deals[OF v_def]
  have total: "total_deals v = int (length deals)"
    using f length_map_result[OF vs(1)] by simp
  have "total_deals v = open_deals v + won_count v + lost_count v"
    using f worth_split(2)[OF hubspot_statuses[OF vs(1)]] by simp
  with f total get run(1) vs(1) show ?thesis
    by (intro exI[of _ c] exI[of _ c'] exI[of _ deals] exI[of _ vs] exI[of _ v] conjI) (elim conjE; assumption)+
qed

definition sample_deal :: "string \<Rightarrow> int \<Rightarrow> string \<Rightarrow> string \<Rightarrow> json" where
  "sample_deal stage amount is_closed won = JObj [(''properties'', JObj
     [(''dealstage'', JStr stage), (''amount'', JInt amount), (''hs_is_closed'', JStr is_closed),
      (''hs_is_closed_won'', JStr won)])]"

definition sample_deals :: "json list" where
  "sample_deals = [sample_deal ''a'' 100 ''true'' ''TRUE'', sample_deal ''b'' 50 ''true'' ''false'',
     sample_deal ''a'' 30 ''false'' ''false'', JObj []]"

definition sample_hubspot :: "unit hubspot_calls" where
  "sample_hubspot = \<lparr>hc_open = (\<lambda>_. ret ()), hc_pipelines = ret [], hc_deals = ret sample_deals,
     hc_contacts = (\<lambda>_. ret []), hc_companies = (\<lambda>_. ret [])\<rparr>"

definition sample_tables :: "string \<Rightarrow> unit snap_world" where
  "sample_tables source = \<lparr>integrations = [\<lparr>integration_id = 1, integration_provider = source,
       is_active = True, last_sync_at = None, meta = JNull\<rparr>], snapshots = [], service = (),
     until_insert = (\<lambda>_. 1), insert_time = (\<lambda>_. 2)\<rparr>"

definition run_ok :: "(py_error, data_snapshot option) result \<times> 'c snap_world \<Rightarrow> bool" where
  "run_ok p = (case fst p of Inr (Some _) \<Rightarrow> True | _ \<Rightarrow> False)"

lemma run_okE:
  assumes "run_ok p"
  obtains snap where "p = (Inr (Some snap), snd p)"
  using assms by (cases p) (auto simp: run_ok_def split: sum.splits option.splits)

lemma sample_hubspot_run:
  "run_ok (run_sync_hubspot sample_hubspot (\<lambda>_. 864000) 7 (sample_tables ''hubspot''))"
  by code_simp

theorem hubspot_velocity_witness:
  "\<exists>v. get_pipeline_velocity (snapshots (snd (run_sync_hubspot sample_hubspot (\<lambda>_. 864000) 7
       (sample_tables ''hubspot'')))) = Inr v
     \<and> total_deals v = open_deals v + won_count v + lost_count v"
proof -
  obtain snap where run: "run_sync_hubspot sample_hubspot (\<lambda>_. 864000) 7 (sample_tables ''hubspot'') =
      (Inr (Some snap), snd (run_sync_hubspot sample_hubspot (\<lambda>_. 864000) 7 (sample_tables ''hubspot'')))"
    using run_okE[OF sample_hubspot_run] .
  show ?thesis
    using hubspot_velocity[OF run] by (auto simp: sample_tables_def)
qed

text \<open>
  What is reported as the value of the open deals is the value of everything that is not won: in
  a HubSpot snapshot of whole amounts it is the worth of the open deals and of the lost ones.
\<close>

theorem lost_value_reported_open:
  assumes "hubspot_metrics (ps, deals, cn, pn) = Inr m" "map_result hubspot_deal deals = Inr vs"
    and "\<forall>(status, stage, v) \<in> set vs. 0 \<le> v \<and> v \<in> \<int>"
  shows "\<exists>f. extract_fields ''hubspot'' m = Inr (Some f)
    \<and> total_open_value (velocity_of ''hubspot'' f) = worth (with_status ''open'' vs) + worth (with_status ''lost'' vs)"
proof -
  have whole: "worth us \<in> \<int> \<and> 0 \<le> worth us" if "set us \<subseteq> set vs" for us
    using that assms(3) unfolding worth_def by (induction us) (auto intro!: Ints_add)
  have exact: "py_round 2 q = q" if "q \<in> \<int>" for q
    using that round_half_even_int[of "i * 100" for i] by (auto simp: py_round_def elim!: Ints_cases)
  have sub: "set (with_status k vs) \<subseteq> set vs" for k by (auto simp: with_status_def)
  let ?w = "worth (with_status ''won'' vs)" and ?l = "worth (with_status ''lost'' vs)"
    and ?o = "worth (with_status ''open'' vs)"
  have split: "worth vs = ?w + ?l + ?o"
    using worth_split(1)[OF hubspot_statuses[OF assms(2)]] by simp
  have "py_round 2 (max 0 (py_round 2 (worth vs) - py_round 2 ?w)) = ?o + ?l"
    using whole[OF sub, of "''won''"] whole[OF sub, of "''lost''"] whole[OF sub, of "''open''"]
    by (simp add: split exact Ints_add)
  moreover obtain vs' where "map_result hubspot_deal deals = Inr vs'"
      "extract_fields ''hubspot'' m = Inr (Some (deal_fields (''won'', ''lost'', ''open'') vs' (stage_amounts vs') 0 0))"
    by (rule extract_hubspot[OF assms(1)])
  ultimately show ?thesis
    using assms(2) by (simp add: velocity_of_def deal_fields_def Let_def)
qed

lemma sample_readings:
  "map_result hubspot_deal sample_deals =
     Inr [(''won'', Some ''a'', 100), (''lost'', Some ''b'', 50), (''open'', Some ''a'', 30), (''open'', Some ''unknown'', 0)]"
  by code_simp

lemma sample_metrics: "isl (hubspot_metrics ([], sample_deals, 0, 0)) = False"
  by code_simp

theorem lost_value_reported_open_witness:
  "\<exists>m f. hubspot_metrics ([], sample_deals, 0, 0) = Inr m \<and> extract_fields ''hubspot'' m = Inr (Some f)
    \<and> total_open_value (velocity_of ''hubspot'' f) = 80"
proof -
  obtain m where m: "hubspot_metrics ([], sample_deals, 0, 0) = Inr m"
    using sample_metrics by (cases "hubspot_metrics ([], sample_deals, 0, 0)") auto
  show ?thesis
    using m lost_value_reported_open[OF m sample_readings] by (auto simp: worth_def with_status_def)
qed

end
