(* ===== verification/MarketingSync.thy ===== *)
theory MarketingSync
  imports CrmSync
begin

text \<open>
  The snapshot syncs of the e-mail marketing connectors: \<open>sync.py\<close> of \<open>ecomail\<close>, \<open>mailchimp\<close> and
  \<open>smartemailing\<close>. A failed \<open>ping\<close> ends the sync quietly; the calls after it are outside
  every \<open>try\<close>, so that their exceptions leave \<open>run_sync\<close>, except for the statistics of one campaign,
  whose failure counts as no statistics.
\<close>

section \<open>Campaigns\<close>

text \<open>What the three modules enrich a campaign to: its row, and the three counts they sum.\<close>

record campaign_row =
  cr_row :: json
  cr_delivered :: int
  cr_opened :: int
  cr_clicked :: int

definition stats_row :: "(string \<times> json) list \<Rightarrow> json list \<Rightarrow> json" where
  "stats_row head stats = JObj (head @ [(''stats'', JObj
     (zip [''delivered'', ''opened'', ''clicked'', ''bounced'', ''unsubscribed''] stats))])"

text \<open>\<open>int(stats.get(a) or stats.get(b) or 0)\<close>\<close>

definition int_of_two :: "json \<Rightarrow> string \<Rightarrow> string \<Rightarrow> (py_error, int) result" where
  "int_of_two v a b =
     andthen (jget v a) (\<lambda>x. andthen (jget v b) (\<lambda>y. py_int (or_else (or_else x y) (JInt 0))))"

definition rate_of :: "int \<Rightarrow> int \<Rightarrow> json" where
  "rate_of n delivered = jfloat (py_round 4 (if delivered \<noteq> 0 then of_int n / of_int delivered else 0))"

definition totals_of :: "json list \<Rightarrow> int \<Rightarrow> int \<Rightarrow> int \<Rightarrow> json" where
  "totals_of tops delivered opened clicked =
     JObj [(''top'', JList tops), (''open_rate'', rate_of opened delivered),
           (''ctr'', rate_of clicked delivered), (''delivered'', JInt delivered)]"

definition campaign_totals :: "campaign_row list \<Rightarrow> json" where
  "campaign_totals rows =
     totals_of (map cr_row rows) (sum_list (map cr_delivered rows)) (sum_list (map cr_opened rows))
       (sum_list (map cr_clicked rows))"

definition no_campaigns :: "(string \<times> json) list" where
  "no_campaigns = [(''top'', JList []), (''open_rate'', jfloat 0), (''ctr'', jfloat 0)]"

text \<open>
  The loop over the first \<open>top_n\<close> campaigns: \<open>skip\<close> says which ids are passed over, \<open>stats_call\<close> is the
  call inside the \<open>try\<close>, and \<open>enrich\<close> builds the row.
\<close>

fun enrich_campaigns ::
  "(json \<Rightarrow> bool) \<Rightarrow> (json \<Rightarrow> ('c, json) call) \<Rightarrow> (json \<Rightarrow> json \<Rightarrow> json \<Rightarrow> (py_error, 'r) result)
     \<Rightarrow> json list \<Rightarrow> ('c, 'r list) call" where
  "enrich_campaigns skip stats_call enrich [] = ret []"
| "enrich_campaigns skip stats_call enrich (c # cs) =
     chain (lift_result (jget c ''id'')) (\<lambda>cid.
     if skip cid then enrich_campaigns skip stats_call enrich cs
     else chain (catching (JObj []) (stats_call cid)) (\<lambda>stats.
          chain (lift_result (enrich c cid stats)) (\<lambda>row.
          chain (enrich_campaigns skip stats_call enrich cs) (\<lambda>rows. ret (row # rows)))))"

section \<open>Ecomail\<close>

record 'c ecomail_calls =
  ec_open :: "integration \<Rightarrow> ('c, unit) call"
  ec_ping :: "('c, unit) call"
  ec_lists :: "('c, json list) call"
  ec_campaigns :: "('c, json list) call"
  ec_stats :: "int \<Rightarrow> ('c, json) call"

definition ecomail_row :: "json \<Rightarrow> json \<Rightarrow> json \<Rightarrow> (py_error, campaign_row) result" where
  "ecomail_row c cid stats =
     andthen (jget c ''title'') (\<lambda>title.
     andthen (jget c ''name'') (\<lambda>name.
     andthen (jget c ''sent_at'') (\<lambda>sent_at.
     andthen (jget c ''date'') (\<lambda>date.
     andthen (int_of_two stats ''delivered_emails'' ''delivered'') (\<lambda>delivered.
     andthen (int_of_two stats ''opened_emails'' ''opens'') (\<lambda>opened.
     andthen (int_of_two stats ''clicked_emails'' ''clicks'') (\<lambda>clicked.
     andthen (int_of_two stats ''bounced_emails'' ''bounces'') (\<lambda>bounced.
     andthen (int_of_two stats ''unsubscribed_emails'' ''unsubscribes'') (\<lambda>unsubscribed.
     Inr \<lparr>cr_row = stats_row [(''id'', cid), (''name'', or_else title name), (''sent_at'', or_else sent_at date)]
            (map JInt [delivered, opened, clicked, bounced, unsubscribed]),
          cr_delivered = delivered, cr_opened = opened, cr_clicked = clicked\<rparr>)))))))))"

definition aggregate_ecomail :: "'c ecomail_calls \<Rightarrow> json list \<Rightarrow> ('c, json) call" where
  "aggregate_ecomail api campaigns =
     chain (enrich_campaigns (\<lambda>cid. cid = JNull)
              (\<lambda>cid. chain (lift_result (py_int cid)) (ec_stats api)) ecomail_row (take 10 campaigns)) (\<lambda>enriched.
     ret (if enriched = [] then JObj (no_campaigns @ [(''delivered'', JInt 0)]) else campaign_totals enriched))"

definition sum_result :: "('a \<Rightarrow> (py_error, int) result) \<Rightarrow> 'a list \<Rightarrow> (py_error, int) result" where
  "sum_result f xs = andthen (map_result f xs) (\<lambda>ns. Inr (sum_list ns))"

definition audience :: "json \<Rightarrow> json list \<Rightarrow> (py_error, json) result" where
  "audience total_contacts rows =
     andthen (map_result (pick [(''id'', ''id''), (''name'', ''name'')]) rows) (\<lambda>ls.
     Inr (ok_data (JObj [(''total_contacts'', total_contacts), (''list_count'', jnat (length rows)), (''lists'', JList ls)])))"

definition mail_metrics :: "(py_error, json) result \<Rightarrow> json list \<Rightarrow> json \<Rightarrow> (py_error, json) result" where
  "mail_metrics contacts rows campaigns_summary =
     andthen contacts (\<lambda>total_contacts.
     andthen (audience total_contacts rows) (\<lambda>a.
     Inr (JObj [(''audience'', a), (''campaigns'', ok_data campaigns_summary)])))"

definition run_sync_ecomail ::
  "'c ecomail_calls \<Rightarrow> ('c \<Rightarrow> rat) \<Rightarrow> int \<Rightarrow> 'c snap_world \<Rightarrow> (py_error, data_snapshot option) result \<times> 'c snap_world" where
  "run_sync_ecomail api tnow days =
     run_snapshot ''ecomail'' tnow days (\<lambda>i.
       chain (ec_open api i) (\<lambda>_.
       chain (attempt (ec_ping api)) (\<lambda>p.
       if p = None then ret None
       else chain (ec_lists api) (\<lambda>rows.
            chain (ec_campaigns api) (\<lambda>campaigns.
            chain (aggregate_ecomail api campaigns) (\<lambda>summary.
            chain (lift_result (mail_metrics
              (andthen (sum_result (\<lambda>l. int_of_two l ''subscribers'' ''subscribers_count'') rows) (\<lambda>n. Inr (JInt n)))
              rows summary)) (\<lambda>m. ret (Some m))))))))"

section \<open>Mailchimp\<close>

record 'c mailchimp_calls =
  mc_open :: "integration \<Rightarrow> ('c, unit) call"
  mc_ping :: "('c, unit) call"
  mc_audiences :: "('c, json list) call"
  mc_campaigns :: "('c, json list) call"
  mc_report :: "string \<Rightarrow> ('c, json) call"

text \<open>\<open>x + y\<close> on decoded values.\<close>

fun jplus :: "json \<Rightarrow> json \<Rightarrow> (py_error, json) result" where
  "jplus (JStr a) (JStr b) = Inr (JStr (a @ b))"
| "jplus (JList a) (JList b) = Inr (JList (a @ b))"
| "jplus (JFloat a _) (JFloat b _) = Inr (jfloat (a + b))"
| "jplus (JFloat a _) y = (case as_number y of Some j \<Rightarrow> Inr (jfloat (a + of_int j)) | None \<Rightarrow> Inl TypeError)"
| "jplus x (JFloat b _) = (case as_number x of Some i \<Rightarrow> Inr (jfloat (of_int i + b)) | None \<Rightarrow> Inl TypeError)"
| "jplus x y = (case (as_number x, as_number y) of (Some i, Some j) \<Rightarrow> Inr (JInt (i + j)) | _ \<Rightarrow> Inl TypeError)"

text \<open>\<open>(r.get(k) or {}).get(k') or 0\<close>\<close>

definition nested :: "json \<Rightarrow> string \<Rightarrow> string \<Rightarrow> (py_error, json) result" where
  "nested r k k' = andthen (get_or r k (JObj [])) (\<lambda>v. get_or v k' (JInt 0))"

definition mailchimp_row :: "json \<Rightarrow> json \<Rightarrow> json \<Rightarrow> (py_error, campaign_row) result" where
  "mailchimp_row c cid r =
     andthen (get_or c ''settings'' (JObj [])) (\<lambda>settings.
     andthen (jget settings ''title'') (\<lambda>title.
     andthen (jget c ''type'') (\<lambda>kind.
     andthen (jget c ''send_time'') (\<lambda>send_time.
     andthen (andthen (get_or r ''emails_sent'' (JInt 0)) py_int) (\<lambda>sent.
     andthen (nested r ''bounces'' ''hard_bounces'') (\<lambda>hard.
     andthen (py_int hard) (\<lambda>hard_n.
     andthen (andthen (nested r ''opens'' ''opens_total'') py_int) (\<lambda>opened.
     andthen (andthen (nested r ''clicks'' ''clicks_total'') py_int) (\<lambda>clicked.
     andthen (nested r ''bounces'' ''soft_bounces'') (\<lambda>soft.
     andthen (andthen (jplus hard soft) py_int) (\<lambda>bounced.
     andthen (andthen (get_or r ''unsubscribed'' (JInt 0)) py_int) (\<lambda>unsubscribed.
     Inr \<lparr>cr_row = stats_row [(''id'', cid), (''name'', or_else title kind), (''send_time'', send_time)]
            (map JInt [sent - hard_n, opened, clicked, bounced, unsubscribed]),
          cr_delivered = sent - hard_n, cr_opened = opened, cr_clicked = clicked\<rparr>))))))))))))"

definition aggregate_mailchimp :: "'c mailchimp_calls \<Rightarrow> json list \<Rightarrow> ('c, json) call" where
  "aggregate_mailchimp api campaigns =
     chain (enrich_campaigns (\<lambda>cid. \<not> truth cid) (\<lambda>cid. mc_report api (py_str cid)) mailchimp_row (take 10 campaigns))
       (\<lambda>enriched.
     ret (if enriched = [] then JObj (no_campaigns @ [(''delivered'', JInt 0)]) else campaign_totals enriched))"

definition run_sync_mailchimp ::
  "'c mailchimp_calls \<Rightarrow> ('c \<Rightarrow> rat) \<Rightarrow> int \<Rightarrow> 'c snap_world \<Rightarrow> (py_error, data_snapshot option) result \<times> 'c snap_world" where
  "run_sync_mailchimp api tnow days =
     run_snapshot ''mailchimp'' tnow days (\<lambda>i.
       chain (mc_open api i) (\<lambda>_.
       chain (attempt (mc_ping api)) (\<lambda>p.
       if p = None then ret None
       else chain (mc_audiences api) (\<lambda>audiences.
            chain (mc_campaigns api) (\<lambda>campaigns.
            chain (aggregate_mailchimp api campaigns) (\<lambda>summary.
            chain (lift_result (mail_metrics
              (andthen (sum_result (\<lambda>a. andthen (nested a ''stats'' ''member_count'') py_int) audiences) (\<lambda>n. Inr (JInt n)))
              audiences summary)) (\<lambda>m. ret (Some m))))))))"

section \<open>SmartEmailing\<close>

record 'c smartemailing_calls =
  se_open :: "integration \<Rightarrow> ('c, unit) call"
  se_ping :: "('c, unit) call"
  se_contactlists :: "('c, json list) call"
  se_count_contacts :: "('c, json) call"
  se_campaigns :: "('c, json list) call"
  se_stats :: "int \<Rightarrow> ('c, json) call"

text \<open>The row and the raw statistics; the sums convert them after the loop.\<close>

definition smartemailing_row :: "json \<Rightarrow> json \<Rightarrow> json \<Rightarrow> (py_error, json \<times> (string \<times> json) list) result" where
  "smartemailing_row c cid stats =
     andthen (jget c ''name'') (\<lambda>name.
     andthen (jget c ''sent_at'') (\<lambda>sent_at.
     andthen (jget c ''send_at'') (\<lambda>send_at.
     andthen (map_result (\<lambda>k. andthen (jget_default stats k (JInt 0)) (\<lambda>v. Inr (k, v)))
                [''delivered'', ''opened'', ''clicked'', ''bounced'', ''unsubscribed'']) (\<lambda>raw.
     Inr (stats_row [(''id'', cid), (''name'', name), (''sent_at'', or_else sent_at send_at)] (map snd raw), raw)))))"

definition sum_column :: "string \<Rightarrow> (json \<times> (string \<times> json) list) list \<Rightarrow> (py_error, int) result" where
  "sum_column k rows = sum_result (\<lambda>(_, raw). py_int (or_else (dict_get raw k) (JInt 0))) rows"

definition aggregate_smartemailing :: "'c smartemailing_calls \<Rightarrow> json list \<Rightarrow> ('c, json) call" where
  "aggregate_smartemailing api campaigns =
     chain (enrich_campaigns (\<lambda>cid. cid = JNull)
              (\<lambda>cid. chain (lift_result (py_int cid)) (se_stats api)) smartemailing_row (take 10 campaigns)) (\<lambda>enriched.
     if enriched = [] then ret (JObj no_campaigns)
     else lift_result
       (andthen (sum_column ''delivered'' enriched) (\<lambda>delivered.
        andthen (sum_column ''opened'' enriched) (\<lambda>opened.
        andthen (sum_column ''clicked'' enriched) (\<lambda>clicked.
        Inr (totals_of (map fst enriched) delivered opened clicked))))))"

definition run_sync_smartemailing ::
  "'c smartemailing_calls \<Rightarrow> ('c \<Rightarrow> rat) \<Rightarrow> int \<Rightarrow> 'c snap_world \<Rightarrow> (py_error, data_snapshot option) result \<times> 'c snap_world" where
  "run_sync_smartemailing api tnow days =
     run_snapshot ''smartemailing'' tnow days (\<lambda>i.
       chain (se_open api i) (\<lambda>_.
       chain (attempt (se_ping api)) (\<lambda>p.
       if p = None then ret None
       else chain (se_contactlists api) (\<lambda>rows.
            chain (se_count_contacts api) (\<lambda>total_contacts.
            chain (se_campaigns api) (\<lambda>campaigns.
            chain (aggregate_smartemailing api campaigns) (\<lambda>summary.
            chain (lift_result (mail_metrics (Inr total_contacts) rows summary)) (\<lambda>m. ret (Some m)))))))))"

end
