(* ===== verification/IsoTime.thy ===== *)
theory IsoTime
  imports PyValues
begin

text \<open>
  \<open>datetime.fromisoformat\<close> of Python 3.12 on the extended forms the upstream services send:
  \<open>YYYY-MM-DD\<close>, and \<open>YYYY-MM-DD\<close>, a separator, \<open>HH:MM[:SS[.f]]\<close> and an optional offset \<open>Z\<close> or \<open>+HH:MM\<close>.
  The basic forms without dashes and the week dates are not covered and count as not parsed. A date is a day
  number, 0 for 1970-01-01. Every caller catches the exception of a string that does not parse.
\<close>

definition leap_year :: "nat \<Rightarrow> bool" where
  "leap_year y \<longleftrightarrow> y mod 4 = 0 \<and> (y mod 100 \<noteq> 0 \<or> y mod 400 = 0)"

definition month_length :: "nat \<Rightarrow> nat \<Rightarrow> nat" where
  "month_length y m = (if m = 2 then (if leap_year y then 29 else 28) else if m \<in> {4, 6, 9, 11} then 30 else 31)"

text \<open>Days before year \<open>y\<close>, before month \<open>m\<close> of it, and before the day.\<close>

definition days_before_year :: "nat \<Rightarrow> nat" where
  "days_before_year y = (let z = y - 1 in 365 * z + z div 4 - z div 100 + z div 400)"

definition day_number :: "nat \<Rightarrow> nat \<Rightarrow> nat \<Rightarrow> int" where
  "day_number y m d =
     int (days_before_year y + sum_list (map (month_length y) [1..<m]) + d) - 719163"

definition valid_date :: "nat \<Rightarrow> nat \<Rightarrow> nat \<Rightarrow> bool" where
  "valid_date y m d \<longleftrightarrow> 1 \<le> y \<and> y \<le> 9999 \<and> 1 \<le> m \<and> m \<le> 12 \<and> 1 \<le> d \<and> d \<le> month_length y m"

definition take_digits :: "nat \<Rightarrow> string \<Rightarrow> (nat \<times> string) option" where
  "take_digits n s =
     (let ds = take n s
      in if length ds = n \<and> list_all is_digit ds then Some (digits_value ds, drop n s) else None)"

definition expect :: "string \<Rightarrow> string \<Rightarrow> string option" where
  "expect p s = (if starts_with p s then Some (drop (length p) s) else None)"

definition iso_date_part :: "string \<Rightarrow> (int \<times> string) option" where
  "iso_date_part s =
     Option.bind (take_digits 4 s) (\<lambda>(y, s).
     Option.bind (expect ''-'' s) (\<lambda>s.
     Option.bind (take_digits 2 s) (\<lambda>(m, s).
     Option.bind (expect ''-'' s) (\<lambda>s.
     Option.bind (take_digits 2 s) (\<lambda>(d, s).
     if valid_date y m d then Some (day_number y m d, s) else None)))))"

text \<open>Seconds since midnight; of a fraction six digits count.\<close>

definition iso_time_part :: "string \<Rightarrow> (rat \<times> string) option" where
  "iso_time_part s =
     Option.bind (take_digits 2 s) (\<lambda>(h, s).
     Option.bind (expect '':'' s) (\<lambda>s.
     Option.bind (take_digits 2 s) (\<lambda>(mi, s).
     if 24 \<le> h \<or> 60 \<le> mi then None
     else (case Option.bind (expect '':'' s) (take_digits 2) of
             None \<Rightarrow> Some (of_nat (3600 * h + 60 * mi), s)
           | Some (sec, s) \<Rightarrow>
               if 60 \<le> sec then None
               else (case expect ''.'' s of
                       None \<Rightarrow> Some (of_nat (3600 * h + 60 * mi + sec), s)
                     | Some s \<Rightarrow>
                         (let ds = takeWhile is_digit s
                          in if ds = [] then None
                             else Some (of_nat (3600 * h + 60 * mi + sec)
                                    + of_nat (digits_value (take 6 ds)) / 10 ^ min 6 (length ds),
                                    dropWhile is_digit s)))))))"

text \<open>The offset from UTC in seconds; \<open>None\<close> inside the result is a naive time.\<close>

definition iso_offset :: "string \<Rightarrow> rat option option" where
  "iso_offset s =
     (case s of
        [] \<Rightarrow> Some None
      | c # cs \<Rightarrow>
          if s = ''Z'' then Some (Some 0)
          else if c = CHR ''+'' \<or> c = CHR ''-''
          then Option.bind (take_digits 2 cs) (\<lambda>(h, cs).
               Option.bind (expect '':'' cs) (\<lambda>cs.
               Option.bind (take_digits 2 cs) (\<lambda>(mi, cs).
               if cs \<noteq> [] \<or> 24 \<le> h \<or> 60 \<le> mi then None
               else Some (Some ((if c = CHR ''+'' then 1 else - 1) * of_nat (3600 * h + 60 * mi))))))
          else None)"

definition fromisoformat :: "string \<Rightarrow> (int \<times> rat \<times> rat option) option" where
  "fromisoformat s =
     Option.bind (iso_date_part s) (\<lambda>(day, rest).
     case rest of
       [] \<Rightarrow> Some (day, 0, None)
     | _ # rest \<Rightarrow>
         Option.bind (iso_time_part rest) (\<lambda>(secs, rest).
         Option.bind (iso_offset rest) (\<lambda>offset. Some (day, secs, offset))))"

text \<open>
  The instant of an aware time; comparing a naive time with \<open>timezone.now()\<close> raises, so a naive one
  has none.
\<close>

definition iso_instant :: "string \<Rightarrow> rat option" where
  "iso_instant s =
     Option.bind (fromisoformat s) (\<lambda>(day, secs, offset).
     map_option (\<lambda>off. of_int (86400 * day) + secs - off) offset)"

text \<open>\<open>s.replace("Z", "+00:00")\<close>\<close>

definition zulu :: "string \<Rightarrow> string" where
  "zulu s = concat (map (\<lambda>c. if c = CHR ''Z'' then ''+00:00'' else [c]) s)"

lemmas iso_simps =
  fromisoformat_def iso_instant_def iso_date_part_def iso_time_part_def iso_offset_def take_digits_def
  expect_def valid_date_def month_length_def leap_year_def day_number_def days_before_year_def
  digits_value_def is_digit_def zulu_def

lemma iso_examples:
  "fromisoformat ''1970-01-01'' = Some (0, 0, None)"
  "fromisoformat ''2000-03-01T00:00:00Z'' = Some (11017, 0, Some 0)"
  "fromisoformat ''2026-02-29'' = None"
  "iso_instant (zulu ''1970-01-02T00:00:01.5Z'') = Some (86401 + 1 / 2)"
  "iso_instant ''1970-01-01T01:00:00+01:00'' = Some 0"
  by (simp_all add: iso_simps upt_rec)

end
