(* ===== verification/WorkSync.thy ===== *)
theory WorkSync
  imports CrmSync IsoTime
begin

text \<open>
  The snapshot syncs of the work management connectors: \<open>sync.py\<close> of \<open>trello\<close>, \<open>asana\<close>,
  \<open>basecamp\<close>, \<open>caflou\<close> and \<open>jira\<close>. Trello and Asana fan out over boards and projects and skip
  those whose listing fails.
\<close>

section \<open>Trello\<close>

text \<open>An overdue card: \<open>due\<close> is set, \<open>dueComplete\<close> is not, and the time parses and has passed.\<close>

definition card_overdue :: "rat \<Rightarrow> json \<Rightarrow> json \<Rightarrow> bool" where
  "card_overdue now due due_complete \<longleftrightarrow>
     truth due \<and> \<not> truth due_complete
     \<and> (case due of JStr s \<Rightarrow> (case iso_instant (zulu s) of Some t \<Rightarrow> t < now | None \<Rightarrow> False) | _ \<Rightarrow> False)"

definition trello_card :: "rat \<Rightarrow> json \<Rightarrow> nat \<times> nat \<times> nat \<Rightarrow> (py_error, nat \<times> nat \<times> nat) result" where
  "trello_card now crd = (\<lambda>(closed_n, overdue, completed).
     andthen (jget crd ''closed'') (\<lambda>cl.
     andthen (jget crd ''due'') (\<lambda>due.
     andthen (jget crd ''dueComplete'') (\<lambda>dc.
     Inr (if truth cl then closed_n + 1 else closed_n,
          if card_overdue now due dc then overdue + 1 else overdue,
          if truth dc then completed + 1 else completed)))))"

definition summarise_cards :: "rat \<Rightarrow> json list \<Rightarrow> (py_error, json) result" where
  "summarise_cards now cards =
     andthen (fold_result (trello_card now) cards (0, 0, 0)) (\<lambda>(closed_n, overdue, completed). Inr (JObj
       [(''total'', jnat (length cards)),
        (''open'', jnat (length cards - closed_n)),
        (''closed'', jnat closed_n),
        (''overdue'', jnat overdue),
        (''completed'', jnat completed)]))"

text \<open>An element of a set, a key of a dict: lists and dicts are not hashable.\<close>

fun hashed :: "json \<Rightarrow> (py_error, json) result" where
  "hashed (JList _) = Inl TypeError"
| "hashed (JObj _) = Inl TypeError"
| "hashed v = Inr v"

definition summarise_actions :: "json list \<Rightarrow> (py_error, json) result" where
  "summarise_actions actions =
     andthen (fold_result (\<lambda>a c. andthen (get_or a ''type'' (JStr ''unknown'')) (\<lambda>t. Inr (bump (py_str t) c))) actions [])
       (\<lambda>by_type.
     andthen (map_result (\<lambda>a. andthen (get_or a ''idMemberCreator'' (JStr [])) hashed) actions) (\<lambda>actors.
     Inr (JObj
       [(''total'', jnat (length actions)),
        (''active_members'', jnat (length (filter truth (remdups actors)))),
        (''by_type'', jcounter by_type)])))"

record 'c trello_calls =
  tc_open :: "integration \<Rightarrow> ('c, unit) call"
  tc_boards :: "('c, json list) call"
  tc_cards :: "json \<Rightarrow> rat \<Rightarrow> ('c, json list) call"
  tc_actions :: "json \<Rightarrow> rat \<Rightarrow> ('c, json list) call"

text \<open>
  The loop over the boards: the rows of \<open>per_board\<close>, \<open>all_cards\<close> and \<open>all_actions\<close>. \<open>tnow\<close> is read by
  \<open>_summarise_cards\<close>.
\<close>

definition read_clock :: "('c \<Rightarrow> rat) \<Rightarrow> ('c, rat) call" where
  "read_clock tnow = (\<lambda>c. (Inr (tnow c), c))"

definition board_row :: "rat \<Rightarrow> json \<Rightarrow> json list \<Rightarrow> json list \<Rightarrow> (py_error, json) result" where
  "board_row now b cards actions =
     andthen (jget b ''id'') (\<lambda>board_id.
     andthen (jget b ''name'') (\<lambda>name.
     andthen (jget b ''url'') (\<lambda>url.
     andthen (summarise_cards now cards) (\<lambda>cs.
     andthen (summarise_actions actions) (\<lambda>as. Inr (JObj
       [(''id'', board_id), (''name'', name), (''url'', url), (''cards'', cs), (''actions'', as)]))))))"

fun trello_boards ::
  "'c trello_calls \<Rightarrow> ('c \<Rightarrow> rat) \<Rightarrow> rat \<Rightarrow> json list \<Rightarrow> json list \<times> json list \<times> json list
     \<Rightarrow> ('c, json list \<times> json list \<times> json list) call" where
  "trello_boards api tnow since [] acc = ret acc"
| "trello_boards api tnow since (b # bs) acc =
     chain (lift_result (jget b ''id'')) (\<lambda>board_id.
     if \<not> truth board_id then trello_boards api tnow since bs acc
     else chain (attempt (chain (tc_cards api board_id since) (\<lambda>cards.
                          chain (tc_actions api board_id since) (\<lambda>actions. ret (cards, actions)))))
       (\<lambda>r. case r of
          None \<Rightarrow> trello_boards api tnow since bs acc
        | Some (cards, actions) \<Rightarrow>
            chain (read_clock tnow) (\<lambda>now.
            chain (lift_result (board_row now b cards actions)) (\<lambda>row.
            case acc of (per_board, all_cards, all_actions) \<Rightarrow>
              trello_boards api tnow since bs (per_board @ [row], all_cards @ cards, all_actions @ actions)))))"

definition trello_metrics :: "nat \<Rightarrow> rat \<Rightarrow> json list \<times> json list \<times> json list \<Rightarrow> (py_error, json) result" where
  "trello_metrics boards now = (\<lambda>(per_board, all_cards, all_actions).
     andthen (summarise_cards now all_cards) (\<lambda>cs.
     andthen (summarise_actions all_actions) (\<lambda>as. Inr (JObj
       [(''boards'', ok_data (JObj [(''count'', jnat boards), (''items'', JList per_board)])),
        (''cards'', ok_data cs),
        (''actions'', ok_data as)]))))"

definition open_boards :: "json list \<Rightarrow> (py_error, json list) result" where
  "open_boards bs = filter_result (\<lambda>b. andthen (jget b ''closed'') (\<lambda>x. Inr (\<not> truth x))) bs"

definition run_sync_trello ::
  "'c trello_calls \<Rightarrow> ('c \<Rightarrow> rat) \<Rightarrow> int \<Rightarrow> 'c snap_world \<Rightarrow> (py_error, data_snapshot option) result \<times> 'c snap_world" where
  "run_sync_trello api tnow days =
     run_snapshot ''trello'' tnow days (\<lambda>i.
       chain (read_clock tnow) (\<lambda>start.
       chain (tc_open api i) (\<lambda>_.
       chain (attempt (chain (tc_boards api) (\<lambda>bs. lift_result (open_boards bs)))) (\<lambda>r.
       case r of
         None \<Rightarrow> ret None
       | Some boards \<Rightarrow>
           chain (trello_boards api tnow (start - 86400 * of_int days) (take 25 boards) ([], [], [])) (\<lambda>acc.
           chain (read_clock tnow) (\<lambda>now.
           chain (lift_result (trello_metrics (length boards) now acc)) (\<lambda>m. ret (Some m))))))))"

section \<open>Asana\<close>

definition task_overdue :: "int \<Rightarrow> json \<Rightarrow> json \<Rightarrow> bool" where
  "task_overdue today due completed \<longleftrightarrow>
     truth due \<and> \<not> truth completed
     \<and> (case due of JStr s \<Rightarrow> (case fromisoformat s of Some (d, _) \<Rightarrow> d < today | None \<Rightarrow> False) | _ \<Rightarrow> False)"

definition asana_task :: "int \<Rightarrow> json \<Rightarrow> nat \<times> nat \<Rightarrow> (py_error, nat \<times> nat) result" where
  "asana_task today task = (\<lambda>(completed, overdue).
     andthen (jget task ''completed'') (\<lambda>c.
     andthen (jget task ''due_on'') (\<lambda>due.
     Inr (if truth c then completed + 1 else completed,
          if task_overdue today due c then overdue + 1 else overdue))))"

definition summarise_tasks :: "rat \<Rightarrow> json list \<Rightarrow> (py_error, json) result" where
  "summarise_tasks now tasks =
     andthen (fold_result (asana_task (day_of now)) tasks (0, 0)) (\<lambda>(completed, overdue). Inr (JObj
       [(''total'', jnat (length tasks)),
        (''completed'', jnat completed),
        (''open'', jnat (length tasks - completed)),
        (''overdue'', jnat overdue)]))"

record 'c asana_calls =
  ac_open :: "integration \<Rightarrow> ('c, unit) call"
  ac_workspaces :: "('c, json list) call"
  ac_projects :: "json \<Rightarrow> nat \<Rightarrow> ('c, json list) call"
  ac_tasks :: "json \<Rightarrow> nat \<Rightarrow> ('c, json list) call"

fun asana_projects ::
  "'c asana_calls \<Rightarrow> ('c \<Rightarrow> rat) \<Rightarrow> json list \<Rightarrow> json list \<times> json list \<Rightarrow> ('c, json list \<times> json list) call" where
  "asana_projects api tnow [] acc = ret acc"
| "asana_projects api tnow (p # ps) acc =
     chain (lift_result (jget p ''gid'')) (\<lambda>p_gid.
     if \<not> truth p_gid then asana_projects api tnow ps acc
     else chain (attempt (ac_tasks api p_gid 100)) (\<lambda>r.
       case r of
         None \<Rightarrow> asana_projects api tnow ps acc
       | Some tasks \<Rightarrow>
           chain (read_clock tnow) (\<lambda>now.
           chain (lift_result (andthen (jget p ''name'') (\<lambda>name. andthen (summarise_tasks now tasks) (\<lambda>ts.
             Inr (JObj [(''gid'', p_gid), (''name'', name), (''tasks'', ts)]))))) (\<lambda>row.
           case acc of (per_project, all_tasks) \<Rightarrow>
             asana_projects api tnow ps (per_project @ [row], all_tasks @ tasks)))))"

fun asana_workspaces ::
  "'c asana_calls \<Rightarrow> ('c \<Rightarrow> rat) \<Rightarrow> json list \<Rightarrow> json list \<times> json list \<Rightarrow> ('c, json list \<times> json list) call" where
  "asana_workspaces api tnow [] acc = ret acc"
| "asana_workspaces api tnow (ws # wss) acc =
     chain (lift_result (jget ws ''gid'')) (\<lambda>ws_gid.
     if \<not> truth ws_gid then asana_workspaces api tnow wss acc
     else chain (attempt (ac_projects api ws_gid 50)) (\<lambda>r.
       case r of
         None \<Rightarrow> asana_workspaces api tnow wss acc
       | Some projects \<Rightarrow>
           chain (asana_projects api tnow (take 25 projects) acc) (\<lambda>acc. asana_workspaces api tnow wss acc)))"

definition asana_metrics :: "nat \<Rightarrow> rat \<Rightarrow> json list \<times> json list \<Rightarrow> (py_error, json) result" where
  "asana_metrics workspaces now = (\<lambda>(per_project, all_tasks).
     andthen (summarise_tasks now all_tasks) (\<lambda>ts. Inr (JObj
       [(''workspaces'', ok_data (JObj [(''count'', jnat workspaces)])),
        (''projects'', ok_data (JObj [(''count'', jnat (length per_project)), (''items'', JList (take 25 per_project))])),
        (''tasks'', ok_data ts)])))"

definition run_sync_asana ::
  "'c asana_calls \<Rightarrow> ('c \<Rightarrow> rat) \<Rightarrow> int \<Rightarrow> 'c snap_world \<Rightarrow> (py_error, data_snapshot option) result \<times> 'c snap_world" where
  "run_sync_asana api tnow days =
     run_snapshot ''asana'' tnow days (\<lambda>i.
       chain (ac_open api i) (\<lambda>_.
       chain (attempt (ac_workspaces api)) (\<lambda>r.
       case r of
         None \<Rightarrow> ret None
       | Some workspaces \<Rightarrow>
           chain (asana_workspaces api tnow (take 5 workspaces) ([], [])) (\<lambda>acc.
           chain (read_clock tnow) (\<lambda>now.
           chain (lift_result (asana_metrics (length workspaces) now acc)) (\<lambda>m. ret (Some m)))))))"

section \<open>Basecamp\<close>

record 'c basecamp_calls =
  bc_open :: "integration \<Rightarrow> ('c, unit) call"
  bc_projects :: "('c, json list) call"

definition basecamp_metrics :: "json list \<Rightarrow> (py_error, json) result" where
  "basecamp_metrics projects =
     andthen (filter_result (\<lambda>p. andthen (jget p ''status'') (\<lambda>s. Inr (s = JStr ''active''))) projects) (\<lambda>active.
     andthen (map_result (pick [(''id'', ''id''), (''name'', ''name''), (''status'', ''status'')]) (take 25 projects))
       (\<lambda>items. Inr (JObj
       [(''projects'', ok_data (JObj
          [(''total'', jnat (length projects)), (''active'', jnat (length active)), (''items'', JList items)]))])))"

definition run_sync_basecamp ::
  "'c basecamp_calls \<Rightarrow> ('c \<Rightarrow> rat) \<Rightarrow> int \<Rightarrow> 'c snap_world \<Rightarrow> (py_error, data_snapshot option) result \<times> 'c snap_world" where
  "run_sync_basecamp api tnow days =
     run_snapshot ''basecamp'' tnow days (\<lambda>i.
       chain (bc_open api i) (\<lambda>_. then_metrics (attempt (bc_projects api)) basecamp_metrics))"

section \<open>Caflou\<close>

text \<open>The total of a page: \<open>isinstance(v, int)\<close> holds of booleans, too.\<close>

fun count_keys :: "(string \<times> json) list \<Rightarrow> string list \<Rightarrow> int option" where
  "count_keys payload [] = None"
| "count_keys payload (k # ks) =
     (case as_number (dict_get payload k) of
        Some n \<Rightarrow> Some n
      | None \<Rightarrow>
          (case (case dict_get payload k of
                   JObj v \<Rightarrow> as_number (or_else (dict_get v ''total'') (dict_get v ''totalCount''))
                 | _ \<Rightarrow> None) of
             Some n \<Rightarrow> Some n
           | None \<Rightarrow> count_keys payload ks))"

fun caflou_count :: "json \<Rightarrow> int" where
  "caflou_count (JObj payload) =
     (case count_keys payload [''total'', ''totalCount'', ''meta''] of
        Some n \<Rightarrow> n
      | None \<Rightarrow>
          (case or_else (dict_get payload ''data'') (dict_get payload ''items'') of
             JList xs \<Rightarrow> int (length xs) | _ \<Rightarrow> 0))"
| "caflou_count (JList xs) = int (length xs)"
| "caflou_count _ = 0"

record 'c caflou_calls =
  cc_open :: "integration \<Rightarrow> ('c, unit) call"
  cc_companies :: "nat \<Rightarrow> ('c, json) call"
  cc_projects :: "nat \<Rightarrow> ('c, json) call"
  cc_tasks :: "nat \<Rightarrow> ('c, json) call"
  cc_invoices :: "nat \<Rightarrow> ('c, json) call"
  cc_timesheets :: "nat \<Rightarrow> ('c, json) call"

definition caflou_metrics :: "json \<times> json \<times> json \<times> json \<times> json \<Rightarrow> (py_error, json) result" where
  "caflou_metrics = (\<lambda>(companies, projects, tasks, invs, timesheets).
     let total = (\<lambda>v. ok_data (JObj [(''total'', JInt (caflou_count v))]))
     in Inr (JObj [(''companies'', total companies), (''projects'', total projects), (''tasks'', total tasks),
          (''invoices'', total invs), (''timesheets'', total timesheets)]))"

definition run_sync_caflou ::
  "'c caflou_calls \<Rightarrow> ('c \<Rightarrow> rat) \<Rightarrow> int \<Rightarrow> 'c snap_world \<Rightarrow> (py_error, data_snapshot option) result \<times> 'c snap_world" where
  "run_sync_caflou api tnow days =
     run_snapshot ''caflou'' tnow days (\<lambda>i.
       chain (cc_open api i) (\<lambda>_.
       then_metrics
         (attempt
           (chain (cc_companies api 1) (\<lambda>companies.
            chain (cc_projects api 1) (\<lambda>projects.
            chain (cc_tasks api 1) (\<lambda>tasks.
            chain (cc_invoices api 1) (\<lambda>invs.
            chain (cc_timesheets api 1) (\<lambda>timesheets.
            ret (companies, projects, tasks, invs, timesheets))))))))
         caflou_metrics))"

section \<open>Jira\<close>

record 'c jira_calls =
  jc_open :: "integration \<Rightarrow> ('c, unit) call"
  jc_projects :: "('c, json list) call"
  jc_search :: "string \<Rightarrow> nat \<Rightarrow> ('c, json) call"

definition jira_issue :: "json \<Rightarrow> (py_error, json) result" where
  "jira_issue i =
     andthen (jget i ''key'') (\<lambda>key.
     andthen (get_or i ''fields'' (JObj [])) (\<lambda>f.
     andthen (jget f ''summary'') (\<lambda>summary.
     andthen (get_or f ''status'' (JObj [])) (\<lambda>s.
     andthen (jget s ''name'') (\<lambda>status.
     Inr (JObj [(''key'', key), (''summary'', summary), (''status'', status)]))))))"

definition int_total :: "json \<Rightarrow> (py_error, json) result" where
  "int_total v = andthen (get_or v ''total'' (JInt 0)) (\<lambda>x. andthen (py_int x) (\<lambda>n. Inr (JInt n)))"

definition jira_metrics :: "int \<Rightarrow> json list \<times> json \<times> json \<times> json \<Rightarrow> (py_error, json) result" where
  "jira_metrics days = (\<lambda>(projects, recent, open_issues, done_issues).
     andthen (get_or recent ''issues'' (JList [])) (\<lambda>v.
     andthen (jiter v) (\<lambda>issues.
     andthen (map_result (pick [(''key'', ''key''), (''name'', ''name'')]) (take 25 projects)) (\<lambda>ps.
     andthen (int_total recent) (\<lambda>recently_updated.
     andthen (int_total open_issues) (\<lambda>open_total.
     andthen (int_total done_issues) (\<lambda>done_window.
     andthen (map_result jira_issue (take 20 issues)) (\<lambda>sample. Inr (JObj
       [(''projects'', ok_data (JObj [(''count'', jnat (length projects)), (''items'', JList ps)])),
        (''issues'', ok_data (JObj
          [(''recently_updated'', recently_updated), (''open_total'', open_total),
           (''done_window'', done_window), (''window_days'', JInt days), (''sample'', JList sample)]))])))))))))"

definition run_sync_jira ::
  "'c jira_calls \<Rightarrow> ('c \<Rightarrow> rat) \<Rightarrow> int \<Rightarrow> 'c snap_world \<Rightarrow> (py_error, data_snapshot option) result \<times> 'c snap_world" where
  "run_sync_jira api tnow days =
     run_snapshot ''jira'' tnow days (\<lambda>i.
       chain (jc_open api i) (\<lambda>_.
       then_metrics
         (attempt
           (chain (jc_projects api) (\<lambda>projects.
            chain (jc_search api (''updated >= -'' @ show_int days @ ''d ORDER BY updated DESC'') 200) (\<lambda>recent.
            chain (jc_search api ''statusCategory != Done'' 1) (\<lambda>open_issues.
            chain (jc_search api (''statusCategory = Done AND resolved >= -'' @ show_int days @ ''d'') 1) (\<lambda>done_issues.
            ret (projects, recent, open_issues, done_issues)))))))
         (jira_metrics days)))"

end
