(* ===== verification/OfficeSync.thy ===== *)
theory OfficeSync
  imports WorkSync
begin

text \<open>
  The remaining snapshot syncs: \<open>sync.py\<close> of \<open>microsoft365\<close>, \<open>slack\<close>, \<open>calendly\<close> and \<open>fapi\<close>.
  Microsoft 365 catches the failure of each of its four calls and goes on with an empty list. Slack
  catches nothing.
\<close>

section \<open>Microsoft 365\<close>

definition m365_message :: "json \<Rightarrow> (json \<times> nat) list \<times> nat \<Rightarrow> (py_error, (json \<times> nat) list \<times> nat) result" where
  "m365_message m = (\<lambda>(senders, unread).
     andthen (get_or m ''from'' (JObj [])) (\<lambda>f.
     andthen (get_or f ''emailAddress'' (JObj [])) (\<lambda>e.
     andthen (get_or e ''address'' (JStr [])) (\<lambda>sender.
     andthen (if truth sender then hashed sender else Inr sender) (\<lambda>sender.
     andthen (jget_default m ''isRead'' (JBool True)) (\<lambda>is_read.
     Inr (if truth sender then bump sender senders else senders,
          if truth is_read then unread else unread + 1)))))))"

text \<open>\<open>counter.most_common(n)\<close>: by falling count, ties in the order of first occurrence.\<close>

definition most_common :: "nat \<Rightarrow> ('k \<times> nat) list \<Rightarrow> ('k \<times> nat) list" where
  "most_common n c = take n (sort_key (\<lambda>(_, k). - int k) c)"

definition summarise_messages :: "json list \<Rightarrow> (py_error, json) result" where
  "summarise_messages messages =
     andthen (fold_result m365_message messages ([], 0)) (\<lambda>(senders, unread). Inr (JObj
       [(''total'', jnat (length messages)),
        (''unread'', jnat unread),
        (''unique_senders'', jnat (length senders)),
        (''top_senders'', JList (map (\<lambda>(s, n). JList [s, jnat n]) (most_common 5 senders)))]))"

record 'c m365_calls =
  oc_open :: "integration \<Rightarrow> ('c, unit) call"
  oc_messages :: "nat \<Rightarrow> ('c, json list) call"
  oc_events :: "int \<Rightarrow> ('c, json list) call"
  oc_drive :: "nat \<Rightarrow> ('c, json list) call"
  oc_teams :: "('c, json list) call"

definition drive_item :: "json \<Rightarrow> (py_error, json) result" where
  "drive_item d =
     andthen (jget d ''name'') (\<lambda>name.
     andthen (jget d ''size'') (\<lambda>sz.
     Inr (JObj [(''name'', name), (''size'', sz),
       (''folder'', JBool (case d of JObj kvs \<Rightarrow> map_of kvs ''folder'' \<noteq> None | _ \<Rightarrow> False))])))"

definition m365_metrics :: "int \<Rightarrow> json list \<times> json list \<times> json list \<times> json list \<Rightarrow> (py_error, json) result" where
  "m365_metrics days = (\<lambda>(messages, events, drive, teams).
     andthen (summarise_messages messages) (\<lambda>mail.
     andthen (map_result drive_item (take 25 drive)) (\<lambda>ds.
     andthen (map_result (pick [(''id'', ''id''), (''name'', ''displayName'')]) (take 25 teams)) (\<lambda>ts. Inr (JObj
       [(''mail'', ok_data mail),
        (''calendar'', ok_data (JObj [(''upcoming_events'', jnat (length events)), (''window_days'', JInt days)])),
        (''onedrive'', ok_data (JObj [(''root_count'', jnat (length drive)), (''items'', JList ds)])),
        (''teams'', ok_data (JObj [(''count'', jnat (length teams)), (''items'', JList ts)]))])))))"

definition run_sync_microsoft365 ::
  "'c m365_calls \<Rightarrow> ('c \<Rightarrow> rat) \<Rightarrow> int \<Rightarrow> 'c snap_world \<Rightarrow> (py_error, data_snapshot option) result \<times> 'c snap_world" where
  "run_sync_microsoft365 api tnow days =
     run_snapshot ''microsoft365'' tnow days (\<lambda>i.
       chain (oc_open api i) (\<lambda>_.
       chain (catching [] (oc_messages api 100)) (\<lambda>messages.
       chain (catching [] (oc_events api days)) (\<lambda>events.
       chain (catching [] (oc_drive api 50)) (\<lambda>drive.
       chain (catching [] (oc_teams api)) (\<lambda>teams.
       chain (lift_result (m365_metrics days (messages, events, drive, teams))) (\<lambda>m. ret (Some m))))))))"

section \<open>Slack\<close>

record 'c slack_calls =
  sl_channels :: "('c, json list) call"
  sl_messages :: "json \<Rightarrow> rat \<Rightarrow> ('c, json list) call"
  sl_users :: "('c, json list) call"

definition slack_channel_row :: "json \<Rightarrow> (py_error, json) result" where
  "slack_channel_row c =
     andthen (jget c ''id'') (\<lambda>i.
     andthen (jget c ''name'') (\<lambda>name.
     andthen (jget_default c ''num_members'' (JInt 0)) (\<lambda>n.
     andthen (jget_default c ''is_private'' (JBool False)) (\<lambda>p.
     Inr (JObj [(''id'', i), (''name'', name), (''num_members'', n), (''is_private'', p)])))))"

definition sync_channels :: "'c slack_calls \<Rightarrow> ('c, json list) call" where
  "sync_channels api = chain (sl_channels api) (\<lambda>cs. lift_result (map_result slack_channel_row cs))"

text \<open>The users of a channel's messages, a set, and the number of messages in threads.\<close>

definition slack_message_step :: "json \<Rightarrow> json list \<times> nat \<Rightarrow> (py_error, json list \<times> nat) result" where
  "slack_message_step m = (\<lambda>(users, threads).
     andthen (jget m ''user'') (\<lambda>u.
     andthen (if truth u then hashed u else Inr u) (\<lambda>u.
     andthen (jget m ''thread_ts'') (\<lambda>t.
     Inr (if truth u then List.insert u users else users, if truth t then threads + 1 else threads)))))"

fun jstrings :: "json list \<Rightarrow> string list" where
  "jstrings [] = []"
| "jstrings (JStr s # vs) = s # jstrings vs"
| "jstrings (_ # vs) = jstrings vs"

text \<open>The loop's \<open>per_channel\<close> (keys rendered as strings), \<open>active_users\<close> and \<open>total\<close>.\<close>

fun slack_channels ::
  "'c slack_calls \<Rightarrow> rat \<Rightarrow> json list \<Rightarrow> (string \<times> json) list \<times> string list \<times> nat
     \<Rightarrow> ('c, (string \<times> json) list \<times> string list \<times> nat) call" where
  "slack_channels api oldest [] acc = ret acc"
| "slack_channels api oldest (ch # chs) acc =
     chain (lift_result (jget ch ''id'')) (\<lambda>channel_id.
     if \<not> truth channel_id then slack_channels api oldest chs acc
     else chain (sl_messages api channel_id oldest) (\<lambda>messages.
          chain (lift_result (fold_result slack_message_step messages ([], 0))) (\<lambda>(users, threads).
          chain (lift_result (get_or ch ''name'' channel_id)) (\<lambda>name.
          case acc of (per_channel, active, seen) \<Rightarrow>
            slack_channels api oldest chs
              (AList.update (py_str name) (JObj [(''count'', jnat (length messages)),
                  (''unique_users'', jnat (length users)), (''thread_count'', jnat threads)]) per_channel,
               fold List.insert (jstrings users) active, seen + length messages)))))"

definition sync_messages :: "'c slack_calls \<Rightarrow> ('c \<Rightarrow> rat) \<Rightarrow> json list \<Rightarrow> int \<Rightarrow> ('c, json) call" where
  "sync_messages api tnow channels days =
     chain (read_clock tnow) (\<lambda>now.
     chain (slack_channels api (now - 86400 * of_int days) channels ([], [], 0)) (\<lambda>(per_channel, active, total).
     ret (JObj [(''total_messages'', jnat total), (''active_users'', jnat (length active)),
       (''per_channel'', JObj per_channel), (''window_days'', JInt days)])))"

definition human :: "json \<Rightarrow> (py_error, bool) result" where
  "human u = andthen (jget u ''is_bot'') (\<lambda>b. andthen (jget u ''deleted'') (\<lambda>d. Inr (\<not> truth b \<and> \<not> truth d)))"

definition sync_users :: "'c slack_calls \<Rightarrow> ('c, json) call" where
  "sync_users api =
     chain (sl_users api) (\<lambda>users.
     chain (lift_result (filter_result human users)) (\<lambda>humans.
     ret (JObj [(''total'', jnat (length users)), (''humans'', jnat (length humans)),
       (''bots'', jnat (length users - length humans))])))"

definition run_sync_slack ::
  "'c slack_calls \<Rightarrow> ('c \<Rightarrow> rat) \<Rightarrow> int \<Rightarrow> 'c snap_world \<Rightarrow> (py_error, data_snapshot option) result \<times> 'c snap_world" where
  "run_sync_slack api tnow days =
     run_snapshot ''slack'' tnow days (\<lambda>i.
       chain (sync_channels api) (\<lambda>channels.
       chain (sync_messages api tnow channels days) (\<lambda>messages.
       chain (sync_users api) (\<lambda>users.
       ret (Some (JObj
         [(''channels'', ok_data (JObj [(''items'', JList channels), (''count'', jnat (length channels))])),
          (''messages'', ok_data messages),
          (''users'', ok_data users)]))))))"

section \<open>Calendly\<close>

definition calendly_event :: "rat \<Rightarrow> json \<Rightarrow> (string \<times> nat) list \<times> nat \<Rightarrow> (py_error, (string \<times> nat) list \<times> nat) result" where
  "calendly_event now e = (\<lambda>(by_status, upcoming).
     andthen (get_or e ''status'' (JStr ''unknown'')) (\<lambda>st.
     andthen (jget e ''start_time'') (\<lambda>start.
     Inr (bump (py_str st) by_status,
          if (case start of JStr s \<Rightarrow> s \<noteq> [] \<and> (case iso_instant (zulu s) of Some t \<Rightarrow> now < t | None \<Rightarrow> False) | _ \<Rightarrow> False)
          then upcoming + 1 else upcoming))))"

definition summarise_events :: "rat \<Rightarrow> json list \<Rightarrow> (py_error, json) result" where
  "summarise_events now events =
     andthen (fold_result (calendly_event now) events ([], 0)) (\<lambda>(by_status, upcoming). Inr (JObj
       [(''total'', jnat (length events)), (''upcoming'', jnat upcoming), (''by_status'', jcounter by_status)]))"

record 'c calendly_calls =
  yc_open :: "integration \<Rightarrow> ('c, unit) call"
  yc_event_types :: "('c, json list) call"
  yc_events :: "int \<Rightarrow> ('c, json list) call"

definition run_sync_calendly ::
  "'c calendly_calls \<Rightarrow> ('c \<Rightarrow> rat) \<Rightarrow> int \<Rightarrow> 'c snap_world \<Rightarrow> (py_error, data_snapshot option) result \<times> 'c snap_world" where
  "run_sync_calendly api tnow days =
     run_snapshot ''calendly'' tnow days (\<lambda>i.
       chain (yc_open api i) (\<lambda>_.
       chain (attempt (chain (yc_event_types api) (\<lambda>types. chain (yc_events api days) (\<lambda>events. ret (types, events))))) (\<lambda>r.
       case r of
         None \<Rightarrow> ret None
       | Some (types, events) \<Rightarrow>
           chain (read_clock tnow) (\<lambda>now.
           chain (lift_result (summarise_events now events)) (\<lambda>es.
           ret (Some (JObj [(''event_types'', ok_data (JObj [(''count'', jnat (length types))])),
             (''events'', ok_data es)])))))))"

section \<open>FAPI\<close>

definition fapi_invoice_step ::
  "json \<Rightarrow> (string \<times> nat) list \<times> rat \<times> rat \<Rightarrow> (py_error, (string \<times> nat) list \<times> rat \<times> rat) result" where
  "fapi_invoice_step iv = (\<lambda>(by_status, total, paid).
     andthen (jget iv ''paid_status'') (\<lambda>a.
     andthen (jget iv ''status'') (\<lambda>b.
     let status = py_str (or_else (or_else a b) (JStr ''open''))
     in andthen (jget iv ''price_total_with_vat'') (\<lambda>p.
        andthen (jget iv ''amount'') (\<lambda>q.
        andthen (py_float (or_else (or_else p q) (JInt 0))) (\<lambda>amount.
        Inr (bump status by_status, total + amount,
             if status \<in> {''paid'', ''Zaplaceno'', ''Paid''} then paid + amount else paid)))))))"

definition summarise_invoices :: "json list \<Rightarrow> (py_error, json) result" where
  "summarise_invoices invs =
     andthen (fold_result fapi_invoice_step invs ([], 0, 0)) (\<lambda>(by_status, total, paid). Inr (JObj
       [(''count'', jnat (length invs)), (''by_status'', jcounter by_status),
        (''total_with_vat'', jfloat (py_round 2 total)), (''paid_with_vat'', jfloat (py_round 2 paid))]))"

fun items_list :: "json \<Rightarrow> (py_error, json list) result" where
  "items_list (JList xs) = Inr xs"
| "items_list (JObj kvs) = jiter (or_else (or_else (dict_get kvs ''items'') (dict_get kvs ''data'')) (JList []))"
| "items_list _ = Inr []"

record 'c fapi_calls =
  fa_open :: "integration \<Rightarrow> ('c, unit) call"
  fa_invoices :: "nat \<Rightarrow> ('c, json) call"
  fa_clients :: "nat \<Rightarrow> ('c, json) call"
  fa_vouchers :: "nat \<Rightarrow> ('c, json) call"

text \<open>\<open>int(raw.get("count") or 0 if isinstance(raw, dict) else len(_items_list(raw)))\<close>\<close>

fun client_total :: "json \<Rightarrow> (py_error, int) result" where
  "client_total (JObj kvs) = py_int (or_else (dict_get kvs ''count'') (JInt 0))"
| "client_total v = andthen (items_list v) (\<lambda>xs. Inr (int (length xs)))"

definition fapi_metrics :: "json \<times> json \<times> json \<Rightarrow> (py_error, json) result" where
  "fapi_metrics = (\<lambda>(invoices_raw, clients_raw, vouchers_raw).
     andthen (items_list invoices_raw) (\<lambda>invs.
     andthen (items_list vouchers_raw) (\<lambda>vouchers.
     andthen (summarise_invoices invs) (\<lambda>is.
     andthen (client_total clients_raw) (\<lambda>n. Inr (JObj
       [(''invoices'', ok_data is), (''clients'', ok_data (JObj [(''total'', JInt n)])),
        (''vouchers'', ok_data (JObj [(''count'', jnat (length vouchers))]))]))))))"

definition run_sync_fapi ::
  "'c fapi_calls \<Rightarrow> ('c \<Rightarrow> rat) \<Rightarrow> int \<Rightarrow> 'c snap_world \<Rightarrow> (py_error, data_snapshot option) result \<times> 'c snap_world" where
  "run_sync_fapi api tnow days =
     run_snapshot ''fapi'' tnow days (\<lambda>i.
       chain (fa_open api i) (\<lambda>_.
       then_metrics
         (attempt
           (chain (fa_invoices api 500) (\<lambda>invs.
            chain (fa_clients api 1) (\<lambda>clients.
            chain (fa_vouchers api 100) (\<lambda>vouchers.
            ret (invs, clients, vouchers))))))
         fapi_metrics))"

end
