(* ===== verification/SyncTasks.thy ===== *)
theory SyncTasks
  imports PipelineVelocity MarketingSync OfficeSync
begin

text \<open>
  The Celery tasks around the snapshot syncs, \<open>connectors/<name>/tasks.py\<close>: \<open>sync_account\<close> runs one
  \<open>run_sync\<close> in the schema of one tenant, \<open>dispatch\<close> enqueues it for the tenants that have the
  integration. The locale \<open>snapshot_sync\<close> is what a worker that runs such jobs relies on, and
  \<open>checked_sync\<close> adds a property of the metrics; the sixteen connectors are interpreted as one family.
\<close>

section \<open>The sixteen syncs\<close>

datatype connector =
  Pipedrive | Hubspot | Salesforce | Raynet | Trello | Asana | Basecamp | Caflou | Jira | Ecomail
| Mailchimp | Smartemailing | Microsoft365 | Slack | Calendly | Fapi

record 'c connector_calls =
  pipedrive_api :: "'c pipedrive_calls"
  hubspot_api :: "'c hubspot_calls"
  salesforce_api :: "'c salesforce_calls"
  raynet_api :: "'c raynet_calls"
  trello_api :: "'c trello_calls"
  asana_api :: "'c asana_calls"
  basecamp_api :: "'c basecamp_calls"
  caflou_api :: "'c caflou_calls"
  jira_api :: "'c jira_calls"
  ecomail_api :: "'c ecomail_calls"
  mailchimp_api :: "'c mailchimp_calls"
  smartemailing_api :: "'c smartemailing_calls"
  microsoft365_api :: "'c m365_calls"
  slack_api_calls :: "'c slack_calls"
  calendly_api :: "'c calendly_calls"
  fapi_api_calls :: "'c fapi_calls"

fun provider_of :: "connector \<Rightarrow> string" where
  "provider_of Pipedrive = ''pipedrive''"
| "provider_of Hubspot = ''hubspot''"
| "provider_of Salesforce = ''salesforce''"
| "provider_of Raynet = ''raynet''"
| "provider_of Trello = ''trello''"
| "provider_of Asana = ''asana''"
| "provider_of Basecamp = ''basecamp''"
| "provider_of Caflou = ''caflou''"
| "provider_of Jira = ''jira''"
| "provider_of Ecomail = ''ecomail''"
| "provider_of Mailchimp = ''mailchimp''"
| "provider_of Smartemailing = ''smartemailing''"
| "provider_of Microsoft365 = ''microsoft365''"
| "provider_of Slack = ''slack''"
| "provider_of Calendly = ''calendly''"
| "provider_of Fapi = ''fapi''"

fun run_sync ::
  "'c connector_calls \<Rightarrow> ('c \<Rightarrow> rat) \<Rightarrow> connector \<Rightarrow> int \<Rightarrow> 'c snap_world
     \<Rightarrow> (py_error, data_snapshot option) result \<times> 'c snap_world" where
  "run_sync a tnow Pipedrive = run_sync_pipedrive (pipedrive_api a) tnow"
| "run_sync a tnow Hubspot = run_sync_hubspot (hubspot_api a) tnow"
| "run_sync a tnow Salesforce = run_sync_salesforce (salesforce_api a) tnow"
| "run_sync a tnow Raynet = run_sync_raynet (raynet_api a) tnow"
| "run_sync a tnow Trello = run_sync_trello (trello_api a) tnow"
| "run_sync a tnow Asana = run_sync_asana (asana_api a) tnow"
| "run_sync a tnow Basecamp = run_sync_basecamp (basecamp_api a) tnow"
| "run_sync a tnow Caflou = run_sync_caflou (caflou_api a) tnow"
| "run_sync a tnow Jira = run_sync_jira (jira_api a) tnow"
| "run_sync a tnow Ecomail = run_sync_ecomail (ecomail_api a) tnow"
| "run_sync a tnow Mailchimp = run_sync_mailchimp (mailchimp_api a) tnow"
| "run_sync a tnow Smartemailing = run_sync_smartemailing (smartemailing_api a) tnow"
| "run_sync a tnow Microsoft365 = run_sync_microsoft365 (microsoft365_api a) tnow"
| "run_sync a tnow Slack = run_sync_slack (slack_api_calls a) tnow"
| "run_sync a tnow Calendly = run_sync_calendly (calendly_api a) tnow"
| "run_sync a tnow Fapi = run_sync_fapi (fapi_api_calls a) tnow"

section \<open>The tasks\<close>

record tenant_row =
  schema_name :: string
  tenant_is_active :: bool

text \<open>
  \<open>sync_account\<close>: the tables of every schema, the one of the task's tenant replaced; its result is
  the primary key of the snapshot, or 0.
\<close>

definition sync_account ::
  "'c connector_calls \<Rightarrow> ('c \<Rightarrow> rat) \<Rightarrow> connector \<Rightarrow> string \<Rightarrow> int \<Rightarrow> (string \<Rightarrow> 'c snap_world)
     \<Rightarrow> (py_error, nat) result \<times> (string \<Rightarrow> 'c snap_world)" where
  "sync_account a tnow k schema days ws =
     (case run_sync a tnow k days (ws schema) of
        (r, w) \<Rightarrow> (andthen r (\<lambda>s. Inr (case s of Some snap \<Rightarrow> snap_id snap | None \<Rightarrow> 0)), ws(schema := w)))"

text \<open>\<open>dispatch\<close>: the schemas it enqueues \<open>sync_account\<close> for.\<close>

definition dispatch :: "connector \<Rightarrow> tenant_row list \<Rightarrow> (string \<Rightarrow> 'c snap_world) \<Rightarrow> string list" where
  "dispatch k tenants ws =
     filter (\<lambda>schema. active_integration (provider_of k) (integrations (ws schema)) \<noteq> None)
       (map schema_name (filter (\<lambda>t. tenant_is_active t \<and> schema_name t \<noteq> ''public'') tenants))"

text \<open>A worker runs jobs, each a connector and a number of days, one after the other.\<close>

fun run_jobs :: "('j \<Rightarrow> int \<Rightarrow> 'w \<Rightarrow> 'r \<times> 'w) \<Rightarrow> ('j \<times> int) list \<Rightarrow> 'w \<Rightarrow> 'r list \<times> 'w" where
  "run_jobs run [] w = ([], w)"
| "run_jobs run ((j, days) # jobs) w =
     (case run j days w of (r, w1) \<Rightarrow> case run_jobs run jobs w1 of (rs, w2) \<Rightarrow> (r # rs, w2))"

lemma run_jobs_invariant:
  assumes "run_jobs run jobs w = (rs, w')" "P w"
    and step: "\<And>j days w r w1. run j days w = (r, w1) \<Longrightarrow> P w \<Longrightarrow> P w1"
  shows "P w'"
  using assms(1,2)
proof (induction jobs arbitrary: w rs)
  case (Cons jd jobs)
  obtain j days where jd: "jd = (j, days)" by (cases jd)
  obtain r w1 rs' where r: "run j days w = (r, w1)" "run_jobs run jobs w1 = (rs', w')"
    using Cons.prems(1) unfolding jd by (auto split: prod.splits)
  from Cons.IH[OF r(2) step[OF r(1) Cons.prems(2)]] show ?case .
qed simp

section \<open>What a worker relies on\<close>

text \<open>The snapshots a list of results holds.\<close>

fun produced :: "(py_error, data_snapshot option) result list \<Rightarrow> data_snapshot list" where
  "produced [] = []"
| "produced (Inr (Some s) # rs) = s # produced rs"
| "produced (_ # rs) = produced rs"

text \<open>
  The state invariant: keys are unique, and an integration that says when it last synced has a
  snapshot of its source to show for it, inserted just then: \<open>last_sync_at\<close> is the reading after the insert.
\<close>

definition snap_ok :: "'c snap_world \<Rightarrow> bool" where
  "snap_ok w \<longleftrightarrow>
     distinct (map snap_id (snapshots w)) \<and> distinct (map integration_id (integrations w))
     \<and> (\<forall>i \<in> set (integrations w). \<forall>t. last_sync_at i = Some t \<longrightarrow>
          (\<exists>s \<in> set (snapshots w). snap_source s = integration_provider i
             \<and> t = snap_created_at s + insert_time w (snap_id s)))"

lemma stamp_sync_simps [simp]:
  "map integration_id (stamp_sync k t rows) = map integration_id rows"
  "map integration_provider (stamp_sync k t rows) = map integration_provider rows"
  by (simp_all add: stamp_sync_def)

lemma active_integrationD:
  "active_integration source rows = Some i \<Longrightarrow> i \<in> set rows \<and> integration_provider i = source"
  by (auto simp: active_integration_def find_Some_iff)

lemma same_id: "distinct (map f xs) \<Longrightarrow> x \<in> set xs \<Longrightarrow> y \<in> set xs \<Longrightarrow> f x = f y \<Longrightarrow> x = y"
  by (auto simp: distinct_map inj_on_def)

locale snapshot_sync =
  fixes run :: "'j \<Rightarrow> int \<Rightarrow> 'c snap_world \<Rightarrow> (py_error, data_snapshot option) result \<times> 'c snap_world"
    and source_of :: "'j \<Rightarrow> string"
    and tnow :: "'c \<Rightarrow> rat"
  assumes contract: "run j days w = (r, w') \<Longrightarrow> snapshot_contract (source_of j) tnow days r w w'"
begin

lemma job_snapshots:
  assumes "run j days w = (r, w')"
  shows "snapshots w' = snapshots w @ produced [r]"
    and "map integration_provider (integrations w') = map integration_provider (integrations w)"
  using contract[OF assms]
  by (auto simp: snapshot_contract_def split: sum.splits option.splits)

lemma job_ok:
  assumes "run j days w = (r, w')" "snap_ok w"
  shows "snap_ok w'"
proof (cases "\<exists>snap. r = Inr (Some snap)")
  case False
  then have "snapshots w' = snapshots w" "integrations w' = integrations w" "insert_time w' = insert_time w"
    using contract[OF assms(1)] by (auto simp: snapshot_contract_def split: sum.splits option.splits)
  with assms(2) show ?thesis by (simp add: snap_ok_def)
next
  case True
  then obtain snap i where s: "r = Inr (Some snap)" "active_integration (source_of j) (integrations w) = Some i"
      "snapshots w' = snapshots w @ [snap]" "snap_source snap = source_of j"
      "snap_id snap \<notin> snap_id ` set (snapshots w)"
      "integrations w' = stamp_sync (integration_id i) (snap_created_at snap + insert_time w (snap_id snap)) (integrations w)"
      "insert_time w' = insert_time w"
    using contract[OF assms(1)] by (auto simp: snapshot_contract_def)
  note i = active_integrationD[OF s(2)]
  have ids: "distinct (map integration_id (integrations w))" using assms(2) by (simp add: snap_ok_def)
  have "\<exists>s \<in> set (snapshots w'). snap_source s = integration_provider k \<and> t = snap_created_at s + insert_time w' (snap_id s)"
    if "k \<in> set (integrations w')" "last_sync_at k = Some t" for k t
  proof -
    from that(1) obtain k0 where k0: "k0 \<in> set (integrations w)"
        "k = (if integration_id k0 = integration_id i then k0\<lparr>last_sync_at := Some (snap_created_at snap + insert_time w (snap_id snap))\<rparr> else k0)"
      by (auto simp: s(6) stamp_sync_def)
    show ?thesis
    proof (cases "integration_id k0 = integration_id i")
      case True
      then have "k0 = i" using same_id[OF ids k0(1)] i by blast
      with k0(2) that(2) i s(3,4,7) show ?thesis by auto
    next
      case False
      with k0 that(2) assms(2) s(3,7) show ?thesis by (auto simp: snap_ok_def)
    qed
  qed
  moreover have "distinct (map snap_id (snapshots w'))" "distinct (map integration_id (integrations w'))"
    using assms(2) s(3,5,6) by (auto simp: snap_ok_def)
  ultimately show ?thesis unfolding snap_ok_def by blast
qed

lemma jobs_snapshots: "run_jobs run jobs w = (rs, w') \<Longrightarrow> snapshots w' = snapshots w @ produced rs"
proof (induction jobs arbitrary: w rs)
  case (Cons jd jobs)
  obtain j days where jd: "jd = (j, days)" by (cases jd)
  obtain r w1 rs' where r: "run j days w = (r, w1)" "run_jobs run jobs w1 = (rs', w')" "rs = r # rs'"
    using Cons.prems unfolding jd by (auto split: prod.splits)
  have "produced (r # rs') = produced [r] @ produced rs'"
    by (cases r; cases "projr r") auto
  with job_snapshots(1)[OF r(1)] Cons.IH[OF r(2)] r(3) show ?case by simp
qed simp

lemma jobs_ok: "run_jobs run jobs w = (rs, w') \<Longrightarrow> snap_ok w \<Longrightarrow> snap_ok w'"
  by (erule run_jobs_invariant) (auto dest: job_ok)

lemma job_source:
  "run j days w = (Inr (Some s), w') \<Longrightarrow> snap_source s = source_of j
     \<and> snap_period_start s = snap_period_end s - days"
  by (drule contract) (auto simp: snapshot_contract_def)

end

text \<open>A family whose snapshots satisfy \<open>good\<close>, by source.\<close>

locale checked_sync = snapshot_sync +
  fixes good :: "string \<Rightarrow> json \<Rightarrow> bool"
  assumes metrics: "run j days w = (Inr (Some s), w') \<Longrightarrow> good (snap_source s) (snap_metrics s)"
begin

lemma jobs_good:
  assumes "run_jobs run jobs w = (rs, w')" "\<forall>s \<in> set (snapshots w). good (snap_source s) (snap_metrics s)"
  shows "\<forall>s \<in> set (snapshots w'). good (snap_source s) (snap_metrics s)"
proof (rule run_jobs_invariant[OF assms(1), where P = "\<lambda>w. \<forall>s \<in> set (snapshots w). good (snap_source s) (snap_metrics s)"])
  fix j days w1 r w2
  assume job: "run j days w1 = (r, w2)" "\<forall>s \<in> set (snapshots w1). good (snap_source s) (snap_metrics s)"
  have "\<forall>s \<in> set (produced [r]). good (snap_source s) (snap_metrics s)"
    using metrics job(1) by (cases r; cases "projr r") auto
  with job(2) job_snapshots(1)[OF job(1)]
  show "\<forall>s \<in> set (snapshots w2). good (snap_source s) (snap_metrics s)" by auto
qed (rule assms(2))

end

section \<open>The sixteen connectors are such a family\<close>

lemmas run_sync_defs =
  run_sync_pipedrive_def run_sync_hubspot_def run_sync_salesforce_def run_sync_raynet_def
  run_sync_trello_def run_sync_asana_def run_sync_basecamp_def run_sync_caflou_def run_sync_jira_def
  run_sync_ecomail_def run_sync_mailchimp_def run_sync_smartemailing_def run_sync_microsoft365_def
  run_sync_slack_def run_sync_calendly_def run_sync_fapi_def

lemma run_sync_contract:
  "run_sync a tnow k days w = (r, w') \<Longrightarrow> snapshot_contract (provider_of k) tnow days r w w'"
  by (cases k) (simp_all add: run_sync_defs run_snapshot_contract)

text \<open>What a CRM snapshot holds comes from the metrics of its connector.\<close>

definition crm_good :: "string \<Rightarrow> json \<Rightarrow> bool" where
  "crm_good source m \<longleftrightarrow> (source \<in> set crm_sources \<longrightarrow> synced source m)"

lemma crm_synced:
  assumes "run_snapshot source tnow days
      (\<lambda>i. chain (opn i) (\<lambda>_. then_metrics gathered compute)) w = (Inr (Some s), w')"
  shows "snap_source s = source \<and> (\<exists>d. compute d = Inr (snap_metrics s))"
  by (rule run_snapshot_Some[OF assms]) (auto simp: chain_Inr_iff then_metrics_Some)

lemma run_sync_metrics:
  assumes "run_sync a tnow k days w = (Inr (Some s), w')"
  shows "crm_good (snap_source s) (snap_metrics s)"
proof -
  have src: "snap_source s = provider_of k"
    using run_sync_contract[OF assms] by (auto simp: snapshot_contract_def)
  show ?thesis
  proof (cases k)
    case Pipedrive
    show ?thesis using crm_synced[OF assms[unfolded Pipedrive run_sync.simps run_sync_pipedrive_def]]
      by (auto simp: crm_good_def intro: synced_pipedrive)
  next
    case Hubspot
    show ?thesis using crm_synced[OF assms[unfolded Hubspot run_sync.simps run_sync_hubspot_def]]
      by (auto simp: crm_good_def intro: synced_hubspot)
  next
    case Salesforce
    show ?thesis using crm_synced[OF assms[unfolded Salesforce run_sync.simps run_sync_salesforce_def]]
      by (auto simp: crm_good_def intro: synced_salesforce)
  next
    case Raynet
    show ?thesis using crm_synced[OF assms[unfolded Raynet run_sync.simps run_sync_raynet_def]]
      by (auto simp: crm_good_def intro: synced_raynet)
  qed (simp_all add: src crm_good_def crm_sources_def)
qed

interpretation sync_family: checked_sync "run_sync a tnow" provider_of tnow crm_good for a tnow
  by unfold_locales (auto intro: run_sync_contract run_sync_metrics)

section \<open>Properties\<close>

text \<open>
  C18. Whatever jobs of whatever connectors a worker runs, the snapshots written are exactly those the
  jobs returned, in order, after the ones already there; the keys stay unique, and an integration's
  \<open>last_sync_at\<close> is always the instant read right after a snapshot of its source was inserted: a sync that fails, or that finds no
  integration, changes neither table.
\<close>

theorem sync_jobs_account:
  assumes "run_jobs (run_sync a tnow) jobs w = (rs, w')" "snap_ok w"
  shows "snap_ok w' \<and> snapshots w' = snapshots w @ produced rs"
  using sync_family.jobs_ok[OF assms] sync_family.jobs_snapshots[OF assms(1)] by blast

definition sample_calls :: "unit connector_calls" where
  "sample_calls =
     \<lparr>pipedrive_api = \<lparr>pc_open = (\<lambda>_. ret ()), pc_pipelines = ret [], pc_stages = ret [], pc_deals = ret [],
        pc_persons = ret [], pc_activities = (\<lambda>_. ret [])\<rparr>,
      hubspot_api = sample_hubspot,
      salesforce_api = \<lparr>sc_open = (\<lambda>_. ret ()), sc_accounts = (\<lambda>_. ret (JObj [])),
        sc_opportunities = (\<lambda>_. ret (JObj [])), sc_leads = (\<lambda>_. ret (JObj [])), sc_users = (\<lambda>_. ret (JObj []))\<rparr>,
      raynet_api = \<lparr>rc_open = (\<lambda>_. ret ()), rc_companies = (\<lambda>_. ret (JObj [])), rc_leads = (\<lambda>_. ret (JObj [])),
        rc_business_cases = (\<lambda>_. ret (JObj [])), rc_invoices = (\<lambda>_. ret (JObj []))\<rparr>,
      trello_api = \<lparr>tc_open = (\<lambda>_. ret ()), tc_boards = ret [], tc_cards = (\<lambda>_ _. ret []), tc_actions = (\<lambda>_ _. ret [])\<rparr>,
      asana_api = \<lparr>ac_open = (\<lambda>_. ret ()), ac_workspaces = ret [], ac_projects = (\<lambda>_ _. ret []), ac_tasks = (\<lambda>_ _. ret [])\<rparr>,
      basecamp_api = \<lparr>bc_open = (\<lambda>_. ret ()), bc_projects = lift_result (Inl (HTTPStatusError 500))\<rparr>,
      caflou_api = \<lparr>cc_open = (\<lambda>_. ret ()), cc_companies = (\<lambda>_. ret JNull), cc_projects = (\<lambda>_. ret JNull),
        cc_tasks = (\<lambda>_. ret JNull), cc_invoices = (\<lambda>_. ret JNull), cc_timesheets = (\<lambda>_. ret JNull)\<rparr>,
      jira_api = \<lparr>jc_open = (\<lambda>_. ret ()), jc_projects = ret [], jc_search = (\<lambda>_ _. ret (JObj []))\<rparr>,
      ecomail_api = \<lparr>ec_open = (\<lambda>_. ret ()), ec_ping = ret (), ec_lists = ret [], ec_campaigns = ret [],
        ec_stats = (\<lambda>_. ret (JObj []))\<rparr>,
      mailchimp_api = \<lparr>mc_open = (\<lambda>_. ret ()), mc_ping = ret (), mc_audiences = ret [], mc_campaigns = ret [],
        mc_report = (\<lambda>_. ret (JObj []))\<rparr>,
      smartemailing_api = \<lparr>se_open = (\<lambda>_. ret ()), se_ping = ret (), se_contactlists = ret [],
        se_count_contacts = ret (JInt 0), se_campaigns = ret [], se_stats = (\<lambda>_. ret (JObj []))\<rparr>,
      microsoft365_api = \<lparr>oc_open = (\<lambda>_. ret ()), oc_messages = (\<lambda>_. lift_result (Inl (HTTPStatusError 503))),
        oc_events = (\<lambda>_. lift_result (Inl (HTTPStatusError 503))), oc_drive = (\<lambda>_. lift_result (Inl (HTTPStatusError 503))),
        oc_teams = lift_result (Inl (HTTPStatusError 503))\<rparr>,
      slack_api_calls = \<lparr>sl_channels = ret [], sl_messages = (\<lambda>_ _. ret []), sl_users = ret []\<rparr>,
      calendly_api = \<lparr>yc_open = (\<lambda>_. ret ()), yc_event_types = ret [], yc_events = (\<lambda>_. ret [])\<rparr>,
      fapi_api_calls = \<lparr>fa_open = (\<lambda>_. ret ()), fa_invoices = (\<lambda>_. ret JNull), fa_clients = (\<lambda>_. ret JNull),
        fa_vouchers = (\<lambda>_. ret JNull)\<rparr>\<rparr>"

definition sample_jobs :: "(connector \<times> int) list" where
  "sample_jobs = [(Hubspot, 7), (Basecamp, 7), (Hubspot, 30)]"

lemma sample_tables_ok: "snap_ok (sample_tables source)" "snapshots (sample_tables source) = []"
  by (simp_all add: snap_ok_def sample_tables_def)

theorem sync_jobs_account_witness:
  "snap_ok (snd (run_jobs (run_sync sample_calls (\<lambda>_. 864000)) sample_jobs (sample_tables ''hubspot'')))"
  using sync_jobs_account[OF prod.collapse[symmetric] sample_tables_ok(1)] by blast

text \<open>
  If the CRM rows of the table came from syncs, the card of the pipeline velocity, read after any
  jobs, either reports that there is no CRM snapshot, and then there is none, or shows a
  velocity within its bounds: rates between 0 and 1, no negative value, no more decided
  and open deals than deals, and quality "low" exactly if there are no deals. No other exception leaves it.
\<close>

theorem velocity_sound:
  assumes "run_jobs (run_sync a tnow) jobs w = (rs, w')" "crm_rows_synced (snapshots w)"
  shows "case get_pipeline_velocity (snapshots w') of
           Inl e \<Rightarrow> (\<exists>why. e = InsufficientData why) \<and> (\<forall>r \<in> set (snapshots w'). snap_source r \<notin> set crm_sources)
         | Inr v \<Rightarrow> velocity_ok v \<and> (\<exists>r \<in> set (snapshots w'). snap_source r = pv_source v)"
proof (rule velocity_cases)
  show "crm_rows_synced (snapshots w')"
    using sync_family.jobs_good[OF assms(1)] assms(2) by (simp add: crm_rows_synced_def crm_good_def)
qed

theorem velocity_sound_witness:
  "case get_pipeline_velocity (snapshots (snd (run_jobs (run_sync sample_calls (\<lambda>_. 864000)) sample_jobs
       (sample_tables ''hubspot'')))) of
     Inl e \<Rightarrow> \<exists>why. e = InsufficientData why | Inr v \<Rightarrow> velocity_ok v"
proof -
  have "crm_rows_synced (snapshots (sample_tables ''hubspot''))"
    by (simp add: sample_tables_ok crm_rows_synced_def)
  from velocity_sound[OF prod.collapse[symmetric] this, of sample_calls "\<lambda>_. 864000" sample_jobs]
  show ?thesis by (auto split: sum.splits)
qed

text \<open>
  When every call to Microsoft 365 fails, the sync succeeds all the same: it stores the
  snapshot of an account with no mail, no events, no files and no teams, each section marked ok, and stamps
  the integration.
\<close>

theorem outage_stored_as_empty:
  assumes "active_integration ''microsoft365'' (integrations w) = Some i"
    and "minus_days (day_of (tnow (service w))) days = Inr start"
    and "\<And>c. \<exists>c'. oc_open api i c = (Inr (), c')"
    and "\<And>c. \<exists>e c'. oc_messages api 100 c = (Inl e, c')" "\<And>c. \<exists>e c'. oc_events api days c = (Inl e, c')"
    and "\<And>c. \<exists>e c'. oc_drive api 50 c = (Inl e, c')" "\<And>c. \<exists>e c'. oc_teams api c = (Inl e, c')"
  shows "\<exists>snap w'. run_sync_microsoft365 api tnow days w = (Inr (Some snap), w')
    \<and> snapshots w' = snapshots w @ [snap]
    \<and> m365_metrics days ([], [], [], []) = Inr (snap_metrics snap)
    \<and> integrations w' = stamp_sync (integration_id i) (snap_created_at snap + insert_time w (snap_id snap)) (integrations w)"
proof -
  obtain m where m: "m365_metrics days ([], [], [], []) = Inr m"
    by (simp add: m365_metrics_def summarise_messages_def)
  obtain c1 where c1: "oc_open api i (service w) = (Inr (), c1)" using assms(3) by blast
  obtain e2 c2 where c2: "oc_messages api 100 c1 = (Inl e2, c2)" using assms(4) by blast
  obtain e3 c3 where c3: "oc_events api days c2 = (Inl e3, c3)" using assms(5) by blast
  obtain e4 c4 where c4: "oc_drive api 50 c3 = (Inl e4, c4)" using assms(6) by blast
  obtain e5 c5 where c5: "oc_teams api c4 = (Inl e5, c5)" using assms(7) by blast
  show ?thesis
    unfolding run_sync_microsoft365_def run_snapshot_def
    by (simp add: assms(1,2) c1 c2 c3 c4 c5 m chain_def catching_def lift_result_def ret_def Let_def)
qed

theorem outage_stored_as_empty_witness:
  "\<exists>snap w'. run_sync_microsoft365 (microsoft365_api sample_calls) (\<lambda>_. 864000) 7 (sample_tables ''microsoft365'')
      = (Inr (Some snap), w') \<and> length (snapshots w') = 1"
proof -
  let ?api = "microsoft365_api sample_calls" and ?w = "sample_tables ''microsoft365''"
  have open_ok: "\<exists>c'. oc_open ?api i c = (Inr (), c')" for i c by (simp add: sample_calls_def)
  have fail: "\<exists>e c'. oc_messages ?api 100 c = (Inl e, c')" "\<exists>e c'. oc_events ?api 7 c = (Inl e, c')"
    "\<exists>e c'. oc_drive ?api 50 c = (Inl e, c')" "\<exists>e c'. oc_teams ?api c = (Inl e, c')" for c
    by (simp_all add: sample_calls_def)
  have start: "minus_days (day_of ((\<lambda>_. 864000) (service ?w))) 7 = Inr 3"
    by (simp add: minus_days_def day_of_def)
  have "active_integration ''microsoft365'' (integrations ?w) = Some (hd (integrations ?w))"
    by (simp add: sample_tables_def active_integration_def)
  from outage_stored_as_empty[OF this start open_ok fail] show ?thesis
    by (auto simp: sample_tables_ok)
qed

end
