(* ===== verification/Matcher.thy ===== *)
theory Matcher
  imports Prelude
begin

text \<open>
  Regular expressions the way \<open>re\<close> runs them: a matcher is given the character before the current
  position and the text after it, and returns the ways to match there in the order a backtracking
  engine tries them, so that the head of the list is the match \<open>re\<close> finds. The combinators below are
  the constructs the patterns of the repository use. \<open>exact m L\<close> says that a matcher finds, at any
  position, exactly the prefixes in the language \<open>L\<close>.
\<close>

type_synonym matcher = "char option \<Rightarrow> string \<Rightarrow> (string \<times> string) list"

section \<open>Character classes\<close>

definition in_range :: "nat \<Rightarrow> nat \<Rightarrow> char \<Rightarrow> bool" where
  "in_range lo hi c = (lo \<le> of_char c \<and> of_char c \<le> hi)"

definition is_alpha :: "char \<Rightarrow> bool" where
  "is_alpha c = (in_range 65 90 c \<or> in_range 97 122 c)"

text \<open>\<open>\w\<close> on code points below 256: \<open>str.isalnum\<close> or the underscore.\<close>

definition is_word :: "char \<Rightarrow> bool" where
  "is_word c =
     (is_alpha c \<or> is_digit c \<or> c = CHR ''_''
      \<or> (let n = (of_char c :: nat)
         in n \<in> {170, 178, 179, 181, 185, 186, 188, 189, 190} \<or> 192 \<le> n \<and> n \<le> 255 \<and> n \<noteq> 215 \<and> n \<noteq> 247))"

section \<open>Combinators\<close>

text \<open>A class repeated \<open>lo\<close> to \<open>hi\<close> times (without bound for \<open>None\<close>), the longest way first.\<close>

definition m_many :: "(char \<Rightarrow> bool) \<Rightarrow> nat \<Rightarrow> nat option \<Rightarrow> matcher" where
  "m_many p lo hi prev s =
     (let k = length (takeWhile p s);
          k = (case hi of None \<Rightarrow> k | Some h \<Rightarrow> min h k)
      in map (\<lambda>i. (take i s, drop i s)) (rev [lo..<Suc k]))"

definition m_one :: "(char \<Rightarrow> bool) \<Rightarrow> matcher" where
  "m_one p = m_many p 1 (Some 1)"

definition m_optional :: "(char \<Rightarrow> bool) \<Rightarrow> matcher" where
  "m_optional p = m_many p 0 (Some 1)"

text \<open>The character before the position after a match.\<close>

definition prev_of :: "char option \<Rightarrow> string \<Rightarrow> char option" where
  "prev_of prev v = (if v = [] then prev else Some (last v))"

definition m_seq :: "matcher \<Rightarrow> matcher \<Rightarrow> matcher" where
  "m_seq m1 m2 prev s =
     concat (map (\<lambda>(v, r). map (\<lambda>(v', r'). (v @ v', r')) (m2 (prev_of prev v) r)) (m1 prev s))"

text \<open>\<open>(?:m)?\<close>, and \<open>(?:m){lo,hi}\<close>, for an \<open>m\<close> that consumes something.\<close>

definition m_opt :: "matcher \<Rightarrow> matcher" where
  "m_opt m prev s = m prev s @ [([], s)]"

definition m_empty :: matcher where
  "m_empty prev s = [([], s)]"

fun m_rep :: "matcher \<Rightarrow> nat \<Rightarrow> nat \<Rightarrow> matcher" where
  "m_rep m 0 0 = m_empty"
| "m_rep m 0 (Suc n) = m_opt (m_seq m (m_rep m 0 n))"
| "m_rep m (Suc k) n = m_seq m (m_rep m k n)"

text \<open>\<open>\b\<close>\<close>

definition m_boundary :: matcher where
  "m_boundary prev s =
     (let before = (case prev of None \<Rightarrow> False | Some c \<Rightarrow> is_word c);
          after = (case s of [] \<Rightarrow> False | c # _ \<Rightarrow> is_word c)
      in if before \<noteq> after then [([], s)] else [])"

section \<open>What a matcher finds\<close>

definition sound :: "matcher \<Rightarrow> (string \<Rightarrow> bool) \<Rightarrow> bool" where
  "sound m L \<longleftrightarrow> (\<forall>prev s v r. (v, r) \<in> set (m prev s) \<longrightarrow> s = v @ r \<and> L v)"

definition exact :: "matcher \<Rightarrow> (string \<Rightarrow> bool) \<Rightarrow> bool" where
  "exact m L \<longleftrightarrow> (\<forall>prev s v r. (v, r) \<in> set (m prev s) \<longleftrightarrow> s = v @ r \<and> L v)"

named_theorems matches \<open>soundness and exactness of matchers\<close>

lemma exact_sound: "exact m L \<Longrightarrow> sound m L"
  by (simp add: exact_def sound_def)

lemma sound_weaken: "sound m L \<Longrightarrow> (\<And>v. L v \<Longrightarrow> L' v) \<Longrightarrow> sound m L'"
  by (auto simp: sound_def)

lemma soundD: "sound m L \<Longrightarrow> (v, r) \<in> set (m prev s) \<Longrightarrow> s = v @ r \<and> L v"
  by (auto simp: sound_def)

definition many_lang :: "(char \<Rightarrow> bool) \<Rightarrow> nat \<Rightarrow> nat option \<Rightarrow> string \<Rightarrow> bool" where
  "many_lang p lo hi v \<longleftrightarrow> list_all p v \<and> lo \<le> length v \<and> (\<forall>h. hi = Some h \<longrightarrow> length v \<le> h)"

definition seq_lang :: "(string \<Rightarrow> bool) \<Rightarrow> (string \<Rightarrow> bool) \<Rightarrow> string \<Rightarrow> bool" where
  "seq_lang L1 L2 v \<longleftrightarrow> (\<exists>a b. v = a @ b \<and> L1 a \<and> L2 b)"

fun rep_lang :: "(string \<Rightarrow> bool) \<Rightarrow> nat \<Rightarrow> nat \<Rightarrow> string \<Rightarrow> bool" where
  "rep_lang L 0 0 = (\<lambda>v. v = [])"
| "rep_lang L 0 (Suc n) = (\<lambda>v. seq_lang L (rep_lang L 0 n) v \<or> v = [])"
| "rep_lang L (Suc k) n = seq_lang L (rep_lang L k n)"

lemma takeWhile_ge: "n \<le> length (takeWhile p s) \<longleftrightarrow> n \<le> length s \<and> list_all p (take n s)"
proof (induction s arbitrary: n)
  case (Cons c s)
  show ?case by (cases n) (simp_all add: Cons)
qed simp

lemma exact_many [matches]: "exact (m_many p lo hi) (many_lang p lo hi)"
proof -
  have "(v, r) \<in> set (m_many p lo hi prev s) \<longleftrightarrow> s = v @ r \<and> many_lang p lo hi v" for prev s v r
  proof -
    have "(v, r) \<in> set (m_many p lo hi prev s) \<longleftrightarrow>
        (\<exists>i. v = take i s \<and> r = drop i s \<and> lo \<le> i \<and> i \<le> length (takeWhile p s) \<and> (\<forall>h. hi = Some h \<longrightarrow> i \<le> h))"
      by (cases hi) (auto simp: m_many_def Let_def)
    also have "\<dots> \<longleftrightarrow> (\<exists>i. v = take i s \<and> r = drop i s \<and> i \<le> length s \<and> many_lang p lo hi v)"
      unfolding takeWhile_ge many_lang_def by (auto simp: min_absorb2)
    also have "\<dots> \<longleftrightarrow> s = v @ r \<and> many_lang p lo hi v"
    proof
      assume "s = v @ r \<and> many_lang p lo hi v"
      then show "\<exists>i. v = take i s \<and> r = drop i s \<and> i \<le> length s \<and> many_lang p lo hi v"
        by (intro exI[of _ "length v"]) simp
    qed (elim exE conjE, simp)
    finally show ?thesis .
  qed
  then show ?thesis by (simp add: exact_def)
qed

lemma exact_one [matches]: "exact (m_one p) (many_lang p 1 (Some 1))"
  unfolding m_one_def by (rule exact_many)

lemma exact_optional [matches]: "exact (m_optional p) (many_lang p 0 (Some 1))"
  unfolding m_optional_def by (rule exact_many)

lemma m_seq_iff:
  "(v, r) \<in> set (m_seq m1 m2 prev s) \<longleftrightarrow>
     (\<exists>a b t. v = a @ b \<and> (a, t) \<in> set (m1 prev s) \<and> (b, r) \<in> set (m2 (prev_of prev a) t))"
  by (force simp: m_seq_def)

lemma exact_seq [matches]: "exact m1 L1 \<Longrightarrow> exact m2 L2 \<Longrightarrow> exact (m_seq m1 m2) (seq_lang L1 L2)"
  unfolding exact_def m_seq_iff seq_lang_def by fastforce

lemma sound_seq [matches]:
  assumes "sound m1 L1" "sound m2 L2"
  shows "sound (m_seq m1 m2) (seq_lang L1 L2)"
  unfolding sound_def m_seq_iff
proof (intro allI impI, elim exE conjE)
  fix prev s v r a b t
  assume "v = a @ b" "(a, t) \<in> set (m1 prev s)" "(b, r) \<in> set (m2 (prev_of prev a) t)"
  with soundD[OF assms(1), of a t prev s] soundD[OF assms(2), of b r "prev_of prev a" t]
  show "s = v @ r \<and> seq_lang L1 L2 v" unfolding seq_lang_def by auto
qed

lemma exact_opt [matches]: "exact m L \<Longrightarrow> exact (m_opt m) (\<lambda>v. L v \<or> v = [])"
  by (auto simp: exact_def m_opt_def)

lemma exact_empty: "exact m_empty (\<lambda>v. v = [])"
  by (auto simp: exact_def m_empty_def)

lemma sound_opt: "sound m L \<Longrightarrow> sound (m_opt m) (\<lambda>v. L v \<or> v = [])"
  by (auto simp: sound_def m_opt_def)

lemma sound_boundary [matches]: "sound m_boundary (\<lambda>v. v = [])"
  by (auto simp: sound_def m_boundary_def Let_def)

lemma exact_rep [matches]: "exact m L \<Longrightarrow> exact (m_rep m k n) (rep_lang L k n)"
  by (induction m k n rule: m_rep.induct) (simp_all add: exact_empty exact_opt exact_seq)

text \<open>The characters and the least length of the words of a language.\<close>

lemma many_lang_bounds: "many_lang p lo hi v \<Longrightarrow> (\<forall>c \<in> set v. p c) \<and> lo \<le> length v"
  by (simp add: many_lang_def list_all_iff)

lemma seq_lang_bounds:
  assumes "\<And>v. L1 v \<Longrightarrow> (\<forall>c \<in> set v. p c) \<and> n1 \<le> length v" "\<And>v. L2 v \<Longrightarrow> (\<forall>c \<in> set v. p c) \<and> n2 \<le> length v"
    and "seq_lang L1 L2 v"
  shows "(\<forall>c \<in> set v. p c) \<and> n1 + n2 \<le> length v"
proof -
  from assms(3) obtain a b where "v = a @ b" "L1 a" "L2 b" by (auto simp: seq_lang_def)
  with assms(1)[of a] assms(2)[of b] show ?thesis by auto
qed

lemma rep_lang_bounds:
  assumes "\<And>v. L v \<Longrightarrow> (\<forall>c \<in> set v. p c) \<and> 1 \<le> length v" "rep_lang L k n v"
  shows "(\<forall>c \<in> set v. p c) \<and> k \<le> length v"
proof -
  have none: "rep_lang L 0 n v \<Longrightarrow> \<forall>c \<in> set v. p c" for v
  proof (induction n arbitrary: v)
    case (Suc n)
    show ?case
    proof (cases "v = []")
      case False
      with Suc.prems obtain a b where "v = a @ b" "L a" "rep_lang L 0 n b" by (auto simp: seq_lang_def)
      with Suc.IH[of b] assms(1)[of a] show ?thesis by auto
    qed simp
  qed simp
  have "rep_lang L k n v \<Longrightarrow> (\<forall>c \<in> set v. p c) \<and> k \<le> length v" for v
  proof (induction k arbitrary: v)
    case (Suc k)
    then obtain a b where "v = a @ b" "L a" "rep_lang L k n b" by (auto simp: seq_lang_def)
    with Suc.IH[of b] assms(1)[of a] show ?case by auto
  qed (simp add: none)
  with assms(2) show ?thesis by blast
qed

end
