(* ===== verification/Guardrails.thy ===== *)
theory Guardrails
  imports Tables Matcher
begin

text \<open>
  The guardrails of \<open>agents/guardrails.py\<close>: masking of personal data, the cost budget, the scope
  check, prompt injection, output validation and the compliance log, with the rows of
  \<open>core/models.py\<close> they use. The SHA-256 digest and the start of the month are parameters.
\<close>

section \<open>Results\<close>

record 'd check_result =
  check_ok :: bool
  check_reason :: string
  check_data :: 'd

definition pass :: "'d \<Rightarrow> 'd check_result" where
  "pass d = \<lparr>check_ok = True, check_reason = [], check_data = d\<rparr>"

definition fail :: "string \<Rightarrow> 'd \<Rightarrow> 'd check_result" where
  "fail reason d = \<lparr>check_ok = False, check_reason = reason, check_data = d\<rparr>"

section \<open>Patterns of personal data\<close>

definition email_local :: "char \<Rightarrow> bool" where
  "email_local c = (is_alpha c \<or> is_digit c \<or> c \<in> set ''._%+-'')"

definition email_host :: "char \<Rightarrow> bool" where
  "email_host c = (is_alpha c \<or> is_digit c \<or> c \<in> set ''.-'')"

definition email_re :: matcher where
  "email_re =
     m_seq (m_many email_local 1 None) (m_seq (m_one (\<lambda>c. c = CHR 0x40)) (m_seq (m_many email_host 1 None)
       (m_seq (m_one (\<lambda>c. c = CHR 0x2E)) (m_many is_alpha 2 None))))"

definition separator :: "char \<Rightarrow> bool" where
  "separator c = (c \<in> set '' -.'')"

definition phone_re :: matcher where
  "phone_re =
     m_seq (m_opt (m_seq (m_optional (\<lambda>c. c = CHR 0x2B)) (m_seq (m_many is_digit 1 (Some 3)) (m_optional separator))))
    (m_seq (m_opt (m_seq (m_optional (\<lambda>c. c = CHR 0x28)) (m_seq (m_many is_digit 2 (Some 4))
       (m_seq (m_optional (\<lambda>c. c = CHR 0x29)) (m_optional separator)))))
    (m_seq (m_many is_digit 3 (Some 3)) (m_seq (m_optional separator)
    (m_seq (m_many is_digit 3 (Some 3)) (m_seq (m_optional separator) (m_many is_digit 3 (Some 4)))))))"

definition birthnum_re :: matcher where
  "birthnum_re =
     m_seq m_boundary (m_seq (m_many is_digit 6 (Some 6)) (m_seq (m_optional (\<lambda>c. c = CHR 0x2F))
       (m_seq (m_many is_digit 3 (Some 4)) m_boundary)))"

definition card_re :: matcher where
  "card_re =
     m_seq m_boundary (m_seq (m_rep (m_seq (m_one is_digit) (m_optional (\<lambda>c. c \<in> set '' -''))) 13 6) m_boundary)"

section \<open>Masking\<close>

type_synonym mask_map = "(string \<times> string) list"

text \<open>\<open>mask_map[token] = value\<close> on a dict in insertion order.\<close>

fun dict_set :: "'a \<Rightarrow> 'b \<Rightarrow> ('a \<times> 'b) list \<Rightarrow> ('a \<times> 'b) list" where
  "dict_set k v [] = [(k, v)]"
| "dict_set k v ((k', v') # kvs) = (if k' = k then (k, v) # kvs else (k', v') # dict_set k v kvs)"

definition mask_token :: "string \<Rightarrow> nat \<Rightarrow> string" where
  "mask_token kind n = CHR ''['' # kind @ ''_'' @ show_nat n @ '']''"

text \<open>The replacement of one match: the token of a value seen before, or a new token.\<close>

definition mask_value :: "string \<Rightarrow> string \<Rightarrow> mask_map \<times> nat \<Rightarrow> string \<times> mask_map \<times> nat" where
  "mask_value kind value st =
     (case find (\<lambda>(_, original). original = value) (fst st) of
        Some (token, _) \<Rightarrow> (token, st)
      | None \<Rightarrow> (let token = mask_token kind (snd st) in (token, dict_set token value (fst st), snd st + 1)))"

text \<open>\<open>pattern.sub\<close>, left to right; none of the patterns matches the empty string.\<close>

function mask_pass ::
  "string \<Rightarrow> matcher \<Rightarrow> char option \<Rightarrow> string \<Rightarrow> mask_map \<times> nat \<Rightarrow> string \<times> mask_map \<times> nat" where
  "mask_pass kind m prev [] st = ([], st)"
| "mask_pass kind m prev (c # s) st =
     (case m prev (c # s) of
        (v, _) # _ \<Rightarrow>
          if v = [] then (case mask_pass kind m (Some c) s st of (out, st') \<Rightarrow> (c # out, st'))
          else (case mask_value kind v st of (token, st1) \<Rightarrow>
                 (case mask_pass kind m (Some (last v)) (drop (length v) (c # s)) st1 of
                    (out, st2) \<Rightarrow> (token @ out, st2)))
      | [] \<Rightarrow> (case mask_pass kind m (Some c) s st of (out, st') \<Rightarrow> (c # out, st')))"
  by pat_completeness auto
termination
  by (relation "measure (\<lambda>(kind, m, prev, s, st). length s)") (auto simp: length_greater_0_conv)

definition mask_kind :: "string \<Rightarrow> matcher \<Rightarrow> string \<times> mask_map \<Rightarrow> string \<times> mask_map" where
  "mask_kind kind m x =
     (case mask_pass kind m None (fst x) (snd x, 0) of (out, mm, _) \<Rightarrow> (out, mm))"

definition mask_pii :: "string \<Rightarrow> mask_map option \<Rightarrow> string \<times> mask_map" where
  "mask_pii s existing =
     mask_kind ''PHONE'' phone_re (mask_kind ''RC'' birthnum_re (mask_kind ''CARD'' card_re
       (mask_kind ''EMAIL'' email_re (s, case existing of Some mm \<Rightarrow> mm | None \<Rightarrow> []))))"

definition unmask_pii :: "string \<Rightarrow> mask_map \<Rightarrow> string" where
  "unmask_pii s mm = foldl (\<lambda>out (token, original). replace_all token original out) s mm"

section \<open>Budget\<close>

record llm_usage =
  usage_tenant :: "nat option"
  usage_model :: string
  usage_prompt_hash :: string
  usage_input :: nat
  usage_output :: nat
  usage_cost :: rat
  usage_cached :: bool
  usage_latency :: int
  usage_at :: rat

record tenant_budget =
  budget_tenant :: nat
  monthly_limit :: rat
  per_conversation_limit :: rat
  current_month_spent :: rat

definition new_budget :: "unit \<Rightarrow> nat \<Rightarrow> tenant_budget" where
  "new_budget u tenant =
     \<lparr>budget_tenant = tenant, monthly_limit = 1000, per_conversation_limit = 50, current_month_spent = 0\<rparr>"

definition month_spent :: "nat \<Rightarrow> rat \<Rightarrow> llm_usage list \<Rightarrow> rat" where
  "month_spent tenant month_start rows =
     sum_list (map usage_cost (filter (\<lambda>u. usage_tenant u = Some tenant \<and> month_start \<le> usage_at u) rows))"

text \<open>The data of the result is the pair of spent and limit, which the code renders as text.\<close>

definition check_cost_budget ::
  "nat option \<Rightarrow> rat \<Rightarrow> rat \<Rightarrow> llm_usage list \<Rightarrow> tenant_budget list
     \<Rightarrow> (rat \<times> rat) option check_result \<times> tenant_budget list" where
  "check_cost_budget tenant estimated month_start usage budgets =
     (case tenant of
        None \<Rightarrow> (\<lparr>check_ok = True, check_reason = ''no-tenant'', check_data = None\<rparr>, budgets)
      | Some tid \<Rightarrow>
          (let budgets' = fst (get_or_create budget_tenant new_budget () tid budgets);
               limit = (case lookup budget_tenant budgets' tid of Some b \<Rightarrow> monthly_limit b | None \<Rightarrow> 0);
               total = month_spent tid month_start usage
           in (if total + estimated > limit then fail ''monthly budget exceeded'' (Some (total, limit))
               else pass (Some (total, limit)), budgets')))"

section \<open>Scope\<close>

definition allowed_actions :: "string \<Rightarrow> string list" where
  "allowed_actions agent =
     (if agent = ''orchestrator'' then [''classify'', ''compose'']
      else if agent \<in> {''strategic'', ''finance'', ''people'', ''ops'', ''knowledge''} then [''analyze'']
      else [])"

definition check_scope :: "string \<Rightarrow> string \<Rightarrow> unit check_result" where
  "check_scope agent action =
     (if action \<in> set (allowed_actions agent) then pass ()
      else fail (''action '' @ [CHR 0x27] @ action @ [CHR 0x27] @ '' not permitted for agent ''
                 @ [CHR 0x27] @ agent @ [CHR 0x27]) ())"

section \<open>Prompt injection\<close>

text \<open>The eighth marker, in Czech, has characters beyond code point 255, which no text here has.\<close>

definition injection_markers :: "string list" where
  "injection_markers =
     [''ignore previous instructions'', ''ignore all previous instructions'', ''disregard previous instructions'',
      ''you are now'', ''system prompt:'', ''</system>'', ''<|im_start|>'']"

definition detect_prompt_injection :: "string \<Rightarrow> unit check_result" where
  "detect_prompt_injection s =
     (case find (\<lambda>marker. contains marker (str_lower s)) injection_markers of
        Some marker \<Rightarrow> fail (''possible prompt injection: '' @ [CHR 0x27] @ marker @ [CHR 0x27]) ()
      | None \<Rightarrow> pass ())"

section \<open>Output\<close>

definition validate_output_format :: "string \<Rightarrow> nat \<Rightarrow> nat \<Rightarrow> unit check_result" where
  "validate_output_format s min_length max_length =
     (if s = [] \<or> length s < min_length then fail ''output too short'' ()
      else if length s > max_length then fail ''output exceeds max length'' ()
      else pass ())"

section \<open>Compliance log\<close>

record compliance_log =
  log_tenant :: "nat option"
  log_user :: "nat option"
  log_agent :: string
  log_model :: string
  log_prompt_hash :: string
  log_response_hash :: string
  log_success :: bool
  log_error :: string

definition log_for_compliance ::
  "(string \<Rightarrow> string) \<Rightarrow> nat option \<Rightarrow> nat option \<Rightarrow> string \<Rightarrow> string \<Rightarrow> string \<Rightarrow> string \<Rightarrow> bool \<Rightarrow> string
     \<Rightarrow> compliance_log list \<Rightarrow> compliance_log list" where
  "log_for_compliance hash tenant user agent model prompt response success error rows =
     rows @ [\<lparr>log_tenant = tenant, log_user = user, log_agent = agent, log_model = model,
              log_prompt_hash = hash prompt, log_response_hash = (if response \<noteq> [] then hash response else []),
              log_success = success, log_error = take 200 error\<rparr>]"

end
