(* ===== verification/Masking.thy ===== *)
theory Masking
  imports Guardrails PyValues
begin

text \<open>
  Masking and unmasking of personal data. A masked text is seen as a list of segments, literal
  characters and tokens; a pass replaces runs of literals by tokens and never touches a token, and
  unmasking resolves the tokens one by one. From this: unmasking undoes masking, and a masked text has
  no e-mail address and no phone number in it.
\<close>

section \<open>Segments\<close>

datatype seg = Lit char | Tok string

text \<open>The text as it is shown, and as it is meant under a map from tokens to values.\<close>

fun seg_text :: "(string \<Rightarrow> string option) \<Rightarrow> seg \<Rightarrow> string" where
  "seg_text f (Lit c) = [c]"
| "seg_text f (Tok t) = (case f t of Some v \<Rightarrow> v | None \<Rightarrow> t)"

definition meant :: "(string \<Rightarrow> string option) \<Rightarrow> seg list \<Rightarrow> string" where
  "meant f segs = concat (map (seg_text f) segs)"

abbreviation shown :: "seg list \<Rightarrow> string" where
  "shown \<equiv> meant Map.empty"

lemma meant_simps [simp]:
  "meant f [] = []" "meant f (x # segs) = seg_text f x @ meant f segs" "meant f (a @ b) = meant f a @ meant f b"
  by (simp_all add: meant_def)

lemma meant_literals [simp]: "meant f (map Lit v) = v"
  by (induction v) simp_all

fun seg_tokens :: "seg list \<Rightarrow> string set" where
  "seg_tokens [] = {}"
| "seg_tokens (Lit c # segs) = seg_tokens segs"
| "seg_tokens (Tok t # segs) = insert t (seg_tokens segs)"

lemma seg_tokens_append [simp]: "seg_tokens (a @ b) = seg_tokens a \<union> seg_tokens b"
  by (induction a rule: seg_tokens.induct) auto

lemma seg_tokens_literals [simp]: "seg_tokens (map Lit v) = {}"
  by (induction v) simp_all

text \<open>The number of literals, which bounds the number of tokens.\<close>

fun lits :: "seg list \<Rightarrow> nat" where
  "lits [] = 0"
| "lits (Lit c # segs) = Suc (lits segs)"
| "lits (Tok t # segs) = lits segs"

lemma lits_append [simp]: "lits (a @ b) = lits a + lits b"
  by (induction a rule: lits.induct) simp_all

lemma lits_literals [simp]: "lits (map Lit v) = length v"
  by (induction v) simp_all

section \<open>Tokens and data\<close>

definition filler :: "char \<Rightarrow> bool" where
  "filler c = (\<not> is_alpha c \<and> c \<noteq> CHR ''_'')"

definition token_ok :: "string \<Rightarrow> bool" where
  "token_ok t \<longleftrightarrow> (\<exists>i. t = CHR ''['' # i @ '']'' \<and> CHR ''['' \<notin> set i \<and> CHR '']'' \<notin> set i \<and> CHR 0x40 \<notin> set i
     \<and> length (filter filler i) < 9)"

text \<open>What the patterns match: no brackets, and either an at sign or nine characters that are no letters.\<close>

definition data :: "string \<Rightarrow> bool" where
  "data v \<longleftrightarrow> v \<noteq> [] \<and> CHR ''['' \<notin> set v \<and> CHR '']'' \<notin> set v
     \<and> (CHR 0x40 \<in> set v \<or> (9 \<le> length v \<and> list_all filler v))"

lemma data_not_in_token:
  assumes "token_ok t" "data v" "t @ s = a @ v @ b"
  shows "length t \<le> length a"
proof (rule ccontr)
  assume "\<not> length t \<le> length a"
  with assms(3) obtain u where u: "t = a @ u" "u @ s = v @ b" "u \<noteq> []"
    by (metis append_eq_append_conv2 append_Nil2 le_refl length_append not_add_less1 not_le_imp_less)
  from assms(1) obtain i where i: "t = CHR ''['' # i @ '']''" "CHR ''['' \<notin> set i" "CHR '']'' \<notin> set i" "CHR 0x40 \<notin> set i"
    "length (filter filler i) < 9" by (auto simp: token_ok_def)
  have v: "v \<noteq> []" "CHR ''['' \<notin> set v" "CHR '']'' \<notin> set v" using assms(2) by (auto simp: data_def)
  have "\<not> length u \<le> length v"
  proof
    assume "length u \<le> length v"
    with u(2) have "set u \<subseteq> set v" by (metis append_eq_append_conv_if set_take_subset)
    moreover have "last t \<in> set u" using u(1,3) by (metis last_appendR last_in_set)
    ultimately show False using v(3) i(1) by auto
  qed
  then have "u = v @ drop (length v) u" "drop (length v) u \<noteq> []"
    using u(2) by (metis append_eq_append_conv_if append_take_drop_id nat_le_linear, simp)
  then obtain w where w: "u = v @ w" "w \<noteq> []" by blast
  have "a \<noteq> []" using u(1) w(1) v(1,2) i(1) by (cases v) auto
  then obtain a' where "a = CHR ''['' # a'" using u(1) i(1) by (cases a) auto
  then have inner: "i @ '']'' = a' @ v @ w" using i(1) u(1) w(1) by simp
  obtain w' where "w = w' @ '']''" using inner w(2) by (cases w rule: rev_cases) (auto simp flip: append_assoc)
  with inner have "i = a' @ v @ w'" by simp
  then have sub: "set v \<subseteq> set i" "length (filter filler v) \<le> length (filter filler i)" by (simp, blast, simp)
  from assms(2) consider "CHR 0x40 \<in> set v" | "9 \<le> length v" "list_all filler v" by (auto simp: data_def)
  then show False
  proof cases
    case 1
    with sub i(4) show False by blast
  next
    case 2
    then have "length (filter filler v) = length v" by (simp add: filter_id_conv list_all_iff)
    with 2 sub i(5) show False by simp
  qed
qed

lemma shown_prefix:
  assumes "\<forall>t \<in> seg_tokens segs. token_ok t" "CHR ''['' \<notin> set v" "shown segs = v @ r"
  shows "\<exists>segs'. segs = map Lit v @ segs' \<and> r = shown segs'"
  using assms
proof (induction v arbitrary: segs)
  case (Cons c v)
  from Cons.prems show ?case
  proof (cases segs rule: seg_tokens.cases)
    case (2 d segs')
    with Cons show ?thesis by auto
  next
    case (3 t segs')
    with Cons.prems show ?thesis by (auto simp: token_ok_def)
  qed simp
qed simp

lemma data_is_literal:
  assumes "\<forall>t \<in> seg_tokens segs. token_ok t" "data v" "shown segs = a @ v @ b"
  shows "\<exists>A B. segs = A @ map Lit v @ B"
  using assms(1,3)
proof (induction segs arbitrary: a rule: seg_tokens.induct)
  case 1
  with assms(2) show ?case by (simp add: data_def)
next
  case (2 c segs)
  show ?case
  proof (cases a)
    case Nil
    with 2(3) have "shown (Lit c # segs) = v @ b" by simp
    from shown_prefix[OF 2(2) _ this] assms(2) show ?thesis by (metis append_Nil data_def)
  next
    case (Cons x a')
    with 2(3) have "shown segs = a' @ v @ b" by simp
    with 2(1,2) obtain A B where "segs = A @ map Lit v @ B" by auto
    then show ?thesis by (metis append_Cons)
  qed
next
  case (3 t segs)
  then have t: "token_ok t" "t @ shown segs = a @ v @ b" by simp_all
  from data_not_in_token[OF t(1) assms(2) t(2)] t(2) obtain a' where "shown segs = a' @ v @ b"
    by (metis append_eq_append_conv_if append_assoc append_take_drop_id)
  with 3(1,2) obtain A B where "segs = A @ map Lit v @ B" by auto
  then show ?case by (metis append_Cons)
qed

section \<open>A pass\<close>

lemma mask_pass_skip:
  assumes "\<And>a u prev. t = a @ u \<Longrightarrow> u \<noteq> [] \<Longrightarrow> m prev (u @ s) = []"
  shows "mask_pass kind m prev (t @ s) st =
    (case mask_pass kind m (if t = [] then prev else Some (last t)) s st of (out, st') \<Rightarrow> (t @ out, st'))"
  using assms
proof (induction t arbitrary: prev)
  case (Cons c t)
  have "m prev' (u @ s) = []" if "t = a @ u" "u \<noteq> []" for a u prev'
    using Cons.prems[of "c # a" u] that by simp
  moreover have "m prev ((c # t) @ s) = []" using Cons.prems[of "[]" "c # t"] by simp
  ultimately show ?case using Cons.IH[of "Some c"] by (auto split: prod.splits)
qed (simp split: prod.splits)

lemma token_skipped:
  assumes "sound m data" "token_ok t" "t = a @ u" "u \<noteq> []"
  shows "m prev (u @ s) = []"
proof (cases "m prev (u @ s)")
  case (Cons x xs)
  obtain v r where "x = (v, r)" by force
  with Cons have "(v, r) \<in> set (m prev (u @ s))" by simp
  with soundD[OF assms(1)] have v: "u @ s = v @ r" "data v" by blast+
  from data_not_in_token[OF assms(2) v(2), of s a r] v(1) assms(3) have "length t \<le> length a" by simp
  with assms(3,4) show ?thesis by simp
qed simp

text \<open>A value gets a token that means it; a new token is \<open>kind_n\<close> for the count \<open>n\<close>.\<close>

lemma dict_set_new: "k \<notin> fst ` set kvs \<Longrightarrow> dict_set k v kvs = kvs @ [(k, v)]"
  by (induction kvs) auto

lemma mask_value_means:
  assumes "mask_value kind v (mm, n) = (t, mm', n')" "mask_token kind n \<notin> fst ` set mm" "distinct (map fst mm)"
  obtains extra where "mm' = mm @ extra" "map_of mm' t = Some v" "distinct (map fst mm')"
    "n \<le> n'" "n' \<le> Suc n" "fst ` set mm' \<subseteq> fst ` set mm \<union> {mask_token kind i | i. n \<le> i \<and> i < n'}"
proof (cases "find (\<lambda>(_, original). original = v) mm")
  case None
  with assms(1) have r: "t = mask_token kind n" "mm' = dict_set t v mm" "n' = Suc n"
    by (auto simp: mask_value_def Let_def)
  with assms(2) have "mm' = mm @ [(t, v)]" by (simp add: dict_set_new)
  moreover have "map_of mm t = None" using assms(2) r(1) by (simp add: map_of_eq_None_iff)
  ultimately show thesis using assms(2,3) r by (intro that[of "[(t, v)]"]) (auto simp: map_add_def)
next
  case (Some p)
  then have "p \<in> set mm" "snd p = v" by (auto simp: find_Some_iff) (metis nth_mem)
  then obtain token where p: "p = (token, v)" "(token, v) \<in> set mm" by (metis prod.collapse)
  with assms(1) Some have r: "t = token" "mm' = mm" "n' = n" by (simp_all add: mask_value_def)
  with p(2) assms(3) show thesis by (intro that[of "[]"]) auto
qed

text \<open>A pass on segments: a literal is kept where nothing matches, a token is skipped, a match is replaced.\<close>

inductive passes :: "string \<Rightarrow> matcher \<Rightarrow> seg list \<Rightarrow> mask_map \<times> nat \<Rightarrow> seg list \<Rightarrow> mask_map \<times> nat \<Rightarrow> bool"
  for kind m where
  finish: "passes kind m [] st [] st"
| keep: "m prev (c # shown segs) = [] \<Longrightarrow> passes kind m segs st segs' st' \<Longrightarrow>
    passes kind m (Lit c # segs) st (Lit c # segs') st'"
| skip: "passes kind m segs st segs' st' \<Longrightarrow> passes kind m (Tok t # segs) st (Tok t # segs') st'"
| hit: "v \<noteq> [] \<Longrightarrow> mask_value kind v st = (t, st1) \<Longrightarrow> passes kind m segs st1 segs' st' \<Longrightarrow>
    passes kind m (map Lit v @ segs) st (Tok t # segs') st'"

lemma mask_pass_passes:
  assumes m: "sound m data"
  shows "\<forall>t \<in> seg_tokens segs. token_ok t \<Longrightarrow> mask_pass kind m prev (shown segs) st = (out, st') \<Longrightarrow>
    \<exists>segs'. passes kind m segs st segs' st' \<and> out = shown segs'"
proof (induction "length segs" arbitrary: segs prev st out rule: less_induct)
  case less
  show ?case
  proof (cases segs rule: seg_tokens.cases)
    case 1
    with less.prems show ?thesis by (auto intro!: exI[of _ "[]"] finish)
  next
    case (3 t rest)
    then have t: "token_ok t" and len: "length rest < length segs" and toks: "\<forall>t \<in> seg_tokens rest. token_ok t"
      using less.prems(1) by simp_all
    obtain out1 where "mask_pass kind m (Some (last t)) (shown rest) st = (out1, st')" "out = t @ out1"
      using less.prems(2) mask_pass_skip[of t m "shown rest" kind prev st, OF token_skipped[OF m t]] t 3
      by (auto simp: token_ok_def split: prod.splits)
    with less.hyps[OF len toks, of "Some (last t)" st out1] obtain segs' where
      "passes kind m rest st segs' st'" "out = t @ shown segs'" by blast
    with 3 show ?thesis by (intro exI[of _ "Tok t # segs'"]) (simp add: skip)
  next
    case (2 c rest)
    then have len: "length rest < length segs" and toks: "\<forall>t \<in> seg_tokens rest. token_ok t"
      using less.prems(1) by simp_all
    show ?thesis
    proof (cases "m prev (c # shown rest)")
      case Nil
      with less.prems(2) 2 obtain out1 where "mask_pass kind m (Some c) (shown rest) st = (out1, st')" "out = c # out1"
        by (auto split: prod.splits)
      with less.hyps[OF len toks, of "Some c" st out1] obtain segs' where
        "passes kind m rest st segs' st'" "out = c # shown segs'" by blast
      with 2 Nil show ?thesis by (intro exI[of _ "Lit c # segs'"]) (simp add: keep)
    next
      case (Cons x xs)
      obtain v r where x: "x = (v, r)" by force
      with Cons have "(v, r) \<in> set (m prev (c # shown rest))" by simp
      with soundD[OF m] have v: "c # shown rest = v @ r" "data v" by blast+
      then have v0: "v \<noteq> []" "CHR ''['' \<notin> set v" by (auto simp: data_def)
      from shown_prefix[OF less.prems(1) v0(2), of r] v(1) 2 obtain segs2 where segs2:
        "segs = map Lit v @ segs2" "r = shown segs2" by auto
      obtain t st1 where mv: "mask_value kind v st = (t, st1)" by (metis surj_pair)
      have "drop (length v) (c # shown rest) = shown segs2" using v(1) segs2(2) by simp
      with less.prems(2) 2 Cons x v0(1) mv obtain out1 where
        "mask_pass kind m (Some (last v)) (shown segs2) st1 = (out1, st')" "out = t @ out1"
        by (auto split: prod.splits)
      moreover have "length segs2 < length segs" "\<forall>t \<in> seg_tokens segs2. token_ok t"
        using segs2(1) v0(1) less.prems(1) by simp_all
      ultimately obtain segs' where "passes kind m segs2 st1 segs' st'" "out1 = shown segs'"
        using less.hyps by blast
      with segs2(1) v0(1) mv \<open>out = t @ out1\<close> show ?thesis by (intro exI[of _ "Tok t # segs'"]) (simp add: hit)
    qed
  qed
qed

text \<open>Literals after a pass are literals before it, in one piece; none of them match.\<close>

lemma passes_prefix:
  "passes kind m segs st segs' st' \<Longrightarrow> segs' = map Lit v @ B \<Longrightarrow> \<exists>B'. segs = map Lit v @ B'"
proof (induction arbitrary: v rule: passes.induct)
  case (keep prev c segs st segs' st')
  then show ?case by (cases v) auto
next
  case (skip segs st segs' st' t)
  then show ?case by (cases v) auto
next
  case (hit w st t st1 segs segs' st')
  then show ?case by (cases v) auto
qed simp

lemma passes_infix:
  "passes kind m segs st segs' st' \<Longrightarrow> segs' = A @ map Lit v @ B \<Longrightarrow> \<exists>A' B'. segs = A' @ map Lit v @ B'"
proof (induction arbitrary: A rule: passes.induct)
  case (finish st)
  then show ?case by simp
next
  case (keep prev c segs st segs' st')
  show ?case
  proof (cases A)
    case Nil
    with keep.prems passes_prefix[OF passes.keep[OF keep.hyps], of v B] show ?thesis by (metis append_Nil)
  next
    case (Cons x A')
    with keep.prems keep.IH[of A'] show ?thesis by (metis append_Cons list.sel(3))
  qed
next
  case (skip segs st segs' st' t)
  show ?case
  proof (cases A)
    case Nil
    with skip.prems show ?thesis by (cases v) auto
  next
    case (Cons x A')
    with skip.prems skip.IH[of A'] show ?thesis by (metis append_Cons list.sel(3))
  qed
next
  case (hit w st t st1 segs segs' st')
  show ?case
  proof (cases A)
    case Nil
    with hit.prems have "v = []" by (cases v) auto
    then show ?thesis by (intro exI[of _ "[]"] exI[of _ "map Lit w @ segs"]) simp
  next
    case (Cons x A')
    with hit.prems hit.IH[of A'] show ?thesis by (metis append_assoc list.sel(3) append_Cons)
  qed
qed

lemma passes_clean:
  assumes "exact m L" "v \<noteq> []"
  shows "passes kind m segs st segs' st' \<Longrightarrow> segs' = A @ map Lit v @ B \<Longrightarrow> \<not> L v"
proof (induction arbitrary: A rule: passes.induct)
  case (keep prev c segs st segs' st')
  show ?case
  proof (cases A)
    case Nil
    with keep.prems passes_prefix[OF passes.keep[OF keep.hyps], of v B] obtain B' where
      "Lit c # segs = map Lit v @ B'" by auto
    then have "c # shown segs = v @ shown B'" by (metis meant_literals meant_simps(2,3) append_Cons append_Nil seg_text.simps(1))
    with keep.hyps(1) assms(1) show ?thesis unfolding exact_def by (metis empty_iff list.set(1))
  next
    case (Cons x A')
    with keep show ?thesis by auto
  qed
next
  case (skip segs st segs' st' t)
  then show ?case using assms(2) by (cases A; cases v) auto
next
  case (hit w st t st1 segs segs' st')
  then show ?case using assms(2) by (cases A; cases v) auto
qed (use assms(2) in simp)

text \<open>What is meant stays the same, under a map that has only been extended.\<close>

lemma meant_extend:
  assumes "seg_tokens segs \<subseteq> dom f" "f \<subseteq>\<^sub>m g"
  shows "meant g segs = meant f segs"
  using assms by (induction segs rule: seg_tokens.induct) (auto simp: map_le_def dom_def split: option.split)

lemma map_le_append: "map_of mm \<subseteq>\<^sub>m map_of (mm @ extra)"
  by (auto simp: map_le_def map_add_def map_of_append split: option.split)

lemma passes_meaning:
  assumes fresh: "\<And>i. mask_token kind i \<notin> T" and inj: "\<And>i j. mask_token kind i = mask_token kind j \<Longrightarrow> i = j"
  shows "passes kind m segs st segs' st' \<Longrightarrow> seg_tokens segs \<subseteq> fst ` set (fst st) \<Longrightarrow> distinct (map fst (fst st)) \<Longrightarrow>
    fst ` set (fst st) \<subseteq> T \<union> {mask_token kind i | i. i < snd st} \<Longrightarrow>
    (\<exists>extra. fst st' = fst st @ extra) \<and> distinct (map fst (fst st')) \<and> seg_tokens segs' \<subseteq> fst ` set (fst st')
      \<and> fst ` set (fst st') \<subseteq> T \<union> {mask_token kind i | i. i < snd st'} \<and> snd st' \<le> snd st + lits segs \<and> lits segs' \<le> lits segs
      \<and> meant (map_of (fst st')) segs' = meant (map_of (fst st)) segs"
proof (induction rule: passes.induct)
  case (skip segs st segs' st' t)
  have "seg_tokens segs \<subseteq> fst ` set (fst st)" and t: "t \<in> fst ` set (fst st)" using skip.prems(1) by simp_all
  note ih = skip.IH[OF this(1) skip.prems(2,3)]
  then obtain extra where e: "fst st' = fst st @ extra" by blast
  have "t \<in> dom (map_of (fst st))" using t by (simp add: dom_map_of_conv_image_fst)
  then have "map_of (fst st') t = map_of (fst st) t"
    using map_le_append[of "fst st" extra] unfolding map_le_def e by (metis (no_types))
  moreover have "t \<in> fst ` set (fst st')" using t unfolding e by auto
  ultimately show ?case using ih by simp
next
  case (hit v st t st1 segs segs' st')
  obtain mm n where st: "st = (mm, n)" by force
  obtain mm1 n1 where st1: "st1 = (mm1, n1)" by force
  have new: "mask_token kind n \<notin> fst ` set mm"
  proof
    assume "mask_token kind n \<in> fst ` set mm"
    with hit.prems(3) have "mask_token kind n \<in> T \<union> {mask_token kind i | i. i < n}" unfolding st by auto
    with fresh obtain i where "mask_token kind n = mask_token kind i" "i < n" by blast
    with inj[of n i] show False by simp
  qed
  obtain extra where e: "mm1 = mm @ extra" "map_of mm1 t = Some v" "distinct (map fst mm1)" "n \<le> n1" "n1 \<le> Suc n"
    "fst ` set mm1 \<subseteq> fst ` set mm \<union> {mask_token kind i | i. n \<le> i \<and> i < n1}"
    by (rule mask_value_means[OF hit.hyps(2)[unfolded st st1] new]) (use hit.prems(2) in \<open>simp_all add: st\<close>)
  have bound: "fst ` set mm1 \<subseteq> T \<union> {mask_token kind i | i. i < n1}"
  proof -
    have "fst ` set mm \<subseteq> T \<union> {mask_token kind i | i. i < n1}"
      using hit.prems(3) e(4) unfolding st by force
    with e(6) show ?thesis by blast
  qed
  have "seg_tokens segs \<subseteq> fst ` set (fst st1)" "distinct (map fst (fst st1))"
    using hit.prems(1) e(1,3) by (auto simp: st st1)
  from hit.IH[OF this] bound obtain extra' where ih: "fst st' = mm1 @ extra'" "distinct (map fst (fst st'))"
    "seg_tokens segs' \<subseteq> fst ` set (fst st')" "fst ` set (fst st') \<subseteq> T \<union> {mask_token kind i | i. i < snd st'}"
    "snd st' \<le> n1 + lits segs" "lits segs' \<le> lits segs" "meant (map_of (fst st')) segs' = meant (map_of mm1) segs"
    unfolding st1 by auto
  have t: "map_of (fst st') t = Some v"
    using map_le_append[of mm1 extra'] e(2) unfolding map_le_def ih(1) by (metis domI)
  have "meant (map_of mm1) segs = meant (map_of mm) segs"
    unfolding e(1) by (rule meant_extend[OF _ map_le_append])
      (use hit.prems(1) in \<open>auto simp: st dom_map_of_conv_image_fst\<close>)
  moreover have "t \<in> fst ` set (fst st')" using t by (metis domI dom_map_of_conv_image_fst)
  moreover have "1 \<le> length v" using hit.hyps(1) by (cases v) simp_all
  then have "snd st' \<le> snd st + lits (map Lit v @ segs)" using ih(5) e(5) by (simp add: st)
  ultimately show ?case using ih t e(1) by (auto simp: st)
qed auto

section \<open>Unmasking\<close>

text \<open>One token resolved.\<close>

fun resolve :: "string \<Rightarrow> string \<Rightarrow> seg list \<Rightarrow> seg list" where
  "resolve t v [] = []"
| "resolve t v (Lit c # segs) = Lit c # resolve t v segs"
| "resolve t v (Tok u # segs) = (if u = t then map Lit v else [Tok u]) @ resolve t v segs"

lemma resolve_tokens: "seg_tokens (resolve t v segs) = seg_tokens segs - {t}"
  by (induction t v segs rule: resolve.induct) auto

lemma resolve_meant: "f t = Some v \<Longrightarrow> meant f (resolve t v segs) = meant f segs"
  by (induction t v segs rule: resolve.induct) simp_all

lemma starts_with_meant:
  assumes "\<forall>t \<in> seg_tokens segs. token_ok t" "CHR ''['' \<notin> set p" "starts_with p (shown segs)"
  shows "starts_with p (meant f segs)"
proof -
  obtain r where "shown segs = p @ r" using assms(3) by (auto simp: starts_with_iff)
  from shown_prefix[OF assms(1,2) this] obtain segs' where "segs = map Lit p @ segs'" by blast
  then show ?thesis by simp
qed

lemma replace_all_copy:
  assumes "\<And>a u. w = a @ u \<Longrightarrow> u \<noteq> [] \<Longrightarrow> \<not> starts_with t (u @ s)" "t \<noteq> []"
  shows "replace_all t v (w @ s) = w @ replace_all t v s"
  using assms(1)
proof (induction w)
  case (Cons c w)
  have "\<not> starts_with t ((c # w) @ s)" using Cons.prems[of "[]" "c # w"] by simp
  moreover have "\<not> starts_with t (u @ s)" if "w = a @ u" "u \<noteq> []" for a u
    using Cons.prems[of "c # a" u] that by simp
  ultimately show ?case using Cons.IH assms(2) by simp
qed simp

lemma token_ok_starts:
  assumes "token_ok t" "token_ok u" "u = a @ w" "w \<noteq> []" "starts_with t (w @ s)"
  shows "t = u"
proof -
  from assms(1) obtain i where i: "t = CHR ''['' # i @ '']''" "CHR '']'' \<notin> set i" by (auto simp: token_ok_def)
  from assms(2) obtain j where j: "u = CHR ''['' # j @ '']''" "CHR ''['' \<notin> set j" "CHR '']'' \<notin> set j"
    by (auto simp: token_ok_def)
  obtain w' where w': "w = CHR ''['' # w'" using assms(4,5) i(1) by (cases w) auto
  have "a = []"
  proof (rule ccontr)
    assume "a \<noteq> []"
    then obtain a' where "j @ '']'' = a' @ CHR ''['' # w'" using assms(3) j(1) w' by (cases a) auto
    then have "CHR ''['' \<in> set (j @ '']'')" by simp
    with j(2) show False by simp
  qed
  with assms(3) have "w = u" by simp
  have "starts_with (i @ '']'') ((j @ '']'') @ s)" using assms(5) unfolding \<open>w = u\<close> i(1) j(1) by simp
  then obtain r where "i @ CHR '']'' # r = j @ CHR '']'' # s" by (auto simp: starts_with_iff)
  then have "takeWhile (\<lambda>c. c \<noteq> CHR '']'') (i @ CHR '']'' # r) = takeWhile (\<lambda>c. c \<noteq> CHR '']'') (j @ CHR '']'' # s)" by simp
  moreover have "takeWhile (\<lambda>c. c \<noteq> CHR '']'') (x @ CHR '']'' # y) = x" if "CHR '']'' \<notin> set x" for x y
    using that by (induction x) auto
  ultimately have "i = j" using i(2) j(3) by simp
  with i(1) j(1) show ?thesis by simp
qed

lemma contains_Cons: "\<not> contains p (c # s) \<Longrightarrow> \<not> contains p s"
  by simp

lemma contains_append: "\<not> contains p (w @ s) \<Longrightarrow> \<not> contains p s"
  by (induction w) auto

lemma replace_resolves:
  assumes t: "token_ok t" "f t = Some v"
  shows "\<forall>u \<in> seg_tokens segs. token_ok u \<Longrightarrow> \<not> contains t (meant f segs) \<Longrightarrow>
    replace_all t v (shown segs) = shown (resolve t v segs)"
proof (induction segs rule: seg_tokens.induct)
  case 1
  from t(1) show ?case by (auto simp: token_ok_def)
next
  case (2 c segs)
  from t(1) obtain i where i: "t = CHR ''['' # i @ '']''" "CHR ''['' \<notin> set i" by (auto simp: token_ok_def)
  have "\<not> starts_with t (c # shown segs)"
  proof
    assume "starts_with t (c # shown segs)"
    with i(1) have "c = CHR ''[''" "starts_with (i @ '']'') (shown segs)" by simp_all
    with starts_with_meant[of segs "i @ '']''" f] 2(2) i have "starts_with t (meant f (Lit c # segs))" by simp
    with 2(3) show False by simp
  qed
  moreover have "replace_all t v (shown segs) = shown (resolve t v segs)" "t \<noteq> []" using 2 i(1) by simp_all
  ultimately show ?case by simp
next
  case (3 u segs)
  have "\<not> contains t (meant f segs)" using contains_append[of t "seg_text f (Tok u)" "meant f segs"] 3(3) by simp
  then have rest: "replace_all t v (shown segs) = shown (resolve t v segs)"
    using 3(1,2) by simp
  show ?case
  proof (cases "u = t")
    case True
    then have "replace_all t v (t @ shown segs) = v @ replace_all t v (shown segs)"
      using t(1) by (cases t) (auto simp: token_ok_def)
    with True rest show ?thesis by simp
  next
    case False
    have "token_ok u" using 3(2) by simp
    have "replace_all t v (u @ shown segs) = u @ replace_all t v (shown segs)"
    proof (rule replace_all_copy)
      show "\<not> starts_with t (w @ shown segs)" if "u = a @ w" "w \<noteq> []" for a w
        using token_ok_starts[OF t(1) \<open>token_ok u\<close> that] False by blast
      show "t \<noteq> []" using t(1) by (auto simp: token_ok_def)
    qed
    with False rest show ?thesis by simp
  qed
qed

lemma unmask_resolves:
  "\<forall>(t, v) \<in> set mm. token_ok t \<and> f t = Some v \<and> \<not> contains t (meant f segs) \<Longrightarrow>
   \<forall>u \<in> seg_tokens segs. token_ok u \<Longrightarrow> seg_tokens segs \<subseteq> fst ` set mm \<Longrightarrow>
   unmask_pii (shown segs) mm = meant f segs"
proof (induction mm arbitrary: segs)
  case Nil
  then have "seg_tokens segs = {}" by simp
  then have "meant f segs = shown segs" by (induction segs rule: seg_tokens.induct) simp_all
  then show ?case by (simp add: unmask_pii_def)
next
  case (Cons p mm)
  obtain t v where p: "p = (t, v)" by force
  from Cons.prems(1) p have t: "token_ok t" "f t = Some v" "\<not> contains t (meant f segs)" by simp_all
  have "unmask_pii (shown segs) (p # mm) = unmask_pii (shown (resolve t v segs)) mm"
    using replace_resolves[of t f v segs] t Cons.prems(2) by (simp add: unmask_pii_def p)
  also have "\<dots> = meant f (resolve t v segs)"
    by (rule Cons.IH) (use Cons.prems t p in \<open>auto simp: resolve_tokens resolve_meant\<close>)
  finally show ?case using t(2) by (simp add: resolve_meant)
qed

section \<open>The tokens and the patterns of the four kinds\<close>

definition kinds :: "string set" where
  "kinds = {''EMAIL'', ''CARD'', ''RC'', ''PHONE''}"

lemma mask_token_inj:
  assumes "mask_token k i = mask_token k' j" "k \<in> kinds" "k' \<in> kinds"
  shows "k = k' \<and> i = j"
proof -
  have "k @ ''_'' @ show_nat i = k' @ ''_'' @ show_nat j" using assms(1) by (simp add: mask_token_def)
  with assms(2,3) have "k = k' \<and> show_nat i = show_nat j" by (auto simp: kinds_def)
  with digits_value_show_nat show ?thesis by metis
qed

lemma kind_token_ok:
  assumes "k \<in> kinds" "i < 10 ^ 8"
  shows "token_ok (mask_token k i)"
proof -
  have digit: "\<not> filler c = False" "c \<notin> {CHR ''['', CHR '']'', CHR 0x40}" if "c \<in> set (show_nat i)" for c
    using show_nat_digit[OF that]
    by (auto simp: is_digit_def filler_def is_alpha_def in_range_def Let_def)
  have "filter filler (show_nat i) = show_nat i" using digit(1) by (simp add: filter_id_conv)
  moreover have "filter filler k = []" using assms(1) by (auto simp: kinds_def filler_def is_alpha_def in_range_def)
  moreover have "\<not> filler (CHR ''_'')" by (simp add: filler_def)
  ultimately have "length (filter filler (k @ ''_'' @ show_nat i)) < 9"
    using length_show_nat[of i 8] assms(2) by simp
  moreover have "{CHR ''['', CHR '']'', CHR 0x40} \<inter> set (k @ ''_'' @ show_nat i) = {}"
    using digit(2) assms(1) by (auto simp: kinds_def)
  ultimately show ?thesis
    unfolding token_ok_def mask_token_def by (intro exI[of _ "k @ ''_'' @ show_nat i"]) auto
qed

text \<open>The characters and the least length of what a pattern matches.\<close>

definition bounded :: "(char \<Rightarrow> bool) \<Rightarrow> nat \<Rightarrow> (string \<Rightarrow> bool) \<Rightarrow> bool" where
  "bounded p n L \<longleftrightarrow> (\<forall>v. L v \<longrightarrow> (\<forall>c \<in> set v. p c) \<and> n \<le> length v)"

lemma bounded_many: "(\<And>c. q c \<Longrightarrow> p c) \<Longrightarrow> bounded p lo (many_lang q lo hi)"
  using many_lang_bounds by (fastforce simp: bounded_def)

lemma bounded_seq: "bounded p n L1 \<Longrightarrow> bounded p k L2 \<Longrightarrow> bounded p (n + k) (seq_lang L1 L2)"
  unfolding bounded_def using seq_lang_bounds[of L1 p n L2 k] by blast

lemma bounded_opt: "bounded p n L \<Longrightarrow> bounded p 0 (\<lambda>v. L v \<or> v = [])"
  by (auto simp: bounded_def)

lemma bounded_empty: "bounded p 0 (\<lambda>v. v = [])"
  by (auto simp: bounded_def)

lemma bounded_rep: "bounded p 1 L \<Longrightarrow> bounded p k (rep_lang L k n)"
  unfolding bounded_def using rep_lang_bounds[of L p] by blast

lemma bounded_data:
  assumes "bounded p n L" "9 \<le> n" "\<And>c. p c \<Longrightarrow> filler c \<and> c \<noteq> CHR ''['' \<and> c \<noteq> CHR '']''" "L v"
  shows "data v"
proof -
  have *: "\<forall>c \<in> set v. p c" "9 \<le> length v" using assms(1,2,4) by (auto simp: bounded_def)
  then have "v \<noteq> []" by auto
  with * assms(3) show ?thesis unfolding data_def list_all_iff by blast
qed

definition phone_char :: "char \<Rightarrow> bool" where
  "phone_char c = (is_digit c \<or> c \<in> set '' +-.()/'')"

lemma phone_char_filler: "phone_char c \<Longrightarrow> filler c \<and> c \<noteq> CHR ''['' \<and> c \<noteq> CHR '']''"
  by (auto simp: phone_char_def filler_def is_alpha_def in_range_def is_digit_def Let_def)

lemmas bounded_rules = bounded_seq bounded_many bounded_opt bounded_empty bounded_rep

definition email_lang :: "string \<Rightarrow> bool" where
  "email_lang = seq_lang (many_lang email_local 1 None) (seq_lang (many_lang (\<lambda>c. c = CHR 0x40) 1 (Some 1))
     (seq_lang (many_lang email_host 1 None) (seq_lang (many_lang (\<lambda>c. c = CHR 0x2E) 1 (Some 1)) (many_lang is_alpha 2 None))))"

lemma exact_email: "exact email_re email_lang"
  unfolding email_re_def email_lang_def by (intro matches)

lemma email_data: "email_lang v \<Longrightarrow> data v"
proof -
  assume v: "email_lang v"
  have five: "(5 :: nat) \<le> 1 + (1 + (1 + (1 + 2)))" by simp
  have "bounded (\<lambda>c. c \<noteq> CHR ''['' \<and> c \<noteq> CHR '']'') (1 + (1 + (1 + (1 + 2)))) email_lang"
    unfolding email_lang_def
    by (intro bounded_seq bounded_many)
      (auto simp: email_local_def email_host_def is_alpha_def in_range_def is_digit_def Let_def)
  with v have no: "\<forall>c \<in> set v. c \<noteq> CHR ''['' \<and> c \<noteq> CHR '']''" by (simp add: bounded_def)
  from v obtain a b c where abc: "v = a @ b @ c" "many_lang (\<lambda>c. c = CHR 0x40) 1 (Some 1) b"
    unfolding email_lang_def seq_lang_def by blast
  then have "b = [CHR 0x40]" by (cases b) (auto simp: many_lang_def)
  with no abc(1) show "data v" by (auto simp: data_def)
qed

text \<open>Matchers with such a language, exactly or at most.\<close>

definition finds :: "(char \<Rightarrow> bool) \<Rightarrow> nat \<Rightarrow> matcher \<Rightarrow> bool" where
  "finds p n m \<longleftrightarrow> (\<exists>L. exact m L \<and> bounded p n L)"

definition spots :: "(char \<Rightarrow> bool) \<Rightarrow> nat \<Rightarrow> matcher \<Rightarrow> bool" where
  "spots p n m \<longleftrightarrow> (\<exists>L. sound m L \<and> bounded p n L)"

lemma finds_many: "(\<And>c. q c \<Longrightarrow> p c) \<Longrightarrow> finds p lo (m_many q lo hi)"
  using exact_many bounded_many unfolding finds_def by blast

lemma finds_optional: "(\<And>c. q c \<Longrightarrow> p c) \<Longrightarrow> finds p 0 (m_optional q)"
  unfolding m_optional_def by (rule finds_many)

lemma finds_one: "(\<And>c. q c \<Longrightarrow> p c) \<Longrightarrow> finds p 1 (m_one q)"
  unfolding m_one_def by (rule finds_many)

lemma finds_seq: "finds p n m1 \<Longrightarrow> finds p k m2 \<Longrightarrow> finds p (n + k) (m_seq m1 m2)"
  unfolding finds_def using exact_seq bounded_seq by blast

lemma finds_opt: "finds p n m \<Longrightarrow> finds p 0 (m_opt m)"
  unfolding finds_def using exact_opt bounded_opt by blast

lemma finds_rep: "finds p (1 + 0) m \<Longrightarrow> finds p k (m_rep m k n)"
  unfolding finds_def using exact_rep bounded_rep by (metis add.right_neutral)

lemma finds_spots: "finds p n m \<Longrightarrow> spots p n m"
  unfolding finds_def spots_def using exact_sound by blast

lemma spots_seq: "spots p n m1 \<Longrightarrow> spots p k m2 \<Longrightarrow> spots p (n + k) (m_seq m1 m2)"
  unfolding spots_def using sound_seq bounded_seq by blast

lemma spots_boundary: "spots p 0 m_boundary"
  unfolding spots_def using sound_boundary bounded_empty by blast

lemma spots_data: "spots p n m \<Longrightarrow> 9 \<le> n \<Longrightarrow> (\<And>c. p c \<Longrightarrow> phone_char c) \<Longrightarrow> sound m data"
  unfolding spots_def
  by (elim exE conjE, rule sound_weaken, assumption, rule bounded_data[where p = p]) (use phone_char_filler in blast)+

lemma phone_chars:
  "c = CHR 0x2B \<Longrightarrow> phone_char c" "c = CHR 0x28 \<Longrightarrow> phone_char c" "c = CHR 0x29 \<Longrightarrow> phone_char c"
  "c = CHR 0x2F \<Longrightarrow> phone_char c" "separator c \<Longrightarrow> phone_char c" "is_digit c \<Longrightarrow> phone_char c" "c \<in> set '' -'' \<Longrightarrow> phone_char c"
  by (auto simp: phone_char_def separator_def)

lemma finds_phone: "finds phone_char 9 phone_re"
proof -
  have "finds phone_char (0 + (0 + (3 + (0 + (3 + (0 + 3)))))) phone_re"
    unfolding phone_re_def
    by (rule finds_seq finds_opt finds_optional finds_many phone_chars | assumption)+
  then show ?thesis by simp
qed

lemma spots_birthnum: "spots phone_char 9 birthnum_re"
proof -
  have "spots phone_char (0 + (6 + (0 + (3 + 0)))) birthnum_re"
    unfolding birthnum_re_def
    by (rule spots_seq spots_boundary | (rule finds_spots, rule finds_many finds_optional, erule phone_chars))+
  then show ?thesis by simp
qed

lemma spots_card: "spots phone_char 13 card_re"
proof -
  have "finds phone_char 13 (m_rep (m_seq (m_one is_digit) (m_optional (\<lambda>c. c \<in> set '' -''))) 13 6)"
    by (rule finds_rep, rule finds_seq, rule finds_one, erule phone_chars, rule finds_optional, erule phone_chars)
  then have "spots phone_char (0 + (13 + 0)) card_re"
    unfolding card_re_def by (intro spots_seq spots_boundary finds_spots)
  then show ?thesis by simp
qed

lemma sound_email: "sound email_re data"
  by (rule sound_weaken[OF exact_sound[OF exact_email] email_data])

lemma sound_phone: "sound phone_re data"
  by (rule spots_data[OF finds_spots[OF finds_phone]]) simp_all

lemma sound_birthnum: "sound birthnum_re data"
  by (rule spots_data[OF spots_birthnum]) simp_all

lemma sound_card: "sound card_re data"
  by (rule spots_data[OF spots_card]) simp_all

section \<open>The four passes\<close>

definition tokens_of :: "string set \<Rightarrow> string set" where
  "tokens_of K = {mask_token k i | k i. k \<in> K \<and> i < 10 ^ 8}"

definition masked :: "string set \<Rightarrow> mask_map \<Rightarrow> seg list \<Rightarrow> bool" where
  "masked K mm segs \<longleftrightarrow> K \<subseteq> kinds \<and> distinct (map fst mm) \<and> seg_tokens segs \<subseteq> fst ` set mm
     \<and> fst ` set mm \<subseteq> tokens_of K \<and> lits segs < 10 ^ 8"

lemma masked_tokens:
  assumes "masked K mm segs" "t \<in> fst ` set mm"
  shows "token_ok t"
proof -
  from assms have "t \<in> tokens_of K" "K \<subseteq> kinds" unfolding masked_def by (blast, blast)
  then obtain k i where "t = mask_token k i" "k \<in> kinds" "i < 10 ^ 8" unfolding tokens_of_def by blast
  then show ?thesis using kind_token_ok by blast
qed

lemma masked_seg_tokens:
  assumes "masked K mm segs"
  shows "\<forall>t \<in> seg_tokens segs. token_ok t"
proof
  fix t assume "t \<in> seg_tokens segs"
  moreover from assms have "seg_tokens segs \<subseteq> fst ` set mm" unfolding masked_def by (elim conjE)
  ultimately show "token_ok t" using masked_tokens[OF assms] by (meson subsetD)
qed

lemma mask_kind_segments:
  assumes m: "sound m data" and kind: "kind \<in> kinds" "kind \<notin> K" and ok: "masked K mm segs"
    and run: "mask_kind kind m (shown segs, mm) = (out, mm')"
  obtains segs' st' where "passes kind m segs (mm, 0) segs' st'" "out = shown segs'" "masked (insert kind K) mm' segs'"
    "meant (map_of mm') segs' = meant (map_of mm) segs"
proof -
  from run obtain n where "mask_pass kind m None (shown segs) (mm, 0) = (out, mm', n)"
    by (auto simp: mask_kind_def split: prod.splits)
  from mask_pass_passes[OF m masked_seg_tokens[OF ok] this] obtain segs' where
    p: "passes kind m segs (mm, 0) segs' (mm', n)" "out = shown segs'" by blast
  have K: "K \<subseteq> kinds" "fst ` set mm \<subseteq> tokens_of K" using ok by (simp_all add: masked_def)
  have fresh: "mask_token kind i \<notin> tokens_of K" for i
    using mask_token_inj[OF _ kind(1)] kind(2) K(1) unfolding tokens_of_def by blast
  have inj: "i = j" if "mask_token kind i = mask_token kind j" for i j
    using mask_token_inj[OF that kind(1) kind(1)] by simp
  have start: "seg_tokens segs \<subseteq> fst ` set (fst (mm, 0 :: nat))" "distinct (map fst (fst (mm, 0 :: nat)))"
    "fst ` set (fst (mm, 0 :: nat)) \<subseteq> tokens_of K \<union> {mask_token kind i | i. i < snd (mm, 0 :: nat)}"
    using ok by (auto simp: masked_def)
  have r: "distinct (map fst mm') \<and> seg_tokens segs' \<subseteq> fst ` set mm'
      \<and> fst ` set mm' \<subseteq> tokens_of K \<union> {mask_token kind i | i. i < n} \<and> n \<le> lits segs \<and> lits segs' \<le> lits segs
      \<and> meant (map_of mm') segs' = meant (map_of mm) segs"
    using passes_meaning[where T = "tokens_of K" and kind = kind, OF fresh _ p(1) start] inj by simp
  then have "n \<le> lits segs" "lits segs' \<le> lits segs" by simp_all
  then have bounds: "n < 10 ^ 8" "lits segs' < 10 ^ 8" using ok by (simp_all add: masked_def)
  have "tokens_of K \<union> {mask_token kind i | i. i < n} \<subseteq> tokens_of (insert kind K)"
    using bounds(1) unfolding tokens_of_def by fastforce
  then have "masked (insert kind K) mm' segs'"
    using r bounds(2) K(1) kind(1) unfolding masked_def by blast
  moreover have "meant (map_of mm') segs' = meant (map_of mm) segs" using r by (elim conjE)
  ultimately show thesis using p by (intro that)
qed

lemma mask_pii_segments:
  assumes "mask_pii s None = (out, mm)" "length s < 10 ^ 8"
  obtains segs1 segs2 segs3 segs4 st1 st2 st3 st4 sts2 sts3 sts4 where
    "passes ''EMAIL'' email_re (map Lit s) ([], 0) segs1 st1" "passes ''CARD'' card_re segs1 sts2 segs2 st2"
    "passes ''RC'' birthnum_re segs2 sts3 segs3 st3" "passes ''PHONE'' phone_re segs3 sts4 segs4 st4"
    "out = shown segs4" "masked kinds mm segs4" "meant (map_of mm) segs4 = s"
proof -
  obtain out1 mm1 where r1: "mask_kind ''EMAIL'' email_re (s, []) = (out1, mm1)" by (metis surj_pair)
  obtain out2 mm2 where r2: "mask_kind ''CARD'' card_re (out1, mm1) = (out2, mm2)" by (metis surj_pair)
  obtain out3 mm3 where r3: "mask_kind ''RC'' birthnum_re (out2, mm2) = (out3, mm3)" by (metis surj_pair)
  have r4: "mask_kind ''PHONE'' phone_re (out3, mm3) = (out, mm)" using assms(1) r1 r2 r3 by (simp add: mask_pii_def)
  have start: "masked {} [] (map Lit s)" using assms(2) by (simp add: masked_def)
  have k: "''EMAIL'' \<in> kinds" "''CARD'' \<in> kinds" "''RC'' \<in> kinds" "''PHONE'' \<in> kinds" by (simp_all add: kinds_def)
  have r1': "mask_kind ''EMAIL'' email_re (shown (map Lit s), []) = (out1, mm1)" using r1 by simp
  obtain segs1 st1 where 1: "passes ''EMAIL'' email_re (map Lit s) ([], 0) segs1 st1" "out1 = shown segs1"
    "masked {''EMAIL''} mm1 segs1" "meant (map_of mm1) segs1 = s"
    by (rule mask_kind_segments[OF sound_email k(1) _ start r1']) simp_all
  obtain segs2 st2 where 2: "passes ''CARD'' card_re segs1 (mm1, 0) segs2 st2" "out2 = shown segs2"
    "masked {''CARD'', ''EMAIL''} mm2 segs2" "meant (map_of mm2) segs2 = s"
    by (rule mask_kind_segments[OF sound_card k(2) _ 1(3) r2[unfolded 1(2)]]) (simp_all add: 1(4))
  obtain segs3 st3 where 3: "passes ''RC'' birthnum_re segs2 (mm2, 0) segs3 st3" "out3 = shown segs3"
    "masked {''RC'', ''CARD'', ''EMAIL''} mm3 segs3" "meant (map_of mm3) segs3 = s"
    by (rule mask_kind_segments[OF sound_birthnum k(3) _ 2(3) r3[unfolded 2(2)]]) (simp_all add: 2(4))
  have all: "kinds = {''PHONE'', ''RC'', ''CARD'', ''EMAIL''}" by (auto simp: kinds_def)
  obtain segs4 st4 where "passes ''PHONE'' phone_re segs3 (mm3, 0) segs4 st4" "out = shown segs4"
    "masked kinds mm segs4" "meant (map_of mm) segs4 = s"
    unfolding all by (rule mask_kind_segments[OF sound_phone k(4) _ 3(3) r4[unfolded 3(2)]]) (simp_all add: 3(4))
  with 1(1) 2(1) 3(1) show thesis using that by blast
qed

section \<open>Properties\<close>

text \<open>
  C4. Unmasking undoes masking. For a text (shorter than 10^8 characters) none of whose own parts
  looks like one of the tokens chosen, replacing the tokens of the masked text by the map's values
  gives the text back; every token is mapped to one value only. A text that contains such a token
  itself, like the literal characters \<open>[EMAIL_0]\<close> beside an address, does not come back.
\<close>
theorem mask_roundtrip:
  assumes run: "mask_pii s None = (out, mm)" and small: "length s < 10 ^ 8"
    and apart: "\<And>t. t \<in> fst ` set mm \<Longrightarrow> \<not> contains t s"
  shows "unmask_pii out mm = s \<and> distinct (map fst mm)"
proof -
  from mask_pii_segments[OF run small] obtain segs where
    segs: "out = shown segs" "masked kinds mm segs" "meant (map_of mm) segs = s" .
  then have distinct: "distinct (map fst mm)" and tokens: "seg_tokens segs \<subseteq> fst ` set mm"
    by (simp_all add: masked_def)
  have "token_ok t \<and> map_of mm t = Some v \<and> \<not> contains t (meant (map_of mm) segs)" if "(t, v) \<in> set mm" for t v
  proof -
    have "t \<in> fst ` set mm" using that by force
    with masked_tokens[OF segs(2)] apart that distinct segs(3) show ?thesis by simp
  qed
  then have "unmask_pii (shown segs) mm = meant (map_of mm) segs"
    using masked_seg_tokens[OF segs(2)] tokens by (intro unmask_resolves) auto
  with segs distinct show ?thesis by simp
qed

definition sample_text :: string where
  "sample_text = ''Eva a@b.cz, +420 777 123 456 [x]''"

theorem mask_roundtrip_witness:
  "mask_pii sample_text None =
     (''Eva [EMAIL_0], [PHONE_0] [x]'', [(''[EMAIL_0]'', ''a@b.cz''), (''[PHONE_0]'', ''+420 777 123 456'')])
   \<and> unmask_pii (fst (mask_pii sample_text None)) (snd (mask_pii sample_text None)) = sample_text"
proof -
  have run: "mask_pii sample_text None =
     (''Eva [EMAIL_0], [PHONE_0] [x]'', [(''[EMAIL_0]'', ''a@b.cz''), (''[PHONE_0]'', ''+420 777 123 456'')])"
    by code_simp
  have "length sample_text < 10 ^ 8" by (simp add: sample_text_def)
  moreover have "\<not> contains t sample_text"
    if "t \<in> fst ` set [(''[EMAIL_0]'', ''a@b.cz''), (''[PHONE_0]'', ''+420 777 123 456'')]" for t
    using that by (auto simp: sample_text_def)
  ultimately show ?thesis using mask_roundtrip[OF run] run by simp
qed

text \<open>
  What a masked text hides. Anywhere in the masked text, the e-mail pattern and the phone pattern
  find nothing any more.
\<close>
theorem masked_hides:
  assumes run: "mask_pii s None = (out, mm)" and small: "length s < 10 ^ 8" and at: "out = a @ b"
  shows "email_re prev b = [] \<and> phone_re prev b = []"
proof (rule mask_pii_segments[OF run small])
  fix segs1 segs2 segs3 segs4 st1 st2 st3 st4 sts2 sts3 sts4
  assume p: "passes ''EMAIL'' email_re (map Lit s) ([], 0) segs1 st1" "passes ''CARD'' card_re segs1 sts2 segs2 st2"
      "passes ''RC'' birthnum_re segs2 sts3 segs3 st3" "passes ''PHONE'' phone_re segs3 sts4 segs4 st4"
    and out: "out = shown segs4" and ok: "masked kinds mm segs4"
  have literal: "\<exists>A B. segs4 = A @ map Lit v @ B" if "b = v @ r" "data v" for v r
    using data_is_literal[OF masked_seg_tokens[OF ok] that(2), of a r] at that(1) out by simp
  have "(v, r) \<notin> set (email_re prev b)" for v r
  proof
    assume "(v, r) \<in> set (email_re prev b)"
    then have v: "b = v @ r" "email_lang v" using exact_email unfolding exact_def by blast+
    from literal[OF v(1) email_data[OF v(2)]] passes_infix[OF p(4)] passes_infix[OF p(3)] passes_infix[OF p(2)]
    obtain A B where "segs1 = A @ map Lit v @ B" by metis
    moreover have "v \<noteq> []" using email_data[OF v(2)] by (simp add: data_def)
    ultimately show False using passes_clean[OF exact_email _ p(1)] v(2) by blast
  qed
  moreover from finds_phone obtain L where L: "exact phone_re L" by (auto simp: finds_def)
  have "(v, r) \<notin> set (phone_re prev b)" for v r
  proof
    assume "(v, r) \<in> set (phone_re prev b)"
    then have v: "b = v @ r" "L v" "data v" using L soundD[OF sound_phone] unfolding exact_def by blast+
    from literal[OF v(1,3)] obtain A B where "segs4 = A @ map Lit v @ B" by blast
    moreover have "v \<noteq> []" using v(3) by (simp add: data_def)
    ultimately show False using passes_clean[OF L _ p(4)] v(2) by blast
  qed
  ultimately show ?thesis by (metis list.set_intros(1) neq_Nil_conv surj_pair)
qed

theorem masked_hides_witness:
  "email_re None (fst (mask_pii sample_text None)) = [] \<and> phone_re None (fst (mask_pii sample_text None)) = []"
proof -
  have "length sample_text < 10 ^ 8" by (simp add: sample_text_def)
  then show ?thesis
    using masked_hides[OF prod.collapse[symmetric], of sample_text "[]" "fst (mask_pii sample_text None)" None] by simp
qed

text \<open>What a pass leaves alone in the map.\<close>

lemma map_of_dict_set: "map_of (dict_set k v kvs) = (map_of kvs)(k \<mapsto> v)"
  by (induction k v kvs rule: dict_set.induct) (auto simp: fun_eq_iff)

lemma mask_pass_keeps:
  "mask_pass kind m prev s st = (out, mm', n') \<Longrightarrow> (\<And>i. snd st \<le> i \<Longrightarrow> t \<noteq> mask_token kind i) \<Longrightarrow>
     map_of mm' t = map_of (fst st) t"
proof (induction kind m prev s st arbitrary: out rule: mask_pass.induct)
  case (2 kind m prev c s st)
  note IH = "2.IH" and prems = "2.prems"
  show ?case
  proof (cases "m prev (c # s)")
    case Nil
    with prems obtain out1 where "mask_pass kind m (Some c) s st = (out1, mm', n')" by (auto split: prod.splits)
    with IH(1)[OF Nil] prems(2) show ?thesis by blast
  next
    case (Cons x xs)
    obtain v r where x: "x = (v, r)" by force
    show ?thesis
    proof (cases "v = []")
      case True
      with Cons x prems IH(2)[OF Cons x[symmetric] True] show ?thesis by (auto split: prod.splits)
    next
      case False
      obtain tok st1 where mv: "mask_value kind v st = (tok, st1)" by (metis surj_pair)
      have st1: "map_of (fst st1) t = map_of (fst st) t" "snd st \<le> snd st1"
        using mv prems(2)[of "snd st"]
        by (auto simp: mask_value_def map_of_dict_set Let_def split: option.splits)
      from Cons x False mv prems(1) obtain out1 where
        "mask_pass kind m (Some (last v)) (drop (length v) (c # s)) st1 = (out1, mm', n')"
        by (auto split: prod.splits)
      with IH(3)[OF Cons x[symmetric] False] mv st1 prems(2) show ?thesis by auto
    qed
  qed
qed simp

lemma mask_kind_keeps:
  assumes "mask_kind kind m (s, mm) = (out, mm')" "\<And>i. t \<noteq> mask_token kind i"
  shows "map_of mm' t = map_of mm t"
  using assms mask_pass_keeps[of kind m None s "(mm, 0)" out mm' _ t] by (auto simp: mask_kind_def split: prod.splits)

text \<open>
  A second text under the map of a first one. \<open>mask_pii\<close> counts its tokens from zero in every
  call, so when the first address in the new text is not in the map yet, it takes the token
  \<open>[EMAIL_0]\<close>, whether or not an address of an earlier text has it: in the map returned that token
  means the new address only.
\<close>
theorem remasking_takes_tokens:
  assumes run: "mask_pii (a @ b) (Some existing) = (out, mm)"
    and first: "\<And>prev. email_re prev b = (v, r) # ms" "v \<noteq> []" "v \<notin> snd ` set existing"
    and before: "\<And>a1 u prev. a = a1 @ u \<Longrightarrow> u \<noteq> [] \<Longrightarrow> email_re prev (u @ b) = []"
  shows "map_of mm ''[EMAIL_0]'' = Some v"
proof -
  have zero: "mask_token ''EMAIL'' 0 = ''[EMAIL_0]''" by code_simp
  obtain out1 mm1 where r1: "mask_kind ''EMAIL'' email_re (a @ b, existing) = (out1, mm1)" by (metis surj_pair)
  obtain out2 mm2 where r2: "mask_kind ''CARD'' card_re (out1, mm1) = (out2, mm2)" by (metis surj_pair)
  obtain out3 mm3 where r3: "mask_kind ''RC'' birthnum_re (out2, mm2) = (out3, mm3)" by (metis surj_pair)
  have r4: "mask_kind ''PHONE'' phone_re (out3, mm3) = (out, mm)" using run r1 r2 r3 by (simp add: mask_pii_def)
  have none: "find (\<lambda>(_, original). original = v) existing = None"
    using first(3) by (force simp: find_None_iff)
  obtain c b' where b: "b = c # b'" using first(1)[of None] first(2) soundD[OF sound_email, of v r None b] by (cases b) auto
  obtain n1 where "mask_pass ''EMAIL'' email_re None (a @ b) (existing, 0) = (out1, mm1, n1)"
    using r1 by (auto simp: mask_kind_def split: prod.splits)
  with mask_pass_skip[of a email_re b "''EMAIL''" None "(existing, 0)", OF before] obtain out' prev where
    "mask_pass ''EMAIL'' email_re prev b (existing, 0) = (out', mm1, n1)"
    by (auto split: prod.splits)
  then obtain out'' where
    "mask_pass ''EMAIL'' email_re (Some (last v)) (drop (length v) b) (dict_set ''[EMAIL_0]'' v existing, 1) = (out'', mm1, n1)"
    using first(1,2) none b zero by (auto simp: mask_value_def Let_def split: prod.splits)
  moreover have "''[EMAIL_0]'' \<noteq> mask_token ''EMAIL'' i" if "1 \<le> i" for i
    using mask_token_inj[of "''EMAIL''" 0 "''EMAIL''" i] zero that by (auto simp: kinds_def)
  ultimately have "map_of mm1 ''[EMAIL_0]'' = Some v"
    using mask_pass_keeps[where t = "''[EMAIL_0]''"] by (fastforce simp: map_of_dict_set)
  moreover have "''[EMAIL_0]'' \<noteq> mask_token k i" if "k \<in> {''CARD'', ''RC'', ''PHONE''}" for k i
    using mask_token_inj[of "''EMAIL''" 0 k i] zero that by (auto simp: kinds_def)
  ultimately show ?thesis
    using mask_kind_keeps[OF r2, of "''[EMAIL_0]''"] mask_kind_keeps[OF r3, of "''[EMAIL_0]''"]
      mask_kind_keeps[OF r4, of "''[EMAIL_0]''"] by simp
qed

theorem remasking_takes_tokens_witness:
  "map_of (snd (mask_pii ''c@d.cz'' (Some [(''[EMAIL_0]'', ''a@b.cz'')]))) ''[EMAIL_0]'' = Some ''c@d.cz''"
proof -
  have "email_re prev ''c@d.cz'' = [(''c@d.cz'', [])]" for prev
    unfolding email_re_def m_seq_def m_one_def m_many_def by code_simp
  then show ?thesis
    using remasking_takes_tokens[OF prod.collapse[symmetric], where a = "[]" and b = "''c@d.cz''"
        and existing = "[(''[EMAIL_0]'', ''a@b.cz'')]" and v = "''c@d.cz''" and r = "[]" and ms = "[]"] by simp
qed

end
