(* ===== verification/LlmGateway.thy ===== *)
theory LlmGateway
  imports Guardrails PyValues TtlCache
begin

text \<open>
  The gateway of \<open>agents/llm_gateway.py\<close> with the prices of \<open>agents/pricing.py\<close>: completions through
  the cache, the tool-use loop, and the usage rows they leave. The Anthropic SDK, the retry decorator,
  SHA-256 and the clocks are parameters; the cache is one that meets \<open>django_cache\<close>. Costs are exact
  decimals. The log line of a call carries its fields but the cost in dollars, which the code computes
  in floats.
\<close>

section \<open>Prices\<close>

definition model_pricing :: "string \<Rightarrow> (rat \<times> rat) option" where
  "model_pricing model =
     (if model = ''claude-sonnet-4-20250514'' then Some (3, 15)
      else if model = ''claude-sonnet-4-6'' then Some (3, 15)
      else if model = ''claude-opus-4-7'' then Some (15, 75)
      else if model = ''claude-haiku-4-5-20251001'' then Some (1, 5)
      else None)"

definition resolve_model :: "string \<Rightarrow> string" where
  "resolve_model name =
     (if name = ''sonnet'' then ''claude-sonnet-4-20250514''
      else if name = ''haiku'' then ''claude-haiku-4-5-20251001''
      else if name = ''opus'' then ''claude-opus-4-7''
      else name)"

text \<open>\<open>Decimal.quantize\<close> to four places is \<open>round_half_even\<close>.\<close>

definition compute_cost :: "rat \<Rightarrow> string \<Rightarrow> nat \<Rightarrow> nat \<Rightarrow> rat" where
  "compute_cost usd_to_czk model input_tokens output_tokens =
     (case model_pricing model of
        None \<Rightarrow> 0
      | Some (input_price, output_price) \<Rightarrow>
          (let usd = (input_price * of_nat input_tokens + output_price * of_nat output_tokens) / 1000000
           in of_int (round_half_even (usd * usd_to_czk * 10000)) / 10000))"

section \<open>The SDK\<close>

datatype sdk_error = Authentication_error | Rate_limit_error | Connection_error | Status_error nat

datatype gateway_error = LLMAuthError | LLMRateLimitError | LLMUnavailableError

definition gateway_error_of :: "sdk_error \<Rightarrow> gateway_error" where
  "gateway_error_of e =
     (case e of Authentication_error \<Rightarrow> LLMAuthError | Rate_limit_error \<Rightarrow> LLMRateLimitError
      | Connection_error \<Rightarrow> LLMUnavailableError | Status_error _ \<Rightarrow> LLMUnavailableError)"

datatype block =
  Text_block string
| Tool_use (use_id: string) (use_name: string) (use_input: json)
| Other_block

datatype chat_message =
  User_text string
| Assistant "block list"
| Tool_results "(string \<times> string) list"

record llm_request =
  rq_model :: string
  rq_max_tokens :: nat
  rq_temperature :: rat
  rq_messages :: "chat_message list"
  rq_system :: string
  rq_tools :: "json list"

record llm_message =
  blocks :: "block list"
  stop_reason :: "string option"
  input_tokens :: nat
  output_tokens :: nat

text \<open>\<open>retrying\<close> is \<open>tenacity\<close>'s wrapper of the call; \<open>monotonic\<close> and \<open>wall_clock\<close> read the time.\<close>

record 's llm_api =
  create :: "llm_request \<Rightarrow> 's \<Rightarrow> (sdk_error, llm_message) result \<times> 's"
  retrying :: "('s \<Rightarrow> (sdk_error, llm_message) result \<times> 's) \<Rightarrow> 's \<Rightarrow> (sdk_error, llm_message) result \<times> 's"
  monotonic :: "'s \<Rightarrow> rat"
  wall_clock :: "'s \<Rightarrow> rat"
  sha_json :: "string \<times> rat \<times> string \<times> string \<Rightarrow> string"
  sha_text :: "string \<Rightarrow> string"

record llm_settings =
  api_key :: string
  cache_enabled :: bool
  default_ttl :: rat
  usd_rate :: rat

section \<open>Responses and the state\<close>

record llm_response =
  rs_content :: string
  rs_model :: string
  rs_input :: nat
  rs_output :: nat
  rs_cost :: rat
  rs_cached :: bool
  rs_latency :: int
  rs_stop :: "string option"

text \<open>What is kept in the cache, the response less \<open>cached\<close> and \<open>latency_ms\<close>.\<close>

record cached_response =
  cr_content :: string
  cr_model :: string
  cr_input :: nat
  cr_output :: nat
  cr_cost :: rat
  cr_stop :: "string option"

record llm_event =
  ev_tenant :: "nat option"
  ev_model :: string
  ev_tokens :: nat
  ev_latency :: int
  ev_cached :: bool

record ('s, 'c) gateway =
  sdk :: 's
  client_made :: bool
  llm_cache :: 'c
  usage_rows :: "llm_usage list"
  llm_log :: "llm_event list"

definition get_client :: "llm_settings \<Rightarrow> ('s, 'c) gateway \<Rightarrow> (gateway_error, ('s, 'c) gateway) result" where
  "get_client settings g =
     (if client_made g then Inr g
      else if api_key settings = [] then Inl LLMAuthError
      else Inr (g\<lparr>client_made := True\<rparr>))"

definition cache_key :: "'s llm_api \<Rightarrow> string \<Rightarrow> rat \<Rightarrow> string \<Rightarrow> string option \<Rightarrow> string" where
  "cache_key api model temperature prompt system =
     ''llm:'' @ sha_json api (model, temperature, prompt, case system of Some s \<Rightarrow> s | None \<Rightarrow> [])"

definition record_usage ::
  "'s llm_api \<Rightarrow> llm_response \<Rightarrow> nat option \<Rightarrow> string \<Rightarrow> ('s, 'c) gateway \<Rightarrow> ('s, 'c) gateway" where
  "record_usage api r tenant key g =
     g\<lparr>usage_rows := usage_rows g @
        [\<lparr>usage_tenant = tenant, usage_model = rs_model r,
          usage_prompt_hash = (if starts_with ''llm:'' key then drop 4 key else key),
          usage_input = rs_input r, usage_output = rs_output r, usage_cost = rs_cost r,
          usage_cached = rs_cached r, usage_latency = rs_latency r, usage_at = wall_clock api (sdk g)\<rparr>]\<rparr>"

definition emit_llm_event :: "llm_response \<Rightarrow> nat option \<Rightarrow> ('s, 'c) gateway \<Rightarrow> ('s, 'c) gateway" where
  "emit_llm_event r tenant g =
     g\<lparr>llm_log := llm_log g @ [\<lparr>ev_tenant = tenant, ev_model = rs_model r,
        ev_tokens = rs_input r + rs_output r, ev_latency = rs_latency r, ev_cached = rs_cached r\<rparr>]\<rparr>"

section \<open>Completions\<close>

definition call_anthropic ::
  "'s llm_api \<Rightarrow> llm_settings \<Rightarrow> llm_request \<Rightarrow> ('s, 'c) gateway
     \<Rightarrow> (gateway_error, llm_message) result \<times> ('s, 'c) gateway" where
  "call_anthropic api settings request g =
     (case get_client settings g of
        Inl e \<Rightarrow> (Inl e, g)
      | Inr g1 \<Rightarrow>
          (case retrying api (create api request) (sdk g1) of
             (Inl e, s) \<Rightarrow> (Inl (gateway_error_of e), g1\<lparr>sdk := s\<rparr>)
           | (Inr m, s) \<Rightarrow> (Inr m, g1\<lparr>sdk := s\<rparr>)))"

fun block_text :: "block \<Rightarrow> string" where
  "block_text (Text_block t) = t"
| "block_text _ = []"

definition completion :: "rat \<Rightarrow> string \<Rightarrow> int \<Rightarrow> llm_message \<Rightarrow> llm_response" where
  "completion rate model latency m =
     \<lparr>rs_content = concat (map block_text (blocks m)), rs_model = model, rs_input = input_tokens m,
      rs_output = output_tokens m, rs_cost = compute_cost rate model (input_tokens m) (output_tokens m),
      rs_cached = False, rs_latency = latency, rs_stop = stop_reason m\<rparr>"

definition to_cache :: "llm_response \<Rightarrow> cached_response" where
  "to_cache r = \<lparr>cr_content = rs_content r, cr_model = rs_model r, cr_input = rs_input r, cr_output = rs_output r,
     cr_cost = rs_cost r, cr_stop = rs_stop r\<rparr>"

definition from_cache :: "cached_response \<Rightarrow> llm_response" where
  "from_cache c = \<lparr>rs_content = cr_content c, rs_model = cr_model c, rs_input = cr_input c, rs_output = cr_output c,
     rs_cost = cr_cost c, rs_cached = True, rs_latency = 0, rs_stop = cr_stop c\<rparr>"

definition milliseconds :: "rat \<Rightarrow> int" where
  "milliseconds t = (if t < 0 then - \<lfloor>- (t * 1000)\<rfloor> else \<lfloor>t * 1000\<rfloor>)"

record completion_args =
  ca_prompt :: string
  ca_model :: string
  ca_system :: "string option"
  ca_temperature :: rat
  ca_max_tokens :: nat
  ca_cache_ttl :: "rat option"
  ca_tenant :: "nat option"

definition completion_request :: "string \<Rightarrow> completion_args \<Rightarrow> llm_request" where
  "completion_request model a =
     \<lparr>rq_model = model, rq_max_tokens = ca_max_tokens a, rq_temperature = ca_temperature a,
      rq_messages = [User_text (ca_prompt a)], rq_system = (case ca_system a of Some s \<Rightarrow> s | None \<Rightarrow> []), rq_tools = []\<rparr>"

definition complete ::
  "(string \<Rightarrow> rat \<Rightarrow> 'c \<Rightarrow> cached_response option) \<Rightarrow> (string \<Rightarrow> cached_response \<Rightarrow> rat \<Rightarrow> rat \<Rightarrow> 'c \<Rightarrow> 'c)
     \<Rightarrow> 's llm_api \<Rightarrow> llm_settings \<Rightarrow> completion_args \<Rightarrow> ('s, 'c) gateway
     \<Rightarrow> (gateway_error, llm_response) result \<times> ('s, 'c) gateway" where
  "complete cget cset api settings a g =
     (let model = resolve_model (ca_model a);
          cache_on = (cache_enabled settings \<and> (case ca_cache_ttl a of None \<Rightarrow> True | Some t \<Rightarrow> t > 0));
          ttl = (case ca_cache_ttl a of Some t \<Rightarrow> t | None \<Rightarrow> default_ttl settings);
          key = cache_key api model (ca_temperature a) (ca_prompt a) (ca_system a)
      in case (if cache_on then cget key (wall_clock api (sdk g)) (llm_cache g) else None) of
           Some c \<Rightarrow> (Inr (from_cache c), record_usage api (from_cache c) (ca_tenant a) key g)
         | None \<Rightarrow>
             (case call_anthropic api settings (completion_request model a) g of
                (Inl e, g1) \<Rightarrow> (Inl e, g1)
              | (Inr m, g1) \<Rightarrow>
                  (let r = completion (usd_rate settings) model
                             (milliseconds (monotonic api (sdk g1) - monotonic api (sdk g))) m;
                       g2 = (if cache_on
                             then g1\<lparr>llm_cache := cset key (to_cache r) ttl (wall_clock api (sdk g1)) (llm_cache g1)\<rparr>
                             else g1)
                   in (Inr r, emit_llm_event r (ca_tenant a) (record_usage api r (ca_tenant a) key g2)))))"

section \<open>The tool-use loop\<close>

record tool_call =
  tc_name :: string
  tc_arguments :: json
  tc_result :: string

record tool_loop_state =
  tl_messages :: "chat_message list"
  tl_calls :: "tool_call list"
  tl_input :: nat
  tl_output :: nat
  tl_cost :: rat
  tl_text :: string
  tl_stop :: string
  tl_iterations :: nat

text \<open>The blocks kept of an answer: text, and tool uses with \<open>input or {}\<close>.\<close>

fun assistant_blocks :: "block list \<Rightarrow> block list" where
  "assistant_blocks [] = []"
| "assistant_blocks (Text_block t # bs) = Text_block t # assistant_blocks bs"
| "assistant_blocks (Tool_use i n x # bs) = Tool_use i n (or_else x (JObj [])) # assistant_blocks bs"
| "assistant_blocks (Other_block # bs) = assistant_blocks bs"

fun is_tool_use :: "block \<Rightarrow> bool" where
  "is_tool_use (Tool_use _ _ _) = True"
| "is_tool_use _ = False"

definition tool_uses :: "block list \<Rightarrow> block list" where
  "tool_uses bs = filter is_tool_use bs"

fun run_tools ::
  "(string \<Rightarrow> json \<Rightarrow> 's \<Rightarrow> string \<times> 's) \<Rightarrow> block list \<Rightarrow> 's \<Rightarrow> (string \<times> string) list \<times> tool_call list \<times> 's" where
  "run_tools invoke [] s = ([], [], s)"
| "run_tools invoke (tu # tus) s =
     (let args = or_else (use_input tu) (JObj [])
      in case invoke (use_name tu) args s of
           (payload, s1) \<Rightarrow>
             (case run_tools invoke tus s1 of
                (results, calls, s2) \<Rightarrow>
                  ((use_id tu, payload) # results,
                   \<lparr>tc_name = use_name tu, tc_arguments = args, tc_result = payload\<rparr> # calls, s2)))"

record tool_args =
  ta_prompt :: string
  ta_tools :: "json list"
  ta_model :: string
  ta_system :: "string option"
  ta_temperature :: rat
  ta_max_tokens :: nat
  ta_max_iterations :: nat
  ta_tenant :: "nat option"

definition tool_request :: "tool_args \<Rightarrow> chat_message list \<Rightarrow> llm_request" where
  "tool_request a messages =
     \<lparr>rq_model = resolve_model (ta_model a), rq_max_tokens = ta_max_tokens a, rq_temperature = ta_temperature a,
      rq_messages = messages, rq_system = (case ta_system a of Some s \<Rightarrow> s | None \<Rightarrow> []), rq_tools = ta_tools a\<rparr>"

text \<open>The state after one answer of the model.\<close>

definition take_answer :: "llm_settings \<Rightarrow> tool_args \<Rightarrow> llm_message \<Rightarrow> tool_loop_state \<Rightarrow> tool_loop_state" where
  "take_answer settings a m st =
     st\<lparr>tl_messages := tl_messages st @ [Assistant (assistant_blocks (blocks m))],
        tl_input := tl_input st + input_tokens m,
        tl_output := tl_output st + output_tokens m,
        tl_cost := tl_cost st + compute_cost (usd_rate settings) (resolve_model (ta_model a)) (input_tokens m) (output_tokens m),
        tl_text := str_strip (concat (map block_text (blocks m))),
        tl_stop := (case stop_reason m of Some s \<Rightarrow> (if s = [] then ''end_turn'' else s) | None \<Rightarrow> ''end_turn''),
        tl_iterations := Suc (tl_iterations st)\<rparr>"

fun tool_loop ::
  "'s llm_api \<Rightarrow> llm_settings \<Rightarrow> (string \<Rightarrow> json \<Rightarrow> 's \<Rightarrow> string \<times> 's) \<Rightarrow> tool_args \<Rightarrow> nat \<Rightarrow> tool_loop_state \<Rightarrow> 's
     \<Rightarrow> (gateway_error, tool_loop_state) result \<times> 's" where
  "tool_loop api settings invoke a 0 st s = (Inr st, s)"
| "tool_loop api settings invoke a (Suc left) st s =
     (case create api (tool_request a (tl_messages st)) s of
        (Inl e, s1) \<Rightarrow> (Inl (gateway_error_of e), s1)
      | (Inr m, s1) \<Rightarrow>
          (let st1 = take_answer settings a m st
           in if tl_stop st1 \<noteq> ''tool_use'' \<or> tool_uses (blocks m) = [] then (Inr st1, s1)
              else (case run_tools invoke (tool_uses (blocks m)) s1 of
                      (results, calls, s2) \<Rightarrow>
                        tool_loop api settings invoke a left
                          (st1\<lparr>tl_calls := tl_calls st1 @ calls,
                               tl_messages := tl_messages st1 @ [Tool_results results]\<rparr>) s2)))"

record tool_response =
  tr_content :: string
  tr_model :: string
  tr_input :: nat
  tr_output :: nat
  tr_cost :: rat
  tr_latency :: int
  tr_iterations :: nat
  tr_calls :: "tool_call list"

definition start_loop :: "tool_args \<Rightarrow> tool_loop_state" where
  "start_loop a =
     \<lparr>tl_messages = [User_text (ta_prompt a)], tl_calls = [], tl_input = 0, tl_output = 0, tl_cost = 0,
      tl_text = [], tl_stop = ''end_turn'', tl_iterations = 0\<rparr>"

definition composite :: "tool_args \<Rightarrow> int \<Rightarrow> tool_loop_state \<Rightarrow> llm_response" where
  "composite a latency st =
     \<lparr>rs_content = tl_text st, rs_model = resolve_model (ta_model a), rs_input = tl_input st, rs_output = tl_output st,
      rs_cost = tl_cost st, rs_cached = False, rs_latency = latency, rs_stop = Some (tl_stop st)\<rparr>"

definition complete_with_tools ::
  "'s llm_api \<Rightarrow> llm_settings \<Rightarrow> (string \<Rightarrow> json \<Rightarrow> 's \<Rightarrow> string \<times> 's) \<Rightarrow> tool_args \<Rightarrow> ('s, 'c) gateway
     \<Rightarrow> (gateway_error, tool_response) result \<times> ('s, 'c) gateway" where
  "complete_with_tools api settings invoke a g =
     (case get_client settings g of
        Inl e \<Rightarrow> (Inl e, g)
      | Inr g1 \<Rightarrow>
          (case tool_loop api settings invoke a (ta_max_iterations a) (start_loop a) (sdk g1) of
             (Inl e, s) \<Rightarrow> (Inl e, g1\<lparr>sdk := s\<rparr>)
           | (Inr st, s) \<Rightarrow>
               (let latency = milliseconds (monotonic api s - monotonic api (sdk g1));
                    r = composite a latency st
                in (Inr \<lparr>tr_content = rs_content r, tr_model = rs_model r, tr_input = rs_input r, tr_output = rs_output r,
                         tr_cost = rs_cost r, tr_latency = latency, tr_iterations = tl_iterations st, tr_calls = tl_calls st\<rparr>,
                    emit_llm_event r (ta_tenant a)
                      (record_usage api r (ta_tenant a) (''llm:'' @ sha_text api (ta_prompt a)) (g1\<lparr>sdk := s\<rparr>))))))"

end
