(* ===== verification/LlmAccounting.thy ===== *)
theory LlmAccounting
  imports LlmGateway
begin

text \<open>
  What the gateway guarantees: a completion served from the cache is the one stored, and is charged
  again; the tool loop calls the model at most \<open>max_iterations\<close> times, always with a well-formed
  conversation, and its usage row holds the sum of all answers, unless a call fails, when the
  answers before it are in no row.
\<close>

section \<open>Completions\<close>

lemma resolved_args:
  assumes "resolve_model (ca_model a2) = resolve_model (ca_model a)" "ca_prompt a2 = ca_prompt a"
    "ca_system a2 = ca_system a" "ca_temperature a2 = ca_temperature a"
  shows "cache_key api (resolve_model (ca_model a2)) (ca_temperature a2) (ca_prompt a2) (ca_system a2)
    = cache_key api (resolve_model (ca_model a)) (ca_temperature a) (ca_prompt a) (ca_system a)"
  using assms by simp

lemma record_usage_fields [simp]:
  "sdk (record_usage api r t k g) = sdk g" "llm_cache (record_usage api r t k g) = llm_cache g"
  "sdk (emit_llm_event r t g) = sdk g" "llm_cache (emit_llm_event r t g) = llm_cache g"
  "usage_rows (emit_llm_event r t g) = usage_rows g" "llm_log (record_usage api r t k g) = llm_log g"
  by (simp_all add: record_usage_def emit_llm_event_def)

lemma call_anthropic_fields:
  assumes "call_anthropic api settings req g = (r, g1)"
  shows "usage_rows g1 = usage_rows g" "llm_cache g1 = llm_cache g" "llm_log g1 = llm_log g"
  using assms by (auto simp: call_anthropic_def get_client_def split: sum.splits prod.splits if_splits)

text \<open>A completed call is a hit, which leaves service and cache alone, or a miss, which stores its answer.\<close>

lemma complete_cases:
  assumes "complete cget cset api settings a g = (Inr r, g1)"
  obtains (hit) c key where "r = from_cache c" "g1 = record_usage api r (ca_tenant a) key g"
    "key = cache_key api (resolve_model (ca_model a)) (ca_temperature a) (ca_prompt a) (ca_system a)"
    "cget key (wall_clock api (sdk g)) (llm_cache g) = Some c"
  | (miss) m latency key g2 where "r = completion (usd_rate settings) (resolve_model (ca_model a)) latency m"
    "key = cache_key api (resolve_model (ca_model a)) (ca_temperature a) (ca_prompt a) (ca_system a)"
    "usage_rows g2 = usage_rows g" "llm_log g2 = llm_log g"
    "g1 = emit_llm_event r (ca_tenant a) (record_usage api r (ca_tenant a) key g2)"
    "llm_cache g2 = (if cache_enabled settings \<and> (case ca_cache_ttl a of None \<Rightarrow> True | Some t \<Rightarrow> t > 0)
       then cset key (to_cache r) (case ca_cache_ttl a of Some t \<Rightarrow> t | None \<Rightarrow> default_ttl settings)
         (wall_clock api (sdk g2)) (llm_cache g) else llm_cache g)"
proof -
  let ?model = "resolve_model (ca_model a)"
  let ?key = "cache_key api ?model (ca_temperature a) (ca_prompt a) (ca_system a)"
  let ?on = "cache_enabled settings \<and> (case ca_cache_ttl a of None \<Rightarrow> True | Some t \<Rightarrow> t > 0)"
  let ?found = "if ?on then cget ?key (wall_clock api (sdk g)) (llm_cache g) else None"
  show thesis
  proof (cases ?found)
    case (Some c)
    then have "cget ?key (wall_clock api (sdk g)) (llm_cache g) = Some c" by (simp split: if_splits)
    moreover have "r = from_cache c" "g1 = record_usage api r (ca_tenant a) ?key g"
      using assms Some by (auto simp: complete_def Let_def)
    ultimately show thesis using hit by blast
  next
    case None
    obtain x h where call: "call_anthropic api settings (completion_request ?model a) g = (x, h)" by (metis surj_pair)
    with assms None obtain m where m: "x = Inr m" by (cases x) (simp_all add: complete_def Let_def)
    note f = call_anthropic_fields[OF call]
    show thesis
      using assms None call m f
      by (intro miss[of "milliseconds (monotonic api (sdk h) - monotonic api (sdk g))" m ?key
            "if ?on then h\<lparr>llm_cache := cset ?key (to_cache r) (case ca_cache_ttl a of Some t \<Rightarrow> t | None \<Rightarrow> default_ttl settings)
               (wall_clock api (sdk h)) (llm_cache h)\<rparr> else h"])
        (auto simp: complete_def Let_def)
  qed
qed

lemma miss_not_cached: "\<not> rs_cached (completion rate model latency m)"
  by (simp add: completion_def)

lemma hit_cached: "rs_cached (from_cache c) \<and> rs_latency (from_cache c) = 0"
  by (simp add: from_cache_def)

text \<open>
  What one process does between two calls: it completes prompts one after another, for any tenant, of any outcome,
  while time passes; the calls are made before the \<open>deadline\<close>.
\<close>

inductive meanwhile ::
  "(string \<Rightarrow> rat \<Rightarrow> 'c \<Rightarrow> cached_response option) \<Rightarrow> (string \<Rightarrow> cached_response \<Rightarrow> rat \<Rightarrow> rat \<Rightarrow> 'c \<Rightarrow> 'c)
     \<Rightarrow> 's llm_api \<Rightarrow> llm_settings \<Rightarrow> rat \<Rightarrow> ('s, 'c) gateway \<Rightarrow> ('s, 'c) gateway \<Rightarrow> bool"
  for cget cset api settings deadline g where
  nothing: "meanwhile cget cset api settings deadline g g"
| waited: "meanwhile cget cset api settings deadline g g1 \<Longrightarrow> meanwhile cget cset api settings deadline g (g1\<lparr>sdk := s\<rparr>)"
| completed: "meanwhile cget cset api settings deadline g g1 \<Longrightarrow> wall_clock api (sdk g1) < deadline
    \<Longrightarrow> complete cget cset api settings a g1 = (x, g2) \<Longrightarrow> meanwhile cget cset api settings deadline g g2"

text \<open>A call writes the cache only under a key it did not find.\<close>

lemma complete_cache:
  assumes "complete cget cset api settings a g = (x, g1)"
  shows "llm_cache g1 = llm_cache g
    \<or> (\<exists>key v ttl t. cget key (wall_clock api (sdk g)) (llm_cache g) = None \<and> llm_cache g1 = cset key v ttl t (llm_cache g))"
proof -
  let ?model = "resolve_model (ca_model a)"
  let ?key = "cache_key api ?model (ca_temperature a) (ca_prompt a) (ca_system a)"
  let ?on = "cache_enabled settings \<and> (case ca_cache_ttl a of None \<Rightarrow> True | Some t \<Rightarrow> t > 0)"
  obtain y h where call: "call_anthropic api settings (completion_request ?model a) g = (y, h)" by (metis surj_pair)
  note same = call_anthropic_fields(2)[OF call]
  show ?thesis
  proof (cases "(if ?on then cget ?key (wall_clock api (sdk g)) (llm_cache g) else None)")
    case (Some c)
    then show ?thesis using assms by (auto simp: complete_def Let_def)
  next
    case None
    show ?thesis
    proof (cases y)
      case (Inl e)
      then show ?thesis using assms None call same by (auto simp: complete_def Let_def)
    next
      case (Inr m)
      show ?thesis
      proof (cases ?on)
        case True
        with None have miss: "cget ?key (wall_clock api (sdk g)) (llm_cache g) = None" by simp
        obtain v ttl t where "llm_cache g1 = cset ?key v ttl t (llm_cache g)"
          using assms True miss call Inr same by (auto simp: complete_def Let_def)
        with miss show ?thesis by blast
      next
        case False
        have "llm_cache g1 = llm_cache g"
          using assms False call Inr same by (simp add: complete_def Let_def if_not_P del: de_Morgan_conj) auto
        then show ?thesis ..
      qed
    qed
  qed
qed

lemma meanwhile_keeps:
  assumes "django_cache cget cset cdel" "meanwhile cget cset api settings deadline g g'"
    and "\<And>t. t < deadline \<Longrightarrow> cget key t (llm_cache g) = Some v"
  shows "t < deadline \<Longrightarrow> cget key t (llm_cache g') = Some v"
  using assms(2)
proof (induction arbitrary: t rule: meanwhile.induct)
  case nothing
  then show ?case using assms(3) by simp
next
  case (waited g1 s)
  then show ?case by simp
next
  case (completed g1 a x g2)
  have held: "cget key t (llm_cache g1) = Some v" "cget key (wall_clock api (sdk g1)) (llm_cache g1) = Some v"
    using completed.IH completed.hyps(2) completed.prems by blast+
  from complete_cache[OF completed.hyps(3)] show ?case
  proof (elim disjE exE conjE)
    fix k u ttl t0
    assume miss: "cget k (wall_clock api (sdk g1)) (llm_cache g1) = None" and set: "llm_cache g2 = cset k u ttl t0 (llm_cache g1)"
    have "k \<noteq> key" using miss held(2) by auto
    then show ?thesis using held(1) by (simp add: set django_cache.get_set_if[OF assms(1)])
  qed (use held in simp)
qed

text \<open>
  C16. A cached completion is the stored one. After a call that was answered by the service with
  caching on, a call with the same prompt, system prompt, temperature and resolved model, made before
  the time to live has passed, returns the same content, tokens and cost marked as cached, without
  calling the service or touching the cache, and adds one usage row, whatever was completed in between. This holds for any
  \<open>max_tokens\<close>: an answer cut short by a small \<open>max_tokens\<close> is served to a later call
  that allows more. And it holds for any tenant: the key has none, although \<open>TENANCY.md\<close> asks for one.
\<close>
theorem cached_completion:
  assumes cache: "django_cache cget cset cdel"
    and first: "complete cget cset api settings a g = (Inr r, g1)" "\<not> rs_cached r"
    and on: "cache_enabled settings" "ca_cache_ttl a = None" "ca_cache_ttl a2 = None"
    and same: "resolve_model (ca_model a2) = resolve_model (ca_model a)" "ca_prompt a2 = ca_prompt a"
      "ca_system a2 = ca_system a" "ca_temperature a2 = ca_temperature a"
    and later: "meanwhile cget cset api settings (wall_clock api (sdk g1) + default_ttl settings) g1 g2"
      "wall_clock api (sdk g2) < wall_clock api (sdk g1) + default_ttl settings"
  shows "complete cget cset api settings a2 g2 =
    (Inr (r\<lparr>rs_cached := True, rs_latency := 0\<rparr>),
     record_usage api (r\<lparr>rs_cached := True, rs_latency := 0\<rparr>) (ca_tenant a2)
       (cache_key api (resolve_model (ca_model a)) (ca_temperature a) (ca_prompt a) (ca_system a)) g2)"
  using first(1)
proof (cases rule: complete_cases)
  case (hit c key)
  with first(2) hit_cached show ?thesis by blast
next
  case (miss m latency key g3)
  have stored: "llm_cache g1 = cset key (to_cache r) (default_ttl settings) (wall_clock api (sdk g1)) (llm_cache g)"
    using miss on by simp
  have "cget key t (llm_cache g1) = Some (to_cache r)" if "t < wall_clock api (sdk g1) + default_ttl settings" for t
    using that by (simp add: stored django_cache.get_set[OF cache])
  then have "cget key (wall_clock api (sdk g2)) (llm_cache g2) = Some (to_cache r)"
    using meanwhile_keeps[OF cache later(1) _ later(2)] by blast
  moreover have "from_cache (to_cache r) = r\<lparr>rs_cached := True, rs_latency := 0\<rparr>"
    by (simp add: from_cache_def to_cache_def)
  ultimately show ?thesis using on same miss(2) by (simp add: complete_def Let_def)
qed

text \<open>A service that always answers the same, with a clock that stands still.\<close>

definition sample_answer :: llm_message where
  "sample_answer = \<lparr>blocks = [Text_block ''ano''], stop_reason = Some ''end_turn'', input_tokens = 40, output_tokens = 20\<rparr>"

definition still_api :: "nat llm_api" where
  "still_api = \<lparr>create = (\<lambda>req n. (Inr sample_answer, Suc n)), retrying = (\<lambda>f s. f s), monotonic = (\<lambda>_. 0),
     wall_clock = (\<lambda>_. 5), sha_json = (\<lambda>(m, t, p, s). p @ s), sha_text = id\<rparr>"

definition sample_settings :: llm_settings where
  "sample_settings = \<lparr>api_key = ''k'', cache_enabled = True, default_ttl = 60, usd_rate = 24\<rparr>"

definition sample_gateway :: "(nat, (string, cached_response) ttl_cache) gateway" where
  "sample_gateway = \<lparr>sdk = 0, client_made = False, llm_cache = Map.empty, usage_rows = [], llm_log = []\<rparr>"

definition sample_args :: "nat \<Rightarrow> completion_args" where
  "sample_args n = \<lparr>ca_prompt = ''q'', ca_model = ''sonnet'', ca_system = None, ca_temperature = 0, ca_max_tokens = n,
     ca_cache_ttl = None, ca_tenant = Some 1\<rparr>"

abbreviation sample_complete where
  "sample_complete n \<equiv> complete ttl_get ttl_set still_api sample_settings (sample_args n)"

lemma sample_floor: "\<lfloor>504 / 5 :: rat\<rfloor> = 100"
  by (rule floor_unique) simp_all

lemma sample_first:
  "\<exists>r. fst (sample_complete 1 sample_gateway) = Inr r \<and> rs_content r = ''ano'' \<and> \<not> rs_cached r \<and> rs_cost r = 101 / 10000
     \<and> sdk (snd (sample_complete 1 sample_gateway)) = 1"
  by (simp_all add: complete_def Let_def sample_gateway_def ttl_get_def call_anthropic_def get_client_def
      sample_settings_def still_api_def sample_answer_def sample_args_def completion_def compute_cost_def
      model_pricing_def resolve_model_def round_half_even_def sample_floor)

text \<open>Between the two calls another tenant asks something else.\<close>

abbreviation sample_other where
  "sample_other \<equiv> complete ttl_get ttl_set still_api sample_settings ((sample_args 9)\<lparr>ca_prompt := ''other'', ca_tenant := Some 2\<rparr>)"

theorem cached_completion_witness:
  "\<exists>r. fst (sample_complete 4096 (snd (sample_other (snd (sample_complete 1 sample_gateway))))) = Inr r \<and> rs_content r = ''ano''
    \<and> rs_cached r"
proof -
  obtain r where r: "fst (sample_complete 1 sample_gateway) = Inr r" "rs_content r = ''ano''" "\<not> rs_cached r"
    "sdk (snd (sample_complete 1 sample_gateway)) = 1"
    using sample_first by blast
  let ?g1 = "snd (sample_complete 1 sample_gateway)" and ?g2 = "snd (sample_other (snd (sample_complete 1 sample_gateway)))"
  have first: "sample_complete 1 sample_gateway = (Inr r, ?g1)" using r(1) by (metis prod.collapse)
  have other: "sample_other ?g1 = (fst (sample_other ?g1), ?g2)" by simp
  have still: "wall_clock still_api s = 5" for s by (simp add: still_api_def)
  have later: "meanwhile ttl_get ttl_set still_api sample_settings
      (wall_clock still_api (sdk ?g1) + default_ttl sample_settings) ?g1 ?g2"
    by (rule meanwhile.completed[OF meanwhile.nothing _ other]) (simp add: still sample_settings_def)
  have "sample_complete 4096 ?g2 = (Inr (r\<lparr>rs_cached := True, rs_latency := 0\<rparr>),
     record_usage still_api (r\<lparr>rs_cached := True, rs_latency := 0\<rparr>) (ca_tenant (sample_args 4096))
       (cache_key still_api (resolve_model (ca_model (sample_args 1))) (ca_temperature (sample_args 1)) (ca_prompt (sample_args 1))
          (ca_system (sample_args 1))) ?g2)"
    by (rule cached_completion[OF ttl.django_cache_axioms first r(3) _ _ _ _ _ _ _ later])
      (simp_all add: still, simp_all add: sample_settings_def sample_args_def)
  then show ?thesis using r(2) by simp
qed

section \<open>The budget\<close>

lemma usage_rows_record:
  "usage_rows (record_usage api r tenant key g) =
     usage_rows g @ [\<lparr>usage_tenant = tenant, usage_model = rs_model r,
          usage_prompt_hash = (if starts_with ''llm:'' key then drop 4 key else key),
          usage_input = rs_input r, usage_output = rs_output r, usage_cost = rs_cost r,
          usage_cached = rs_cached r, usage_latency = rs_latency r, usage_at = wall_clock api (sdk g)\<rparr>]"
  by (simp add: record_usage_def)

text \<open>
  Every completion is charged, those from the cache too. A completed call for a tenant adds its
  cost to what the budget check counts as spent this month; when the answer came from the cache, at
  the cost of the call that filled it, although the service was not called. So a tenant that only
  repeats a cached question runs into its limit.
\<close>
theorem budget_counts_cache_hits:
  assumes "complete cget cset api settings a g = (Inr r, g1)" "ca_tenant a = Some tenant"
    and "\<And>s. month_start \<le> wall_clock api s"
  shows "month_spent tenant month_start (usage_rows g1) = month_spent tenant month_start (usage_rows g) + rs_cost r
    \<and> (rs_cached r \<longrightarrow> sdk g1 = sdk g)
    \<and> (\<forall>limit budgets. lookup budget_tenant budgets tenant = Some limit \<longrightarrow>
        check_ok (fst (check_cost_budget (Some tenant) 0 month_start (usage_rows g1) budgets)) =
          (month_spent tenant month_start (usage_rows g) + rs_cost r \<le> monthly_limit limit))"
proof -
  have spent: "month_spent tenant month_start (usage_rows g1) = month_spent tenant month_start (usage_rows g) + rs_cost r"
    using assms(1)
  proof (cases rule: complete_cases)
    case (hit c key)
    then show ?thesis using assms(2,3) by (simp add: usage_rows_record month_spent_def)
  next
    case (miss m latency key g2)
    then show ?thesis using assms(2,3) by (simp add: usage_rows_record month_spent_def)
  qed
  moreover have "rs_cached r \<longrightarrow> sdk g1 = sdk g"
    using assms(1) by (cases rule: complete_cases) (simp_all add: miss_not_cached)
  moreover have "check_ok (fst (check_cost_budget (Some tenant) 0 month_start (usage_rows g1) budgets)) =
      (month_spent tenant month_start (usage_rows g) + rs_cost r \<le> monthly_limit limit)"
    if "lookup budget_tenant budgets tenant = Some limit" for limit budgets
    using that spent by (simp add: check_cost_budget_def get_or_create_def Let_def pass_def fail_def not_less)
  ultimately show ?thesis by blast
qed

theorem budget_counts_cache_hits_witness:
  "month_spent 1 0 (usage_rows (snd (sample_complete 4096 (snd (sample_complete 1 sample_gateway))))) = 2 * (101 / 10000)"
proof -
  obtain r where r: "fst (sample_complete 1 sample_gateway) = Inr r" "rs_cost r = 101 / 10000" "\<not> rs_cached r"
    using sample_first by blast
  then have first: "sample_complete 1 sample_gateway = (Inr r, snd (sample_complete 1 sample_gateway))"
    by (metis prod.collapse)
  have "fst (sample_complete 4096 (snd (sample_complete 1 sample_gateway))) = Inr (r\<lparr>rs_cached := True, rs_latency := 0\<rparr>)"
    using first by (elim complete_cases)
      (simp_all add: complete_def Let_def sample_settings_def sample_args_def still_api_def ttl_get_def ttl_set_def
        from_cache_def to_cache_def r(3) hit_cached split: if_splits)
  then obtain g2 where second: "sample_complete 4096 (snd (sample_complete 1 sample_gateway))
      = (Inr (r\<lparr>rs_cached := True, rs_latency := 0\<rparr>), g2)" by (metis prod.collapse)
  have clock: "0 \<le> wall_clock still_api s" for s by (simp add: still_api_def)
  have tenant: "ca_tenant (sample_args n) = Some 1" for n by (simp add: sample_args_def)
  have "month_spent 1 0 (usage_rows sample_gateway) = 0" by (simp add: sample_gateway_def month_spent_def)
  with budget_counts_cache_hits[OF first tenant clock] budget_counts_cache_hits[OF second tenant clock] r(2) second
  show ?thesis by simp
qed

section \<open>The tool loop\<close>

text \<open>
  The calls are observed through a log: any reading of the world to which \<open>create\<close> adds its request
  and answer, and which the tools leave alone.
\<close>

definition logs_calls ::
  "'s llm_api \<Rightarrow> (string \<Rightarrow> json \<Rightarrow> 's \<Rightarrow> string \<times> 's)
     \<Rightarrow> ('s \<Rightarrow> (llm_request \<times> (sdk_error, llm_message) result) list) \<Rightarrow> bool" where
  "logs_calls api invoke calls \<longleftrightarrow>
     (\<forall>req s. calls (snd (create api req s)) = calls s @ [(req, fst (create api req s))])
     \<and> (\<forall>name args s. calls (snd (invoke name args s)) = calls s)"

fun answers :: "(llm_request \<times> (sdk_error, llm_message) result) list \<Rightarrow> llm_message list" where
  "answers [] = []"
| "answers ((req, Inr m) # xs) = m # answers xs"
| "answers ((req, Inl e) # xs) = answers xs"

lemma answers_append [simp]: "answers (xs @ ys) = answers xs @ answers ys"
  by (induction xs rule: answers.induct) simp_all

lemma length_answers: "length (answers xs) \<le> length xs"
  by (induction xs rule: answers.induct) simp_all

lemma all_answered: "length (answers xs) = length xs \<Longrightarrow> xs \<noteq> [] \<Longrightarrow> snd (last xs) = Inr (last (answers xs))"
proof (induction xs rule: answers.induct)
  case (2 req m xs)
  show ?case
  proof (cases "xs = []")
    case False
    with 2 have "length (answers xs) = length xs" by simp
    with False have "answers xs \<noteq> []" by (metis length_0_conv)
    with 2 False show ?thesis by simp
  qed simp
next
  case (3 req e xs)
  with length_answers[of xs] show ?case by simp
qed simp

text \<open>A conversation the API accepts: every turn's tool uses are answered, one by one, in the next.\<close>

fun answered :: "block list \<times> (string \<times> string) list \<Rightarrow> bool" where
  "answered (bs, results) = (results \<noteq> [] \<and> map fst results = map use_id (tool_uses bs))"

definition conversation_ok :: "string \<Rightarrow> chat_message list \<Rightarrow> bool" where
  "conversation_ok prompt ms \<longleftrightarrow>
     (\<exists>turns. ms = User_text prompt # concat (map (\<lambda>(bs, results). [Assistant bs, Tool_results results]) turns)
        \<and> list_all answered turns)"

lemma conversation_turn:
  "conversation_ok prompt ms \<Longrightarrow> answered (bs, results) \<Longrightarrow>
     conversation_ok prompt (ms @ [Assistant bs, Tool_results results])"
  unfolding conversation_ok_def by (elim exE conjE, rule exI[of _ "_ @ [(bs, results)]"]) simp

lemma run_tools_results:
  "run_tools invoke tus s = (results, calls, s') \<Longrightarrow>
     map fst results = map use_id tus \<and> length calls = length tus \<and> map tc_result calls = map snd results"
  by (induction invoke tus s arbitrary: results calls rule: run_tools.induct) (auto simp: Let_def split: prod.splits)

lemma run_tools_log:
  assumes "logs_calls api invoke calls"
  shows "run_tools invoke tus s = (results, tcs, s') \<Longrightarrow> calls s' = calls s"
proof (induction tus arbitrary: s results tcs)
  case (Cons tu tus)
  obtain payload s1 where i: "invoke (use_name tu) (or_else (use_input tu) (JObj [])) s = (payload, s1)" by (metis surj_pair)
  from assms have kept: "\<forall>name args s. calls (snd (invoke name args s)) = calls s"
    unfolding logs_calls_def by (elim conjE)
  have "calls (snd (invoke (use_name tu) (or_else (use_input tu) (JObj [])) s)) = calls s"
    by (simp only: kept)
  with i have "calls s1 = calls s" by simp
  with Cons i show ?case by (auto simp: Let_def split: prod.splits)
qed simp

lemma tool_uses_assistant [simp]: "map use_id (tool_uses (assistant_blocks bs)) = map use_id (tool_uses bs)"
  by (induction bs rule: assistant_blocks.induct) (simp_all add: tool_uses_def)

text \<open>The totals a state has over another, and what a run of the loop adds.\<close>

definition adds_up :: "llm_settings \<Rightarrow> tool_args \<Rightarrow> tool_loop_state \<Rightarrow> llm_message list \<Rightarrow> tool_loop_state \<Rightarrow> bool" where
  "adds_up settings a st ms st' \<longleftrightarrow>
     tl_iterations st' = tl_iterations st + length ms
     \<and> tl_input st' = tl_input st + sum_list (map input_tokens ms)
     \<and> tl_output st' = tl_output st + sum_list (map output_tokens ms)
     \<and> tl_cost st' = tl_cost st + sum_list (map (\<lambda>m. compute_cost (usd_rate settings) (resolve_model (ta_model a))
          (input_tokens m) (output_tokens m)) ms)"

text \<open>An answer after which the loop stops.\<close>

definition final :: "llm_message \<Rightarrow> bool" where
  "final m \<longleftrightarrow> stop_reason m \<noteq> Some ''tool_use'' \<or> tool_uses (blocks m) = []"

lemma final_iff: "tl_stop (take_answer settings a m st) \<noteq> ''tool_use'' \<or> tool_uses (blocks m) = [] \<longleftrightarrow> final m"
  by (auto simp: final_def take_answer_def split: option.split)

text \<open>How a run that may make \<open>left\<close> calls ends, given the calls it has made.\<close>

definition loop_ends ::
  "llm_settings \<Rightarrow> tool_args \<Rightarrow> nat \<Rightarrow> tool_loop_state \<Rightarrow> (llm_request \<times> (sdk_error, llm_message) result) list
     \<Rightarrow> (gateway_error, tool_loop_state) result \<Rightarrow> bool" where
  "loop_ends settings a left st new r \<longleftrightarrow> length new \<le> left \<and> (0 < left \<longrightarrow> new \<noteq> []) \<and>
     (case r of
        Inr st' \<Rightarrow> adds_up settings a st (answers new) st' \<and> length (answers new) = length new
          \<and> (length new < left \<longrightarrow> final (last (answers new)))
      | Inl e \<Rightarrow> \<exists>x. new \<noteq> [] \<and> snd (last new) = Inl x \<and> e = gateway_error_of x \<and> length (answers new) = length new - 1)"

lemma loop_ends_step:
  assumes "loop_ends settings a left (take_answer settings a m st\<lparr>tl_calls := c, tl_messages := ms\<rparr>) new r"
  shows "loop_ends settings a (Suc left) st ((req, Inr m) # new) r"
proof (cases r)
  case (Inl e)
  with assms show ?thesis by (cases new) (auto simp: loop_ends_def)
next
  case (Inr st')
  with assms have "adds_up settings a st (m # answers new) st'"
    by (simp add: loop_ends_def adds_up_def take_answer_def)
  moreover have "final (last (m # answers new))" if "length new < left"
  proof -
    from assms that have "length new \<noteq> 0" by (cases new) (auto simp: loop_ends_def)
    moreover from assms Inr have "length (answers new) = length new" by (simp add: loop_ends_def)
    ultimately have "answers new \<noteq> []" by auto
    with assms Inr that show ?thesis by (simp add: loop_ends_def)
  qed
  ultimately show ?thesis using assms Inr by (simp add: loop_ends_def)
qed

lemma tool_loop_log:
  assumes logs: "logs_calls api invoke calls"
  shows "tool_loop api settings invoke a left st s = (r, s') \<Longrightarrow> conversation_ok (ta_prompt a) (tl_messages st) \<Longrightarrow>
    \<exists>new. calls s' = calls s @ new \<and> loop_ends settings a left st new r
      \<and> (\<forall>x \<in> set new. conversation_ok (ta_prompt a) (rq_messages (fst x)))"
proof (induction left arbitrary: st s)
  case 0
  then show ?case by (intro exI[of _ "[]"]) (auto simp: adds_up_def loop_ends_def)
next
  case (Suc left)
  let ?req = "tool_request a (tl_messages st)"
  have ok: "conversation_ok (ta_prompt a) (rq_messages ?req)" using Suc.prems(2) by (simp add: tool_request_def)
  obtain x s1 where c: "create api ?req s = (x, s1)" by (metis surj_pair)
  have log1: "calls s1 = calls s @ [(?req, x)]" using logs c unfolding logs_calls_def by (metis fst_conv snd_conv)
  show ?case
  proof (cases x)
    case (Inl e)
    with Suc.prems(1) c log1 ok show ?thesis by (intro exI[of _ "[(?req, x)]"]) (auto simp: Let_def loop_ends_def)
  next
    case (Inr m)
    let ?st1 = "take_answer settings a m st"
    show ?thesis
    proof (cases "final m")
      case True
      with Suc.prems(1) c Inr have "r = Inr ?st1" "s' = s1"
        using final_iff[of settings a m st] by (auto simp: Let_def)
      moreover have "loop_ends settings a (Suc left) st [(?req, x)] (Inr ?st1)"
        using True Inr by (simp add: loop_ends_def adds_up_def take_answer_def)
      ultimately show ?thesis using log1 ok by (intro exI[of _ "[(?req, x)]"]) simp
    next
      case False
      obtain results tcs s2 where t: "run_tools invoke (tool_uses (blocks m)) s1 = (results, tcs, s2)" by (metis prod_cases3)
      let ?st2 = "?st1\<lparr>tl_calls := tl_calls ?st1 @ tcs, tl_messages := tl_messages ?st1 @ [Tool_results results]\<rparr>"
      have "answered (assistant_blocks (blocks m), results)"
        using run_tools_results[OF t] False by (auto simp: final_def)
      then have ok2: "conversation_ok (ta_prompt a) (tl_messages ?st2)"
        using conversation_turn[OF Suc.prems(2)] by (simp add: take_answer_def)
      have "tool_loop api settings invoke a left ?st2 s2 = (r, s')"
        using Suc.prems(1) c Inr False t final_iff[of settings a m st] by (simp add: Let_def)
      from Suc.IH[OF this ok2] obtain new where new: "calls s' = calls s2 @ new" "loop_ends settings a left ?st2 new r"
        "\<forall>x \<in> set new. conversation_ok (ta_prompt a) (rq_messages (fst x))" by blast
      have "calls s' = calls s @ ((?req, x) # new)" using new(1) log1 run_tools_log[OF logs t] by simp
      moreover from loop_ends_step[OF new(2), of ?req] Inr have "loop_ends settings a (Suc left) st ((?req, x) # new) r" by simp
      ultimately show ?thesis using new(3) ok by (intro exI[of _ "(?req, x) # new"]) simp
    qed
  qed
qed

lemma complete_with_tools_cases:
  fixes g :: "('s, 'c) gateway"
  assumes "complete_with_tools api settings invoke a g = (r, g')"
  obtains (refused) "r = Inl LLMAuthError" "g' = g" "client_made g = False" "api_key settings = []"
  | (failed) e s where "tool_loop api settings invoke a (ta_max_iterations a) (start_loop a) (sdk g) = (Inl e, s)"
      "r = Inl e" "usage_rows g' = usage_rows g" "sdk g' = s"
  | (finished) st s latency and g1 :: "('s, 'c) gateway" where
      "tool_loop api settings invoke a (ta_max_iterations a) (start_loop a) (sdk g) = (Inr st, s)" "sdk g' = s"
      "r = Inr \<lparr>tr_content = tl_text st, tr_model = resolve_model (ta_model a), tr_input = tl_input st, tr_output = tl_output st,
         tr_cost = tl_cost st, tr_latency = latency, tr_iterations = tl_iterations st, tr_calls = tl_calls st\<rparr>"
      "usage_rows g1 = usage_rows g" "sdk g1 = s"
      "usage_rows g' = usage_rows (record_usage api (composite a latency st) (ta_tenant a)
         (''llm:'' @ sha_text api (ta_prompt a)) g1)"
proof (cases "get_client settings g")
  case (Inl e)
  with assms show thesis
    by (intro refused) (auto simp: complete_with_tools_def get_client_def split: if_splits)
next
  case (Inr g1)
  then have g1: "sdk g1 = sdk g" "usage_rows g1 = usage_rows g" by (auto simp: get_client_def split: if_splits)
  obtain x s where l: "tool_loop api settings invoke a (ta_max_iterations a) (start_loop a) (sdk g) = (x, s)" by (metis surj_pair)
  show thesis
  proof (cases x)
    case (Inl e)
    with assms l Inr g1 show thesis by (intro failed[of e s]) (auto simp: complete_with_tools_def)
  next
    case (Inr st)
    with assms l \<open>get_client settings g = Inr g1\<close> g1 show thesis
      by (intro finished[of st s "milliseconds (monotonic api s - monotonic api (sdk g))" "g1\<lparr>sdk := s\<rparr>"])
        (auto simp: complete_with_tools_def composite_def Let_def)
  qed
qed

text \<open>
  C34. The conversation of the tool loop. Every request the loop sends holds the prompt followed by
  complete turns: an assistant message and, for exactly its tool uses, in order, one result each. The
  model is called at most \<open>max_iterations\<close> times; when fewer calls were made and none failed, the last
  answer asked for no tool.
\<close>
theorem tool_conversation:
  assumes logs: "logs_calls api invoke calls"
    and run: "complete_with_tools api settings invoke a g = (r, g')"
  shows "\<exists>new. calls (sdk g') = calls (sdk g) @ new \<and> length new \<le> ta_max_iterations a
    \<and> (\<forall>x \<in> set new. conversation_ok (ta_prompt a) (rq_messages (fst x)))
    \<and> (\<forall>x. r = Inr x \<longrightarrow> tr_iterations x = length new
        \<and> (length new < ta_max_iterations a \<longrightarrow> (\<exists>m. snd (last new) = Inr m \<and> final m)))"
  using run
proof (cases rule: complete_with_tools_cases)
  case refused
  then show ?thesis by (intro exI[of _ "[]"]) simp
next
  case (failed e s)
  have "conversation_ok (ta_prompt a) (tl_messages (start_loop a))"
    unfolding conversation_ok_def by (intro exI[of _ "[]"]) (simp add: start_loop_def)
  from tool_loop_log[OF logs failed(1) this] failed show ?thesis by (auto simp: loop_ends_def)
next
  case (finished st s latency g1)
  have "conversation_ok (ta_prompt a) (tl_messages (start_loop a))"
    unfolding conversation_ok_def by (intro exI[of _ "[]"]) (simp add: start_loop_def)
  from tool_loop_log[OF logs finished(1) this] obtain new where new:
    "calls s = calls (sdk g) @ new" "loop_ends settings a (ta_max_iterations a) (start_loop a) new (Inr st)"
    "\<forall>x \<in> set new. conversation_ok (ta_prompt a) (rq_messages (fst x))" by blast
  from new(2) have ends: "length new \<le> ta_max_iterations a" "tl_iterations st = length new" "length (answers new) = length new"
    "0 < ta_max_iterations a \<longrightarrow> new \<noteq> []" "length new < ta_max_iterations a \<longrightarrow> final (last (answers new))"
    by (simp_all add: loop_ends_def adds_up_def start_loop_def)
  have "snd (last new) = Inr (last (answers new))" if "new \<noteq> []"
    using ends(3) that all_answered by blast
  with new ends finished(2,3) show ?thesis by (intro exI[of _ new]) auto
qed

text \<open>A service that asks for one tool, then answers; its world is the log of its calls.\<close>

type_synonym call_log = "(llm_request \<times> (sdk_error, llm_message) result) list"

definition tool_answer :: llm_message where
  "tool_answer = \<lparr>blocks = [Text_block ''ok'', Tool_use ''t1'' ''get_weekly_metrics'' JNull],
     stop_reason = Some ''tool_use'', input_tokens = 10, output_tokens = 5\<rparr>"

definition logged_api :: "(nat \<Rightarrow> (sdk_error, llm_message) result) \<Rightarrow> call_log llm_api" where
  "logged_api reply = \<lparr>create = (\<lambda>req s. (reply (length s), s @ [(req, reply (length s))])), retrying = (\<lambda>f s. f s),
     monotonic = (\<lambda>_. 0), wall_clock = (\<lambda>_. 5), sha_json = (\<lambda>(m, t, p, s). p @ s), sha_text = id\<rparr>"

definition sample_tool :: "string \<Rightarrow> json \<Rightarrow> call_log \<Rightarrow> string \<times> call_log" where
  "sample_tool name args s = (''{}'', s)"

definition sample_tool_args :: tool_args where
  "sample_tool_args = \<lparr>ta_prompt = ''q'', ta_tools = [], ta_model = ''sonnet'', ta_system = None, ta_temperature = 0,
     ta_max_tokens = 9, ta_max_iterations = 6, ta_tenant = Some 1\<rparr>"

definition sample_tool_gateway :: "(call_log, unit) gateway" where
  "sample_tool_gateway = \<lparr>sdk = [], client_made = True, llm_cache = (), usage_rows = [], llm_log = []\<rparr>"

definition one_tool :: "nat \<Rightarrow> (sdk_error, llm_message) result" where
  "one_tool n = Inr (if n = 0 then tool_answer else sample_answer)"

lemma logged_api_logs: "logs_calls (logged_api reply) sample_tool id"
  by (simp add: logs_calls_def logged_api_def sample_tool_def)

abbreviation sample_tool_run where
  "sample_tool_run reply \<equiv> complete_with_tools (logged_api reply) sample_settings sample_tool sample_tool_args sample_tool_gateway"

lemma one_tool_run:
  "\<exists>r. fst (sample_tool_run one_tool) = Inr r \<and> tr_iterations r = 2 \<and> tr_calls r \<noteq> []"
  by (simp add: complete_with_tools_def get_client_def sample_tool_gateway_def sample_tool_args_def logged_api_def
      one_tool_def tool_answer_def sample_answer_def take_answer_def start_loop_def tool_uses_def sample_tool_def
      composite_def Let_def numeral_eq_Suc)

theorem tool_conversation_witness:
  "\<exists>new. sdk (snd (sample_tool_run one_tool)) = new \<and> length new = 2
    \<and> (\<forall>x \<in> set new. conversation_ok ''q'' (rq_messages (fst x)))"
proof -
  from one_tool_run obtain r where r: "fst (sample_tool_run one_tool) = Inr r" "tr_iterations r = 2" by blast
  then have run: "sample_tool_run one_tool = (Inr r, snd (sample_tool_run one_tool))" by (metis prod.collapse)
  from tool_conversation[OF logged_api_logs run] r(2) show ?thesis
    by (auto simp: sample_tool_gateway_def sample_tool_args_def)
qed

text \<open>
  The usage of the tool loop. A loop that returns leaves one usage row, with the tokens of all its
  answers and the sum of their costs, each rounded by itself; the response has the same totals. A
  loop in which a call fails raises and leaves no row: the answers before it, which the service has
  billed, are in no tenant's usage.
\<close>
theorem tool_usage:
  assumes logs: "logs_calls api invoke calls"
    and run: "complete_with_tools api settings invoke a g = (r, g')"
  shows "\<exists>new. calls (sdk g') = calls (sdk g) @ new \<and>
    (case r of
       Inr x \<Rightarrow> \<exists>row. usage_rows g' = usage_rows g @ [row] \<and> usage_tenant row = ta_tenant a
         \<and> usage_input row = sum_list (map input_tokens (answers new)) \<and> usage_input row = tr_input x
         \<and> usage_output row = sum_list (map output_tokens (answers new)) \<and> usage_output row = tr_output x
         \<and> usage_cost row = sum_list (map (\<lambda>m. compute_cost (usd_rate settings) (resolve_model (ta_model a))
              (input_tokens m) (output_tokens m)) (answers new)) \<and> usage_cost row = tr_cost x
         \<and> length (answers new) = length new
     | Inl e \<Rightarrow> usage_rows g' = usage_rows g \<and> (new \<noteq> [] \<longrightarrow> length (answers new) = length new - 1))"
  using run
proof (cases rule: complete_with_tools_cases)
  case refused
  then show ?thesis by (intro exI[of _ "[]"]) simp
next
  case (failed e s)
  have "conversation_ok (ta_prompt a) (tl_messages (start_loop a))"
    unfolding conversation_ok_def by (intro exI[of _ "[]"]) (simp add: start_loop_def)
  from tool_loop_log[OF logs failed(1) this] failed show ?thesis by (auto simp: loop_ends_def)
next
  case (finished st s latency g1)
  have "conversation_ok (ta_prompt a) (tl_messages (start_loop a))"
    unfolding conversation_ok_def by (intro exI[of _ "[]"]) (simp add: start_loop_def)
  from tool_loop_log[OF logs finished(1) this] obtain new where new:
    "calls s = calls (sdk g) @ new" "loop_ends settings a (ta_max_iterations a) (start_loop a) new (Inr st)" by blast
  from new(2) have "adds_up settings a (start_loop a) (answers new) st" "length (answers new) = length new"
    by (simp_all add: loop_ends_def)
  with new(1) finished show ?thesis
    by (intro exI[of _ new]) (simp add: usage_rows_record composite_def adds_up_def start_loop_def)
qed

definition tool_then_limit :: "nat \<Rightarrow> (sdk_error, llm_message) result" where
  "tool_then_limit n = (if n = 0 then Inr tool_answer else Inl Rate_limit_error)"

theorem tool_usage_witness:
  "usage_rows (snd (sample_tool_run tool_then_limit)) = []
   \<and> fst (sample_tool_run tool_then_limit) = Inl LLMRateLimitError
   \<and> length (answers (sdk (snd (sample_tool_run tool_then_limit)))) = 1"
proof -
  have r: "fst (sample_tool_run tool_then_limit) = Inl LLMRateLimitError"
    "length (sdk (snd (sample_tool_run tool_then_limit))) = 2"
    by (simp_all add: complete_with_tools_def get_client_def sample_tool_gateway_def sample_tool_args_def logged_api_def
        tool_then_limit_def tool_answer_def take_answer_def start_loop_def tool_uses_def sample_tool_def
        composite_def gateway_error_of_def Let_def numeral_eq_Suc)
  then have run: "sample_tool_run tool_then_limit = (Inl LLMRateLimitError, snd (sample_tool_run tool_then_limit))"
    by (metis prod.collapse)
  from tool_usage[OF logged_api_logs run] r show ?thesis by (auto simp: sample_tool_gateway_def)
qed

end
