(* ===== verification/Specialists.thy ===== *)
theory Specialists
  imports LlmGateway Guardrails Calls
begin

text \<open>
  The specialist agents: \<open>AgentContext\<close>, \<open>SpecialistResponse\<close> and \<open>BaseSpecialist\<close> of
  \<open>agents/base.py\<close>, the five specialists of \<open>agents/specialists\<close>, their registry and the task
  \<open>run_specialist\<close>. Parameters, in the record \<open>agent_env\<close>: the model's service behind the gateway; the
  prompt files; \<open>json.loads\<close>; pydantic's validation of an answer, by specialist; the tool registry's
  specifications and their execution; the search of the document index; and the Czech texts, which
  have characters beyond code point 255. \<open>agent_logger\<close> is not modelled.
\<close>

section \<open>Contexts, responses, environment\<close>

record agent_context =
  ac_query :: string
  ac_schema :: "string option"
  ac_org :: string
  ac_extra :: json

record specialist_response =
  sr_name :: string
  sr_content :: string
  sr_data :: json
  sr_confidence :: rat

datatype agent_error =
  Gateway_error gateway_error
| Not_json string
| Agent_attribute_error
| Agent_type_error
| Agent_key_error string
| Search_failed

record ('s, 'c) agent_env =
  ae_get :: "string \<Rightarrow> rat \<Rightarrow> 'c \<Rightarrow> cached_response option"
  ae_set :: "string \<Rightarrow> cached_response \<Rightarrow> rat \<Rightarrow> rat \<Rightarrow> 'c \<Rightarrow> 'c"
  ae_api :: "'s llm_api"
  ae_settings :: llm_settings
  ae_prompt :: "string \<Rightarrow> string"
  ae_loads :: "string \<Rightarrow> json option"
  ae_validate :: "string \<Rightarrow> json \<Rightarrow> (json \<times> rat) option"
  ae_tool_spec :: "string \<Rightarrow> json option"
  ae_invoke :: "string \<Rightarrow> json \<Rightarrow> 's \<Rightarrow> string \<times> 's"
  ae_search :: "string \<Rightarrow> nat \<Rightarrow> 's \<Rightarrow> (json list \<times> string) option \<times> 's"
  ae_hash :: "string \<Rightarrow> string"
  txt_rejected :: string
  txt_no_documents :: string
  txt_knowledge_prompt :: "string \<Rightarrow> string \<Rightarrow> string"

record ('s, 'c) agent_world =
  llm :: "('s, 'c) gateway"
  compliance :: "compliance_log list"

type_synonym ('s, 'c, 'a) agent = "(agent_error, ('s, 'c) agent_world, 'a) eff"

section \<open>Calls of the gateway\<close>

text \<open>No caller in the agents passes a \<open>tenant\<close> or a \<open>cache_ttl\<close>.\<close>

definition llm_complete ::
  "('s, 'c) agent_env \<Rightarrow> string \<Rightarrow> string \<Rightarrow> string option \<Rightarrow> rat \<Rightarrow> nat \<Rightarrow> ('s, 'c, llm_response) agent" where
  "llm_complete env prompt model system temperature max_tokens = (\<lambda>w.
     case complete (ae_get env) (ae_set env) (ae_api env) (ae_settings env)
            \<lparr>ca_prompt = prompt, ca_model = model, ca_system = system, ca_temperature = temperature,
             ca_max_tokens = max_tokens, ca_cache_ttl = None, ca_tenant = None\<rparr> (llm w) of
       (Inl e, g) \<Rightarrow> (Inl (Gateway_error e), w\<lparr>llm := g\<rparr>)
     | (Inr r, g) \<Rightarrow> (Inr r, w\<lparr>llm := g\<rparr>))"

definition llm_with_tools :: "('s, 'c) agent_env \<Rightarrow> tool_args \<Rightarrow> ('s, 'c, tool_response) agent" where
  "llm_with_tools env a = (\<lambda>w.
     case complete_with_tools (ae_api env) (ae_settings env) (ae_invoke env) a (llm w) of
       (Inl e, g) \<Rightarrow> (Inl (Gateway_error e), w\<lparr>llm := g\<rparr>)
     | (Inr r, g) \<Rightarrow> (Inr r, w\<lparr>llm := g\<rparr>))"

section \<open>The base class\<close>

record specialist =
  sp_name :: string
  sp_prompt_file :: string
  sp_model :: string
  sp_temperature :: rat
  sp_max_tokens :: nat
  sp_tools :: "string list"
  sp_max_iterations :: nat

text \<open>A subclass that sets its name and prompt file and its tools, on the defaults of the class.\<close>

definition specialist_class :: "string \<Rightarrow> string \<Rightarrow> string list \<Rightarrow> specialist" where
  "specialist_class name file tools =
     \<lparr>sp_name = name, sp_prompt_file = file, sp_model = ''sonnet'', sp_temperature = 3 / 10,
      sp_max_tokens = 2048, sp_tools = tools, sp_max_iterations = 6\<rparr>"

definition blank_line :: string where
  "blank_line = [CHR 0x0A, CHR 0x0A]"

definition render_user_prompt :: "agent_context \<Rightarrow> string" where
  "render_user_prompt ctx =
     join blank_line
       ([''User query: '' @ ac_query ctx]
        @ (if ac_org ctx \<noteq> [] then [''Organization: '' @ ac_org ctx] else [])
        @ (if truth (ac_extra ctx) then [''Additional context: '' @ py_str (ac_extra ctx)] else []))"

fun anthropic_tool_specs :: "('s, 'c) agent_env \<Rightarrow> string list \<Rightarrow> (agent_error, json list) result" where
  "anthropic_tool_specs env [] = Inr []"
| "anthropic_tool_specs env (n # ns) =
     (case ae_tool_spec env n of
        None \<Rightarrow> Inl (Agent_key_error n)
      | Some spec \<Rightarrow> andthen (anthropic_tool_specs env ns) (\<lambda>specs. Inr (spec # specs)))"

definition trace_of :: "tool_call list \<Rightarrow> json" where
  "trace_of calls = JList (map (\<lambda>c. JObj
     [(''name'', JStr (tc_name c)), (''arguments'', tc_arguments c), (''result'', JStr (tc_result c))]) calls)"

definition tool_using_analyze ::
  "('s, 'c) agent_env \<Rightarrow> specialist \<Rightarrow> agent_context \<Rightarrow> ('s, 'c, specialist_response) agent" where
  "tool_using_analyze env sp ctx =
     chain (lift_result (anthropic_tool_specs env (sp_tools sp))) (\<lambda>tools.
     chain (llm_with_tools env
              \<lparr>ta_prompt = render_user_prompt ctx, ta_tools = tools, ta_model = sp_model sp,
               ta_system = Some (ae_prompt env (sp_prompt_file sp)), ta_temperature = sp_temperature sp,
               ta_max_tokens = sp_max_tokens sp, ta_max_iterations = sp_max_iterations sp, ta_tenant = None\<rparr>) (\<lambda>r.
     ret \<lparr>sr_name = sp_name sp, sr_content = tr_content r,
          sr_data = JObj [(''tool_calls'', trace_of (tr_calls r)), (''iterations'', JInt (int (tr_iterations r))),
            (''model'', JStr (tr_model r)), (''input_tokens'', JInt (int (tr_input r))),
            (''output_tokens'', JInt (int (tr_output r)))],
          sr_confidence = 1\<rparr>))"

definition default_analyze ::
  "('s, 'c) agent_env \<Rightarrow> specialist \<Rightarrow> agent_context \<Rightarrow> ('s, 'c, specialist_response) agent" where
  "default_analyze env sp ctx =
     (if sp_tools sp \<noteq> [] then tool_using_analyze env sp ctx
      else chain (llm_complete env (render_user_prompt ctx) (sp_model sp) (Some (ae_prompt env (sp_prompt_file sp)))
                    (sp_temperature sp) (sp_max_tokens sp)) (\<lambda>r.
           ret \<lparr>sr_name = sp_name sp, sr_content = rs_content r, sr_data = JObj [], sr_confidence = 1\<rparr>))"

section \<open>The specialists\<close>

definition strategic :: specialist where
  "strategic = specialist_class ''strategic'' ''strategic_specialist''
     [''get_weekly_metrics'', ''get_recent_anomalies'', ''get_team_activity_summary'', ''get_cashflow_snapshot'',
      ''get_marketing_funnel'', ''get_pipeline_velocity'', ''get_project_throughput'', ''search_company_knowledge'']"

definition finance :: specialist where
  "finance = specialist_class ''finance'' ''finance_specialist''
     [''get_cashflow_snapshot'', ''get_marketing_funnel'', ''get_pipeline_velocity'']"

definition people :: specialist where
  "people = specialist_class ''people'' ''people_specialist''
     [''get_team_activity_summary'', ''get_slack_activity'', ''get_upcoming_commitments'']"

definition ops :: specialist where
  "ops = specialist_class ''ops'' ''ops_specialist''
     [''get_project_throughput'', ''get_slack_activity'', ''get_recent_anomalies'']"

text \<open>People and ops parse the answer into a verdict with a confidence.\<close>

definition parse_verdict :: "('s, 'c) agent_env \<Rightarrow> string \<Rightarrow> string \<Rightarrow> (json \<times> rat) option" where
  "parse_verdict env name raw = Option.bind (ae_loads env (str_strip raw)) (ae_validate env name)"

fun with_analysis :: "json \<Rightarrow> json \<Rightarrow> json" where
  "with_analysis (JObj kvs) a = JObj (dict_set ''analysis'' a kvs)"
| "with_analysis v a = v"

definition verdict_analyze ::
  "('s, 'c) agent_env \<Rightarrow> specialist \<Rightarrow> agent_context \<Rightarrow> ('s, 'c, specialist_response) agent" where
  "verdict_analyze env sp ctx =
     chain (default_analyze env sp ctx) (\<lambda>base.
     ret (case parse_verdict env (sp_name sp) (sr_content base) of
            Some (analysis, confidence) \<Rightarrow>
              base\<lparr>sr_name := sp_name sp, sr_data := with_analysis (sr_data base) analysis, sr_confidence := confidence\<rparr>
          | None \<Rightarrow> base\<lparr>sr_name := sp_name sp, sr_confidence := 0\<rparr>))"

definition search_knowledge ::
  "('s, 'c) agent_env \<Rightarrow> string \<Rightarrow> nat \<Rightarrow> ('s, 'c, json list \<times> string) agent" where
  "search_knowledge env query top_k = (\<lambda>w.
     case ae_search env query top_k (sdk (llm w)) of
       (None, s) \<Rightarrow> (Inl Search_failed, w\<lparr>llm := (llm w)\<lparr>sdk := s\<rparr>\<rparr>)
     | (Some x, s) \<Rightarrow> (Inr x, w\<lparr>llm := (llm w)\<lparr>sdk := s\<rparr>\<rparr>))"

text \<open>What is retrieved is masked on its own, before it enters the prompt.\<close>

definition knowledge_analyze ::
  "('s, 'c) agent_env \<Rightarrow> agent_context \<Rightarrow> ('s, 'c, specialist_response) agent" where
  "knowledge_analyze env ctx =
     (let scope = check_scope ''knowledge'' ''analyze''
      in if \<not> check_ok scope
         then ret \<lparr>sr_name = ''knowledge'', sr_content = ''scope rejected: '' @ check_reason scope,
                   sr_data = JObj [], sr_confidence = 0\<rparr>
         else chain (search_knowledge env (ac_query ctx) 8) (\<lambda>(hits, prompt_context).
              if hits = []
              then ret \<lparr>sr_name = ''knowledge'', sr_content = txt_no_documents env,
                        sr_data = JObj [(''hits'', JList []), (''query'', JStr (ac_query ctx))], sr_confidence = 2 / 10\<rparr>
              else let masked_context = fst (mask_pii prompt_context None)
                   in chain (llm_complete env (txt_knowledge_prompt env (ac_query ctx) masked_context) ''sonnet''
                               (Some (ae_prompt env ''knowledge_specialist'')) (2 / 10) 1500) (\<lambda>r.
                      ret \<lparr>sr_name = ''knowledge'', sr_content = rs_content r,
                           sr_data = JObj [(''query'', JStr (ac_query ctx)), (''hits'', JList hits),
                             (''citation_count'', JInt (int (length hits)))],
                           sr_confidence = 1\<rparr>)))"

section \<open>The registry and the task\<close>

definition registry_names :: "string list" where
  "registry_names = [''strategic'', ''finance'', ''people'', ''ops'', ''knowledge'']"

text \<open>
  \<open>run_specialist\<close>: the schema of the context is the database's affair. The \<open>usage\<close> of the result is
  read by no caller.
\<close>

definition run_specialist ::
  "('s, 'c) agent_env \<Rightarrow> string \<Rightarrow> agent_context \<Rightarrow> ('s, 'c, specialist_response) agent" where
  "run_specialist env name ctx =
     (if name = ''strategic'' then default_analyze env strategic ctx
      else if name = ''finance'' then default_analyze env finance ctx
      else if name = ''people'' then verdict_analyze env people ctx
      else if name = ''ops'' then verdict_analyze env ops ctx
      else if name = ''knowledge'' then knowledge_analyze env ctx
      else lift_result (Inl (Agent_key_error name)))"

end
