(* ===== verification/Orchestrator.thy ===== *)
theory Orchestrator
  imports Specialists LlmAccounting Masking
begin

text \<open>
  The orchestrator of \<open>agents/orchestrator.py\<close>: it rejects injected queries, masks the query, classifies
  it, runs the specialists, composes their reports, unmasks the answer and logs it. A Celery group is
  run in the order of its results. The theorems say what may depend on the personal data of a query,
  whom the calls are charged to, and what unmasking does to the tokens of documents.
\<close>

section \<open>The handler\<close>

record intent =
  in_intent :: string
  in_summary :: string
  required_specialists :: "string list"
  in_reasoning :: string

record orchestrator_response =
  or_intent :: intent
  or_specialists :: "specialist_response list"
  or_final :: string

text \<open>\<open>[s for s in v if s in REGISTRY]\<close>: a list or a dict is not hashable.\<close>

fun registered :: "json list \<Rightarrow> (agent_error, string list) result" where
  "registered [] = Inr []"
| "registered (JStr s # vs) =
     andthen (registered vs) (\<lambda>ns. Inr (if s \<in> set registry_names then s # ns else ns))"
| "registered (JList _ # _) = Inl Agent_type_error"
| "registered (JObj _ # _) = Inl Agent_type_error"
| "registered (_ # vs) = registered vs"

fun items_of :: "json \<Rightarrow> (agent_error, json list) result" where
  "items_of v = (case jiter v of Inr xs \<Rightarrow> Inr xs | Inl _ \<Rightarrow> Inl Agent_type_error)"

definition get_str :: "(string \<times> json) list \<Rightarrow> string \<Rightarrow> string \<Rightarrow> string" where
  "get_str kvs k d = (case map_of kvs k of Some v \<Rightarrow> py_str v | None \<Rightarrow> d)"

fun intent_of :: "string \<Rightarrow> json \<Rightarrow> (agent_error, intent) result" where
  "intent_of query (JObj kvs) =
     andthen (items_of (case map_of kvs ''required_specialists'' of Some v \<Rightarrow> v | None \<Rightarrow> JList [])) (\<lambda>vs.
     andthen (registered vs) (\<lambda>required.
     Inr \<lparr>in_intent = get_str kvs ''intent'' ''unknown'', in_summary = get_str kvs ''summary'' query,
          required_specialists = required, in_reasoning = get_str kvs ''reasoning'' []\<rparr>))"
| "intent_of query _ = Inl Agent_attribute_error"

definition classify_intent :: "('s, 'c) agent_env \<Rightarrow> string \<Rightarrow> ('s, 'c, intent) agent" where
  "classify_intent env query =
     chain (llm_complete env (''Question: '' @ query) ''sonnet'' (Some (ae_prompt env ''orchestrator'')) 0 512) (\<lambda>r.
     lift_result (case ae_loads env (str_strip (rs_content r)) of
         None \<Rightarrow> Inl (Not_json (take 200 (rs_content r)))
       | Some parsed \<Rightarrow> intent_of query parsed))"

definition select_specialists :: "intent \<Rightarrow> string list" where
  "select_specialists i = required_specialists i"

fun run_specialists ::
  "('s, 'c) agent_env \<Rightarrow> string list \<Rightarrow> agent_context \<Rightarrow> ('s, 'c, specialist_response list) agent" where
  "run_specialists env [] ctx = ret []"
| "run_specialists env (n # ns) ctx =
     chain (run_specialist env n ctx) (\<lambda>r.
     chain (run_specialists env ns ctx) (\<lambda>rs. ret (r # rs)))"

definition newline :: string where
  "newline = [CHR 0x0A]"

definition compose_system :: string where
  "compose_system =
     ''You are Sentinex. Synthesize the specialists below into one concise ''
     @ ''answer for the user. Preserve concrete numbers and recommendations. ''
     @ ''Do not add meta commentary. Default to the user'' @ [CHR 0x27] @ ''s language (often Czech).''"

definition compose ::
  "('s, 'c) agent_env \<Rightarrow> string \<Rightarrow> intent \<Rightarrow> specialist_response list \<Rightarrow> ('s, 'c, string) agent" where
  "compose env query i specialists =
     (if specialists = []
      then chain (llm_complete env (''Answer concisely in the user'' @ [CHR 0x27] @ ''s language: '' @ query)
                    ''sonnet'' None (3 / 10) 512) (\<lambda>r. ret (rs_content r))
      else let report = join blank_line
                 (map (\<lambda>s. ''### '' @ sr_name s @ newline @ sr_content s) specialists);
               user_prompt = ''User question: '' @ query @ blank_line @ ''Intent: '' @ in_summary i @ blank_line
                 @ ''Specialist reports:'' @ newline @ report
           in chain (llm_complete env user_prompt ''sonnet'' (Some compose_system) (3 / 10) 1024)
                (\<lambda>r. ret (rs_content r)))"

definition write_compliance :: "('s, 'c) agent_env \<Rightarrow> string \<Rightarrow> string \<Rightarrow> unit check_result \<Rightarrow> ('s, 'c, unit) agent" where
  "write_compliance env prompt response validation = (\<lambda>w.
     (Inr (), w\<lparr>compliance := log_for_compliance (ae_hash env) None None ''orchestrator'' ''sonnet'' prompt response
        (check_ok validation) (check_reason validation) (compliance w)\<rparr>))"

text \<open>\<open>getattr(context, "tenant", None)\<close>: an \<open>AgentContext\<close> has no such attribute.\<close>

definition handle ::
  "('s, 'c) agent_env \<Rightarrow> string \<Rightarrow> agent_context \<Rightarrow> ('s, 'c, orchestrator_response) agent" where
  "handle env query ctx =
     (let injection = detect_prompt_injection query
      in if \<not> check_ok injection
         then ret \<lparr>or_intent = \<lparr>in_intent = ''rejected'', in_summary = check_reason injection,
                     required_specialists = [], in_reasoning = []\<rparr>,
                   or_specialists = [], or_final = txt_rejected env\<rparr>
         else let masked = mask_pii query None; safe_query = fst masked;
                  safe_context = ctx\<lparr>ac_query := safe_query\<rparr>
              in chain (classify_intent env safe_query) (\<lambda>i.
                 chain (if select_specialists i = [] then ret []
                        else run_specialists env (select_specialists i) safe_context) (\<lambda>responses.
                 chain (compose env safe_query i responses) (\<lambda>masked_final.
                 let validation = validate_output_format masked_final 1 100000;
                     final = unmask_pii masked_final (snd masked)
                 in chain (write_compliance env query final validation) (\<lambda>_.
                    ret \<lparr>or_intent = i, or_specialists = responses, or_final = final\<rparr>)))))"

section \<open>What leaves the application\<close>

text \<open>The part of the handler that talks to the model, on the masked query.\<close>

definition answer_masked ::
  "('s, 'c) agent_env \<Rightarrow> string \<Rightarrow> agent_context \<Rightarrow> ('s, 'c, intent \<times> specialist_response list \<times> string) agent" where
  "answer_masked env safe_query ctx =
     chain (classify_intent env safe_query) (\<lambda>i.
     chain (if select_specialists i = [] then ret []
            else run_specialists env (select_specialists i) (ctx\<lparr>ac_query := safe_query\<rparr>)) (\<lambda>responses.
     chain (compose env safe_query i responses) (\<lambda>masked_final. ret (i, responses, masked_final))))"

lemma chain_assoc: "chain (chain m f) g = chain m (\<lambda>x. chain (f x) g)"
  by (auto simp: chain_def fun_eq_iff split: prod.split sum.split)

lemma chain_ret: "chain (ret x) f = f x"
  by (simp add: chain_def ret_def)

lemma handle_accepted:
  assumes "check_ok (detect_prompt_injection query)"
  shows "handle env query ctx =
    chain (answer_masked env (fst (mask_pii query None)) ctx) (\<lambda>(i, responses, masked_final).
      let final = unmask_pii masked_final (snd (mask_pii query None))
      in chain (write_compliance env query final (validate_output_format masked_final 1 100000)) (\<lambda>_.
         ret \<lparr>or_intent = i, or_specialists = responses, or_final = final\<rparr>))"
  using assms by (simp add: handle_def answer_masked_def chain_assoc chain_ret Let_def)

lemma write_compliance_frame:
  "fst (write_compliance env p r v w) = Inr ()" "llm (snd (write_compliance env p r v w)) = llm w"
  by (simp_all add: write_compliance_def)

text \<open>
  C5. Of the query only its masked text reaches the model, the specialists and the service behind the
  gateway: for two accepted queries with the same masked text the handler makes the same calls, leaves the
  gateway (usage rows, cache, log and service) in the same state, and returns the same intent and reports or the same
  error; the answers shown are the same masked answer with each query's own values put back.
\<close>

theorem query_masked_from_model:
  assumes "check_ok (detect_prompt_injection q1)" "check_ok (detect_prompt_injection q2)"
    and "fst (mask_pii q1 None) = fst (mask_pii q2 None)"
  shows "llm (snd (handle env q1 ctx w)) = llm (snd (handle env q2 ctx w))
    \<and> (case (fst (handle env q1 ctx w), fst (handle env q2 ctx w)) of
         (Inl e1, Inl e2) \<Rightarrow> e1 = e2
       | (Inr r1, Inr r2) \<Rightarrow>
           or_intent r1 = or_intent r2 \<and> or_specialists r1 = or_specialists r2
           \<and> (\<exists>answer. or_final r1 = unmask_pii answer (snd (mask_pii q1 None))
                     \<and> or_final r2 = unmask_pii answer (snd (mask_pii q2 None)))
       | _ \<Rightarrow> False)"
proof -
  obtain r w1 where run: "answer_masked env (fst (mask_pii q1 None)) ctx w = (r, w1)" by (metis surj_pair)
  have "handle env q ctx w = (case r of Inl e \<Rightarrow> (Inl e, w1)
      | Inr (i, rs, a) \<Rightarrow> (Inr \<lparr>or_intent = i, or_specialists = rs, or_final = unmask_pii a (snd (mask_pii q None))\<rparr>,
          snd (write_compliance env q (unmask_pii a (snd (mask_pii q None))) (validate_output_format a 1 100000) w1)))"
    if "check_ok (detect_prompt_injection q)" "fst (mask_pii q None) = fst (mask_pii q1 None)" for q
    using run unfolding handle_accepted[OF that(1)] that(2)
    by (simp add: chain_def ret_def write_compliance_def Let_def split: sum.split prod.split)
  from this[OF assms(1) refl] this[OF assms(2) assms(3)[symmetric]] show ?thesis
    by (auto simp: write_compliance_frame split: sum.split)
qed

theorem query_masked_from_model_witness:
  "\<forall>(env :: (unit, unit) agent_env) ctx w.
     llm (snd (handle env ''kdo je petr@firm.cz'' ctx w)) = llm (snd (handle env ''kdo je eva@firm.cz'' ctx w))"
proof -
  have ok: "check_ok (detect_prompt_injection ''kdo je petr@firm.cz'')" "check_ok (detect_prompt_injection ''kdo je eva@firm.cz'')"
    by code_simp+
  have same: "fst (mask_pii ''kdo je petr@firm.cz'' None) = fst (mask_pii ''kdo je eva@firm.cz'' None)"
    by code_simp
  show ?thesis using query_masked_from_model[OF ok same] by blast
qed

section \<open>Tokens of documents\<close>

text \<open>
  An instance of the environment: a model that sends every query to the knowledge specialist and quotes
  the last line it is given, and an index with one document. No cache.
\<close>

definition last_line :: "string \<Rightarrow> string" where
  "last_line s = rev (takeWhile (\<lambda>c. c \<noteq> CHR 0x0A) (rev s))"

definition echo_api :: "unit llm_api" where
  "echo_api =
     \<lparr>create = (\<lambda>rq s. (Inr \<lparr>blocks = (case rq_messages rq of User_text p # _ \<Rightarrow> [Text_block (last_line p)] | _ \<Rightarrow> []),
          stop_reason = Some ''end_turn'', input_tokens = 10, output_tokens = 10\<rparr>, s)),
      retrying = (\<lambda>f s. f s), monotonic = (\<lambda>_. 0), wall_clock = (\<lambda>_. 0),
      sha_json = (\<lambda>_. ''h''), sha_text = (\<lambda>_. ''h'')\<rparr>"

definition echo_env :: "string \<Rightarrow> (unit, unit) agent_env" where
  "echo_env document =
     \<lparr>ae_get = (\<lambda>_ _ _. None), ae_set = (\<lambda>_ _ _ _ c. c), ae_api = echo_api,
      ae_settings = \<lparr>api_key = ''key'', cache_enabled = False, default_ttl = 0, usd_rate = 23\<rparr>,
      ae_prompt = (\<lambda>name. name),
      ae_loads = (\<lambda>_. Some (JObj [(''required_specialists'', JList [JStr ''knowledge''])])),
      ae_validate = (\<lambda>_ _. None), ae_tool_spec = (\<lambda>_. None), ae_invoke = (\<lambda>_ _ s. ([], s)),
      ae_search = (\<lambda>_ _ s. (Some ([JStr ''hit''], document), s)), ae_hash = (\<lambda>s. s),
      txt_rejected = [], txt_no_documents = [], txt_knowledge_prompt = (\<lambda>query context. context)\<rparr>"

definition empty_world :: "(unit, unit) agent_world" where
  "empty_world =
     \<lparr>llm = \<lparr>sdk = (), client_made = False, llm_cache = (), usage_rows = [], llm_log = []\<rparr>, compliance = []\<rparr>"

definition plain_context :: agent_context where
  "plain_context = \<lparr>ac_query = [], ac_schema = None, ac_org = [], ac_extra = JObj []\<rparr>"

text \<open>
  Query and documents are masked apart, and both number their tokens from zero. So an answer that
  repeats what a document says, the address of Jana, is shown with the address of the query: the
  token of the document is unmasked with the value of the user's query.
\<close>

lemma sample_masks:
  "mask_pii ''kdo je petr@firm.cz'' None = (''kdo je [EMAIL_0]'', [(''[EMAIL_0]'', ''petr@firm.cz'')])"
  "mask_pii ''Jana: jana@firm.cz'' None = (''Jana: [EMAIL_0]'', [(''[EMAIL_0]'', ''jana@firm.cz'')])"
  "unmask_pii ''Jana: [EMAIL_0]'' [(''[EMAIL_0]'', ''petr@firm.cz'')] = ''Jana: petr@firm.cz''"
  "check_ok (detect_prompt_injection ''kdo je petr@firm.cz'')"
  by code_simp+

theorem document_token_misread:
  "map_sum id or_final (fst (handle (echo_env ''Jana: jana@firm.cz'') ''kdo je petr@firm.cz'' plain_context empty_world))
     = Inr ''Jana: petr@firm.cz''"
  by (simp add: handle_def sample_masks classify_intent_def compose_def run_specialist_def knowledge_analyze_def
      search_knowledge_def llm_complete_def complete_def call_anthropic_def get_client_def completion_def
      echo_env_def echo_api_def empty_world_def plain_context_def chain_def ret_def lift_result_def Let_def
      select_specialists_def registry_names_def write_compliance_def check_scope_def allowed_actions_def
      pass_def last_line_def blank_line_def newline_def record_usage_def emit_llm_event_def
      completion_request_def get_str_def)

section \<open>Whom the calls are charged to\<close>

text \<open>
  The rows and log entries an agent adds carry no tenant. A search of the index and the tools run inside the
  service state, so the tables of the gateway are theirs to leave alone.
\<close>

definition untenanted :: "('s, 'c) agent_world \<Rightarrow> ('s, 'c) agent_world \<Rightarrow> bool" where
  "untenanted w w' \<longleftrightarrow>
     (\<exists>us es cs. usage_rows (llm w') = usage_rows (llm w) @ us \<and> (\<forall>u \<in> set us. usage_tenant u = None)
        \<and> llm_log (llm w') = llm_log (llm w) @ es \<and> (\<forall>e \<in> set es. ev_tenant e = None)
        \<and> compliance w' = compliance w @ cs \<and> (\<forall>c \<in> set cs. log_tenant c = None))"

definition charges_nobody :: "('s, 'c, 'a) agent \<Rightarrow> bool" where
  "charges_nobody m \<longleftrightarrow> (\<forall>w. untenanted w (snd (m w)))"

lemma untenanted_refl: "untenanted w w"
  by (simp add: untenanted_def)

lemma untenanted_trans:
  assumes "untenanted w1 w2" "untenanted w2 w3"
  shows "untenanted w1 w3"
proof -
  obtain us es cs where 1: "usage_rows (llm w2) = usage_rows (llm w1) @ us" "\<forall>u \<in> set us. usage_tenant u = None"
      "llm_log (llm w2) = llm_log (llm w1) @ es" "\<forall>e \<in> set es. ev_tenant e = None"
      "compliance w2 = compliance w1 @ cs" "\<forall>c \<in> set cs. log_tenant c = None"
    using assms(1) unfolding untenanted_def by blast
  obtain us' es' cs' where 2: "usage_rows (llm w3) = usage_rows (llm w2) @ us'" "\<forall>u \<in> set us'. usage_tenant u = None"
      "llm_log (llm w3) = llm_log (llm w2) @ es'" "\<forall>e \<in> set es'. ev_tenant e = None"
      "compliance w3 = compliance w2 @ cs'" "\<forall>c \<in> set cs'. log_tenant c = None"
    using assms(2) unfolding untenanted_def by blast
  show ?thesis unfolding untenanted_def
    by (intro exI[of _ "us @ us'"] exI[of _ "es @ es'"] exI[of _ "cs @ cs'"]) (use 1 2 in auto)
qed

lemma charges_ret: "charges_nobody (ret x)"
  by (simp add: charges_nobody_def ret_def untenanted_refl)

lemma charges_lift: "charges_nobody (lift_result r)"
  by (simp add: charges_nobody_def lift_result_def untenanted_refl)

lemma charges_chain:
  assumes "charges_nobody m" "\<And>x. charges_nobody (f x)"
  shows "charges_nobody (chain m f)"
  unfolding charges_nobody_def
proof
  fix w
  obtain r w1 where m: "m w = (r, w1)" by (metis surj_pair)
  have 1: "untenanted w w1" using assms(1) m unfolding charges_nobody_def by (metis snd_conv)
  show "untenanted w (snd (chain m f w))"
  proof (cases r)
    case (Inl e)
    then show ?thesis using 1 m by (simp add: chain_def)
  next
    case (Inr x)
    have "untenanted w1 (snd (f x w1))" using assms(2) unfolding charges_nobody_def by blast
    with 1 Inr m show ?thesis by (simp add: chain_def untenanted_trans)
  qed
qed

lemma record_usage_rows:
  "\<exists>u. usage_rows (record_usage api r k key g) = usage_rows g @ [u] \<and> usage_tenant u = k"
  by (simp add: record_usage_def)

lemma emit_rows:
  "\<exists>e. llm_log (emit_llm_event r k g) = llm_log g @ [e] \<and> ev_tenant e = k"
  by (simp add: emit_llm_event_def)

lemma complete_untenanted:
  assumes "complete cget cset api settings a g = (r, g1)" "ca_tenant a = None"
  shows "\<exists>us es. usage_rows g1 = usage_rows g @ us \<and> (\<forall>u \<in> set us. usage_tenant u = None)
    \<and> llm_log g1 = llm_log g @ es \<and> (\<forall>e \<in> set es. ev_tenant e = None)"
proof (cases r)
  case (Inl e)
  have "usage_rows g1 = usage_rows g \<and> llm_log g1 = llm_log g"
    using assms(1) unfolding Inl
    by (auto simp: complete_def Let_def dest: call_anthropic_fields split: option.splits prod.splits sum.splits if_splits)
  then show ?thesis by simp
next
  case (Inr x)
  show ?thesis using assms(1) unfolding Inr
  proof (cases rule: complete_cases)
    case (hit c key)
    obtain u where u: "usage_rows (record_usage api x None key g) = usage_rows g @ [u]" "usage_tenant u = None"
      using record_usage_rows by blast
    show ?thesis using hit u assms(2) by (intro exI[of _ "[u]"] exI[of _ "[]"]) simp
  next
    case (miss m latency key g2)
    obtain u where u: "usage_rows (record_usage api x None key g2) = usage_rows g2 @ [u]" "usage_tenant u = None"
      using record_usage_rows by blast
    obtain e where e: "llm_log (emit_llm_event x None (record_usage api x None key g2))
        = llm_log (record_usage api x None key g2) @ [e]" "ev_tenant e = None"
      using emit_rows by blast
    show ?thesis using miss u e assms(2) by (intro exI[of _ "[u]"] exI[of _ "[e]"]) simp
  qed
qed

lemma charges_complete: "charges_nobody (llm_complete env p m s t k)"
  for env :: "('s, 'c) agent_env"
  unfolding charges_nobody_def
proof
  fix w :: "('s, 'c) agent_world"
  let ?a = "\<lparr>ca_prompt = p, ca_model = m, ca_system = s, ca_temperature = t, ca_max_tokens = k,
    ca_cache_ttl = None, ca_tenant = None\<rparr>"
  obtain r g where run: "complete (ae_get env) (ae_set env) (ae_api env) (ae_settings env) ?a (llm w) = (r, g)"
    by (metis surj_pair)
  have "llm (snd (llm_complete env p m s t k w)) = g"
    "compliance (snd (llm_complete env p m s t k w)) = compliance w"
    by (simp_all add: llm_complete_def run split: sum.split)
  with complete_untenanted[OF run] show "untenanted w (snd (llm_complete env p m s t k w))"
    by (auto simp: untenanted_def)
qed

lemma charges_with_tools:
  fixes env :: "('s, 'c) agent_env"
  assumes "ta_tenant a = None"
  shows "charges_nobody (llm_with_tools env a)"
  unfolding charges_nobody_def
proof
  fix w :: "('s, 'c) agent_world"
  obtain r g where run: "complete_with_tools (ae_api env) (ae_settings env) (ae_invoke env) a (llm w) = (r, g)"
    by (metis surj_pair)
  have w': "llm (snd (llm_with_tools env a w)) = g"
    "compliance (snd (llm_with_tools env a w)) = compliance w"
    by (simp_all add: llm_with_tools_def run split: sum.split)
  have "\<exists>us es. usage_rows g = usage_rows (llm w) @ us \<and> (\<forall>u \<in> set us. usage_tenant u = None)
    \<and> llm_log g = llm_log (llm w) @ es \<and> (\<forall>e \<in> set es. ev_tenant e = None)"
    using run assms
    by (auto simp: complete_with_tools_def get_client_def Let_def record_usage_def emit_llm_event_def
        split: sum.splits prod.splits if_splits)
  with w' show "untenanted w (snd (llm_with_tools env a w))"
    by (auto simp: untenanted_def)
qed

lemma charges_search: "charges_nobody (search_knowledge env q k)"
  by (auto simp: charges_nobody_def search_knowledge_def untenanted_def split: prod.split option.split)

lemma charges_compliance: "charges_nobody (write_compliance env p r v)"
  by (auto simp: charges_nobody_def write_compliance_def log_for_compliance_def untenanted_def)

lemma charges_if: "charges_nobody m \<Longrightarrow> charges_nobody m' \<Longrightarrow> charges_nobody (if b then m else m')"
  by simp

lemma charges_case_prod: "(\<And>a b. charges_nobody (f a b)) \<Longrightarrow> charges_nobody (case x of (a, b) \<Rightarrow> f a b)"
  by (simp split: prod.split)

lemmas charges =
  charges_chain charges_if charges_case_prod charges_ret charges_lift charges_complete charges_with_tools
  charges_search charges_compliance

lemma charges_default: "charges_nobody (default_analyze env sp ctx)"
  unfolding default_analyze_def tool_using_analyze_def by (intro charges) simp

lemma charges_specialist: "charges_nobody (run_specialist env name ctx)"
  unfolding run_specialist_def verdict_analyze_def knowledge_analyze_def Let_def
  by (intro charges charges_default)

lemma charges_specialists: "charges_nobody (run_specialists env names ctx)"
proof (induction names)
  case (Cons n ns)
  show ?case unfolding run_specialists.simps by (intro charges charges_specialist Cons)
qed (simp add: charges_ret)

lemma charges_handle: "charges_nobody (handle env query ctx)"
  unfolding handle_def classify_intent_def compose_def Let_def
  by (intro charges charges_specialists)

lemma month_spent_append:
  "month_spent tenant start (us @ us') = month_spent tenant start us + month_spent tenant start us'"
  by (simp add: month_spent_def)

lemma month_spent_others: "\<forall>u \<in> set us. usage_tenant u = None \<Longrightarrow> month_spent tenant start us = 0"
  by (induction us) (simp_all add: month_spent_def)

text \<open>
  Whatever a query makes the agents do, no tenant is charged: the usage rows it adds carry no tenant,
  so that every tenant's spend of the month and the verdict of the budget check are
  what they were, however much the calls cost; and the compliance rows kept for the tenant stay the same.
\<close>

theorem queries_charge_nobody:
  "month_spent tenant start (usage_rows (llm (snd (handle env query ctx w)))) = month_spent tenant start (usage_rows (llm w))
   \<and> check_cost_budget (Some tenant) estimate start (usage_rows (llm (snd (handle env query ctx w)))) budgets
       = check_cost_budget (Some tenant) estimate start (usage_rows (llm w)) budgets
   \<and> filter (\<lambda>c. log_tenant c = Some tenant) (compliance (snd (handle env query ctx w)))
       = filter (\<lambda>c. log_tenant c = Some tenant) (compliance w)"
proof -
  obtain us cs where us: "usage_rows (llm (snd (handle env query ctx w))) = usage_rows (llm w) @ us"
      "\<forall>u \<in> set us. usage_tenant u = None"
    and cs: "compliance (snd (handle env query ctx w)) = compliance w @ cs" "\<forall>c \<in> set cs. log_tenant c = None"
    using charges_handle[of env query ctx] unfolding charges_nobody_def untenanted_def by blast
  have "month_spent tenant start (usage_rows (llm (snd (handle env query ctx w)))) = month_spent tenant start (usage_rows (llm w))"
    by (simp add: us(1) month_spent_append month_spent_others[OF us(2)])
  moreover have "filter (\<lambda>c. log_tenant c = Some tenant) cs = []"
    using cs(2) by (auto simp: filter_empty_conv)
  ultimately show ?thesis by (simp add: check_cost_budget_def Let_def cs(1))
qed

end
