(* ===== verification/Chunker.thy ===== *)
theory Chunker
  imports PyValues
begin

text \<open>
  The chunker of \<open>data_access/knowledge/chunker.py\<close>: the text of a document is cut at its blank lines and
  the paragraphs are packed into chunks of about \<open>chunk_size\<close> tokens, each starting with the last
  characters of the one before; a paragraph larger than a chunk is cut by characters. The
  encoder of \<open>tiktoken\<close> is a parameter, absent when the package is; without it a token is four characters.
\<close>

section \<open>Slices with negative bounds and ranges\<close>

definition slice_bound :: "int \<Rightarrow> 'a list \<Rightarrow> nat" where
  "slice_bound i xs = nat (if i < 0 then max 0 (i + int (length xs)) else min i (int (length xs)))"

text \<open>\<open>xs[i:j]\<close> and \<open>xs[i:]\<close>\<close>

definition py_slice :: "'a list \<Rightarrow> int \<Rightarrow> int \<Rightarrow> 'a list" where
  "py_slice xs i j = take (slice_bound j xs - slice_bound i xs) (drop (slice_bound i xs) xs)"

definition py_from :: "'a list \<Rightarrow> int \<Rightarrow> 'a list" where
  "py_from xs i = drop (slice_bound i xs) xs"

text \<open>\<open>range(0, n, step)\<close> for \<open>n\<close> not negative.\<close>

definition py_range :: "nat \<Rightarrow> int \<Rightarrow> (py_error, int list) result" where
  "py_range n step =
     (if step = 0 then Inl ValueError
      else if step < 0 then Inr []
      else Inr (map (\<lambda>k. step * int k) [0..<nat ((int n + step - 1) div step)]))"

text \<open>\<open>text.split("\n\n")\<close>\<close>

abbreviation newline :: char where
  "newline \<equiv> CHR 0x0A"

fun split_blank :: "string \<Rightarrow> string \<Rightarrow> string list" where
  "split_blank acc [] = [rev acc]"
| "split_blank acc [c] = [rev (c # acc)]"
| "split_blank acc (c # d # cs) =
     (if c = newline \<and> d = newline then rev acc # split_blank [] cs else split_blank (c # acc) (d # cs))"

definition paragraphs :: "string \<Rightarrow> string list" where
  "paragraphs s = map str_strip (filter (\<lambda>p. str_strip p \<noteq> []) (split_blank [] s))"

section \<open>Tokens\<close>

type_synonym token_counter = "string \<Rightarrow> (py_error, int) result"

definition heuristic_tokens :: "string \<Rightarrow> int" where
  "heuristic_tokens s = max 1 (int (length s div 4))"

definition count_tokens :: "token_counter option \<Rightarrow> token_counter" where
  "count_tokens encoder s =
     (case encoder of None \<Rightarrow> Inr (heuristic_tokens s) | Some encode \<Rightarrow> encode s)"

section \<open>Chunks\<close>

record chunk =
  ck_index :: nat
  ck_text :: string
  ck_tokens :: int

text \<open>The local variables of \<open>chunk_text\<close>.\<close>

record chunking =
  chunks :: "chunk list"
  current :: "string list"
  current_tokens :: int
  idx :: nat

definition blank_line :: string where
  "blank_line = [newline, newline]"

definition flush :: "token_counter \<Rightarrow> int \<Rightarrow> chunking \<Rightarrow> (py_error, chunking) result" where
  "flush tokens overlap st =
     (if current st = [] then Inr st
      else let text = join blank_line (current st);
               st = st\<lparr>chunks := chunks st @ [\<lparr>ck_index = idx st, ck_text = text, ck_tokens = current_tokens st\<rparr>],
                       idx := idx st + 1\<rparr>
           in if overlap \<noteq> 0
              then (let tail = py_from text (- overlap * 4)
                    in andthen (tokens tail) (\<lambda>n. Inr (st\<lparr>current := [tail], current_tokens := n\<rparr>)))
              else Inr (st\<lparr>current := [], current_tokens := 0\<rparr>))"

definition add_piece :: "token_counter \<Rightarrow> int \<Rightarrow> string \<Rightarrow> int \<Rightarrow> chunking \<Rightarrow> (py_error, chunking) result" where
  "add_piece tokens stride para i st =
     (let piece = py_slice para i (i + stride)
      in if piece = [] then Inr st
         else andthen (tokens piece) (\<lambda>n.
              Inr (st\<lparr>chunks := chunks st @ [\<lparr>ck_index = idx st, ck_text = piece, ck_tokens = n\<rparr>],
                      idx := idx st + 1\<rparr>)))"

definition split_oversize :: "token_counter \<Rightarrow> int \<Rightarrow> int \<Rightarrow> string \<Rightarrow> chunking \<Rightarrow> (py_error, chunking) result" where
  "split_oversize tokens chunk_size overlap para st =
     (let stride = chunk_size * 4
      in andthen (py_range (length para) (stride - (if overlap \<noteq> 0 then overlap * 4 else 0))) (\<lambda>starts.
         andthen (fold_result (add_piece tokens stride para) starts st) (\<lambda>st.
         Inr (st\<lparr>current := [], current_tokens := 0\<rparr>))))"

definition add_para :: "token_counter \<Rightarrow> int \<Rightarrow> int \<Rightarrow> string \<Rightarrow> chunking \<Rightarrow> (py_error, chunking) result" where
  "add_para tokens chunk_size overlap para st =
     andthen (tokens para) (\<lambda>ptok.
     if ptok > chunk_size then split_oversize tokens chunk_size overlap para st
     else andthen (if current_tokens st + ptok > chunk_size then flush tokens overlap st else Inr st) (\<lambda>st.
          Inr (st\<lparr>current := current st @ [para], current_tokens := current_tokens st + ptok\<rparr>)))"

definition chunk_start :: chunking where
  "chunk_start = \<lparr>chunks = [], current = [], current_tokens = 0, idx = 0\<rparr>"

text \<open>The defaults of the settings are \<open>ds\<close> and \<open>dov\<close>; a chunk size of zero counts as not given.\<close>

definition chunk_text ::
  "token_counter \<Rightarrow> int \<Rightarrow> int \<Rightarrow> string \<Rightarrow> int option \<Rightarrow> int option \<Rightarrow> (py_error, chunk list) result" where
  "chunk_text tokens ds dov text size_arg overlap_arg =
     (if text = [] \<or> str_strip text = [] then Inr []
      else let chunk_size = (case size_arg of None \<Rightarrow> ds | Some n \<Rightarrow> if n = 0 then ds else n);
               overlap = (case overlap_arg of None \<Rightarrow> dov | Some n \<Rightarrow> n)
           in andthen (fold_result (add_para tokens chunk_size overlap) (paragraphs text) chunk_start) (\<lambda>st.
              andthen (flush tokens overlap st) (\<lambda>st. Inr (chunks st))))"

section \<open>Every paragraph that fits is kept\<close>

lemma contains_refl [simp]: "contains p p"
  by (metis append_Nil append_Nil2 contains_iff)

lemma contains_join: "p \<in> set ps \<Longrightarrow> contains p (join sep ps)"
proof (induction sep ps rule: join.induct)
  case (3 sep x y ys)
  show ?case
  proof (cases "p = x")
    case True
    then show ?thesis by (auto simp: contains_iff intro: exI[of _ "[]"])
  next
    case False
    with 3 have "contains p (join sep (y # ys))" by simp
    then obtain a b where "join sep (y # ys) = a @ p @ b" by (auto simp: contains_iff)
    then have "join sep (x # y # ys) = (x @ sep @ a) @ p @ b" by simp
    then show ?thesis unfolding contains_iff by blast
  qed
qed auto

text \<open>Indices, and where each paragraph read so far is.\<close>

definition kept :: "string \<Rightarrow> chunking \<Rightarrow> bool" where
  "kept p st \<longleftrightarrow> (\<exists>c \<in> set (chunks st). contains p (ck_text c)) \<or> p \<in> set (current st)"

definition indexed :: "chunking \<Rightarrow> bool" where
  "indexed st \<longleftrightarrow> map ck_index (chunks st) = [0..<idx st]"

lemma indexed_steps:
  "flush tokens overlap st = Inr st' \<Longrightarrow> indexed st \<Longrightarrow> indexed st'"
  "add_piece tokens stride para i st = Inr st' \<Longrightarrow> indexed st \<Longrightarrow> indexed st'"
  by (auto simp: flush_def add_piece_def indexed_def Let_def andthen_Inr_iff split: if_splits)

lemma indexed_split:
  assumes "split_oversize tokens chunk_size overlap para st = Inr st'" "indexed st"
  shows "indexed st'"
proof -
  from assms(1) obtain starts st1 where
      f: "fold_result (add_piece tokens (chunk_size * 4) para) starts st = Inr st1"
    and st': "st' = st1\<lparr>current := [], current_tokens := 0\<rparr>"
    by (auto simp: split_oversize_def Let_def andthen_Inr_iff)
  have "indexed st1"
    using fold_result_invariant[OF f, where seen = "[]" and P = "\<lambda>_. indexed"] assms(2) indexed_steps(2) by blast
  then show ?thesis by (simp add: st' indexed_def)
qed

lemma indexed_para: "add_para tokens chunk_size overlap para st = Inr st' \<Longrightarrow> indexed st \<Longrightarrow> indexed st'"
  by (auto simp: add_para_def andthen_Inr_iff indexed_def split: if_splits
      dest!: indexed_split[unfolded indexed_def] indexed_steps(1)[unfolded indexed_def])

lemma kept_flush: "flush tokens overlap st = Inr st' \<Longrightarrow> kept p st \<Longrightarrow> \<exists>c \<in> set (chunks st'). contains p (ck_text c)"
  by (auto simp: flush_def kept_def Let_def andthen_Inr_iff contains_join split: if_splits)

lemma kept_para:
  assumes "add_para tokens chunk_size overlap para st = Inr st'" "tokens para = Inr n" "n \<le> chunk_size"
  shows "kept para st' \<and> (kept p st \<longrightarrow> kept p st')"
proof -
  obtain st1 where "(if current_tokens st + n > chunk_size then flush tokens overlap st else Inr st) = Inr st1"
    and st': "st' = st1\<lparr>current := current st1 @ [para], current_tokens := current_tokens st1 + n\<rparr>"
    using assms by (auto simp: add_para_def andthen_Inr_iff)
  then have "kept p st \<longrightarrow> kept p st1"
    using kept_flush[of tokens overlap st st1 p] by (auto simp: kept_def split: if_splits)
  then show ?thesis by (auto simp: st' kept_def)
qed

lemma kept_paras:
  assumes "fold_result (add_para tokens chunk_size overlap) ps chunk_start = Inr st"
    and "\<forall>p \<in> set ps. \<exists>n \<le> chunk_size. tokens p = Inr n" "p \<in> set ps"
  shows "kept p st"
  using assms
proof (induction ps arbitrary: st rule: rev_induct)
  case (snoc q ps)
  then obtain st1 n where "fold_result (add_para tokens chunk_size overlap) ps chunk_start = Inr st1"
    "add_para tokens chunk_size overlap q st1 = Inr st" "tokens q = Inr n" "n \<le> chunk_size"
    by (auto simp: fold_result_append andthen_Inr_iff)
  with snoc kept_para[of tokens chunk_size overlap q st1 st n p] show ?case by auto
qed simp

lemma strip_blank: "str_strip s = [] \<longleftrightarrow> list_all is_space s"
proof -
  have "str_strip s = [] \<longleftrightarrow> (\<forall>c \<in> set (dropWhile is_space s). is_space c)"
    by (simp add: str_strip_def dropWhile_eq_Nil_conv)
  also have "\<dots> \<longleftrightarrow> dropWhile is_space s = []"
    by (metis dropWhile_eq_Nil_conv dropWhile_idem)
  also have "\<dots> \<longleftrightarrow> list_all is_space s" by (auto simp: dropWhile_eq_Nil_conv list_all_iff)
  finally show ?thesis .
qed

lemma split_blank_blank:
  "list_all is_space s \<Longrightarrow> list_all is_space acc \<Longrightarrow> \<forall>p \<in> set (split_blank acc s). list_all is_space p"
  by (induction acc s rule: split_blank.induct) (auto simp: list_all_iff)

lemma paragraphs_blank: "str_strip s = [] \<Longrightarrow> paragraphs s = []"
  using split_blank_blank[of s "[]"] by (auto simp: paragraphs_def strip_blank filter_empty_conv)

text \<open>The test for a blank text is redundant, and the arguments pick the two numbers.\<close>

definition pick_size :: "int \<Rightarrow> int option \<Rightarrow> int" where
  "pick_size ds size_arg = (case size_arg of None \<Rightarrow> ds | Some n \<Rightarrow> if n = 0 then ds else n)"

definition pick_overlap :: "int \<Rightarrow> int option \<Rightarrow> int" where
  "pick_overlap dov overlap_arg = (case overlap_arg of None \<Rightarrow> dov | Some n \<Rightarrow> n)"

lemma chunk_text_alt:
  "chunk_text tokens ds dov text size_arg overlap_arg =
     andthen (fold_result (add_para tokens (pick_size ds size_arg) (pick_overlap dov overlap_arg)) (paragraphs text) chunk_start)
       (\<lambda>st. andthen (flush tokens (pick_overlap dov overlap_arg) st) (\<lambda>st. Inr (chunks st)))"
proof (cases "text = [] \<or> str_strip text = []")
  case True
  then have "str_strip text = []" by (auto simp: str_strip_def)
  then have "paragraphs text = []" by (rule paragraphs_blank)
  then show ?thesis using True by (simp add: chunk_text_def chunk_start_def flush_def)
next
  case False
  then show ?thesis unfolding chunk_text_def Let_def pick_size_def pick_overlap_def by simp
qed

text \<open>
  A document whose paragraphs all fit in a chunk loses nothing: every paragraph is, whole, part of some
  chunk, and the chunks are numbered from zero without gaps.
\<close>

theorem fitting_paragraphs_kept:
  assumes run: "chunk_text tokens ds dov text size_arg overlap_arg = Inr cs"
    and fits: "\<forall>p \<in> set (paragraphs text). \<exists>n \<le> pick_size ds size_arg. tokens p = Inr n"
  shows "(\<forall>p \<in> set (paragraphs text). \<exists>c \<in> set cs. contains p (ck_text c))
    \<and> map ck_index cs = [0..<length cs]"
proof -
  let ?n = "pick_size ds size_arg" and ?o = "pick_overlap dov overlap_arg"
  obtain st st' where st: "fold_result (add_para tokens ?n ?o) (paragraphs text) chunk_start = Inr st"
    and st': "flush tokens ?o st = Inr st'" "cs = chunks st'"
    using run unfolding chunk_text_alt by (auto simp: andthen_Inr_iff)
  have "indexed st"
    using fold_result_invariant[OF st, where seen = "[]" and P = "\<lambda>_. indexed"] indexed_para
    by (auto simp: indexed_def chunk_start_def)
  with indexed_steps(1)[OF st'(1)] have "map ck_index cs = [0..<idx st']" by (simp add: indexed_def st'(2))
  moreover from this have "idx st' = length cs" by (metis length_map length_upt minus_nat.diff_0)
  moreover have "\<exists>c \<in> set cs. contains p (ck_text c)" if "p \<in> set (paragraphs text)" for p
    using kept_flush[OF st'(1)] kept_paras[OF st fits that] by (simp add: st'(2))
  ultimately show ?thesis by simp
qed

lemma fitting_paragraphs_kept_witness:
  "list_all (\<lambda>p. list_ex (\<lambda>c. contains p (ck_text c)) [\<lparr>ck_index = 0, ck_text = ''ab'', ck_tokens = 1\<rparr>,
       \<lparr>ck_index = 1, ck_text = ''ab'' @ blank_line @ ''cd'', ck_tokens = 2\<rparr>]) [''ab'', ''cd'']
   \<and> map ck_index [\<lparr>ck_index = 0, ck_text = ''ab'', ck_tokens = 1\<rparr>,
       \<lparr>ck_index = 1, ck_text = ''ab'' @ blank_line @ ''cd'', ck_tokens = 2\<rparr>] = [0..<2]"
proof -
  let ?text = "''ab'' @ blank_line @ ''cd''"
  have ps: "paragraphs ?text = [''ab'', ''cd'']"
    by (simp add: paragraphs_def blank_line_def str_strip_def is_space_def)
  show ?thesis
    using fitting_paragraphs_kept[of "count_tokens None" 1 1 ?text None None
        "[\<lparr>ck_index = 0, ck_text = ''ab'', ck_tokens = 1\<rparr>, \<lparr>ck_index = 1, ck_text = ?text, ck_tokens = 2\<rparr>]"]
    unfolding chunk_text_alt ps
    by (simp add: pick_size_def pick_overlap_def add_para_def count_tokens_def heuristic_tokens_def
        flush_def chunk_start_def blank_line_def py_from_def slice_bound_def numeral_2_eq_2)
qed

section \<open>The size of a chunk\<close>

text \<open>What the bound needs of a token counter: a text has no more tokens than its length allows.\<close>

locale bounded_counter =
  fixes tokens :: token_counter
    and bound :: "nat \<Rightarrow> int"
  assumes tokens_le: "tokens s = Inr k \<Longrightarrow> k \<le> bound (length s)"
    and bound_mono: "m \<le> n \<Longrightarrow> bound m \<le> bound n"
    and bound_nonneg: "0 \<le> bound n"
begin

definition limit :: "int \<Rightarrow> int \<Rightarrow> int" where
  "limit chunk_size overlap =
     max (bound (nat (4 * chunk_size))) (chunk_size + (if overlap = 0 then 0 else bound (nat (4 * overlap))))"

definition sized :: "int \<Rightarrow> chunking \<Rightarrow> bool" where
  "sized b st \<longleftrightarrow> (\<forall>c \<in> set (chunks st). ck_tokens c \<le> b) \<and> current_tokens st \<le> b
     \<and> (current st = [] \<longrightarrow> current_tokens st = 0)"

lemma tokens_tail:
  assumes "tokens (py_from s (- overlap * 4)) = Inr n" "0 < overlap"
  shows "n \<le> bound (nat (4 * overlap))"
proof -
  have "length (py_from s (- overlap * 4)) \<le> nat (4 * overlap)"
    using assms(2) by (auto simp: py_from_def slice_bound_def)
  with tokens_le[OF assms(1)] bound_mono show ?thesis by (metis order_trans)
qed

lemma within_flush:
  assumes "flush tokens overlap st = Inr st'" "sized b st" "0 \<le> overlap" "bound (nat (4 * overlap)) \<le> b \<or> overlap = 0" "0 \<le> b"
  shows "sized b st' \<and> (current st \<noteq> [] \<longrightarrow> current_tokens st' \<le> (if overlap = 0 then 0 else bound (nat (4 * overlap))))"
  using assms tokens_tail[of _ overlap]
  by (auto simp: flush_def sized_def Let_def andthen_Inr_iff split: if_splits) fastforce+

lemma within_piece:
  assumes "add_piece tokens stride para i st = Inr st'" "sized b st" "0 \<le> i" "0 \<le> stride" "bound (nat stride) \<le> b"
  shows "sized b st'"
proof -
  have "length (py_slice para i (i + stride)) \<le> nat stride"
    using assms(3,4) by (auto simp: py_slice_def slice_bound_def)
  then have "n \<le> b" if "tokens (py_slice para i (i + stride)) = Inr n" for n
    using tokens_le[OF that] bound_mono assms(5) by (meson order_trans)
  then show ?thesis
    using assms(1,2) by (auto simp: add_piece_def sized_def Let_def andthen_Inr_iff split: if_splits)
qed

lemma within_pieces:
  assumes "fold_result (add_piece tokens stride para) starts st = Inr st'" "sized b st"
    "\<forall>i \<in> set starts. 0 \<le> i" "0 \<le> stride" "bound (nat stride) \<le> b"
  shows "sized b st'"
  using assms
  by (induction starts arbitrary: st) (auto simp: andthen_Inr_iff dest!: within_piece)

lemma py_range_nonneg: "py_range n step = Inr starts \<Longrightarrow> \<forall>i \<in> set starts. 0 \<le> i"
  by (auto simp: py_range_def split: if_splits)

lemma within_para:
  assumes "add_para tokens chunk_size overlap para st = Inr st'" "sized (limit chunk_size overlap) st"
    "0 \<le> overlap" "0 \<le> chunk_size"
  shows "sized (limit chunk_size overlap) st'"
proof -
  let ?b = "limit chunk_size overlap" and ?tail = "if overlap = 0 then 0 else bound (nat (4 * overlap))"
  have b: "0 \<le> ?b" "bound (nat (4 * overlap)) \<le> ?b \<or> overlap = 0" "bound (nat (chunk_size * 4)) \<le> ?b"
    "chunk_size \<le> ?b" "chunk_size + ?tail \<le> ?b"
    using bound_nonneg[of "nat (4 * overlap)"] assms(4) by (auto simp: limit_def mult.commute max_def)
  obtain n where n: "tokens para = Inr n" using assms(1) by (auto simp: add_para_def andthen_Inr_iff)
  show ?thesis
  proof (cases "n > chunk_size")
    case True
    then have "split_oversize tokens chunk_size overlap para st = Inr st'"
      using assms(1) n by (simp add: add_para_def)
    then obtain starts st1 where "fold_result (add_piece tokens (chunk_size * 4) para) starts st = Inr st1"
        "\<forall>i \<in> set starts. 0 \<le> i" and st': "st' = st1\<lparr>current := [], current_tokens := 0\<rparr>"
      using py_range_nonneg by (auto simp: split_oversize_def Let_def andthen_Inr_iff)
    then have "sized ?b st1" using within_pieces assms(2,4) b(3) by (meson mult_nonneg_nonneg zero_le_numeral)
    then show ?thesis using b(1) by (simp add: st' sized_def)
  next
    case False
    then obtain st1 where
        st1: "(if current_tokens st + n > chunk_size then flush tokens overlap st else Inr st) = Inr st1"
      and st': "st' = st1\<lparr>current := current st1 @ [para], current_tokens := current_tokens st1 + n\<rparr>"
      using assms(1) n by (auto simp: add_para_def andthen_Inr_iff)
    have "sized ?b st1 \<and> current_tokens st1 + n \<le> ?b"
    proof (cases "current_tokens st + n > chunk_size")
      case True
      with False assms(2) have "current st \<noteq> []" by (auto simp: sized_def)
      with True st1 within_flush[of overlap st st1 ?b] assms(2,3) b False show ?thesis by auto
    next
      case False
      with st1 assms(2) b(4) show ?thesis by auto
    qed
    then show ?thesis by (auto simp: st' sized_def)
  qed
qed

lemma chunk_within:
  assumes "chunk_text tokens ds dov text size_arg overlap_arg = Inr cs"
    "0 \<le> pick_overlap dov overlap_arg" "0 \<le> pick_size ds size_arg" "c \<in> set cs"
  shows "ck_tokens c \<le> limit (pick_size ds size_arg) (pick_overlap dov overlap_arg)"
proof -
  let ?n = "pick_size ds size_arg" and ?o = "pick_overlap dov overlap_arg"
  have b: "0 \<le> limit ?n ?o" "bound (nat (4 * ?o)) \<le> limit ?n ?o \<or> ?o = 0"
    using bound_nonneg[of "nat (4 * ?o)"] assms(3) by (auto simp: limit_def max_def)
  obtain st st' where st: "fold_result (add_para tokens ?n ?o) (paragraphs text) chunk_start = Inr st"
    and st': "flush tokens ?o st = Inr st'" "cs = chunks st'"
    using assms(1) unfolding chunk_text_alt by (auto simp: andthen_Inr_iff)
  have "sized (limit ?n ?o) st"
    using fold_result_invariant[OF st, where seen = "[]" and P = "\<lambda>_. sized (limit ?n ?o)"]
      within_para assms(2,3) b(1) by (auto simp: sized_def chunk_start_def)
  from within_flush[OF st'(1) this assms(2) b(2) b(1)] assms(4) show ?thesis by (auto simp: sized_def st'(2))
qed

end

interpretation heuristic: bounded_counter "count_tokens None" "\<lambda>n. max 1 (int (n div 4))"
  by unfold_locales (auto simp: count_tokens_def heuristic_tokens_def div_le_mono)

text \<open>
  Without an encoder no chunk has more tokens than the chunk size and the overlap together; the
  chunk size itself may be exceeded, because the tail carried over is not counted against it.
\<close>

theorem chunk_tokens_bounded:
  assumes "chunk_text (count_tokens None) ds dov text size_arg overlap_arg = Inr cs" "c \<in> set cs"
    and "1 \<le> pick_size ds size_arg" "0 \<le> pick_overlap dov overlap_arg"
  shows "ck_tokens c \<le> pick_size ds size_arg
    + (if pick_overlap dov overlap_arg = 0 then 0 else max 1 (pick_overlap dov overlap_arg))"
proof -
  have "nat (4 * n) div 4 = nat n" for n :: int by (simp add: nat_mult_distrib)
  then have "heuristic.limit (pick_size ds size_arg) (pick_overlap dov overlap_arg)
      = max (max 1 (int (nat (pick_size ds size_arg)))) (pick_size ds size_arg
          + (if pick_overlap dov overlap_arg = 0 then 0 else max 1 (int (nat (pick_overlap dov overlap_arg)))))"
    by (simp add: heuristic.limit_def)
  with heuristic.chunk_within[OF assms(1) assms(4) _ assms(2)] assms(3,4) show ?thesis
    by (simp add: max_def split: if_splits)
qed

lemma chunk_tokens_bounded_witness: "(2::int) \<le> 1 + (if 1 = (0::int) then 0 else max 1 1)"
proof -
  let ?text = "''ab'' @ blank_line @ ''cd''"
  have ps: "paragraphs ?text = [''ab'', ''cd'']"
    by (simp add: paragraphs_def blank_line_def str_strip_def is_space_def)
  show ?thesis
    using chunk_tokens_bounded[of 1 1 ?text None None
        "[\<lparr>ck_index = 0, ck_text = ''ab'', ck_tokens = 1\<rparr>, \<lparr>ck_index = 1, ck_text = ?text, ck_tokens = 2\<rparr>]"
        "\<lparr>ck_index = 1, ck_text = ?text, ck_tokens = 2\<rparr>"]
    unfolding chunk_text_alt ps
    by (simp add: pick_size_def pick_overlap_def add_para_def count_tokens_def heuristic_tokens_def
        flush_def chunk_start_def blank_line_def py_from_def slice_bound_def)
qed

section \<open>A paragraph larger than a chunk\<close>

lemma slice_block:
  assumes "int s \<le> stride"
  shows "take s (py_slice xs (int i) (int i + stride)) = take s (drop i xs)"
proof (cases "i \<le> length xs")
  case True
  then have "slice_bound (int i) xs = i" by (simp add: slice_bound_def min_def)
  moreover have "min s (slice_bound (int i + stride) xs - i) = min s (length xs - i)"
    using assms True by (auto simp: slice_bound_def min_def)
  ultimately show ?thesis
    by (simp add: py_slice_def) (metis length_drop min.commute take_all take_take min_def le_cases)
qed (auto simp: py_slice_def slice_bound_def min_def)

text \<open>The texts of the pieces, and that they cover the paragraph.\<close>

lemma pieces_texts:
  assumes "fold_result (add_piece tokens stride para) starts st = Inr st'"
  shows "map ck_text (chunks st') = map ck_text (chunks st)
    @ filter (\<lambda>p. p \<noteq> []) (map (\<lambda>i. py_slice para i (i + stride)) starts)"
  using assms
proof (induction starts arbitrary: st)
  case (Cons i starts)
  then obtain st1 where "add_piece tokens stride para i st = Inr st1"
    "fold_result (add_piece tokens stride para) starts st1 = Inr st'" by (auto simp: andthen_Inr_iff)
  moreover from this(1) have "map ck_text (chunks st1) = map ck_text (chunks st)
      @ filter (\<lambda>p. p \<noteq> []) [py_slice para i (i + stride)]"
    by (auto simp: add_piece_def Let_def andthen_Inr_iff split: if_splits)
  ultimately show ?case using Cons.IH[of st1] by simp
qed simp

lemma pieces_total:
  assumes "\<forall>s. \<exists>n. tokens s = Inr n"
  shows "\<exists>st'. fold_result (add_piece tokens stride para) starts st = Inr st'"
proof (induction starts arbitrary: st)
  case (Cons i starts)
  obtain n where "tokens (py_slice para i (i + stride)) = Inr n" using assms by blast
  with Cons show ?case by (cases "py_slice para i (i + stride) = []") (auto simp: add_piece_def Let_def)
qed simp

lemma concat_take_nonempty: "concat (map (take s) (filter (\<lambda>p. p \<noteq> []) ps)) = concat (map (take s) ps)"
  by (induction ps) auto

lemma contains_py_slice: "contains (py_slice xs i j) xs"
  unfolding contains_iff py_slice_def by (metis append_take_drop_id)

lemma split_oversize_texts:
  assumes "0 \<le> overlap" "overlap < chunk_size" "\<forall>s. \<exists>n. tokens s = Inr n"
  shows "\<exists>st' ps. split_oversize tokens chunk_size overlap para st = Inr st' \<and> current st' = []
    \<and> map ck_text (chunks st') = map ck_text (chunks st) @ ps
    \<and> concat (map (take (nat (4 * (chunk_size - overlap)))) ps) = para \<and> (\<forall>p \<in> set ps. contains p para)"
proof -
  define s where "s = nat (4 * (chunk_size - overlap))"
  have s: "0 < s" "int s = 4 * (chunk_size - overlap)" using assms by (auto simp: s_def)
  define starts where "starts = map (\<lambda>k. int (s * k)) [0..<nat ((int (length para) + int s - 1) div int s)]"
  have r: "py_range (length para) (chunk_size * 4 - (if overlap \<noteq> 0 then overlap * 4 else 0)) = Inr starts"
    using s assms(1,2) unfolding py_range_def starts_def of_nat_mult s(2) by (auto simp: algebra_simps)
  obtain st1 where st1: "fold_result (add_piece tokens (chunk_size * 4) para) starts st = Inr st1"
    using pieces_total[OF assms(3)] by blast
  define m where "m = nat ((int (length para) + int s - 1) div int s)"
  have "int (length para) \<le> int s * ((int (length para) + int s - 1) div int s)"
    using s(1) by (smt (verit, ccfv_SIG) of_nat_0_less_iff pos_mod_bound pos_mod_sign mult_div_mod_eq)
  moreover have "0 \<le> (int (length para) + int s - 1) div int s" using s(1) by (simp add: div_int_pos_iff)
  ultimately have "int (length para) \<le> int (s * m)" by (simp add: m_def)
  then have "length para \<le> s * m" by linarith
  moreover have "concat (map (\<lambda>i. take s (py_slice para i (i + chunk_size * 4))) starts)
      = concat (map (\<lambda>k. take s (drop (s * k) para)) [0..<m])"
    unfolding starts_def m_def[symmetric] map_map comp_def
    by (subst slice_block) (use s assms(1) in simp_all)
  ultimately have "concat (map (\<lambda>i. take s (py_slice para i (i + chunk_size * 4))) starts) = para"
    by (simp add: concat_blocks)
  with pieces_texts[OF st1] r st1 show ?thesis
    unfolding s_def[symmetric]
    by (auto simp: split_oversize_def Let_def concat_take_nonempty comp_def contains_py_slice
        intro!: exI[of _ "filter (\<lambda>p. p \<noteq> []) (map (\<lambda>i. py_slice para i (i + chunk_size * 4)) starts)"])
qed

text \<open>Paragraphs that fit together are only collected.\<close>

lemma collect_paras:
  assumes "sum_list (map heuristic_tokens ps) \<le> chunk_size"
  shows "fold_result (add_para (count_tokens None) chunk_size overlap) ps chunk_start
    = Inr (chunk_start\<lparr>current := ps, current_tokens := sum_list (map heuristic_tokens ps)\<rparr>)"
  using assms
proof (induction ps rule: rev_induct)
  case (snoc p ps)
  have "0 \<le> sum_list (map heuristic_tokens ps)" "1 \<le> heuristic_tokens p"
    by (intro sum_list_nonneg; auto simp: heuristic_tokens_def) (simp add: heuristic_tokens_def)
  with snoc show ?case
    by (simp add: fold_result_append add_para_def count_tokens_def)
qed (simp add: chunk_start_def)

text \<open>
  A document of some short paragraphs that fit together in a chunk and one paragraph larger than a
  chunk: the large one is cut into pieces that cover it to the last character, and the short ones,
  still waiting to be written, are thrown away. Every chunk of the document is a part of the large
  paragraph.
\<close>

theorem oversize_drops_pending:
  assumes "paragraphs text = ps @ [q]"
    and "sum_list (map heuristic_tokens ps) \<le> pick_size ds size_arg" "pick_size ds size_arg < heuristic_tokens q"
    and "0 \<le> pick_overlap dov overlap_arg" "pick_overlap dov overlap_arg < pick_size ds size_arg"
  shows "\<exists>cs. chunk_text (count_tokens None) ds dov text size_arg overlap_arg = Inr cs
    \<and> concat (map (\<lambda>c. take (nat (4 * (pick_size ds size_arg - pick_overlap dov overlap_arg))) (ck_text c)) cs) = q
    \<and> (\<forall>c \<in> set cs. contains (ck_text c) q)"
proof -
  let ?n = "pick_size ds size_arg" and ?o = "pick_overlap dov overlap_arg"
  let ?st = "chunk_start\<lparr>current := ps, current_tokens := sum_list (map heuristic_tokens ps)\<rparr>"
  have "\<forall>s. \<exists>n. count_tokens None s = Inr n" by (simp add: count_tokens_def)
  from split_oversize_texts[OF assms(4,5) this, of q ?st]
  obtain st' pieces where st': "split_oversize (count_tokens None) ?n ?o q ?st = Inr st'" "current st' = []"
    and "map ck_text (chunks st') = pieces" "concat (map (take (nat (4 * (?n - ?o)))) pieces) = q"
      "\<forall>p \<in> set pieces. contains p q"
    by (auto simp: chunk_start_def)
  moreover have "chunk_text (count_tokens None) ds dov text size_arg overlap_arg = Inr (chunks st')"
    using assms(3) st'
    by (simp add: chunk_text_alt assms(1) fold_result_append collect_paras[OF assms(2)] add_para_def
        count_tokens_def flush_def)
  ultimately show ?thesis by (auto simp: comp_def)
qed

lemma oversize_drops_pending_witness:
  "\<exists>cs. chunk_text (count_tokens None) 1 0 (''ab'' @ blank_line @ ''0123456789'') None None = Inr cs
    \<and> concat (map (\<lambda>c. take 4 (ck_text c)) cs) = ''0123456789'' \<and> list_all (\<lambda>c. contains (ck_text c) ''0123456789'') cs"
proof -
  have ps: "paragraphs (''ab'' @ blank_line @ ''0123456789'') = [''ab''] @ [''0123456789'']"
    by (simp add: paragraphs_def blank_line_def str_strip_def is_space_def)
  show ?thesis
    using oversize_drops_pending[OF ps, of 1 None 0 None]
    by (simp add: pick_size_def pick_overlap_def heuristic_tokens_def list_all_iff)
qed

end
