(* ===== verification/Embedding.thy ===== *)
theory Embedding
  imports Calls TtlCache
begin

text \<open>
  Embeddings: the gateway of \<open>agents/embedding_gateway.py\<close>, which reads known vectors from the cache
  and asks the service for the others, a hundred texts at a time, and its front
  \<open>data_access/knowledge/embedder.py\<close>. The OpenAI client, \<open>tenacity\<close>'s retry, SHA-256 and the clocks are
  parameters; a vector is a list of rationals.
\<close>

section \<open>The service\<close>

text \<open>\<open>em_clock s i\<close> is the clock while the cache is asked for, or given, the vector of the \<open>i\<close>th text.\<close>

type_synonym vector = "rat list"

record embed_answer =
  ea_vectors :: "vector list"
  ea_tokens :: "nat option"

record 's embed_api =
  em_create :: "string \<Rightarrow> string list \<Rightarrow> ('s, embed_answer) call"
  em_retrying :: "('s, embed_answer) call \<Rightarrow> ('s, embed_answer) call"
  em_sha :: "string \<Rightarrow> string"
  em_monotonic :: "'s \<Rightarrow> rat"
  em_now :: "'s \<Rightarrow> rat"
  em_clock :: "'s \<Rightarrow> nat \<Rightarrow> rat"
  em_api_key :: string

record ('s, 'c) embed_world =
  em_client_made :: bool
  em_sdk :: 's
  em_cache :: 'c
  em_events :: "(nat option \<times> string \<times> nat \<times> nat \<times> rat \<times> int) list"

record embedding_response =
  er_vectors :: "vector list"
  er_model :: string
  er_cached :: nat
  er_fetched :: nat
  er_tokens :: nat
  er_cost :: rat
  er_latency :: int

definition max_batch :: nat where "max_batch = 100"

definition embed_ttl :: rat where "embed_ttl = 7 * 24 * 3600"

definition price_per_million :: rat where "price_per_million = 2 / 100"

definition embed_key :: "'s embed_api \<Rightarrow> string \<Rightarrow> string \<Rightarrow> string" where
  "embed_key api model text = ''emb:'' @ model @ '':'' @ take 16 (em_sha api (model @ '':'' @ text))"

text \<open>\<open>_get_client\<close> runs inside the retried call.\<close>

definition call_openai ::
  "'s embed_api \<Rightarrow> string \<Rightarrow> string list \<Rightarrow> ('s, 'c) embed_world \<Rightarrow> (py_error, embed_answer) result \<times> ('s, 'c) embed_world" where
  "call_openai api model batch w =
     (if \<not> em_client_made w \<and> em_api_key api = []
      then (case em_retrying api (\<lambda>s. (Inl (OtherError ''EmbeddingGatewayError''), s)) (em_sdk w) of
              (r, s) \<Rightarrow> (r, w\<lparr>em_sdk := s\<rparr>))
      else (case em_retrying api (em_create api model batch) (em_sdk w) of
              (r, s) \<Rightarrow> (r, w\<lparr>em_client_made := True, em_sdk := s\<rparr>)))"

section \<open>The gateway\<close>

text \<open>\<open>zip(chunk, result.data, strict=True)\<close>: the pairs are worked off before a difference in length raises.\<close>

fun take_vectors ::
  "(string \<Rightarrow> vector \<Rightarrow> rat \<Rightarrow> rat \<Rightarrow> 'c \<Rightarrow> 'c) \<Rightarrow> 's embed_api \<Rightarrow> string \<Rightarrow> bool \<Rightarrow> (nat \<times> string) list \<Rightarrow> vector list
     \<Rightarrow> vector option list \<Rightarrow> ('s, 'c) embed_world \<Rightarrow> (py_error, vector option list) result \<times> ('s, 'c) embed_world" where
  "take_vectors cset api model use_cache [] [] vectors w = (Inr vectors, w)"
| "take_vectors cset api model use_cache ((i, text) # misses) (v # vs) vectors w =
     take_vectors cset api model use_cache misses vs (vectors[i := Some v])
       (if use_cache
        then w\<lparr>em_cache := cset (embed_key api model text) v embed_ttl (em_clock api (em_sdk w) i) (em_cache w)\<rparr> else w)"
| "take_vectors cset api model use_cache _ _ vectors w = (Inl ValueError, w)"

text \<open>\<open>misses[chunk_start : chunk_start + MAX_BATCH]\<close> for every \<open>chunk_start\<close>.\<close>

definition batches :: "'a list \<Rightarrow> 'a list list" where
  "batches xs = map (\<lambda>k. take max_batch (drop (max_batch * k) xs)) [0..<(length xs + max_batch - 1) div max_batch]"

fun fetch_batches ::
  "(string \<Rightarrow> vector \<Rightarrow> rat \<Rightarrow> rat \<Rightarrow> 'c \<Rightarrow> 'c) \<Rightarrow> 's embed_api \<Rightarrow> string \<Rightarrow> bool \<Rightarrow> (nat \<times> string) list list
     \<Rightarrow> vector option list \<Rightarrow> nat \<Rightarrow> ('s, 'c) embed_world
     \<Rightarrow> (py_error, vector option list \<times> nat) result \<times> ('s, 'c) embed_world" where
  "fetch_batches cset api model use_cache [] vectors spent w = (Inr (vectors, spent), w)"
| "fetch_batches cset api model use_cache (b # bs) vectors spent w =
     (case call_openai api model (map snd b) w of
        (Inl e, w1) \<Rightarrow> (Inl e, w1)
      | (Inr answer, w1) \<Rightarrow>
          (case take_vectors cset api model use_cache b (ea_vectors answer) vectors w1 of
             (Inl e, w2) \<Rightarrow> (Inl e, w2)
           | (Inr vectors, w2) \<Rightarrow>
               fetch_batches cset api model use_cache bs vectors
                 (spent + (case ea_tokens answer of Some n \<Rightarrow> n | None \<Rightarrow> 0)) w2))"

definition embed ::
  "(string \<Rightarrow> rat \<Rightarrow> 'c \<Rightarrow> vector option) \<Rightarrow> (string \<Rightarrow> vector \<Rightarrow> rat \<Rightarrow> rat \<Rightarrow> 'c \<Rightarrow> 'c) \<Rightarrow> 's embed_api
     \<Rightarrow> string list \<Rightarrow> string \<Rightarrow> nat option \<Rightarrow> bool \<Rightarrow> ('s, 'c) embed_world
     \<Rightarrow> (py_error, embedding_response) result \<times> ('s, 'c) embed_world" where
  "embed cget cset api texts model tenant use_cache w =
     (if texts = []
      then (Inr \<lparr>er_vectors = [], er_model = model, er_cached = 0, er_fetched = 0, er_tokens = 0, er_cost = 0,
                 er_latency = 0\<rparr>, w)
      else let n = length texts;
               vectors = map (\<lambda>(i, text). if use_cache
                   then cget (embed_key api model text) (em_clock api (em_sdk w) i) (em_cache w) else None) (zip [0..<n] texts);
               misses = filter (\<lambda>(i, text). vectors ! i = None) (zip [0..<n] texts)
           in (case fetch_batches cset api model use_cache (batches misses) vectors 0 w of
                 (Inl e, w1) \<Rightarrow> (Inl e, w1)
               | (Inr (vectors, spent), w1) \<Rightarrow>
                   (let cost = of_int (round_half_even (of_nat spent * price_per_million)) / 1000000;
                        latency = \<lfloor>(em_monotonic api (em_sdk w1) - em_monotonic api (em_sdk w)) * 1000\<rfloor>;
                        response = \<lparr>er_vectors = map (case_option [] id) vectors, er_model = model,
                          er_cached = n - length misses, er_fetched = length misses, er_tokens = spent,
                          er_cost = cost, er_latency = latency\<rparr>
                    in (Inr response,
                        w1\<lparr>em_events := em_events w1 @
                          [(tenant, model, er_cached response + er_fetched response, er_cached response, cost, latency)]\<rparr>))))"

section \<open>The knowledge base's front\<close>

record knowledge_settings =
  ks_stub_mode :: bool
  ks_dimensions :: nat
  ks_model :: string
  ks_chunk_size :: int
  ks_overlap :: int
  ks_max_bytes :: nat

text \<open>
  \<open>_stub_embedding\<close>: the bytes of \<open>sha256(f"{text}:{counter}")\<close> for \<open>counter\<close> = 0, 1, \<dots>, until there are
  \<open>dims\<close>; a digest has at least one byte, so that \<open>dims\<close> rounds are enough.
\<close>

definition stub_embedding :: "(string \<Rightarrow> nat list) \<Rightarrow> nat \<Rightarrow> string \<Rightarrow> vector" where
  "stub_embedding digest dims text =
     take dims (map (\<lambda>b. (of_nat b - 128) / 128)
       (concat (map (\<lambda>counter. digest (text @ '':'' @ show_nat counter)) [0..<dims])))"

definition embed_texts ::
  "(string \<Rightarrow> rat \<Rightarrow> 'c \<Rightarrow> vector option) \<Rightarrow> (string \<Rightarrow> vector \<Rightarrow> rat \<Rightarrow> rat \<Rightarrow> 'c \<Rightarrow> 'c) \<Rightarrow> 's embed_api
     \<Rightarrow> (string \<Rightarrow> nat list) \<Rightarrow> knowledge_settings \<Rightarrow> nat option \<Rightarrow> string list \<Rightarrow> ('s, 'c) embed_world
     \<Rightarrow> (py_error, vector list) result \<times> ('s, 'c) embed_world" where
  "embed_texts cget cset api digest ks tenant texts w =
     (if texts = [] then (Inr [], w)
      else if ks_stub_mode ks \<or> em_api_key api = []
      then (Inr (map (stub_embedding digest (ks_dimensions ks)) texts), w)
      else (case embed cget cset api texts (ks_model ks) tenant True w of
              (Inl e, w1) \<Rightarrow> (Inl e, w1)
            | (Inr response, w1) \<Rightarrow>
                (case er_vectors response of
                   [] \<Rightarrow> (Inr [], w1)
                 | v # vs \<Rightarrow> (if length v \<noteq> ks_dimensions ks then Inl (RuntimeError ''embedding dimension mismatch'')
                              else Inr (v # vs), w1))))"

text \<open>\<open>embed_texts([query])[0]\<close>\<close>

definition embed_query ::
  "(string \<Rightarrow> rat \<Rightarrow> 'c \<Rightarrow> vector option) \<Rightarrow> (string \<Rightarrow> vector \<Rightarrow> rat \<Rightarrow> rat \<Rightarrow> 'c \<Rightarrow> 'c) \<Rightarrow> 's embed_api
     \<Rightarrow> (string \<Rightarrow> nat list) \<Rightarrow> knowledge_settings \<Rightarrow> nat option \<Rightarrow> string \<Rightarrow> ('s, 'c) embed_world
     \<Rightarrow> (py_error, vector) result \<times> ('s, 'c) embed_world" where
  "embed_query cget cset api digest ks tenant query w =
     (case embed_texts cget cset api digest ks tenant [query] w of
        (Inl e, w1) \<Rightarrow> (Inl e, w1)
      | (Inr vs, w1) \<Rightarrow> (case vs of [] \<Rightarrow> Inl (OtherError ''IndexError'') | v # _ \<Rightarrow> Inr v, w1))"

section \<open>Embedding is looking up\<close>

text \<open>What is in the cache for the texts of \<open>T\<close> is their vector \<open>f\<close>.\<close>

definition cache_sound ::
  "(string \<Rightarrow> rat \<Rightarrow> 'c \<Rightarrow> vector option) \<Rightarrow> 's embed_api \<Rightarrow> string \<Rightarrow> (string \<Rightarrow> vector) \<Rightarrow> string set \<Rightarrow> 'c \<Rightarrow> bool" where
  "cache_sound cget api model f T c \<longleftrightarrow> (\<forall>t \<in> T. \<forall>now v. cget (embed_key api model t) now c = Some v \<longrightarrow> v = f t)"

definition fill :: "(string \<Rightarrow> vector) \<Rightarrow> (nat \<times> string) list \<Rightarrow> vector option list \<Rightarrow> vector option list" where
  "fill f = fold (\<lambda>(i, t) vs. vs[i := Some (f t)])"

lemma length_fill [simp]: "length (fill f b vs) = length vs"
  by (induction b arbitrary: vs) (auto simp: fill_def)

lemma fill_append: "fill f (a @ b) vs = fill f b (fill f a vs)"
  by (simp add: fill_def)

lemma nth_fill:
  assumes "\<forall>(i, t) \<in> set b. t = texts ! i" "j < length vs"
  shows "fill f b vs ! j = (if j \<in> fst ` set b then Some (f (texts ! j)) else vs ! j)"
  using assms
proof (induction b rule: rev_induct)
  case (snoc p b)
  obtain i t where p: "p = (i, t)" by (cases p)
  have "fill f (b @ [p]) vs = (fill f b vs)[i := Some (f t)]" by (simp add: fill_append p) (simp add: fill_def)
  moreover have "fill f b vs ! j = (if j \<in> fst ` set b then Some (f (texts ! j)) else vs ! j)" "t = texts ! i"
    using snoc p by auto
  ultimately show ?case using snoc.prems(2) by (cases "j = i") (simp_all add: p)
qed (simp add: fill_def)

lemma take_vectors_fill:
  assumes "django_cache cget cset cdel" "inj_on (embed_key api model) T" "snd ` set b \<subseteq> T"
    "cache_sound cget api model f T (em_cache w)"
  shows "\<exists>w'. take_vectors cset api model uc b (map (f \<circ> snd) b) vs w = (Inr (fill f b vs), w')
    \<and> cache_sound cget api model f T (em_cache w') \<and> em_sdk w' = em_sdk w"
  using assms(3,4)
proof (induction b arbitrary: vs w)
  case (Cons p b)
  obtain i t where p: "p = (i, t)" by (cases p)
  let ?w = "if uc then w\<lparr>em_cache := cset (embed_key api model t) (f t) embed_ttl (em_clock api (em_sdk w) i) (em_cache w)\<rparr> else w"
  have "cache_sound cget api model f T (em_cache ?w)"
    using Cons.prems assms(2) p
    by (auto simp: cache_sound_def django_cache.get_set_if[OF assms(1)] inj_on_def split: if_splits)
  with Cons.IH[of ?w "vs[i := Some (f t)]"] Cons.prems p show ?case by (auto simp: fill_def)
qed (auto simp: fill_def)

lemma fetch_batches_fill:
  assumes cache: "django_cache cget cset cdel" "inj_on (embed_key api model) T"
    and service: "\<And>batch s. batch \<noteq> [] \<Longrightarrow> length batch \<le> 100 \<Longrightarrow>
        \<exists>n s'. em_create api model batch s = (Inr \<lparr>ea_vectors = map f batch, ea_tokens = n\<rparr>, s')"
    and retry: "\<And>call s x s'. call s = (Inr x, s') \<Longrightarrow> em_retrying api call s = (Inr x, s')"
    and key: "em_api_key api \<noteq> []"
    and bs: "\<forall>b \<in> set bs. b \<noteq> [] \<and> length b \<le> 100 \<and> snd ` set b \<subseteq> T"
    and sound: "cache_sound cget api model f T (em_cache w)"
  shows "\<exists>n w'. fetch_batches cset api model uc bs vs k w = (Inr (fill f (concat bs) vs, n), w')
    \<and> cache_sound cget api model f T (em_cache w')"
  using bs sound
proof (induction bs arbitrary: vs k w)
  case (Cons b bs)
  obtain n s' where "em_create api model (map snd b) (em_sdk w)
      = (Inr \<lparr>ea_vectors = map f (map snd b), ea_tokens = n\<rparr>, s')"
    using service[of "map snd b" "em_sdk w"] Cons.prems by auto
  from retry[of "em_create api model (map snd b)", OF this] have call: "call_openai api model (map snd b) w
      = (Inr \<lparr>ea_vectors = map (f \<circ> snd) b, ea_tokens = n\<rparr>, w\<lparr>em_client_made := True, em_sdk := s'\<rparr>)"
    using key by (simp add: call_openai_def)
  obtain w' where "take_vectors cset api model uc b (map (f \<circ> snd) b) vs (w\<lparr>em_client_made := True, em_sdk := s'\<rparr>)
      = (Inr (fill f b vs), w')" "cache_sound cget api model f T (em_cache w')"
    using take_vectors_fill[OF cache, of b f "w\<lparr>em_client_made := True, em_sdk := s'\<rparr>"] Cons.prems by auto
  with Cons.IH[of w'] Cons.prems call show ?case by (simp add: fill_append)
qed (simp add: fill_def)

lemma ceil_hundred: "(n::nat) \<le> 100 * ((n + 99) div 100)" "k < (n + 99) div 100 \<Longrightarrow> 100 * k < n"
proof -
  have *: "(n + 99) div 100 * 100 + (n + 99) mod 100 = n + 99" "(n + 99) mod 100 < 100" by simp_all
  then show "n \<le> 100 * ((n + 99) div 100)" by linarith
  show "100 * k < n" if "k < (n + 99) div 100" using * that by linarith
qed

lemma concat_batches: "concat (batches xs) = xs"
  using ceil_hundred(1)[of "length xs"] by (simp add: batches_def concat_blocks max_batch_def)

lemma batch_sizes: "b \<in> set (batches xs) \<Longrightarrow> b \<noteq> [] \<and> length b \<le> 100 \<and> set b \<subseteq> set xs"
proof -
  assume "b \<in> set (batches xs)"
  then obtain k where k: "b = take 100 (drop (100 * k) xs)" "k < (length xs + 99) div 100"
    by (auto simp: batches_def max_batch_def)
  with ceil_hundred(2) have "100 * k < length xs" by blast
  with k show ?thesis by (auto dest: in_set_takeD in_set_dropD)
qed

lemma nth_known: "j < length texts \<Longrightarrow> map (\<lambda>(i, t). g i t) (zip [0..<length texts] texts) ! j = g j (texts ! j)"
  by simp

lemma unknown_texts:
  "filter (\<lambda>(i, t). map (\<lambda>(i, t). g i t) (zip [0..<length texts] texts) ! i = None) (zip [0..<length texts] texts)
     = filter (\<lambda>(i, t). g i t = None) (zip [0..<length texts] texts)"
  by (rule filter_cong) (auto simp: set_zip)

text \<open>
  C24. While the service answers batches of at most a hundred texts with their vectors, and no two texts in
  use share a cache key (a hypothesis about the truncated hash), embedding returns the vector of every text in the order asked, fetching
  exactly the texts the cache does not have; and what it leaves in the cache is again a vector of
  its text.
\<close>

theorem embed_reference:
  fixes w :: "('s, 'c) embed_world"
  assumes cache: "django_cache cget cset cdel" "inj_on (embed_key api model) T" "set texts \<subseteq> T"
    and service: "\<And>batch s. batch \<noteq> [] \<Longrightarrow> length batch \<le> 100 \<Longrightarrow>
        \<exists>n s'. em_create api model batch s = (Inr \<lparr>ea_vectors = map f batch, ea_tokens = n\<rparr>, s')"
    and retry: "\<And>call s x s'. call s = (Inr x, s') \<Longrightarrow> em_retrying api call s = (Inr x, s')"
    and key: "em_api_key api \<noteq> []"
    and sound: "cache_sound cget api model f T (em_cache w)"
  shows "\<exists>r w'. embed cget cset api texts model tenant True w = (Inr r, w') \<and> er_vectors r = map f texts
    \<and> er_fetched r = length (filter (\<lambda>(i, t). cget (embed_key api model t) (em_clock api (em_sdk w) i) (em_cache w) = None)
        (zip [0..<length texts] texts))
    \<and> er_cached r + er_fetched r = length texts
    \<and> cache_sound cget api model f T (em_cache w')"
proof (cases "texts = []")
  case True
  then show ?thesis using sound by (simp add: embed_def)
next
  case False
  let ?known = "\<lambda>i t. cget (embed_key api model t) (em_clock api (em_sdk w) i) (em_cache w)"
  let ?vs = "map (\<lambda>(i, t). ?known i t) (zip [0..<length texts] texts)"
  define misses where "misses = filter (\<lambda>(i, t). ?vs ! i = None) (zip [0..<length texts] texts)"
  have misses: "misses = filter (\<lambda>(i, t). ?known i t = None) (zip [0..<length texts] texts)"
    unfolding misses_def by (rule unknown_texts)
  have set_misses: "(i, t) \<in> set misses \<longleftrightarrow> i < length texts \<and> t = texts ! i \<and> ?known i (texts ! i) = None" for i t
    by (auto simp: misses set_zip intro!: exI[of _ i])
  have "snd ` set misses \<subseteq> set texts" by (auto simp: set_misses)
  also have "\<dots> \<subseteq> T" using cache(3) .
  finally have "\<forall>b \<in> set (batches misses). b \<noteq> [] \<and> length b \<le> 100 \<and> snd ` set b \<subseteq> T"
    using batch_sizes[of _ misses] by (metis image_mono subset_trans)
  from fetch_batches_fill[OF cache(1,2) service retry key this sound]
  obtain n w' where run: "fetch_batches cset api model True (batches misses) ?vs 0 w = (Inr (fill f misses ?vs, n), w')"
    and sound': "cache_sound cget api model f T (em_cache w')"
    unfolding concat_batches by blast
  have "map (case_option [] id) (fill f misses ?vs) = map f texts"
  proof (rule nth_equalityI)
    fix j assume "j < length (map (case_option [] id) (fill f misses ?vs))"
    then have j: "j < length texts" by simp
    have "\<forall>(i, t) \<in> set misses. t = texts ! i" by (auto simp: set_misses)
    note fill = nth_fill[OF this, of j ?vs f]
    have "j \<in> fst ` set misses \<longleftrightarrow> (j, texts ! j) \<in> set misses"
    proof
      assume "j \<in> fst ` set misses"
      then show "(j, texts ! j) \<in> set misses" by (auto simp: set_misses)
    qed (metis fst_conv image_eqI)
    then have unknown: "j \<in> fst ` set misses \<longleftrightarrow> ?known j (texts ! j) = None" using set_misses j by simp
    have "fill f misses ?vs ! j = Some (f (texts ! j))"
    proof (cases "?known j (texts ! j)")
      case (Some v)
      then have "v = f (texts ! j)"
        using sound cache(3) nth_mem[OF j] unfolding cache_sound_def by blast
      with fill j unknown Some show ?thesis by simp
    qed (use fill j unknown in simp)
    with j show "map (case_option [] id) (fill f misses ?vs) ! j = map f texts ! j" by simp
  qed simp
  moreover have "length misses \<le> length texts"
    unfolding misses by (rule order_trans[OF length_filter_le]) simp
  moreover have "\<exists>r. embed cget cset api texts model tenant True w
      = (Inr r, w'\<lparr>em_events := em_events w' @ [(tenant, model, er_cached r + er_fetched r, er_cached r, er_cost r, er_latency r)]\<rparr>)
    \<and> er_vectors r = map (case_option [] id) (fill f misses ?vs) \<and> er_cached r = length texts - length misses
    \<and> er_fetched r = length misses"
    using False run by (simp add: embed_def Let_def misses_def)
  ultimately show ?thesis
    using sound' misses[THEN arg_cong[of _ _ length]] by auto
qed

text \<open>A service whose vector of a text is its length.\<close>

definition length_api :: "nat embed_api" where
  "length_api = \<lparr>em_create = (\<lambda>model batch s. (Inr \<lparr>ea_vectors = map (\<lambda>t. [of_nat (length t)]) batch,
     ea_tokens = Some (length batch)\<rparr>, Suc s)), em_retrying = id, em_sha = id, em_monotonic = of_nat, em_now = of_nat,
     em_clock = (\<lambda>s i. of_nat (s + i)), em_api_key = ''k''\<rparr>"

lemma length_api_simps:
  "em_create length_api model batch s = (Inr \<lparr>ea_vectors = map (\<lambda>t. [of_nat (length t)]) batch, ea_tokens = Some (length batch)\<rparr>, Suc s)"
  "em_retrying length_api = id" "em_clock length_api s i = of_nat (s + i)" "em_api_key length_api = ''k''"
  "embed_key length_api ''m'' t = ''emb:m:'' @ take 16 (''m:'' @ t)"
  by (simp_all add: length_api_def embed_key_def)

lemma embed_reference_witness:
  "\<exists>r w'. embed ttl_get ttl_set length_api [''a'', ''bc'', ''a''] ''m'' None True
      \<lparr>em_client_made = False, em_sdk = 0, em_cache = (Map.empty(''emb:m:m:a'' \<mapsto> ([1::rat], 9::rat))), em_events = []\<rparr> = (Inr r, w')
    \<and> er_vectors r = [[1], [2], [1]] \<and> er_fetched r = 1 \<and> er_cached r = 2"
proof -
  let ?w = "\<lparr>em_client_made = False, em_sdk = 0::nat, em_cache = (Map.empty(''emb:m:m:a'' \<mapsto> ([1::rat], 9::rat))), em_events = []\<rparr>"
  have "\<exists>r w'. embed ttl_get ttl_set length_api [''a'', ''bc'', ''a''] ''m'' None True ?w = (Inr r, w')
    \<and> er_vectors r = map (\<lambda>t. [of_nat (length t)]) [''a'', ''bc'', ''a'']
    \<and> er_fetched r = length (filter (\<lambda>(i, t). ttl_get (embed_key length_api ''m'' t) (em_clock length_api (em_sdk ?w) i) (em_cache ?w) = None)
        (zip [0..<length [''a'', ''bc'', ''a'']] [''a'', ''bc'', ''a'']))
    \<and> er_cached r + er_fetched r = length [''a'', ''bc'', ''a'']
    \<and> cache_sound ttl_get length_api ''m'' (\<lambda>t. [of_nat (length t)]) {''a'', ''bc''} (em_cache w')"
    by (rule embed_reference[OF ttl.django_cache_axioms])
      (auto simp: length_api_simps cache_sound_def ttl_defs split: if_splits)
  then show ?thesis by (auto simp: length_api_simps ttl_defs)
qed

end
