(* ===== verification/Knowledge.thy ===== *)
theory Knowledge
  imports Chunker Embedding Snapshot
begin

text \<open>
  The knowledge base: the documents and chunks of \<open>data_access/models.py\<close>, the indexer of
  \<open>data_access/knowledge/indexer.py\<close>, which takes one Drive file through extraction, chunking,
  embedding and storing, and the search of \<open>search.py\<close>. The extractors, which read Google's services, the
  distance of two vectors (the operator of \<open>pgvector\<close>) and the refusal of a row by the
  database are parameters; so are the services behind the embeddings, of state \<open>'s\<close>.
\<close>

section \<open>Tables\<close>

record workspace_document =
  wd_id :: nat
  wd_source :: string
  wd_external_id :: string
  wd_title :: string
  wd_mime_type :: string
  wd_owner_email :: string
  wd_web_view_link :: string
  wd_modified_at :: json
  wd_size_bytes :: int
  wd_text_content :: string
  wd_text_truncated :: bool
  wd_status :: string
  wd_error :: string
  wd_extracted_at :: "rat option"
  wd_indexed_at :: "rat option"
  wd_metadata :: "(string \<times> json) list"
  wd_created_at :: rat
  wd_updated_at :: rat

record knowledge_chunk =
  kc_id :: nat
  kc_document :: nat
  kc_index :: nat
  kc_text :: string
  kc_tokens :: int
  kc_embedding :: vector
  kc_metadata :: "(string \<times> json) list"

record extraction =
  ex_text :: string
  ex_truncated :: bool
  ex_metadata :: "(string \<times> json) list"

record ('s, 'c) kb =
  documents :: "workspace_document list"
  chunk_rows :: "knowledge_chunk list"
  embedder :: "('s, 'c) embed_world"

text \<open>
  \<open>kb_handler\<close> is the registry of the extractors: \<open>None\<close> where no handler is registered for the
  type; a handler that raises gives the text of its exception. \<open>kb_visits q rows\<close> says which of the table's rows a scan for
  \<open>q\<close> visits: all of them, or, where Postgres uses the \<open>ivfflat\<close> index of migration 0005 (100 lists, and nothing
  sets \<open>ivfflat.probes\<close>, so one of them), those of the list whose centre is nearest.
\<close>

record ('s, 'c) kb_env =
  kb_cget :: "string \<Rightarrow> rat \<Rightarrow> 'c \<Rightarrow> vector option"
  kb_cset :: "string \<Rightarrow> vector \<Rightarrow> rat \<Rightarrow> rat \<Rightarrow> 'c \<Rightarrow> 'c"
  kb_api :: "'s embed_api"
  kb_digest :: "string \<Rightarrow> nat list"
  kb_settings :: knowledge_settings
  kb_tenant :: "nat option"
  kb_tokens :: token_counter
  kb_handler :: "string \<Rightarrow> (json \<Rightarrow> 's \<Rightarrow> (string, extraction) result \<times> 's) option"
  kb_distance :: "vector \<Rightarrow> vector \<Rightarrow> rat"
  kb_visits :: "vector \<Rightarrow> knowledge_chunk list \<Rightarrow> knowledge_chunk \<Rightarrow> bool"
  kb_refuse_doc :: "workspace_document \<Rightarrow> py_error option"
  kb_refuse_chunk :: "knowledge_chunk \<Rightarrow> py_error option"

definition kb_now :: "('s, 'c) kb_env \<Rightarrow> ('s, 'c) kb \<Rightarrow> rat" where
  "kb_now ke kb = em_now (kb_api ke) (em_sdk (embedder kb))"

definition supported_mimes :: "string list" where
  "supported_mimes =
     [''application/vnd.google-apps.document'', ''application/vnd.google-apps.spreadsheet'',
      ''application/vnd.google-apps.presentation'', ''text/plain'', ''text/markdown'', ''text/csv'',
      ''text/html'', ''application/pdf'']"

section \<open>Chunks in the table\<close>

definition delete_chunks :: "nat \<Rightarrow> knowledge_chunk list \<Rightarrow> knowledge_chunk list" where
  "delete_chunks d rows = filter (\<lambda>r. kc_document r \<noteq> d) rows"

definition chunk_metadata :: "workspace_document \<Rightarrow> (string \<times> json) list" where
  "chunk_metadata doc =
     [(''title'', JStr (wd_title doc)), (''owner_email'', JStr (wd_owner_email doc)),
      (''web_view_link'', JStr (wd_web_view_link doc)), (''mime_type'', JStr (wd_mime_type doc)),
      (''source'', JStr (wd_source doc))]"

text \<open>A vector is stored through its literal, \<open>f"{x:.6f}"\<close>.\<close>

definition chunk_row :: "nat \<Rightarrow> workspace_document \<Rightarrow> chunk \<Rightarrow> vector \<Rightarrow> knowledge_chunk" where
  "chunk_row i doc c v =
     \<lparr>kc_id = i, kc_document = wd_id doc, kc_index = ck_index c, kc_text = ck_text c, kc_tokens = ck_tokens c,
      kc_embedding = map (py_round 6) v, kc_metadata = chunk_metadata doc\<rparr>"

text \<open>One \<open>INSERT\<close> per row; the first that is refused raises.\<close>

fun insert_chunks ::
  "(knowledge_chunk \<Rightarrow> py_error option) \<Rightarrow> workspace_document \<Rightarrow> (chunk \<times> vector) list \<Rightarrow> knowledge_chunk list
     \<Rightarrow> (py_error, knowledge_chunk list) result" where
  "insert_chunks refuse doc [] rows = Inr rows"
| "insert_chunks refuse doc ((c, v) # cvs) rows =
     (let row = chunk_row (fresh_id kc_id rows) doc c v
      in case refuse row of Some e \<Rightarrow> Inl e | None \<Rightarrow> insert_chunks refuse doc cvs (rows @ [row]))"

section \<open>Documents\<close>

definition wd_key :: "workspace_document \<Rightarrow> string \<times> string" where
  "wd_key d = (wd_source d, wd_external_id d)"

text \<open>What \<open>upsert_drive_file\<close> writes: all of a new row, the seven defaults of an existing one.\<close>

definition new_document :: "rat \<Rightarrow> nat \<Rightarrow> workspace_document \<Rightarrow> string \<times> string \<Rightarrow> workspace_document" where
  "new_document now i d k =
     d\<lparr>wd_id := i, wd_source := fst k, wd_external_id := snd k, wd_created_at := now, wd_updated_at := now\<rparr>"

definition overwrite_document :: "rat \<Rightarrow> workspace_document \<Rightarrow> workspace_document \<Rightarrow> workspace_document" where
  "overwrite_document now d row =
     row\<lparr>wd_title := wd_title d, wd_mime_type := wd_mime_type d, wd_owner_email := wd_owner_email d,
         wd_web_view_link := wd_web_view_link d, wd_modified_at := wd_modified_at d,
         wd_size_bytes := wd_size_bytes d, wd_metadata := wd_metadata d, wd_updated_at := now\<rparr>"

text \<open>\<open>v.get(k, "")[:n]\<close>, where the value is a string; another type is outside Drive's schema.\<close>

definition sliced_text :: "json \<Rightarrow> string \<Rightarrow> nat \<Rightarrow> (py_error, string) result" where
  "sliced_text v k n =
     (case v of
        JObj kvs \<Rightarrow> (case map_of kvs k of None \<Rightarrow> Inr [] | Some (JStr s) \<Rightarrow> Inr (take n s) | Some _ \<Rightarrow> Inl TypeError)
      | _ \<Rightarrow> Inl AttributeError)"

definition owner_email_of :: "json \<Rightarrow> (py_error, string) result" where
  "owner_email_of fm =
     andthen (get_or fm ''owners'' (JList [])) (\<lambda>owners.
     case owners of
       JList [] \<Rightarrow> Inr []
     | JList (o1 # _) \<Rightarrow> sliced_text o1 ''emailAddress'' 254
     | _ \<Rightarrow> Inl TypeError)"

definition drive_document :: "json \<Rightarrow> (py_error, workspace_document) result" where
  "drive_document fm =
     andthen (owner_email_of fm) (\<lambda>owner.
     andthen (jindex fm ''id'') (\<lambda>i. andthen (text_field i) (\<lambda>external_id.
     andthen (sliced_text fm ''name'' 512) (\<lambda>title.
     andthen (sliced_text fm ''mimeType'' 128) (\<lambda>mime.
     andthen (sliced_text fm ''webViewLink'' 1024) (\<lambda>link.
     andthen (jget fm ''modifiedTime'') (\<lambda>modified.
     andthen (get_or fm ''size'' (JInt 0)) (\<lambda>s. andthen (py_int s) (\<lambda>bytes.
     andthen (jget fm ''parents'') (\<lambda>parents. Inr
       \<lparr>wd_id = 0, wd_source = ''drive'', wd_external_id = external_id, wd_title = title, wd_mime_type = mime,
        wd_owner_email = owner, wd_web_view_link = link, wd_modified_at = modified, wd_size_bytes = bytes,
        wd_text_content = [], wd_text_truncated = False, wd_status = ''pending'', wd_error = [],
        wd_extracted_at = None, wd_indexed_at = None,
        wd_metadata = [(''parents'', if parents = JNull then JList [] else parents)],
        wd_created_at = 0, wd_updated_at = 0\<rparr>))))))))))"

definition upsert_drive_file ::
  "('s, 'c) kb_env \<Rightarrow> json \<Rightarrow> ('s, 'c) kb \<Rightarrow> (py_error, workspace_document) result \<times> ('s, 'c) kb" where
  "upsert_drive_file ke fm kb =
     (case drive_document fm of
        Inl e \<Rightarrow> (Inl e, kb)
      | Inr d \<Rightarrow>
          (let now = kb_now ke kb; i = fresh_id wd_id (documents kb);
               doc = (case lookup wd_key (documents kb) (wd_key d) of
                        None \<Rightarrow> new_document now i d (wd_key d) | Some row \<Rightarrow> overwrite_document now d row)
           in case kb_refuse_doc ke doc of
                Some e \<Rightarrow> (Inl e, kb)
              | None \<Rightarrow> (Inr doc, kb\<lparr>documents :=
                  fst (upsert wd_key (new_document now i) (overwrite_document now) d (wd_key d) (documents kb))\<rparr>)))"

text \<open>\<open>document.save(...)\<close>; \<open>updated_at\<close> is set on every save.\<close>

definition save_document ::
  "('s, 'c) kb_env \<Rightarrow> workspace_document \<Rightarrow> ('s, 'c) kb \<Rightarrow> (py_error, workspace_document) result \<times> ('s, 'c) kb" where
  "save_document ke doc kb =
     (let doc = doc\<lparr>wd_updated_at := kb_now ke kb\<rparr>
      in case kb_refuse_doc ke doc of
           Some e \<Rightarrow> (Inl e, kb)
         | None \<Rightarrow> (Inr doc, kb\<lparr>documents := save_row wd_id doc (documents kb)\<rparr>))"

definition remove_document :: "string \<Rightarrow> string \<Rightarrow> ('s, 'c) kb \<Rightarrow> ('s, 'c) kb" where
  "remove_document source external_id kb =
     (let gone = filter (\<lambda>d. wd_key d = (source, external_id)) (documents kb)
      in kb\<lparr>documents := filter (\<lambda>d. wd_key d \<noteq> (source, external_id)) (documents kb),
            chunk_rows := fold (\<lambda>d. delete_chunks (wd_id d)) gone (chunk_rows kb)\<rparr>)"

section \<open>Ingesting a document\<close>

definition with_status :: "string \<Rightarrow> string \<Rightarrow> workspace_document \<Rightarrow> workspace_document" where
  "with_status st err doc = doc\<lparr>wd_status := st, wd_error := err\<rparr>"

definition finish ::
  "('s, 'c) kb_env \<Rightarrow> string \<Rightarrow> string \<Rightarrow> workspace_document \<Rightarrow> ('s, 'c) kb \<Rightarrow> (py_error, string) result \<times> ('s, 'c) kb" where
  "finish ke st err doc kb =
     (case save_document ke (with_status st err doc) kb of
        (Inl e, kb1) \<Rightarrow> (Inl e, kb1) | (Inr _, kb1) \<Rightarrow> (Inr st, kb1))"

text \<open>\<open>extract\<close> of \<open>extractors/base.py\<close>.\<close>

definition extract_text ::
  "('s, 'c) kb_env \<Rightarrow> string \<Rightarrow> json \<Rightarrow> ('s, 'c) kb \<Rightarrow> (string, extraction option) result \<times> ('s, 'c) kb" where
  "extract_text ke mime fm kb =
     (case kb_handler ke mime of
        None \<Rightarrow> (Inr None, kb)
      | Some handler \<Rightarrow>
          (case handler fm (em_sdk (embedder kb)) of
             (r, s) \<Rightarrow> (map_sum id Some r, kb\<lparr>embedder := (embedder kb)\<lparr>em_sdk := s\<rparr>\<rparr>)))"

text \<open>\<open>document.metadata.update(result.metadata)\<close>, then the save that marks the document as extracted.\<close>

definition extracted :: "rat \<Rightarrow> extraction \<Rightarrow> workspace_document \<Rightarrow> workspace_document" where
  "extracted now ex doc =
     doc\<lparr>wd_text_content := take 1000000 (ex_text ex), wd_text_truncated := ex_truncated ex,
         wd_status := ''extracted'', wd_extracted_at := Some now,
         wd_metadata := fold (\<lambda>(k, v). AList.update k v) (ex_metadata ex) (wd_metadata doc)\<rparr>"

definition embed_chunks ::
  "('s, 'c) kb_env \<Rightarrow> chunk list \<Rightarrow> ('s, 'c) kb \<Rightarrow> (py_error, vector list) result \<times> ('s, 'c) kb" where
  "embed_chunks ke cs kb =
     (case embed_texts (kb_cget ke) (kb_cset ke) (kb_api ke) (kb_digest ke) (kb_settings ke) (kb_tenant ke)
             (map ck_text cs) (embedder kb) of
        (r, w) \<Rightarrow> (r, kb\<lparr>embedder := w\<rparr>))"

text \<open>The transaction at the end: the old chunks go, the new ones come and the document is marked.\<close>

definition store_chunks ::
  "('s, 'c) kb_env \<Rightarrow> workspace_document \<Rightarrow> (chunk \<times> vector) list \<Rightarrow> ('s, 'c) kb \<Rightarrow> (py_error, string) result \<times> ('s, 'c) kb" where
  "store_chunks ke doc cvs kb =
     (case insert_chunks (kb_refuse_chunk ke) doc cvs (delete_chunks (wd_id doc) (chunk_rows kb)) of
        Inl e \<Rightarrow> (Inl e, kb)
      | Inr rows \<Rightarrow>
          (case save_document ke (doc\<lparr>wd_status := ''indexed'', wd_error := [], wd_indexed_at := Some (kb_now ke kb)\<rparr>)
                  (kb\<lparr>chunk_rows := rows\<rparr>) of
             (Inl e, _) \<Rightarrow> (Inl e, kb)
           | (Inr _, kb1) \<Rightarrow> (Inr ''indexed'', kb1)))"

text \<open>The second half of \<open>ingest_document\<close>, with a text to index.\<close>

definition index_text ::
  "('s, 'c) kb_env \<Rightarrow> extraction \<Rightarrow> workspace_document \<Rightarrow> ('s, 'c) kb \<Rightarrow> (py_error, string) result \<times> ('s, 'c) kb" where
  "index_text ke ex doc kb =
     (case save_document ke (extracted (kb_now ke kb) ex doc) kb of
        (Inl e, kb) \<Rightarrow> (Inl e, kb)
      | (Inr doc, kb) \<Rightarrow>
          (case chunk_text (kb_tokens ke) (ks_chunk_size (kb_settings ke)) (ks_overlap (kb_settings ke))
                  (ex_text ex) None None of
             Inl e \<Rightarrow> (Inl e, kb)
           | Inr cs \<Rightarrow>
               if cs = [] then finish ke ''skipped'' ''no chunks'' doc kb
               else (case embed_chunks ke cs kb of
                       (Inl e, kb) \<Rightarrow> (Inl e, kb)
                     | (Inr vs, kb) \<Rightarrow> store_chunks ke doc (zip cs vs) kb)))"

definition ingest_document ::
  "('s, 'c) kb_env \<Rightarrow> workspace_document \<Rightarrow> json \<Rightarrow> ('s, 'c) kb \<Rightarrow> (py_error, string) result \<times> ('s, 'c) kb" where
  "ingest_document ke doc fm kb =
     (if wd_mime_type doc \<notin> set supported_mimes
      then finish ke ''skipped'' (''unsupported mime: '' @ wd_mime_type doc) doc kb
      else case extract_text ke (wd_mime_type doc) fm kb of
        (Inl msg, kb) \<Rightarrow> finish ke ''failed'' (take 500 msg) doc kb
      | (Inr None, kb) \<Rightarrow> finish ke ''skipped'' ''empty content'' doc kb
      | (Inr (Some ex), kb) \<Rightarrow>
          if str_strip (ex_text ex) = [] then finish ke ''skipped'' ''empty content'' doc kb
          else index_text ke ex doc kb)"

section \<open>Search\<close>

record search_hit =
  hit_chunk :: nat
  hit_document :: nat
  hit_index :: nat
  hit_text :: string
  hit_similarity :: rat
  hit_metadata :: "(string \<times> json) list"

text \<open>\<open>if source\<close>, \<open>if owner_email\<close>: neither \<open>None\<close> nor the empty string filters.\<close>

definition passes :: "string option \<Rightarrow> string \<Rightarrow> bool" where
  "passes wanted actual \<longleftrightarrow> (case wanted of None \<Rightarrow> True | Some s \<Rightarrow> s = [] \<or> s = actual)"

text \<open>The join: the chunks of the documents that pass the filters, in the table's order; the scan behind it may visit only some.\<close>

definition joined_rows ::
  "string option \<Rightarrow> string option \<Rightarrow> workspace_document list \<Rightarrow> knowledge_chunk list \<Rightarrow> knowledge_chunk list" where
  "joined_rows source by_owner docs rows =
     filter (\<lambda>r. case lookup wd_id docs (kc_document r) of
               None \<Rightarrow> False | Some d \<Rightarrow> passes source (wd_source d) \<and> passes by_owner (wd_owner_email d)) rows"

definition hit_of :: "(vector \<Rightarrow> vector \<Rightarrow> rat) \<Rightarrow> vector \<Rightarrow> knowledge_chunk \<Rightarrow> search_hit" where
  "hit_of dst q r =
     \<lparr>hit_chunk = kc_id r, hit_document = kc_document r, hit_index = kc_index r, hit_text = kc_text r,
      hit_similarity = 1 - dst (kc_embedding r) q, hit_metadata = kc_metadata r\<rparr>"

definition search_chunks ::
  "('s, 'c) kb_env \<Rightarrow> string \<Rightarrow> int \<Rightarrow> string option \<Rightarrow> string option \<Rightarrow> ('s, 'c) kb
     \<Rightarrow> (py_error, search_hit list) result \<times> ('s, 'c) kb" where
  "search_chunks ke query top_k source by_owner kb =
     (if str_strip query = [] then (Inr [], kb)
      else case embed_query (kb_cget ke) (kb_cset ke) (kb_api ke) (kb_digest ke) (kb_settings ke) (kb_tenant ke)
                  query (embedder kb) of
        (Inl e, w) \<Rightarrow> (Inl e, kb\<lparr>embedder := w\<rparr>)
      | (Inr v, w) \<Rightarrow>
          (let q = map (py_round 6) v; dst = kb_distance ke
           in (if top_k < 0 then Inl (DatabaseError ''LIMIT must not be negative'')
               else Inr (map (hit_of dst q) (take (nat top_k) (sort_key (\<lambda>r. dst (kc_embedding r) q)
                      (filter (kb_visits ke q (chunk_rows kb))
                         (joined_rows source by_owner (documents kb) (chunk_rows kb)))))),
               kb\<lparr>embedder := w\<rparr>)))"

end
