(* ===== verification/KnowledgeIndex.thy ===== *)
theory KnowledgeIndex
  imports Knowledge
begin

text \<open>
  What the knowledge base guarantees: the chunks stored for an indexed document are exactly the
  chunks of its extracted text, numbered from zero; no chunk outlives its document; search returns the
  nearest chunks. And what it does not: a document that could not be read again keeps
  answering with the chunks of its last good version.
\<close>

section \<open>Lengths\<close>

lemma take_vectors_length:
  "take_vectors cset api model uc b answer vs w = (Inr vs', w') \<Longrightarrow> length vs' = length vs"
  by (induction cset api model uc b answer vs w rule: take_vectors.induct) auto

lemma fetch_batches_length:
  "fetch_batches cset api model uc bs vs k w = (Inr (vs', n), w') \<Longrightarrow> length vs' = length vs"
  by (induction cset api model uc bs vs k w arbitrary: vs' n w' rule: fetch_batches.induct)
    (auto split: prod.splits sum.splits dest!: take_vectors_length)

lemma embed_texts_length:
  assumes "embed_texts cget cset api digest ks tenant texts w = (Inr vs, w')"
  shows "length vs = length texts"
proof (cases "texts = [] \<or> ks_stub_mode ks \<or> em_api_key api = []")
  case True
  then show ?thesis using assms by (auto simp: embed_texts_def split: if_splits)
next
  case False
  with assms obtain r where "embed cget cset api texts (ks_model ks) tenant True w = (Inr r, w')" "er_vectors r = vs"
    by (auto simp: embed_texts_def split: if_splits prod.splits sum.splits list.splits)
  then show ?thesis using False
    by (auto simp: embed_def Let_def split: prod.splits sum.splits dest!: fetch_batches_length)
qed

lemma chunk_text_indices:
  assumes "chunk_text tokens ds dov text size_arg overlap_arg = Inr cs"
  shows "map ck_index cs = [0..<length cs]"
proof -
  let ?n = "pick_size ds size_arg" and ?o = "pick_overlap dov overlap_arg"
  obtain st st' where st: "fold_result (add_para tokens ?n ?o) (paragraphs text) chunk_start = Inr st"
    and st': "flush tokens ?o st = Inr st'" "cs = chunks st'"
    using assms unfolding chunk_text_alt by (auto simp: andthen_Inr_iff)
  have "indexed st"
    using fold_result_invariant[OF st, where seen = "[]" and P = "\<lambda>_. indexed"] indexed_para
    by (auto simp: indexed_def chunk_start_def)
  with indexed_steps(1)[OF st'(1)] have "map ck_index cs = [0..<idx st']" by (simp add: indexed_def st'(2))
  moreover from this have "idx st' = length cs" by (metis length_map length_upt minus_nat.diff_0)
  ultimately show ?thesis by simp
qed

section \<open>The invariant\<close>

definition doc_rows :: "nat \<Rightarrow> knowledge_chunk list \<Rightarrow> knowledge_chunk list" where
  "doc_rows i rows = filter (\<lambda>r. kc_document r = i) rows"

text \<open>The rows are the chunks of a text.\<close>

definition chunks_of :: "('s, 'c) kb_env \<Rightarrow> string \<Rightarrow> knowledge_chunk list \<Rightarrow> bool" where
  "chunks_of ke text rows \<longleftrightarrow>
     (\<exists>cs. cs \<noteq> [] \<and> chunk_text (kb_tokens ke) (ks_chunk_size (kb_settings ke)) (ks_overlap (kb_settings ke)) text None None = Inr cs
        \<and> map (\<lambda>r. (kc_index r, kc_text r, kc_tokens r)) rows = map (\<lambda>c. (ck_index c, ck_text c, ck_tokens c)) cs)"

definition doc_ok :: "('s, 'c) kb_env \<Rightarrow> knowledge_chunk list \<Rightarrow> workspace_document \<Rightarrow> bool" where
  "doc_ok ke rows d \<longleftrightarrow>
     (doc_rows (wd_id d) rows = [] \<or> (\<exists>text. chunks_of ke text (doc_rows (wd_id d) rows)))
     \<and> (wd_status d = ''indexed'' \<longrightarrow>
          (\<exists>text. take 1000000 text = wd_text_content d \<and> chunks_of ke text (doc_rows (wd_id d) rows)))"

definition kb_ok :: "('s, 'c) kb_env \<Rightarrow> ('s, 'c) kb \<Rightarrow> bool" where
  "kb_ok ke kb \<longleftrightarrow>
     unique_keys wd_id (documents kb) \<and> unique_keys wd_key (documents kb) \<and> unique_keys kc_id (chunk_rows kb)
     \<and> kc_document ` set (chunk_rows kb) \<subseteq> wd_id ` set (documents kb)
     \<and> (\<forall>d \<in> set (documents kb). doc_ok ke (chunk_rows kb) d)"

lemma chunks_of_indices: "chunks_of ke text rows \<Longrightarrow> map kc_index rows = [0..<length rows]"
proof -
  assume "chunks_of ke text rows"
  then obtain cs where cs: "chunk_text (kb_tokens ke) (ks_chunk_size (kb_settings ke)) (ks_overlap (kb_settings ke)) text None None = Inr cs"
    "map (\<lambda>r. (kc_index r, kc_text r, kc_tokens r)) rows = map (\<lambda>c. (ck_index c, ck_text c, ck_tokens c)) cs"
    by (auto simp: chunks_of_def)
  from cs(2)[THEN arg_cong[of _ _ "map fst"]] have "map kc_index rows = map ck_index cs" by (simp add: comp_def)
  with chunk_text_indices[OF cs(1)] show ?thesis by (metis length_map)
qed

lemma doc_ok_status:
  "doc_ok ke rows d \<Longrightarrow> wd_id d' = wd_id d \<Longrightarrow> wd_status d' \<noteq> ''indexed'' \<Longrightarrow> doc_ok ke rows d'"
  by (auto simp: doc_ok_def)

lemma doc_ok_same:
  "doc_ok ke rows d \<Longrightarrow> wd_id d' = wd_id d \<Longrightarrow> wd_status d' = wd_status d
    \<Longrightarrow> wd_text_content d' = wd_text_content d \<Longrightarrow> doc_ok ke rows d'"
  by (auto simp: doc_ok_def)

text \<open>Rewriting a document's row.\<close>

lemma save_row_keys:
  assumes "unique_keys wd_id rows" "old \<in> set rows" "wd_id d = wd_id old" "wd_key d = wd_key old"
  shows "map wd_key (save_row wd_id d rows) = map wd_key rows"
proof -
  have "r = old" if "r \<in> set rows" "wd_id r = wd_id d" for r
    using that assms(1-3) unfolding unique_keys_def by (metis distinct_map inj_onD)
  then show ?thesis using assms(4) by (auto simp: save_row_def)
qed

lemma set_save_row:
  "old \<in> set rows \<Longrightarrow> pk old = pk d \<Longrightarrow> set (save_row pk d rows) = insert d {r \<in> set rows. pk r \<noteq> pk d}"
  by (auto simp: save_row_def)

lemma kb_ok_save:
  assumes "kb_ok ke kb" "old \<in> set (documents kb)" "wd_id d = wd_id old" "wd_key d = wd_key old"
    "doc_ok ke (chunk_rows kb) d"
  shows "kb_ok ke (kb\<lparr>documents := save_row wd_id d (documents kb)\<rparr>)"
    "d \<in> set (save_row wd_id d (documents kb))"
proof -
  have set: "set (save_row wd_id d (documents kb)) = insert d {r \<in> set (documents kb). wd_id r \<noteq> wd_id d}"
    by (rule set_save_row[OF assms(2)]) (simp add: assms(3))
  have "wd_id ` set (save_row wd_id d (documents kb)) = wd_id ` set (documents kb)"
    using save_row_pks[of wd_id d "documents kb"] by (metis set_map)
  moreover have "doc_ok ke (chunk_rows kb) d'" if "d' \<in> set (save_row wd_id d (documents kb))" for d'
    using that assms(1,5) unfolding set kb_ok_def by blast
  moreover have "unique_keys wd_key (save_row wd_id d (documents kb))"
    using assms(1) save_row_keys[OF _ assms(2-4)] by (simp add: kb_ok_def unique_keys_def)
  moreover have "unique_keys wd_id (save_row wd_id d (documents kb))"
    using assms(1) by (simp add: kb_ok_def unique_keys_def)
  ultimately show "kb_ok ke (kb\<lparr>documents := save_row wd_id d (documents kb)\<rparr>)"
    using assms(1) unfolding kb_ok_def by simp
  show "d \<in> set (save_row wd_id d (documents kb))" by (simp add: set)
qed

lemma save_document_cases:
  assumes "save_document ke doc kb = (r, kb')"
  obtains (refused) e where "r = Inl e" "kb' = kb"
  | (saved) doc' where "r = Inr doc'" "doc' = doc\<lparr>wd_updated_at := kb_now ke kb\<rparr>"
      "kb' = kb\<lparr>documents := save_row wd_id doc' (documents kb)\<rparr>"
proof (cases "kb_refuse_doc ke (doc\<lparr>wd_updated_at := kb_now ke kb\<rparr>)")
  case None
  then show thesis using assms by (intro saved[of "doc\<lparr>wd_updated_at := kb_now ke kb\<rparr>"]) (simp_all add: save_document_def Let_def)
next
  case (Some e)
  then show thesis using assms by (intro refused[of e]) (simp_all add: save_document_def Let_def)
qed

text \<open>
  The frame of an operation on one document: the chunks stay, and so do the documents' ids, keys
  and owners.
\<close>

definition doc_keys :: "workspace_document list \<Rightarrow> (nat \<times> string \<times> string \<times> string) list" where
  "doc_keys docs = map (\<lambda>d. (wd_id d, wd_source d, wd_external_id d, wd_owner_email d)) docs"

definition same_index :: "('s, 'c) kb \<Rightarrow> ('s, 'c) kb \<Rightarrow> bool" where
  "same_index kb kb' \<longleftrightarrow> chunk_rows kb' = chunk_rows kb \<and> doc_keys (documents kb') = doc_keys (documents kb)"

lemma same_index_refl [simp]: "same_index kb kb"
  by (simp add: same_index_def)

lemma same_index_trans: "same_index kb kb1 \<Longrightarrow> same_index kb1 kb2 \<Longrightarrow> same_index kb kb2"
  by (simp add: same_index_def)

lemma same_index_embedder [simp]: "same_index kb (kb\<lparr>embedder := w\<rparr>)"
  by (simp add: same_index_def)

lemma kb_ok_embedder [simp]: "kb_ok ke (kb\<lparr>embedder := w\<rparr>) = kb_ok ke kb"
  by (simp add: kb_ok_def)

text \<open>
  What holds while \<open>ingest_document\<close> works on a document: it is a row of the table, the invariant
  holds, and the index is that of the start \<open>kb0\<close>.
\<close>

definition working :: "('s, 'c) kb_env \<Rightarrow> ('s, 'c) kb \<Rightarrow> workspace_document \<Rightarrow> ('s, 'c) kb \<Rightarrow> bool" where
  "working ke kb0 doc kb \<longleftrightarrow> kb_ok ke kb \<and> doc \<in> set (documents kb) \<and> same_index kb0 kb"

lemma working_save:
  assumes "save_document ke d kb = (r, kb')" "working ke kb0 doc kb" "wd_id d = wd_id doc"
    "wd_source d = wd_source doc" "wd_external_id d = wd_external_id doc" "wd_owner_email d = wd_owner_email doc"
    "doc_ok ke (chunk_rows kb) d"
  shows "kb_ok ke kb' \<and> same_index kb0 kb' \<and> (case r of Inl _ \<Rightarrow> kb' = kb
    | Inr d' \<Rightarrow> d' = d\<lparr>wd_updated_at := wd_updated_at d'\<rparr> \<and> working ke kb0 d' kb')"
  using assms(1)
proof (cases rule: save_document_cases)
  case (refused e)
  then show ?thesis using assms(2) by (simp add: working_def)
next
  case (saved d')
  have d': "wd_id d' = wd_id doc" "wd_key d' = wd_key doc" "wd_owner_email d' = wd_owner_email doc"
    "doc_ok ke (chunk_rows kb) d'"
    using saved assms(3-7) doc_ok_same[OF assms(7), of d'] by (simp_all add: wd_key_def)
  have doc: "kb_ok ke kb" "doc \<in> set (documents kb)" "same_index kb0 kb" using assms(2) by (simp_all add: working_def)
  have "r = doc" if "r \<in> set (documents kb)" "wd_id r = wd_id d'" for r
    using that doc d'(1) unfolding kb_ok_def unique_keys_def by (metis distinct_map inj_onD)
  then have "doc_keys (save_row wd_id d' (documents kb)) = doc_keys (documents kb)"
    using d'(1-3) by (auto simp: doc_keys_def save_row_def wd_key_def)
  then have "same_index kb0 kb'" using doc(3) saved(3) by (simp add: same_index_def)
  moreover have "kb_ok ke kb'" "d' \<in> set (documents kb')"
    using kb_ok_save[OF doc(1,2) d'(1,2,4)] saved(3) by simp_all
  ultimately show ?thesis using saved by (simp add: working_def)
qed

lemma working_finish:
  assumes "finish ke st err d kb = (r, kb')" "working ke kb0 d kb" "st \<noteq> ''indexed''"
  shows "kb_ok ke kb' \<and> same_index kb0 kb' \<and> r \<noteq> Inr ''indexed''"
proof -
  obtain r1 where r1: "save_document ke (with_status st err d) kb = (r1, kb')"
    and r: "r = (case r1 of Inl e \<Rightarrow> Inl e | Inr _ \<Rightarrow> Inr st)"
    using assms(1) by (auto simp: finish_def split: prod.splits sum.splits)
  have "doc_ok ke (chunk_rows kb) d" using assms(2) by (simp add: working_def kb_ok_def)
  then have "doc_ok ke (chunk_rows kb) (with_status st err d)"
    by (rule doc_ok_status) (use assms(3) in \<open>simp_all add: with_status_def\<close>)
  from working_save[OF r1 assms(2) _ _ _ _ this] r assms(3) show ?thesis
    by (auto simp: with_status_def split: sum.splits)
qed

lemma working_embedder: "working ke kb0 d kb \<Longrightarrow> working ke kb0 d (kb\<lparr>embedder := w\<rparr>)"
  using same_index_trans[OF _ same_index_embedder] by (auto simp: working_def)

lemma working_extract: "extract_text ke mime fm kb = (r, kb1) \<Longrightarrow> working ke kb0 d kb \<Longrightarrow> working ke kb0 d kb1"
  by (auto simp: extract_text_def working_embedder split: option.splits prod.splits)

lemma working_embed: "embed_chunks ke cs kb = (r, kb1) \<Longrightarrow> working ke kb0 d kb \<Longrightarrow> working ke kb0 d kb1"
  by (auto simp: embed_chunks_def working_embedder split: prod.splits)

section \<open>Storing the chunks\<close>

lemma insert_chunks_rows:
  assumes "insert_chunks refuse doc cvs rows = Inr rows'"
  shows "\<exists>fresh. rows' = rows @ fresh \<and> (\<forall>r \<in> set fresh. kc_document r = wd_id doc)
    \<and> map (\<lambda>r. (kc_index r, kc_text r, kc_tokens r)) fresh = map (\<lambda>(c, v). (ck_index c, ck_text c, ck_tokens c)) cvs
    \<and> (unique_keys kc_id rows \<longrightarrow> unique_keys kc_id rows')"
  using assms
proof (induction refuse doc cvs rows rule: insert_chunks.induct)
  case (2 refuse doc c v cvs rows)
  let ?row = "chunk_row (fresh_id kc_id rows) doc c v"
  have "insert_chunks refuse doc cvs (rows @ [?row]) = Inr rows'" "refuse ?row = None"
    using 2(2) by (auto simp: Let_def split: option.splits)
  from 2(1)[OF refl this(2,1)] obtain fresh where IH: "rows' = (rows @ [?row]) @ fresh"
    "\<forall>r \<in> set fresh. kc_document r = wd_id doc"
    "map (\<lambda>r. (kc_index r, kc_text r, kc_tokens r)) fresh = map (\<lambda>(c, v). (ck_index c, ck_text c, ck_tokens c)) cvs"
    "unique_keys kc_id (rows @ [?row]) \<longrightarrow> unique_keys kc_id rows'" by blast
  moreover have "unique_keys kc_id rows \<longrightarrow> unique_keys kc_id (rows @ [?row])"
    using fresh_id_notin[of kc_id rows] by (auto simp: unique_keys_def chunk_row_def)
  ultimately show ?case by (intro exI[of _ "?row # fresh"]) (simp add: chunk_row_def)
qed simp

lemma doc_rows_delete: "doc_rows i (delete_chunks j rows) = (if i = j then [] else doc_rows i rows)"
  by (auto simp: doc_rows_def delete_chunks_def filter_empty_conv intro: filter_cong)

lemma doc_rows_append: "doc_rows i (rows @ rows') = doc_rows i rows @ doc_rows i rows'"
  by (simp add: doc_rows_def)

text \<open>
  How an ingestion of \<open>doc\<close> may end: indexed, with chunks of some text and those of the other documents
  as they were, or not, with the index as it was.
\<close>

definition ingested ::
  "('s, 'c) kb_env \<Rightarrow> workspace_document \<Rightarrow> ('s, 'c) kb \<Rightarrow> (py_error, string) result \<Rightarrow> ('s, 'c) kb \<Rightarrow> bool" where
  "ingested ke doc kb r kb' \<longleftrightarrow> kb_ok ke kb' \<and> doc_keys (documents kb') = doc_keys (documents kb) \<and> (if r = Inr ''indexed'' then
      (\<exists>d \<in> set (documents kb'). \<exists>text. wd_id d = wd_id doc \<and> chunks_of ke text (doc_rows (wd_id doc) (chunk_rows kb')))
      \<and> (\<forall>j. j \<noteq> wd_id doc \<longrightarrow> doc_rows j (chunk_rows kb') = doc_rows j (chunk_rows kb))
      else same_index kb kb')"

lemma ingested_index: "kb_ok ke kb' \<Longrightarrow> same_index kb kb' \<Longrightarrow> r \<noteq> Inr ''indexed'' \<Longrightarrow> ingested ke doc kb r kb'"
  by (simp add: ingested_def same_index_def)

lemma finish_ingested:
  assumes "finish ke st err d kb = (r, kb')" "working ke kb0 d kb" "st \<noteq> ''indexed''"
  shows "ingested ke doc kb0 r kb'"
  using working_finish[OF assms] ingested_index by blast

lemma store_chunks_ok:
  assumes run: "store_chunks ke doc (zip cs vs) kb = (r, kb')"
    and w: "working ke kb0 doc kb" and len: "length vs = length cs"
    and cs: "cs \<noteq> []" "chunk_text (kb_tokens ke) (ks_chunk_size (kb_settings ke)) (ks_overlap (kb_settings ke)) text None None = Inr cs"
    and content: "take 1000000 text = wd_text_content doc"
  shows "ingested ke doc kb0 r kb'"
proof (cases "\<exists>e. r = Inl e")
  case True
  then have "kb' = kb" using run
    by (auto simp: store_chunks_def split: sum.splits prod.splits)
  then show ?thesis using w True by (auto simp: working_def ingested_def same_index_def)
next
  case False
  let ?doc = "doc\<lparr>wd_status := ''indexed'', wd_error := [], wd_indexed_at := Some (kb_now ke kb)\<rparr>"
  obtain rows d' where rows: "insert_chunks (kb_refuse_chunk ke) doc (zip cs vs) (delete_chunks (wd_id doc) (chunk_rows kb)) = Inr rows"
    and save: "save_document ke ?doc (kb\<lparr>chunk_rows := rows\<rparr>) = (Inr d', kb')" and r: "r = Inr ''indexed''"
    using run False by (auto simp: store_chunks_def split: sum.splits prod.splits)
  have kb: "kb_ok ke kb" "doc \<in> set (documents kb)" "same_index kb0 kb" using w by (simp_all add: working_def)
  obtain fresh where fresh: "rows = delete_chunks (wd_id doc) (chunk_rows kb) @ fresh"
    "\<forall>r \<in> set fresh. kc_document r = wd_id doc"
    "map (\<lambda>r. (kc_index r, kc_text r, kc_tokens r)) fresh = map (\<lambda>(c, v). (ck_index c, ck_text c, ck_tokens c)) (zip cs vs)"
    "unique_keys kc_id (delete_chunks (wd_id doc) (chunk_rows kb)) \<longrightarrow> unique_keys kc_id rows"
    using insert_chunks_rows[OF rows] by blast
  have "map (\<lambda>(c, v). (ck_index c, ck_text c, ck_tokens c)) (zip cs vs)
      = map (\<lambda>c. (ck_index c, ck_text c, ck_tokens c)) (map fst (zip cs vs))" by (simp add: case_prod_beta)
  then have of_text: "chunks_of ke text fresh" using fresh(3) len cs by (auto simp: chunks_of_def)
  have others: "doc_rows j rows = doc_rows j (chunk_rows kb)" if "j \<noteq> wd_id doc" for j
  proof -
    have "doc_rows j fresh = []" using fresh(2) that by (auto simp: doc_rows_def filter_empty_conv)
    then show ?thesis using that by (simp add: fresh(1) doc_rows_append doc_rows_delete)
  qed
  have "doc_rows (wd_id doc) fresh = fresh" using fresh(2) by (simp add: doc_rows_def)
  then have mine: "doc_rows (wd_id doc) rows = fresh" by (simp add: fresh(1) doc_rows_append doc_rows_delete)
  have "doc_ok ke rows d" if d: "d \<in> set (documents kb)" for d
  proof (cases "wd_id d = wd_id doc")
    case True
    then have "d = doc" using kb(1,2) d unfolding kb_ok_def unique_keys_def by (metis distinct_map inj_onD)
    then show ?thesis using of_text mine content by (auto simp: doc_ok_def)
  next
    case False
    then show ?thesis using kb(1) d others[OF False] by (auto simp: kb_ok_def doc_ok_def)
  qed
  moreover have "unique_keys kc_id rows"
    using fresh(4) kb(1) by (auto simp: kb_ok_def unique_keys_def delete_chunks_def distinct_map_filter)
  moreover have "kc_document ` set rows \<subseteq> wd_id ` set (documents kb)"
    using kb(1,2) fresh(1,2) by (auto simp: kb_ok_def delete_chunks_def)
  ultimately have "working ke (kb\<lparr>chunk_rows := rows\<rparr>) doc (kb\<lparr>chunk_rows := rows\<rparr>)"
    using kb by (simp add: kb_ok_def working_def)
  moreover have "doc_ok ke rows ?doc" using of_text mine content by (auto simp: doc_ok_def)
  ultimately have saved: "kb_ok ke kb'" "chunk_rows kb' = rows" "doc_keys (documents kb') = doc_keys (documents kb)" "d' \<in> set (documents kb')"
      "d' = ?doc\<lparr>wd_updated_at := wd_updated_at d'\<rparr>"
    using working_save[OF save, of "kb\<lparr>chunk_rows := rows\<rparr>" doc] by (simp_all add: working_def same_index_def)
  have "wd_id d' = wd_id doc" by (subst saved(5)) simp
  with saved(1-4) of_text mine others kb(3) r show ?thesis
    by (auto simp: same_index_def ingested_def)
qed

section \<open>The operations keep the invariant\<close>

lemma index_text_ok:
  assumes run: "index_text ke ex doc kb = (r, kb')" and w: "working ke kb0 doc kb"
  shows "ingested ke doc kb0 r kb'"
proof -
  let ?d = "extracted (kb_now ke kb) ex doc"
  obtain r2 kb2 where s: "save_document ke ?d kb = (r2, kb2)" by (metis surj_pair)
  have "doc_ok ke (chunk_rows kb) doc" using w by (simp add: working_def kb_ok_def)
  then have "doc_ok ke (chunk_rows kb) ?d" by (rule doc_ok_status) (simp_all add: extracted_def)
  from working_save[OF s w _ _ _ _ this]
  have s2: "kb_ok ke kb2 \<and> same_index kb0 kb2 \<and> (case r2 of Inl _ \<Rightarrow> kb2 = kb
      | Inr d' \<Rightarrow> d' = ?d\<lparr>wd_updated_at := wd_updated_at d'\<rparr> \<and> working ke kb0 d' kb2)"
    by (simp add: extracted_def)
  show ?thesis
  proof (cases r2)
    case (Inl e)
    then show ?thesis using run s s2 by (auto simp: index_text_def ingested_index)
  next
    case (Inr d')
    with s2 have w2: "working ke kb0 d' kb2" and d': "d' = ?d\<lparr>wd_updated_at := wd_updated_at d'\<rparr>" by simp_all
    have fields: "wd_id d' = wd_id doc" "wd_text_content d' = take 1000000 (ex_text ex)"
      by (subst d'; simp add: extracted_def)+
    consider (error) e where "r = Inl e" "kb' = kb2" | (none) "finish ke ''skipped'' ''no chunks'' d' kb2 = (r, kb')"
      | (chunked) cs where "chunk_text (kb_tokens ke) (ks_chunk_size (kb_settings ke)) (ks_overlap (kb_settings ke))
          (ex_text ex) None None = Inr cs" "cs \<noteq> []"
          "(case embed_chunks ke cs kb2 of (Inl e, kb) \<Rightarrow> (Inl e, kb) | (Inr vs, kb) \<Rightarrow> store_chunks ke d' (zip cs vs) kb) = (r, kb')"
      using run s Inr by (auto simp: index_text_def split: sum.splits if_splits)
    then show ?thesis
    proof cases
      case error
      then show ?thesis using s2 by (simp add: ingested_index)
    next
      case none
      then show ?thesis by (rule finish_ingested[OF _ w2]) simp
    next
      case chunked
      obtain r3 kb3 where e: "embed_chunks ke cs kb2 = (r3, kb3)" by (metis surj_pair)
      note w3 = working_embed[OF e w2]
      show ?thesis
      proof (cases r3)
        case (Inl e3)
        then show ?thesis using chunked(3) e w3 by (auto simp: working_def ingested_index)
      next
        case (Inr vs)
        then have len: "length vs = length cs"
          using e by (auto simp: embed_chunks_def split: prod.splits dest!: embed_texts_length)
        have "store_chunks ke d' (zip cs vs) kb3 = (r, kb')" using chunked(3) e Inr by simp
        from store_chunks_ok[OF this w3 len chunked(2,1)] show ?thesis
          using fields unfolding ingested_def by metis
      qed
    qed
  qed
qed

lemma ingest_document_ok:
  assumes run: "ingest_document ke doc fm kb = (r, kb')" and ok: "kb_ok ke kb" "doc \<in> set (documents kb)"
  shows "ingested ke doc kb r kb'"
proof -
  have w: "working ke kb doc kb" using ok by (simp add: working_def)
  obtain r1 kb1 where e: "extract_text ke (wd_mime_type doc) fm kb = (r1, kb1)" by (metis surj_pair)
  note w1 = working_extract[OF e w]
  consider (kind) msg where "finish ke ''skipped'' msg doc kb = (r, kb')"
    | (failed) msg where "finish ke ''failed'' msg doc kb1 = (r, kb')"
    | (blank) msg where "finish ke ''skipped'' msg doc kb1 = (r, kb')"
    | (good) ex where "index_text ke ex doc kb1 = (r, kb')"
    using run e unfolding ingest_document_def by (auto split: if_splits sum.splits option.splits)
  then show ?thesis
  proof cases
    case kind
    then show ?thesis by (rule finish_ingested[OF _ w]) simp
  next
    case failed
    then show ?thesis by (rule finish_ingested[OF _ w1]) simp
  next
    case blank
    then show ?thesis by (rule finish_ingested[OF _ w1]) simp
  next
    case good
    then show ?thesis by (rule index_text_ok[OF _ w1])
  qed
qed

lemma drive_document_fields:
  "drive_document fm = Inr d \<Longrightarrow> wd_source d = ''drive'' \<and> wd_status d = ''pending''"
  by (auto simp: drive_document_def andthen_Inr_iff)

interpretation documents: keyed_table wd_key "new_document now i" "overwrite_document now" for now i
  by unfold_locales (simp_all add: wd_key_def new_document_def overwrite_document_def)

lemma upsert_drive_file_ok:
  assumes run: "upsert_drive_file ke fm kb = (r, kb')" and ok: "kb_ok ke kb"
  shows "kb_ok ke kb' \<and> chunk_rows kb' = chunk_rows kb \<and> (\<forall>doc. r = Inr doc \<longrightarrow> doc \<in> set (documents kb'))"
proof (cases "\<exists>e. r = Inl e")
  case True
  then show ?thesis using run ok by (auto simp: upsert_drive_file_def Let_def split: sum.splits option.splits)
next
  case False
  let ?now = "kb_now ke kb" and ?i = "fresh_id wd_id (documents kb)"
  obtain d where d: "drive_document fm = Inr d"
  proof (cases "drive_document fm")
    case (Inl e)
    with run have "r = Inl e" by (simp add: upsert_drive_file_def)
    with False show ?thesis by blast
  qed
  define doc where doc: "doc = (case lookup wd_key (documents kb) (wd_key d) of
        None \<Rightarrow> new_document ?now ?i d (wd_key d) | Some row \<Rightarrow> overwrite_document ?now d row)"
  have "kb_refuse_doc ke doc = None"
    using run False by (cases "kb_refuse_doc ke doc") (auto simp: upsert_drive_file_def Let_def d doc[symmetric])
  with run have r: "r = Inr doc" and kb': "kb' = kb\<lparr>documents :=
        fst (upsert wd_key (new_document ?now ?i) (overwrite_document ?now) d (wd_key d) (documents kb))\<rparr>"
    by (simp_all add: upsert_drive_file_def Let_def d doc[symmetric])
  have parts: "unique_keys wd_id (documents kb)" "unique_keys wd_key (documents kb)" "unique_keys kc_id (chunk_rows kb)"
      "kc_document ` set (chunk_rows kb) \<subseteq> wd_id ` set (documents kb)"
      "\<forall>d \<in> set (documents kb). doc_ok ke (chunk_rows kb) d" using ok by (simp_all add: kb_ok_def)
  have doc_in: "doc \<in> set (documents kb')"
    using lookup_SomeD[OF documents.lookup_upsert_same[of ?now ?i d "wd_key d" "documents kb"]] doc kb' by simp
  show ?thesis
  proof (cases "lookup wd_key (documents kb) (wd_key d)")
    case None
    have rows: "documents kb' = documents kb @ [new_document ?now ?i d (wd_key d)]"
      by (simp add: kb' upsert_def None)
    have fresh: "?i \<notin> wd_id ` set (documents kb)" by (rule fresh_id_notin)
    with parts(4) have "\<forall>r \<in> set (chunk_rows kb). kc_document r \<noteq> ?i" by (metis image_eqI subsetD)
    then have "doc_rows ?i (chunk_rows kb) = []" by (simp add: doc_rows_def filter_empty_conv)
    then have "doc_ok ke (chunk_rows kb) (new_document ?now ?i d (wd_key d))"
      using drive_document_fields[OF d] by (simp add: doc_ok_def new_document_def)
    moreover have "wd_id (new_document ?now ?i d (wd_key d)) = ?i" by (simp add: new_document_def)
    ultimately have "kb_ok ke kb'"
      using parts fresh None documents.unique_upsert[OF parts(2), of ?now ?i d "wd_key d"]
      by (auto simp: kb_ok_def kb' rows[unfolded kb', simplified] unique_keys_def upsert_def)
    then show ?thesis using doc_in r by (simp add: kb')
  next
    case (Some row)
    have row: "row \<in> set (documents kb)" "wd_key row = wd_key d" using lookup_SomeD[OF Some] by simp_all
    let ?f = "\<lambda>r. if wd_key r = wd_key d then overwrite_document ?now d r else r"
    have rows: "documents kb' = map ?f (documents kb)" by (simp add: kb' upsert_def Some)
    have same: "wd_id (?f r) = wd_id r" "doc_ok ke (chunk_rows kb) r \<Longrightarrow> doc_ok ke (chunk_rows kb) (?f r)" for r
      using doc_ok_same[of ke "chunk_rows kb" r "?f r"] by (auto simp: overwrite_document_def)
    have "map wd_id (documents kb') = map wd_id (documents kb)" using same(1) by (simp add: rows)
    moreover have "unique_keys wd_key (documents kb')"
      using documents.unique_upsert[OF parts(2), of ?now ?i d "wd_key d"] by (simp add: kb')
    moreover have "\<forall>d \<in> set (documents kb'). doc_ok ke (chunk_rows kb) d"
      using parts(5) same(2) unfolding rows set_map by blast
    moreover have "wd_id ` set (documents kb') = wd_id ` set (documents kb)"
      using calculation(1) by (metis set_map)
    ultimately have "kb_ok ke kb'" using parts by (simp add: kb_ok_def unique_keys_def kb')
    then show ?thesis using doc_in r by (simp add: kb')
  qed
qed

lemma fold_delete_chunks:
  "fold (\<lambda>d. delete_chunks (wd_id d)) gone rows = filter (\<lambda>r. kc_document r \<notin> wd_id ` set gone) rows"
  by (induction gone arbitrary: rows) (auto simp: delete_chunks_def intro: filter_cong)

lemma remove_document_ok:
  assumes ok: "kb_ok ke kb"
  shows "kb_ok ke (remove_document source external_id kb)"
proof -
  let ?k = "(source, external_id)" and ?kb = "remove_document source external_id kb"
  have parts: "unique_keys wd_id (documents kb)" "unique_keys wd_key (documents kb)" "unique_keys kc_id (chunk_rows kb)"
      "kc_document ` set (chunk_rows kb) \<subseteq> wd_id ` set (documents kb)"
      "\<forall>d \<in> set (documents kb). doc_ok ke (chunk_rows kb) d" using ok by (simp_all add: kb_ok_def)
  have docs: "documents ?kb = filter (\<lambda>d. wd_key d \<noteq> ?k) (documents kb)"
    and rows: "chunk_rows ?kb = filter (\<lambda>r. kc_document r \<notin> wd_id ` {d \<in> set (documents kb). wd_key d = ?k}) (chunk_rows kb)"
    by (simp_all add: remove_document_def Let_def fold_delete_chunks)
  have inj: "d = d'" if "d \<in> set (documents kb)" "d' \<in> set (documents kb)" "wd_id d = wd_id d'" for d d'
    using that parts(1) unfolding unique_keys_def by (metis distinct_map inj_onD)
  have "doc_rows (wd_id d) (chunk_rows ?kb) = doc_rows (wd_id d) (chunk_rows kb)" if d: "d \<in> set (documents ?kb)" for d
  proof -
    have "wd_id d \<notin> wd_id ` {d \<in> set (documents kb). wd_key d = ?k}"
      using d inj[of d] by (force simp: docs)
    then show ?thesis unfolding doc_rows_def rows filter_filter by (intro filter_cong refl) metis
  qed
  then have "\<forall>d \<in> set (documents ?kb). doc_ok ke (chunk_rows ?kb) d"
    using parts(5) by (auto simp: doc_ok_def docs)
  moreover have "kc_document ` set (chunk_rows ?kb) \<subseteq> wd_id ` set (documents ?kb)"
    using parts(4) by (auto simp: docs rows)
  ultimately show ?thesis using parts(1-3)
    by (auto simp: kb_ok_def docs rows unique_keys_def distinct_map_filter)
qed

end
