(* ===== verification/KnowledgeTasks.thy ===== *)
theory KnowledgeTasks
  imports KnowledgeIndex BaseSync
begin

text \<open>
  The tasks that fill the knowledge base, \<open>data_access/knowledge/tasks.py\<close>, and the discovery of Drive
  files and changes, \<open>discovery.py\<close>. The Drive service is a parameter, one function per method, on the
  state the embedding service lives in. A task started with \<open>.delay\<close> is put in a queue; a worker
  takes the queued tasks one by one, whenever it runs.
\<close>

section \<open>The Drive service\<close>

record 's drive_api =
  dv_list :: "string \<Rightarrow> string option \<Rightarrow> ('s, json) call"
  dv_start_token :: "('s, json) call"
  dv_changes :: "string \<Rightarrow> ('s, json) call"

record ('s, 'c) kt_world =
  kt_kb :: "('s, 'c) kb"
  kt_cursors :: "ingestion_cursor list"
  kt_queue :: "json list"

type_synonym ('s, 'c, 'a) task = "(py_error, ('s, 'c) kt_world, 'a) eff"

definition on_drive :: "('s, 'a) call \<Rightarrow> ('s, 'c, 'a) task" where
  "on_drive m = (\<lambda>w. case m (em_sdk (embedder (kt_kb w))) of
     (r, s) \<Rightarrow> (r, w\<lparr>kt_kb := (kt_kb w)\<lparr>embedder := (embedder (kt_kb w))\<lparr>em_sdk := s\<rparr>\<rparr>\<rparr>))"

definition on_kb :: "(('s, 'c) kb \<Rightarrow> (py_error, 'a) result \<times> ('s, 'c) kb) \<Rightarrow> ('s, 'c, 'a) task" where
  "on_kb m = (\<lambda>w. case m (kt_kb w) of (r, kb) \<Rightarrow> (r, w\<lparr>kt_kb := kb\<rparr>))"

definition delay :: "json \<Rightarrow> ('s, 'c, unit) task" where
  "delay f = (\<lambda>w. (Inr (), w\<lparr>kt_queue := kt_queue w @ [f]\<rparr>))"

text \<open>\<open>resp.get(k, [])\<close>, iterated.\<close>

definition list_at :: "json \<Rightarrow> string \<Rightarrow> (py_error, json list) result" where
  "list_at v k =
     (case v of JObj kvs \<Rightarrow> (case map_of kvs k of None \<Rightarrow> Inr [] | Some x \<Rightarrow> jiter x) | _ \<Rightarrow> Inl AttributeError)"

fun supported_mime :: "json \<Rightarrow> (py_error, bool) result" where
  "supported_mime (JStr s) = Inr (s \<in> set supported_mimes)"
| "supported_mime (JList _) = Inl TypeError"
| "supported_mime (JObj _) = Inl TypeError"
| "supported_mime _ = Inr False"

section \<open>Ingesting one file\<close>

definition ingest_drive_file :: "('s, 'c) kb_env \<Rightarrow> json \<Rightarrow> ('s, 'c) kb \<Rightarrow> (py_error, string \<times> string) result \<times> ('s, 'c) kb" where
  "ingest_drive_file ke f kb =
     (case upsert_drive_file ke f kb of
        (Inl e, kb) \<Rightarrow> (Inl e, kb)
      | (Inr doc, kb) \<Rightarrow>
          (case (if wd_mime_type doc \<notin> set supported_mimes
                 then finish ke ''skipped'' (''unsupported mime: '' @ wd_mime_type doc) doc kb
                 else ingest_document ke doc f kb) of
             (r, kb) \<Rightarrow> (andthen r (\<lambda>st. Inr (wd_external_id doc, st)), kb)))"

section \<open>The full listing\<close>

text \<open>\<open>f"trashed = false and (query)"\<close>\<close>

definition full_query :: "string \<Rightarrow> string" where
  "full_query query = (if query = [] then ''trashed = false'' else ''trashed = false and ('' @ query @ '')'')"

text \<open>What \<open>full_ingest_workspace\<close> does with a listed file, and with the files of a page.\<close>

definition take_file :: "('s, 'c) kb_env \<Rightarrow> json \<Rightarrow> nat \<times> nat \<Rightarrow> ('s, 'c, nat \<times> nat) task" where
  "take_file ke f = (\<lambda>(seen, queued).
     chain (lift_result (andthen (jget f ''mimeType'') supported_mime)) (\<lambda>supported.
     if supported then chain (delay f) (\<lambda>_. ret (seen + 1, queued + 1))
     else chain (on_kb (upsert_drive_file ke f)) (\<lambda>_. ret (seen + 1, queued))))"

fun take_files :: "('s, 'c) kb_env \<Rightarrow> json list \<Rightarrow> nat \<times> nat \<Rightarrow> ('s, 'c, nat \<times> nat) task" where
  "take_files ke [] n = ret n"
| "take_files ke (f # fs) n =
     chain (lift_result (jget f ''trashed'')) (\<lambda>trashed.
     if truth trashed then take_files ke fs n else chain (take_file ke f n) (take_files ke fs))"

text \<open>The generator \<open>iter_drive_files\<close> run by its consumer, with fuel; \<open>None\<close> is out of fuel.\<close>

fun walk_files ::
  "nat \<Rightarrow> ('s, 'c) kb_env \<Rightarrow> 's drive_api \<Rightarrow> string option \<Rightarrow> nat \<times> nat \<Rightarrow> ('s, 'c) kt_world
     \<Rightarrow> ((py_error, nat \<times> nat) result \<times> ('s, 'c) kt_world) option" where
  "walk_files 0 ke dv token n w = None"
| "walk_files (Suc fuel) ke dv token n w =
     (case chain (on_drive (dv_list dv (full_query []) token)) (\<lambda>resp.
           chain (lift_result (list_at resp ''files'')) (\<lambda>fs.
           chain (take_files ke fs n) (\<lambda>n.
           chain (lift_result (andthen (jget resp ''nextPageToken'') text_field)) (\<lambda>t. ret (n, t))))) w of
        (Inl e, w) \<Rightarrow> Some (Inl e, w)
      | (Inr (n, t), w) \<Rightarrow> if t = [] then Some (Inr n, w) else walk_files fuel ke dv (Some t) n w)"

definition drive_cursor_key :: string where
  "drive_cursor_key = ''drive_changes''"

definition new_cursor :: "unit \<Rightarrow> string \<Rightarrow> ingestion_cursor" where
  "new_cursor d source = \<lparr>cur_source = source, cur_value = [], last_full_sync_at = None,
     last_incremental_sync_at = None, files_total = 0, files_indexed = 0, files_failed = 0\<rparr>"

definition set_cursor :: "(ingestion_cursor \<Rightarrow> ingestion_cursor) \<Rightarrow> ('s, 'c) kt_world \<Rightarrow> ('s, 'c) kt_world" where
  "set_cursor f w = w\<lparr>kt_cursors := map (\<lambda>c. if cur_source c = drive_cursor_key then f c else c) (kt_cursors w)\<rparr>"

definition full_ingest_workspace ::
  "nat \<Rightarrow> ('s, 'c) kb_env \<Rightarrow> 's drive_api \<Rightarrow> ('s, 'c) kt_world
     \<Rightarrow> ((py_error, nat \<times> nat \<times> string) result \<times> ('s, 'c) kt_world) option" where
  "full_ingest_workspace fuel ke dv w =
     (let w = w\<lparr>kt_cursors := fst (get_or_create cur_source new_cursor () drive_cursor_key (kt_cursors w))\<rparr>
      in case chain (on_drive (dv_start_token dv)) (\<lambda>resp. lift_result (jindex resp ''startPageToken'')) w of
           (Inl e, w) \<Rightarrow> Some (Inl e, w)
         | (Inr token, w) \<Rightarrow>
             (case walk_files fuel ke dv None (0, 0) w of
                None \<Rightarrow> None
              | Some (Inl e, w) \<Rightarrow> Some (Inl e, w)
              | Some (Inr (seen, queued), w) \<Rightarrow>
                  Some (Inr (seen, queued, py_str token),
                    set_cursor (\<lambda>c. c\<lparr>cur_value := py_str token, last_full_sync_at := Some (kb_now ke (kt_kb w)),
                                      files_total := seen\<rparr>) w)))"

section \<open>Changes\<close>

text \<open>\<open>iter_drive_changes\<close>: all changes from a token on, and the token to start from next time.\<close>

fun drain_changes ::
  "nat \<Rightarrow> 's drive_api \<Rightarrow> string \<Rightarrow> json list \<Rightarrow> 's \<Rightarrow> ((py_error, json list \<times> json) result \<times> 's) option" where
  "drain_changes 0 dv token seen s = None"
| "drain_changes (Suc fuel) dv token seen s =
     (case chain (dv_changes dv token) (\<lambda>resp.
           chain (lift_result (list_at resp ''changes'')) (\<lambda>cs.
           chain (lift_result (andthen (jget resp ''nextPageToken'') text_field)) (\<lambda>t.
           chain (lift_result (jget resp ''newStartPageToken'')) (\<lambda>n. ret (cs, t, n))))) s of
        (Inl e, s) \<Rightarrow> Some (Inl e, s)
      | (Inr (cs, t, n), s) \<Rightarrow>
          if t \<noteq> [] then drain_changes fuel dv t (seen @ cs) s else Some (Inr (seen @ cs, n), s))"

text \<open>\<open>ch.get("removed") or (ch.get("file") or {}).get("trashed")\<close>\<close>

definition is_removal :: "json \<Rightarrow> (py_error, bool) result" where
  "is_removal ch =
     andthen (jget ch ''removed'') (\<lambda>r. if truth r then Inr True
     else andthen (get_or ch ''file'' (JObj [])) (\<lambda>f. andthen (jget f ''trashed'') (\<lambda>t. Inr (truth t))))"

text \<open>\<open>ch.get("fileId") or ch.get("file", {}).get("id")\<close>\<close>

definition removed_id :: "json \<Rightarrow> (py_error, string) result" where
  "removed_id ch =
     andthen (jget ch ''fileId'') (\<lambda>i. if truth i then text_field i
     else (case ch of
             JObj kvs \<Rightarrow> (case map_of kvs ''file'' of
                 None \<Rightarrow> Inr [] | Some f \<Rightarrow> andthen (jget f ''id'') text_field)
           | _ \<Rightarrow> Inl AttributeError))"

definition apply_change :: "json \<Rightarrow> nat \<times> nat \<Rightarrow> ('s, 'c, nat \<times> nat) task" where
  "apply_change ch = (\<lambda>(applied, removed).
     chain (lift_result (is_removal ch)) (\<lambda>gone.
     if gone
     then chain (lift_result (removed_id ch)) (\<lambda>i.
          if i \<noteq> [] then chain (on_kb (\<lambda>kb. (Inr (), remove_document ''drive'' i kb))) (\<lambda>_. ret (applied, removed + 1))
          else ret (applied, removed))
     else chain (lift_result (get_or ch ''file'' (JObj []))) (\<lambda>f.
          chain (lift_result (if truth f then andthen (jget f ''id'') (\<lambda>i. Inr (truth i)) else Inr False)) (\<lambda>named.
          if named then chain (delay f) (\<lambda>_. ret (applied + 1, removed)) else ret (applied, removed)))))"

fun apply_changes :: "json list \<Rightarrow> nat \<times> nat \<Rightarrow> ('s, 'c, nat \<times> nat) task" where
  "apply_changes [] n = ret n"
| "apply_changes (ch # chs) n = chain (apply_change ch n) (apply_changes chs)"

definition incremental_ingest_workspace ::
  "nat \<Rightarrow> ('s, 'c) kb_env \<Rightarrow> 's drive_api \<Rightarrow> ('s, 'c) kt_world
     \<Rightarrow> ((py_error, nat \<times> nat \<times> string) result \<times> ('s, 'c) kt_world) option" where
  "incremental_ingest_workspace fuel ke dv w =
     (case lookup cur_source (kt_cursors w) drive_cursor_key of
        None \<Rightarrow> full_ingest_workspace fuel ke dv w
      | Some cursor \<Rightarrow>
          if cur_value cursor = [] then full_ingest_workspace fuel ke dv w
          else (case drain_changes fuel dv (cur_value cursor) [] (em_sdk (embedder (kt_kb w))) of
                  None \<Rightarrow> None
                | Some (r, s) \<Rightarrow>
                    Some (case chain (on_drive (\<lambda>_. (r, s))) (\<lambda>(chs, new_start).
                            chain (apply_changes chs (0, 0)) (\<lambda>n.
                            chain (lift_result (text_field new_start)) (\<lambda>t. ret (n, t)))) w of
                       (Inl e, w) \<Rightarrow> (Inl e, w)
                     | (Inr ((applied, removed), t), w) \<Rightarrow>
                         (let token = (if t \<noteq> [] then t else cur_value cursor)
                          in (Inr (applied, removed, token),
                              set_cursor (\<lambda>c. c\<lparr>cur_value := token,
                                last_incremental_sync_at := Some (kb_now ke (kt_kb w))\<rparr>) w)))))"

section \<open>The worker, and all that can happen\<close>

definition worker :: "('s, 'c) kb_env \<Rightarrow> ('s, 'c) kt_world \<Rightarrow> ('s, 'c) kt_world" where
  "worker ke w =
     (case kt_queue w of
        [] \<Rightarrow> w
      | f # fs \<Rightarrow> w\<lparr>kt_kb := snd (ingest_drive_file ke f (kt_kb w)), kt_queue := fs\<rparr>)"

inductive kt_step :: "('s, 'c) kb_env \<Rightarrow> 's drive_api \<Rightarrow> ('s, 'c) kt_world \<Rightarrow> ('s, 'c) kt_world \<Rightarrow> bool"
  for ke dv where
  full: "full_ingest_workspace fuel ke dv w = Some (r, w') \<Longrightarrow> kt_step ke dv w w'"
| incremental: "incremental_ingest_workspace fuel ke dv w = Some (r, w') \<Longrightarrow> kt_step ke dv w w'"
| queued: "kt_step ke dv w (worker ke w)"
| searched: "search_chunks ke query top_k source by_owner (kt_kb w) = (r, kb) \<Longrightarrow> kt_step ke dv w (w\<lparr>kt_kb := kb\<rparr>)"

section \<open>The invariant of the knowledge base, whatever happens\<close>

definition keeps :: "('s, 'c) kb_env \<Rightarrow> ('s, 'c, 'a) task \<Rightarrow> bool" where
  "keeps ke m \<longleftrightarrow> (\<forall>w r w'. m w = (r, w') \<longrightarrow> kb_ok ke (kt_kb w) \<longrightarrow> kb_ok ke (kt_kb w'))"

lemma keepsD: "keeps ke m \<Longrightarrow> m w = (r, w') \<Longrightarrow> kb_ok ke (kt_kb w) \<Longrightarrow> kb_ok ke (kt_kb w')"
  unfolding keeps_def by blast

lemma keeps_chain: "keeps ke m \<Longrightarrow> (\<And>x. keeps ke (f x)) \<Longrightarrow> keeps ke (chain m f)"
  unfolding keeps_def[of ke "chain m f"]
  by (intro allI impI, erule chain_keeps[where P = "\<lambda>w. kb_ok ke (kt_kb w)"]) (auto dest: keepsD)

lemma keeps_basic: "keeps ke (ret x)" "keeps ke (lift_result r)" "keeps ke (delay f)" "keeps ke (on_drive c)"
  by (auto simp: keeps_def delay_def on_drive_def split: prod.splits)

lemma keeps_if: "keeps ke m \<Longrightarrow> keeps ke m' \<Longrightarrow> keeps ke (if b then m else m')"
  by simp

lemma keeps_case_prod: "(\<And>a b. keeps ke (f a b)) \<Longrightarrow> keeps ke (case x of (a, b) \<Rightarrow> f a b)"
  by (simp split: prod.split)

lemma keeps_upsert: "keeps ke (on_kb (upsert_drive_file ke f))"
  by (auto simp: keeps_def on_kb_def split: prod.splits dest!: upsert_drive_file_ok)

lemma keeps_remove: "keeps ke (on_kb (\<lambda>kb. (Inr (), remove_document source i kb)))"
  by (auto simp: keeps_def on_kb_def intro: remove_document_ok)

lemmas keeping = keeps_chain keeps_basic keeps_if keeps_case_prod keeps_upsert keeps_remove

lemma keeps_take_files: "keeps ke (take_files ke fs n)"
proof (induction fs arbitrary: n)
  case (Cons f fs)
  show ?case unfolding take_files.simps take_file_def by (intro keeping Cons)
qed (simp add: keeping)

lemma keeps_apply_changes: "keeps ke (apply_changes chs n)"
proof (induction chs arbitrary: n)
  case (Cons ch chs)
  show ?case unfolding apply_changes.simps apply_change_def by (intro keeping Cons)
qed (simp add: keeping)

lemma walk_files_keeps:
  "walk_files fuel ke dv token n w = Some (r, w') \<Longrightarrow> kb_ok ke (kt_kb w) \<Longrightarrow> kb_ok ke (kt_kb w')"
proof (induction fuel arbitrary: token n w)
  case (Suc fuel)
  let ?m = "chain (on_drive (dv_list dv (full_query []) token)) (\<lambda>resp.
      chain (lift_result (list_at resp ''files'')) (\<lambda>fs. chain (take_files ke fs n) (\<lambda>n.
      chain (lift_result (andthen (jget resp ''nextPageToken'') text_field)) (\<lambda>t. ret (n, t)))))"
  obtain r1 w1 where m: "?m w = (r1, w1)" by (rule prod.exhaust)
  have "keeps ke ?m" by (intro keeping keeps_take_files)
  from keepsD[OF this m Suc.prems(2)] have w1: "kb_ok ke (kt_kb w1)" .
  show ?case using Suc.prems(1) w1 Suc.IH m
    by (auto split: sum.splits prod.splits if_splits)
qed simp

lemma set_cursor_kb [simp]: "kt_kb (set_cursor f w) = kt_kb w"
  by (simp add: set_cursor_def)

lemma full_ingest_keeps:
  assumes run: "full_ingest_workspace fuel ke dv w = Some (r, w')" and ok: "kb_ok ke (kt_kb w)"
  shows "kb_ok ke (kt_kb w')"
proof -
  let ?w = "w\<lparr>kt_cursors := fst (get_or_create cur_source new_cursor () drive_cursor_key (kt_cursors w))\<rparr>"
  let ?m = "chain (on_drive (dv_start_token dv)) (\<lambda>resp. lift_result (jindex resp ''startPageToken''))"
  obtain r1 w1 where m: "?m ?w = (r1, w1)" by (rule prod.exhaust)
  have "keeps ke ?m" by (intro keeping)
  from keepsD[OF this m] ok have w1: "kb_ok ke (kt_kb w1)" by simp
  show ?thesis
  proof (cases r1)
    case (Inl e)
    then show ?thesis using run m w1 by (simp add: full_ingest_workspace_def)
  next
    case (Inr token)
    then obtain r2 w2 where "walk_files fuel ke dv None (0, 0) w1 = Some (r2, w2)" "kt_kb w' = kt_kb w2"
      using run m by (auto simp: full_ingest_workspace_def split: option.splits sum.splits)
    then show ?thesis using walk_files_keeps w1 by metis
  qed
qed

lemma incremental_ingest_keeps:
  assumes run: "incremental_ingest_workspace fuel ke dv w = Some (r, w')" and ok: "kb_ok ke (kt_kb w)"
  shows "kb_ok ke (kt_kb w')"
proof (cases "\<exists>c. lookup cur_source (kt_cursors w) drive_cursor_key = Some c \<and> cur_value c \<noteq> []")
  case False
  then have "full_ingest_workspace fuel ke dv w = Some (r, w')"
    using run by (auto simp: incremental_ingest_workspace_def split: option.splits if_splits)
  then show ?thesis by (rule full_ingest_keeps[OF _ ok])
next
  case True
  then obtain c r1 s where c: "lookup cur_source (kt_cursors w) drive_cursor_key = Some c" "cur_value c \<noteq> []"
    and d: "drain_changes fuel dv (cur_value c) [] (em_sdk (embedder (kt_kb w))) = Some (r1, s)"
    using run by (auto simp: incremental_ingest_workspace_def split: option.splits)
  let ?m = "chain (on_drive (\<lambda>_. (r1, s))) (\<lambda>(chs, new_start). chain (apply_changes chs (0, 0)) (\<lambda>n.
      chain (lift_result (text_field new_start)) (\<lambda>t. ret (n, t))))"
  obtain r2 w2 where m: "?m w = (r2, w2)" by (rule prod.exhaust)
  have "keeps ke ?m" by (intro keeping keeps_apply_changes)
  from keepsD[OF this m ok] have "kb_ok ke (kt_kb w2)" .
  moreover have "kt_kb w' = kt_kb w2"
    using run unfolding incremental_ingest_workspace_def c(1) option.case if_not_P[OF c(2)] d prod.case m
    by (cases r2) (auto simp: Let_def)
  ultimately show ?thesis by simp
qed

lemma ingest_drive_file_keeps:
  assumes run: "ingest_drive_file ke f kb = (r, kb')" and ok: "kb_ok ke kb"
  shows "kb_ok ke kb'"
proof -
  obtain r1 kb1 where u: "upsert_drive_file ke f kb = (r1, kb1)" by (rule prod.exhaust)
  note ok1 = upsert_drive_file_ok[OF u ok]
  show ?thesis
  proof (cases r1)
    case (Inl e)
    then show ?thesis using run u ok1 by (simp add: ingest_drive_file_def)
  next
    case (Inr doc)
    with ok1 have w: "kb_ok ke kb1" "doc \<in> set (documents kb1)" by simp_all
    have fin: "kb_ok ke kb2" if "finish ke ''skipped'' msg doc kb1 = (r2, kb2)" for msg r2 kb2
      using finish_ingested[OF that, of kb1] w by (simp add: working_def ingested_def)
    have ing: "kb_ok ke kb2" if "ingest_document ke doc f kb1 = (r2, kb2)" for r2 kb2
      using ingest_document_ok[OF that w] by (simp add: ingested_def)
    show ?thesis using run u Inr fin ing
      by (auto simp: ingest_drive_file_def split: prod.splits if_splits)
  qed
qed

lemma search_keeps: "search_chunks ke q k s o1 kb = (r, kb') \<Longrightarrow> kb_ok ke kb' = kb_ok ke kb"
  by (auto simp: search_chunks_def Let_def split: if_splits prod.splits sum.splits)

lemma kt_step_keeps: "kt_step ke dv w w' \<Longrightarrow> kb_ok ke (kt_kb w) \<Longrightarrow> kb_ok ke (kt_kb w')"
proof (induction rule: kt_step.induct)
  case (queued w)
  then show ?case using ingest_drive_file_keeps[of ke _ "kt_kb w"]
    by (auto simp: worker_def split: list.splits) (metis prod.collapse)
qed (auto intro: full_ingest_keeps incremental_ingest_keeps simp: search_keeps)

text \<open>
  C17. Whatever runs, in whatever order: full listings, change runs, queued ingestions and
  searches, each succeeding or failing anywhere, keep the knowledge base consistent. Documents are
  unique, every chunk belongs to a document, and the chunks of a document are exactly the chunks of
  one text, numbered from zero; of an indexed document that text is the one it stores.
\<close>

theorem knowledge_consistent:
  assumes "(kt_step ke dv)\<^sup>*\<^sup>* w w'" "kb_ok ke (kt_kb w)"
  shows "kb_ok ke (kt_kb w')
    \<and> (\<forall>d \<in> set (documents (kt_kb w')). map kc_index (doc_rows (wd_id d) (chunk_rows (kt_kb w')))
         = [0..<length (doc_rows (wd_id d) (chunk_rows (kt_kb w')))])"
proof -
  have ok: "kb_ok ke (kt_kb w')"
    using assms by (induction rule: rtranclp_induct) (auto intro: kt_step_keeps)
  moreover have "map kc_index (doc_rows (wd_id d) (chunk_rows (kt_kb w')))
      = [0..<length (doc_rows (wd_id d) (chunk_rows (kt_kb w')))]" if "d \<in> set (documents (kt_kb w'))" for d
    using ok that chunks_of_indices by (fastforce simp: kb_ok_def doc_ok_def)
  ultimately show ?thesis by blast
qed

section \<open>An example\<close>

text \<open>A domain with one kind of extractor, which works while the service's state is \<open>True\<close>.\<close>

definition sample_env :: "(bool, (string, vector) ttl_cache) kb_env" where
  "sample_env = \<lparr>kb_cget = ttl_get, kb_cset = ttl_set,
     kb_api = \<lparr>em_create = (\<lambda>_ _ s. (Inl TypeError, s)), em_retrying = id, em_sha = id, em_monotonic = (\<lambda>_. 0),
       em_now = (\<lambda>_. 0), em_clock = (\<lambda>_ _. 0), em_api_key = []\<rparr>,
     kb_digest = (\<lambda>_. [192]), kb_settings = \<lparr>ks_stub_mode = True, ks_dimensions = 1, ks_model = ''m'',
       ks_chunk_size = 800, ks_overlap = 100, ks_max_bytes = 20000000\<rparr>,
     kb_tenant = None, kb_tokens = count_tokens None,
     kb_handler = (\<lambda>mime. if mime = ''text/plain''
       then Some (\<lambda>f s. (if s then Inr \<lparr>ex_text = ''ab'', ex_truncated = False, ex_metadata = []\<rparr> else Inl ''gone'', s))
       else None),
     kb_distance = (\<lambda>u v. \<bar>hd u - hd v\<bar>), kb_visits = (\<lambda>q rows r. True), kb_refuse_doc = (\<lambda>_. None), kb_refuse_chunk = (\<lambda>_. None)\<rparr>"

definition sample_file :: json where
  "sample_file = JObj [(''id'', JStr ''f''), (''mimeType'', JStr ''text/plain'')]"

definition empty_kb :: "bool \<Rightarrow> (bool, (string, vector) ttl_cache) kb" where
  "empty_kb s = \<lparr>documents = [], chunk_rows = [],
     embedder = \<lparr>em_client_made = False, em_sdk = s, em_cache = Map.empty, em_events = []\<rparr>\<rparr>"

definition sample_document :: workspace_document where
  "sample_document = \<lparr>wd_id = 0, wd_source = ''drive'', wd_external_id = ''f'', wd_title = [], wd_mime_type = ''text/plain'',
     wd_owner_email = [], wd_web_view_link = [], wd_modified_at = JNull, wd_size_bytes = 0, wd_text_content = ''ab'',
     wd_text_truncated = False, wd_status = ''indexed'', wd_error = [], wd_extracted_at = Some 0, wd_indexed_at = Some 0,
     wd_metadata = [(''parents'', JList [])], wd_created_at = 0, wd_updated_at = 0\<rparr>"

definition sample_chunk :: knowledge_chunk where
  "sample_chunk = \<lparr>kc_id = 0, kc_document = 0, kc_index = 0, kc_text = ''ab'', kc_tokens = 1, kc_embedding = [1 / 2],
     kc_metadata = [(''title'', JStr []), (''owner_email'', JStr []), (''web_view_link'', JStr []),
       (''mime_type'', JStr ''text/plain''), (''source'', JStr ''drive'')]\<rparr>"

lemma sample_paragraphs: "paragraphs ''ab'' = [''ab'']"
  by (simp add: paragraphs_def str_strip_def is_space_def)

lemma sample_chunks: "chunk_text (count_tokens None) 800 100 ''ab'' None None = Inr [\<lparr>ck_index = 0, ck_text = ''ab'', ck_tokens = 1\<rparr>]"
  by (simp add: chunk_text_alt sample_paragraphs pick_size_def pick_overlap_def add_para_def count_tokens_def
      heuristic_tokens_def flush_def chunk_start_def Let_def)

lemma sample_env_simps:
  "em_api_key (kb_api sample_env) = []" "em_now (kb_api sample_env) s = 0" "kb_digest sample_env t = [192]"
  "ks_stub_mode (kb_settings sample_env) = True" "ks_dimensions (kb_settings sample_env) = 1"
  "ks_chunk_size (kb_settings sample_env) = 800" "ks_overlap (kb_settings sample_env) = 100"
  "kb_tokens sample_env = count_tokens None" "kb_refuse_doc sample_env d = None" "kb_refuse_chunk sample_env c = None"
  "kb_handler sample_env ''text/plain'' = Some (\<lambda>f s.
     (if s then Inr \<lparr>ex_text = ''ab'', ex_truncated = False, ex_metadata = []\<rparr> else Inl ''gone'', s))"
  by (simp_all add: sample_env_def)

lemma empty_kb_ok: "kb_ok ke (empty_kb s)"
  by (simp add: kb_ok_def empty_kb_def unique_keys_def)

lemma sample_half: "py_round 6 (1 / 2) = 1 / 2"
  using round_half_even_int[of "500000"] by (simp add: py_round_def)

lemma sample_upsert:
  "upsert_drive_file sample_env sample_file (empty_kb True)
    = (Inr (sample_document\<lparr>wd_text_content := [], wd_status := ''pending'', wd_extracted_at := None, wd_indexed_at := None\<rparr>),
       (empty_kb True)\<lparr>documents := [sample_document\<lparr>wd_text_content := [], wd_status := ''pending'', wd_extracted_at := None, wd_indexed_at := None\<rparr>]\<rparr>)"
  by (simp add: upsert_drive_file_def drive_document_def sample_file_def owner_email_of_def get_or_def or_else_def
      dict_get_def sliced_text_def empty_kb_def sample_env_def kb_now_def Let_def upsert_def new_document_def
      wd_key_def fresh_id_def sample_document_def)

lemma sample_ingest:
  "ingest_drive_file sample_env sample_file (empty_kb True)
    = (Inr (''f'', ''indexed''), (empty_kb True)\<lparr>documents := [sample_document], chunk_rows := [sample_chunk]\<rparr>)"
  unfolding ingest_drive_file_def sample_upsert
  by (simp add: ingest_document_def supported_mimes_def extract_text_def
      index_text_def extracted_def save_document_def sample_chunks embed_chunks_def embed_texts_def stub_embedding_def
      store_chunks_def delete_chunks_def chunk_row_def chunk_metadata_def sample_env_simps sample_document_def
      sample_chunk_def empty_kb_def kb_now_def save_row_def Let_def fresh_id_def str_strip_def is_space_def sample_half)

lemma knowledge_consistent_witness:
  "kb_ok sample_env (snd (ingest_drive_file sample_env sample_file (empty_kb True)))
   \<and> map kc_index (doc_rows 0 (chunk_rows (snd (ingest_drive_file sample_env sample_file (empty_kb True))))) = [0]"
proof -
  let ?w = "\<lparr>kt_kb = empty_kb True, kt_cursors = [], kt_queue = [sample_file]\<rparr>"
  have "(kt_step sample_env dv)\<^sup>*\<^sup>* ?w (worker sample_env ?w)" for dv
    by (rule r_into_rtranclp) (rule kt_step.queued)
  from knowledge_consistent[OF this] show ?thesis
    by (simp add: empty_kb_ok worker_def sample_ingest) (simp add: doc_rows_def sample_chunk_def)
qed

section \<open>Search\<close>

lemma same_index_joined:
  assumes "same_index kb kb'"
  shows "joined_rows s o1 (documents kb') (chunk_rows kb') = joined_rows s o1 (documents kb) (chunk_rows kb)"
proof -
  have "(case lookup wd_id docs' i of None \<Rightarrow> False | Some d \<Rightarrow> passes s (wd_source d) \<and> passes o1 (wd_owner_email d))
      = (case lookup wd_id docs i of None \<Rightarrow> False | Some d \<Rightarrow> passes s (wd_source d) \<and> passes o1 (wd_owner_email d))"
    if "doc_keys docs' = doc_keys docs" for docs docs' i
    using that
  proof (induction docs arbitrary: docs')
    case Nil
    then show ?case by (simp add: doc_keys_def)
  next
    case (Cons d docs)
    then obtain d' ds where "docs' = d' # ds" "wd_id d' = wd_id d" "wd_source d' = wd_source d"
      "wd_owner_email d' = wd_owner_email d" "doc_keys ds = doc_keys docs"
      by (cases docs') (simp_all add: doc_keys_def)
    with Cons.IH[of ds] show ?case by (simp add: lookup_Cons)
  qed
  from this[of "documents kb'" "documents kb"] show ?thesis
    using assms by (simp add: same_index_def joined_rows_def)
qed

text \<open>
  C25. What a search returns: of the chunks the database's scan visits whose documents exist and pass the filters, the
  ones nearest to the query, \<open>top_k\<close> of them or all if there are fewer, the most similar first; none
  of these that is left out is nearer than one that is returned. (Where the scan uses the approximate index, a nearer chunk
  that it does not visit is missed, and fewer than \<open>top_k\<close> may come back.)
\<close>

theorem search_nearest:
  assumes "search_chunks ke query top_k source by_owner kb = (Inr hits, kb')" "str_strip query \<noteq> []"
  shows "\<exists>v w'. embed_query (kb_cget ke) (kb_cset ke) (kb_api ke) (kb_digest ke) (kb_settings ke) (kb_tenant ke)
        query (embedder kb) = (Inr v, w') \<and> kb' = kb\<lparr>embedder := w'\<rparr>
    \<and> (let q = map (py_round 6) v;
           rows = filter (kb_visits ke q (chunk_rows kb)) (joined_rows source by_owner (documents kb) (chunk_rows kb))
       in set hits \<subseteq> hit_of (kb_distance ke) q ` set rows
        \<and> length hits = min (nat top_k) (length rows)
        \<and> sorted_wrt (\<lambda>h h'. hit_similarity h' \<le> hit_similarity h) hits
        \<and> (\<forall>r \<in> set rows. hit_of (kb_distance ke) q r \<notin> set hits \<longrightarrow>
             (\<forall>h \<in> set hits. hit_similarity (hit_of (kb_distance ke) q r) \<le> hit_similarity h)))"
proof -
  obtain v w' where v: "embed_query (kb_cget ke) (kb_cset ke) (kb_api ke) (kb_digest ke) (kb_settings ke) (kb_tenant ke)
        query (embedder kb) = (Inr v, w')" "kb' = kb\<lparr>embedder := w'\<rparr>"
    and hits0: "hits = map (hit_of (kb_distance ke) (map (py_round 6) v))
      (take (nat top_k) (sort_key (\<lambda>r. kb_distance ke (kc_embedding r) (map (py_round 6) v))
         (filter (kb_visits ke (map (py_round 6) v) (chunk_rows kb)) (joined_rows source by_owner (documents kb) (chunk_rows kb)))))"
    using assms by (auto simp: search_chunks_def Let_def split: prod.splits sum.splits if_splits)
  define q where "q = map (py_round 6) v"
  define rows where "rows = filter (kb_visits ke q (chunk_rows kb)) (joined_rows source by_owner (documents kb) (chunk_rows kb))"
  note hits = hits0[folded q_def, folded rows_def]
  let ?key = "\<lambda>r. kb_distance ke (kc_embedding r) q"
  let ?s = "sort_key ?key rows"
  have sorted: "sorted_wrt (\<lambda>r r'. ?key r \<le> ?key r') ?s"
    using sorted_sort_key[of ?key rows] by (simp add: sorted_map)
  have "?key r \<le> ?key r'" if "r \<in> set (take (nat top_k) ?s)" "r' \<in> set (drop (nat top_k) ?s)" for r r'
    using sorted that by (metis append_take_drop_id sorted_wrt_append)
  moreover have "r \<in> set (drop (nat top_k) ?s)" if "r \<in> set rows" "r \<notin> set (take (nat top_k) ?s)" for r
    using that by (metis Un_iff append_take_drop_id set_append set_sort)
  ultimately have "\<forall>r \<in> set rows. hit_of (kb_distance ke) q r \<notin> set hits \<longrightarrow>
      (\<forall>h \<in> set hits. hit_similarity (hit_of (kb_distance ke) q r) \<le> hit_similarity h)"
    by (auto simp: hits hit_of_def)
  moreover have "sorted_wrt (\<lambda>h h'. hit_similarity h' \<le> hit_similarity h) hits"
    using sorted_wrt_take[OF sorted, of "nat top_k"]
    by (auto simp: hits sorted_wrt_map hit_of_def elim!: sorted_wrt_mono_rel[rotated])
  moreover have "set hits \<subseteq> hit_of (kb_distance ke) q ` set rows"
    using set_take_subset[of "nat top_k" ?s] by (auto simp: hits)
  moreover have "length hits = min (nat top_k) (length rows)" by (simp add: hits min.commute)
  ultimately show ?thesis using v unfolding rows_def q_def Let_def by blast
qed

definition sample_kb :: "bool \<Rightarrow> (bool, (string, vector) ttl_cache) kb" where
  "sample_kb s = (empty_kb s)\<lparr>documents := [sample_document], chunk_rows := [sample_chunk]\<rparr>"

definition sample_hit :: search_hit where
  "sample_hit = \<lparr>hit_chunk = 0, hit_document = 0, hit_index = 0, hit_text = ''ab'', hit_similarity = 1,
     hit_metadata = kc_metadata sample_chunk\<rparr>"

lemma sample_search: "search_chunks sample_env ''q'' 5 None None (sample_kb s) = (Inr [sample_hit], sample_kb s)"
  by (simp add: search_chunks_def str_strip_def is_space_def embed_query_def embed_texts_def sample_env_simps
      stub_embedding_def sample_kb_def empty_kb_def joined_rows_def passes_def lookup_Cons sample_half Let_def
      sample_hit_def hit_of_def sample_document_def sample_chunk_def)
    (simp add: sample_env_def)

lemma sample_kb_ok: "kb_ok sample_env (sample_kb s)"
proof -
  have "kb_ok sample_env (sample_kb True)"
    using ingest_drive_file_keeps[OF sample_ingest empty_kb_ok] by (simp add: sample_kb_def)
  moreover have "sample_kb s = (sample_kb True)\<lparr>embedder := embedder (sample_kb s)\<rparr>"
    by (simp add: sample_kb_def empty_kb_def)
  ultimately show ?thesis by (metis kb_ok_embedder)
qed

lemma search_nearest_witness:
  "\<exists>hits kb'. search_chunks sample_env ''q'' 5 None None (sample_kb True) = (Inr hits, kb') \<and> length hits = 1"
  using search_nearest[OF sample_search[of True]]
  by (simp add: sample_search str_strip_def is_space_def)

text \<open>
  A document that can no longer be read stays searchable: an ingestion that ends as failed or
  skipped, or raises, marks the document at most, and every search returns what it returned before
  it, the chunks of the old text included.
\<close>

theorem unreadable_document_still_answers:
  assumes "kb_ok ke kb" "doc \<in> set (documents kb)" "ingest_document ke doc f kb = (r, kb')" "r \<noteq> Inr ''indexed''"
  shows "fst (search_chunks ke query top_k source by_owner (kb'\<lparr>embedder := w\<rparr>))
    = fst (search_chunks ke query top_k source by_owner (kb\<lparr>embedder := w\<rparr>))"
proof -
  have "same_index kb kb'"
    using ingest_document_ok[OF assms(3,1,2)] assms(4) by (simp add: ingested_def)
  then have "chunk_rows kb' = chunk_rows kb" by (simp add: same_index_def)
  with same_index_joined[OF \<open>same_index kb kb'\<close>] show ?thesis
    by (simp add: search_chunks_def Let_def split: prod.split sum.split)
qed

lemma sample_unreadable:
  "fst (ingest_document sample_env sample_document sample_file (sample_kb False)) = Inr ''failed''"
  by (simp add: ingest_document_def supported_mimes_def extract_text_def sample_env_simps finish_def with_status_def
      save_document_def Let_def sample_kb_def empty_kb_def sample_document_def)

lemma unreadable_document_still_answers_witness:
  "fst (search_chunks sample_env ''q'' 5 None None
     ((snd (ingest_document sample_env sample_document sample_file (sample_kb False)))\<lparr>embedder := embedder (sample_kb True)\<rparr>))
   = Inr [sample_hit]"
proof -
  let ?run = "ingest_document sample_env sample_document sample_file (sample_kb False)"
  have run: "?run = (Inr ''failed'', snd ?run)" using sample_unreadable by (metis prod.collapse)
  have "sample_document \<in> set (documents (sample_kb False))" by (simp add: sample_kb_def)
  from unreadable_document_still_answers[OF sample_kb_ok this run]
  have "fst (search_chunks sample_env ''q'' 5 None None ((snd ?run)\<lparr>embedder := embedder (sample_kb True)\<rparr>))
      = fst (search_chunks sample_env ''q'' 5 None None ((sample_kb False)\<lparr>embedder := embedder (sample_kb True)\<rparr>))"
    by simp
  also have "(sample_kb False)\<lparr>embedder := embedder (sample_kb True)\<rparr> = sample_kb True"
    by (simp add: sample_kb_def empty_kb_def)
  finally show ?thesis by (simp add: sample_search)
qed

section \<open>Change runs\<close>

text \<open>The pages a service gives from a token on: all changes in order and the next start token.\<close>

inductive change_pages :: "'s drive_api \<Rightarrow> string \<Rightarrow> 's \<Rightarrow> json list \<Rightarrow> json \<Rightarrow> 's \<Rightarrow> bool" for dv where
  last_page: "dv_changes dv token s = (Inr resp, s') \<Longrightarrow> list_at resp ''changes'' = Inr cs
    \<Longrightarrow> andthen (jget resp ''nextPageToken'') text_field = Inr [] \<Longrightarrow> jget resp ''newStartPageToken'' = Inr n
    \<Longrightarrow> change_pages dv token s cs n s'"
| more_pages: "dv_changes dv token s = (Inr resp, s1) \<Longrightarrow> list_at resp ''changes'' = Inr cs
    \<Longrightarrow> andthen (jget resp ''nextPageToken'') text_field = Inr t \<Longrightarrow> t \<noteq> [] \<Longrightarrow> jget resp ''newStartPageToken'' = Inr n1
    \<Longrightarrow> change_pages dv t s1 cs' n s' \<Longrightarrow> change_pages dv token s (cs @ cs') n s'"

lemma drain_changes_pages:
  "drain_changes fuel dv token seen s = Some (Inr (chs, n), s') \<Longrightarrow>
     \<exists>cs. chs = seen @ cs \<and> change_pages dv token s cs n s'"
proof (induction fuel arbitrary: token seen s)
  case (Suc fuel)
  obtain resp s1 cs t n1 where *: "dv_changes dv token s = (Inr resp, s1)" "list_at resp ''changes'' = Inr cs"
    "andthen (jget resp ''nextPageToken'') text_field = Inr t" "jget resp ''newStartPageToken'' = Inr n1"
    and rest: "if t \<noteq> [] then drain_changes fuel dv t (seen @ cs) s1 = Some (Inr (chs, n), s')
      else chs = seen @ cs \<and> n = n1 \<and> s' = s1"
    using Suc.prems
    by (auto simp: chain_Inr_iff lift_result_def simp del: lift_result_iff split: prod.splits sum.splits if_splits)
  show ?case
  proof (cases "t = []")
    case True
    then show ?thesis using * rest last_page[of dv token s resp s1 cs n1] by auto
  next
    case False
    with rest Suc.IH[of t "seen @ cs" s1] obtain cs' where "chs = (seen @ cs) @ cs'" "change_pages dv t s1 cs' n s'"
      by auto
    then show ?thesis using more_pages[OF *(1-3) False *(4)] by auto
  qed
qed simp

lemma pages_drain_changes:
  "change_pages dv token s cs n s' \<Longrightarrow> \<exists>fuel. drain_changes fuel dv token seen s = Some (Inr (seen @ cs, n), s')"
proof (induction arbitrary: seen rule: change_pages.induct)
  case (last_page token s resp s' cs n)
  then show ?case by (intro exI[of _ 1]) (simp add: chain_def ret_def lift_result_def)
next
  case (more_pages token s resp s1 cs t n1 cs' n s')
  then obtain fuel where "drain_changes fuel dv t (seen @ cs) s1 = Some (Inr ((seen @ cs) @ cs', n), s')" by blast
  with more_pages show ?case by (intro exI[of _ "Suc fuel"]) (simp add: chain_def ret_def lift_result_def)
qed

text \<open>
  What a list of changes asks for: the files to ingest, in order, and the ids to remove.
\<close>

definition changed_file :: "json \<Rightarrow> json option" where
  "changed_file ch =
     (case (is_removal ch, get_or ch ''file'' (JObj [])) of
        (Inr False, Inr f) \<Rightarrow>
          (if truth f then (case jget f ''id'' of Inr i \<Rightarrow> if truth i then Some f else None | Inl _ \<Rightarrow> None) else None)
      | _ \<Rightarrow> None)"

definition gone_id :: "json \<Rightarrow> string option" where
  "gone_id ch =
     (case (is_removal ch, removed_id ch) of
        (Inr True, Inr i) \<Rightarrow> if i \<noteq> [] then Some i else None | _ \<Rightarrow> None)"

lemma remove_documents:
  "documents (remove_document source i kb) = filter (\<lambda>d. wd_key d \<noteq> (source, i)) (documents kb)"
  by (simp add: remove_document_def Let_def)

definition changes_applied :: "json list \<Rightarrow> ('s, 'c) kt_world \<Rightarrow> ('s, 'c) kt_world \<Rightarrow> bool" where
  "changes_applied chs w w' \<longleftrightarrow>
     kt_queue w' = kt_queue w @ List.map_filter changed_file chs
     \<and> documents (kt_kb w') = filter (\<lambda>d. wd_source d = ''drive'' \<longrightarrow> Some (wd_external_id d) \<notin> gone_id ` set chs)
         (documents (kt_kb w))
     \<and> kt_cursors w' = kt_cursors w"

lemma apply_change_applied:
  assumes "apply_change ch n w = (Inr n', w')"
  shows "changes_applied [ch] w w' \<and> fst n' = fst n + length (List.map_filter changed_file [ch])
    \<and> snd n' = snd n + length (List.map_filter gone_id [ch])"
proof -
  obtain a b where n: "n = (a, b)" by (cases n)
  obtain gone where g: "is_removal ch = Inr gone"
    using assms by (auto simp: apply_change_def n chain_Inr_iff lift_result_def simp del: lift_result_iff)
  show ?thesis
  proof (cases gone)
    case True
    then obtain i where i: "removed_id ch = Inr i" and
      w': "if i \<noteq> [] then w' = w\<lparr>kt_kb := remove_document ''drive'' i (kt_kb w)\<rparr> \<and> n' = (a, b + 1) else w' = w \<and> n' = n"
      using assms g
      by (auto simp: apply_change_def n chain_Inr_iff lift_result_def on_kb_def simp del: lift_result_iff split: if_splits)
    then show ?thesis using True g
      by (auto simp: changes_applied_def changed_file_def gone_id_def List.map_filter_def remove_documents n wd_key_def
          intro: filter_cong split: if_splits)
  next
    case False
    then obtain f named where f: "get_or ch ''file'' (JObj []) = Inr f"
      "(if truth f then andthen (jget f ''id'') (\<lambda>i. Inr (truth i)) else Inr False) = Inr named"
      "if named then w' = w\<lparr>kt_queue := kt_queue w @ [f]\<rparr> \<and> n' = (a + 1, b) else w' = w \<and> n' = n"
      using assms g
      by (auto simp: apply_change_def n chain_Inr_iff lift_result_def delay_def simp del: lift_result_iff split: if_splits)
    then show ?thesis using False g
      by (auto simp: changes_applied_def changed_file_def gone_id_def List.map_filter_def n andthen_Inr_iff split: if_splits)
  qed
qed

lemma changes_applied_append:
  "changes_applied chs w w1 \<Longrightarrow> changes_applied chs' w1 w2 \<Longrightarrow> changes_applied (chs @ chs') w w2"
  by (auto simp: changes_applied_def List.map_filter_def image_Un intro: filter_cong)

lemma apply_changes_applied:
  "apply_changes chs n w = (Inr n', w') \<Longrightarrow> changes_applied chs w w'"
proof (induction chs arbitrary: n w)
  case Nil
  then show ?case by (simp add: changes_applied_def List.map_filter_def)
next
  case (Cons ch chs)
  then obtain n1 w1 where "apply_change ch n w = (Inr n1, w1)" "apply_changes chs n1 w1 = (Inr n', w')"
    by (auto simp: chain_Inr_iff)
  with Cons.IH apply_change_applied changes_applied_append[of "[ch]" w w1 chs w'] show ?case by fastforce
qed

definition cursor_free :: "('s, 'c, 'a) task \<Rightarrow> bool" where
  "cursor_free m \<longleftrightarrow> (\<forall>w r w'. m w = (r, w') \<longrightarrow> kt_cursors w' = kt_cursors w)"

lemma cursor_free_chain: "cursor_free m \<Longrightarrow> (\<And>x. cursor_free (f x)) \<Longrightarrow> cursor_free (chain m f)"
  by (fastforce simp: cursor_free_def chain_def split: prod.splits sum.splits)

lemma cursor_free_basic: "cursor_free (ret x)" "cursor_free (lift_result r)" "cursor_free (delay f)"
  "cursor_free (on_drive c)" "cursor_free (on_kb k)"
  by (auto simp: cursor_free_def delay_def on_drive_def on_kb_def split: prod.splits)

lemma cursor_free_if: "cursor_free m \<Longrightarrow> cursor_free m' \<Longrightarrow> cursor_free (if b then m else m')"
  by simp

lemma cursor_free_case_prod: "(\<And>a b. cursor_free (f a b)) \<Longrightarrow> cursor_free (case x of (a, b) \<Rightarrow> f a b)"
  by (simp split: prod.split)

lemmas cursor_frees = cursor_free_chain cursor_free_basic cursor_free_if cursor_free_case_prod

lemma cursor_free_apply_changes: "cursor_free (apply_changes chs n)"
proof (induction chs arbitrary: n)
  case (Cons ch chs)
  show ?case unfolding apply_changes.simps apply_change_def by (intro cursor_frees Cons)
qed (simp add: cursor_frees)

lemma set_cursor_value:
  assumes "lookup cur_source (kt_cursors w) drive_cursor_key = Some c" "\<And>c. cur_source (f c) = cur_source c"
  shows "lookup cur_source (kt_cursors (set_cursor f w)) drive_cursor_key = Some (f c)"
proof -
  have "cur_source c = drive_cursor_key" using lookup_SomeD[OF assms(1)] by simp
  then show ?thesis
    unfolding set_cursor_def
    using lookup_map_upd[of cur_source "\<lambda>c. if cur_source c = drive_cursor_key then f c else c" "kt_cursors w" drive_cursor_key]
      assms by simp
qed

text \<open>
  C20. The change cursor moves only over changes that have been applied. A change run from a stored
  token that raises leaves the cursor; one that returns has read every page of the changes, has
  queued exactly the changed files, in order, has removed exactly the Drive documents reported as
  removed or trashed, and stores the service's next start token (or keeps the old one, when the
  service gives none).
\<close>

theorem changes_before_cursor:
  assumes run: "incremental_ingest_workspace fuel ke dv w = Some (r, w')"
    and cursor: "lookup cur_source (kt_cursors w) drive_cursor_key = Some c" "cur_value c \<noteq> []"
  shows "case r of Inl e \<Rightarrow> kt_cursors w' = kt_cursors w
    | Inr (applied, removed, token) \<Rightarrow>
        (\<exists>chs n s t. change_pages dv (cur_value c) (em_sdk (embedder (kt_kb w))) chs n s
          \<and> kt_queue w' = kt_queue w @ List.map_filter changed_file chs
          \<and> documents (kt_kb w') = filter (\<lambda>d. wd_source d = ''drive'' \<longrightarrow> Some (wd_external_id d) \<notin> gone_id ` set chs)
              (documents (kt_kb w))
          \<and> text_field n = Inr t \<and> token = (if t \<noteq> [] then t else cur_value c)
          \<and> map_option cur_value (lookup cur_source (kt_cursors w') drive_cursor_key) = Some token)"
proof -
  obtain r1 s where d: "drain_changes fuel dv (cur_value c) [] (em_sdk (embedder (kt_kb w))) = Some (r1, s)"
    using run cursor by (auto simp: incremental_ingest_workspace_def split: option.splits)
  let ?rest = "\<lambda>(chs, new_start). chain (apply_changes chs (0, 0)) (\<lambda>n.
      chain (lift_result (text_field new_start)) (\<lambda>t. ret (n, t)))"
  let ?m = "chain (on_drive (\<lambda>_. (r1, s))) ?rest"
  obtain r2 w2 where m: "?m w = (r2, w2)" by (rule prod.exhaust)
  have "cursor_free ?m" by (intro cursor_frees cursor_free_apply_changes)
  with m have w2: "kt_cursors w2 = kt_cursors w" unfolding cursor_free_def by blast
  have end_: "(r, w') = (case r2 of Inl e \<Rightarrow> (Inl e, w2) | Inr ((applied, removed), t) \<Rightarrow>
      (let token = (if t \<noteq> [] then t else cur_value c)
       in (Inr (applied, removed, token), set_cursor (\<lambda>c. c\<lparr>cur_value := token,
            last_incremental_sync_at := Some (kb_now ke (kt_kb w2))\<rparr>) w2)))"
    using run unfolding incremental_ingest_workspace_def cursor(1) option.case if_not_P[OF cursor(2)] d prod.case m
    by (auto split: sum.splits)
  show ?thesis
  proof (cases r2)
    case (Inl e)
    then show ?thesis using end_ w2 by simp
  next
    case (Inr x)
    obtain a b t where x: "x = ((a, b), t)" by (metis surj_pair)
    let ?w1 = "w\<lparr>kt_kb := (kt_kb w)\<lparr>embedder := (embedder (kt_kb w))\<lparr>em_sdk := s\<rparr>\<rparr>\<rparr>"
    obtain chs n where r1: "r1 = Inr (chs, n)" and "?rest (chs, n) ?w1 = (Inr x, w2)"
      using m Inr by (auto simp: chain_Inr_iff on_drive_def)
    then obtain w3 where "apply_changes chs (0, 0) ?w1 = (Inr (a, b), w3)" and t: "text_field n = Inr t" "w3 = w2"
      by (auto simp: chain_Inr_iff x lift_result_def simp del: lift_result_iff)
    from apply_changes_applied[OF this(1)] have "changes_applied chs w w2" by (simp add: changes_applied_def t(2))
    moreover have "change_pages dv (cur_value c) (em_sdk (embedder (kt_kb w))) chs n s"
      using drain_changes_pages[OF d[unfolded r1]] by simp
    moreover have "kt_queue w' = kt_queue w2" "kt_kb w' = kt_kb w2" "r = Inr (a, b, if t \<noteq> [] then t else cur_value c)"
        "w' = set_cursor (\<lambda>ca. ca\<lparr>cur_value := if t \<noteq> [] then t else cur_value c,
           last_incremental_sync_at := Some (kb_now ke (kt_kb w2))\<rparr>) w2"
      using end_ Inr x by (simp_all add: Let_def set_cursor_def)
    moreover have "map_option cur_value (lookup cur_source (kt_cursors w') drive_cursor_key)
        = Some (if t \<noteq> [] then t else cur_value c)"
      unfolding calculation(6) using cursor(1) w2 by (subst set_cursor_value[of w2 c]) auto
    ultimately show ?thesis using t(1) unfolding changes_applied_def by auto
  qed
qed

lemma ingest_keeps_keys:
  assumes "ingest_drive_file ke f kb = (r, kb')" "upsert_drive_file ke f kb = (r1, kb1)" "kb_ok ke kb"
  shows "doc_keys (documents kb') = doc_keys (documents kb1)"
proof (cases r1)
  case (Inl e)
  then show ?thesis using assms by (simp add: ingest_drive_file_def)
next
  case (Inr doc)
  with upsert_drive_file_ok[OF assms(2,3)] have w: "kb_ok ke kb1" "doc \<in> set (documents kb1)" by simp_all
  have fin: "doc_keys (documents kb2) = doc_keys (documents kb1)" if "finish ke ''skipped'' msg doc kb1 = (r2, kb2)" for msg r2 kb2
    using finish_ingested[OF that, of kb1] w by (simp add: working_def ingested_def)
  have ing: "doc_keys (documents kb2) = doc_keys (documents kb1)" if "ingest_document ke doc f kb1 = (r2, kb2)" for r2 kb2
    using ingest_document_ok[OF that w] by (simp add: ingested_def)
  show ?thesis using assms(1,2) Inr fin ing
    by (auto simp: ingest_drive_file_def split: prod.splits if_splits)
qed

text \<open>
  A removed document can come back: when a file's ingestion is still in the queue while a change run
  removes the document, the worker afterwards writes the document again, whatever the service
  answers about the file that is gone.
\<close>

theorem removed_document_returns:
  assumes "kt_queue w = f # fs" "drive_document f = Inr d" "kb_refuse_doc ke = (\<lambda>_. None)" "kb_ok ke (kt_kb w)"
  shows "lookup wd_key (documents (remove_document ''drive'' (wd_external_id d) (kt_kb w))) (''drive'', wd_external_id d) = None
    \<and> lookup wd_key (documents (kt_kb (worker ke
         (w\<lparr>kt_kb := remove_document ''drive'' (wd_external_id d) (kt_kb w)\<rparr>)))) (''drive'', wd_external_id d) \<noteq> None"
proof
  let ?k = "(''drive'', wd_external_id d)" and ?kb = "remove_document ''drive'' (wd_external_id d) (kt_kb w)"
  show gone: "lookup wd_key (documents ?kb) ?k = None"
    by (auto simp: lookup_None_iff remove_documents)
  have key: "wd_key d = ?k" using drive_document_fields[OF assms(2)] by (simp add: wd_key_def)
  obtain r1 kb1 where u: "upsert_drive_file ke f ?kb = (r1, kb1)" by (rule prod.exhaust)
  then have "kb1 = ?kb\<lparr>documents := fst (upsert wd_key (new_document (kb_now ke ?kb) (fresh_id wd_id (documents ?kb)))
      (overwrite_document (kb_now ke ?kb)) d ?k (documents ?kb))\<rparr>"
    using assms(2,3) key by (simp add: upsert_drive_file_def Let_def)
  then have "?k \<in> wd_key ` set (documents kb1)"
    using documents.keys_upsert[of "kb_now ke ?kb" "fresh_id wd_id (documents ?kb)" d ?k "documents ?kb"] by simp
  moreover obtain r2 kb2 where i: "ingest_drive_file ke f ?kb = (r2, kb2)" by (rule prod.exhaust)
  moreover have "wd_key ` set (documents kb2) = wd_key ` set (documents kb1)"
  proof -
    have "map wd_key docs = map (\<lambda>(i, s, e, o'). (s, e)) (doc_keys docs)" for docs
      by (simp add: doc_keys_def wd_key_def comp_def)
    then show ?thesis using ingest_keeps_keys[OF i u remove_document_ok[OF assms(4)]] by (metis set_map)
  qed
  ultimately show "lookup wd_key (documents (kt_kb (worker ke (w\<lparr>kt_kb := ?kb\<rparr>)))) ?k \<noteq> None"
    using assms(1) i by (simp add: worker_def lookup_None_iff)
qed

lemma removed_document_returns_witness:
  "lookup wd_key (documents (kt_kb (worker sample_env \<lparr>kt_kb = remove_document ''drive'' ''f'' (sample_kb False),
     kt_cursors = [], kt_queue = [sample_file]\<rparr>))) (''drive'', ''f'') \<noteq> None"
proof -
  let ?d = "sample_document\<lparr>wd_text_content := [], wd_status := ''pending'', wd_extracted_at := None, wd_indexed_at := None\<rparr>"
  have "drive_document sample_file = Inr ?d"
    by (simp add: drive_document_def sample_file_def owner_email_of_def get_or_def or_else_def dict_get_def
        sliced_text_def sample_document_def)
  moreover have "kb_refuse_doc sample_env = (\<lambda>_. None)" by (simp add: sample_env_def)
  ultimately show ?thesis
    using removed_document_returns[of "\<lparr>kt_kb = sample_kb False, kt_cursors = [], kt_queue = [sample_file]\<rparr>"
        sample_file "[]" ?d sample_env] sample_kb_ok
    by (simp add: sample_document_def)
qed

section \<open>A change run at work\<close>

text \<open>A service with two pages of changes: a file changed, a file removed.\<close>

definition sample_drive :: "bool drive_api" where
  "sample_drive = \<lparr>dv_list = (\<lambda>q t s. (Inl TypeError, s)), dv_start_token = (\<lambda>s. (Inl TypeError, s)),
     dv_changes = (\<lambda>token s. (Inr (if token = ''1''
       then JObj [(''changes'', JList [JObj [(''file'', sample_file)]]), (''nextPageToken'', JStr ''2'')]
       else JObj [(''changes'', JList [JObj [(''removed'', JBool True), (''fileId'', JStr ''f'')]]),
              (''newStartPageToken'', JStr ''9'')]), s))\<rparr>"

definition sample_world :: "(bool, (string, vector) ttl_cache) kt_world" where
  "sample_world = \<lparr>kt_kb = sample_kb True, kt_cursors = [(new_cursor () drive_cursor_key)\<lparr>cur_value := ''1''\<rparr>], kt_queue = []\<rparr>"

lemma sample_changes:
  "dv_changes sample_drive ''1'' s = (Inr (JObj [(''changes'', JList [JObj [(''file'', sample_file)]]), (''nextPageToken'', JStr ''2'')]), s)"
  "dv_changes sample_drive ''2'' s = (Inr (JObj [(''changes'', JList [JObj [(''removed'', JBool True), (''fileId'', JStr ''f'')]]),
     (''newStartPageToken'', JStr ''9'')]), s)"
  by (simp_all add: sample_drive_def)

lemma sample_drain:
  "drain_changes 2 sample_drive ''1'' [] s
    = Some (Inr ([JObj [(''file'', sample_file)], JObj [(''removed'', JBool True), (''fileId'', JStr ''f'')]], JStr ''9''), s)"
  by (simp add: numeral_2_eq_2 sample_changes chain_def ret_def lift_result_def list_at_def dict_get_def)

lemma changes_before_cursor_witness:
  "\<exists>w'. incremental_ingest_workspace 2 sample_env sample_drive sample_world = Some (Inr (1, 1, ''9''), w')
    \<and> map_option cur_value (lookup cur_source (kt_cursors w') drive_cursor_key) = Some ''9''"
proof -
  have cursor: "lookup cur_source (kt_cursors sample_world) drive_cursor_key = Some ((new_cursor () drive_cursor_key)\<lparr>cur_value := ''1''\<rparr>)"
    by (simp add: sample_world_def lookup_Cons new_cursor_def)
  obtain w' where run: "incremental_ingest_workspace 2 sample_env sample_drive sample_world = Some (Inr (1, 1, ''9''), w')"
    unfolding incremental_ingest_workspace_def cursor
    by (simp add: sample_drain chain_def on_drive_def apply_change_def ret_def lift_result_def
        delay_def on_kb_def is_removal_def removed_id_def get_or_def or_else_def dict_get_def sample_file_def Let_def)
  from changes_before_cursor[OF run cursor] run show ?thesis by auto
qed

end
