(* ===== verification/IsoFormat.thy ===== *)
theory IsoFormat
  imports IsoTime
begin

text \<open>
  \<open>datetime.isoformat\<close> of an aware instant in UTC, as \<open>timezone.now().isoformat()\<close> writes it, and its inverse: a
  day number is split into year, month and day the way the \<open>datetime\<close> module does, by cycles of 400,
  100, 4 and 1 years.
\<close>

section \<open>From a day number to a date\<close>

fun split_month :: "nat list \<Rightarrow> nat \<Rightarrow> nat \<Rightarrow> nat \<times> nat" where
  "split_month [] m n = (m, Suc n)"
| "split_month (l # ls) m n = (if n < l then (m, Suc n) else split_month ls (Suc m) (n - l))"

text \<open>\<open>n\<close> counts the days since 0001-01-01; the result is the year and the day within it.\<close>

definition split_year :: "nat \<Rightarrow> nat \<times> nat" where
  "split_year n =
     (let a = n div 146097; n = n mod 146097; b = n div 36524; n = n mod 36524; c = n div 1461; n = n mod 1461;
          d = n div 365; y = 400 * a + 100 * b + 4 * c + d + 1
      in if b = 4 \<or> d = 4 then (y - 1, 365) else (y, n mod 365))"

definition civil_date :: "int \<Rightarrow> nat \<times> nat \<times> nat" where
  "civil_date day =
     (let (y, n) = split_year (nat (day + 719162)) in (y, split_month (map (month_length y) [1..<13]) 1 n))"

definition year_days :: "nat \<Rightarrow> nat" where
  "year_days y = (if leap_year y then 366 else 365)"

lemma days_before_year_cycles:
  assumes "b < 4" "c < 25" "d < 4"
  shows "days_before_year (400 * a + 100 * b + 4 * c + d + 1) = 146097 * a + 36524 * b + 1461 * c + 365 * d"
proof -
  let ?z = "400 * a + 100 * b + 4 * c + d"
  have z: "?z div 4 = 100 * a + 25 * b + c" "?z div 100 = 4 * a + b" "?z div 400 = a"
    using assms by simp_all
  show ?thesis unfolding days_before_year_def by (simp add: z Let_def)
qed

lemma mod_whole: "0 < x \<Longrightarrow> x \<le> m \<Longrightarrow> x mod m = 0 \<longleftrightarrow> x = m" for x m :: nat
  by (cases "x = m") simp_all

lemma leap_year_cycles:
  assumes "b < 4" "c < 25" "d < 4"
  shows "leap_year (400 * a + 100 * b + 4 * c + d + 1) \<longleftrightarrow> d = 3 \<and> (c = 24 \<longrightarrow> b = 3)"
proof -
  let ?y = "400 * a + 100 * b + 4 * c + d + 1"
  have y: "?y = (d + 1) + 4 * (100 * a + 25 * b + c)" "?y = (4 * c + d + 1) + 100 * (4 * a + b)"
      "?y = (100 * b + 4 * c + d + 1) + 400 * a" by simp_all
  have "?y mod 4 = 0 \<longleftrightarrow> d = 3" unfolding y(1) mod_mult_self2 using assms(3) by presburger
  moreover have "?y mod 100 = 0 \<longleftrightarrow> 4 * c + d + 1 = 100"
    unfolding y(2) mod_mult_self2 using assms by (intro mod_whole) simp_all
  moreover have "?y mod 400 = 0 \<longleftrightarrow> 100 * b + 4 * c + d + 1 = 400"
    unfolding y(3) mod_mult_self2 using assms by (intro mod_whole) simp_all
  moreover have "4 * c + d + 1 = 100 \<longleftrightarrow> c = 24 \<and> d = 3" using assms by linarith
  moreover have "100 * b + 4 * c + d + 1 = 400 \<longleftrightarrow> b = 3 \<and> c = 24 \<and> d = 3" using assms by linarith
  ultimately show ?thesis unfolding leap_year_def by auto
qed

lemma split_year_correct:
  assumes "split_year n = (y, r)"
  shows "n = days_before_year y + r" "r < year_days y" "1 \<le> y"
proof -
  define a r1 where "a = n div 146097" and "r1 = n mod 146097"
  define b r2 where "b = r1 div 36524" and "r2 = r1 mod 36524"
  define c r3 where "c = r2 div 1461" and "r3 = r2 mod 1461"
  define d e where "d = r3 div 365" and "e = r3 mod 365"
  have n: "n = 146097 * a + r1" "r1 = 36524 * b + r2" "r2 = 1461 * c + r3" "r3 = 365 * d + e"
    unfolding a_def r1_def b_def r2_def c_def r3_def d_def e_def by simp_all
  have lt: "r1 < 146097" "r2 < 36524" "r3 < 1461" "e < 365" unfolding r1_def r2_def r3_def e_def by simp_all
  then have le: "b \<le> 4" "c \<le> 24" "d \<le> 4" using n by linarith+
  have s: "(y, r) = (if b = 4 \<or> d = 4 then (400 * a + 100 * b + 4 * c + d, 365)
      else (400 * a + 100 * b + 4 * c + d + 1, e))"
    using assms unfolding split_year_def Let_def a_def r1_def b_def r2_def c_def r3_def d_def e_def by (auto split: if_splits)
  consider (b4) "b = 4" "c = 0" "d = 0" "e = 0" | (d4) "b < 4" "d = 4" "e = 0" | (plain) "b < 4" "d < 4"
    using n lt le by linarith
  then have "n = days_before_year y + r \<and> r < year_days y \<and> 1 \<le> y"
  proof cases
    case b4
    then have y: "y = 400 * a + 100 * 3 + 4 * 24 + 3 + 1" "r = 365" using s by simp_all
    have "leap_year y" unfolding y using leap_year_cycles[of 3 24 3 a] by simp
    moreover have "days_before_year y = 146097 * a + 36524 * 3 + 1461 * 24 + 365 * 3"
      unfolding y by (rule days_before_year_cycles) simp_all
    ultimately show ?thesis using n b4 y by (simp add: year_days_def)
  next
    case d4
    then have y: "y = 400 * a + 100 * b + 4 * c + 3 + 1" "r = 365" using s by simp_all
    have c: "c < 24 \<or> b = 3" using n lt d4 le by linarith
    have "leap_year y" unfolding y using leap_year_cycles[of b c 3 a] d4 le c by auto
    moreover have "days_before_year y = 146097 * a + 36524 * b + 1461 * c + 365 * 3"
      unfolding y using d4 le by (intro days_before_year_cycles) simp_all
    ultimately show ?thesis using n d4 y by (simp add: year_days_def)
  next
    case plain
    then have y: "y = 400 * a + 100 * b + 4 * c + d + 1" "r = e" using s by simp_all
    have "days_before_year y = 146097 * a + 36524 * b + 1461 * c + 365 * d"
      unfolding y using plain le by (intro days_before_year_cycles) simp_all
    then show ?thesis using n lt y by (simp add: year_days_def)
  qed
  then show "n = days_before_year y + r" "r < year_days y" "1 \<le> y" by blast+
qed

lemma split_month_correct:
  "split_month ls m n = (m', d) \<Longrightarrow> n < sum_list ls \<Longrightarrow>
     m \<le> m' \<and> m' < m + length ls \<and> 1 \<le> d \<and> d \<le> ls ! (m' - m) \<and> n + 1 = sum_list (take (m' - m) ls) + d"
proof (induction ls m n rule: split_month.induct)
  case (2 l ls m n)
  show ?case
  proof (cases "n < l")
    case True
    then show ?thesis using 2 by auto
  next
    case False
    then have "Suc m \<le> m' \<and> m' < Suc m + length ls \<and> 1 \<le> d \<and> d \<le> ls ! (m' - Suc m)
        \<and> n - l + 1 = sum_list (take (m' - Suc m) ls) + d"
      using 2 by auto
    moreover from this have "m' - m = Suc (m' - Suc m)" by linarith
    ultimately show ?thesis using False by auto
  qed
qed simp

lemma year_months: "sum_list (map (month_length y) [1..<13]) = year_days y"
  by (simp add: month_length_def year_days_def upt_rec)

text \<open>\<open>date\<close> and its day number, for the dates from 0001-01-01 to 9999-12-31.\<close>

lemma civil_date_correct:
  assumes "- 719162 \<le> day" "day \<le> 2932896" "civil_date day = (y, m, d)"
  shows "valid_date y m d" "day_number y m d = day"
proof -
  obtain n where n: "split_year (nat (day + 719162)) = (y, n)" "split_month (map (month_length y) [1..<13]) 1 n = (m, d)"
    using assms(3) by (auto simp: civil_date_def split: prod.splits)
  note year = split_year_correct[OF n(1)]
  note month = split_month_correct[OF n(2), unfolded year_months, OF year(2)]
  have "y \<le> 9999"
  proof (rule ccontr)
    assume "\<not> y \<le> 9999"
    then have "3652059 \<le> days_before_year y" unfolding days_before_year_def Let_def by linarith
    then show False using year(1) assms(2) by linarith
  qed
  moreover have len: "map (month_length y) [1..<13] ! (m - 1) = month_length y m"
      "take (m - 1) (map (month_length y) [1..<13]) = map (month_length y) [1..<m]"
    using month by (auto simp: take_map take_upt)
  ultimately show "valid_date y m d" using month year(3) by (simp add: valid_date_def)
  show "day_number y m d = day"
  proof -
    have "int (nat (day + 719162)) = day + 719162" using assms(1) by simp
    moreover have "n + 1 = sum_list (map (month_length y) [1..<m]) + d" using month len(2) by simp
    ultimately show ?thesis unfolding day_number_def using year(1) by linarith
  qed
qed

section \<open>\<open>isoformat\<close>\<close>

text \<open>The last \<open>k\<close> decimal digits of a number.\<close>

fun pad_digits :: "nat \<Rightarrow> nat \<Rightarrow> string" where
  "pad_digits 0 n = []"
| "pad_digits (Suc k) n = pad_digits k (n div 10) @ [digit_char (n mod 10)]"

definition iso_time :: "nat \<Rightarrow> nat \<Rightarrow> string" where
  "iso_time sec f =
     pad_digits 2 (sec div 3600) @ '':'' @ pad_digits 2 (sec div 60 mod 60) @ '':'' @ pad_digits 2 (sec mod 60)
     @ (if f = 0 then [] else ''.'' @ pad_digits 6 f) @ ''+00:00''"

definition isoformat :: "rat \<Rightarrow> string" where
  "isoformat t =
     (let us = \<lfloor>t * 1000000\<rfloor>; r = nat (us mod 86400000000); (y, m, d) = civil_date (us div 86400000000)
      in pad_digits 4 y @ ''-'' @ pad_digits 2 m @ ''-'' @ pad_digits 2 d @ ''T''
         @ iso_time (r div 1000000) (r mod 1000000))"

lemma length_pad_digits [simp]: "length (pad_digits k n) = k"
  by (induction k n rule: pad_digits.induct) simp_all

lemma pad_digits_digit: "c \<in> set (pad_digits k n) \<Longrightarrow> is_digit c"
  by (induction k n rule: pad_digits.induct) (auto simp: is_digit_def digit_char_def)

lemma digits_value_pad: "digits_value (pad_digits k n) = n mod 10 ^ k"
proof (induction k n rule: pad_digits.induct)
  case (2 k n)
  have "(of_char (digit_char (n mod 10)) :: nat) - 48 = n mod 10" by (simp add: digit_char_def)
  moreover have "10 * (n div 10 mod 10 ^ k) + n mod 10 = n mod 10 ^ Suc k"
    by (metis add.commute mod_mult2_eq mult.commute power_Suc2)
  ultimately show ?case using 2 by (simp add: digits_value_def)
qed (simp add: digits_value_def)

lemma take_pad_digits: "n < 10 ^ k \<Longrightarrow> take_digits k (pad_digits k n @ s) = Some (n, s)"
  using pad_digits_digit by (auto simp: take_digits_def digits_value_pad list_all_iff)

lemma expect_append: "expect p (p @ s) = Some s" "expect [c] (c # s) = Some s"
  by (simp_all add: expect_def)

lemma iso_time_parsed:
  assumes "sec < 86400" "f < 1000000"
  shows "Option.bind (iso_time_part (iso_time sec f)) (\<lambda>(secs, rest). Option.bind (iso_offset rest) (\<lambda>off. Some (secs, off)))
    = Some (of_nat sec + of_nat f / 1000000, Some 0)"
proof -
  define h mi s where "h = sec div 3600" and "mi = sec div 60 mod 60" and "s = sec mod 60"
  have "h = sec div 60 div 60" by (simp add: h_def div_mult2_eq[symmetric])
  then have sec: "sec = 3600 * h + 60 * mi + s"
    using div_mult_mod_eq[of sec 60] div_mult_mod_eq[of "sec div 60" 60] unfolding mi_def s_def by linarith
  have lt: "h < 24" "mi < 60" "s < 60" using assms(1) by (simp_all add: h_def mi_def s_def less_mult_imp_div_less)
  have t: "iso_time sec f = pad_digits 2 h @ '':'' @ pad_digits 2 mi @ '':'' @ pad_digits 2 s @
      (if f = 0 then [] else ''.'' @ pad_digits 6 f) @ ''+00:00''"
    by (simp add: iso_time_def h_def mi_def s_def)
  have off: "iso_offset ''+00:00'' = Some (Some 0)" by (simp add: iso_simps)
  have two: "take_digits 2 (pad_digits 2 h @ x) = Some (h, x)" "take_digits 2 (pad_digits 2 mi @ x) = Some (mi, x)"
    "take_digits 2 (pad_digits 2 s @ x) = Some (s, x)" for x using lt by (simp_all add: take_pad_digits)
  have frac: "takeWhile is_digit (pad_digits 6 f @ ''+00:00'') = pad_digits 6 f"
      "dropWhile is_digit (pad_digits 6 f @ ''+00:00'') = ''+00:00''"
    using pad_digits_digit[of _ 6 f] by (simp_all add: takeWhile_append dropWhile_append is_digit_def)
  have "digits_value (pad_digits 6 f) = f" using assms(2) by (simp add: digits_value_pad)
  moreover have "pad_digits 6 f \<noteq> []" by (metis length_pad_digits length_0_conv zero_neq_numeral)
  ultimately have part: "iso_time_part (iso_time sec f) = Some (of_nat sec + of_nat f / 1000000, ''+00:00'')"
    unfolding iso_time_part_def t using lt
    by (auto simp: two frac expect_append sec expect_def[of "''.''"])
  show ?thesis by (simp add: part off)
qed

text \<open>What \<open>isoformat\<close> writes reads back as the same instant, to the microsecond.\<close>

lemma fromisoformat_isoformat:
  assumes "- 719162 \<le> \<lfloor>t * 1000000\<rfloor> div 86400000000" "\<lfloor>t * 1000000\<rfloor> div 86400000000 \<le> 2932896"
  obtains day secs where "fromisoformat (isoformat t) = Some (day, secs, Some 0)"
    "of_int (86400 * day) + secs = of_int \<lfloor>t * 1000000\<rfloor> / (1000000 :: rat)"
proof -
  define us where "us = \<lfloor>t * 1000000\<rfloor>"
  define r where "r = nat (us mod 86400000000)"
  obtain y m d where c: "civil_date (us div 86400000000) = (y, m, d)" by (metis prod_cases3)
  note date = civil_date_correct[OF assms[folded us_def] c]
  have r: "r div 1000000 < 86400" "r mod 1000000 < 1000000" unfolding r_def by (simp_all add: nat_less_iff less_mult_imp_div_less)
  have iso: "isoformat t = pad_digits 4 y @ ''-'' @ pad_digits 2 m @ ''-'' @ pad_digits 2 d @ ''T''
      @ iso_time (r div 1000000) (r mod 1000000)"
    by (simp add: isoformat_def Let_def us_def[symmetric] r_def[symmetric] c)
  have "m < 100" "d < 100" "y < 10000"
    using date(1) by (auto simp: valid_date_def month_length_def split: if_splits)
  then have part: "iso_date_part (isoformat t) = Some (us div 86400000000, ''T'' @ iso_time (r div 1000000) (r mod 1000000))"
    unfolding iso_date_part_def iso using date by (simp add: take_pad_digits expect_append)
  let ?secs = "of_nat (r div 1000000) + of_nat (r mod 1000000) / 1000000 :: rat"
  have "fromisoformat (isoformat t) = Some (us div 86400000000, ?secs, Some 0)"
    using iso_time_parsed[OF r] unfolding fromisoformat_def part by (auto simp: bind_eq_Some_conv)
  moreover have "of_int (86400 * (us div 86400000000)) + ?secs = of_int us / (1000000 :: rat)"
  proof -
    have "of_nat r = (1000000 * of_nat (r div 1000000) + of_nat (r mod 1000000) :: rat)"
      by (metis mult_div_mod_eq of_nat_add of_nat_mult of_nat_numeral)
    then have "?secs = of_nat r / 1000000" by (simp add: add_divide_distrib)
    also have "\<dots> = of_int (us mod 86400000000) / 1000000" by (simp add: r_def)
    finally have secs: "?secs = of_int (us mod 86400000000) / 1000000" .
    have "of_int us = (86400000000 * of_int (us div 86400000000) + of_int (us mod 86400000000) :: rat)"
      by (metis mult_div_mod_eq of_int_add of_int_mult of_int_numeral)
    then show ?thesis unfolding secs by (simp add: add_divide_distrib)
  qed
  ultimately show thesis using that us_def by blast
qed

lemma no_Z_zulu: "CHR ''Z'' \<notin> set s \<Longrightarrow> zulu s = s"
  by (induction s) (auto simp: zulu_def)

lemma zulu_isoformat [simp]: "zulu (isoformat t) = isoformat t"
proof (rule no_Z_zulu)
  have "CHR ''Z'' \<notin> set (pad_digits k n)" for k n
    using pad_digits_digit[of "CHR ''Z''" k n] by (auto simp: is_digit_def)
  then show "CHR ''Z'' \<notin> set (isoformat t)"
    by (auto simp: isoformat_def iso_time_def Let_def split: prod.splits)
qed

lemma isoformat_nonempty [simp]: "isoformat t \<noteq> []"
  by (simp add: isoformat_def Let_def split: prod.split)


end
