(* ===== verification/UrlEncode.thy ===== *)
theory UrlEncode
  imports PyValues
begin

text \<open>
  The encodings of the standard library the OAuth flows use: UTF-8 on code points below 256,
  \<open>urllib.parse.urlencode\<close> and base64. For \<open>urlencode\<close> a reference decoder is given, and the encoding is
  shown to lose nothing.
\<close>

section \<open>Bytes\<close>

definition utf8_char :: "char \<Rightarrow> nat list" where
  "utf8_char c = (let n = (of_char c :: nat) in if n < 128 then [n] else [192 + n div 64, 128 + n mod 64])"

definition utf8 :: "string \<Rightarrow> nat list" where
  "utf8 s = concat (map utf8_char s)"

lemma utf8_simps [simp]: "utf8 [] = []" "utf8 (c # s) = utf8_char c @ utf8 s"
  by (simp_all add: utf8_def)

lemma utf8_char_bytes: "b \<in> set (utf8_char c) \<Longrightarrow> b < 256"
proof -
  have "(of_char c :: nat) div 64 < 4" using nat_of_char_less_256[of c] by (simp add: less_mult_imp_div_less)
  moreover have "(of_char c :: nat) mod 64 < 64" by simp
  ultimately show "b \<in> set (utf8_char c) \<Longrightarrow> b < 256" by (auto simp: utf8_char_def Let_def split: if_splits)
qed

lemma utf8_char_prefix: "utf8_char c @ x = utf8_char c' @ x' \<Longrightarrow> c = c' \<and> x = x'"
proof -
  assume eq: "utf8_char c @ x = utf8_char c' @ x'"
  have "(of_char c :: nat) div 64 = of_char c' div 64" "(of_char c :: nat) mod 64 = of_char c' mod 64" "x = x'"
    using eq by (auto simp: utf8_char_def Let_def split: if_splits)
  then show ?thesis by (metis div_mult_mod_eq of_char_eq_iff)
qed

lemma utf8_inj: "utf8 s = utf8 s' \<longleftrightarrow> s = s'"
proof
  show "utf8 s = utf8 s' \<Longrightarrow> s = s'"
  proof (induction s arbitrary: s')
    case Nil
    then show ?case by (cases s') (auto simp: utf8_char_def Let_def split: if_splits)
  next
    case (Cons c s)
    then obtain c' r where s': "s' = c' # r"
      by (cases s') (auto simp: utf8_char_def Let_def split: if_splits)
    with Cons.prems have "utf8_char c @ utf8 s = utf8_char c' @ utf8 r" by simp
    with Cons.IH s' utf8_char_prefix show ?case by blast
  qed
qed simp

section \<open>\<open>urlencode\<close>\<close>

definition unreserved :: "char \<Rightarrow> bool" where
  "unreserved c =
     (let n = (of_char c :: nat)
      in is_digit c \<or> (65 \<le> n \<and> n \<le> 90) \<or> (97 \<le> n \<and> n \<le> 122) \<or> c \<in> set ''_.-~'')"

definition hex_upper :: "nat \<Rightarrow> char" where
  "hex_upper d = char_of (if d < 10 then 48 + d else 55 + d)"

definition percent :: "nat \<Rightarrow> string" where
  "percent b = [CHR ''%'', hex_upper (b div 16), hex_upper (b mod 16)]"

definition quote_char :: "char \<Rightarrow> string" where
  "quote_char c =
     (if unreserved c then [c] else if c = CHR '' '' then ''+'' else concat (map percent (utf8_char c)))"

definition quote_plus :: "string \<Rightarrow> string" where
  "quote_plus s = concat (map quote_char s)"

definition urlencode :: "(string \<times> string) list \<Rightarrow> string" where
  "urlencode ps = join ''&'' (map (\<lambda>(k, v). quote_plus k @ ''='' @ quote_plus v) ps)"

text \<open>The reference decoder: what a server reads from a query string.\<close>

definition hex_digit :: "char \<Rightarrow> nat" where
  "hex_digit c = (let n = (of_char c :: nat) in if n < 58 then n - 48 else n - 55)"

fun unquote_plus :: "string \<Rightarrow> nat list" where
  "unquote_plus [] = []"
| "unquote_plus (c # cs) =
     (if c = CHR ''+'' then 32 # unquote_plus cs
      else if c = CHR ''%'' then
        (case cs of a # b # r \<Rightarrow> (16 * hex_digit a + hex_digit b) # unquote_plus r | _ \<Rightarrow> [])
      else of_char c # unquote_plus cs)"

fun split_on :: "'a \<Rightarrow> 'a list \<Rightarrow> 'a list list" where
  "split_on c [] = [[]]"
| "split_on c (x # xs) =
     (if x = c then [] # split_on c xs
      else case split_on c xs of [] \<Rightarrow> [[x]] | p # ps \<Rightarrow> (x # p) # ps)"

definition parse_query :: "string \<Rightarrow> (nat list \<times> nat list) list" where
  "parse_query q =
     map (\<lambda>p. (unquote_plus (takeWhile (\<lambda>c. c \<noteq> CHR ''='') p), unquote_plus (drop 1 (dropWhile (\<lambda>c. c \<noteq> CHR ''='') p))))
       (split_on (CHR ''&'') q)"

lemma hex_digit_upper: "d < 16 \<Longrightarrow> hex_digit (hex_upper d) = d"
  by (simp add: hex_digit_def hex_upper_def)

lemma unquote_percents:
  "list_all (\<lambda>b. b < 256) bs \<Longrightarrow> unquote_plus (concat (map percent bs) @ r) = bs @ unquote_plus r"
proof (induction bs)
  case (Cons b bs)
  have "b div 16 < 16" using Cons.prems by (simp add: less_mult_imp_div_less)
  then have "16 * hex_digit (hex_upper (b div 16)) + hex_digit (hex_upper (b mod 16)) = b"
    by (simp add: hex_digit_upper)
  with Cons show ?case by (simp add: percent_def)
qed simp

lemma unquote_quote_char: "unquote_plus (quote_char c @ r) = utf8_char c @ unquote_plus r"
proof (cases "unreserved c")
  case True
  then have "c \<noteq> CHR ''+''" "c \<noteq> CHR ''%''" "(of_char c :: nat) < 128"
    by (auto simp: unreserved_def is_digit_def Let_def)
  with True show ?thesis by (simp add: quote_char_def utf8_char_def)
next
  case False
  show ?thesis
  proof (cases "c = CHR '' ''")
    case True
    with False show ?thesis by (simp add: quote_char_def utf8_char_def)
  next
    case blank: False
    have "list_all (\<lambda>b. b < 256) (utf8_char c)" using utf8_char_bytes by (auto simp: list_all_iff)
    from unquote_percents[OF this] show ?thesis using False blank by (simp add: quote_char_def)
  qed
qed

lemma unquote_quote: "unquote_plus (quote_plus s) = utf8 s"
proof -
  have "unquote_plus (quote_plus s @ r) = utf8 s @ unquote_plus r" for r
    by (induction s) (simp_all add: quote_plus_def unquote_quote_char)
  from this[of "[]"] show ?thesis by simp
qed

lemma quote_plus_chars: "c \<in> set (quote_plus s) \<Longrightarrow> c \<noteq> CHR ''&'' \<and> c \<noteq> CHR ''=''"
proof -
  have hex: "hex_upper d \<noteq> CHR ''&'' \<and> hex_upper d \<noteq> CHR ''=''" if "d < 16" for d
  proof -
    have "48 \<le> (of_char (hex_upper d) :: nat)" "(of_char (hex_upper d) :: nat) \<noteq> 61" using that by (auto simp: hex_upper_def)
    then show ?thesis by auto
  qed
  have bytes: "b div 16 < 16" if "b \<in> set (utf8_char x)" for b x
    using utf8_char_bytes[OF that] by (simp add: less_mult_imp_div_less)
  have "c \<noteq> CHR ''&'' \<and> c \<noteq> CHR ''=''" if c: "c \<in> set (quote_char x)" for x
  proof (cases "unreserved x \<or> x = CHR '' ''")
    case True
    have "\<not> unreserved (CHR ''&'')" "\<not> unreserved (CHR ''='')" by (simp_all add: unreserved_def is_digit_def)
    with True c show ?thesis by (auto simp: quote_char_def split: if_splits)
  next
    case False
    with c have "c \<in> set (concat (map percent (utf8_char x)))" by (simp add: quote_char_def)
    then obtain b where "b \<in> set (utf8_char x)" "c \<in> set (percent b)" unfolding set_concat set_map by blast
    then have "b \<in> set (utf8_char x)" "c \<in> {CHR ''%'', hex_upper (b div 16), hex_upper (b mod 16)}"
      by (simp_all add: percent_def)
    with hex[of "b div 16"] hex[of "b mod 16"] bytes show ?thesis by auto
  qed
  then show "c \<in> set (quote_plus s) \<Longrightarrow> c \<noteq> CHR ''&'' \<and> c \<noteq> CHR ''=''" by (auto simp: quote_plus_def)
qed

lemma split_on_none: "c \<notin> set p \<Longrightarrow> split_on c p = [p]"
  by (induction p) auto

lemma split_on_append: "c \<notin> set p \<Longrightarrow> split_on c (p @ c # q) = p # split_on c q"
  by (induction p) auto

lemma split_on_join: "ps \<noteq> [] \<Longrightarrow> list_all (\<lambda>p. c \<notin> set p) ps \<Longrightarrow> split_on c (join [c] ps) = ps"
  by (induction "[c]" ps rule: join.induct) (auto simp: split_on_none split_on_append)

text \<open>A server reads from the query exactly the parameters that were encoded.\<close>

lemma parse_urlencode:
  assumes "ps \<noteq> []"
  shows "parse_query (urlencode ps) = map (\<lambda>(k, v). (utf8 k, utf8 v)) ps"
proof -
  let ?pair = "\<lambda>(k, v). quote_plus k @ ''='' @ quote_plus v"
  have "list_all (\<lambda>p. CHR ''&'' \<notin> set p) (map ?pair ps)"
    using quote_plus_chars by (fastforce simp: list_all_iff)
  with assms have split: "split_on (CHR ''&'') (urlencode ps) = map ?pair ps"
    unfolding urlencode_def by (intro split_on_join) simp_all
  have "takeWhile (\<lambda>c. c \<noteq> CHR ''='') (quote_plus k @ CHR ''='' # v) = quote_plus k"
    "dropWhile (\<lambda>c. c \<noteq> CHR ''='') (quote_plus k @ CHR ''='' # v) = CHR ''='' # v" for k v
    using quote_plus_chars by (auto simp: takeWhile_append dropWhile_append)
  then show ?thesis unfolding parse_query_def split by (auto simp: unquote_quote)
qed

section \<open>base64\<close>

definition b64_char :: "bool \<Rightarrow> nat \<Rightarrow> char" where
  "b64_char urlsafe d =
     (if d < 26 then char_of (65 + d) else if d < 52 then char_of (71 + d) else if d < 62 then char_of (d - 4)
      else if d = 62 then (if urlsafe then CHR ''-'' else CHR ''+'') else if urlsafe then CHR ''_'' else CHR ''/'')"

fun base64 :: "bool \<Rightarrow> nat list \<Rightarrow> string" where
  "base64 u [] = []"
| "base64 u [a] = [b64_char u (a div 4), b64_char u (16 * (a mod 4)), CHR ''='', CHR ''='']"
| "base64 u [a, b] =
     [b64_char u (a div 4), b64_char u (16 * (a mod 4) + b div 16), b64_char u (4 * (b mod 16)), CHR ''='']"
| "base64 u (a # b # c # r) =
     [b64_char u (a div 4), b64_char u (16 * (a mod 4) + b div 16), b64_char u (4 * (b mod 16) + c div 64),
      b64_char u (c mod 64)] @ base64 u r"

lemma base64_examples:
  "base64 False (utf8 ''id:secret'') = ''aWQ6c2VjcmV0''" "base64 False (utf8 ''ab'') = ''YWI=''"
  "urlencode [(''scope'', ''a b''), (''redirect_uri'', ''https://x/y'')] = ''scope=a+b&redirect_uri=https%3A%2F%2Fx%2Fy''"
  by code_simp+

end
