(* ===== verification/McpGateway.thy ===== *)
theory McpGateway
  imports Snapshot TtlCache IsoFormat UrlEncode
begin

text \<open>
  The gateway of \<open>data_access/mcp/gateway.py\<close>, through which every call to an MCP server passes: the
  rate limit, the credentials of \<open>data_access/models.py\<close> with their encryption, the refresh of tokens
  and the audit rows; and the two Google integrations of \<open>mcp/integrations/\<close> as far as the gateway
  reaches them. Parameters: the cache, Fernet, JSON, SHA-256, the clocks and the HTTP services behind an
  integration, all on a service state \<open>'s\<close>.
\<close>

section \<open>Credentials\<close>

record call_result =
  mr_ok :: bool
  mr_data :: json
  mr_error :: string

record credential_row =
  cr_integration :: nat
  cr_tokens :: string
  cr_updated_at :: rat

record mcp_call =
  mc_integration :: nat
  mc_tool :: string
  mc_params_hash :: string
  mc_ok :: bool
  mc_error :: string
  mc_latency_ms :: int
  mc_created_at :: rat

text \<open>
  An implementation: \<open>refresh_tokens\<close>, and \<open>call\<close>, which works on the service and on the credentials. It may raise, and
  then gives the text of its exception; \<open>None\<close> is a call that has not returned.
\<close>

type_synonym 's backend = "'s \<times> credential_row list"

record 's mcp_impl =
  mi_refresh :: "json \<Rightarrow> ('s, json) call"
  mi_call :: "integration \<Rightarrow> string \<Rightarrow> json \<Rightarrow> 's backend \<Rightarrow> ((string, call_result) result \<times> 's backend) option"

record 's gw_env =
  gw_wall :: "'s \<Rightarrow> rat"
  gw_mono :: "'s \<Rightarrow> rat"
  gw_impls :: "string \<Rightarrow> 's mcp_impl option"
  gw_debug :: bool
  gw_secret :: string
  gw_encrypt :: "nat list \<Rightarrow> 's \<Rightarrow> string \<Rightarrow> string"
  gw_decrypt :: "nat list \<Rightarrow> string \<Rightarrow> string option"
  gw_dumps :: "json \<Rightarrow> string"
  gw_loads :: "string \<Rightarrow> (py_error, json) result"
  gw_hash :: "json \<Rightarrow> string"

record ('s, 'c) gw_world =
  gw_service :: 's
  gw_cache :: 'c
  gw_credentials :: "credential_row list"
  gw_calls :: "mcp_call list"

definition insecure_default_key :: string where
  "insecure_default_key = ''insecure-dev-cryptography-key-change''"

definition min_key_length :: nat where
  "min_key_length = 32"

text \<open>The key \<open>_fernet\<close> builds its cipher with (before \<open>urlsafe_b64encode\<close>, which Fernet undoes).\<close>

definition fernet_key :: "bool \<Rightarrow> string \<Rightarrow> (py_error, nat list) result" where
  "fernet_key debug raw_text =
     (if \<not> debug \<and> raw_text = insecure_default_key
      then Inl (RuntimeError ''CRYPTOGRAPHY_KEY is set to the insecure development default'')
      else if length raw_text < min_key_length
      then Inl (RuntimeError ''CRYPTOGRAPHY_KEY must be at least 32 characters'')
      else Inr (take min_key_length (utf8 raw_text)))"

definition set_tokens :: "'s gw_env \<Rightarrow> json \<Rightarrow> 's \<Rightarrow> (py_error, string) result" where
  "set_tokens g tokens s =
     andthen (fernet_key (gw_debug g) (gw_secret g)) (\<lambda>key. Inr (gw_encrypt g key s (gw_dumps g tokens)))"

definition get_tokens :: "'s gw_env \<Rightarrow> string \<Rightarrow> (py_error, json) result" where
  "get_tokens g encrypted =
     andthen (fernet_key (gw_debug g) (gw_secret g)) (\<lambda>key.
     case gw_decrypt g key encrypted of None \<Rightarrow> Inl ValueError | Some raw \<Rightarrow> gw_loads g raw)"

section \<open>The gateway\<close>

definition rate_limit_per_minute :: nat where
  "rate_limit_per_minute = 60"

definition minute_window :: "rat \<Rightarrow> int" where
  "minute_window t = \<lfloor>t / 60\<rfloor>"

definition rate_key :: "nat \<Rightarrow> int \<Rightarrow> string" where
  "rate_key pk window = ''mcp:rl:'' @ show_nat pk @ '':'' @ show_int window"

definition rate_limit_exceeded :: py_error where
  "rate_limit_exceeded = OtherError ''RateLimitExceeded''"

definition window_count :: "(string \<Rightarrow> rat \<Rightarrow> 'c \<Rightarrow> nat option) \<Rightarrow> nat \<Rightarrow> rat \<Rightarrow> 'c \<Rightarrow> nat" where
  "window_count cget pk t c = (case cget (rate_key pk (minute_window t)) t c of None \<Rightarrow> 0 | Some n \<Rightarrow> n)"

definition enforce_rate_limit ::
  "(string \<Rightarrow> rat \<Rightarrow> 'c \<Rightarrow> nat option) \<Rightarrow> (string \<Rightarrow> nat \<Rightarrow> rat \<Rightarrow> rat \<Rightarrow> 'c \<Rightarrow> 'c) \<Rightarrow> nat \<Rightarrow> rat \<Rightarrow> 'c
     \<Rightarrow> (py_error, unit) result \<times> 'c" where
  "enforce_rate_limit cget cset pk t c =
     (let n = window_count cget pk t c
      in if rate_limit_per_minute \<le> n then (Inl rate_limit_exceeded, c)
         else (Inr (), cset (rate_key pk (minute_window t)) (n + 1) 120 t c))"

text \<open>A naive \<open>expires_at\<close> cannot be subtracted from: \<open>TypeError\<close>, which is not caught.\<close>

definition expiring_soon :: "rat \<Rightarrow> json \<Rightarrow> (py_error, bool) result" where
  "expiring_soon t expires =
     (case expires of
        JStr s \<Rightarrow>
          (case fromisoformat (zulu s) of
             None \<Rightarrow> Inr False
           | Some (_, _, None) \<Rightarrow> Inl TypeError
           | Some (day, secs, Some off) \<Rightarrow> Inr (of_int (86400 * day) + secs - off - t < 300))
      | _ \<Rightarrow> Inl AttributeError)"

definition audit_row ::
  "'s gw_env \<Rightarrow> integration \<Rightarrow> string \<Rightarrow> json \<Rightarrow> bool \<Rightarrow> string \<Rightarrow> int \<Rightarrow> rat \<Rightarrow> mcp_call" where
  "audit_row g i tool params ok err latency t =
     \<lparr>mc_integration = integration_id i, mc_tool = tool, mc_params_hash = gw_hash g params, mc_ok = ok,
      mc_error = take 200 err, mc_latency_ms = latency, mc_created_at = t\<rparr>"

text \<open>\<open>int((time.monotonic() - start) * 1000)\<close>; a monotonic clock does not run backwards.\<close>

definition latency_ms :: "rat \<Rightarrow> rat \<Rightarrow> int" where
  "latency_ms start t = \<lfloor>(t - start) * 1000\<rfloor>"

definition audit ::
  "'s gw_env \<Rightarrow> integration \<Rightarrow> string \<Rightarrow> json \<Rightarrow> bool \<Rightarrow> string \<Rightarrow> rat \<Rightarrow> ('s, 'c) gw_world \<Rightarrow> ('s, 'c) gw_world" where
  "audit g i tool params ok err start w =
     w\<lparr>gw_calls := gw_calls w @ [audit_row g i tool params ok err
          (latency_ms start (gw_mono g (gw_service w))) (gw_wall g (gw_service w))]\<rparr>"

text \<open>The tokens to use, after a refresh when they are about to expire.\<close>

definition save_tokens :: "nat \<Rightarrow> string \<Rightarrow> rat \<Rightarrow> credential_row list \<Rightarrow> credential_row list" where
  "save_tokens pk enc t rows =
     map (\<lambda>r. if cr_integration r = pk then r\<lparr>cr_tokens := enc, cr_updated_at := t\<rparr> else r) rows"

definition refresh_if_expiring ::
  "'s gw_env \<Rightarrow> 's mcp_impl \<Rightarrow> nat \<Rightarrow> json \<Rightarrow> ('s, 'c) gw_world \<Rightarrow> (py_error, unit) result \<times> ('s, 'c) gw_world" where
  "refresh_if_expiring g impl pk tokens w =
     (case andthen (jget tokens ''expires_at'') (\<lambda>v.
             if truth v then expiring_soon (gw_wall g (gw_service w)) v else Inr False) of
        Inl e \<Rightarrow> (Inl e, w)
      | Inr False \<Rightarrow> (Inr (), w)
      | Inr True \<Rightarrow>
          (case mi_refresh impl tokens (gw_service w) of
             (Inl e, s) \<Rightarrow> (Inl e, w\<lparr>gw_service := s\<rparr>)
           | (Inr new, s) \<Rightarrow>
               (case set_tokens g new s of
                  Inl e \<Rightarrow> (Inl e, w\<lparr>gw_service := s\<rparr>)
                | Inr enc \<Rightarrow> (Inr (), w\<lparr>gw_service := s,
                    gw_credentials := save_tokens pk enc (gw_wall g s) (gw_credentials w)\<rparr>))))"

text \<open>The call itself, with its audit row.\<close>

definition audited_call ::
  "'s gw_env \<Rightarrow> 's mcp_impl \<Rightarrow> integration \<Rightarrow> string \<Rightarrow> json \<Rightarrow> ('s, 'c) gw_world \<Rightarrow> (call_result \<times> ('s, 'c) gw_world) option" where
  "audited_call g impl i tool params w =
     (let start = gw_mono g (gw_service w)
      in case mi_call impl i tool params (gw_service w, gw_credentials w) of
           None \<Rightarrow> None
         | Some (Inl msg, s, creds) \<Rightarrow> Some
             (\<lparr>mr_ok = False, mr_data = JNull, mr_error = msg\<rparr>,
              audit g i tool params False msg start (w\<lparr>gw_service := s, gw_credentials := creds\<rparr>))
         | Some (Inr r, s, creds) \<Rightarrow> Some
             (r, audit g i tool params (mr_ok r) (mr_error r) start (w\<lparr>gw_service := s, gw_credentials := creds\<rparr>)))"

definition gateway_call ::
  "(string \<Rightarrow> rat \<Rightarrow> 'c \<Rightarrow> nat option) \<Rightarrow> (string \<Rightarrow> nat \<Rightarrow> rat \<Rightarrow> rat \<Rightarrow> 'c \<Rightarrow> 'c) \<Rightarrow> 's gw_env
     \<Rightarrow> integration \<Rightarrow> string \<Rightarrow> json \<Rightarrow> ('s, 'c) gw_world \<Rightarrow> ((py_error, call_result) result \<times> ('s, 'c) gw_world) option" where
  "gateway_call cget cset g i tool params w =
     (let params = or_else params (JObj [])
      in case gw_impls g (integration_provider i) of
           None \<Rightarrow> Some (Inl ValueError, w)
         | Some impl \<Rightarrow>
             (case enforce_rate_limit cget cset (integration_id i) (gw_wall g (gw_service w)) (gw_cache w) of
                (Inl e, c) \<Rightarrow> Some (Inl e, w\<lparr>gw_cache := c\<rparr>)
              | (Inr _, c) \<Rightarrow>
                  (let w = w\<lparr>gw_cache := c\<rparr>
                   in case lookup cr_integration (gw_credentials w) (integration_id i) of
                        None \<Rightarrow> Some (Inr \<lparr>mr_ok = False, mr_data = JNull, mr_error = ''no credential''\<rparr>, w)
                      | Some cred \<Rightarrow>
                          (case get_tokens g (cr_tokens cred) of
                             Inl e \<Rightarrow> Some (Inl e, w)
                           | Inr tokens \<Rightarrow>
                               (case refresh_if_expiring g impl (integration_id i) tokens w of
                                  (Inl e, w) \<Rightarrow> Some (Inl e, w)
                                | (Inr _, w) \<Rightarrow> map_option (map_prod Inr id) (audited_call g impl i tool params w))))))"

section \<open>The rate limit over a run\<close>

lemma rate_key_inj: "rate_key pk k = rate_key pk' k' \<longleftrightarrow> pk = pk' \<and> k = k'"
proof
  have split: "takeWhile is_digit (show_nat n @ '':'' @ s) = show_nat n" for n s
    using show_nat_digit[of _ n] by (simp add: takeWhile_append is_digit_def)
  assume "rate_key pk k = rate_key pk' k'"
  then have eq: "show_nat pk @ '':'' @ show_int k = show_nat pk' @ '':'' @ show_int k'" by (simp add: rate_key_def)
  have "show_nat pk = show_nat pk'" using split[of pk "show_int k"] split[of pk' "show_int k'"] eq by simp
  with eq show "pk = pk' \<and> k = k'" by (simp add: show_nat_inj show_int_inj)
qed simp

text \<open>
  A run: gateway calls in any order, for any integrations, by callers who write nothing else under the
  limit's keys; time passes between them and during them. The trail has the integration, the minute and whether the
  call was admitted.
\<close>

inductive gw_run ::
  "(string \<Rightarrow> rat \<Rightarrow> 'c \<Rightarrow> nat option) \<Rightarrow> (string \<Rightarrow> nat \<Rightarrow> rat \<Rightarrow> rat \<Rightarrow> 'c \<Rightarrow> 'c) \<Rightarrow> 's gw_env
     \<Rightarrow> ('s, 'c) gw_world \<Rightarrow> (nat \<times> int \<times> bool) list \<Rightarrow> ('s, 'c) gw_world \<Rightarrow> bool"
  for cget cset g w where
  start: "gw_run cget cset g w [] w"
| called: "gw_run cget cset g w trail w1 \<Longrightarrow> gateway_call cget cset g i tool params w1 = Some (r, w2) \<Longrightarrow>
     gw_impls g (integration_provider i) \<noteq> None \<Longrightarrow>
     gw_run cget cset g w (trail @ [(integration_id i, minute_window (gw_wall g (gw_service w1)), r \<noteq> Inl rate_limit_exceeded)]) w2"
| elapsed: "gw_run cget cset g w trail w1 \<Longrightarrow> gw_wall g (gw_service w1) \<le> gw_wall g s \<Longrightarrow>
     (\<forall>pk k t. cget (rate_key pk k) t c = cget (rate_key pk k) t (gw_cache w1)) \<Longrightarrow>
     gw_run cget cset g w trail (w1\<lparr>gw_service := s, gw_cache := c\<rparr>)"

text \<open>
  What is asked of the services: the wall clock does not run backwards during a call, and the
  gateway's own exception comes from nowhere else.
\<close>

definition gw_honest :: "'s gw_env \<Rightarrow> bool" where
  "gw_honest g \<longleftrightarrow>
     (\<forall>p impl. gw_impls g p = Some impl \<longrightarrow>
        (\<forall>v s. gw_wall g s \<le> gw_wall g (snd (mi_refresh impl v s)) \<and> fst (mi_refresh impl v s) \<noteq> Inl rate_limit_exceeded)
      \<and> (\<forall>i tool v s creds r s' creds'. mi_call impl i tool v (s, creds) = Some (r, s', creds') \<longrightarrow> gw_wall g s \<le> gw_wall g s'))
     \<and> (\<forall>x. gw_loads g x \<noteq> Inl rate_limit_exceeded)"

definition attempts :: "nat \<Rightarrow> int \<Rightarrow> (nat \<times> int \<times> bool) list \<Rightarrow> nat" where
  "attempts pk k trail = length (filter (\<lambda>(pk', k', _). pk' = pk \<and> k' = k) trail)"

definition admissions :: "nat \<Rightarrow> int \<Rightarrow> (nat \<times> int \<times> bool) list \<Rightarrow> nat" where
  "admissions pk k trail = length (filter (\<lambda>(pk', k', ok). pk' = pk \<and> k' = k \<and> ok) trail)"

lemma refresh_if_expiring_frame:
  assumes "refresh_if_expiring g impl pk tokens w = (r, w')" "gw_honest g" "gw_impls g p = Some impl"
  shows "gw_wall g (gw_service w) \<le> gw_wall g (gw_service w') \<and> gw_cache w' = gw_cache w
    \<and> gw_calls w' = gw_calls w \<and> r \<noteq> Inl rate_limit_exceeded"
proof -
  have "gw_wall g (gw_service w) \<le> gw_wall g (snd (mi_refresh impl tokens (gw_service w)))"
      "fst (mi_refresh impl tokens (gw_service w)) \<noteq> Inl rate_limit_exceeded"
    using assms(2,3) by (auto simp: gw_honest_def)
  moreover have "jget tokens ''expires_at'' \<noteq> Inl rate_limit_exceeded"
    by (cases tokens) (simp_all add: rate_limit_exceeded_def)
  ultimately show ?thesis
    using assms(1)
    by (auto simp: refresh_if_expiring_def set_tokens_def fernet_key_def andthen_def expiring_soon_def
        rate_limit_exceeded_def split: sum.splits bool.splits prod.splits json.splits option.splits if_splits)
qed

lemma audited_call_Some:
  assumes "audited_call g impl i tool params w = Some (x, w')"
  obtains r s creds latency t where "mi_call impl i tool params (gw_service w, gw_credentials w) = Some (r, s, creds)"
    "x = (case r of Inl msg \<Rightarrow> \<lparr>mr_ok = False, mr_data = JNull, mr_error = msg\<rparr> | Inr x \<Rightarrow> x)"
    "w' = w\<lparr>gw_service := s, gw_credentials := creds,
       gw_calls := gw_calls w @ [audit_row g i tool params (mr_ok x) (mr_error x) latency t]\<rparr>"
proof -
  obtain r s creds where m: "mi_call impl i tool params (gw_service w, gw_credentials w) = Some (r, s, creds)"
    using assms by (cases "mi_call impl i tool params (gw_service w, gw_credentials w)") (auto simp: audited_call_def Let_def)
  show thesis
    by (rule that[OF m]; cases r) (use assms m in \<open>auto simp: audited_call_def audit_def Let_def\<close>)
qed

lemma audited_call_frame:
  assumes "audited_call g impl i tool params w = Some (x, w')" "gw_honest g" "gw_impls g p = Some impl"
  shows "gw_wall g (gw_service w) \<le> gw_wall g (gw_service w') \<and> gw_cache w' = gw_cache w"
proof -
  obtain r s creds latency t where c: "mi_call impl i tool params (gw_service w, gw_credentials w) = Some (r, s, creds)"
    "w' = w\<lparr>gw_service := s, gw_credentials := creds,
       gw_calls := gw_calls w @ [audit_row g i tool params (mr_ok x) (mr_error x) latency t]\<rparr>"
    by (rule audited_call_Some[OF assms(1)])
  have "gw_wall g (gw_service w) \<le> gw_wall g s" using assms(2,3) c(1) unfolding gw_honest_def by blast
  with c show ?thesis by simp
qed

text \<open>The ways a call can go.\<close>

lemma gateway_call_cases [consumes 1, case_names unknown limited unconnected unreadable stale called]:
  fixes w w' :: "('s, 'c) gw_world"
  assumes "gateway_call cget cset g i tool params w = Some (r, w')"
  defines "t \<equiv> gw_wall g (gw_service w)"
  defines "n \<equiv> window_count cget (integration_id i) t (gw_cache w)"
  defines "w0 \<equiv> w\<lparr>gw_cache := cset (rate_key (integration_id i) (minute_window t)) (n + 1) 120 t (gw_cache w)\<rparr>"
  obtains "gw_impls g (integration_provider i) = None" "r = Inl ValueError" "w' = w"
  | impl where "gw_impls g (integration_provider i) = Some impl" "60 \<le> n" "r = Inl rate_limit_exceeded" "w' = w"
  | impl where "gw_impls g (integration_provider i) = Some impl" "n < 60"
      "lookup cr_integration (gw_credentials w) (integration_id i) = None"
      "r = Inr \<lparr>mr_ok = False, mr_data = JNull, mr_error = ''no credential''\<rparr>" "w' = w0"
  | impl cred e where "gw_impls g (integration_provider i) = Some impl" "n < 60"
      "lookup cr_integration (gw_credentials w) (integration_id i) = Some cred"
      "get_tokens g (cr_tokens cred) = Inl e" "r = Inl e" "w' = w0"
  | impl cred tokens e where "gw_impls g (integration_provider i) = Some impl" "n < 60"
      "lookup cr_integration (gw_credentials w) (integration_id i) = Some cred"
      "get_tokens g (cr_tokens cred) = Inr tokens"
      "refresh_if_expiring g impl (integration_id i) tokens w0 = (Inl e, w')" "r = Inl e"
  | impl cred tokens w1 x where "gw_impls g (integration_provider i) = Some impl" "n < 60"
      "lookup cr_integration (gw_credentials w) (integration_id i) = Some cred"
      "get_tokens g (cr_tokens cred) = Inr tokens"
      "refresh_if_expiring g impl (integration_id i) tokens w0 = (Inr (), w1)"
      "audited_call g impl i tool (or_else params (JObj [])) w1 = Some (x, w')" "r = Inr x"
proof (cases "gw_impls g (integration_provider i)")
  case None
  then show ?thesis using assms(1) that(1) by (simp add: gateway_call_def)
next
  case impl: (Some impl)
  show ?thesis
  proof (cases "n < 60")
    case False
    then have "enforce_rate_limit cget cset (integration_id i) t (gw_cache w) = (Inl rate_limit_exceeded, gw_cache w)"
      by (simp add: enforce_rate_limit_def n_def rate_limit_per_minute_def)
    then show ?thesis using assms(1) impl False that(2) by (simp add: gateway_call_def t_def[symmetric])
  next
    case True
    then have limit: "enforce_rate_limit cget cset (integration_id i) t (gw_cache w) = (Inr (), gw_cache w0)"
      by (simp add: enforce_rate_limit_def n_def w0_def rate_limit_per_minute_def)
    have w0: "w\<lparr>gw_cache := gw_cache w0\<rparr> = w0" "gw_credentials w0 = gw_credentials w" by (simp_all add: w0_def)
    note call = assms(1)[unfolded gateway_call_def Let_def impl option.case t_def[symmetric] limit prod.case sum.case w0]
    show ?thesis
    proof (cases "lookup cr_integration (gw_credentials w) (integration_id i)")
      case None
      then show ?thesis using call that(3)[OF impl True] by simp
    next
      case cred: (Some cred)
      show ?thesis
      proof (cases "get_tokens g (cr_tokens cred)")
        case (Inl e)
        then show ?thesis using call cred that(4)[OF impl True cred] by simp
      next
        case (Inr tokens)
        obtain r1 w1 where f: "refresh_if_expiring g impl (integration_id i) tokens w0 = (r1, w1)" by (rule prod.exhaust)
        show ?thesis
        proof (cases r1)
          case (Inl e)
          then show ?thesis using call cred Inr f that(5)[OF impl True cred Inr] by simp
        next
          case Inr': (Inr u)
          then show ?thesis using call cred Inr f that(6)[OF impl True cred Inr] by auto
        qed
      qed
    qed
  qed
qed

text \<open>What the limit does to a call, its counter and the clock.\<close>

lemma gateway_call_limited:
  fixes w w' :: "('s, 'c) gw_world"
  assumes "gateway_call cget cset g i tool params w = Some (r, w')" "gw_honest g" "gw_impls g (integration_provider i) \<noteq> None"
  defines "t \<equiv> gw_wall g (gw_service w)"
  defines "n \<equiv> window_count cget (integration_id i) t (gw_cache w)"
  shows "if n < 60 then r \<noteq> Inl rate_limit_exceeded \<and> t \<le> gw_wall g (gw_service w')
       \<and> gw_cache w' = cset (rate_key (integration_id i) (minute_window t)) (n + 1) 120 t (gw_cache w)
     else r = Inl rate_limit_exceeded \<and> w' = w"
  using assms(1)
proof (cases rule: gateway_call_cases)
  case (unreadable impl cred e)
  have "e \<noteq> rate_limit_exceeded" using unreadable(4) assms(2)
    by (auto simp: get_tokens_def fernet_key_def andthen_def gw_honest_def rate_limit_exceeded_def split: option.splits if_splits)
  with unreadable show ?thesis by (simp add: n_def t_def)
next
  case (stale impl cred tokens e)
  with refresh_if_expiring_frame[OF stale(5) assms(2) stale(1)] show ?thesis by (simp add: n_def t_def)
next
  case (called impl cred tokens w1 x)
  with refresh_if_expiring_frame[OF called(5) assms(2) called(1)] audited_call_frame[OF called(6) assms(2) called(1)]
  show ?thesis by (auto simp add: n_def t_def)
qed (use assms(3) in \<open>auto simp: n_def t_def\<close>)

lemma window_before: "minute_window t = k \<Longrightarrow> minute_window t' = k \<Longrightarrow> t' < t + 120"
  unfolding minute_window_def by linarith

lemma minute_window_mono: "t \<le> t' \<Longrightarrow> minute_window t \<le> minute_window t'"
  by (simp add: minute_window_def floor_mono divide_right_mono)

text \<open>The counter of a window that is not over holds the calls admitted in it.\<close>

definition rate_inv :: "(string \<Rightarrow> rat \<Rightarrow> 'c \<Rightarrow> nat option) \<Rightarrow> rat \<Rightarrow> (nat \<times> int \<times> bool) list \<Rightarrow> 'c \<Rightarrow> bool" where
  "rate_inv cget now trail c \<longleftrightarrow>
     (\<forall>pk k. admissions pk k trail = min 60 (attempts pk k trail))
     \<and> (\<forall>pk t. now \<le> t \<longrightarrow> window_count cget pk t c = admissions pk (minute_window t) trail)"

lemma counts_snoc [simp]:
  "attempts pk k (trail @ [(pk', k', ok)]) = attempts pk k trail + (if pk' = pk \<and> k' = k then 1 else 0)"
  "admissions pk k (trail @ [(pk', k', ok)]) = admissions pk k trail + (if pk' = pk \<and> k' = k \<and> ok then 1 else 0)"
  by (simp_all add: attempts_def admissions_def)

lemma rate_inv_called:
  assumes cache: "django_cache cget cset cdel" and honest: "gw_honest g" "gw_impls g (integration_provider i) \<noteq> None"
    and inv: "rate_inv cget (gw_wall g (gw_service w)) trail (gw_cache w)"
    and call: "gateway_call cget cset g i tool params w = Some (r, w')"
  shows "rate_inv cget (gw_wall g (gw_service w'))
    (trail @ [(integration_id i, minute_window (gw_wall g (gw_service w)), r \<noteq> Inl rate_limit_exceeded)]) (gw_cache w')"
proof -
  let ?t = "gw_wall g (gw_service w)" and ?pk = "integration_id i"
  define n where "n = window_count cget ?pk ?t (gw_cache w)"
  have n: "n = admissions ?pk (minute_window ?t) trail" using inv by (simp add: rate_inv_def n_def)
  have least: "admissions pk k trail = min 60 (attempts pk k trail)" for pk k using inv by (simp add: rate_inv_def)
  note limited = gateway_call_limited[OF call honest, folded n_def]
  show ?thesis
  proof (cases "n < 60")
    case False
    with limited have "r = Inl rate_limit_exceeded" "w' = w" by simp_all
    moreover have "60 \<le> attempts ?pk (minute_window ?t) trail" using False n least[of ?pk "minute_window ?t"] by simp
    ultimately show ?thesis using inv by (auto simp: rate_inv_def)
  next
    case True
    with limited have w': "r \<noteq> Inl rate_limit_exceeded" "?t \<le> gw_wall g (gw_service w')"
      "gw_cache w' = cset (rate_key ?pk (minute_window ?t)) (n + 1) 120 ?t (gw_cache w)" by simp_all
    have "window_count cget pk t (gw_cache w') = window_count cget pk t (gw_cache w)
        + (if ?pk = pk \<and> minute_window ?t = minute_window t then 1 else 0)"
      if "gw_wall g (gw_service w') \<le> t" for pk t
    proof (cases "?pk = pk \<and> minute_window ?t = minute_window t")
      case True
      from True have "t < ?t + 120" by (intro window_before[of ?t "minute_window ?t" t]) simp_all
      with True have "window_count cget pk t (gw_cache w') = n + 1"
        by (simp add: window_count_def w'(3) django_cache.get_set[OF cache])
      moreover have "window_count cget pk t (gw_cache w) = n"
        using inv True n that w'(2) by (simp add: rate_inv_def)
      ultimately show ?thesis using True by simp
    next
      case False
      then have "rate_key pk (minute_window t) \<noteq> rate_key ?pk (minute_window ?t)" by (auto simp: rate_key_inj)
      with False show ?thesis by (auto simp: window_count_def w'(3) django_cache.get_set_other[OF cache])
    qed
    moreover have "window_count cget pk t (gw_cache w) = admissions pk (minute_window t) trail"
      if "gw_wall g (gw_service w') \<le> t" for pk t
      using inv that w'(2) by (simp add: rate_inv_def)
    moreover have "attempts ?pk (minute_window ?t) trail < 60" using True n least[of ?pk "minute_window ?t"] by simp
    ultimately show ?thesis unfolding rate_inv_def counts_snoc using w'(1) least by simp
  qed
qed

text \<open>
  C13. The gateway's rate limit. Over any run of calls that starts with empty counters, the calls of an
  integration that are admitted within a minute are as many as are made in it, up to sixty.
\<close>

theorem gateway_rate_bound:
  assumes "django_cache cget cset cdel" "gw_honest g" "\<forall>pk k t. cget (rate_key pk k) t (gw_cache w) = None"
    and "gw_run cget cset g w trail w'"
  shows "admissions pk k trail = min 60 (attempts pk k trail)"
proof -
  from assms(4) have "rate_inv cget (gw_wall g (gw_service w')) trail (gw_cache w')"
  proof induction
    case start
    then show ?case using assms(3) by (simp add: rate_inv_def admissions_def attempts_def window_count_def)
  next
    case (called trail w1 i tool params r w2)
    then show ?case using rate_inv_called[OF assms(1,2)] by blast
  next
    case (elapsed trail w1 s c)
    then show ?case by (auto simp: rate_inv_def window_count_def)
  qed
  then show ?thesis by (simp add: rate_inv_def)
qed

section \<open>Audit rows and credentials\<close>

lemma refresh_keeps_calls:
  "refresh_if_expiring g impl pk tokens w = (r, w') \<Longrightarrow> gw_calls w' = gw_calls w"
  by (auto simp: refresh_if_expiring_def split: sum.splits bool.splits prod.splits)

text \<open>
  The audit trail of the gateway. A call that comes back from the integration leaves exactly one
  row, with its tool, the hash of its parameters, whether it succeeded and the first 200 characters
  of its error; a call without a credential and a call that raises (an unknown provider, the rate limit,
  unreadable tokens, a failed refresh) leave none.
\<close>

theorem gateway_audits:
  assumes "gateway_call cget cset g i tool params w = Some (r, w')"
  shows "case r of
      Inl e \<Rightarrow> gw_calls w' = gw_calls w
    | Inr x \<Rightarrow>
        if lookup cr_integration (gw_credentials w) (integration_id i) = None
        then gw_calls w' = gw_calls w \<and> x = \<lparr>mr_ok = False, mr_data = JNull, mr_error = ''no credential''\<rparr>
        else (\<exists>row. gw_calls w' = gw_calls w @ [row] \<and> mc_integration row = integration_id i
          \<and> mc_tool row = tool \<and> mc_params_hash row = gw_hash g (or_else params (JObj []))
          \<and> mc_ok row = mr_ok x \<and> mc_error row = take 200 (mr_error x))"
  using assms
proof (cases rule: gateway_call_cases)
  case (stale impl cred tokens e)
  with refresh_keeps_calls[OF stale(5)] show ?thesis by simp
next
  case (called impl cred tokens w1 x)
  obtain s creds latency t where "w' = w1\<lparr>gw_service := s, gw_credentials := creds,
       gw_calls := gw_calls w1 @ [audit_row g i tool (or_else params (JObj [])) (mr_ok x) (mr_error x) latency t]\<rparr>"
    by (rule audited_call_Some[OF called(6)])
  with called refresh_keeps_calls[OF called(5)] show ?thesis by (simp add: audit_row_def)
qed auto

text \<open>What Fernet is relied on for: a token encrypted under a key decrypts under it.\<close>

definition fernet_law :: "'s gw_env \<Rightarrow> bool" where
  "fernet_law g \<longleftrightarrow> (\<forall>key s x. gw_decrypt g key (gw_encrypt g key s x) = Some x)"

lemma lookup_save_tokens:
  "lookup cr_integration (save_tokens pk enc t rows) k =
     map_option (\<lambda>r. if k = pk then r\<lparr>cr_tokens := enc, cr_updated_at := t\<rparr> else r) (lookup cr_integration rows k)"
  by (induction rows) (auto simp: save_tokens_def lookup_Cons)

lemma get_set_tokens:
  "fernet_law g \<Longrightarrow> set_tokens g v s = Inr enc \<Longrightarrow> get_tokens g enc = gw_loads g (gw_dumps g v)"
  by (auto simp: set_tokens_def get_tokens_def fernet_law_def andthen_Inr_iff)

definition needs_refresh :: "rat \<Rightarrow> json \<Rightarrow> bool" where
  "needs_refresh t tokens \<longleftrightarrow>
     (case jget tokens ''expires_at'' of Inl _ \<Rightarrow> False | Inr v \<Rightarrow> truth v \<and> expiring_soon t v = Inr True)"

text \<open>
  C21. The tokens an integration is called with. When a call comes back from the integration, the integration was
  given a credential that holds, encrypted, what \<open>refresh_tokens\<close> made of the stored tokens, if those were to
  expire within five minutes, and the stored ones untouched otherwise; the credentials of other integrations
  were as before.
\<close>

theorem gateway_stores_refreshed:
  assumes call: "gateway_call cget cset g i tool params w = Some (Inr x, w')" "fernet_law g"
    and cred: "lookup cr_integration (gw_credentials w) (integration_id i) = Some cred"
      "get_tokens g (cr_tokens cred) = Inr tokens"
  shows "\<exists>impl r s creds cred'. gw_impls g (integration_provider i) = Some impl
    \<and> mi_call impl i tool (or_else params (JObj [])) (s, creds) = Some (r, gw_service w', gw_credentials w')
    \<and> lookup cr_integration creds (integration_id i) = Some cred'
    \<and> (if needs_refresh (gw_wall g (gw_service w)) tokens
       then \<exists>new. mi_refresh impl tokens (gw_service w) = (Inr new, s) \<and> get_tokens g (cr_tokens cred') = gw_loads g (gw_dumps g new)
       else s = gw_service w \<and> cred' = cred)
    \<and> (\<forall>pk. pk \<noteq> integration_id i \<longrightarrow> lookup cr_integration creds pk = lookup cr_integration (gw_credentials w) pk)"
  using call(1)
proof (cases rule: gateway_call_cases)
  case (called impl cred' tokens' w1 x')
  let ?t = "gw_wall g (gw_service w)"
  have same: "cred' = cred" "tokens' = tokens" using called(3,4) cred by simp_all
  obtain r s' creds' where w': "mi_call impl i tool (or_else params (JObj [])) (gw_service w1, gw_credentials w1) = Some (r, s', creds')"
      "gw_service w' = s'" "gw_credentials w' = creds'"
    by (rule audited_call_Some[OF called(6)]) simp
  show ?thesis
  proof (cases "needs_refresh ?t tokens")
    case False
    then have "gw_credentials w1 = gw_credentials w" "gw_service w1 = gw_service w"
      using called(5) by (auto simp: refresh_if_expiring_def same needs_refresh_def andthen_def
          split: sum.splits bool.splits if_splits)
    then show ?thesis using False cred w' called(1) by auto
  next
    case True
    then obtain v where "jget tokens ''expires_at'' = Inr v" "truth v" "expiring_soon ?t v = Inr True"
      by (auto simp: needs_refresh_def split: sum.splits)
    then obtain new s enc where new: "mi_refresh impl tokens (gw_service w) = (Inr new, s)" "set_tokens g new s = Inr enc"
        "gw_credentials w1 = save_tokens (integration_id i) enc (gw_wall g s) (gw_credentials w)" "gw_service w1 = s"
      using called(5) by (auto simp: refresh_if_expiring_def same split: prod.splits sum.splits)
    have "lookup cr_integration (gw_credentials w1) (integration_id i) = Some (cred\<lparr>cr_tokens := enc, cr_updated_at := gw_wall g s\<rparr>)"
      using cred by (simp add: new(3) lookup_save_tokens)
    moreover have "get_tokens g enc = gw_loads g (gw_dumps g new)" by (rule get_set_tokens[OF call(2) new(2)])
    moreover have "lookup cr_integration (gw_credentials w1) pk = lookup cr_integration (gw_credentials w) pk"
      if "pk \<noteq> integration_id i" for pk
      using that by (simp add: new(3) lookup_save_tokens option.map_ident)
    ultimately show ?thesis using True called(1) new w' by fastforce
  qed
qed (use cred in auto)

section \<open>A gateway at work\<close>

text \<open>The service is its clock; the stored tokens expire a minute after 1970 began.\<close>

definition sample_tokens :: json where
  "sample_tokens = JObj [(''access_token'', JStr ''a''), (''expires_at'', JStr ''1970-01-01T00:01:00Z'')]"

definition sample_impl :: "rat mcp_impl" where
  "sample_impl = \<lparr>mi_refresh = (\<lambda>v s. (Inr (JObj [(''access_token'', JStr ''b'')]), s + 1)),
     mi_call = (\<lambda>i tool v (s, creds). Some (Inr \<lparr>mr_ok = True, mr_data = v, mr_error = []\<rparr>, s + 1, creds))\<rparr>"

definition sample_gw :: "rat gw_env" where
  "sample_gw = \<lparr>gw_wall = (\<lambda>s. s), gw_mono = (\<lambda>s. s), gw_impls = (\<lambda>p. if p = ''demo'' then Some sample_impl else None),
     gw_debug = True, gw_secret = replicate 32 CHR ''k'', gw_encrypt = (\<lambda>key s x. x), gw_decrypt = (\<lambda>key x. Some x),
     gw_dumps = (\<lambda>v. ''new''), gw_loads = (\<lambda>x. Inr (if x = ''old'' then sample_tokens else JObj [(''access_token'', JStr ''b'')])),
     gw_hash = (\<lambda>v. ''h'')\<rparr>"

definition sample_integration :: integration where
  "sample_integration = \<lparr>integration_id = 7, integration_provider = ''demo'', is_active = True, last_sync_at = None, meta = JNull\<rparr>"

definition sample_gw_world :: "(rat, (string, nat) ttl_cache) gw_world" where
  "sample_gw_world = \<lparr>gw_service = 0, gw_cache = (\<lambda>k. None),
     gw_credentials = [\<lparr>cr_integration = 7, cr_tokens = ''old'', cr_updated_at = 0\<rparr>], gw_calls = []\<rparr>"

lemma sample_gw_simps:
  "gw_wall sample_gw s = s" "gw_mono sample_gw s = s"
  "gw_impls sample_gw p = (if p = ''demo'' then Some sample_impl else None)" "gw_debug sample_gw"
  "gw_secret sample_gw = replicate 32 CHR ''k''" "gw_encrypt sample_gw key s x = x" "gw_decrypt sample_gw key x = Some x"
  "gw_dumps sample_gw v = ''new''"
  "gw_loads sample_gw x = Inr (if x = ''old'' then sample_tokens else JObj [(''access_token'', JStr ''b'')])"
  "gw_hash sample_gw v = ''h''"
  by (simp_all add: sample_gw_def)

lemma sample_expiring: "expiring_soon 0 (JStr ''1970-01-01T00:01:00Z'') = Inr True"
  by (simp add: expiring_soon_def iso_simps upt_rec)

lemma sample_get_tokens: "get_tokens sample_gw ''old'' = Inr sample_tokens"
  by (simp add: get_tokens_def fernet_key_def sample_gw_simps min_key_length_def)

lemma sample_gateway_call:
  "\<exists>w'. gateway_call ttl_get ttl_set sample_gw sample_integration ''t'' JNull sample_gw_world
     = Some (Inr \<lparr>mr_ok = True, mr_data = JObj [], mr_error = []\<rparr>, w')"
  unfolding gateway_call_def
  by (simp add: sample_gw_simps sample_integration_def sample_gw_world_def enforce_rate_limit_def window_count_def
      ttl_defs rate_limit_per_minute_def lookup_Cons sample_get_tokens refresh_if_expiring_def
      sample_tokens_def sample_expiring sample_impl_def set_tokens_def fernet_key_def min_key_length_def
      audited_call_def or_else_def dict_get_def Let_def)

lemma sample_honest: "gw_honest sample_gw"
  by (auto simp: gw_honest_def sample_gw_simps sample_impl_def split: if_splits)

lemma gateway_rate_bound_witness:
  "\<exists>w'. gw_run ttl_get ttl_set sample_gw sample_gw_world [(7, 0, True)] w' \<and> admissions 7 0 [(7, 0, True)] = 1"
proof -
  obtain w' where "gateway_call ttl_get ttl_set sample_gw sample_integration ''t'' JNull sample_gw_world
     = Some (Inr \<lparr>mr_ok = True, mr_data = JObj [], mr_error = []\<rparr>, w')" using sample_gateway_call by blast
  from gw_run.called[OF gw_run.start this]
  have run: "gw_run ttl_get ttl_set sample_gw sample_gw_world [(7, 0, True)] w'"
    by (simp add: sample_gw_simps sample_integration_def sample_gw_world_def minute_window_def)
  moreover have "\<forall>pk k t. ttl_get (rate_key pk k) t (gw_cache sample_gw_world) = None"
    by (simp add: sample_gw_world_def ttl_defs)
  ultimately show ?thesis
    using gateway_rate_bound[OF ttl.django_cache_axioms sample_honest _ run, of 7 0] by (auto simp: attempts_def)
qed

lemma gateway_audits_witness:
  "\<exists>w' row. gateway_call ttl_get ttl_set sample_gw sample_integration ''t'' JNull sample_gw_world
      = Some (Inr \<lparr>mr_ok = True, mr_data = JObj [], mr_error = []\<rparr>, w')
    \<and> gw_calls w' = [row] \<and> mc_tool row = ''t'' \<and> mc_ok row"
proof -
  obtain w' where run: "gateway_call ttl_get ttl_set sample_gw sample_integration ''t'' JNull sample_gw_world
     = Some (Inr \<lparr>mr_ok = True, mr_data = JObj [], mr_error = []\<rparr>, w')" using sample_gateway_call by blast
  from gateway_audits[OF run] run show ?thesis
    by (auto simp: sample_gw_world_def sample_integration_def lookup_Cons)
qed

lemma gateway_stores_refreshed_witness:
  "\<exists>w' s creds cred'. gateway_call ttl_get ttl_set sample_gw sample_integration ''t'' JNull sample_gw_world
      = Some (Inr \<lparr>mr_ok = True, mr_data = JObj [], mr_error = []\<rparr>, w')
    \<and> mi_call sample_impl sample_integration ''t'' (JObj []) (s, creds)
      = Some (Inr \<lparr>mr_ok = True, mr_data = JObj [], mr_error = []\<rparr>, gw_service w', gw_credentials w')
    \<and> lookup cr_integration creds 7 = Some cred'
    \<and> get_tokens sample_gw (cr_tokens cred') = Inr (JObj [(''access_token'', JStr ''b'')])"
proof -
  obtain w' where run: "gateway_call ttl_get ttl_set sample_gw sample_integration ''t'' JNull sample_gw_world
     = Some (Inr \<lparr>mr_ok = True, mr_data = JObj [], mr_error = []\<rparr>, w')" using sample_gateway_call by blast
  have "fernet_law sample_gw" by (simp add: fernet_law_def sample_gw_simps)
  moreover have "lookup cr_integration (gw_credentials sample_gw_world) (integration_id sample_integration)
      = Some \<lparr>cr_integration = 7, cr_tokens = ''old'', cr_updated_at = 0\<rparr>"
    by (simp add: sample_gw_world_def sample_integration_def lookup_Cons)
  moreover have "needs_refresh (gw_wall sample_gw (gw_service sample_gw_world)) sample_tokens"
    by (simp add: needs_refresh_def sample_tokens_def dict_get_def sample_gw_simps sample_gw_world_def sample_expiring)
  ultimately obtain impl r s creds cred' where c: "gw_impls sample_gw ''demo'' = Some impl"
      "mi_call impl sample_integration ''t'' (JObj []) (s, creds) = Some (r, gw_service w', gw_credentials w')"
      "lookup cr_integration creds 7 = Some cred'" "get_tokens sample_gw (cr_tokens cred') = Inr (JObj [(''access_token'', JStr ''b'')])"
    using gateway_stores_refreshed[OF run, of _ sample_tokens] sample_get_tokens
    by (auto simp: sample_gw_simps sample_integration_def or_else_def)
  then have "impl = sample_impl" by (simp add: sample_gw_simps)
  with c run show ?thesis by (auto simp: sample_impl_def)
qed

end
