(* ===== verification/OauthFlows.thy ===== *)
theory OauthFlows
  imports Connector Calls UrlEncode
begin

text \<open>
  The OAuth 2.0 flows: the \<open>oauth.py\<close> of eleven connectors, the flows in the \<open>integration.py\<close> of Slack and
  Pipedrive and that of \<open>mcp/integrations/google_workspace.py\<close>. A flow builds the authorization URL, exchanges a
  code for tokens and refreshes them. The HTTP calls of \<open>httpx\<close> and Django's settings are parameters.
\<close>

section \<open>Requests and settings\<close>

record http_request =
  rq_headers :: "(string \<times> string) list"
  rq_query :: "(string \<times> json) list"
  rq_form :: "(string \<times> json) list"
  rq_json :: json
  rq_auth :: "(string \<times> string) option"

definition blank_request :: http_request where
  "blank_request = \<lparr>rq_headers = [], rq_query = [], rq_form = [], rq_json = JNull, rq_auth = None\<rparr>"

record 's web =
  wb_get :: "string \<Rightarrow> http_request \<Rightarrow> ('s, http_response) call"
  wb_post :: "string \<Rightarrow> http_request \<Rightarrow> ('s, http_response) call"
  wb_setting :: "string \<Rightarrow> string option"

text \<open>\<open>getattr(settings, name, "")\<close>\<close>

definition setting :: "'s web \<Rightarrow> string \<Rightarrow> string" where
  "setting web n = (case wb_setting web n of None \<Rightarrow> [] | Some s \<Rightarrow> s)"

text \<open>\<open>_client_creds\<close>, the same in every module but for the names of the settings.\<close>

definition client_creds :: "'s web \<Rightarrow> string \<Rightarrow> (py_error, string \<times> string) result" where
  "client_creds web name =
     (let cid = setting web (name @ ''_CLIENT_ID''); sec = setting web (name @ ''_CLIENT_SECRET'')
      in if cid = [] \<or> sec = []
         then Inl (RuntimeError (name @ ''_CLIENT_ID / '' @ name @ ''_CLIENT_SECRET not set''))
         else Inr (cid, sec))"

definition basic_header :: "string \<Rightarrow> string \<Rightarrow> string \<times> string" where
  "basic_header user secret = (''Authorization'', ''Basic '' @ base64 False (utf8 (user @ '':'' @ secret)))"

definition bearer_header :: "json \<Rightarrow> string \<times> string" where
  "bearer_header token = (''Authorization'', ''Bearer '' @ py_str token)"

text \<open>A dict literal, its values evaluated in order; \<open>v.get(k, d)\<close>; \<open>resp.raise_for_status(); resp.json()\<close>.\<close>

definition dict_of :: "(string \<times> (py_error, json) result) list \<Rightarrow> (py_error, json) result" where
  "dict_of kvs = andthen (map_result (\<lambda>(k, r). andthen r (\<lambda>v. Inr (k, v))) kvs) (\<lambda>xs. Inr (JObj xs))"

definition jget_or :: "json \<Rightarrow> string \<Rightarrow> json \<Rightarrow> (py_error, json) result" where
  "jget_or v k d = (case v of JObj kvs \<Rightarrow> Inr (get_default kvs k d) | _ \<Rightarrow> Inl AttributeError)"

definition checked :: "('s, http_response) call \<Rightarrow> ('s, json) call" where
  "checked m = chain m (\<lambda>resp. lift_result (raise_for_status resp))"

definition required_refresh :: "string \<Rightarrow> json \<Rightarrow> (py_error, json) result" where
  "required_refresh label tokens =
     andthen (jget tokens ''refresh_token'') (\<lambda>r.
     if truth r then Inr r else Inl (RuntimeError (label @ '' credential missing refresh_token'')))"

definition with_query :: "string \<Rightarrow> (string \<times> string) list \<Rightarrow> string" where
  "with_query url params = url @ ''?'' @ urlencode params"

text \<open>\<open>dict(v)\<close> where the service answers with an object.\<close>

definition dict_value :: "json \<Rightarrow> (py_error, json) result" where
  "dict_value v = (case v of JObj kvs \<Rightarrow> Inr v | _ \<Rightarrow> Inl TypeError)"

text \<open>A flow; the PKCE challenge and verifier are ignored by the flows without PKCE.\<close>

record 's oauth_flow =
  of_authorize :: "string \<Rightarrow> string \<Rightarrow> string \<Rightarrow> (py_error, string) result"
  of_exchange :: "string \<Rightarrow> string \<Rightarrow> string \<Rightarrow> ('s, json) call"
  of_refresh :: "json \<Rightarrow> ('s, json) call"

text \<open>\<open>generate_pkce_pair\<close>, of the random verifier; SHA-256 is a parameter.\<close>

definition pkce_challenge :: "(nat list \<Rightarrow> nat list) \<Rightarrow> string \<Rightarrow> string" where
  "pkce_challenge sha256 verifier =
     rev (dropWhile (\<lambda>c. c = CHR ''='') (rev (base64 True (sha256 (utf8 verifier)))))"

definition generate_pkce_pair :: "(nat list \<Rightarrow> nat list) \<Rightarrow> string \<Rightarrow> string \<times> string" where
  "generate_pkce_pair sha256 random_text = (let verifier = take 128 random_text in (verifier, pkce_challenge sha256 verifier))"

section \<open>HubSpot\<close>

definition hubspot_authorize_url :: string where
  "hubspot_authorize_url = ''https://app.hubspot.com/oauth/authorize''"

definition hubspot_token_url :: string where
  "hubspot_token_url = ''https://api.hubapi.com/oauth/v1/token''"

definition hubspot_scopes :: "string list" where
  "hubspot_scopes =
     [''crm.objects.contacts.read'', ''crm.objects.companies.read'', ''crm.objects.deals.read'',
      ''crm.objects.owners.read'', ''tickets'', ''oauth'']"

definition hubspot_authorization_url :: "'s web \<Rightarrow> string \<Rightarrow> string \<Rightarrow> (py_error, string) result" where
  "hubspot_authorization_url web state redirect_uri =
     andthen (client_creds web ''HUBSPOT'') (\<lambda>(cid, sec). Inr (with_query hubspot_authorize_url
       [(''client_id'', cid), (''redirect_uri'', redirect_uri), (''scope'', join '' '' hubspot_scopes),
        (''state'', state)]))"

definition hubspot_exchange_code :: "'s web \<Rightarrow> string \<Rightarrow> string \<Rightarrow> ('s, json) call" where
  "hubspot_exchange_code web code redirect_uri =
     chain (lift_result (client_creds web ''HUBSPOT'')) (\<lambda>(cid, sec).
     chain (checked (wb_post web hubspot_token_url (blank_request\<lparr>
        rq_headers := [(''Content-Type'', ''application/x-www-form-urlencoded'')], rq_form :=
        [(''grant_type'', JStr ''authorization_code''), (''client_id'', JStr cid),
         (''client_secret'', JStr sec), (''redirect_uri'', JStr redirect_uri), (''code'', JStr code)]\<rparr>))) (\<lambda>payload.
     lift_result (dict_of
       [(''access_token'', jindex payload ''access_token''),
        (''refresh_token'', jget payload ''refresh_token''), (''expires_in'', jget payload ''expires_in'')])))"

definition hubspot_refresh_tokens :: "'s web \<Rightarrow> json \<Rightarrow> ('s, json) call" where
  "hubspot_refresh_tokens web tokens =
     chain (lift_result (required_refresh ''HubSpot'' tokens)) (\<lambda>refresh.
     chain (lift_result (client_creds web ''HUBSPOT'')) (\<lambda>(cid, sec).
     chain (checked (wb_post web hubspot_token_url (blank_request\<lparr>
        rq_headers := [(''Content-Type'', ''application/x-www-form-urlencoded'')], rq_form :=
        [(''grant_type'', JStr ''refresh_token''), (''client_id'', JStr cid), (''client_secret'', JStr sec),
         (''refresh_token'', refresh)]\<rparr>))) (\<lambda>payload.
     lift_result (dict_of
       [(''access_token'', jindex payload ''access_token''),
        (''refresh_token'', jget_or payload ''refresh_token'' refresh),
        (''expires_in'', jget payload ''expires_in'')]))))"

section \<open>Asana\<close>

definition asana_authorize_url :: string where
  "asana_authorize_url = ''https://app.asana.com/-/oauth_authorize''"

definition asana_token_url :: string where
  "asana_token_url = ''https://app.asana.com/-/oauth_token''"

definition asana_authorization_url :: "'s web \<Rightarrow> string \<Rightarrow> string \<Rightarrow> (py_error, string) result" where
  "asana_authorization_url web state redirect_uri =
     andthen (client_creds web ''ASANA'') (\<lambda>(cid, sec). Inr (with_query asana_authorize_url
       [(''response_type'', ''code''), (''client_id'', cid), (''redirect_uri'', redirect_uri),
        (''state'', state), (''scope'', ''default'')]))"

definition asana_exchange_code :: "'s web \<Rightarrow> string \<Rightarrow> string \<Rightarrow> ('s, json) call" where
  "asana_exchange_code web code redirect_uri =
     chain (lift_result (client_creds web ''ASANA'')) (\<lambda>(cid, sec).
     chain (checked (wb_post web asana_token_url (blank_request\<lparr>
        rq_form :=
        [(''grant_type'', JStr ''authorization_code''), (''client_id'', JStr cid),
         (''client_secret'', JStr sec), (''redirect_uri'', JStr redirect_uri), (''code'', JStr code)]\<rparr>))) (\<lambda>payload.
     lift_result (dict_of
       [(''access_token'', jindex payload ''access_token''),
        (''refresh_token'', jget payload ''refresh_token''), (''expires_in'', jget payload ''expires_in''),
        (''data'', jget payload ''data'')])))"

definition asana_refresh_tokens :: "'s web \<Rightarrow> json \<Rightarrow> ('s, json) call" where
  "asana_refresh_tokens web tokens =
     chain (lift_result (required_refresh ''Asana'' tokens)) (\<lambda>refresh.
     chain (lift_result (client_creds web ''ASANA'')) (\<lambda>(cid, sec).
     chain (checked (wb_post web asana_token_url (blank_request\<lparr>
        rq_form :=
        [(''grant_type'', JStr ''refresh_token''), (''client_id'', JStr cid), (''client_secret'', JStr sec),
         (''refresh_token'', refresh)]\<rparr>))) (\<lambda>payload.
     lift_result (dict_of
       [(''access_token'', jindex payload ''access_token''),
        (''refresh_token'', jget_or payload ''refresh_token'' refresh),
        (''expires_in'', jget payload ''expires_in'')]))))"

section \<open>Calendly\<close>

definition calendly_authorize_url :: string where
  "calendly_authorize_url = ''https://auth.calendly.com/oauth/authorize''"

definition calendly_token_url :: string where
  "calendly_token_url = ''https://auth.calendly.com/oauth/token''"

definition calendly_authorization_url :: "'s web \<Rightarrow> string \<Rightarrow> string \<Rightarrow> (py_error, string) result" where
  "calendly_authorization_url web state redirect_uri =
     andthen (client_creds web ''CALENDLY'') (\<lambda>(cid, sec). Inr (with_query calendly_authorize_url
       [(''response_type'', ''code''), (''client_id'', cid), (''redirect_uri'', redirect_uri),
        (''state'', state)]))"

definition calendly_exchange_code :: "'s web \<Rightarrow> string \<Rightarrow> string \<Rightarrow> ('s, json) call" where
  "calendly_exchange_code web code redirect_uri =
     chain (lift_result (client_creds web ''CALENDLY'')) (\<lambda>(cid, sec).
     chain (checked (wb_post web calendly_token_url (blank_request\<lparr>
        rq_auth := Some (cid, sec), rq_form :=
        [(''grant_type'', JStr ''authorization_code''), (''code'', JStr code),
         (''redirect_uri'', JStr redirect_uri)]\<rparr>))) (\<lambda>payload.
     lift_result (dict_of
       [(''access_token'', jindex payload ''access_token''),
        (''refresh_token'', jget payload ''refresh_token''), (''expires_in'', jget payload ''expires_in''),
        (''owner'', jget payload ''owner''), (''organization'', jget payload ''organization'')])))"

definition calendly_refresh_tokens :: "'s web \<Rightarrow> json \<Rightarrow> ('s, json) call" where
  "calendly_refresh_tokens web tokens =
     chain (lift_result (required_refresh ''Calendly'' tokens)) (\<lambda>refresh.
     chain (lift_result (client_creds web ''CALENDLY'')) (\<lambda>(cid, sec).
     chain (checked (wb_post web calendly_token_url (blank_request\<lparr>
        rq_auth := Some (cid, sec), rq_form :=
        [(''grant_type'', JStr ''refresh_token''), (''refresh_token'', refresh)]\<rparr>))) (\<lambda>payload.
     lift_result (dict_of
       [(''access_token'', jindex payload ''access_token''),
        (''refresh_token'', jget_or payload ''refresh_token'' refresh),
        (''expires_in'', jget payload ''expires_in''),
        (''owner'', andthen (jget tokens ''owner'') (jget_or payload ''owner'')),
        (''organization'', andthen (jget tokens ''organization'') (jget_or payload ''organization''))]))))"

section \<open>Microsoft 365\<close>

definition ms365_authorize_url :: string where
  "ms365_authorize_url = ''https://login.microsoftonline.com/common/oauth2/v2.0/authorize''"

definition ms365_token_url :: string where
  "ms365_token_url = ''https://login.microsoftonline.com/common/oauth2/v2.0/token''"

definition ms365_scopes :: "string list" where
  "ms365_scopes =
     [''offline_access'', ''User.Read'', ''Mail.Read'', ''Calendars.Read'', ''Files.Read.All'',
      ''ChannelMessage.Read.All'', ''Team.ReadBasic.All'', ''Channel.ReadBasic.All'']"

definition ms365_authorization_url :: "'s web \<Rightarrow> string \<Rightarrow> string \<Rightarrow> (py_error, string) result" where
  "ms365_authorization_url web state redirect_uri =
     andthen (client_creds web ''MS365'') (\<lambda>(cid, sec). Inr (with_query ms365_authorize_url
       [(''client_id'', cid), (''response_type'', ''code''), (''redirect_uri'', redirect_uri),
        (''response_mode'', ''query''), (''scope'', join '' '' ms365_scopes), (''state'', state),
        (''prompt'', ''consent'')]))"

definition ms365_exchange_code :: "'s web \<Rightarrow> string \<Rightarrow> string \<Rightarrow> ('s, json) call" where
  "ms365_exchange_code web code redirect_uri =
     chain (lift_result (client_creds web ''MS365'')) (\<lambda>(cid, sec).
     chain (checked (wb_post web ms365_token_url (blank_request\<lparr>
        rq_form :=
        [(''client_id'', JStr cid), (''client_secret'', JStr sec), (''code'', JStr code),
         (''redirect_uri'', JStr redirect_uri), (''grant_type'', JStr ''authorization_code''),
         (''scope'', JStr (join '' '' ms365_scopes))]\<rparr>))) (\<lambda>payload.
     lift_result (dict_of
       [(''access_token'', jindex payload ''access_token''),
        (''refresh_token'', jget payload ''refresh_token''), (''expires_in'', jget payload ''expires_in''),
        (''scope'', jget payload ''scope''), (''token_type'', jget_or payload ''token_type'' (JStr ''Bearer''))])))"

definition ms365_refresh_tokens :: "'s web \<Rightarrow> json \<Rightarrow> ('s, json) call" where
  "ms365_refresh_tokens web tokens =
     chain (lift_result (required_refresh ''MS365'' tokens)) (\<lambda>refresh.
     chain (lift_result (client_creds web ''MS365'')) (\<lambda>(cid, sec).
     chain (checked (wb_post web ms365_token_url (blank_request\<lparr>
        rq_form :=
        [(''client_id'', JStr cid), (''client_secret'', JStr sec), (''refresh_token'', refresh),
         (''grant_type'', JStr ''refresh_token''), (''scope'', JStr (join '' '' ms365_scopes))]\<rparr>))) (\<lambda>payload.
     lift_result (dict_of
       [(''access_token'', jindex payload ''access_token''),
        (''refresh_token'', jget_or payload ''refresh_token'' refresh),
        (''expires_in'', jget payload ''expires_in''),
        (''scope'', andthen (jget tokens ''scope'') (jget_or payload ''scope'')),
        (''token_type'', jget_or payload ''token_type'' (JStr ''Bearer''))]))))"

section \<open>Salesforce\<close>

definition salesforce_scopes :: "string list" where
  "salesforce_scopes = [''api'', ''refresh_token'', ''offline_access'']"

definition salesforce_creds :: "'s web \<Rightarrow> (py_error, string \<times> string \<times> string) result" where
  "salesforce_creds web =
     andthen (client_creds web ''SALESFORCE'') (\<lambda>(cid, sec). Inr (cid, sec,
       case wb_setting web ''SALESFORCE_LOGIN_HOST'' of None \<Rightarrow> ''https://login.salesforce.com'' | Some host \<Rightarrow> host))"

definition salesforce_authorization_url :: "'s web \<Rightarrow> string \<Rightarrow> string \<Rightarrow> (py_error, string) result" where
  "salesforce_authorization_url web state redirect_uri =
     andthen (salesforce_creds web) (\<lambda>(cid, sec, host). Inr (with_query (host @ ''/services/oauth2/authorize'')
       [(''response_type'', ''code''), (''client_id'', cid), (''redirect_uri'', redirect_uri),
        (''scope'', join '' '' salesforce_scopes), (''state'', state)]))"

definition salesforce_exchange_code :: "'s web \<Rightarrow> string \<Rightarrow> string \<Rightarrow> ('s, json) call" where
  "salesforce_exchange_code web code redirect_uri =
     chain (lift_result (salesforce_creds web)) (\<lambda>(cid, sec, host).
     chain (checked (wb_post web (host @ ''/services/oauth2/token'') (blank_request\<lparr>rq_form :=
        [(''grant_type'', JStr ''authorization_code''), (''client_id'', JStr cid), (''client_secret'', JStr sec),
         (''redirect_uri'', JStr redirect_uri), (''code'', JStr code)]\<rparr>))) (\<lambda>payload.
     lift_result (dict_of
       [(''access_token'', jindex payload ''access_token''), (''refresh_token'', jget payload ''refresh_token''),
        (''instance_url'', jindex payload ''instance_url''), (''id'', jget payload ''id''),
        (''scope'', jget payload ''scope'')])))"

definition salesforce_refresh_tokens :: "'s web \<Rightarrow> json \<Rightarrow> ('s, json) call" where
  "salesforce_refresh_tokens web tokens =
     chain (lift_result (required_refresh ''Salesforce'' tokens)) (\<lambda>refresh.
     chain (lift_result (salesforce_creds web)) (\<lambda>(cid, sec, host).
     chain (checked (wb_post web (host @ ''/services/oauth2/token'') (blank_request\<lparr>rq_form :=
        [(''grant_type'', JStr ''refresh_token''), (''client_id'', JStr cid), (''client_secret'', JStr sec),
         (''refresh_token'', refresh)]\<rparr>))) (\<lambda>payload.
     lift_result (dict_of
       [(''access_token'', jindex payload ''access_token''), (''refresh_token'', Inr refresh),
        (''instance_url'', andthen (jget tokens ''instance_url'') (jget_or payload ''instance_url'')),
        (''scope'', andthen (jget tokens ''scope'') (jget_or payload ''scope''))]))))"

section \<open>Jira\<close>

definition jira_scopes :: "string list" where
  "jira_scopes = [''read:jira-work'', ''read:jira-user'', ''offline_access'']"

definition jira_token_url :: string where
  "jira_token_url = ''https://auth.atlassian.com/oauth/token''"

definition jira_authorization_url :: "'s web \<Rightarrow> string \<Rightarrow> string \<Rightarrow> (py_error, string) result" where
  "jira_authorization_url web state redirect_uri =
     andthen (client_creds web ''ATLASSIAN'') (\<lambda>(cid, sec). Inr (with_query ''https://auth.atlassian.com/authorize''
       [(''audience'', ''api.atlassian.com''), (''client_id'', cid), (''scope'', join '' '' jira_scopes),
        (''redirect_uri'', redirect_uri), (''state'', state), (''response_type'', ''code''),
        (''prompt'', ''consent'')]))"

definition jira_exchange_code :: "'s web \<Rightarrow> string \<Rightarrow> string \<Rightarrow> ('s, json) call" where
  "jira_exchange_code web code redirect_uri =
     chain (lift_result (client_creds web ''ATLASSIAN'')) (\<lambda>(cid, sec).
     chain (checked (wb_post web jira_token_url (blank_request\<lparr>rq_json := JObj
        [(''grant_type'', JStr ''authorization_code''), (''client_id'', JStr cid), (''client_secret'', JStr sec),
         (''code'', JStr code), (''redirect_uri'', JStr redirect_uri)]\<rparr>))) (\<lambda>payload.
     chain (lift_result (jindex payload ''access_token'')) (\<lambda>access.
     chain (checked (wb_get web ''https://api.atlassian.com/oauth/token/accessible-resources''
        (blank_request\<lparr>rq_headers := [bearer_header access, (''Accept'', ''application/json'')]\<rparr>))) (\<lambda>res.
     chain (lift_result (jiter (or_else res (JList [])))) (\<lambda>resources.
     case resources of
       [] \<Rightarrow> lift_result (Inl (RuntimeError ''Atlassian: no accessible resources for this token''))
     | primary # _ \<Rightarrow> lift_result (dict_of
         [(''access_token'', Inr access), (''refresh_token'', jget payload ''refresh_token''),
          (''expires_in'', jget payload ''expires_in''), (''cloud_id'', jget primary ''id''),
          (''site_url'', jget primary ''url''), (''site_name'', jget primary ''name''),
          (''scopes'', jget payload ''scope'')]))))))"

definition jira_refresh_tokens :: "'s web \<Rightarrow> json \<Rightarrow> ('s, json) call" where
  "jira_refresh_tokens web tokens =
     chain (lift_result (required_refresh ''Atlassian'' tokens)) (\<lambda>refresh.
     chain (lift_result (client_creds web ''ATLASSIAN'')) (\<lambda>(cid, sec).
     chain (checked (wb_post web jira_token_url (blank_request\<lparr>rq_json := JObj
        [(''grant_type'', JStr ''refresh_token''), (''client_id'', JStr cid), (''client_secret'', JStr sec),
         (''refresh_token'', refresh)]\<rparr>))) (\<lambda>payload.
     lift_result (dict_of
       [(''access_token'', jindex payload ''access_token''),
        (''refresh_token'', jget_or payload ''refresh_token'' refresh),
        (''expires_in'', jget payload ''expires_in'')]))))"

section \<open>Basecamp\<close>

definition basecamp_token_url :: string where
  "basecamp_token_url = ''https://launchpad.37signals.com/authorization/token''"

definition basecamp_authorization_url :: "'s web \<Rightarrow> string \<Rightarrow> string \<Rightarrow> (py_error, string) result" where
  "basecamp_authorization_url web state redirect_uri =
     andthen (client_creds web ''BASECAMP'') (\<lambda>(cid, sec). Inr (with_query ''https://launchpad.37signals.com/authorization/new''
       [(''type'', ''web_server''), (''client_id'', cid), (''redirect_uri'', redirect_uri), (''state'', state)]))"

text \<open>\<open>[a for a in accounts if a.get("product") == "bc3"] or accounts\<close>, and the first of them.\<close>

definition basecamp_account :: "json \<Rightarrow> (py_error, json) result" where
  "basecamp_account info =
     andthen (jget (or_else info (JObj [])) ''accounts'') (\<lambda>accounts.
     andthen (jiter (or_else accounts (JList []))) (\<lambda>accounts.
     andthen (filter_result (\<lambda>a. andthen (jget a ''product'') (\<lambda>p. Inr (p = JStr ''bc3''))) accounts) (\<lambda>bc3.
     case (if bc3 = [] then accounts else bc3) of
       [] \<Rightarrow> Inl (RuntimeError ''Basecamp account list empty after install'')
     | chosen # _ \<Rightarrow> Inr chosen)))"

definition basecamp_exchange_code :: "'s web \<Rightarrow> string \<Rightarrow> string \<Rightarrow> ('s, json) call" where
  "basecamp_exchange_code web code redirect_uri =
     chain (lift_result (client_creds web ''BASECAMP'')) (\<lambda>(cid, sec).
     chain (checked (wb_post web basecamp_token_url (blank_request\<lparr>rq_query :=
        [(''type'', JStr ''web_server''), (''client_id'', JStr cid), (''client_secret'', JStr sec),
         (''redirect_uri'', JStr redirect_uri), (''code'', JStr code)]\<rparr>))) (\<lambda>payload.
     chain (lift_result (jindex payload ''access_token'')) (\<lambda>access.
     chain (lift_result (jget payload ''refresh_token'')) (\<lambda>refresh.
     chain (lift_result (jget payload ''expires_in'')) (\<lambda>expires_in.
     chain (checked (wb_get web ''https://launchpad.37signals.com/authorization.json''
        (blank_request\<lparr>rq_headers := [bearer_header access]\<rparr>))) (\<lambda>info.
     chain (lift_result (basecamp_account info)) (\<lambda>chosen.
     lift_result (dict_of
       [(''access_token'', Inr access), (''refresh_token'', Inr refresh), (''expires_in'', Inr expires_in),
        (''account_id'', jget chosen ''id''), (''account_href'', jget chosen ''href''),
        (''account_name'', jget chosen ''name'')]))))))))"

definition basecamp_refresh_tokens :: "'s web \<Rightarrow> json \<Rightarrow> ('s, json) call" where
  "basecamp_refresh_tokens web tokens =
     chain (lift_result (required_refresh ''Basecamp'' tokens)) (\<lambda>refresh.
     chain (lift_result (client_creds web ''BASECAMP'')) (\<lambda>(cid, sec).
     chain (checked (wb_post web basecamp_token_url (blank_request\<lparr>rq_query :=
        [(''type'', JStr ''refresh''), (''client_id'', JStr cid), (''client_secret'', JStr sec),
         (''refresh_token'', refresh)]\<rparr>))) (\<lambda>payload.
     lift_result (dict_of
       [(''access_token'', jindex payload ''access_token''),
        (''refresh_token'', jget_or payload ''refresh_token'' refresh),
        (''expires_in'', jget payload ''expires_in'')]))))"

section \<open>Mailchimp\<close>

definition mailchimp_authorization_url :: "'s web \<Rightarrow> string \<Rightarrow> string \<Rightarrow> (py_error, string) result" where
  "mailchimp_authorization_url web state redirect_uri =
     andthen (client_creds web ''MAILCHIMP'') (\<lambda>(cid, sec). Inr (with_query ''https://login.mailchimp.com/oauth2/authorize''
       [(''response_type'', ''code''), (''client_id'', cid), (''redirect_uri'', redirect_uri), (''state'', state)]))"

definition mailchimp_metadata :: "'s web \<Rightarrow> json \<Rightarrow> ('s, json) call" where
  "mailchimp_metadata web access =
     chain (checked (wb_get web ''https://login.mailchimp.com/oauth2/metadata''
       (blank_request\<lparr>rq_headers := [(''Authorization'', ''OAuth '' @ py_str access)]\<rparr>))) (\<lambda>v.
     lift_result (dict_value (or_else v (JObj []))))"

definition mailchimp_exchange_code :: "'s web \<Rightarrow> string \<Rightarrow> string \<Rightarrow> ('s, json) call" where
  "mailchimp_exchange_code web code redirect_uri =
     chain (lift_result (client_creds web ''MAILCHIMP'')) (\<lambda>(cid, sec).
     chain (checked (wb_post web ''https://login.mailchimp.com/oauth2/token'' (blank_request\<lparr>rq_form :=
        [(''grant_type'', JStr ''authorization_code''), (''client_id'', JStr cid), (''client_secret'', JStr sec),
         (''redirect_uri'', JStr redirect_uri), (''code'', JStr code)]\<rparr>))) (\<lambda>payload.
     chain (lift_result (jindex payload ''access_token'')) (\<lambda>access.
     chain (mailchimp_metadata web access) (\<lambda>metadata.
     lift_result (dict_of
       [(''access_token'', Inr access), (''dc'', jget metadata ''dc''), (''api_endpoint'', jget metadata ''api_endpoint''),
        (''login_url'', jget metadata ''login_url''), (''scope'', jget payload ''scope'')])))))"

text \<open>Tokens of Mailchimp, Notion and Slack do not expire: \<open>refresh_tokens\<close> returns them.\<close>

definition keep_tokens :: "json \<Rightarrow> ('s, json) call" where
  "keep_tokens tokens = ret tokens"

section \<open>Notion\<close>

definition notion_authorization_url :: "'s web \<Rightarrow> string \<Rightarrow> string \<Rightarrow> (py_error, string) result" where
  "notion_authorization_url web state redirect_uri =
     andthen (client_creds web ''NOTION'') (\<lambda>(cid, sec). Inr (with_query ''https://api.notion.com/v1/oauth/authorize''
       [(''client_id'', cid), (''response_type'', ''code''), (''owner'', ''user''), (''redirect_uri'', redirect_uri),
        (''state'', state)]))"

definition notion_exchange_code :: "'s web \<Rightarrow> string \<Rightarrow> string \<Rightarrow> ('s, json) call" where
  "notion_exchange_code web code redirect_uri =
     chain (lift_result (client_creds web ''NOTION'')) (\<lambda>(cid, sec).
     chain (checked (wb_post web ''https://api.notion.com/v1/oauth/token'' (blank_request\<lparr>
        rq_headers := [basic_header cid sec, (''Content-Type'', ''application/json'')],
        rq_json := JObj [(''grant_type'', JStr ''authorization_code''), (''code'', JStr code),
          (''redirect_uri'', JStr redirect_uri)]\<rparr>))) (\<lambda>payload.
     lift_result (dict_of
       [(''access_token'', jindex payload ''access_token''), (''bot_id'', jget payload ''bot_id''),
        (''workspace_id'', jget payload ''workspace_id''), (''workspace_name'', jget payload ''workspace_name''),
        (''owner'', jget payload ''owner''), (''token_type'', jget_or payload ''token_type'' (JStr ''bearer''))])))"

section \<open>Canva and Dropbox, with PKCE\<close>

definition canva_scopes :: "string list" where
  "canva_scopes =
     [''design:meta:read'', ''design:content:read'', ''asset:read'', ''brandtemplate:meta:read'', ''folder:read'',
      ''profile:read'', ''comment:read'']"

definition canva_token_url :: string where
  "canva_token_url = ''https://api.canva.com/rest/v1/oauth/token''"

definition canva_authorization_url :: "'s web \<Rightarrow> string \<Rightarrow> string \<Rightarrow> string \<Rightarrow> (py_error, string) result" where
  "canva_authorization_url web state redirect_uri code_challenge =
     (let cid = setting web ''CANVA_CLIENT_ID''
      in if cid = [] then Inl (RuntimeError ''CANVA_CLIENT_ID not set'')
         else Inr (with_query ''https://www.canva.com/api/oauth/authorize''
           [(''response_type'', ''code''), (''client_id'', cid), (''redirect_uri'', redirect_uri),
            (''scope'', join '' '' canva_scopes), (''state'', state), (''code_challenge'', code_challenge),
            (''code_challenge_method'', ''S256'')]))"

definition canva_exchange_code :: "'s web \<Rightarrow> string \<Rightarrow> string \<Rightarrow> string \<Rightarrow> ('s, json) call" where
  "canva_exchange_code web code redirect_uri code_verifier =
     chain (lift_result (client_creds web ''CANVA'')) (\<lambda>(cid, sec).
     chain (checked (wb_post web canva_token_url (blank_request\<lparr>
        rq_headers := [basic_header cid sec, (''Content-Type'', ''application/x-www-form-urlencoded'')],
        rq_form := [(''grant_type'', JStr ''authorization_code''), (''code'', JStr code),
          (''redirect_uri'', JStr redirect_uri), (''code_verifier'', JStr code_verifier)]\<rparr>))) (\<lambda>payload.
     lift_result (dict_of
       [(''access_token'', jindex payload ''access_token''), (''refresh_token'', jget payload ''refresh_token''),
        (''expires_in'', jget payload ''expires_in''), (''scope'', jget payload ''scope''),
        (''token_type'', jget_or payload ''token_type'' (JStr ''Bearer''))])))"

definition canva_refresh_tokens :: "'s web \<Rightarrow> json \<Rightarrow> ('s, json) call" where
  "canva_refresh_tokens web tokens =
     chain (lift_result (required_refresh ''Canva'' tokens)) (\<lambda>refresh.
     chain (lift_result (client_creds web ''CANVA'')) (\<lambda>(cid, sec).
     chain (checked (wb_post web canva_token_url (blank_request\<lparr>
        rq_headers := [basic_header cid sec, (''Content-Type'', ''application/x-www-form-urlencoded'')],
        rq_form := [(''grant_type'', JStr ''refresh_token''), (''refresh_token'', refresh)]\<rparr>))) (\<lambda>payload.
     lift_result (dict_of
       [(''access_token'', jindex payload ''access_token''),
        (''refresh_token'', jget_or payload ''refresh_token'' refresh), (''expires_in'', jget payload ''expires_in''),
        (''scope'', andthen (jget tokens ''scope'') (jget_or payload ''scope'')),
        (''token_type'', jget_or payload ''token_type'' (JStr ''Bearer''))]))))"

definition dropbox_scopes :: "string list" where
  "dropbox_scopes = [''account_info.read'', ''files.metadata.read'', ''files.content.read'', ''team_data.member'']"

definition dropbox_token_url :: string where
  "dropbox_token_url = ''https://api.dropboxapi.com/oauth2/token''"

definition dropbox_authorization_url :: "'s web \<Rightarrow> string \<Rightarrow> string \<Rightarrow> string \<Rightarrow> (py_error, string) result" where
  "dropbox_authorization_url web state redirect_uri code_challenge =
     andthen (client_creds web ''DROPBOX'') (\<lambda>(cid, sec). Inr (with_query ''https://www.dropbox.com/oauth2/authorize''
       [(''client_id'', cid), (''response_type'', ''code''), (''redirect_uri'', redirect_uri), (''state'', state),
        (''token_access_type'', ''offline''), (''scope'', join '' '' dropbox_scopes),
        (''code_challenge'', code_challenge), (''code_challenge_method'', ''S256'')]))"

definition dropbox_exchange_code :: "'s web \<Rightarrow> string \<Rightarrow> string \<Rightarrow> string \<Rightarrow> ('s, json) call" where
  "dropbox_exchange_code web code redirect_uri code_verifier =
     chain (lift_result (client_creds web ''DROPBOX'')) (\<lambda>(cid, sec).
     chain (checked (wb_post web dropbox_token_url (blank_request\<lparr>rq_form :=
        [(''grant_type'', JStr ''authorization_code''), (''client_id'', JStr cid), (''client_secret'', JStr sec),
         (''code'', JStr code), (''redirect_uri'', JStr redirect_uri), (''code_verifier'', JStr code_verifier)]\<rparr>))) (\<lambda>payload.
     lift_result (dict_of
       [(''access_token'', jindex payload ''access_token''), (''refresh_token'', jget payload ''refresh_token''),
        (''expires_in'', jget payload ''expires_in''), (''scope'', jget payload ''scope''),
        (''account_id'', jget payload ''account_id''), (''uid'', jget payload ''uid'')])))"

definition dropbox_refresh_tokens :: "'s web \<Rightarrow> json \<Rightarrow> ('s, json) call" where
  "dropbox_refresh_tokens web tokens =
     chain (lift_result (required_refresh ''Dropbox'' tokens)) (\<lambda>refresh.
     chain (lift_result (client_creds web ''DROPBOX'')) (\<lambda>(cid, sec).
     chain (checked (wb_post web dropbox_token_url (blank_request\<lparr>rq_form :=
        [(''grant_type'', JStr ''refresh_token''), (''client_id'', JStr cid), (''client_secret'', JStr sec),
         (''refresh_token'', refresh)]\<rparr>))) (\<lambda>payload.
     lift_result (dict_of
       [(''access_token'', jindex payload ''access_token''),
        (''refresh_token'', jget_or payload ''refresh_token'' refresh), (''expires_in'', jget payload ''expires_in''),
        (''scope'', andthen (jget tokens ''scope'') (jget_or payload ''scope''))]))))"

section \<open>Slack and Pipedrive\<close>

definition slack_scopes :: "string list" where
  "slack_scopes =
     [''channels:read'', ''channels:history'', ''groups:read'', ''groups:history'', ''users:read'',
      ''users:read.email'', ''team:read'', ''usergroups:read'', ''reactions:read'']"

definition slack_authorization_url :: "'s web \<Rightarrow> string \<Rightarrow> string \<Rightarrow> (py_error, string) result" where
  "slack_authorization_url web state redirect_uri =
     (let cid = setting web ''SLACK_CLIENT_ID''
      in if cid = [] then Inr ''https://api.slack.com/apps''
         else Inr (with_query ''https://slack.com/oauth/v2/authorize''
           [(''client_id'', cid), (''scope'', join '','' slack_scopes), (''redirect_uri'', redirect_uri),
            (''state'', state)]))"

text \<open>\<open>(payload.get("team") or {}).get(k)\<close>\<close>

definition slack_team :: "json \<Rightarrow> string \<Rightarrow> (py_error, json) result" where
  "slack_team payload k = andthen (jget payload ''team'') (\<lambda>team. jget (or_else team (JObj [])) k)"

definition slack_exchange_code :: "'s web \<Rightarrow> string \<Rightarrow> string \<Rightarrow> ('s, json) call" where
  "slack_exchange_code web code redirect_uri =
     (let cid = setting web ''SLACK_CLIENT_ID''; sec = setting web ''SLACK_CLIENT_SECRET''
      in if cid = [] \<or> sec = [] then ret (JObj [(''bot_token'', JStr code)])
         else chain (checked (wb_post web ''https://slack.com/api/oauth.v2.access'' (blank_request\<lparr>rq_form :=
             [(''code'', JStr code), (''client_id'', JStr cid), (''client_secret'', JStr sec),
              (''redirect_uri'', JStr redirect_uri)]\<rparr>))) (\<lambda>payload.
           chain (lift_result (jget payload ''ok'')) (\<lambda>ok.
           if \<not> truth ok
           then lift_result (andthen (jget_or payload ''error'' (JStr ''unknown''))
                  (\<lambda>e. Inl (RuntimeError (''Slack OAuth error: '' @ py_str e))))
           else lift_result (dict_of
             [(''bot_token'', jget payload ''access_token''), (''bot_user_id'', jget payload ''bot_user_id''),
              (''team_id'', slack_team payload ''id''), (''team_name'', slack_team payload ''name''),
              (''scope'', jget payload ''scope'')]))))"

definition pipedrive_scopes :: "string list" where
  "pipedrive_scopes = [''deals:read'', ''contacts:read'', ''users:read'', ''activities:read'']"

definition pipedrive_token_url :: string where
  "pipedrive_token_url = ''https://oauth.pipedrive.com/oauth/token''"

definition pipedrive_authorization_url :: "'s web \<Rightarrow> string \<Rightarrow> string \<Rightarrow> (py_error, string) result" where
  "pipedrive_authorization_url web state redirect_uri =
     (let cid = setting web ''PIPEDRIVE_CLIENT_ID''
      in if cid = [] then Inl (RuntimeError ''PIPEDRIVE_CLIENT_ID not set'')
         else Inr (with_query ''https://oauth.pipedrive.com/oauth/authorize''
           [(''client_id'', cid), (''redirect_uri'', redirect_uri), (''state'', state),
            (''scope'', join '' '' pipedrive_scopes)]))"

definition pipedrive_exchange_code :: "'s web \<Rightarrow> string \<Rightarrow> string \<Rightarrow> ('s, json) call" where
  "pipedrive_exchange_code web code redirect_uri =
     chain (lift_result (client_creds web ''PIPEDRIVE'')) (\<lambda>(cid, sec).
     chain (checked (wb_post web pipedrive_token_url (blank_request\<lparr>rq_headers := [basic_header cid sec],
        rq_form := [(''grant_type'', JStr ''authorization_code''), (''code'', JStr code),
          (''redirect_uri'', JStr redirect_uri)]\<rparr>))) (\<lambda>payload.
     lift_result (dict_of
       [(''access_token'', jindex payload ''access_token''), (''refresh_token'', jget payload ''refresh_token''),
        (''expires_in'', jget payload ''expires_in''), (''api_domain'', jget payload ''api_domain''),
        (''scope'', jget payload ''scope'')])))"

definition pipedrive_refresh_tokens :: "'s web \<Rightarrow> json \<Rightarrow> ('s, json) call" where
  "pipedrive_refresh_tokens web tokens =
     chain (lift_result (required_refresh ''Pipedrive'' tokens)) (\<lambda>refresh.
     chain (lift_result (client_creds web ''PIPEDRIVE'')) (\<lambda>(cid, sec).
     chain (checked (wb_post web pipedrive_token_url (blank_request\<lparr>rq_headers := [basic_header cid sec],
        rq_form := [(''grant_type'', JStr ''refresh_token''), (''refresh_token'', refresh)]\<rparr>))) (\<lambda>payload.
     lift_result (dict_of
       [(''access_token'', jindex payload ''access_token''),
        (''refresh_token'', jget_or payload ''refresh_token'' refresh), (''expires_in'', jget payload ''expires_in''),
        (''api_domain'', andthen (jget tokens ''api_domain'') (jget_or payload ''api_domain'')),
        (''scope'', andthen (jget tokens ''scope'') (jget_or payload ''scope''))]))))"

section \<open>The flows of the registry\<close>

definition plain_flow ::
  "(string \<Rightarrow> string \<Rightarrow> (py_error, string) result) \<Rightarrow> (string \<Rightarrow> string \<Rightarrow> ('s, json) call) \<Rightarrow> (json \<Rightarrow> ('s, json) call) \<Rightarrow> 's oauth_flow" where
  "plain_flow authorize exchange refresh =
     \<lparr>of_authorize = (\<lambda>state uri _. authorize state uri), of_exchange = (\<lambda>code uri _. exchange code uri), of_refresh = refresh\<rparr>"

definition oauth_flows :: "'s web \<Rightarrow> (string \<times> 's oauth_flow) list" where
  "oauth_flows web =
     [(''slack'', plain_flow (slack_authorization_url web) (slack_exchange_code web) keep_tokens),
      (''pipedrive'', plain_flow (pipedrive_authorization_url web) (pipedrive_exchange_code web) (pipedrive_refresh_tokens web)),
      (''canva'', \<lparr>of_authorize = canva_authorization_url web, of_exchange = canva_exchange_code web, of_refresh = canva_refresh_tokens web\<rparr>),
      (''microsoft365'', plain_flow (ms365_authorization_url web) (ms365_exchange_code web) (ms365_refresh_tokens web)),
      (''salesforce'', plain_flow (salesforce_authorization_url web) (salesforce_exchange_code web) (salesforce_refresh_tokens web)),
      (''asana'', plain_flow (asana_authorization_url web) (asana_exchange_code web) (asana_refresh_tokens web)),
      (''basecamp'', plain_flow (basecamp_authorization_url web) (basecamp_exchange_code web) (basecamp_refresh_tokens web)),
      (''mailchimp'', plain_flow (mailchimp_authorization_url web) (mailchimp_exchange_code web) keep_tokens),
      (''calendly'', plain_flow (calendly_authorization_url web) (calendly_exchange_code web) (calendly_refresh_tokens web)),
      (''hubspot'', plain_flow (hubspot_authorization_url web) (hubspot_exchange_code web) (hubspot_refresh_tokens web)),
      (''jira'', plain_flow (jira_authorization_url web) (jira_exchange_code web) (jira_refresh_tokens web)),
      (''notion'', plain_flow (notion_authorization_url web) (notion_exchange_code web) keep_tokens),
      (''dropbox'', \<lparr>of_authorize = dropbox_authorization_url web, of_exchange = dropbox_exchange_code web, of_refresh = dropbox_refresh_tokens web\<rparr>)]"

definition oauth_flow :: "'s web \<Rightarrow> string \<Rightarrow> 's oauth_flow option" where
  "oauth_flow web p = map_of (oauth_flows web) p"

lemmas flow_defs =
  slack_exchange_code_def pipedrive_exchange_code_def canva_exchange_code_def ms365_exchange_code_def
  salesforce_exchange_code_def asana_exchange_code_def basecamp_exchange_code_def mailchimp_exchange_code_def
  calendly_exchange_code_def hubspot_exchange_code_def jira_exchange_code_def notion_exchange_code_def
  dropbox_exchange_code_def

lemmas refresh_defs =
  keep_tokens_def pipedrive_refresh_tokens_def canva_refresh_tokens_def ms365_refresh_tokens_def
  salesforce_refresh_tokens_def asana_refresh_tokens_def basecamp_refresh_tokens_def calendly_refresh_tokens_def
  hubspot_refresh_tokens_def jira_refresh_tokens_def dropbox_refresh_tokens_def

lemmas authorize_defs =
  slack_authorization_url_def pipedrive_authorization_url_def canva_authorization_url_def ms365_authorization_url_def
  salesforce_authorization_url_def asana_authorization_url_def basecamp_authorization_url_def
  mailchimp_authorization_url_def calendly_authorization_url_def hubspot_authorization_url_def
  jira_authorization_url_def notion_authorization_url_def dropbox_authorization_url_def

text \<open>A property of every flow, from one of each module.\<close>

lemma oauth_flow_cases:
  assumes "oauth_flow web p = Some fl" "list_all (\<lambda>(n, f). Q n f) (oauth_flows web)"
  shows "Q p fl"
  using assms map_of_SomeD[of "oauth_flows web" p fl] by (auto simp: oauth_flow_def list_all_iff)

section \<open>The authorization URL\<close>

lemma map_of_utf8: "map_of (map (\<lambda>(k, v). (utf8 k, utf8 v)) ps) (utf8 k) = map_option utf8 (map_of ps k)"
  by (induction ps) (auto simp: utf8_inj)

definition url_carries :: "string \<Rightarrow> string \<Rightarrow> string \<Rightarrow> bool" where
  "url_carries url state redirect_uri \<longleftrightarrow>
     (\<exists>base q. url = base @ ''?'' @ q
       \<and> map_of (parse_query q) (utf8 ''state'') = Some (utf8 state)
       \<and> map_of (parse_query q) (utf8 ''redirect_uri'') = Some (utf8 redirect_uri))"

lemma url_carries_with_query:
  assumes "map_of ps ''state'' = Some state" "map_of ps ''redirect_uri'' = Some redirect_uri"
  shows "url_carries (with_query base ps) state redirect_uri"
proof -
  have "ps \<noteq> []" using assms(1) by auto
  then have "parse_query (urlencode ps) = map (\<lambda>(k, v). (utf8 k, utf8 v)) ps" by (rule parse_urlencode)
  with assms have "map_of (parse_query (urlencode ps)) (utf8 ''state'') = Some (utf8 state)"
    "map_of (parse_query (urlencode ps)) (utf8 ''redirect_uri'') = Some (utf8 redirect_uri)"
    by (simp_all only: map_of_utf8 option.map)
  then show ?thesis unfolding url_carries_def with_query_def by blast
qed

text \<open>
  C22. The authorization URL of every flow carries the state and the redirect URI: a server that
  decodes the query reads back exactly the two texts, whatever characters they have. (Slack without a
  client id sends the user to the page of its apps.)
\<close>

theorem authorize_url_carries:
  assumes "oauth_flow web p = Some fl" "of_authorize fl state redirect_uri challenge = Inr url"
  shows "url_carries url state redirect_uri \<or> (p = ''slack'' \<and> setting web ''SLACK_CLIENT_ID'' = [] \<and> url = ''https://api.slack.com/apps'')"
proof -
  have "list_all (\<lambda>(n, f). \<forall>url. of_authorize f state redirect_uri challenge = Inr url \<longrightarrow> url_carries url state redirect_uri
      \<or> (n = ''slack'' \<and> setting web ''SLACK_CLIENT_ID'' = [] \<and> url = ''https://api.slack.com/apps'')) (oauth_flows web)"
    by (auto simp: oauth_flows_def plain_flow_def authorize_defs andthen_Inr_iff Let_def
        intro: url_carries_with_query split: if_splits)
  from oauth_flow_cases[OF assms(1) this] assms(2) show ?thesis by blast
qed

section \<open>What the flows store\<close>

lemma dict_of_keys: "dict_of kvs = Inr v \<Longrightarrow> \<exists>xs. v = JObj xs \<and> map fst xs = map fst kvs"
proof -
  have "map_result (\<lambda>(k, r). andthen r (\<lambda>v. Inr (k, v))) kvs = Inr xs \<Longrightarrow> map fst xs = map fst kvs" for xs
    by (induction kvs arbitrary: xs) (auto simp: andthen_Inr_iff)
  then show "dict_of kvs = Inr v \<Longrightarrow> \<exists>xs. v = JObj xs \<and> map fst xs = map fst kvs"
    by (auto simp: dict_of_def andthen_Inr_iff)
qed

definition never_expires :: "json \<Rightarrow> bool" where
  "never_expires tokens \<longleftrightarrow> jget tokens ''expires_at'' = Inr JNull"

lemma dict_of_never_expires:
  assumes "dict_of kvs = Inr v" "''expires_at'' \<notin> fst ` set kvs"
  shows "never_expires v"
proof -
  obtain xs where xs: "v = JObj xs" "map fst xs = map fst kvs" using dict_of_keys[OF assms(1)] by blast
  then have "fst ` set xs = fst ` set kvs" by (metis set_map)
  with assms(2) have "map_of xs ''expires_at'' = None" by (simp add: map_of_eq_None_iff)
  then show ?thesis by (simp add: never_expires_def xs(1) dict_get_def)
qed

text \<open>What every value a call returns satisfies, by the shape of the call.\<close>

definition gives :: "(json \<Rightarrow> bool) \<Rightarrow> ('s, json) call \<Rightarrow> bool" where
  "gives P m \<longleftrightarrow> (\<forall>s v s'. m s = (Inr v, s') \<longrightarrow> P v)"

lemma gives_chain: "(\<And>x. gives P (f x)) \<Longrightarrow> gives P (chain m f)"
  by (auto simp: gives_def chain_Inr_iff)

lemma gives_dict: "''expires_at'' \<notin> fst ` set kvs \<Longrightarrow> gives never_expires (lift_result (dict_of kvs))"
  by (auto simp: gives_def intro: dict_of_never_expires)

lemma gives_raise: "gives P (lift_result (Inl e))" "gives P (lift_result (andthen r (\<lambda>x. Inl (e' x))))"
  by (auto simp: gives_def andthen_def split: sum.splits)

lemma gives_if: "gives P m \<Longrightarrow> gives P m' \<Longrightarrow> gives P (if b then m else m')"
  by simp

lemma gives_cases:
  "(\<And>a b. gives P (f2 a b)) \<Longrightarrow> gives P (case x of (a, b) \<Rightarrow> f2 a b)"
  "gives P m \<Longrightarrow> (\<And>y ys. gives P (f1 y ys)) \<Longrightarrow> gives P (case xs of [] \<Rightarrow> m | y # ys \<Rightarrow> f1 y ys)"
  by (auto split: prod.split list.split)

lemma gives_ret: "P v \<Longrightarrow> gives P (ret v)"
  by (auto simp: gives_def)

lemmas giving = gives_chain gives_dict gives_raise gives_if gives_cases gives_ret

lemma givesD: "gives P m \<Longrightarrow> m s = (Inr v, s') \<Longrightarrow> P v"
  unfolding gives_def by blast

text \<open>No flow stores when its tokens expire.\<close>

lemma exchange_never_expires:
  assumes "oauth_flow web p = Some fl" "of_exchange fl code uri verifier s = (Inr v, s')"
  shows "never_expires v"
proof -
  have "list_all (\<lambda>(n, f). gives never_expires (of_exchange f code uri verifier)) (oauth_flows web)"
    unfolding oauth_flows_def plain_flow_def flow_defs Let_def list.pred_inject prod.case oauth_flow.select_convs
    by (intro conjI TrueI giving) (simp_all add: never_expires_def dict_get_def)
  from oauth_flow_cases[OF assms(1) this] assms(2) show ?thesis by (rule givesD)
qed

lemma refresh_never_expires:
  assumes "oauth_flow web p = Some fl" "of_refresh fl tokens s = (Inr v, s')" "never_expires tokens"
  shows "never_expires v"
proof -
  have "list_all (\<lambda>(n, f). gives never_expires (of_refresh f tokens)) (oauth_flows web)"
    unfolding oauth_flows_def plain_flow_def refresh_defs list.pred_inject prod.case oauth_flow.select_convs
    by (intro conjI TrueI giving) (simp_all add: assms(3))
  from oauth_flow_cases[OF assms(1) this] assms(2) show ?thesis by (rule givesD)
qed

section \<open>The refresh token\<close>

text \<open>
  What a refresh gives, from the answer of the token endpoint: its access token, and its refresh token
  or else the one that was sent.
\<close>

definition renewed :: "json \<Rightarrow> json \<Rightarrow> json \<Rightarrow> bool" where
  "renewed payload tokens v \<longleftrightarrow>
     (\<exists>r xs. jget tokens ''refresh_token'' = Inr r \<and> truth r \<and> v = JObj xs
       \<and> jindex payload ''access_token'' = Inr (dict_get xs ''access_token'')
       \<and> (dict_get xs ''refresh_token'' = r \<or> jindex payload ''refresh_token'' = Inr (dict_get xs ''refresh_token'')))"

definition renews :: "'s web \<Rightarrow> json \<Rightarrow> ('s, json) call \<Rightarrow> bool" where
  "renews web tokens m \<longleftrightarrow> (\<forall>s v s'. m s = (Inr v, s') \<longrightarrow>
     (\<exists>url rq resp payload. wb_post web url rq s = (Inr resp, s') \<and> raise_for_status resp = Inr payload \<and> renewed payload tokens v))"

lemma required_refresh_Inr: "required_refresh label tokens = Inr r \<longleftrightarrow> jget tokens ''refresh_token'' = Inr r \<and> truth r"
  by (auto simp: required_refresh_def andthen_Inr_iff split: if_splits)

lemma dict_of_head:
  assumes "dict_of ((''access_token'', jindex payload ''access_token'') # (''refresh_token'', x) # kvs) = Inr v"
    and "x = Inr r \<or> x = jget_or payload ''refresh_token'' r"
  shows "\<exists>xs. v = JObj xs \<and> jindex payload ''access_token'' = Inr (dict_get xs ''access_token'')
    \<and> (dict_get xs ''refresh_token'' = r \<or> jindex payload ''refresh_token'' = Inr (dict_get xs ''refresh_token''))"
  using assms
  by (cases payload) (auto simp: dict_of_def andthen_Inr_iff jget_or_def get_default_def dict_get_def split: option.splits)

lemma renews_shape:
  fixes web :: "'s web"
  assumes "\<And>payload r. k payload r = (''access_token'', jindex payload ''access_token'') # (''refresh_token'', x payload r) # kvs payload r"
    and "\<And>payload r. x payload r = Inr r \<or> x payload r = jget_or payload ''refresh_token'' r"
  shows "renews web tokens (chain (lift_result (required_refresh label tokens)) (\<lambda>refresh. chain (lift_result c)
      (\<lambda>y. chain (checked (wb_post web (url y) (rq refresh y))) (\<lambda>payload. lift_result (dict_of (k payload refresh))))))"
  unfolding renews_def
proof (intro allI impI)
  fix s v s'
  assume "chain (lift_result (required_refresh label tokens)) (\<lambda>refresh. chain (lift_result c)
      (\<lambda>y. chain (checked (wb_post web (url y) (rq refresh y))) (\<lambda>payload. lift_result (dict_of (k payload refresh))))) s = (Inr v, s')"
  then obtain r y resp payload where r: "jget tokens ''refresh_token'' = Inr r" "truth r"
      and post: "wb_post web (url y) (rq r y) s = (Inr resp, s')" "raise_for_status resp = Inr payload"
      and d: "dict_of (k payload r) = Inr v"
    by (auto simp: chain_Inr_iff checked_def required_refresh_Inr lift_result_def simp del: lift_result_iff)
  have "renewed payload tokens v"
    unfolding renewed_def using dict_of_head[OF d[unfolded assms(1)[of payload r]] assms(2)[of payload r]] r by blast
  with post show "\<exists>url rq resp payload. wb_post web url rq s = (Inr resp, s') \<and> raise_for_status resp = Inr payload \<and> renewed payload tokens v"
    by blast
qed

lemma case_prod_fst_snd: "(case y of (a, b) \<Rightarrow> f a b) = f (fst y) (snd y)"
  by (simp add: split_beta)

text \<open>
  C23. A refresh loses no session. When \<open>refresh_tokens\<close> of any flow returns, either the tokens never expire and
  are unchanged, or the stored tokens had a refresh token, one POST was made, and the new tokens have the
  access token of its answer and a refresh token: the answer's, or the old one.
\<close>

theorem refresh_renews:
  assumes "oauth_flow web p = Some fl" "of_refresh fl tokens s = (Inr v, s')"
  shows "(p \<in> {''slack'', ''mailchimp'', ''notion''} \<and> v = tokens \<and> s' = s)
    \<or> (\<exists>url rq resp payload. wb_post web url rq s = (Inr resp, s') \<and> raise_for_status resp = Inr payload
        \<and> renewed payload tokens v)"
proof -
  have "list_all (\<lambda>(n, f). (n \<in> {''slack'', ''mailchimp'', ''notion''} \<and> of_refresh f tokens = ret tokens)
      \<or> renews web tokens (of_refresh f tokens)) (oauth_flows web)"
    unfolding oauth_flows_def plain_flow_def refresh_defs list.pred_inject prod.case oauth_flow.select_convs case_prod_fst_snd
    by (intro conjI TrueI) (simp_all, (rule renews_shape, rule refl, simp)+)
  from oauth_flow_cases[OF assms(1) this] assms(2) show ?thesis by (auto simp: renews_def)
qed

section \<open>A flow at work\<close>

definition sample_web :: "nat web" where
  "sample_web =
     \<lparr>wb_get = (\<lambda>url rq s. (Inl TypeError, s)),
      wb_post = (\<lambda>url rq s. (Inr \<lparr>status_code = 200, body = JObj [(''access_token'', JStr ''new'')]\<rparr>, Suc s)),
      wb_setting = (\<lambda>n. Some ''x'')\<rparr>"

lemma sample_web_simps:
  "wb_post sample_web url rq s = (Inr \<lparr>status_code = 200, body = JObj [(''access_token'', JStr ''new'')]\<rparr>, Suc s)"
  "client_creds sample_web n = Inr (''x'', ''x'')"
  by (simp_all add: sample_web_def client_creds_def setting_def Let_def)

lemma authorize_url_carries_witness:
  "\<exists>url. hubspot_authorization_url sample_web ''s &=?'' ''https://a/b'' = Inr url \<and> url_carries url ''s &=?'' ''https://a/b''"
proof -
  obtain url where url: "hubspot_authorization_url sample_web ''s &=?'' ''https://a/b'' = Inr url"
    by (simp add: hubspot_authorization_url_def sample_web_simps)
  have "oauth_flow sample_web ''hubspot'' = Some (plain_flow (hubspot_authorization_url sample_web) (hubspot_exchange_code sample_web)
      (hubspot_refresh_tokens sample_web))"
    by (simp add: oauth_flow_def oauth_flows_def)
  from authorize_url_carries[OF this, of "''s &=?''" "''https://a/b''" "[]" url] url show ?thesis by (simp add: plain_flow_def)
qed

lemma refresh_renews_witness:
  "\<exists>v payload. hubspot_refresh_tokens sample_web (JObj [(''refresh_token'', JStr ''r'')]) 0 = (Inr v, 1)
    \<and> renewed payload (JObj [(''refresh_token'', JStr ''r'')]) v"
proof -
  let ?old = "JObj [(''refresh_token'', JStr ''r'')]"
  have flow: "oauth_flow sample_web ''hubspot'' = Some (plain_flow (hubspot_authorization_url sample_web) (hubspot_exchange_code sample_web)
      (hubspot_refresh_tokens sample_web))"
    by (simp add: oauth_flow_def oauth_flows_def)
  obtain v where v: "hubspot_refresh_tokens sample_web ?old 0 = (Inr v, 1)"
    by (simp add: hubspot_refresh_tokens_def chain_def lift_result_def required_refresh_def sample_web_simps checked_def
        raise_for_status_def dict_of_def jget_or_def dict_get_def get_default_def)
  then have "of_refresh (plain_flow (hubspot_authorization_url sample_web) (hubspot_exchange_code sample_web)
      (hubspot_refresh_tokens sample_web)) ?old 0 = (Inr v, 1)" by (simp add: plain_flow_def)
  from refresh_renews[OF flow this] v show ?thesis by auto
qed

end
