(* ===== verification/ApiClient.thy ===== *)
theory ApiClient
  imports McpGateway OauthFlows
begin

text \<open>
  What the connectors' HTTP clients have in common: the constructor reads the credential, \<open>_get\<close> sends a
  request, refreshes the tokens once on a 401 and stores them, and the \<open>call\<close> of an integration opens a
  client and runs one of its methods. The modules themselves are in \<open>OauthClients\<close> and \<open>KeyClients\<close>.
\<close>

section \<open>The client\<close>

text \<open>What an \<open>httpx.Client\<close> was built with, and the client object with the service and the credentials table.\<close>

record session =
  se_base :: string
  se_headers :: "(string \<times> string) list"
  se_auth :: "(string \<times> string) option"
  se_query :: "(string \<times> json) list"

record 's api_client =
  ac_session :: session
  ac_tokens :: json
  ac_integration :: nat
  ac_backend :: "'s backend"

record 's client_env =
  ce_gw :: "'s gw_env"
  ce_web :: "'s web"
  ce_text :: "py_error \<Rightarrow> string"

text \<open>
  A connector: the session its constructor builds from the tokens, the headers of a request, and how it
  refreshes tokens, when it does.
\<close>

record 's api_connector =
  co_session :: "json \<Rightarrow> (py_error, session) result"
  co_headers :: "json \<Rightarrow> (py_error, (string \<times> string) list) result"
  co_refresh :: "(json \<Rightarrow> ('s, json) call) option"

definition open_api :: "'s client_env \<Rightarrow> 's api_connector \<Rightarrow> nat \<Rightarrow> 's backend \<Rightarrow> (py_error, 's api_client) result" where
  "open_api ce co pk b =
     (case lookup cr_integration (snd b) pk of
        None \<Rightarrow> Inl ValueError
      | Some cred \<Rightarrow>
          andthen (get_tokens (ce_gw ce) (cr_tokens cred)) (\<lambda>tokens.
          andthen (co_session co tokens) (\<lambda>se. Inr
            \<lparr>ac_session = se, ac_tokens = tokens, ac_integration = pk, ac_backend = b\<rparr>)))"

definition bearer_of_tokens :: "json \<Rightarrow> (py_error, (string \<times> string) list) result" where
  "bearer_of_tokens tokens = andthen (jget_or tokens ''access_token'' (JStr [])) (\<lambda>t. Inr [bearer_header t])"

definition with_service :: "('s \<Rightarrow> ('e, 'a) result \<times> 's) \<Rightarrow> 's api_client \<Rightarrow> ('e, 'a) result \<times> 's api_client" where
  "with_service m c = (case m (fst (ac_backend c)) of (r, s) \<Rightarrow> (r, c\<lparr>ac_backend := (s, snd (ac_backend c))\<rparr>))"

definition api_send ::
  "'s client_env \<Rightarrow> 's api_connector \<Rightarrow> string \<Rightarrow> (string \<times> json) list \<Rightarrow> ('s api_client, http_response) call" where
  "api_send ce co path params c =
     (let se = ac_session c
      in case co_headers co (ac_tokens c) of
           Inl e \<Rightarrow> (Inl e, c)
         | Inr hs \<Rightarrow> with_service (wb_get (ce_web ce) (se_base se @ path) (blank_request\<lparr>rq_headers := se_headers se @ hs,
             rq_query := dict_merge (se_query se) params, rq_auth := se_auth se\<rparr>)) c)"

text \<open>\<open>_refresh\<close>: the new tokens are merged over the old ones and stored.\<close>

definition store_tokens :: "'s client_env \<Rightarrow> json \<Rightarrow> ('s api_client, unit) call" where
  "store_tokens ce tokens c =
     (let (s, creds) = ac_backend c
      in case set_tokens (ce_gw ce) tokens s of
           Inl e \<Rightarrow> (Inl e, c\<lparr>ac_tokens := tokens\<rparr>)
         | Inr enc \<Rightarrow> (Inr (), c\<lparr>ac_tokens := tokens,
             ac_backend := (s, save_tokens (ac_integration c) enc (gw_wall (ce_gw ce) s) creds)\<rparr>))"

definition merged :: "json \<Rightarrow> json \<Rightarrow> (py_error, json) result" where
  "merged old new = (case (old, new) of (JObj a, JObj b) \<Rightarrow> Inr (JObj (dict_merge a b)) | _ \<Rightarrow> Inl TypeError)"

definition api_refresh :: "'s client_env \<Rightarrow> (json \<Rightarrow> ('s, json) call) \<Rightarrow> ('s api_client, unit) call" where
  "api_refresh ce refresh c =
     chain (with_service (refresh (ac_tokens c))) (\<lambda>new.
     chain (lift_result (merged (ac_tokens c) new)) (store_tokens ce)) c"

definition api_get ::
  "'s client_env \<Rightarrow> 's api_connector \<Rightarrow> string \<Rightarrow> (string \<times> json) list \<Rightarrow> ('s api_client, json) call" where
  "api_get ce co path params =
     chain (api_send ce co path params) (\<lambda>resp.
     case co_refresh co of
       None \<Rightarrow> lift_result (raise_for_status resp)
     | Some refresh \<Rightarrow>
         if status_code resp = 401
         then chain (api_refresh ce refresh) (\<lambda>_. chain (api_send ce co path params) (\<lambda>resp. lift_result (raise_for_status resp)))
         else lift_result (raise_for_status resp))"

section \<open>Shapes of endpoints\<close>

text \<open>\<open>list(v)\<close>; \<open>list(data.get(k) or [])\<close>, \<open>dict(data.get(k) or {})\<close> and \<open>list(data.get(k, []))\<close>.\<close>

definition as_list :: "json \<Rightarrow> (py_error, json) result" where
  "as_list v = andthen (jiter v) (\<lambda>xs. Inr (JList xs))"

definition list_field :: "string \<Rightarrow> json \<Rightarrow> (py_error, json) result" where
  "list_field k data = andthen (jget data k) (\<lambda>v. as_list (or_else v (JList [])))"

definition dict_field :: "string \<Rightarrow> json \<Rightarrow> (py_error, json) result" where
  "dict_field k data = andthen (jget data k) (\<lambda>v. dict_value (or_else v (JObj [])))"

definition list_default :: "string \<Rightarrow> json \<Rightarrow> (py_error, json) result" where
  "list_default k data = andthen (jget_or data k (JList [])) as_list"

definition endpoint ::
  "'s client_env \<Rightarrow> 's api_connector \<Rightarrow> string \<Rightarrow> (string \<times> json) list \<Rightarrow> (json \<Rightarrow> (py_error, json) result) \<Rightarrow> ('s api_client, json) call" where
  "endpoint ce co path params f = chain (api_get ce co path params) (\<lambda>data. lift_result (f data))"

section \<open>Tools\<close>

text \<open>
  \<open>f(**params)\<close> for a function with the named parameters and defaults of \<open>signature\<close>: the arguments in that order, or a
  \<open>TypeError\<close> for a name that is unknown or missing.
\<close>

definition kwargs :: "(string \<times> json option) list \<Rightarrow> json \<Rightarrow> (py_error, json list) result" where
  "kwargs signature params =
     (case params of
        JObj kvs \<Rightarrow>
          if list_all (\<lambda>(k, _). k \<in> fst ` set signature) kvs
          then map_result (\<lambda>(n, d). case map_of kvs n of Some v \<Rightarrow> Inr v
                 | None \<Rightarrow> (case d of Some v \<Rightarrow> Inr v | None \<Rightarrow> Inl TypeError)) signature
          else Inl TypeError
      | _ \<Rightarrow> Inl TypeError)"

type_synonym 's tool = "json \<Rightarrow> 's api_client \<Rightarrow> ((py_error, json) result \<times> 's api_client) option"

definition no_args :: "('s api_client, json) call \<Rightarrow> 's tool" where
  "no_args m = (\<lambda>params c. Some (m c))"

definition with_kwargs :: "(string \<times> json option) list \<Rightarrow> (json list \<Rightarrow> ('s api_client, json) call) \<Rightarrow> 's tool" where
  "with_kwargs signature f =
     (\<lambda>params c. case kwargs signature params of Inl e \<Rightarrow> Some (Inl e, c) | Inr args \<Rightarrow> Some (f args c))"

definition with_kwargs_loop ::
  "(string \<times> json option) list \<Rightarrow> (json list \<Rightarrow> 's api_client \<Rightarrow> ((py_error, json) result \<times> 's api_client) option) \<Rightarrow> 's tool" where
  "with_kwargs_loop signature f =
     (\<lambda>params c. case kwargs signature params of Inl e \<Rightarrow> Some (Inl e, c) | Inr args \<Rightarrow> f args c)"

text \<open>The \<open>call\<close> of an integration: its two \<open>except\<close> clauses turn every exception into a result.\<close>

definition failed :: "'s client_env \<Rightarrow> py_error \<Rightarrow> call_result" where
  "failed ce e =
     \<lparr>mr_ok = False, mr_data = JNull,
      mr_error = (case e of HTTPStatusError n \<Rightarrow> ''HTTP '' @ show_nat n | _ \<Rightarrow> ce_text ce e)\<rparr>"

definition client_call ::
  "'s client_env \<Rightarrow> 's api_connector \<Rightarrow> (string \<times> 's tool) list \<Rightarrow> integration \<Rightarrow> string \<Rightarrow> json \<Rightarrow> 's backend
     \<Rightarrow> ((string, call_result) result \<times> 's backend) option" where
  "client_call ce co tools i tool params b =
     (case open_api ce co (integration_id i) b of
        Inl e \<Rightarrow> Some (Inr (failed ce e), b)
      | Inr c \<Rightarrow>
          (case map_of tools tool of
             None \<Rightarrow> Some (Inr \<lparr>mr_ok = False, mr_data = JNull, mr_error = ''unknown tool: '' @ tool\<rparr>, b)
           | Some m \<Rightarrow> map_option (\<lambda>(r, c). (Inr (case r of
                 Inl e \<Rightarrow> failed ce e | Inr v \<Rightarrow> \<lparr>mr_ok = True, mr_data = v, mr_error = []\<rparr>), ac_backend c)) (m params c)))"

section \<open>The stored tokens follow the client's\<close>

text \<open>
  \<open>refreshed\<close>: the tokens one gets from others by refreshing and merging, any number of times.
\<close>

inductive refreshed :: "(json \<Rightarrow> ('s, json) call) option \<Rightarrow> json \<Rightarrow> json \<Rightarrow> bool" for rf t where
  same: "refreshed rf t t"
| again: "refreshed rf t t1 \<Longrightarrow> rf = Some refresh \<Longrightarrow> refresh t1 s = (Inr new, s') \<Longrightarrow> merged t1 new = Inr t2 \<Longrightarrow>
     refreshed rf t t2"

lemma refreshed_trans: "refreshed rf t1 t2 \<Longrightarrow> refreshed rf t t1 \<Longrightarrow> refreshed rf t t2"
  by (induction rule: refreshed.induct) (auto intro: refreshed.again)

text \<open>
  What is asked of JSON: the tokens that can come from \<open>t\<close> are read back from their text as they were.
  \<open>in_step\<close> clients have the stored tokens.
\<close>

definition json_law :: "'s client_env \<Rightarrow> (json \<Rightarrow> ('s, json) call) option \<Rightarrow> json \<Rightarrow> bool" where
  "json_law ce rf t \<longleftrightarrow> (\<forall>t'. refreshed rf t t' \<longrightarrow> gw_loads (ce_gw ce) (gw_dumps (ce_gw ce) t') = Inr t')"

definition in_step :: "'s client_env \<Rightarrow> 's api_client \<Rightarrow> bool" where
  "in_step ce c \<longleftrightarrow>
     (\<exists>cred. lookup cr_integration (snd (ac_backend c)) (ac_integration c) = Some cred
       \<and> get_tokens (ce_gw ce) (cr_tokens cred) = Inr (ac_tokens c))"

text \<open>What a method of a client does to it: it may refresh the tokens, and stores what it has.\<close>

definition client_step :: "'s client_env \<Rightarrow> 's api_connector \<Rightarrow> 's api_client \<Rightarrow> 's api_client \<Rightarrow> bool" where
  "client_step ce co c c' \<longleftrightarrow>
     ac_session c' = ac_session c \<and> ac_integration c' = ac_integration c
     \<and> (in_step ce c \<and> json_law ce (co_refresh co) (ac_tokens c) \<longrightarrow> in_step ce c' \<and> refreshed (co_refresh co) (ac_tokens c) (ac_tokens c'))
     \<and> (\<forall>pk. pk \<noteq> ac_integration c \<longrightarrow>
          lookup cr_integration (snd (ac_backend c')) pk = lookup cr_integration (snd (ac_backend c)) pk)"

definition tracks :: "'s client_env \<Rightarrow> 's api_connector \<Rightarrow> ('s api_client, 'a) call \<Rightarrow> bool" where
  "tracks ce co m \<longleftrightarrow> (\<forall>c r c'. m c = (r, c') \<longrightarrow> client_step ce co c c')"

lemma client_step_refl: "client_step ce co c c"
  by (simp add: client_step_def refreshed.same)

lemma client_step_trans: "client_step ce co c1 c2 \<Longrightarrow> client_step ce co c2 c3 \<Longrightarrow> client_step ce co c1 c3"
  unfolding client_step_def json_law_def by (metis refreshed_trans)

lemma tracksD: "tracks ce co m \<Longrightarrow> m c = (r, c') \<Longrightarrow> client_step ce co c c'"
  unfolding tracks_def by blast

lemma tracks_chain: "tracks ce co m \<Longrightarrow> (\<And>x. tracks ce co (f x)) \<Longrightarrow> tracks ce co (chain m f)"
  unfolding tracks_def[of ce co "chain m f"]
  by (auto simp: chain_def split: prod.splits sum.splits dest: tracksD intro: client_step_trans)

lemma tracks_basic: "tracks ce co (ret x)" "tracks ce co (lift_result r)"
  by (auto simp: tracks_def client_step_refl)

lemma tracks_service: "tracks ce co (with_service m)"
  by (auto simp: tracks_def with_service_def client_step_def in_step_def refreshed.same split: prod.splits)

lemma tracks_cases:
  "tracks ce co m \<Longrightarrow> tracks ce co m' \<Longrightarrow> tracks ce co (if b then m else m')"
  "tracks ce co m \<Longrightarrow> (\<And>x. tracks ce co (f x)) \<Longrightarrow> tracks ce co (case y of None \<Rightarrow> m | Some x \<Rightarrow> f x)"
  "tracks ce co m \<Longrightarrow> (\<And>x xs. tracks ce co (f2 x xs)) \<Longrightarrow> tracks ce co (case l of [] \<Rightarrow> m | x # xs \<Rightarrow> f2 x xs)"
  "(\<And>a b. tracks ce co (f3 a b)) \<Longrightarrow> tracks ce co (case p of (a, b) \<Rightarrow> f3 a b)"
  by (auto split: option.split list.split prod.split)

lemma tracks_send: "tracks ce co (api_send ce co path params)"
  using tracks_service[of ce co]
  by (auto simp: tracks_def api_send_def Let_def client_step_refl split: sum.splits)

lemma tracks_refresh:
  assumes "fernet_law (ce_gw ce)" "co_refresh co = Some refresh"
  shows "tracks ce co (api_refresh ce refresh)"
  unfolding tracks_def
proof (intro allI impI)
  fix c r c'
  assume run: "api_refresh ce refresh c = (r, c')"
  obtain s creds where b: "ac_backend c = (s, creds)" by force
  obtain r1 s1 where f: "refresh (ac_tokens c) s = (r1, s1)" by force
  let ?c1 = "c\<lparr>ac_backend := (s1, creds)\<rparr>"
  have c1: "client_step ce co c ?c1" by (simp add: client_step_def in_step_def b refreshed.same)
  show "client_step ce co c c'"
  proof (cases "\<exists>new t enc. r1 = Inr new \<and> merged (ac_tokens c) new = Inr t \<and> set_tokens (ce_gw ce) t s1 = Inr enc")
    case False
    then have "c' = ?c1 \<or> (\<exists>t e. set_tokens (ce_gw ce) t s1 = Inl e \<and> c' = ?c1\<lparr>ac_tokens := t\<rparr>)"
      using run f b by (auto simp: api_refresh_def with_service_def chain_def lift_result_def store_tokens_def split: sum.splits)
    moreover have "\<not> in_step ce c" if "set_tokens (ce_gw ce) t s1 = Inl e" for t e
      using that by (auto simp: set_tokens_def in_step_def get_tokens_def andthen_def split: sum.splits)
    ultimately show ?thesis using c1 by (auto simp: client_step_def b)
  next
    case True
    then obtain new t enc where t: "r1 = Inr new" "merged (ac_tokens c) new = Inr t" "set_tokens (ce_gw ce) t s1 = Inr enc" by blast
    then have c': "c' = ?c1\<lparr>ac_tokens := t, ac_backend := (s1, save_tokens (ac_integration c) enc (gw_wall (ce_gw ce) s1) creds)\<rparr>"
      using run f b by (simp add: api_refresh_def with_service_def chain_def lift_result_def store_tokens_def)
    have new: "refreshed (co_refresh co) (ac_tokens c) t"
      using refreshed.again[OF refreshed.same assms(2)] f t(1,2) by blast
    then have "get_tokens (ce_gw ce) enc = Inr t" if "json_law ce (co_refresh co) (ac_tokens c)"
      using get_set_tokens[OF assms(1) t(3)] that by (simp add: json_law_def)
    with new show ?thesis
      by (auto simp: client_step_def c' in_step_def b lookup_save_tokens option.map_ident)
  qed
qed

lemma tracks_get:
  assumes "fernet_law (ce_gw ce)"
  shows "tracks ce co (api_get ce co path params)"
  unfolding api_get_def using tracks_refresh[OF assms]
  by (cases "co_refresh co") (auto intro!: tracks_chain tracks_send tracks_basic tracks_cases)

lemma tracks_endpoint:
  "fernet_law (ce_gw ce) \<Longrightarrow> tracks ce co (endpoint ce co path params f)"
  unfolding endpoint_def by (intro tracks_chain tracks_get tracks_basic)

section \<open>What a call leaves in the credentials\<close>

text \<open>
  \<open>keeps_session\<close>: a call for the integration \<open>pk\<close> leaves the other credentials alone, and the tokens of its own, when
  they can be read, are read back as the old ones or as what refreshing made of them.
\<close>

definition keeps_session ::
  "'s client_env \<Rightarrow> (json \<Rightarrow> ('s, json) call) option \<Rightarrow> nat \<Rightarrow> 's backend \<Rightarrow> 's backend \<Rightarrow> bool" where
  "keeps_session ce rf pk b b' \<longleftrightarrow>
     (\<forall>pk'. pk' \<noteq> pk \<longrightarrow> lookup cr_integration (snd b') pk' = lookup cr_integration (snd b) pk')
     \<and> (\<forall>cred t. lookup cr_integration (snd b) pk = Some cred \<and> get_tokens (ce_gw ce) (cr_tokens cred) = Inr t \<and> json_law ce rf t
          \<longrightarrow> (\<exists>cred' t'. lookup cr_integration (snd b') pk = Some cred' \<and> get_tokens (ce_gw ce) (cr_tokens cred') = Inr t'
                \<and> refreshed rf t t'))"

lemma keeps_session_refl: "snd b' = snd b \<Longrightarrow> keeps_session ce rf pk b b'"
  by (auto simp: keeps_session_def intro: refreshed.same)

lemma keeps_session_trans: "keeps_session ce rf pk b1 b2 \<Longrightarrow> keeps_session ce rf pk b2 b3 \<Longrightarrow> keeps_session ce rf pk b1 b3"
proof -
  assume s1: "keeps_session ce rf pk b1 b2" and s2: "keeps_session ce rf pk b2 b3"
  have "\<exists>cred' t'. lookup cr_integration (snd b3) pk = Some cred' \<and> get_tokens (ce_gw ce) (cr_tokens cred') = Inr t' \<and> refreshed rf t t'"
    if t: "lookup cr_integration (snd b1) pk = Some cred" "get_tokens (ce_gw ce) (cr_tokens cred) = Inr t" "json_law ce rf t" for cred t
  proof -
    obtain cred2 t2 where t2: "lookup cr_integration (snd b2) pk = Some cred2" "get_tokens (ce_gw ce) (cr_tokens cred2) = Inr t2"
        "refreshed rf t t2"
      using s1 t unfolding keeps_session_def by blast
    moreover have "json_law ce rf t2" using t(3) t2(3) refreshed_trans unfolding json_law_def by blast
    ultimately obtain cred3 t3 where "lookup cr_integration (snd b3) pk = Some cred3"
        "get_tokens (ce_gw ce) (cr_tokens cred3) = Inr t3" "refreshed rf t2 t3"
      using s2 unfolding keeps_session_def by blast
    with t2(3) show ?thesis by (blast intro: refreshed_trans)
  qed
  then show ?thesis using s1 s2 unfolding keeps_session_def by auto
qed

lemma client_step_session:
  assumes "client_step ce co c c'" "lookup cr_integration (snd (ac_backend c)) (ac_integration c) = Some cred"
    and "get_tokens (ce_gw ce) (cr_tokens cred) = Inr (ac_tokens c)"
  shows "keeps_session ce (co_refresh co) (ac_integration c) (ac_backend c) (ac_backend c')"
proof -
  have same: "ac_integration c' = ac_integration c"
    and others: "\<forall>pk. pk \<noteq> ac_integration c \<longrightarrow>
        lookup cr_integration (snd (ac_backend c')) pk = lookup cr_integration (snd (ac_backend c)) pk"
    and own: "json_law ce (co_refresh co) (ac_tokens c) \<Longrightarrow> in_step ce c' \<and> refreshed (co_refresh co) (ac_tokens c) (ac_tokens c')"
    using assms unfolding client_step_def in_step_def by blast+
  show ?thesis unfolding keeps_session_def
  proof (intro conjI allI impI)
    fix cred' t
    assume "lookup cr_integration (snd (ac_backend c)) (ac_integration c) = Some cred'
      \<and> get_tokens (ce_gw ce) (cr_tokens cred') = Inr t \<and> json_law ce (co_refresh co) t"
    with assms(2,3) have "t = ac_tokens c" "json_law ce (co_refresh co) (ac_tokens c)" by simp_all
    then show "\<exists>cred' t'. lookup cr_integration (snd (ac_backend c')) (ac_integration c) = Some cred'
        \<and> get_tokens (ce_gw ce) (cr_tokens cred') = Inr t' \<and> refreshed (co_refresh co) t t'"
      using own same unfolding in_step_def by auto
  qed (use others in blast)
qed

definition tool_tracks :: "'s client_env \<Rightarrow> 's api_connector \<Rightarrow> 's tool \<Rightarrow> bool" where
  "tool_tracks ce co m \<longleftrightarrow> (\<forall>params c r c'. m params c = Some (r, c') \<longrightarrow> client_step ce co c c')"

lemma tool_tracks_no_args: "tracks ce co m \<Longrightarrow> tool_tracks ce co (no_args m)"
  by (simp add: tool_tracks_def no_args_def tracks_def)

lemma tool_tracks_kwargs: "(\<And>args. tracks ce co (f args)) \<Longrightarrow> tool_tracks ce co (with_kwargs signature f)"
  by (auto simp: tool_tracks_def with_kwargs_def client_step_refl split: sum.splits dest: tracksD)

lemma tool_tracks_loop:
  "(\<And>args c r c'. f args c = Some (r, c') \<Longrightarrow> client_step ce co c c') \<Longrightarrow> tool_tracks ce co (with_kwargs_loop signature f)"
  by (auto simp: tool_tracks_def with_kwargs_loop_def client_step_refl split: sum.splits)

lemma client_call_session:
  assumes "client_call ce co tools i tool params b = Some (r, b')" "list_all (\<lambda>(n, m). tool_tracks ce co m) tools"
  shows "keeps_session ce (co_refresh co) (integration_id i) b b'"
proof (cases "open_api ce co (integration_id i) b")
  case (Inl e)
  with assms(1) show ?thesis by (simp add: client_call_def keeps_session_refl)
next
  case (Inr c)
  then obtain cred where c: "lookup cr_integration (snd (ac_backend c)) (ac_integration c) = Some cred"
      "get_tokens (ce_gw ce) (cr_tokens cred) = Inr (ac_tokens c)" "ac_integration c = integration_id i" "ac_backend c = b"
    by (auto simp: open_api_def andthen_Inr_iff split: option.splits)
  show ?thesis
  proof (cases "map_of tools tool")
    case None
    with Inr assms(1) show ?thesis by (simp add: client_call_def keeps_session_refl)
  next
    case (Some m)
    then have "tool_tracks ce co m" using assms(2) map_of_SomeD[of tools tool m] by (auto simp: list_all_iff)
    moreover obtain rc c' where "m params c = Some (rc, c')" "b' = ac_backend c'"
      using assms(1) Inr Some by (auto simp: client_call_def)
    ultimately show ?thesis
      using client_step_session[of ce co c c' cred] c unfolding tool_tracks_def by auto
  qed
qed

text \<open>An integration never raises: the gateway gets a result, unless the call has not returned.\<close>

lemma client_call_answers: "client_call ce co tools i tool params b = Some (r, b') \<Longrightarrow> \<exists>x. r = Inr x"
  by (cases r) (auto simp: client_call_def split: sum.splits option.splits)

text \<open>A field that no refresh writes is kept.\<close>

lemma refreshed_field:
  assumes "refreshed rf (JObj kvs) t'"
    and "\<And>refresh t s v s'. rf = Some refresh \<Longrightarrow> refresh t s = (Inr (JObj v), s') \<Longrightarrow> map_of v k = None"
  shows "\<exists>kvs'. t' = JObj kvs' \<and> map_of kvs' k = map_of kvs k"
  using assms(1)
proof induction
  case (again t1 refresh s new s' t2)
  then show ?case using assms(2)[OF again(2)] by (auto simp: merged_def map_of_dict_merge split: json.splits)
qed simp

section \<open>A service for samples\<close>

text \<open>Every GET is answered by \<open>f\<close>, with the gateway's sample for the rest.\<close>

definition sample_client_env :: "(string \<Rightarrow> http_request \<Rightarrow> json) \<Rightarrow> rat client_env" where
  "sample_client_env f =
     \<lparr>ce_gw = sample_gw,
      ce_web = \<lparr>wb_get = (\<lambda>url rq s. (Inr \<lparr>status_code = 200, body = f url rq\<rparr>, s)),
        wb_post = (\<lambda>url rq s. (Inr \<lparr>status_code = 200, body = JObj []\<rparr>, s)), wb_setting = (\<lambda>n. Some ''x'')\<rparr>,
      ce_text = (\<lambda>e. ''error'')\<rparr>"

lemma sample_client_simps:
  "ce_gw (sample_client_env f) = sample_gw" "ce_text (sample_client_env f) e = ''error''"
  "wb_get (ce_web (sample_client_env f)) url rq s = (Inr \<lparr>status_code = 200, body = f url rq\<rparr>, s)"
  by (simp_all add: sample_client_env_def)

lemma sample_api_get:
  assumes "co_headers co (ac_tokens c) = Inr hs"
  shows "api_get (sample_client_env f) co path params c =
    (Inr (f (se_base (ac_session c) @ path) (blank_request\<lparr>rq_headers := se_headers (ac_session c) @ hs,
       rq_query := dict_merge (se_query (ac_session c)) params, rq_auth := se_auth (ac_session c)\<rparr>)), c)"
  by (simp add: api_get_def chain_def api_send_def Let_def assms with_service_def sample_client_simps raise_for_status_def
      lift_result_def split: option.split)

end
