(* ===== verification/OauthClients.thy ===== *)
theory OauthClients
  imports ApiClient
begin

text \<open>
  The clients that authenticate with OAuth tokens and refresh them: the \<open>client.py\<close> of HubSpot, Asana,
  Salesforce, Jira, Basecamp, Calendly and Microsoft 365, with the tools of their \<open>integration.py\<close>. The two paging
  loops of HubSpot run on fuel.
\<close>

definition plain_session :: "string \<Rightarrow> session" where
  "plain_session base = \<lparr>se_base = base, se_headers = [], se_auth = None, se_query = []\<rparr>"

text \<open>\<open>_headers\<close> with and without an \<open>Accept\<close> header.\<close>

definition bearer_accept :: "json \<Rightarrow> (py_error, (string \<times> string) list) result" where
  "bearer_accept tokens = andthen (bearer_of_tokens tokens) (\<lambda>hs. Inr (hs @ [(''Accept'', ''application/json'')]))"

text \<open>\<open>timedelta(days=n)\<close> in seconds, to the microsecond.\<close>

definition days_delta :: "json \<Rightarrow> (py_error, rat) result" where
  "days_delta n =
     (case n of
        JInt i \<Rightarrow> if \<bar>i\<bar> \<le> 999999999 then Inr (of_int (86400 * i)) else Inl (OtherError ''OverflowError'')
      | JFloat q _ \<Rightarrow> if \<bar>q\<bar> \<le> 999999999 then Inr (of_int (round_half_even (q * 86400000000)) / 1000000)
          else Inl (OtherError ''OverflowError'')
      | JBool b \<Rightarrow> Inr (if b then 86400 else 0)
      | _ \<Rightarrow> Inl TypeError)"

text \<open>\<open>(t + delta).isoformat()\<close>; a date out of range raises.\<close>

definition shifted_iso :: "rat \<Rightarrow> rat \<Rightarrow> (py_error, json) result" where
  "shifted_iso t delta =
     (let day = \<lfloor>(t + delta) * 1000000\<rfloor> div 86400000000
      in if day < - 719162 \<or> 2932896 < day then Inl (OtherError ''OverflowError'') else Inr (JStr (isoformat (t + delta))))"

definition client_now :: "'s client_env \<Rightarrow> 's api_client \<Rightarrow> rat" where
  "client_now ce c = gw_wall (ce_gw ce) (fst (ac_backend c))"

section \<open>HubSpot\<close>

definition hubspot_connector :: "'s client_env \<Rightarrow> 's api_connector" where
  "hubspot_connector ce =
     \<lparr>co_session = (\<lambda>tokens. Inr (plain_session ''https://api.hubapi.com'')), co_headers = bearer_of_tokens,
      co_refresh = Some (hubspot_refresh_tokens (ce_web ce))\<rparr>"

text \<open>The results of a page and \<open>((data.get("paging") or {}).get("next") or {}).get("after")\<close>.\<close>

definition hubspot_page :: "json \<Rightarrow> (py_error, json list \<times> json) result" where
  "hubspot_page data =
     andthen (jget data ''results'') (\<lambda>v. andthen (jiter (or_else v (JList []))) (\<lambda>xs.
     andthen (jget data ''paging'') (\<lambda>p. andthen (jget (or_else p (JObj [])) ''next'') (\<lambda>n.
     andthen (jget (or_else n (JObj [])) ''after'') (\<lambda>after. Inr (xs, after))))))"

fun hubspot_pages ::
  "nat \<Rightarrow> 's client_env \<Rightarrow> string \<Rightarrow> nat \<Rightarrow> (string \<times> json) list \<Rightarrow> (string \<times> json) list \<Rightarrow> json list \<Rightarrow> 's api_client
     \<Rightarrow> ((py_error, json) result \<times> 's api_client) option" where
  "hubspot_pages 0 ce path cap base params out c = None"
| "hubspot_pages (Suc fuel) ce path cap base params out c =
     (case chain (api_get ce (hubspot_connector ce) path params) (\<lambda>data. lift_result (hubspot_page data)) c of
        (Inl e, c) \<Rightarrow> Some (Inl e, c)
      | (Inr (xs, after), c) \<Rightarrow>
          if \<not> truth after \<or> cap \<le> length (out @ xs) then Some (Inr (JList (out @ xs)), c)
          else hubspot_pages fuel ce path cap base (base @ [(''after'', after)]) (out @ xs) c)"

definition hubspot_list_contacts ::
  "nat \<Rightarrow> 's client_env \<Rightarrow> json \<Rightarrow> 's api_client \<Rightarrow> ((py_error, json) result \<times> 's api_client) option" where
  "hubspot_list_contacts fuel ce limit =
     (let base = [(''limit'', limit)] in hubspot_pages fuel ce ''/crm/v3/objects/contacts'' 1000 base base [])"

definition hubspot_list_deals ::
  "nat \<Rightarrow> 's client_env \<Rightarrow> json \<Rightarrow> 's api_client \<Rightarrow> ((py_error, json) result \<times> 's api_client) option" where
  "hubspot_list_deals fuel ce limit =
     (let base = [(''limit'', limit),
          (''properties'', JStr ''dealname,amount,dealstage,pipeline,closedate,hs_is_closed_won,hs_is_closed'')]
      in hubspot_pages fuel ce ''/crm/v3/objects/deals'' 2000 base base [])"

definition hubspot_list_pipelines :: "'s client_env \<Rightarrow> ('s api_client, json) call" where
  "hubspot_list_pipelines ce = endpoint ce (hubspot_connector ce) ''/crm/v3/pipelines/deals'' [] (list_field ''results'')"

definition hubspot_list_companies :: "'s client_env \<Rightarrow> json \<Rightarrow> ('s api_client, json) call" where
  "hubspot_list_companies ce limit =
     endpoint ce (hubspot_connector ce) ''/crm/v3/objects/companies'' [(''limit'', limit)] (list_field ''results'')"

definition hubspot_list_tickets :: "'s client_env \<Rightarrow> json \<Rightarrow> ('s api_client, json) call" where
  "hubspot_list_tickets ce limit =
     endpoint ce (hubspot_connector ce) ''/crm/v3/objects/tickets'' [(''limit'', limit)] (list_field ''results'')"

definition limit_100 :: "(string \<times> json option) list" where
  "limit_100 = [(''limit'', Some (JInt 100))]"

definition hubspot_tools :: "nat \<Rightarrow> 's client_env \<Rightarrow> (string \<times> 's tool) list" where
  "hubspot_tools fuel ce =
     [(''contacts.list'', with_kwargs_loop limit_100 (\<lambda>args. hubspot_list_contacts fuel ce (args ! 0))),
      (''deals.list'', with_kwargs_loop limit_100 (\<lambda>args. hubspot_list_deals fuel ce (args ! 0))),
      (''pipelines.list'', no_args (hubspot_list_pipelines ce)),
      (''companies.list'', with_kwargs limit_100 (\<lambda>args. hubspot_list_companies ce (args ! 0))),
      (''tickets.list'', with_kwargs limit_100 (\<lambda>args. hubspot_list_tickets ce (args ! 0)))]"

section \<open>Asana\<close>

definition asana_connector :: "'s client_env \<Rightarrow> 's api_connector" where
  "asana_connector ce =
     \<lparr>co_session = (\<lambda>tokens. Inr (plain_session ''https://app.asana.com/api/1.0'')), co_headers = bearer_of_tokens,
      co_refresh = Some (asana_refresh_tokens (ce_web ce))\<rparr>"

definition asana_me :: "'s client_env \<Rightarrow> ('s api_client, json) call" where
  "asana_me ce = endpoint ce (asana_connector ce) ''/users/me'' [] (dict_field ''data'')"

definition asana_list_workspaces :: "'s client_env \<Rightarrow> ('s api_client, json) call" where
  "asana_list_workspaces ce = endpoint ce (asana_connector ce) ''/workspaces'' [] (list_field ''data'')"

definition asana_list_projects :: "'s client_env \<Rightarrow> json \<Rightarrow> json \<Rightarrow> ('s api_client, json) call" where
  "asana_list_projects ce workspace limit =
     endpoint ce (asana_connector ce) ''/projects''
       [(''workspace'', workspace), (''archived'', JStr ''false''), (''limit'', limit)] (list_field ''data'')"

definition asana_list_tasks :: "'s client_env \<Rightarrow> json \<Rightarrow> json \<Rightarrow> ('s api_client, json) call" where
  "asana_list_tasks ce project limit =
     endpoint ce (asana_connector ce) (''/projects/'' @ py_str project @ ''/tasks'')
       [(''limit'', limit), (''opt_fields'', JStr ''name,completed,due_on,assignee.name,modified_at'')] (list_field ''data'')"

definition asana_tools :: "'s client_env \<Rightarrow> (string \<times> 's tool) list" where
  "asana_tools ce =
     [(''me'', no_args (asana_me ce)),
      (''workspaces.list'', no_args (asana_list_workspaces ce)),
      (''projects.list'', with_kwargs [(''workspace_gid'', None), (''limit'', Some (JInt 100))]
         (\<lambda>args. asana_list_projects ce (args ! 0) (args ! 1))),
      (''tasks.list'', with_kwargs [(''project_gid'', None), (''limit'', Some (JInt 100))]
         (\<lambda>args. asana_list_tasks ce (args ! 0) (args ! 1)))]"

section \<open>Salesforce\<close>

text \<open>The API of the organisation's own instance, \<open>tokens.get("instance_url")\<close>.\<close>

definition salesforce_connector :: "'s client_env \<Rightarrow> 's api_connector" where
  "salesforce_connector ce =
     \<lparr>co_session = (\<lambda>tokens. andthen (jget tokens ''instance_url'') (\<lambda>u. Inr (plain_session
          (py_str (or_else u (JStr ''https://login.salesforce.com'')) @ ''/services/data/v60.0'')))),
      co_headers = bearer_of_tokens, co_refresh = Some (salesforce_refresh_tokens (ce_web ce))\<rparr>"

definition salesforce_query :: "'s client_env \<Rightarrow> json \<Rightarrow> ('s api_client, json) call" where
  "salesforce_query ce soql = endpoint ce (salesforce_connector ce) ''/query'' [(''q'', soql)] dict_value"

text \<open>A listing: the query with \<open>int(limit)\<close> put in after \<open>LIMIT\<close>.\<close>

definition limited_query :: "'s client_env \<Rightarrow> string \<Rightarrow> json \<Rightarrow> ('s api_client, json) call" where
  "limited_query ce soql limit =
     chain (lift_result (py_int limit)) (\<lambda>n. salesforce_query ce (JStr (soql @ show_int n)))"

definition salesforce_list_accounts :: "'s client_env \<Rightarrow> json \<Rightarrow> ('s api_client, json) call" where
  "salesforce_list_accounts ce = limited_query ce
     (''SELECT Id, Name, Industry, AnnualRevenue, NumberOfEmployees, '' @
      ''OwnerId, CreatedDate FROM Account ORDER BY CreatedDate DESC LIMIT '')"

definition salesforce_list_opportunities :: "'s client_env \<Rightarrow> json \<Rightarrow> ('s api_client, json) call" where
  "salesforce_list_opportunities ce = limited_query ce
     (''SELECT Id, Name, StageName, Amount, CloseDate, IsClosed, IsWon, OwnerId '' @
      ''FROM Opportunity ORDER BY CloseDate DESC LIMIT '')"

definition salesforce_list_leads :: "'s client_env \<Rightarrow> json \<Rightarrow> ('s api_client, json) call" where
  "salesforce_list_leads ce = limited_query ce
     (''SELECT Id, Status, Company, Industry, CreatedDate FROM Lead '' @ ''ORDER BY CreatedDate DESC LIMIT '')"

definition salesforce_list_users :: "'s client_env \<Rightarrow> json \<Rightarrow> ('s api_client, json) call" where
  "salesforce_list_users ce = limited_query ce
     ''SELECT Id, Name, Email, IsActive FROM User WHERE IsActive = true LIMIT ''"

definition salesforce_tools :: "'s client_env \<Rightarrow> (string \<times> 's tool) list" where
  "salesforce_tools ce =
     [(''query'', with_kwargs [(''soql'', None)] (\<lambda>args. salesforce_query ce (args ! 0))),
      (''accounts.list'', with_kwargs [(''limit'', Some (JInt 200))] (\<lambda>args. salesforce_list_accounts ce (args ! 0))),
      (''opportunities.list'', with_kwargs [(''limit'', Some (JInt 500))] (\<lambda>args. salesforce_list_opportunities ce (args ! 0))),
      (''leads.list'', with_kwargs [(''limit'', Some (JInt 200))] (\<lambda>args. salesforce_list_leads ce (args ! 0))),
      (''users.list'', with_kwargs [(''limit'', Some (JInt 200))] (\<lambda>args. salesforce_list_users ce (args ! 0)))]"

section \<open>Jira\<close>

definition jira_connector :: "'s client_env \<Rightarrow> 's api_connector" where
  "jira_connector ce =
     \<lparr>co_session = (\<lambda>tokens. andthen (jget tokens ''cloud_id'') (\<lambda>i. if truth i
          then Inr (plain_session (''https://api.atlassian.com/ex/jira/'' @ py_str i @ ''/rest/api/3'')) else Inl ValueError)),
      co_headers = bearer_accept, co_refresh = Some (jira_refresh_tokens (ce_web ce))\<rparr>"

definition jira_myself :: "'s client_env \<Rightarrow> ('s api_client, json) call" where
  "jira_myself ce = endpoint ce (jira_connector ce) ''/myself'' [] dict_value"

definition jira_search :: "'s client_env \<Rightarrow> json \<Rightarrow> json \<Rightarrow> json \<Rightarrow> ('s api_client, json) call" where
  "jira_search ce jql wanted max_results =
     endpoint ce (jira_connector ce) ''/search''
       [(''jql'', jql), (''fields'', wanted), (''maxResults'', max_results)] dict_value"

definition jira_list_projects :: "'s client_env \<Rightarrow> ('s api_client, json) call" where
  "jira_list_projects ce = endpoint ce (jira_connector ce) ''/project/search'' [(''maxResults'', JInt 100)] (list_field ''values'')"

definition jira_tools :: "'s client_env \<Rightarrow> (string \<times> 's tool) list" where
  "jira_tools ce =
     [(''myself'', no_args (jira_myself ce)),
      (''projects.list'', no_args (jira_list_projects ce)),
      (''search'', with_kwargs [(''jql'', None), (''fields'', Some (JStr ''summary,status,priority,assignee,created'')),
          (''max_results'', Some (JInt 100))]
         (\<lambda>args. jira_search ce (args ! 0) (args ! 1) (args ! 2)))]"

section \<open>Basecamp\<close>

definition basecamp_host :: string where
  "basecamp_host = ''https://3.basecampapi.com''"

definition basecamp_connector :: "'s client_env \<Rightarrow> 's api_connector" where
  "basecamp_connector ce =
     \<lparr>co_session = (\<lambda>tokens. andthen (jget tokens ''account_id'') (\<lambda>i. if truth i
          then Inr ((plain_session (basecamp_host @ ''/'' @ py_str i))\<lparr>se_headers := [(''User-Agent'', ''Sentinex (info@sentinex.local)'')]\<rparr>)
          else Inl ValueError)),
      co_headers = bearer_accept, co_refresh = Some (basecamp_refresh_tokens (ce_web ce))\<rparr>"

definition basecamp_list_projects :: "'s client_env \<Rightarrow> ('s api_client, json) call" where
  "basecamp_list_projects ce =
     endpoint ce (basecamp_connector ce) ''/projects.json'' [] (\<lambda>v. as_list (or_else v (JList [])))"

text \<open>\<open>next((d for d in dock if d.get("name") == name and d.get("enabled")), None)\<close>\<close>

fun dock_entry :: "string \<Rightarrow> json list \<Rightarrow> (py_error, json option) result" where
  "dock_entry name [] = Inr None"
| "dock_entry name (d # ds) =
     andthen (jget d ''name'') (\<lambda>n.
     if n \<noteq> JStr name then dock_entry name ds
     else andthen (jget d ''enabled'') (\<lambda>e. if truth e then Inr (Some d) else dock_entry name ds))"

text \<open>The path of an absolute URL, \<open>url.replace("https://3.basecampapi.com", "")\<close>.\<close>

definition basecamp_path :: "json \<Rightarrow> string \<Rightarrow> (py_error, string) result" where
  "basecamp_path v k =
     andthen (jget v k) (\<lambda>u. andthen (case or_else u (JStr []) of JStr s \<Rightarrow> Inr s | _ \<Rightarrow> Inl AttributeError)
       (\<lambda>s. Inr (replace_all basecamp_host [] s)))"

definition basecamp_dock :: "'s client_env \<Rightarrow> string \<Rightarrow> json \<Rightarrow> ('s api_client, json option) call" where
  "basecamp_dock ce name bucket =
     chain (api_get ce (basecamp_connector ce) (''/projects/'' @ py_str bucket @ ''.json'') []) (\<lambda>project.
     lift_result (andthen (jget project ''dock'') (\<lambda>v. andthen (jiter (or_else v (JList []))) (dock_entry name))))"

definition basecamp_list_todolists :: "'s client_env \<Rightarrow> json \<Rightarrow> ('s api_client, json) call" where
  "basecamp_list_todolists ce bucket =
     chain (basecamp_dock ce ''todoset'' bucket) (\<lambda>todoset.
     case todoset of
       None \<Rightarrow> ret (JList [])
     | Some d \<Rightarrow>
         chain (lift_result (basecamp_path d ''url'')) (\<lambda>path.
         chain (if path = [] then ret (JObj []) else api_get ce (basecamp_connector ce) path []) (\<lambda>todoset_obj.
         chain (lift_result (basecamp_path todoset_obj ''todolists_url'')) (\<lambda>path.
         if path = [] then ret (JList []) else endpoint ce (basecamp_connector ce) path [] as_list))))"

definition basecamp_list_messages :: "'s client_env \<Rightarrow> json \<Rightarrow> ('s api_client, json) call" where
  "basecamp_list_messages ce bucket =
     chain (basecamp_dock ce ''message_board'' bucket) (\<lambda>board.
     case board of
       None \<Rightarrow> ret (JList [])
     | Some d \<Rightarrow>
         chain (lift_result (basecamp_path d ''url'')) (\<lambda>url.
         if url = [] then ret (JList [])
         else chain (api_get ce (basecamp_connector ce) url []) (\<lambda>board_obj.
              chain (lift_result (basecamp_path board_obj ''messages_url'')) (\<lambda>path.
              if path = [] then ret (JList [])
              else endpoint ce (basecamp_connector ce) path [] (\<lambda>v. as_list (or_else v (JList [])))))))"

definition basecamp_tools :: "'s client_env \<Rightarrow> (string \<times> 's tool) list" where
  "basecamp_tools ce =
     [(''projects.list'', no_args (basecamp_list_projects ce)),
      (''todolists.list'', with_kwargs [(''bucket_id'', None)] (\<lambda>args. basecamp_list_todolists ce (args ! 0))),
      (''messages.list'', with_kwargs [(''bucket_id'', None)] (\<lambda>args. basecamp_list_messages ce (args ! 0)))]"

section \<open>Calendly\<close>

definition calendly_connector :: "'s client_env \<Rightarrow> 's api_connector" where
  "calendly_connector ce =
     \<lparr>co_session = (\<lambda>tokens. Inr (plain_session ''https://api.calendly.com'')), co_headers = bearer_of_tokens,
      co_refresh = Some (calendly_refresh_tokens (ce_web ce))\<rparr>"

definition calendly_me :: "'s client_env \<Rightarrow> ('s api_client, json) call" where
  "calendly_me ce = endpoint ce (calendly_connector ce) ''/users/me'' [] (dict_field ''resource'')"

definition calendly_owner :: "'s client_env \<Rightarrow> ('s api_client, json) call" where
  "calendly_owner ce =
     (\<lambda>c. chain (lift_result (jget (ac_tokens c) ''owner'')) (\<lambda>own.
       if truth own then ret own else chain (calendly_me ce) (\<lambda>me. lift_result (jget me ''uri''))) c)"

definition calendly_list_event_types :: "'s client_env \<Rightarrow> ('s api_client, json) call" where
  "calendly_list_event_types ce =
     chain (calendly_owner ce) (\<lambda>own. endpoint ce (calendly_connector ce) ''/event_types''
       [(''user'', own), (''count'', JInt 100)] (list_field ''collection''))"

definition calendly_list_scheduled_events :: "'s client_env \<Rightarrow> json \<Rightarrow> json \<Rightarrow> ('s api_client, json) call" where
  "calendly_list_scheduled_events ce days_back count =
     chain (calendly_owner ce) (\<lambda>own.
     chain (\<lambda>c. lift_result (andthen (days_delta days_back) (\<lambda>d. shifted_iso (client_now ce c) (- d))) c) (\<lambda>min_start.
     endpoint ce (calendly_connector ce) ''/scheduled_events''
       [(''user'', own), (''min_start_time'', min_start), (''count'', count)] (list_field ''collection'')))"

definition calendly_list_invitees :: "'s client_env \<Rightarrow> json \<Rightarrow> ('s api_client, json) call" where
  "calendly_list_invitees ce event_uri =
     (case event_uri of
        JStr uri \<Rightarrow>
          if contains ''/scheduled_events/'' uri
          then endpoint ce (calendly_connector ce)
            (''/scheduled_events/'' @ rev (takeWhile (\<lambda>ch. ch \<noteq> CHR ''/'') (rev uri)) @ ''/invitees'')
            [(''count'', JInt 100)] (list_field ''collection'')
          else ret (JList [])
      | _ \<Rightarrow> lift_result (Inl TypeError))"

definition calendly_tools :: "'s client_env \<Rightarrow> (string \<times> 's tool) list" where
  "calendly_tools ce =
     [(''me'', no_args (calendly_me ce)),
      (''event_types.list'', no_args (calendly_list_event_types ce)),
      (''events.list'', with_kwargs [(''days_back'', Some (JInt 30)), (''count'', Some (JInt 100))]
         (\<lambda>args. calendly_list_scheduled_events ce (args ! 0) (args ! 1))),
      (''invitees.list'', with_kwargs [(''event_uri'', None)] (\<lambda>args. calendly_list_invitees ce (args ! 0)))]"

section \<open>Microsoft 365\<close>

definition ms365_connector :: "'s client_env \<Rightarrow> 's api_connector" where
  "ms365_connector ce =
     \<lparr>co_session = (\<lambda>tokens. Inr (plain_session ''https://graph.microsoft.com/v1.0'')), co_headers = bearer_accept,
      co_refresh = Some (ms365_refresh_tokens (ce_web ce))\<rparr>"

definition ms365_me :: "'s client_env \<Rightarrow> ('s api_client, json) call" where
  "ms365_me ce = endpoint ce (ms365_connector ce) ''/me'' [] dict_value"

definition ms365_list_messages :: "'s client_env \<Rightarrow> json \<Rightarrow> ('s api_client, json) call" where
  "ms365_list_messages ce n = endpoint ce (ms365_connector ce) ''/me/messages''
     [(''$top'', n), (''$select'', JStr ''subject,from,receivedDateTime,isRead'')] (list_default ''value'')"

definition ms365_list_calendar_events :: "'s client_env \<Rightarrow> json \<Rightarrow> ('s api_client, json) call" where
  "ms365_list_calendar_events ce days =
     chain (\<lambda>c. lift_result (andthen (days_delta days) (shifted_iso (client_now ce c))) c) (\<lambda>until.
     (\<lambda>c. endpoint ce (ms365_connector ce) ''/me/calendar/calendarView''
       [(''startDateTime'', JStr (isoformat (client_now ce c))), (''endDateTime'', until), (''$top'', JInt 100)]
       (list_default ''value'') c))"

definition ms365_list_drive_root :: "'s client_env \<Rightarrow> json \<Rightarrow> ('s api_client, json) call" where
  "ms365_list_drive_root ce n =
     endpoint ce (ms365_connector ce) ''/me/drive/root/children'' [(''$top'', n)] (list_default ''value'')"

definition ms365_list_joined_teams :: "'s client_env \<Rightarrow> ('s api_client, json) call" where
  "ms365_list_joined_teams ce = endpoint ce (ms365_connector ce) ''/me/joinedTeams'' [] (list_default ''value'')"

definition ms365_list_channels :: "'s client_env \<Rightarrow> json \<Rightarrow> ('s api_client, json) call" where
  "ms365_list_channels ce team =
     endpoint ce (ms365_connector ce) (''/teams/'' @ py_str team @ ''/channels'') [] (list_default ''value'')"

definition ms365_tools :: "'s client_env \<Rightarrow> (string \<times> 's tool) list" where
  "ms365_tools ce =
     [(''me'', no_args (ms365_me ce)),
      (''mail.list'', with_kwargs [(''top'', Some (JInt 50))] (\<lambda>args. ms365_list_messages ce (args ! 0))),
      (''calendar.list'', with_kwargs [(''days'', Some (JInt 14))] (\<lambda>args. ms365_list_calendar_events ce (args ! 0))),
      (''onedrive.root'', with_kwargs [(''top'', Some (JInt 100))] (\<lambda>args. ms365_list_drive_root ce (args ! 0))),
      (''teams.list'', no_args (ms365_list_joined_teams ce)),
      (''teams.channels.list'', with_kwargs [(''team_id'', None)] (\<lambda>args. ms365_list_channels ce (args ! 0)))]"

section \<open>The tools keep the session\<close>

lemmas client_rules =
  tracks_chain tracks_basic tracks_cases tracks_get tracks_endpoint

lemma tracks_state: "(\<And>c. tracks ce co (f c)) \<Longrightarrow> tracks ce co (\<lambda>c. f c c)"
  unfolding tracks_def by blast

lemma tracks_read: "tracks ce co (\<lambda>c. lift_result (f c) c)"
  by (rule tracks_state) (rule tracks_basic)

lemma hubspot_pages_track:
  assumes "fernet_law (ce_gw ce)"
  shows "hubspot_pages fuel ce path cap base params out c = Some (r, c') \<Longrightarrow> client_step ce (hubspot_connector ce) c c'"
proof (induction fuel arbitrary: params out c)
  case (Suc fuel)
  let ?get = "chain (api_get ce (hubspot_connector ce) path params) (\<lambda>data. lift_result (hubspot_page data))"
  obtain r1 c1 where get: "?get c = (r1, c1)" by (rule prod.exhaust)
  have step: "client_step ce (hubspot_connector ce) c c1"
  proof (rule tracksD)
    show "?get c = (r1, c1)" by (rule get)
    show "tracks ce (hubspot_connector ce) ?get" by (intro client_rules assms)
  qed
  show ?case
  proof (cases "c1 = c'")
    case True
    with step show ?thesis by simp
  next
    case False
    then obtain xs after where "hubspot_pages fuel ce path cap base (base @ [(''after'', after)]) (out @ xs) c1 = Some (r, c')"
      using Suc.prems get by (auto split: sum.splits if_splits)
    from Suc.IH[OF this] step show ?thesis by (rule client_step_trans[rotated])
  qed
qed simp

lemma hubspot_tools_track:
  "fernet_law (ce_gw ce) \<Longrightarrow> list_all (\<lambda>(n, m). tool_tracks ce (hubspot_connector ce) m) (hubspot_tools fuel ce)"
  unfolding hubspot_tools_def list.pred_inject(2) prod.case hubspot_list_pipelines_def hubspot_list_companies_def
    hubspot_list_tickets_def
  by (intro conjI list.pred_inject(1) tool_tracks_no_args tool_tracks_kwargs tool_tracks_loop client_rules)
     (auto simp: hubspot_list_contacts_def hubspot_list_deals_def Let_def intro: hubspot_pages_track)

lemma asana_tools_track:
  "fernet_law (ce_gw ce) \<Longrightarrow> list_all (\<lambda>(n, m). tool_tracks ce (asana_connector ce) m) (asana_tools ce)"
  unfolding asana_tools_def list.pred_inject(2) prod.case asana_me_def asana_list_workspaces_def asana_list_projects_def
    asana_list_tasks_def
  by (intro conjI list.pred_inject(1) tool_tracks_no_args tool_tracks_kwargs client_rules)

lemma salesforce_tools_track:
  "fernet_law (ce_gw ce) \<Longrightarrow> list_all (\<lambda>(n, m). tool_tracks ce (salesforce_connector ce) m) (salesforce_tools ce)"
  unfolding salesforce_tools_def list.pred_inject(2) prod.case salesforce_query_def limited_query_def
    salesforce_list_accounts_def salesforce_list_opportunities_def salesforce_list_leads_def salesforce_list_users_def
  by (intro conjI list.pred_inject(1) tool_tracks_no_args tool_tracks_kwargs client_rules)

lemma jira_tools_track:
  "fernet_law (ce_gw ce) \<Longrightarrow> list_all (\<lambda>(n, m). tool_tracks ce (jira_connector ce) m) (jira_tools ce)"
  unfolding jira_tools_def list.pred_inject(2) prod.case jira_myself_def jira_search_def jira_list_projects_def
  by (intro conjI list.pred_inject(1) tool_tracks_no_args tool_tracks_kwargs client_rules)

lemma basecamp_tools_track:
  "fernet_law (ce_gw ce) \<Longrightarrow> list_all (\<lambda>(n, m). tool_tracks ce (basecamp_connector ce) m) (basecamp_tools ce)"
  unfolding basecamp_tools_def list.pred_inject(2) prod.case basecamp_list_projects_def basecamp_list_todolists_def
    basecamp_list_messages_def basecamp_dock_def
  by (intro conjI list.pred_inject(1) tool_tracks_no_args tool_tracks_kwargs client_rules)

lemma calendly_tools_track:
  "fernet_law (ce_gw ce) \<Longrightarrow> list_all (\<lambda>(n, m). tool_tracks ce (calendly_connector ce) m) (calendly_tools ce)"
proof -
  assume law: "fernet_law (ce_gw ce)"
  have me: "tracks ce (calendly_connector ce) (calendly_me ce)"
    unfolding calendly_me_def by (rule tracks_endpoint[OF law])
  have own: "tracks ce (calendly_connector ce) (calendly_owner ce)"
    unfolding calendly_owner_def by (rule tracks_state) (intro client_rules me)
  have invitees: "tracks ce (calendly_connector ce) (calendly_list_invitees ce uri)" for uri
    unfolding calendly_list_invitees_def by (cases uri) (simp_all add: tracks_basic tracks_endpoint law)
  show ?thesis
    unfolding calendly_tools_def list.pred_inject(2) prod.case calendly_list_event_types_def calendly_list_scheduled_events_def
    by (intro conjI list.pred_inject(1) tool_tracks_no_args tool_tracks_kwargs client_rules tracks_read me own invitees law)
qed

lemma ms365_tools_track:
  "fernet_law (ce_gw ce) \<Longrightarrow> list_all (\<lambda>(n, m). tool_tracks ce (ms365_connector ce) m) (ms365_tools ce)"
proof -
  assume law: "fernet_law (ce_gw ce)"
  have events: "tracks ce (ms365_connector ce) (ms365_list_calendar_events ce days)" for days
    unfolding ms365_list_calendar_events_def
  proof (intro tracks_chain tracks_read)
    fix until
    show "tracks ce (ms365_connector ce) (\<lambda>c. endpoint ce (ms365_connector ce) ''/me/calendar/calendarView''
       [(''startDateTime'', JStr (isoformat (client_now ce c))), (''endDateTime'', until), (''$top'', JInt 100)]
       (list_default ''value'') c)"
      by (rule tracks_state) (rule tracks_endpoint[OF law])
  qed
  show ?thesis
    unfolding ms365_tools_def list.pred_inject(2) prod.case ms365_me_def ms365_list_messages_def
      ms365_list_drive_root_def ms365_list_joined_teams_def ms365_list_channels_def
    by (intro conjI list.pred_inject(1) tool_tracks_no_args tool_tracks_kwargs client_rules events law)
qed

end
