(* ===== verification/KeyClients.thy ===== *)
theory KeyClients
  imports ApiClient
begin

text \<open>
  The clients that authenticate with a key or with a token that does not expire: the \<open>client.py\<close> of Mailchimp, Caflou,
  Ecomail, Raynet, Trello, SmartEmailing and FAPI, with the tools of their \<open>integration.py\<close> and the credentials
  those read from a setup form. They never refresh: a 401 raises. The campaign loop of SmartEmailing runs on fuel.
\<close>

definition no_headers :: "json \<Rightarrow> (py_error, (string \<times> string) list) result" where
  "no_headers tokens = Inr []"

definition accept_json :: "string \<times> string" where
  "accept_json = (''Accept'', ''application/json'')"

definition key_connector :: "(json \<Rightarrow> (py_error, session) result) \<Rightarrow> 's api_connector" where
  "key_connector f = \<lparr>co_session = f, co_headers = no_headers, co_refresh = None\<rparr>"

text \<open>Texts of the tokens that must all be there: \<open>ValueError\<close> when one is missing or empty.\<close>

definition required :: "string list \<Rightarrow> json \<Rightarrow> (py_error, string list) result" where
  "required names tokens =
     andthen (map_result (jget tokens) names) (\<lambda>vs.
     if list_all truth vs then Inr (map py_str vs) else Inl ValueError)"

text \<open>\<open>code.partition(":")\<close>, first and last part.\<close>

definition partition_at :: "char \<Rightarrow> string \<Rightarrow> string \<times> string" where
  "partition_at c s = (takeWhile (\<lambda>x. x \<noteq> c) s, drop 1 (dropWhile (\<lambda>x. x \<noteq> c) s))"

definition pair_exchange :: "string \<Rightarrow> string \<Rightarrow> string \<Rightarrow> (py_error, json) result" where
  "pair_exchange a b code =
     (case partition_at (CHR '':'') code of (x, y) \<Rightarrow>
        if x = [] \<or> y = [] then Inl ValueError else Inr (JObj [(a, JStr x), (b, JStr y)]))"

definition single_exchange :: "string \<Rightarrow> string \<Rightarrow> (py_error, json) result" where
  "single_exchange a code = (if code = [] then Inl ValueError else Inr (JObj [(a, JStr code)]))"

section \<open>Mailchimp\<close>

definition mailchimp_session :: "json \<Rightarrow> (py_error, session) result" where
  "mailchimp_session tokens =
     andthen (jget tokens ''api_endpoint'') (\<lambda>api. andthen (jget tokens ''dc'') (\<lambda>dc. andthen (jget tokens ''access_token'') (\<lambda>access.
     let api_endpoint = (if truth api then api
           else if truth dc then JStr (''https://'' @ py_str dc @ ''.api.mailchimp.com'') else JStr [])
     in if \<not> truth api_endpoint \<or> \<not> truth access then Inl ValueError
        else Inr \<lparr>se_base = py_str api_endpoint @ ''/3.0'', se_headers = [bearer_header access, accept_json],
          se_auth = None, se_query = []\<rparr>)))"

definition mailchimp_connector :: "'s api_connector" where
  "mailchimp_connector = key_connector mailchimp_session"

definition mailchimp_ping :: "'s client_env \<Rightarrow> ('s api_client, json) call" where
  "mailchimp_ping ce = api_get ce mailchimp_connector ''/ping'' []"

definition mailchimp_list_audiences :: "'s client_env \<Rightarrow> json \<Rightarrow> ('s api_client, json) call" where
  "mailchimp_list_audiences ce count = endpoint ce mailchimp_connector ''/lists'' [(''count'', count)] (list_field ''lists'')"

definition mailchimp_list_campaigns :: "'s client_env \<Rightarrow> json \<Rightarrow> ('s api_client, json) call" where
  "mailchimp_list_campaigns ce count = endpoint ce mailchimp_connector ''/campaigns'' [(''count'', count)] (list_field ''campaigns'')"

definition mailchimp_campaign_report :: "'s client_env \<Rightarrow> json \<Rightarrow> ('s api_client, json) call" where
  "mailchimp_campaign_report ce campaign = endpoint ce mailchimp_connector (''/reports/'' @ py_str campaign) [] dict_value"

definition mailchimp_tools :: "'s client_env \<Rightarrow> (string \<times> 's tool) list" where
  "mailchimp_tools ce =
     [(''ping'', no_args (mailchimp_ping ce)),
      (''audiences.list'', with_kwargs [(''count'', Some (JInt 100))] (\<lambda>args. mailchimp_list_audiences ce (args ! 0))),
      (''campaigns.list'', with_kwargs [(''count'', Some (JInt 100))] (\<lambda>args. mailchimp_list_campaigns ce (args ! 0))),
      (''campaign.report'', with_kwargs [(''campaign_id'', None)] (\<lambda>args. mailchimp_campaign_report ce (args ! 0)))]"

section \<open>Caflou\<close>

definition caflou_session :: "json \<Rightarrow> (py_error, session) result" where
  "caflou_session tokens =
     andthen (required [''api_token''] (or_else tokens (JObj []))) (\<lambda>ts. Inr
       \<lparr>se_base = ''https://app.caflou.com/api/v1'',
        se_headers = [(''Authorization'', ''Bearer '' @ hd ts), accept_json], se_auth = None, se_query = []\<rparr>)"

definition caflou_connector :: "'s api_connector" where
  "caflou_connector = key_connector caflou_session"

definition caflou_exchange_code :: "string \<Rightarrow> (py_error, json) result" where
  "caflou_exchange_code = single_exchange ''api_token''"

definition caflou_ping :: "'s client_env \<Rightarrow> ('s api_client, json) call" where
  "caflou_ping ce = endpoint ce caflou_connector ''/users/me'' [] dict_value"

text \<open>The five listings, which differ in their path.\<close>

definition caflou_list :: "'s client_env \<Rightarrow> string \<Rightarrow> 's tool" where
  "caflou_list ce path = with_kwargs [(''page'', Some (JInt 1)), (''per_page'', Some (JInt 100))]
     (\<lambda>args. api_get ce caflou_connector path [(''page'', args ! 0), (''per_page'', args ! 1)])"

definition caflou_tools :: "'s client_env \<Rightarrow> (string \<times> 's tool) list" where
  "caflou_tools ce =
     [(''ping'', no_args (caflou_ping ce)),
      (''companies.list'', caflou_list ce ''/companies''),
      (''projects.list'', caflou_list ce ''/projects''),
      (''tasks.list'', caflou_list ce ''/tasks''),
      (''invoices.list'', caflou_list ce ''/invoices''),
      (''timesheets.list'', caflou_list ce ''/timesheets'')]"

section \<open>Ecomail\<close>

definition ecomail_session :: "json \<Rightarrow> (py_error, session) result" where
  "ecomail_session tokens =
     andthen (required [''api_key''] (or_else tokens (JObj []))) (\<lambda>ts. Inr
       \<lparr>se_base = ''https://api2.ecomail.cz'', se_headers = [(''key'', hd ts), accept_json], se_auth = None, se_query = []\<rparr>)"

definition ecomail_connector :: "'s api_connector" where
  "ecomail_connector = key_connector ecomail_session"

definition ecomail_exchange_code :: "string \<Rightarrow> (py_error, json) result" where
  "ecomail_exchange_code = single_exchange ''api_key''"

text \<open>\<open>list(data) if isinstance(data, list) else list(data.get("data") or [])\<close>\<close>

definition list_or_data :: "json \<Rightarrow> (py_error, json) result" where
  "list_or_data data = (case data of JList xs \<Rightarrow> Inr data | _ \<Rightarrow> list_field ''data'' data)"

definition ecomail_ping :: "'s client_env \<Rightarrow> ('s api_client, json) call" where
  "ecomail_ping ce = api_get ce ecomail_connector ''/lists'' []"

definition ecomail_list_lists :: "'s client_env \<Rightarrow> ('s api_client, json) call" where
  "ecomail_list_lists ce = endpoint ce ecomail_connector ''/lists'' [] list_or_data"

definition ecomail_list_campaigns :: "'s client_env \<Rightarrow> ('s api_client, json) call" where
  "ecomail_list_campaigns ce = endpoint ce ecomail_connector ''/campaigns'' [] list_or_data"

definition ecomail_campaign_stats :: "'s client_env \<Rightarrow> json \<Rightarrow> ('s api_client, json) call" where
  "ecomail_campaign_stats ce campaign =
     endpoint ce ecomail_connector (''/campaigns/'' @ py_str campaign @ ''/stats'') [] dict_value"

definition ecomail_list_subscribers :: "'s client_env \<Rightarrow> json \<Rightarrow> json \<Rightarrow> ('s api_client, json) call" where
  "ecomail_list_subscribers ce lst page =
     api_get ce ecomail_connector (''/lists/'' @ py_str lst @ ''/subscribers'') [(''page'', page)]"

definition ecomail_list_automations :: "'s client_env \<Rightarrow> ('s api_client, json) call" where
  "ecomail_list_automations ce = catching (JList []) (endpoint ce ecomail_connector ''/pipelines'' [] list_or_data)"

definition ecomail_tools :: "'s client_env \<Rightarrow> (string \<times> 's tool) list" where
  "ecomail_tools ce =
     [(''ping'', no_args (ecomail_ping ce)),
      (''lists.list'', no_args (ecomail_list_lists ce)),
      (''campaigns.list'', no_args (ecomail_list_campaigns ce)),
      (''campaign.stats'', with_kwargs [(''campaign_id'', None)] (\<lambda>args. ecomail_campaign_stats ce (args ! 0))),
      (''subscribers.list'', with_kwargs [(''list_id'', None), (''page'', Some (JInt 1))]
         (\<lambda>args. ecomail_list_subscribers ce (args ! 0) (args ! 1))),
      (''automations.list'', no_args (ecomail_list_automations ce))]"

section \<open>Raynet\<close>

definition raynet_session :: "json \<Rightarrow> (py_error, session) result" where
  "raynet_session tokens =
     andthen (required [''instance'', ''username'', ''api_key''] tokens) (\<lambda>ts. Inr
       \<lparr>se_base = ''https://app.raynet.cz/'' @ ts ! 0 @ ''/api/v2'',
        se_headers = [accept_json, (''X-Instance-Name'', ts ! 0)], se_auth = Some (ts ! 1, ts ! 2), se_query = []\<rparr>)"

definition raynet_connector :: "'s api_connector" where
  "raynet_connector = key_connector raynet_session"

text \<open>\<open>code.split(":", 2)\<close>\<close>

definition raynet_exchange_code :: "string \<Rightarrow> (py_error, json) result" where
  "raynet_exchange_code code =
     (case partition_at (CHR '':'') code of (x, rest) \<Rightarrow>
      (case partition_at (CHR '':'') rest of (y, z) \<Rightarrow>
         if x = [] \<or> y = [] \<or> z = [] then Inl ValueError
         else Inr (JObj [(''instance'', JStr x), (''username'', JStr y), (''api_key'', JStr z)])))"

definition raynet_ping :: "'s client_env \<Rightarrow> ('s api_client, json) call" where
  "raynet_ping ce = endpoint ce raynet_connector ''/company/'' [(''limit'', JInt 1), (''offset'', JInt 0)] dict_value"

text \<open>The five listings, which differ in their path.\<close>

definition raynet_list :: "'s client_env \<Rightarrow> string \<Rightarrow> 's tool" where
  "raynet_list ce path = with_kwargs [(''limit'', Some (JInt 200)), (''offset'', Some (JInt 0))]
     (\<lambda>args. endpoint ce raynet_connector path [(''limit'', args ! 0), (''offset'', args ! 1)] dict_value)"

definition raynet_tools :: "'s client_env \<Rightarrow> (string \<times> 's tool) list" where
  "raynet_tools ce =
     [(''ping'', no_args (raynet_ping ce)),
      (''companies.list'', raynet_list ce ''/company/''),
      (''leads.list'', raynet_list ce ''/lead/''),
      (''business_cases.list'', raynet_list ce ''/businessCase/''),
      (''offers.list'', raynet_list ce ''/offer/''),
      (''invoices.list'', raynet_list ce ''/invoice/'')]"

section \<open>Trello\<close>

text \<open>Key and token go into the query of every request; a request's own parameters come after and win.\<close>

definition trello_session :: "json \<Rightarrow> (py_error, session) result" where
  "trello_session tokens =
     andthen (required [''api_key'', ''token''] tokens) (\<lambda>ts. Inr
       \<lparr>se_base = ''https://api.trello.com/1'', se_headers = [accept_json], se_auth = None,
        se_query = [(''key'', JStr (ts ! 0)), (''token'', JStr (ts ! 1))]\<rparr>)"

definition trello_connector :: "'s api_connector" where
  "trello_connector = key_connector trello_session"

definition trello_exchange_code :: "string \<Rightarrow> (py_error, json) result" where
  "trello_exchange_code = pair_exchange ''api_key'' ''token''"

definition trello_me :: "'s client_env \<Rightarrow> ('s api_client, json) call" where
  "trello_me ce = endpoint ce trello_connector ''/members/me'' [] dict_value"

definition trello_list_boards :: "'s client_env \<Rightarrow> ('s api_client, json) call" where
  "trello_list_boards ce =
     endpoint ce trello_connector ''/members/me/boards'' [(''fields'', JStr ''name,closed,url,dateLastActivity'')] as_list"

definition trello_list_lists :: "'s client_env \<Rightarrow> json \<Rightarrow> ('s api_client, json) call" where
  "trello_list_lists ce board =
     endpoint ce trello_connector (''/boards/'' @ py_str board @ ''/lists'') [(''fields'', JStr ''name,closed,pos'')] as_list"

definition since_param :: "json \<Rightarrow> (string \<times> json) list" where
  "since_param since = (if truth since then [(''since'', since)] else [])"

definition trello_list_cards :: "'s client_env \<Rightarrow> json \<Rightarrow> json \<Rightarrow> ('s api_client, json) call" where
  "trello_list_cards ce board since =
     endpoint ce trello_connector (''/boards/'' @ py_str board @ ''/cards'')
       ([(''fields'', JStr ''name,closed,due,dueComplete,idList,idMembers,labels,dateLastActivity,url'')] @ since_param since)
       as_list"

text \<open>\<open>min(limit, 1000)\<close>\<close>

definition at_most_1000 :: "json \<Rightarrow> (py_error, json) result" where
  "at_most_1000 v =
     (case v of
        JInt n \<Rightarrow> Inr (JInt (min n 1000))
      | JFloat q _ \<Rightarrow> Inr (if 1000 < q then JInt 1000 else v)
      | JBool b \<Rightarrow> Inr v
      | _ \<Rightarrow> Inl TypeError)"

definition trello_list_actions :: "'s client_env \<Rightarrow> json \<Rightarrow> json \<Rightarrow> json \<Rightarrow> ('s api_client, json) call" where
  "trello_list_actions ce board since limit =
     chain (lift_result (at_most_1000 limit)) (\<lambda>n.
     endpoint ce trello_connector (''/boards/'' @ py_str board @ ''/actions'') ([(''limit'', n)] @ since_param since) as_list)"

definition trello_tools :: "'s client_env \<Rightarrow> (string \<times> 's tool) list" where
  "trello_tools ce =
     [(''me'', no_args (trello_me ce)),
      (''boards.list'', no_args (trello_list_boards ce)),
      (''lists.list'', with_kwargs [(''board_id'', None)] (\<lambda>args. trello_list_lists ce (args ! 0))),
      (''cards.list'', with_kwargs [(''board_id'', None), (''since_iso'', Some JNull)]
         (\<lambda>args. trello_list_cards ce (args ! 0) (args ! 1))),
      (''actions.list'', with_kwargs [(''board_id'', None), (''since_iso'', Some JNull), (''limit'', Some (JInt 1000))]
         (\<lambda>args. trello_list_actions ce (args ! 0) (args ! 1) (args ! 2)))]"

section \<open>SmartEmailing\<close>

definition smartemailing_session :: "json \<Rightarrow> (py_error, session) result" where
  "smartemailing_session tokens =
     andthen (required [''username'', ''api_key''] tokens) (\<lambda>ts. Inr
       \<lparr>se_base = ''https://app.smartemailing.cz/api/v3'', se_headers = [accept_json],
        se_auth = Some (ts ! 0, ts ! 1), se_query = []\<rparr>)"

definition smartemailing_connector :: "'s api_connector" where
  "smartemailing_connector = key_connector smartemailing_session"

definition smartemailing_exchange_code :: "string \<Rightarrow> (py_error, json) result" where
  "smartemailing_exchange_code = pair_exchange ''username'' ''api_key''"

definition smartemailing_ping :: "'s client_env \<Rightarrow> ('s api_client, json) call" where
  "smartemailing_ping ce = api_get ce smartemailing_connector ''/ping'' []"

definition smartemailing_list_contactlists :: "'s client_env \<Rightarrow> ('s api_client, json) call" where
  "smartemailing_list_contactlists ce = endpoint ce smartemailing_connector ''/contactlists'' [] (list_field ''data'')"

text \<open>\<open>int(meta.get("total_count") or len(data.get("data") or []))\<close>\<close>

definition contact_count :: "json \<Rightarrow> (py_error, json) result" where
  "contact_count data =
     andthen (jget data ''meta'') (\<lambda>m. andthen (jget (or_else m (JObj [])) ''total_count'') (\<lambda>n.
     if truth n then andthen (py_int n) (\<lambda>i. Inr (JInt i))
     else andthen (jget data ''data'') (\<lambda>d. andthen (jiter (or_else d (JList []))) (\<lambda>xs. Inr (JInt (int (length xs)))))))"

definition smartemailing_count_contacts :: "'s client_env \<Rightarrow> json \<Rightarrow> ('s api_client, json) call" where
  "smartemailing_count_contacts ce contactlist =
     endpoint ce smartemailing_connector ''/contacts''
       ([(''limit'', JInt 1), (''offset'', JInt 0)] @ (if contactlist = JNull then [] else [(''contactlist_id'', contactlist)]))
       (\<lambda>data. andthen (contact_count data) (\<lambda>n. Inr (JObj [(''count'', n)])))"

text \<open>\<open>iter_campaigns\<close> with an integer page size.\<close>

fun campaign_pages ::
  "nat \<Rightarrow> 's client_env \<Rightarrow> int \<Rightarrow> int \<Rightarrow> json list \<Rightarrow> 's api_client \<Rightarrow> ((py_error, json) result \<times> 's api_client) option" where
  "campaign_pages 0 ce page_size offset out c = None"
| "campaign_pages (Suc fuel) ce page_size offset out c =
     (case chain (api_get ce smartemailing_connector ''/campaigns'' [(''limit'', JInt page_size), (''offset'', JInt offset)])
             (\<lambda>data. lift_result (andthen (jget data ''data'') (\<lambda>d. jiter (or_else d (JList []))))) c of
        (Inl e, c) \<Rightarrow> Some (Inl e, c)
      | (Inr chunk, c) \<Rightarrow>
          if int (length chunk) < page_size then Some (Inr (JList (out @ chunk)), c)
          else campaign_pages fuel ce page_size (offset + page_size) (out @ chunk) c)"

definition smartemailing_iter_campaigns ::
  "nat \<Rightarrow> 's client_env \<Rightarrow> json \<Rightarrow> 's api_client \<Rightarrow> ((py_error, json) result \<times> 's api_client) option" where
  "smartemailing_iter_campaigns fuel ce page_size c =
     (case page_size of JInt n \<Rightarrow> campaign_pages fuel ce n 0 [] c | _ \<Rightarrow> Some (Inl TypeError, c))"

definition smartemailing_campaign_stats :: "'s client_env \<Rightarrow> json \<Rightarrow> ('s api_client, json) call" where
  "smartemailing_campaign_stats ce campaign =
     endpoint ce smartemailing_connector (''/campaigns/'' @ py_str campaign @ ''/recipients-statistics'') []
       (\<lambda>data. andthen (jget data ''data'') (\<lambda>d. dict_value (or_else d data)))"

definition smartemailing_tools :: "nat \<Rightarrow> 's client_env \<Rightarrow> (string \<times> 's tool) list" where
  "smartemailing_tools fuel ce =
     [(''ping'', no_args (smartemailing_ping ce)),
      (''contactlists.list'', no_args (smartemailing_list_contactlists ce)),
      (''contacts.count'', with_kwargs [(''contactlist_id'', Some JNull)] (\<lambda>args. smartemailing_count_contacts ce (args ! 0))),
      (''campaigns.list'', with_kwargs_loop [(''page_size'', Some (JInt 500))]
         (\<lambda>args. smartemailing_iter_campaigns fuel ce (args ! 0))),
      (''campaign.stats'', with_kwargs [(''campaign_id'', None)] (\<lambda>args. smartemailing_campaign_stats ce (args ! 0)))]"

section \<open>FAPI\<close>

definition fapi_session :: "json \<Rightarrow> (py_error, session) result" where
  "fapi_session tokens =
     andthen (required [''user'', ''api_key''] tokens) (\<lambda>ts. Inr
       \<lparr>se_base = ''https://api.fapi.cz'', se_headers = [accept_json], se_auth = Some (ts ! 0, ts ! 1), se_query = []\<rparr>)"

definition fapi_connector :: "'s api_connector" where
  "fapi_connector = key_connector fapi_session"

definition fapi_exchange_code :: "string \<Rightarrow> (py_error, json) result" where
  "fapi_exchange_code = pair_exchange ''user'' ''api_key''"

definition fapi_ping :: "'s client_env \<Rightarrow> ('s api_client, json) call" where
  "fapi_ping ce = api_get ce fapi_connector ''/invoices'' [(''limit'', JInt 1)]"

definition fapi_list :: "'s client_env \<Rightarrow> string \<Rightarrow> 's tool" where
  "fapi_list ce path = with_kwargs [(''limit'', Some (JInt 100)), (''offset'', Some (JInt 0))]
     (\<lambda>args. api_get ce fapi_connector path [(''limit'', args ! 0), (''offset'', args ! 1)])"

definition fapi_tools :: "'s client_env \<Rightarrow> (string \<times> 's tool) list" where
  "fapi_tools ce =
     [(''ping'', no_args (fapi_ping ce)),
      (''invoices.list'', fapi_list ce ''/invoices''),
      (''items.list'', fapi_list ce ''/items''),
      (''clients.list'', fapi_list ce ''/clients''),
      (''vouchers.list'', fapi_list ce ''/vouchers'')]"

section \<open>The credentials of the setup forms\<close>

text \<open>\<open>authorization_url\<close> leads to the setup form; \<open>exchange_code\<close> reads what was pasted there.\<close>

definition key_flows :: "(string \<times> string \<times> (string \<Rightarrow> (py_error, json) result)) list" where
  "key_flows =
     [(''smartemailing'', ''/integrations/smartemailing/setup/'', smartemailing_exchange_code),
      (''trello'', ''/integrations/trello/setup/'', trello_exchange_code),
      (''raynet'', ''/integrations/raynet/setup/'', raynet_exchange_code),
      (''caflou'', ''/integrations/caflou/setup/'', caflou_exchange_code),
      (''ecomail'', ''/integrations/ecomail/setup/'', ecomail_exchange_code),
      (''fapi'', ''/integrations/fapi/setup/'', fapi_exchange_code)]"

section \<open>The tools keep the session\<close>

text \<open>None of these refreshes, so the credentials stay as they are.\<close>

lemmas key_rules =
  conjI list.pred_inject(1) tool_tracks_no_args tool_tracks_kwargs tracks_chain tracks_basic tracks_cases tracks_get tracks_endpoint

lemma tracks_catching:
  "tracks ce co m \<Longrightarrow> tracks ce co (catching x m)"
  by (auto simp: tracks_def catching_def split: prod.splits sum.splits)

lemma mailchimp_tools_track:
  "fernet_law (ce_gw ce) \<Longrightarrow> list_all (\<lambda>(n, m). tool_tracks ce mailchimp_connector m) (mailchimp_tools ce)"
  unfolding mailchimp_tools_def list.pred_inject(2) prod.case mailchimp_ping_def mailchimp_list_audiences_def
    mailchimp_list_campaigns_def mailchimp_campaign_report_def
  by (intro key_rules)

lemma caflou_tools_track:
  "fernet_law (ce_gw ce) \<Longrightarrow> list_all (\<lambda>(n, m). tool_tracks ce caflou_connector m) (caflou_tools ce)"
  unfolding caflou_tools_def list.pred_inject(2) prod.case caflou_ping_def caflou_list_def
  by (intro key_rules)

lemma ecomail_tools_track:
  "fernet_law (ce_gw ce) \<Longrightarrow> list_all (\<lambda>(n, m). tool_tracks ce ecomail_connector m) (ecomail_tools ce)"
  unfolding ecomail_tools_def list.pred_inject(2) prod.case ecomail_ping_def ecomail_list_lists_def ecomail_list_campaigns_def
    ecomail_campaign_stats_def ecomail_list_subscribers_def ecomail_list_automations_def
  by (intro key_rules tracks_catching)

lemma raynet_tools_track:
  "fernet_law (ce_gw ce) \<Longrightarrow> list_all (\<lambda>(n, m). tool_tracks ce raynet_connector m) (raynet_tools ce)"
  unfolding raynet_tools_def list.pred_inject(2) prod.case raynet_ping_def raynet_list_def
  by (intro key_rules)

lemma trello_tools_track:
  "fernet_law (ce_gw ce) \<Longrightarrow> list_all (\<lambda>(n, m). tool_tracks ce trello_connector m) (trello_tools ce)"
  unfolding trello_tools_def list.pred_inject(2) prod.case trello_me_def trello_list_boards_def trello_list_lists_def
    trello_list_cards_def trello_list_actions_def
  by (intro key_rules)

lemma campaign_pages_track:
  assumes "fernet_law (ce_gw ce)"
  shows "campaign_pages fuel ce page_size offset out c = Some (r, c') \<Longrightarrow> client_step ce smartemailing_connector c c'"
proof (induction fuel arbitrary: offset out c)
  case (Suc fuel)
  let ?get = "chain (api_get ce smartemailing_connector ''/campaigns'' [(''limit'', JInt page_size), (''offset'', JInt offset)])
      (\<lambda>data. lift_result (andthen (jget data ''data'') (\<lambda>d. jiter (or_else d (JList [])))))"
  obtain r1 c1 where get: "?get c = (r1, c1)" by (rule prod.exhaust)
  have step: "client_step ce smartemailing_connector c c1"
  proof (rule tracksD)
    show "?get c = (r1, c1)" by (rule get)
    show "tracks ce smartemailing_connector ?get" by (intro key_rules assms)
  qed
  show ?case
  proof (cases "c1 = c'")
    case True
    with step show ?thesis by simp
  next
    case False
    then obtain chunk where "campaign_pages fuel ce page_size (offset + page_size) (out @ chunk) c1 = Some (r, c')"
      using Suc.prems get by (auto split: sum.splits if_splits)
    from Suc.IH[OF this] step show ?thesis by (rule client_step_trans[rotated])
  qed
qed simp

lemma smartemailing_tools_track:
  "fernet_law (ce_gw ce) \<Longrightarrow> list_all (\<lambda>(n, m). tool_tracks ce smartemailing_connector m) (smartemailing_tools fuel ce)"
  unfolding smartemailing_tools_def list.pred_inject(2) prod.case smartemailing_ping_def smartemailing_list_contactlists_def
    smartemailing_count_contacts_def smartemailing_campaign_stats_def
  by (intro key_rules tool_tracks_loop)
     (auto simp: smartemailing_iter_campaigns_def client_step_refl intro: campaign_pages_track split: json.splits)

lemma fapi_tools_track:
  "fernet_law (ce_gw ce) \<Longrightarrow> list_all (\<lambda>(n, m). tool_tracks ce fapi_connector m) (fapi_tools ce)"
  unfolding fapi_tools_def list.pred_inject(2) prod.case fapi_ping_def fapi_list_def
  by (intro key_rules)

end
