(* ===== verification/ClientPaging.thy ===== *)
theory ClientPaging
  imports OauthClients KeyClients
begin

text \<open>
  The two listings that page without a limit of their own: HubSpot's, which follows a cursor up to a
  cap, and SmartEmailing's, which counts an offset. When they return, what they return, and when they never do.
\<close>

section \<open>HubSpot\<close>

text \<open>What the API documents of a page: one with a cursor to the next has a result, and none has more than \<open>m\<close>.\<close>

definition pages_well :: "nat \<Rightarrow> 's client_env \<Rightarrow> string \<Rightarrow> bool" where
  "pages_well m ce path \<longleftrightarrow>
     (\<forall>params c data c' xs after. api_get ce (hubspot_connector ce) path params c = (Inr data, c') \<longrightarrow>
        hubspot_page data = Inr (xs, after) \<longrightarrow> length xs \<le> m \<and> (truth after \<longrightarrow> xs \<noteq> []))"

lemma hubspot_pages_return:
  assumes "pages_well m ce path"
  shows "cap - length out < fuel \<Longrightarrow> length out \<le> cap \<Longrightarrow>
    \<exists>r c'. hubspot_pages fuel ce path cap base params out c = Some (r, c')
      \<and> (\<forall>v. r = Inr v \<longrightarrow> (\<exists>ys. v = JList ys \<and> length ys \<le> cap + m))"
proof (induction fuel arbitrary: params out c)
  case (Suc fuel)
  obtain r1 c1 where get: "chain (api_get ce (hubspot_connector ce) path params) (\<lambda>data. lift_result (hubspot_page data)) c = (r1, c1)"
    by (rule prod.exhaust)
  show ?case
  proof (cases r1)
    case (Inl e)
    with get show ?thesis by simp
  next
    case (Inr p)
    obtain xs after where p: "p = (xs, after)" by force
    obtain data c0 where "api_get ce (hubspot_connector ce) path params c = (Inr data, c0)" "hubspot_page data = Inr (xs, after)"
      using get Inr p by (auto simp: chain_Inr_iff)
    with assms have page: "length xs \<le> m" "truth after \<longrightarrow> xs \<noteq> []" unfolding pages_well_def by blast+
    show ?thesis
    proof (cases "\<not> truth after \<or> cap \<le> length (out @ xs)")
      case True
      with get Inr p page(1) Suc.prems(2) show ?thesis by simp
    next
      case False
      then have "length (out @ xs) \<le> cap" "cap - length (out @ xs) < fuel" using page(2) Suc.prems by (auto simp: neq_Nil_conv)
      from Suc.IH[OF this(2,1)] show ?thesis using get Inr p False by simp
    qed
  qed
qed simp

text \<open>
  C26. The contact and deal listings of HubSpot return: if a page with a cursor is never empty, 1001 rounds
  are enough for contacts and 2001 for deals, and what they return has at most one page more than the cap.
\<close>

theorem hubspot_listings_return:
  assumes "pages_well m ce ''/crm/v3/objects/contacts''" "pages_well m ce ''/crm/v3/objects/deals''"
  shows "(\<exists>r c'. hubspot_list_contacts 1001 ce limit c = Some (r, c') \<and> (\<forall>v. r = Inr v \<longrightarrow> (\<exists>ys. v = JList ys \<and> length ys \<le> 1000 + m)))
    \<and> (\<exists>r c'. hubspot_list_deals 2001 ce limit c = Some (r, c') \<and> (\<forall>v. r = Inr v \<longrightarrow> (\<exists>ys. v = JList ys \<and> length ys \<le> 2000 + m)))"
  unfolding hubspot_list_contacts_def hubspot_list_deals_def Let_def
  by (intro conjI hubspot_pages_return assms) simp_all

section \<open>SmartEmailing\<close>

text \<open>A service that has the campaigns \<open>cs\<close> and pages them by offset and limit.\<close>

definition serves_campaigns :: "'s client_env \<Rightarrow> json list \<Rightarrow> bool" where
  "serves_campaigns ce cs \<longleftrightarrow>
     (\<forall>c limit offset. 0 < limit \<longrightarrow> 0 \<le> offset \<longrightarrow> (\<exists>data c'.
        api_get ce smartemailing_connector ''/campaigns'' [(''limit'', JInt limit), (''offset'', JInt offset)] c = (Inr data, c')
        \<and> jget data ''data'' = Inr (JList (take (nat limit) (drop (nat offset) cs)))))"

lemma or_else_list: "jiter (or_else (JList xs) (JList [])) = Inr xs"
  by (simp add: or_else_def)

lemma campaign_pages_all:
  assumes "serves_campaigns ce cs" "0 < n"
  shows "length cs - k < fuel \<Longrightarrow> \<exists>c'. campaign_pages fuel ce (int n) (int k) (take k cs) c = Some (Inr (JList cs), c')"
proof (induction fuel arbitrary: k c)
  case (Suc fuel)
  let ?chunk = "take n (drop k cs)"
  have "(0::int) < int n" "(0::int) \<le> int k" using assms(2) by simp_all
  with assms(1) obtain data c1 where page:
      "api_get ce smartemailing_connector ''/campaigns'' [(''limit'', JInt (int n)), (''offset'', JInt (int k))] c = (Inr data, c1)"
      "jget data ''data'' = Inr (JList (take (nat (int n)) (drop (nat (int k)) cs)))"
    unfolding serves_campaigns_def by blast
  have all: "take k cs @ ?chunk = take (k + n) cs" by (simp add: take_add)
  have "campaign_pages (Suc fuel) ce (int n) (int k) (take k cs) c =
      (if int (length ?chunk) < int n then Some (Inr (JList (take (k + n) cs)), c1)
       else campaign_pages fuel ce (int n) (int (k + n)) (take (k + n) cs) c1)"
    using page by (simp add: chain_def lift_result_def or_else_list all del: length_take take_take)
  moreover have "take (k + n) cs = cs" if "int (length ?chunk) < int n" using that by auto
  moreover have "\<exists>c'. campaign_pages fuel ce (int n) (int (k + n)) (take (k + n) cs) c1 = Some (Inr (JList cs), c')"
    if "\<not> int (length ?chunk) < int n"
  proof -
    from that have "n \<le> length cs - k" by auto
    then have "length cs - (k + n) < fuel" using Suc.prems assms(2) by linarith
    then show ?thesis by (rule Suc.IH)
  qed
  ultimately show ?case by auto
qed simp

text \<open>
  The campaign listing of SmartEmailing returns everything: from a service that pages \<open>cs\<close> by offset, a
  positive page size gives exactly \<open>cs\<close>, within as many rounds as there are campaigns and one more.
\<close>

theorem campaigns_paged:
  assumes "serves_campaigns ce cs" "0 < n" "length cs < fuel"
  shows "\<exists>c'. smartemailing_iter_campaigns fuel ce (JInt (int n)) c = Some (Inr (JList cs), c')"
  using campaign_pages_all[OF assms(1,2), of 0 fuel c] assms(3) by (simp add: smartemailing_iter_campaigns_def)

text \<open>The service answers every page with something.\<close>

definition answers_campaigns :: "'s client_env \<Rightarrow> int \<Rightarrow> bool" where
  "answers_campaigns ce n \<longleftrightarrow>
     (\<forall>c offset. \<exists>data xs c'.
        api_get ce smartemailing_connector ''/campaigns'' [(''limit'', JInt n), (''offset'', JInt offset)] c = (Inr data, c')
        \<and> jget data ''data'' = Inr (JList xs))"

text \<open>
  With a page size of zero or less the listing never returns while the service answers: no page is
  shorter than the page size, whatever the number of rounds.
\<close>

theorem zero_page_size_never_returns:
  assumes "answers_campaigns ce n" "n \<le> 0"
  shows "smartemailing_iter_campaigns fuel ce (JInt n) c = None"
proof -
  have "campaign_pages fuel ce n offset out c = None" for offset out
  proof (induction fuel arbitrary: offset out c)
    case (Suc fuel)
    obtain data xs c' where "api_get ce smartemailing_connector ''/campaigns'' [(''limit'', JInt n), (''offset'', JInt offset)] c = (Inr data, c')"
        "jget data ''data'' = Inr (JList xs)"
      using assms(1) unfolding answers_campaigns_def by blast
    with assms(2) Suc.IH show ?case by (simp add: chain_def lift_result_def or_else_list)
  qed simp
  then show ?thesis by (simp add: smartemailing_iter_campaigns_def)
qed

section \<open>Listings at work\<close>

definition sample_session :: session where
  "sample_session = \<lparr>se_base = [], se_headers = [], se_auth = None, se_query = []\<rparr>"

definition sample_api_client :: "rat api_client" where
  "sample_api_client = \<lparr>ac_session = sample_session, ac_tokens = JObj [(''access_token'', JStr ''a'')], ac_integration = 7,
     ac_backend = (0, [])\<rparr>"

text \<open>HubSpot with one contact, and no cursor.\<close>

definition hubspot_sample_page :: json where
  "hubspot_sample_page = JObj [(''results'', JList [JInt 1])]"

lemma hubspot_listings_return_witness:
  "\<exists>r c'. hubspot_list_contacts 1001 (sample_client_env (\<lambda>url rq. hubspot_sample_page)) (JInt 100) sample_api_client = Some (r, c')
     \<and> r = Inr (JList [JInt 1])"
proof -
  let ?ce = "sample_client_env (\<lambda>url rq. hubspot_sample_page)"
  have page: "hubspot_page hubspot_sample_page = Inr ([JInt 1], JNull)"
    by (simp add: hubspot_page_def hubspot_sample_page_def dict_get_def or_else_def)
  have "data = hubspot_sample_page" if "api_get ?ce (hubspot_connector ?ce) path params c = (Inr data, c')" for path params c data c'
  proof (cases "co_headers (hubspot_connector ?ce) (ac_tokens c)")
    case (Inl e)
    with that show ?thesis by (simp add: api_get_def chain_def api_send_def)
  next
    case (Inr hs)
    from sample_api_get[of "hubspot_connector ?ce", OF this] that show ?thesis by simp
  qed
  then have "pages_well 1 ?ce path" for path unfolding pages_well_def using page by fastforce
  then obtain r c' where "hubspot_list_contacts 1001 ?ce (JInt 100) sample_api_client = Some (r, c')"
    using hubspot_listings_return[of 1 ?ce "JInt 100" sample_api_client] by blast
  moreover have "hubspot_list_contacts (Suc k) ?ce (JInt 100) sample_api_client = Some (Inr (JList [JInt 1]), sample_api_client)" for k
    by (simp add: hubspot_list_contacts_def Let_def chain_def lift_result_def page sample_api_client_def hubspot_connector_def
        bearer_of_tokens_def jget_or_def sample_api_get[of _ _ "[bearer_header (JStr ''a'')]"] get_default_def)
  from this[of 1000] have "hubspot_list_contacts 1001 ?ce (JInt 100) sample_api_client = Some (Inr (JList [JInt 1]), sample_api_client)"
    by simp
  ultimately show ?thesis by simp
qed

text \<open>SmartEmailing with the campaigns \<open>cs\<close>: it reads the limit and the offset of the request.\<close>

definition campaigns_service :: "json list \<Rightarrow> string \<Rightarrow> http_request \<Rightarrow> json" where
  "campaigns_service cs url rq =
     (case (dict_get (rq_query rq) ''limit'', dict_get (rq_query rq) ''offset'') of
        (JInt n, JInt k) \<Rightarrow> JObj [(''data'', JList (take (nat n) (drop (nat k) cs)))]
      | _ \<Rightarrow> JNull)"

lemma campaigns_service_get:
  "\<exists>data. api_get (sample_client_env (campaigns_service cs)) smartemailing_connector ''/campaigns''
      [(''limit'', JInt n), (''offset'', JInt k)] c = (Inr data, c)
    \<and> jget data ''data'' = Inr (JList (take (nat n) (drop (nat k) cs)))"
  by (simp add: sample_api_get[of _ _ "[]"] smartemailing_connector_def key_connector_def no_headers_def campaigns_service_def
      dict_get_def map_of_dict_merge)

lemma campaigns_paged_witness:
  "\<exists>c'. smartemailing_iter_campaigns 4 (sample_client_env (campaigns_service [JInt 1, JInt 2, JInt 3])) (JInt (int 2)) sample_api_client
     = Some (Inr (JList [JInt 1, JInt 2, JInt 3]), c')"
  by (rule campaigns_paged) (use campaigns_service_get in \<open>simp_all add: serves_campaigns_def\<close>, blast)

lemma zero_page_size_never_returns_witness:
  "smartemailing_iter_campaigns 100 (sample_client_env (campaigns_service [JInt 1])) (JInt 0) sample_api_client = None"
  by (rule zero_page_size_never_returns) (use campaigns_service_get in \<open>simp_all add: answers_campaigns_def\<close>, blast)

end
