(* ===== verification/McpClients.thy ===== *)
theory McpClients
  imports ApiClient CrmSync
begin

text \<open>
  The connectors that forward to a remote MCP server: the \<open>client.py\<close>, \<open>integration.py\<close> and \<open>sync.py\<close> of Canva, Notion and
  Dropbox. The MCP SDK is a parameter: a call gives the content blocks of the answer, a listing the tools. All that
  is on the service and the credentials table, the \<open>'s backend\<close> of the gateway.
\<close>

section \<open>The client\<close>

datatype content_block = TextBlock string | OtherBlock json

record sdk_response =
  tp_content :: "content_block list"
  tp_is_error :: bool

record 's mcp_sdk =
  sdk_call :: "string \<Rightarrow> (string \<times> string) \<Rightarrow> string \<Rightarrow> json \<Rightarrow> ('s, sdk_response) call"
  sdk_list :: "string \<Rightarrow> (string \<times> string) \<Rightarrow> ('s, (json \<times> json \<times> json) list) call"
  sdk_in_loop :: bool

record tool_result =
  tr_is_error :: bool
  tr_text_blocks :: "string list"
  tr_structured :: "json list"

text \<open>\<open>first_json\<close>: the first text block that is JSON, or else the first other block. Only a decoding error is skipped.\<close>

fun first_json_text :: "(string \<Rightarrow> (py_error, json) result) \<Rightarrow> string list \<Rightarrow> (py_error, json option) result" where
  "first_json_text loads [] = Inr None"
| "first_json_text loads (blob # blobs) =
     (let blob = str_strip blob
      in if starts_with ''{'' blob \<or> starts_with ''['' blob
         then (case loads blob of
                 Inr v \<Rightarrow> Inr (Some v)
               | Inl ValueError \<Rightarrow> first_json_text loads blobs
               | Inl e \<Rightarrow> Inl e)
         else first_json_text loads blobs)"

definition first_json :: "(string \<Rightarrow> (py_error, json) result) \<Rightarrow> tool_result \<Rightarrow> (py_error, json) result" where
  "first_json loads r =
     andthen (first_json_text loads (tr_text_blocks r)) (\<lambda>v. Inr (case v of
       Some x \<Rightarrow> x
     | None \<Rightarrow> (case tr_structured r of [] \<Rightarrow> JNull | x # _ \<Rightarrow> x)))"

fun text_blocks :: "content_block list \<Rightarrow> string list" where
  "text_blocks [] = []"
| "text_blocks (TextBlock s # bs) = s # text_blocks bs"
| "text_blocks (OtherBlock v # bs) = text_blocks bs"

fun other_blocks :: "content_block list \<Rightarrow> json list" where
  "other_blocks [] = []"
| "other_blocks (TextBlock s # bs) = other_blocks bs"
| "other_blocks (OtherBlock v # bs) = v # other_blocks bs"

text \<open>\<open>_run\<close>: inside a running event loop \<open>run_until_complete\<close> raises and the coroutine never starts.\<close>

definition run_coro :: "'s mcp_sdk \<Rightarrow> ('s, 'a) call \<Rightarrow> ('s, 'a) call" where
  "run_coro sdk m = (if sdk_in_loop sdk then lift_result (Inl (RuntimeError ''This event loop is already running'')) else m)"

definition call_tool :: "'s mcp_sdk \<Rightarrow> string \<Rightarrow> json \<Rightarrow> string \<Rightarrow> json \<Rightarrow> ('s, tool_result) call" where
  "call_tool sdk url access_token tool arguments =
     run_coro sdk (chain (sdk_call sdk url (bearer_header access_token) tool (or_else arguments (JObj []))) (\<lambda>response. ret
       \<lparr>tr_is_error = tp_is_error response, tr_text_blocks = text_blocks (tp_content response),
        tr_structured = other_blocks (tp_content response)\<rparr>))"

definition list_tools :: "'s mcp_sdk \<Rightarrow> string \<Rightarrow> json \<Rightarrow> ('s, json) call" where
  "list_tools sdk url access_token =
     run_coro sdk (chain (sdk_list sdk url (bearer_header access_token)) (\<lambda>tools. ret (JList (map (\<lambda>(name, description, schema).
       JObj [(''name'', name), (''description'', description), (''input_schema'', schema)]) tools))))"

definition canva_mcp_url :: string where
  "canva_mcp_url = ''https://mcp.canva.com/mcp''"

definition notion_mcp_url :: string where
  "notion_mcp_url = ''https://mcp.notion.com/mcp''"

definition dropbox_mcp_url :: string where
  "dropbox_mcp_url = ''https://mcp.dropbox.com/mcp''"

section \<open>The integrations\<close>

definition on_backend :: "('s, 'a) call \<Rightarrow> ('s backend, 'a) call" where
  "on_backend m b = (case m (fst b) of (r, s) \<Rightarrow> (r, s, snd b))"

definition find_credential :: "integration \<Rightarrow> ('s backend, credential_row) call" where
  "find_credential i b =
     (case lookup cr_integration (snd b) (integration_id i) of None \<Rightarrow> (Inl ValueError, b) | Some cred \<Rightarrow> (Inr cred, b))"

text \<open>\<open>_refresh_and_persist\<close>: the new tokens over the old ones, stored and returned.\<close>

definition refresh_and_persist ::
  "'s client_env \<Rightarrow> (json \<Rightarrow> ('s, json) call) \<Rightarrow> credential_row \<Rightarrow> json \<Rightarrow> ('s backend, json) call" where
  "refresh_and_persist ce refresh cred tokens =
     chain (on_backend (refresh tokens)) (\<lambda>new.
     chain (lift_result (merged tokens new)) (\<lambda>tokens.
     (\<lambda>(s, creds). case set_tokens (ce_gw ce) tokens s of
        Inl e \<Rightarrow> (Inl e, s, creds)
      | Inr enc \<Rightarrow> (Inr tokens, s, save_tokens (cr_integration cred) enc (gw_wall (ce_gw ce) s) creds))))"

definition call_answer :: "'s client_env \<Rightarrow> tool_result \<Rightarrow> (py_error, call_result) result" where
  "call_answer ce r =
     (if tr_is_error r
      then Inr \<lparr>mr_ok = False, mr_data = JNull,
        mr_error = (let t = join ''; '' (tr_text_blocks r) in if t = [] then ''tool returned isError'' else t)\<rparr>
      else andthen (first_json (gw_loads (ce_gw ce)) r) (\<lambda>payload. Inr
        \<lparr>mr_ok = True, mr_data = (if payload = JNull then JObj [(''text'', JList (map JStr (tr_text_blocks r)))] else payload),
         mr_error = []\<rparr>))"

definition missing_token :: call_result where
  "missing_token = \<lparr>mr_ok = False, mr_data = JNull, mr_error = ''missing access_token''\<rparr>"

text \<open>\<open>except Exception as exc: return MCPCallResult(ok=False, error=str(exc))\<close>\<close>

definition or_failed :: "'s client_env \<Rightarrow> ('s backend, call_result) call \<Rightarrow> 's backend \<Rightarrow> call_result \<times> 's backend" where
  "or_failed ce m b =
     (case m b of (Inl e, b) \<Rightarrow> (\<lparr>mr_ok = False, mr_data = JNull, mr_error = ce_text ce e\<rparr>, b) | (Inr r, b) \<Rightarrow> (r, b))"

text \<open>\<open>call\<close> of Canva and Dropbox: a 401 refreshes the tokens once and the call is made again.\<close>

definition renewing_tool ::
  "'s client_env \<Rightarrow> 's mcp_sdk \<Rightarrow> string \<Rightarrow> (json \<Rightarrow> ('s, json) call) \<Rightarrow> credential_row \<Rightarrow> json \<Rightarrow> json \<Rightarrow> string \<Rightarrow> json
     \<Rightarrow> ('s backend, tool_result) call" where
  "renewing_tool ce sdk url refresh cred tokens access_token tool params b =
     (case on_backend (call_tool sdk url access_token tool params) b of
        (Inl (HTTPStatusError n), b) \<Rightarrow>
          if n = 401
          then chain (refresh_and_persist ce refresh cred tokens) (\<lambda>tokens.
               chain (lift_result (jindex tokens ''access_token'')) (\<lambda>access_token.
               on_backend (call_tool sdk url access_token tool params))) b
          else (Inl (HTTPStatusError n), b)
      | x \<Rightarrow> x)"

definition renewing_call ::
  "'s client_env \<Rightarrow> 's mcp_sdk \<Rightarrow> string \<Rightarrow> (json \<Rightarrow> ('s, json) call) \<Rightarrow> integration \<Rightarrow> string \<Rightarrow> json
     \<Rightarrow> 's backend \<Rightarrow> call_result \<times> 's backend" where
  "renewing_call ce sdk url refresh i tool params =
     or_failed ce
      (chain (find_credential i) (\<lambda>cred.
       chain (lift_result (get_tokens (ce_gw ce) (cr_tokens cred))) (\<lambda>tokens.
       chain (lift_result (jget_or tokens ''access_token'' (JStr []))) (\<lambda>access_token.
       if \<not> truth access_token then ret missing_token
       else chain (renewing_tool ce sdk url refresh cred tokens access_token tool params)
              (\<lambda>r. lift_result (call_answer ce r))))))"

text \<open>\<open>call\<close> of Notion, whose tokens do not expire.\<close>

definition notion_call ::
  "'s client_env \<Rightarrow> 's mcp_sdk \<Rightarrow> integration \<Rightarrow> string \<Rightarrow> json \<Rightarrow> 's backend \<Rightarrow> call_result \<times> 's backend" where
  "notion_call ce sdk i tool params =
     or_failed ce
      (chain (find_credential i) (\<lambda>cred.
       chain (lift_result (get_tokens (ce_gw ce) (cr_tokens cred))) (\<lambda>tokens.
       chain (lift_result (jget (or_else tokens (JObj [])) ''access_token'')) (\<lambda>access_token.
       if \<not> truth access_token then ret missing_token
       else chain (on_backend (call_tool sdk notion_mcp_url access_token tool params)) (\<lambda>r. lift_result (call_answer ce r))))))"

definition canva_call ::
  "'s client_env \<Rightarrow> 's mcp_sdk \<Rightarrow> integration \<Rightarrow> string \<Rightarrow> json \<Rightarrow> 's backend \<Rightarrow> call_result \<times> 's backend" where
  "canva_call ce sdk = renewing_call ce sdk canva_mcp_url (canva_refresh_tokens (ce_web ce))"

definition dropbox_call ::
  "'s client_env \<Rightarrow> 's mcp_sdk \<Rightarrow> integration \<Rightarrow> string \<Rightarrow> json \<Rightarrow> 's backend \<Rightarrow> call_result \<times> 's backend" where
  "dropbox_call ce sdk = renewing_call ce sdk dropbox_mcp_url (dropbox_refresh_tokens (ce_web ce))"

section \<open>The syncs\<close>

text \<open>\<open>_safe_call\<close>: \<open>None\<close> for a tool that is missing or fails.\<close>

definition safe_call :: "'s client_env \<Rightarrow> 's mcp_sdk \<Rightarrow> string \<Rightarrow> json \<Rightarrow> string \<Rightarrow> json \<Rightarrow> ('s, json) call" where
  "safe_call ce sdk url access_token tool args =
     catching JNull (chain (call_tool sdk url access_token tool args) (\<lambda>r.
       if tr_is_error r then ret JNull else lift_result (first_json (gw_loads (ce_gw ce)) r)))"

text \<open>
  The catalog: the tools the server lists, put into \<open>integration.meta\<close>, or those of the last listing. Gives the
  tools and the new \<open>meta\<close>.
\<close>

definition tools_catalog :: "'s mcp_sdk \<Rightarrow> string \<Rightarrow> json \<Rightarrow> json \<Rightarrow> ('s, json \<times> json) call" where
  "tools_catalog sdk url access_token old s =
     (case chain (list_tools sdk url access_token) (\<lambda>tools. lift_result (case or_else old (JObj []) of
             JObj kvs \<Rightarrow> Inr (tools, JObj (dict_merge kvs [(''tools'', tools)]))
           | _ \<Rightarrow> Inl TypeError)) s of
        (Inr x, s) \<Rightarrow> (Inr x, s)
      | (Inl e, s) \<Rightarrow> (andthen (jget (or_else old (JObj [])) ''tools'') (\<lambda>tools. Inr (or_else tools (JList []), old)), s))"

text \<open>What the modules share; \<open>strict\<close> is for Canva, where a missing credential raises. \<open>gather\<close> makes the module's own calls and
  computes the metrics from them and the number of tools.\<close>

definition run_mcp_sync ::
  "'s client_env \<Rightarrow> 's mcp_sdk \<Rightarrow> string \<Rightarrow> string \<Rightarrow> bool \<Rightarrow> (json \<Rightarrow> json \<Rightarrow> ('s, json) call) \<Rightarrow> int
     \<Rightarrow> 's backend snap_world \<Rightarrow> (py_error, data_snapshot option) result \<times> 's backend snap_world" where
  "run_mcp_sync ce sdk source url strict gather days w =
     (case active_integration source (integrations w) of
        None \<Rightarrow> (Inr None, w)
      | Some i \<Rightarrow>
     (case lookup cr_integration (snd (service w)) (integration_id i) of
        None \<Rightarrow> ((if strict then Inl ValueError else Inr None), w)
      | Some cred \<Rightarrow>
     (case andthen (get_tokens (ce_gw ce) (cr_tokens cred)) (\<lambda>tokens. jget_or tokens ''access_token'' (JStr [])) of
        Inl e \<Rightarrow> (Inl e, w)
      | Inr access_token \<Rightarrow>
          if \<not> truth access_token then (Inr None, w)
          else
     (case chain (tools_catalog sdk url access_token (meta i)) (\<lambda>(tools, new_meta).
             chain (gather access_token tools) (\<lambda>metrics. ret (metrics, new_meta))) (fst (service w)) of
        (Inl e, s) \<Rightarrow> (Inl e, w\<lparr>service := (s, snd (service w))\<rparr>)
      | (Inr (metrics, new_meta), s) \<Rightarrow>
          (let w = w\<lparr>service := (s, snd (service w))\<rparr>; t = gw_wall (ce_gw ce) s
           in case minus_days (day_of t) days of
                Inl e \<Rightarrow> (Inl e, w)
              | Inr period_start \<Rightarrow>
                  (let k = fresh_id snap_id (snapshots w);
                       snap = \<lparr>snap_id = k, snap_source = source,
                         snap_period_start = period_start, snap_period_end = day_of t,
                         snap_metrics = metrics, snap_created_at = t + until_insert w k\<rparr>
                   in (Inr (Some snap), w\<lparr>snapshots := snapshots w @ [snap],
                         integrations := map (\<lambda>r. if integration_id r = integration_id i
                             then r\<lparr>last_sync_at := Some (snap_created_at snap + insert_time w k), meta := new_meta\<rparr> else r) (integrations w)\<rparr>)))))))"

text \<open>\<open>v.get(a) or v.get(b) or []\<close> of a dict, other values as they are; the number and the first items of a list.\<close>

definition dict_items :: "string \<Rightarrow> json \<Rightarrow> json" where
  "dict_items b v =
     (case v of JObj kvs \<Rightarrow> or_else (dict_get kvs ''items'') (or_else (dict_get kvs b) (JList [])) | _ \<Rightarrow> v)"

definition list_count :: "json \<Rightarrow> json" where
  "list_count v = (case v of JList xs \<Rightarrow> jnat (length xs) | _ \<Rightarrow> JInt 0)"

definition list_prefix :: "nat \<Rightarrow> json \<Rightarrow> json" where
  "list_prefix n v = (case v of JList xs \<Rightarrow> JList (take n xs) | _ \<Rightarrow> JList [])"

definition tools_metric :: "json \<Rightarrow> (py_error, json) result" where
  "tools_metric tools = andthen (jlen tools) (\<lambda>n. Inr (ok_data (JObj [(''count'', jnat n)])))"

definition canva_gather :: "'s client_env \<Rightarrow> 's mcp_sdk \<Rightarrow> json \<Rightarrow> json \<Rightarrow> ('s, json) call" where
  "canva_gather ce sdk access_token tools =
     (let read = safe_call ce sdk canva_mcp_url access_token
      in chain (read ''users/me'' (JObj [])) (\<lambda>profile.
         chain (read ''designs/list'' (JObj [(''limit'', JInt 100)])) (\<lambda>designs.
         chain (read ''brand-templates/list'' (JObj [])) (\<lambda>brand_templates.
         chain (read ''folders/list'' (JObj [])) (\<lambda>folders.
         let designs = dict_items ''designs'' (or_else designs (JList []));
             brand_templates = dict_items ''brand_templates'' (or_else brand_templates (JList []));
             folders = dict_items ''folders'' (or_else folders (JList []))
         in lift_result (andthen (tools_metric tools) (\<lambda>tm. Inr (JObj
             [(''profile'', JObj [(''data'', or_else profile (JObj [])), (''ok'', JBool (profile \<noteq> JNull))]),
              (''designs'', ok_data (JObj [(''count'', list_count designs), (''items'', list_prefix 25 designs)])),
              (''brand_templates'', ok_data (JObj [(''count'', list_count brand_templates)])),
              (''folders'', ok_data (JObj [(''count'', list_count folders)])),
              (''tools'', tm)]))))))))"

text \<open>The first of two tool names that answers.\<close>

definition either_call ::
  "'s client_env \<Rightarrow> 's mcp_sdk \<Rightarrow> string \<Rightarrow> json \<Rightarrow> string \<Rightarrow> string \<Rightarrow> json \<Rightarrow> ('s, json) call" where
  "either_call ce sdk url access_token a b args =
     chain (safe_call ce sdk url access_token a args) (\<lambda>x.
     if truth x then ret x
     else chain (safe_call ce sdk url access_token b args) (\<lambda>y. ret (or_else y (JObj []))))"

definition notion_gather :: "'s client_env \<Rightarrow> 's mcp_sdk \<Rightarrow> json \<Rightarrow> json \<Rightarrow> ('s, json) call" where
  "notion_gather ce sdk access_token tools =
     chain (either_call ce sdk notion_mcp_url access_token ''search'' ''notion/search'' (JObj [(''query'', JStr [])])) (\<lambda>pages.
     chain (lift_result (case pages of
         JObj kvs \<Rightarrow> jlen (or_else (dict_get kvs ''results'') (JList []))
       | JList xs \<Rightarrow> Inr (length xs)
       | _ \<Rightarrow> Inr 0)) (\<lambda>page_count.
     lift_result (andthen (tools_metric tools) (\<lambda>tm. Inr (JObj
       [(''tools'', tm), (''search'', ok_data (JObj [(''page_count'', jnat page_count)]))])))))"

definition dropbox_gather :: "'s client_env \<Rightarrow> 's mcp_sdk \<Rightarrow> json \<Rightarrow> json \<Rightarrow> ('s, json) call" where
  "dropbox_gather ce sdk access_token tools =
     chain (either_call ce sdk dropbox_mcp_url access_token ''files/list_folder'' ''list_folder''
       (JObj [(''path'', JStr []), (''limit'', JInt 100)])) (\<lambda>listing.
     chain (lift_result (case listing of
         JObj kvs \<Rightarrow> jlen (or_else (dict_get kvs ''entries'') (JList []))
       | _ \<Rightarrow> Inr 0)) (\<lambda>file_count.
     lift_result (andthen (tools_metric tools) (\<lambda>tm. Inr (JObj
       [(''tools'', tm), (''files'', ok_data (JObj [(''root_count'', jnat file_count)]))])))))"

definition notion_sync ::
  "'s client_env \<Rightarrow> 's mcp_sdk \<Rightarrow> int \<Rightarrow> 's backend snap_world \<Rightarrow> (py_error, data_snapshot option) result \<times> 's backend snap_world" where
  "notion_sync ce sdk = run_mcp_sync ce sdk ''notion'' notion_mcp_url False (notion_gather ce sdk)"

definition dropbox_sync ::
  "'s client_env \<Rightarrow> 's mcp_sdk \<Rightarrow> int \<Rightarrow> 's backend snap_world \<Rightarrow> (py_error, data_snapshot option) result \<times> 's backend snap_world" where
  "dropbox_sync ce sdk = run_mcp_sync ce sdk ''dropbox'' dropbox_mcp_url False (dropbox_gather ce sdk)"

text \<open>
  Canva ends with a look at its tokens: \<open>credential\<close> is the object read at the start, whose
  \<open>encrypted_tokens\<close> nobody has written since.
\<close>

definition canva_sync ::
  "'s client_env \<Rightarrow> 's mcp_sdk \<Rightarrow> int \<Rightarrow> 's backend snap_world \<Rightarrow> (py_error, data_snapshot option) result \<times> 's backend snap_world" where
  "canva_sync ce sdk days w =
     (case run_mcp_sync ce sdk ''canva'' canva_mcp_url True (canva_gather ce sdk) days w of
        (Inr (Some snap), w') \<Rightarrow>
          (case active_integration ''canva'' (integrations w) of
             None \<Rightarrow> (Inr (Some snap), w')
           | Some i \<Rightarrow>
          (case lookup cr_integration (snd (service w)) (integration_id i) of
             None \<Rightarrow> (Inr (Some snap), w')
           | Some cred \<Rightarrow>
               (let final = (\<lambda>b. chain (lift_result (get_tokens (ce_gw ce) (cr_tokens cred))) (\<lambda>new_tokens.
                      chain (lift_result (andthen (jget new_tokens ''access_token'') (\<lambda>new.
                               andthen (get_tokens (ce_gw ce) (cr_tokens cred)) (\<lambda>old.
                               andthen (jget_or old ''access_token'' (JStr [])) (\<lambda>used. Inr (new \<noteq> used)))))) (\<lambda>changed.
                      if changed then refresh_and_persist ce (canva_refresh_tokens (ce_web ce)) cred new_tokens
                      else ret new_tokens)) b)
                in case final (service w') of (r, b) \<Rightarrow> (andthen r (\<lambda>_. Inr (Some snap)), w'\<lparr>service := b\<rparr>))))
      | x \<Rightarrow> x)"

section \<open>The calls keep the session\<close>

lemma on_backend_frame: "on_backend m b = (r, b') \<Longrightarrow> snd b' = snd b"
  by (auto simp: on_backend_def split: prod.splits)

lemma chain_on_backend:
  assumes "chain m f b = (r, b')" "\<And>r b'. m b = (r, b') \<Longrightarrow> P b'" "\<And>x b1 r b'. P b1 \<Longrightarrow> f x b1 = (r, b') \<Longrightarrow> P b'"
  shows "P b'"
  using assms by (auto simp: chain_def split: prod.splits sum.splits)

text \<open>The credentials after a call: as they were, or with what one refresh gave.\<close>

definition renewed_rows ::
  "'s client_env \<Rightarrow> (json \<Rightarrow> ('s, json) call) \<Rightarrow> nat \<Rightarrow> json \<Rightarrow> credential_row list \<Rightarrow> credential_row list \<Rightarrow> bool" where
  "renewed_rows ce refresh pk tokens rows rows' \<longleftrightarrow>
     rows' = rows \<or> (\<exists>s new s1 t enc now. refresh tokens s = (Inr new, s1) \<and> merged tokens new = Inr t
       \<and> set_tokens (ce_gw ce) t s1 = Inr enc \<and> rows' = save_tokens pk enc now rows)"

lemma refresh_and_persist_rows:
  assumes "refresh_and_persist ce refresh cred tokens b = (r, b')"
  shows "renewed_rows ce refresh (cr_integration cred) tokens (snd b) (snd b')"
proof -
  obtain r1 s1 where f: "refresh tokens (fst b) = (r1, s1)" by (rule prod.exhaust)
  show ?thesis
  proof (cases "\<exists>new t enc. r1 = Inr new \<and> merged tokens new = Inr t \<and> set_tokens (ce_gw ce) t s1 = Inr enc")
    case False
    then have "snd b' = snd b"
      using assms f by (cases r1) (auto simp: refresh_and_persist_def on_backend_def chain_def lift_result_def split: sum.splits)
    then show ?thesis by (simp add: renewed_rows_def)
  next
    case True
    then obtain new t enc where t: "r1 = Inr new" "merged tokens new = Inr t" "set_tokens (ce_gw ce) t s1 = Inr enc" by blast
    then have "snd b' = save_tokens (cr_integration cred) enc (gw_wall (ce_gw ce) s1) (snd b)"
      using assms f by (auto simp: refresh_and_persist_def on_backend_def chain_def lift_result_def)
    with f t show ?thesis unfolding renewed_rows_def by blast
  qed
qed

lemma renewing_tool_rows:
  assumes "renewing_tool ce sdk url refresh cred tokens access_token tool params b = (r, b')"
  shows "renewed_rows ce refresh (cr_integration cred) tokens (snd b) (snd b')"
proof -
  obtain r1 b1 where c: "on_backend (call_tool sdk url access_token tool params) b = (r1, b1)" by (rule prod.exhaust)
  note same = on_backend_frame[OF c]
  show ?thesis
  proof (cases "r1 = Inl (HTTPStatusError 401)")
    case False
    then have "b' = b1" using assms c by (auto simp: renewing_tool_def split: sum.splits py_error.splits if_splits)
    with same show ?thesis by (simp add: renewed_rows_def)
  next
    case True
    then have "chain (refresh_and_persist ce refresh cred tokens) (\<lambda>tokens. chain (lift_result (jindex tokens ''access_token''))
        (\<lambda>access_token. on_backend (call_tool sdk url access_token tool params))) b1 = (r, b')"
      using assms c by (simp add: renewing_tool_def)
    then show ?thesis
    proof (rule chain_on_backend)
      show "renewed_rows ce refresh (cr_integration cred) tokens (snd b) (snd b2)"
        if "refresh_and_persist ce refresh cred tokens b1 = (r, b2)" for r b2
        using refresh_and_persist_rows[OF that] same by simp
      show "renewed_rows ce refresh (cr_integration cred) tokens (snd b) (snd b3)"
        if "renewed_rows ce refresh (cr_integration cred) tokens (snd b) (snd b2)"
          "chain (lift_result (jindex x ''access_token'')) (\<lambda>a. on_backend (call_tool sdk url a tool params)) b2 = (r, b3)"
        for x b2 r b3
        using that by (auto simp: chain_def lift_result_def split: sum.splits dest: on_backend_frame)
    qed
  qed
qed

lemma renewed_rows_session:
  assumes "renewed_rows ce refresh pk t (snd b) (snd b')" "fernet_law (ce_gw ce)"
    and "lookup cr_integration (snd b) pk = Some cred" "get_tokens (ce_gw ce) (cr_tokens cred) = Inr t"
  shows "keeps_session ce (Some refresh) pk b b'"
proof (cases "snd b' = snd b")
  case True
  then show ?thesis by (rule keeps_session_refl)
next
  case False
  then obtain s new s1 t' enc now where r: "refresh t s = (Inr new, s1)" "merged t new = Inr t'"
      "set_tokens (ce_gw ce) t' s1 = Inr enc" "snd b' = save_tokens pk enc now (snd b)"
    using assms(1) unfolding renewed_rows_def by blast
  have new: "refreshed (Some refresh) t t'" by (rule refreshed.again[OF refreshed.same refl]) (rule r(1), rule r(2))
  have "get_tokens (ce_gw ce) enc = gw_loads (ce_gw ce) (gw_dumps (ce_gw ce) t')" by (rule get_set_tokens[OF assms(2) r(3)])
  with new have "json_law ce (Some refresh) t \<Longrightarrow> get_tokens (ce_gw ce) enc = Inr t'" by (simp add: json_law_def)
  with new show ?thesis using assms(3,4) by (auto simp: keeps_session_def r(4) lookup_save_tokens option.map_ident)
qed

lemma or_failed_snd: "snd (or_failed ce m b) = snd (m b)"
  by (auto simp: or_failed_def split: prod.split sum.split)

lemma renewing_call_session:
  assumes "renewing_call ce sdk url refresh i tool params b = (r, b')" "fernet_law (ce_gw ce)"
  shows "keeps_session ce (Some refresh) (integration_id i) b b'"
proof (cases "lookup cr_integration (snd b) (integration_id i)")
  case None
  then have "b' = b" using assms(1) by (simp add: renewing_call_def or_failed_def find_credential_def chain_def)
  then show ?thesis by (simp add: keeps_session_refl)
next
  case (Some cred)
  have pk: "cr_integration cred = integration_id i" using lookup_SomeD[OF Some] by simp
  let ?tokens = "get_tokens (ce_gw ce) (cr_tokens cred)"
  let ?rest = "\<lambda>tokens access_token. chain (renewing_tool ce sdk url refresh cred tokens access_token tool params)
      (\<lambda>r. lift_result (call_answer ce r))"
  have b': "b' = snd (chain (find_credential i) (\<lambda>cred. chain (lift_result (get_tokens (ce_gw ce) (cr_tokens cred))) (\<lambda>tokens.
      chain (lift_result (jget_or tokens ''access_token'' (JStr []))) (\<lambda>access_token.
      if \<not> truth access_token then ret missing_token
      else chain (renewing_tool ce sdk url refresh cred tokens access_token tool params) (\<lambda>r. lift_result (call_answer ce r))))) b)"
    using arg_cong[OF assms(1), of snd] unfolding renewing_call_def or_failed_snd by simp
  show ?thesis
  proof (cases "\<exists>tokens a. ?tokens = Inr tokens \<and> jget_or tokens ''access_token'' (JStr []) = Inr a \<and> truth a")
    case False
    have "b' = b"
    proof (cases ?tokens)
      case (Inl e)
      then show ?thesis using b' Some by (simp add: find_credential_def chain_def lift_result_def)
    next
      case (Inr tokens)
      then show ?thesis using b' Some False
        by (cases "jget_or tokens ''access_token'' (JStr [])") (simp_all add: find_credential_def chain_def lift_result_def ret_def)
    qed
    then have "snd b' = snd b" by simp
    then show ?thesis by (rule keeps_session_refl)
  next
    case True
    then obtain tokens a where t: "?tokens = Inr tokens" "jget_or tokens ''access_token'' (JStr []) = Inr a" "truth a" by blast
    obtain r1 b1 where tool: "renewing_tool ce sdk url refresh cred tokens a tool params b = (r1, b1)" by (rule prod.exhaust)
    have "b' = b1" using b' Some t tool by (cases r1) (simp_all add: find_credential_def chain_def lift_result_def)
    then show ?thesis
      using renewed_rows_session[OF renewing_tool_rows[OF tool] assms(2), unfolded pk, OF Some t(1)] by simp
  qed
qed

lemma notion_call_session: "notion_call ce sdk i tool params b = (r, b') \<Longrightarrow> snd b' = snd b"
  by (auto simp: notion_call_def or_failed_def find_credential_def chain_def lift_result_def ret_def
      dest: on_backend_frame split: prod.splits sum.splits option.splits if_splits)

section \<open>The contract of the syncs\<close>

text \<open>
  As for the other snapshot syncs, with the tools catalog: one row for the source and the asked period, with the stamp
  and the catalog on the integration, or both tables alone; and the credentials alone in every case.
\<close>

definition catalog_contract ::
  "'s client_env \<Rightarrow> string \<Rightarrow> int \<Rightarrow> (py_error, data_snapshot option) result \<Rightarrow> 's backend snap_world \<Rightarrow> 's backend snap_world \<Rightarrow> bool" where
  "catalog_contract ce source days r w w' \<longleftrightarrow> snd (service w') = snd (service w) \<and>
     (case r of
        Inr (Some snap) \<Rightarrow>
          (\<exists>i catalog. active_integration source (integrations w) = Some i
             \<and> snapshots w' = snapshots w @ [snap] \<and> snap_source snap = source
             \<and> snap_id snap \<notin> snap_id ` set (snapshots w)
             \<and> snap_period_end snap = day_of (gw_wall (ce_gw ce) (fst (service w')))
             \<and> snap_period_start snap = snap_period_end snap - days
             \<and> snap_created_at snap = gw_wall (ce_gw ce) (fst (service w')) + until_insert w (snap_id snap)
             \<and> integrations w' = map (\<lambda>r. if integration_id r = integration_id i
                 then r\<lparr>last_sync_at := Some (snap_created_at snap + insert_time w (snap_id snap)), meta := catalog\<rparr> else r) (integrations w))
      | _ \<Rightarrow> snapshots w' = snapshots w \<and> integrations w' = integrations w)"

lemma run_mcp_sync_contract:
  "run_mcp_sync ce sdk source url strict gather days w = (r, w') \<Longrightarrow> catalog_contract ce source days r w w'"
  by (auto simp: run_mcp_sync_def catalog_contract_def minus_days_def Let_def
      dest: fresh_id_gt[where pk = snap_id] split: option.splits prod.splits sum.splits if_splits)

lemma run_mcp_sync_Some:
  assumes "run_mcp_sync ce sdk source url strict gather days w = (Inr (Some snap), w')"
  obtains i cred access where "active_integration source (integrations w) = Some i"
    "lookup cr_integration (snd (service w)) (integration_id i) = Some cred"
    "andthen (get_tokens (ce_gw ce) (cr_tokens cred)) (\<lambda>tokens. jget_or tokens ''access_token'' (JStr [])) = Inr access" "truth access"
  using assms by (auto simp: run_mcp_sync_def Let_def split: option.splits prod.splits sum.splits if_splits)

text \<open>Canva's last step never finds other tokens than those it started with.\<close>

lemma canva_sync_same: "canva_sync ce sdk days w = run_mcp_sync ce sdk ''canva'' canva_mcp_url True (canva_gather ce sdk) days w"
proof -
  obtain r w' where run: "run_mcp_sync ce sdk ''canva'' canva_mcp_url True (canva_gather ce sdk) days w = (r, w')" by (rule prod.exhaust)
  show ?thesis
  proof (cases "\<exists>snap. r = Inr (Some snap)")
    case False
    with run show ?thesis by (auto simp: canva_sync_def split: sum.split option.split)
  next
    case True
    then obtain snap where r: "r = Inr (Some snap)" by blast
    obtain i cred access where c: "active_integration ''canva'' (integrations w) = Some i"
        "lookup cr_integration (snd (service w)) (integration_id i) = Some cred"
        "andthen (get_tokens (ce_gw ce) (cr_tokens cred)) (\<lambda>tokens. jget_or tokens ''access_token'' (JStr [])) = Inr access" "truth access"
      by (rule run_mcp_sync_Some[OF run[unfolded r]])
    obtain kvs where kvs: "get_tokens (ce_gw ce) (cr_tokens cred) = Inr (JObj kvs)" "access = get_default kvs ''access_token'' (JStr [])"
      using c(3) by (cases "get_tokens (ce_gw ce) (cr_tokens cred)"; cases "projr (get_tokens (ce_gw ce) (cr_tokens cred))")
        (auto simp: jget_or_def)
    moreover have "dict_get kvs ''access_token'' = access"
      using c(4) kvs(2) by (auto simp: dict_get_def get_default_def split: option.splits)
    ultimately show ?thesis
      using run r c(1,2) by (simp add: canva_sync_def Let_def chain_def lift_result_def ret_def jget_or_def)
  qed
qed

text \<open>
  The syncs of Canva, Notion and Dropbox account for what they write: one snapshot with a stamp on the integration
  and its tools catalog, or nothing; and no credential is written, although Canva's ends with code that would
  refresh the tokens.
\<close>

theorem catalog_syncs_account:
  assumes "canva_sync ce sdk days w = (r, w') \<and> p = ''canva'' \<or> notion_sync ce sdk days w = (r, w') \<and> p = ''notion''
    \<or> dropbox_sync ce sdk days w = (r, w') \<and> p = ''dropbox''"
  shows "catalog_contract ce p days r w w'"
  using assms run_mcp_sync_contract unfolding canva_sync_same notion_sync_def dropbox_sync_def by blast

text \<open>An SDK whose every call raises, as with an access token that has expired.\<close>

definition refuses_all :: "'s mcp_sdk \<Rightarrow> bool" where
  "refuses_all sdk \<longleftrightarrow> (\<forall>url h tool args s. \<exists>e. sdk_call sdk url h tool args s = (Inl e, s))
     \<and> (\<forall>url h s. \<exists>e. sdk_list sdk url h s = (Inl e, s))"

lemma safe_call_refused: "refuses_all sdk \<Longrightarrow> safe_call ce sdk url access tool args s = (Inr JNull, s)"
proof -
  assume "refuses_all sdk"
  then obtain e where "sdk_call sdk url (bearer_header access) tool (or_else args (JObj [])) s = (Inl e, s)"
    unfolding refuses_all_def by blast
  then show ?thesis
    by (simp add: safe_call_def catching_def chain_def call_tool_def run_coro_def lift_result_def)
qed

lemma tools_catalog_refused:
  assumes "refuses_all sdk"
  shows "tools_catalog sdk url access (JObj old) s = (Inr (or_else (dict_get old ''tools'') (JList []), JObj old), s)"
proof -
  obtain e where "sdk_list sdk url (bearer_header access) s = (Inl e, s)" using assms unfolding refuses_all_def by blast
  then show ?thesis
    by (simp add: tools_catalog_def chain_def list_tools_def run_coro_def lift_result_def or_else_def dict_get_def)
qed

text \<open>
  An expired token looks like an empty account. When the server refuses every call, the sync of
  Canva still writes a snapshot that says \<open>ok\<close> with no designs, templates or folders, and stamps the integration.
\<close>

theorem refused_calls_count_zero:
  assumes "refuses_all sdk" "active_integration ''canva'' (integrations w) = Some i" "meta i = JObj old"
    and "lookup cr_integration (snd (service w)) (integration_id i) = Some cred"
    and "get_tokens (ce_gw ce) (cr_tokens cred) = Inr (JObj kvs)" "truth (dict_get kvs ''access_token'')"
    and "jlen (or_else (dict_get old ''tools'') (JList [])) = Inr n"
    and "minus_days (day_of (gw_wall (ce_gw ce) (fst (service w)))) days = Inr start"
  shows "\<exists>snap w'. canva_sync ce sdk days w = (Inr (Some snap), w') \<and> snap_metrics snap = JObj
      [(''profile'', JObj [(''data'', JObj []), (''ok'', JBool False)]),
       (''designs'', ok_data (JObj [(''count'', JInt 0), (''items'', JList [])])),
       (''brand_templates'', ok_data (JObj [(''count'', JInt 0)])),
       (''folders'', ok_data (JObj [(''count'', JInt 0)])),
       (''tools'', ok_data (JObj [(''count'', jnat n)]))]"
proof -
  have tok: "jget_or (JObj kvs) ''access_token'' (JStr []) = Inr (dict_get kvs ''access_token'')"
    using assms(6) by (auto simp: jget_or_def dict_get_def get_default_def split: option.splits)
  have gather: "canva_gather ce sdk access (or_else (dict_get old ''tools'') (JList [])) s = (Inr (JObj
      [(''profile'', JObj [(''data'', JObj []), (''ok'', JBool False)]),
       (''designs'', ok_data (JObj [(''count'', JInt 0), (''items'', JList [])])),
       (''brand_templates'', ok_data (JObj [(''count'', JInt 0)])),
       (''folders'', ok_data (JObj [(''count'', JInt 0)])),
       (''tools'', ok_data (JObj [(''count'', jnat n)]))]), s)" for access s
    by (simp add: canva_gather_def Let_def chain_def lift_result_def safe_call_refused[OF assms(1)] or_else_def[of JNull]
        dict_items_def list_count_def list_prefix_def jnat_def tools_metric_def assms(7))
  show ?thesis
    unfolding canva_sync_same run_mcp_sync_def
    by (simp add: assms(2-5,6,8) tok chain_def tools_catalog_refused[OF assms(1)] gather ret_def Let_def)
qed

section \<open>A refusing server\<close>

definition refusing_sdk :: "rat mcp_sdk" where
  "refusing_sdk = \<lparr>sdk_call = (\<lambda>url h tool args s. (Inl (HTTPStatusError 401), s)), sdk_list = (\<lambda>url h s. (Inl (HTTPStatusError 401), s)),
     sdk_in_loop = False\<rparr>"

definition sample_canva :: integration where
  "sample_canva = \<lparr>integration_id = 7, integration_provider = ''canva'', is_active = True, last_sync_at = None, meta = JObj []\<rparr>"

definition sample_canva_world :: "rat backend snap_world" where
  "sample_canva_world = \<lparr>integrations = [sample_canva], snapshots = [],
     service = (0, [\<lparr>cr_integration = 7, cr_tokens = ''old'', cr_updated_at = 0\<rparr>]), until_insert = (\<lambda>_. 1), insert_time = (\<lambda>_. 2)\<rparr>"

lemma sample_canva_simps:
  "active_integration ''canva'' (integrations sample_canva_world) = Some sample_canva"
  "lookup cr_integration (snd (service sample_canva_world)) (integration_id sample_canva) = Some \<lparr>cr_integration = 7, cr_tokens = ''old'', cr_updated_at = 0\<rparr>"
  "meta sample_canva = JObj []" "fst (service sample_canva_world) = 0" "snapshots sample_canva_world = []"
  by (simp_all add: sample_canva_world_def sample_canva_def active_integration_def lookup_Cons)

lemma refused_calls_count_zero_witness:
  "\<exists>snap w' d. canva_sync (sample_client_env (\<lambda>url rq. JNull)) refusing_sdk 7 sample_canva_world = (Inr (Some snap), w')
     \<and> dict_get d ''designs'' = ok_data (JObj [(''count'', JInt 0), (''items'', JList [])]) \<and> snap_metrics snap = JObj d"
proof -
  let ?ce = "sample_client_env (\<lambda>url rq. JNull) :: rat client_env"
  have "refuses_all refusing_sdk" by (simp add: refuses_all_def refusing_sdk_def)
  note sync = refused_calls_count_zero[OF this sample_canva_simps(1,3,2), of ?ce _ 0 7 "-7"]
  have "get_tokens (ce_gw ?ce) ''old'' = Inr (JObj [(''access_token'', JStr ''a''), (''expires_at'', JStr ''1970-01-01T00:01:00Z'')])"
    by (simp add: sample_client_simps sample_get_tokens sample_tokens_def)
  from sync[of "[(''access_token'', JStr ''a''), (''expires_at'', JStr ''1970-01-01T00:01:00Z'')]"] this
  obtain snap w' where s: "canva_sync ?ce refusing_sdk 7 sample_canva_world = (Inr (Some snap), w')" "snap_metrics snap = JObj
      [(''profile'', JObj [(''data'', JObj []), (''ok'', JBool False)]),
       (''designs'', ok_data (JObj [(''count'', JInt 0), (''items'', JList [])])),
       (''brand_templates'', ok_data (JObj [(''count'', JInt 0)])),
       (''folders'', ok_data (JObj [(''count'', JInt 0)])),
       (''tools'', ok_data (JObj [(''count'', jnat 0)]))]"
    by (auto simp: dict_get_def or_else_def sample_client_simps sample_gw_simps sample_canva_simps day_of_def minus_days_def)
  then show ?thesis by (intro exI conjI) (simp_all add: dict_get_def)
qed

lemma catalog_syncs_account_witness:
  "\<exists>r w'. notion_sync (sample_client_env (\<lambda>url rq. JNull)) refusing_sdk 7 sample_canva_world = (r, w')
     \<and> catalog_contract (sample_client_env (\<lambda>url rq. JNull)) ''notion'' 7 r sample_canva_world w' \<and> r = Inr None"
proof -
  let ?ce = "sample_client_env (\<lambda>url rq. JNull) :: rat client_env"
  have run: "notion_sync ?ce refusing_sdk 7 sample_canva_world = (Inr None, sample_canva_world)"
    by (simp add: notion_sync_def run_mcp_sync_def sample_canva_world_def sample_canva_def active_integration_def)
  with catalog_syncs_account[of ?ce refusing_sdk 7 sample_canva_world "Inr None" sample_canva_world "''notion''"] show ?thesis by simp
qed

end
