(* ===== verification/GoogleWorkspace.thy ===== *)
theory GoogleWorkspace
  imports OauthClients CrmSync
begin

text \<open>
  Google Workspace. First the OAuth integration of \<open>mcp/integrations/google_workspace.py\<close> with its sync, which
  goes through the gateway; then the service account with domain-wide delegation of
  \<open>mcp/integrations/google_workspace_dwd.py\<close>, its tools and the syncs of \<open>sync/google_workspace_dwd.py\<close>. The module
  keeps the service account's info and the last 64 services it built; Google's client library is a parameter.
\<close>

section \<open>The OAuth integration\<close>

record 's google_env =
  ge_client :: "'s client_env"
  ge_scopes :: "string list"
  ge_mcp_url :: string

definition google_auth_url :: string where
  "google_auth_url = ''https://accounts.google.com/o/oauth2/v2/auth''"

definition google_token_url :: string where
  "google_token_url = ''https://oauth2.googleapis.com/token''"

definition google_authorization_url :: "'s google_env \<Rightarrow> string \<Rightarrow> string \<Rightarrow> string" where
  "google_authorization_url ge state redirect_uri =
     with_query google_auth_url
       [(''client_id'', setting (ce_web (ge_client ge)) ''GOOGLE_OAUTH_CLIENT_ID''), (''redirect_uri'', redirect_uri),
        (''response_type'', ''code''), (''scope'', join '' '' (ge_scopes ge)), (''access_type'', ''offline''),
        (''prompt'', ''consent''), (''state'', state)]"

text \<open>\<open>d[k] = v\<close> in a dict.\<close>

definition dict_put :: "string \<Rightarrow> json \<Rightarrow> (string \<times> json) list \<Rightarrow> (string \<times> json) list" where
  "dict_put k v kvs = dict_merge kvs [(k, v)]"

text \<open>\<open>_enrich\<close>: the moment the tokens expire, counted from now.\<close>

definition enrich_tokens :: "rat \<Rightarrow> json \<Rightarrow> (py_error, json) result" where
  "enrich_tokens now payload =
     (case payload of
        JObj kvs \<Rightarrow>
          andthen (py_int (get_default kvs ''expires_in'' (JInt 3600))) (\<lambda>n.
          andthen (shifted_iso now (of_int n)) (\<lambda>t. Inr (JObj (dict_put ''expires_at'' t kvs))))
      | _ \<Rightarrow> Inl AttributeError)"

definition google_post :: "'s google_env \<Rightarrow> (string \<times> json) list \<Rightarrow> ('s, json) call" where
  "google_post ge form = checked (wb_post (ce_web (ge_client ge)) google_token_url (blank_request\<lparr>rq_form := form\<rparr>))"

definition google_credentials :: "'s google_env \<Rightarrow> (string \<times> json) list" where
  "google_credentials ge =
     [(''client_id'', JStr (setting (ce_web (ge_client ge)) ''GOOGLE_OAUTH_CLIENT_ID'')),
      (''client_secret'', JStr (setting (ce_web (ge_client ge)) ''GOOGLE_OAUTH_CLIENT_SECRET''))]"

definition google_now :: "'s google_env \<Rightarrow> 's \<Rightarrow> rat" where
  "google_now ge = gw_wall (ce_gw (ge_client ge))"

definition google_exchange_code :: "'s google_env \<Rightarrow> string \<Rightarrow> string \<Rightarrow> ('s, json) call" where
  "google_exchange_code ge code redirect_uri =
     chain (google_post ge ([(''code'', JStr code)] @ google_credentials ge
         @ [(''redirect_uri'', JStr redirect_uri), (''grant_type'', JStr ''authorization_code'')]))
       (\<lambda>payload s. (enrich_tokens (google_now ge s) payload, s))"

text \<open>\<open>payload.setdefault("refresh_token", tokens.get("refresh_token"))\<close>\<close>

definition keep_refresh_token :: "json \<Rightarrow> json \<Rightarrow> (py_error, json) result" where
  "keep_refresh_token tokens payload =
     andthen (jget tokens ''refresh_token'') (\<lambda>old.
     case payload of
       JObj kvs \<Rightarrow> Inr (JObj (if map_of kvs ''refresh_token'' = None then dict_put ''refresh_token'' old kvs else kvs))
     | _ \<Rightarrow> Inl AttributeError)"

definition google_refresh_tokens :: "'s google_env \<Rightarrow> json \<Rightarrow> ('s, json) call" where
  "google_refresh_tokens ge tokens =
     chain (lift_result (jget_or tokens ''refresh_token'' (JStr []))) (\<lambda>refresh.
     chain (google_post ge (google_credentials ge @ [(''refresh_token'', refresh), (''grant_type'', JStr ''refresh_token'')])) (\<lambda>payload.
     chain (lift_result (keep_refresh_token tokens payload)) (\<lambda>payload s. (enrich_tokens (google_now ge s) payload, s))))"

text \<open>\<open>call\<close>: a stub without \<open>SENTINEX_MCP_GW_URL\<close>, otherwise a POST to that server.\<close>

definition google_call :: "'s google_env \<Rightarrow> string \<Rightarrow> json \<Rightarrow> 's \<Rightarrow> call_result \<times> 's" where
  "google_call ge tool params s =
     (if ge_mcp_url ge = []
      then (\<lparr>mr_ok = True, mr_data = JObj [(''stub'', JBool True), (''tool'', JStr tool), (''params'', params)], mr_error = []\<rparr>, s)
      else (case checked (wb_post (ce_web (ge_client ge)) (rev (dropWhile (\<lambda>c. c = CHR ''/'') (rev (ge_mcp_url ge))) @ ''/call'')
                (blank_request\<lparr>rq_json := JObj [(''provider'', JStr ''google_workspace''), (''tool'', JStr tool), (''params'', params)]\<rparr>)) s of
              (Inl e, s) \<Rightarrow> (\<lparr>mr_ok = False, mr_data = JNull, mr_error = ce_text (ge_client ge) e\<rparr>, s)
            | (Inr v, s) \<Rightarrow> (\<lparr>mr_ok = True, mr_data = v, mr_error = []\<rparr>, s)))"

definition google_impl :: "'s google_env \<Rightarrow> 's mcp_impl" where
  "google_impl ge =
     \<lparr>mi_refresh = google_refresh_tokens ge,
      mi_call = (\<lambda>i tool params (s, creds). case google_call ge tool params s of (r, s) \<Rightarrow> Some (Inr r, s, creds))\<rparr>"

section \<open>The sync through the gateway\<close>

definition safe_section :: "call_result \<Rightarrow> json" where
  "safe_section r = JObj [(''ok'', JBool (mr_ok r)), (''data'', mr_data r)]"

text \<open>The default gateway of the sync, which knows this one provider; its calls return (\<open>google_gateway_returns\<close>).\<close>

definition google_gateway :: "'s google_env \<Rightarrow> 's gw_env" where
  "google_gateway ge = (ce_gw (ge_client ge))\<lparr>gw_impls := (\<lambda>p. if p = ''google_workspace'' then Some (google_impl ge) else None)\<rparr>"

definition google_section ::
  "(string \<Rightarrow> rat \<Rightarrow> 'c \<Rightarrow> nat option) \<Rightarrow> (string \<Rightarrow> nat \<Rightarrow> rat \<Rightarrow> rat \<Rightarrow> 'c \<Rightarrow> 'c) \<Rightarrow> 's google_env \<Rightarrow> integration
     \<Rightarrow> int \<Rightarrow> string \<Rightarrow> (('s, 'c) gw_world, json) call" where
  "google_section cget cset ge i days tool w =
     (case gateway_call cget cset (google_gateway ge) i tool (JObj [(''days'', JInt days)]) w of
        None \<Rightarrow> (Inl (OtherError ''no answer''), w)
      | Some (r, w) \<Rightarrow> (andthen r (\<lambda>x. Inr (safe_section x)), w))"

definition google_sync ::
  "(string \<Rightarrow> rat \<Rightarrow> 'c \<Rightarrow> nat option) \<Rightarrow> (string \<Rightarrow> nat \<Rightarrow> rat \<Rightarrow> rat \<Rightarrow> 'c \<Rightarrow> 'c) \<Rightarrow> 's google_env \<Rightarrow> int
     \<Rightarrow> ('s, 'c) gw_world snap_world \<Rightarrow> (py_error, data_snapshot option) result \<times> ('s, 'c) gw_world snap_world" where
  "google_sync cget cset ge days =
     run_snapshot ''google_workspace'' (\<lambda>w. google_now ge (gw_service w)) days (\<lambda>i.
       chain (google_section cget cset ge i days ''gmail.messages.list'') (\<lambda>email.
       chain (google_section cget cset ge i days ''calendar.events.list'') (\<lambda>calendar.
       chain (google_section cget cset ge i days ''drive.files.recent'') (\<lambda>drive.
       ret (Some (JObj [(''email'', email), (''calendar'', calendar), (''drive'', drive)]))))))"

section \<open>Domain-wide delegation\<close>

text \<open>A service: the API, its version, the user it acts for and its scopes as a cache key.\<close>

record google_service =
  gs_api :: string
  gs_version :: string
  gs_subject :: string
  gs_scope_key :: string

text \<open>What the module keeps: \<open>_SA_INFO_CACHE\<close> (\<open>JNull\<close> for \<open>None\<close>) and the services of \<open>lru_cache\<close>, least recently used first.\<close>

record dwd_module =
  dm_info :: json
  dm_services :: "google_service list"

type_synonym 's dwd = "'s \<times> dwd_module"

record 's dwd_env =
  de_client :: "'s client_env"
  de_file :: "'s \<Rightarrow> (py_error, json) result option"
  de_inline :: string
  de_domain :: string
  de_admin :: string
  de_scopes :: "string list"
  de_credentials :: "json \<Rightarrow> string list \<Rightarrow> (py_error, unit) result"
  de_build :: "google_service \<Rightarrow> string list \<Rightarrow> ('s, unit) call"
  de_request :: "google_service \<Rightarrow> string \<Rightarrow> json \<Rightarrow> ('s, json) call"
  de_today :: "'s \<Rightarrow> int"

definition load_sa_info :: "'s dwd_env \<Rightarrow> ('s dwd, json) call" where
  "load_sa_info de = (\<lambda>(s, m).
     if dm_info m \<noteq> JNull then (Inr (dm_info m), s, m)
     else (case (case de_file de s of
              Some r \<Rightarrow> r
            | None \<Rightarrow> if de_inline de \<noteq> [] then gw_loads (ce_gw (de_client de)) (de_inline de)
                      else Inl (RuntimeError ''Google Workspace DWD not configured'')) of
             Inl e \<Rightarrow> (Inl e, s, m)
           | Inr v \<Rightarrow> (Inr v, s, m\<lparr>dm_info := v\<rparr>)))"

definition reset_sa_cache :: "'s dwd \<Rightarrow> 's dwd" where
  "reset_sa_cache = (\<lambda>(s, m). (s, m\<lparr>dm_info := JNull\<rparr>))"

text \<open>\<open>s.rsplit(c, 1)\<close>\<close>

definition rsplit_once :: "char \<Rightarrow> string \<Rightarrow> string list" where
  "rsplit_once c s =
     (if c \<in> set s
      then [rev (drop 1 (dropWhile (\<lambda>x. x \<noteq> c) (rev s))), rev (takeWhile (\<lambda>x. x \<noteq> c) (rev s))] else [s])"

definition workspace_domain :: "'s dwd_env \<Rightarrow> string" where
  "workspace_domain de = str_strip (str_lower (de_domain de))"

definition validate_subject_domain :: "'s dwd_env \<Rightarrow> string \<Rightarrow> (py_error, unit) result" where
  "validate_subject_domain de subject =
     (let domain = workspace_domain de
      in if domain = [] then Inl (RuntimeError ''GOOGLE_WORKSPACE_DOMAIN must be configured before delegating credentials.'')
         else (case rsplit_once (CHR ''@'') (str_lower subject) of
                 [_, d] \<Rightarrow> if d = domain then Inr () else Inl (RuntimeError
                    (''subject '' @ [CHR 39] @ subject @ [CHR 39] @ '' is not in the configured Workspace domain '' @ [CHR 39] @ domain @ [CHR 39]))
               | _ \<Rightarrow> Inl (RuntimeError
                    (''subject '' @ [CHR 39] @ subject @ [CHR 39] @ '' is not in the configured Workspace domain '' @ [CHR 39] @ domain @ [CHR 39]))))"

text \<open>\<open>get_credentials\<close>: the scopes of the delegated credentials; the user is checked before they are made.\<close>

definition get_credentials :: "'s dwd_env \<Rightarrow> string \<Rightarrow> string list \<Rightarrow> ('s dwd, string list) call" where
  "get_credentials de subject scopes =
     chain (load_sa_info de) (\<lambda>info.
     let subject = (if subject = [] then de_admin de else subject);
         scopes = (if scopes = [] then de_scopes de else scopes)
     in lift_result
         (if subject = [] then Inl (RuntimeError ''subject email required (no GOOGLE_WORKSPACE_ADMIN_EMAIL set)'')
          else andthen (validate_subject_domain de subject) (\<lambda>_.
               andthen (de_credentials de info scopes) (\<lambda>_. Inr scopes))))"

definition on_world :: "('s, 'a) call \<Rightarrow> ('s dwd, 'a) call" where
  "on_world m = (\<lambda>(s, md). case m s of (r, s) \<Rightarrow> (r, s, md))"

text \<open>\<open>lru_cache(maxsize=64)\<close>: a hit becomes the most recent; a miss is built, kept, and may push out the oldest. An exception is not kept.\<close>

definition lru_size :: nat where
  "lru_size = 64"

definition lru_hit :: "google_service \<Rightarrow> google_service list \<Rightarrow> google_service list" where
  "lru_hit k ks = filter (\<lambda>x. x \<noteq> k) ks @ [k]"

definition lru_add :: "google_service \<Rightarrow> google_service list \<Rightarrow> google_service list" where
  "lru_add k ks = drop (length ks + 1 - lru_size) (ks @ [k])"

definition build_service_cached :: "'s dwd_env \<Rightarrow> google_service \<Rightarrow> ('s dwd, google_service) call" where
  "build_service_cached de k = (\<lambda>(s, m).
     if k \<in> set (dm_services m) then (Inr k, s, m\<lparr>dm_services := lru_hit k (dm_services m)\<rparr>)
     else chain (get_credentials de (gs_subject k) (if gs_scope_key k = [] then [] else split_on (CHR '','') (gs_scope_key k))) (\<lambda>scopes.
          chain (on_world (de_build de k scopes)) (\<lambda>_.
          (\<lambda>(s, m). (Inr k, s, m\<lparr>dm_services := lru_add k (dm_services m)\<rparr>)))) (s, m))"

definition build_service :: "'s dwd_env \<Rightarrow> string \<Rightarrow> string \<Rightarrow> string \<Rightarrow> string list \<Rightarrow> ('s dwd, google_service) call" where
  "build_service de api version subject scopes =
     build_service_cached de \<lparr>gs_api = api, gs_version = version,
       gs_subject = (if subject = [] then de_admin de else subject),
       gs_scope_key = (if scopes = [] then [] else join '','' (sort scopes))\<rparr>"

definition gmail_client :: "'s dwd_env \<Rightarrow> string \<Rightarrow> ('s dwd, google_service) call" where
  "gmail_client de user_email = build_service de ''gmail'' ''v1'' user_email []"

definition drive_client :: "'s dwd_env \<Rightarrow> ('s dwd, google_service) call" where
  "drive_client de = build_service de ''drive'' ''v3'' [] []"

definition calendar_client :: "'s dwd_env \<Rightarrow> string \<Rightarrow> ('s dwd, google_service) call" where
  "calendar_client de user_email = build_service de ''calendar'' ''v3'' user_email []"

definition directory_client :: "'s dwd_env \<Rightarrow> ('s dwd, google_service) call" where
  "directory_client de = build_service de ''admin'' ''directory_v1'' [] []"

definition reports_client :: "'s dwd_env \<Rightarrow> ('s dwd, google_service) call" where
  "reports_client de = build_service de ''admin'' ''reports_v1'' [] []"

definition request :: "'s dwd_env \<Rightarrow> google_service \<Rightarrow> string \<Rightarrow> (string \<times> json) list \<Rightarrow> ('s dwd, json) call" where
  "request de svc method args = on_world (de_request de svc method (JObj args))"

section \<open>The tools\<close>

definition tool_list_users :: "'s dwd_env \<Rightarrow> json \<Rightarrow> ('s dwd, json) call" where
  "tool_list_users de params =
     chain (lift_result (jget params ''domain'')) (\<lambda>domain.
     chain (lift_result (jget params ''page_token'')) (\<lambda>page_token.
     chain (directory_client de) (\<lambda>svc.
     chain (request de svc ''users.list'' [(''domain'', or_else domain (JStr (de_domain de))), (''maxResults'', JInt 200),
       (''pageToken'', page_token), (''orderBy'', JStr ''email'')]) (\<lambda>resp.
     lift_result (dict_of [(''users'', jget_or resp ''users'' (JList [])), (''next_page_token'', jget resp ''nextPageToken'')])))))"

definition tool_list_drive_files :: "'s dwd_env \<Rightarrow> json \<Rightarrow> ('s dwd, json) call" where
  "tool_list_drive_files de params =
     chain (lift_result (jget params ''page_token'')) (\<lambda>page_token.
     chain (lift_result (jget_or params ''q'' (JStr []))) (\<lambda>q.
     chain (drive_client de) (\<lambda>svc.
     chain (request de svc ''files.list'' [(''corpora'', JStr ''domain''), (''includeItemsFromAllDrives'', JBool True),
       (''supportsAllDrives'', JBool True), (''q'', q),
       (''fields'', JStr (''nextPageToken, files('' @ ''id, name, mimeType, owners, modifiedTime, parents, size, webViewLink, trashed)'')),
       (''pageSize'', JInt 1000), (''pageToken'', page_token)]) (\<lambda>resp.
     lift_result (dict_of [(''files'', jget_or resp ''files'' (JList [])), (''next_page_token'', jget resp ''nextPageToken'')])))))"

definition tool_get_drive_changes :: "'s dwd_env \<Rightarrow> json \<Rightarrow> ('s dwd, json) call" where
  "tool_get_drive_changes de params =
     chain (lift_result (jindex params ''page_token'')) (\<lambda>page_token.
     chain (drive_client de) (\<lambda>svc.
     chain (request de svc ''changes.list'' [(''pageToken'', page_token), (''includeItemsFromAllDrives'', JBool True),
       (''supportsAllDrives'', JBool True), (''includeRemoved'', JBool True),
       (''fields'', JStr (''newStartPageToken, nextPageToken, '' @
         ''changes(removed, fileId, file(id, name, mimeType, owners, modifiedTime, '' @ ''size, webViewLink, trashed))''))]) (\<lambda>resp.
     lift_result (dict_of [(''changes'', jget_or resp ''changes'' (JList [])), (''next_page_token'', jget resp ''nextPageToken''),
       (''new_start_page_token'', jget resp ''newStartPageToken'')]))))"

definition tool_drive_start_page_token :: "'s dwd_env \<Rightarrow> json \<Rightarrow> ('s dwd, json) call" where
  "tool_drive_start_page_token de params =
     chain (drive_client de) (\<lambda>svc.
     chain (request de svc ''changes.getStartPageToken'' [(''supportsAllDrives'', JBool True)]) (\<lambda>resp.
     lift_result (dict_of [(''start_page_token'', jget resp ''startPageToken'')])))"

definition dwd_tools :: "'s dwd_env \<Rightarrow> (string \<times> (json \<Rightarrow> ('s dwd, json) call)) list" where
  "dwd_tools de =
     [(''list_users'', tool_list_users de),
      (''list_drive_files'', tool_list_drive_files de),
      (''get_drive_changes'', tool_get_drive_changes de),
      (''drive_start_page_token'', tool_drive_start_page_token de)]"

definition dwd_call :: "'s dwd_env \<Rightarrow> string \<Rightarrow> json \<Rightarrow> 's dwd \<Rightarrow> call_result \<times> 's dwd" where
  "dwd_call de tool params w =
     (case map_of (dwd_tools de) tool of
        None \<Rightarrow> (\<lparr>mr_ok = False, mr_data = JNull, mr_error = ''unknown tool: '' @ tool\<rparr>, w)
      | Some handler \<Rightarrow>
          (case handler params w of
             (Inl e, w) \<Rightarrow> (\<lparr>mr_ok = False, mr_data = JNull, mr_error = ce_text (de_client de) e\<rparr>, w)
           | (Inr v, w) \<Rightarrow> (\<lparr>mr_ok = True, mr_data = v, mr_error = []\<rparr>, w)))"

section \<open>When tokens expire\<close>

lemma map_of_dict_put: "map_of (dict_put k v kvs) = (map_of kvs)(k \<mapsto> v)"
  by (simp add: dict_put_def fun_eq_iff map_of_dict_merge)

lemma shifted_iso_Inr:
  assumes "shifted_iso t d = Inr v"
  shows "\<exists>s. v = JStr s \<and> truth v \<and> (\<forall>now. expiring_soon now v = Inr (of_int \<lfloor>(t + d) * 1000000\<rfloor> / 1000000 - now < 300))"
proof -
  have b: "- 719162 \<le> \<lfloor>(t + d) * 1000000\<rfloor> div 86400000000" "\<lfloor>(t + d) * 1000000\<rfloor> div 86400000000 \<le> 2932896"
    and v: "v = JStr (isoformat (t + d))"
    using assms by (auto simp: shifted_iso_def Let_def split: if_splits)
  obtain day secs where "fromisoformat (isoformat (t + d)) = Some (day, secs, Some 0)"
      "of_int (86400 * day) + secs = of_int \<lfloor>(t + d) * 1000000\<rfloor> / (1000000 :: rat)"
    using fromisoformat_isoformat[OF b] by blast
  then have "expiring_soon now v = Inr (of_int \<lfloor>(t + d) * 1000000\<rfloor> / 1000000 - now < 300)" for now
    unfolding expiring_soon_def v by (simp only: json.case zulu_isoformat option.case prod.case diff_0_right)
  then show ?thesis using v by simp
qed

lemma enrich_tokens_Inr:
  assumes "enrich_tokens t payload = Inr v"
  shows "\<exists>p kvs n. payload = JObj p \<and> v = JObj kvs \<and> py_int (get_default kvs ''expires_in'' (JInt 3600)) = Inr n
    \<and> (\<forall>k. k \<noteq> ''expires_at'' \<longrightarrow> map_of kvs k = map_of p k)
    \<and> (\<forall>now. needs_refresh now v \<longleftrightarrow> of_int \<lfloor>(t + of_int n) * 1000000\<rfloor> / 1000000 - now < 300)"
proof -
  obtain p n e where p: "payload = JObj p" "py_int (get_default p ''expires_in'' (JInt 3600)) = Inr n"
      "shifted_iso t (of_int n) = Inr e" "v = JObj (dict_put ''expires_at'' e p)"
    using assms by (auto simp: enrich_tokens_def andthen_Inr_iff split: json.splits)
  obtain s where e: "e = JStr s" "truth e"
      "\<And>now. expiring_soon now e = Inr (of_int \<lfloor>(t + of_int n) * 1000000\<rfloor> / 1000000 - now < 300)"
    using shifted_iso_Inr[OF p(3)] by blast
  show ?thesis
    by (intro exI[of _ p] exI[of _ "dict_put ''expires_at'' e p"] exI[of _ n])
       (use p e in \<open>simp add: get_default_def map_of_dict_put needs_refresh_def dict_get_def\<close>)
qed

lemma keep_refresh_token_Inr:
  assumes "keep_refresh_token tokens p0 = Inr (JObj p)"
  shows "map_of p ''refresh_token'' \<noteq> None"
proof -
  obtain q where q: "p0 = JObj q" using assms by (cases p0) (auto simp: keep_refresh_token_def andthen_Inr_iff)
  show ?thesis
  proof (cases "map_of q ''refresh_token''")
    case None
    with assms obtain x where "p = dict_put ''refresh_token'' x q" by (auto simp: keep_refresh_token_def andthen_Inr_iff q)
    then show ?thesis by (simp add: map_of_dict_put)
  next
    case (Some y)
    with assms have "p = q" by (auto simp: keep_refresh_token_def andthen_Inr_iff q)
    with Some show ?thesis by simp
  qed
qed

text \<open>
  The gateway reads back the expiry that was written. Tokens that come from a refresh or from the code of an
  authorization are refreshed by the gateway exactly from five minutes before their \<open>expires_in\<close> has passed
  (an hour, if the answer has none), counted to the microsecond; and a refresh always leaves a \<open>refresh_token\<close>.
\<close>

theorem google_tokens_expire:
  assumes "google_refresh_tokens ge tokens s = (Inr v, s') \<or> google_exchange_code ge code redirect_uri s = (Inr v, s')"
  shows "\<exists>kvs n. v = JObj kvs \<and> py_int (get_default kvs ''expires_in'' (JInt 3600)) = Inr n
    \<and> (\<forall>now. needs_refresh now v \<longleftrightarrow> of_int \<lfloor>(google_now ge s' + of_int n) * 1000000\<rfloor> / 1000000 - now < 300)
    \<and> (google_refresh_tokens ge tokens s = (Inr v, s') \<longrightarrow> map_of kvs ''refresh_token'' \<noteq> None)"
proof -
  have chained: "\<exists>payload. enrich_tokens (google_now ge s') payload = Inr v \<and> m s = (Inr payload, s')"
    if "chain m (\<lambda>payload s. (enrich_tokens (google_now ge s) payload, s)) s = (Inr v, s')" for m s
    using that by (auto simp: chain_Inr_iff)
  show ?thesis
  proof (cases "google_refresh_tokens ge tokens s = (Inr v, s')")
    case True
    then obtain payload p0 s0 where pay: "keep_refresh_token tokens p0 = Inr payload" "enrich_tokens (google_now ge s') payload = Inr v"
      unfolding google_refresh_tokens_def by (auto simp: chain_Inr_iff lift_result_def simp del: lift_result_iff)
    obtain p kvs n where e: "payload = JObj p" "v = JObj kvs" "py_int (get_default kvs ''expires_in'' (JInt 3600)) = Inr n"
        "\<forall>k. k \<noteq> ''expires_at'' \<longrightarrow> map_of kvs k = map_of p k"
        "\<forall>now. needs_refresh now v \<longleftrightarrow> of_int \<lfloor>(google_now ge s' + of_int n) * 1000000\<rfloor> / 1000000 - now < 300"
      using enrich_tokens_Inr[OF pay(2)] by blast
    have "map_of p ''refresh_token'' \<noteq> None" using pay(1) unfolding e(1) by (rule keep_refresh_token_Inr)
    with e show ?thesis by auto
  next
    case False
    with assms have "google_exchange_code ge code redirect_uri s = (Inr v, s')" by blast
    then obtain payload where "enrich_tokens (google_now ge s') payload = Inr v"
      unfolding google_exchange_code_def using chained by blast
    from enrich_tokens_Inr[OF this] False show ?thesis by blast
  qed
qed

text \<open>The token endpoint answers with a token for 400 seconds.\<close>

definition sample_google :: "rat google_env" where
  "sample_google =
     \<lparr>ge_client = \<lparr>ce_gw = sample_gw,
        ce_web = \<lparr>wb_get = (\<lambda>url rq s. (Inl TypeError, s)),
          wb_post = (\<lambda>url rq s. (Inr \<lparr>status_code = 200, body = JObj [(''access_token'', JStr ''a''), (''expires_in'', JInt 400)]\<rparr>, s + 1)),
          wb_setting = (\<lambda>n. Some ''x'')\<rparr>,
        ce_text = (\<lambda>e. [])\<rparr>,
      ge_scopes = [''email''], ge_mcp_url = []\<rparr>"

lemma sample_google_refresh:
  "\<exists>v. google_refresh_tokens sample_google (JObj [(''refresh_token'', JStr ''r'')]) 0 = (Inr v, 1)"
proof -
  have "shifted_iso 1 400 = Inr (JStr (isoformat 401))" by (simp add: shifted_iso_def)
  then show ?thesis
    by (simp add: google_refresh_tokens_def chain_def lift_result_def jget_or_def google_post_def checked_def raise_for_status_def
        sample_google_def keep_refresh_token_def dict_get_def enrich_tokens_def get_default_def map_of_dict_put google_now_def
        sample_gw_simps)
qed

lemma google_tokens_expire_witness:
  "\<exists>v. google_refresh_tokens sample_google (JObj [(''refresh_token'', JStr ''r'')]) 0 = (Inr v, 1)
     \<and> needs_refresh 102 v \<noteq> needs_refresh 101 v"
proof -
  obtain v where v: "google_refresh_tokens sample_google (JObj [(''refresh_token'', JStr ''r'')]) 0 = (Inr v, 1)"
    using sample_google_refresh by blast
  from google_tokens_expire[OF disjI1[OF v]] obtain kvs n where e: "v = JObj kvs"
      "py_int (get_default kvs ''expires_in'' (JInt 3600)) = Inr n"
      "\<forall>now. needs_refresh now v \<longleftrightarrow> of_int \<lfloor>(google_now sample_google 1 + of_int n) * 1000000\<rfloor> / 1000000 - now < 300"
    by blast
  have "get_default kvs ''expires_in'' (JInt 3600) = JInt 400"
    using v unfolding e(1)
    by (auto simp: google_refresh_tokens_def chain_def lift_result_def jget_or_def google_post_def checked_def raise_for_status_def
        sample_google_def keep_refresh_token_def dict_get_def enrich_tokens_def get_default_def map_of_dict_put google_now_def
        sample_gw_simps andthen_def split: sum.splits)
  with e(2) have "n = 400" by simp
  with e(3) v show ?thesis by (auto simp: google_now_def sample_google_def sample_gw_simps)
qed

end
