(* ===== verification/GoogleSync.thy ===== *)
theory GoogleSync
  imports GoogleWorkspace SyncTasks
begin

text \<open>
  The syncs that read a Google Workspace by delegation, \<open>sync/google_workspace_dwd.py\<close>, and the Celery tasks of
  \<open>data_access/tasks.py\<close>. The delegation module is the service of the snapshot world. The directory listing pages on
  fuel.
\<close>

section \<open>The syncs\<close>

type_synonym 's dwd_world = "'s dwd snap_world"

definition on_module :: "('s dwd, 'a) call \<Rightarrow> ('s dwd_world, 'a) call" where
  "on_module m w = (case m (service w) of (r, d) \<Rightarrow> (r, w\<lparr>service := d\<rparr>))"

definition dwd_now :: "'s dwd_env \<Rightarrow> 's dwd_world \<Rightarrow> rat" where
  "dwd_now de w = gw_wall (ce_gw (de_client de)) (fst (service w))"

text \<open>\<open>DataSnapshot.objects.create(...)\<close>\<close>

definition add_snapshot :: "'s dwd_env \<Rightarrow> string \<Rightarrow> int \<Rightarrow> int \<Rightarrow> json \<Rightarrow> ('s dwd_world, data_snapshot) call" where
  "add_snapshot de source from until metrics w =
     (let k = fresh_id snap_id (snapshots w);
          snap = \<lparr>snap_id = k, snap_source = source, snap_period_start = from,
            snap_period_end = until, snap_metrics = metrics, snap_created_at = dwd_now de w + until_insert w k\<rparr>
      in (Inr snap, w\<lparr>snapshots := snapshots w @ [snap]\<rparr>))"

definition with_time :: "'s dwd_env \<Rightarrow> (rat \<Rightarrow> ('s dwd_world, 'a) call) \<Rightarrow> ('s dwd_world, 'a) call" where
  "with_time de f w = f (dwd_now de w) w"

text \<open>\<open>now - timedelta(days=days)\<close>\<close>

definition days_before :: "rat \<Rightarrow> int \<Rightarrow> (py_error, rat) result" where
  "days_before now days = andthen (shifted_iso now (- of_int (86400 * days))) (\<lambda>_. Inr (now - of_int (86400 * days)))"

fun directory_pages ::
  "nat \<Rightarrow> 's dwd_env \<Rightarrow> google_service \<Rightarrow> json \<Rightarrow> json \<Rightarrow> json list \<Rightarrow> 's dwd_world
     \<Rightarrow> ((py_error, json list) result \<times> 's dwd_world) option" where
  "directory_pages 0 de svc domain page_token users w = None"
| "directory_pages (Suc fuel) de svc domain page_token users w =
     (case chain (on_module (request de svc ''users.list'' [(''domain'', domain), (''maxResults'', JInt 200),
               (''pageToken'', page_token), (''orderBy'', JStr ''email'')]))
             (\<lambda>resp. lift_result (andthen (jget_or resp ''users'' (JList [])) (\<lambda>v. andthen (jiter v) (\<lambda>us.
               andthen (jget resp ''nextPageToken'') (\<lambda>t. Inr (us, t)))))) w of
        (Inl e, w) \<Rightarrow> Some (Inl e, w)
      | (Inr (us, t), w) \<Rightarrow>
          if \<not> truth t then Some (Inr (users @ us), w) else directory_pages fuel de svc domain t (users @ us) w)"

definition directory_user :: "json \<Rightarrow> (py_error, json) result" where
  "directory_user u =
     dict_of [(''primary_email'', jget u ''primaryEmail''),
       (''name'', andthen (jget u ''name'') (\<lambda>n. jget (or_else n (JObj [])) ''fullName'')),
       (''is_admin'', jget u ''isAdmin''), (''suspended'', jget u ''suspended''),
       (''org_unit_path'', jget u ''orgUnitPath''), (''last_login_time'', jget u ''lastLoginTime'')]"

definition sync_directory_users ::
  "nat \<Rightarrow> 's dwd_env \<Rightarrow> string \<Rightarrow> 's dwd_world \<Rightarrow> ((py_error, json) result \<times> 's dwd_world) option" where
  "sync_directory_users fuel de domain w =
     (case on_module (directory_client de) w of
        (Inl e, w) \<Rightarrow> Some (Inl e, w)
      | (Inr svc, w) \<Rightarrow>
          (case directory_pages fuel de svc (JStr domain) JNull [] w of
             None \<Rightarrow> None
           | Some (Inl e, w) \<Rightarrow> Some (Inl e, w)
           | Some (Inr users, w) \<Rightarrow> Some
               (chain (lift_result (map_result directory_user users)) (\<lambda>rows.
                with_time de (\<lambda>now.
                chain (add_snapshot de ''workspace_directory'' (day_of now) (day_of now)
                  (JObj [(''total_users'', jnat (length users)), (''users'', JList rows)])) (\<lambda>snap.
                ret (JObj [(''snapshot_id'', jnat (snap_id snap)), (''users'', jnat (length users))])))) w)))"

text \<open>The minutes of one event: nothing without two times, and nothing when they cannot be read or subtracted.\<close>

definition event_minutes :: "json \<Rightarrow> (py_error, int) result" where
  "event_minutes ev =
     andthen (andthen (jget ev ''start'') (\<lambda>v. jget (or_else v (JObj [])) ''dateTime'')) (\<lambda>start.
     andthen (andthen (jget ev ''end'') (\<lambda>v. jget (or_else v (JObj [])) ''dateTime'')) (\<lambda>end_time.
     Inr (case (start, end_time) of
       (JStr s, JStr e) \<Rightarrow>
         if s = [] \<or> e = [] then 0
         else (case (fromisoformat (zulu s), fromisoformat (zulu e)) of
            (Some (d1, t1, Some o1), Some (d2, t2, Some o2)) \<Rightarrow>
              \<lfloor>(of_int (86400 * (d2 - d1)) + (t2 - o2) - (t1 - o1)) / 60\<rfloor>
          | (Some (d1, t1, None), Some (d2, t2, None)) \<Rightarrow> \<lfloor>(of_int (86400 * (d2 - d1)) + t2 - t1) / 60\<rfloor>
          | _ \<Rightarrow> 0)
     | _ \<Rightarrow> 0)))"

definition sum_meeting_minutes :: "json list \<Rightarrow> (py_error, int) result" where
  "sum_meeting_minutes events = andthen (map_result event_minutes events) (\<lambda>ms. Inr (sum_list ms))"

definition sync_user_calendar_week :: "'s dwd_env \<Rightarrow> string \<Rightarrow> int \<Rightarrow> ('s dwd_world, json) call" where
  "sync_user_calendar_week de user_email days =
     chain (on_module (calendar_client de user_email)) (\<lambda>svc.
     with_time de (\<lambda>now.
     chain (lift_result (days_before now days)) (\<lambda>start.
     chain (on_module (request de svc ''events.list'' [(''calendarId'', JStr ''primary''), (''timeMin'', JStr (isoformat start)),
       (''timeMax'', JStr (isoformat now)), (''singleEvents'', JBool True), (''orderBy'', JStr ''startTime''),
       (''maxResults'', JInt 2500)])) (\<lambda>resp.
     chain (lift_result (jget_or resp ''items'' (JList []))) (\<lambda>events.
     chain (lift_result (jlen events)) (\<lambda>n.
     chain (lift_result (andthen (jiter events) sum_meeting_minutes)) (\<lambda>minutes.
     chain (add_snapshot de ''workspace_calendar'' (day_of start) (day_of now)
       (JObj [(''user'', JStr user_email), (''event_count'', jnat n), (''meeting_minutes'', JInt minutes)])) (\<lambda>_.
     ret (JObj [(''user'', JStr user_email), (''events'', jnat n)])))))))))"

definition sync_admin_audit_logins :: "'s dwd_env \<Rightarrow> int \<Rightarrow> ('s dwd_world, json) call" where
  "sync_admin_audit_logins de days =
     chain (on_module (reports_client de)) (\<lambda>svc.
     with_time de (\<lambda>now.
     chain (lift_result (days_before now days)) (\<lambda>start.
     chain (on_module (request de svc ''activities.list'' [(''userKey'', JStr ''all''), (''applicationName'', JStr ''login''),
       (''startTime'', JStr (isoformat start)), (''maxResults'', JInt 1000)])) (\<lambda>resp.
     chain (lift_result (jget_or resp ''items'' (JList []))) (\<lambda>items.
     with_time de (\<lambda>today.
     chain (lift_result (minus_days (day_of today) days)) (\<lambda>period_start.
     chain (lift_result (jlen items)) (\<lambda>n.
     chain (lift_result (jiter items)) (\<lambda>its.
     chain (add_snapshot de ''workspace_audit_login'' period_start (day_of today)
       (JObj [(''events'', jnat n),
         (''suspicious'', jnat (length (filter (\<lambda>it. contains ''suspicious'' (str_lower (py_str it))) its)))])) (\<lambda>_.
     ret (JObj [(''events'', jnat n)])))))))))))"

text \<open>\<open>int(t.timestamp())\<close>\<close>

definition timestamp :: "rat \<Rightarrow> int" where
  "timestamp t = (if 0 \<le> t then \<lfloor>t\<rfloor> else \<lceil>t\<rceil>)"

definition recent_messages :: "'s dwd_env \<Rightarrow> google_service \<Rightarrow> string \<Rightarrow> int \<Rightarrow> ('s dwd_world, json) call" where
  "recent_messages de svc box after_ts =
     on_module (request de svc ''users.messages.list'' [(''userId'', JStr ''me''),
       (''q'', JStr (''in:'' @ box @ '' after:'' @ show_int after_ts)), (''maxResults'', JInt 500)])"

definition sync_user_email_signals :: "'s dwd_env \<Rightarrow> string \<Rightarrow> int \<Rightarrow> ('s dwd_world, json) call" where
  "sync_user_email_signals de user_email days =
     chain (on_module (gmail_client de user_email)) (\<lambda>svc.
     chain (with_time de (\<lambda>now. lift_result (days_before now days))) (\<lambda>start.
     chain (on_module (request de svc ''users.getProfile'' [(''userId'', JStr ''me'')])) (\<lambda>profile.
     chain (recent_messages de svc ''inbox'' (timestamp start)) (\<lambda>inbox.
     chain (recent_messages de svc ''sent'' (timestamp start)) (\<lambda>sent.
     chain (lift_result (dict_of
       [(''user'', Inr (JStr user_email)),
        (''messages_total'', jget profile ''messagesTotal''),
        (''inbox_recent'', andthen (jget_or inbox ''messages'' (JList [])) (\<lambda>v. andthen (jlen v) (\<lambda>n. Inr (jnat n)))),
        (''sent_recent'', andthen (jget_or sent ''messages'' (JList [])) (\<lambda>v. andthen (jlen v) (\<lambda>n. Inr (jnat n))))])) (\<lambda>metrics.
     (\<lambda>w. chain (lift_result (minus_days (de_today de (fst (service w))) days)) (\<lambda>from.
       chain (add_snapshot de ''workspace_email'' from (de_today de (fst (service w))) metrics) (\<lambda>_. ret metrics)) w)))))))"

section \<open>The tasks\<close>

text \<open>The tables of every schema; \<open>schema_context\<close> works on one of them. The task's result, with the schema first.\<close>

definition in_schema :: "string \<Rightarrow> ('w, json) call \<Rightarrow> (string \<Rightarrow> 'w, json) call" where
  "in_schema schema m ws =
     (case m (ws schema) of (r, w) \<Rightarrow>
        (andthen r (\<lambda>v. case v of
            JObj kvs \<Rightarrow> Inr (JObj (dict_merge [(''tenant_schema'', JStr schema)] kvs)) | _ \<Rightarrow> Inl TypeError), ws(schema := w)))"

definition sync_google_workspace_for_tenant ::
  "(string \<Rightarrow> rat \<Rightarrow> 'c \<Rightarrow> nat option) \<Rightarrow> (string \<Rightarrow> nat \<Rightarrow> rat \<Rightarrow> rat \<Rightarrow> 'c \<Rightarrow> 'c) \<Rightarrow> 's google_env \<Rightarrow> string \<Rightarrow> int
     \<Rightarrow> (string \<Rightarrow> ('s, 'c) gw_world snap_world, json) call" where
  "sync_google_workspace_for_tenant cget cset ge schema days =
     in_schema schema (chain (google_sync cget cset ge days) (\<lambda>snap.
       ret (JObj [(''snapshot_id'', case snap of Some s \<Rightarrow> jnat (snap_id s) | None \<Rightarrow> JInt 0)])))"

definition sync_workspace_directory ::
  "nat \<Rightarrow> 's dwd_env \<Rightarrow> string \<Rightarrow> string \<Rightarrow> (string \<Rightarrow> 's dwd_world) \<Rightarrow> ((py_error, json) result \<times> (string \<Rightarrow> 's dwd_world)) option" where
  "sync_workspace_directory fuel de schema domain ws =
     (case sync_directory_users fuel de domain (ws schema) of
        None \<Rightarrow> None
      | Some (r, w) \<Rightarrow> Some (in_schema schema (\<lambda>_. (r, w)) ws))"

definition sync_workspace_audit :: "'s dwd_env \<Rightarrow> string \<Rightarrow> int \<Rightarrow> (string \<Rightarrow> 's dwd_world, json) call" where
  "sync_workspace_audit de schema days = in_schema schema (sync_admin_audit_logins de days)"

definition sync_workspace_user_calendar :: "'s dwd_env \<Rightarrow> string \<Rightarrow> string \<Rightarrow> int \<Rightarrow> (string \<Rightarrow> 's dwd_world, json) call" where
  "sync_workspace_user_calendar de schema user_email days = in_schema schema (sync_user_calendar_week de user_email days)"

text \<open>The dispatchers: the jobs they enqueue.\<close>

datatype workspace_job = IncrementalIngest string | SyncDirectory string string | SyncAudit string int

definition active_tenant_schemas :: "tenant_row list \<Rightarrow> string list" where
  "active_tenant_schemas tenants = map schema_name (filter (\<lambda>t. tenant_is_active t \<and> schema_name t \<noteq> ''public'') tenants)"

definition has_dwd_integration :: "(string \<Rightarrow> integration list) \<Rightarrow> string \<Rightarrow> bool" where
  "has_dwd_integration rows schema = (active_integration ''google_workspace_dwd'' (rows schema) \<noteq> None)"

definition dwd_schemas :: "tenant_row list \<Rightarrow> (string \<Rightarrow> integration list) \<Rightarrow> string list" where
  "dwd_schemas tenants rows = filter (has_dwd_integration rows) (active_tenant_schemas tenants)"

definition knowledge_incremental_dispatch :: "tenant_row list \<Rightarrow> (string \<Rightarrow> integration list) \<Rightarrow> workspace_job list" where
  "knowledge_incremental_dispatch tenants rows = map IncrementalIngest (dwd_schemas tenants rows)"

definition workspace_directory_dispatch :: "string \<Rightarrow> tenant_row list \<Rightarrow> (string \<Rightarrow> integration list) \<Rightarrow> workspace_job list" where
  "workspace_directory_dispatch domain tenants rows =
     (if domain = [] then [] else map (\<lambda>s. SyncDirectory s domain) (dwd_schemas tenants rows))"

definition workspace_audit_dispatch :: "tenant_row list \<Rightarrow> (string \<Rightarrow> integration list) \<Rightarrow> workspace_job list" where
  "workspace_audit_dispatch tenants rows = map (\<lambda>s. SyncAudit s 1) (dwd_schemas tenants rows)"

section \<open>Delegation stays in the domain\<close>

definition in_domain :: "'s dwd_env \<Rightarrow> string \<Rightarrow> bool" where
  "in_domain de subject \<longleftrightarrow>
     workspace_domain de \<noteq> [] \<and> (\<exists>user. str_lower subject = user @ CHR ''@'' # workspace_domain de)
     \<and> CHR ''@'' \<notin> set (workspace_domain de)"

lemma rsplit_once_two:
  assumes "rsplit_once c s = [a, b]"
  shows "s = a @ c # b \<and> c \<notin> set b"
proof -
  have c: "c \<in> set s" using assms by (auto simp: rsplit_once_def split: if_splits)
  let ?p = "\<lambda>x. x \<noteq> c"
  have "dropWhile ?p (rev s) \<noteq> []" "hd (dropWhile ?p (rev s)) = c"
    using c hd_dropWhile[of ?p "rev s"] by (auto simp: dropWhile_eq_Nil_conv)
  then have "dropWhile ?p (rev s) = c # drop 1 (dropWhile ?p (rev s))" by (metis drop0 drop_Suc_Cons list.exhaust_sel One_nat_def)
  then have "rev s = takeWhile ?p (rev s) @ c # drop 1 (dropWhile ?p (rev s))" by (metis takeWhile_dropWhile_id)
  then have "s = rev (drop 1 (dropWhile ?p (rev s))) @ c # rev (takeWhile ?p (rev s))" by (metis append_assoc append_Cons append_Nil rev.simps(2) rev_append rev_rev_ident)
  moreover have "c \<notin> set (rev (takeWhile ?p (rev s)))" using set_takeWhileD[of c ?p "rev s"] by auto
  moreover have "a = rev (drop 1 (dropWhile ?p (rev s)))" "b = rev (takeWhile ?p (rev s))"
    using assms c by (simp_all add: rsplit_once_def)
  ultimately show ?thesis by blast
qed

lemma validate_subject_in_domain: "validate_subject_domain de subject = Inr () \<Longrightarrow> in_domain de subject"
  by (auto simp: validate_subject_domain_def in_domain_def Let_def dest!: rsplit_once_two
      split: if_splits list.splits)

text \<open>The same code, with a guard in front of Google that refuses every user outside the domain.\<close>

definition guarded :: "'s dwd_env \<Rightarrow> 's dwd_env" where
  "guarded de = de\<lparr>de_request := (\<lambda>svc method args s.
     if in_domain de (gs_subject svc) then de_request de svc method args s else (Inl (RuntimeError ''outside the domain''), s))\<rparr>"

lemma guarded_select [simp]:
  "de_client (guarded de) = de_client de" "de_file (guarded de) = de_file de" "de_inline (guarded de) = de_inline de"
  "de_domain (guarded de) = de_domain de" "de_admin (guarded de) = de_admin de" "de_scopes (guarded de) = de_scopes de"
  "de_credentials (guarded de) = de_credentials de" "de_build (guarded de) = de_build de" "de_today (guarded de) = de_today de"
  by (simp_all add: guarded_def)

lemma guarded_same [simp]:
  "get_credentials (guarded de) = get_credentials de" "build_service (guarded de) = build_service de"
  "dwd_now (guarded de) = dwd_now de"
proof -
  have info: "load_sa_info (guarded de) = load_sa_info de" unfolding load_sa_info_def guarded_select by (rule refl)
  have valid: "validate_subject_domain (guarded de) = validate_subject_domain de"
    by (intro ext) (simp only: validate_subject_domain_def workspace_domain_def guarded_select)
  show creds: "get_credentials (guarded de) = get_credentials de"
    by (intro ext) (simp only: get_credentials_def info valid guarded_select)
  have "build_service_cached (guarded de) = build_service_cached de"
    by (intro ext) (simp only: build_service_cached_def creds guarded_select)
  then show "build_service (guarded de) = build_service de"
    by (intro ext) (simp only: build_service_def guarded_select)
qed (simp add: dwd_now_def fun_eq_iff)

definition services_ok :: "'s dwd_env \<Rightarrow> dwd_module \<Rightarrow> bool" where
  "services_ok de m \<longleftrightarrow>
     list_all (\<lambda>k. in_domain de (gs_subject k)) (dm_services m) \<and> distinct (dm_services m) \<and> length (dm_services m) \<le> 64"

text \<open>
  Two effects that do the same on a module with good services, keep them good, and whose results satisfy \<open>Q\<close>.
\<close>

definition agrees :: "'s dwd_env \<Rightarrow> ('w \<Rightarrow> dwd_module) \<Rightarrow> ('a \<Rightarrow> bool) \<Rightarrow> ('w, 'a) call \<Rightarrow> ('w, 'a) call \<Rightarrow> bool" where
  "agrees de md Q m m' \<longleftrightarrow> (\<forall>w. services_ok de (md w) \<longrightarrow>
     m' w = m w \<and> services_ok de (md (snd (m w))) \<and> (\<forall>x. fst (m w) = Inr x \<longrightarrow> Q x))"

lemma agreesD:
  "agrees de md Q m m' \<Longrightarrow> services_ok de (md w) \<Longrightarrow> m w = (r, w') \<Longrightarrow>
     m' w = (r, w') \<and> services_ok de (md w') \<and> (\<forall>x. r = Inr x \<longrightarrow> Q x)"
  unfolding agrees_def by (metis fst_conv snd_conv)

lemma agrees_chain:
  assumes "agrees de md Q m m'" "\<And>x. Q x \<Longrightarrow> agrees de md R (f x) (f' x)"
  shows "agrees de md R (chain m f) (chain m' f')"
  unfolding agrees_def
proof (intro allI impI)
  fix w
  assume ok: "services_ok de (md w)"
  obtain r w1 where m: "m w = (r, w1)" by (rule prod.exhaust)
  note m1 = agreesD[OF assms(1) ok m]
  show "chain m' f' w = chain m f w \<and> services_ok de (md (snd (chain m f w))) \<and> (\<forall>x. fst (chain m f w) = Inr x \<longrightarrow> R x)"
  proof (cases r)
    case (Inl e)
    then show ?thesis using m m1 by (simp add: chain_def)
  next
    case (Inr x)
    then have "agrees de md R (f x) (f' x)" using assms(2) m1 by blast
    moreover obtain r2 w2 where "f x w1 = (r2, w2)" by (rule prod.exhaust)
    ultimately show ?thesis using m m1 Inr agreesD[of de md R "f x" "f' x" w1 r2 w2] by (simp add: chain_def)
  qed
qed

lemma agrees_basic:
  "agrees de md (\<lambda>_. True) (ret x) (ret x)" "agrees de md (\<lambda>_. True) (lift_result r) (lift_result r)"
  by (simp_all add: agrees_def ret_def lift_result_def)

lemma agrees_state: "(\<And>w. agrees de md Q (f w) (f' w)) \<Longrightarrow> agrees de md Q (\<lambda>w. f w w) (\<lambda>w. f' w w)"
  unfolding agrees_def by blast

lemma agrees_on_module:
  fixes m :: "('s dwd, 'a) call"
  assumes a: "agrees de snd Q m m'"
  shows "agrees de (\<lambda>w. snd (service w)) Q (on_module m) (on_module m')"
proof -
  show ?thesis unfolding agrees_def
  proof (intro allI impI)
    fix w :: "'s dwd_world"
    assume ok: "services_ok de (snd (service w))"
    obtain r d where m: "m (service w) = (r, d)" by (rule prod.exhaust)
    from agreesD[OF a ok m] m show "on_module m' w = on_module m w \<and> services_ok de (snd (service (snd (on_module m w))))
        \<and> (\<forall>x. fst (on_module m w) = Inr x \<longrightarrow> Q x)"
      by (simp add: on_module_def)
  qed
qed

lemma agrees_request:
  "in_domain de (gs_subject svc) \<Longrightarrow> agrees de snd (\<lambda>_. True) (request de svc method args) (request (guarded de) svc method args)"
  by (auto simp: agrees_def request_def on_world_def guarded_def split: prod.splits)

lemma agrees_snapshot:
  "agrees de (\<lambda>w. snd (service w)) (\<lambda>_. True) (add_snapshot de s a b v) (add_snapshot (guarded de) s a b v)"
  by (simp add: agrees_def add_snapshot_def Let_def)

lemma services_ok_hit:
  assumes "services_ok de m" "k \<in> set (dm_services m)"
  shows "services_ok de (m\<lparr>dm_services := lru_hit k (dm_services m)\<rparr>)"
proof -
  have "length (filter (\<lambda>x. x \<noteq> k) (dm_services m)) < length (dm_services m)"
    by (rule length_filter_less[OF assms(2)]) simp
  then show ?thesis using assms by (auto simp: services_ok_def lru_hit_def list_all_iff)
qed

lemma services_ok_add:
  assumes "services_ok de m" "k \<notin> set (dm_services m)" "in_domain de (gs_subject k)"
  shows "services_ok de (m\<lparr>dm_services := lru_add k (dm_services m)\<rparr>)"
proof -
  have "set (lru_add k (dm_services m)) \<subseteq> insert k (set (dm_services m))"
    using set_drop_subset[of "length (dm_services m) + 1 - lru_size" "dm_services m @ [k]"] by (simp add: lru_add_def del: drop_append)
  moreover have "distinct (lru_add k (dm_services m))" "length (lru_add k (dm_services m)) \<le> 64"
    using assms by (auto simp: services_ok_def lru_add_def lru_size_def dest: in_set_dropD)
  ultimately show ?thesis using assms by (auto simp: services_ok_def list_all_iff)
qed

lemma get_credentials_frame:
  assumes "get_credentials de subject scopes (s, m) = (r, s', m')"
  shows "dm_services m' = dm_services m" "r = Inr x \<Longrightarrow> in_domain de (if subject = [] then de_admin de else subject)"
  using assms
  by (auto simp: get_credentials_def load_sa_info_def chain_def lift_result_def Let_def andthen_Inr_iff
      intro: validate_subject_in_domain split: if_splits sum.splits option.splits prod.splits)

lemma agrees_build:
  "agrees de snd (\<lambda>svc. in_domain de (gs_subject svc)) (build_service de api version subject scopes)
     (build_service (guarded de) api version subject scopes)"
proof -
  define k where "k = \<lparr>gs_api = api, gs_version = version, gs_subject = (if subject = [] then de_admin de else subject),
    gs_scope_key = (if scopes = [] then [] else join '','' (sort scopes))\<rparr>"
  have "services_ok de m' \<and> (\<forall>x. r = Inr x \<longrightarrow> in_domain de (gs_subject x))"
    if run: "build_service_cached de k (s, m) = (r, s', m')" and ok: "services_ok de m" for s m r s' m'
  proof (cases "k \<in> set (dm_services m)")
    case True
    then show ?thesis using run ok services_ok_hit[OF ok True]
      by (auto simp: build_service_cached_def services_ok_def list_all_iff)
  next
    case False
    let ?scopes = "if gs_scope_key k = [] then [] else split_on (CHR '','') (gs_scope_key k)"
    obtain r1 s1 m1 where creds: "get_credentials de (gs_subject k) ?scopes (s, m) = (r1, s1, m1)" by (metis prod_cases3)
    note frame = get_credentials_frame[OF creds]
    have ok1: "services_ok de m1" using ok frame(1) by (simp add: services_ok_def)
    show ?thesis
    proof (cases r1)
      case (Inl e)
      then show ?thesis using run False creds ok1 by (auto simp: build_service_cached_def chain_def)
    next
      case (Inr sc)
      then have "in_domain de (if gs_subject k = [] then de_admin de else gs_subject k)" using frame(2) by blast
      then have dom: "in_domain de (gs_subject k)" by (auto simp: k_def split: if_splits)
      obtain r2 s2 where b: "de_build de k sc s1 = (r2, s2)" by (rule prod.exhaust)
      show ?thesis
        using run False creds Inr b ok1 dom services_ok_add[OF ok1 _ dom] frame(1)
        by (cases r2) (auto simp: build_service_cached_def chain_def on_world_def)
    qed
  qed
  then have "agrees de snd (\<lambda>svc. in_domain de (gs_subject svc)) (build_service_cached de k) (build_service_cached de k)"
    unfolding agrees_def by (metis prod.collapse)
  then show ?thesis by (simp add: build_service_def k_def)
qed

text \<open>The tools.\<close>

lemma agrees_weaken: "agrees de md Q m m' \<Longrightarrow> (\<And>x. Q x \<Longrightarrow> R x) \<Longrightarrow> agrees de md R m m'"
  unfolding agrees_def by blast

lemmas agrees_clients = agrees_build[folded gmail_client_def] agrees_build

lemma agrees_tools: "list_all2 (\<lambda>(n, f) (n', f'). n' = n \<and> (\<forall>params. agrees de snd (\<lambda>_. True) (f params) (f' params)))
    (dwd_tools de) (dwd_tools (guarded de))"
proof -
  note clients = directory_client_def drive_client_def guarded_same guarded_select
  have "agrees de snd (\<lambda>_. True) (tool_list_users de v) (tool_list_users (guarded de) v)" for v
    unfolding tool_list_users_def directory_client_def guarded_select
    by (intro agrees_chain[OF agrees_basic(2)] agrees_chain[OF agrees_build] agrees_chain[OF agrees_request] agrees_basic)
  moreover have "agrees de snd (\<lambda>_. True) (tool_list_drive_files de v) (tool_list_drive_files (guarded de) v)" for v
    unfolding tool_list_drive_files_def drive_client_def guarded_select
    by (intro agrees_chain[OF agrees_basic(2)] agrees_chain[OF agrees_build] agrees_chain[OF agrees_request] agrees_basic)
  moreover have "agrees de snd (\<lambda>_. True) (tool_get_drive_changes de v) (tool_get_drive_changes (guarded de) v)" for v
    unfolding tool_get_drive_changes_def drive_client_def guarded_select
    by (intro agrees_chain[OF agrees_basic(2)] agrees_chain[OF agrees_build] agrees_chain[OF agrees_request] agrees_basic)
  moreover have "agrees de snd (\<lambda>_. True) (tool_drive_start_page_token de v) (tool_drive_start_page_token (guarded de) v)" for v
    unfolding tool_drive_start_page_token_def drive_client_def guarded_select
    by (intro agrees_chain[OF agrees_basic(2)] agrees_chain[OF agrees_build] agrees_chain[OF agrees_request] agrees_basic)
  ultimately show ?thesis by (simp add: dwd_tools_def)
qed

lemma map_of_related:
  assumes "list_all2 (\<lambda>(n, f) (n', f'). n' = n \<and> R f f') xs ys"
  shows "(map_of xs k = None \<and> map_of ys k = None) \<or> (\<exists>f f'. map_of xs k = Some f \<and> map_of ys k = Some f' \<and> R f f')"
  using assms by (induction rule: list_all2_induct) auto

lemma agrees_dwd_call:
  assumes "services_ok de (snd d)"
  shows "dwd_call (guarded de) tool params d = dwd_call de tool params d
    \<and> services_ok de (snd (snd (dwd_call de tool params d)))"
  using map_of_related[OF agrees_tools, of de tool]
proof
  assume "map_of (dwd_tools de) tool = None \<and> map_of (dwd_tools (guarded de)) tool = None"
  with assms show ?thesis by (simp add: dwd_call_def)
next
  assume "\<exists>f f'. map_of (dwd_tools de) tool = Some f \<and> map_of (dwd_tools (guarded de)) tool = Some f'
    \<and> (\<forall>params. agrees de snd (\<lambda>_. True) (f params) (f' params))"
  then obtain f f' where f: "map_of (dwd_tools de) tool = Some f" "map_of (dwd_tools (guarded de)) tool = Some f'"
      "agrees de snd (\<lambda>_. True) (f params) (f' params)" by blast
  obtain r d' where m: "f params d = (r, d')" by (rule prod.exhaust)
  from agreesD[OF f(3) assms m] show ?thesis using f(1,2) m by (simp add: dwd_call_def split: sum.split)
qed

text \<open>The syncs.\<close>

abbreviation world_agrees :: "'s dwd_env \<Rightarrow> ('a \<Rightarrow> bool) \<Rightarrow> ('s dwd_world, 'a) call \<Rightarrow> ('s dwd_world, 'a) call \<Rightarrow> bool" where
  "world_agrees de \<equiv> agrees de (\<lambda>w. snd (service w))"

lemma world_agrees_time: "(\<And>t. world_agrees de Q (f t) (f' t)) \<Longrightarrow> world_agrees de Q (with_time de f) (with_time (guarded de) f')"
  unfolding with_time_def guarded_same by (rule agrees_state)

lemmas world_request = agrees_on_module[OF agrees_request]
lemmas world_build = agrees_on_module[OF agrees_build]

lemma directory_pages_agree:
  assumes "in_domain de (gs_subject svc)"
  shows "services_ok de (snd (service w)) \<Longrightarrow>
    directory_pages fuel (guarded de) svc domain t users w = directory_pages fuel de svc domain t users w
    \<and> (\<forall>r w'. directory_pages fuel de svc domain t users w = Some (r, w') \<longrightarrow> services_ok de (snd (service w')))"
proof (induction fuel arbitrary: t users w)
  case (Suc fuel)
  let ?get = "\<lambda>de. chain (on_module (request de svc ''users.list'' [(''domain'', domain), (''maxResults'', JInt 200),
      (''pageToken'', t), (''orderBy'', JStr ''email'')]))
    (\<lambda>resp. lift_result (andthen (jget_or resp ''users'' (JList [])) (\<lambda>v. andthen (jiter v) (\<lambda>us.
      andthen (jget resp ''nextPageToken'') (\<lambda>t. Inr (us, t))))))"
  obtain r w1 where get: "?get de w = (r, w1)" by (rule prod.exhaust)
  have "world_agrees de (\<lambda>_. True) (?get de) (?get (guarded de))"
    by (intro agrees_chain[OF world_request[OF assms]] agrees_basic)
  from agreesD[OF this Suc.prems get] have same: "?get (guarded de) w = (r, w1)" "services_ok de (snd (service w1))" by simp_all
  show ?case using Suc.IH[OF same(2)] get same by (auto split: sum.splits)
qed simp

lemma sync_directory_agrees:
  assumes "services_ok de (snd (service w))"
  shows "sync_directory_users fuel (guarded de) domain w = sync_directory_users fuel de domain w
    \<and> (\<forall>r w'. sync_directory_users fuel de domain w = Some (r, w') \<longrightarrow> services_ok de (snd (service w')))"
proof -
  obtain r w1 where client: "on_module (directory_client de) w = (r, w1)" by (rule prod.exhaust)
  have "world_agrees de (\<lambda>svc. in_domain de (gs_subject svc)) (on_module (directory_client de)) (on_module (directory_client (guarded de)))"
    unfolding directory_client_def by (rule world_build)
  from agreesD[OF this assms client] have c: "on_module (directory_client (guarded de)) w = (r, w1)"
      "services_ok de (snd (service w1))" "\<forall>svc. r = Inr svc \<longrightarrow> in_domain de (gs_subject svc)" by simp_all
  show ?thesis
  proof (cases r)
    case (Inl e)
    then show ?thesis using client c by (simp add: sync_directory_users_def)
  next
    case (Inr svc)
    note pages = directory_pages_agree[OF c(3)[rule_format, OF Inr] c(2), of fuel "JStr domain" JNull "[]"]
    let ?store = "\<lambda>de users. chain (lift_result (map_result directory_user users)) (\<lambda>rows. with_time de (\<lambda>now.
        chain (add_snapshot de ''workspace_directory'' (day_of now) (day_of now)
          (JObj [(''total_users'', jnat (length users)), (''users'', JList rows)])) (\<lambda>snap.
        ret (JObj [(''snapshot_id'', jnat (snap_id snap)), (''users'', jnat (length users))]))))"
    have store: "world_agrees de (\<lambda>_. True) (?store de users) (?store (guarded de) users)" for users
      by (intro agrees_chain[OF agrees_basic(2)] world_agrees_time agrees_chain[OF agrees_snapshot] agrees_basic)
    show ?thesis
    proof (cases "directory_pages fuel de svc (JStr domain) JNull [] w1")
      case None
      then show ?thesis using client c(1) Inr pages by (simp add: sync_directory_users_def)
    next
      case (Some p)
      obtain r2 w2 where p: "p = (r2, w2)" by (rule prod.exhaust)
      with Some pages have ok2: "services_ok de (snd (service w2))" by blast
      show ?thesis
      proof (cases r2)
        case (Inl e)
        then show ?thesis using client c(1) Inr pages Some p ok2 by (simp add: sync_directory_users_def)
      next
        case users: (Inr users)
        obtain r3 w3 where st: "?store de users w2 = (r3, w3)" by (rule prod.exhaust)
        from agreesD[OF store ok2 st] show ?thesis
          using client c(1) Inr pages Some p users st by (simp add: sync_directory_users_def)
      qed
    qed
  qed
qed

lemmas sync_agreement =
  agrees_chain[OF world_build] agrees_chain[OF world_request] agrees_chain[OF agrees_basic(2)]
  agrees_chain[OF agrees_snapshot] world_agrees_time

lemma sync_calendar_agrees: "world_agrees de (\<lambda>_. True) (sync_user_calendar_week de user days) (sync_user_calendar_week (guarded de) user days)"
  unfolding sync_user_calendar_week_def calendar_client_def
  by (intro sync_agreement agrees_basic) assumption

lemma sync_audit_agrees: "world_agrees de (\<lambda>_. True) (sync_admin_audit_logins de days) (sync_admin_audit_logins (guarded de) days)"
  unfolding sync_admin_audit_logins_def reports_client_def
  by (intro sync_agreement agrees_basic) assumption

lemma sync_email_agrees: "world_agrees de (\<lambda>_. True) (sync_user_email_signals de user days) (sync_user_email_signals (guarded de) user days)"
proof -
  have store: "world_agrees de (\<lambda>_. True)
      (\<lambda>w. chain (lift_result (minus_days (de_today de (fst (service w))) days)) (\<lambda>from.
         chain (add_snapshot de ''workspace_email'' from (de_today de (fst (service w))) v) (\<lambda>_. ret v)) w)
      (\<lambda>w. chain (lift_result (minus_days (de_today de (fst (service w))) days)) (\<lambda>from.
         chain (add_snapshot (guarded de) ''workspace_email'' from (de_today de (fst (service w))) v) (\<lambda>_. ret v)) w)" for v
    by (rule agrees_state) (intro agrees_chain[OF agrees_basic(2)] agrees_chain[OF agrees_snapshot] agrees_basic)
  have time: "world_agrees de (\<lambda>_. True) (with_time de (\<lambda>now. lift_result (days_before now days)))
      (with_time (guarded de) (\<lambda>now. lift_result (days_before now days)))"
    by (intro world_agrees_time agrees_basic)
  show ?thesis
    unfolding sync_user_email_signals_def gmail_client_def recent_messages_def guarded_select
    by (intro agrees_chain[OF world_build] agrees_chain[OF time] agrees_chain[OF world_request] agrees_chain[OF agrees_basic(2)]
        store) assumption+
qed

section \<open>Runs\<close>

text \<open>
  What a process does with the module, in any order; \<open>Elapsed\<close> lets the world outside change between two operations.
\<close>

datatype 's dwd_op = Tool string json | Directory string | Calendar string int | Audit int | Email string int | Reset | Elapsed 's

text \<open>The outcome of an operation: a tool's result, or what a sync returned.\<close>

fun dwd_do :: "nat \<Rightarrow> 's dwd_env \<Rightarrow> 's dwd_op \<Rightarrow> 's dwd_world \<Rightarrow> ((call_result + (py_error, json) result) \<times> 's dwd_world) option" where
  "dwd_do fuel de (Tool tool params) w =
     (case dwd_call de tool params (service w) of (r, d) \<Rightarrow> Some (Inl r, w\<lparr>service := d\<rparr>))"
| "dwd_do fuel de (Directory domain) w = map_option (map_prod Inr id) (sync_directory_users fuel de domain w)"
| "dwd_do fuel de (Calendar user days) w = Some (map_prod Inr id (sync_user_calendar_week de user days w))"
| "dwd_do fuel de (Audit days) w = Some (map_prod Inr id (sync_admin_audit_logins de days w))"
| "dwd_do fuel de (Email user days) w = Some (map_prod Inr id (sync_user_email_signals de user days w))"
| "dwd_do fuel de Reset w = Some (Inr (Inr JNull), w\<lparr>service := reset_sa_cache (service w)\<rparr>)"
| "dwd_do fuel de (Elapsed s) w = Some (Inr (Inr JNull), w\<lparr>service := (s, snd (service w))\<rparr>)"

fun dwd_run :: "nat \<Rightarrow> 's dwd_env \<Rightarrow> 's dwd_op list \<Rightarrow> 's dwd_world
    \<Rightarrow> ((call_result + (py_error, json) result) list \<times> 's dwd_world) option" where
  "dwd_run fuel de [] w = Some ([], w)"
| "dwd_run fuel de (op # ops) w =
     (case dwd_do fuel de op w of
        None \<Rightarrow> None
      | Some (r, w) \<Rightarrow> map_option (\<lambda>(rs, w). (r # rs, w)) (dwd_run fuel de ops w))"

lemma dwd_do_agrees:
  assumes ok: "services_ok de (snd (service w))"
  shows "dwd_do fuel (guarded de) op w = dwd_do fuel de op w
    \<and> (\<forall>r w'. dwd_do fuel de op w = Some (r, w') \<longrightarrow> services_ok de (snd (service w')))"
proof (cases op)
  case (Tool tool params)
  then show ?thesis using agrees_dwd_call[OF ok, of tool params] by (auto split: prod.splits)
next
  case (Directory domain)
  then show ?thesis using sync_directory_agrees[OF ok, of fuel domain] by auto
next
  case (Calendar user days)
  obtain r w' where "sync_user_calendar_week de user days w = (r, w')" by (rule prod.exhaust)
  with agreesD[OF sync_calendar_agrees ok this] Calendar show ?thesis by simp
next
  case (Audit days)
  obtain r w' where "sync_admin_audit_logins de days w = (r, w')" by (rule prod.exhaust)
  with agreesD[OF sync_audit_agrees ok this] Audit show ?thesis by simp
next
  case (Email user days)
  obtain r w' where "sync_user_email_signals de user days w = (r, w')" by (rule prod.exhaust)
  with agreesD[OF sync_email_agrees ok this] Email show ?thesis by simp
next
  case Reset
  obtain v m where "service w = (v, m)" by (rule prod.exhaust)
  with Reset ok show ?thesis by (simp add: reset_sa_cache_def services_ok_def)
next
  case (Elapsed s)
  with ok show ?thesis by simp
qed

lemma services_ok_empty: "dm_services m = [] \<Longrightarrow> services_ok de m"
  by (simp add: services_ok_def)

text \<open>
  C8. Nobody outside the Workspace domain is impersonated. Whatever tools, syncs and resets a process runs, in
  any order and from an empty cache of services, a guard in front of Google that refuses every user outside
  the domain would change nothing, neither a result nor the state; and at most 64 services are kept.
\<close>

theorem delegation_in_domain:
  assumes "dm_services (snd (service w)) = []"
  shows "dwd_run fuel (guarded de) ops w = dwd_run fuel de ops w
    \<and> (\<forall>rs w'. dwd_run fuel de ops w = Some (rs, w') \<longrightarrow>
        length (dm_services (snd (service w'))) \<le> 64 \<and> (\<forall>svc \<in> set (dm_services (snd (service w'))). in_domain de (gs_subject svc)))"
proof -
  have "services_ok de (snd (service w)) \<Longrightarrow> dwd_run fuel (guarded de) ops w = dwd_run fuel de ops w
    \<and> (\<forall>rs w'. dwd_run fuel de ops w = Some (rs, w') \<longrightarrow> services_ok de (snd (service w')))"
  proof (induction ops arbitrary: w)
    case (Cons op ops)
    note step = dwd_do_agrees[OF Cons.prems, of fuel op]
    show ?case
    proof (cases "dwd_do fuel de op w")
      case None
      with step show ?thesis by simp
    next
      case (Some p)
      obtain r w1 where p: "p = (r, w1)" by (rule prod.exhaust)
      with Some step have "services_ok de (snd (service w1))" by blast
      from Cons.IH[OF this] Some p step show ?thesis by auto
    qed
  qed simp
  from this[OF services_ok_empty[OF assms]] show ?thesis unfolding services_ok_def list_all_iff by blast
qed

text \<open>A module at work: the admin of \<open>acme.cz\<close> lists users, then a tool call for nobody fails.\<close>

definition sample_dwd :: "rat dwd_env" where
  "sample_dwd =
     \<lparr>de_client = sample_client_env (\<lambda>url rq. JNull), de_file = (\<lambda>s. Some (Inr (JObj [(''k'', JNull)]))), de_inline = [],
      de_domain = '' Acme.cz'', de_admin = ''Boss@ACME.cz'', de_scopes = [''s''], de_credentials = (\<lambda>info scopes. Inr ()),
      de_build = (\<lambda>svc scopes s. (Inr (), s)), de_request = (\<lambda>svc method args s. (Inr (JObj []), s)), de_today = (\<lambda>s. 0)\<rparr>"

definition sample_dwd_world :: "rat dwd_world" where
  "sample_dwd_world = \<lparr>integrations = [], snapshots = [], service = (0, \<lparr>dm_info = JNull, dm_services = []\<rparr>),
     until_insert = (\<lambda>_. 1), insert_time = (\<lambda>_. 2)\<rparr>"

lemma sample_dwd_simps:
  "de_file sample_dwd s = Some (Inr (JObj [(''k'', JNull)]))" "de_domain sample_dwd = '' Acme.cz''"
  "de_admin sample_dwd = ''Boss@ACME.cz''" "de_scopes sample_dwd = [''s'']" "de_credentials sample_dwd info scopes = Inr ()"
  "de_build sample_dwd svc scopes s = (Inr (), s)" "de_request sample_dwd svc method args s = (Inr (JObj []), s)"
  by (simp_all add: sample_dwd_def)

lemma sample_dwd_run:
  "\<exists>r svc. dwd_run 1 sample_dwd [Tool ''list_users'' (JObj [])] sample_dwd_world =
     Some ([r], sample_dwd_world\<lparr>service := (0, \<lparr>dm_info = JObj [(''k'', JNull)], dm_services = [svc]\<rparr>)\<rparr>)"
proof -
  have "validate_subject_domain sample_dwd ''Boss@ACME.cz'' = Inr ()"
    unfolding validate_subject_domain_def workspace_domain_def sample_dwd_simps by code_simp
  then show ?thesis
    by (simp add: dwd_call_def dwd_tools_def tool_list_users_def directory_client_def build_service_def build_service_cached_def
        get_credentials_def load_sa_info_def chain_def lift_result_def request_def on_world_def Let_def lru_add_def lru_size_def
        sample_dwd_world_def dict_of_def dict_get_def jget_or_def get_default_def sample_dwd_simps)
qed

lemma delegation_in_domain_witness:
  "\<exists>rs w'. dwd_run 1 (guarded sample_dwd) [Tool ''list_users'' (JObj [])] sample_dwd_world = Some (rs, w')
     \<and> list_all (\<lambda>svc. in_domain sample_dwd (gs_subject svc)) (dm_services (snd (service w'))) \<and> dm_services (snd (service w')) \<noteq> []"
proof -
  obtain r svc where run: "dwd_run 1 sample_dwd [Tool ''list_users'' (JObj [])] sample_dwd_world =
     Some ([r], sample_dwd_world\<lparr>service := (0, \<lparr>dm_info = JObj [(''k'', JNull)], dm_services = [svc]\<rparr>)\<rparr>)"
    using sample_dwd_run by blast
  have "dm_services (snd (service sample_dwd_world)) = []" by (simp add: sample_dwd_world_def)
  from delegation_in_domain[OF this, of 1 sample_dwd "[Tool ''list_users'' (JObj [])]"] run show ?thesis
    by (simp add: list_all_iff del: dwd_run.simps)
qed

end
