(* ===== verification/Integrations.thy ===== *)
theory Integrations
  imports PipedriveClient SlackIngest OauthClients KeyClients McpClients GoogleWorkspace
begin

text \<open>
  The registry of \<open>data_access/mcp/registry.py\<close>: the twenty-one integrations the gateway dispatches to. The clients
  are those of \<open>OauthClients\<close>, \<open>KeyClients\<close>, \<open>McpClients\<close> and \<open>GoogleWorkspace\<close>; Slack's and Pipedrive's tools are here,
  with the parsing of answers that their ingests use. Slack's SDK is a parameter, a call of a method with a token.
\<close>

section \<open>Slack\<close>

type_synonym 's slack_web = "string \<Rightarrow> string \<Rightarrow> (string \<times> json) list \<Rightarrow> ('s, json) call"

definition slack_bot_token :: "'s client_env \<Rightarrow> integration \<Rightarrow> ('s backend, string) call" where
  "slack_bot_token ce i =
     chain (find_credential i) (\<lambda>cred.
     chain (lift_result (get_tokens (ce_gw ce) (cr_tokens cred))) (\<lambda>tokens.
     lift_result (case tokens of JObj kvs \<Rightarrow> bot_token (Some kvs) | _ \<Rightarrow> Inl AttributeError)))"

definition slack_list :: "(json \<Rightarrow> (py_error, json list) result) \<Rightarrow> ('s, json) call \<Rightarrow> ('s, json) call" where
  "slack_list f m = chain m (\<lambda>result. lift_result (andthen (f result) (\<lambda>xs. Inr (JList xs))))"

definition slack_limit :: "(string \<times> json option) list" where
  "slack_limit = [(''limit'', Some (JInt 200))]"

definition slack_tools :: "'s slack_web \<Rightarrow> string \<Rightarrow> (string \<times> (json \<Rightarrow> ('s, json) call)) list" where
  "slack_tools api token =
     [(''channels.list'', \<lambda>params. chain (lift_result (kwargs slack_limit params)) (\<lambda>args.
         slack_list (\<lambda>r. andthen (list_of r ''channels'') filter_members)
           (api token ''conversations.list'' [(''types'', JStr ''public_channel,private_channel''), (''limit'', args ! 0)]))),
      (''users.list'', \<lambda>params. chain (lift_result (kwargs slack_limit params)) (\<lambda>args.
         slack_list (\<lambda>r. list_of r ''members'') (api token ''users.list'' [(''limit'', args ! 0)]))),
      (''channels.history'', \<lambda>params.
         chain (lift_result (kwargs ([(''channel_id'', None), (''oldest_ts'', None)] @ slack_limit) params)) (\<lambda>args.
         slack_list (\<lambda>r. list_of r ''messages'') (api token ''conversations.history''
           [(''channel'', args ! 0), (''oldest'', JStr (py_str (args ! 1))), (''limit'', args ! 2)]))),
      (''team.info'', \<lambda>params. chain (api token ''team.info'' []) (\<lambda>r. lift_result (dict_field ''team'' r))),
      (''usergroups.list'', \<lambda>params. slack_list (\<lambda>r. list_of r ''usergroups'') (api token ''usergroups.list'' []))]"

definition slack_call ::
  "'s client_env \<Rightarrow> 's slack_web \<Rightarrow> integration \<Rightarrow> string \<Rightarrow> json \<Rightarrow> 's backend \<Rightarrow> call_result \<times> 's backend" where
  "slack_call ce api i tool params =
     or_failed ce (chain (slack_bot_token ce i) (\<lambda>token.
       case map_of (slack_tools api token) tool of
         None \<Rightarrow> ret \<lparr>mr_ok = False, mr_data = JNull, mr_error = ''unknown tool: '' @ tool\<rparr>
       | Some m \<Rightarrow> chain (on_backend (m params)) (\<lambda>v. ret \<lparr>mr_ok = True, mr_data = v, mr_error = []\<rparr>)))"

section \<open>Pipedrive\<close>

definition pipedrive_connector :: "'s client_env \<Rightarrow> 's api_connector" where
  "pipedrive_connector ce =
     \<lparr>co_session = (\<lambda>tokens. andthen (jget tokens ''api_domain'') (\<lambda>d.
          case or_else d (JStr ''https://api.pipedrive.com'') of
            JStr u \<Rightarrow> Inr ((plain_session (rev (dropWhile (\<lambda>c. c = CHR ''/'') (rev u)) @ ''/v1''))\<lparr>se_headers := [accept_json]\<rparr>)
          | _ \<Rightarrow> Inl AttributeError)),
      co_headers = bearer_of_tokens, co_refresh = Some (pipedrive_refresh_tokens (ce_web ce))\<rparr>"

definition pipedrive_list :: "'s client_env \<Rightarrow> string \<Rightarrow> ('s api_client, json) call" where
  "pipedrive_list ce path =
     endpoint ce (pipedrive_connector ce) path [] (\<lambda>data. andthen (list_data data) (\<lambda>xs. Inr (JList xs)))"

text \<open>The paging loop, with an integer page size; the page is read as in the ingest's client.\<close>

fun pipedrive_pages ::
  "nat \<Rightarrow> 's client_env \<Rightarrow> string \<Rightarrow> (string \<times> json) list \<Rightarrow> (json list \<Rightarrow> (py_error, json list) result) \<Rightarrow> int \<Rightarrow> int
     \<Rightarrow> json list \<Rightarrow> 's api_client \<Rightarrow> ((py_error, json) result \<times> 's api_client) option" where
  "pipedrive_pages 0 ce path extra keep page_size start out c = None"
| "pipedrive_pages (Suc fuel) ce path extra keep page_size start out c =
     (case chain (api_get ce (pipedrive_connector ce) path ([(''start'', JInt start), (''limit'', JInt page_size)] @ extra))
             (\<lambda>data. lift_result (page_of keep start page_size data)) c of
        (Inl e, c) \<Rightarrow> Some (Inl e, c)
      | (Inr (chunk, None), c) \<Rightarrow> Some (Inr (JList (out @ chunk)), c)
      | (Inr (chunk, Some later), c) \<Rightarrow> pipedrive_pages fuel ce path extra keep page_size later (out @ chunk) c)"

definition pipedrive_paged ::
  "nat \<Rightarrow> 's client_env \<Rightarrow> string \<Rightarrow> (string \<times> json) list \<Rightarrow> (json list \<Rightarrow> (py_error, json list) result) \<Rightarrow> json
     \<Rightarrow> 's api_client \<Rightarrow> ((py_error, json) result \<times> 's api_client) option" where
  "pipedrive_paged fuel ce path extra keep page_size c =
     (case page_size of JInt n \<Rightarrow> pipedrive_pages fuel ce path extra keep n 0 [] c | _ \<Rightarrow> Some (Inl TypeError, c))"

definition pipedrive_since :: "json \<Rightarrow> json list \<Rightarrow> (py_error, json list) result" where
  "pipedrive_since since =
     (if \<not> truth since then Inr
      else case since of JStr t \<Rightarrow> filter_result (updated_since t)
             | _ \<Rightarrow> filter_result (\<lambda>d. andthen (jget d ''update_time'') (\<lambda>_. Inl TypeError)))"

definition pipedrive_iter_activities ::
  "nat \<Rightarrow> 's client_env \<Rightarrow> json \<Rightarrow> json \<Rightarrow> 's api_client \<Rightarrow> ((py_error, json) result \<times> 's api_client) option" where
  "pipedrive_iter_activities fuel ce days page_size c =
     (case andthen (days_delta days) (\<lambda>d. shifted_iso (client_now ce c) (- d)) of
        Inr (JStr t) \<Rightarrow> pipedrive_paged fuel ce ''/activities'' [(''start_date'', JStr (take 10 t))] Inr page_size c
      | Inr _ \<Rightarrow> Some (Inl TypeError, c)
      | Inl e \<Rightarrow> Some (Inl e, c))"

definition pipedrive_tools :: "nat \<Rightarrow> 's client_env \<Rightarrow> (string \<times> 's tool) list" where
  "pipedrive_tools fuel ce =
     [(''pipelines.list'', no_args (pipedrive_list ce ''/pipelines'')),
      (''stages.list'', no_args (pipedrive_list ce ''/stages'')),
      (''users.list'', no_args (pipedrive_list ce ''/users'')),
      (''deals.list'', with_kwargs_loop [(''since'', Some JNull), (''page_size'', Some (JInt 100))]
         (\<lambda>args. pipedrive_paged fuel ce ''/deals''
            ([(''status'', JStr ''all_not_deleted'')] @ (if truth (args ! 0) then [(''filter_id'', JStr [])] else []))
            (pipedrive_since (args ! 0)) (args ! 1))),
      (''persons.list'', with_kwargs_loop [(''page_size'', Some (JInt 100))] (\<lambda>args. pipedrive_paged fuel ce ''/persons'' [] Inr (args ! 0))),
      (''activities.list'', with_kwargs_loop [(''days'', Some (JInt 30)), (''page_size'', Some (JInt 100))]
         (\<lambda>args. pipedrive_iter_activities fuel ce (args ! 0) (args ! 1)))]"

section \<open>The registry\<close>

text \<open>
  What the integrations stand on; the delegation module of Google is a part of the process, read and written
  with \<open>pv_module\<close> and \<open>pv_set_module\<close>. \<open>pv_fuel\<close> bounds the rounds of the paging loops.
\<close>

record 's providers =
  pv_client :: "'s client_env"
  pv_sdk :: "'s mcp_sdk"
  pv_slack :: "'s slack_web"
  pv_google :: "'s google_env"
  pv_dwd :: "'s dwd_env"
  pv_module :: "'s \<Rightarrow> dwd_module"
  pv_set_module :: "dwd_module \<Rightarrow> 's \<Rightarrow> 's"
  pv_fuel :: nat

definition client_impl :: "'s providers \<Rightarrow> (json \<Rightarrow> ('s, json) call) \<Rightarrow> 's api_connector \<Rightarrow> (string \<times> 's tool) list \<Rightarrow> 's mcp_impl" where
  "client_impl pv refresh co tools = \<lparr>mi_refresh = refresh, mi_call = client_call (pv_client pv) co tools\<rparr>"

definition total_impl :: "(json \<Rightarrow> ('s, json) call) \<Rightarrow> (integration \<Rightarrow> string \<Rightarrow> json \<Rightarrow> 's backend \<Rightarrow> call_result \<times> 's backend) \<Rightarrow> 's mcp_impl" where
  "total_impl refresh f =
     \<lparr>mi_refresh = refresh, mi_call = (\<lambda>i tool params b. case f i tool params b of (r, b) \<Rightarrow> Some (Inr r, b))\<rparr>"

definition dwd_impl :: "'s providers \<Rightarrow> 's mcp_impl" where
  "dwd_impl pv = total_impl keep_tokens (\<lambda>i tool params (s, creds).
     case dwd_call (pv_dwd pv) tool params (s, pv_module pv s) of (r, s, m) \<Rightarrow> (r, pv_set_module pv m s, creds))"

definition default_integrations :: "'s providers \<Rightarrow> (string \<times> 's mcp_impl) list" where
  "default_integrations pv =
     (let ce = pv_client pv; web = ce_web ce; fuel = pv_fuel pv
      in [(''google_workspace'', google_impl (pv_google pv)),
          (''google_workspace_dwd'', dwd_impl pv),
          (''slack'', total_impl keep_tokens (slack_call ce (pv_slack pv))),
          (''smartemailing'', client_impl pv keep_tokens smartemailing_connector (smartemailing_tools fuel ce)),
          (''pipedrive'', client_impl pv (pipedrive_refresh_tokens web) (pipedrive_connector ce) (pipedrive_tools fuel ce)),
          (''canva'', total_impl (canva_refresh_tokens web) (canva_call ce (pv_sdk pv))),
          (''trello'', client_impl pv keep_tokens trello_connector (trello_tools ce)),
          (''raynet'', client_impl pv keep_tokens raynet_connector (raynet_tools ce)),
          (''caflou'', client_impl pv keep_tokens caflou_connector (caflou_tools ce)),
          (''ecomail'', client_impl pv keep_tokens ecomail_connector (ecomail_tools ce)),
          (''fapi'', client_impl pv keep_tokens fapi_connector (fapi_tools ce)),
          (''microsoft365'', client_impl pv (ms365_refresh_tokens web) (ms365_connector ce) (ms365_tools ce)),
          (''salesforce'', client_impl pv (salesforce_refresh_tokens web) (salesforce_connector ce) (salesforce_tools ce)),
          (''asana'', client_impl pv (asana_refresh_tokens web) (asana_connector ce) (asana_tools ce)),
          (''basecamp'', client_impl pv (basecamp_refresh_tokens web) (basecamp_connector ce) (basecamp_tools ce)),
          (''mailchimp'', client_impl pv keep_tokens mailchimp_connector (mailchimp_tools ce)),
          (''calendly'', client_impl pv (calendly_refresh_tokens web) (calendly_connector ce) (calendly_tools ce)),
          (''hubspot'', client_impl pv (hubspot_refresh_tokens web) (hubspot_connector ce) (hubspot_tools fuel ce)),
          (''jira'', client_impl pv (jira_refresh_tokens web) (jira_connector ce) (jira_tools ce)),
          (''notion'', total_impl keep_tokens (notion_call ce (pv_sdk pv))),
          (''dropbox'', total_impl (dropbox_refresh_tokens web) (dropbox_call ce (pv_sdk pv)))])"

definition default_gateway :: "'s providers \<Rightarrow> 's gw_env" where
  "default_gateway pv = (ce_gw (pv_client pv))\<lparr>gw_impls := map_of (default_integrations pv)\<rparr>"

section \<open>Every call keeps the session\<close>

lemma pipedrive_pages_track:
  assumes "fernet_law (ce_gw ce)"
  shows "pipedrive_pages fuel ce path extra keep n start out c = Some (r, c') \<Longrightarrow> client_step ce (pipedrive_connector ce) c c'"
proof (induction fuel arbitrary: start out c)
  case (Suc fuel)
  let ?get = "chain (api_get ce (pipedrive_connector ce) path ([(''start'', JInt start), (''limit'', JInt n)] @ extra))
      (\<lambda>data. lift_result (page_of keep start n data))"
  obtain r1 c1 where get: "?get c = (r1, c1)" by (rule prod.exhaust)
  have step: "client_step ce (pipedrive_connector ce) c c1"
  proof (rule tracksD)
    show "?get c = (r1, c1)" by (rule get)
    show "tracks ce (pipedrive_connector ce) ?get" by (intro client_rules assms)
  qed
  show ?case
  proof (cases "c1 = c'")
    case True
    with step show ?thesis by simp
  next
    case False
    then obtain chunk later where "pipedrive_pages fuel ce path extra keep n later (out @ chunk) c1 = Some (r, c')"
      using Suc.prems get by (auto split: sum.splits option.splits prod.splits)
    from Suc.IH[OF this] step show ?thesis by (rule client_step_trans[rotated])
  qed
qed simp

lemma pipedrive_tools_track:
  "fernet_law (ce_gw ce) \<Longrightarrow> list_all (\<lambda>(n, m). tool_tracks ce (pipedrive_connector ce) m) (pipedrive_tools fuel ce)"
proof -
  assume law: "fernet_law (ce_gw ce)"
  have paged: "pipedrive_paged fuel ce path extra keep v c = Some (r, c') \<Longrightarrow> client_step ce (pipedrive_connector ce) c c'"
    for path extra keep v c r c'
    by (auto simp: pipedrive_paged_def client_step_refl intro: pipedrive_pages_track[OF law] split: json.splits)
  have activities: "pipedrive_iter_activities fuel ce d v c = Some (r, c') \<Longrightarrow> client_step ce (pipedrive_connector ce) c c'"
    for d v c r c'
    by (auto simp: pipedrive_iter_activities_def client_step_refl dest: paged split: sum.splits json.splits)
  show ?thesis
    unfolding pipedrive_tools_def list.pred_inject(2) prod.case pipedrive_list_def
    by (intro conjI list.pred_inject(1) tool_tracks_no_args tool_tracks_loop client_rules law) (auto dest: paged activities)
qed

lemma slack_call_session: "slack_call ce api i tool params b = (r, b') \<Longrightarrow> snd b' = snd b"
  by (auto simp: slack_call_def or_failed_def slack_bot_token_def find_credential_def chain_def lift_result_def ret_def
      dest: on_backend_frame split: prod.splits sum.splits option.splits)

text \<open>An integration that keeps sessions: it answers, and the credentials are those it was given, refreshed at most.\<close>

definition session_impl :: "'s client_env \<Rightarrow> 's mcp_impl \<Rightarrow> bool" where
  "session_impl ce impl \<longleftrightarrow> (\<forall>i tool params b r b'. mi_call impl i tool params b = Some (r, b') \<longrightarrow>
     (\<exists>x. r = Inr x) \<and> keeps_session ce (Some (mi_refresh impl)) (integration_id i) b b')"

lemma refreshed_None: "refreshed None t t' \<Longrightarrow> t' = t"
  by (induction rule: refreshed.induct) auto

lemma keeps_session_None: "keeps_session ce None pk b b' \<Longrightarrow> keeps_session ce rf pk b b'"
proof -
  assume k: "keeps_session ce None pk b b'"
  have "json_law ce None t" if "json_law ce rf t" for t
    using that refreshed_None refreshed.same[of rf t] unfolding json_law_def by blast
  then show ?thesis using k refreshed_None refreshed.same unfolding keeps_session_def by metis
qed

lemma session_client:
  assumes "co_refresh co = None \<or> co_refresh co = Some refresh" "list_all (\<lambda>(n, m). tool_tracks (pv_client pv) co m) tools"
  shows "session_impl (pv_client pv) (client_impl pv refresh co tools)"
  unfolding session_impl_def client_impl_def mcp_impl.select_convs
proof (intro allI impI conjI)
  fix i tool params b r b'
  assume call: "client_call (pv_client pv) co tools i tool params b = Some (r, b')"
  from client_call_answers[OF call] show "\<exists>x. r = Inr x" .
  from client_call_session[OF call assms(2)] assms(1)
  show "keeps_session (pv_client pv) (Some refresh) (integration_id i) b b'" by (auto intro: keeps_session_None)
qed

lemma session_total:
  assumes "\<And>i tool params b r b'. f i tool params b = (r, b') \<Longrightarrow> keeps_session ce (Some refresh) (integration_id i) b b'"
  shows "session_impl ce (total_impl refresh f)"
  using assms by (auto simp: session_impl_def total_impl_def split: prod.splits)

lemma key_connectors_refresh:
  "co_refresh smartemailing_connector = None" "co_refresh trello_connector = None" "co_refresh raynet_connector = None"
  "co_refresh caflou_connector = None" "co_refresh ecomail_connector = None" "co_refresh fapi_connector = None"
  "co_refresh mailchimp_connector = None"
  by (simp_all add: smartemailing_connector_def trello_connector_def raynet_connector_def caflou_connector_def
      ecomail_connector_def fapi_connector_def mailchimp_connector_def key_connector_def)

lemma oauth_connectors_refresh:
  "co_refresh (pipedrive_connector ce) = Some (pipedrive_refresh_tokens (ce_web ce))"
  "co_refresh (ms365_connector ce) = Some (ms365_refresh_tokens (ce_web ce))"
  "co_refresh (salesforce_connector ce) = Some (salesforce_refresh_tokens (ce_web ce))"
  "co_refresh (asana_connector ce) = Some (asana_refresh_tokens (ce_web ce))"
  "co_refresh (basecamp_connector ce) = Some (basecamp_refresh_tokens (ce_web ce))"
  "co_refresh (calendly_connector ce) = Some (calendly_refresh_tokens (ce_web ce))"
  "co_refresh (hubspot_connector ce) = Some (hubspot_refresh_tokens (ce_web ce))"
  "co_refresh (jira_connector ce) = Some (jira_refresh_tokens (ce_web ce))"
  by (simp_all add: pipedrive_connector_def ms365_connector_def salesforce_connector_def asana_connector_def
      basecamp_connector_def calendly_connector_def hubspot_connector_def jira_connector_def)

lemma default_integrations_session:
  assumes law: "fernet_law (ce_gw (pv_client pv))"
  shows "list_all (\<lambda>(n, impl). session_impl (pv_client pv) impl) (default_integrations pv)"
proof -
  have google: "session_impl ce (google_impl ge)" for ce and ge :: "'a google_env"
    by (auto simp: session_impl_def google_impl_def intro: keeps_session_refl split: prod.splits)
  have dwd: "session_impl (pv_client pv) (dwd_impl pv)"
    unfolding dwd_impl_def by (rule session_total) (auto intro: keeps_session_refl split: prod.splits)
  have slack: "session_impl ce (total_impl keep_tokens (slack_call ce api))" for ce and api :: "'a slack_web"
    by (rule session_total) (auto dest: slack_call_session intro: keeps_session_refl)
  have notion: "session_impl ce (total_impl keep_tokens (notion_call ce sdk))" for ce and sdk :: "'a mcp_sdk"
    by (rule session_total) (auto dest: notion_call_session intro: keeps_session_refl)
  have renewing: "session_impl (pv_client pv) (total_impl refresh (renewing_call (pv_client pv) sdk url refresh))" for refresh sdk url
    by (rule session_total) (rule renewing_call_session[OF _ law])
  note tools = smartemailing_tools_track[OF law] trello_tools_track[OF law] raynet_tools_track[OF law] caflou_tools_track[OF law]
    ecomail_tools_track[OF law] fapi_tools_track[OF law] mailchimp_tools_track[OF law] pipedrive_tools_track[OF law]
    ms365_tools_track[OF law] salesforce_tools_track[OF law] asana_tools_track[OF law] basecamp_tools_track[OF law]
    calendly_tools_track[OF law] hubspot_tools_track[OF law] jira_tools_track[OF law]
  show ?thesis
    unfolding default_integrations_def Let_def list.pred_inject(2) prod.case canva_call_def dropbox_call_def
    by (intro conjI list.pred_inject(1) google dwd slack notion renewing session_client tools
        disjI1[OF key_connectors_refresh(1)] disjI1[OF key_connectors_refresh(2)] disjI1[OF key_connectors_refresh(3)]
        disjI1[OF key_connectors_refresh(4)] disjI1[OF key_connectors_refresh(5)] disjI1[OF key_connectors_refresh(6)]
        disjI1[OF key_connectors_refresh(7)] disjI2 oauth_connectors_refresh)
qed

text \<open>
  C12. No integration loses a session. Whatever tool of whatever integration of the registry is called, the call never
  raises: if it ends, it ends with a result (a listing may page for ever, see \<open>zero_page_size_never_returns\<close>). It leaves the credentials of the other integrations alone, and its own tokens are
  afterwards read back as they were, or as its own \<open>refresh_tokens\<close>, merged over the old ones, made them.
\<close>

theorem integrations_keep_session:
  assumes "fernet_law (ce_gw (pv_client pv))" "gw_impls (default_gateway pv) p = Some impl"
    and "mi_call impl i tool params b = Some (r, b')"
  shows "(\<exists>x. r = Inr x) \<and> keeps_session (pv_client pv) (Some (mi_refresh impl)) (integration_id i) b b'"
proof -
  have "map_of (default_integrations pv) p = Some impl" using assms(2) by (simp add: default_gateway_def)
  then have "session_impl (pv_client pv) impl"
    using default_integrations_session[OF assms(1)] map_of_SomeD by (fastforce simp: list_all_iff)
  with assms(3) show ?thesis unfolding session_impl_def by blast
qed

section \<open>Through the gateway\<close>

lemma never_expires_no_refresh:
  "never_expires ts \<Longrightarrow> refresh_if_expiring g impl pk ts w = (Inr (), w)"
  by (simp add: never_expires_def refresh_if_expiring_def)

lemma default_gateway_tokens: "get_tokens (default_gateway pv) = get_tokens (ce_gw (pv_client pv))"
proof -
  have "gw_debug (default_gateway pv) = gw_debug (ce_gw (pv_client pv))" "gw_secret (default_gateway pv) = gw_secret (ce_gw (pv_client pv))"
    "gw_decrypt (default_gateway pv) = gw_decrypt (ce_gw (pv_client pv))" "gw_loads (default_gateway pv) = gw_loads (ce_gw (pv_client pv))"
    by (simp_all add: default_gateway_def)
  then show ?thesis by (intro ext) (simp only: get_tokens_def)
qed

lemma gateway_call_session:
  fixes pv :: "'s providers" and w :: "('s, 'c) gw_world"
  assumes law: "fernet_law (ce_gw (pv_client pv))"
    and call: "gateway_call cget cset (default_gateway pv) i tool params w = Some (r, w')"
    and cred: "lookup cr_integration (gw_credentials w) (integration_id i) = Some cred"
    and tokens: "get_tokens (ce_gw (pv_client pv)) (cr_tokens cred) = Inr t" "never_expires t"
    and impl: "map_of (default_integrations pv) (integration_provider i) = Some impl"
  shows "keeps_session (pv_client pv) (Some (mi_refresh impl)) (integration_id i)
    (gw_service w, gw_credentials w) (gw_service w', gw_credentials w')"
  using call
proof (cases rule: gateway_call_cases)
  case (stale impl' cred' tokens' e)
  from stale(3,4) cred tokens(1) have "tokens' = t" by (simp add: default_gateway_tokens)
  with stale(5) show ?thesis by (simp add: never_expires_no_refresh[OF tokens(2)])
next
  case (called impl' cred' tokens' w1 x)
  from called(3,4) cred tokens(1) have "tokens' = t" by (simp add: default_gateway_tokens)
  with called(5) have "w1 = w\<lparr>gw_cache := gw_cache w1\<rparr>" by (auto simp: never_expires_no_refresh[OF tokens(2)])
  then have w1: "gw_service w1 = gw_service w" "gw_credentials w1 = gw_credentials w"
    by (metis gw_world.select_convs(1) gw_world.surjective gw_world.update_convs(2), metis gw_world.select_convs(3) gw_world.surjective gw_world.update_convs(2))
  have impl': "impl' = impl" using called(1) impl by (simp add: default_gateway_def)
  obtain r1 s creds latency now where m: "mi_call impl' i tool (or_else params (JObj [])) (gw_service w1, gw_credentials w1) = Some (r1, s, creds)"
      "w' = w1\<lparr>gw_service := s, gw_credentials := creds,
         gw_calls := gw_calls w1 @ [audit_row (default_gateway pv) i tool (or_else params (JObj [])) (mr_ok x) (mr_error x) latency now]\<rparr>"
    by (rule audited_call_Some[OF called(6)])
  have "session_impl (pv_client pv) impl"
    using default_integrations_session[OF law] map_of_SomeD[OF impl] by (fastforce simp: list_all_iff)
  then show ?thesis using m unfolding w1 impl' session_impl_def by simp
qed (auto intro: keeps_session_refl)

lemma dict_of_no_key: "dict_of kvs = Inr (JObj v) \<Longrightarrow> k \<notin> fst ` set kvs \<Longrightarrow> map_of v k = None"
proof -
  assume d: "dict_of kvs = Inr (JObj v)" and k: "k \<notin> fst ` set kvs"
  from dict_of_keys[OF d] have "map fst v = map fst kvs" by auto
  then have "fst ` set v = fst ` set kvs" by (metis set_map)
  with k show ?thesis by (simp add: map_of_eq_None_iff)
qed

lemma refresh_drops:
  "jira_refresh_tokens web t s = (Inr (JObj v), s') \<Longrightarrow> map_of v ''cloud_id'' = None"
  "basecamp_refresh_tokens web t s = (Inr (JObj v), s') \<Longrightarrow> map_of v ''account_id'' = None"
  by (auto simp: jira_refresh_tokens_def basecamp_refresh_tokens_def chain_Inr_iff lift_result_def
      simp del: lift_result_iff intro: dict_of_no_key split: prod.splits)

text \<open>
  C19. Jira and Basecamp stay connected. After any call through the gateway the stored tokens still have the
  \<open>cloud_id\<close> or \<open>account_id\<close> without which the next client could not be opened, although no refresh answers with it.
\<close>

theorem connection_survives_call:
  assumes "fernet_law (ce_gw (pv_client pv))"
    and "gateway_call cget cset (default_gateway pv) i tool params w = Some (r, w')"
    and "(integration_provider i, k, rf) \<in> {(''jira'', ''cloud_id'', jira_refresh_tokens (ce_web (pv_client pv))),
        (''basecamp'', ''account_id'', basecamp_refresh_tokens (ce_web (pv_client pv)))}"
    and "lookup cr_integration (gw_credentials w) (integration_id i) = Some cred"
    and "get_tokens (ce_gw (pv_client pv)) (cr_tokens cred) = Inr (JObj kvs)" "never_expires (JObj kvs)"
    and "json_law (pv_client pv) (Some rf) (JObj kvs)"
  shows "\<exists>cred' kvs'. lookup cr_integration (gw_credentials w') (integration_id i) = Some cred'
    \<and> get_tokens (ce_gw (pv_client pv)) (cr_tokens cred') = Inr (JObj kvs') \<and> map_of kvs' k = map_of kvs k"
proof -
  obtain co tools where impl: "map_of (default_integrations pv) (integration_provider i) = Some (client_impl pv rf co tools)"
    using assms(3) by (auto simp: default_integrations_def Let_def)
  have "keeps_session (pv_client pv) (Some rf) (integration_id i) (gw_service w, gw_credentials w) (gw_service w', gw_credentials w')"
    using gateway_call_session[OF assms(1,2,4,5,6) impl] by (simp add: client_impl_def)
  then obtain cred' t' where c: "lookup cr_integration (gw_credentials w') (integration_id i) = Some cred'"
      "get_tokens (ce_gw (pv_client pv)) (cr_tokens cred') = Inr t'" "refreshed (Some rf) (JObj kvs) t'"
    using assms(4,5,7) unfolding keeps_session_def by fastforce
  have "\<exists>kvs'. t' = JObj kvs' \<and> map_of kvs' k = map_of kvs k"
    by (rule refreshed_field[OF c(3)]) (use assms(3) refresh_drops in fastforce)
  with c(1,2) show ?thesis by blast
qed

text \<open>
  C40. The gateway never refreshes a connector. Tokens that come from the authorization code of any of the
  OAuth connectors, however often they are refreshed and merged since, carry no \<open>expires_at\<close>, so the gateway's
  test for tokens that expire soon is never true of them.
\<close>

theorem gateway_never_refreshes:
  assumes "oauth_flow web p = Some fl" "of_exchange fl code uri verifier s = (Inr t, s')"
    and "refreshed (Some (of_refresh fl)) t t'"
  shows "\<not> needs_refresh now t'"
proof -
  have "never_expires t'" using assms(3)
  proof induction
    case same
    show ?case by (rule exchange_never_expires[OF assms(1,2)])
  next
    case (again t1 refresh s1 new s2 t2)
    have "never_expires new" using refresh_never_expires[OF assms(1) _ again.IH] again(2,3) by blast
    then show ?case using again.IH again(4)
      by (auto simp: merged_def never_expires_def dict_get_def map_of_dict_merge split: json.splits option.splits)
  qed
  then show ?thesis by (simp add: needs_refresh_def never_expires_def)
qed

section \<open>A registry at work\<close>

text \<open>
  Jira with stored tokens that have no expiry; its API answers every request with an empty object, and no POST
  gets through.
\<close>

definition jira_tokens :: "(string \<times> json) list" where
  "jira_tokens = [(''access_token'', JStr ''a''), (''refresh_token'', JStr ''r''), (''cloud_id'', JStr ''c'')]"

definition sample_jira_env :: "rat client_env" where
  "sample_jira_env =
     \<lparr>ce_gw = sample_gw\<lparr>gw_dumps := (\<lambda>v. ''old''), gw_loads := (\<lambda>x. Inr (JObj jira_tokens))\<rparr>,
      ce_web = \<lparr>wb_get = (\<lambda>url rq s. (Inr \<lparr>status_code = 200, body = JObj []\<rparr>, s)), wb_post = (\<lambda>url rq s. (Inl TypeError, s)),
        wb_setting = (\<lambda>n. Some ''x'')\<rparr>,
      ce_text = (\<lambda>e. ''error'')\<rparr>"

definition sample_providers :: "rat providers" where
  "sample_providers =
     \<lparr>pv_client = sample_jira_env, pv_sdk = refusing_sdk, pv_slack = (\<lambda>token method args s. (Inl TypeError, s)),
      pv_google = sample_google,
      pv_dwd = \<lparr>de_client = sample_jira_env, de_file = (\<lambda>s. None), de_inline = [], de_domain = [], de_admin = [], de_scopes = [],
        de_credentials = (\<lambda>info scopes. Inr ()), de_build = (\<lambda>svc scopes s. (Inr (), s)), de_request = (\<lambda>svc method args s. (Inr JNull, s)),
        de_today = (\<lambda>s. 0)\<rparr>,
      pv_module = (\<lambda>s. \<lparr>dm_info = JNull, dm_services = []\<rparr>), pv_set_module = (\<lambda>m s. s), pv_fuel = 10\<rparr>"

definition sample_jira :: integration where
  "sample_jira = \<lparr>integration_id = 7, integration_provider = ''jira'', is_active = True, last_sync_at = None, meta = JNull\<rparr>"

definition sample_jira_world :: "(rat, (string, nat) ttl_cache) gw_world" where
  "sample_jira_world = \<lparr>gw_service = 0, gw_cache = (\<lambda>k. None),
     gw_credentials = [\<lparr>cr_integration = 7, cr_tokens = ''old'', cr_updated_at = 0\<rparr>], gw_calls = []\<rparr>"

lemma sample_jira_simps:
  "pv_client sample_providers = sample_jira_env" "pv_fuel sample_providers = 10"
  "gw_wall (ce_gw sample_jira_env) s = s" "gw_mono (ce_gw sample_jira_env) s = s"
  "wb_get (ce_web sample_jira_env) url rq s = (Inr \<lparr>status_code = 200, body = JObj []\<rparr>, s)"
  "wb_post (ce_web sample_jira_env) url rq s = (Inl TypeError, s)"
  "gw_dumps (ce_gw sample_jira_env) v = ''old''" "gw_loads (ce_gw sample_jira_env) x = Inr (JObj jira_tokens)"
  "get_tokens (ce_gw sample_jira_env) x = Inr (JObj jira_tokens)"
  by (simp_all add: sample_providers_def sample_jira_env_def sample_gw_def get_tokens_def fernet_key_def min_key_length_def)

lemma sample_jira_law: "fernet_law (ce_gw sample_jira_env)"
  by (simp add: fernet_law_def sample_jira_env_def sample_gw_def)

lemma sample_jira_lookup: "lookup cr_integration (gw_credentials sample_jira_world) (integration_id sample_jira)
    = Some \<lparr>cr_integration = 7, cr_tokens = ''old'', cr_updated_at = 0\<rparr>"
  by (simp add: sample_jira_world_def sample_jira_def lookup_Cons)

lemma sample_jira_impl:
  "map_of (default_integrations sample_providers) ''jira'' = Some (client_impl sample_providers
     (jira_refresh_tokens (ce_web sample_jira_env)) (jira_connector sample_jira_env) (jira_tools sample_jira_env))"
  by (simp add: default_integrations_def Let_def sample_jira_simps)

lemma sample_jira_call:
  "client_call sample_jira_env (jira_connector sample_jira_env) (jira_tools sample_jira_env) sample_jira ''myself'' (JObj [])
     (0, [\<lparr>cr_integration = 7, cr_tokens = ''old'', cr_updated_at = 0\<rparr>])
   = Some (Inr \<lparr>mr_ok = True, mr_data = JObj [], mr_error = []\<rparr>, 0, [\<lparr>cr_integration = 7, cr_tokens = ''old'', cr_updated_at = 0\<rparr>])"
  by (simp add: client_call_def open_api_def lookup_Cons sample_jira_def sample_jira_simps jira_connector_def jira_tokens_def dict_get_def
      plain_session_def jira_tools_def no_args_def jira_myself_def endpoint_def api_get_def chain_def api_send_def Let_def
      bearer_accept_def bearer_of_tokens_def jget_or_def with_service_def raise_for_status_def lift_result_def dict_value_def get_default_def)

lemma integrations_keep_session_witness:
  "\<exists>r b'. client_call sample_jira_env (jira_connector sample_jira_env) (jira_tools sample_jira_env) sample_jira ''myself'' (JObj [])
     (0, [\<lparr>cr_integration = 7, cr_tokens = ''old'', cr_updated_at = 0\<rparr>]) = Some (r, b')
   \<and> r = Inr \<lparr>mr_ok = True, mr_data = JObj [], mr_error = []\<rparr>
   \<and> keeps_session sample_jira_env (Some (jira_refresh_tokens (ce_web sample_jira_env))) 7
       (0, [\<lparr>cr_integration = 7, cr_tokens = ''old'', cr_updated_at = 0\<rparr>]) b'"
proof -
  have "gw_impls (default_gateway sample_providers) ''jira'' = Some (client_impl sample_providers
     (jira_refresh_tokens (ce_web sample_jira_env)) (jira_connector sample_jira_env) (jira_tools sample_jira_env))"
    using sample_jira_impl by (simp add: default_gateway_def)
  note keeps = integrations_keep_session[OF _ this, of sample_jira "''myself''" "JObj []"]
  from keeps[OF _ , unfolded client_impl_def mcp_impl.select_convs sample_jira_simps, OF sample_jira_law sample_jira_call]
  show ?thesis using sample_jira_call by (simp add: sample_jira_def)
qed

lemma sample_jira_refreshed:
  assumes "refreshed (Some (jira_refresh_tokens (ce_web sample_jira_env))) t t'"
  shows "t' = t"
  using assms
proof induction
  case (again t1 refresh s new s' t2)
  from again(2) have "refresh = jira_refresh_tokens (ce_web sample_jira_env)" by simp
  with again(3) show ?case
    by (auto simp: jira_refresh_tokens_def chain_Inr_iff checked_def sample_jira_simps split: prod.splits)
qed simp

lemma connection_survives_call_witness:
  "\<exists>x w' cred' kvs'. gateway_call ttl_get ttl_set (default_gateway sample_providers) sample_jira ''myself'' JNull sample_jira_world = Some (Inr x, w')
     \<and> lookup cr_integration (gw_credentials w') 7 = Some cred'
     \<and> get_tokens (ce_gw sample_jira_env) (cr_tokens cred') = Inr (JObj kvs') \<and> map_of kvs' ''cloud_id'' = Some (JStr ''c'')"
proof -
  have law: "json_law sample_jira_env (Some (jira_refresh_tokens (ce_web sample_jira_env))) (JObj jira_tokens)"
    unfolding json_law_def using sample_jira_refreshed by (auto simp: sample_jira_simps)
  have never: "never_expires (JObj jira_tokens)" by (simp add: never_expires_def jira_tokens_def dict_get_def)
  have impl: "gw_impls (default_gateway sample_providers) ''jira'' = Some (client_impl sample_providers
     (jira_refresh_tokens (ce_web sample_jira_env)) (jira_connector sample_jira_env) (jira_tools sample_jira_env))"
    using sample_jira_impl by (simp add: default_gateway_def)
  have sel: "gw_wall (default_gateway sample_providers) s = s" "gw_mono (default_gateway sample_providers) s = s"
    "get_tokens (default_gateway sample_providers) y = Inr (JObj jira_tokens)" for s y
    using default_gateway_tokens[of sample_providers] by (simp_all add: sample_jira_simps) (simp_all add: default_gateway_def sample_jira_simps)
  obtain x w' where run: "gateway_call ttl_get ttl_set (default_gateway sample_providers) sample_jira ''myself'' JNull sample_jira_world
      = Some (Inr x, w')"
  proof -
    have "\<exists>x w'. gateway_call ttl_get ttl_set (default_gateway sample_providers) sample_jira ''myself'' JNull sample_jira_world = Some (Inr x, w')"
      using sample_jira_call
      by (simp add: gateway_call_def sel impl sample_jira_def sample_jira_world_def enforce_rate_limit_def window_count_def ttl_defs
          rate_limit_per_minute_def lookup_Cons never_expires_no_refresh[OF never] audited_call_def client_impl_def or_else_def
          sample_jira_simps Let_def)
    then show ?thesis using that by blast
  qed
  have "(integration_provider sample_jira, ''cloud_id'', jira_refresh_tokens (ce_web (pv_client sample_providers)))
      \<in> {(''jira'', ''cloud_id'', jira_refresh_tokens (ce_web (pv_client sample_providers))),
        (''basecamp'', ''account_id'', basecamp_refresh_tokens (ce_web (pv_client sample_providers)))}"
    by (simp add: sample_jira_def)
  from connection_survives_call[OF _ run this sample_jira_lookup _ never] law
  obtain cred' kvs' where "lookup cr_integration (gw_credentials w') 7 = Some cred'"
      "get_tokens (ce_gw sample_jira_env) (cr_tokens cred') = Inr (JObj kvs')" "map_of kvs' ''cloud_id'' = Some (JStr ''c'')"
    by (auto simp: sample_jira_simps sample_jira_law sample_jira_def jira_tokens_def)
  with run show ?thesis by blast
qed

lemma gateway_never_refreshes_witness:
  "\<exists>t s'. asana_exchange_code sample_web ''c'' ''u'' 0 = (Inr t, s') \<and> \<not> needs_refresh 0 t"
proof -
  have flow: "oauth_flow sample_web ''asana'' = Some (plain_flow (asana_authorization_url sample_web) (asana_exchange_code sample_web)
      (asana_refresh_tokens sample_web))"
    by (simp add: oauth_flow_def oauth_flows_def)
  obtain t where t: "asana_exchange_code sample_web ''c'' ''u'' 0 = (Inr t, 1)"
    by (simp add: asana_exchange_code_def chain_def lift_result_def sample_web_simps checked_def
        raise_for_status_def dict_of_def jget_or_def dict_get_def get_default_def)
  then have "of_exchange (plain_flow (asana_authorization_url sample_web) (asana_exchange_code sample_web)
      (asana_refresh_tokens sample_web)) ''c'' ''u'' [] 0 = (Inr t, 1)" by (simp add: plain_flow_def)
  from gateway_never_refreshes[OF flow this refreshed.same, of 0] t show ?thesis by blast
qed

end
