(* ===== verification/Access.thy ===== *)
theory Access
  imports Calls Tables
begin

text \<open>
  Who may do what: the membership middleware and the view decorators of \<open>core/middleware.py\<close>, the rows of
  \<open>core/models.py\<close> they read, and the invitations of \<open>core/views.py\<close>. A view reads a request and changes the session of
  the visitor and a world \<open>'w\<close> of tables and services; \<open>serve\<close> is what Django does around it. Parameters: the URL
  resolver's namespace of a path, and the session keys.
\<close>

section \<open>Requests and responses\<close>

datatype role = OWNER | ADMIN | MEMBER | VIEWER

record account =
  us_id :: nat
  us_email :: string

record tenant =
  te_id :: nat
  te_schema :: string

record membership =
  mb_user :: nat
  mb_tenant :: nat
  mb_role :: role
  mb_created_at :: rat

text \<open>
  A request: \<open>hr_user\<close> is \<open>None\<close> for an anonymous visitor, \<open>hr_schema\<close> the schema of the connection, and \<open>hr_membership\<close>
  what the middleware attaches.
\<close>

record request =
  hr_method :: string
  hr_path :: string
  hr_get :: "(string \<times> string) list"
  hr_post :: "(string \<times> string) list"
  hr_user :: "account option"
  hr_tenant :: "tenant option"
  hr_schema :: string
  hr_membership :: "membership option"

datatype response =
  Redirect string
| Page nat string "(string \<times> json) list"
| Status nat

type_synonym visit = "string \<rightharpoonup> string"

type_synonym 'w view = "request \<Rightarrow> (visit \<times> 'w, response) call"

text \<open>\<open>redirect(name)\<close>: the URL the configuration gives the name.\<close>

definition url_of :: "string \<Rightarrow> string" where
  "url_of name =
     (if name = ''dashboard'' then ''/dashboard/''
      else if name = ''no_membership'' then ''/no-membership/''
      else if name = ''list_integrations'' then ''/integrations/''
      else if name = ''workspace_dwd_dashboard'' then ''/integrations/google_workspace_dwd/dashboard/''
      else name)"

definition login_url :: string where
  "login_url = ''/accounts/login/''"

section \<open>The middleware and the decorators\<close>

definition public_view_namespaces :: "string list" where
  "public_view_namespaces = [''account'', ''admin'', ''socialaccount'']"

definition public_path_prefixes :: "string list" where
  "public_path_prefixes = [''/accounts/'', ''/admin/'', ''/static/'', ''/media/'', ''/invitations/'']"

definition is_public_path :: "(string \<Rightarrow> string option) \<Rightarrow> string \<Rightarrow> bool" where
  "is_public_path namespace_of path =
     (list_ex (\<lambda>p. starts_with p path) public_path_prefixes
      \<or> (case namespace_of path of None \<Rightarrow> False | Some ns \<Rightarrow> ns \<in> set public_view_namespaces))"

definition public_schema_name :: string where
  "public_schema_name = ''public''"

definition membership_of :: "membership list \<Rightarrow> nat \<Rightarrow> nat \<Rightarrow> membership option" where
  "membership_of rows user tenant = find (\<lambda>m. mb_user m = user \<and> mb_tenant m = tenant) rows"

definition membership_middleware ::
  "(string \<Rightarrow> string option) \<Rightarrow> ('w \<Rightarrow> membership list) \<Rightarrow> 'w view \<Rightarrow> 'w view" where
  "membership_middleware namespace_of rows get_response r w =
     (let r = r\<lparr>hr_membership := None\<rparr>
      in if hr_schema r = public_schema_name then get_response r w
         else if is_public_path namespace_of (hr_path r) then get_response r w
         else case (hr_user r, hr_tenant r) of
                (Some user, Some tenant) \<Rightarrow>
                  (case membership_of (rows (snd w)) (us_id user) (te_id tenant) of
                     None \<Rightarrow> (Inr (Redirect (url_of ''no_membership'')), w)
                   | Some m \<Rightarrow> get_response (r\<lparr>hr_membership := Some m\<rparr>) w)
              | _ \<Rightarrow> get_response r w)"

text \<open>Django's \<open>login_required\<close> (without the \<open>next\<close> parameter of its redirect) and \<open>require_POST\<close>.\<close>

definition login_required :: "'w view \<Rightarrow> 'w view" where
  "login_required view_func r = (if hr_user r = None then ret (Redirect login_url) else view_func r)"

definition require_POST :: "'w view \<Rightarrow> 'w view" where
  "require_POST view_func r = (if hr_method r = ''POST'' then view_func r else ret (Status 405))"

definition require_membership :: "'w view \<Rightarrow> 'w view" where
  "require_membership view_func r =
     (if hr_membership r = None then ret (Redirect (url_of ''no_membership'')) else view_func r)"

definition admin_roles :: "role list" where
  "admin_roles = [OWNER, ADMIN]"

definition require_admin :: "'w view \<Rightarrow> 'w view" where
  "require_admin view_func r =
     (case hr_membership r of
        None \<Rightarrow> ret (Status 403)
      | Some m \<Rightarrow> if mb_role m \<in> set admin_roles then view_func r else ret (Status 403))"

text \<open>The stacks of decorators the views have.\<close>

definition member_view :: "'w view \<Rightarrow> 'w view" where
  "member_view v = login_required (require_membership v)"

definition admin_view :: "'w view \<Rightarrow> 'w view" where
  "admin_view v = login_required (require_membership (require_admin v))"

section \<open>Serving\<close>

text \<open>
  Django saves the session after the response, but not after a view that raised (a 500); what the view
  wrote to the database before it raised stays, as \<open>ATOMIC_REQUESTS\<close> is off.
\<close>

record 'w site =
  si_visits :: "nat \<Rightarrow> visit"
  si_world :: 'w

definition serve :: "'w view \<Rightarrow> nat \<Rightarrow> request \<Rightarrow> 'w site \<Rightarrow> response \<times> 'w site" where
  "serve v key r site =
     (case v r (si_visits site key, si_world site) of
        (Inl _, _, w) \<Rightarrow> (Status 500, site\<lparr>si_world := w\<rparr>)
      | (Inr resp, visit, w) \<Rightarrow> (resp, \<lparr>si_visits = (si_visits site)(key := visit), si_world = w\<rparr>))"

section \<open>Invitations\<close>

record invitation =
  iv_tenant :: nat
  iv_email :: string
  iv_role :: role
  iv_token :: string
  iv_created_at :: rat
  iv_accepted_at :: "rat option"

record access_db =
  ad_memberships :: "membership list"
  ad_invitations :: "invitation list"
  ad_clock :: rat

definition is_accepted :: "invitation \<Rightarrow> bool" where
  "is_accepted iv = (iv_accepted_at iv \<noteq> None)"

text \<open>\<open>Invitation.accept\<close>; \<open>save\<close> writes the row with the invitation's token, which is unique.\<close>

definition accept_invite :: "invitation \<Rightarrow> account \<Rightarrow> access_db \<Rightarrow> access_db" where
  "accept_invite iv user db =
     db\<lparr>ad_memberships := fst (get_or_create (\<lambda>m. (mb_user m, mb_tenant m))
          (\<lambda>role (u, t). \<lparr>mb_user = u, mb_tenant = t, mb_role = role, mb_created_at = ad_clock db\<rparr>)
          (iv_role iv) (us_id user, iv_tenant iv) (ad_memberships db)),
        ad_invitations := map (\<lambda>i. if iv_token i = iv_token iv then i\<lparr>iv_accepted_at := Some (ad_clock db)\<rparr> else i)
          (ad_invitations db)\<rparr>"

definition open_invitation :: "string \<Rightarrow> access_db \<Rightarrow> invitation option" where
  "open_invitation token db = find (\<lambda>i. iv_token i = token \<and> \<not> is_accepted i) (ad_invitations db)"

definition accept_invitation :: "string \<Rightarrow> access_db view" where
  "accept_invitation token r = (\<lambda>(visit, db).
     case open_invitation token db of
       None \<Rightarrow> (Inr (Status 404), visit, db)
     | Some iv \<Rightarrow>
         (case hr_user r of
            None \<Rightarrow> (Inr (Redirect (''/accounts/signup/?email='' @ iv_email iv)),
                     visit(''pending_invitation_token'' \<mapsto> token), db)
          | Some user \<Rightarrow>
              if str_lower (us_email user) \<noteq> str_lower (iv_email iv)
              then (Inr (Page 403 ''core/invitation_mismatch.html'' []), visit, db)
              else (Inr (Redirect (url_of ''dashboard'')), visit, accept_invite iv user db)))"

definition dashboard :: "'w view" where
  "dashboard = member_view (\<lambda>r. ret (Page 200 ''core/dashboard.html'' []))"

definition no_membership :: "'w view" where
  "no_membership r = ret (Page 403 ''core/no_membership.html'' [])"

text \<open>The commands \<open>invite_user\<close> and \<open>onboard_pilot\<close> create an invitation; \<open>token\<close> is the random one.\<close>

definition create_invitation :: "nat \<Rightarrow> string \<Rightarrow> role \<Rightarrow> string \<Rightarrow> access_db \<Rightarrow> (py_error, invitation) result \<times> access_db" where
  "create_invitation tenant_id email role token db =
     (let iv = \<lparr>iv_tenant = tenant_id, iv_email = email, iv_role = role, iv_token = token,
                iv_created_at = ad_clock db, iv_accepted_at = None\<rparr>
      in if lookup iv_token (ad_invitations db) token = None
         then (Inr iv, db\<lparr>ad_invitations := ad_invitations db @ [iv]\<rparr>)
         else (Inl (DatabaseError ''duplicate token''), db))"

section \<open>What the guards guarantee\<close>

lemma membership_of_SomeD:
  "membership_of rows u t = Some m \<Longrightarrow> m \<in> set rows \<and> mb_user m = u \<and> mb_tenant m = t"
  unfolding membership_of_def by (induction rows) (auto split: if_splits)

lemma member_view_cases:
  assumes "member_view v r w = (x, w')"
  obtains "x = Inr (Redirect login_url)" "w' = w" | "x = Inr (Redirect (url_of ''no_membership''))" "w' = w"
  | u m where "hr_user r = Some u" "hr_membership r = Some m" "v r w = (x, w')"
  using assms by (auto simp: member_view_def login_required_def require_membership_def split: if_splits)

lemma admin_view_cases:
  assumes "admin_view v r w = (x, w')"
  obtains resp where "x = Inr resp" "w' = w" "resp \<in> {Redirect login_url, Redirect (url_of ''no_membership''), Status 403}"
  | u m where "hr_user r = Some u" "hr_membership r = Some m" "mb_role m \<in> set admin_roles" "v r w = (x, w')"
  using assms by (auto simp: admin_view_def login_required_def require_membership_def require_admin_def
      split: if_splits option.splits)

text \<open>Through the middleware a membership is one of the user's own, in the tenant of the request.\<close>

lemma middleware_cases:
  assumes "membership_middleware ns rows v r w = (x, w')"
  obtains "x = Inr (Redirect (url_of ''no_membership''))" "w' = w"
  | "v (r\<lparr>hr_membership := None\<rparr>) w = (x, w')"
  | u t m where "hr_user r = Some u" "hr_tenant r = Some t" "m \<in> set (rows (snd w))" "mb_user m = us_id u"
      "mb_tenant m = te_id t" "v (r\<lparr>hr_membership := Some m\<rparr>) w = (x, w')"
proof -
  note eq = assms[unfolded membership_middleware_def Let_def]
  consider "hr_schema r = public_schema_name \<or> is_public_path ns (hr_path r) \<or> hr_user r = None \<or> hr_tenant r = None"
    | u t where "hr_schema r \<noteq> public_schema_name" "\<not> is_public_path ns (hr_path r)" "hr_user r = Some u" "hr_tenant r = Some t"
    by (cases "hr_user r"; cases "hr_tenant r") auto
  then show thesis
  proof cases
    case 1
    then have "v (r\<lparr>hr_membership := None\<rparr>) w = (x, w')" using eq by (simp split: if_splits option.splits)
    then show thesis by (rule that(2))
  next
    case (2 u t)
    show thesis
    proof (cases "membership_of (rows (snd w)) (us_id u) (te_id t)")
      case None
      with 2 eq show thesis by (intro that(1)) simp_all
    next
      case (Some m)
      with 2 eq membership_of_SomeD[OF Some] show thesis by (intro that(3)[of u t m]) simp_all
    qed
  qed
qed

definition refusals :: "response list" where
  "refusals = [Redirect login_url, Redirect (url_of ''no_membership''), Status 403]"

text \<open>
  A view behind \<open>login_required\<close>, \<open>require_membership\<close> and \<open>require_admin\<close>, served through the middleware, is only
  run for a signed-in user with a membership in the tenant of the request whose role is owner or admin;
  otherwise the answer is a redirect or a 403, and nothing changes.
\<close>

theorem admin_views_guarded:
  assumes "membership_middleware ns rows (admin_view v) r w = (x, w')"
  shows "(\<exists>resp \<in> set refusals. x = Inr resp \<and> w' = w)
    \<or> (\<exists>u t m. hr_user r = Some u \<and> hr_tenant r = Some t \<and> m \<in> set (rows (snd w)) \<and> mb_user m = us_id u
        \<and> mb_tenant m = te_id t \<and> mb_role m \<in> {OWNER, ADMIN} \<and> v (r\<lparr>hr_membership := Some m\<rparr>) w = (x, w'))"
  using assms
proof (cases rule: middleware_cases)
  case 1
  then show ?thesis by (auto simp: refusals_def)
next
  case 2
  then show ?thesis by (cases rule: admin_view_cases) (auto simp: refusals_def)
next
  case (3 u t m)
  from 3(6) show ?thesis
    by (cases rule: admin_view_cases) (use 3(1-5) in \<open>auto simp: refusals_def admin_roles_def\<close>)
qed

text \<open>The case of a viewer, and of an admin, on a view that counts its runs.\<close>

definition sample_request :: request where
  "sample_request = \<lparr>hr_method = ''POST'', hr_path = ''/integrations/hubspot/connect/'', hr_get = [], hr_post = [],
     hr_user = Some \<lparr>us_id = 7, us_email = ''ann@acme.cz''\<rparr>, hr_tenant = Some \<lparr>te_id = 3, te_schema = ''acme''\<rparr>,
     hr_schema = ''acme'', hr_membership = None\<rparr>"

definition sample_member :: "role \<Rightarrow> membership" where
  "sample_member role = \<lparr>mb_user = 7, mb_tenant = 3, mb_role = role, mb_created_at = 0\<rparr>"

definition counting_view :: "nat view" where
  "counting_view r = (\<lambda>(visit, n). (Inr (Status 200), visit, Suc n))"

lemma admin_views_guarded_witness:
  "membership_middleware (\<lambda>_. None) (\<lambda>_. [sample_member VIEWER]) (admin_view counting_view) sample_request (Map.empty, 0)
     = (Inr (Status 403), Map.empty, 0)
   \<and> membership_middleware (\<lambda>_. None) (\<lambda>_. [sample_member ADMIN]) (admin_view counting_view) sample_request (Map.empty, 0)
     = (Inr (Status 200), Map.empty, 1)
   \<and> (\<exists>u. hr_user sample_request = Some u)"
proof -
  have run: "membership_middleware (\<lambda>_. None) (\<lambda>_. [sample_member ADMIN]) (admin_view counting_view) sample_request (Map.empty, 0)
     = (Inr (Status 200), Map.empty, 1)"
    by (simp add: membership_middleware_def admin_view_def login_required_def require_membership_def require_admin_def
        sample_request_def sample_member_def counting_view_def admin_roles_def is_public_path_def public_path_prefixes_def
        public_schema_name_def membership_of_def)
  have "\<exists>u. hr_user sample_request = Some u"
    using admin_views_guarded[OF run] by (auto simp: refusals_def)
  with run show ?thesis
    by (simp add: membership_middleware_def admin_view_def login_required_def require_membership_def require_admin_def
        sample_request_def sample_member_def counting_view_def admin_roles_def is_public_path_def public_path_prefixes_def
        public_schema_name_def membership_of_def)
qed

section \<open>Users without a membership\<close>

text \<open>
  A signed-in user who is no member of the tenant never sees the page that says so: its path is not public, so
  the request for it is redirected to that path again, whatever the view does.
\<close>

theorem no_membership_page_unreachable:
  assumes "hr_schema r \<noteq> public_schema_name" "hr_user r = Some u" "hr_tenant r = Some t"
    and "membership_of (rows (si_world site)) (us_id u) (te_id t) = None"
    and "\<And>x. namespace_of (url_of ''no_membership'') = Some x \<Longrightarrow> x = []"
  shows "serve (membership_middleware namespace_of rows v) key (r\<lparr>hr_path := url_of ''no_membership''\<rparr>) site
    = (Redirect (url_of ''no_membership''), site)"
proof -
  have "\<not> is_public_path namespace_of (url_of ''no_membership'')"
    using assms(5) by (auto simp: is_public_path_def url_of_def public_path_prefixes_def public_view_namespaces_def split: option.splits)
  then show ?thesis
    using assms(1-4) by (simp add: serve_def membership_middleware_def Let_def fun_upd_idem)
qed

lemma no_membership_page_unreachable_witness:
  "serve (membership_middleware (\<lambda>_. Some []) (\<lambda>_. []) no_membership) 0 (sample_request\<lparr>hr_path := ''/no-membership/''\<rparr>)
     \<lparr>si_visits = \<lambda>_. Map.empty, si_world = 0 :: nat\<rparr> = (Redirect ''/no-membership/'', \<lparr>si_visits = \<lambda>_. Map.empty, si_world = 0\<rparr>)"
  using no_membership_page_unreachable[of sample_request "\<lparr>us_id = 7, us_email = ''ann@acme.cz''\<rparr>" "\<lparr>te_id = 3, te_schema = ''acme''\<rparr>"
      "\<lambda>_. []" "\<lparr>si_visits = \<lambda>_. Map.empty, si_world = 0 :: nat\<rparr>" "\<lambda>_. Some []" no_membership 0]
  by (simp add: sample_request_def public_schema_name_def membership_of_def url_of_def)

section \<open>Memberships come from invitations\<close>

text \<open>
  A run of a site: invitations are created from the command line, visitors ask for any page, of which
  only \<open>accept_invitation\<close> touches these tables, and time passes. \<open>emails\<close> is the users' table, which does not change.
\<close>

inductive access_run :: "(string \<Rightarrow> string option) \<Rightarrow> (nat \<Rightarrow> string) \<Rightarrow> access_db site \<Rightarrow> access_db site \<Rightarrow> bool"
  for ns emails s0 where
  start: "access_run ns emails s0 s0"
| invited: "access_run ns emails s0 s \<Longrightarrow> access_run ns emails s0
     (s\<lparr>si_world := snd (create_invitation tenant_id email role token (si_world s))\<rparr>)"
| asked: "access_run ns emails s0 s \<Longrightarrow> (\<forall>u. hr_user r = Some u \<longrightarrow> us_email u = emails (us_id u)) \<Longrightarrow>
     access_run ns emails s0 (snd (serve (membership_middleware ns ad_memberships (accept_invitation token)) key r s))"
| elapsed: "access_run ns emails s0 s \<Longrightarrow> ad_clock (si_world s) \<le> t \<Longrightarrow>
     access_run ns emails s0 (s\<lparr>si_world := (si_world s)\<lparr>ad_clock := t\<rparr>\<rparr>)"

definition invited_for :: "(nat \<Rightarrow> string) \<Rightarrow> membership \<Rightarrow> invitation \<Rightarrow> bool" where
  "invited_for emails m iv \<longleftrightarrow>
     is_accepted iv \<and> iv_tenant iv = mb_tenant m \<and> iv_role iv = mb_role m
     \<and> str_lower (emails (mb_user m)) = str_lower (iv_email iv)"

definition access_ok :: "(nat \<Rightarrow> string) \<Rightarrow> access_db \<Rightarrow> bool" where
  "access_ok emails db \<longleftrightarrow>
     unique_keys (\<lambda>m. (mb_user m, mb_tenant m)) (ad_memberships db)
     \<and> unique_keys iv_token (ad_invitations db)
     \<and> length (ad_memberships db) \<le> length (filter is_accepted (ad_invitations db))
     \<and> (\<forall>m \<in> set (ad_memberships db). \<exists>iv \<in> set (ad_invitations db). invited_for emails m iv)"

lemma filter_accepted_upd:
  assumes "distinct (map iv_token ivs)" "iv \<in> set ivs" "\<not> is_accepted iv"
  shows "length (filter is_accepted (map (\<lambda>i. if iv_token i = iv_token iv then i\<lparr>iv_accepted_at := Some t\<rparr> else i) ivs))
    = Suc (length (filter is_accepted ivs))"
  using assms
proof (induction ivs)
  case (Cons i ivs)
  show ?case
  proof (cases "i = iv")
    case True
    with Cons.prems have "iv_token iv \<notin> set (map iv_token ivs)" by simp
    then have "map (\<lambda>i. if iv_token i = iv_token iv then i\<lparr>iv_accepted_at := Some t\<rparr> else i) ivs = ivs"
      by (induction ivs) auto
    with True Cons.prems(3) show ?thesis by (simp add: is_accepted_def)
  next
    case False
    with Cons.prems have "iv \<in> set ivs" "iv_token i \<noteq> iv_token iv" by (auto simp: rev_image_eqI)
    with Cons show ?thesis by simp
  qed
qed simp

lemma open_invitation_SomeD:
  "open_invitation token db = Some iv \<Longrightarrow> iv \<in> set (ad_invitations db) \<and> iv_token iv = token \<and> \<not> is_accepted iv"
  unfolding open_invitation_def by (auto simp: find_Some_iff)

lemma accept_invite_ok:
  assumes ok: "access_ok emails db" and iv: "open_invitation token db = Some iv"
    and mail: "str_lower (emails (us_id u)) = str_lower (iv_email iv)"
  shows "access_ok emails (accept_invite iv u db)"
proof -
  let ?key = "\<lambda>m. (mb_user m, mb_tenant m)" and ?now = "ad_clock db"
  let ?upd = "\<lambda>i. if iv_token i = iv_token iv then i\<lparr>iv_accepted_at := Some ?now\<rparr> else i"
  let ?new = "\<lparr>mb_user = us_id u, mb_tenant = iv_tenant iv, mb_role = iv_role iv, mb_created_at = ?now\<rparr>"
  note o = open_invitation_SomeD[OF iv] and inv = ok[unfolded access_ok_def unique_keys_def]
  let ?ms = "ad_memberships (accept_invite iv u db)" and ?is = "ad_invitations (accept_invite iv u db)"
  have is': "?is = map ?upd (ad_invitations db)" by (simp add: accept_invite_def)
  have tokens: "map iv_token ?is = map iv_token (ad_invitations db)" by (simp add: is')
  have count: "length (filter is_accepted ?is) = Suc (length (filter is_accepted (ad_invitations db)))"
    unfolding is' by (rule filter_accepted_upd) (use inv o in auto)
  have old: "\<exists>i \<in> set ?is. invited_for emails m i" if "m \<in> set (ad_memberships db)" for m
  proof -
    from inv that obtain i where i: "i \<in> set (ad_invitations db)" "invited_for emails m i" by blast
    then have "?upd i \<in> set ?is" "invited_for emails m (?upd i)" by (auto simp: is' invited_for_def is_accepted_def)
    then show ?thesis by blast
  qed
  have fresh: "\<exists>i \<in> set ?is. invited_for emails ?new i"
  proof
    show "?upd iv \<in> set ?is" using o by (auto simp: is')
    show "invited_for emails ?new (?upd iv)" using mail by (simp add: invited_for_def is_accepted_def)
  qed
  have ms: "?ms = (case lookup ?key (ad_memberships db) (us_id u, iv_tenant iv) of
      Some _ \<Rightarrow> ad_memberships db | None \<Rightarrow> ad_memberships db @ [?new])"
    by (simp add: accept_invite_def get_or_create_def split: option.splits)
  show ?thesis
  proof (cases "lookup ?key (ad_memberships db) (us_id u, iv_tenant iv)")
    case None
    then have "(us_id u, iv_tenant iv) \<notin> ?key ` set (ad_memberships db)" by (simp add: lookup_None_iff)
    with None ms inv old fresh count tokens show ?thesis unfolding access_ok_def unique_keys_def by auto
  next
    case Some
    with ms inv old count tokens show ?thesis unfolding access_ok_def unique_keys_def by auto
  qed
qed

lemma accept_invitation_ok:
  assumes "accept_invitation token r (visit, db) = (x, visit', db')" "access_ok emails db"
    and "\<And>u. hr_user r = Some u \<Longrightarrow> us_email u = emails (us_id u)"
  shows "access_ok emails db'"
  using assms accept_invite_ok[OF assms(2)]
  by (auto simp: accept_invitation_def split: option.splits if_splits)

lemma served_ok:
  assumes "access_ok emails (si_world s)" and "\<And>u. hr_user r = Some u \<Longrightarrow> us_email u = emails (us_id u)"
  shows "access_ok emails (si_world (snd (serve (membership_middleware ns ad_memberships (accept_invitation token)) key r s)))"
proof -
  obtain x visit db where run: "membership_middleware ns ad_memberships (accept_invitation token) r (si_visits s key, si_world s)
      = (x, visit, db)" by (metis prod_cases3)
  then have "access_ok emails db"
  proof (cases rule: middleware_cases)
    case 1
    then show ?thesis using assms(1) by simp
  next
    case 2
    show ?thesis by (rule accept_invitation_ok[OF 2 assms(1)]) (simp add: assms(2))
  next
    case (3 u t m)
    show ?thesis by (rule accept_invitation_ok[OF 3(6) assms(1)]) (simp add: assms(2))
  qed
  with run show ?thesis by (simp add: serve_def split: sum.splits)
qed

lemma create_invitation_ok:
  assumes "access_ok emails db"
  shows "access_ok emails (snd (create_invitation tenant_id email role token db))"
  using assms by (auto simp: create_invitation_def access_ok_def unique_keys_def Let_def lookup_None_iff is_accepted_def)

text \<open>
  C9. However invitations are sent and followed, by whomever and in any order, every membership was granted by an
  accepted invitation to that tenant, in its role, for the user's own e-mail address; a user has at most one membership in a
  tenant, and there are at most as many memberships as accepted invitations.
\<close>

theorem memberships_invited:
  assumes "access_run ns emails s0 s" "access_ok emails (si_world s0)"
  shows "access_ok emails (si_world s)"
  using assms
proof (induction rule: access_run.induct)
  case (invited s tenant_id email role token)
  then show ?case by (simp add: create_invitation_ok)
next
  case (asked s r token key)
  then show ?case by (intro served_ok) auto
next
  case (elapsed s t)
  then show ?case by (simp add: access_ok_def)
qed

definition empty_access :: "access_db site" where
  "empty_access = \<lparr>si_visits = \<lambda>_. Map.empty, si_world = \<lparr>ad_memberships = [], ad_invitations = [], ad_clock = 0\<rparr>\<rparr>"

lemma memberships_invited_witness:
  "\<exists>s. access_run (\<lambda>_. None) (\<lambda>_. ''ann@acme.cz'') empty_access s \<and> length (ad_memberships (si_world s)) = 1
     \<and> access_ok (\<lambda>_. ''ann@acme.cz'') (si_world s)"
proof -
  let ?s1 = "empty_access\<lparr>si_world := snd (create_invitation 3 ''Ann@Acme.cz'' OWNER ''tok'' (si_world empty_access))\<rparr>"
  let ?s2 = "snd (serve (membership_middleware (\<lambda>_. None) ad_memberships (accept_invitation ''tok'')) 0
      (sample_request\<lparr>hr_path := ''/invitations/tok/''\<rparr>) ?s1)"
  have run: "access_run (\<lambda>_. None) (\<lambda>_. ''ann@acme.cz'') empty_access ?s2"
    by (rule access_run.asked, rule access_run.invited, rule access_run.start) (simp add: sample_request_def)
  have "str_lower ''Ann@Acme.cz'' = ''ann@acme.cz''" "str_lower ''ann@acme.cz'' = ''ann@acme.cz''" by code_simp+
  then have "length (ad_memberships (si_world ?s2)) = 1"
    by (simp add: serve_def membership_middleware_def accept_invitation_def open_invitation_def create_invitation_def
        empty_access_def sample_request_def is_accepted_def accept_invite_def get_or_create_def is_public_path_def
        public_path_prefixes_def public_schema_name_def Let_def url_of_def)
  moreover have "access_ok (\<lambda>_. ''ann@acme.cz'') (si_world ?s2)"
    by (rule memberships_invited[OF run]) (simp add: access_ok_def unique_keys_def empty_access_def)
  ultimately show ?thesis using run by blast
qed

end
