(* ===== verification/ConnectViews.thy ===== *)
theory ConnectViews
  imports Access Integrations
begin

text \<open>
  How an integration is connected: the views \<open>connect\<close> and \<open>callback\<close> of the thirteen OAuth connectors
  (\<open>connectors/*/views.py\<close>) and of Google Workspace (\<open>data_access/views.py\<close>). \<open>connect\<close> leaves a random state in the session
  and sends the browser to the provider, \<open>callback\<close> checks it, exchanges the code and stores the tokens. The flows are
  those of \<open>OauthFlows\<close>, the guards those of \<open>Access\<close>. Parameters: the providers' services, \<open>secrets.token_urlsafe\<close>, SHA-256,
  the site's origin and the resolver's namespaces. Messages with Czech letters outside ISO 8859-1 are transliterated.
\<close>

section \<open>The world of a tenant\<close>

record connection = integration +
  connected_at :: "rat option"

record 's office =
  of_service :: 's
  of_connections :: "connection list"
  of_credentials :: "credential_row list"
  of_memberships :: "membership list"

record 's view_env =
  ve_providers :: "'s providers"
  ve_random :: "nat \<Rightarrow> 's \<Rightarrow> string \<times> 's"
  ve_sha256 :: "nat list \<Rightarrow> nat list"
  ve_origin :: "request \<Rightarrow> string"
  ve_namespace :: "string \<Rightarrow> string option"

type_synonym ('s, 'a) step = "(visit \<times> 's office, 'a) call"

definition ve_client :: "'s view_env \<Rightarrow> 's client_env" where
  "ve_client ve = pv_client (ve_providers ve)"

definition on_service :: "('s, 'a) call \<Rightarrow> ('s, 'a) step" where
  "on_service m = (\<lambda>(visit, w). case m (of_service w) of (r, s) \<Rightarrow> (r, visit, w\<lparr>of_service := s\<rparr>))"

definition draw :: "'s view_env \<Rightarrow> nat \<Rightarrow> ('s, string) step" where
  "draw ve n = on_service (\<lambda>s. case ve_random ve n s of (x, s) \<Rightarrow> (Inr x, s))"

definition put_visit :: "string \<Rightarrow> string \<Rightarrow> ('s, unit) step" where
  "put_visit k x = (\<lambda>(visit, w). (Inr (), visit(k \<mapsto> x), w))"

definition pop_visit :: "string \<Rightarrow> ('s, string option) step" where
  "pop_visit k = (\<lambda>(visit, w). (Inr (visit k), visit(k := None), w))"

definition clock :: "'s view_env \<Rightarrow> ('s, rat) step" where
  "clock ve = (\<lambda>(visit, w). (Inr (gw_wall (ce_gw (ve_client ve)) (of_service w)), visit, w))"

text \<open>\<open>Integration.objects.get_or_create(provider=p)\<close>.\<close>

definition connection_of :: "string \<Rightarrow> connection list \<Rightarrow> connection option" where
  "connection_of p rows = find (\<lambda>c. integration_provider c = p) rows"

definition get_connection :: "string \<Rightarrow> ('s, connection) step" where
  "get_connection p = (\<lambda>(visit, w).
     case connection_of p (of_connections w) of
       Some c \<Rightarrow> (Inr c, visit, w)
     | None \<Rightarrow>
         (let c = \<lparr>integration_id = fresh_id integration_id (of_connections w), integration_provider = p,
                   is_active = False, last_sync_at = None, meta = JObj [], connected_at = None\<rparr>
          in (Inr c, visit, w\<lparr>of_connections := of_connections w @ [c]\<rparr>)))"

text \<open>\<open>integration.save(update_fields=...)\<close>: the fields \<open>f\<close> sets, on the row with that id.\<close>

definition save_connection :: "nat \<Rightarrow> (connection \<Rightarrow> connection) \<Rightarrow> ('s, unit) step" where
  "save_connection pk f = (\<lambda>(visit, w).
     (Inr (), visit, w\<lparr>of_connections := map (\<lambda>c. if integration_id c = pk then f c else c) (of_connections w)\<rparr>))"

text \<open>
  \<open>Credential.objects.get_or_create\<close>, \<open>set_tokens\<close>, \<open>save\<close>: a new row starts with no tokens, and keeps none when
  \<open>set_tokens\<close> raises.
\<close>

definition with_credential :: "nat \<Rightarrow> rat \<Rightarrow> credential_row list \<Rightarrow> credential_row list" where
  "with_credential pk t rows =
     (if lookup cr_integration rows pk = None
      then rows @ [\<lparr>cr_integration = pk, cr_tokens = [], cr_updated_at = t\<rparr>] else rows)"

definition store_credential :: "'s view_env \<Rightarrow> nat \<Rightarrow> json \<Rightarrow> ('s, unit) step" where
  "store_credential ve pk toks = (\<lambda>(visit, w).
     let g = ce_gw (ve_client ve); s = of_service w; rows = with_credential pk (gw_wall g s) (of_credentials w)
     in case set_tokens g toks s of
          Inl e \<Rightarrow> (Inl e, visit, w\<lparr>of_credentials := rows\<rparr>)
        | Inr enc \<Rightarrow> (Inr (), visit, w\<lparr>of_credentials := save_tokens pk enc (gw_wall g s) rows\<rparr>))"

section \<open>\<open>connect\<close> and \<open>callback\<close>\<close>

text \<open>\<open>request.GET.get(k)\<close>: the last value of a key that occurs more than once.\<close>

definition query_get :: "request \<Rightarrow> string \<Rightarrow> string option" where
  "query_get r k = map_of (rev (hr_get r)) k"

definition given :: "string option \<Rightarrow> bool" where
  "given x = (x \<noteq> None \<and> x \<noteq> Some [])"

definition error_page :: "string \<Rightarrow> response" where
  "error_page msg = Page 400 ''integrations/connect.html'' [(''error'', JStr msg)]"

text \<open>
  What distinguishes the connectors: the session keys, the flow, a setting without which \<open>connect\<close> refuses, the MCP server
  whose tools \<open>callback\<close> lists, and what it writes into \<open>meta\<close>, if anything.
\<close>

record 's oauth_view =
  ov_provider :: string
  ov_state_key :: string
  ov_verifier_key :: "string option"
  ov_flow :: "'s oauth_flow"
  ov_needs :: "(string \<times> string) option"
  ov_mcp :: "string option"
  ov_meta :: "(json \<Rightarrow> json \<Rightarrow> (py_error, json) result) option"

definition view_path :: "string \<Rightarrow> string \<Rightarrow> string" where
  "view_path p action = ''/integrations/'' @ p @ ''/'' @ action @ ''/''"

definition redirect_uri_of :: "'s view_env \<Rightarrow> string \<Rightarrow> request \<Rightarrow> string" where
  "redirect_uri_of ve p r = ve_origin ve r @ view_path p ''callback''"

definition connect_pkce :: "'s view_env \<Rightarrow> 's oauth_view \<Rightarrow> ('s, (string \<times> string) option) step" where
  "connect_pkce ve ov =
     (case ov_verifier_key ov of
        None \<Rightarrow> ret None
      | Some k \<Rightarrow> chain (draw ve 64) (\<lambda>x. ret (Some (generate_pkce_pair (ve_sha256 ve) x))))"

definition put_verifier :: "'s oauth_view \<Rightarrow> (string \<times> string) option \<Rightarrow> ('s, unit) step" where
  "put_verifier ov pair =
     (case (ov_verifier_key ov, pair) of (Some k, Some (verifier, _)) \<Rightarrow> put_visit k verifier | _ \<Rightarrow> ret ())"

definition oauth_connect :: "'s view_env \<Rightarrow> 's oauth_view \<Rightarrow> 's office view" where
  "oauth_connect ve ov r =
     chain (draw ve 24) (\<lambda>state.
     chain (connect_pkce ve ov) (\<lambda>pair.
     chain (put_visit (ov_state_key ov) state) (\<lambda>_.
     chain (put_verifier ov pair) (\<lambda>_.
     case ov_needs ov of
       Some (name, msg) \<Rightarrow>
         if setting (ce_web (ve_client ve)) name = [] then ret (error_page msg)
         else (case of_authorize (ov_flow ov) state (redirect_uri_of ve (ov_provider ov) r) [] of
                 Inl e \<Rightarrow> lift_result (Inl e) | Inr url \<Rightarrow> ret (Redirect url))
     | None \<Rightarrow>
         (case of_authorize (ov_flow ov) state (redirect_uri_of ve (ov_provider ov) r)
                 (case pair of None \<Rightarrow> [] | Some (_, challenge) \<Rightarrow> challenge) of
            Inl (RuntimeError msg) \<Rightarrow> ret (error_page msg)
          | Inl e \<Rightarrow> lift_result (Inl e)
          | Inr url \<Rightarrow> ret (Redirect url))))))"

definition pop_verifier :: "'s oauth_view \<Rightarrow> ('s, string option) step" where
  "pop_verifier ov = (case ov_verifier_key ov of None \<Rightarrow> ret None | Some k \<Rightarrow> pop_visit k)"

definition bad_state :: "'s oauth_view \<Rightarrow> response" where
  "bad_state ov = error_page (if ov_verifier_key ov = None then ''Invalid OAuth state.''
     else ''Invalid OAuth state or missing PKCE verifier.'')"

text \<open>The tool catalog of an MCP server; an empty list when it cannot be had.\<close>

definition probe_tools :: "'s view_env \<Rightarrow> 's oauth_view \<Rightarrow> json \<Rightarrow> ('s, json) step" where
  "probe_tools ve ov toks =
     (case ov_mcp ov of
        None \<Rightarrow> ret (JList [])
      | Some url \<Rightarrow> catching (JList []) (chain (lift_result (jindex toks ''access_token''))
          (\<lambda>t. on_service (list_tools (pv_sdk (ve_providers ve)) url t))))"

definition new_meta :: "'s oauth_view \<Rightarrow> json \<Rightarrow> json \<Rightarrow> (py_error, json option) result" where
  "new_meta ov toks tools =
     (case ov_meta ov of None \<Rightarrow> Inr None | Some f \<Rightarrow> andthen (f toks tools) (\<lambda>m. Inr (Some m)))"

definition connected :: "rat \<Rightarrow> json option \<Rightarrow> connection \<Rightarrow> connection" where
  "connected t m c = c\<lparr>is_active := True, connected_at := Some t, meta := (case m of None \<Rightarrow> meta c | Some v \<Rightarrow> v)\<rparr>"

text \<open>What \<open>callback\<close> does with the tokens.\<close>

definition connect_with :: "'s view_env \<Rightarrow> 's oauth_view \<Rightarrow> json \<Rightarrow> ('s, response) step" where
  "connect_with ve ov toks =
     chain (get_connection (ov_provider ov)) (\<lambda>c.
     chain (clock ve) (\<lambda>now.
     chain (probe_tools ve ov toks) (\<lambda>tools.
     chain (lift_result (new_meta ov toks tools)) (\<lambda>m.
     chain (save_connection (integration_id c) (connected now m)) (\<lambda>_.
     chain (store_credential ve (integration_id c) toks) (\<lambda>_.
     ret (Redirect (url_of ''list_integrations''))))))))"

definition oauth_callback :: "'s view_env \<Rightarrow> 's oauth_view \<Rightarrow> 's office view" where
  "oauth_callback ve ov r =
     (if given (query_get r ''error'') then ret (error_page (the (query_get r ''error'')))
      else
        chain (pop_visit (ov_state_key ov)) (\<lambda>expected.
        chain (pop_verifier ov) (\<lambda>verifier.
        if query_get r ''state'' \<noteq> expected \<or> \<not> given expected \<or> (ov_verifier_key ov \<noteq> None \<and> \<not> given verifier)
        then ret (bad_state ov)
        else if \<not> given (query_get r ''code'') then ret (error_page ''Missing code.'')
        else
          chain (on_service (of_exchange (ov_flow ov) (the (query_get r ''code'')) (redirect_uri_of ve (ov_provider ov) r)
              (case verifier of None \<Rightarrow> [] | Some v \<Rightarrow> v))) (connect_with ve ov))))"

section \<open>The connectors\<close>

definition oauth_pair :: "'s view_env \<Rightarrow> ('s office view \<Rightarrow> 's office view) \<Rightarrow> 's oauth_view \<Rightarrow> (string \<times> 's office view) list" where
  "oauth_pair ve guard ov =
     [(view_path (ov_provider ov) ''connect'', guard (require_POST (oauth_connect ve ov))),
      (view_path (ov_provider ov) ''callback'', guard (oauth_callback ve ov))]"

definition ve_web :: "'s view_env \<Rightarrow> 's web" where
  "ve_web ve = ce_web (ve_client ve)"

definition hubspot_view :: "'s view_env \<Rightarrow> 's oauth_view" where
  "hubspot_view ve =
     \<lparr>ov_provider = ''hubspot'', ov_state_key = ''hs_oauth_state'', ov_verifier_key = None,
      ov_flow = plain_flow (hubspot_authorization_url (ve_web ve)) (hubspot_exchange_code (ve_web ve)) (hubspot_refresh_tokens (ve_web ve)),
      ov_needs = None, ov_mcp = None, ov_meta = None\<rparr>"

definition asana_view :: "'s view_env \<Rightarrow> 's oauth_view" where
  "asana_view ve =
     \<lparr>ov_provider = ''asana'', ov_state_key = ''asana_oauth_state'', ov_verifier_key = None,
      ov_flow = plain_flow (asana_authorization_url (ve_web ve)) (asana_exchange_code (ve_web ve)) (asana_refresh_tokens (ve_web ve)),
      ov_needs = None, ov_mcp = None, ov_meta = None\<rparr>"

text \<open>\<open>{name: toks.get(name), ...}\<close>\<close>

definition fields_of :: "string list \<Rightarrow> json \<Rightarrow> (string \<times> (py_error, json) result) list" where
  "fields_of names toks = map (\<lambda>n. (n, jget toks n)) names"

definition basecamp_view :: "'s view_env \<Rightarrow> 's oauth_view" where
  "basecamp_view ve =
     \<lparr>ov_provider = ''basecamp'', ov_state_key = ''basecamp_oauth_state'', ov_verifier_key = None,
      ov_flow = plain_flow (basecamp_authorization_url (ve_web ve)) (basecamp_exchange_code (ve_web ve)) (basecamp_refresh_tokens (ve_web ve)),
      ov_needs = None, ov_mcp = None,
      ov_meta = Some (\<lambda>toks tools. dict_of (fields_of [''account_id'', ''account_name''] toks))\<rparr>"

definition calendly_view :: "'s view_env \<Rightarrow> 's oauth_view" where
  "calendly_view ve =
     \<lparr>ov_provider = ''calendly'', ov_state_key = ''cal_oauth_state'', ov_verifier_key = None,
      ov_flow = plain_flow (calendly_authorization_url (ve_web ve)) (calendly_exchange_code (ve_web ve)) (calendly_refresh_tokens (ve_web ve)),
      ov_needs = None, ov_mcp = None,
      ov_meta = Some (\<lambda>toks tools. dict_of (fields_of [''owner'', ''organization''] toks))\<rparr>"

definition jira_view :: "'s view_env \<Rightarrow> 's oauth_view" where
  "jira_view ve =
     \<lparr>ov_provider = ''jira'', ov_state_key = ''jira_oauth_state'', ov_verifier_key = None,
      ov_flow = plain_flow (jira_authorization_url (ve_web ve)) (jira_exchange_code (ve_web ve)) (jira_refresh_tokens (ve_web ve)),
      ov_needs = None, ov_mcp = None,
      ov_meta = Some (\<lambda>toks tools. dict_of (fields_of [''cloud_id'', ''site_url'', ''site_name''] toks))\<rparr>"

definition mailchimp_view :: "'s view_env \<Rightarrow> 's oauth_view" where
  "mailchimp_view ve =
     \<lparr>ov_provider = ''mailchimp'', ov_state_key = ''mc_oauth_state'', ov_verifier_key = None,
      ov_flow = plain_flow (mailchimp_authorization_url (ve_web ve)) (mailchimp_exchange_code (ve_web ve)) keep_tokens,
      ov_needs = None, ov_mcp = None,
      ov_meta = Some (\<lambda>toks tools. dict_of (fields_of [''dc'', ''api_endpoint''] toks))\<rparr>"

definition ms365_view :: "'s view_env \<Rightarrow> 's oauth_view" where
  "ms365_view ve =
     \<lparr>ov_provider = ''microsoft365'', ov_state_key = ''ms365_oauth_state'', ov_verifier_key = None,
      ov_flow = plain_flow (ms365_authorization_url (ve_web ve)) (ms365_exchange_code (ve_web ve)) (ms365_refresh_tokens (ve_web ve)),
      ov_needs = None, ov_mcp = None,
      ov_meta = Some (\<lambda>toks tools. dict_of (fields_of [''scope''] toks))\<rparr>"

definition salesforce_view :: "'s view_env \<Rightarrow> 's oauth_view" where
  "salesforce_view ve =
     \<lparr>ov_provider = ''salesforce'', ov_state_key = ''sf_oauth_state'', ov_verifier_key = None,
      ov_flow = plain_flow (salesforce_authorization_url (ve_web ve)) (salesforce_exchange_code (ve_web ve)) (salesforce_refresh_tokens (ve_web ve)),
      ov_needs = None, ov_mcp = None,
      ov_meta = Some (\<lambda>toks tools. dict_of (fields_of [''instance_url'', ''scope''] toks))\<rparr>"

definition pipedrive_view :: "'s view_env \<Rightarrow> 's oauth_view" where
  "pipedrive_view ve =
     \<lparr>ov_provider = ''pipedrive'', ov_state_key = ''pipedrive_oauth_state'', ov_verifier_key = None,
      ov_flow = plain_flow (pipedrive_authorization_url (ve_web ve)) (pipedrive_exchange_code (ve_web ve)) (pipedrive_refresh_tokens (ve_web ve)),
      ov_needs = None, ov_mcp = None,
      ov_meta = Some (\<lambda>toks tools. dict_of (fields_of [''api_domain'', ''scope''] toks))\<rparr>"

definition slack_view :: "'s view_env \<Rightarrow> 's oauth_view" where
  "slack_view ve =
     \<lparr>ov_provider = ''slack'', ov_state_key = ''slack_oauth_state'', ov_verifier_key = None,
      ov_flow = plain_flow (slack_authorization_url (ve_web ve)) (slack_exchange_code (ve_web ve)) keep_tokens,
      ov_needs = Some (''SLACK_CLIENT_ID'', ''SLACK_CLIENT_ID neni nastavene v .env. Pouzij paste-token flow.''), ov_mcp = None,
      ov_meta = Some (\<lambda>toks tools. dict_of (fields_of [''team_id'', ''team_name'', ''scope''] toks))\<rparr>"

definition notion_view :: "'s view_env \<Rightarrow> 's oauth_view" where
  "notion_view ve =
     \<lparr>ov_provider = ''notion'', ov_state_key = ''notion_oauth_state'', ov_verifier_key = None,
      ov_flow = plain_flow (notion_authorization_url (ve_web ve)) (notion_exchange_code (ve_web ve)) keep_tokens,
      ov_needs = None, ov_mcp = Some notion_mcp_url,
      ov_meta = Some (\<lambda>toks tools. dict_of (fields_of [''workspace_id'', ''workspace_name''] toks @ [(''tools'', Inr tools)]))\<rparr>"

definition canva_view :: "'s view_env \<Rightarrow> 's oauth_view" where
  "canva_view ve =
     \<lparr>ov_provider = ''canva'', ov_state_key = ''canva_oauth_state'', ov_verifier_key = Some ''canva_pkce_verifier'',
      ov_flow = \<lparr>of_authorize = canva_authorization_url (ve_web ve), of_exchange = canva_exchange_code (ve_web ve),
        of_refresh = canva_refresh_tokens (ve_web ve)\<rparr>,
      ov_needs = None, ov_mcp = Some canva_mcp_url,
      ov_meta = Some (\<lambda>toks tools. dict_of (fields_of [''scope''] toks @ [(''tools'', Inr tools)]))\<rparr>"

definition dropbox_view :: "'s view_env \<Rightarrow> 's oauth_view" where
  "dropbox_view ve =
     \<lparr>ov_provider = ''dropbox'', ov_state_key = ''dropbox_oauth_state'', ov_verifier_key = Some ''dropbox_pkce_verifier'',
      ov_flow = \<lparr>of_authorize = dropbox_authorization_url (ve_web ve), of_exchange = dropbox_exchange_code (ve_web ve),
        of_refresh = dropbox_refresh_tokens (ve_web ve)\<rparr>,
      ov_needs = None, ov_mcp = Some dropbox_mcp_url,
      ov_meta = Some (\<lambda>toks tools. dict_of (fields_of [''scope'', ''account_id''] toks @ [(''tools'', Inr tools)]))\<rparr>"

definition google_view :: "'s view_env \<Rightarrow> 's oauth_view" where
  "google_view ve =
     (let ge = pv_google (ve_providers ve)
      in \<lparr>ov_provider = ''google_workspace'', ov_state_key = ''google_oauth_state'', ov_verifier_key = None,
          ov_flow = plain_flow (\<lambda>state uri. Inr (google_authorization_url ge state uri)) (google_exchange_code ge) (google_refresh_tokens ge),
          ov_needs = Some (''GOOGLE_OAUTH_CLIENT_ID'', ''GOOGLE_OAUTH_CLIENT_ID neni nastavene v .env''), ov_mcp = None, ov_meta = None\<rparr>)"

definition admin_connectors :: "'s view_env \<Rightarrow> 's oauth_view list" where
  "admin_connectors ve =
     [slack_view ve, pipedrive_view ve, canva_view ve, ms365_view ve, salesforce_view ve, asana_view ve, basecamp_view ve,
      mailchimp_view ve, calendly_view ve, hubspot_view ve, jira_view ve, notion_view ve, dropbox_view ve]"

definition oauth_views :: "'s view_env \<Rightarrow> 's oauth_view list" where
  "oauth_views ve = google_view ve # admin_connectors ve"

text \<open>The pages of each connector, with their guards.\<close>

definition slack_urls :: "'s view_env \<Rightarrow> (string \<times> 's office view) list" where
  "slack_urls ve = oauth_pair ve admin_view (slack_view ve)"

definition pipedrive_urls :: "'s view_env \<Rightarrow> (string \<times> 's office view) list" where
  "pipedrive_urls ve = oauth_pair ve admin_view (pipedrive_view ve)"

definition canva_urls :: "'s view_env \<Rightarrow> (string \<times> 's office view) list" where
  "canva_urls ve = oauth_pair ve admin_view (canva_view ve)"

definition ms365_urls :: "'s view_env \<Rightarrow> (string \<times> 's office view) list" where
  "ms365_urls ve = oauth_pair ve admin_view (ms365_view ve)"

definition salesforce_urls :: "'s view_env \<Rightarrow> (string \<times> 's office view) list" where
  "salesforce_urls ve = oauth_pair ve admin_view (salesforce_view ve)"

definition asana_urls :: "'s view_env \<Rightarrow> (string \<times> 's office view) list" where
  "asana_urls ve = oauth_pair ve admin_view (asana_view ve)"

definition basecamp_urls :: "'s view_env \<Rightarrow> (string \<times> 's office view) list" where
  "basecamp_urls ve = oauth_pair ve admin_view (basecamp_view ve)"

definition mailchimp_urls :: "'s view_env \<Rightarrow> (string \<times> 's office view) list" where
  "mailchimp_urls ve = oauth_pair ve admin_view (mailchimp_view ve)"

definition calendly_urls :: "'s view_env \<Rightarrow> (string \<times> 's office view) list" where
  "calendly_urls ve = oauth_pair ve admin_view (calendly_view ve)"

definition hubspot_urls :: "'s view_env \<Rightarrow> (string \<times> 's office view) list" where
  "hubspot_urls ve = oauth_pair ve admin_view (hubspot_view ve)"

definition jira_urls :: "'s view_env \<Rightarrow> (string \<times> 's office view) list" where
  "jira_urls ve = oauth_pair ve admin_view (jira_view ve)"

definition notion_urls :: "'s view_env \<Rightarrow> (string \<times> 's office view) list" where
  "notion_urls ve = oauth_pair ve admin_view (notion_view ve)"

definition dropbox_urls :: "'s view_env \<Rightarrow> (string \<times> 's office view) list" where
  "dropbox_urls ve = oauth_pair ve admin_view (dropbox_view ve)"

definition google_urls :: "'s view_env \<Rightarrow> (string \<times> 's office view) list" where
  "google_urls ve = oauth_pair ve member_view (google_view ve)"

lemmas pages_defs =
  slack_urls_def pipedrive_urls_def canva_urls_def ms365_urls_def salesforce_urls_def
  asana_urls_def basecamp_urls_def mailchimp_urls_def calendly_urls_def hubspot_urls_def
  jira_urls_def notion_urls_def dropbox_urls_def google_urls_def

definition oauth_routes :: "'s view_env \<Rightarrow> (string \<times> 's office view) list" where
  "oauth_routes ve =
     google_urls ve @ slack_urls ve @ pipedrive_urls ve @ canva_urls ve @ ms365_urls ve @ salesforce_urls ve @ asana_urls ve
     @ basecamp_urls ve @ mailchimp_urls ve @ calendly_urls ve @ hubspot_urls ve @ jira_urls ve @ notion_urls ve @ dropbox_urls ve"

definition dispatch :: "(string \<times> 'w view) list \<Rightarrow> 'w view" where
  "dispatch routes r = (case map_of routes (hr_path r) of None \<Rightarrow> ret (Status 404) | Some v \<Rightarrow> v r)"

definition tenant_site :: "'s view_env \<Rightarrow> (string \<times> 's office view) list \<Rightarrow> 's office view" where
  "tenant_site ve routes = membership_middleware (ve_namespace ve) of_memberships (dispatch routes)"

section \<open>What the steps touch\<close>

text \<open>\<open>R\<close> relates the world before and after, however the step ends.\<close>

definition obeys :: "('c \<Rightarrow> 'c \<Rightarrow> bool) \<Rightarrow> ('c, 'a) call \<Rightarrow> bool" where
  "obeys R m \<longleftrightarrow> (\<forall>c. R c (snd (m c)))"

definition order_like :: "('c \<Rightarrow> 'c \<Rightarrow> bool) \<Rightarrow> bool" where
  "order_like R \<longleftrightarrow> (\<forall>c. R c c) \<and> (\<forall>a b c. R a b \<longrightarrow> R b c \<longrightarrow> R a c)"

lemma obeysD: "obeys R m \<Longrightarrow> m c = (r, c') \<Longrightarrow> R c c'"
  by (auto simp: obeys_def dest: spec[of _ c])

lemma obeys_ret: "order_like R \<Longrightarrow> obeys R (ret x)"
  by (simp add: obeys_def order_like_def ret_def)

lemma obeys_lift: "order_like R \<Longrightarrow> obeys R (lift_result r)"
  by (simp add: obeys_def order_like_def lift_result_def)

lemma obeys_chain:
  assumes R: "order_like R" and m: "obeys R m" and f: "\<And>x. obeys R (f x)"
  shows "obeys R (chain m f)"
  unfolding obeys_def
proof
  fix c
  obtain r c1 where mc: "m c = (r, c1)" by (rule prod.exhaust)
  have R1: "R c c1" using obeysD[OF m mc] .
  show "R c (snd (chain m f c))"
  proof (cases r)
    case (Inl e)
    with mc R1 show ?thesis by (simp add: chain_def)
  next
    case (Inr x)
    have "R c1 (snd (f x c1))" using f[of x] by (simp add: obeys_def)
    with mc Inr R R1 show ?thesis by (auto simp: chain_def order_like_def)
  qed
qed

lemma obeys_catching: "obeys R m \<Longrightarrow> obeys R (catching x m)"
  unfolding obeys_def catching_def by (auto split: prod.split sum.split) (metis snd_conv)+

lemma obeys_if: "(b \<Longrightarrow> obeys R m) \<Longrightarrow> (\<not> b \<Longrightarrow> obeys R m') \<Longrightarrow> obeys R (if b then m else m')"
  by simp

lemmas obeys_rules = obeys_chain obeys_ret obeys_lift obeys_catching

text \<open>Only the session keys \<open>ks\<close> and the service change; when \<open>wide\<close>, connections and credentials may.\<close>

definition touches :: "string set \<Rightarrow> bool \<Rightarrow> visit \<times> 's office \<Rightarrow> visit \<times> 's office \<Rightarrow> bool" where
  "touches ks wide c c' \<longleftrightarrow>
     (\<forall>k. k \<notin> ks \<longrightarrow> fst c' k = fst c k) \<and> of_memberships (snd c') = of_memberships (snd c)
     \<and> (wide \<or> of_connections (snd c') = of_connections (snd c) \<and> of_credentials (snd c') = of_credentials (snd c))"

lemma touches_order: "order_like (touches ks wide)"
  by (auto simp: order_like_def touches_def)

lemma touches_service: "obeys (touches ks wide) (on_service m)"
  by (auto simp: obeys_def touches_def on_service_def split: prod.split)

lemma touches_draw: "obeys (touches ks wide) (draw ve n)"
  unfolding draw_def by (rule touches_service)

lemma touches_put: "k \<in> ks \<Longrightarrow> obeys (touches ks wide) (put_visit k x)"
  by (auto simp: obeys_def touches_def put_visit_def)

lemma touches_pop: "k \<in> ks \<Longrightarrow> obeys (touches ks wide) (pop_visit k)"
  by (auto simp: obeys_def touches_def pop_visit_def)

lemma touches_clock: "obeys (touches ks wide) (clock ve)"
  by (auto simp: obeys_def touches_def clock_def)

lemma touches_connection: "obeys (touches ks True) (get_connection p)"
  by (auto simp: obeys_def touches_def get_connection_def Let_def split: option.split)

lemma touches_save: "obeys (touches ks True) (save_connection pk f)"
  by (auto simp: obeys_def touches_def save_connection_def)

lemma touches_store: "obeys (touches ks True) (store_credential ve pk v)"
  by (auto simp: obeys_def touches_def store_credential_def Let_def split: sum.split)

lemma touches_probe: "obeys (touches ks wide) (probe_tools ve ov v)"
  unfolding probe_tools_def
  by (cases "ov_mcp ov") (auto intro!: obeys_rules touches_order touches_service)

lemmas touches_rules =
  touches_order touches_service touches_draw touches_put touches_pop touches_clock touches_connection touches_save
  touches_store touches_probe

definition view_keys :: "'s oauth_view \<Rightarrow> string set" where
  "view_keys ov = insert (ov_state_key ov) (set_option (ov_verifier_key ov))"

lemma connect_touches: "obeys (touches (view_keys ov) False) (oauth_connect ve ov r)"
proof -
  have last: "obeys (touches (view_keys ov) False) (case ov_needs ov of
       Some (name, msg) \<Rightarrow>
         if setting (ce_web (ve_client ve)) name = [] then ret (error_page msg)
         else (case of_authorize (ov_flow ov) state uri [] of Inl e \<Rightarrow> lift_result (Inl e) | Inr url \<Rightarrow> ret (Redirect url))
     | None \<Rightarrow>
         (case of_authorize (ov_flow ov) state uri c of
            Inl (RuntimeError msg) \<Rightarrow> ret (error_page msg)
          | Inl e \<Rightarrow> lift_result (Inl e)
          | Inr url \<Rightarrow> ret (Redirect url)))" for state uri c
    by (auto intro!: obeys_rules touches_order split: option.split sum.split py_error.split)
  have pkce: "obeys (touches (view_keys ov) False) (connect_pkce ve ov)"
    unfolding connect_pkce_def by (cases "ov_verifier_key ov") (auto intro!: obeys_rules touches_rules)
  have ver: "obeys (touches (view_keys ov) False) (put_verifier ov pair)" for pair
    unfolding put_verifier_def
    by (auto intro!: obeys_rules touches_rules simp: view_keys_def split: option.split)
  show ?thesis
    unfolding oauth_connect_def
    by (intro obeys_chain touches_rules pkce ver last) (simp add: view_keys_def)
qed

lemma connect_with_touches: "obeys (touches {} True) (connect_with ve ov v)"
  unfolding connect_with_def by (intro obeys_rules touches_rules)

section \<open>Which tokens are stored\<close>

definition held_tokens :: "credential_row list \<Rightarrow> nat \<Rightarrow> string" where
  "held_tokens rows pk = (case lookup cr_integration rows pk of None \<Rightarrow> [] | Some c \<Rightarrow> cr_tokens c)"

lemma stored_with_credential [simp]: "held_tokens (with_credential pk t rows) = held_tokens rows"
  by (rule ext) (simp add: held_tokens_def with_credential_def lookup_append lookup_Cons split: option.split)

lemma lookup_with_credential: "lookup cr_integration (with_credential pk t rows) pk \<noteq> None"
  by (auto simp: with_credential_def lookup_append lookup_Cons split: option.split)

lemma stored_save_tokens:
  "lookup cr_integration rows pk \<noteq> None \<Longrightarrow> held_tokens (save_tokens pk enc t rows) = (held_tokens rows)(pk := enc)"
  by (rule ext) (auto simp: held_tokens_def lookup_save_tokens split: option.split)

lemma store_credential_cases:
  assumes "store_credential ve pk v (visit, w) = (r, visit', w')"
  obtains e where "set_tokens (ce_gw (ve_client ve)) v (of_service w) = Inl e" "r = Inl e" "visit' = visit"
      "held_tokens (of_credentials w') = held_tokens (of_credentials w)" "of_connections w' = of_connections w"
  | enc where "set_tokens (ce_gw (ve_client ve)) v (of_service w) = Inr enc" "r = Inr ()" "visit' = visit"
      "held_tokens (of_credentials w') = (held_tokens (of_credentials w))(pk := enc)" "of_connections w' = of_connections w"
proof (cases "set_tokens (ce_gw (ve_client ve)) v (of_service w)")
  case (Inl e)
  show thesis by (rule that(1)[of e]) (use assms Inl in \<open>auto simp: store_credential_def Let_def\<close>)
next
  case (Inr enc)
  show thesis
    by (rule that(2)[of enc])
      (use assms Inr in \<open>auto simp: store_credential_def Let_def stored_save_tokens lookup_with_credential\<close>)
qed

text \<open>A step that keeps \<open>R\<close> when it raises; what it does when it returns is left open.\<close>

definition fails_quietly :: "('c \<Rightarrow> 'c \<Rightarrow> bool) \<Rightarrow> ('c, 'a) call \<Rightarrow> bool" where
  "fails_quietly R m \<longleftrightarrow> (\<forall>c e c'. m c = (Inl e, c') \<longrightarrow> R c c')"

lemma quiet_chain:
  assumes R: "order_like R" and m: "obeys R m" and f: "\<And>x. fails_quietly R (f x)"
  shows "fails_quietly R (chain m f)"
  unfolding fails_quietly_def
proof (intro allI impI)
  fix c e c'
  obtain r c1 where mc: "m c = (r, c1)" by (rule prod.exhaust)
  have R1: "R c c1" using obeysD[OF m mc] .
  assume ch: "chain m f c = (Inl e, c')"
  show "R c c'"
  proof (cases r)
    case (Inl e1)
    with ch mc R1 show ?thesis by (simp add: chain_def)
  next
    case (Inr x)
    with ch mc have "f x c1 = (Inl e, c')" by (simp add: chain_def)
    with f[of x] have "R c1 c'" unfolding fails_quietly_def by blast
    with R R1 show ?thesis unfolding order_like_def by blast
  qed
qed

lemma quiet_then_ret: "fails_quietly R m \<Longrightarrow> fails_quietly R (chain m (\<lambda>_. ret x))"
  by (auto simp: fails_quietly_def chain_def ret_def split: prod.splits sum.splits)

definition same_stored :: "visit \<times> 's office \<Rightarrow> visit \<times> 's office \<Rightarrow> bool" where
  "same_stored c c' \<longleftrightarrow> held_tokens (of_credentials (snd c')) = held_tokens (of_credentials (snd c))"

lemma same_stored_order: "order_like same_stored"
  by (simp add: order_like_def same_stored_def)

lemma same_stored_steps:
  "obeys same_stored (get_connection p)" "obeys same_stored (clock ve)" "obeys same_stored (on_service m)"
  "obeys same_stored (save_connection pk f)" "obeys same_stored (pop_visit k)"
  by (auto simp: obeys_def same_stored_def get_connection_def clock_def on_service_def save_connection_def pop_visit_def Let_def
      split: option.split prod.split)

lemma same_stored_probe: "obeys same_stored (probe_tools ve ov v)"
  unfolding probe_tools_def
  by (cases "ov_mcp ov") (auto intro!: obeys_rules same_stored_order same_stored_steps)

lemma quiet_store: "fails_quietly same_stored (store_credential ve pk v)"
  unfolding fails_quietly_def
proof (intro allI impI)
  fix c e c' assume "store_credential ve pk v c = (Inl e, c')"
  moreover obtain visit w visit' w' where "c = (visit, w)" "c' = (visit', w')" by (metis prod.exhaust)
  ultimately have s: "store_credential ve pk v (visit, w) = (Inl e, visit', w')" and eq: "c = (visit, w)" "c' = (visit', w')" by simp_all
  from s show "same_stored c c'" by (cases rule: store_credential_cases) (simp_all add: eq same_stored_def)
qed

lemma quiet_connect_with: "fails_quietly same_stored (connect_with ve ov v)"
  unfolding connect_with_def
  by (intro quiet_chain quiet_then_ret quiet_store same_stored_order same_stored_steps same_stored_probe obeys_lift)

lemma connect_with_answer: "connect_with ve ov v c = (Inr resp, c') \<Longrightarrow> resp = Redirect (url_of ''list_integrations'')"
  unfolding connect_with_def by (auto simp: chain_Inr_iff)

text \<open>
  A callback: it stops before the check, or at it, having popped the state, or it had the state in the session and passes
  the tokens of the exchange on.
\<close>

lemma callback_cases:
  assumes "oauth_callback ve ov r (visit, w) = (x, visit', w')" "ov_verifier_key ov \<noteq> Some (ov_state_key ov)"
  obtains msg where "x = Inr (error_page msg)" "visit' = visit" "w' = w"
  | msg where "x = Inr (error_page msg)" "visit' (ov_state_key ov) = None" "w' = w" "\<And>k. k \<notin> view_keys ov \<Longrightarrow> visit' k = visit k"
  | st s1 e where "visit (ov_state_key ov) = Some st" "x = Inl e" "w' = w\<lparr>of_service := s1\<rparr>"
      "\<And>k. k \<notin> view_keys ov \<Longrightarrow> visit' k = visit k"
  | st code verifier v s1 visit1 where "visit (ov_state_key ov) = Some st" "st \<noteq> []" "query_get r ''state'' = Some st"
      "query_get r ''code'' = Some code" "visit1 (ov_state_key ov) = None" "\<And>k. k \<notin> view_keys ov \<Longrightarrow> visit1 k = visit k"
      "of_exchange (ov_flow ov) code (redirect_uri_of ve (ov_provider ov) r) verifier (of_service w) = (Inr v, s1)"
      "connect_with ve ov v (visit1, w\<lparr>of_service := s1\<rparr>) = (x, visit', w')"
proof (cases "given (query_get r ''error'')")
  case True
  then show thesis using assms by (intro that(1)[of "the (query_get r ''error'')"]) (simp_all add: oauth_callback_def ret_def)
next
  case False
  define visit0 where "visit0 = visit(ov_state_key ov := None)"
  define visit1 where "visit1 = (case ov_verifier_key ov of None \<Rightarrow> visit0 | Some k \<Rightarrow> visit0(k := None))"
  define verifier where "verifier = (case ov_verifier_key ov of None \<Rightarrow> None | Some k \<Rightarrow> visit0 k)"
  have pops: "pop_visit (ov_state_key ov) (visit, w) = (Inr (visit (ov_state_key ov)), visit0, w)"
    "pop_verifier ov (visit0, w) = (Inr verifier, visit1, w)"
    by (auto simp: pop_visit_def pop_verifier_def visit0_def visit1_def verifier_def ret_def split: option.split)
  have v1: "visit1 (ov_state_key ov) = None" "\<And>k. k \<notin> view_keys ov \<Longrightarrow> visit1 k = visit k"
    by (auto simp: visit1_def visit0_def view_keys_def split: option.split)
  let ?bad = "query_get r ''state'' \<noteq> visit (ov_state_key ov) \<or> \<not> given (visit (ov_state_key ov)) \<or> (ov_verifier_key ov \<noteq> None \<and> \<not> given verifier)"
  note eq = assms(1)[unfolded oauth_callback_def if_not_P[OF False] chain_def pops prod.case sum.case]
  show thesis
  proof (cases "?bad \<or> \<not> given (query_get r ''code'')")
    case True
    define msg where "msg = (if ?bad then (if ov_verifier_key ov = None then ''Invalid OAuth state.''
      else ''Invalid OAuth state or missing PKCE verifier.'') else ''Missing code.'')"
    from True eq v1 show thesis by (intro that(2)[of msg]) (auto simp: ret_def msg_def bad_state_def split: if_splits)
  next
    case False
    then obtain st code where q: "visit (ov_state_key ov) = Some st" "st \<noteq> []" "query_get r ''state'' = Some st"
        "query_get r ''code'' = Some code"
      by (auto simp: given_def)
    let ?verifier = "case verifier of None \<Rightarrow> [] | Some v \<Rightarrow> v"
    obtain y s1 where ex: "of_exchange (ov_flow ov) code (redirect_uri_of ve (ov_provider ov) r) ?verifier (of_service w) = (y, s1)"
      by (rule prod.exhaust)
    from False eq q ex have eq2: "(case (y, visit1, w\<lparr>of_service := s1\<rparr>) of (Inl e, c') \<Rightarrow> (Inl e, c') | (Inr x, c') \<Rightarrow> connect_with ve ov x c')
        = (x, visit', w')"
      by (auto simp: on_service_def)
    show thesis
    proof (cases y)
      case (Inl e)
      with eq2 q v1 show thesis by (intro that(3)[of st e s1]) auto
    next
      case (Inr v)
      with eq2 q v1 ex show thesis by (intro that(4)[of st code visit1 ?verifier v s1]) auto
    qed
  qed
qed

section \<open>The table of connectors\<close>

text \<open>The session keys and paths of different connectors do not meet.\<close>

definition key_table :: "(string \<times> string \<times> string option) list" where
  "key_table =
     [(''google_workspace'', ''google_oauth_state'', None), (''slack'', ''slack_oauth_state'', None),
      (''pipedrive'', ''pipedrive_oauth_state'', None), (''canva'', ''canva_oauth_state'', Some ''canva_pkce_verifier''),
      (''microsoft365'', ''ms365_oauth_state'', None), (''salesforce'', ''sf_oauth_state'', None),
      (''asana'', ''asana_oauth_state'', None), (''basecamp'', ''basecamp_oauth_state'', None),
      (''mailchimp'', ''mc_oauth_state'', None), (''calendly'', ''cal_oauth_state'', None),
      (''hubspot'', ''hs_oauth_state'', None), (''jira'', ''jira_oauth_state'', None), (''notion'', ''notion_oauth_state'', None),
      (''dropbox'', ''dropbox_oauth_state'', Some ''dropbox_pkce_verifier'')]"

lemmas view_defs =
  hubspot_view_def asana_view_def basecamp_view_def calendly_view_def jira_view_def mailchimp_view_def ms365_view_def
  salesforce_view_def pipedrive_view_def slack_view_def notion_view_def canva_view_def dropbox_view_def google_view_def

lemma key_table: "map (\<lambda>ov. (ov_provider ov, ov_state_key ov, ov_verifier_key ov)) (oauth_views ve) = key_table"
  by (simp add: oauth_views_def admin_connectors_def view_defs key_table_def Let_def)

definition apart :: "string \<times> string \<times> string option \<Rightarrow> string \<times> string \<times> string option \<Rightarrow> bool" where
  "apart a b \<longleftrightarrow> (case (a, b) of ((p, k, v), (p', k', v')) \<Rightarrow> p \<noteq> p' \<and> k \<noteq> k' \<and> v' \<noteq> Some k \<and> v \<noteq> Some k')"

lemma key_table_apart:
  "sorted_wrt apart key_table" "list_all (\<lambda>(p, k, v). CHR ''/'' \<notin> set p \<and> v \<noteq> Some k) key_table"
  by (simp_all add: key_table_def apart_def)

lemma sorted_wrt_nthD: "sorted_wrt R xs \<Longrightarrow> x \<in> set xs \<Longrightarrow> y \<in> set xs \<Longrightarrow> x = y \<or> R x y \<or> R y x"
  by (induction xs) auto

lemma oauth_view_apart:
  assumes "ov \<in> set (oauth_views ve)" "ov' \<in> set (oauth_views ve)" "ov_provider ov' \<noteq> ov_provider ov"
  shows "ov_state_key ov' \<notin> view_keys ov"
proof -
  let ?t = "\<lambda>ov. (ov_provider ov, ov_state_key ov, ov_verifier_key ov)"
  have "?t ov \<in> set key_table" "?t ov' \<in> set key_table" unfolding key_table[of ve, symmetric] using assms(1,2) by auto
  then have "?t ov = ?t ov' \<or> apart (?t ov) (?t ov') \<or> apart (?t ov') (?t ov)"
    by (rule sorted_wrt_nthD[OF key_table_apart(1)])
  with assms(3) show ?thesis by (auto simp: apart_def view_keys_def)
qed

lemma oauth_view_slashless:
  assumes "ov \<in> set (oauth_views ve)"
  shows "CHR ''/'' \<notin> set (ov_provider ov)" "ov_verifier_key ov \<noteq> Some (ov_state_key ov)"
proof -
  have "(ov_provider ov, ov_state_key ov, ov_verifier_key ov) \<in> set key_table"
    unfolding key_table[of ve, symmetric] using assms by auto
  with key_table_apart(2) show "CHR ''/'' \<notin> set (ov_provider ov)" "ov_verifier_key ov \<noteq> Some (ov_state_key ov)"
    by (auto simp: list_all_iff)
qed

lemma view_path_inj:
  assumes "CHR ''/'' \<notin> set p" "CHR ''/'' \<notin> set p'" "view_path p a = view_path p' a'"
  shows "p = p' \<and> a = a'"
proof -
  have take: "takeWhile (\<lambda>c. c \<noteq> CHR ''/'') (q @ ''/'' @ x) = q" if "CHR ''/'' \<notin> set q" for q x
    using that by (induction q) auto
  have eq: "p @ ''/'' @ a @ ''/'' = p' @ ''/'' @ a' @ ''/''" using assms(3) by (simp add: view_path_def)
  then have "p = p'" using take[OF assms(1)] take[OF assms(2)] by metis
  with eq show ?thesis by simp
qed

lemma oauth_routes_set:
  "(path, v) \<in> set (oauth_routes ve) \<longleftrightarrow>
     (\<exists>ov \<in> set (oauth_views ve). (path, v) \<in> set (oauth_pair ve (if ov_provider ov = ''google_workspace'' then member_view else admin_view) ov))"
  by (simp add: oauth_routes_def pages_defs oauth_views_def admin_connectors_def view_defs Let_def)

text \<open>What a request for one of these paths can be.\<close>

lemma guard_cases:
  assumes "(if b then member_view else admin_view) v r (visit, w) = (x, visit', w')"
  obtains "visit' = visit" "w' = w" | "v r (visit, w) = (x, visit', w')"
  using assms by (cases b) (auto elim: member_view_cases admin_view_cases)

lemma tenant_site_cases:
  assumes "tenant_site ve (oauth_routes ve) r (visit, w) = (x, visit', w')"
  obtains "visit' = visit" "w' = w"
  | ov r' where "ov \<in> set (oauth_views ve)" "hr_path r = view_path (ov_provider ov) ''connect''" "hr_get r' = hr_get r"
      "oauth_connect ve ov r' (visit, w) = (x, visit', w')"
  | ov r' where "ov \<in> set (oauth_views ve)" "hr_path r = view_path (ov_provider ov) ''callback''" "hr_get r' = hr_get r"
      "oauth_callback ve ov r' (visit, w) = (x, visit', w')"
proof -
  note way = that
  have run: thesis if d: "dispatch (oauth_routes ve) r' (visit, w) = (x, visit', w')" and r': "hr_get r' = hr_get r" "hr_path r' = hr_path r" for r'
  proof (cases "map_of (oauth_routes ve) (hr_path r)")
    case None
    with d r' show thesis by (intro way(1)) (simp_all add: dispatch_def ret_def)
  next
    case (Some v)
    from map_of_SomeD[OF this, unfolded oauth_routes_set] obtain ov where ov: "ov \<in> set (oauth_views ve)"
        "(hr_path r, v) \<in> set (oauth_pair ve (if ov_provider ov = ''google_workspace'' then member_view else admin_view) ov)" by blast
    have vr: "v r' (visit, w) = (x, visit', w')" using d Some r' by (simp add: dispatch_def)
    from ov(2) consider
        "hr_path r = view_path (ov_provider ov) ''connect''"
        "v = (if ov_provider ov = ''google_workspace'' then member_view else admin_view) (require_POST (oauth_connect ve ov))"
      | "hr_path r = view_path (ov_provider ov) ''callback''"
        "v = (if ov_provider ov = ''google_workspace'' then member_view else admin_view) (oauth_callback ve ov)"
      unfolding oauth_pair_def by fastforce
    then show thesis
    proof cases
      case 1
      from vr[unfolded 1(2)] show thesis
      proof (cases rule: guard_cases)
        case 1
        then show thesis by (rule way(1))
      next
        case 2
        then show thesis
          using way(1) way(2)[OF ov(1) 1(1) r'(1)] by (auto simp: require_POST_def split: if_splits)
      qed
    next
      case 2
      from vr[unfolded 2(2)] show thesis
        by (cases rule: guard_cases) (use way(1) way(3)[OF ov(1) 2(1) r'(1)] in blast)+
    qed
  qed
  from assms[unfolded tenant_site_def] show thesis
    by (cases rule: middleware_cases) (use way(1) run in \<open>auto\<close>)
qed

section \<open>Tokens follow a connect of the same session\<close>

text \<open>
  A trail of requests: the session, the path, the \<open>state\<close> in the query, the session's data before and after, and whether
  the request changed stored tokens.
\<close>

record visit_event =
  ev_key :: nat
  ev_path :: string
  ev_state :: "string option"
  ev_after :: visit
  ev_stored :: bool

definition event_of :: "nat \<Rightarrow> request \<Rightarrow> 's office site \<Rightarrow> 's office site \<Rightarrow> visit_event" where
  "event_of key r site site' =
     \<lparr>ev_key = key, ev_path = hr_path r, ev_state = query_get r ''state'', ev_after = si_visits site' key,
      ev_stored = (held_tokens (of_credentials (si_world site')) \<noteq> held_tokens (of_credentials (si_world site)))\<rparr>"

text \<open>
  A run: visitors ask for any of the pages, in any order, and between two requests anything may happen to the
  tables and the services.
\<close>

inductive site_run ::
  "'s view_env \<Rightarrow> (string \<times> 's office view) list \<Rightarrow> 's office site \<Rightarrow> visit_event list \<Rightarrow> 's office site \<Rightarrow> bool"
  for ve routes s0 where
  start: "site_run ve routes s0 [] s0"
| asked: "site_run ve routes s0 trail s \<Longrightarrow> serve (tenant_site ve routes) key r s = (resp, s') \<Longrightarrow>
     site_run ve routes s0 (trail @ [event_of key r s s']) s'"
| elsewhere: "site_run ve routes s0 trail s \<Longrightarrow> site_run ve routes s0 trail (s\<lparr>si_world := w\<rparr>)"

text \<open>
  The state a session waits for: the one its last \<open>connect\<close> left, until a callback of that provider has stored tokens.
\<close>

definition awaited_step :: "'s oauth_view \<Rightarrow> nat \<Rightarrow> string option \<Rightarrow> visit_event \<Rightarrow> string option" where
  "awaited_step ov key st e =
     (if ev_key e \<noteq> key then st
      else if ev_path e = view_path (ov_provider ov) ''connect'' then ev_after e (ov_state_key ov)
      else if ev_path e = view_path (ov_provider ov) ''callback'' \<and> ev_stored e then None
      else st)"

definition awaited :: "'s oauth_view \<Rightarrow> nat \<Rightarrow> visit_event list \<Rightarrow> string option" where
  "awaited ov key trail = foldl (awaited_step ov key) None trail"

definition answers_connect :: "'s view_env \<Rightarrow> visit_event list \<Rightarrow> visit_event \<Rightarrow> bool" where
  "answers_connect ve trail e \<longleftrightarrow>
     (\<exists>ov \<in> set (oauth_views ve). \<exists>st. ev_path e = view_path (ov_provider ov) ''callback'' \<and> st \<noteq> []
        \<and> ev_state e = Some st \<and> awaited ov (ev_key e) trail = Some st)"

text \<open>What the session holds after a request: nothing is saved after a view that raised.\<close>

definition saved :: "(py_error, response) result \<Rightarrow> visit \<Rightarrow> visit \<Rightarrow> visit" where
  "saved x before after = (case x of Inl _ \<Rightarrow> before | Inr _ \<Rightarrow> after)"

lemma serve_eq:
  "serve v key r s = (case v r (si_visits s key, si_world s) of (x, visit, w) \<Rightarrow>
     (case x of Inl _ \<Rightarrow> Status 500 | Inr resp \<Rightarrow> resp,
      \<lparr>si_visits = (si_visits s)(key := saved x (si_visits s key) visit), si_world = w\<rparr>))"
  by (auto simp: serve_def saved_def split: prod.split sum.split)

lemma saved_cases: "saved x before after = before \<or> saved x before after = after"
  by (cases x) (simp_all add: saved_def)

lemma callback_effect:
  assumes run: "oauth_callback ve ov r (visit, w) = (x, visit', w')" and keys: "ov_verifier_key ov \<noteq> Some (ov_state_key ov)"
  shows "\<And>k. k \<notin> view_keys ov \<Longrightarrow> saved x visit visit' k = visit k"
    and "saved x visit visit' (ov_state_key ov) \<in> {visit (ov_state_key ov), None}"
    and "held_tokens (of_credentials w') \<noteq> held_tokens (of_credentials w) \<Longrightarrow>
      \<exists>st. visit (ov_state_key ov) = Some st \<and> st \<noteq> [] \<and> query_get r ''state'' = Some st \<and> saved x visit visit' (ov_state_key ov) = None"
proof -
  have "(\<forall>k. k \<notin> view_keys ov \<longrightarrow> saved x visit visit' k = visit k)
    \<and> saved x visit visit' (ov_state_key ov) \<in> {visit (ov_state_key ov), None}
    \<and> (held_tokens (of_credentials w') \<noteq> held_tokens (of_credentials w) \<longrightarrow>
      (\<exists>st. visit (ov_state_key ov) = Some st \<and> st \<noteq> [] \<and> query_get r ''state'' = Some st \<and> saved x visit visit' (ov_state_key ov) = None))"
    using run keys
  proof (cases rule: callback_cases)
    case 1
    then show ?thesis by (auto simp: saved_def split: sum.split)
  next
    case 2
    then show ?thesis by (auto simp: saved_def split: sum.split)
  next
    case (3 st s1 e)
    then show ?thesis by (simp add: saved_def)
  next
    case (4 st code verifier v s1 visit1)
    let ?c = "(visit1, w\<lparr>of_service := s1\<rparr>)"
    have t: "touches {} True ?c (visit', w')" using obeysD[OF connect_with_touches 4(8)] .
    have visit': "visit' = visit1" using t by (intro ext) (simp add: touches_def)
    have quiet: "held_tokens (of_credentials w') = held_tokens (of_credentials w)" if "x = Inl e" for e
      using quiet_connect_with[of ve ov v] 4(8) that by (force simp: fails_quietly_def same_stored_def)
    show ?thesis
    proof (cases x)
      case (Inl e)
      with quiet[OF this] show ?thesis by (simp add: saved_def)
    next
      case (Inr resp)
      with 4(1,2,3,5,6) visit' show ?thesis by (simp add: saved_def)
    qed
  qed
  then show "\<And>k. k \<notin> view_keys ov \<Longrightarrow> saved x visit visit' k = visit k"
    and "saved x visit visit' (ov_state_key ov) \<in> {visit (ov_state_key ov), None}"
    and "held_tokens (of_credentials w') \<noteq> held_tokens (of_credentials w) \<Longrightarrow>
      \<exists>st. visit (ov_state_key ov) = Some st \<and> st \<noteq> [] \<and> query_get r ''state'' = Some st \<and> saved x visit visit' (ov_state_key ov) = None"
    by blast+
qed

lemma connect_effect:
  assumes "oauth_connect ve ov r (visit, w) = (x, visit', w')"
  shows "k \<notin> view_keys ov \<Longrightarrow> saved x visit visit' k = visit k" and "of_credentials w' = of_credentials w"
  using obeysD[OF connect_touches assms] by (auto simp: touches_def saved_def split: sum.split)

lemma oauth_view_key:
  assumes "ov \<in> set (oauth_views ve)" "ov' \<in> set (oauth_views ve)" "ov_provider ov' = ov_provider ov"
  shows "ov_state_key ov' = ov_state_key ov"
proof -
  let ?t = "\<lambda>ov. (ov_provider ov, ov_state_key ov, ov_verifier_key ov)"
  have "?t ov \<in> set key_table" "?t ov' \<in> set key_table" unfolding key_table[of ve, symmetric] using assms(1,2) by auto
  then have "?t ov = ?t ov' \<or> apart (?t ov) (?t ov') \<or> apart (?t ov') (?t ov)"
    by (rule sorted_wrt_nthD[OF key_table_apart(1)])
  with assms(3) show ?thesis by (auto simp: apart_def)
qed

text \<open>One request: a state in the session is an old one or was left by \<open>connect\<close>; tokens are stored by an answer to it.\<close>

lemma request_effect:
  assumes run: "tenant_site ve (oauth_routes ve) r (visit, w) = (x, visit', w')"
  shows "ov \<in> set (oauth_views ve) \<Longrightarrow> saved x visit visit' (ov_state_key ov) = Some st \<Longrightarrow>
      hr_path r \<noteq> view_path (ov_provider ov) ''connect'' \<Longrightarrow>
      visit (ov_state_key ov) = Some st
      \<and> (hr_path r = view_path (ov_provider ov) ''callback'' \<longrightarrow> held_tokens (of_credentials w') = held_tokens (of_credentials w))"
    and "held_tokens (of_credentials w') \<noteq> held_tokens (of_credentials w) \<Longrightarrow>
      \<exists>ov \<in> set (oauth_views ve). \<exists>st. hr_path r = view_path (ov_provider ov) ''callback'' \<and> st \<noteq> []
        \<and> query_get r ''state'' = Some st \<and> visit (ov_state_key ov) = Some st"
proof -
  let ?stored = "held_tokens (of_credentials w') \<noteq> held_tokens (of_credentials w)"
  have callback: "visit (ov_state_key ov) = Some st \<and> \<not> (ov_provider ov = ov_provider ov' \<and> ?stored)"
    if "ov \<in> set (oauth_views ve)" "saved x visit visit' (ov_state_key ov) = Some st" "ov' \<in> set (oauth_views ve)"
      "oauth_callback ve ov' r' (visit, w) = (x, visit', w')" for ov ov' r'
  proof (cases "ov_provider ov = ov_provider ov'")
    case True
    note e = callback_effect[OF that(4) oauth_view_slashless(2)[OF that(3)]]
    from oauth_view_key[OF that(3,1) True] that(2) e(2) have "visit (ov_state_key ov) = Some st" by auto
    moreover have "\<not> ?stored" using e(3) that(2) oauth_view_key[OF that(3,1) True] by auto
    ultimately show ?thesis by blast
  next
    case False
    note e = callback_effect(1)[OF that(4) oauth_view_slashless(2)[OF that(3)] oauth_view_apart[OF that(3,1) False]]
    with that(2) False show ?thesis by simp
  qed
  have "(ov \<in> set (oauth_views ve) \<longrightarrow> saved x visit visit' (ov_state_key ov) = Some st \<longrightarrow>
      hr_path r \<noteq> view_path (ov_provider ov) ''connect'' \<longrightarrow>
      visit (ov_state_key ov) = Some st \<and> (hr_path r = view_path (ov_provider ov) ''callback'' \<longrightarrow> \<not> ?stored))
    \<and> (?stored \<longrightarrow> (\<exists>ov \<in> set (oauth_views ve). \<exists>st. hr_path r = view_path (ov_provider ov) ''callback'' \<and> st \<noteq> []
        \<and> query_get r ''state'' = Some st \<and> visit (ov_state_key ov) = Some st))"
    using run
  proof (cases rule: tenant_site_cases)
    case 1
    then show ?thesis using saved_cases[of x visit visit'] by auto
  next
    case (2 ov' r')
    note e = connect_effect[OF 2(4)]
    have "visit (ov_state_key ov) = Some st" if "ov \<in> set (oauth_views ve)" "saved x visit visit' (ov_state_key ov) = Some st"
        "hr_path r \<noteq> view_path (ov_provider ov) ''connect''"
    proof -
      from that(3) 2(2) have "ov_provider ov \<noteq> ov_provider ov'" by auto
      then show ?thesis using e(1)[OF oauth_view_apart[OF 2(1) that(1)]] that(2) by simp
    qed
    with e(2) show ?thesis by simp
  next
    case (3 ov' r')
    have q: "query_get r' n = query_get r n" for n by (simp add: query_get_def 3(3))
    have "\<not> ?stored" if "ov \<in> set (oauth_views ve)" "saved x visit visit' (ov_state_key ov) = Some st"
        "hr_path r = view_path (ov_provider ov) ''callback''"
    proof -
      have "ov_provider ov = ov_provider ov'"
        using view_path_inj[OF oauth_view_slashless(1)[OF that(1)] oauth_view_slashless(1)[OF 3(1)]] that(3) 3(2) by metis
      with callback[OF that(1,2) 3(1,4)] show ?thesis by blast
    qed
    moreover note callback[OF _ _ 3(1,4)] callback_effect(3)[OF 3(4) oauth_view_slashless(2)[OF 3(1)], unfolded q]
    ultimately show ?thesis using 3(1,2) by blast
  qed
  then show "ov \<in> set (oauth_views ve) \<Longrightarrow> saved x visit visit' (ov_state_key ov) = Some st \<Longrightarrow>
      hr_path r \<noteq> view_path (ov_provider ov) ''connect'' \<Longrightarrow>
      visit (ov_state_key ov) = Some st
      \<and> (hr_path r = view_path (ov_provider ov) ''callback'' \<longrightarrow> held_tokens (of_credentials w') = held_tokens (of_credentials w))"
    and "?stored \<Longrightarrow>
      \<exists>ov \<in> set (oauth_views ve). \<exists>st. hr_path r = view_path (ov_provider ov) ''callback'' \<and> st \<noteq> []
        \<and> query_get r ''state'' = Some st \<and> visit (ov_state_key ov) = Some st"
    by blast+
qed

text \<open>The state a session holds is the one awaited.\<close>

lemma awaited_snoc: "awaited ov key (trail @ [e]) = awaited_step ov key (awaited ov key trail) e"
  by (simp add: awaited_def)

lemma session_state_awaited:
  assumes "site_run ve (oauth_routes ve) s0 trail s" "\<And>key. si_visits s0 key = Map.empty"
  shows "\<forall>ov key st. ov \<in> set (oauth_views ve) \<longrightarrow> si_visits s key (ov_state_key ov) = Some st \<longrightarrow> awaited ov key trail = Some st"
  using assms(1)
proof (induction rule: site_run.induct)
  case start
  then show ?case by (simp add: assms(2))
next
  case (asked trail s key r resp s')
  obtain x visit w where run: "tenant_site ve (oauth_routes ve) r (si_visits s key, si_world s) = (x, visit, w)" by (metis prod_cases3)
  have s': "s' = \<lparr>si_visits = (si_visits s)(key := saved x (si_visits s key) visit), si_world = w\<rparr>"
    using asked(2) run by (simp add: serve_eq)
  show ?case
  proof (intro allI impI)
    fix ov k st
    assume ov: "ov \<in> set (oauth_views ve)" and st: "si_visits s' k (ov_state_key ov) = Some st"
    let ?e = "event_of key r s s'"
    show "awaited ov k (trail @ [?e]) = Some st"
    proof (cases "k = key")
      case False
      then have "si_visits s k (ov_state_key ov) = Some st" using st s' by simp
      with asked.IH ov False show ?thesis by (simp add: awaited_snoc awaited_step_def event_of_def)
    next
      case True
      have sv: "saved x (si_visits s key) visit (ov_state_key ov) = Some st" using st s' True by simp
      show ?thesis
      proof (cases "hr_path r = view_path (ov_provider ov) ''connect''")
        case connect: True
        then show ?thesis using True sv s' by (simp add: awaited_snoc awaited_step_def event_of_def)
      next
        case False
        from request_effect(1)[OF run ov sv False] asked.IH ov True False show ?thesis
          by (auto simp: awaited_snoc awaited_step_def event_of_def s')
      qed
    qed
  qed
next
  case (elsewhere trail s w)
  then show ?case by simp
qed

text \<open>
  C6. Whatever pages visitors ask for, in any order and in any sessions: a request stores tokens only as an answer to a
  \<open>connect\<close> of the same session for the same provider. It is a callback that carries the very state that \<open>connect\<close> left, and no
  callback of that session has stored the provider's tokens since: a state is good for storing tokens once.
\<close>

theorem tokens_follow_connect:
  assumes "site_run ve (oauth_routes ve) s0 trail s" "\<And>key. si_visits s0 key = Map.empty"
    and "i < length trail" "ev_stored (trail ! i)"
  shows "answers_connect ve (take i trail) (trail ! i)"
  using assms(1,3,4)
proof (induction arbitrary: i rule: site_run.induct)
  case start
  then show ?case by simp
next
  case (asked trail s key r resp s')
  obtain x visit w where run: "tenant_site ve (oauth_routes ve) r (si_visits s key, si_world s) = (x, visit, w)" by (metis prod_cases3)
  have s': "s' = \<lparr>si_visits = (si_visits s)(key := saved x (si_visits s key) visit), si_world = w\<rparr>"
    using asked(2) run by (simp add: serve_eq)
  show ?case
  proof (cases "i < length trail")
    case True
    with asked.IH[of i] asked.prems show ?thesis by (simp add: nth_append)
  next
    case False
    then have i: "i = length trail" using asked.prems by simp
    with asked.prems s' have "held_tokens (of_credentials w) \<noteq> held_tokens (of_credentials (si_world s))"
      by (simp add: event_of_def)
    from request_effect(2)[OF run this] obtain ov st where ov: "ov \<in> set (oauth_views ve)"
        "hr_path r = view_path (ov_provider ov) ''callback''" "st \<noteq> []" "query_get r ''state'' = Some st"
        "si_visits s key (ov_state_key ov) = Some st" by blast
    have "awaited ov key trail = Some st" using session_state_awaited[OF asked(1) assms(2)] ov by blast
    with ov i show ?thesis unfolding answers_connect_def by (auto simp: event_of_def)
  qed
next
  case (elsewhere trail s w)
  then show ?case by simp
qed

section \<open>What a successful callback leaves\<close>

lemma connection_of_SomeD: "connection_of p rows = Some c \<Longrightarrow> c \<in> set rows \<and> integration_provider c = p"
  unfolding connection_of_def by (auto simp: find_Some_iff)

lemma connection_of_append:
  "connection_of p (rows @ [c]) = (case connection_of p rows of Some c' \<Rightarrow> Some c' | None \<Rightarrow> if integration_provider c = p then Some c else None)"
  unfolding connection_of_def by (induction rows) auto

text \<open>Updating the row of one id is updating the row of one provider.\<close>

lemma connection_of_update:
  assumes "connection_of p rows = Some c" "unique_keys integration_id rows" "\<And>c. integration_provider (f c) = integration_provider c"
  shows "connection_of q (map (\<lambda>d. if integration_id d = integration_id c then f d else d) rows)
    = (if q = p then Some (f c) else connection_of q rows)"
proof -
  let ?u = "\<lambda>d. if integration_id d = integration_id c then f d else d"
  have "connection_of q (map ?u rows) = map_option ?u (connection_of q rows)"
    unfolding connection_of_def by (induction rows) (auto simp: assms(3))
  moreover have "integration_id d \<noteq> integration_id c" if "connection_of q rows = Some d" "q \<noteq> p" for d
    using connection_of_SomeD[OF that(1)] connection_of_SomeD[OF assms(1)] that(2) assms(2)
    by (auto simp: unique_keys_def dest: inj_onD[OF iffD1[OF distinct_map, THEN conjunct2]])
  ultimately show ?thesis using assms(1) by (cases "connection_of q rows") auto
qed

lemma get_connection_row:
  assumes "get_connection p (visit, w) = (Inr c, visit1, w1)" "unique_keys integration_id (of_connections w)"
  shows "visit1 = visit" "of_service w1 = of_service w" "of_credentials w1 = of_credentials w"
    "connection_of p (of_connections w1) = Some c" "unique_keys integration_id (of_connections w1)"
    "q \<noteq> p \<Longrightarrow> connection_of q (of_connections w1) = connection_of q (of_connections w)"
proof -
  let ?new = "\<lparr>integration_id = fresh_id integration_id (of_connections w), integration_provider = p,
      is_active = False, last_sync_at = None, meta = JObj [], connected_at = None\<rparr>"
  have "fresh_id integration_id (of_connections w) \<notin> integration_id ` set (of_connections w)"
    by (auto dest: fresh_id_gt[of _ _ integration_id])
  then have "visit1 = visit \<and> of_service w1 = of_service w \<and> of_credentials w1 = of_credentials w
    \<and> connection_of p (of_connections w1) = Some c \<and> unique_keys integration_id (of_connections w1)
    \<and> (q \<noteq> p \<longrightarrow> connection_of q (of_connections w1) = connection_of q (of_connections w))"
    using assms by (cases "connection_of p (of_connections w)")
      (auto simp: get_connection_def Let_def connection_of_append unique_keys_def split: option.split)
  then show "visit1 = visit" "of_service w1 = of_service w" "of_credentials w1 = of_credentials w"
    "connection_of p (of_connections w1) = Some c" "unique_keys integration_id (of_connections w1)"
    "q \<noteq> p \<Longrightarrow> connection_of q (of_connections w1) = connection_of q (of_connections w)" by blast+
qed

text \<open>The tool listing works on the service only.\<close>

definition service_only :: "visit \<times> 's office \<Rightarrow> visit \<times> 's office \<Rightarrow> bool" where
  "service_only c c' \<longleftrightarrow> (\<exists>s. c' = (fst c, (snd c)\<lparr>of_service := s\<rparr>))"

lemma service_only_order: "order_like service_only"
  by (auto simp: order_like_def service_only_def prod_eq_iff) (metis office.surjective office.update_convs(1))

lemma service_only_probe: "obeys service_only (probe_tools ve ov v)"
proof -
  have "obeys service_only (on_service m)" for m :: "('a, 'b) call"
    by (auto simp: obeys_def service_only_def on_service_def split: prod.split)
  then show ?thesis
    unfolding probe_tools_def by (cases "ov_mcp ov") (auto intro!: obeys_rules service_only_order)
qed

lemma connect_with_row:
  assumes law: "fernet_law (ce_gw (ve_client ve))" and ids: "unique_keys integration_id (of_connections w)"
    and run: "connect_with ve ov v (visit, w) = (Inr resp, visit', w')"
  shows "\<exists>c. connection_of (ov_provider ov) (of_connections w') = Some c \<and> is_active c
      \<and> connected_at c = Some (gw_wall (ce_gw (ve_client ve)) (of_service w))
      \<and> get_tokens (ce_gw (ve_client ve)) (held_tokens (of_credentials w') (integration_id c))
          = gw_loads (ce_gw (ve_client ve)) (gw_dumps (ce_gw (ve_client ve)) v)
      \<and> (\<forall>q. q \<noteq> ov_provider ov \<longrightarrow> connection_of q (of_connections w') = connection_of q (of_connections w))
      \<and> (\<forall>pk. pk \<noteq> integration_id c \<longrightarrow> held_tokens (of_credentials w') pk = held_tokens (of_credentials w) pk)"
proof -
  obtain c visit1 w1 tools visit2 w2 m where steps: "get_connection (ov_provider ov) (visit, w) = (Inr c, visit1, w1)"
      "probe_tools ve ov v (visit1, w1) = (Inr tools, visit2, w2)"
      "store_credential ve (integration_id c) v (visit2, w2\<lparr>of_connections :=
         map (\<lambda>d. if integration_id d = integration_id c then connected (gw_wall (ce_gw (ve_client ve)) (of_service w1)) m d else d)
           (of_connections w2)\<rparr>) = (Inr (), visit', w')"
    using run unfolding connect_with_def by (auto simp: chain_Inr_iff clock_def save_connection_def)
  note g = get_connection_row[OF steps(1) ids]
  obtain s where w2: "w2 = w1\<lparr>of_service := s\<rparr>"
    using obeysD[OF service_only_probe steps(2)] by (auto simp: service_only_def)
  let ?f = "connected (gw_wall (ce_gw (ve_client ve)) (of_service w1)) m"
  have upd: "connection_of q (map (\<lambda>d. if integration_id d = integration_id c then ?f d else d) (of_connections w1))
    = (if q = ov_provider ov then Some (?f c) else connection_of q (of_connections w1))" for q
    by (rule connection_of_update[OF g(4,5)]) (simp add: connected_def)
  from steps(3) show ?thesis
  proof (cases rule: store_credential_cases)
    case (1 e)
    then show ?thesis by simp
  next
    case (2 enc)
    have row: "connection_of (ov_provider ov) (of_connections w') = Some (?f c)"
      "q \<noteq> ov_provider ov \<Longrightarrow> connection_of q (of_connections w') = connection_of q (of_connections w)" for q
      using upd[of q] upd[of "ov_provider ov"] g(6)[of q] by (simp_all add: 2(5) w2)
    have held: "held_tokens (of_credentials w') = (held_tokens (of_credentials w))(integration_id c := enc)"
      using 2(4) g(3) by (simp add: w2)
    have "get_tokens (ce_gw (ve_client ve)) enc = gw_loads (ce_gw (ve_client ve)) (gw_dumps (ce_gw (ve_client ve)) v)"
      by (rule get_set_tokens[OF law 2(1)])
    with row held g(2) show ?thesis by (intro exI[of _ "?f c"]) (simp add: connected_def)
  qed
qed

text \<open>
  A callback that ends well leaves the integration active, connected at that moment, with a credential that decrypts to
  the tokens the provider gave for the code; no other integration and no other credential changes.
\<close>

theorem callback_connects:
  assumes "fernet_law (ce_gw (ve_client ve))" "ov \<in> set (oauth_views ve)" "unique_keys integration_id (of_connections w)"
    and "oauth_callback ve ov r (visit, w) = (Inr (Redirect (url_of ''list_integrations'')), visit', w')"
  shows "\<exists>code verifier v s1 c. query_get r ''code'' = Some code
      \<and> of_exchange (ov_flow ov) code (redirect_uri_of ve (ov_provider ov) r) verifier (of_service w) = (Inr v, s1)
      \<and> connection_of (ov_provider ov) (of_connections w') = Some c \<and> is_active c
      \<and> connected_at c = Some (gw_wall (ce_gw (ve_client ve)) s1)
      \<and> get_tokens (ce_gw (ve_client ve)) (held_tokens (of_credentials w') (integration_id c))
          = gw_loads (ce_gw (ve_client ve)) (gw_dumps (ce_gw (ve_client ve)) v)
      \<and> (\<forall>q. q \<noteq> ov_provider ov \<longrightarrow> connection_of q (of_connections w') = connection_of q (of_connections w))
      \<and> (\<forall>pk. pk \<noteq> integration_id c \<longrightarrow> held_tokens (of_credentials w') pk = held_tokens (of_credentials w) pk)"
  using assms(4) oauth_view_slashless(2)[OF assms(2)]
proof (cases rule: callback_cases)
  case (4 st code verifier v s1 visit1)
  have "unique_keys integration_id (of_connections (w\<lparr>of_service := s1\<rparr>))" using assms(3) by simp
  from connect_with_row[OF assms(1) this 4(8)] 4(4,7) show ?thesis by auto
qed (simp_all add: error_page_def)

section \<open>A run for samples\<close>

text \<open>An owner connects HubSpot: the service's clock stands still, the state is \<open>st\<close>, the code is exchanged for a token.\<close>

definition sample_hub_tokens :: json where
  "sample_hub_tokens = JObj [(''access_token'', JStr ''b''), (''refresh_token'', JNull), (''expires_in'', JNull)]"

definition sample_hub_env :: "rat client_env" where
  "sample_hub_env =
     \<lparr>ce_gw = sample_gw\<lparr>gw_loads := (\<lambda>x. Inr sample_hub_tokens)\<rparr>,
      ce_web = \<lparr>wb_get = (\<lambda>url rq s. (Inl TypeError, s)),
        wb_post = (\<lambda>url rq s. (Inr \<lparr>status_code = 200, body = JObj [(''access_token'', JStr ''b'')]\<rparr>, s)),
        wb_setting = (\<lambda>n. Some ''x'')\<rparr>,
      ce_text = (\<lambda>e. ''error'')\<rparr>"

definition sample_views :: "rat view_env" where
  "sample_views = \<lparr>ve_providers = sample_providers\<lparr>pv_client := sample_hub_env\<rparr>, ve_random = (\<lambda>n s. (''st'', s)),
     ve_sha256 = (\<lambda>bs. bs), ve_origin = (\<lambda>r. ''https://acme.example''), ve_namespace = (\<lambda>p. None)\<rparr>"

definition sample_office :: "rat office site" where
  "sample_office = \<lparr>si_visits = (\<lambda>_. Map.empty), si_world =
     \<lparr>of_service = 5, of_connections = [], of_credentials = [], of_memberships = [sample_member OWNER]\<rparr>\<rparr>"

definition sample_callback :: request where
  "sample_callback = sample_request\<lparr>hr_method := ''GET'', hr_path := ''/integrations/hubspot/callback/'',
     hr_get := [(''code'', ''c''), (''state'', ''st'')]\<rparr>"

lemma sample_views_simps:
  "ve_client sample_views = sample_hub_env" "ve_web sample_views = ce_web sample_hub_env" "ve_random sample_views n s = (''st'', s)"
  "ve_namespace sample_views p = None" "ve_origin sample_views r = ''https://acme.example''"
  "client_creds (ce_web sample_hub_env) x = Inr (''x'', ''x'')"
  "wb_post (ce_web sample_hub_env) url rq s = (Inr \<lparr>status_code = 200, body = JObj [(''access_token'', JStr ''b'')]\<rparr>, s)"
  "gw_wall (ce_gw sample_hub_env) s = s" "gw_loads (ce_gw sample_hub_env) y = Inr sample_hub_tokens"
  "set_tokens (ce_gw sample_hub_env) v s = Inr ''new''"
  by (simp_all add: sample_views_def ve_client_def ve_web_def sample_hub_env_def client_creds_def setting_def Let_def
      set_tokens_def fernet_key_def sample_gw_simps min_key_length_def)

lemma sample_hub_view:
  "ov_provider (hubspot_view ve) = ''hubspot''" "ov_state_key (hubspot_view ve) = ''hs_oauth_state''"
  "ov_verifier_key (hubspot_view ve) = None" "ov_needs (hubspot_view ve) = None" "ov_mcp (hubspot_view ve) = None"
  "ov_meta (hubspot_view ve) = None"
  "of_authorize (ov_flow (hubspot_view ve)) st uri c = hubspot_authorization_url (ve_web ve) st uri"
  "of_exchange (ov_flow (hubspot_view ve)) code uri v = hubspot_exchange_code (ve_web ve) code uri"
  by (simp_all add: hubspot_view_def plain_flow_def)

lemma sample_hub_member: "hubspot_view ve \<in> set (oauth_views ve)"
  by (simp add: oauth_views_def admin_connectors_def)

lemma sample_routes:
  "map_of (oauth_routes ve) ''/integrations/hubspot/connect/'' = Some (admin_view (require_POST (oauth_connect ve (hubspot_view ve))))"
  "map_of (oauth_routes ve) ''/integrations/hubspot/callback/'' = Some (admin_view (oauth_callback ve (hubspot_view ve)))"
  by (simp_all add: oauth_routes_def pages_defs oauth_pair_def view_path_def view_defs Let_def)

lemma sample_exchange:
  "hubspot_exchange_code (ce_web sample_hub_env) code uri s = (Inr sample_hub_tokens, s)"
  by (simp add: hubspot_exchange_code_def chain_def lift_result_def sample_views_simps checked_def raise_for_status_def
      dict_of_def jindex.simps dict_get_def sample_hub_tokens_def)

lemma sample_connect_run:
  "\<exists>url. oauth_connect sample_views (hubspot_view sample_views) r (visit, w) = (Inr (Redirect url), visit(''hs_oauth_state'' \<mapsto> ''st''), w)"
proof -
  obtain url where "hubspot_authorization_url (ce_web sample_hub_env) ''st'' (redirect_uri_of sample_views ''hubspot'' r) = Inr url"
    by (simp add: hubspot_authorization_url_def sample_views_simps)
  then show ?thesis
    by (simp add: oauth_connect_def chain_def draw_def on_service_def sample_views_simps connect_pkce_def sample_hub_view ret_def
        put_visit_def put_verifier_def)
qed

lemma sample_callback_run:
  assumes "visit ''hs_oauth_state'' = Some ''st''" "hr_get r = [(''code'', ''c''), (''state'', ''st'')]"
    and "of_connections w = []" "of_credentials w = []"
  shows "\<exists>w'. oauth_callback sample_views (hubspot_view sample_views) r (visit, w)
      = (Inr (Redirect (url_of ''list_integrations'')), visit(''hs_oauth_state'' := None), w') \<and> held_tokens (of_credentials w') 0 = ''new''"
  using assms
  by (simp add: oauth_callback_def query_get_def given_def chain_def pop_visit_def pop_verifier_def sample_hub_view ret_def on_service_def
      sample_views_simps sample_exchange connect_with_def get_connection_def connection_of_def Let_def clock_def probe_tools_def
      new_meta_def save_connection_def store_credential_def lift_result_def held_tokens_def with_credential_def save_tokens_def
      fresh_id_def lookup_Cons)

lemma sample_tenant_site:
  assumes "hr_user r = Some \<lparr>us_id = 7, us_email = ''ann@acme.cz''\<rparr>" "hr_tenant r = Some \<lparr>te_id = 3, te_schema = ''acme''\<rparr>" "hr_schema r = ''acme''"
    and "of_memberships (snd c) = [sample_member OWNER]" "map_of routes (hr_path r) = Some (admin_view v)"
    and "\<not> is_public_path (\<lambda>_. None) (hr_path r)"
  shows "tenant_site sample_views routes r c = v (r\<lparr>hr_membership := Some (sample_member OWNER)\<rparr>) c"
proof -
  have ns: "ve_namespace sample_views = (\<lambda>_. None)" by (simp add: sample_views_def)
  have m: "membership_of (of_memberships (snd c)) 7 3 = Some (sample_member OWNER)"
    by (simp add: assms(4) membership_of_def sample_member_def)
  show ?thesis
    using assms m by (simp add: tenant_site_def membership_middleware_def Let_def ns public_schema_name_def dispatch_def admin_view_def
        login_required_def require_membership_def require_admin_def admin_roles_def sample_member_def)
qed

lemma tokens_follow_connect_witness:
  "\<exists>trail s. site_run sample_views (oauth_routes sample_views) sample_office trail s \<and> length trail = 2 \<and> ev_stored (trail ! 1)
     \<and> answers_connect sample_views (take 1 trail) (trail ! 1)"
proof -
  let ?ve = sample_views and ?site = "tenant_site sample_views (oauth_routes sample_views)" and ?m = "sample_member OWNER"
  have paths: "\<not> is_public_path (\<lambda>_. None) ''/integrations/hubspot/connect/''" "\<not> is_public_path (\<lambda>_. None) ''/integrations/hubspot/callback/''"
    by (simp_all add: is_public_path_def public_path_prefixes_def)
  have c1: "?site sample_request (Map.empty, si_world sample_office)
      = oauth_connect ?ve (hubspot_view ?ve) (sample_request\<lparr>hr_membership := Some ?m\<rparr>) (Map.empty, si_world sample_office)"
    by (subst sample_tenant_site[where v = "require_POST (oauth_connect ?ve (hubspot_view ?ve))"])
      (simp_all add: sample_request_def sample_office_def sample_routes paths require_POST_def)
  obtain url where "?site sample_request (Map.empty, si_world sample_office)
      = (Inr (Redirect url), Map.empty(''hs_oauth_state'' \<mapsto> ''st''), si_world sample_office)"
    unfolding c1 using sample_connect_run by blast
  then have s1: "serve ?site 0 sample_request sample_office = (Redirect url, sample_office\<lparr>si_visits := (\<lambda>_. Map.empty)(0 := [''hs_oauth_state'' \<mapsto> ''st''])\<rparr>)"
    by (simp add: serve_eq sample_office_def saved_def)
  let ?s1 = "sample_office\<lparr>si_visits := (\<lambda>_. Map.empty)(0 := [''hs_oauth_state'' \<mapsto> ''st''])\<rparr>"
  have c2: "?site sample_callback ([''hs_oauth_state'' \<mapsto> ''st''], si_world sample_office)
      = oauth_callback ?ve (hubspot_view ?ve) (sample_callback\<lparr>hr_membership := Some ?m\<rparr>) ([''hs_oauth_state'' \<mapsto> ''st''], si_world sample_office)"
    by (rule sample_tenant_site) (simp_all add: sample_callback_def sample_request_def sample_office_def sample_routes paths)
  obtain w' where w': "?site sample_callback ([''hs_oauth_state'' \<mapsto> ''st''], si_world sample_office)
      = (Inr (Redirect (url_of ''list_integrations'')), [''hs_oauth_state'' \<mapsto> ''st''](''hs_oauth_state'' := None), w')"
      "held_tokens (of_credentials w') 0 = ''new''"
    unfolding c2 using sample_callback_run[of "[''hs_oauth_state'' \<mapsto> ''st'']" "sample_callback\<lparr>hr_membership := Some ?m\<rparr>" "si_world sample_office"]
    by (auto simp: sample_callback_def sample_office_def)
  let ?r2 = "serve ?site 0 sample_callback ?s1"
  have stored: "held_tokens (of_credentials (si_world (snd ?r2))) \<noteq> held_tokens (of_credentials (si_world sample_office))"
  proof
    assume "held_tokens (of_credentials (si_world (snd ?r2))) = held_tokens (of_credentials (si_world sample_office))"
    then have "held_tokens (of_credentials w') 0 = held_tokens [] 0" using w'(1) by (simp add: serve_eq sample_office_def)
    with w'(2) show False by (simp add: held_tokens_def)
  qed
  let ?t1 = "[] @ [event_of 0 sample_request sample_office ?s1]" and ?t2 = "([] @ [event_of 0 sample_request sample_office ?s1]) @ [event_of 0 sample_callback ?s1 (snd ?r2)]"
  have run1: "site_run ?ve (oauth_routes ?ve) sample_office ?t1 ?s1"
    by (rule site_run.asked[OF site_run.start s1])
  have run2: "site_run ?ve (oauth_routes ?ve) sample_office ?t2 (snd ?r2)"
    by (rule site_run.asked[OF run1, of _ _ "fst ?r2"]) simp
  have st: "ev_stored (?t2 ! 1)" using stored by (simp add: event_of_def)
  have "answers_connect ?ve (take 1 ?t2) (?t2 ! 1)"
    by (rule tokens_follow_connect[OF run2 _ _ st]) (simp_all add: sample_office_def)
  with run2 st show ?thesis by (intro exI[of _ ?t2] exI[of _ "snd ?r2"]) simp
qed

lemma callback_connects_witness:
  "\<exists>visit' w' c. oauth_callback sample_views (hubspot_view sample_views) sample_callback ([''hs_oauth_state'' \<mapsto> ''st''], si_world sample_office)
      = (Inr (Redirect (url_of ''list_integrations'')), visit', w')
    \<and> connection_of ''hubspot'' (of_connections w') = Some c \<and> is_active c"
proof -
  obtain w' where run: "oauth_callback sample_views (hubspot_view sample_views) sample_callback ([''hs_oauth_state'' \<mapsto> ''st''], si_world sample_office)
      = (Inr (Redirect (url_of ''list_integrations'')), [''hs_oauth_state'' \<mapsto> ''st''](''hs_oauth_state'' := None), w')"
    using sample_callback_run[of "[''hs_oauth_state'' \<mapsto> ''st'']" sample_callback "si_world sample_office"]
    by (auto simp: sample_callback_def sample_office_def)
  have "fernet_law (ce_gw (ve_client sample_views))"
    by (simp add: fernet_law_def sample_views_simps(1)) (simp add: sample_hub_env_def sample_gw_def)
  from callback_connects[OF this sample_hub_member _ run] run show ?thesis
    by (auto simp: sample_office_def unique_keys_def sample_hub_view)
qed

end
