(* ===== verification/KeySetup.thy ===== *)
theory KeySetup
  imports ConnectViews
begin

text \<open>
  The setup forms of the connectors that work with a pasted key (Trello, Raynet, Caflou, Ecomail, SmartEmailing, FAPI): the
  shared \<open>connectors/_setup.py\<close> and their \<open>views.py\<close>; the views of \<open>data_access/views.py\<close> that switch an integration off or start
  an ingest; and the table of all these pages, with who may use them. Messages with Czech letters outside ISO
  8859-1 are transliterated; the Celery broker is part of the service.
\<close>

section \<open>The record of the last attempt\<close>

text \<open>\<open>dict(integration.meta or {})\<close>\<close>

definition meta_dict :: "json \<Rightarrow> (py_error, (string \<times> json) list) result" where
  "meta_dict m = (case or_else m (JObj []) of JObj kvs \<Rightarrow> Inr kvs | _ \<Rightarrow> Inl TypeError)"

text \<open>Assign \<open>integration.meta\<close> and save it; the object stands for the row with its id.\<close>

definition save_meta :: "connection \<Rightarrow> json \<Rightarrow> ('s, connection) step" where
  "save_meta c m = chain (save_connection (integration_id c) (\<lambda>d. d\<lparr>meta := m\<rparr>)) (\<lambda>_. ret (c\<lparr>meta := m\<rparr>))"

definition setup_record :: "(string \<times> json) list \<Rightarrow> string \<Rightarrow> rat \<Rightarrow> json" where
  "setup_record public error now =
     JObj [(''fields'', JObj public), (''error'', JStr error), (''at'', JStr (isoformat now))]"

definition record_setup_attempt :: "'s view_env \<Rightarrow> connection \<Rightarrow> (string \<times> json) list \<Rightarrow> string \<Rightarrow> ('s, connection) step" where
  "record_setup_attempt ve c public error =
     chain (lift_result (meta_dict (meta c))) (\<lambda>kvs.
     chain (clock ve) (\<lambda>now.
     save_meta c (JObj (dict_put ''last_setup'' (setup_record public error now) kvs))))"

definition clear_setup_attempt :: "connection \<Rightarrow> ('s, connection) step" where
  "clear_setup_attempt c =
     chain (lift_result (meta_dict (meta c))) (\<lambda>kvs.
     save_meta c (JObj (filter (\<lambda>(k, _). k \<noteq> ''last_setup'') kvs)))"

definition last_setup_context :: "connection option \<Rightarrow> (py_error, (string \<times> json) list) result" where
  "last_setup_context c =
     (case c of
        None \<Rightarrow> Inr [(''last_error'', JStr []), (''last_at'', JStr []), (''last_fields'', JObj [])]
      | Some c \<Rightarrow>
          andthen (jget (or_else (meta c) (JObj [])) ''last_setup'') (\<lambda>v.
          let last = or_else v (JObj [])
          in andthen (jget last ''error'') (\<lambda>e. andthen (jget last ''at'') (\<lambda>a. andthen (jget last ''fields'') (\<lambda>f. Inr
               [(''last_error'', or_else e (JStr [])), (''last_at'', or_else a (JStr [])), (''last_fields'', or_else f (JObj []))])))))"

section \<open>The form\<close>

text \<open>
  What distinguishes the connectors: the fields of the form, those that may be shown again, the message for a missing
  one, and how the key is tried.
\<close>

record 's key_view =
  kv_provider :: string
  kv_fields :: "string list"
  kv_public :: "string list"
  kv_missing :: string
  kv_connector :: "'s api_connector"
  kv_ping :: "('s api_client, json) call"

definition setup_template :: "'s key_view \<Rightarrow> string" where
  "setup_template kv = ''connectors/'' @ kv_provider kv @ ''_setup.html''"

text \<open>The row the page gets as \<open>integration\<close>, as the attributes the templates ask for.\<close>

definition integration_value :: "connection option \<Rightarrow> json" where
  "integration_value c =
     (case c of
        None \<Rightarrow> JNull
      | Some c \<Rightarrow> JObj [(''is_active'', JBool (is_active c)),
          (''connected_at'', case connected_at c of None \<Rightarrow> JNull | Some t \<Rightarrow> JStr (isoformat t))])"

definition setup_page :: "'s key_view \<Rightarrow> 's office view" where
  "setup_page kv r = (\<lambda>(visit, w).
     (let c = connection_of (kv_provider kv) (of_connections w)
      in case last_setup_context c of
           Inl e \<Rightarrow> (Inl e, visit, w)
         | Inr ctx \<Rightarrow> (Inr (Page 200 (setup_template kv) ((''integration'', integration_value c) # ctx)), visit, w)))"

text \<open>\<open>(request.POST.get(n) or "").strip()\<close>\<close>

definition form_value :: "request \<Rightarrow> string \<Rightarrow> string" where
  "form_value r n = str_strip (case map_of (rev (hr_post r)) n of None \<Rightarrow> [] | Some v \<Rightarrow> v)"

definition form_fields :: "request \<Rightarrow> string list \<Rightarrow> (string \<times> json) list" where
  "form_fields r names = map (\<lambda>n. (n, JStr (form_value r n))) names"

text \<open>\<open>with Client(integration) as client: client.ping()\<close>, and what it raised.\<close>

definition try_key :: "'s view_env \<Rightarrow> 's key_view \<Rightarrow> nat \<Rightarrow> ('s, py_error option) step" where
  "try_key ve kv pk = (\<lambda>(visit, w).
     case open_api (ve_client ve) (kv_connector kv) pk (of_service w, of_credentials w) of
       Inl e \<Rightarrow> (Inr (Some e), visit, w)
     | Inr client \<Rightarrow>
         (case kv_ping kv client of (r, client) \<Rightarrow>
            (Inr (case r of Inl e \<Rightarrow> Some e | Inr _ \<Rightarrow> None), visit,
             w\<lparr>of_service := fst (ac_backend client), of_credentials := snd (ac_backend client)\<rparr>)))"

text \<open>Record a failed attempt and show the form again.\<close>

definition refuse_setup :: "'s view_env \<Rightarrow> 's key_view \<Rightarrow> connection \<Rightarrow> (string \<times> json) list \<Rightarrow> string \<Rightarrow> ('s, response) step" where
  "refuse_setup ve kv c public error =
     chain (record_setup_attempt ve c public error) (\<lambda>c.
     chain (lift_result (last_setup_context (Some c))) (\<lambda>ctx.
     ret (Page 400 (setup_template kv) ([(''integration'', integration_value (Some c)), (''error'', JStr error)] @ ctx))))"

definition verification_failed :: "'s view_env \<Rightarrow> py_error \<Rightarrow> string" where
  "verification_failed ve e = ''Overeni selhalo: '' @ ce_text (ve_client ve) e"

definition save_credentials :: "'s view_env \<Rightarrow> 's key_view \<Rightarrow> 's office view" where
  "save_credentials ve kv r =
     (let public = form_fields r (kv_public kv)
      in chain (get_connection (kv_provider kv)) (\<lambda>c.
         if list_ex (\<lambda>n. form_value r n = []) (kv_fields kv) then refuse_setup ve kv c public (kv_missing kv)
         else
           chain (store_credential ve (integration_id c) (JObj (form_fields r (kv_fields kv)))) (\<lambda>_.
           chain (try_key ve kv (integration_id c)) (\<lambda>failure.
           case failure of
             Some e \<Rightarrow> refuse_setup ve kv c public (verification_failed ve e)
           | None \<Rightarrow>
               chain (clear_setup_attempt c) (\<lambda>c.
               chain (clock ve) (\<lambda>now.
               chain (save_connection (integration_id c) (\<lambda>d. d\<lparr>is_active := True, connected_at := Some now\<rparr>)) (\<lambda>_.
               ret (Redirect (url_of ''list_integrations'')))))))))"

section \<open>The connectors\<close>

definition caflou_setup :: "'s view_env \<Rightarrow> 's key_view" where
  "caflou_setup ve =
     \<lparr>kv_provider = ''caflou'', kv_fields = [''api_token''], kv_public = [], kv_missing = ''Vypln API token.'',
      kv_connector = caflou_connector, kv_ping = caflou_ping (ve_client ve)\<rparr>"

definition ecomail_setup :: "'s view_env \<Rightarrow> 's key_view" where
  "ecomail_setup ve =
     \<lparr>kv_provider = ''ecomail'', kv_fields = [''api_key''], kv_public = [], kv_missing = ''Vypln API klic.'',
      kv_connector = ecomail_connector, kv_ping = ecomail_ping (ve_client ve)\<rparr>"

definition fapi_setup :: "'s view_env \<Rightarrow> 's key_view" where
  "fapi_setup ve =
     \<lparr>kv_provider = ''fapi'', kv_fields = [''user'', ''api_key''], kv_public = [''user''],
      kv_missing = ''Vypln prihlasovaci e-mail a API klic.'', kv_connector = fapi_connector, kv_ping = fapi_ping (ve_client ve)\<rparr>"

definition raynet_setup :: "'s view_env \<Rightarrow> 's key_view" where
  "raynet_setup ve =
     \<lparr>kv_provider = ''raynet'', kv_fields = [''instance'', ''username'', ''api_key''], kv_public = [''instance'', ''username''],
      kv_missing = ''Vypln vsechny tri udaje (instance, username, API key).'', kv_connector = raynet_connector,
      kv_ping = raynet_ping (ve_client ve)\<rparr>"

definition smartemailing_setup :: "'s view_env \<Rightarrow> 's key_view" where
  "smartemailing_setup ve =
     \<lparr>kv_provider = ''smartemailing'', kv_fields = [''username'', ''api_key''], kv_public = [''username''],
      kv_missing = ''Vypln username i API key.'', kv_connector = smartemailing_connector, kv_ping = smartemailing_ping (ve_client ve)\<rparr>"

definition trello_setup :: "'s view_env \<Rightarrow> 's key_view" where
  "trello_setup ve =
     \<lparr>kv_provider = ''trello'', kv_fields = [''api_key'', ''token''], kv_public = [], kv_missing = ''Vypln API key i token.'',
      kv_connector = trello_connector, kv_ping = trello_me (ve_client ve)\<rparr>"

definition key_views :: "'s view_env \<Rightarrow> 's key_view list" where
  "key_views ve = [smartemailing_setup ve, trello_setup ve, raynet_setup ve, caflou_setup ve, ecomail_setup ve, fapi_setup ve]"

text \<open>The pages of each connector, with their guards.\<close>

definition setup_pair :: "'s view_env \<Rightarrow> 's key_view \<Rightarrow> (string \<times> 's office view) list" where
  "setup_pair ve kv =
     [(view_path (kv_provider kv) ''setup'', admin_view (setup_page kv)),
      (view_path (kv_provider kv) ''save'', admin_view (require_POST (save_credentials ve kv)))]"

definition smartemailing_urls :: "'s view_env \<Rightarrow> (string \<times> 's office view) list" where
  "smartemailing_urls ve = setup_pair ve (smartemailing_setup ve)"

definition trello_urls :: "'s view_env \<Rightarrow> (string \<times> 's office view) list" where
  "trello_urls ve = setup_pair ve (trello_setup ve)"

definition raynet_urls :: "'s view_env \<Rightarrow> (string \<times> 's office view) list" where
  "raynet_urls ve = setup_pair ve (raynet_setup ve)"

definition caflou_urls :: "'s view_env \<Rightarrow> (string \<times> 's office view) list" where
  "caflou_urls ve = setup_pair ve (caflou_setup ve)"

definition ecomail_urls :: "'s view_env \<Rightarrow> (string \<times> 's office view) list" where
  "ecomail_urls ve = setup_pair ve (ecomail_setup ve)"

definition fapi_urls :: "'s view_env \<Rightarrow> (string \<times> 's office view) list" where
  "fapi_urls ve = setup_pair ve (fapi_setup ve)"

definition setup_routes :: "'s view_env \<Rightarrow> (string \<times> 's office view) list" where
  "setup_routes ve =
     smartemailing_urls ve @ trello_urls ve @ raynet_urls ve @ caflou_urls ve @ ecomail_urls ve @ fapi_urls ve"

lemmas setup_pages_defs =
  setup_pair_def smartemailing_urls_def trello_urls_def raynet_urls_def caflou_urls_def ecomail_urls_def fapi_urls_def

section \<open>Switching off\<close>

definition disconnect :: "string \<Rightarrow> 's office view" where
  "disconnect p r = (\<lambda>(visit, w).
     (Inr (Redirect (url_of ''list_integrations'')), visit,
      w\<lparr>of_connections := map (\<lambda>c. if integration_provider c = p then c\<lparr>is_active := False\<rparr> else c) (of_connections w)\<rparr>))"

definition reset_setup :: "string \<Rightarrow> 's office view" where
  "reset_setup p r = (\<lambda>(visit, w).
     (case connection_of p (of_connections w) of
        None \<Rightarrow> ret (Redirect (view_path p ''setup''))
      | Some c \<Rightarrow>
          chain (lift_result (meta_dict (meta c))) (\<lambda>kvs.
          chain (save_connection (integration_id c)
            (\<lambda>d. d\<lparr>meta := JObj (filter (\<lambda>(k, _). k \<noteq> ''last_setup'') kvs), is_active := False\<rparr>)) (\<lambda>_.
          ret (Redirect (view_path p ''setup''))))) (visit, w))"

definition list_integrations :: "'s office view" where
  "list_integrations r = ret (Page 200 ''integrations/list.html'' [])"

text \<open>\<open>workspace_dwd_ingest\<close>: \<open>enqueue\<close> hands a task with the schema to the broker.\<close>

definition workspace_dwd_ingest :: "(string \<Rightarrow> string \<Rightarrow> 's \<Rightarrow> 's) \<Rightarrow> 's office view" where
  "workspace_dwd_ingest enqueue r =
     chain (on_service (\<lambda>s. (Inr (), enqueue
       (if map_of (rev (hr_post r)) ''mode'' = Some ''full'' then ''data_access.knowledge_full_ingest''
        else ''data_access.knowledge_incremental_ingest'') (hr_schema r) s)))
     (\<lambda>_. ret (Redirect (url_of ''workspace_dwd_dashboard'')))"

definition path_provider :: "string \<Rightarrow> string \<Rightarrow> string option" where
  "path_provider action path =
     (let p = takeWhile (\<lambda>c. c \<noteq> CHR ''/'') (drop 14 path)
      in if p \<noteq> [] \<and> path = view_path p action then Some p else None)"

text \<open>The router: the pages of fixed paths, then those with a provider in the path.\<close>

definition fixed_routes :: "(string \<Rightarrow> string \<Rightarrow> 's \<Rightarrow> 's) \<Rightarrow> 's view_env \<Rightarrow> (string \<times> 's office view) list" where
  "fixed_routes enqueue ve =
     oauth_routes ve @ setup_routes ve @
     [(''/integrations/'', member_view list_integrations),
      (''/integrations/google_workspace_dwd/ingest/'', admin_view (require_POST (workspace_dwd_ingest enqueue)))]"

definition integration_pages :: "(string \<Rightarrow> string \<Rightarrow> 's \<Rightarrow> 's) \<Rightarrow> 's view_env \<Rightarrow> 's office view" where
  "integration_pages enqueue ve r =
     (case map_of (fixed_routes enqueue ve) (hr_path r) of
        Some v \<Rightarrow> v r
      | None \<Rightarrow>
          (case (path_provider ''disconnect'' (hr_path r), path_provider ''reset'' (hr_path r)) of
             (Some p, _) \<Rightarrow> admin_view (require_POST (disconnect p)) r
           | (None, Some p) \<Rightarrow> admin_view (require_POST (reset_setup p)) r
           | _ \<Rightarrow> ret (Status 404)))"

definition office_site :: "(string \<Rightarrow> string \<Rightarrow> 's \<Rightarrow> 's) \<Rightarrow> 's view_env \<Rightarrow> 's office view" where
  "office_site enqueue ve = membership_middleware (ve_namespace ve) of_memberships (integration_pages enqueue ve)"

section \<open>Who may use the pages\<close>

lemma admin_guard:
  assumes "admin_view v r c = (x, c')"
  shows "c' = c \<or> (\<exists>m. hr_membership r = Some m \<and> mb_role m \<in> {OWNER, ADMIN})"
  using assms by (cases rule: admin_view_cases) (auto simp: admin_roles_def)

lemma fixed_routes_guarded:
  assumes "(path, v) \<in> set (fixed_routes enqueue ve)" "path \<noteq> view_path ''google_workspace'' ''connect''" "path \<noteq> view_path ''google_workspace'' ''callback''"
  shows "(\<exists>v'. v = admin_view v') \<or> v = member_view list_integrations"
proof -
  have "(\<exists>v'. v = admin_view v') \<or> v = member_view list_integrations" if "(path, v) \<in> set (oauth_routes ve)"
  proof -
    from that[unfolded oauth_routes_set] obtain ov where ov: "ov \<in> set (oauth_views ve)"
        "(path, v) \<in> set (oauth_pair ve (if ov_provider ov = ''google_workspace'' then member_view else admin_view) ov)" by blast
    then show ?thesis using assms(2,3) by (auto simp: oauth_pair_def split: if_splits)
  qed
  then show ?thesis using assms(1) by (auto simp: fixed_routes_def setup_routes_def setup_pages_defs)
qed

lemma list_integrations_idle: "member_view list_integrations r c = (x, c') \<Longrightarrow> c' = c"
  by (auto simp: list_integrations_def elim!: member_view_cases)

lemma integration_pages_guarded:
  assumes "integration_pages enqueue ve r c = (x, c')"
    and "hr_path r \<noteq> view_path ''google_workspace'' ''connect''" "hr_path r \<noteq> view_path ''google_workspace'' ''callback''"
  shows "c' = c \<or> (\<exists>m. hr_membership r = Some m \<and> mb_role m \<in> {OWNER, ADMIN})"
proof (cases "map_of (fixed_routes enqueue ve) (hr_path r)")
  case (Some v)
  with assms(1) have v: "v r c = (x, c')" by (simp add: integration_pages_def)
  from fixed_routes_guarded[OF map_of_SomeD[OF Some] assms(2,3)] show ?thesis
    using v admin_guard list_integrations_idle by blast
next
  case None
  show ?thesis
  proof (cases "path_provider ''disconnect'' (hr_path r)")
    case (Some p)
    with None assms(1) show ?thesis by (intro admin_guard) (simp add: integration_pages_def)
  next
    case none: None
    show ?thesis
    proof (cases "path_provider ''reset'' (hr_path r)")
      case (Some p)
      with None none assms(1) show ?thesis by (intro admin_guard) (simp add: integration_pages_def)
    qed (use None none assms(1) in \<open>simp add: integration_pages_def\<close>)
  qed
qed

text \<open>
  C7. Of the pages that connect, set up, switch off or ingest, only the two of Google Workspace can change anything for a
  visitor who is no owner or admin of the tenant: for any other path the session, the tables and the services stay as they
  were unless the signed-in user has a membership in the tenant of the request with one of these roles.
\<close>

theorem only_admins_change_integrations:
  assumes "office_site enqueue ve r (visit, w) = (x, visit', w')"
    and "hr_path r \<noteq> ''/integrations/google_workspace/connect/''" "hr_path r \<noteq> ''/integrations/google_workspace/callback/''"
  shows "visit' = visit \<and> w' = w
    \<or> (\<exists>u t m. hr_user r = Some u \<and> hr_tenant r = Some t \<and> m \<in> set (of_memberships w) \<and> mb_user m = us_id u
        \<and> mb_tenant m = te_id t \<and> mb_role m \<in> {OWNER, ADMIN})"
proof -
  have paths: "hr_path r \<noteq> view_path ''google_workspace'' ''connect''" "hr_path r \<noteq> view_path ''google_workspace'' ''callback''"
    using assms(2,3) by (simp_all add: view_path_def)
  from assms(1)[unfolded office_site_def] show ?thesis
  proof (cases rule: middleware_cases)
    case 1
    then show ?thesis by simp
  next
    case 2
    then show ?thesis using integration_pages_guarded[of enqueue ve "r\<lparr>hr_membership := None\<rparr>"] paths by fastforce
  next
    case (3 u t m)
    from integration_pages_guarded[OF 3(6)] paths 3(1-5) show ?thesis by auto
  qed
qed

lemma only_admins_change_integrations_witness:
  "\<exists>x visit' w'. office_site (\<lambda>_ _ s. s) sample_views sample_request (Map.empty, si_world sample_office) = (x, visit', w')
     \<and> visit' \<noteq> Map.empty \<and> list_ex (\<lambda>m. mb_role m = OWNER) (of_memberships (si_world sample_office))
     \<and> hr_user sample_request \<noteq> None"
proof -
  have path: "hr_path sample_request = ''/integrations/hubspot/connect/''" by (simp add: sample_request_def)
  have ns: "ve_namespace sample_views = (\<lambda>_. None)" by (simp add: sample_views_def)
  have m: "membership_of (of_memberships (si_world sample_office)) 7 3 = Some (sample_member OWNER)"
    by (simp add: sample_office_def membership_of_def sample_member_def)
  have "map_of (fixed_routes (\<lambda>_ _ s. s) sample_views) ''/integrations/hubspot/connect/''
      = Some (admin_view (require_POST (oauth_connect sample_views (hubspot_view sample_views))))"
    by (simp add: fixed_routes_def map_of_append sample_routes)
  then have "office_site (\<lambda>_ _ s. s) sample_views sample_request (Map.empty, si_world sample_office)
      = oauth_connect sample_views (hubspot_view sample_views) (sample_request\<lparr>hr_membership := Some (sample_member OWNER)\<rparr>) (Map.empty, si_world sample_office)"
    using m by (simp add: office_site_def membership_middleware_def Let_def ns integration_pages_def admin_view_def login_required_def
        require_membership_def require_admin_def admin_roles_def require_POST_def sample_request_def sample_member_def
        is_public_path_def public_path_prefixes_def public_schema_name_def)
  then obtain url where run: "office_site (\<lambda>_ _ s. s) sample_views sample_request (Map.empty, si_world sample_office)
      = (Inr (Redirect url), Map.empty(''hs_oauth_state'' \<mapsto> ''st''), si_world sample_office)"
    using sample_connect_run[of "sample_request\<lparr>hr_membership := Some (sample_member OWNER)\<rparr>" Map.empty "si_world sample_office"] by auto
  have changed: "Map.empty(''hs_oauth_state'' \<mapsto> ''st'') \<noteq> (Map.empty :: visit)" by (metis fun_upd_same option.distinct(1))
  from only_admins_change_integrations[OF run] changed path obtain u where "hr_user sample_request = Some u" by auto
  with run changed show ?thesis by (simp add: sample_office_def sample_member_def)
qed

text \<open>Google Workspace: any member can connect an account of their own as the company's, a viewer too.\<close>

lemma google_connected_by_any_member:
  assumes "membership_of (of_memberships w) (us_id u) (te_id t) = Some m" "hr_user r = Some u" "hr_tenant r = Some t"
    and "hr_schema r \<noteq> public_schema_name" "\<not> is_public_path (ve_namespace ve) (hr_path r)"
    and "hr_path r = view_path ''google_workspace'' ''callback''"
  shows "office_site enqueue ve r (visit, w) = oauth_callback ve (google_view ve) (r\<lparr>hr_membership := Some m\<rparr>) (visit, w)"
proof -
  have "map_of (fixed_routes enqueue ve) (view_path ''google_workspace'' ''callback'') = Some (member_view (oauth_callback ve (google_view ve)))"
    by (simp add: fixed_routes_def oauth_routes_def google_urls_def oauth_pair_def view_path_def google_view_def Let_def)
  then show ?thesis
    using assms by (simp add: office_site_def membership_middleware_def Let_def integration_pages_def member_view_def
        login_required_def require_membership_def)
qed

section \<open>What a submitted form leaves\<close>

lemma save_meta_eq:
  "save_meta c m (visit, w) = (Inr (c\<lparr>meta := m\<rparr>), visit, w\<lparr>of_connections :=
     map (\<lambda>d. if integration_id d = integration_id c then d\<lparr>meta := m\<rparr> else d) (of_connections w)\<rparr>)"
  by (simp add: save_meta_def chain_def save_connection_def ret_def)

lemma context_of_record:
  "last_setup_context (Some (c\<lparr>meta := JObj (dict_put ''last_setup'' (setup_record public msg now) kvs)\<rparr>))
     = Inr [(''last_error'', or_else (JStr msg) (JStr [])), (''last_at'', or_else (JStr (isoformat now)) (JStr [])),
            (''last_fields'', or_else (JObj public) (JObj []))]"
proof -
  have obj: "or_else (JObj ys) (JObj []) = JObj ys" for ys by (simp add: or_else_def)
  have "dict_get (dict_put ''last_setup'' v kvs) ''last_setup'' = v" for v
    by (simp add: dict_get_def dict_put_def map_of_dict_merge)
  then show ?thesis by (simp add: last_setup_context_def obj setup_record_def dict_get_def Let_def)
qed

lemma integration_value_meta [simp]: "integration_value (Some (c\<lparr>meta := v\<rparr>)) = integration_value (Some c)"
  by (simp add: integration_value_def)

text \<open>A refused attempt touches the row's \<open>meta\<close> only.\<close>

lemma refuse_setup_cases:
  assumes "refuse_setup ve kv c public msg (visit, w) = (x, visit', w')"
  obtains e where "x = Inl e" "visit' = visit" "w' = w"
  | kvs now ctx where "x = Inr (Page 400 (setup_template kv) ([(''integration'', integration_value (Some c)), (''error'', JStr msg)] @ ctx))"
      "visit' = visit"
      "meta_dict (meta c) = Inr kvs"
      "ctx = [(''last_error'', or_else (JStr msg) (JStr [])), (''last_at'', or_else (JStr (isoformat now)) (JStr [])),
              (''last_fields'', or_else (JObj public) (JObj []))]"
      "w' = w\<lparr>of_connections := map (\<lambda>d. if integration_id d = integration_id c
          then d\<lparr>meta := JObj (dict_put ''last_setup'' (setup_record public msg now) kvs)\<rparr> else d) (of_connections w)\<rparr>"
proof (cases "meta_dict (meta c)")
  case (Inl e)
  with assms show thesis
    by (intro that(1)) (auto simp: refuse_setup_def record_setup_attempt_def chain_def lift_result_def)
next
  case (Inr kvs)
  let ?now = "gw_wall (ce_gw (ve_client ve)) (of_service w)"
  from assms Inr show thesis
    by (intro that(2)[of _ kvs ?now])
      (auto simp: refuse_setup_def record_setup_attempt_def chain_def lift_result_def clock_def save_meta_eq context_of_record ret_def)
qed

text \<open>These clients do not refresh, so trying a key leaves the credentials as they are.\<close>

definition leaves_credentials :: "('s api_client, 'a) call \<Rightarrow> bool" where
  "leaves_credentials m \<longleftrightarrow> obeys (\<lambda>c c'. snd (ac_backend c') = snd (ac_backend c)) m"

lemma leaves_get: "co_refresh co = None \<Longrightarrow> leaves_credentials (api_get ce co path params)"
  by (auto simp: leaves_credentials_def obeys_def api_get_def api_send_def with_service_def Let_def chain_def lift_result_def
      split: sum.split prod.split)

lemma leaves_endpoint: "co_refresh co = None \<Longrightarrow> leaves_credentials (endpoint ce co path params f)"
  unfolding endpoint_def leaves_credentials_def
  by (intro obeys_chain obeys_lift leaves_get[unfolded leaves_credentials_def]) (auto simp: order_like_def)

lemma key_views_leave: "list_all (\<lambda>kv. leaves_credentials (kv_ping kv)) (key_views ve)"
  by (auto simp: key_views_def caflou_setup_def ecomail_setup_def fapi_setup_def raynet_setup_def smartemailing_setup_def trello_setup_def
      caflou_ping_def ecomail_ping_def fapi_ping_def raynet_ping_def smartemailing_ping_def trello_me_def caflou_connector_def
      ecomail_connector_def fapi_connector_def raynet_connector_def smartemailing_connector_def trello_connector_def key_connector_def
      intro!: leaves_get leaves_endpoint)

lemma try_key_effect:
  assumes "try_key ve kv pk (visit, w) = (x, visit', w')" "kv \<in> set (key_views ve)"
  shows "\<exists>failure. x = Inr failure" "visit' = visit" "of_connections w' = of_connections w" "of_memberships w' = of_memberships w"
    "of_credentials w' = of_credentials w"
proof -
  have "leaves_credentials (kv_ping kv)" using key_views_leave assms(2) by (auto simp: list_all_iff)
  then have "snd (ac_backend (snd (kv_ping kv client))) = snd (ac_backend client)" for client by (simp add: leaves_credentials_def obeys_def)
  moreover have "ac_backend client = (of_service w, of_credentials w)"
    if "open_api (ve_client ve) (kv_connector kv) pk (of_service w, of_credentials w) = Inr client" for client
    using that by (auto simp: open_api_def andthen_Inr_iff split: option.splits)
  ultimately have "(\<exists>failure. x = Inr failure) \<and> visit' = visit \<and> of_connections w' = of_connections w \<and> of_memberships w' = of_memberships w
      \<and> of_credentials w' = of_credentials w"
    using assms(1) by (auto simp: try_key_def split: sum.splits prod.splits) (metis snd_conv)+
  then show "\<exists>failure. x = Inr failure" "visit' = visit" "of_connections w' = of_connections w" "of_memberships w' = of_memberships w"
    "of_credentials w' = of_credentials w" by blast+
qed

text \<open>The ways a submission can go.\<close>

lemma save_credentials_cases:
  assumes run: "save_credentials ve kv r (visit, w) = (x, visit', w')"
  obtains c w0 where "get_connection (kv_provider kv) (visit, w) = (Inr c, visit, w0)" "list_ex (\<lambda>n. form_value r n = []) (kv_fields kv)"
      "refuse_setup ve kv c (form_fields r (kv_public kv)) (kv_missing kv) (visit, w0) = (x, visit', w')"
  | c w0 e where "get_connection (kv_provider kv) (visit, w) = (Inr c, visit, w0)" "\<not> list_ex (\<lambda>n. form_value r n = []) (kv_fields kv)"
      "store_credential ve (integration_id c) (JObj (form_fields r (kv_fields kv))) (visit, w0) = (Inl e, visit', w')" "x = Inl e"
  | c w0 w1 e w2 where "get_connection (kv_provider kv) (visit, w) = (Inr c, visit, w0)" "\<not> list_ex (\<lambda>n. form_value r n = []) (kv_fields kv)"
      "store_credential ve (integration_id c) (JObj (form_fields r (kv_fields kv))) (visit, w0) = (Inr (), visit, w1)"
      "try_key ve kv (integration_id c) (visit, w1) = (Inr (Some e), visit, w2)"
      "refuse_setup ve kv c (form_fields r (kv_public kv)) (verification_failed ve e) (visit, w2) = (x, visit', w')"
  | c w0 w1 w2 where "get_connection (kv_provider kv) (visit, w) = (Inr c, visit, w0)" "\<not> list_ex (\<lambda>n. form_value r n = []) (kv_fields kv)"
      "store_credential ve (integration_id c) (JObj (form_fields r (kv_fields kv))) (visit, w0) = (Inr (), visit, w1)"
      "try_key ve kv (integration_id c) (visit, w1) = (Inr None, visit, w2)"
      "chain (clear_setup_attempt c) (\<lambda>c. chain (clock ve) (\<lambda>now.
         chain (save_connection (integration_id c) (\<lambda>d. d\<lparr>is_active := True, connected_at := Some now\<rparr>)) (\<lambda>_.
         ret (Redirect (url_of ''list_integrations''))))) (visit, w2) = (x, visit', w')"
proof -
  obtain c w0 where g: "get_connection (kv_provider kv) (visit, w) = (Inr c, visit, w0)"
    by (cases "connection_of (kv_provider kv) (of_connections w)") (simp_all add: get_connection_def Let_def)
  note run = run[unfolded save_credentials_def Let_def chain_def[of "get_connection _"] g prod.case sum.case]
  show thesis
  proof (cases "list_ex (\<lambda>n. form_value r n = []) (kv_fields kv)")
    case True
    then show thesis using that(1)[OF g True] run by simp
  next
    case False
    let ?v = "JObj (form_fields r (kv_fields kv))"
    note run = run[unfolded if_not_P[OF False]]
    obtain rs visit1 w1 where st: "store_credential ve (integration_id c) ?v (visit, w0) = (rs, visit1, w1)" by (metis prod_cases3)
    then have v1: "visit1 = visit" by (cases rule: store_credential_cases) simp_all
    show thesis
    proof (cases rs)
      case (Inl e)
      with run st v1 show thesis by (intro that(2)[OF g False]) (auto simp: chain_def)
    next
      case (Inr u)
      obtain rt visit2 w2 where tr: "try_key ve kv (integration_id c) (visit, w1) = (rt, visit2, w2)" by (metis prod_cases3)
      then obtain failure where f: "rt = Inr failure" "visit2 = visit"
        by (auto simp: try_key_def split: sum.splits prod.splits)
      have st': "store_credential ve (integration_id c) ?v (visit, w0) = (Inr (), visit, w1)" using st v1 Inr by simp
      show thesis
      proof (cases failure)
        case None
        with run st' tr f show thesis by (intro that(4)[OF g False st', of w2]) (simp_all add: chain_def)
      next
        case (Some e)
        with run st' tr f show thesis by (intro that(3)[OF g False st', of e w2]) (simp_all add: chain_def)
      qed
    qed
  qed
qed

definition active :: "string \<Rightarrow> 's office \<Rightarrow> bool" where
  "active p w = (case connection_of p (of_connections w) of None \<Rightarrow> False | Some c \<Rightarrow> is_active c)"

lemma get_connection_active:
  assumes "get_connection p (visit, w) = (Inr c, visit, w0)" "unique_keys integration_id (of_connections w)"
  shows "active p w0 = active p w" "is_active c = active p w"
  using assms(1) get_connection_row(4)[OF assms]
  by (auto simp: active_def get_connection_def Let_def split: option.splits)

lemma refuse_setup_keeps:
  assumes run: "refuse_setup ve kv c public msg (visit, w) = (x, visit', w')" and ids: "unique_keys integration_id (of_connections w)"
    and c: "connection_of p (of_connections w) = Some c"
  shows "x \<noteq> Inr (Redirect url)" "active p w' = active p w" "of_credentials w' = of_credentials w"
    "q \<noteq> p \<Longrightarrow> connection_of q (of_connections w') = connection_of q (of_connections w)"
proof -
  from run have "x \<noteq> Inr (Redirect url) \<and> active p w' = active p w \<and> of_credentials w' = of_credentials w
    \<and> (q \<noteq> p \<longrightarrow> connection_of q (of_connections w') = connection_of q (of_connections w))"
  proof (cases rule: refuse_setup_cases)
    case (2 kvs now ctx)
    let ?f = "\<lambda>d. d\<lparr>meta := JObj (dict_put ''last_setup'' (setup_record public msg now) kvs)\<rparr>"
    have "connection_of q (of_connections w') = (if q = p then Some (?f c) else connection_of q (of_connections w))" for q
      unfolding 2(5) office.select_convs office.update_convs
      using connection_of_update[OF c ids, of ?f q] by simp
    with 2 c show ?thesis by (simp add: active_def)
  qed simp
  then show "x \<noteq> Inr (Redirect url)" "active p w' = active p w" "of_credentials w' = of_credentials w"
    "q \<noteq> p \<Longrightarrow> connection_of q (of_connections w') = connection_of q (of_connections w)" by blast+
qed

text \<open>The last steps of a verified submission.\<close>

lemma activation:
  assumes run: "chain (clear_setup_attempt c) (\<lambda>c. chain (clock ve) (\<lambda>now.
         chain (save_connection (integration_id c) (\<lambda>d. d\<lparr>is_active := True, connected_at := Some now\<rparr>)) (\<lambda>_.
         ret (Redirect url)))) (visit, w) = (x, visit', w')"
    and ids: "unique_keys integration_id (of_connections w)" and c: "connection_of p (of_connections w) = Some c"
  shows "\<exists>e. x = Inl e \<and> w' = w \<or> (\<exists>d. x = Inr (Redirect url) \<and> connection_of p (of_connections w') = Some d \<and> is_active d
      \<and> integration_id d = integration_id c \<and> connected_at d = Some (gw_wall (ce_gw (ve_client ve)) (of_service w)))"
    and "visit' = visit" "of_credentials w' = of_credentials w" "q \<noteq> p \<Longrightarrow> connection_of q (of_connections w') = connection_of q (of_connections w)"
proof -
  have "(\<exists>e. x = Inl e \<and> w' = w \<or> (\<exists>d. x = Inr (Redirect url) \<and> connection_of p (of_connections w') = Some d \<and> is_active d
      \<and> integration_id d = integration_id c \<and> connected_at d = Some (gw_wall (ce_gw (ve_client ve)) (of_service w))))
    \<and> visit' = visit \<and> of_credentials w' = of_credentials w \<and> (q \<noteq> p \<longrightarrow> connection_of q (of_connections w') = connection_of q (of_connections w))"
  proof (cases "meta_dict (meta c)")
    case (Inl e)
    with run show ?thesis by (auto simp: clear_setup_attempt_def chain_def lift_result_def)
  next
    case (Inr kvs)
    let ?m = "JObj (filter (\<lambda>(k, _). k \<noteq> ''last_setup'') kvs)" and ?now = "gw_wall (ce_gw (ve_client ve)) (of_service w)"
    let ?f = "\<lambda>d. d\<lparr>meta := ?m\<rparr>" and ?g = "\<lambda>d. d\<lparr>is_active := True, connected_at := Some ?now\<rparr>"
    let ?rows = "map (\<lambda>d. if integration_id d = integration_id c then ?f d else d) (of_connections w)"
    have rows: "connection_of q ?rows = (if q = p then Some (?f c) else connection_of q (of_connections w))" for q
      using connection_of_update[OF c ids, of ?f q] by simp
    have "map integration_id ?rows = map integration_id (of_connections w)" by simp
    with ids have ids': "unique_keys integration_id ?rows" by (simp only: unique_keys_def)
    have eq: "x = Inr (Redirect url)" "visit' = visit"
      "w' = w\<lparr>of_connections := map (\<lambda>d. if integration_id d = integration_id c then ?g d else d) ?rows\<rparr>"
      using run Inr by (simp_all add: clear_setup_attempt_def chain_def lift_result_def save_meta_eq clock_def save_connection_def ret_def)
    have "connection_of q (of_connections w') = (if q = p then Some (?g (?f c)) else connection_of q ?rows)" for q
      using connection_of_update[of p ?rows "?f c" ?g q] rows[of p] ids' by (simp add: eq(3))
    with rows eq show ?thesis by simp
  qed
  then show "\<exists>e. x = Inl e \<and> w' = w \<or> (\<exists>d. x = Inr (Redirect url) \<and> connection_of p (of_connections w') = Some d \<and> is_active d
      \<and> integration_id d = integration_id c \<and> connected_at d = Some (gw_wall (ce_gw (ve_client ve)) (of_service w)))"
    and "visit' = visit" "of_credentials w' = of_credentials w" "q \<noteq> p \<Longrightarrow> connection_of q (of_connections w') = connection_of q (of_connections w)"
    by blast+
qed

text \<open>A verified submission: the credential holds the form's values, and the provider answered with them.\<close>

definition verified :: "'s view_env \<Rightarrow> 's key_view \<Rightarrow> request \<Rightarrow> visit \<Rightarrow> 's office \<Rightarrow> bool" where
  "verified ve kv r visit w' \<longleftrightarrow>
     (\<exists>c w1 w2 enc s. connection_of (kv_provider kv) (of_connections w') = Some c
        \<and> set_tokens (ce_gw (ve_client ve)) (JObj (form_fields r (kv_fields kv))) s = Inr enc
        \<and> held_tokens (of_credentials w1) (integration_id c) = enc
        \<and> try_key ve kv (integration_id c) (visit, w1) = (Inr None, visit, w2)
        \<and> held_tokens (of_credentials w') (integration_id c) = enc)"

text \<open>
  C10. Submitting a setup form leaves the rows of all other integrations alone. If it succeeds, its own is active and the provider accepted the
  values submitted, which are the stored ones; otherwise it is as active or inactive as before, though the values may be stored.
\<close>

theorem setup_activates_verified:
  assumes "kv \<in> set (key_views ve)" "unique_keys integration_id (of_connections w)"
    and "save_credentials ve kv r (visit, w) = (x, visit', w')"
  shows "(\<forall>q. q \<noteq> kv_provider kv \<longrightarrow> connection_of q (of_connections w') = connection_of q (of_connections w))
    \<and> (if x = Inr (Redirect (url_of ''list_integrations'')) then active (kv_provider kv) w' \<and> verified ve kv r visit w'
       else active (kv_provider kv) w' = active (kv_provider kv) w)"
proof -
  let ?p = "kv_provider kv" and ?url = "url_of ''list_integrations''"
  have *: "(q \<noteq> ?p \<longrightarrow> connection_of q (of_connections w') = connection_of q (of_connections w))
    \<and> (if x = Inr (Redirect ?url) then active ?p w' \<and> verified ve kv r visit w' else active ?p w' = active ?p w)" for q
    using assms(3)
  proof (cases rule: save_credentials_cases)
    case (1 c w0)
    note g = get_connection_row[OF 1(1) assms(2)]
    from refuse_setup_keeps[OF 1(3) g(5,4)] g(6) get_connection_active[OF 1(1) assms(2)] show ?thesis by simp
  next
    case (2 c w0 e)
    note g = get_connection_row[OF 2(1) assms(2)]
    from 2(3) have "of_connections w' = of_connections w0" by (cases rule: store_credential_cases) simp_all
    with 2(4) g(6) get_connection_active[OF 2(1) assms(2)] show ?thesis by (simp add: active_def)
  next
    case (3 c w0 w1 e w2)
    note g = get_connection_row[OF 3(1) assms(2)]
    from 3(3) have "of_connections w1 = of_connections w0" by (cases rule: store_credential_cases) simp_all
    with try_key_effect(3)[OF 3(4) assms(1)] have w2: "of_connections w2 = of_connections w0" by simp
    have "unique_keys integration_id (of_connections w2)" "connection_of ?p (of_connections w2) = Some c" using g(4,5) w2 by simp_all
    note rf = refuse_setup_keeps[OF 3(5) this]
    have "active ?p w2 = active ?p w" using get_connection_active[OF 3(1) assms(2)] w2 by (simp add: active_def)
    with rf w2 g(6) show ?thesis by simp
  next
    case (4 c w0 w1 w2)
    note g = get_connection_row[OF 4(1) assms(2)]
    have w1: "of_connections w1 = of_connections w0"
      using 4(3) by (cases rule: store_credential_cases) simp_all
    obtain enc where enc: "set_tokens (ce_gw (ve_client ve)) (JObj (form_fields r (kv_fields kv))) (of_service w0) = Inr enc"
        "held_tokens (of_credentials w1) (integration_id c) = enc"
      using 4(3) by (cases rule: store_credential_cases) simp_all
    note t = try_key_effect[OF 4(4) assms(1)]
    have "unique_keys integration_id (of_connections w2)" "connection_of ?p (of_connections w2) = Some c" using g(4,5) w1 t(3) by simp_all
    note a = activation[OF 4(5) this]
    have same: "q \<noteq> ?p \<longrightarrow> connection_of q (of_connections w') = connection_of q (of_connections w)"
      using a(4)[of q] g(6)[of q] w1 t(3) by simp
    from a(1) show ?thesis
    proof (elim exE disjE conjE)
      fix e assume "x = Inl e" "w' = w2"
      then show ?thesis using same get_connection_active[OF 4(1) assms(2)] w1 t(3) by (simp add: active_def)
    next
      fix d assume d: "x = Inr (Redirect ?url)" "connection_of ?p (of_connections w') = Some d" "is_active d" "integration_id d = integration_id c"
      have "held_tokens (of_credentials w') (integration_id c) = enc" using a(3) t(5) enc(2) by simp
      then have "verified ve kv r visit w'" unfolding verified_def
        by (intro exI[of _ d] exI[of _ w1] exI[of _ w2] exI[of _ enc] exI[of _ "of_service w0"]) (simp add: d enc 4(4))
      with d same show ?thesis by (simp add: active_def)
    qed
  qed
  show ?thesis using * by auto
qed

text \<open>
  C11. A refused form leaves in \<open>meta.last_setup\<close>, and shows again, only the fields that are no secrets, and the message: that a value
  is missing, or the text of the exception the provider's client raised.
\<close>

theorem refused_setup_shows_public_fields:
  assumes "kv \<in> set (key_views ve)" "unique_keys integration_id (of_connections w)"
    and "save_credentials ve kv r (visit, w) = (Inr (Page code template ctx), visit', w')"
  shows "\<exists>c' kvs msg now. connection_of (kv_provider kv) (of_connections w') = Some c'
      \<and> meta c' = JObj (dict_put ''last_setup'' (setup_record (form_fields r (kv_public kv)) msg now) kvs)
      \<and> (\<forall>c. connection_of (kv_provider kv) (of_connections w) = Some c \<longrightarrow> meta_dict (meta c) = Inr kvs)
      \<and> (msg = kv_missing kv \<or> (\<exists>e. msg = verification_failed ve e))
      \<and> ctx = [(''integration'', integration_value (Some c')), (''error'', JStr msg), (''last_error'', or_else (JStr msg) (JStr [])), (''last_at'', or_else (JStr (isoformat now)) (JStr [])),
               (''last_fields'', or_else (JObj (form_fields r (kv_public kv))) (JObj []))]
      \<and> set (kv_public kv) \<inter> {''api_key'', ''token'', ''api_token''} = {}"
proof -
  let ?p = "kv_provider kv"
  have public: "set (kv_public kv) \<inter> {''api_key'', ''token'', ''api_token''} = {}"
    using assms(1) by (auto simp: key_views_def caflou_setup_def ecomail_setup_def fapi_setup_def raynet_setup_def
        smartemailing_setup_def trello_setup_def)
  have refused: ?thesis
    if g: "get_connection ?p (visit, w) = (Inr c, visit, w0)" and same: "of_connections w1 = of_connections w0"
      and run: "refuse_setup ve kv c (form_fields r (kv_public kv)) msg (visit, w1) = (Inr (Page code template ctx), visit', w')"
      and msg: "msg = kv_missing kv \<or> (\<exists>e. msg = verification_failed ve e)" for c w0 w1 msg
  proof -
    note row = get_connection_row[OF g assms(2)]
    from run show ?thesis
    proof (cases rule: refuse_setup_cases)
      case (2 kvs now ctx')
      let ?f = "\<lambda>d. d\<lparr>meta := JObj (dict_put ''last_setup'' (setup_record (form_fields r (kv_public kv)) msg now) kvs)\<rparr>"
      have "connection_of ?p (of_connections w') = Some (?f c)"
        unfolding 2(5) office.select_convs office.update_convs using connection_of_update[of ?p "of_connections w1" c ?f ?p] row(4,5) same by simp
      moreover have "c = c0" if "connection_of ?p (of_connections w) = Some c0" for c0
        using g that by (simp add: get_connection_def)
      ultimately show ?thesis using 2 msg public
        by (intro exI[of _ "?f c"] exI[of _ kvs] exI[of _ msg] exI[of _ now]) auto
    qed simp
  qed
  from assms(3) show ?thesis
  proof (cases rule: save_credentials_cases)
    case (1 c w0)
    then show ?thesis by (intro refused[of c w0 w0 "kv_missing kv"]) simp_all
  next
    case (3 c w0 w1 e w2)
    have "of_connections w1 = of_connections w0" using 3(3) by (cases rule: store_credential_cases) simp_all
    with try_key_effect(3)[OF 3(4) assms(1)] 3 show ?thesis by (intro refused[of c w0 w2 "verification_failed ve e"]) auto
  next
    case (4 c w0 w1 w2)
    have "x = Inl e \<or> x = Inr (Redirect url)" if "chain (clear_setup_attempt c) (\<lambda>c. chain (clock ve) (\<lambda>now.
         chain (save_connection (integration_id c) (\<lambda>d. d\<lparr>is_active := True, connected_at := Some now\<rparr>)) (\<lambda>_.
         ret (Redirect url)))) s = (x, s')" "\<And>e'. x = Inl e' \<Longrightarrow> e' = e" for x e url s s'
      using that by (cases x) (auto simp: chain_Inr_iff)
    from this[OF 4(5)] show ?thesis by auto
  qed auto
qed

text \<open>
  Trying other values in the form of an active integration that the provider refuses leaves it active, with those values in place
  of the ones that worked.
\<close>

theorem refused_setup_replaces_tokens:
  assumes "kv \<in> set (key_views ve)" "unique_keys integration_id (of_connections w)"
    and "connection_of (kv_provider kv) (of_connections w) = Some c" "is_active c"
    and "list_all (\<lambda>n. form_value r n \<noteq> []) (kv_fields kv)"
    and "save_credentials ve kv r (visit, w) = (Inr (Page code template ctx), visit', w')"
  shows "\<exists>c' enc. connection_of (kv_provider kv) (of_connections w') = Some c' \<and> is_active c'
      \<and> set_tokens (ce_gw (ve_client ve)) (JObj (form_fields r (kv_fields kv))) (of_service w) = Inr enc
      \<and> held_tokens (of_credentials w') (integration_id c) = enc"
  using assms(6)
proof (cases rule: save_credentials_cases)
  case (3 c0 w0 w1 e w2)
  have c0: "c0 = c" "w0 = w" using 3(1) assms(3) by (simp_all add: get_connection_def)
  from 3(3) obtain enc where enc: "set_tokens (ce_gw (ve_client ve)) (JObj (form_fields r (kv_fields kv))) (of_service w) = Inr enc"
      "held_tokens (of_credentials w1) (integration_id c) = enc" "of_connections w1 = of_connections w"
    unfolding c0 by (cases rule: store_credential_cases) simp_all
  note t = try_key_effect[OF 3(4) assms(1)]
  have rows: "unique_keys integration_id (of_connections w2)" "connection_of (kv_provider kv) (of_connections w2) = Some c0"
    using t(3) enc(3) assms(2,3) c0 by simp_all
  note rf = refuse_setup_keeps[OF 3(5) rows]
  have "active (kv_provider kv) w'" using rf(2) rows assms(4) c0 by (simp add: active_def)
  then obtain c' where "connection_of (kv_provider kv) (of_connections w') = Some c'" "is_active c'"
    by (auto simp: active_def split: option.splits)
  with enc rf(3) t(5) show ?thesis by auto
next
  case (4 c0 w0 w1 w2)
  then show ?thesis by (auto simp: chain_Inr_iff)
qed (use assms(5) in \<open>auto simp: list_ex_iff list_all_iff\<close>)

section \<open>Samples\<close>

text \<open>Caflou's form with a service that answers with \<open>code\<close>; the integration was connected before.\<close>

definition sample_key_views :: "nat \<Rightarrow> rat view_env" where
  "sample_key_views code = sample_views\<lparr>ve_providers := sample_providers\<lparr>pv_client :=
     \<lparr>ce_gw = sample_gw\<lparr>gw_loads := (\<lambda>x. Inr (JObj [(''api_token'', JStr ''t'')]))\<rparr>,
      ce_web = \<lparr>wb_get = (\<lambda>url rq s. (Inr \<lparr>status_code = code, body = JObj []\<rparr>, s)), wb_post = (\<lambda>url rq s. (Inl TypeError, s)),
        wb_setting = (\<lambda>n. None)\<rparr>,
      ce_text = (\<lambda>e. ''401'')\<rparr>\<rparr>\<rparr>"

definition sample_form :: request where
  "sample_form = sample_request\<lparr>hr_path := ''/integrations/caflou/save/'', hr_post := [(''api_token'', '' t '')]\<rparr>"

definition sample_caflou :: connection where
  "sample_caflou = \<lparr>integration_id = 0, integration_provider = ''caflou'', is_active = True, last_sync_at = None, meta = JObj [], connected_at = Some 1\<rparr>"

definition sample_key_office :: "rat office" where
  "sample_key_office = \<lparr>of_service = 5, of_connections = [sample_caflou],
     of_credentials = [\<lparr>cr_integration = 0, cr_tokens = ''old'', cr_updated_at = 0\<rparr>], of_memberships = [sample_member OWNER]\<rparr>"

lemma sample_key_simps:
  "gw_wall (ce_gw (ve_client (sample_key_views code))) s = s"
  "set_tokens (ce_gw (ve_client (sample_key_views code))) v s = Inr ''new''"
  "get_tokens (ce_gw (ve_client (sample_key_views code))) y = Inr (JObj [(''api_token'', JStr ''t'')])"
  "wb_get (ce_web (ve_client (sample_key_views code))) url rq s = (Inr \<lparr>status_code = code, body = JObj []\<rparr>, s)"
  "ce_text (ve_client (sample_key_views code)) e = ''401''"
  by (simp_all add: sample_key_views_def ve_client_def set_tokens_def get_tokens_def fernet_key_def sample_gw_simps min_key_length_def)

lemma sample_form_value: "form_value sample_form ''api_token'' = ''t''"
  unfolding form_value_def sample_form_def by (simp add: str_strip_def is_space_def)

lemma sample_caflou_view:
  "kv_provider (caflou_setup ve) = ''caflou''" "kv_fields (caflou_setup ve) = [''api_token'']" "kv_public (caflou_setup ve) = []"
  "kv_connector (caflou_setup ve) = caflou_connector" "kv_ping (caflou_setup ve) = caflou_ping (ve_client ve)"
  "caflou_setup ve \<in> set (key_views ve)"
  by (simp_all add: caflou_setup_def key_views_def)

lemma sample_key_run:
  "\<exists>x visit' w'. save_credentials (sample_key_views code) (caflou_setup (sample_key_views code)) sample_form (Map.empty, sample_key_office)
      = (x, visit', w')
    \<and> (code = 200 \<longrightarrow> x = Inr (Redirect (url_of ''list_integrations'')))
    \<and> (code = 401 \<longrightarrow> (\<exists>template ctx. x = Inr (Page 400 template ctx)))"
proof -
  let ?ve = "sample_key_views code"
  have key: "try_key ?ve (caflou_setup ?ve) 0 (visit, w) = (Inr (if 200 \<le> code \<and> code < 300 then None else Some (HTTPStatusError code)), visit, w)"
    if "lookup cr_integration (of_credentials w) 0 \<noteq> None" for visit and w :: "rat office"
    using that
    by (auto simp: try_key_def sample_caflou_view open_api_def sample_key_simps caflou_connector_def key_connector_def caflou_session_def
        required_def or_else_def dict_get_def caflou_ping_def endpoint_def api_get_def api_send_def Let_def no_headers_def with_service_def
        chain_def lift_result_def raise_for_status_def dict_value_def)
  show ?thesis
    by (simp add: save_credentials_def Let_def sample_caflou_view sample_form_value chain_def get_connection_def connection_of_def
        sample_key_office_def sample_caflou_def store_credential_def sample_key_simps with_credential_def lookup_Cons save_tokens_def key
        refuse_setup_def record_setup_attempt_def lift_result_def meta_dict_def or_else_def clock_def save_meta_eq
        last_setup_context_def clear_setup_attempt_def save_connection_def ret_def dict_put_def dict_merge_def dict_get_def setup_record_def) auto
qed

lemma sample_key_ids: "unique_keys integration_id (of_connections sample_key_office)"
  by (simp add: unique_keys_def sample_key_office_def)

lemma sample_key_row: "connection_of ''caflou'' (of_connections sample_key_office) = Some sample_caflou"
  by (simp add: sample_key_office_def connection_of_def sample_caflou_def)

lemma setup_activates_verified_witness:
  "\<exists>visit' w'. save_credentials (sample_key_views 200) (caflou_setup (sample_key_views 200)) sample_form (Map.empty, sample_key_office)
      = (Inr (Redirect (url_of ''list_integrations'')), visit', w')
    \<and> active ''caflou'' w' \<and> verified (sample_key_views 200) (caflou_setup (sample_key_views 200)) sample_form Map.empty w'"
proof -
  obtain visit' w' where run: "save_credentials (sample_key_views 200) (caflou_setup (sample_key_views 200)) sample_form (Map.empty, sample_key_office)
      = (Inr (Redirect (url_of ''list_integrations'')), visit', w')"
    using sample_key_run[of 200] by auto
  from setup_activates_verified[OF sample_caflou_view(6) sample_key_ids run] run show ?thesis by (simp add: sample_caflou_view)
qed

lemma refused_setup_shows_public_fields_witness:
  "\<exists>template ctx visit' w' c' msg now. save_credentials (sample_key_views 401) (caflou_setup (sample_key_views 401)) sample_form (Map.empty, sample_key_office)
      = (Inr (Page 400 template ctx), visit', w')
    \<and> connection_of ''caflou'' (of_connections w') = Some c'
    \<and> meta c' = JObj (dict_put ''last_setup'' (setup_record [] msg now) [])"
proof -
  obtain template ctx visit' w' where run: "save_credentials (sample_key_views 401) (caflou_setup (sample_key_views 401)) sample_form (Map.empty, sample_key_office)
      = (Inr (Page 400 template ctx), visit', w')"
    using sample_key_run[of 401] by auto
  have kvs: "meta_dict (meta sample_caflou) = Inr kvs \<longleftrightarrow> kvs = []" for kvs by (auto simp: sample_caflou_def meta_dict_def or_else_def)
  from refused_setup_shows_public_fields[OF sample_caflou_view(6) sample_key_ids run] run show ?thesis
    by (auto simp: sample_caflou_view sample_key_row kvs form_fields_def)
qed

lemma refused_setup_replaces_tokens_witness:
  "\<exists>template ctx visit' w' c' enc. save_credentials (sample_key_views 401) (caflou_setup (sample_key_views 401)) sample_form (Map.empty, sample_key_office)
      = (Inr (Page 400 template ctx), visit', w')
    \<and> connection_of ''caflou'' (of_connections w') = Some c' \<and> is_active c'
    \<and> held_tokens (of_credentials sample_key_office) 0 = ''old'' \<and> held_tokens (of_credentials w') 0 = ''new''"
proof -
  obtain template ctx visit' w' where run: "save_credentials (sample_key_views 401) (caflou_setup (sample_key_views 401)) sample_form (Map.empty, sample_key_office)
      = (Inr (Page 400 template ctx), visit', w')"
    using sample_key_run[of 401] by auto
  have row: "connection_of (kv_provider (caflou_setup (sample_key_views 401))) (of_connections sample_key_office) = Some sample_caflou"
    by (simp add: sample_caflou_view sample_key_row)
  from refused_setup_replaces_tokens[OF sample_caflou_view(6) sample_key_ids row _ _ run] run show ?thesis
    by (auto simp: sample_caflou_view sample_form_value sample_key_simps sample_caflou_def)
      (simp add: held_tokens_def sample_key_office_def lookup_Cons)
qed

end
