(* ===== verification/Insights.thy ===== *)
theory Insights
  imports PipelineVelocity GoogleWorkspace Knowledge
begin

text \<open>
  The insight functions of \<open>data_access/insight_functions/\<close> (\<open>finance\<close>, \<open>people\<close>, \<open>strategic\<close>, \<open>marketing\<close>, \<open>projects\<close>, \<open>slack\<close>,
  \<open>knowledge\<close>; \<open>sales\<close> is in \<open>PipelineVelocity\<close>), and \<open>core/cache.py\<close>, which keeps the results of five of them for each
  tenant. They read the snapshots and the KPIs entered by hand. Pickling is the identity, the digest of a
  call's arguments a parameter; the standard deviation is a real number, all other numbers are rationals.
\<close>

record manual_kpi =
  mk_name :: string
  mk_value :: rat
  mk_period_end :: int

text \<open>The tables of a tenant that the functions read.\<close>

record insight_tables =
  it_snapshots :: "data_snapshot list"
  it_kpis :: "manual_kpi list"

definition insufficient :: "string \<Rightarrow> (insight_error, 'a) result" where
  "insufficient msg = Inl (InsufficientData msg)"

definition raising :: "(py_error, 'a) result \<Rightarrow> (insight_error, 'a) result" where
  "raising r = (case r of Inl e \<Rightarrow> Inl (Other_exception e) | Inr x \<Rightarrow> Inr x)"

text \<open>\<open>filter(name=name).order_by("-period_end").first()\<close>\<close>

definition latest_kpi :: "manual_kpi list \<Rightarrow> string \<Rightarrow> manual_kpi option" where
  "latest_kpi rows name =
     (case sort_key (\<lambda>r. - mk_period_end r) (filter (\<lambda>r. mk_name r = name) rows) of [] \<Rightarrow> None | r # _ \<Rightarrow> Some r)"

text \<open>\<open>filter(source=source, period_end__gte=day).order_by("-period_end").first()\<close>\<close>

definition latest_since :: "string \<Rightarrow> int \<Rightarrow> data_snapshot list \<Rightarrow> data_snapshot option" where
  "latest_since source day rows = latest_snapshot [source] (filter (\<lambda>r. day \<le> snap_period_end r) rows)"

section \<open>Finance\<close>

text \<open>\<open>runway_months = None\<close> is \<open>float("inf")\<close>.\<close>

record cashflow_snapshot =
  as_of :: int
  cash_on_hand :: rat
  monthly_revenue :: rat
  monthly_expenses :: rat
  runway_months :: "rat option"
  cf_quality :: string

definition get_cashflow_snapshot :: "insight_tables \<Rightarrow> rat \<Rightarrow> (insight_error, cashflow_snapshot) result" where
  "get_cashflow_snapshot db now =
     (case (latest_kpi (it_kpis db) ''cash_on_hand'', latest_kpi (it_kpis db) ''monthly_expenses'') of
        (Some cash, Some expenses) \<Rightarrow>
          (let revenue = latest_kpi (it_kpis db) ''revenue'';
               revenue_value = (case revenue of None \<Rightarrow> 0 | Some k \<Rightarrow> mk_value k);
               burn = mk_value expenses - revenue_value
           in Inr \<lparr>as_of = day_of now, cash_on_hand = mk_value cash, monthly_revenue = revenue_value,
                monthly_expenses = mk_value expenses,
                runway_months = (if burn \<le> 0 then None else Some (py_round 2 (mk_value cash / burn))),
                cf_quality = (if revenue = None then ''partial'' else ''high'')\<rparr>)
      | _ \<Rightarrow> insufficient ''cash_on_hand and monthly_expenses are required'')"

section \<open>People\<close>

record team_activity =
  ta_period_start :: int
  ta_period_end :: int
  calendar_events :: int
  email_threads :: int
  unique_correspondents :: int
  ta_quality :: string

text \<open>\<open>int(v.get(k, d) or 0)\<close>\<close>

definition int_default :: "json \<Rightarrow> string \<Rightarrow> json \<Rightarrow> (py_error, int) result" where
  "int_default v k d = andthen (jget_or v k d) (\<lambda>x. py_int (or_else x (JInt 0)))"

definition team_activity_of :: "json \<Rightarrow> int \<Rightarrow> int \<Rightarrow> (py_error, team_activity) result" where
  "team_activity_of metrics start today =
     andthen (section_data metrics ''calendar'') (\<lambda>cal.
     andthen (section_data metrics ''email'') (\<lambda>mail.
     andthen (int_default cal ''count'' (JInt 0)) (\<lambda>events.
     andthen (jget_or mail ''count'' (JInt 0)) (\<lambda>n.
     andthen (int_default mail ''thread_count'' n) (\<lambda>threads.
     andthen (int_default mail ''unique_senders'' (JInt 0)) (\<lambda>correspondents.
     Inr \<lparr>ta_period_start = start, ta_period_end = today, calendar_events = events, email_threads = threads,
       unique_correspondents = correspondents,
       ta_quality = (if events \<noteq> 0 \<and> threads \<noteq> 0 then ''high'' else ''partial'')\<rparr>))))))"

definition get_team_activity_summary :: "int \<Rightarrow> insight_tables \<Rightarrow> rat \<Rightarrow> (insight_error, team_activity) result" where
  "get_team_activity_summary period_days db now =
     (let today = day_of now
      in case minus_days today period_days of
           Inl e \<Rightarrow> Inl (Other_exception e)
         | Inr start \<Rightarrow>
             (case latest_since ''google_workspace'' start (it_snapshots db) of
                None \<Rightarrow> insufficient ''no Google Workspace snapshot for requested period''
              | Some snap \<Rightarrow> raising (team_activity_of (snap_metrics snap) start today)))"

record commitment =
  starts_at :: rat
  cm_title :: string
  cm_source :: string

text \<open>One event of the loop; \<open>None\<close> is \<open>continue\<close>. A time without an offset is UTC.\<close>

definition commitment_of :: "rat \<Rightarrow> json \<Rightarrow> (py_error, commitment option) result" where
  "commitment_of horizon ev =
     andthen (jget ev ''start'') (\<lambda>start.
     if \<not> truth start then Inr None
     else case fromisoformat (zulu (py_str start)) of
            None \<Rightarrow> Inr None
          | Some (day, secs, off) \<Rightarrow>
              (let dt = of_int (86400 * day) + secs - (case off of None \<Rightarrow> 0 | Some o' \<Rightarrow> o')
               in if horizon < dt then Inr None
                  else andthen (jget_or ev ''title'' (JStr [])) (\<lambda>title. Inr (Some
                    \<lparr>starts_at = dt, cm_title = py_str title, cm_source = ''google_calendar''\<rparr>))))"

text \<open>\<open>timezone.now() + timedelta(days=days)\<close>; the dates run to 9999-12-31.\<close>

definition horizon_of :: "rat \<Rightarrow> int \<Rightarrow> (py_error, rat) result" where
  "horizon_of now days = andthen (minus_days (day_of now) (- days)) (\<lambda>_. Inr (now + of_int (86400 * days)))"

definition commitments_of :: "json \<Rightarrow> rat \<Rightarrow> int \<Rightarrow> (py_error, commitment list) result" where
  "commitments_of metrics now days_ahead =
     andthen (get_or metrics ''calendar'' (JObj [])) (\<lambda>cal.
     andthen (jget_or cal ''data'' (JObj [])) (\<lambda>d.
     andthen (get_or d ''upcoming'' (JList [])) (\<lambda>events.
     andthen (horizon_of now days_ahead) (\<lambda>horizon.
     andthen (jiter events) (\<lambda>evs.
     andthen (map_result (commitment_of horizon) evs) (\<lambda>cs. Inr (List.map_filter id cs)))))))"

definition get_upcoming_commitments :: "int \<Rightarrow> insight_tables \<Rightarrow> rat \<Rightarrow> (insight_error, commitment list) result" where
  "get_upcoming_commitments days_ahead db now =
     (case latest_snapshot [''google_workspace''] (it_snapshots db) of
        None \<Rightarrow> Inr []
      | Some snap \<Rightarrow> raising (commitments_of (snap_metrics snap) now days_ahead))"

section \<open>Strategy\<close>

text \<open>\<open>_metric\<close>: a \<open>TypeError\<close> or \<open>ValueError\<close> of the conversion counts as 0, another exception is raised.\<close>

definition metric_of :: "data_snapshot option \<Rightarrow> string \<Rightarrow> string \<Rightarrow> (py_error, int) result" where
  "metric_of snap section key =
     (case snap of
        None \<Rightarrow> Inr 0
      | Some s \<Rightarrow>
          andthen (section_data (snap_metrics s) section) (\<lambda>d.
          case int_default d key (JInt 0) of
            Inl TypeError \<Rightarrow> Inr 0
          | Inl ValueError \<Rightarrow> Inr 0
          | r \<Rightarrow> r))"

record weekly_metrics =
  wm_period_start :: int
  wm_period_end :: int
  email_count :: int
  wm_calendar_events :: int
  drive_changes :: int
  manual_kpis :: "(string \<times> rat) list"
  wm_quality :: string

definition kpi_values :: "manual_kpi list \<Rightarrow> (string \<times> rat) list" where
  "kpi_values rows = List.map_filter (\<lambda>n. map_option (\<lambda>k. (n, mk_value k)) (latest_kpi rows n))
     [''revenue'', ''cash_on_hand'', ''monthly_expenses'']"

definition get_weekly_metrics :: "insight_tables \<Rightarrow> rat \<Rightarrow> (insight_error, weekly_metrics) result" where
  "get_weekly_metrics db now =
     (let today = day_of now
      in case minus_days today 7 of
           Inl e \<Rightarrow> Inl (Other_exception e)
         | Inr start \<Rightarrow>
             (let snaps = sort_key (\<lambda>r. - snap_period_end r) (filter (\<lambda>r. start \<le> snap_period_end r) (it_snapshots db));
                  latest_gw = find (\<lambda>s. snap_source s = ''google_workspace'') snaps;
                  kpis = kpi_values (it_kpis db)
              in case andthen (metric_of latest_gw ''email'' ''count'') (\<lambda>mails.
                      andthen (metric_of latest_gw ''calendar'' ''count'') (\<lambda>events.
                      andthen (metric_of latest_gw ''drive'' ''count'') (\<lambda>files. Inr (mails, events, files)))) of
                   Inl e \<Rightarrow> Inl (Other_exception e)
                 | Inr (mails, events, files) \<Rightarrow>
                     if latest_gw = None \<and> kpis = [] then insufficient ''no snapshots or manual KPIs available''
                     else Inr \<lparr>wm_period_start = start, wm_period_end = today, email_count = mails, wm_calendar_events = events,
                       drive_changes = files, manual_kpis = kpis,
                       wm_quality = (if latest_gw \<noteq> None \<and> 2 \<le> length kpis then ''high'' else ''partial'')\<rparr>))"

text \<open>\<open>statistics.fmean\<close>, the population variance behind \<open>statistics.pstdev\<close>, and \<open>round(z, 2)\<close> of a real.\<close>

definition round_real :: "real \<Rightarrow> real" where
  "round_real z =
     (let k = \<lfloor>100 * z\<rfloor>; f = 100 * z - of_int k
      in of_int (if f < 1 / 2 \<or> (f = 1 / 2 \<and> even k) then k else k + 1) / 100)"

definition mean_of :: "int list \<Rightarrow> rat" where
  "mean_of vs = of_int (sum_list vs) / of_nat (length vs)"

definition variance_of :: "int list \<Rightarrow> rat" where
  "variance_of vs = sum_list (map (\<lambda>v. (of_int v - mean_of vs)\<^sup>2) vs) / of_nat (length vs)"

definition stdev_of :: "int list \<Rightarrow> real" where
  "stdev_of vs = (let s = sqrt (of_rat (variance_of vs)) in if s = 0 then 1 else s)"

record anomaly =
  an_observed :: int
  baseline_mean :: rat
  baseline_stdev :: real
  z_score :: real
  direction :: string
  observed_at :: int

definition anomaly_of :: "int list \<Rightarrow> int \<Rightarrow> int \<Rightarrow> anomaly option" where
  "anomaly_of vs day v =
     (let z = of_rat (of_int v - mean_of vs) / stdev_of vs
      in if 2 \<le> \<bar>z\<bar>
         then Some \<lparr>an_observed = v, baseline_mean = mean_of vs, baseline_stdev = stdev_of vs, z_score = round_real z,
                direction = (if 0 < z then ''spike'' else ''drop''), observed_at = day\<rparr>
         else None)"

definition get_recent_anomalies :: "int \<Rightarrow> insight_tables \<Rightarrow> rat \<Rightarrow> (insight_error, anomaly list) result" where
  "get_recent_anomalies period_days db now =
     (case minus_days (day_of now) period_days of
        Inl e \<Rightarrow> Inl (Other_exception e)
      | Inr cutoff \<Rightarrow>
          (let series = sort_key snap_period_end
                 (filter (\<lambda>r. snap_source r = ''google_workspace'' \<and> cutoff \<le> snap_period_end r) (it_snapshots db))
           in if length series < 5 then Inr []
              else case map_result (\<lambda>s. metric_of (Some s) ''email'' ''count'') series of
                     Inl e \<Rightarrow> Inl (Other_exception e)
                   | Inr vs \<Rightarrow> Inr (List.map_filter (\<lambda>(s, v). anomaly_of vs (snap_period_end s) v) (zip series vs))))"

section \<open>Marketing\<close>

definition marketing_sources :: "string list" where
  "marketing_sources = [''smartemailing'', ''ecomail'', ''mailchimp'']"

record marketing_funnel =
  mf_source :: string
  total_contacts :: int
  list_count :: int
  delivered :: int
  open_rate :: rat
  ctr :: rat
  top_campaigns :: "json list"
  mf_quality :: string

definition marketing_funnel_of :: "string \<Rightarrow> json \<Rightarrow> (py_error, marketing_funnel) result" where
  "marketing_funnel_of source metrics =
     andthen (section_data metrics ''audience'') (\<lambda>audience.
     andthen (section_data metrics ''campaigns'') (\<lambda>campaigns.
     andthen (int_at audience ''total_contacts'') (\<lambda>contacts.
     andthen (int_at audience ''list_count'') (\<lambda>n.
     andthen (int_at campaigns ''delivered'') (\<lambda>sent.
     andthen (float_at campaigns ''open_rate'') (\<lambda>opened.
     andthen (float_at campaigns ''ctr'') (\<lambda>clicked.
     andthen (get_or campaigns ''top'' (JList [])) (\<lambda>v.
     andthen (jiter v) (\<lambda>best.
     Inr \<lparr>mf_source = source, total_contacts = contacts, list_count = n, delivered = sent, open_rate = opened, ctr = clicked,
       top_campaigns = take 5 best,
       mf_quality = (if contacts = 0 \<and> sent = 0 then ''low'' else if sent = 0 \<or> best = [] then ''partial'' else ''high'')\<rparr>)))))))))"

definition get_marketing_funnel :: "insight_tables \<Rightarrow> (insight_error, marketing_funnel) result" where
  "get_marketing_funnel db =
     (case latest_snapshot marketing_sources (it_snapshots db) of
        None \<Rightarrow> insufficient (''No e-mail marketing snapshot available yet. Connect ''
          @ ''SmartEmailing / Ecomail / Mailchimp to populate this card.'')
      | Some snapshot \<Rightarrow> raising (marketing_funnel_of (snap_source snapshot) (or_else (snap_metrics snapshot) (JObj []))))"

section \<open>Projects\<close>

definition pm_sources :: "string list" where
  "pm_sources = [''trello'', ''asana'', ''jira'', ''basecamp'']"

record project_throughput =
  pt_source :: string
  boards :: int
  total_items :: int
  open_items :: int
  overdue_items :: int
  completed_items :: int
  activity_count :: int
  active_members :: int
  top_boards :: "json list"
  pt_quality :: string

text \<open>\<open>(v.get(section) or {}).get(key, 0)\<close>, and the key of a sort: keys that are no numbers are taken to raise.\<close>

definition nested :: "json \<Rightarrow> string \<Rightarrow> string \<Rightarrow> (py_error, json) result" where
  "nested v section key = andthen (get_or v section (JObj [])) (\<lambda>d. jget_or d key (JInt 0))"

definition sort_number :: "json \<Rightarrow> (py_error, rat) result" where
  "sort_number v =
     (case v of JInt i \<Rightarrow> Inr (of_int i) | JFloat q _ \<Rightarrow> Inr q | JBool b \<Rightarrow> Inr (if b then 1 else 0) | _ \<Rightarrow> Inl TypeError)"

text \<open>\<open>sorted(xs, key=f, reverse=True)\<close>: stable, the largest first.\<close>

definition sorted_reverse :: "('a \<Rightarrow> (py_error, rat) result) \<Rightarrow> 'a list \<Rightarrow> (py_error, 'a list) result" where
  "sorted_reverse f xs =
     andthen (map_result (\<lambda>x. andthen (f x) (\<lambda>k. Inr (k, x))) xs) (\<lambda>kxs. Inr (map snd (sort_key (\<lambda>(k, _). - k) kxs)))"

text \<open>\<open>(v or [])[:5]\<close>: a list or a string can be sliced.\<close>

definition first_five :: "json \<Rightarrow> (py_error, json list) result" where
  "first_five v =
     (case v of JList xs \<Rightarrow> Inr (take 5 xs) | JStr s \<Rightarrow> Inr (map (\<lambda>c. JStr [c]) (take 5 s)) | _ \<Rightarrow> Inl TypeError)"

definition trello_board :: "json \<Rightarrow> (py_error, json) result" where
  "trello_board b = dict_of
     [(''name'', jget b ''name''), (''url'', jget b ''url''), (''open'', nested b ''cards'' ''open''),
      (''overdue'', nested b ''cards'' ''overdue''), (''actions'', nested b ''actions'' ''total'')]"

definition asana_board :: "json \<Rightarrow> (py_error, json) result" where
  "asana_board p = dict_of
     [(''name'', jget p ''name''), (''open'', nested p ''tasks'' ''open''), (''overdue'', nested p ''tasks'' ''overdue''),
      (''actions'', nested p ''tasks'' ''total'')]"

definition trello_extract :: "json \<Rightarrow> (py_error, project_throughput) result" where
  "trello_extract metrics =
     andthen (section_data metrics ''boards'') (\<lambda>bs.
     andthen (section_data metrics ''cards'') (\<lambda>cards.
     andthen (section_data metrics ''actions'') (\<lambda>actions.
     andthen (andthen (get_or bs ''items'' (JList [])) jiter) (\<lambda>items.
     andthen (sorted_reverse (\<lambda>b. andthen (nested b ''actions'' ''total'') sort_number) items) (\<lambda>sorted_items.
     andthen (int_at bs ''count'') (\<lambda>n.
     andthen (int_at cards ''total'') (\<lambda>t.
     andthen (int_at cards ''open'') (\<lambda>opened.
     andthen (int_at cards ''overdue'') (\<lambda>late.
     andthen (int_at cards ''completed'') (\<lambda>finished.
     andthen (int_at actions ''total'') (\<lambda>acts.
     andthen (int_at actions ''active_members'') (\<lambda>members.
     andthen (map_result trello_board (take 5 sorted_items)) (\<lambda>best.
     Inr \<lparr>pt_source = ''trello'', boards = n, total_items = t, open_items = opened, overdue_items = late, completed_items = finished,
       activity_count = acts, active_members = members, top_boards = best, pt_quality = []\<rparr>)))))))))))))"

definition asana_extract :: "json \<Rightarrow> (py_error, project_throughput) result" where
  "asana_extract metrics =
     andthen (section_data metrics ''workspaces'') (\<lambda>workspaces.
     andthen (section_data metrics ''projects'') (\<lambda>projects.
     andthen (section_data metrics ''tasks'') (\<lambda>tasks.
     andthen (jget projects ''count'') (\<lambda>n.
     andthen (if truth n then Inr n else get_or workspaces ''count'' (JInt 0)) (\<lambda>n.
     andthen (py_int n) (\<lambda>n.
     andthen (int_at tasks ''total'') (\<lambda>t.
     andthen (int_at tasks ''open'') (\<lambda>opened.
     andthen (int_at tasks ''overdue'') (\<lambda>late.
     andthen (int_at tasks ''completed'') (\<lambda>finished.
     andthen (andthen (get_or projects ''items'' (JList [])) first_five) (\<lambda>items.
     andthen (map_result asana_board items) (\<lambda>best.
     Inr \<lparr>pt_source = ''asana'', boards = n, total_items = t, open_items = opened, overdue_items = late, completed_items = finished,
       activity_count = t, active_members = 0, top_boards = best, pt_quality = []\<rparr>))))))))))))"

definition jira_extract :: "json \<Rightarrow> (py_error, project_throughput) result" where
  "jira_extract metrics =
     andthen (section_data metrics ''projects'') (\<lambda>projects.
     andthen (section_data metrics ''issues'') (\<lambda>issues.
     andthen (int_at projects ''count'') (\<lambda>n.
     andthen (int_at issues ''recently_updated'') (\<lambda>recent.
     andthen (int_at issues ''open_total'') (\<lambda>opened.
     andthen (int_at issues ''done_window'') (\<lambda>finished.
     andthen (andthen (get_or projects ''items'' (JList [])) first_five) (\<lambda>items.
     andthen (map_result (\<lambda>p. dict_of [(''name'', jget p ''name''), (''key'', jget p ''key'')]) items) (\<lambda>best.
     Inr \<lparr>pt_source = ''jira'', boards = n, total_items = recent + opened, open_items = opened, overdue_items = 0,
       completed_items = finished, activity_count = recent, active_members = 0, top_boards = best, pt_quality = []\<rparr>))))))))"

definition basecamp_extract :: "json \<Rightarrow> (py_error, project_throughput) result" where
  "basecamp_extract metrics =
     andthen (section_data metrics ''projects'') (\<lambda>projects.
     andthen (andthen (get_or projects ''items'' (JList [])) jiter) (\<lambda>items.
     andthen (int_at projects ''total'') (\<lambda>n.
     andthen (int_at projects ''active'') (\<lambda>opened.
     andthen (map_result (\<lambda>p. dict_of [(''name'', jget p ''name''), (''status'', jget p ''status'')]) (take 5 items)) (\<lambda>best.
     Inr \<lparr>pt_source = ''basecamp'', boards = n, total_items = 0, open_items = opened, overdue_items = 0, completed_items = 0,
       activity_count = 0, active_members = 0, top_boards = best, pt_quality = []\<rparr>)))))"

text \<open>\<open>_extract\<close>; \<open>None\<close> is the empty dict. The quality is set afterwards.\<close>

definition project_extract :: "string \<Rightarrow> json \<Rightarrow> (py_error, project_throughput option) result" where
  "project_extract source metrics =
     (let found = (\<lambda>r. andthen r (\<lambda>f. Inr (Some f)))
      in if source = ''trello'' then found (trello_extract metrics)
         else if source = ''asana'' then found (asana_extract metrics)
         else if source = ''jira'' then found (jira_extract metrics)
         else if source = ''basecamp'' then found (basecamp_extract metrics)
         else Inr None)"

definition get_project_throughput :: "insight_tables \<Rightarrow> (insight_error, project_throughput) result" where
  "get_project_throughput db =
     (case latest_snapshot pm_sources (it_snapshots db) of
        None \<Rightarrow> insufficient (''No project-management snapshot available yet. Connect Trello, ''
          @ ''Asana, Jira or Basecamp to populate this card.'')
      | Some snapshot \<Rightarrow>
          (case project_extract (snap_source snapshot) (or_else (snap_metrics snapshot) (JObj [])) of
             Inl e \<Rightarrow> Inl (Other_exception e)
           | Inr None \<Rightarrow> insufficient (''Unsupported PM source: '' @ snap_source snapshot)
           | Inr (Some f) \<Rightarrow> Inr (f\<lparr>pt_quality :=
               (if boards f = 0 then ''low'' else if activity_count f = 0 then ''partial'' else ''high'')\<rparr>)))"

section \<open>Slack\<close>

record slack_activity =
  sa_period_days :: int
  total_messages :: int
  active_users :: int
  channel_count :: int
  top_channels :: "json list"
  bot_ratio :: rat
  sa_quality :: string

text \<open>\<open>({"name": k, **v} for k, v in per_channel.items())\<close>\<close>

definition named_channel :: "string \<times> json \<Rightarrow> (py_error, json) result" where
  "named_channel = (\<lambda>(k, v). case v of JObj kvs \<Rightarrow> Inr (JObj (dict_merge [(''name'', JStr k)] kvs)) | _ \<Rightarrow> Inl TypeError)"

definition slack_activity_of :: "int \<Rightarrow> json \<Rightarrow> (py_error, slack_activity) result" where
  "slack_activity_of period_days metrics =
     andthen (section_data metrics ''messages'') (\<lambda>messages.
     andthen (section_data metrics ''channels'') (\<lambda>channels.
     andthen (section_data metrics ''users'') (\<lambda>users.
     andthen (get_or messages ''per_channel'' (JObj [])) (\<lambda>per_channel.
     case per_channel of
       JObj kvs \<Rightarrow>
         andthen (map_result named_channel kvs) (\<lambda>named.
         andthen (sorted_reverse (\<lambda>c. andthen (int_default c ''count'' (JInt 0)) (\<lambda>i. Inr (of_int i))) named) (\<lambda>best.
         andthen (int_at users ''total'') (\<lambda>n.
         andthen (int_at users ''bots'') (\<lambda>bots.
         andthen (int_at messages ''total_messages'') (\<lambda>m.
         andthen (int_at messages ''active_users'') (\<lambda>a.
         andthen (int_at channels ''count'') (\<lambda>c.
         Inr \<lparr>sa_period_days = period_days, total_messages = m, active_users = a, channel_count = c, top_channels = take 5 best,
           bot_ratio = py_round 3 (if n \<noteq> 0 then of_int bots / of_int n else 0),
           sa_quality = (if n \<noteq> 0 \<and> kvs \<noteq> [] then ''high'' else ''partial'')\<rparr>)))))))
     | _ \<Rightarrow> Inl AttributeError))))"

definition get_slack_activity :: "int \<Rightarrow> insight_tables \<Rightarrow> rat \<Rightarrow> (insight_error, slack_activity) result" where
  "get_slack_activity period_days db now =
     (case minus_days (day_of now) period_days of
        Inl e \<Rightarrow> Inl (Other_exception e)
      | Inr cutoff \<Rightarrow>
          (case latest_since ''slack'' cutoff (it_snapshots db) of
             None \<Rightarrow> insufficient ''no Slack snapshot available for requested period''
           | Some snapshot \<Rightarrow> raising (slack_activity_of period_days (or_else (snap_metrics snapshot) (JObj [])))))"

section \<open>Knowledge\<close>

record knowledge_context =
  kx_query :: string
  kx_hits :: "search_hit list"
  kx_prompt :: string

text \<open>\<open>format_hits_for_prompt\<close>; the dash between title and link is transliterated.\<close>

definition format_hit :: "nat \<times> search_hit \<Rightarrow> string" where
  "format_hit = (\<lambda>(i, h).
     ''['' @ show_nat i @ ''] '' @ py_str (get_default (hit_metadata h) ''title'' (JStr ''(untitled)'')) @ '' - ''
     @ py_str (get_default (hit_metadata h) ''web_view_link'' (JStr [])) @ [CHR 0x0A] @ hit_text h @ [CHR 0x0A])"

definition format_hits_for_prompt :: "search_hit list \<Rightarrow> string" where
  "format_hits_for_prompt hits = join ([CHR 0x0A] @ ''---'' @ [CHR 0x0A]) (map format_hit (zip [1 ..< Suc (length hits)] hits))"

definition search_company_knowledge ::
  "('s, 'c) kb_env \<Rightarrow> string \<Rightarrow> int \<Rightarrow> string option \<Rightarrow> string option \<Rightarrow> ('s, 'c) kb
     \<Rightarrow> (py_error, knowledge_context) result \<times> ('s, 'c) kb" where
  "search_company_knowledge ke query top_k source owner_email kb =
     (case search_chunks ke query top_k source owner_email kb of
        (Inl e, kb) \<Rightarrow> (Inl e, kb)
      | (Inr hits, kb) \<Rightarrow> (Inr \<lparr>kx_query = query, kx_hits = hits, kx_prompt = format_hits_for_prompt hits\<rparr>, kb))"

section \<open>The cache of results\<close>

datatype insight =
  Cashflow cashflow_snapshot
| Team team_activity
| Commitments "commitment list"
| Weekly weekly_metrics
| Anomalies "anomaly list"
| Slack slack_activity
| Funnel marketing_funnel
| Velocity pipeline_velocity
| Throughput project_throughput

text \<open>The registry: the cache's lifetime and key prefix of the functions that have one, and the function on its one argument.\<close>

datatype insight_name =
  Get_weekly_metrics | Get_recent_anomalies | Get_team_activity_summary | Get_upcoming_commitments
| Get_cashflow_snapshot | Get_slack_activity | Get_marketing_funnel | Get_pipeline_velocity | Get_project_throughput

definition cache_policy :: "insight_name \<Rightarrow> (rat \<times> string) option" where
  "cache_policy f =
     (case f of
        Get_weekly_metrics \<Rightarrow> Some (3600, ''weekly_metrics'')
      | Get_recent_anomalies \<Rightarrow> Some (3600, ''recent_anomalies'')
      | Get_team_activity_summary \<Rightarrow> Some (3600, ''team_activity'')
      | Get_upcoming_commitments \<Rightarrow> Some (600, ''upcoming_commitments'')
      | Get_cashflow_snapshot \<Rightarrow> Some (24 * 3600, ''cashflow_snapshot'')
      | Get_slack_activity \<Rightarrow> Some (3600, ''slack_activity'')
      | _ \<Rightarrow> None)"

definition as_insight :: "('a \<Rightarrow> insight) \<Rightarrow> (insight_error, 'a) result \<Rightarrow> (insight_error, insight) result" where
  "as_insight C r = (case r of Inl e \<Rightarrow> Inl e | Inr x \<Rightarrow> Inr (C x))"

text \<open>\<open>arg\<close> is the number of days, where it is given.\<close>

definition days_or :: "int option \<Rightarrow> int \<Rightarrow> int" where
  "days_or arg d = (case arg of None \<Rightarrow> d | Some n \<Rightarrow> n)"

definition compute_insight :: "insight_name \<Rightarrow> int option \<Rightarrow> insight_tables \<Rightarrow> rat \<Rightarrow> (insight_error, insight) result" where
  "compute_insight f arg db now =
     (case f of
        Get_weekly_metrics \<Rightarrow> as_insight Weekly (get_weekly_metrics db now)
      | Get_recent_anomalies \<Rightarrow> as_insight Anomalies (get_recent_anomalies (days_or arg 14) db now)
      | Get_team_activity_summary \<Rightarrow> as_insight Team (get_team_activity_summary (days_or arg 7) db now)
      | Get_upcoming_commitments \<Rightarrow> as_insight Commitments (get_upcoming_commitments (days_or arg 7) db now)
      | Get_cashflow_snapshot \<Rightarrow> as_insight Cashflow (get_cashflow_snapshot db now)
      | Get_slack_activity \<Rightarrow> as_insight Slack (get_slack_activity (days_or arg 7) db now)
      | Get_marketing_funnel \<Rightarrow> as_insight Funnel (get_marketing_funnel db)
      | Get_pipeline_velocity \<Rightarrow> as_insight Velocity (get_pipeline_velocity (it_snapshots db))
      | Get_project_throughput \<Rightarrow> as_insight Throughput (get_project_throughput db))"

definition insight_key :: "(int option \<Rightarrow> string) \<Rightarrow> string \<Rightarrow> string \<Rightarrow> int option \<Rightarrow> string" where
  "insight_key digest schema kp arg = ''insight:'' @ schema @ '':'' @ kp @ '':'' @ digest arg"

text \<open>The readings of the clock during one call: by the cache when it is asked, in the function, by the cache when it stores, and by the card.\<close>

record insight_clock =
  ck_asked :: rat
  ck_computed :: rat
  ck_stored :: rat
  ck_shown :: rat

definition call_insight ::
  "(string \<Rightarrow> rat \<Rightarrow> 'c \<Rightarrow> insight option) \<Rightarrow> (string \<Rightarrow> insight \<Rightarrow> rat \<Rightarrow> rat \<Rightarrow> 'c \<Rightarrow> 'c) \<Rightarrow> (int option \<Rightarrow> string)
     \<Rightarrow> string \<Rightarrow> insight_name \<Rightarrow> int option \<Rightarrow> insight_tables \<Rightarrow> insight_clock \<Rightarrow> 'c \<Rightarrow> (insight_error, insight) result \<times> 'c" where
  "call_insight cget cset digest schema f arg db ck c =
     (case cache_policy f of
        None \<Rightarrow> (compute_insight f arg db (ck_computed ck), c)
      | Some (ttl, kp) \<Rightarrow>
          (let key = insight_key digest schema kp arg
           in case cget key (ck_asked ck) c of
                Some v \<Rightarrow> (Inr v, c)
              | None \<Rightarrow>
                  (case compute_insight f arg db (ck_computed ck) of
                     Inl e \<Rightarrow> (Inl e, c)
                   | Inr v \<Rightarrow> (Inr v, cset key v ttl (ck_stored ck) c))))"

section \<open>The cards\<close>

datatype card_data = Card_failed string | Card_ok insight rat

definition card_fetcher :: "string \<Rightarrow> insight_name option" where
  "card_fetcher name =
     map_of [(''finance'', Get_cashflow_snapshot), (''people'', Get_team_activity_summary), (''strategic'', Get_weekly_metrics),
       (''marketing'', Get_marketing_funnel), (''sales'', Get_pipeline_velocity), (''projects'', Get_project_throughput)] name"

text \<open>\<open>_load_card\<close>; \<open>describe\<close> is \<open>str(exc)\<close>, and \<open>refresh\<close> has no effect.\<close>

definition load_card ::
  "(string \<Rightarrow> rat \<Rightarrow> 'c \<Rightarrow> insight option) \<Rightarrow> (string \<Rightarrow> insight \<Rightarrow> rat \<Rightarrow> rat \<Rightarrow> 'c \<Rightarrow> 'c) \<Rightarrow> (int option \<Rightarrow> string)
     \<Rightarrow> (py_error \<Rightarrow> string) \<Rightarrow> string \<Rightarrow> insight_tables \<Rightarrow> insight_clock \<Rightarrow> insight_name \<Rightarrow> bool \<Rightarrow> 'c \<Rightarrow> card_data \<times> 'c" where
  "load_card cget cset digest describe schema db ck f refresh c =
     (case call_insight cget cset digest schema f None db ck c of
        (Inl (InsufficientData msg), c) \<Rightarrow> (Card_failed msg, c)
      | (Inl (Other_exception e), c) \<Rightarrow> (Card_failed (''failure: '' @ describe e), c)
      | (Inr v, c) \<Rightarrow> (Card_ok v (ck_shown ck), c))"

definition card_names :: "string list" where
  "card_names = [''finance'', ''people'', ''strategic'', ''marketing'', ''sales'', ''projects'']"

fun load_cards ::
  "(string \<Rightarrow> rat \<Rightarrow> 'c \<Rightarrow> insight option) \<Rightarrow> (string \<Rightarrow> insight \<Rightarrow> rat \<Rightarrow> rat \<Rightarrow> 'c \<Rightarrow> 'c) \<Rightarrow> (int option \<Rightarrow> string)
     \<Rightarrow> (py_error \<Rightarrow> string) \<Rightarrow> string \<Rightarrow> insight_tables \<Rightarrow> (string \<Rightarrow> insight_clock) \<Rightarrow> string list \<Rightarrow> 'c \<Rightarrow> (string \<times> card_data) list \<times> 'c" where
  "load_cards cget cset digest describe schema db ck [] c = ([], c)"
| "load_cards cget cset digest describe schema db ck (n # ns) c =
     (case card_fetcher n of
        None \<Rightarrow> load_cards cget cset digest describe schema db ck ns c
      | Some f \<Rightarrow>
          (case load_card cget cset digest describe schema db (ck n) f False c of (x, c) \<Rightarrow>
             map_prod ((#) (n, x)) id (load_cards cget cset digest describe schema db ck ns c)))"

text \<open>The two views without their guards, whose decorators are in \<open>Access\<close>: the cards of the page, the card of the fragment (\<open>None\<close>: 404).\<close>

definition insights_index ::
  "(string \<Rightarrow> rat \<Rightarrow> 'c \<Rightarrow> insight option) \<Rightarrow> (string \<Rightarrow> insight \<Rightarrow> rat \<Rightarrow> rat \<Rightarrow> 'c \<Rightarrow> 'c) \<Rightarrow> (int option \<Rightarrow> string)
     \<Rightarrow> (py_error \<Rightarrow> string) \<Rightarrow> string \<Rightarrow> insight_tables \<Rightarrow> (string \<Rightarrow> insight_clock) \<Rightarrow> 'c \<Rightarrow> (string \<times> card_data) list \<times> 'c" where
  "insights_index cget cset digest describe schema db ck = load_cards cget cset digest describe schema db ck card_names"

definition insight_card ::
  "(string \<Rightarrow> rat \<Rightarrow> 'c \<Rightarrow> insight option) \<Rightarrow> (string \<Rightarrow> insight \<Rightarrow> rat \<Rightarrow> rat \<Rightarrow> 'c \<Rightarrow> 'c) \<Rightarrow> (int option \<Rightarrow> string)
     \<Rightarrow> (py_error \<Rightarrow> string) \<Rightarrow> string \<Rightarrow> insight_tables \<Rightarrow> insight_clock \<Rightarrow> bool \<Rightarrow> string option \<Rightarrow> string \<Rightarrow> 'c \<Rightarrow> card_data option \<times> 'c" where
  "insight_card cget cset digest describe schema db ck post refresh_arg name c =
     (case card_fetcher name of
        None \<Rightarrow> (None, c)
      | Some f \<Rightarrow> map_prod Some id (load_card cget cset digest describe schema db ck f (post \<or> refresh_arg = Some ''1'') c))"

lemma card_names_known: "n \<in> set card_names \<longleftrightarrow> card_fetcher n \<noteq> None"
  by (auto simp: card_names_def card_fetcher_def)

text \<open>The page shows all six cards, each whatever became of the others.\<close>

lemma insights_index_complete: "map fst (fst (insights_index cget cset digest describe schema db ck c)) = card_names"
proof -
  have "map fst (fst (load_cards cget cset digest describe schema db ck ns c)) = ns" if "set ns \<subseteq> set card_names" for ns
    using that
  proof (induction ns arbitrary: c)
    case (Cons n ns)
    obtain f where f: "card_fetcher n = Some f" using Cons.prems card_names_known by auto
    show ?case using Cons.IH Cons.prems by (simp add: f split: prod.split)
  qed simp
  then show ?thesis by (simp add: insights_index_def)
qed

section \<open>Whose data a cached answer shows, and how old it is\<close>

text \<open>One call of an insight function: by which tenant, with what argument, on which tables, when.\<close>

record insight_call =
  ic_schema :: string
  ic_name :: insight_name
  ic_arg :: "int option"
  ic_tables :: insight_tables
  ic_at :: insight_clock

definition answer_call ::
  "(string \<Rightarrow> rat \<Rightarrow> 'c \<Rightarrow> insight option) \<Rightarrow> (string \<Rightarrow> insight \<Rightarrow> rat \<Rightarrow> rat \<Rightarrow> 'c \<Rightarrow> 'c) \<Rightarrow> (int option \<Rightarrow> string)
     \<Rightarrow> insight_call \<Rightarrow> 'c \<Rightarrow> (insight_error, insight) result \<times> 'c" where
  "answer_call cget cset digest x = call_insight cget cset digest (ic_schema x) (ic_name x) (ic_arg x) (ic_tables x) (ic_at x)"

definition fresh_answer :: "insight_call \<Rightarrow> (insight_error, insight) result" where
  "fresh_answer x = compute_insight (ic_name x) (ic_arg x) (ic_tables x) (ck_computed (ic_at x))"

fun after_calls ::
  "(string \<Rightarrow> rat \<Rightarrow> 'c \<Rightarrow> insight option) \<Rightarrow> (string \<Rightarrow> insight \<Rightarrow> rat \<Rightarrow> rat \<Rightarrow> 'c \<Rightarrow> 'c) \<Rightarrow> (int option \<Rightarrow> string)
     \<Rightarrow> insight_call list \<Rightarrow> 'c \<Rightarrow> 'c" where
  "after_calls cget cset digest [] c = c"
| "after_calls cget cset digest (x # xs) c = after_calls cget cset digest xs (snd (answer_call cget cset digest x c))"

text \<open>Two calls share an entry of the cache.\<close>

definition same_question :: "(int option \<Rightarrow> string) \<Rightarrow> insight_call \<Rightarrow> insight_call \<Rightarrow> bool" where
  "same_question digest x y \<longleftrightarrow> ic_schema x = ic_schema y \<and> ic_name x = ic_name y \<and> digest (ic_arg x) = digest (ic_arg y)"

definition call_key :: "(int option \<Rightarrow> string) \<Rightarrow> insight_call \<Rightarrow> (rat \<times> string) option" where
  "call_key digest x =
     map_option (\<lambda>(ttl, kp). (ttl, insight_key digest (ic_schema x) kp (ic_arg x))) (cache_policy (ic_name x))"

definition cache_from ::
  "(string \<Rightarrow> rat \<Rightarrow> 'c \<Rightarrow> insight option) \<Rightarrow> (int option \<Rightarrow> string) \<Rightarrow> insight_call set \<Rightarrow> 'c \<Rightarrow> bool" where
  "cache_from cget digest X c \<longleftrightarrow>
     (\<forall>k t v. cget k t c = Some v \<longrightarrow>
        (\<exists>x \<in> X. \<exists>ttl. call_key digest x = Some (ttl, k) \<and> fresh_answer x = Inr v \<and> t < ck_stored (ic_at x) + ttl))"

lemma cache_fromE:
  assumes "cache_from cget digest X c" "cget k t c = Some v"
  obtains x ttl where "x \<in> X" "call_key digest x = Some (ttl, k)" "fresh_answer x = Inr v" "t < ck_stored (ic_at x) + ttl"
  using assms unfolding cache_from_def by blast

lemma cache_from_mono: "cache_from cget digest X c \<Longrightarrow> X \<subseteq> Y \<Longrightarrow> cache_from cget digest Y c"
  unfolding cache_from_def by blast

lemma answer_call_cases:
  obtains (plain) "call_key digest x = None" "answer_call cget cset digest x c = (fresh_answer x, c)"
  | (hit) ttl k v where "call_key digest x = Some (ttl, k)" "cget k (ck_asked (ic_at x)) c = Some v"
      "answer_call cget cset digest x c = (Inr v, c)"
  | (failed) ttl k e where "call_key digest x = Some (ttl, k)" "fresh_answer x = Inl e"
      "answer_call cget cset digest x c = (Inl e, c)"
  | (stored) ttl k v where "call_key digest x = Some (ttl, k)" "fresh_answer x = Inr v"
      "answer_call cget cset digest x c = (Inr v, cset k v ttl (ck_stored (ic_at x)) c)"
proof (cases "cache_policy (ic_name x)")
  case None
  then show ?thesis using plain by (simp add: call_key_def answer_call_def call_insight_def fresh_answer_def)
next
  case (Some p)
  obtain ttl kp where p: "p = (ttl, kp)" by (rule prod.exhaust)
  let ?k = "insight_key digest (ic_schema x) kp (ic_arg x)"
  have key: "call_key digest x = Some (ttl, ?k)" by (simp add: call_key_def Some p)
  note step = answer_call_def call_insight_def fresh_answer_def Some p Let_def
  show ?thesis
  proof (cases "cget ?k (ck_asked (ic_at x)) c")
    case (Some v)
    then show ?thesis using hit[OF key] by (simp add: step)
  next
    case None
    show ?thesis
    proof (cases "fresh_answer x")
      case (Inl e)
      then show ?thesis using failed[OF key] None by (simp add: step)
    next
      case (Inr v)
      then show ?thesis using stored[OF key] None by (simp add: step)
    qed
  qed
qed

lemma cache_from_answer:
  assumes "django_cache cget cset cdel" "cache_from cget digest X c"
  shows "cache_from cget digest (insert x X) (snd (answer_call cget cset digest x c))"
proof (rule answer_call_cases[of digest x cget cset c])
  fix ttl k v assume new: "call_key digest x = Some (ttl, k)" "fresh_answer x = Inr v"
    "answer_call cget cset digest x c = (Inr v, cset k v ttl (ck_stored (ic_at x)) c)"
  show ?thesis unfolding cache_from_def new snd_conv
  proof (intro allI impI)
    fix k' t v' assume got: "cget k' t (cset k v ttl (ck_stored (ic_at x)) c) = Some v'"
    show "\<exists>y \<in> insert x X. \<exists>ttl. call_key digest y = Some (ttl, k') \<and> fresh_answer y = Inr v' \<and> t < ck_stored (ic_at y) + ttl"
    proof (cases "k' = k")
      case True
      then show ?thesis using got new by (auto simp: django_cache.get_set_if[OF assms(1)] split: if_splits)
    next
      case False
      then have "cget k' t c = Some v'" using got by (simp add: django_cache.get_set_if[OF assms(1)])
      then show ?thesis by (rule cache_fromE[OF assms(2)]) blast
    qed
  qed
qed (use cache_from_mono[OF assms(2)] in auto)

lemma cache_from_after_calls:
  "django_cache cget cset cdel \<Longrightarrow> cache_from cget digest X c
     \<Longrightarrow> cache_from cget digest (X \<union> set xs) (after_calls cget cset digest xs c)"
proof (induction xs arbitrary: X c)
  case (Cons x xs)
  show ?case using Cons.IH[OF Cons.prems(1) cache_from_answer[OF Cons.prems, of x]] by simp
qed simp

lemma cache_policy_prefix: "cache_policy f = Some (ttl, kp) \<Longrightarrow> CHR '':'' \<notin> set kp"
  by (cases f) (auto simp: cache_policy_def)

text \<open>The prefixes differ in their first three letters.\<close>

lemma cache_policy_inj: "cache_policy f = Some (ttl, kp) \<Longrightarrow> cache_policy g = Some (ttl', kp) \<Longrightarrow> g = f"
  by (cases f; clarsimp simp: cache_policy_def; cases g; simp)

lemma before_colon: "CHR '':'' \<notin> set a \<Longrightarrow> CHR '':'' \<notin> set b \<Longrightarrow> a @ CHR '':'' # r = b @ CHR '':'' # s \<longleftrightarrow> a = b \<and> r = s"
proof (induction a arbitrary: b)
  case Nil
  then show ?case by (cases b) auto
next
  case (Cons x a)
  then show ?case by (cases b) auto
qed

lemma call_key_question:
  assumes "call_key digest x = Some (ttl, k)" "call_key digest y = Some (ttl', k)"
    "CHR '':'' \<notin> set (ic_schema x)" "CHR '':'' \<notin> set (ic_schema y)"
  shows "same_question digest x y \<and> ttl = ttl'"
proof -
  obtain kp where x: "cache_policy (ic_name x) = Some (ttl, kp)" "k = insight_key digest (ic_schema x) kp (ic_arg x)"
    using assms(1) by (auto simp: call_key_def)
  obtain kp' where y: "cache_policy (ic_name y) = Some (ttl', kp')" "k = insight_key digest (ic_schema y) kp' (ic_arg y)"
    using assms(2) by (auto simp: call_key_def)
  have "ic_schema x = ic_schema y \<and> kp = kp' \<and> digest (ic_arg x) = digest (ic_arg y)"
    using x(2) y(2) assms(3,4) cache_policy_prefix[OF x(1)] cache_policy_prefix[OF y(1)]
    by (simp add: insight_key_def before_colon)
  then show ?thesis using cache_policy_inj[of "ic_name x" ttl kp "ic_name y" ttl'] x(1) y(1)
    by (auto simp: same_question_def)
qed

text \<open>
  C14. The cache of the insight functions neither mixes tenants nor keeps an answer past its time: after any calls, by any
  tenants, on tables that may change between any two of them, what a function answers was computed from the tables of the
  calling tenant for the same question (the same function, arguments of the same digest), by this call or by an
  earlier one whose answer was stored less than the function's \<open>ttl\<close> seconds ago; a function without the decorator always computes afresh.
\<close>

theorem insights_own_and_fresh:
  assumes "django_cache cget cset cdel" "\<forall>k t. cget k t c = None"
    and "\<forall>y \<in> set (earlier @ [x]). CHR '':'' \<notin> set (ic_schema y)"
    and "fst (answer_call cget cset digest x (after_calls cget cset digest earlier c)) = Inr v"
  shows "fresh_answer x = Inr v
    \<or> (\<exists>y \<in> set earlier. \<exists>ttl. map_option fst (cache_policy (ic_name x)) = Some ttl \<and> same_question digest x y
         \<and> fresh_answer y = Inr v \<and> ck_asked (ic_at x) < ck_stored (ic_at y) + ttl)"
proof -
  let ?c = "after_calls cget cset digest earlier c"
  have held: "cache_from cget digest (set earlier) ?c"
    using cache_from_after_calls[OF assms(1), of digest "{}" c earlier] assms(2) by (simp add: cache_from_def)
  show ?thesis
  proof (rule answer_call_cases[of digest x cget cset ?c])
    fix ttl k v' assume hit: "call_key digest x = Some (ttl, k)" "cget k (ck_asked (ic_at x)) ?c = Some v'"
      "answer_call cget cset digest x ?c = (Inr v', ?c)"
    have v: "v' = v" using hit(3) assms(4) by simp
    obtain y ttl' where y: "y \<in> set earlier" "call_key digest y = Some (ttl', k)" "fresh_answer y = Inr v'"
      "ck_asked (ic_at x) < ck_stored (ic_at y) + ttl'" by (rule cache_fromE[OF held hit(2)])
    have same: "same_question digest x y \<and> ttl = ttl'"
      using call_key_question[OF hit(1) y(2)] assms(3) y(1) by simp
    have "map_option fst (cache_policy (ic_name x)) = Some ttl" using hit(1) by (auto simp: call_key_def)
    then show ?thesis using y same v by blast
  qed (use assms(4) in auto)
qed

definition quiet_tables :: insight_tables where
  "quiet_tables = \<lparr>it_snapshots = [], it_kpis = []\<rparr>"

definition kpi_tables :: "rat \<Rightarrow> insight_tables" where
  "kpi_tables cash = \<lparr>it_snapshots = [], it_kpis = [\<lparr>mk_name = ''cash_on_hand'', mk_value = cash, mk_period_end = 7\<rparr>,
     \<lparr>mk_name = ''monthly_expenses'', mk_value = 300, mk_period_end = 7\<rparr>]\<rparr>"

text \<open>A call that takes three seconds.\<close>

definition clock_from :: "rat \<Rightarrow> insight_clock" where
  "clock_from t = \<lparr>ck_asked = t, ck_computed = t + 1, ck_stored = t + 2, ck_shown = t + 3\<rparr>"

definition cash_call :: "string \<Rightarrow> insight_tables \<Rightarrow> rat \<Rightarrow> insight_call" where
  "cash_call schema db t = \<lparr>ic_schema = schema, ic_name = Get_cashflow_snapshot, ic_arg = None, ic_tables = db, ic_at = clock_from t\<rparr>"

definition digest_of :: "int option \<Rightarrow> string" where
  "digest_of arg = (case arg of None \<Rightarrow> ''-'' | Some i \<Rightarrow> py_str (JInt i))"

lemmas kpi_simps = kpi_tables_def latest_kpi_def get_cashflow_snapshot_def

lemma kpi_cashflow:
  "get_cashflow_snapshot (kpi_tables cash) now = Inr \<lparr>as_of = day_of now, cash_on_hand = cash, monthly_revenue = 0,
     monthly_expenses = 300, runway_months = Some (py_round 2 (cash / 300)), cf_quality = ''partial''\<rparr>"
  by (simp add: kpi_simps)

definition kpi_answer :: insight where
  "kpi_answer = Cashflow \<lparr>as_of = day_of 101, cash_on_hand = 900, monthly_revenue = 0, monthly_expenses = 300,
     runway_months = Some (py_round 2 (900 / 300)), cf_quality = ''partial''\<rparr>"

text \<open>A tenant whose figures were deleted still sees those of a minute ago; the other tenant's are not shown.\<close>

lemma insights_own_and_fresh_witness:
  "fst (answer_call ttl_get ttl_set digest_of (cash_call ''acme'' quiet_tables 160)
          (after_calls ttl_get ttl_set digest_of [cash_call ''globex'' (kpi_tables 5) 90, cash_call ''acme'' (kpi_tables 900) 100] Map.empty))
     = Inr kpi_answer
   \<and> list_ex (\<lambda>y. same_question digest_of (cash_call ''acme'' quiet_tables 160) y \<and> fresh_answer y = Inr kpi_answer)
       [cash_call ''globex'' (kpi_tables 5) 90, cash_call ''acme'' (kpi_tables 900) 100]"
proof -
  let ?before = "[cash_call ''globex'' (kpi_tables 5) 90, cash_call ''acme'' (kpi_tables 900) 100]"
    and ?x = "cash_call ''acme'' quiet_tables 160"
  have answer: "fst (answer_call ttl_get ttl_set digest_of ?x (after_calls ttl_get ttl_set digest_of ?before Map.empty)) = Inr kpi_answer"
    by (simp add: answer_call_def call_insight_def cash_call_def cache_policy_def compute_insight_def as_insight_def kpi_cashflow
        ttl_defs insight_key_def kpi_answer_def clock_from_def)
  have none: "fresh_answer ?x \<noteq> Inr kpi_answer"
    by (simp add: fresh_answer_def cash_call_def compute_insight_def as_insight_def quiet_tables_def kpi_simps insufficient_def)
  from insights_own_and_fresh[OF ttl.django_cache_axioms _ _ answer] none
  have "\<exists>y \<in> set ?before. same_question digest_of ?x y \<and> fresh_answer y = Inr kpi_answer"
    by (auto simp: ttl_get_def cash_call_def)
  then show ?thesis using answer by (simp add: list_ex_iff)
qed

section \<open>What a refresh does\<close>

text \<open>
  C39. Refreshing a card does not compute it again: once a card whose function has the decorator has been computed, the card
  asked for with \<open>refresh\<close> less than \<open>ttl\<close> seconds later shows the data computed then, whatever the tables hold by
  now, under an \<open>as_of\<close> of the present. (The comment in \<open>_load_card\<close> says that the functions always read fresh.)
\<close>

theorem refresh_shows_cached:
  assumes "django_cache cget cset cdel" "cache_policy f = Some (ttl, kp)"
    and "cget (insight_key digest schema kp None) (ck_asked ck) c = None" "compute_insight f None db (ck_computed ck) = Inr v"
    and "ck_asked ck' < ck_stored ck + ttl"
  shows "fst (load_card cget cset digest describe schema db' ck' f True (snd (load_card cget cset digest describe schema db ck f r c)))
    = Card_ok v (ck_shown ck')"
  using assms by (simp add: load_card_def call_insight_def django_cache.get_set)

lemma refresh_shows_cached_witness:
  "fst (load_card ttl_get ttl_set digest_of (\<lambda>_. ''error'') ''acme'' (kpi_tables 0) (clock_from 80000) Get_cashflow_snapshot True
     (snd (load_card ttl_get ttl_set digest_of (\<lambda>_. ''error'') ''acme'' (kpi_tables 900) (clock_from 100) Get_cashflow_snapshot False
        Map.empty)))
   = Card_ok kpi_answer 80003"
proof -
  have "fst (load_card ttl_get ttl_set digest_of (\<lambda>_. ''error'') ''acme'' (kpi_tables 0) (clock_from 80000) Get_cashflow_snapshot True
     (snd (load_card ttl_get ttl_set digest_of (\<lambda>_. ''error'') ''acme'' (kpi_tables 900) (clock_from 100) Get_cashflow_snapshot False
        Map.empty)))
   = Card_ok kpi_answer (ck_shown (clock_from 80000))"
  proof (rule refresh_shows_cached[OF ttl.django_cache_axioms, where ttl = "24 * 3600" and kp = "''cashflow_snapshot''"])
    have "(80000 :: rat) < 100 + 2 + 24 * 3600" by simp
    then show "ck_asked (clock_from 80000) < ck_stored (clock_from 100) + 24 * 3600" by (simp only: clock_from_def insight_clock.simps)
  qed (simp_all add: cache_policy_def ttl_get_def compute_insight_def as_insight_def kpi_cashflow kpi_answer_def clock_from_def)
  then show ?thesis by (simp add: clock_from_def)
qed

section \<open>How many anomalies there can be\<close>

lemma sum_of_rat: "of_rat (sum_list (map f xs)) = sum_list (map (\<lambda>x. of_rat (f x) :: real) xs)"
  by (induction xs) (simp_all add: of_rat_add)

lemma mean_of_all:
  assumes "\<forall>x \<in> set xs. 0 \<le> (f x :: real)" "sum_list (map f xs) = 0" "x \<in> set xs"
  shows "f x = 0"
  using sum_list_nonneg_eq_0_iff[of "map f xs"] assms by auto

lemma count_above:
  assumes "\<forall>x \<in> set xs. 0 \<le> (f x :: real)" "\<forall>x \<in> set xs. P x \<longrightarrow> m \<le> f x"
  shows "m * real (length (filter P xs)) \<le> sum_list (map f xs)"
  using assms
proof (induction xs)
  case (Cons x xs)
  then have "m * real (length (filter P xs)) \<le> sum_list (map f xs)" by simp
  moreover have "(if P x then m else 0) \<le> f x" using Cons.prems by auto
  ultimately show ?case by (auto simp: distrib_left split: if_splits)
qed simp

lemma far_values:
  fixes vs :: "int list"
  defines "z \<equiv> \<lambda>v. of_rat (of_int v - mean_of vs) / stdev_of vs"
  shows "4 * length (filter (\<lambda>v. 2 \<le> \<bar>z v\<bar>) vs) \<le> length vs"
proof (cases "vs = []")
  case False
  let ?d = "\<lambda>v. (of_rat (of_int v - mean_of vs) :: real)\<^sup>2" and ?n = "real (length vs)"
  let ?var = "of_rat (variance_of vs) :: real"
  have n: "0 < ?n" using False by simp
  have sum: "sum_list (map ?d vs) = ?n * ?var"
    using n by (simp add: variance_of_def of_rat_divide sum_of_rat of_rat_power)
  then have var: "0 \<le> ?var" using n by (metis (no_types, lifting) sum_list_nonneg zero_le_power2 imageE list.set_map zero_le_mult_iff less_le_not_le)
  show ?thesis
  proof (cases "?var = 0")
    case True
    have "?d v = 0" if "v \<in> set vs" for v
      by (rule mean_of_all[OF _ _ that]) (use sum True in auto)
    then have "filter (\<lambda>v. 2 \<le> \<bar>z v\<bar>) vs = []" by (auto simp: filter_empty_conv z_def)
    then show ?thesis by simp
  next
    case nonzero: False
    have s: "(stdev_of vs)\<^sup>2 = ?var" "0 < stdev_of vs" using var nonzero by (simp_all add: stdev_of_def Let_def)
    have far: "4 * ?var \<le> ?d v" if "2 \<le> \<bar>z v\<bar>" for v
    proof -
      have "2\<^sup>2 \<le> \<bar>z v\<bar>\<^sup>2" using that by (intro power_mono) auto
      then have "4 \<le> (z v)\<^sup>2" by simp
      then have "4 \<le> ?d v / ?var" unfolding z_def power_divide s(1) .
      then show ?thesis using var nonzero by (simp add: pos_le_divide_eq)
    qed
    have "4 * ?var * real (length (filter (\<lambda>v. 2 \<le> \<bar>z v\<bar>) vs)) \<le> sum_list (map ?d vs)"
      by (rule count_above) (use far in auto)
    then have "?var * (4 * real (length (filter (\<lambda>v. 2 \<le> \<bar>z v\<bar>) vs))) \<le> ?var * ?n" by (simp add: sum mult.commute mult.left_commute)
    then have "4 * real (length (filter (\<lambda>v. 2 \<le> \<bar>z v\<bar>) vs)) \<le> ?n"
      using var nonzero by (simp add: mult_le_cancel_left)
    then show ?thesis by linarith
  qed
qed simp

lemma map_filter_length: "length (List.map_filter f xs) = length (filter (\<lambda>x. f x \<noteq> None) xs)"
  by (induction xs) (auto simp: map_filter_simps split: option.split)

lemma zip_filter_snd: "length xs = length vs \<Longrightarrow> length (filter (\<lambda>(s, v). P v) (zip xs vs)) = length (filter P vs)"
  by (induction xs vs rule: list_induct2) auto

text \<open>
  C37. At most a quarter of the snapshots of the period are anomalies: the threshold of two standard deviations of the very
  series that is searched bounds their number (Chebyshev), so fewer than five snapshots give none, as the code says
  outright, and five to seven at most one.
\<close>

theorem anomalies_at_most_quarter:
  assumes "get_recent_anomalies period_days db now = Inr found" "minus_days (day_of now) period_days = Inr cutoff"
  shows "4 * length found \<le> length (filter (\<lambda>r. snap_source r = ''google_workspace'' \<and> cutoff \<le> snap_period_end r) (it_snapshots db))"
proof -
  let ?rows = "filter (\<lambda>r. snap_source r = ''google_workspace'' \<and> cutoff \<le> snap_period_end r) (it_snapshots db)"
  let ?series = "sort_key snap_period_end ?rows"
  show ?thesis
  proof (cases "length ?series < 5")
    case True
    then show ?thesis using assms by (simp add: get_recent_anomalies_def)
  next
    case False
    then obtain vs where vs: "map_result (\<lambda>s. metric_of (Some s) ''email'' ''count'') ?series = Inr vs"
      and found: "found = List.map_filter (\<lambda>(s, v). anomaly_of vs (snap_period_end s) v) (zip ?series vs)"
      using assms by (auto simp: get_recent_anomalies_def Let_def split: sum.splits)
    have len: "length ?series = length vs" using length_map_result[OF vs] by simp
    let ?far = "\<lambda>v. 2 \<le> \<bar>of_rat (of_int v - mean_of vs) / stdev_of vs\<bar>"
    have "((case sv of (s, v) \<Rightarrow> anomaly_of vs (snap_period_end s) v) \<noteq> None) = (case sv of (s, v) \<Rightarrow> ?far v)" for sv :: "data_snapshot \<times> int"
      by (simp add: anomaly_of_def Let_def split_beta)
    then have "length found = length (filter (\<lambda>(s, v). ?far v) (zip ?series vs))"
      unfolding found map_filter_length by presburger
    then have "length found = length (filter ?far vs)" unfolding zip_filter_snd[OF len] .
    then show ?thesis using far_values[of vs] len by simp
  qed
qed

section \<open>What a Google sync leaves for the commitments\<close>

lemma failed_call_no_data:
  assumes "gateway_call cget cset (google_gateway ge) i tool params w = Some (Inr r, w')" "\<not> mr_ok r"
  shows "mr_data r = JNull"
  using assms(1)
proof (cases rule: gateway_call_cases)
  case (called impl cred tokens w1 x)
  then have impl: "impl = google_impl ge" by (auto simp: google_gateway_def split: if_splits)
  show ?thesis using called(6,7) assms(2)
    by (auto simp: audited_call_def impl google_impl_def google_call_def Let_def split: option.splits prod.splits sum.splits if_splits)
qed auto

lemma stub_call_data:
  assumes "gateway_call cget cset (google_gateway ge) i tool params w = Some (Inr r, w')" "mr_ok r" "ge_mcp_url ge = []"
  shows "mr_data r = JObj [(''stub'', JBool True), (''tool'', JStr tool), (''params'', or_else params (JObj []))]"
  using assms(1)
proof (cases rule: gateway_call_cases)
  case (called impl cred tokens w1 x)
  then have impl: "impl = google_impl ge" by (auto simp: google_gateway_def split: if_splits)
  show ?thesis using called(6,7) assms(2,3)
    by (auto simp: audited_call_def impl google_impl_def google_call_def Let_def split: option.splits prod.splits sum.splits if_splits)
qed (use assms(2) in auto)

lemma google_section_Inr:
  assumes "google_section cget cset ge i days tool w = (Inr v, w')" "ge_mcp_url ge = []"
  obtains "v = JObj [(''ok'', JBool False), (''data'', JNull)]"
  | "v = JObj [(''ok'', JBool True), (''data'', JObj [(''stub'', JBool True), (''tool'', JStr tool), (''params'', JObj [(''days'', JInt days)])])]"
proof (cases "gateway_call cget cset (google_gateway ge) i tool (JObj [(''days'', JInt days)]) w")
  case None
  then show ?thesis using assms(1) by (simp add: google_section_def)
next
  case (Some p)
  obtain x w1 where p: "p = (x, w1)" by (rule prod.exhaust)
  from assms(1) Some p obtain r where r: "x = Inr r" "v = safe_section r"
    by (cases x) (auto simp: google_section_def)
  note call = Some[unfolded p r(1)]
  show ?thesis
  proof (cases "mr_ok r")
    case True
    then show ?thesis using that(2) stub_call_data[OF call _ assms(2)] r(2) by (simp add: safe_section_def or_else_def)
  next
    case False
    then show ?thesis using that(1) failed_call_no_data[OF call] r(2) by (simp add: safe_section_def)
  qed
qed

definition calendar_answered :: "data_snapshot \<Rightarrow> bool" where
  "calendar_answered snap \<longleftrightarrow> andthen (jget (snap_metrics snap) ''calendar'') (\<lambda>c. jget c ''ok'') = Inr (JBool True)"

text \<open>
  C38. As long as no MCP server is configured, the commitments have nothing to read. Let the newest Google Workspace snapshot the
  query finds be one that \<open>google_sync\<close> stored, and let nothing be cached for the call: then \<open>get_upcoming_commitments\<close>,
  called through its cache, finds none if the calendar's section was answered (it has no \<open>upcoming\<close>), and raises
  \<open>AttributeError\<close> if it was not: the failed section is stored with \<open>data: None\<close>, which the \<open>{}\<close> of
  \<open>get("data", {})\<close> does not replace. (A horizon past the year 9999 raises \<open>OverflowError\<close>, in the first case.)
\<close>

theorem commitments_after_google_sync:
  assumes "google_sync cget cset ge days w = (Inr (Some snap), w')" "ge_mcp_url ge = []"
    and "latest_snapshot [''google_workspace''] (it_snapshots db) = Some snap"
    and "iget (insight_key digest schema ''upcoming_commitments'' arg) (ck_asked ck) c = None"
  shows "fst (call_insight iget iset digest schema Get_upcoming_commitments arg db ck c)
    = (if calendar_answered snap
       then (case horizon_of (ck_computed ck) (days_or arg 7) of Inl e \<Rightarrow> Inl (Other_exception e) | Inr _ \<Rightarrow> Inr (Commitments []))
       else Inl (Other_exception AttributeError))"
proof -
  obtain email calendar drive i w1 w2 where m: "snap_metrics snap = JObj [(''email'', email), (''calendar'', calendar), (''drive'', drive)]"
    and c: "google_section cget cset ge i days ''calendar.events.list'' w1 = (Inr calendar, w2)"
    using assms(1) unfolding google_sync_def run_snapshot_def Let_def
    by (auto simp: chain_def ret_def split: option.splits prod.splits sum.splits)
  have "get_upcoming_commitments (days_or arg 7) db (ck_computed ck)
    = (if calendar_answered snap
       then (case horizon_of (ck_computed ck) (days_or arg 7) of Inl e \<Rightarrow> Inl (Other_exception e) | Inr _ \<Rightarrow> Inr [])
       else Inl (Other_exception AttributeError))"
    by (rule google_section_Inr[OF c assms(2)])
      (simp_all add: get_upcoming_commitments_def assms(3) raising_def commitments_of_def m calendar_answered_def
        get_or_def jget_or_def or_else_def dict_get_def get_default_def map_filter_simps andthen_def split: sum.split)
  then show ?thesis using assms(4)
    by (simp add: call_insight_def cache_policy_def compute_insight_def as_insight_def Let_def split: sum.split)
qed

text \<open>An integration without a credential: no call is answered, and the sync succeeds.\<close>

definition unconnected_google :: "(rat, (string, nat) ttl_cache) gw_world snap_world" where
  "unconnected_google =
     \<lparr>integrations = [\<lparr>integration_id = 7, integration_provider = ''google_workspace'', is_active = True, last_sync_at = None, meta = JNull\<rparr>],
      snapshots = [], service = \<lparr>gw_service = 0, gw_cache = Map.empty, gw_credentials = [], gw_calls = []\<rparr>,
      until_insert = (\<lambda>_. 1), insert_time = (\<lambda>_. 2)\<rparr>"

lemma sample_google_now: "google_now sample_google s = s"
  by (simp add: google_now_def sample_google_def sample_gw_simps)

lemma unconnected_section:
  fixes w :: "(rat, (string, nat) ttl_cache) gw_world"
  assumes "integration_provider i = ''google_workspace''" "gw_credentials w = []"
    "window_count ttl_get (integration_id i) (gw_service w) (gw_cache w) < 60"
  shows "\<exists>c. google_section ttl_get ttl_set sample_google i days tool w
    = (Inr (JObj [(''ok'', JBool False), (''data'', JNull)]), w\<lparr>gw_cache := c\<rparr>)
    \<and> window_count ttl_get (integration_id i) (gw_service w) c = window_count ttl_get (integration_id i) (gw_service w) (gw_cache w) + 1"
  using assms
  by (auto simp: google_section_def gateway_call_def google_gateway_def sample_google_def sample_gw_simps enforce_rate_limit_def
      rate_limit_per_minute_def or_else_def lookup_def safe_section_def window_count_def ttl_defs Let_def)

lemma commitments_after_google_sync_witness:
  "\<exists>snap w'. google_sync ttl_get ttl_set sample_google 7 unconnected_google = (Inr (Some snap), w')
     \<and> fst (call_insight ttl_get ttl_set digest_of ''acme'' Get_upcoming_commitments None
          \<lparr>it_snapshots = snapshots w', it_kpis = []\<rparr> (clock_from 100) Map.empty) = Inl (Other_exception AttributeError)"
proof -
  let ?i = "\<lparr>integration_id = 7, integration_provider = ''google_workspace'', is_active = True, last_sync_at = None, meta = JNull\<rparr> :: integration"
  let ?w = "\<lambda>c. \<lparr>gw_service = 0, gw_cache = c, gw_credentials = [], gw_calls = []\<rparr> :: (rat, (string, nat) ttl_cache) gw_world"
  let ?gone = "JObj [(''ok'', JBool False), (''data'', JNull)]"
  have step: "\<exists>c'. google_section ttl_get ttl_set sample_google ?i 7 tool (?w c) = (Inr ?gone, ?w c')
      \<and> window_count ttl_get 7 0 c' = window_count ttl_get 7 0 c + 1" if "window_count ttl_get 7 0 c < 60" for c tool
    using unconnected_section[of ?i "?w c" 7 tool] that by auto
  have "window_count ttl_get 7 0 (Map.empty :: (string, nat) ttl_cache) = 0" by (simp add: window_count_def ttl_get_def)
  then obtain c1 where c1: "google_section ttl_get ttl_set sample_google ?i 7 ''gmail.messages.list'' (?w Map.empty) = (Inr ?gone, ?w c1)"
    "window_count ttl_get 7 0 c1 = 1" using step[of Map.empty "''gmail.messages.list''"] by auto
  then obtain c2 where c2: "google_section ttl_get ttl_set sample_google ?i 7 ''calendar.events.list'' (?w c1) = (Inr ?gone, ?w c2)"
    "window_count ttl_get 7 0 c2 = 2" using step[of c1 "''calendar.events.list''"] by (auto simp: numeral_2_eq_2)
  then obtain c3 where c3: "google_section ttl_get ttl_set sample_google ?i 7 ''drive.files.recent'' (?w c2) = (Inr ?gone, ?w c3)"
    using step[of c2 "''drive.files.recent''"] by auto
  obtain snap w' where sync: "google_sync ttl_get ttl_set sample_google 7 unconnected_google = (Inr (Some snap), w')"
    and snap: "snapshots w' = [snap]" "snap_source snap = ''google_workspace''"
      "snap_metrics snap = JObj [(''email'', ?gone), (''calendar'', ?gone), (''drive'', ?gone)]"
    by (simp add: google_sync_def run_snapshot_def unconnected_google_def active_integration_def sample_google_now
        day_of_def minus_days_def chain_def ret_def Let_def c1(1) c2(1) c3)
  have "fst (call_insight ttl_get ttl_set digest_of ''acme'' Get_upcoming_commitments None
          \<lparr>it_snapshots = snapshots w', it_kpis = []\<rparr> (clock_from 100) Map.empty)
      = (if calendar_answered snap
         then (case horizon_of (ck_computed (clock_from 100)) (days_or None 7) of Inl e \<Rightarrow> Inl (Other_exception e) | Inr _ \<Rightarrow> Inr (Commitments []))
         else Inl (Other_exception AttributeError))"
    by (rule commitments_after_google_sync[OF sync]) (simp_all add: sample_google_def latest_snapshot_def snap ttl_get_def)
  then show ?thesis using sync snap(3) by (auto simp: calendar_answered_def or_else_def dict_get_def get_default_def)
qed

text \<open>Five days with a spike on the last.\<close>

definition mail_day :: "int \<Rightarrow> int \<Rightarrow> data_snapshot" where
  "mail_day day n = \<lparr>snap_id = 0, snap_source = ''google_workspace'', snap_period_start = day - 1, snap_period_end = day,
     snap_metrics = JObj [(''email'', JObj [(''data'', JObj [(''count'', JInt n)])])], snap_created_at = of_int (86400 * day)\<rparr>"

definition spike_tables :: insight_tables where
  "spike_tables = \<lparr>it_snapshots = [mail_day 11 0, mail_day 12 0, mail_day 13 0, mail_day 14 0, mail_day 15 10], it_kpis = []\<rparr>"

lemma mail_day_simps:
  "metric_of (Some (mail_day d n)) ''email'' ''count'' = Inr n" "snap_source (mail_day d n) = ''google_workspace''"
  "snap_period_end (mail_day d n) = d"
  by (simp_all add: metric_of_def mail_day_def section_data_def get_or_def int_default_def jget_or_def or_else_def dict_get_def get_default_def)

lemma spike_stats: "mean_of [0, 0, 0, 0, 10] = 2" "stdev_of [0, 0, 0, 0, 10] = 4"
proof -
  show mean: "mean_of [0, 0, 0, 0, 10] = 2" by (simp add: mean_of_def)
  have "variance_of [0, 0, 0, 0, 10] = 16" by (simp add: variance_of_def mean)
  moreover have "sqrt (16 :: real) = 4" using real_sqrt_abs[of 4] by simp
  ultimately show "stdev_of [0, 0, 0, 0, 10] = 4" by (simp add: stdev_of_def Let_def)
qed

lemma spike_found:
  "\<exists>a. get_recent_anomalies 14 spike_tables (86400 * 20) = Inr [a] \<and> direction a = ''spike'' \<and> an_observed a = 10 \<and> observed_at a = 15"
  by (simp add: get_recent_anomalies_def day_of_def minus_days_def spike_tables_def mail_day_simps anomaly_of_def spike_stats
      map_filter_simps)

lemma anomalies_at_most_quarter_witness:
  "\<exists>a. get_recent_anomalies 14 spike_tables (86400 * 20) = Inr [a] \<and> direction a = ''spike'' \<and> an_observed a = 10
     \<and> 4 * length [a] \<le> length (it_snapshots spike_tables)"
proof -
  obtain a where a: "get_recent_anomalies 14 spike_tables (86400 * 20) = Inr [a]" "direction a = ''spike''" "an_observed a = 10"
    using spike_found by blast
  have cutoff: "minus_days (day_of (86400 * 20)) 14 = Inr 6" by (simp add: minus_days_def day_of_def)
  show ?thesis using a anomalies_at_most_quarter[OF a(1) cutoff] by (auto simp: spike_tables_def mail_day_simps)
qed

end
