(* ===== verification/Spec2Isabelle.thy ===== *)
theory Spec2Isabelle
  imports RateLimit Retry PipedriveMirror SlackMirror FapiMirror MerkEnrich SyncTasks Masking LlmAccounting Orchestrator Chunker Embedding Knowledge KnowledgeIndex KnowledgeTasks IsoFormat UrlEncode McpGateway OauthFlows ApiClient OauthClients KeyClients ClientPaging McpClients GoogleWorkspace GoogleSync Integrations Access ConnectViews KeySetup Insights
begin

text \<open>
  Sentinex: a verification development for the Python/Django program in this repository.

  \<^bold>\<open>The program.\<close> Sentinex is a multi-tenant service that pulls a company's data out of some twenty
  business tools, keeps it in per-tenant tables, and answers the owner's questions about it with
  language model agents. Its parts, and how they call each other:

  \<^item> \<open>apps/connectors/<name>\<close>: one package per tool. \<open>ingest.py\<close> mirrors the records of Pipedrive, Slack
    and FAPI row by row, on the framework of \<open>apps/connectors/_framework\<close> (rate limiting, retry, the
    run of a sync, cursors); \<open>sync.py\<close> of every connector stores one aggregated \<open>DataSnapshot\<close> per run,
    driven by the Celery tasks of \<open>tasks.py\<close>; \<open>merk\<close> enriches companies by their number; \<open>views.py\<close>, \<open>oauth.py\<close>,
    \<open>client.py\<close> and \<open>integration.py\<close> connect a tool to a tenant and call it.
  \<^item> \<open>apps/identity\<close>: the registry of persons and organizations. Every mirrored record that names one
    is resolved against it, through \<open>_framework/identity_hook.py\<close>.
  \<^item> \<open>apps/core\<close>: tenants, memberships, invitations, and the middleware and decorators in front of every view.
  \<^item> \<open>apps/data_access\<close>: the tables shared by the connectors, the gateway all tool calls pass (\<open>mcp/\<close>: rate limit,
    credentials, audit), the Google Workspace integrations, the knowledge base (\<open>knowledge/\<close>: documents are cut into
    chunks, embedded, indexed and searched) and the insight functions, which read the snapshots.
  \<^item> \<open>apps/agents\<close>: guardrails (masking, budget, injection), the LLM gateway (cache, tool loop, usage
    rows), the specialists and the orchestrator that runs a query through them.

  \<^bold>\<open>The theories\<close>, from the bottom up. The files named are under \<open>src/apps/\<close>.

  \<^item> \<open>Prelude\<close>: lists, options, slices, Python strings, rounding. \<open>PyValues\<close>: decoded JSON and what the
    code does to it (truth, \<open>or\<close>, \<open>get\<close>, \<open>int\<close>, iteration), an exception being a branch of the result.
    \<open>Calls\<close>: functions that change a state and may raise. \<open>TtlCache\<close>: the laws the code needs of the
    Django cache, a locale interpreted on an association list. \<open>Tables\<close>: tables with a unique key and
    \<open>update_or_create\<close>, a locale whose contract is the map from keys to rows. \<open>IsoTime\<close>:
    \<open>datetime.fromisoformat\<close>. \<open>Difflib\<close>: \<open>SequenceMatcher.ratio\<close>. \<open>Matcher\<close>: backtracking regular
    expressions.
  \<^item> \<open>RateLimit\<close> (\<open>connectors/_framework/rate_limit.py\<close>): the token bucket on the cache.
    \<open>Retry\<close> (\<open>retry.py\<close>). \<open>BaseSync\<close> (\<open>base_sync.py\<close>, \<open>models.py\<close>): one run of an ingest, with the
    locales \<open>ingest_contract\<close> and \<open>replica_contract\<close> that say what a subclass has to provide and what
    every run of it then guarantees; all ten ingests are interpretations.
  \<^item> \<open>Identity\<close> (\<open>identity/models.py\<close>, \<open>services.py\<close>), \<open>IdentityResolver\<close>: the resolver and its
    refinement of an abstract directory.
  \<^item> \<open>Connector\<close>, \<open>PipedriveClient\<close>, \<open>PipedriveIngest\<close>, \<open>PipedriveMirror\<close>; \<open>SlackIngest\<close>,
    \<open>SlackMirror\<close>; \<open>FapiIngest\<close>, \<open>FapiMirror\<close>: clients, ingests, and what the mirrors guarantee.
  \<^item> \<open>MerkEnrich\<close> (\<open>connectors/merk\<close>).
  \<^item> \<open>Snapshot\<close>, \<open>CrmSync\<close>, \<open>WorkSync\<close>, \<open>MarketingSync\<close>, \<open>OfficeSync\<close>: \<open>run_sync\<close> of sixteen
    connectors; \<open>SyncTasks\<close>: the tasks around them, with the locales \<open>snapshot_sync\<close> and
    \<open>checked_sync\<close>; \<open>PipelineVelocity\<close> (\<open>insight_functions/sales.py\<close>): the reader of the CRM snapshots.
  \<^item> \<open>Guardrails\<close>, \<open>Masking\<close> (\<open>agents/guardrails.py\<close>); \<open>LlmGateway\<close>, \<open>LlmAccounting\<close>
    (\<open>agents/llm_gateway.py\<close>, \<open>pricing.py\<close>); \<open>Specialists\<close>, \<open>Orchestrator\<close> (\<open>agents/base.py\<close>,
    \<open>specialists/\<close>, \<open>tasks.py\<close>, \<open>orchestrator.py\<close>).

  \<^item> \<open>Chunker\<close> (\<open>data_access/knowledge/chunker.py\<close>), \<open>Embedding\<close> (\<open>agents/embedding_gateway.py\<close>, \<open>knowledge/embedder.py\<close>),
    \<open>Knowledge\<close>, \<open>KnowledgeIndex\<close> (\<open>indexer.py\<close>, \<open>search.py\<close>), \<open>KnowledgeTasks\<close> (\<open>tasks.py\<close>): the index stays consistent with
    the documents, whatever is ingested and in which order; a search returns the nearest of the chunks the database visits.
  \<^item> \<open>Insights\<close> (\<open>data_access/insight_functions\<close>, \<open>core/cache.py\<close>, the cards of \<open>data_access/views.py\<close>): what each function
    computes from the snapshots and KPIs, and whose data, of which age, its cache answers with.
  \<^item> \<open>IsoFormat\<close> (\<open>datetime.isoformat\<close>), \<open>UrlEncode\<close> (\<open>urlencode\<close>, base64, UTF-8, with reference decoders); \<open>McpGateway\<close>
    (\<open>data_access/mcp/gateway.py\<close>, the credentials of \<open>models.py\<close>); \<open>OauthFlows\<close> (thirteen \<open>oauth.py\<close>); \<open>ApiClient\<close>, the
    client the connectors share, with the relations that say what a call leaves of the stored tokens; \<open>OauthClients\<close>,
    \<open>KeyClients\<close> (the \<open>client.py\<close> and \<open>integration.py\<close> of each connector), \<open>ClientPaging\<close> (their paging loops), \<open>McpClients\<close>
    (Canva, Notion, Dropbox); \<open>GoogleWorkspace\<close>, \<open>GoogleSync\<close> (both Google integrations, the delegation module, their syncs
    and tasks); \<open>Integrations\<close> (Slack's and Pipedrive's tools, \<open>mcp/registry.py\<close>, and what holds of all twenty-one).
  \<^item> \<open>Access\<close> (\<open>core/middleware.py\<close>, \<open>models.py\<close>, \<open>views.py\<close>): requests, the middleware, the guards, invitations;
    \<open>ConnectViews\<close> (the OAuth \<open>views.py\<close>) and \<open>KeySetup\<close> (\<open>connectors/_setup.py\<close>, the setup forms, \<open>data_access/views.py\<close>): the
    pages that connect an integration, the runs of a site over them, who may use them and what they store.

  \<^bold>\<open>State and effects.\<close> A model or dataclass is a \<open>record\<close>, a table the list of its rows in database
  order, a component's state a record of tables, cache and clocks. A function that reads or changes
  state takes it and returns it; an exception is \<open>Inl\<close>. A service outside the repository (an HTTP API,
  the Anthropic SDK, SHA-256, \<open>json.loads\<close>, pydantic) is an argument: a function on an opaque state, so
  that every answer, refusal or change of mind of the service is covered. A row the database may refuse
  is a parameter too.

  \<^bold>\<open>Loops.\<close> Loops over lists are structural. \<open>acquire_loop\<close> has fuel, and \<open>acquire_returns\<close>
  gives an amount that is enough; \<open>retry_loop\<close> ends by a measure; the paging loops have fuel, and the
  completeness theorems hold for any fuel above the number of pages (1001 rounds for HubSpot's contacts and 2001 for its
  deals, one more than the number of campaigns for SmartEmailing's; Pipedrive's tools and Google's directory take any fuel,
  and a call that has not returned is \<open>None\<close>); the tool loop is bounded by
  \<open>max_iterations\<close>; a regular expression is run by structural recursion on the pattern with the length of
  the text as bound of a star.

  \<^bold>\<open>Idealisations.\<close> Floats are exact rationals (\<open>round\<close> is half to even, as Python's), so nothing is
  said about the last binary digit. Texts are the code points below 256. Timestamps are rational
  seconds, dates day numbers. An HTTP error carries its status only; the URL that httpx writes into its text is left out. Celery tasks and groups run one after the other, in order; transactions
  are the atomic steps they are in the code, and races between workers are not modelled.

  \<^bold>\<open>What is not modelled\<close>, and why: templates, URL tables, admin classes and command-line wrappers (declarations Django
  interprets, or a print around a modelled function); migrations, settings and deployment (the settings the code reads
  are parameters); the message bus, ClickHouse, Langfuse, Graphiti and Neo4j wrappers (calls passed on to services whose
  meaning is theirs); the LangGraph agents (graphs that LangGraph's runtime executes); the document extractors (Google's
  client libraries and pypdf on byte streams). Feature flags and addons, the chat views, the weekly brief, and the agents' memory
  are left out as well: they sit on top of the modelled parts, which do not call them. The tool functions of \<open>agents/tools.py\<close> are a parameter of the agents. The manifest lists each of them.
\<close>

end
